(* ===== verification/Prelude.thy ===== *)
theory Prelude
  imports Complex_Main
begin

text \<open>
  Shared vocabulary of the development: JavaScript strings as lists of UTF-16 code units,
  JavaScript \<open>Map\<close> objects as insertion-ordered association lists, the falsy-value idioms the
  sources use, and the contracts (locales) the services of the server share:
  \<^item> \<open>js_map\<close>: what a client of a \<open>Map\<close> may rely on;
  \<^item> \<open>inv_system\<close>: a service whose operations all keep an invariant;
  \<^item> \<open>room_isolated\<close>: a service keyed by room id, every operation of which acts on one room;
  \<^item> \<open>cooldown_gate\<close>: an action that refuses to fire again within a period.
\<close>

named_theorems js_simps \<open>evaluation of JavaScript library operations\<close>

section \<open>Strings\<close>

text \<open>A JavaScript string is the list of its UTF-16 code units.\<close>

type_synonym jstr = "int list"

definition js :: "string \<Rightarrow> jstr" where
  "js s = map of_char s"

fun nat_digits :: "nat \<Rightarrow> jstr" where
  "nat_digits n = (if n < 10 then [48 + int n] else nat_digits (n div 10) @ [48 + int (n mod 10)])"

declare nat_digits.simps [simp del]

text \<open>\<open>String(n)\<close> for an integer \<open>n\<close>.\<close>

definition jint :: "int \<Rightarrow> jstr" where
  "jint i = (if i < 0 then 45 # nat_digits (nat (- i)) else nat_digits (nat i))"

text \<open>\<open>s.startsWith(p)\<close> and \<open>s.includes(p)\<close>.\<close>

fun starts_with :: "jstr \<Rightarrow> jstr \<Rightarrow> bool" where
  "starts_with [] s = True"
| "starts_with (p # ps) [] = False"
| "starts_with (p # ps) (c # s) = (p = c \<and> starts_with ps s)"

fun str_includes :: "jstr \<Rightarrow> jstr \<Rightarrow> bool" where
  "str_includes p [] = (p = [])"
| "str_includes p (c # s) = (starts_with p (c # s) \<or> str_includes p s)"

lemma starts_with_iff: "starts_with p s \<longleftrightarrow> (\<exists>t. s = p @ t)"
  by (induction p s rule: starts_with.induct) auto

lemma str_includes_iff: "str_includes p s \<longleftrightarrow> (\<exists>a b. s = a @ p @ b)"
proof (induction s)
  case Nil
  then show ?case by auto
next
  case (Cons c s)
  have "(\<exists>a b. c # s = a @ p @ b) \<longleftrightarrow>
      (\<exists>b. c # s = p @ b) \<or> (\<exists>a b. s = a @ p @ b)"
    by (metis append_Cons append_Nil list.exhaust list.inject)
  with Cons show ?case by (simp add: starts_with_iff)
qed

lemma split_at_first:
  "a @ x # b = a' @ x # b' \<Longrightarrow> x \<notin> set a \<Longrightarrow> x \<notin> set a' \<Longrightarrow> a = a' \<and> b = b'"
  by (induction a arbitrary: a') (auto simp: Cons_eq_append_conv append_eq_Cons_conv)

text \<open>\<open>String.prototype.trim\<close>: the white space and line terminators of ECMAScript.\<close>

definition is_space :: "int \<Rightarrow> bool" where
  "is_space c \<longleftrightarrow> c \<in> {9, 10, 11, 12, 13, 32, 160, 5760, 8232, 8233, 8239, 8287, 12288, 65279}
      \<or> (8192 \<le> c \<and> c \<le> 8202)"

definition trim :: "jstr \<Rightarrow> jstr" where
  "trim s = rev (dropWhile is_space (rev (dropWhile is_space s)))"

lemma length_trim_le: "length (trim s) \<le> length s"
  unfolding trim_def by (metis length_dropWhile_le length_rev order_trans)

lemma trim_idem: "trim (trim s) = trim s"
proof -
  have h: "dropWhile is_space (rev (dropWhile is_space (rev t))) = rev (dropWhile is_space (rev t))"
    if "dropWhile is_space t = t" for t
  proof (cases "rev (dropWhile is_space (rev t))")
    case Nil
    then show ?thesis by (simp only: dropWhile.simps)
  next
    case (Cons a as)
    obtain zs where "rev t = zs @ dropWhile is_space (rev t)"
      by (metis takeWhile_dropWhile_id)
    then have "t = rev (dropWhile is_space (rev t)) @ rev zs"
      by (metis rev_append rev_rev_ident)
    with Cons have "t = a # as @ rev zs" by simp
    with that have "\<not> is_space a"
      by (metis dropWhile_eq_Cons_conv)
    with Cons show ?thesis by simp
  qed
  show ?thesis
    unfolding trim_def by (simp add: h dropWhile_idem)
qed

text \<open>
  \<open>parseInt(s, 10)\<close>: leading space, a sign, then as many decimal digits as there are; None stands
  for NaN.
\<close>

definition digits_value :: "jstr \<Rightarrow> int" where
  "digits_value ds = foldl (\<lambda>n d. 10 * n + (d - 48)) 0 ds"

definition parseIntDigits :: "jstr \<Rightarrow> int option" where
  "parseIntDigits s = (let ds = takeWhile (\<lambda>c. 48 \<le> c \<and> c \<le> 57) s in if ds = [] then None else Some (digits_value ds))"

definition parseInt10 :: "jstr \<Rightarrow> int option" where
  "parseInt10 s = (case dropWhile is_space s of
      [] \<Rightarrow> None
    | c # cs \<Rightarrow> (if c = 45 then map_option uminus (parseIntDigits cs)
                 else if c = 43 then parseIntDigits cs
                 else parseIntDigits (c # cs)))"

text \<open>
  \<open>toLowerCase\<close> on the letters A to Z; the texts the sources search for after lowering contain
  no other cased letter.
\<close>

definition to_lower :: "jstr \<Rightarrow> jstr" where
  "to_lower s = map (\<lambda>c. if 65 \<le> c \<and> c \<le> 90 then c + 32 else c) s"

fun join :: "jstr \<Rightarrow> jstr list \<Rightarrow> jstr" where
  "join sep [] = []"
| "join sep [x] = x"
| "join sep (x # y # xs) = x @ sep @ join sep (y # xs)"

text \<open>
  \<open>s.match(/{[^]*}/)\<close>, the idiom for the JSON part of a model's answer: from the first opening
  brace to the last closing brace after it.
\<close>

definition jsonMatch :: "jstr \<Rightarrow> jstr option" where
  "jsonMatch s =
     (let t = dropWhile (\<lambda>c. c \<noteq> 123) s; u = rev (dropWhile (\<lambda>c. c \<noteq> 125) (rev t))
      in if u = [] then None else Some u)"

lemma jsonMatch_part:
  assumes "jsonMatch s = Some u"
  shows "\<exists>a b. s = a @ u @ b" and "hd u = 123" and "last u = 125"
proof -
  let ?t = "dropWhile (\<lambda>c. c \<noteq> 123) s"
  have u: "u = rev (dropWhile (\<lambda>c. c \<noteq> 125) (rev ?t))" "u \<noteq> []"
    using assms by (auto simp: jsonMatch_def Let_def split: if_splits)
  define a where "a = takeWhile (\<lambda>c. c \<noteq> 123) s"
  define b where "b = rev (takeWhile (\<lambda>c. c \<noteq> 125) (rev ?t))"
  have "rev (rev ?t) = rev (takeWhile (\<lambda>c. c \<noteq> 125) (rev ?t) @ dropWhile (\<lambda>c. c \<noteq> 125) (rev ?t))"
    by (simp only: takeWhile_dropWhile_id)
  then have t: "?t = u @ b"
    by (simp only: u(1) b_def rev_append rev_rev_ident)
  have "s = a @ ?t" by (simp add: a_def)
  then have "s = a @ u @ b" by (simp only: t)
  then show "\<exists>a b. s = a @ u @ b" by blast
  have "?t \<noteq> []" using t u(2) by simp
  then have "hd ?t = 123" using hd_dropWhile [of "\<lambda>c. c \<noteq> 123" s] by blast
  with t u(2) show "hd u = 123" by simp
  have "dropWhile (\<lambda>c. c \<noteq> 125) (rev ?t) \<noteq> []" using u by (metis rev.simps(1))
  then have "hd (dropWhile (\<lambda>c. c \<noteq> 125) (rev ?t)) = 125"
    using hd_dropWhile [of "\<lambda>c. c \<noteq> 125" "rev ?t"] by blast
  with u show "last u = 125" by (simp only: last_rev)
qed

text \<open>\<open>xs.slice(-n)\<close> for \<open>n > 0\<close>.\<close>

definition lastN :: "nat \<Rightarrow> 'a list \<Rightarrow> 'a list" where
  "lastN n xs = drop (length xs - n) xs"

lemma length_lastN [simp]: "length (lastN n xs) = min n (length xs)"
  by (simp add: lastN_def)

lemma lastN_snoc:
  "0 < n \<Longrightarrow> lastN n (xs @ [x]) = (let ys = lastN n xs @ [x] in if length ys > n then tl ys else ys)"
  by (auto simp: lastN_def Let_def tl_drop not_less Suc_diff_le simp flip: drop_Suc)

text \<open>\<open>Math.round\<close>: to the nearest integer, halves upwards.\<close>

definition js_round :: "rat \<Rightarrow> int" where
  "js_round x = \<lfloor>x + 1 / 2\<rfloor>"

lemma js_round_mono: "x \<le> y \<Longrightarrow> js_round x \<le> js_round y"
  by (simp add: js_round_def floor_mono)

lemma js_round_of_int [simp]: "js_round (of_int i) = i"
  by (simp add: js_round_def) linarith

lemma js_round_numeral [simp]: "js_round 0 = 0" "js_round 1 = 1" "js_round (numeral n) = numeral n"
  using js_round_of_int [of 0] js_round_of_int [of 1] js_round_of_int [of "numeral n"] by simp_all

text \<open>\<open>xs[Math.floor(Math.random() * xs.length)]\<close>; outside the range it would be \<open>undefined\<close>.\<close>

definition pickIndex :: "rat \<Rightarrow> nat \<Rightarrow> int" where
  "pickIndex rnd n = \<lfloor>rnd * of_nat n\<rfloor>"

definition pick :: "rat \<Rightarrow> jstr list \<Rightarrow> jstr" where
  "pick rnd xs = (let i = pickIndex rnd (length xs)
     in if 0 \<le> i \<and> i < int (length xs) then xs ! nat i else js ''undefined'')"

lemma pick_in_range:
  assumes "0 \<le> rnd" and "rnd < 1" and "xs \<noteq> []"
  shows "pick rnd xs \<in> set xs"
proof -
  have p: "0 < (of_nat (length xs) :: rat)" using assms(3) by simp
  have "rnd * of_nat (length xs) < of_nat (length xs)"
    using assms(2) p by (metis mult.left_neutral mult_less_cancel_right_pos)
  then have "\<lfloor>rnd * of_nat (length xs)\<rfloor> < int (length xs)"
    by (simp add: floor_less_iff)
  moreover have "0 \<le> \<lfloor>rnd * of_nat (length xs)\<rfloor>" using assms(1) p by simp
  ultimately show ?thesis by (auto simp: pick_def pickIndex_def Let_def nat_less_iff intro!: nth_mem)
qed

section \<open>Falsy values\<close>

text \<open>\<open>x || d\<close> for an optional number and for an optional string.\<close>

definition num_or :: "int option \<Rightarrow> int \<Rightarrow> int" where
  "num_or x d = (case x of None \<Rightarrow> d | Some v \<Rightarrow> (if v = 0 then d else v))"

definition str_or :: "jstr option \<Rightarrow> jstr \<Rightarrow> jstr" where
  "str_or x d = (case x of None \<Rightarrow> d | Some v \<Rightarrow> (if v = [] then d else v))"

definition truthy_str :: "jstr option \<Rightarrow> bool" where
  "truthy_str x = (case x of None \<Rightarrow> False | Some v \<Rightarrow> v \<noteq> [])"

definition truthy_num :: "int option \<Rightarrow> bool" where
  "truthy_num x = (case x of None \<Rightarrow> False | Some v \<Rightarrow> v \<noteq> 0)"

lemmas falsy_defs [js_simps] = num_or_def str_or_def truthy_str_def truthy_num_def

section \<open>JavaScript maps\<close>

text \<open>
  A \<open>Map\<close> iterates in insertion order; setting an existing key keeps its place. The
  association list holds the entries in that order, with distinct keys.
\<close>

type_synonym ('k, 'v) jmap = "('k \<times> 'v) list"

fun jset :: "'k \<Rightarrow> 'v \<Rightarrow> ('k, 'v) jmap \<Rightarrow> ('k, 'v) jmap" where
  "jset k v [] = [(k, v)]"
| "jset k v (e # m) = (if fst e = k then (k, v) # m else e # jset k v m)"

definition jdel :: "'k \<Rightarrow> ('k, 'v) jmap \<Rightarrow> ('k, 'v) jmap" where
  "jdel k m = filter (\<lambda>e. fst e \<noteq> k) m"

definition jhas :: "('k, 'v) jmap \<Rightarrow> 'k \<Rightarrow> bool" where
  "jhas m k = (map_of m k \<noteq> None)"

abbreviation jget :: "('k, 'v) jmap \<Rightarrow> 'k \<Rightarrow> 'v option" where
  "jget \<equiv> map_of"

definition jkeys :: "('k, 'v) jmap \<Rightarrow> 'k list" where
  "jkeys m = map fst m"

definition jvals :: "('k, 'v) jmap \<Rightarrow> 'v list" where
  "jvals m = map snd m"

definition jwf :: "('k, 'v) jmap \<Rightarrow> bool" where
  "jwf m = distinct (map fst m)"

locale js_map =
  fixes get :: "'m \<Rightarrow> 'k \<Rightarrow> 'v option"
    and put :: "'k \<Rightarrow> 'v \<Rightarrow> 'm \<Rightarrow> 'm"
    and del :: "'k \<Rightarrow> 'm \<Rightarrow> 'm"
    and keys :: "'m \<Rightarrow> 'k list"
    and vals :: "'m \<Rightarrow> 'v list"
    and wf :: "'m \<Rightarrow> bool"
  assumes get_put: "get (put k v m) k' = (if k' = k then Some v else get m k')"
    and get_del: "get (del k m) k' = (if k' = k then None else get m k')"
    and wf_put: "wf m \<Longrightarrow> wf (put k v m)"
    and wf_del: "wf m \<Longrightarrow> wf (del k m)"
    and wf_keys: "wf m \<Longrightarrow> distinct (keys m)"
    and set_keys: "set (keys m) = {k. get m k \<noteq> None}"
    and keys_put: "keys (put k v m) = (if get m k = None then keys m @ [k] else keys m)"
    and vals_keys: "wf m \<Longrightarrow> vals m = map (\<lambda>k. the (get m k)) (keys m)"
begin

lemma put_same: "get (put k v m) k = Some v"
  by (simp add: get_put)

lemma put_other: "k' \<noteq> k \<Longrightarrow> get (put k v m) k' = get m k'"
  by (simp add: get_put)

lemma put_put: "get (put k v (put k w m)) = get (put k v m)"
  by (rule ext) (simp add: get_put)

lemma put_commute: "j \<noteq> k \<Longrightarrow> get (put j v (put k w m)) = get (put k w (put j v m))"
  by (rule ext) (simp add: get_put)

lemma vals_iff: "wf m \<Longrightarrow> v \<in> set (vals m) \<longleftrightarrow> (\<exists>k. get m k = Some v)"
  by (auto simp: vals_keys set_keys image_iff)

lemma length_vals: "wf m \<Longrightarrow> length (vals m) = card {k. get m k \<noteq> None}"
  using wf_keys [of m] set_keys [of m]
  by (metis distinct_card length_map vals_keys)

lemma put_vals_all:
  assumes "wf m" and "\<forall>w \<in> set (vals m). P w" and "P v"
  shows "\<forall>w \<in> set (vals (put k v m)). P w"
  using assms by (auto simp: vals_iff wf_put get_put split: if_splits)

lemma del_vals_all:
  assumes "wf m" and "\<forall>w \<in> set (vals m). P w"
  shows "\<forall>w \<in> set (vals (del k m)). P w"
  using assms by (auto simp: vals_iff wf_del get_del split: if_splits)

end

lemma map_of_jset: "map_of (jset k v m) k' = (if k' = k then Some v else map_of m k')"
  by (induction m) auto

lemma map_of_jdel: "map_of (jdel k m) k' = (if k' = k then None else map_of m k')"
  by (induction m) (auto simp: jdel_def)

lemma keys_jset: "map fst (jset k v m) = (if map_of m k = None then map fst m @ [k] else map fst m)"
  by (induction m) (auto split: if_splits)

lemma keys_jdel: "map fst (jdel k m) = filter (\<lambda>k'. k' \<noteq> k) (map fst m)"
  by (induction m) (auto simp: jdel_def)

interpretation jm: js_map map_of jset jdel jkeys jvals jwf
proof (unfold_locales, goal_cases)
  case (3 m k v)
  then show ?case
    by (auto simp: jwf_def keys_jset map_of_eq_None_iff)
next
  case (4 m k)
  then show ?case
    by (auto simp: jwf_def keys_jdel)
next
  case (6 m)
  show ?case
    by (auto simp: jkeys_def map_of_eq_None_iff)
next
  case (8 m)
  then show ?case
    by (auto simp: jvals_def jkeys_def jwf_def)
qed (auto simp: map_of_jset map_of_jdel jwf_def jkeys_def keys_jset)

lemma jwf_Nil [simp]: "jwf []"
  by (simp add: jwf_def)

lemmas jmap_simps [simp] = map_of_jset map_of_jdel jm.wf_put jm.wf_del

lemma jhas_jset [simp]: "jhas (jset k v m) k' \<longleftrightarrow> k' = k \<or> jhas m k'"
  by (simp add: jhas_def)

lemma jhas_jdel [simp]: "jhas (jdel k m) k' \<longleftrightarrow> k' \<noteq> k \<and> jhas m k'"
  by (simp add: jhas_def)

section \<open>Services and their invariants\<close>

locale inv_system =
  fixes inv :: "'s \<Rightarrow> bool"
    and step :: "'op \<Rightarrow> 's \<Rightarrow> 's"
  assumes inv_step: "inv s \<Longrightarrow> inv (step op s)"
begin

lemma inv_run: "inv s \<Longrightarrow> inv (fold step ops s)"
  by (induction ops arbitrary: s) (simp_all add: inv_step)

end

section \<open>Services keyed by room\<close>

text \<open>
  Each operation names one room. \<open>view s r\<close> is everything the service shows of room \<open>r\<close>.
  Operations on other rooms do not change the view, and what an operation does to its own
  room depends on that room's view only.
\<close>

locale room_isolated = inv_system inv step
  for inv :: "'s \<Rightarrow> bool" and step :: "'op \<Rightarrow> 's \<Rightarrow> 's" +
  fixes target :: "'op \<Rightarrow> 'r"
    and view :: "'s \<Rightarrow> 'r \<Rightarrow> 'v"
  assumes frame: "inv s \<Longrightarrow> r \<noteq> target op \<Longrightarrow> view (step op s) r = view s r"
    and local: "inv s \<Longrightarrow> inv s' \<Longrightarrow> view s (target op) = view s' (target op) \<Longrightarrow>
      view (step op s) (target op) = view (step op s') (target op)"
begin

lemma run_frame:
  "inv s \<Longrightarrow> r \<notin> target ` set ops \<Longrightarrow> view (fold step ops s) r = view s r"
  by (induction ops arbitrary: s) (auto simp: inv_step frame)

lemma run_views_agree:
  assumes "inv s" and "inv s'" and "view s r = view s' r"
  shows "view (fold step ops s) r = view (fold step (filter (\<lambda>op. target op = r) ops) s') r"
  using assms
proof (induction ops arbitrary: s s')
  case Nil
  then show ?case by simp
next
  case (Cons op ops)
  show ?case
  proof (cases "target op = r")
    case True
    then have "view (step op s) r = view (step op s') r"
      using Cons.prems local by blast
    with True Cons.prems Cons.IH [of "step op s" "step op s'"] show ?thesis
      by (simp add: inv_step)
  next
    case False
    then have "view (step op s) r = view s' r"
      using Cons.prems frame by metis
    with False Cons.prems Cons.IH [of "step op s" s'] show ?thesis
      by (simp add: inv_step)
  qed
qed

lemma noninterference:
  "inv s \<Longrightarrow> view (fold step ops s) r = view (fold step (filter (\<lambda>op. target op = r) ops) s) r"
  by (rule run_views_agree) simp_all

end

section \<open>Cooldowns\<close>

text \<open>
  \<open>fire now e s\<close> runs the guarded action for event \<open>e\<close> at time \<open>now\<close> and says whether it
  fired; \<open>last s\<close> is the recorded time of the last firing.
\<close>

fun spaced :: "int \<Rightarrow> int list \<Rightarrow> bool" where
  "spaced p (x # y # ts) = (x + p \<le> y \<and> spaced p (y # ts))"
| "spaced p ts = True"

lemma spaced_nth_bound:
  "spaced p (x # ts) \<Longrightarrow> i < length ts \<Longrightarrow> x + p * (int i + 1) \<le> ts ! i"
proof (induction ts arbitrary: x i)
  case Nil
  then show ?case by simp
next
  case (Cons y ts)
  show ?case
  proof (cases i)
    case 0
    with Cons.prems show ?thesis by simp
  next
    case (Suc j)
    with Cons.prems Cons.IH [of y j] have "y + p * (int j + 1) \<le> ts ! j" by simp
    with Suc Cons.prems show ?thesis by (simp add: algebra_simps)
  qed
qed

lemma spaced_count:
  assumes "spaced p (x # ts)" and "0 < p" and "\<forall>t \<in> set ts. t \<le> x + w" and "0 \<le> w"
  shows "int (length ts) \<le> w div p"
proof (cases ts)
  case Nil
  with assms show ?thesis by (simp add: pos_imp_zdiv_nonneg_iff)
next
  case (Cons y ys)
  let ?i = "length ts - 1"
  have "x + p * (int ?i + 1) \<le> ts ! ?i"
    by (rule spaced_nth_bound [OF assms(1)]) (simp add: Cons)
  moreover have "ts ! ?i \<le> x + w"
    using assms(3) Cons by (metis diff_less length_greater_0_conv list.discI nth_mem zero_less_one)
  moreover have "int ?i + 1 = int (length ts)" using Cons by simp
  ultimately have "int (length ts) * p \<le> w" by (simp add: mult.commute)
  then have "int (length ts) * p div p \<le> w div p"
    using assms(2) by (intro zdiv_mono1) auto
  with assms(2) show ?thesis by simp
qed

definition after_last :: "int option \<Rightarrow> int list \<Rightarrow> int list" where
  "after_last l ts = (case l of None \<Rightarrow> ts | Some t \<Rightarrow> t # ts)"

lemma spaced_tl: "spaced p (x # ts) \<Longrightarrow> spaced p ts"
  by (cases ts) auto

locale cooldown_gate =
  fixes fire :: "int \<Rightarrow> 'e \<Rightarrow> 's \<Rightarrow> 's \<times> bool"
    and last :: "'s \<Rightarrow> int option"
    and period :: int
  assumes fired: "fire now e s = (s', True) \<Longrightarrow> last s' = Some now"
    and waited: "fire now e s = (s', True) \<Longrightarrow> last s = Some t \<Longrightarrow> t + period \<le> now"
    and refused: "fire now e s = (s', False) \<Longrightarrow> last s' = last s"
begin

fun fire_times :: "'s \<Rightarrow> (int \<times> 'e) list \<Rightarrow> int list" where
  "fire_times s [] = []"
| "fire_times s ((t, e) # evs) =
     (let (s', b) = fire t e s in (if b then t # fire_times s' evs else fire_times s' evs))"

lemma firings_after_last: "spaced period (after_last (last s) (fire_times s evs))"
proof (induction evs arbitrary: s)
  case Nil
  then show ?case by (simp add: after_last_def split: option.splits)
next
  case (Cons ev evs)
  obtain t e where ev: "ev = (t, e)" by (cases ev)
  obtain s' b where f: "fire t e s = (s', b)" by (cases "fire t e s")
  show ?case
  proof (cases b)
    case True
    with f have "last s' = Some t" by (simp add: fired)
    with Cons [of s'] have "spaced period (t # fire_times s' evs)" by (simp add: after_last_def)
    moreover have "t' + period \<le> t" if "last s = Some t'" for t'
      using waited f True that by simp
    ultimately show ?thesis
      using ev f True by (auto simp: after_last_def split: option.splits)
  next
    case False
    with f have "last s' = last s" by (simp add: refused)
    with ev f False Cons [of s'] show ?thesis by simp
  qed
qed

lemma firings_spaced: "spaced period (fire_times s evs)"
  using firings_after_last [of s evs] spaced_tl
  by (auto simp: after_last_def split: option.splits)

lemma firings_bounded:
  assumes "0 < period" and "last s = Some t0" and "\<forall>t \<in> set (fire_times s evs). t \<le> t0 + w" and "0 \<le> w"
  shows "int (length (fire_times s evs)) \<le> w div period"
  using firings_after_last [of s evs] assms by (intro spaced_count) (auto simp: after_last_def)

end

end
