(* ===== verification/MeetingTimer.thy ===== *)
theory MeetingTimer
  imports Prelude
begin

text \<open>
  The meeting timer, \<open>src/mcp/tools/timer.tool.ts\<close>: the in-memory store of timers, the one-second
  intervals that count them down, the notifications they emit and the MCP tool that drives them.
  Minutes and seconds are integers. The event loop is explicit: \<open>live\<close> holds the interval handles
  that have not been cleared, each with the room its callback was created for, so that leaked or
  doubled intervals would show in the model. The callback is written out three times in the
  source (in \<open>startTimer\<close>, \<open>resumeTimer\<close> and \<open>extendTimer\<close>) with the same text; \<open>intervalTick\<close> is it.
\<close>

section \<open>Model\<close>

datatype TimerState = Idle | Running | Paused | Warning | Ended

datatype TimerEvent = EvWarning | EvEnded

record TimerData =
  td_roomId :: jstr
  targetMinutes :: int
  warningMinutes :: int
  remainingSeconds :: int
  timerState :: TimerState
  startedAt :: "int option"
  endTime :: "int option"

record timer_env =
  timerStore :: "(jstr, TimerData) jmap"
  timerIntervals :: "(jstr, nat) jmap"
  live :: "(nat, jstr) jmap"
  next_handle :: nat
  notified :: "(jstr \<times> TimerEvent \<times> TimerData) list"

definition init_env :: timer_env where
  "init_env = \<lparr>timerStore = [], timerIntervals = [], live = [], next_handle = 0, notified = []\<rparr>"

definition stopTimerInterval :: "jstr \<Rightarrow> timer_env \<Rightarrow> timer_env" where
  "stopTimerInterval r s = (case jget (timerIntervals s) r of
      None \<Rightarrow> s
    | Some h \<Rightarrow> s\<lparr>live := jdel h (live s), timerIntervals := jdel r (timerIntervals s)\<rparr>)"

text \<open>\<open>setInterval\<close> with a callback for room \<open>r\<close>, then \<open>timerIntervals.set(r, interval)\<close>.\<close>

definition setRoomInterval :: "jstr \<Rightarrow> timer_env \<Rightarrow> timer_env" where
  "setRoomInterval r s = s\<lparr>live := jset (next_handle s) r (live s),
     timerIntervals := jset r (next_handle s) (timerIntervals s),
     next_handle := Suc (next_handle s)\<rparr>"

definition putTimer :: "jstr \<Rightarrow> TimerData \<Rightarrow> timer_env \<Rightarrow> timer_env" where
  "putTimer r t s = s\<lparr>timerStore := jset r t (timerStore s)\<rparr>"

definition notify :: "jstr \<Rightarrow> TimerEvent \<Rightarrow> TimerData \<Rightarrow> timer_env \<Rightarrow> timer_env" where
  "notify r ev t s = s\<lparr>notified := notified s @ [(r, ev, t)]\<rparr>"

definition counting :: "TimerData \<Rightarrow> bool" where
  "counting t \<longleftrightarrow> timerState t = Running \<or> timerState t = Warning"

definition startTimer :: "int \<Rightarrow> jstr \<Rightarrow> int \<Rightarrow> int \<Rightarrow> timer_env \<Rightarrow> TimerData \<times> timer_env" where
  "startTimer now r target warn s =
     (let s1 = stopTimerInterval r s;
          t = \<lparr>td_roomId = r, targetMinutes = target, warningMinutes = warn,
               remainingSeconds = target * 60, timerState = Running, startedAt = Some now,
               endTime = Some (now + target * 60 * 1000)\<rparr>
      in (t, setRoomInterval r (putTimer r t s1)))"

text \<open>The callback of an interval: one second passes for room \<open>r\<close>.\<close>

definition intervalTick :: "jstr \<Rightarrow> timer_env \<Rightarrow> timer_env" where
  "intervalTick r s = (case jget (timerStore s) r of
      None \<Rightarrow> stopTimerInterval r s
    | Some t \<Rightarrow>
        if \<not> counting t then stopTimerInterval r s
        else
          let t1 = t\<lparr>remainingSeconds := remainingSeconds t - 1\<rparr>;
              threshold = warningMinutes t1 * 60;
              warn = (remainingSeconds t1 = threshold \<and> timerState t1 = Running);
              t2 = (if warn then t1\<lparr>timerState := Warning\<rparr> else t1);
              s2 = (if warn then notify r EvWarning t2 s else s);
              fin = (remainingSeconds t2 \<le> 0);
              t3 = (if fin then t2\<lparr>remainingSeconds := 0, timerState := Ended\<rparr> else t2);
              s3 = (if fin then notify r EvEnded t3 (stopTimerInterval r s2) else s2)
          in putTimer r t3 s3)"

text \<open>The event loop runs the callback of a live handle.\<close>

definition intervalFires :: "nat \<Rightarrow> timer_env \<Rightarrow> timer_env" where
  "intervalFires h s = (case jget (live s) h of None \<Rightarrow> s | Some r \<Rightarrow> intervalTick r s)"

definition pauseTimer :: "jstr \<Rightarrow> timer_env \<Rightarrow> TimerData option \<times> timer_env" where
  "pauseTimer r s = (case jget (timerStore s) r of
      None \<Rightarrow> (None, s)
    | Some t \<Rightarrow>
        let t1 = t\<lparr>timerState := Paused\<rparr>
        in (Some t1, putTimer r t1 (stopTimerInterval r s)))"

definition resumeTimer :: "int \<Rightarrow> jstr \<Rightarrow> timer_env \<Rightarrow> TimerData option \<times> timer_env" where
  "resumeTimer now r s = (case jget (timerStore s) r of
      None \<Rightarrow> (None, s)
    | Some t \<Rightarrow>
        if timerState t \<noteq> Paused then (None, s)
        else
          let t1 = t\<lparr>timerState := Running, endTime := Some (now + remainingSeconds t * 1000)\<rparr>
          in (Some t1, setRoomInterval r (putTimer r t1 s)))"

definition extendTimer :: "int \<Rightarrow> jstr \<Rightarrow> int \<Rightarrow> timer_env \<Rightarrow> TimerData option \<times> timer_env" where
  "extendTimer now r minutes s = (case jget (timerStore s) r of
      None \<Rightarrow> (None, s)
    | Some t \<Rightarrow>
        let t1 = t\<lparr>remainingSeconds := remainingSeconds t + minutes * 60,
                   targetMinutes := targetMinutes t + minutes\<rparr>;
            revive = (timerState t1 = Ended \<or> timerState t1 = Warning);
            t2 = (if revive
                  then t1\<lparr>timerState := Running, endTime := Some (now + remainingSeconds t1 * 1000)\<rparr>
                  else t1);
            s1 = (if revive \<and> \<not> jhas (timerIntervals s) r then setRoomInterval r s else s)
        in (Some t2, putTimer r t2 s1))"

definition stopTimer :: "jstr \<Rightarrow> timer_env \<Rightarrow> TimerData option \<times> timer_env" where
  "stopTimer r s =
     (let t = jget (timerStore s) r; s1 = stopTimerInterval r s
      in (t, s1\<lparr>timerStore := jdel r (timerStore s1)\<rparr>))"

definition getTimerStatus :: "jstr \<Rightarrow> timer_env \<Rightarrow> TimerData option" where
  "getTimerStatus r s = jget (timerStore s) r"

subsection \<open>The MCP tool\<close>

record timer_options =
  opt_action :: "jstr option"
  opt_targetMinutes :: "int option"
  opt_warningMinutes :: "int option"
  opt_minutes :: "int option"

datatype timer_error = RoomIdRequired | UnknownAction "jstr option"

record timer_output =
  out_data :: "TimerData option"
  out_markdown :: jstr

fun stateName :: "TimerState \<Rightarrow> jstr" where
  "stateName Idle = js ''idle''"
| "stateName Running = js ''running''"
| "stateName Paused = js ''paused''"
| "stateName Warning = js ''warning''"
| "stateName Ended = js ''ended''"

definition msgStarted :: "int \<Rightarrow> int \<Rightarrow> jstr" where
  "msgStarted target warn = jint target @
    [48516, 32, 53440, 51060, 47672, 44032, 32, 49884, 51089, 46104, 50632, 49845, 45768, 45796, 46,
      32] @ jint warn @
    [48516, 32, 51204, 50640, 32, 50508, 47548, 51012, 32, 46300, 47540, 44172, 50836, 46]"

definition msgExtended :: "int \<Rightarrow> jstr" where
  "msgExtended minutes = jint minutes @ [48516, 32, 50672, 51109, 46104, 50632, 49845, 45768, 45796, 46]"

definition msgStatus :: "TimerData \<Rightarrow> jstr" where
  "msgStatus t =
     (let mins = remainingSeconds t div 60;
          secs = (if remainingSeconds t < 0 then - ((- remainingSeconds t) mod 60)
                  else remainingSeconds t mod 60)
      in [54788, 51116, 32] @ jint mins @ [48516, 32] @ jint secs @
         [52488, 32, 45224, 50520, 49845, 45768, 45796, 46, 32, 49345, 53468, 58,
           32] @ stateName (timerState t))"

definition msgOr :: "TimerData option \<Rightarrow> jstr \<Rightarrow> jstr \<Rightarrow> jstr" where
  "msgOr r yes no = (case r of None \<Rightarrow> no | Some _ \<Rightarrow> yes)"

definition timerTool_execute ::
  "int \<Rightarrow> jstr option \<Rightarrow> timer_options \<Rightarrow> timer_env \<Rightarrow> (timer_error + timer_output) \<times> timer_env" where
  "timerTool_execute now roomId opts s =
    (if \<not> truthy_str roomId then (Inl RoomIdRequired, s)
     else
       let r = the roomId; act = opt_action opts;
           out = (\<lambda>d m. Inr \<lparr>out_data = d, out_markdown = m\<rparr>)
       in if act = Some (js ''start'') then
            let target = num_or (opt_targetMinutes opts) 30;
                warn = num_or (opt_warningMinutes opts) 5;
                (t, s1) = startTimer now r target warn s
            in (out (Some t) (msgStarted target warn), s1)
          else if act = Some (js ''pause'') then
            let (t, s1) = pauseTimer r s
            in (out t (msgOr t [53440, 51060, 47672, 44032, 32, 51068, 49884, 51221, 51648, 46104,
              50632, 49845, 45768, 45796, 46]
                  [49892, 54665, 32, 51473, 51064, 32, 53440, 51060, 47672, 44032, 32, 50630, 49845,
                    45768, 45796, 46]), s1)
          else if act = Some (js ''resume'') then
            let (t, s1) = resumeTimer now r s
            in (out t (msgOr t [53440, 51060, 47672, 44032, 32, 51116, 44060, 46104, 50632, 49845,
              45768, 45796, 46]
                  [51068, 49884, 51221, 51648, 46108, 32, 53440, 51060, 47672, 44032, 32, 50630, 49845,
                    45768, 45796, 46]), s1)
          else if act = Some (js ''extend'') then
            let minutes = num_or (opt_minutes opts) 10;
                (t, s1) = extendTimer now r minutes s
            in (out t (msgOr t (msgExtended minutes) [53440, 51060, 47672, 44032, 32, 50630, 49845,
              45768, 45796, 46]), s1)
          else if act = Some (js ''stop'') then
            let (t, s1) = stopTimer r s
            in (out t (msgOr t [53440, 51060, 47672, 44032, 32, 51473, 51648, 46104, 50632, 49845,
              45768, 45796, 46]
                  [53440, 51060, 47672, 44032, 32, 50630, 49845, 45768, 45796, 46]), s1)
          else if act = Some (js ''status'') then
            let t = getTimerStatus r s
            in (out t (case t of None \<Rightarrow> [49444, 51221, 46108, 32, 53440, 51060, 47672,
              44032, 32, 50630, 49845, 45768, 45796, 46]
                        | Some td \<Rightarrow> msgStatus td), s)
          else (Inl (UnknownAction act), s))"

lemmas timer_env_defs = stopTimerInterval_def setRoomInterval_def putTimer_def notify_def
lemmas timer_op_defs = startTimer_def pauseTimer_def resumeTimer_def extendTimer_def stopTimer_def
  intervalTick_def

section \<open>The interval discipline\<close>

text \<open>
  A room has an entry in \<open>timerIntervals\<close> exactly while its timer counts down, and the live
  handles are exactly the registered ones: no interval leaks and none runs twice.
\<close>

definition intervals_ok :: "timer_env \<Rightarrow> bool" where
  "intervals_ok s \<longleftrightarrow>
     jwf (timerStore s) \<and> jwf (timerIntervals s) \<and> jwf (live s) \<and>
     (\<forall>h r. jget (live s) h = Some r \<longrightarrow> jget (timerIntervals s) r = Some h \<and> h < next_handle s) \<and>
     (\<forall>h r. jget (timerIntervals s) r = Some h \<longrightarrow> jget (live s) h = Some r)"

definition counting_ok :: "timer_env \<Rightarrow> bool" where
  "counting_ok s \<longleftrightarrow>
     (\<forall>r. jhas (timerIntervals s) r \<longleftrightarrow> (\<exists>t. jget (timerStore s) r = Some t \<and> counting t)) \<and>
     (\<forall>r t. jget (timerStore s) r = Some t \<longrightarrow> td_roomId t = r)"

definition timer_inv :: "timer_env \<Rightarrow> bool" where
  "timer_inv s \<longleftrightarrow> intervals_ok s \<and> counting_ok s"

lemma intervals_okD:
  assumes "intervals_ok s"
  shows "jget (live s) h = Some r \<Longrightarrow> jget (timerIntervals s) r = Some h"
    and "jget (live s) h = Some r \<Longrightarrow> h < next_handle s"
    and "jget (timerIntervals s) r = Some h \<Longrightarrow> jget (live s) h = Some r"
  using assms unfolding intervals_ok_def by blast+

lemma intervals_okI:
  assumes "jwf (timerStore s)" and "jwf (timerIntervals s)" and "jwf (live s)"
    and "\<And>h r. jget (live s) h = Some r \<Longrightarrow> jget (timerIntervals s) r = Some h \<and> h < next_handle s"
    and "\<And>h r. jget (timerIntervals s) r = Some h \<Longrightarrow> jget (live s) h = Some r"
  shows "intervals_ok s"
  using assms unfolding intervals_ok_def by blast

lemma intervals_ok_jwf:
  assumes "intervals_ok s"
  shows "jwf (timerStore s)" and "jwf (timerIntervals s)" and "jwf (live s)"
  using assms unfolding intervals_ok_def by blast+

lemma intervals_ok_fresh: "intervals_ok s \<Longrightarrow> jget (live s) (next_handle s) = None"
  using intervals_okD(2) [of s "next_handle s"] by (cases "jget (live s) (next_handle s)") auto

lemma stop_clears [simp]: "jget (timerIntervals (stopTimerInterval r s)) r = None"
  by (auto simp: stopTimerInterval_def split: option.splits)

lemma stop_other [simp]:
  "r' \<noteq> r \<Longrightarrow> jget (timerIntervals (stopTimerInterval r s)) r' = jget (timerIntervals s) r'"
  by (auto simp: stopTimerInterval_def split: option.splits)

lemma stop_fields [simp]:
  "timerStore (stopTimerInterval r s) = timerStore s"
  "notified (stopTimerInterval r s) = notified s"
  "next_handle (stopTimerInterval r s) = next_handle s"
  by (auto simp: stopTimerInterval_def split: option.splits)

lemma intervals_ok_stop:
  assumes ok: "intervals_ok s"
  shows "intervals_ok (stopTimerInterval r s)"
proof (cases "jget (timerIntervals s) r")
  case None
  with ok show ?thesis by (simp add: stopTimerInterval_def)
next
  case (Some h)
  let ?s = "stopTimerInterval r s"
  have s': "timerIntervals ?s = jdel r (timerIntervals s)" "live ?s = jdel h (live s)"
    using Some by (simp_all add: stopTimerInterval_def)
  show ?thesis
  proof (rule intervals_okI)
    fix h' r' assume l: "jget (live ?s) h' = Some r'"
    then have "h' \<noteq> h" and l': "jget (live s) h' = Some r'"
      by (simp_all add: s' split: if_splits)
    then have "jget (timerIntervals s) r' = Some h'" and "h' < next_handle s"
      using intervals_okD [OF ok] by blast+
    moreover from this \<open>h' \<noteq> h\<close> Some have "r' \<noteq> r" by auto
    ultimately show "jget (timerIntervals ?s) r' = Some h' \<and> h' < next_handle ?s"
      by (simp add: s')
  next
    fix h' r' assume l: "jget (timerIntervals ?s) r' = Some h'"
    then have "r' \<noteq> r" and l': "jget (timerIntervals s) r' = Some h'"
      by (simp_all add: s' split: if_splits)
    moreover from l' have "jget (live s) h' = Some r'"
      by (rule intervals_okD(3) [OF ok])
    moreover from Some have "jget (live s) h = Some r"
      by (rule intervals_okD(3) [OF ok])
    ultimately show "jget (live ?s) h' = Some r'" by (auto simp: s')
  qed (simp_all add: s' intervals_ok_jwf [OF ok])
qed

lemma intervals_ok_set:
  assumes ok: "intervals_ok s" and none: "jget (timerIntervals s) r = None"
  shows "intervals_ok (setRoomInterval r s)"
proof (rule intervals_okI)
  fix h' r' assume "jget (live (setRoomInterval r s)) h' = Some r'"
  then have "h' = next_handle s \<and> r' = r \<or> jget (live s) h' = Some r'"
    by (simp add: setRoomInterval_def split: if_splits)
  then show "jget (timerIntervals (setRoomInterval r s)) r' = Some h' \<and>
      h' < next_handle (setRoomInterval r s)"
  proof
    assume l: "jget (live s) h' = Some r'"
    then have "jget (timerIntervals s) r' = Some h'" and "h' < next_handle s"
      by (rule intervals_okD [OF ok])+
    with none show ?thesis by (auto simp: setRoomInterval_def)
  qed (simp add: setRoomInterval_def)
next
  fix h' r' assume i: "jget (timerIntervals (setRoomInterval r s)) r' = Some h'"
  show "jget (live (setRoomInterval r s)) h' = Some r'"
  proof (cases "r' = r")
    case True
    with i show ?thesis by (simp add: setRoomInterval_def)
  next
    case False
    with i have "jget (live s) h' = Some r'"
      by (intro intervals_okD(3) [OF ok]) (simp add: setRoomInterval_def)
    with intervals_ok_fresh [OF ok] show ?thesis by (auto simp: setRoomInterval_def)
  qed
qed (simp_all add: setRoomInterval_def intervals_ok_jwf [OF ok])

lemma intervals_ok_cong:
  assumes "timerIntervals s' = timerIntervals s" and "live s' = live s"
    and "next_handle s' = next_handle s" and "jwf (timerStore s')" and "intervals_ok s"
  shows "intervals_ok s'"
  using assms(5) unfolding intervals_ok_def assms(1-3) using assms(4) by blast

lemma intervals_ok_frame [simp]:
  "intervals_ok s \<Longrightarrow> intervals_ok (putTimer r t s)"
  "intervals_ok s \<Longrightarrow> intervals_ok (notify r e t s)"
  "intervals_ok s \<Longrightarrow> intervals_ok (s\<lparr>timerStore := jdel r (timerStore s)\<rparr>)"
  by (rule intervals_ok_cong [where s = s]; simp add: putTimer_def notify_def intervals_ok_jwf)+

lemma put_notify_fields [simp]:
  "timerStore (putTimer r t s) = jset r t (timerStore s)"
  "timerIntervals (putTimer r t s) = timerIntervals s"
  "live (putTimer r t s) = live s"
  "notified (putTimer r t s) = notified s"
  "timerStore (notify r e t s) = timerStore s"
  "timerIntervals (notify r e t s) = timerIntervals s"
  "live (notify r e t s) = live s"
  "notified (notify r e t s) = notified s @ [(r, e, t)]"
  "timerStore (setRoomInterval r s) = timerStore s"
  "timerIntervals (setRoomInterval r s) = jset r (next_handle s) (timerIntervals s)"
  "notified (setRoomInterval r s) = notified s"
  by (simp_all add: putTimer_def notify_def setRoomInterval_def)

section \<open>Every operation keeps the invariant\<close>

lemma timer_invI: "intervals_ok s \<Longrightarrow> counting_ok s \<Longrightarrow> timer_inv s"
  by (simp add: timer_inv_def)

lemma timer_invD:
  assumes "timer_inv s"
  shows "intervals_ok s" and "counting_ok s"
    and "jhas (timerIntervals s) r \<longleftrightarrow> (\<exists>t. jget (timerStore s) r = Some t \<and> counting t)"
    and "jget (timerStore s) r = Some t \<Longrightarrow> td_roomId t = r"
  using assms unfolding timer_inv_def counting_ok_def by blast+

lemma not_counting_no_interval:
  assumes "timer_inv s" and "jget (timerStore s) r = Some t" and "\<not> counting t"
  shows "jget (timerIntervals s) r = None"
  using timer_invD(3) [OF assms(1), of r] assms(2,3) by (auto simp: jhas_def)

text \<open>
  The three ways an operation changes room \<open>r\<close>: it stores a counting timer and has an interval, it
  stores a timer that does not count and has none, or it removes both.
\<close>

lemma counting_ok_store:
  assumes "counting_ok s" and "td_roomId t = r"
    and "timerStore s' = jset r t (timerStore s)"
    and "\<And>r'. r' \<noteq> r \<Longrightarrow> jget (timerIntervals s') r' = jget (timerIntervals s) r'"
    and "jhas (timerIntervals s') r \<longleftrightarrow> counting t"
  shows "counting_ok s'"
  unfolding counting_ok_def
proof (intro conjI allI impI)
  fix r'
  show "jhas (timerIntervals s') r' \<longleftrightarrow> (\<exists>t. jget (timerStore s') r' = Some t \<and> counting t)"
  proof (cases "r' = r")
    case True
    with assms show ?thesis by simp
  next
    case False
    with assms(1,3) assms(4) [OF False] show ?thesis
      by (simp add: counting_ok_def jhas_def)
  qed
next
  fix r' t' assume "jget (timerStore s') r' = Some t'"
  with assms(1-3) show "td_roomId t' = r'"
    by (auto simp: counting_ok_def split: if_splits)
qed

lemma timer_inv_init: "timer_inv init_env"
  by (simp add: timer_inv_def intervals_ok_def counting_ok_def init_env_def jhas_def)

lemma timer_inv_start:
  assumes "timer_inv s" shows "timer_inv (snd (startTimer now r m w s))"
proof (rule timer_invI)
  show "intervals_ok (snd (startTimer now r m w s))"
    by (simp add: startTimer_def Let_def intervals_ok_set intervals_ok_stop timer_invD [OF assms])
  show "counting_ok (snd (startTimer now r m w s))"
    by (rule counting_ok_store [OF timer_invD(2) [OF assms], where t = "fst (startTimer now r m w s)" and r = r])
      (simp_all add: startTimer_def Let_def counting_def)
qed

lemma timer_inv_pause:
  assumes "timer_inv s" shows "timer_inv (snd (pauseTimer r s))"
proof (cases "jget (timerStore s) r")
  case None
  with assms show ?thesis by (simp add: pauseTimer_def)
next
  case (Some t)
  then have p: "pauseTimer r s =
      (Some (t\<lparr>timerState := Paused\<rparr>), putTimer r (t\<lparr>timerState := Paused\<rparr>) (stopTimerInterval r s))"
    by (simp add: pauseTimer_def Let_def)
  have "td_roomId t = r" using timer_invD(4) [OF assms Some] .
  then have "counting_ok (snd (pauseTimer r s))"
    by (intro counting_ok_store [OF timer_invD(2) [OF assms], where t = "t\<lparr>timerState := Paused\<rparr>" and r = r])
      (simp_all add: p counting_def jhas_def)
  then show ?thesis
    by (intro timer_invI) (simp_all add: p intervals_ok_stop timer_invD [OF assms])
qed

lemma timer_inv_resume:
  assumes "timer_inv s" shows "timer_inv (snd (resumeTimer now r s))"
proof (cases "\<exists>t. jget (timerStore s) r = Some t \<and> timerState t = Paused")
  case False
  with assms show ?thesis by (auto simp: resumeTimer_def split: option.splits)
next
  case True
  then obtain t where t: "jget (timerStore s) r = Some t" "timerState t = Paused" by blast
  let ?t = "t\<lparr>timerState := Running, endTime := Some (now + remainingSeconds t * 1000)\<rparr>"
  from t have p: "resumeTimer now r s = (Some ?t, setRoomInterval r (putTimer r ?t s))"
    by (simp add: resumeTimer_def Let_def)
  have "td_roomId t = r" using timer_invD(4) [OF assms t(1)] .
  then have "counting_ok (snd (resumeTimer now r s))"
    by (intro counting_ok_store [OF timer_invD(2) [OF assms], where t = ?t and r = r])
      (simp_all add: p counting_def)
  moreover have "jget (timerIntervals s) r = None"
    using not_counting_no_interval [OF assms t(1)] t(2) by (simp add: counting_def)
  ultimately show ?thesis
    by (intro timer_invI) (simp_all add: p intervals_ok_set timer_invD [OF assms])
qed

lemma timer_inv_extend:
  assumes "timer_inv s" shows "timer_inv (snd (extendTimer now r n s))"
proof (cases "jget (timerStore s) r")
  case None
  with assms show ?thesis by (simp add: extendTimer_def)
next
  case (Some t)
  let ?e = "extendTimer now r n s" and ?t = "the (fst (extendTimer now r n s))"
  have room: "td_roomId ?t = r"
    using Some timer_invD(4) [OF assms Some] by (simp add: extendTimer_def Let_def)
  have old: "jhas (timerIntervals s) r \<longleftrightarrow> counting t"
    using timer_invD(3) [OF assms, of r] Some by simp
  have "counting_ok (snd ?e)"
    by (rule counting_ok_store [OF timer_invD(2) [OF assms] room])
      (use Some old in \<open>auto simp: extendTimer_def Let_def counting_def\<close>)
  moreover have "intervals_ok (snd ?e)"
    using Some by (simp add: extendTimer_def Let_def jhas_def intervals_ok_set timer_invD [OF assms])
  ultimately show ?thesis by (rule timer_invI [rotated])
qed

lemma timer_inv_stop:
  assumes "timer_inv s" shows "timer_inv (snd (stopTimer r s))"
proof (rule timer_invI)
  show "intervals_ok (snd (stopTimer r s))"
    using intervals_ok_frame(3) [OF intervals_ok_stop [OF timer_invD(1) [OF assms]], of r r]
    by (simp add: stopTimer_def Let_def)
  show "counting_ok (snd (stopTimer r s))"
    unfolding counting_ok_def
  proof (intro conjI allI impI)
    fix r'
    show "jhas (timerIntervals (snd (stopTimer r s))) r' \<longleftrightarrow>
        (\<exists>t. jget (timerStore (snd (stopTimer r s))) r' = Some t \<and> counting t)"
      using timer_invD(3) [OF assms, of r'] by (cases "r' = r") (simp_all add: stopTimer_def Let_def jhas_def)
  next
    fix r' t assume "jget (timerStore (snd (stopTimer r s))) r' = Some t"
    then show "td_roomId t = r'"
      using timer_invD(4) [OF assms, of r' t] by (simp add: stopTimer_def Let_def split: if_splits)
  qed
qed

section \<open>One second of a timer, abstractly\<close>

text \<open>
  The specification of a tick looks at the timer alone: the timer after one second and the
  notifications of that second. \<open>intervalTick\<close> refines it on the store.
\<close>

definition tickData :: "TimerData \<Rightarrow> TimerData" where
  "tickData t =
    (let n = remainingSeconds t - 1
     in if n \<le> 0 then t\<lparr>remainingSeconds := 0, timerState := Ended\<rparr>
        else if n = warningMinutes t * 60 \<and> timerState t = Running
        then t\<lparr>remainingSeconds := n, timerState := Warning\<rparr>
        else t\<lparr>remainingSeconds := n\<rparr>)"

definition tickEvents :: "TimerData \<Rightarrow> (TimerEvent \<times> TimerData) list" where
  "tickEvents t =
    (let n = remainingSeconds t - 1
     in (if n = warningMinutes t * 60 \<and> timerState t = Running
         then [(EvWarning, t\<lparr>remainingSeconds := n, timerState := Warning\<rparr>)] else [])
        @ (if n \<le> 0 then [(EvEnded, t\<lparr>remainingSeconds := 0, timerState := Ended\<rparr>)] else []))"

lemma tickData_counting:
  "counting t \<Longrightarrow> counting (tickData t) \<longleftrightarrow> 1 < remainingSeconds t"
  by (auto simp: tickData_def counting_def Let_def)

lemma tickData_room [simp]: "td_roomId (tickData t) = td_roomId t"
  by (simp add: tickData_def Let_def)

lemma intervalTick_refines:
  assumes "jget (timerStore s) r = Some t" and "counting t"
  shows "timerStore (intervalTick r s) = jset r (tickData t) (timerStore s)"
    and "notified (intervalTick r s) = notified s @ map (Pair r) (tickEvents t)"
    and "jget (timerIntervals (intervalTick r s)) r' =
      (if r' = r \<and> remainingSeconds t \<le> 1 then None else jget (timerIntervals s) r')"
    and "intervals_ok s \<Longrightarrow> intervals_ok (intervalTick r s)"
  using assms
  by (auto simp: intervalTick_def tickData_def tickEvents_def Let_def intervals_ok_stop)

lemma timer_inv_tick:
  assumes inv: "timer_inv s" shows "timer_inv (intervalTick r s)"
proof (cases "\<exists>t. jget (timerStore s) r = Some t \<and> counting t")
  case False
  then have "intervalTick r s = stopTimerInterval r s"
    by (auto simp: intervalTick_def split: option.splits)
  moreover have "jget (timerIntervals s) r = None"
    using False timer_invD(3) [OF inv, of r] unfolding jhas_def by blast
  ultimately show ?thesis
    using inv by (simp add: stopTimerInterval_def)
next
  case True
  then obtain t where t: "jget (timerStore s) r = Some t" "counting t" by blast
  have "jhas (timerIntervals s) r" using timer_invD(3) [OF inv] t by blast
  then have i: "jhas (timerIntervals (intervalTick r s)) r \<longleftrightarrow> counting (tickData t)"
    using t by (simp add: jhas_def intervalTick_refines [OF t] tickData_counting)
  have "td_roomId (tickData t) = r"
    using timer_invD(4) [OF inv t(1)] by simp
  then have "counting_ok (intervalTick r s)"
    by (rule counting_ok_store [OF timer_invD(2) [OF inv]])
      (simp_all add: intervalTick_refines [OF t] i)
  then show ?thesis
    by (intro timer_invI) (simp_all add: intervalTick_refines [OF t] timer_invD [OF inv])
qed

section \<open>Runs of the timer service\<close>

datatype timer_op =
    TStart int jstr int int
  | TPause jstr
  | TResume int jstr
  | TExtend int jstr int
  | TStop jstr
  | TTick jstr

fun timer_step :: "timer_op \<Rightarrow> timer_env \<Rightarrow> timer_env" where
  "timer_step (TStart now r m w) s = snd (startTimer now r m w s)"
| "timer_step (TPause r) s = snd (pauseTimer r s)"
| "timer_step (TResume now r) s = snd (resumeTimer now r s)"
| "timer_step (TExtend now r n) s = snd (extendTimer now r n s)"
| "timer_step (TStop r) s = snd (stopTimer r s)"
| "timer_step (TTick r) s = (case jget (timerIntervals s) r of None \<Rightarrow> s | Some h \<Rightarrow> intervalFires h s)"

fun op_room :: "timer_op \<Rightarrow> jstr" where
  "op_room (TStart now r m w) = r"
| "op_room (TPause r) = r"
| "op_room (TResume now r) = r"
| "op_room (TExtend now r n) = r"
| "op_room (TStop r) = r"
| "op_room (TTick r) = r"

text \<open>What the service shows of a room: its timer, whether it has an interval, its notifications.\<close>

definition room_view ::
  "timer_env \<Rightarrow> jstr \<Rightarrow> TimerData option \<times> bool \<times> (jstr \<times> TimerEvent \<times> TimerData) list" where
  "room_view s r = (jget (timerStore s) r, jhas (timerIntervals s) r,
     filter (\<lambda>n. fst n = r) (notified s))"

lemma timer_step_tick:
  assumes "timer_inv s"
  shows "timer_step (TTick r) s = (if jhas (timerIntervals s) r then intervalTick r s else s)"
  using intervals_okD(3) [OF timer_invD(1) [OF assms], of r]
  by (auto simp: jhas_def intervalFires_def split: option.splits)

lemma timer_step_inv: "timer_inv s \<Longrightarrow> timer_inv (timer_step op s)"
  by (cases op) (simp_all add: timer_inv_start timer_inv_pause timer_inv_resume timer_inv_extend
      timer_inv_stop timer_step_tick timer_inv_tick del: timer_step.simps(6))

lemma filter_events:
  "filter (\<lambda>n. fst n = r') (map (Pair r) es) = (if r' = r then map (Pair r) es else [])"
  by (induction es) auto

lemma tick_view:
  assumes "timer_inv s"
  shows "room_view (timer_step (TTick r) s) r' =
    (if r' = r then
       (case jget (timerStore s) r of
          None \<Rightarrow> room_view s r
        | Some t \<Rightarrow> if counting t
            then (Some (tickData t), counting (tickData t),
                  filter (\<lambda>n. fst n = r) (notified s) @ map (Pair r) (tickEvents t))
            else room_view s r)
     else room_view s r')"
proof (cases "\<exists>t. jget (timerStore s) r = Some t \<and> counting t")
  case False
  with timer_invD(3) [OF assms, of r] show ?thesis
    by (auto simp: timer_step_tick [OF assms] split: option.splits simp del: timer_step.simps)
next
  case True
  then obtain t where t: "jget (timerStore s) r = Some t" "counting t" by blast
  then have "jhas (timerIntervals s) r" using timer_invD(3) [OF assms] by blast
  with t show ?thesis
    by (auto simp: timer_step_tick [OF assms] room_view_def intervalTick_refines [OF t]
        filter_events jhas_def tickData_counting simp del: timer_step.simps)
qed

lemma timer_frame:
  assumes "timer_inv s" and "r \<noteq> op_room op"
  shows "room_view (timer_step op s) r = room_view s r"
proof (cases op)
  case (TTick r')
  with assms show ?thesis by (simp add: tick_view del: timer_step.simps)
qed (use assms(2) in \<open>auto simp: room_view_def jhas_def startTimer_def pauseTimer_def resumeTimer_def
      extendTimer_def stopTimer_def Let_def split: option.splits\<close>)

lemma timer_local:
  assumes "timer_inv s" and "timer_inv s'" and "room_view s (op_room op) = room_view s' (op_room op)"
  shows "room_view (timer_step op s) (op_room op) = room_view (timer_step op s') (op_room op)"
proof (cases op)
  case (TTick r)
  with assms(3) have v: "room_view s r = room_view s' r" by simp
  then have "jget (timerStore s) r = jget (timerStore s') r"
    and "filter (\<lambda>n. fst n = r) (notified s) = filter (\<lambda>n. fst n = r) (notified s')"
    by (simp_all add: room_view_def)
  with v TTick show ?thesis
    by (simp add: tick_view [OF assms(1)] tick_view [OF assms(2)] split: option.splits
        del: timer_step.simps)
qed (use assms(3) in \<open>auto simp: room_view_def jhas_def startTimer_def pauseTimer_def resumeTimer_def
      extendTimer_def stopTimer_def Let_def split: option.splits\<close>)

interpretation timers: room_isolated timer_inv timer_step op_room room_view
  by unfold_locales (auto intro: timer_step_inv timer_frame timer_local)

section \<open>A whole countdown\<close>

definition ticks :: "jstr \<Rightarrow> nat \<Rightarrow> timer_env \<Rightarrow> timer_env" where
  "ticks r n s = (timer_step (TTick r) ^^ n) s"

text \<open>The timer \<open>n\<close> seconds after a start, and the notifications of these seconds.\<close>

definition countdown :: "TimerData \<Rightarrow> int \<Rightarrow> TimerData" where
  "countdown t n =
     (let left = targetMinutes t * 60 - n
      in t\<lparr>remainingSeconds := max 0 left,
           timerState := (if left \<le> 0 then Ended
                          else if left \<le> warningMinutes t * 60 then Warning else Running)\<rparr>)"

definition countdown_events :: "TimerData \<Rightarrow> int \<Rightarrow> (TimerEvent \<times> TimerData) list" where
  "countdown_events t n =
     (let left = targetMinutes t * 60 - n
      in (if left \<le> warningMinutes t * 60
          then [(EvWarning, countdown t (targetMinutes t * 60 - warningMinutes t * 60))] else [])
         @ (if left \<le> 0 then [(EvEnded, countdown t (targetMinutes t * 60))] else []))"

lemma countdown_Suc:
  assumes "0 < warningMinutes t" and "int n < targetMinutes t * 60"
  shows "tickData (countdown t (int n)) = countdown t (int (Suc n))"
    and "countdown_events t (int (Suc n)) = countdown_events t (int n) @ tickEvents (countdown t (int n))"
  using assms by (auto simp: tickData_def tickEvents_def countdown_events_def countdown_def Let_def)

lemma ticks_Suc: "ticks r (Suc n) s = timer_step (TTick r) (ticks r n s)"
  by (simp add: ticks_def del: timer_step.simps)

lemma timer_inv_ticks: "timer_inv s \<Longrightarrow> timer_inv (ticks r n s)"
  by (induction n) (simp_all add: ticks_Suc timer_step_inv ticks_def [of r 0] del: timer_step.simps)

lemma countdown_run:
  assumes inv: "timer_inv s" and t: "jget (timerStore s) r = Some (countdown t 0)"
    and w: "0 < warningMinutes t" "warningMinutes t < targetMinutes t"
  shows "jget (timerStore (ticks r n s)) r = Some (countdown t (int n)) \<and>
    filter (\<lambda>x. fst x = r) (notified (ticks r n s)) =
      filter (\<lambda>x. fst x = r) (notified s) @ map (Pair r) (countdown_events t (int n))"
proof (induction n)
  case 0
  with t w show ?case by (simp add: ticks_def countdown_events_def)
next
  case (Suc n)
  have i: "timer_inv (ticks r n s)" using inv by (rule timer_inv_ticks)
  have v: "room_view (ticks r (Suc n) s) r = (if int n < targetMinutes t * 60
      then (Some (countdown t (int (Suc n))), counting (countdown t (int (Suc n))),
         filter (\<lambda>n. fst n = r) (notified (ticks r n s)) @ map (Pair r) (tickEvents (countdown t (int n))))
      else room_view (ticks r n s) r)"
  proof (cases "int n < targetMinutes t * 60")
    case True
    then have "counting (countdown t (int n))" by (simp add: countdown_def counting_def Let_def)
    with True Suc show ?thesis
      by (simp add: ticks_Suc tick_view [OF i] countdown_Suc [OF w(1) True] del: timer_step.simps of_nat_Suc)
  next
    case False
    then have "\<not> counting (countdown t (int n))" by (simp add: countdown_def counting_def Let_def)
    with False Suc show ?thesis
      by (simp add: ticks_Suc tick_view [OF i] del: timer_step.simps)
  qed
  show ?case
  proof (cases "int n < targetMinutes t * 60")
    case True
    with v Suc show ?thesis
      by (simp add: room_view_def countdown_Suc(2) [OF w(1) True] del: of_nat_Suc)
  next
    case False
    then have "countdown t (int (Suc n)) = countdown t (int n)"
      and "countdown_events t (int (Suc n)) = countdown_events t (int n)"
      using w by (auto simp: countdown_def countdown_events_def Let_def)
    with False v Suc show ?thesis by (simp add: room_view_def del: of_nat_Suc)
  qed
qed

lemma start_countdown: "jget (timerStore (snd (startTimer now r m w s))) r =
    Some (fst (startTimer now r m w s))"
  by (simp add: startTimer_def Let_def)

section \<open>Properties\<close>

text \<open>
  C1. In every state the timer service can reach, the live interval handles are exactly the
  registered ones, one per room, and a room has an interval exactly while its timer is running or
  in its warning phase: no interval leaks, and no timer is counted down twice per second.
\<close>

theorem interval_discipline:
  "let s = fold timer_step ops init_env
   in (\<forall>h r. jget (live s) h = Some r \<longleftrightarrow> jget (timerIntervals s) r = Some h) \<and>
      (\<forall>r. jhas (timerIntervals s) r \<longleftrightarrow> (\<exists>t. jget (timerStore s) r = Some t \<and> counting t))"
proof -
  have inv: "timer_inv (fold timer_step ops init_env)"
    by (rule timers.inv_run [OF timer_inv_init])
  show ?thesis
    unfolding Let_def
    using intervals_okD(1,3) [OF timer_invD(1) [OF inv]] timer_invD(3) [OF inv] by blast
qed

text \<open>
  C15. A timer started with \<open>0 < warn < target\<close> minutes, to which nothing else is done: after \<open>n\<close> seconds it shows
  \<open>target * 60 - n\<close> seconds (never below 0), is running, then warning, then ended at the right
  seconds, and the room has been notified of exactly one warning (at \<open>warn\<close> minutes left) and one
  end (at 0), in that order, however long the interval is observed.
\<close>

theorem countdown_correct:
  assumes "timer_inv s" and "0 < w" and "w < m"
  shows "let (t, s1) = startTimer now r m w s; s2 = ticks r n s1
    in getTimerStatus r s2 = Some (countdown t (int n)) \<and>
       filter (\<lambda>x. fst x = r) (notified s2) =
         filter (\<lambda>x. fst x = r) (notified s) @ map (Pair r) (countdown_events t (int n))"
proof -
  let ?t = "fst (startTimer now r m w s)" and ?s1 = "snd (startTimer now r m w s)"
  have f: "warningMinutes ?t = w" "targetMinutes ?t = m" "countdown ?t 0 = ?t" "notified ?s1 = notified s"
    using assms(2,3) by (simp_all add: startTimer_def countdown_def Let_def)
  have "jget (timerStore ?s1) r = Some (countdown ?t 0)"
    using f start_countdown by simp
  from countdown_run [OF timer_inv_start [OF assms(1)] this, of n] assms(2,3) f
  show ?thesis by (simp add: getTimerStatus_def split_beta)
qed

theorem countdown_correct_witness:
  "let (t, s1) = startTimer 0 [1] 2 1 init_env; s2 = ticks [1] 60 s1
    in getTimerStatus [1] s2 = Some (countdown t 60) \<and> timerState (countdown t 60) = Warning"
  using countdown_correct [OF timer_inv_init, of 1 2 0 "[1]" 60]
  by (simp add: startTimer_def countdown_def Let_def)

text \<open>
  C33. Rooms do not interfere: what the service shows of a room (its timer, whether it counts, its
  notifications) after any sequence of operations on any rooms is what the operations on that
  room alone would have produced.
\<close>

theorem timer_rooms_independent:
  "room_view (fold timer_step ops init_env) r =
   room_view (fold timer_step (filter (\<lambda>op. op_room op = r) ops) init_env) r"
  by (rule timers.noninterference [OF timer_inv_init])

text \<open>
  C34. Pausing freezes the timer: however many seconds pass before it is resumed, the resumed timer
  has the remaining seconds it was paused with, is running, and its end time is recomputed from
  the time of the resumption.
\<close>

theorem pause_resume_roundtrip:
  assumes "timer_inv s" and "jget (timerStore s) r = Some t"
  shows "fst (resumeTimer now r (ticks r n (snd (pauseTimer r s)))) =
    Some (t\<lparr>timerState := Running, endTime := Some (now + remainingSeconds t * 1000)\<rparr>)"
proof -
  let ?p = "snd (pauseTimer r s)"
  have p: "jget (timerStore ?p) r = Some (t\<lparr>timerState := Paused\<rparr>)"
    using assms(2) by (simp add: pauseTimer_def Let_def)
  have "jget (timerIntervals ?p) r = None"
    using assms(2) by (simp add: pauseTimer_def Let_def)
  then have "ticks r n ?p = ?p"
    by (induction n) (simp_all add: ticks_def)
  with p show ?thesis by (simp add: resumeTimer_def Let_def)
qed

theorem pause_resume_roundtrip_witness:
  "let s = snd (startTimer 0 [1] 2 1 init_env)
   in map_option remainingSeconds (fst (resumeTimer 5000 [1] (ticks [1] 7 (snd (pauseTimer [1] s))))) = Some 120"
  using pause_resume_roundtrip [OF timer_inv_start [OF timer_inv_init], where t = "fst (startTimer 0 [1] 2 1 init_env)"
      and r = "[1]" and now = 5000 and n = 7]
  by (simp add: start_countdown) (simp add: startTimer_def Let_def)

text \<open>
  Extending a running timer adds the seconds but leaves \<open>endTime\<close> as it was: after a start at
  \<open>now\<close> and an extension by \<open>n\<close> minutes the stored end time is \<open>n\<close> minutes too early for the
  remaining seconds (the other branches, an ended or warning timer, do recompute it).
\<close>

theorem extend_running_end_time_stale:
  "let (t, s1) = startTimer now r m w s; (e, s2) = extendTimer now r n s1
   in map_option remainingSeconds e = Some ((m + n) * 60) \<and>
      (\<exists>x. Option.bind e endTime = Some x \<and> x + n * 60000 = now + (m + n) * 60 * 1000)"
  by (simp add: startTimer_def extendTimer_def Let_def algebra_simps)

text \<open>
  The MCP tool refuses exactly a missing room id and an action outside its six; a refusal
  leaves the service unchanged, and an accepted call keeps the interval discipline.
\<close>

theorem execute_total:
  "(isl (fst (timerTool_execute now roomId opts s)) \<longleftrightarrow>
      \<not> truthy_str roomId \<or> opt_action opts \<notin> Some ` {js ''start'', js ''pause'', js ''resume'',
        js ''extend'', js ''stop'', js ''status''}) \<and>
   (isl (fst (timerTool_execute now roomId opts s)) \<longrightarrow> snd (timerTool_execute now roomId opts s) = s) \<and>
   (timer_inv s \<longrightarrow> timer_inv (snd (timerTool_execute now roomId opts s)))"
  by (auto simp: timerTool_execute_def Let_def split_beta image_iff
      intro: timer_inv_start timer_inv_pause timer_inv_resume timer_inv_extend timer_inv_stop)

theorem execute_total_witness:
  "snd (timerTool_execute 0 None \<lparr>opt_action = None, opt_targetMinutes = None,
      opt_warningMinutes = None, opt_minutes = None\<rparr> init_env) = init_env"
  using execute_total [of 0 None "\<lparr>opt_action = None, opt_targetMinutes = None,
      opt_warningMinutes = None, opt_minutes = None\<rparr>" init_env] by (simp add: truthy_str_def)

end
