(* ===== verification/WfcEngine.thy ===== *)
theory WfcEngine
  imports Prelude
begin

text \<open>
  The wave-function-collapse engine of the Perplexity mode, \<open>src/perplexity/wfc-engine.service.ts\<close>,
  with the types of \<open>src/perplexity/perplexity.types.ts\<close>: participant cells and their collapse,
  session entropy, and the six prioritised constraints with their cooldowns. Entropies and
  confidences are exact rationals (the source's numbers are doubles); times are milliseconds.
  The engine object owns the constraint list; \<open>lastTriggered\<close> is a field of the constraint, so the
  list is the engine's state. \<open>collapseState\<close> copies the cell shallowly and may push onto the
  array it shares with its argument; every caller replaces the old cell by the result, so the
  functional result is all that can be observed.
\<close>

section \<open>Types\<close>

datatype CognitiveState = confused | absorbing | thinking | contributing | understood | disengaged

datatype TopicState = introduced | discussing | clarifying | mastered | skipped

datatype EntropyLevel = low | medium | high

record ParticipantCell =
  participantId :: jstr
  participantName :: jstr
  possibleStates :: "CognitiveState list"
  observedState :: "CognitiveState option"
  entropy :: rat
  confidence :: rat
  lastUpdate :: int
  speakingRatio :: rat
  questionCount :: int
  confusionCount :: int
  textInferredAt :: int

record TopicCell =
  topicId :: jstr
  topicName :: jstr
  topic_state :: TopicState
  participantUnderstanding :: "(jstr, rat) jmap"
  mentionCount :: int
  lastMention :: int

datatype PerplexityAction =
    AI_INTERVENTION (reason: jstr) (targets: "jstr list") (suggestedResponse: "jstr option")
  | FOLLOW_UP_QUESTION (question: jstr) (ctx: jstr) (opt_targets: "jstr list option")
  | TOPIC_TRANSITION (fromTopic: jstr) (toTopic: jstr) (treason: jstr)
  | PEER_TEACHING (teacher: jstr) (learners: "jstr list") (topic: jstr)
  | SUMMARY_REQUEST (topics_of: "jstr list") (sreason: jstr)
  | ENGAGEMENT_BOOST (btargets: "jstr list") (suggestion: jstr)

record Transcript =
  tr_participantId :: jstr
  tr_text :: jstr
  tr_timestamp :: int

record PerplexitySession =
  ps_roomId :: jstr
  isActive :: bool
  startTime :: int
  participants :: "(jstr, ParticipantCell) jmap"
  topics :: "(jstr, TopicCell) jmap"
  currentTopic :: "jstr option"
  sessionEntropy :: rat
  entropyLevel :: EntropyLevel
  actionHistory :: "(PerplexityAction \<times> int) list"
  lastPropagation :: int
  recentTranscripts :: "Transcript list"

record WFCConstraint =
  cid :: jstr
  cname :: jstr
  condition :: "int \<Rightarrow> PerplexitySession \<Rightarrow> bool"
  caction :: PerplexityAction
  priority :: int
  cooldownMs :: int
  lastTriggered :: "int option"

record PropagationResult =
  triggeredConstraints :: "jstr list"
  actions :: "PerplexityAction list"
  entropyChange :: rat
  affectedParticipants :: "jstr list"

section \<open>Entropy\<close>

definition calculateCellEntropy :: "ParticipantCell \<Rightarrow> rat" where
  "calculateCellEntropy c = of_nat (length (possibleStates c)) / 6"

definition calculateSessionEntropy :: "PerplexitySession \<Rightarrow> rat" where
  "calculateSessionEntropy s =
     (let ps = jvals (participants s)
      in if ps = [] then 0 else sum_list (map entropy ps) / of_nat (length ps))"

definition getEntropyLevel :: "rat \<Rightarrow> EntropyLevel" where
  "getEntropyLevel e = (if e < 33 / 100 then low else if e < 66 / 100 then medium else high)"

definition updateSessionEntropy :: "PerplexitySession \<Rightarrow> PerplexitySession" where
  "updateSessionEntropy s =
     (let e = calculateSessionEntropy s in s\<lparr>sessionEntropy := e, entropyLevel := getEntropyLevel e\<rparr>)"

section \<open>Collapse\<close>

fun compatibilityMap :: "CognitiveState \<Rightarrow> CognitiveState list" where
  "compatibilityMap confused = [thinking, absorbing]"
| "compatibilityMap absorbing = [thinking, confused, understood]"
| "compatibilityMap thinking = [confused, absorbing, contributing, understood]"
| "compatibilityMap contributing = [thinking, understood]"
| "compatibilityMap understood = [absorbing, contributing]"
| "compatibilityMap disengaged = [confused, absorbing]"

definition isCompatibleState :: "CognitiveState \<Rightarrow> CognitiveState \<Rightarrow> bool" where
  "isCompatibleState s1 s2 \<longleftrightarrow> s2 \<in> set (compatibilityMap s1)"

definition collapseState :: "int \<Rightarrow> ParticipantCell \<Rightarrow> CognitiveState \<Rightarrow> rat \<Rightarrow> ParticipantCell" where
  "collapseState now cell obs conf =
     (let c1 =
        (if conf \<ge> 7 / 10 then
           cell\<lparr>observedState := Some obs, possibleStates := [obs], entropy := 0\<rparr>
         else if conf \<ge> 5 / 10 then
           (let ps = filter (\<lambda>s. s = obs \<or> isCompatibleState s obs) (possibleStates cell)
            in (case ps of
                  [p] \<Rightarrow> cell\<lparr>possibleStates := ps, observedState := Some p, entropy := 0\<rparr>
                | _ \<Rightarrow> cell\<lparr>possibleStates := ps, entropy := of_nat (length ps) / 6\<rparr>))
         else
           (let ps = (if obs \<in> set (possibleStates cell) then possibleStates cell
                      else possibleStates cell @ [obs])
            in cell\<lparr>possibleStates := ps, entropy := of_nat (length ps) / 6\<rparr>));
          c2 =
        (if obs = confused then c1\<lparr>confusionCount := confusionCount c1 + 1\<rparr>
         else if obs = understood \<or> obs = contributing
         then c1\<lparr>confusionCount := max 0 (confusionCount c1 - 1)\<rparr>
         else c1)
      in c2\<lparr>confidence := conf, lastUpdate := now\<rparr>)"

definition createParticipantCell :: "int \<Rightarrow> jstr \<Rightarrow> jstr \<Rightarrow> ParticipantCell" where
  "createParticipantCell now pid name =
     \<lparr>participantId = pid, participantName = name,
      possibleStates = [absorbing, thinking, confused, contributing, understood, disengaged],
      observedState = None, entropy = 1, confidence = 0, lastUpdate = now, speakingRatio = 0,
      questionCount = 0, confusionCount = 0, textInferredAt = 0\<rparr>"

section \<open>Constraints\<close>

definition countState :: "CognitiveState \<Rightarrow> ParticipantCell list \<Rightarrow> nat" where
  "countState st ps = length (filter (\<lambda>p. observedState p = Some st) ps)"

definition understands :: "ParticipantCell \<Rightarrow> bool" where
  "understands p \<longleftrightarrow> observedState p = Some understood \<or> observedState p = Some contributing"

definition cond_confusion_intervention :: "int \<Rightarrow> PerplexitySession \<Rightarrow> bool" where
  "cond_confusion_intervention now s =
     (let ps = jvals (participants s)
      in if length ps = 0 then False
         else (of_nat (countState confused ps) / of_nat (length ps) :: rat) \<ge> 4 / 10)"

definition cond_single_confusion :: "int \<Rightarrow> PerplexitySession \<Rightarrow> bool" where
  "cond_single_confusion now s = list_ex (\<lambda>p. confusionCount p \<ge> 3) (jvals (participants s))"

definition cond_peer_teaching :: "int \<Rightarrow> PerplexitySession \<Rightarrow> bool" where
  "cond_peer_teaching now s =
     (let ps = jvals (participants s)
      in if length ps < 2 then False
         else length (filter understands ps) \<ge> 1 \<and> countState confused ps \<ge> 1)"

definition cond_high_entropy :: "int \<Rightarrow> PerplexitySession \<Rightarrow> bool" where
  "cond_high_entropy now s \<longleftrightarrow> entropyLevel s = high \<and> sessionEntropy s > 7 / 10"

definition cond_disengagement :: "int \<Rightarrow> PerplexitySession \<Rightarrow> bool" where
  "cond_disengagement now s =
     list_ex (\<lambda>p. observedState p = Some disengaged \<and> now - lastUpdate p > 30000)
       (jvals (participants s))"

definition cond_all_understood :: "int \<Rightarrow> PerplexitySession \<Rightarrow> bool" where
  "cond_all_understood now s =
     (let ps = jvals (participants s)
      in if length ps = 0 then False else countState understood ps = length ps)"

definition DEFAULT_CONSTRAINTS :: "WFCConstraint list" where
  "DEFAULT_CONSTRAINTS =
   [\<lparr>cid = js ''confusion_intervention'', cname = [54844, 46976, 32, 44048, 51648, 32, 44060, 51077],
     condition = cond_confusion_intervention,
     caction = AI_INTERVENTION [47566, 51008, 32, 48516, 46308, 51060, 32, 50612, 47140, 50892, 54616,
       49884, 45716, 32, 44163, 32, 44057, 49845, 45768, 45796, 46, 32, 51228, 44032, 32, 49444, 47749,
       54644, 46300, 47540, 44620, 50836, 63] [] None,
     priority = 100, cooldownMs = 60000, lastTriggered = None\<rparr>,
    \<lparr>cid = js ''single_confusion_assist'', cname = [44060, 51064, 32, 54844, 46976, 32, 51648, 50896],
     condition = cond_single_confusion,
     caction = AI_INTERVENTION [54841, 49884, 32, 51060, 54644, 44032, 32, 50504, 32, 46104, 45716, 32,
       48512, 48516, 51060, 32, 51080, 51004, 49888, 44032, 50836, 63] [] None,
     priority = 80, cooldownMs = 45000, lastTriggered = None\<rparr>,
    \<lparr>cid = js ''peer_teaching_opportunity'', cname = [80, 101, 101, 114, 32, 84, 101, 97, 99,
      104, 105, 110, 103, 32, 44592, 54924],
     condition = cond_peer_teaching,
     caction = PEER_TEACHING [] [] [],
     priority = 70, cooldownMs = 120000, lastTriggered = None\<rparr>,
    \<lparr>cid = js ''high_entropy_summary'', cname = [44256, 50644, 53944, 47196, 54588, 32, 50836, 50557],
     condition = cond_high_entropy,
     caction = SUMMARY_REQUEST [] [45796, 50577, 54620, 32, 51032, 44204, 51060, 32, 50724, 44032,
       44256, 32, 51080, 45348, 50836, 46, 32, 51648, 44552, 44620, 51648, 32, 45236, 50857, 51012, 32,
       51221, 47532, 54644, 48380, 44620, 50836, 63],
     priority = 60, cooldownMs = 180000, lastTriggered = None\<rparr>,
    \<lparr>cid = js ''disengagement_boost'', cname = [51060, 53448, 32, 52280, 50668, 51088, 32,
      46021, 47140],
     condition = cond_disengagement,
     caction = ENGAGEMENT_BOOST [] [45784, 51008, 32, 50612, 46523, 44172, 32, 49373, 44033, 54616,
       49464, 50836, 63],
     priority = 50, cooldownMs = 90000, lastTriggered = None\<rparr>,
    \<lparr>cid = js ''all_understood_advance'', cname = [51204, 50896, 32, 51060, 54644, 32, 49884,
      32, 51652, 54665],
     condition = cond_all_understood,
     caction = FOLLOW_UP_QUESTION [47784, 46160, 32, 51060, 54644, 54616, 49888, 32, 44163, 32, 44057,
       45348, 50836, 33, 32, 45908, 32, 44618, 51060, 32, 46308, 50612, 44032, 48380, 44620, 50836, 63]
       (js ''topic_mastered'') None,
     priority = 40, cooldownMs = 60000, lastTriggered = None\<rparr>]"

section \<open>Propagation\<close>

definition buildAction :: "WFCConstraint \<Rightarrow> PerplexitySession \<Rightarrow> PerplexityAction" where
  "buildAction c s =
     (let ps = jvals (participants s) in
      (case caction c of
         AI_INTERVENTION rs ts sr \<Rightarrow>
           AI_INTERVENTION rs (map participantId (filter (\<lambda>p. observedState p = Some confused) ps)) sr
       | PEER_TEACHING te ls tp \<Rightarrow>
           PEER_TEACHING
             (case find understands ps of None \<Rightarrow> [] | Some p \<Rightarrow> participantName p)
             (map participantName (filter (\<lambda>p. observedState p = Some confused) ps))
             (str_or (currentTopic s) [54788, 51116, 32, 51452, 51228])
       | ENGAGEMENT_BOOST ts sg \<Rightarrow>
           (let dis = filter (\<lambda>p. observedState p = Some disengaged) ps
            in ENGAGEMENT_BOOST (map participantId dis)
                 ((case dis of [] \<Rightarrow> js ''undefined'' | p # _ \<Rightarrow> participantName p) @ sg))
       | SUMMARY_REQUEST ts rs \<Rightarrow>
           (let tn = map topicName (filter (\<lambda>t. topic_state t = discussing \<or> topic_state t = clarifying)
                       (jvals (topics s)))
            in SUMMARY_REQUEST (if tn \<noteq> [] then tn else [[54788, 51116, 32, 45436, 51032, 32,
              45236, 50857]]) rs)
       | a \<Rightarrow> a))"

fun getAffectedParticipants :: "PerplexityAction \<Rightarrow> PerplexitySession \<Rightarrow> jstr list" where
  "getAffectedParticipants (AI_INTERVENTION rs ts sr) s = ts"
| "getAffectedParticipants (ENGAGEMENT_BOOST ts sg) s = ts"
| "getAffectedParticipants (PEER_TEACHING te ls tp) s = te # ls"
| "getAffectedParticipants (FOLLOW_UP_QUESTION q c ts) s =
     (case ts of Some xs \<Rightarrow> xs | None \<Rightarrow> jkeys (participants s))"
| "getAffectedParticipants a s = jkeys (participants s)"

definition coolingDown :: "int \<Rightarrow> WFCConstraint \<Rightarrow> bool" where
  "coolingDown now c \<longleftrightarrow>
     truthy_num (lastTriggered c) \<and> now - the (lastTriggered c) < cooldownMs c"

text \<open>The loop over the sorted constraints: the first that is off cooldown and holds.\<close>

fun firstTriggered :: "int \<Rightarrow> PerplexitySession \<Rightarrow> WFCConstraint list \<Rightarrow> WFCConstraint option" where
  "firstTriggered now s [] = None"
| "firstTriggered now s (c # cs) =
     (if coolingDown now c then firstTriggered now s cs
      else if condition c now s then Some c
      else firstTriggered now s cs)"

definition setTriggered :: "jstr \<Rightarrow> int \<Rightarrow> WFCConstraint list \<Rightarrow> WFCConstraint list" where
  "setTriggered i now cs = map (\<lambda>c. if cid c = i then c\<lparr>lastTriggered := Some now\<rparr> else c) cs"

definition propagate ::
  "int \<Rightarrow> PerplexitySession \<Rightarrow> WFCConstraint list \<Rightarrow> PropagationResult \<times> WFCConstraint list" where
  "propagate now s engine =
     (let sorted = sort_key (\<lambda>c. - priority c) engine;
          change = calculateSessionEntropy s - sessionEntropy s
      in case firstTriggered now s sorted of
           None \<Rightarrow> (\<lparr>triggeredConstraints = [], actions = [], entropyChange = change,
                     affectedParticipants = []\<rparr>, engine)
         | Some c \<Rightarrow>
             (let a = buildAction c s
              in (\<lparr>triggeredConstraints = [cid c], actions = [a], entropyChange = change,
                   affectedParticipants = getAffectedParticipants a s\<rparr>,
                  setTriggered (cid c) now engine)))"

section \<open>Cells stay well formed\<close>

text \<open>
  A cell lists no state twice, so at most six; its entropy is 0 or the share of the six states
  still possible; the confusion counter is not negative.
\<close>

definition cell_ok :: "ParticipantCell \<Rightarrow> bool" where
  "cell_ok c \<longleftrightarrow> distinct (possibleStates c) \<and> 0 \<le> confusionCount c \<and>
     (entropy c = 0 \<or> entropy c = of_nat (length (possibleStates c)) / 6)"

definition session_ok :: "PerplexitySession \<Rightarrow> bool" where
  "session_ok s \<longleftrightarrow> jwf (participants s) \<and> (\<forall>c \<in> set (jvals (participants s)). cell_ok c)"

lemma states_le_6: "distinct (xs :: CognitiveState list) \<Longrightarrow> length xs \<le> 6"
proof -
  assume d: "distinct xs"
  have "set xs \<subseteq> {confused, absorbing, thinking, contributing, understood, disengaged}"
    using CognitiveState.exhaust by blast
  then have "card (set xs) \<le> card {confused, absorbing, thinking, contributing, understood, disengaged}"
    by (rule card_mono [rotated]) simp
  with d show ?thesis by (simp add: distinct_card)
qed

lemma cell_ok_entropy: "cell_ok c \<Longrightarrow> 0 \<le> entropy c \<and> entropy c \<le> 1"
  using states_le_6 [of "possibleStates c"] by (auto simp: cell_ok_def)

lemma cell_ok_create [simp]: "cell_ok (createParticipantCell now i n)"
  by (simp add: cell_ok_def createParticipantCell_def)

lemma collapse_high:
  "7 / 10 \<le> conf \<Longrightarrow> possibleStates (collapseState now c obs conf) = [obs] \<and>
     observedState (collapseState now c obs conf) = Some obs \<and> entropy (collapseState now c obs conf) = 0"
  by (simp add: collapseState_def Let_def)

lemma collapse_mid:
  assumes "5 / 10 \<le> conf" and "conf < 7 / 10"
  shows "possibleStates (collapseState now c obs conf) =
    filter (\<lambda>s. s = obs \<or> isCompatibleState s obs) (possibleStates c)"
  using assms by (auto simp: collapseState_def Let_def split: list.splits)

lemma collapse_low:
  assumes "conf < 5 / 10"
  shows "possibleStates (collapseState now c obs conf) =
      (if obs \<in> set (possibleStates c) then possibleStates c else possibleStates c @ [obs])"
    and "observedState (collapseState now c obs conf) = observedState c"
  using assms by (auto simp: collapseState_def Let_def)

lemma collapse_count:
  "confusionCount (collapseState now c obs conf) =
     (if obs = confused then confusionCount c + 1
      else if obs = understood \<or> obs = contributing then max 0 (confusionCount c - 1)
      else confusionCount c)"
  by (auto simp: collapseState_def Let_def split: list.splits)

lemma collapse_entropy:
  "entropy (collapseState now c obs conf) = 0 \<or>
   entropy (collapseState now c obs conf) = of_nat (length (possibleStates (collapseState now c obs conf))) / 6"
  by (auto simp: collapseState_def Let_def split: list.splits)

lemma collapse_distinct:
  assumes "distinct (possibleStates c)"
  shows "distinct (possibleStates (collapseState now c obs conf))"
proof -
  consider "7 / 10 \<le> conf" | "5 / 10 \<le> conf" "conf < 7 / 10" | "conf < 5 / 10" by linarith
  then show ?thesis
    by cases (use assms in \<open>simp_all add: collapse_high collapse_mid collapse_low\<close>)
qed

lemma cell_ok_collapse: "cell_ok c \<Longrightarrow> cell_ok (collapseState now c obs conf)"
  using collapse_entropy [of now c obs conf]
  by (auto simp: cell_ok_def collapse_count collapse_distinct)

lemma collapse_ids [simp]:
  "participantId (collapseState now c obs conf) = participantId c"
  "participantName (collapseState now c obs conf) = participantName c"
  "textInferredAt (collapseState now c obs conf) = textInferredAt c"
  "confidence (collapseState now c obs conf) = conf"
  "lastUpdate (collapseState now c obs conf) = now"
  by (auto simp: collapseState_def Let_def split: list.splits)

lemma session_entropy_bounds:
  assumes "session_ok s"
  shows "0 \<le> calculateSessionEntropy s \<and> calculateSessionEntropy s \<le> 1"
proof -
  let ?ps = "jvals (participants s)"
  have b: "\<forall>c \<in> set ?ps. 0 \<le> entropy c \<and> entropy c \<le> 1"
    using assms cell_ok_entropy by (auto simp: session_ok_def)
  have "0 \<le> sum_list (map entropy ps) \<and> sum_list (map entropy ps) \<le> of_nat (length ps)"
    if "\<forall>c \<in> set ps. 0 \<le> entropy c \<and> entropy c \<le> 1" for ps :: "ParticipantCell list"
    using that by (induction ps) auto
  from this [OF b] show ?thesis
    by (auto simp: calculateSessionEntropy_def Let_def divide_le_eq_1 zero_le_divide_iff)
qed

section \<open>Which constraint is triggered\<close>

definition ready :: "int \<Rightarrow> PerplexitySession \<Rightarrow> WFCConstraint \<Rightarrow> bool" where
  "ready now s c \<longleftrightarrow> \<not> coolingDown now c \<and> condition c now s"

lemma firstTriggered_find: "firstTriggered now s cs = find (ready now s) cs"
  by (induction cs) (auto simp: ready_def)

lemma find_sorted_min:
  assumes "find P (sort_key f xs) = Some x" and "y \<in> set xs" and "P y"
  shows "f x \<le> (f y :: int)"
proof -
  obtain i where i: "i < length (sort_key f xs)" "sort_key f xs ! i = x"
    and before: "\<forall>j < i. \<not> P (sort_key f xs ! j)"
    using assms(1) by (auto simp: find_Some_iff)
  obtain j where j: "j < length (sort_key f xs)" "sort_key f xs ! j = y"
    using assms(2) by (metis in_set_conv_nth set_sort)
  with before assms(3) have "i \<le> j" by (meson not_le_imp_less)
  have s: "sorted (map f (sort_key f xs))" by (rule sorted_sort_key)
  have "map f (sort_key f xs) ! i \<le> map f (sort_key f xs) ! j"
    using sorted_nth_mono [OF s \<open>i \<le> j\<close>] j(1) by simp
  with i j show ?thesis by simp
qed

lemma find_sorted_None: "find P (sort_key f xs) = None \<longleftrightarrow> (\<forall>x \<in> set xs. \<not> P x)"
  by (auto simp: find_None_iff)

lemma propagate_cases:
  "(actions (fst (propagate now s engine)) = [] \<and> snd (propagate now s engine) = engine \<and>
      (\<forall>c \<in> set engine. \<not> ready now s c)) \<or>
   (\<exists>c \<in> set engine. ready now s c \<and> (\<forall>d \<in> set engine. ready now s d \<longrightarrow> priority d \<le> priority c) \<and>
      actions (fst (propagate now s engine)) = [buildAction c s] \<and>
      triggeredConstraints (fst (propagate now s engine)) = [cid c] \<and>
      snd (propagate now s engine) = setTriggered (cid c) now engine)"
proof (cases "firstTriggered now s (sort_key (\<lambda>c. - priority c) engine)")
  case None
  then have "\<forall>c \<in> set engine. \<not> ready now s c"
    by (simp add: firstTriggered_find find_sorted_None)
  with None show ?thesis by (simp add: propagate_def Let_def)
next
  case (Some c)
  then have f: "find (ready now s) (sort_key (\<lambda>c. - priority c) engine) = Some c"
    by (simp add: firstTriggered_find)
  then have "c \<in> set engine" and "ready now s c"
    by (auto simp: find_Some_iff) (metis nth_mem length_sort set_sort)
  moreover have "priority d \<le> priority c" if "d \<in> set engine" "ready now s d" for d
    using find_sorted_min [OF f that] by simp
  ultimately show ?thesis
    using Some by (auto simp: propagate_def Let_def)
qed

lemma cids_setTriggered [simp]: "map cid (setTriggered i now cs) = map cid cs"
  by (induction cs) (auto simp: setTriggered_def)

section \<open>Properties\<close>

text \<open>
  Propagation triggers at most one constraint: none when no constraint is both off cooldown
  and satisfied, otherwise one of highest priority among those, whose action alone is emitted and
  whose cooldown alone is restarted.
\<close>

theorem propagate_highest_priority:
  "(actions (fst (propagate now s engine)) = [] \<and> snd (propagate now s engine) = engine \<and>
      (\<forall>c \<in> set engine. \<not> ready now s c)) \<or>
   (\<exists>c \<in> set engine. ready now s c \<and> (\<forall>d \<in> set engine. ready now s d \<longrightarrow> priority d \<le> priority c) \<and>
      actions (fst (propagate now s engine)) = [buildAction c s] \<and>
      triggeredConstraints (fst (propagate now s engine)) = [cid c] \<and>
      snd (propagate now s engine) = setTriggered (cid c) now engine)"
  by (rule propagate_cases)

text \<open>A session in which everybody is confused, used by the witnesses.\<close>

definition confused_cell :: "jstr \<Rightarrow> ParticipantCell" where
  "confused_cell i = collapseState 0 (createParticipantCell 0 i i) confused (9 / 10)"

definition confused_session :: "jstr \<Rightarrow> PerplexitySession" where
  "confused_session r = \<lparr>ps_roomId = r, isActive = True, startTime = 0,
     participants = [([1], confused_cell [1])], topics = [], currentTopic = None, sessionEntropy = 1,
     entropyLevel = high, actionHistory = [], lastPropagation = 0, recentTranscripts = []\<rparr>"

lemma confused_session_cond: "cond_confusion_intervention now (confused_session r)"
  by (simp add: cond_confusion_intervention_def confused_session_def confused_cell_def jvals_def
      countState_def collapse_high)

theorem propagate_highest_priority_witness:
  "actions (fst (propagate 1000 (confused_session [7]) DEFAULT_CONSTRAINTS)) \<noteq> []"
proof -
  have "ready 1000 (confused_session [7]) (hd DEFAULT_CONSTRAINTS)"
    by (simp add: ready_def DEFAULT_CONSTRAINTS_def coolingDown_def truthy_num_def confused_session_cond)
  moreover have "hd DEFAULT_CONSTRAINTS \<in> set DEFAULT_CONSTRAINTS"
    by (simp add: DEFAULT_CONSTRAINTS_def)
  ultimately show ?thesis
    using propagate_highest_priority [of 1000 "confused_session [7]" DEFAULT_CONSTRAINTS] by auto
qed

text \<open>
  Observing a participant keeps the cell well formed whatever the confidence: no state is
  listed twice, the entropy lies between 0 and 1, and the confusion counter is never negative.
  With confidence at least 0.7 the cell collapses to the observed state with entropy 0.
\<close>

theorem collapse_well_formed:
  assumes "cell_ok c"
  shows "cell_ok (collapseState now c obs conf) \<and>
    0 \<le> entropy (collapseState now c obs conf) \<and> entropy (collapseState now c obs conf) \<le> 1 \<and>
    (7 / 10 \<le> conf \<longrightarrow> possibleStates (collapseState now c obs conf) = [obs] \<and>
       observedState (collapseState now c obs conf) = Some obs \<and> entropy (collapseState now c obs conf) = 0)"
  using cell_ok_collapse [OF assms] cell_ok_entropy collapse_high by blast

theorem collapse_well_formed_witness:
  "entropy (collapseState 5 (createParticipantCell 0 [1] [2]) thinking (6 / 10)) \<le> 1 \<and>
   possibleStates (collapseState 5 (createParticipantCell 0 [1] [2]) thinking (8 / 10)) = [thinking]"
  using collapse_well_formed [OF cell_ok_create, of 5 0 "[1]" "[2]" thinking "6 / 10"]
    collapse_well_formed [OF cell_ok_create, of 5 0 "[1]" "[2]" thinking "8 / 10"] by simp

text \<open>
  A medium-confidence observation can empty a cell: once collapsed to a state from which the
  new observation is not reachable in the compatibility table, no state remains possible, the
  entropy is 0, and the cell still reports the old observed state.
\<close>

theorem collapse_contradiction:
  assumes "possibleStates c = [old]" and "observedState c = Some old"
    and "old \<noteq> obs" and "\<not> isCompatibleState old obs" and "5 / 10 \<le> conf" and "conf < 7 / 10"
  shows "possibleStates (collapseState now c obs conf) = [] \<and>
    entropy (collapseState now c obs conf) = 0 \<and>
    observedState (collapseState now c obs conf) = Some old"
  using assms by (auto simp: collapseState_def Let_def)

theorem collapse_contradiction_witness:
  "possibleStates (collapseState 1 (collapseState 0 (createParticipantCell 0 [1] [1]) understood (9 / 10))
     confused (6 / 10)) = []"
  using collapse_contradiction [of "collapseState 0 (createParticipantCell 0 [1] [1]) understood (9 / 10)"
      understood confused "6 / 10" 1]
  by (simp add: collapse_high isCompatibleState_def)

text \<open>
  The individual-support rule is documented to fire after three consecutive confused
  observations, but the counter survives other observations: confused, thinking, confused,
  absorbing, confused reaches the threshold without two confused observations in a row.
\<close>

theorem confusion_not_consecutive:
  "let c = fold (\<lambda>ob c. collapseState 0 c ob conf) [confused, thinking, confused, absorbing, confused]
             (createParticipantCell 0 i n)
   in confusionCount c = 3 \<and>
      cond_single_confusion 0 (confused_session r\<lparr>participants := [(i, c)]\<rparr>)"
  by (simp add: collapse_count cond_single_confusion_def jvals_def createParticipantCell_def)

end
