(* ===== verification/Perplexity.thy ===== *)
theory Perplexity
  imports WfcEngine
begin

text \<open>
  The Perplexity service, \<open>src/perplexity/perplexity.service.ts\<close>: sessions per room, participants,
  state updates from the front end, transcripts with text-based inference, rate-limited
  propagation and the message handler. The language model is a parameter: \<open>llm prompt\<close> is \<open>None\<close>
  when the call rejects. Every handler is synchronous up to the call of the model, so one handler
  is one step at one time \<open>now\<close>.
\<close>

record perplexity_st =
  sessions :: "(jstr, PerplexitySession) jmap"
  engine :: "WFCConstraint list"

definition init_perplexity :: perplexity_st where
  "init_perplexity = \<lparr>sessions = [], engine = DEFAULT_CONSTRAINTS\<rparr>"

definition MIN_PROPAGATION_INTERVAL_MS :: int where "MIN_PROPAGATION_INTERVAL_MS = 500"

definition MAX_TRANSCRIPTS :: nat where "MAX_TRANSCRIPTS = 50"

definition TEXT_STATE_PROTECTION_MS :: int where "TEXT_STATE_PROTECTION_MS = 5000"

section \<open>Sessions and participants\<close>

definition newSession :: "int \<Rightarrow> jstr \<Rightarrow> PerplexitySession" where
  "newSession now r = \<lparr>ps_roomId = r, isActive = True, startTime = now, participants = [],
     topics = [], currentTopic = None, sessionEntropy = 1, entropyLevel = high, actionHistory = [],
     lastPropagation = 0, recentTranscripts = []\<rparr>"

definition putSession :: "jstr \<Rightarrow> PerplexitySession \<Rightarrow> perplexity_st \<Rightarrow> perplexity_st" where
  "putSession r s st = st\<lparr>sessions := jset r s (sessions st)\<rparr>"

definition startSession :: "int \<Rightarrow> jstr \<Rightarrow> perplexity_st \<Rightarrow> PerplexitySession \<times> perplexity_st" where
  "startSession now r st = (let s = newSession now r in (s, putSession r s st))"

definition endSession :: "jstr \<Rightarrow> perplexity_st \<Rightarrow> PerplexitySession option \<times> perplexity_st" where
  "endSession r st = (case jget (sessions st) r of
      None \<Rightarrow> (None, st)
    | Some s \<Rightarrow> (Some (s\<lparr>isActive := False\<rparr>), st\<lparr>sessions := jdel r (sessions st)\<rparr>))"

definition getSession :: "jstr \<Rightarrow> perplexity_st \<Rightarrow> PerplexitySession option" where
  "getSession r st = jget (sessions st) r"

definition isSessionActive :: "jstr \<Rightarrow> perplexity_st \<Rightarrow> bool" where
  "isSessionActive r st = (case jget (sessions st) r of None \<Rightarrow> False | Some s \<Rightarrow> isActive s)"

definition addParticipant :: "int \<Rightarrow> jstr \<Rightarrow> jstr \<Rightarrow> jstr \<Rightarrow> perplexity_st \<Rightarrow> perplexity_st" where
  "addParticipant now r pid name st = (case jget (sessions st) r of
      None \<Rightarrow> st
    | Some s \<Rightarrow>
        if jhas (participants s) pid then st
        else putSession r (s\<lparr>participants :=
               jset pid (createParticipantCell now pid name) (participants s)\<rparr>) st)"

definition removeParticipant :: "jstr \<Rightarrow> jstr \<Rightarrow> perplexity_st \<Rightarrow> perplexity_st" where
  "removeParticipant r pid st = (case jget (sessions st) r of
      None \<Rightarrow> st
    | Some s \<Rightarrow> putSession r (s\<lparr>participants := jdel pid (participants s)\<rparr>) st)"

section \<open>Propagation with a minimum interval\<close>

definition tryPropagate :: "int \<Rightarrow> PerplexitySession \<Rightarrow> WFCConstraint list \<Rightarrow>
    PropagationResult option \<times> PerplexitySession \<times> WFCConstraint list" where
  "tryPropagate now s eng =
     (if now - lastPropagation s < MIN_PROPAGATION_INTERVAL_MS then (None, s, eng)
      else
        let s1 = s\<lparr>lastPropagation := now\<rparr>;
            (res, eng1) = propagate now s1 eng;
            s2 = s1\<lparr>actionHistory := actionHistory s1 @ map (\<lambda>a. (a, now)) (actions res)\<rparr>
        in (Some res, s2, eng1))"

definition propagateRoom :: "int \<Rightarrow> jstr \<Rightarrow> PerplexitySession \<Rightarrow> perplexity_st \<Rightarrow>
    PropagationResult option \<times> perplexity_st" where
  "propagateRoom now r s st =
     (let (res, s1, eng) = tryPropagate now s (engine st)
      in (res, (putSession r s1 st)\<lparr>engine := eng\<rparr>))"

section \<open>Updates from the front end\<close>

record StateUpdate =
  su_participantId :: jstr
  su_state :: "CognitiveState option"
  su_confidence :: "rat option"

definition handleStateUpdate :: "int \<Rightarrow> jstr \<Rightarrow> StateUpdate \<Rightarrow> perplexity_st \<Rightarrow>
    PropagationResult option \<times> perplexity_st" where
  "handleStateUpdate now r u st = (case jget (sessions st) r of
      None \<Rightarrow> (None, st)
    | Some s \<Rightarrow>
        if \<not> isActive s then (None, st)
        else (case jget (participants s) (su_participantId u) of
            None \<Rightarrow> (None, st)
          | Some cell \<Rightarrow>
              let s1 = (case su_state u of
                    None \<Rightarrow> s
                  | Some x \<Rightarrow> s\<lparr>participants := jset (su_participantId u)
                      (collapseState now cell x (case su_confidence u of None \<Rightarrow> 0 | Some c \<Rightarrow> c))
                      (participants s)\<rparr>)
              in propagateRoom now r s1 st))"

text \<open>A cell whose state was inferred from text less than five seconds ago.\<close>

definition textProtected :: "int \<Rightarrow> ParticipantCell \<Rightarrow> bool" where
  "textProtected now c \<longleftrightarrow> textInferredAt c > 0 \<and> now - textInferredAt c < TEXT_STATE_PROTECTION_MS"

definition applyReport :: "int \<Rightarrow> StateUpdate \<Rightarrow> PerplexitySession \<Rightarrow> PerplexitySession" where
  "applyReport now u s = (case jget (participants s) (su_participantId u) of
      None \<Rightarrow> s
    | Some cell \<Rightarrow>
        (case su_state u of
           None \<Rightarrow> s
         | Some x \<Rightarrow>
             if textProtected now cell then s
             else s\<lparr>participants := jset (su_participantId u)
               (collapseState now cell x (case su_confidence u of None \<Rightarrow> 7 / 10 | Some c \<Rightarrow> c))
               (participants s)\<rparr>))"

definition handleEntropyReport :: "int \<Rightarrow> jstr \<Rightarrow> StateUpdate list \<Rightarrow> perplexity_st \<Rightarrow>
    PropagationResult option \<times> perplexity_st" where
  "handleEntropyReport now r us st = (case jget (sessions st) r of
      None \<Rightarrow> (None, st)
    | Some s \<Rightarrow>
        if \<not> isActive s then (None, st)
        else propagateRoom now r (updateSessionEntropy (fold (applyReport now) us s)) st)"

section \<open>Transcripts\<close>

definition confusedPatterns :: "jstr list" where
  "confusedPatterns = [[47784, 47476, 44192], [54775, 44040], [51060, 54644, 44032, 32, 50504], [47952,
    51648], [50612, 47140], [48373, 51105], [47924, 49832, 32, 47568], [49789, 51648, 32, 50506],
     [50504, 32, 46104], [55192, 46308]]"

definition understoodPatterns :: "jstr list" where
  "understoodPatterns = [[44536, 47111, 51648], [47582, 50500], [50508, 44192], [50508, 50520], [51060,
    54644, 54664], [51060, 54644, 46096], [50500, 54616], [50724, 52992, 51060], [45365],
     [44536, 47111, 44396, 45208], [44536, 47088, 32, 44144], [44536, 44144, 44396, 45208]]"

text \<open>A run of one or more of a letter occurs exactly where the letter does.\<close>

definition thinkingPatterns :: "jstr list" where
  "thinkingPatterns = [[51020], [55136], [51104, 44624], [44536, 47084, 45768, 44620], [49373, 44033,
    54644, 48372, 47732], [44540, 45936], [44536, 44172]]"

definition contributingPatterns :: "jstr list" where
  "contributingPatterns = [[63], [51228, 32, 49373, 44033, 50640, 45716], [50780, 45264, 54616, 47732],
    [50696, 47484, 32, 46308, 50612], [49444, 47749, 54616, 51088, 47732]]"

definition matches :: "jstr list \<Rightarrow> jstr \<Rightarrow> bool" where
  "matches ps t = list_ex (\<lambda>p. str_includes p t) ps"

definition inferStateFromTranscript :: "jstr \<Rightarrow> CognitiveState option" where
  "inferStateFromTranscript text =
     (let l = to_lower text
      in if matches confusedPatterns l then Some confused
         else if matches understoodPatterns l then Some understood
         else if matches thinkingPatterns l then Some thinking
         else if matches contributingPatterns l then Some contributing
         else None)"

definition pushTranscript :: "Transcript \<Rightarrow> Transcript list \<Rightarrow> Transcript list" where
  "pushTranscript t ts = (let xs = ts @ [t] in if length xs > MAX_TRANSCRIPTS then tl xs else xs)"

definition addTranscript :: "int \<Rightarrow> jstr \<Rightarrow> jstr \<Rightarrow> jstr \<Rightarrow> perplexity_st \<Rightarrow>
    CognitiveState option \<times> perplexity_st" where
  "addTranscript now r pid text st = (case jget (sessions st) r of
      None \<Rightarrow> (None, st)
    | Some s \<Rightarrow>
        if \<not> isActive s then (None, st)
        else
          let s1 = s\<lparr>recentTranscripts := pushTranscript
                \<lparr>tr_participantId = pid, tr_text = text, tr_timestamp = now\<rparr> (recentTranscripts s)\<rparr>;
              inferred = inferStateFromTranscript text;
              s2 = (case inferred of
                  None \<Rightarrow> s1
                | Some x \<Rightarrow> (case jget (participants s1) pid of
                      None \<Rightarrow> s1
                    | Some cell \<Rightarrow> s1\<lparr>participants := jset pid
                        ((collapseState now cell x (9 / 10))\<lparr>textInferredAt := now\<rparr>) (participants s1)\<rparr>))
          in (inferred, putSession r s2 st))"

section \<open>Responses\<close>

fun stateLabel :: "CognitiveState \<Rightarrow> jstr" where
  "stateLabel confused = js ''confused''"
| "stateLabel absorbing = js ''absorbing''"
| "stateLabel thinking = js ''thinking''"
| "stateLabel contributing = js ''contributing''"
| "stateLabel understood = js ''understood''"
| "stateLabel disengaged = js ''disengaged''"

definition conversationContext :: "PerplexitySession \<Rightarrow> jstr" where
  "conversationContext s =
     (let recent = lastN 8 (recentTranscripts s)
      in if recent \<noteq> [] then
           join [10] (map (\<lambda>t.
             (let name = str_or (map_option participantName (jget (participants s) (tr_participantId t)))
                           (tr_participantId t)
              in name @ [58, 32, 34] @ tr_text t @ [34])) recent)
         else [40, 50500, 51649, 32, 45824, 54868, 32, 50630, 51020, 41])"

definition participantStates :: "PerplexitySession \<Rightarrow> jstr" where
  "participantStates s = join [44, 32]
     (map (\<lambda>p. participantName p @ [58, 32] @
        (case observedState p of None \<Rightarrow> [54028, 50501,
          51473] | Some x \<Rightarrow> stateLabel x)) (jvals (participants s)))"

definition instruction :: "PerplexitySession \<Rightarrow> jstr" where
  "instruction s = trim ([10, 45817, 49888, 51008, 32, 49828, 53552, 46356, 32, 49464, 49496, 51032,
    32, 51652, 54665, 51088, 51077, 45768, 45796, 46, 10, 50500, 47000, 32, 45824, 54868, 32, 47928,
    47589, 44284, 32, 52280, 50668, 51088, 32, 49345, 53468, 47484, 32, 48372, 44256, 44, 32, 49345,
    54889, 50640, 32, 47582, 45716, 32, 51088, 50672, 49828, 47084, 50868, 32, 54620, 32, 47928, 51109,
    47564, 32, 52636, 47141, 54616, 49464, 50836, 46, 10, 49444, 47749, 51060, 45208, 32, 51060, 50976,
    32, 50630, 51060, 32, 47568, 54624, 32, 47928, 51109, 47564, 32, 52636, 47141, 54616, 49464, 50836,
    46, 10, 10, 91, 52572, 44540, 32, 45824, 54868, 93, 10] @ conversationContext s @ [10, 10, 91,
    52280, 50668, 51088, 32, 49345, 53468, 93, 10] @ participantStates s @ [10])"

text \<open>The text before the first occurrence of the separator, or all of it.\<close>

fun beforeSep :: "jstr \<Rightarrow> jstr \<Rightarrow> jstr" where
  "beforeSep sep [] = []"
| "beforeSep sep (c # cs) = (if starts_with sep (c # cs) then [] else c # beforeSep sep cs)"

definition interventionPrompt :: "PerplexitySession \<Rightarrow> PerplexityAction \<Rightarrow> jstr option" where
  "interventionPrompt s a = (case a of
      AI_INTERVENTION rs ts sr \<Rightarrow> Some (instruction s @ [10, 10, 91, 49345, 54889, 93, 32,
        51068, 48512, 32, 52280, 50668, 51088, 44032, 32, 50612, 47140, 50892, 54616, 44256, 32, 51080,
        49845, 45768, 45796, 46, 32, 45824, 54868, 32, 45236, 50857, 51012, 32, 48372, 44256, 32,
        50612, 46500, 32, 48512, 48516, 51060, 32, 50612, 47140, 50868, 51648, 32, 54028, 50501, 54644,
        49436, 32, 46020, 50880, 51012, 32, 51228, 50504, 54616, 49464, 50836, 46, 10, 50696, 49884,
        32, 54805, 49885, 58, 32, 34, 54841, 49884, 32, 91, 44396, 52404, 51201, 32, 51452, 51228, 93,
        32, 48512, 48516, 51060, 32, 54775, 44040, 47532, 49884, 45208, 50836, 63, 32, 51228, 44032,
        32, 45796, 49884, 32, 49444, 47749, 54644, 46300, 47540, 44620, 50836, 63, 34])
    | FOLLOW_UP_QUESTION q c ts \<Rightarrow> Some (instruction s @ [10, 10, 91, 49345, 54889, 93, 32,
      47784, 46160, 44032, 32, 54788, 51116, 32, 51452, 51228, 47484, 32, 51060, 54644, 54620, 32,
      44163, 32, 44057, 49845, 45768, 45796, 46, 32, 45824, 54868, 32, 45236, 50857, 51012, 32, 48372,
      44256, 32, 45908, 32, 44618, 51060, 32, 53456, 44396, 54624, 32, 49688, 32, 51080, 45716, 32,
      49900, 54868, 32, 51656, 47928, 51012, 32, 54616, 49464, 50836, 46, 10, 50696, 49884, 32, 54805,
      49885, 58, 32, 34, 44536, 47100, 32, 91, 44288, 47144, 32, 44060, 45392, 93, 51008, 32, 50612,
      46523, 44172, 32, 46112, 44620, 50836, 63, 34, 32, 46608, 45716, 32, 34, 49892, 51228, 47196, 32,
      51201, 50857, 54616, 47732, 32, 50612, 46500, 32, 51216, 51060, 32, 45804, 46972, 51656, 44620,
      50836, 63, 34])
    | PEER_TEACHING te ls tp \<Rightarrow> Some (instruction s @ [10, 10, 91, 49345, 54889, 93,
      32] @ te @ [45784, 51060, 32, 51060, 54644, 54616, 44256, 32, 51080, 44256, 44, 32, 45796, 47480,
      32, 48516, 46308, 51060, 32, 50612, 47140, 50892, 54633, 45768, 45796, 46, 32] @ te @ [45784,
      44760, 32, 49444, 47749, 51012, 32, 48512, 53441, 54616, 49464, 50836, 46, 10, 50696, 49884, 32,
      54805, 49885, 58, 32, 34] @ te @ [45784, 44, 32, 54841, 49884, 32, 91, 54644, 45817, 32, 51452,
      51228, 93, 50640, 32, 45824, 54644, 32, 49444, 47749, 54644, 51452, 49892, 32, 49688, 32, 51080,
      51012, 44620, 50836, 63, 34])
    | SUMMARY_REQUEST ts rs \<Rightarrow> Some (instruction s @ [10, 10, 91, 49345, 54889, 93, 32,
      45796, 50577, 54620, 32, 51032, 44204, 51060, 32, 50724, 44032, 44256, 32, 51080, 49845, 45768,
      45796, 46, 32, 51648, 44552, 44620, 51648, 32, 45436, 51032, 46108, 32, 45236, 50857, 51012, 32,
      51221, 47532, 54616, 51088, 44256, 32, 51228, 50504, 54616, 49464, 50836, 46, 10, 50696, 49884,
      32, 54805, 49885, 58, 32, 34, 51104, 44624, 44, 32, 91, 51452, 51228, 93, 50640, 32, 45824,
      54644, 32, 51221, 47532, 54616, 44256, 32, 45336, 50612, 44040, 44620, 50836, 63, 34])
    | ENGAGEMENT_BOOST ts sg \<Rightarrow>
        (let nm = str_or (Some (beforeSep [45784] sg)) [52280, 50668, 51088]
         in Some (instruction s @ [10, 10, 91, 49345, 54889, 93, 32] @ nm @ [45784, 51060, 32, 51104,
           49884, 32, 51665, 51473, 51060, 32, 55120, 53944, 47084, 51652, 32, 44163, 32, 44057, 49845,
           45768, 45796, 46, 32, 51088, 50672, 49828, 47101, 44172, 32, 52280, 50668, 47484, 32, 50976,
           46020, 54616, 49464, 50836, 46, 10, 50696, 49884, 32, 54805, 49885, 58, 32,
           34] @ nm @ [45784, 51008, 32, 50612, 46523, 44172, 32, 49373, 44033, 54616, 49464, 50836,
           63, 34, 32, 46608, 45716, 32, 34] @ nm @ [45784, 46020, 32, 48708, 49847, 54620, 32, 44221,
           54744, 32, 51080, 51004, 49888, 44032, 50836, 63, 34]))
    | TOPIC_TRANSITION f t rs \<Rightarrow> None)"

text \<open>Trim, drop one quotation mark at either end, keep the first line.\<close>

definition isQuote :: "int \<Rightarrow> bool" where
  "isQuote c \<longleftrightarrow> c = 34 \<or> c = 39"

definition cleanResponse :: "jstr \<Rightarrow> jstr" where
  "cleanResponse resp =
     (let t = trim resp;
          t1 = (case t of [] \<Rightarrow> [] | c # cs \<Rightarrow> if isQuote c then cs else t);
          t2 = (if t1 \<noteq> [] \<and> isQuote (last t1) then butlast t1 else t1)
      in takeWhile (\<lambda>c. c \<noteq> 10) t2)"

definition generateInterventionResponse ::
  "(jstr \<Rightarrow> jstr option) \<Rightarrow> jstr \<Rightarrow> PerplexityAction \<Rightarrow> perplexity_st \<Rightarrow> jstr option" where
  "generateInterventionResponse llm r a st = (case jget (sessions st) r of
      None \<Rightarrow> None
    | Some s \<Rightarrow> Option.bind (interventionPrompt s a) (\<lambda>p. map_option cleanResponse (llm p)))"

section \<open>Messages\<close>

datatype PerplexityMessage =
    PERPLEXITY_START
  | PERPLEXITY_END
  | STATE_UPDATE StateUpdate
  | ENTROPY_REPORT "StateUpdate list"
  | TRANSCRIPT jstr jstr
  | OtherMessage

text \<open>
  The reply to a propagation: the first action with the model's sentence (an empty sentence
  counts as none), or no reply.
\<close>

definition replyTo :: "(jstr \<Rightarrow> jstr option) \<Rightarrow> jstr \<Rightarrow> PropagationResult option \<times> perplexity_st \<Rightarrow>
    (PerplexityAction \<times> jstr option) option \<times> perplexity_st" where
  "replyTo llm r rs = (case rs of (res, st) \<Rightarrow>
     (case res of
        None \<Rightarrow> (None, st)
      | Some p \<Rightarrow> (case actions p of
            [] \<Rightarrow> (None, st)
          | a # _ \<Rightarrow>
              (let resp = generateInterventionResponse llm r a st
               in (Some (a, if truthy_str resp then resp else None), st)))))"

definition handleMessage :: "(jstr \<Rightarrow> jstr option) \<Rightarrow> int \<Rightarrow> jstr \<Rightarrow> PerplexityMessage \<Rightarrow> perplexity_st \<Rightarrow>
    (PerplexityAction \<times> jstr option) option \<times> perplexity_st" where
  "handleMessage llm now r m st = (case m of
      PERPLEXITY_START \<Rightarrow> (None, snd (startSession now r st))
    | PERPLEXITY_END \<Rightarrow> (None, snd (endSession r st))
    | STATE_UPDATE u \<Rightarrow> replyTo llm r (handleStateUpdate now r u st)
    | ENTROPY_REPORT us \<Rightarrow> replyTo llm r (handleEntropyReport now r us st)
    | TRANSCRIPT pid text \<Rightarrow>
        (let (inferred, st1) = addTranscript now r pid text st
         in (case inferred of
               None \<Rightarrow> (None, st1)
             | Some x \<Rightarrow> (case jget (sessions st1) r of
                   None \<Rightarrow> (None, st1)
                 | Some s \<Rightarrow> replyTo llm r (propagateRoom now r (updateSessionEntropy s) st1))))
    | OtherMessage \<Rightarrow> (None, st))"

record SessionSummary =
  sm_isActive :: bool
  sm_participantCount :: nat
  sm_entropy :: rat
  sm_entropyLevel :: EntropyLevel
  sm_actionCount :: nat
  sm_duration :: int

definition getSessionSummary :: "int \<Rightarrow> jstr \<Rightarrow> perplexity_st \<Rightarrow> SessionSummary option" where
  "getSessionSummary now r st = map_option (\<lambda>s.
     \<lparr>sm_isActive = isActive s, sm_participantCount = length (participants s),
      sm_entropy = sessionEntropy s, sm_entropyLevel = entropyLevel s,
      sm_actionCount = length (actionHistory s), sm_duration = now - startTime s\<rparr>)
     (jget (sessions st) r)"

section \<open>The service invariant\<close>

definition room_ok :: "PerplexitySession \<Rightarrow> bool" where
  "room_ok s \<longleftrightarrow> session_ok s \<and> 0 \<le> sessionEntropy s \<and> sessionEntropy s \<le> 1 \<and>
     entropyLevel s = getEntropyLevel (sessionEntropy s) \<and>
     length (recentTranscripts s) \<le> MAX_TRANSCRIPTS"

definition perplexity_inv :: "perplexity_st \<Rightarrow> bool" where
  "perplexity_inv st \<longleftrightarrow> jwf (sessions st) \<and> (\<forall>s \<in> set (jvals (sessions st)). room_ok s)"

lemma perplexity_invD:
  "perplexity_inv st \<Longrightarrow> jget (sessions st) r = Some s \<Longrightarrow> room_ok s"
  by (auto simp: perplexity_inv_def jm.vals_iff)

lemma perplexity_inv_put: "perplexity_inv st \<Longrightarrow> room_ok s \<Longrightarrow> perplexity_inv (putSession r s st)"
  using jm.put_vals_all [of "sessions st" room_ok s r] by (simp add: perplexity_inv_def putSession_def)

lemma perplexity_inv_engine [simp]: "perplexity_inv (st\<lparr>engine := e\<rparr>) = perplexity_inv st"
  by (simp add: perplexity_inv_def)

lemma room_ok_new [simp]: "room_ok (newSession now r)"
  by (simp add: room_ok_def newSession_def session_ok_def getEntropyLevel_def jvals_def)

lemma room_ok_cell:
  assumes "room_ok s" and "cell_ok c"
  shows "room_ok (s\<lparr>participants := jset pid c (participants s)\<rparr>)"
  using assms jm.put_vals_all [of "participants s" cell_ok c pid] by (simp add: room_ok_def session_ok_def)

lemma room_ok_remove: "room_ok s \<Longrightarrow> room_ok (s\<lparr>participants := jdel pid (participants s)\<rparr>)"
  using jm.del_vals_all [of "participants s" cell_ok pid] by (simp add: room_ok_def session_ok_def)

lemma room_ok_getcell: "room_ok s \<Longrightarrow> jget (participants s) pid = Some c \<Longrightarrow> cell_ok c"
  by (auto simp: room_ok_def session_ok_def jm.vals_iff)

lemma room_ok_update: "room_ok s \<Longrightarrow> room_ok (updateSessionEntropy s)"
  using session_entropy_bounds [of s]
  by (simp add: room_ok_def updateSessionEntropy_def session_ok_def Let_def)

lemma room_ok_try:
  assumes "room_ok s" and "tryPropagate now s eng = (res, s', eng')"
  shows "room_ok s'"
  using assms by (auto simp: tryPropagate_def Let_def room_ok_def session_ok_def split: if_splits prod.splits)

lemma room_ok_report: "room_ok s \<Longrightarrow> room_ok (applyReport now u s)"
  by (auto simp: applyReport_def intro!: room_ok_cell cell_ok_collapse dest: room_ok_getcell split: option.splits)

lemma room_ok_reports: "room_ok s \<Longrightarrow> room_ok (fold (applyReport now) us s)"
  by (induction us arbitrary: s) (simp_all add: room_ok_report)

lemma push_bounded: "length ts \<le> MAX_TRANSCRIPTS \<Longrightarrow> length (pushTranscript t ts) \<le> MAX_TRANSCRIPTS"
  by (simp add: pushTranscript_def MAX_TRANSCRIPTS_def Let_def)

lemma inv_propagateRoom:
  assumes "perplexity_inv st" and "room_ok s"
  shows "perplexity_inv (snd (propagateRoom now r s st))"
proof -
  obtain res s1 eng where t: "tryPropagate now s (engine st) = (res, s1, eng)"
    by (cases "tryPropagate now s (engine st)")
  have "room_ok s1" using room_ok_try [OF assms(2) t] .
  with t assms(1) show ?thesis by (simp add: propagateRoom_def perplexity_inv_put)
qed

lemma snd_replyTo [simp]: "snd (replyTo llm r x) = snd x"
  by (auto simp: replyTo_def Let_def split: prod.splits option.splits list.splits)

lemma inv_start: "perplexity_inv st \<Longrightarrow> perplexity_inv (snd (startSession now r st))"
  by (simp add: startSession_def perplexity_inv_put Let_def)

lemma inv_end: "perplexity_inv st \<Longrightarrow> perplexity_inv (snd (endSession r st))"
  using jm.del_vals_all [of "sessions st" room_ok r]
  by (simp add: endSession_def perplexity_inv_def split: option.splits)

lemma inv_stateUpdate: "perplexity_inv st \<Longrightarrow> perplexity_inv (snd (handleStateUpdate now r u st))"
  by (auto simp: handleStateUpdate_def Let_def split: option.splits
      intro!: inv_propagateRoom room_ok_cell cell_ok_collapse dest: perplexity_invD room_ok_getcell)

lemma inv_report: "perplexity_inv st \<Longrightarrow> perplexity_inv (snd (handleEntropyReport now r us st))"
  by (auto simp: handleEntropyReport_def split: option.splits
      intro!: inv_propagateRoom room_ok_update room_ok_reports dest: perplexity_invD)

lemma inv_add: "perplexity_inv st \<Longrightarrow> perplexity_inv (addParticipant now r pid n st)"
  by (auto simp: addParticipant_def split: option.splits
      intro!: perplexity_inv_put room_ok_cell dest: perplexity_invD)

lemma inv_remove: "perplexity_inv st \<Longrightarrow> perplexity_inv (removeParticipant r pid st)"
  by (auto simp: removeParticipant_def split: option.splits
      intro!: perplexity_inv_put room_ok_remove dest: perplexity_invD)

lemma room_ok_push:
  "room_ok s \<Longrightarrow> room_ok (s\<lparr>recentTranscripts := pushTranscript t (recentTranscripts s)\<rparr>)"
  by (simp add: room_ok_def session_ok_def push_bounded)

lemma cell_ok_text [simp]: "cell_ok (c\<lparr>textInferredAt := n\<rparr>) = cell_ok c"
  by (simp add: cell_ok_def)

lemma inv_addTranscript: "perplexity_inv st \<Longrightarrow> perplexity_inv (snd (addTranscript now r pid t st))"
proof (cases "jget (sessions st) r")
  case (Some s)
  assume inv: "perplexity_inv st"
  let ?s1 = "s\<lparr>recentTranscripts := pushTranscript
      \<lparr>tr_participantId = pid, tr_text = t, tr_timestamp = now\<rparr> (recentTranscripts s)\<rparr>"
  have ok: "room_ok ?s1" using room_ok_push perplexity_invD [OF inv Some] by blast
  have "room_ok (?s1\<lparr>participants := jset pid ((collapseState now c x (9 / 10))\<lparr>textInferredAt := now\<rparr>)
      (participants ?s1)\<rparr>)" if "jget (participants ?s1) pid = Some c" for c x
    using room_ok_cell [OF ok] cell_ok_collapse room_ok_getcell [OF ok that] by simp
  with inv ok Some show ?thesis
    by (auto simp: addTranscript_def Let_def intro!: perplexity_inv_put split: option.splits)
qed (simp add: addTranscript_def)

datatype perplexity_op =
    PMessage int jstr PerplexityMessage
  | PAdd int jstr jstr jstr
  | PRemove jstr jstr

fun perplexity_step :: "(jstr \<Rightarrow> jstr option) \<Rightarrow> perplexity_op \<Rightarrow> perplexity_st \<Rightarrow> perplexity_st" where
  "perplexity_step llm (PMessage now r m) st = snd (handleMessage llm now r m st)"
| "perplexity_step llm (PAdd now r pid n) st = addParticipant now r pid n st"
| "perplexity_step llm (PRemove r pid) st = removeParticipant r pid st"

lemma inv_message:
  assumes "perplexity_inv st" shows "perplexity_inv (snd (handleMessage llm now r m st))"
proof (cases m)
  case (TRANSCRIPT pid tx)
  obtain x st1 where a: "addTranscript now r pid tx st = (x, st1)"
    by (cases "addTranscript now r pid tx st")
  have "perplexity_inv st1" using inv_addTranscript [OF assms, of now r pid tx] a by simp
  with a TRANSCRIPT show ?thesis
    by (auto simp: handleMessage_def split: option.splits
        intro!: inv_propagateRoom room_ok_update dest: perplexity_invD)
qed (simp_all add: handleMessage_def assms inv_start inv_end inv_stateUpdate inv_report)

interpretation perplexity: inv_system perplexity_inv "perplexity_step llm" for llm
proof
  fix st op
  assume "perplexity_inv st"
  then show "perplexity_inv (perplexity_step llm op st)"
    by (cases op) (simp_all add: inv_message inv_add inv_remove)
qed

section \<open>Rate limits\<close>

text \<open>
  One attempt to propagate for a session whose participants have become \<open>ps\<close>; it fires when the
  engine runs.
\<close>

definition propagationAttempt :: "int \<Rightarrow> (jstr, ParticipantCell) jmap \<Rightarrow>
    PerplexitySession \<times> WFCConstraint list \<Rightarrow> (PerplexitySession \<times> WFCConstraint list) \<times> bool" where
  "propagationAttempt now ps x = (case x of (s, eng) \<Rightarrow>
     (let (res, s1, eng1) = tryPropagate now (s\<lparr>participants := ps\<rparr>) eng in ((s1, eng1), res \<noteq> None)))"

interpretation propagation: cooldown_gate propagationAttempt
  "\<lambda>x. Some (lastPropagation (fst x))" MIN_PROPAGATION_INTERVAL_MS
  by unfold_locales
    (auto simp: propagationAttempt_def tryPropagate_def Let_def split: prod.splits if_splits)

text \<open>
  Evaluation of the constraint named \<open>i\<close> by one propagation at a time after 1970, on an engine
  whose constraints have distinct names and in which \<open>i\<close> has cooldown \<open>p\<close>.
\<close>

definition engine_ok :: "jstr \<Rightarrow> int \<Rightarrow> WFCConstraint list \<Rightarrow> bool" where
  "engine_ok i p eng \<longleftrightarrow> distinct (map cid eng) \<and> (\<exists>c \<in> set eng. cid c = i \<and> cooldownMs c = p)"

definition constraintFires :: "jstr \<Rightarrow> int \<Rightarrow> int \<Rightarrow> PerplexitySession \<Rightarrow> WFCConstraint list \<Rightarrow>
    WFCConstraint list \<times> bool" where
  "constraintFires i p now s eng =
     (if 0 < now \<and> engine_ok i p eng
      then (let (res, eng1) = propagate now s eng in (eng1, triggeredConstraints res = [i]))
      else (eng, False))"

definition lastFiring :: "jstr \<Rightarrow> WFCConstraint list \<Rightarrow> int option" where
  "lastFiring i eng = (case find (\<lambda>c. cid c = i) eng of
     None \<Rightarrow> None
   | Some c \<Rightarrow> if truthy_num (lastTriggered c) then lastTriggered c else None)"

lemma find_cid:
  assumes "distinct (map cid eng)" and "c \<in> set eng"
  shows "find (\<lambda>d. cid d = cid c) eng = Some c"
  using assms by (induction eng) auto

lemma find_setTriggered:
  "find (\<lambda>d. cid d = i) (setTriggered j now eng) =
     map_option (\<lambda>d. if cid d = j then d\<lparr>lastTriggered := Some now\<rparr> else d) (find (\<lambda>d. cid d = i) eng)"
  by (induction eng) (auto simp: setTriggered_def)

lemma constraintFires_cases:
  assumes "constraintFires i p now s eng = (eng', b)"
  shows "if b then lastFiring i eng' = Some now \<and> (\<forall>t. lastFiring i eng = Some t \<longrightarrow> t + p \<le> now)
         else lastFiring i eng' = lastFiring i eng"
proof (cases "0 < now \<and> engine_ok i p eng")
  case False
  with assms show ?thesis by (auto simp: constraintFires_def)
next
  case True
  then have d: "distinct (map cid eng)" by (simp add: engine_ok_def)
  from propagate_cases [of now s eng] show ?thesis
  proof
    assume "actions (fst (propagate now s eng)) = [] \<and> snd (propagate now s eng) = eng \<and>
      (\<forall>c \<in> set eng. \<not> ready now s c)"
    then have "snd (propagate now s eng) = eng" and "triggeredConstraints (fst (propagate now s eng)) = []"
      by (auto simp: propagate_def Let_def split: option.splits)
    with True assms show ?thesis by (auto simp: constraintFires_def split: prod.splits)
  next
    assume "\<exists>c \<in> set eng. ready now s c \<and> (\<forall>d \<in> set eng. ready now s d \<longrightarrow> priority d \<le> priority c) \<and>
      actions (fst (propagate now s eng)) = [buildAction c s] \<and>
      triggeredConstraints (fst (propagate now s eng)) = [cid c] \<and>
      snd (propagate now s eng) = setTriggered (cid c) now eng"
    then obtain c where c: "c \<in> set eng" "ready now s c"
      "triggeredConstraints (fst (propagate now s eng)) = [cid c]"
      "snd (propagate now s eng) = setTriggered (cid c) now eng" by blast
    have e: "eng' = setTriggered (cid c) now eng" "b \<longleftrightarrow> cid c = i"
      using True assms c(3,4) by (auto simp: constraintFires_def split: prod.splits)
    have f: "find (\<lambda>d. cid d = cid c) eng = Some c" by (rule find_cid [OF d c(1)])
    show ?thesis
    proof (cases "cid c = i")
      case True
      obtain c' where c': "c' \<in> set eng" "cid c' = i" "cooldownMs c' = p"
        using \<open>0 < now \<and> engine_ok i p eng\<close> by (auto simp: engine_ok_def)
      then have "c' = c" using find_cid [OF d c'(1)] f True by simp
      with c' c(2) True e f \<open>0 < now \<and> engine_ok i p eng\<close> show ?thesis
        by (auto simp: lastFiring_def find_setTriggered ready_def coolingDown_def truthy_num_def)
    next
      case False
      have "find (\<lambda>d. cid d = i) (setTriggered (cid c) now eng) = find (\<lambda>d. cid d = i) eng"
        using False by (auto simp: find_setTriggered find_Some_iff split: option.splits
            intro!: option.map_ident_strong)
      with False e show ?thesis by (simp add: lastFiring_def)
    qed
  qed
qed

interpretation constraint_cooldown: cooldown_gate "constraintFires i p" "lastFiring i" p for i p
proof (unfold_locales, goal_cases)
  case (1 now e s s')
  then show ?case using constraintFires_cases by fastforce
next
  case (2 now e s s' t)
  then show ?case using constraintFires_cases by fastforce
next
  case (3 now e s s')
  then show ?case using constraintFires_cases by fastforce
qed

section \<open>The transcript window\<close>

lemma push_lastN: "pushTranscript t (lastN MAX_TRANSCRIPTS xs) = lastN MAX_TRANSCRIPTS (xs @ [t])"
  by (simp add: pushTranscript_def lastN_snoc MAX_TRANSCRIPTS_def)

section \<open>Text protection\<close>

lemma applyReport_other:
  "pid \<noteq> su_participantId u \<Longrightarrow> jget (participants (applyReport now u s)) pid = jget (participants s) pid"
  by (auto simp: applyReport_def split: option.splits)

lemma applyReport_protected:
  assumes "jget (participants s) pid = Some c" and "textProtected now c"
  shows "jget (participants (applyReport now u s)) pid = Some c"
proof (cases "pid = su_participantId u")
  case True
  with assms show ?thesis by (auto simp: applyReport_def split: option.splits)
qed (use assms applyReport_other in auto)

lemma reports_protected:
  "jget (participants s) pid = Some c \<Longrightarrow> textProtected now c \<Longrightarrow>
   jget (participants (fold (applyReport now) us s)) pid = Some c"
  by (induction us arbitrary: s) (simp_all add: applyReport_protected)

lemma tryPropagate_participants:
  "participants (fst (snd (tryPropagate now s eng))) = participants s"
  by (simp add: tryPropagate_def Let_def split: prod.splits)

lemma propagateRoom_get:
  "jget (sessions (snd (propagateRoom now r s st))) r' =
     (if r' = r then Some (fst (snd (tryPropagate now s (engine st)))) else jget (sessions st) r')"
  by (simp add: propagateRoom_def putSession_def split_beta)

section \<open>Properties\<close>

text \<open>
  C9. Whatever messages arrive for whatever rooms, in every reachable state of the service every
  session has an entropy between 0 and 1 whose level matches it, holds at most 50 transcripts, and
  has only well-formed participant cells.
\<close>

theorem perplexity_reachable_ok:
  assumes "jget (sessions (fold (perplexity_step llm) ops init_perplexity)) r = Some s"
  shows "0 \<le> sessionEntropy s \<and> sessionEntropy s \<le> 1 \<and>
    entropyLevel s = getEntropyLevel (sessionEntropy s) \<and> length (recentTranscripts s) \<le> 50 \<and>
    (\<forall>c \<in> set (jvals (participants s)). cell_ok c)"
proof -
  have "perplexity_inv (fold (perplexity_step llm) ops init_perplexity)"
    by (rule perplexity.inv_run) (simp add: perplexity_inv_def init_perplexity_def jvals_def)
  then have "room_ok s" using assms by (rule perplexity_invD)
  then show ?thesis by (simp add: room_ok_def session_ok_def MAX_TRANSCRIPTS_def)
qed

theorem perplexity_reachable_ok_witness:
  "\<exists>s. jget (sessions (fold (perplexity_step (\<lambda>_. None)) [PMessage 1 [7] PERPLEXITY_START] init_perplexity)) [7]
       = Some s \<and> sessionEntropy s \<le> 1"
  using perplexity_reachable_ok [where llm = "\<lambda>_. None" and ops = "[PMessage 1 [7] PERPLEXITY_START]"
      and r = "[7]" and s = "newSession 1 [7]"]
  by (simp add: handleMessage_def startSession_def Let_def putSession_def)

text \<open>Two confused rooms at the time of a propagation, and the engine before and after it.\<close>

abbreviation confused_at :: "int \<Rightarrow> jstr \<Rightarrow> PerplexitySession" where
  "confused_at now r \<equiv> confused_session r\<lparr>lastPropagation := now\<rparr>"

abbreviation after_confusion :: "int \<Rightarrow> WFCConstraint list" where
  "after_confusion now \<equiv> setTriggered (js ''confusion_intervention'') now DEFAULT_CONSTRAINTS"

lemma confused_condition: "cond_confusion_intervention now (confused_at now r)"
  by (simp add: cond_confusion_intervention_def confused_session_def confused_cell_def jvals_def
      countState_def collapse_high)

lemma confused_fires:
  "triggeredConstraints (fst (propagate now (confused_at now r) DEFAULT_CONSTRAINTS)) = [js ''confusion_intervention''] \<and>
   snd (propagate now (confused_at now r) DEFAULT_CONSTRAINTS) = after_confusion now"
proof -
  let ?h = "hd DEFAULT_CONSTRAINTS"
  have h: "?h \<in> set DEFAULT_CONSTRAINTS" "cid ?h = js ''confusion_intervention''" "priority ?h = 100"
    by (simp_all add: DEFAULT_CONSTRAINTS_def)
  have top: "c = ?h" if "c \<in> set DEFAULT_CONSTRAINTS" "100 \<le> priority c" for c
    using that by (auto simp: DEFAULT_CONSTRAINTS_def)
  have "ready now (confused_at now r) ?h"
    by (simp add: ready_def DEFAULT_CONSTRAINTS_def coolingDown_def truthy_num_def confused_condition)
  then have "\<exists>c \<in> set DEFAULT_CONSTRAINTS. 100 \<le> priority c \<and>
      triggeredConstraints (fst (propagate now (confused_at now r) DEFAULT_CONSTRAINTS)) = [cid c] \<and>
      snd (propagate now (confused_at now r) DEFAULT_CONSTRAINTS) = setTriggered (cid c) now DEFAULT_CONSTRAINTS"
    using propagate_cases [of now "confused_at now r" DEFAULT_CONSTRAINTS] h(1,3) by metis
  then show ?thesis using top h(2) by metis
qed

lemma confused_cools:
  assumes "0 < now"
  shows "triggeredConstraints (fst (propagate now s (after_confusion now))) \<noteq> [js ''confusion_intervention'']"
proof
  assume "triggeredConstraints (fst (propagate now s (after_confusion now))) = [js ''confusion_intervention'']"
  then have "\<exists>c \<in> set (after_confusion now). ready now s c \<and> cid c = js ''confusion_intervention''"
    using propagate_cases [of now s "after_confusion now"]
    by (auto simp: propagate_def Let_def split: option.splits)
  with assms show False
    by (auto simp: setTriggered_def DEFAULT_CONSTRAINTS_def ready_def coolingDown_def truthy_num_def js_def)
qed

lemma confused_try:
  "500 \<le> now \<Longrightarrow> tryPropagate now (confused_session r) eng =
     (Some (fst (propagate now (confused_at now r) eng)),
      confused_at now r\<lparr>actionHistory := actionHistory (confused_at now r) @
        map (\<lambda>a. (a, now)) (actions (fst (propagate now (confused_at now r) eng)))\<rparr>,
      snd (propagate now (confused_at now r) eng))"
  by (simp add: tryPropagate_def Let_def split_beta MIN_PROPAGATION_INTERVAL_MS_def confused_session_def)

text \<open>
  The cooldown of a constraint is not per room: two rooms in the same state, both with every
  participant confused, ask for a propagation at the same time; the room served first gets its
  intervention and the other gets no such intervention, because \<open>lastTriggered\<close> lives in the engine
  that all rooms share.
\<close>

theorem cooldown_shared_between_rooms:
  assumes "500 \<le> now"
  shows "let (resA, sA, eng1) = tryPropagate now (confused_session roomA) DEFAULT_CONSTRAINTS;
             (resB, sB, eng2) = tryPropagate now (confused_session roomB) eng1;
             (alone, sC, eng3) = tryPropagate now (confused_session roomB) DEFAULT_CONSTRAINTS
         in map_option triggeredConstraints resA = Some [js ''confusion_intervention''] \<and>
            map_option triggeredConstraints alone = Some [js ''confusion_intervention''] \<and>
            map_option triggeredConstraints resB \<noteq> Some [js ''confusion_intervention'']"
  using assms confused_fires [of now] confused_cools [of now] by (simp add: confused_try)

theorem cooldown_shared_between_rooms_witness:
  "let (resA, sA, eng1) = tryPropagate 500 (confused_session [1]) DEFAULT_CONSTRAINTS;
       (resB, sB, eng2) = tryPropagate 500 (confused_session [2]) eng1
   in map_option triggeredConstraints resB \<noteq> Some [js ''confusion_intervention'']"
  using cooldown_shared_between_rooms [of 500 "[1]" "[2]"] by (simp add: split_beta Let_def)

text \<open>
  A state inferred from what a participant said is protected: an entropy report within five
  seconds of the inference leaves that participant's cell exactly as it was, whatever the report
  says about it and however often.
\<close>

theorem text_state_protected:
  assumes "jget (sessions st) r = Some s" and "jget (participants s) pid = Some c"
    and "0 < textInferredAt c" and "now - textInferredAt c < 5000"
  shows "\<exists>s'. jget (sessions (snd (handleEntropyReport now r us st))) r = Some s' \<and>
    jget (participants s') pid = Some c"
proof -
  have "textProtected now c" using assms(3,4) by (simp add: textProtected_def TEXT_STATE_PROTECTION_MS_def)
  with assms(1,2) show ?thesis
    by (simp add: handleEntropyReport_def propagateRoom_get tryPropagate_participants
        updateSessionEntropy_def Let_def reports_protected)
qed

theorem text_state_protected_witness:
  "\<exists>s'. jget (sessions (snd (handleEntropyReport 4000 [7]
        [\<lparr>su_participantId = [1], su_state = Some disengaged, su_confidence = None\<rparr>]
        \<lparr>sessions = [([7], confused_session [7]\<lparr>participants := [([1], (confused_cell [1])\<lparr>textInferredAt := 1000\<rparr>)]\<rparr>)],
         engine = DEFAULT_CONSTRAINTS\<rparr>))) [7] = Some s' \<and>
     map_option observedState (jget (participants s') [1]) = Some (Some confused)"
proof -
  let ?c = "(confused_cell [1])\<lparr>textInferredAt := 1000\<rparr>"
  have "observedState ?c = Some confused" by (simp add: confused_cell_def collapse_high)
  then show ?thesis
    using text_state_protected [where r = "[7]" and pid = "[1]" and c = ?c and now = 4000
        and s = "confused_session [7]\<lparr>participants := [([1], ?c)]\<rparr>"
        and st = "\<lparr>sessions = [([7], confused_session [7]\<lparr>participants := [([1], ?c)]\<rparr>)], engine = DEFAULT_CONSTRAINTS\<rparr>"
        and us = "[\<lparr>su_participantId = [1], su_state = Some disengaged, su_confidence = None\<rparr>]"]
    by auto
qed

text \<open>
  Rate limits. However often and with whatever participant states propagation is requested for
  a session, the engine runs at most once per 500 ms; and the times at which a given constraint of
  an engine is triggered are at least its cooldown apart.
\<close>

theorem propagation_rate_limited:
  "spaced 500 (cooldown_gate.fire_times propagationAttempt (s, eng) evs) \<and>
   spaced p (cooldown_gate.fire_times (constraintFires i p) eng' evs')"
  using propagation.firings_spaced [of "(s, eng)" evs] constraint_cooldown.firings_spaced [of p i eng' evs']
  by (simp add: MIN_PROPAGATION_INTERVAL_MS_def)

text \<open>
  The transcript window is exactly the 50 most recent transcripts, in order: pushing any
  sequence onto an empty window leaves its last 50 elements.
\<close>

theorem transcripts_are_last_50: "fold pushTranscript ts [] = lastN 50 ts"
proof (induction ts rule: rev_induct)
  case Nil
  then show ?case by (simp add: lastN_def)
next
  case (snoc t ts)
  then show ?case using push_lastN [of t ts] by (simp add: MAX_TRANSCRIPTS_def)
qed

end
