(* ===== verification/Recording.thy ===== *)
theory Recording
  imports Prelude
begin

text \<open>
  Room recordings, \<open>src/recording/recording.service.ts\<close> and \<open>src/recording/recording.controller.ts\<close>.
  The LiveKit egress service, S3 and the RAG API are outside the repository: their answers are
  arguments. \<open>startRecording\<close> and \<open>stopRecording\<close> each suspend once, at the call of the egress
  service, so each is a request part and a reply part, and other requests may run in between.
  An S3 bucket is a map from keys to the stored metadata; a write or a read may fail.
\<close>

section \<open>Configuration and data\<close>

datatype RecordingStatus = STARTING | RECORDING | STOPPING | COMPLETED | FAILED

datatype Layout = Grid | Speaker | SingleSpeaker

record rec_config =
  egressReady :: bool
  s3Bucket :: jstr
  s3Region :: jstr
  s3AccessKey :: "jstr option"
  s3SecretKey :: "jstr option"
  recordingLocalPath :: "jstr option"
  ragApiUrl :: jstr

text \<open>The constructor's defaults, from the environment.\<close>

record rec_environment =
  env_LIVEKIT_URL :: "jstr option"
  env_LIVEKIT_API_KEY :: "jstr option"
  env_LIVEKIT_API_SECRET :: "jstr option"
  env_AURA_S3_BUCKET :: "jstr option"
  env_AWS_REGION :: "jstr option"
  env_AWS_ACCESS_KEY_ID_S3 :: "jstr option"
  env_AWS_ACCESS_KEY_ID :: "jstr option"
  env_AWS_SECRET_ACCESS_KEY_S3 :: "jstr option"
  env_AWS_SECRET_ACCESS_KEY :: "jstr option"
  env_RECORDING_LOCAL_PATH :: "jstr option"
  env_RAG_API_URL :: "jstr option"

definition first_truthy :: "jstr option \<Rightarrow> jstr option \<Rightarrow> jstr option" where
  "first_truthy a b = (if truthy_str a then a else b)"

definition recordingConfig :: "rec_environment \<Rightarrow> rec_config" where
  "recordingConfig e =
     \<lparr>egressReady = (truthy_str (env_LIVEKIT_URL e) \<and> truthy_str (env_LIVEKIT_API_KEY e) \<and>
                     truthy_str (env_LIVEKIT_API_SECRET e)),
      s3Bucket = str_or (env_AURA_S3_BUCKET e) (js ''aura-raw-data-bucket''),
      s3Region = str_or (env_AWS_REGION e) (js ''ap-northeast-2''),
      s3AccessKey = first_truthy (env_AWS_ACCESS_KEY_ID_S3 e) (env_AWS_ACCESS_KEY_ID e),
      s3SecretKey = first_truthy (env_AWS_SECRET_ACCESS_KEY_S3 e) (env_AWS_SECRET_ACCESS_KEY e),
      recordingLocalPath = env_RECORDING_LOCAL_PATH e,
      ragApiUrl = str_or (env_RAG_API_URL e) (js ''http://localhost:8000'')\<rparr>"

definition s3Ready :: "rec_config \<Rightarrow> bool" where
  "s3Ready c \<longleftrightarrow> s3Bucket c \<noteq> [] \<and> truthy_str (s3AccessKey c) \<and> truthy_str (s3SecretKey c)"

record ActiveRecording =
  egressId :: jstr
  rec_startedAt :: int

type_synonym recordings = "(jstr, ActiveRecording) jmap"

datatype rec_error =
    EgressNotInitialized
  | AlreadyRecorded jstr
  | NoActiveRecording jstr
  | FailedToStart jstr
  | FailedToStop jstr
  | S3NotConfigured
  | S3UploadFailed jstr

datatype EgressOutput = S3Output jstr jstr jstr jstr jstr | FileOutput jstr

definition s3Prefix :: jstr where "s3Prefix = js ''rooms/''"

definition getRecordingS3Path :: "int \<Rightarrow> jstr \<Rightarrow> jstr" where
  "getRecordingS3Path now r = s3Prefix @ r @ js ''/recordings/'' @ jint now @ js ''.mp4''"

section \<open>Starting and stopping\<close>

text \<open>\<open>startRecording\<close> up to the call of the egress service: the file output it asks for.\<close>

definition startRequest :: "rec_config \<Rightarrow> int \<Rightarrow> jstr \<Rightarrow> Layout \<Rightarrow> recordings \<Rightarrow>
    rec_error + (jstr \<times> EgressOutput \<times> Layout)" where
  "startRequest c now r layout m =
     (if \<not> egressReady c then Inl EgressNotInitialized
      else if jhas m r then Inl (AlreadyRecorded r)
      else
        Inr (r,
             if s3Ready c
             then S3Output (getRecordingS3Path now r) (s3Bucket c) (s3Region c)
                    (the (s3AccessKey c)) (the (s3SecretKey c))
             else FileOutput (str_or (recordingLocalPath c) (js ''/tmp/recordings'') @ js ''/'' @ r @
                    js ''/recordings/'' @ jint now @ js ''.mp4''),
             layout))"

text \<open>The rest, with the service's answer: an egress id, or the message of the failure.\<close>

definition startReply :: "int \<Rightarrow> jstr \<Rightarrow> jstr + jstr \<Rightarrow> recordings \<Rightarrow>
    (rec_error + (jstr \<times> RecordingStatus)) \<times> recordings" where
  "startReply now r ans m = (case ans of
      Inl e \<Rightarrow> (Inl (FailedToStart e), m)
    | Inr i \<Rightarrow> (Inr (i, RECORDING), jset r \<lparr>egressId = i, rec_startedAt = now\<rparr> m))"

definition startRecording :: "rec_config \<Rightarrow> int \<Rightarrow> int \<Rightarrow> (jstr \<times> EgressOutput \<times> Layout \<Rightarrow> jstr + jstr) \<Rightarrow>
    jstr \<Rightarrow> Layout \<Rightarrow> recordings \<Rightarrow> (rec_error + (jstr \<times> RecordingStatus)) \<times> recordings" where
  "startRecording c t0 t1 egress r layout m = (case startRequest c t0 r layout m of
      Inl e \<Rightarrow> (Inl e, m)
    | Inr req \<Rightarrow> startReply t1 r (egress req) m)"

record RecordingResult =
  rr_egressId :: jstr
  rr_fileUrl :: "jstr option"
  rr_duration :: int
  rr_status :: RecordingStatus

definition stopRequest :: "rec_config \<Rightarrow> jstr \<Rightarrow> recordings \<Rightarrow> rec_error + ActiveRecording" where
  "stopRequest c r m =
     (if \<not> egressReady c then Inl EgressNotInitialized
      else (case jget m r of None \<Rightarrow> Inl (NoActiveRecording r) | Some a \<Rightarrow> Inr a))"

text \<open>
  The answer to a stop: the locations of the file results, or the message of the failure. The
  entry is deleted in both cases.
\<close>

definition stopReply :: "int \<Rightarrow> jstr \<Rightarrow> ActiveRecording \<Rightarrow> jstr + jstr list \<Rightarrow> recordings \<Rightarrow>
    (rec_error + RecordingResult) \<times> recordings" where
  "stopReply now r a ans m = (case ans of
      Inl e \<Rightarrow> (Inl (FailedToStop e), jdel r m)
    | Inr files \<Rightarrow>
        (Inr \<lparr>rr_egressId = egressId a,
              rr_fileUrl = (case files of [] \<Rightarrow> None | f # _ \<Rightarrow> Some f),
              rr_duration = (now - rec_startedAt a) div 1000,
              rr_status = COMPLETED\<rparr>, jdel r m))"

definition stopRecording :: "rec_config \<Rightarrow> int \<Rightarrow> (jstr \<Rightarrow> jstr + jstr list) \<Rightarrow> jstr \<Rightarrow> recordings \<Rightarrow>
    (rec_error + RecordingResult) \<times> recordings" where
  "stopRecording c now egress r m = (case stopRequest c r m of
      Inl e \<Rightarrow> (Inl e, m)
    | Inr a \<Rightarrow> stopReply now r a (egress (egressId a)) m)"

record RecordingInfo =
  ri_egressId :: jstr
  ri_roomId :: jstr
  ri_status :: RecordingStatus
  ri_startedAt :: int
  ri_duration :: int

definition getRecordingStatus :: "int \<Rightarrow> jstr \<Rightarrow> recordings \<Rightarrow> RecordingInfo option" where
  "getRecordingStatus now r m = map_option (\<lambda>a.
     \<lparr>ri_egressId = egressId a, ri_roomId = r, ri_status = RECORDING, ri_startedAt = rec_startedAt a,
      ri_duration = (now - rec_startedAt a) div 1000\<rparr>) (jget m r)"

definition isRecording :: "jstr \<Rightarrow> recordings \<Rightarrow> bool" where
  "isRecording r m = jhas m r"

text \<open>The egress listings answer with an empty result when the client is missing or the call fails.\<close>

definition getEgressInfo :: "rec_config \<Rightarrow> (jstr \<Rightarrow> 'e list option) \<Rightarrow> jstr \<Rightarrow> 'e option" where
  "getEgressInfo c list_egress i =
     (if \<not> egressReady c then None
      else (case list_egress i of None \<Rightarrow> None | Some es \<Rightarrow> (case es of [] \<Rightarrow> None | e # _ \<Rightarrow> Some e)))"

definition listRoomEgresses :: "rec_config \<Rightarrow> (jstr \<Rightarrow> 'e list option) \<Rightarrow> jstr \<Rightarrow> 'e list" where
  "listRoomEgresses c list_egress r =
     (if \<not> egressReady c then [] else (case list_egress r of None \<Rightarrow> [] | Some es \<Rightarrow> es))"

section \<open>Metadata and chapters\<close>

record VideoChapter =
  ch_title :: jstr
  ch_startTime :: int
  ch_endTime :: "int option"

record RecordingMetadata =
  md_roomId :: jstr
  md_fileName :: jstr
  md_fileUrl :: jstr
  md_fileSize :: int
  md_duration :: "int option"
  md_recordingStartTime :: "int option"
  md_chapters :: "VideoChapter list option"
  md_createdAt :: int
  md_updatedAt :: int

type_synonym bucket = "(jstr, RecordingMetadata) jmap"

definition getMetadataS3Key :: "jstr \<Rightarrow> jstr \<Rightarrow> jstr" where
  "getMetadataS3Key r f = s3Prefix @ r @ js ''/recordings/'' @ f @ js ''.meta.json''"

text \<open>\<open>ok\<close> says whether the S3 call itself succeeds; a missing key and a failing call look alike.\<close>

definition getRecordingMetadata :: "rec_config \<Rightarrow> bool \<Rightarrow> jstr \<Rightarrow> jstr \<Rightarrow> bucket \<Rightarrow> RecordingMetadata option" where
  "getRecordingMetadata c ok r f b =
     (if \<not> s3Ready c then None else if ok then jget b (getMetadataS3Key r f) else None)"

definition saveRecordingMetadata :: "rec_config \<Rightarrow> bool \<Rightarrow> jstr \<Rightarrow> RecordingMetadata \<Rightarrow> bucket \<Rightarrow> bool \<times> bucket" where
  "saveRecordingMetadata c ok r md b =
     (if \<not> s3Ready c then (False, b)
      else if ok then (True, jset (getMetadataS3Key r (md_fileName md)) md b)
      else (False, b))"

definition recordingUrl :: "rec_config \<Rightarrow> jstr \<Rightarrow> jstr \<Rightarrow> jstr" where
  "recordingUrl c r f = js ''https://'' @ s3Bucket c @ js ''.s3.'' @ s3Region c @ js ''.amazonaws.com/'' @
     s3Prefix @ r @ js ''/recordings/'' @ f"

definition updateRecordingChapters :: "rec_config \<Rightarrow> bool \<Rightarrow> bool \<Rightarrow> int \<Rightarrow> jstr \<Rightarrow> jstr \<Rightarrow> VideoChapter list \<Rightarrow>
    bucket \<Rightarrow> (bool \<times> jstr) \<times> bucket" where
  "updateRecordingChapters c get_ok put_ok now r f chapters b =
     (let md = (case getRecordingMetadata c get_ok r f b of
            Some md \<Rightarrow> md
          | None \<Rightarrow> \<lparr>md_roomId = r, md_fileName = f, md_fileUrl = recordingUrl c r f, md_fileSize = 0,
              md_duration = None, md_recordingStartTime = None, md_chapters = Some [],
              md_createdAt = now, md_updatedAt = now\<rparr>);
          md1 = md\<lparr>md_chapters := Some chapters, md_updatedAt := now\<rparr>;
          (success, b1) = saveRecordingMetadata c put_ok r md1 b
      in ((success, if success then jint (int (length chapters)) @ [44060, 32, 52309, 53552, 44032, 32,
        51200, 51109, 46104, 50632, 49845, 45768, 45796, 46]
                    else [52309, 53552, 32, 51200, 51109, 50640, 32, 49892, 54056, 54664, 49845, 45768,
                      45796, 46]), b1))"

definition getRecordingChapters :: "rec_config \<Rightarrow> bool \<Rightarrow> jstr \<Rightarrow> jstr \<Rightarrow> bucket \<Rightarrow> VideoChapter list" where
  "getRecordingChapters c ok r f b =
     (case getRecordingMetadata c ok r f b of
        None \<Rightarrow> []
      | Some md \<Rightarrow> (case md_chapters md of None \<Rightarrow> [] | Some cs \<Rightarrow> cs))"

definition createRecordingMetadata :: "rec_config \<Rightarrow> bool \<Rightarrow> int \<Rightarrow> jstr \<Rightarrow> jstr \<Rightarrow> jstr \<Rightarrow> int \<Rightarrow> int option \<Rightarrow>
    bucket \<Rightarrow> RecordingMetadata \<times> bucket" where
  "createRecordingMetadata c put_ok now r f url fsz start b =
     (let md = \<lparr>md_roomId = r, md_fileName = f, md_fileUrl = url, md_fileSize = fsz, md_duration = None,
            md_recordingStartTime = start, md_chapters = Some [], md_createdAt = now, md_updatedAt = now\<rparr>
      in (md, snd (saveRecordingMetadata c put_ok r md b)))"

record UploadResult =
  ur_fileUrl :: jstr
  ur_fileName :: jstr
  ur_fileSize :: int
  ur_recordingStartTime :: "int option"

text \<open>
  \<open>upload\<close> is the answer to the file's \<open>PutObject\<close>: \<open>Some message\<close> when it fails; \<open>meta_ok\<close> is
  the answer to the metadata write, which the caller does not look at.
\<close>

definition uploadClientRecording :: "rec_config \<Rightarrow> jstr option \<Rightarrow> bool \<Rightarrow> int \<Rightarrow> jstr \<Rightarrow> int \<Rightarrow> int option \<Rightarrow>
    bucket \<Rightarrow> (rec_error + UploadResult) \<times> bucket" where
  "uploadClientRecording c upload meta_ok now r fsz start b =
     (if \<not> s3Ready c then (Inl S3NotConfigured, b)
      else
        let f = js ''recording-'' @ jint now @ js ''.webm'' in
        (case upload of
           Some e \<Rightarrow> (Inl (S3UploadFailed e), b)
         | None \<Rightarrow>
             (let url = recordingUrl c r f
              in (Inr \<lparr>ur_fileUrl = url, ur_fileName = f, ur_fileSize = fsz, ur_recordingStartTime = start\<rparr>,
                  snd (createRecordingMetadata c meta_ok now r f url fsz start b)))))"

subsection \<open>Chapters from the RAG service\<close>

record RagChapter =
  rag_section :: jstr
  rag_title :: jstr
  rag_startTime :: int

record RagAnswer =
  rag_status :: jstr
  rag_chapters :: "RagChapter list option"
  rag_message :: "jstr option"

definition getSectionLabel :: "jstr \<Rightarrow> jstr" where
  "getSectionLabel s =
     (if s = js ''discussion'' then [45436, 51032]
      else if s = js ''decision'' then [44208, 51221]
      else if s = js ''action'' then [50529, 49496]
      else [])"

fun toChapters :: "RagChapter list \<Rightarrow> VideoChapter list" where
  "toChapters [] = []"
| "toChapters (ch # rest) =
     \<lparr>ch_title = [91] @ getSectionLabel (rag_section ch) @ [93, 32] @ rag_title ch,
      ch_startTime = rag_startTime ch,
      ch_endTime = (case rest of [] \<Rightarrow> None | n # _ \<Rightarrow> Some (rag_startTime n))\<rparr> # toChapters rest"

text \<open>The request: the URL and the query parameters, the start time only when it is given and not 0.\<close>

definition ragParams :: "int option \<Rightarrow> (jstr \<times> jstr) list" where
  "ragParams start = (js ''sections'', js ''discussion,decision,action'') #
     (if truthy_num start then [(js ''recordingStartTime'', jint (the start))] else [])"

definition ragUrl :: "rec_config \<Rightarrow> jstr \<Rightarrow> jstr" where
  "ragUrl c r = ragApiUrl c @ js ''/meetings/'' @ r @ js ''/video-chapters''"

definition fetchAndSaveChaptersFromRAG :: "rec_config \<Rightarrow> (jstr \<Rightarrow> (jstr \<times> jstr) list \<Rightarrow> jstr + RagAnswer) \<Rightarrow>
    bool \<Rightarrow> bool \<Rightarrow> int \<Rightarrow> jstr \<Rightarrow> jstr \<Rightarrow> int option \<Rightarrow> bucket \<Rightarrow> (bool \<times> VideoChapter list \<times> jstr) \<times> bucket" where
  "fetchAndSaveChaptersFromRAG c rag get_ok put_ok now r f start b = (case rag (ragUrl c r) (ragParams start) of
      Inl e \<Rightarrow> ((False, [], [82, 65, 71, 32, 65, 80, 73, 32, 54840, 52636, 32, 49892, 54056,
        58, 32] @ e), b)
    | Inr d \<Rightarrow>
        (let cs = (case rag_chapters d of None \<Rightarrow> [] | Some xs \<Rightarrow> xs)
         in if rag_status d \<noteq> js ''success'' \<or> cs = []
            then ((True, [], str_or (rag_message d) [52628, 52636, 46108, 32, 52309, 53552, 44032, 32,
              50630, 49845, 45768, 45796, 46]), b)
            else
              (let chapters = toChapters cs;
                   ((ok, msg), b1) = updateRecordingChapters c get_ok put_ok now r f chapters b
               in ((ok, chapters, msg), b1))))"

section \<open>The HTTP interface\<close>

datatype http_error = HttpBadRequest jstr | HttpInternal rec_error | HttpEmptyBuffer

definition http_startRecording :: "rec_config \<Rightarrow> int \<Rightarrow> int \<Rightarrow> (jstr \<times> EgressOutput \<times> Layout \<Rightarrow> jstr + jstr) \<Rightarrow>
    jstr \<Rightarrow> Layout option \<Rightarrow> recordings \<Rightarrow> (http_error + (jstr \<times> jstr \<times> RecordingStatus)) \<times> recordings" where
  "http_startRecording c t0 t1 egress roomId layout m =
     (let r = trim roomId
      in if r = [] then (Inl (HttpBadRequest (js ''roomId is required'')), m)
         else (case startRecording c t0 t1 egress r (case layout of None \<Rightarrow> Grid | Some l \<Rightarrow> l) m of
             (Inl e, m1) \<Rightarrow> (Inl (HttpInternal e), m1)
           | (Inr (i, st), m1) \<Rightarrow> (Inr (r, i, st), m1)))"

definition http_stopRecording :: "rec_config \<Rightarrow> int \<Rightarrow> (jstr \<Rightarrow> jstr + jstr list) \<Rightarrow> jstr \<Rightarrow> recordings \<Rightarrow>
    (http_error + (jstr \<times> RecordingResult)) \<times> recordings" where
  "http_stopRecording c now egress roomId m =
     (let r = trim roomId
      in if r = [] then (Inl (HttpBadRequest (js ''roomId is required'')), m)
         else (case stopRecording c now egress r m of
             (Inl e, m1) \<Rightarrow> (Inl (HttpInternal e), m1)
           | (Inr x, m1) \<Rightarrow> (Inr (r, x), m1)))"

datatype StatusReply = NotRecording jstr | IsRecording jstr RecordingInfo

definition http_getRecordingStatus :: "int \<Rightarrow> jstr \<Rightarrow> recordings \<Rightarrow> http_error + StatusReply" where
  "http_getRecordingStatus now roomId m =
     (let r = trim roomId
      in if r = [] then Inl (HttpBadRequest (js ''roomId is required''))
         else Inr (case getRecordingStatus now r m of None \<Rightarrow> NotRecording r | Some i \<Rightarrow> IsRecording r i))"

definition http_updateChapters :: "rec_config \<Rightarrow> bool \<Rightarrow> bool \<Rightarrow> int \<Rightarrow> jstr option \<Rightarrow> jstr option \<Rightarrow>
    VideoChapter list option \<Rightarrow> bucket \<Rightarrow> (http_error + (bool \<times> nat \<times> jstr)) \<times> bucket" where
  "http_updateChapters c get_ok put_ok now roomId f chapters b =
     (let r = map_option trim roomId
      in if \<not> truthy_str r then (Inl (HttpBadRequest (js ''roomId is required'')), b)
         else if \<not> truthy_str f then (Inl (HttpBadRequest (js ''fileName is required'')), b)
         else (case chapters of
             None \<Rightarrow> (Inl (HttpBadRequest (js ''chapters array is required'')), b)
           | Some cs \<Rightarrow>
               (let ((ok, msg), b1) = updateRecordingChapters c get_ok put_ok now (the r) (the f) cs b
                in (Inr (ok, length cs, msg), b1))))"

definition http_getChapters :: "rec_config \<Rightarrow> bool \<Rightarrow> jstr option \<Rightarrow> jstr option \<Rightarrow> bucket \<Rightarrow>
    http_error + VideoChapter list" where
  "http_getChapters c ok roomId f b =
     (let r = map_option trim roomId
      in if \<not> truthy_str r then Inl (HttpBadRequest (js ''roomId is required''))
         else if \<not> truthy_str f then Inl (HttpBadRequest (js ''fileName is required''))
         else Inr (getRecordingChapters c ok (the r) (the f) b))"

definition http_listRecordings :: "rec_config \<Rightarrow> (jstr \<Rightarrow> 'e list option) \<Rightarrow> jstr \<Rightarrow> http_error + (jstr \<times> 'e list \<times> nat)" where
  "http_listRecordings c list_egress roomId =
     (let r = trim roomId
      in if r = [] then Inl (HttpBadRequest (js ''roomId is required''))
         else (let es = listRoomEgresses c list_egress r in Inr (r, es, length es)))"

record UploadedFile =
  uf_buffer :: "jstr option"
  uf_size :: int

definition http_uploadRecording :: "rec_config \<Rightarrow> jstr option \<Rightarrow> bool \<Rightarrow> int \<Rightarrow> jstr option \<Rightarrow> UploadedFile option \<Rightarrow>
    jstr option \<Rightarrow> bucket \<Rightarrow> (http_error + (jstr \<times> UploadResult)) \<times> bucket" where
  "http_uploadRecording c upload meta_ok now roomId file startStr b =
     (let start = (if truthy_str startStr then parseInt10 (the startStr) else None);
          r = map_option trim roomId
      in if \<not> truthy_str r then (Inl (HttpBadRequest (js ''roomId is required'')), b)
         else (case file of
             None \<Rightarrow> (Inl (HttpBadRequest (js ''file is required. Ensure Content-Type is multipart/form-data and field name is '' @
               [34] @ js ''file'' @ [34])), b)
           | Some x \<Rightarrow>
               if uf_buffer x = None \<or> uf_buffer x = Some [] then (Inl HttpEmptyBuffer, b)
               else (case uploadClientRecording c upload meta_ok now (the r) (uf_size x) start b of
                   (Inl e, b1) \<Rightarrow> (Inl (HttpInternal e), b1)
                 | (Inr u, b1) \<Rightarrow> (Inr (the r, u), b1))))"

definition http_getMetadata :: "rec_config \<Rightarrow> bool \<Rightarrow> jstr option \<Rightarrow> jstr option \<Rightarrow> bucket \<Rightarrow>
    http_error + (bool \<times> jstr \<times> RecordingMetadata option)" where
  "http_getMetadata c ok roomId f b =
     (let r = map_option trim roomId
      in if \<not> truthy_str r then Inl (HttpBadRequest (js ''roomId is required''))
         else if \<not> truthy_str f then Inl (HttpBadRequest (js ''fileName is required''))
         else (let md = getRecordingMetadata c ok (the r) (the f) b in Inr (md \<noteq> None, the r, md)))"

definition http_fetchChapters :: "rec_config \<Rightarrow> (jstr \<Rightarrow> (jstr \<times> jstr) list \<Rightarrow> jstr + RagAnswer) \<Rightarrow> bool \<Rightarrow> bool \<Rightarrow> int \<Rightarrow>
    jstr option \<Rightarrow> jstr option \<Rightarrow> int option \<Rightarrow> bucket \<Rightarrow>
    (http_error + (bool \<times> jstr \<times> VideoChapter list \<times> nat \<times> jstr)) \<times> bucket" where
  "http_fetchChapters c rag get_ok put_ok now roomId f start b =
     (let r = map_option trim roomId
      in if \<not> truthy_str r then (Inl (HttpBadRequest (js ''roomId is required'')), b)
         else if \<not> truthy_str f then (Inl (HttpBadRequest (js ''fileName is required'')), b)
         else (let ((ok, cs, msg), b1) = fetchAndSaveChaptersFromRAG c rag get_ok put_ok now (the r) (the f) start b
               in (Inr (ok, the r, cs, length cs, msg), b1)))"

section \<open>Interleaved requests\<close>

text \<open>
  Any number of requests may be in flight. Besides the service's map the system state keeps the
  suspended starts, each with the egress the media server has begun for it, if it has begun one, and the
  suspended stops; and, of the media server, the egresses that run, the ids it has used, the rooms of starts whose
  failure the service saw before the server had begun anything, the egresses whose stop was answered with a failure
  and those whose start was. An egress may begin before its answer arrives, also for a start that has failed by
  then, and it may end at any time.
\<close>

record rec_sys =
  active :: recordings
  pendingStarts :: "(jstr \<times> jstr option) list"
  pendingStops :: "(jstr \<times> ActiveRecording) list"
  running :: "jstr set"
  usedIds :: "jstr set"
  abandoned :: "jstr list"
  stopFailed :: "jstr set"
  startFailed :: "jstr set"

definition init_sys :: rec_sys where
  "init_sys = \<lparr>active = [], pendingStarts = [], pendingStops = [], running = {}, usedIds = {}, abandoned = [],
     stopFailed = {}, startFailed = {}\<rparr>"

inductive rec_step :: "rec_config \<Rightarrow> rec_sys \<Rightarrow> rec_sys \<Rightarrow> bool" for c where
  req_start: "startRequest c now r layout (active s) = Inr req \<Longrightarrow>
     rec_step c s (s\<lparr>pendingStarts := (r, None) # pendingStarts s\<rparr>)"
| server_begins: "pendingStarts s = xs @ (r, None) # ys \<Longrightarrow> i \<notin> usedIds s \<Longrightarrow>
     rec_step c s (s\<lparr>pendingStarts := xs @ (r, Some i) # ys, running := insert i (running s), usedIds := insert i (usedIds s)\<rparr>)"
| server_begins_late: "r \<in> set (abandoned s) \<Longrightarrow> i \<notin> usedIds s \<Longrightarrow>
     rec_step c s (s\<lparr>abandoned := remove1 r (abandoned s), running := insert i (running s), usedIds := insert i (usedIds s),
       startFailed := insert i (startFailed s)\<rparr>)"
| server_ends: "i \<in> running s \<Longrightarrow> rec_step c s (s\<lparr>running := running s - {i}\<rparr>)"
| start_ok: "pendingStarts s = xs @ (r, Some i) # ys \<Longrightarrow>
     rec_step c s (s\<lparr>pendingStarts := xs @ ys, active := snd (startReply now r (Inr i) (active s))\<rparr>)"
| start_failed: "pendingStarts s = xs @ (r, None) # ys \<Longrightarrow>
     rec_step c s (s\<lparr>pendingStarts := xs @ ys, active := snd (startReply now r (Inl e) (active s)), abandoned := r # abandoned s\<rparr>)"
| answer_lost: "pendingStarts s = xs @ (r, Some i) # ys \<Longrightarrow>
     rec_step c s (s\<lparr>pendingStarts := xs @ ys, active := snd (startReply now r (Inl e) (active s)), startFailed := insert i (startFailed s)\<rparr>)"
| req_stop: "stopRequest c r (active s) = Inr a \<Longrightarrow>
     rec_step c s (s\<lparr>pendingStops := (r, a) # pendingStops s\<rparr>)"
| stop_ok: "pendingStops s = xs @ (r, a) # ys \<Longrightarrow>
     rec_step c s (s\<lparr>pendingStops := xs @ ys,
       active := snd (stopReply now r a (Inr files) (active s)), running := running s - {egressId a}\<rparr>)"
| stop_failed: "pendingStops s = xs @ (r, a) # ys \<Longrightarrow>
     rec_step c s (s\<lparr>pendingStops := xs @ ys,
       active := snd (stopReply now r a (Inl e) (active s)), stopFailed := insert (egressId a) (stopFailed s)\<rparr>)"

text \<open>
  Serialised use: no request is made for a room while one is in flight for it, that is, a step
  never makes a room busy twice.
\<close>

definition serialised :: "rec_sys \<Rightarrow> bool" where
  "serialised s \<longleftrightarrow> distinct (map fst (pendingStarts s) @ map fst (pendingStops s))"

inductive reachable_serial :: "rec_config \<Rightarrow> rec_sys \<Rightarrow> bool" for c where
  start: "reachable_serial c init_sys"
| step: "reachable_serial c s \<Longrightarrow> rec_step c s t \<Longrightarrow> serialised t \<Longrightarrow> reachable_serial c t"

text \<open>The egress a room holds: the one in the map, or the one begun for its suspended start.\<close>

definition holds :: "rec_sys \<Rightarrow> jstr \<Rightarrow> jstr \<Rightarrow> bool" where
  "holds s r i \<longleftrightarrow> (\<exists>a. jget (active s) r = Some a \<and> egressId a = i) \<or> (r, Some i) \<in> set (pendingStarts s)"

definition rec_inv :: "rec_sys \<Rightarrow> bool" where
  "rec_inv s \<longleftrightarrow>
     (\<forall>r x. (r, x) \<in> set (pendingStarts s) \<longrightarrow> jget (active s) r = None) \<and>
     (\<forall>r a. (r, a) \<in> set (pendingStops s) \<longrightarrow> jget (active s) r = Some a) \<and>
     (\<forall>r r' i. holds s r i \<longrightarrow> holds s r' i \<longrightarrow> r = r') \<and>
     (\<forall>r i. holds s r i \<longrightarrow> i \<in> usedIds s) \<and>
     (\<forall>i \<in> running s. (\<exists>r. holds s r i) \<or> i \<in> stopFailed s \<or> i \<in> startFailed s)"

lemma replies [simp]:
  "snd (startReply now r (Inr i) m) = jset r \<lparr>egressId = i, rec_startedAt = now\<rparr> m"
  "snd (startReply now r (Inl e) m) = m"
  "snd (stopReply now r a ans m) = jdel r m"
  by (simp_all add: startReply_def stopReply_def split: sum.splits)

lemma rec_invD:
  assumes "rec_inv s"
  shows "(r, x) \<in> set (pendingStarts s) \<Longrightarrow> jget (active s) r = None"
    and "(r, a) \<in> set (pendingStops s) \<Longrightarrow> jget (active s) r = Some a"
    and "holds s r i \<Longrightarrow> holds s r' i \<Longrightarrow> r = r'"
    and "holds s r i \<Longrightarrow> i \<in> usedIds s"
    and "i \<in> running s \<Longrightarrow> (\<exists>r. holds s r i) \<or> i \<in> stopFailed s \<or> i \<in> startFailed s"
  using assms unfolding rec_inv_def by blast+

lemma rec_invI:
  assumes "\<And>r x. (r, x) \<in> set (pendingStarts s) \<Longrightarrow> jget (active s) r = None"
    and "\<And>r a. (r, a) \<in> set (pendingStops s) \<Longrightarrow> jget (active s) r = Some a"
    and "\<And>r r' i. holds s r i \<Longrightarrow> holds s r' i \<Longrightarrow> r = r'"
    and "\<And>r i. holds s r i \<Longrightarrow> i \<in> usedIds s"
    and "\<And>i. i \<in> running s \<Longrightarrow> (\<exists>r. holds s r i) \<or> i \<in> stopFailed s \<or> i \<in> startFailed s"
  shows "rec_inv s"
  by (unfold rec_inv_def, intro conjI allI impI ballI) (rule assms, assumption+)+

lemma starts_at:
  assumes "rec_inv s" and "pendingStarts s = xs @ (r, x) # ys"
  shows "jget (active s) r = None" and "(r', x') \<in> set xs \<Longrightarrow> jget (active s) r' = None"
    and "(r', x') \<in> set ys \<Longrightarrow> jget (active s) r' = None"
proof -
  have p: "jget (active s) r' = None" if "(r', x') \<in> set (xs @ (r, x) # ys)" for r' x'
    using rec_invD(1) [OF assms(1), of r' x'] that by (simp add: assms(2))
  show "jget (active s) r = None" by (rule p [of r x]) simp
  show "(r', x') \<in> set xs \<Longrightarrow> jget (active s) r' = None" "(r', x') \<in> set ys \<Longrightarrow> jget (active s) r' = None"
    by (rule p [of r' x'], simp)+
qed

lemma stops_at:
  assumes "rec_inv s" and "pendingStops s = xs @ (r, a) # ys"
  shows "jget (active s) r = Some a" and "(r', a') \<in> set xs \<Longrightarrow> jget (active s) r' = Some a'"
    and "(r', a') \<in> set ys \<Longrightarrow> jget (active s) r' = Some a'"
  using rec_invD(2) [OF assms(1)] by (simp_all add: assms(2))

text \<open>
  A step that gives a room an unused egress at most and takes one away only from a room that is named, keeps the
  invariant when what it takes away has ended or failed.
\<close>

lemma rec_inv_holds:
  assumes inv: "rec_inv s"
    and "\<And>r x. (r, x) \<in> set (pendingStarts t) \<Longrightarrow> jget (active t) r = None"
    and "\<And>r a. (r, a) \<in> set (pendingStops t) \<Longrightarrow> jget (active t) r = Some a"
    and "\<And>r i. holds t r i \<Longrightarrow> holds s r i" and "usedIds s \<subseteq> usedIds t" and "running t \<subseteq> running s"
    and "\<And>r i. i \<in> running t \<Longrightarrow> holds s r i \<Longrightarrow> holds t r i \<or> i \<in> stopFailed t \<or> i \<in> startFailed t"
    and "stopFailed s \<subseteq> stopFailed t" and "startFailed s \<subseteq> startFailed t"
  shows "rec_inv t"
proof (rule rec_invI)
  fix i assume i: "i \<in> running t"
  then consider r where "holds s r i" | "i \<in> stopFailed t" | "i \<in> startFailed t"
    using rec_invD(5) [OF inv, of i] assms(6,8,9) by blast
  then show "(\<exists>r. holds t r i) \<or> i \<in> stopFailed t \<or> i \<in> startFailed t"
    using assms(7) [OF i] by cases blast+
next
  show "r = r'" if "holds t r i" "holds t r' i" for r r' i using that assms(4) by (blast intro: rec_invD(3) [OF inv])
  show "i \<in> usedIds t" if "holds t r i" for r i using that assms(4,5) by (blast intro: rec_invD(4) [OF inv])
qed (use assms(2,3) in blast)+

lemma rec_inv_begun:
  assumes inv: "rec_inv s" and new: "i \<notin> usedIds s"
    and "\<And>r x. (r, x) \<in> set (pendingStarts t) \<Longrightarrow> jget (active t) r = None"
    and "\<And>r a. (r, a) \<in> set (pendingStops t) \<Longrightarrow> jget (active t) r = Some a"
    and h: "\<And>r' j. holds t r' j \<longleftrightarrow> holds s r' j \<or> r' = r \<and> j = i"
    and "usedIds t = insert i (usedIds s)" and "running t = insert i (running s)"
    and "stopFailed t = stopFailed s" and "startFailed t = startFailed s"
  shows "rec_inv t"
proof -
  have fresh: "\<not> holds s r' i" for r' using rec_invD(4) [OF inv] new by blast
  show ?thesis
  proof (rule rec_invI)
    show "r1 = r2" if "holds t r1 j" "holds t r2 j" for r1 r2 j
      using that h fresh rec_invD(3) [OF inv, of r1 j r2] by auto
    show "j \<in> usedIds t" if "holds t r1 j" for r1 j using that h assms(6) rec_invD(4) [OF inv, of r1 j] by auto
    show "(\<exists>r. holds t r j) \<or> j \<in> stopFailed t \<or> j \<in> startFailed t" if "j \<in> running t" for j
      using that h assms(7-9) rec_invD(5) [OF inv, of j] by auto
  qed (use assms(3,4) in blast)+
qed

lemma rec_inv_step:
  assumes "rec_step c s t" and "rec_inv s" and "serialised s"
  shows "rec_inv t"
  using assms
proof (induction rule: rec_step.induct)
  case (req_start now r layout s req)
  then have "jget (active s) r = None" by (auto simp: startRequest_def jhas_def split: if_splits)
  then show ?case
    by (intro rec_inv_holds [OF req_start.prems(1)]) (auto simp: holds_def dest: rec_invD(1,2) [OF req_start.prems(1)])
next
  case (server_begins s xs r ys i)
  note p = starts_at [OF server_begins.prems(1) server_begins.hyps(1)] rec_invD(2) [OF server_begins.prems(1)]
  show ?case
    by (rule rec_inv_begun [OF server_begins.prems(1) server_begins.hyps(2)])
      (use server_begins.hyps(1) in \<open>auto simp: holds_def p(1) dest: p(2-4)\<close>)
next
  case (server_begins_late r s i)
  have "\<not> holds s r' i" for r' using rec_invD(4) [OF server_begins_late.prems(1)] server_begins_late.hyps(2) by blast
  moreover have "holds (s\<lparr>abandoned := x, running := y, usedIds := z, startFailed := u\<rparr>) = holds s" for x y z u
    by (auto simp: holds_def fun_eq_iff)
  ultimately show ?case
    by (intro rec_invI) (auto dest: rec_invD [OF server_begins_late.prems(1)])
next
  case (server_ends i s)
  show ?case
    by (rule rec_inv_holds [OF server_ends.prems(1)]) (auto simp: holds_def dest: rec_invD(1,2) [OF server_ends.prems(1)])
next
  case (start_ok s xs r i ys now)
  note p = starts_at [OF start_ok.prems(1) start_ok.hyps] rec_invD(2) [OF start_ok.prems(1)]
  have "(r, x) \<notin> set xs" "(r, x) \<notin> set ys" "(r, a) \<notin> set (pendingStops s)" for x a
    using start_ok.prems(2) by (auto simp: serialised_def start_ok.hyps image_iff)
  then show ?case
    by (intro rec_inv_holds [OF start_ok.prems(1)])
      (auto simp: holds_def start_ok.hyps p(1) split: if_splits dest: p(2-4))
next
  case (start_failed s xs r ys now e)
  note p = starts_at [OF start_failed.prems(1) start_failed.hyps] rec_invD(2) [OF start_failed.prems(1)]
  show ?case
    by (rule rec_inv_holds [OF start_failed.prems(1)])
      (use start_failed.hyps in \<open>auto simp: holds_def dest: p(2-4)\<close>)
next
  case (answer_lost s xs r i ys now e)
  note p = starts_at [OF answer_lost.prems(1) answer_lost.hyps] rec_invD(2) [OF answer_lost.prems(1)]
  show ?case
    by (rule rec_inv_holds [OF answer_lost.prems(1)])
      (use answer_lost.hyps in \<open>auto simp: holds_def dest: p(2-4)\<close>)
next
  case (req_stop r s a)
  then have "jget (active s) r = Some a" by (auto simp: stopRequest_def split: if_splits option.splits)
  then show ?case
    by (intro rec_inv_holds [OF req_stop.prems(1)]) (auto simp: holds_def dest: rec_invD(1,2) [OF req_stop.prems(1)])
next
  case (stop_ok s xs r a ys now files)
  note p = stops_at [OF stop_ok.prems(1) stop_ok.hyps] rec_invD(1) [OF stop_ok.prems(1)]
  have "(r, x) \<notin> set xs" "(r, x) \<notin> set ys" for x
    using stop_ok.prems(2) by (auto simp: serialised_def stop_ok.hyps image_iff)
  then show ?case
    by (intro rec_inv_holds [OF stop_ok.prems(1)])
      (auto simp: holds_def stop_ok.hyps p(1) split: if_splits dest: p(2-4))
next
  case (stop_failed s xs r a ys now e)
  note p = stops_at [OF stop_failed.prems(1) stop_failed.hyps] rec_invD(1) [OF stop_failed.prems(1)]
  have "(r, x) \<notin> set xs" "(r, x) \<notin> set ys" for x
    using stop_failed.prems(2) by (auto simp: serialised_def stop_failed.hyps image_iff)
  then show ?case
    by (intro rec_inv_holds [OF stop_failed.prems(1)])
      (auto simp: holds_def stop_failed.hyps p(1) split: if_splits dest: p(2-4))
qed

lemma reachable_serial_inv: "reachable_serial c s \<Longrightarrow> rec_inv s \<and> serialised s"
proof (induction rule: reachable_serial.induct)
  case start
  then show ?case by (auto simp: rec_inv_def init_sys_def holds_def serialised_def)
next
  case (step s t)
  then show ?case using rec_inv_step by blast
qed

section \<open>Keys and chapters\<close>

lemma js_append: "js (a @ b) = js a @ js b"
  by (simp add: js_def)

lemma metadata_key_inj:
  assumes "47 \<notin> set r'" and "47 \<notin> set r"
  shows "getMetadataS3Key r' f' = getMetadataS3Key r f \<longleftrightarrow> r' = r \<and> f' = f"
proof
  have sl: "js ''/recordings/'' = 47 # js ''recordings/''" by (simp add: js_def)
  assume "getMetadataS3Key r' f' = getMetadataS3Key r f"
  then have "r' @ 47 # (js ''recordings/'' @ f' @ js ''.meta.json'') =
      r @ 47 # (js ''recordings/'' @ f @ js ''.meta.json'')"
    by (simp only: getMetadataS3Key_def sl append_Cons append_assoc same_append_eq)
  from split_at_first [OF this assms] show "r' = r \<and> f' = f"
    by (simp only: same_append_eq append_same_eq)
qed simp

lemma length_toChapters [simp]: "length (toChapters cs) = length cs"
  by (induction cs rule: toChapters.induct) simp_all

lemma toChapters_nth:
  "i < length cs \<Longrightarrow> ch_startTime (toChapters cs ! i) = rag_startTime (cs ! i) \<and>
     ch_endTime (toChapters cs ! i) = (if Suc i < length cs then Some (rag_startTime (cs ! Suc i)) else None)"
proof (induction cs arbitrary: i rule: toChapters.induct)
  case (2 ch rest)
  then show ?case
    by (cases i) (auto split: list.splits simp: nth_Cons')
qed simp

section \<open>Properties\<close>

text \<open>
  C8. As long as no two requests for one room overlap, the service loses no egress without an error: an egress that runs on
  the media server is in the service's map for exactly one room, or it was begun for a start that is still waiting for the answer,
  or its stop or its start was answered with a failure.
\<close>

theorem no_lost_egress:
  assumes "reachable_serial c s" and "i \<in> running s"
  shows "(\<exists>!r. \<exists>a. jget (active s) r = Some a \<and> egressId a = i) \<or> (\<exists>r. (r, Some i) \<in> set (pendingStarts s)) \<or>
    i \<in> stopFailed s \<or> i \<in> startFailed s"
proof -
  have inv: "rec_inv s" using reachable_serial_inv [OF assms(1)] by blast
  have "r = r'" if "\<exists>a. jget (active s) r = Some a \<and> egressId a = i" "\<exists>a. jget (active s) r' = Some a \<and> egressId a = i" for r r'
    using that by (intro rec_invD(3) [OF inv, of r i r']) (auto simp: holds_def)
  then show ?thesis using rec_invD(5) [OF inv assms(2)] unfolding holds_def by blast
qed

definition demo_config :: rec_config where
  "demo_config = \<lparr>egressReady = True, s3Bucket = [98], s3Region = [99], s3AccessKey = Some [1],
     s3SecretKey = Some [2], recordingLocalPath = None, ragApiUrl = []\<rparr>"

definition demo_recorded :: rec_sys where
  "demo_recorded = init_sys\<lparr>active := [([7], \<lparr>egressId = [5], rec_startedAt = 0\<rparr>)], running := {[5]}, usedIds := {[5]}\<rparr>"

lemma demo_reachable: "reachable_serial demo_config demo_recorded"
proof -
  let ?s1 = "init_sys\<lparr>pendingStarts := [([7], None)]\<rparr>"
  let ?s2 = "init_sys\<lparr>pendingStarts := [([7], Some [5])], running := {[5]}, usedIds := {[5]}\<rparr>"
  have 1: "reachable_serial demo_config ?s1"
    by (rule reachable_serial.step [OF reachable_serial.start])
      (use rec_step.req_start [of demo_config 0 "[7]" Grid init_sys] in
        \<open>auto simp: startRequest_def demo_config_def init_sys_def jhas_def serialised_def\<close>)
  have "rec_step demo_config ?s1 ?s2"
    using rec_step.server_begins [of ?s1 "[]" "[7]" "[]" "[5]" demo_config] by (simp add: init_sys_def)
  then have 2: "reachable_serial demo_config ?s2"
    by (rule reachable_serial.step [OF 1]) (simp add: serialised_def init_sys_def)
  have "rec_step demo_config ?s2 demo_recorded"
    using rec_step.start_ok [of ?s2 "[]" "[7]" "[5]" "[]" demo_config 0] by (simp add: init_sys_def demo_recorded_def)
  then show ?thesis by (rule reachable_serial.step [OF 2]) (simp add: serialised_def init_sys_def demo_recorded_def)
qed

theorem no_lost_egress_witness:
  "(\<exists>!r. \<exists>a. jget (active demo_recorded) r = Some a \<and> egressId a = [5]) \<or> (\<exists>r. (r, Some [5]) \<in> set (pendingStarts demo_recorded)) \<or>
    [5] \<in> stopFailed demo_recorded \<or> [5] \<in> startFailed demo_recorded"
  by (rule no_lost_egress [OF demo_reachable]) (simp add: demo_recorded_def)

text \<open>
  Two starts for one room that overlap both pass the check for an active recording, since the
  entry is written only after the egress service has answered; the second answer overwrites the
  first, and the first egress is then reachable through no room: no later stop can end it.
\<close>

theorem overlapping_starts_lose_egress:
  assumes "egressReady c" and "\<not> jhas m r" and "i \<noteq> j"
    and "\<forall>r' a. jget m r' = Some a \<longrightarrow> egressId a \<noteq> i"
  shows "isl (startRequest c t1 r l1 m) = False \<and> isl (startRequest c t2 r l2 m) = False \<and>
    (let m1 = snd (startReply t3 r (Inr i) m); m2 = snd (startReply t4 r (Inr j) m1)
     in \<forall>r' a. jget m2 r' = Some a \<longrightarrow> egressId a \<noteq> i)"
  using assms by (auto simp: startRequest_def Let_def split: if_splits)

theorem overlapping_starts_lose_egress_witness:
  "isl (startRequest demo_config 1 [7] Grid []) = False \<and>
   \<not> (\<exists>r' a. jget (snd (startReply 4 [7] (Inr [6]) (snd (startReply 3 [7] (Inr [5]) [])))) r' = Some a \<and>
      egressId a = [5])"
  using overlapping_starts_lose_egress [of demo_config "[]" "[7]" "[5]" "[6]" 1 Grid 2 Grid 3 4]
  by (auto simp: demo_config_def jhas_def)

text \<open>
  A start on a room that is being recorded is refused and changes nothing. A start on an idle
  room that the egress service answers with an id makes the room recorded under that id; stopping
  it reports the same id and the elapsed whole seconds, and leaves the room idle again.
\<close>

theorem start_stop_cycle:
  assumes "egressReady c" and "\<And>req. egress req = Inr i" and "stop i = Inr files" and "\<not> jhas m r"
  shows "let (res, m1) = startRecording c t0 t1 egress r l m;
             (again, m2) = startRecording c t2 t3 egress r l m1;
             (fin, m3) = stopRecording c t4 stop r m1
         in res = Inr (i, RECORDING) \<and> again = Inl (AlreadyRecorded r) \<and> m2 = m1 \<and>
            (\<exists>x. fin = Inr x \<and> rr_egressId x = i \<and> rr_duration x = (t4 - t1) div 1000) \<and>
            \<not> isRecording r m3"
  using assms
  by (simp add: startRecording_def startRequest_def startReply_def stopRecording_def stopRequest_def
      stopReply_def isRecording_def)

theorem start_stop_cycle_witness:
  "let (res, m1) = startRecording demo_config 0 1000 (\<lambda>_. Inr [5]) [7] Grid [];
       (fin, m3) = stopRecording demo_config 4500 (\<lambda>_. Inr []) [7] m1
   in \<exists>x. fin = Inr x \<and> rr_duration x = 3"
  using start_stop_cycle [of demo_config "\<lambda>_. Inr [5]" "[5]" "\<lambda>_. Inr []" "[]" "[]" "[7]" 0 1000 Grid 0 0 4500]
  by (auto simp: demo_config_def jhas_def split: prod.splits)

text \<open>
  Chapters written for a recording are read back as written, and writing them for one
  recording leaves the chapters of every other file alone: with room ids that contain no slash the
  metadata key determines the room and the file.
\<close>

theorem chapters_roundtrip:
  assumes "s3Ready c" and "47 \<notin> set r" and "47 \<notin> set r'"
    and "jget b (getMetadataS3Key r f) = None \<or>
      (\<exists>md. jget b (getMetadataS3Key r f) = Some md \<and> md_fileName md = f)"
  shows "let b1 = snd (updateRecordingChapters c True True now r f cs b)
    in getRecordingChapters c True r f b1 = cs \<and>
       ((r', f') \<noteq> (r, f) \<longrightarrow> getRecordingChapters c True r' f' b1 = getRecordingChapters c True r' f' b)"
proof -
  have inj: "getMetadataS3Key r' f' = getMetadataS3Key r f \<longleftrightarrow> r' = r \<and> f' = f"
    using assms(2,3) by (rule metadata_key_inj [rotated])
  show ?thesis
    using assms(1,4) inj
    by (auto simp: updateRecordingChapters_def getRecordingMetadata_def saveRecordingMetadata_def
        getRecordingChapters_def Let_def split: option.splits prod.splits)
qed

theorem chapters_roundtrip_witness:
  "getRecordingChapters demo_config True [7] [8]
     (snd (updateRecordingChapters demo_config True True 0 [7] [8] [\<lparr>ch_title = [], ch_startTime = 0, ch_endTime = None\<rparr>] []))
   = [\<lparr>ch_title = [], ch_startTime = 0, ch_endTime = None\<rparr>]"
  using chapters_roundtrip [of demo_config "[7]" "[7]" "[]" "[8]" 0 "[\<lparr>ch_title = [], ch_startTime = 0, ch_endTime = None\<rparr>]" "[8]"]
  by (simp add: s3Ready_def demo_config_def truthy_str_def Let_def)

text \<open>
  When the RAG service answers with chapters, the fetch stores them so that they are read back,
  and they tile the recording: there is one per section of the answer, each starts where the answer
  says, ends where the next one starts, and only the last has no end.
\<close>

theorem chapters_contiguous:
  assumes "s3Ready c" and "rag (ragUrl c r) (ragParams start) = Inr d" and "rag_status d = js ''success''"
    and "rag_chapters d = Some cs" and "i < length cs"
    and "\<forall>md. jget b (getMetadataS3Key r f) = Some md \<longrightarrow> md_fileName md = f"
    and "fetchAndSaveChaptersFromRAG c rag True True now r f start b = ((ok, out, msg), b')"
  shows "ok \<and> getRecordingChapters c True r f b' = out \<and> length out = length cs \<and>
    ch_startTime (out ! i) = rag_startTime (cs ! i) \<and>
    ch_endTime (out ! i) = (if Suc i < length cs then Some (ch_startTime (out ! Suc i)) else None)"
proof -
  have ne: "cs \<noteq> []" using assms(5) by auto
  have out: "out = toChapters cs"
    using assms(2,3,4,7) ne by (simp add: fetchAndSaveChaptersFromRAG_def Let_def split: prod.splits)
  have "((ok, msg), b') = updateRecordingChapters c True True now r f out b"
    using assms(2,3,4,7) ne by (simp add: fetchAndSaveChaptersFromRAG_def Let_def split: prod.splits)
  then have "ok \<and> getRecordingChapters c True r f b' = out"
    using assms(1,6)
    by (auto simp: updateRecordingChapters_def getRecordingMetadata_def saveRecordingMetadata_def
        getRecordingChapters_def Let_def split: option.splits)
  with out toChapters_nth [OF assms(5)] toChapters_nth [of "Suc i" cs] show ?thesis by simp
qed

definition demo_rag :: RagAnswer where
  "demo_rag = \<lparr>rag_status = js ''success'', rag_chapters = Some [\<lparr>rag_section = [], rag_title = [], rag_startTime = 3\<rparr>,
      \<lparr>rag_section = [], rag_title = [], rag_startTime = 9\<rparr>], rag_message = None\<rparr>"

theorem chapters_contiguous_witness:
  "\<exists>out b'. fst (snd (fst (fetchAndSaveChaptersFromRAG demo_config (\<lambda>_ _. Inr demo_rag) True True 0 [7] [8] None []))) = out \<and>
     getRecordingChapters demo_config True [7] [8] b' = out \<and> ch_endTime (out ! 0) = Some (ch_startTime (out ! 1))"
proof -
  obtain ok out msg b' where f: "fetchAndSaveChaptersFromRAG demo_config (\<lambda>_ _. Inr demo_rag) True True 0 [7] [8] None [] =
      ((ok, out, msg), b')" by (metis surj_pair)
  have "s3Ready demo_config" by (simp add: s3Ready_def demo_config_def truthy_str_def)
  from chapters_contiguous [OF this, of "\<lambda>_ _. Inr demo_rag" "[7]" None demo_rag _ 0 "[]" "[8]", OF _ _ _ _ _ f]
  have "getRecordingChapters demo_config True [7] [8] b' = out \<and> ch_endTime (out ! 0) = Some (ch_startTime (out ! 1))"
    by (simp add: demo_rag_def)
  with f show ?thesis by auto
qed

end
