(* ===== verification/StudyMode.thy ===== *)
theory StudyMode
  imports Prelude "HOL-Library.Multiset"
begin

text \<open>
  The study mode, \<open>src/study/study-mode.service.ts\<close>: study contexts per room, quiz generation with
  its interval and cap, answers with streak bonuses, follow-up questions, difficulty detection and
  the final report. The language model is a function from prompts to answers (\<open>None\<close>: the call
  rejects) and \<open>JSON.parse\<close> a function from texts to parsed values (\<open>None\<close>: it throws). The
  operations that wait for the model are split into what they check and ask (\<open>...Prompt\<close>) and what
  they do with the answer (\<open>...Reply\<close>) on the context object they hold; the service operation
  composes the two.
\<close>

section \<open>Types\<close>

record StudyQuiz =
  quiz_id :: jstr
  quiz_question :: jstr
  options :: "jstr list"
  correctIndex :: int
  explanation :: jstr
  points :: int
  quiz_topic :: jstr

record StudyParticipant =
  sp_id :: jstr
  sp_name :: jstr
  score :: int
  correctAnswers :: int
  totalAnswers :: int
  streak :: int
  lastAnswerCorrect :: bool

record StudyContext =
  sc_active :: bool
  sc_startTime :: int
  sc_duration :: int
  sc_topic :: jstr
  sc_participants :: "(jstr, StudyParticipant) jmap"
  currentQuiz :: "StudyQuiz option"
  quizHistory :: "StudyQuiz list"
  conversationKeywords :: "jstr list"
  lastQuizTime :: int
  quizCount :: nat
  followUpPending :: bool
  followUpQuestion :: "jstr option"

type_synonym study_st = "(jstr, StudyContext) jmap"

text \<open>What the model is asked to answer with.\<close>

record QuizData =
  qd_question :: jstr
  qd_options :: "jstr list"
  qd_correctIndex :: int
  qd_explanation :: jstr
  qd_topic :: "jstr option"

record FollowUpResult =
  shouldAsk :: bool
  fu_question :: jstr
  fu_context :: jstr

record FollowUpEval =
  ev_isCorrect :: bool
  ev_feedback :: jstr
  ev_points :: int

definition MIN_QUIZ_INTERVAL_MS :: int where "MIN_QUIZ_INTERVAL_MS = 60000"

definition MAX_QUIZZES_PER_SESSION :: nat where "MAX_QUIZZES_PER_SESSION = 10"

section \<open>Lifecycle\<close>

definition newStudyContext :: "int \<Rightarrow> jstr \<Rightarrow> int \<Rightarrow> StudyContext" where
  "newStudyContext now topic dur = \<lparr>sc_active = True, sc_startTime = now, sc_duration = dur,
     sc_topic = topic, sc_participants = [], currentQuiz = None, quizHistory = [],
     conversationKeywords = [], lastQuizTime = 0, quizCount = 0, followUpPending = False,
     followUpQuestion = None\<rparr>"

definition startStudyMode :: "int \<Rightarrow> jstr \<Rightarrow> jstr \<Rightarrow> int option \<Rightarrow> study_st \<Rightarrow> StudyContext \<times> study_st" where
  "startStudyMode now r topic dur st =
     (let ctx = newStudyContext now topic (case dur of None \<Rightarrow> 300 | Some d \<Rightarrow> d)
      in (ctx, jset r ctx st))"

definition endStudyMode :: "jstr \<Rightarrow> study_st \<Rightarrow> StudyContext option \<times> study_st" where
  "endStudyMode r st = (case jget st r of
      None \<Rightarrow> (None, st)
    | Some ctx \<Rightarrow> (let c1 = ctx\<lparr>sc_active := False\<rparr> in (Some c1, jset r c1 st)))"

definition getStudyContext :: "jstr \<Rightarrow> study_st \<Rightarrow> StudyContext option" where
  "getStudyContext r st = jget st r"

definition newStudyParticipant :: "jstr \<Rightarrow> jstr \<Rightarrow> StudyParticipant" where
  "newStudyParticipant pid name = \<lparr>sp_id = pid, sp_name = name, score = 0, correctAnswers = 0,
     totalAnswers = 0, streak = 0, lastAnswerCorrect = False\<rparr>"

definition addParticipant :: "jstr \<Rightarrow> jstr \<Rightarrow> jstr \<Rightarrow> study_st \<Rightarrow> study_st" where
  "addParticipant r pid name st = (case jget st r of
      None \<Rightarrow> st
    | Some ctx \<Rightarrow>
        if jhas (sc_participants ctx) pid then st
        else jset r (ctx\<lparr>sc_participants := jset pid (newStudyParticipant pid name) (sc_participants ctx)\<rparr>) st)"

definition cleanup :: "jstr \<Rightarrow> study_st \<Rightarrow> study_st" where
  "cleanup r st = jdel r st"

section \<open>Quizzes\<close>

definition quizPrompt :: "int \<Rightarrow> jstr list \<Rightarrow> StudyContext \<Rightarrow> jstr option" where
  "quizPrompt now recent ctx =
     (if \<not> sc_active ctx then None
      else if now - lastQuizTime ctx < MIN_QUIZ_INTERVAL_MS then None
      else if quizCount ctx \<ge> MAX_QUIZZES_PER_SESSION then None
      else Some ([45817, 49888, 51008, 32, 49828, 53552, 46356, 32, 53300, 51592, 32, 52636, 51228,
        51088, 51077, 45768, 45796, 46, 32, 45796, 51020, 32, 45824, 54868, 32, 45236, 50857, 51012,
        32, 48148, 53461, 51004, 47196, 32, 52, 51648, 49440, 45796, 32, 53300, 51592, 47484, 32, 49,
        44060, 32, 47564, 46308, 50612, 51452, 49464, 50836, 46, 10, 10, 51452, 51228, 58,
        32] @ sc_topic ctx @ [10, 10, 52572, 44540, 32, 45824, 54868, 58,
        10] @ join [10] (lastN 10 recent) @ [10, 10, 45796, 51020, 32, 74, 83, 79, 78, 32, 54805,
        49885, 51004, 47196, 47564, 32, 51025, 45813, 54616, 49464, 50836, 58, 10, 123, 10, 32, 32, 34,
        113, 117, 101, 115, 116, 105, 111, 110, 34, 58, 32, 34, 47928, 51228, 32, 45236, 50857, 34, 44,
        10, 32, 32, 34, 111, 112, 116, 105, 111, 110, 115, 34, 58, 32, 91, 34, 49440, 53469, 51648, 49,
        34, 44, 32, 34, 49440, 53469, 51648, 50, 34, 44, 32, 34, 49440, 53469, 51648, 51, 34, 44, 32,
        34, 49440, 53469, 51648, 52, 34, 93, 44, 10, 32, 32, 34, 99, 111, 114, 114, 101, 99, 116, 73,
        110, 100, 101, 120, 34, 58, 32, 48, 44, 10, 32, 32, 34, 101, 120, 112, 108, 97, 110, 97, 116,
        105, 111, 110, 34, 58, 32, 34, 51221, 45813, 32, 54644, 49444, 32, 40, 49, 45, 50, 47928,
        51109, 41, 34, 44, 10, 32, 32, 34, 116, 111, 112, 105, 99, 34, 58, 32, 34, 44288, 47144, 32,
        53412, 50892, 46300, 34, 10, 125, 10, 10, 44508, 52825, 58, 10, 45, 32, 48169, 44552, 32,
        45824, 54868, 50640, 49436, 32, 50616, 44553, 46108, 32, 45236, 50857, 32, 44592, 48152, 10,
        45, 32, 51221, 45813, 51060, 32, 47749, 54869, 54644, 50556, 32, 54632, 10, 45, 32, 50724,
        45813, 46020, 32, 44536, 47092, 46319, 54644, 50556, 32, 54632, 10, 45, 32, 45212, 51060,
        46020, 45716, 32, 51473, 44036]))"

definition recordQuiz :: "int \<Rightarrow> StudyQuiz \<Rightarrow> StudyContext \<Rightarrow> StudyContext" where
  "recordQuiz now q ctx = ctx\<lparr>currentQuiz := Some q, lastQuizTime := now,
     quizCount := quizCount ctx + 1, quizHistory := quizHistory ctx @ [q]\<rparr>"

definition makeQuiz :: "int \<Rightarrow> QuizData \<Rightarrow> jstr \<Rightarrow> StudyQuiz" where
  "makeQuiz now d topic = \<lparr>quiz_id = js ''quiz-'' @ jint now, quiz_question = qd_question d,
     options = qd_options d, correctIndex = qd_correctIndex d, explanation = qd_explanation d,
     points = 100, quiz_topic = topic\<rparr>"

text \<open>The answer of the model to a quiz prompt, parsed: \<open>None\<close> when anything fails.\<close>

definition parsedAnswer :: "(jstr \<Rightarrow> jstr option) \<Rightarrow> (jstr \<Rightarrow> 'a option) \<Rightarrow> jstr \<Rightarrow> 'a option" where
  "parsedAnswer llm parse prompt =
     Option.bind (llm prompt) (\<lambda>resp. Option.bind (jsonMatch resp) parse)"

definition quizReply :: "int \<Rightarrow> QuizData option \<Rightarrow> StudyContext \<Rightarrow> StudyQuiz option \<times> StudyContext" where
  "quizReply now d ctx = (case d of
      None \<Rightarrow> (None, ctx)
    | Some qd \<Rightarrow> (let q = makeQuiz now qd (str_or (qd_topic qd) (sc_topic ctx))
                  in (Some q, recordQuiz now q ctx)))"

definition generateQuizFromConversation :: "(jstr \<Rightarrow> jstr option) \<Rightarrow> (jstr \<Rightarrow> QuizData option) \<Rightarrow> int \<Rightarrow> int \<Rightarrow>
    jstr \<Rightarrow> jstr list \<Rightarrow> study_st \<Rightarrow> StudyQuiz option \<times> study_st" where
  "generateQuizFromConversation llm parse t0 t1 r recent st = (case jget st r of
      None \<Rightarrow> (None, st)
    | Some ctx \<Rightarrow> (case quizPrompt t0 recent ctx of
          None \<Rightarrow> (None, st)
        | Some p \<Rightarrow> (let (q, c1) = quizReply t1 (parsedAnswer llm parse p) ctx in (q, jset r c1 st))))"

definition surprisePrompt :: "jstr \<Rightarrow> StudyContext \<Rightarrow> jstr" where
  "surprisePrompt keyword ctx = [45817, 49888, 51008, 32, 49828, 53552, 46356, 32, 53300, 51592, 32,
    52636, 51228, 51088, 51077, 45768, 45796, 46, 32, 34] @ keyword @ [34, 32, 44060, 45392, 50640, 32,
    45824, 54620, 32, 52, 51648, 49440, 45796, 32, 53300, 51592, 47484, 32, 47564, 46308, 50612, 51452,
    49464, 50836, 46, 10, 10, 51452, 51228, 58, 32] @ sc_topic ctx @ [10, 53412, 50892, 46300, 58,
    32] @ keyword @ [10, 10, 45796, 51020, 32, 74, 83, 79, 78, 32, 54805, 49885, 51004, 47196, 47564,
    32, 51025, 45813, 54616, 49464, 50836, 58, 10, 123, 10, 32, 32, 34, 113, 117, 101, 115, 116, 105,
    111, 110, 34, 58, 32, 34, 47928, 51228, 32, 45236, 50857, 32, 40] @ keyword @ [32, 44288, 47144,
    41, 34, 44, 10, 32, 32, 34, 111, 112, 116, 105, 111, 110, 115, 34, 58, 32, 91, 34, 49440, 53469,
    51648, 49, 34, 44, 32, 34, 49440, 53469, 51648, 50, 34, 44, 32, 34, 49440, 53469, 51648, 51, 34,
    44, 32, 34, 49440, 53469, 51648, 52, 34, 93, 44, 10, 32, 32, 34, 99, 111, 114, 114, 101, 99, 116,
    73, 110, 100, 101, 120, 34, 58, 32, 48, 44, 10, 32, 32, 34, 101, 120, 112, 108, 97, 110, 97, 116,
    105, 111, 110, 34, 58, 32, 34, 51221, 45813, 32, 54644, 49444, 32, 40, 49, 45, 50, 47928, 51109,
    41, 34, 44, 10, 32, 32, 34, 116, 111, 112, 105, 99, 34, 58, 32, 34] @ keyword @ [34, 10, 125, 10,
    10, 44508, 52825, 58, 10, 45, 32] @ keyword @ [51032, 32, 54645, 49900, 32, 44060, 45392, 51012,
    32, 47931, 45716, 32, 47928, 51228, 10, 45, 32, 51221, 45813, 51060, 32, 47749, 54869, 54644,
    50556, 32, 54632, 10, 45, 32, 50724, 45813, 46020, 32, 44536, 47092, 46319, 54644, 50556, 32,
    54632]"

definition surpriseReply :: "int \<Rightarrow> jstr \<Rightarrow> QuizData option \<Rightarrow> StudyContext \<Rightarrow> StudyQuiz option \<times> StudyContext" where
  "surpriseReply now keyword d ctx = (case d of
      None \<Rightarrow> (None, ctx)
    | Some qd \<Rightarrow> (let q = makeQuiz now qd keyword in (Some q, recordQuiz now q ctx)))"

definition generateSurpriseQuiz :: "(jstr \<Rightarrow> jstr option) \<Rightarrow> (jstr \<Rightarrow> QuizData option) \<Rightarrow> int \<Rightarrow>
    jstr \<Rightarrow> jstr \<Rightarrow> study_st \<Rightarrow> StudyQuiz option \<times> study_st" where
  "generateSurpriseQuiz llm parse now r keyword st = (case jget st r of
      None \<Rightarrow> (None, st)
    | Some ctx \<Rightarrow>
        if \<not> sc_active ctx then (None, st)
        else (let (q, c1) = surpriseReply now keyword (parsedAnswer llm parse (surprisePrompt keyword ctx)) ctx
              in (q, jset r c1 st)))"

section \<open>Answers\<close>

record AnswerResult =
  ar_isCorrect :: bool
  ar_points :: int
  ar_explanation :: jstr

definition scoreAnswer :: "StudyQuiz \<Rightarrow> int \<Rightarrow> StudyParticipant \<Rightarrow> StudyParticipant" where
  "scoreAnswer quiz answerIndex p =
     (let p1 = p\<lparr>totalAnswers := totalAnswers p + 1\<rparr>
      in if answerIndex = correctIndex quiz then
           (let p2 = p1\<lparr>correctAnswers := correctAnswers p1 + 1, score := score p1 + points quiz,
                        streak := streak p1 + 1, lastAnswerCorrect := True\<rparr>
            in if streak p2 \<ge> 3 then p2\<lparr>score := score p2 + 50 * (streak p2 - 2)\<rparr> else p2)
         else p1\<lparr>streak := 0, lastAnswerCorrect := False\<rparr>)"

definition processAnswer :: "jstr \<Rightarrow> jstr \<Rightarrow> int \<Rightarrow> study_st \<Rightarrow> AnswerResult option \<times> study_st" where
  "processAnswer r pid answerIndex st = (case jget st r of
      None \<Rightarrow> (None, st)
    | Some ctx \<Rightarrow> (case currentQuiz ctx of
          None \<Rightarrow> (None, st)
        | Some quiz \<Rightarrow> (case jget (sc_participants ctx) pid of
              None \<Rightarrow> (None, st)
            | Some p \<Rightarrow>
                (let isCorrect = (answerIndex = correctIndex quiz);
                     p1 = scoreAnswer quiz answerIndex p
                 in (Some \<lparr>ar_isCorrect = isCorrect,
                           ar_points = (if isCorrect
                             then points quiz + (if streak p1 \<ge> 3 then 50 * (streak p1 - 2) else 0)
                             else 0),
                           ar_explanation = explanation quiz\<rparr>,
                     jset r (ctx\<lparr>sc_participants := jset pid p1 (sc_participants ctx)\<rparr>) st)))))"

section \<open>Follow-up questions\<close>

definition noFollowUp :: FollowUpResult where
  "noFollowUp = \<lparr>shouldAsk = False, fu_question = [], fu_context = []\<rparr>"

definition followUpPrompt :: "jstr \<Rightarrow> jstr \<Rightarrow> bool \<Rightarrow> StudyContext \<Rightarrow> jstr" where
  "followUpPrompt prev answer wasCorrect ctx = [45817, 49888, 51008, 32, 49828, 53552, 46356, 32,
    51652, 54665, 51088, 51077, 45768, 45796, 46, 32, 48169, 44552, 32, 51656, 47928, 50640, 32, 45824,
    54620, 32, 54980, 49549, 32, 51656, 47928, 51012, 32, 47564, 46308, 50612, 51452, 49464, 50836, 46,
    10, 10, 51060, 51204, 32, 51656, 47928, 58, 32] @ prev @ [10, 49324, 50857, 51088, 32, 45813,
    48320, 58, 32] @ answer @ [10, 51221, 45813, 32, 50668, 48512, 58,
    32] @ (if wasCorrect then [47582, 51020] else [53952, 47548]) @ [10, 51452, 51228, 58,
    32] @ sc_topic ctx @ [10, 10] @ (if wasCorrect then [49324, 50857, 51088, 44032, 32, 51221, 45813,
    51012, 32, 47582, 52676, 49845, 45768, 45796, 46, 32, 45908, 32, 49900, 54868, 46108, 32, 54980,
    49549, 32, 51656, 47928, 51012, 32, 54644, 51452, 49464, 50836, 46] else [49324, 50857, 51088,
    44032, 32, 53952, 47160, 49845, 45768, 45796, 46, 32, 44288, 47144, 46108, 32, 44592, 48376, 32,
    44060, 45392, 51012, 32, 54869, 51064, 54616, 45716, 32, 51656, 47928, 51012, 32, 54644, 51452,
    49464, 50836, 46]) @ [10, 10, 45796, 51020, 32, 74, 83, 79, 78, 32, 54805, 49885, 51004, 47196, 32,
    51025, 45813, 54616, 49464, 50836, 58, 10, 123, 10, 32, 32, 34, 115, 104, 111, 117, 108, 100, 65,
    115, 107, 34, 58, 32, 116, 114, 117, 101, 47, 102, 97, 108, 115, 101, 44, 10, 32, 32, 34, 113, 117,
    101, 115, 116, 105, 111, 110, 34, 58, 32, 34, 54980, 49549, 32, 51656, 47928, 32, 40, 49, 47928,
    51109, 41, 34, 44, 10, 32, 32, 34, 99, 111, 110, 116, 101, 120, 116, 34, 58, 32, 34, 51656, 47928,
    32, 51032, 46020, 32, 49444, 47749, 34, 10, 125, 10, 10, 44508, 52825, 58, 10, 45, 32, 51088,
    50672, 49828, 47101, 44172, 32, 45824, 54868, 47484, 32, 51060, 50612, 44032, 45716, 32, 51656,
    47928, 10, 45, 32, 45320, 47924, 32, 50612, 47157, 44144, 45208, 32, 49789, 51648, 32, 50506,
    44172, 10, 45, 32, 54617, 49845, 50640, 32, 46020, 50880, 51060, 32, 46104, 45716, 32, 51656,
    47928]"

definition generateFollowUpQuestion :: "(jstr \<Rightarrow> jstr option) \<Rightarrow> (jstr \<Rightarrow> FollowUpResult option) \<Rightarrow> jstr \<Rightarrow>
    jstr \<Rightarrow> jstr \<Rightarrow> bool \<Rightarrow> study_st \<Rightarrow> FollowUpResult \<times> study_st" where
  "generateFollowUpQuestion llm parse r prev answer wasCorrect st = (case jget st r of
      None \<Rightarrow> (noFollowUp, st)
    | Some ctx \<Rightarrow>
        if \<not> sc_active ctx then (noFollowUp, st)
        else (case parsedAnswer llm parse (followUpPrompt prev answer wasCorrect ctx) of
            None \<Rightarrow> (noFollowUp, st)
          | Some res \<Rightarrow>
              (res, if shouldAsk res
                    then jset r (ctx\<lparr>followUpPending := True, followUpQuestion := Some (fu_question res)\<rparr>) st
                    else st)))"

definition evalPrompt :: "jstr \<Rightarrow> jstr \<Rightarrow> StudyContext \<Rightarrow> jstr" where
  "evalPrompt question answer ctx = [49324, 50857, 51088, 51032, 32, 45813, 48320, 51012, 32, 54217,
    44032, 54644, 51452, 49464, 50836, 46, 10, 10, 51656, 47928, 58, 32] @ question @ [10, 49324,
    50857, 51088, 32, 45813, 48320, 58, 32] @ answer @ [10, 51452, 51228, 58, 32] @ sc_topic ctx @ [10,
    10, 45796, 51020, 32, 74, 83, 79, 78, 32, 54805, 49885, 51004, 47196, 32, 51025, 45813, 54616,
    49464, 50836, 58, 10, 123, 10, 32, 32, 34, 105, 115, 67, 111, 114, 114, 101, 99, 116, 34, 58, 32,
    116, 114, 117, 101, 47, 102, 97, 108, 115, 101, 44, 10, 32, 32, 34, 102, 101, 101, 100, 98, 97, 99,
    107, 34, 58, 32, 34, 54217, 44032, 32, 54588, 46300, 48177, 32, 40, 49, 45, 50, 47928, 51109, 44,
    32, 51088, 50672, 49828, 47084, 50868, 32, 47568, 53804, 41, 34, 44, 10, 32, 32, 34, 112, 111, 105,
    110, 116, 115, 34, 58, 32, 48, 45, 53, 48, 10, 125, 10, 10, 54217, 44032, 32, 44592, 51456, 58, 10,
    45, 32, 50756, 48317, 54616, 47732, 32, 53, 48, 51216, 10, 45, 32, 45824, 52404, 47196, 32, 47582,
    51004, 47732, 32, 51, 48, 51216, 10, 45, 32, 48512, 48516, 51201, 51004, 47196, 32, 47582, 51004,
    47732, 32, 49, 48, 51216, 10, 45, 32, 53952, 47532, 47732, 32, 48, 51216]"

text \<open>The last entry of the participant map gets the points.\<close>

definition awardLast :: "int \<Rightarrow> (jstr, StudyParticipant) jmap \<Rightarrow> (jstr, StudyParticipant) jmap" where
  "awardLast n ps = (if ps = [] then ps
     else butlast ps @ [(fst (last ps), (snd (last ps))\<lparr>score := score (snd (last ps)) + n\<rparr>)])"

definition applyEval :: "FollowUpEval \<Rightarrow> StudyContext \<Rightarrow> StudyContext" where
  "applyEval res ctx =
     (let c1 = (if ev_points res > 0
                then ctx\<lparr>sc_participants := awardLast (ev_points res) (sc_participants ctx)\<rparr> else ctx)
      in c1\<lparr>followUpPending := False, followUpQuestion := None\<rparr>)"

definition evaluateFollowUpAnswer :: "(jstr \<Rightarrow> jstr option) \<Rightarrow> (jstr \<Rightarrow> FollowUpEval option) \<Rightarrow> jstr \<Rightarrow>
    jstr \<Rightarrow> jstr \<Rightarrow> study_st \<Rightarrow> FollowUpEval \<times> study_st" where
  "evaluateFollowUpAnswer llm parse r question answer st = (case jget st r of
      None \<Rightarrow> (\<lparr>ev_isCorrect = False, ev_feedback = [], ev_points = 0\<rparr>, st)
    | Some ctx \<Rightarrow> (case llm (evalPrompt question answer ctx) of
          None \<Rightarrow> (\<lparr>ev_isCorrect = False, ev_feedback = [54217, 44032, 32, 51473, 32,
            50724, 47448, 44032, 32, 48156, 49373, 54664, 49845, 45768, 45796, 46],
            ev_points = 0\<rparr>, st)
        | Some resp \<Rightarrow> (case jsonMatch resp of
              None \<Rightarrow> (\<lparr>ev_isCorrect = False, ev_feedback = [45813, 48320, 51012, 32,
                54217, 44032, 54624, 32, 49688, 32, 50630, 49845, 45768, 45796, 46],
                ev_points = 0\<rparr>, st)
            | Some t \<Rightarrow> (case parse t of
                  None \<Rightarrow> (\<lparr>ev_isCorrect = False, ev_feedback = [54217, 44032, 32,
                    51473, 32, 50724, 47448, 44032, 32, 48156, 49373, 54664, 49845, 45768, 45796, 46],
                    ev_points = 0\<rparr>, st)
                | Some res \<Rightarrow> (res, jset r (applyEval res ctx) st)))))"

section \<open>Difficulty detection\<close>

definition difficultyMarkers :: "jstr list" where
  "difficultyMarkers = [[50612, 47157], [48373, 51105], [54775, 44040], [47784, 47476, 44192], [51060,
    54644, 44032, 32, 50504], [47952, 51648], [47952, 50556], [49444, 47749, 54644], [50508, 47140,
    51480],
     [44032, 47476, 52432], [51221, 54869, 55176], [52264, 51060, 44032], [50780]]"

definition termSuffixes :: "jstr list" where
  "termSuffixes = [[50508, 44256, 47532, 51608], [47784, 45944], [54056, 53556], [44396, 51312],
    [47700, 47784, 47532], [54532, 47196, 49464, 49828], [49828, 47112, 46300], [54632, 49688], [53364,
    47000, 49828],
     [51064, 53552, 54168, 51060, 49828], [54532, 47196, 53664, 53084]]"

definition isUpper :: "int \<Rightarrow> bool" where "isUpper c \<longleftrightarrow> 65 \<le> c \<and> c \<le> 90"

definition isLatin :: "int \<Rightarrow> bool" where "isLatin c \<longleftrightarrow> isUpper c \<or> 97 \<le> c \<and> c \<le> 122"

text \<open>The syllables from U+AC00 to U+D7A3.\<close>

definition isHangul :: "int \<Rightarrow> bool" where "isHangul c \<longleftrightarrow> 44032 \<le> c \<and> c \<le> 55203"

text \<open>
  Greedy matching with backtracking of two or more syllables before one of the suffixes: the
  longest prefix of \<open>n\<close> syllables first.
\<close>

fun hangulTerm :: "nat \<Rightarrow> jstr \<Rightarrow> jstr option" where
  "hangulTerm 0 s = None"
| "hangulTerm (Suc n) s =
     (if Suc n < 2 then None
      else (case find (\<lambda>x. starts_with x (drop (Suc n) s)) termSuffixes of
              Some x \<Rightarrow> Some (take (Suc n) s @ x)
            | None \<Rightarrow> hangulTerm n s))"

definition termHere :: "jstr \<Rightarrow> jstr option" where
  "termHere s = (case s of
      [] \<Rightarrow> None
    | c # cs \<Rightarrow>
        if isUpper c \<and> takeWhile isLatin cs \<noteq> [] then Some (c # takeWhile isLatin cs)
        else hangulTerm (length (takeWhile isHangul s)) s)"

fun firstTerm :: "jstr \<Rightarrow> jstr option" where
  "firstTerm [] = None"
| "firstTerm (c # cs) = (case termHere (c # cs) of Some t \<Rightarrow> Some t | None \<Rightarrow> firstTerm cs)"

definition detectDifficultKeyword :: "jstr \<Rightarrow> jstr option" where
  "detectDifficultKeyword transcript =
     (if list_ex (\<lambda>m. str_includes m transcript) difficultyMarkers then firstTerm transcript else None)"

definition shouldIntervene :: "jstr \<Rightarrow> jstr \<Rightarrow> study_st \<Rightarrow> bool \<times> jstr option \<times> jstr" where
  "shouldIntervene r transcript st = (case jget st r of
      None \<Rightarrow> (False, None, [])
    | Some ctx \<Rightarrow>
        if \<not> sc_active ctx then (False, None, [])
        else (case detectDifficultKeyword transcript of
            Some k \<Rightarrow> (True, Some k, [34] @ k @ [34, 50640, 32, 45824, 54644, 32, 50612,
              47140, 50892, 54616, 49884, 45716, 32, 44163, 32, 44057, 49845, 45768, 45796, 46, 32,
              49444, 47749, 54644, 46300, 47540, 44620, 50836, 63])
          | None \<Rightarrow> (False, None, [])))"

section \<open>Report\<close>

definition avgCorrect :: "StudyParticipant list \<Rightarrow> rat" where
  "avgCorrect ps = (if ps = [] then 0
     else sum_list (map (\<lambda>p. if totalAnswers p > 0
            then of_int (correctAnswers p) / of_int (totalAnswers p) else 0) ps) / of_nat (length ps))"

definition generateSummaryText :: "StudyContext \<Rightarrow> StudyParticipant list \<Rightarrow> jstr" where
  "generateSummaryText ctx ps =
     sc_topic ctx @ [32, 49828, 53552, 46356, 32, 50756, 47308, 46, 32, 52509,
       32] @ jint (int (length (quizHistory ctx))) @
     [47928, 51228, 32, 52636, 51228, 44, 32, 54217, 44512, 32, 51221, 45813, 47456,
       32] @ jint (js_round (avgCorrect ps * 100)) @ [37, 46, 32] @
     (case ps of [] \<Rightarrow> [] | w # _ \<Rightarrow> [50864, 49849, 58, 32] @ sp_name w @ [32,
       40] @ jint (score w) @ [51216, 41])"

record StudyReport =
  rep_title :: jstr
  rep_duration :: jstr
  rep_participants :: "StudyParticipant list"
  rep_quizzes :: "StudyQuiz list"
  rep_summary :: jstr

definition generateReport :: "int \<Rightarrow> jstr \<Rightarrow> study_st \<Rightarrow> StudyReport option" where
  "generateReport now r st = (case jget st r of
      None \<Rightarrow> None
    | Some ctx \<Rightarrow>
        (let ms = now - sc_startTime ctx;
             ps = sort_key (\<lambda>p. - score p) (jvals (sc_participants ctx))
         in Some \<lparr>rep_title = sc_topic ctx,
                  rep_duration = jint (ms div 60000) @ [48516, 32] @ jint (ms mod 60000 div 1000) @ [52488],
                  rep_participants = ps, rep_quizzes = quizHistory ctx,
                  rep_summary = generateSummaryText ctx ps\<rparr>))"

section \<open>Invariant\<close>

definition participant_ok :: "StudyParticipant \<Rightarrow> bool" where
  "participant_ok p \<longleftrightarrow> 0 \<le> streak p \<and> streak p \<le> correctAnswers p \<and> correctAnswers p \<le> totalAnswers p"

definition context_ok :: "StudyContext \<Rightarrow> bool" where
  "context_ok c \<longleftrightarrow> jwf (sc_participants c) \<and> (\<forall>p \<in> set (jvals (sc_participants c)). participant_ok p) \<and>
     quizCount c = length (quizHistory c)"

definition study_inv :: "study_st \<Rightarrow> bool" where
  "study_inv st \<longleftrightarrow> jwf st \<and> (\<forall>c \<in> set (jvals st). context_ok c)"

lemma study_inv_get: "study_inv st \<Longrightarrow> jget st r = Some c \<Longrightarrow> context_ok c"
  by (auto simp: study_inv_def jm.vals_iff)

lemma study_inv_put: "study_inv st \<Longrightarrow> context_ok c \<Longrightarrow> study_inv (jset r c st)"
  using jm.put_vals_all [of st context_ok c r] by (simp add: study_inv_def)

lemma study_inv_del: "study_inv st \<Longrightarrow> study_inv (jdel r st)"
  using jm.del_vals_all [of st context_ok r] by (simp add: study_inv_def)

lemma context_ok_put:
  "context_ok c \<Longrightarrow> participant_ok p \<Longrightarrow> context_ok (c\<lparr>sc_participants := jset i p (sc_participants c)\<rparr>)"
  using jm.put_vals_all [of "sc_participants c" participant_ok p i] by (simp add: context_ok_def)

lemma context_ok_get: "context_ok c \<Longrightarrow> jget (sc_participants c) i = Some p \<Longrightarrow> participant_ok p"
  by (auto simp: context_ok_def jm.vals_iff)

lemma context_ok_new [simp]: "context_ok (newStudyContext now t d)"
  by (simp add: context_ok_def newStudyContext_def jvals_def)

lemma participant_ok_new [simp]: "participant_ok (newStudyParticipant i n)"
  by (simp add: participant_ok_def newStudyParticipant_def)

lemma participant_ok_score: "participant_ok p \<Longrightarrow> participant_ok (scoreAnswer q i p)"
  by (auto simp: participant_ok_def scoreAnswer_def Let_def)

lemma context_ok_record: "context_ok c \<Longrightarrow> context_ok (recordQuiz now q c)"
  by (simp add: context_ok_def recordQuiz_def)

lemma awardLast_keys [simp]: "map fst (awardLast n ps) = map fst ps"
  by (cases ps rule: rev_cases) (simp_all add: awardLast_def)

lemma context_ok_eval: "context_ok c \<Longrightarrow> context_ok (applyEval res c)"
proof -
  assume ok: "context_ok c"
  have a: "\<forall>p \<in> set (jvals (awardLast n ps)). participant_ok p"
    if "\<forall>p \<in> set (jvals ps). participant_ok p" for n and ps :: "(jstr, StudyParticipant) jmap"
    using that by (cases ps rule: rev_cases) (simp_all add: awardLast_def jvals_def participant_ok_def)
  have "\<forall>p \<in> set (jvals (sc_participants c)). participant_ok p" using ok by (simp add: context_ok_def)
  with ok a [OF this, of "ev_points res"] show ?thesis
    by (simp add: context_ok_def applyEval_def Let_def jwf_def)
qed

section \<open>Runs\<close>

record study_world =
  w_llm :: "jstr \<Rightarrow> jstr option"
  w_parseQuiz :: "jstr \<Rightarrow> QuizData option"
  w_parseFollow :: "jstr \<Rightarrow> FollowUpResult option"
  w_parseEval :: "jstr \<Rightarrow> FollowUpEval option"

datatype study_op =
    SStart int jstr jstr "int option"
  | SEnd jstr
  | SAdd jstr jstr jstr
  | SQuiz int int jstr "jstr list"
  | SSurprise int jstr jstr
  | SAnswer jstr jstr int
  | SFollow jstr jstr jstr bool
  | SEval jstr jstr jstr
  | SCleanup jstr

fun study_step :: "study_world \<Rightarrow> study_op \<Rightarrow> study_st \<Rightarrow> study_st" where
  "study_step w (SStart now r t d) st = snd (startStudyMode now r t d st)"
| "study_step w (SEnd r) st = snd (endStudyMode r st)"
| "study_step w (SAdd r i n) st = addParticipant r i n st"
| "study_step w (SQuiz t0 t1 r xs) st =
     snd (generateQuizFromConversation (w_llm w) (w_parseQuiz w) t0 t1 r xs st)"
| "study_step w (SSurprise now r k) st = snd (generateSurpriseQuiz (w_llm w) (w_parseQuiz w) now r k st)"
| "study_step w (SAnswer r i a) st = snd (processAnswer r i a st)"
| "study_step w (SFollow r q a c) st =
     snd (generateFollowUpQuestion (w_llm w) (w_parseFollow w) r q a c st)"
| "study_step w (SEval r q a) st = snd (evaluateFollowUpAnswer (w_llm w) (w_parseEval w) r q a st)"
| "study_step w (SCleanup r) st = cleanup r st"

fun study_room :: "study_op \<Rightarrow> jstr" where
  "study_room (SStart now r t d) = r"
| "study_room (SEnd r) = r"
| "study_room (SAdd r i n) = r"
| "study_room (SQuiz t0 t1 r xs) = r"
| "study_room (SSurprise now r k) = r"
| "study_room (SAnswer r i a) = r"
| "study_room (SFollow r q a c) = r"
| "study_room (SEval r q a) = r"
| "study_room (SCleanup r) = r"

lemmas study_defs = startStudyMode_def endStudyMode_def addParticipant_def
  generateQuizFromConversation_def generateSurpriseQuiz_def processAnswer_def
  generateFollowUpQuestion_def evaluateFollowUpAnswer_def cleanup_def

lemmas context_flags [simp] = context_ok_def [of "c\<lparr>sc_active := b\<rparr>" for c b, simplified, folded context_ok_def]
  context_ok_def [of "c\<lparr>followUpPending := b, followUpQuestion := q\<rparr>" for c b q, simplified, folded context_ok_def]

lemma quizReply_ok: "context_ok c \<Longrightarrow> context_ok (snd (quizReply now d c))"
  by (auto simp: quizReply_def Let_def context_ok_record split: option.splits)

lemma surpriseReply_ok: "context_ok c \<Longrightarrow> context_ok (snd (surpriseReply now k d c))"
  by (auto simp: surpriseReply_def Let_def context_ok_record split: option.splits)

lemma study_step_inv: "study_inv st \<Longrightarrow> study_inv (study_step w op st)"
  by (cases op)
    (auto simp: study_defs Let_def split_beta split: option.splits intro!: study_inv_put study_inv_del
      context_ok_put participant_ok_score context_ok_eval quizReply_ok surpriseReply_ok
      dest: study_inv_get context_ok_get)

interpretation study: room_isolated study_inv "study_step w" study_room map_of for w
proof (unfold_locales, goal_cases)
  case (1 s op)
  then show ?case by (rule study_step_inv)
next
  case (2 s r op)
  then show ?case by (cases op) (auto simp: study_defs Let_def split_beta split: option.splits)
next
  case (3 s s' op)
  then show ?case by (cases op) (auto simp: study_defs Let_def split_beta split: option.splits)
qed

section \<open>Quiz attempts\<close>

definition quizAttempt :: "int \<Rightarrow> jstr list \<times> QuizData option \<Rightarrow> StudyContext \<Rightarrow> StudyContext \<times> bool" where
  "quizAttempt now e ctx = (case quizPrompt now (fst e) ctx of
      None \<Rightarrow> (ctx, False)
    | Some p \<Rightarrow> (let (q, c1) = quizReply now (snd e) ctx in (c1, q \<noteq> None)))"

lemma quizAttempt_cases:
  assumes "quizAttempt now e ctx = (ctx', b)"
  shows "if b then lastQuizTime ctx + MIN_QUIZ_INTERVAL_MS \<le> now \<and> lastQuizTime ctx' = now \<and>
           quizCount ctx < MAX_QUIZZES_PER_SESSION \<and> quizCount ctx' = Suc (quizCount ctx)
         else ctx' = ctx"
  using assms
  by (auto simp: quizAttempt_def quizPrompt_def quizReply_def recordQuiz_def Let_def
      split: if_splits option.splits)

interpretation quizzes: cooldown_gate quizAttempt "\<lambda>c. Some (lastQuizTime c)" MIN_QUIZ_INTERVAL_MS
proof (unfold_locales, goal_cases)
  case (1 now e s s')
  then show ?case using quizAttempt_cases [OF 1] by simp
next
  case (2 now e s s' t)
  then show ?case using quizAttempt_cases [OF 2(1)] by simp
next
  case (3 now e s s')
  then show ?case using quizAttempt_cases [OF 3] by simp
qed

lemma quizzes_capped:
  "length (quizzes.fire_times ctx evs) \<le> MAX_QUIZZES_PER_SESSION - quizCount ctx"
proof (induction evs arbitrary: ctx)
  case (Cons ev evs)
  obtain t e where ev: "ev = (t, e)" by (cases ev)
  obtain c b where a: "quizAttempt t e ctx = (c, b)" by (cases "quizAttempt t e ctx")
  show ?case
    using Cons [of c] quizAttempt_cases [OF a] ev a by (auto split: if_splits)
qed simp

section \<open>Scores\<close>

lemma score_correct:
  "score (scoreAnswer q (correctIndex q) p) = score p + points q +
     (if streak p + 1 \<ge> 3 then 50 * (streak p - 1) else 0)"
  "streak (scoreAnswer q (correctIndex q) p) = streak p + 1"
  by (auto simp: scoreAnswer_def Let_def)

section \<open>Properties\<close>

text \<open>
  An answer changes the participant's score by exactly the points the service reports for it
  (streak bonus included), and touches no other participant.
\<close>

theorem answer_points_are_score_change:
  assumes "jget st r = Some ctx" and "currentQuiz ctx = Some q" and "jget (sc_participants ctx) i = Some p"
  shows "\<exists>res ctx' p'. processAnswer r i a st = (Some res, jset r ctx' st) \<and>
    jget (sc_participants ctx') i = Some p' \<and> score p' = score p + ar_points res \<and>
    ar_isCorrect res = (a = correctIndex q) \<and>
    (\<forall>j. j \<noteq> i \<longrightarrow> jget (sc_participants ctx') j = jget (sc_participants ctx) j)"
  using assms by (auto simp: processAnswer_def scoreAnswer_def Let_def)

definition demo_quiz :: StudyQuiz where
  "demo_quiz = makeQuiz 0 \<lparr>qd_question = [63], qd_options = [[1], [2]], qd_correctIndex = 1,
     qd_explanation = [], qd_topic = None\<rparr> [9]"

definition demo_context :: StudyContext where
  "demo_context = (newStudyContext 0 [9] 300)\<lparr>currentQuiz := Some demo_quiz,
     sc_participants := [([1], newStudyParticipant [1] [65])]\<rparr>"

theorem answer_points_are_score_change_witness:
  "\<exists>res ctx' p'. processAnswer [7] [1] 1 [([7], demo_context)] = (Some res, jset [7] ctx' [([7], demo_context)]) \<and>
    jget (sc_participants ctx') [1] = Some p' \<and> score p' = 0 + ar_points res"
  using answer_points_are_score_change [of "[([7], demo_context)]" "[7]" demo_context demo_quiz "[1]"
      "newStudyParticipant [1] [65]" 1]
  by (fastforce simp: demo_context_def newStudyParticipant_def)

text \<open>
  A new participant who answers \<open>k + 1\<close> quizzes in a row correctly has
  \<open>100 (k + 1) + 25 k (k - 1)\<close> points: 100 per answer and a bonus that grows by 50 from the
  third answer on.
\<close>

theorem streak_score_closed_form:
  assumes "\<forall>q \<in> set qs. points q = 100" and "qs \<noteq> []"
  shows "score (fold (\<lambda>q p. scoreAnswer q (correctIndex q) p) qs (newStudyParticipant i n)) =
    100 * int (length qs) + 25 * (int (length qs) - 1) * (int (length qs) - 2)"
proof -
  have "streak (fold (\<lambda>q p. scoreAnswer q (correctIndex q) p) qs (newStudyParticipant i n)) = int (length qs)
    \<and> (qs \<noteq> [] \<longrightarrow> score (fold (\<lambda>q p. scoreAnswer q (correctIndex q) p) qs (newStudyParticipant i n)) =
      100 * int (length qs) + 25 * (int (length qs) - 1) * (int (length qs) - 2))"
    if "\<forall>q \<in> set qs. points q = 100" for qs
    using that
  proof (induction qs rule: rev_induct)
    case Nil
    then show ?case by (simp add: newStudyParticipant_def)
  next
    case (snoc q qs)
    then show ?case
      by (cases "length qs" rule: nat.exhaust [case_product nat.exhaust])
        (auto simp: score_correct newStudyParticipant_def algebra_simps)
  qed
  with assms show ?thesis by blast
qed

theorem streak_score_closed_form_witness:
  "score (fold (\<lambda>q p. scoreAnswer q (correctIndex q) p) [demo_quiz, demo_quiz, demo_quiz, demo_quiz]
     (newStudyParticipant [1] [65])) = 550"
  using streak_score_closed_form [of "[demo_quiz, demo_quiz, demo_quiz, demo_quiz]" "[1]" "[65]"]
  by (simp add: demo_quiz_def makeQuiz_def)

text \<open>
  When quiz requests for a context do not overlap, the quizzes made from the conversation are
  at least 60 seconds apart and there are at most ten of them.
\<close>

theorem quizzes_limited:
  "spaced 60000 (cooldown_gate.fire_times quizAttempt ctx evs) \<and>
   length (cooldown_gate.fire_times quizAttempt ctx evs) \<le> 10 - quizCount ctx"
  using quizzes.firings_spaced [of ctx evs] quizzes_capped [of ctx evs]
  by (simp add: MIN_QUIZ_INTERVAL_MS_def MAX_QUIZZES_PER_SESSION_def)

text \<open>
  Overlapping requests break both limits: with nine quizzes made, two requests that both pass
  the checks before either model call returns leave eleven quizzes, made at times that need not be
  60 seconds apart, because the checks are not repeated when the answer arrives.
\<close>

theorem overlapping_quizzes_exceed_cap:
  assumes "sc_active ctx" and "quizCount ctx = 9" and "lastQuizTime ctx + 60000 \<le> t1" and "t1 \<le> t2"
  shows "quizPrompt t1 xs ctx \<noteq> None \<and> quizPrompt t2 ys ctx \<noteq> None \<and>
    quizCount (snd (quizReply t4 (Some d2) (snd (quizReply t3 (Some d1) ctx)))) = 11"
  using assms by (simp add: quizPrompt_def quizReply_def recordQuiz_def Let_def
      MIN_QUIZ_INTERVAL_MS_def MAX_QUIZZES_PER_SESSION_def)

theorem overlapping_quizzes_exceed_cap_witness:
  "quizPrompt 60001 [] ((newStudyContext 0 [9] 300)\<lparr>quizCount := 9\<rparr>) \<noteq> None"
  using overlapping_quizzes_exceed_cap [of "(newStudyContext 0 [9] 300)\<lparr>quizCount := 9\<rparr>" 60000 60001]
  by (simp add: newStudyContext_def)

text \<open>
  Nothing marks a quiz as answered: a participant who sends the correct answer to the same quiz
  twice is paid twice, and the repeated answers also build a streak.
\<close>

theorem repeated_answer_paid_again:
  assumes "jget st r = Some ctx" and "currentQuiz ctx = Some q" and "jget (sc_participants ctx) i = Some p"
    and "streak p = 0"
  shows "let (r1, st1) = processAnswer r i (correctIndex q) st; (r2, st2) = processAnswer r i (correctIndex q) st1
    in map_option ar_points r1 = Some (points q) \<and> map_option ar_points r2 = Some (points q) \<and>
       (\<exists>c p'. jget st2 r = Some c \<and> jget (sc_participants c) i = Some p' \<and>
          score p' = score p + 2 * points q \<and> streak p' = 2)"
  using assms by (simp add: processAnswer_def scoreAnswer_def Let_def)

theorem repeated_answer_paid_again_witness:
  "let (r1, st1) = processAnswer [7] [1] 1 [([7], demo_context)]; (r2, st2) = processAnswer [7] [1] 1 st1
   in \<exists>c p'. jget st2 [7] = Some c \<and> jget (sc_participants c) [1] = Some p' \<and> score p' = 200"
  using repeated_answer_paid_again [of "[([7], demo_context)]" "[7]" demo_context demo_quiz "[1]"
      "newStudyParticipant [1] [65]"]
  by (auto simp: demo_context_def demo_quiz_def makeQuiz_def newStudyParticipant_def split: prod.splits)

text \<open>
  The report ranks the participants: the same participants, by falling score, so the named
  winner has the highest score.
\<close>

theorem report_ranks_participants:
  assumes "jget st r = Some ctx"
  shows "\<exists>rep. generateReport now r st = Some rep \<and>
    mset (rep_participants rep) = mset (jvals (sc_participants ctx)) \<and>
    sorted_wrt (\<lambda>a b. score b \<le> score a) (rep_participants rep)"
proof -
  have "sorted_wrt (\<lambda>a b. score b \<le> score a) (sort_key (\<lambda>p. - score p) ps)" for ps :: "StudyParticipant list"
    using sorted_sort_key [of "\<lambda>p. - score p" ps] by (simp add: sorted_wrt_map)
  with assms show ?thesis by (simp add: generateReport_def Let_def)
qed

theorem report_ranks_participants_witness:
  "\<exists>rep. generateReport 61000 [7] [([7], demo_context)] = Some rep \<and> length (rep_participants rep) = 1"
proof -
  obtain rep where "generateReport 61000 [7] [([7], demo_context)] = Some rep"
    and m: "mset (rep_participants rep) = mset (jvals (sc_participants demo_context))"
    using report_ranks_participants [of "[([7], demo_context)]" "[7]" demo_context 61000] by auto
  moreover from m have "length (rep_participants rep) = 1"
    using arg_cong [OF m, of size] by (simp add: demo_context_def jvals_def)
  ultimately show ?thesis by blast
qed

end
