(* ===== verification/Evidence.thy ===== *)
theory Evidence
  imports Prelude
begin

text \<open>
  The repository of verified evidence, \<open>src/agent/evidence/evidence.repository.ts\<close>, with the types of
  \<open>src/agent/evidence/evidence.interface.ts\<close>: the built-in evidence, validity (activity, age, survey
  size), keyword and topic matching and the confidence score. Confidence is computed in exact
  rationals. The server's time zone is a parameter: \<open>localMonth ms\<close> is twelve times the year plus
  the month of an instant in it, which \<open>getFullYear\<close> and \<open>getMonth\<close> read.
\<close>

section \<open>Types\<close>

datatype EvidenceSourceType =
  official_announcement | large_survey | academic_paper | standard_organization | statistics_agency

record VerifiedEvidence =
  ev_id :: jstr
  ev_topic :: jstr
  ev_keywords :: "jstr list"
  fact :: jstr
  sourceName :: jstr
  sourceType :: EvidenceSourceType
  sourceUrl :: jstr
  verifiedDate :: jstr
  participantCount :: "int option"
  category :: jstr
  ev_active :: bool

record EvidenceMatchResult =
  m_evidence :: VerifiedEvidence
  m_confidence :: int
  matchedKeywords :: "jstr list"

record OpinionConfig =
  minConfidenceThreshold :: int
  maxEvidenceAgeMonths :: int
  minSurveyParticipants :: int
  enabled :: bool

definition DEFAULT_OPINION_CONFIG :: OpinionConfig where
  "DEFAULT_OPINION_CONFIG = \<lparr>minConfidenceThreshold = 95, maxEvidenceAgeMonths = 24,
     minSurveyParticipants = 10000, enabled = True\<rparr>"

record repo =
  evidenceMap :: "(jstr, VerifiedEvidence) jmap"
  config :: OpinionConfig

section \<open>Dates\<close>

text \<open>
  \<open>new Date('YYYY-MM')\<close> is the first instant of that month in UTC; days are counted in the
  proleptic Gregorian calendar. Any other text is taken as an invalid date (\<open>NaN\<close>).
\<close>

definition digit :: "int \<Rightarrow> int option" where
  "digit c = (if 48 \<le> c \<and> c \<le> 57 then Some (c - 48) else None)"

definition parseYearMonth :: "jstr \<Rightarrow> (int \<times> int) option" where
  "parseYearMonth s = (case map digit s of
      [Some a, Some b, Some c, Some d, None, Some e, Some f] \<Rightarrow>
        (let m = 10 * e + f
         in if s ! 4 = 45 \<and> 1 \<le> m \<and> m \<le> 12 then Some (1000 * a + 100 * b + 10 * c + d, m) else None)
    | _ \<Rightarrow> None)"

text \<open>Days from 1970-01-01 to the first day of a month.\<close>

definition monthDays :: "int \<Rightarrow> int \<Rightarrow> int" where
  "monthDays y m =
     (let y1 = (if m \<le> 2 then y - 1 else y); m1 = (if m \<le> 2 then m + 9 else m - 3)
      in 365 * y1 + y1 div 4 - y1 div 100 + y1 div 400 + (153 * m1 + 2) div 5 - 719468)"

definition dateMs :: "jstr \<Rightarrow> int option" where
  "dateMs s = map_option (\<lambda>(y, m). monthDays y m * 86400000) (parseYearMonth s)"

section \<open>The built-in evidence\<close>

definition defaultEvidence1 :: "VerifiedEvidence list" where
  "defaultEvidence1 =
    [\<lparr>ev_id = [115, 111, 45, 115, 117, 114, 118, 101, 121, 45, 50, 48, 50, 52, 45, 116, 121,
      112, 101, 115, 99, 114, 105, 112, 116], ev_topic = [84, 121, 112, 101, 83, 99, 114, 105, 112,
      116, 32, 49440, 54840, 46020],
      ev_keywords = [[53440, 51077, 49828, 53356, 47549, 53944], [116, 121, 112, 101, 115, 99, 114,
        105, 112, 116], [116, 115], [50616, 50612, 32, 49440, 53469], [54532, 47200, 53944, 50644,
        46300, 32, 50616, 50612]],
      fact = [54, 53, 44, 48, 48, 48, 47749, 32, 51060, 49345, 51032, 32, 44060, 48156, 51088, 32,
        51473, 32, 50557, 32, 51, 56, 46, 53, 37, 44032, 32, 84, 121, 112, 101, 83, 99, 114, 105, 112,
        116, 47484, 32, 49324, 50857, 54616, 47728, 44, 32, 44032, 51109, 32, 50896, 54616, 45716, 32,
        50616, 50612, 32, 49345, 50948, 44428, 50640, 32, 47021, 53356, 46104, 50632, 49845, 45768,
        45796],
      sourceName = [50, 48, 50, 52, 32, 83, 116, 97, 99, 107, 79, 118, 101, 114, 102, 108, 111, 119,
        32, 68, 101, 118, 101, 108, 111, 112, 101, 114, 32, 83, 117, 114, 118, 101, 121],
        sourceType = large_survey,
      sourceUrl = [104, 116, 116, 112, 115, 58, 47, 47, 115, 117, 114, 118, 101, 121, 46, 115, 116, 97,
        99, 107, 111, 118, 101, 114, 102, 108, 111, 119, 46, 99, 111, 47, 50, 48, 50, 52, 47],
        verifiedDate = [50, 48, 50, 52, 45, 48, 53],
      participantCount = Some 65000, category = [100, 101, 118, 101, 108, 111, 112, 109, 101, 110,
        116], ev_active = True\<rparr>,
     \<lparr>ev_id = [115, 111, 45, 115, 117, 114, 118, 101, 121, 45, 50, 48, 50, 52, 45, 114, 101, 97,
       99, 116], ev_topic = [82, 101, 97, 99, 116, 32, 54532, 47112, 51076, 50892, 53356, 32, 49324,
       50857, 47456],
      ev_keywords = [[47532, 50529, 53944], [114, 101, 97, 99, 116], [54532, 47200, 53944, 50644,
        46300], [54532, 47112, 51076, 50892, 53356], [85, 73, 32, 46972, 51060, 48652, 47084, 47532]],
      fact = [50937, 32, 54532, 47112, 51076, 50892, 53356, 32, 51473, 32, 82, 101, 97, 99, 116, 44032,
        32, 50557, 32, 51, 57, 46, 53, 37, 51032, 32, 49324, 50857, 47456, 47196, 32, 49, 50948, 47484,
        32, 52264, 51648, 54664, 49845, 45768, 45796],
      sourceName = [50, 48, 50, 52, 32, 83, 116, 97, 99, 107, 79, 118, 101, 114, 102, 108, 111, 119,
        32, 68, 101, 118, 101, 108, 111, 112, 101, 114, 32, 83, 117, 114, 118, 101, 121],
        sourceType = large_survey,
      sourceUrl = [104, 116, 116, 112, 115, 58, 47, 47, 115, 117, 114, 118, 101, 121, 46, 115, 116, 97,
        99, 107, 111, 118, 101, 114, 102, 108, 111, 119, 46, 99, 111, 47, 50, 48, 50, 52, 47],
        verifiedDate = [50, 48, 50, 52, 45, 48, 53],
      participantCount = Some 65000, category = [100, 101, 118, 101, 108, 111, 112, 109, 101, 110,
        116], ev_active = True\<rparr>,
     \<lparr>ev_id = [106, 101, 116, 98, 114, 97, 105, 110, 115, 45, 50, 48, 50, 51, 45, 105, 100,
       101], ev_topic = [73, 68, 69, 32, 49324, 50857, 32, 53685, 44228],
      ev_keywords = [[105, 100, 101], [118, 115, 99, 111, 100, 101], [105, 110, 116, 101, 108, 108,
        105, 106], [50640, 46356, 53552], [44060, 48156, 54872, 44221], [118, 115, 32, 99, 111, 100,
        101]],
      fact = [86, 105, 115, 117, 97, 108, 32, 83, 116, 117, 100, 105, 111, 32, 67, 111, 100, 101,
        44032, 32, 50557, 32, 55, 50, 37, 51032, 32, 49324, 50857, 47456, 47196, 32, 44032, 51109, 32,
        47566, 51060, 32, 49324, 50857, 46104, 45716, 32, 73, 68, 69, 51077, 45768, 45796],
      sourceName = [50, 48, 50, 51, 32, 74, 101, 116, 66, 114, 97, 105, 110, 115, 32, 68, 101, 118,
        101, 108, 111, 112, 101, 114, 32, 69, 99, 111, 115, 121, 115, 116, 101, 109, 32, 83, 117, 114,
        118, 101, 121], sourceType = large_survey,
      sourceUrl = [104, 116, 116, 112, 115, 58, 47, 47, 119, 119, 119, 46, 106, 101, 116, 98, 114, 97,
        105, 110, 115, 46, 99, 111, 109, 47, 108, 112, 47, 100, 101, 118, 101, 99, 111, 115, 121, 115,
        116, 101, 109, 45, 50, 48, 50, 51, 47], verifiedDate = [50, 48, 50, 51, 45, 48, 54],
      participantCount = Some 26000, category = [100, 101, 118, 101, 108, 111, 112, 109, 101, 110,
        116], ev_active = True\<rparr>,
     \<lparr>ev_id = [111, 119, 97, 115, 112, 45, 115, 101, 115, 115, 105, 111, 110, 45, 106, 119,
       116], ev_topic = [74, 87, 84, 32, 53664, 53360, 32, 50976, 54952, 49884, 44036, 32, 44428,
       51109, 49324, 54637],
      ev_keywords = [[106, 119, 116], [53664, 53360], [50976, 54952, 49884, 44036], [47564, 47308],
        [97, 99, 99, 101, 115, 115, 32, 116, 111, 107, 101, 110], [49464, 49496], [51064, 51613]],
      fact = [65, 99, 99, 101, 115, 115, 32, 84, 111, 107, 101, 110, 51008, 32, 49, 53, 48516, 126, 50,
        49884, 44036, 44, 32, 82, 101, 102, 114, 101, 115, 104, 32, 84, 111, 107, 101, 110, 51008, 32,
        52572, 45824, 32, 50, 52, 49884, 44036, 51012, 32, 44428, 51109, 54633, 45768, 45796, 46, 32,
        48124, 44048, 54620, 32, 51089, 50629, 50640, 45716, 32, 45908, 32, 51687, 51008, 32, 49884,
        44036, 51012, 32, 44428, 51109, 54633, 45768, 45796],
      sourceName = [79, 87, 65, 83, 80, 32, 83, 101, 115, 115, 105, 111, 110, 32, 77, 97, 110, 97, 103,
        101, 109, 101, 110, 116, 32, 67, 104, 101, 97, 116, 32, 83, 104, 101, 101, 116],
        sourceType = standard_organization,
      sourceUrl = [104, 116, 116, 112, 115, 58, 47, 47, 99, 104, 101, 97, 116, 115, 104, 101, 101, 116,
        115, 101, 114, 105, 101, 115, 46, 111, 119, 97, 115, 112, 46, 111, 114, 103, 47, 99, 104, 101,
        97, 116, 115, 104, 101, 101, 116, 115, 47, 83, 101, 115, 115, 105, 111, 110, 95, 77, 97, 110,
        97, 103, 101, 109, 101, 110, 116, 95, 67, 104, 101, 97, 116, 95, 83, 104, 101, 101, 116, 46,
        104, 116, 109, 108], verifiedDate = [50, 48, 50, 52, 45, 48, 49],
      participantCount = None, category = [115, 101, 99, 117, 114, 105, 116, 121], ev_active = True\<rparr>,
     \<lparr>ev_id = [111, 119, 97, 115, 112, 45, 112, 97, 115, 115, 119, 111, 114, 100, 45, 104, 97,
       115, 104], ev_topic = [48708, 48128, 48264, 54840, 32, 54644, 49905, 32, 50508, 44256, 47532,
       51608],
      ev_keywords = [[48708, 48128, 48264, 54840], [54644, 49905], [98, 99, 114, 121, 112, 116], [97,
        114, 103, 111, 110, 50], [50516, 54840, 54868], [112, 97, 115, 115, 119, 111, 114, 100]],
      fact = [65, 114, 103, 111, 110, 50, 105, 100, 47484, 32, 52572, 50864, 49440, 51004, 47196, 32,
        44428, 51109, 54616, 47728, 44, 32, 98, 99, 114, 121, 112, 116, 40, 99, 111, 115, 116, 32, 49,
        48, 32, 51060, 49345, 41, 32, 46608, 45716, 32, 115, 99, 114, 121, 112, 116, 47484, 32, 45824,
        50504, 51004, 47196, 32, 44428, 51109, 54633, 45768, 45796, 46, 32, 77, 68, 53, 44, 32, 83, 72,
        65, 49, 51008, 32, 48708, 48128, 48264, 54840, 32, 54644, 49905, 50640, 32, 49324, 50857,
        54616, 47732, 32, 50504, 32, 46121, 45768, 45796],
      sourceName = [79, 87, 65, 83, 80, 32, 80, 97, 115, 115, 119, 111, 114, 100, 32, 83, 116, 111,
        114, 97, 103, 101, 32, 67, 104, 101, 97, 116, 32, 83, 104, 101, 101, 116],
        sourceType = standard_organization,
      sourceUrl = [104, 116, 116, 112, 115, 58, 47, 47, 99, 104, 101, 97, 116, 115, 104, 101, 101, 116,
        115, 101, 114, 105, 101, 115, 46, 111, 119, 97, 115, 112, 46, 111, 114, 103, 47, 99, 104, 101,
        97, 116, 115, 104, 101, 101, 116, 115, 47, 80, 97, 115, 115, 119, 111, 114, 100, 95, 83, 116,
        111, 114, 97, 103, 101, 95, 67, 104, 101, 97, 116, 95, 83, 104, 101, 101, 116, 46, 104, 116,
        109, 108], verifiedDate = [50, 48, 50, 52, 45, 48, 49],
      participantCount = None, category = [115, 101, 99, 117, 114, 105, 116, 121], ev_active = True\<rparr>,
     \<lparr>ev_id = [99, 110, 99, 102, 45, 107, 117, 98, 101, 114, 110, 101, 116, 101, 115, 45, 50,
       48, 50, 51], ev_topic = [75, 117, 98, 101, 114, 110, 101, 116, 101, 115, 32, 52292, 53469,
       47456],
      ev_keywords = [[53216, 48260, 45348, 54000, 49828], [107, 117, 98, 101, 114, 110, 101, 116, 101,
        115], [107, 56, 115], [52968, 53580, 51060, 45320], [50724, 52992, 49828, 53944, 47112, 51060,
        49496]],
      fact = [51204, 32, 49464, 44228, 51201, 51004, 47196, 32, 56, 52, 37, 51032, 32, 51312, 51649,
        51060, 32, 75, 117, 98, 101, 114, 110, 101, 116, 101, 115, 47484, 32, 54532, 47196, 45909,
        49496, 50640, 49436, 32, 49324, 50857, 54616, 44144, 45208, 32, 54217, 44032, 32, 51473, 51077,
        45768, 45796],
      sourceName = [67, 78, 67, 70, 32, 65, 110, 110, 117, 97, 108, 32, 83, 117, 114, 118, 101, 121,
        32, 50, 48, 50, 51], sourceType = large_survey,
      sourceUrl = [104, 116, 116, 112, 115, 58, 47, 47, 119, 119, 119, 46, 99, 110, 99, 102, 46, 105,
        111, 47, 114, 101, 112, 111, 114, 116, 115, 47, 99, 110, 99, 102, 45, 97, 110, 110, 117, 97,
        108, 45, 115, 117, 114, 118, 101, 121, 45, 50, 48, 50, 51, 47], verifiedDate = [50, 48, 50, 51,
        45, 49, 50],
      participantCount = Some 17000, category = [105, 110, 102, 114, 97, 115, 116, 114, 117, 99, 116,
        117, 114, 101], ev_active = True\<rparr>,
     \<lparr>ev_id = [103, 105, 116, 104, 117, 98, 45, 99, 111, 112, 105, 108, 111, 116, 45, 112, 114,
       111, 100, 117, 99, 116, 105, 118, 105, 116, 121], ev_topic = [65, 73, 32, 53076, 46377, 32,
       46020, 44396, 32, 49373, 49328, 49457],
      ev_keywords = [[99, 111, 112, 105, 108, 111, 116], [97, 105, 32, 53076, 46377], [53076, 54028,
        51068, 47103], [103, 105, 116, 104, 117, 98, 32, 99, 111, 112, 105, 108, 111, 116], [49373,
        49328, 49457]],
      fact = [71, 105, 116, 72, 117, 98, 32, 67, 111, 112, 105, 108, 111, 116, 32, 49324, 50857, 51088,
        51032, 32, 56, 56, 37, 44032, 32, 49373, 49328, 49457, 51060, 32, 54693, 49345, 46104, 50632,
        45796, 44256, 32, 51025, 45813, 54664, 51004, 47728, 44, 32, 54217, 44512, 32, 53, 53, 37, 32,
        45908, 32, 48736, 47476, 44172, 32, 51089, 50629, 51012, 32, 50756, 47308, 54664, 49845, 45768,
        45796],
      sourceName = [71, 105, 116, 72, 117, 98, 32, 67, 111, 112, 105, 108, 111, 116, 32, 82, 101, 115,
        101, 97, 114, 99, 104, 32, 83, 116, 117, 100, 121], sourceType = official_announcement,
      sourceUrl = [104, 116, 116, 112, 115, 58, 47, 47, 103, 105, 116, 104, 117, 98, 46, 98, 108, 111,
        103, 47, 50, 48, 50, 50, 45, 48, 57, 45, 48, 55, 45, 114, 101, 115, 101, 97, 114, 99, 104, 45,
        113, 117, 97, 110, 116, 105, 102, 121, 105, 110, 103, 45, 103, 105, 116, 104, 117, 98, 45, 99,
        111, 112, 105, 108, 111, 116, 115, 45, 105, 109, 112, 97, 99, 116, 45, 111, 110, 45, 100, 101,
        118, 101, 108, 111, 112, 101, 114, 45, 112, 114, 111, 100, 117, 99, 116, 105, 118, 105, 116,
        121, 45, 97, 110, 100, 45, 104, 97, 112, 112, 105, 110, 101, 115, 115, 47], verifiedDate = [50,
        48, 50, 50, 45, 48, 57],
      participantCount = None, category = [100, 101, 118, 101, 108, 111, 112, 109, 101, 110, 116],
        ev_active = True\<rparr>,
     \<lparr>ev_id = [103, 111, 111, 103, 108, 101, 45, 115, 114, 101, 45, 115, 108, 111],
       ev_topic = [83, 76, 79, 47, 83, 76, 73, 32, 49444, 51221, 32, 44428, 51109, 49324, 54637],
      ev_keywords = [[115, 108, 111], [115, 108, 105], [115, 114, 101], [44032, 50857, 49457], [97,
        118, 97, 105, 108, 97, 98, 105, 108, 105, 116, 121], [57, 57, 46, 57], [57, 57, 46, 57, 57]],
      fact = [71, 111, 111, 103, 108, 101, 32, 83, 82, 69, 45716, 32, 57, 57, 46, 57, 37, 32, 40, 116,
        104, 114, 101, 101, 32, 110, 105, 110, 101, 115, 41, 47484, 32, 45824, 48512, 48516, 51032, 32,
        49436, 48708, 49828, 50640, 32, 51201, 51208, 54620, 32, 47785, 54364, 47196, 32, 44428, 51109,
        54616, 47728, 44, 32, 57, 57, 46, 57, 57, 37, 45716, 32, 47588, 50864, 32, 51473, 50836, 54620,
        32, 49884, 49828, 53596, 50640, 47564, 32, 44428, 51109, 54633, 45768, 45796],
      sourceName = [71, 111, 111, 103, 108, 101, 32, 83, 82, 69, 32, 66, 111, 111, 107],
        sourceType = official_announcement,
      sourceUrl = [104, 116, 116, 112, 115, 58, 47, 47, 115, 114, 101, 46, 103, 111, 111, 103, 108,
        101, 47, 115, 114, 101, 45, 98, 111, 111, 107, 47, 115, 101, 114, 118, 105, 99, 101, 45, 108,
        101, 118, 101, 108, 45, 111, 98, 106, 101, 99, 116, 105, 118, 101, 115, 47],
        verifiedDate = [50, 48, 50, 51, 45, 48, 49],
      participantCount = None, category = [105, 110, 102, 114, 97, 115, 116, 114, 117, 99, 116, 117,
        114, 101], ev_active = True\<rparr>,
     \<lparr>ev_id = [109, 97, 114, 116, 105, 110, 45, 102, 111, 119, 108, 101, 114, 45, 109, 105, 99,
       114, 111, 115, 101, 114, 118, 105, 99, 101, 115], ev_topic = [47560, 51060, 53356, 47196, 49436,
       48708, 49828, 32, 46020, 51077, 32, 49884, 51216],
      ev_keywords = [[47560, 51060, 53356, 47196, 49436, 48708, 49828], [109, 105, 99, 114, 111, 115,
        101, 114, 118, 105, 99, 101, 115], [47784, 45440, 47532, 49828], [109, 111, 110, 111, 108, 105,
        116, 104], [50500, 53412, 53581, 52376]],
      fact = [77, 97, 114, 116, 105, 110, 32, 70, 111, 119, 108, 101, 114, 45716, 32, 34, 77, 111, 110,
        111, 108, 105, 116, 104, 32, 70, 105, 114, 115, 116, 34, 32, 51217, 44540, 51012, 32, 44428,
        51109, 54633, 45768, 45796, 46, 32, 52376, 51020, 48512, 53552, 32, 47560, 51060, 53356, 47196,
        49436, 48708, 49828, 47196, 32, 49884, 51089, 54616, 51648, 32, 47568, 44256, 44, 32, 46020,
        47700, 51064, 51012, 32, 52649, 48516, 55176, 32, 51060, 54644, 54620, 32, 54980, 32, 48516,
        47532, 54624, 32, 44163, 51012, 32, 44428, 51109, 54633, 45768, 45796],
      sourceName = [77, 97, 114, 116, 105, 110, 32, 70, 111, 119, 108, 101, 114, 32, 45, 32, 77, 111,
        110, 111, 108, 105, 116, 104, 70, 105, 114, 115, 116], sourceType = official_announcement,
      sourceUrl = [104, 116, 116, 112, 115, 58, 47, 47, 109, 97, 114, 116, 105, 110, 102, 111, 119,
        108, 101, 114, 46, 99, 111, 109, 47, 98, 108, 105, 107, 105, 47, 77, 111, 110, 111, 108, 105,
        116, 104, 70, 105, 114, 115, 116, 46, 104, 116, 109, 108], verifiedDate = [50, 48, 49, 53, 45,
        48, 54],
      participantCount = None, category = [97, 114, 99, 104, 105, 116, 101, 99, 116, 117, 114, 101],
        ev_active = True\<rparr>]"

definition defaultEvidence2 :: "VerifiedEvidence list" where
  "defaultEvidence2 =
    [\<lparr>ev_id = [103, 111, 111, 103, 108, 101, 45, 116, 101, 115, 116, 45, 112, 121, 114, 97, 109,
      105, 100], ev_topic = [53580, 49828, 53944, 32, 54588, 46972, 48120, 46300, 32, 48708, 50984],
      ev_keywords = [[53580, 49828, 53944], [117, 110, 105, 116, 32, 116, 101, 115, 116], [50976,
        45787, 32, 53580, 49828, 53944], [53685, 54633, 32, 53580, 49828, 53944], [101, 50, 101],
        [53580, 49828, 53944, 32, 48708, 50984]],
      fact = [71, 111, 111, 103, 108, 101, 51008, 32, 53580, 49828, 53944, 32, 48708, 50984, 51012, 32,
        85, 110, 105, 116, 32, 55, 48, 37, 44, 32, 73, 110, 116, 101, 103, 114, 97, 116, 105, 111, 110,
        32, 50, 48, 37, 44, 32, 69, 50, 69, 32, 49, 48, 37, 47196, 32, 44428, 51109, 54633, 45768,
        45796, 32, 40, 53580, 49828, 53944, 32, 54588, 46972, 48120, 46300, 41],
      sourceName = [71, 111, 111, 103, 108, 101, 32, 84, 101, 115, 116, 105, 110, 103, 32, 66, 108,
        111, 103], sourceType = official_announcement,
      sourceUrl = [104, 116, 116, 112, 115, 58, 47, 47, 116, 101, 115, 116, 105, 110, 103, 46, 103,
        111, 111, 103, 108, 101, 98, 108, 111, 103, 46, 99, 111, 109, 47, 50, 48, 49, 53, 47, 48, 52,
        47, 106, 117, 115, 116, 45, 115, 97, 121, 45, 110, 111, 45, 116, 111, 45, 109, 111, 114, 101,
        45, 101, 110, 100, 45, 116, 111, 45, 101, 110, 100, 45, 116, 101, 115, 116, 115, 46, 104, 116,
        109, 108], verifiedDate = [50, 48, 49, 53, 45, 48, 52],
      participantCount = None, category = [116, 101, 115, 116, 105, 110, 103], ev_active = True\<rparr>,
     \<lparr>ev_id = [115, 111, 45, 115, 117, 114, 118, 101, 121, 45, 50, 48, 50, 52, 45, 112, 111,
       115, 116, 103, 114, 101, 115], ev_topic = [80, 111, 115, 116, 103, 114, 101, 83, 81, 76, 32,
       51064, 44592, 46020],
      ev_keywords = [[112, 111, 115, 116, 103, 114, 101, 115], [112, 111, 115, 116, 103, 114, 101, 115,
        113, 108], [54252, 49828, 53944, 44536, 47112, 49828], [45936, 51060, 53552, 48288, 51060,
        49828], [100, 98, 32, 49440, 53469], [114, 100, 98, 109, 115]],
      fact = [80, 111, 115, 116, 103, 114, 101, 83, 81, 76, 51060, 32, 52, 56, 46, 55, 37, 47196, 32,
        44032, 51109, 32, 47566, 51060, 32, 49324, 50857, 46104, 45716, 32, 45936, 51060, 53552, 48288,
        51060, 49828, 51060, 47728, 44, 32, 44032, 51109, 32, 50896, 54616, 45716, 32, 45936, 51060,
        53552, 48288, 51060, 49828, 32, 49, 50948, 51077, 45768, 45796],
      sourceName = [50, 48, 50, 52, 32, 83, 116, 97, 99, 107, 79, 118, 101, 114, 102, 108, 111, 119,
        32, 68, 101, 118, 101, 108, 111, 112, 101, 114, 32, 83, 117, 114, 118, 101, 121],
        sourceType = large_survey,
      sourceUrl = [104, 116, 116, 112, 115, 58, 47, 47, 115, 117, 114, 118, 101, 121, 46, 115, 116, 97,
        99, 107, 111, 118, 101, 114, 102, 108, 111, 119, 46, 99, 111, 47, 50, 48, 50, 52, 47],
        verifiedDate = [50, 48, 50, 52, 45, 48, 53],
      participantCount = Some 65000, category = [100, 97, 116, 97, 98, 97, 115, 101],
        ev_active = True\<rparr>,
     \<lparr>ev_id = [115, 111, 45, 115, 117, 114, 118, 101, 121, 45, 50, 48, 50, 52, 45, 114, 101,
       100, 105, 115], ev_topic = [82, 101, 100, 105, 115, 32, 49324, 50857, 47456],
      ev_keywords = [[114, 101, 100, 105, 115], [47112, 46356, 49828], [52880, 49884], [99, 97, 99,
        104, 101], [51064, 47700, 47784, 47532], [110, 111, 115, 113, 108]],
      fact = [82, 101, 100, 105, 115, 44032, 32, 78, 111, 83, 81, 76, 32, 45936, 51060, 53552, 48288,
        51060, 49828, 32, 51473, 32, 44032, 51109, 32, 45458, 51008, 32, 49324, 50857, 47456, 51012,
        32, 48372, 51060, 47728, 44, 32, 52880, 49905, 44284, 32, 49464, 49496, 32, 44288, 47532,
        50640, 32, 44032, 51109, 32, 47566, 51060, 32, 49324, 50857, 46121, 45768, 45796],
      sourceName = [50, 48, 50, 52, 32, 83, 116, 97, 99, 107, 79, 118, 101, 114, 102, 108, 111, 119,
        32, 68, 101, 118, 101, 108, 111, 112, 101, 114, 32, 83, 117, 114, 118, 101, 121],
        sourceType = large_survey,
      sourceUrl = [104, 116, 116, 112, 115, 58, 47, 47, 115, 117, 114, 118, 101, 121, 46, 115, 116, 97,
        99, 107, 111, 118, 101, 114, 102, 108, 111, 119, 46, 99, 111, 47, 50, 48, 50, 52, 47],
        verifiedDate = [50, 48, 50, 52, 45, 48, 53],
      participantCount = Some 65000, category = [100, 97, 116, 97, 98, 97, 115, 101],
        ev_active = True\<rparr>,
     \<lparr>ev_id = [115, 111, 45, 115, 117, 114, 118, 101, 121, 45, 50, 48, 50, 52, 45, 109, 111,
       110, 103, 111, 100, 98], ev_topic = [77, 111, 110, 103, 111, 68, 66, 32, 49324, 50857, 32,
       49324, 47168],
      ev_keywords = [[109, 111, 110, 103, 111, 100, 98], [47805, 44256, 46356, 48708], [110, 111, 115,
        113, 108], [46020, 53328, 47676, 53944], [100, 111, 99, 117, 109, 101, 110, 116, 32, 100, 98]],
      fact = [77, 111, 110, 103, 111, 68, 66, 45716, 32, 46020, 53328, 47676, 53944, 32, 68, 66, 32,
        51473, 32, 44032, 51109, 32, 45458, 51008, 32, 49324, 50857, 47456, 51012, 32, 48372, 51060,
        47728, 44, 32, 49828, 53412, 47560, 32, 50976, 50672, 49457, 51060, 32, 54596, 50836, 54620,
        32, 54532, 47196, 51229, 53944, 50640, 49436, 32, 51452, 47196, 32, 49440, 53469, 46121, 45768,
        45796],
      sourceName = [50, 48, 50, 52, 32, 83, 116, 97, 99, 107, 79, 118, 101, 114, 102, 108, 111, 119,
        32, 68, 101, 118, 101, 108, 111, 112, 101, 114, 32, 83, 117, 114, 118, 101, 121],
        sourceType = large_survey,
      sourceUrl = [104, 116, 116, 112, 115, 58, 47, 47, 115, 117, 114, 118, 101, 121, 46, 115, 116, 97,
        99, 107, 111, 118, 101, 114, 102, 108, 111, 119, 46, 99, 111, 47, 50, 48, 50, 52, 47],
        verifiedDate = [50, 48, 50, 52, 45, 48, 53],
      participantCount = Some 65000, category = [100, 97, 116, 97, 98, 97, 115, 101],
        ev_active = True\<rparr>,
     \<lparr>ev_id = [115, 111, 45, 115, 117, 114, 118, 101, 121, 45, 50, 48, 50, 52, 45, 115, 116, 97,
       116, 101, 45, 109, 97, 110, 97, 103, 101, 109, 101, 110, 116], ev_topic = [82, 101, 97, 99, 116,
       32, 49345, 53468, 32, 44288, 47532, 32, 53944, 47116, 46300],
      ev_keywords = [[49345, 53468, 32, 44288, 47532], [115, 116, 97, 116, 101, 32, 109, 97, 110, 97,
        103, 101, 109, 101, 110, 116], [114, 101, 100, 117, 120], [122, 117, 115, 116, 97, 110, 100],
        [114, 101, 99, 111, 105, 108], [106, 111, 116, 97, 105], [99, 111, 110, 116, 101, 120, 116]],
      fact = [82, 101, 97, 99, 116, 32, 54532, 47196, 51229, 53944, 50640, 49436, 32, 90, 117, 115,
        116, 97, 110, 100, 50752, 32, 44057, 51008, 32, 44221, 47049, 32, 49345, 53468, 32, 44288,
        47532, 32, 46972, 51060, 48652, 47084, 47532, 32, 49324, 50857, 51060, 32, 51613, 44032, 54616,
        45716, 32, 52628, 49464, 51060, 47728, 44, 32, 82, 101, 100, 117, 120, 45716, 32, 50668, 51204,
        55176, 32, 45824, 44508, 47784, 32, 54532, 47196, 51229, 53944, 50640, 49436, 32, 49440, 54840,
        46121, 45768, 45796],
      sourceName = [50, 48, 50, 52, 32, 83, 116, 97, 116, 101, 32, 111, 102, 32, 74, 83, 32, 83, 117,
        114, 118, 101, 121], sourceType = large_survey,
      sourceUrl = [104, 116, 116, 112, 115, 58, 47, 47, 115, 116, 97, 116, 101, 111, 102, 106, 115, 46,
        99, 111, 109, 47, 50, 48, 50, 52, 47], verifiedDate = [50, 48, 50, 52, 45, 48, 54],
      participantCount = Some 23000, category = [100, 101, 118, 101, 108, 111, 112, 109, 101, 110,
        116], ev_active = True\<rparr>,
     \<lparr>ev_id = [112, 111, 115, 116, 109, 97, 110, 45, 97, 112, 105, 45, 50, 48, 50, 51],
       ev_topic = [82, 69, 83, 84, 32, 118, 115, 32, 71, 114, 97, 112, 104, 81, 76, 32, 49440, 53469],
      ev_keywords = [[114, 101, 115, 116], [103, 114, 97, 112, 104, 113, 108], [97, 112, 105], [97,
        112, 105, 32, 49444, 44228], [114, 101, 115, 116, 102, 117, 108], [103, 114, 112, 99]],
      fact = [82, 69, 83, 84, 32, 65, 80, 73, 44032, 32, 50668, 51204, 55176, 32, 56, 57, 37, 47196,
        32, 44032, 51109, 32, 47566, 51060, 32, 49324, 50857, 46104, 51648, 47564, 44, 32, 71, 114, 97,
        112, 104, 81, 76, 32, 49324, 50857, 47456, 51060, 32, 50, 56, 37, 47196, 32, 44984, 51456,
        55176, 32, 51613, 44032, 32, 51473, 51077, 45768, 45796, 46, 32, 48373, 51105, 54620, 32,
        45936, 51060, 53552, 32, 50836, 44396, 49324, 54637, 50640, 45716, 32, 71, 114, 97, 112, 104,
        81, 76, 51060, 32, 49440, 54840, 46121, 45768, 45796],
      sourceName = [50, 48, 50, 51, 32, 80, 111, 115, 116, 109, 97, 110, 32, 83, 116, 97, 116, 101, 32,
        111, 102, 32, 116, 104, 101, 32, 65, 80, 73, 32, 82, 101, 112, 111, 114, 116],
        sourceType = large_survey,
      sourceUrl = [104, 116, 116, 112, 115, 58, 47, 47, 119, 119, 119, 46, 112, 111, 115, 116, 109, 97,
        110, 46, 99, 111, 109, 47, 115, 116, 97, 116, 101, 45, 111, 102, 45, 97, 112, 105, 47],
        verifiedDate = [50, 48, 50, 51, 45, 49, 48],
      participantCount = Some 40000, category = [97, 114, 99, 104, 105, 116, 101, 99, 116, 117, 114,
        101], ev_active = True\<rparr>,
     \<lparr>ev_id = [103, 111, 111, 103, 108, 101, 45, 97, 112, 105, 45, 118, 101, 114, 115, 105, 111,
       110, 105, 110, 103], ev_topic = [65, 80, 73, 32, 48260, 51204, 32, 44288, 47532],
      ev_keywords = [[97, 112, 105, 32, 48260, 51204], [118, 101, 114, 115, 105, 111, 110, 105, 110,
        103], [97, 112, 105, 32, 118, 101, 114, 115, 105, 111, 110], [118, 49], [118, 50], [98, 114,
        101, 97, 107, 105, 110, 103, 32, 99, 104, 97, 110, 103, 101]],
      fact = [71, 111, 111, 103, 108, 101, 51008, 32, 85, 82, 76, 32, 44221, 47196, 50640, 32, 109, 97,
        106, 111, 114, 32, 48260, 51204, 51012, 32, 54252, 54632, 54616, 45716, 32, 48169, 49885, 40,
        50696, 58, 32, 47, 118, 49, 47, 117, 115, 101, 114, 115, 41, 51012, 32, 44428, 51109, 54616,
        47728, 44, 32, 54616, 50948, 32, 54840, 54872, 49457, 32, 50976, 51648, 47484, 32, 44053,
        51312, 54633, 45768, 45796],
      sourceName = [71, 111, 111, 103, 108, 101, 32, 65, 80, 73, 32, 68, 101, 115, 105, 103, 110, 32,
        71, 117, 105, 100, 101], sourceType = official_announcement,
      sourceUrl = [104, 116, 116, 112, 115, 58, 47, 47, 99, 108, 111, 117, 100, 46, 103, 111, 111, 103,
        108, 101, 46, 99, 111, 109, 47, 97, 112, 105, 115, 47, 100, 101, 115, 105, 103, 110, 47, 118,
        101, 114, 115, 105, 111, 110, 105, 110, 103], verifiedDate = [50, 48, 50, 52, 45, 48, 49],
      participantCount = None, category = [97, 114, 99, 104, 105, 116, 101, 99, 116, 117, 114, 101],
        ev_active = True\<rparr>,
     \<lparr>ev_id = [111, 119, 97, 115, 112, 45, 111, 97, 117, 116, 104, 50], ev_topic = [79, 65, 117,
       116, 104, 32, 50, 46, 48, 32, 44396, 54788],
      ev_keywords = [[111, 97, 117, 116, 104], [111, 97, 117, 116, 104, 50], [49548, 49500, 32, 47196,
        44536, 51064], [97, 117, 116, 104, 111, 114, 105, 122, 97, 116, 105, 111, 110], [51064, 51613],
        [51064, 44032]],
      fact = [80, 75, 67, 69, 40, 80, 114, 111, 111, 102, 32, 75, 101, 121, 32, 102, 111, 114, 32, 67,
        111, 100, 101, 32, 69, 120, 99, 104, 97, 110, 103, 101, 41, 47484, 32, 47784, 46304, 32, 79,
        65, 117, 116, 104, 32, 50, 46, 48, 32, 53364, 46972, 51060, 50616, 53944, 50640, 49436, 32,
        49324, 50857, 54624, 32, 44163, 51012, 32, 44428, 51109, 54633, 45768, 45796, 46, 32, 83, 80,
        65, 45208, 32, 47784, 48148, 51068, 32, 50545, 50640, 49436, 45716, 32, 54596, 49688, 51077,
        45768, 45796],
      sourceName = [79, 87, 65, 83, 80, 32, 79, 65, 117, 116, 104, 32, 50, 46, 48, 32, 67, 104, 101,
        97, 116, 32, 83, 104, 101, 101, 116], sourceType = standard_organization,
      sourceUrl = [104, 116, 116, 112, 115, 58, 47, 47, 99, 104, 101, 97, 116, 115, 104, 101, 101, 116,
        115, 101, 114, 105, 101, 115, 46, 111, 119, 97, 115, 112, 46, 111, 114, 103, 47, 99, 104, 101,
        97, 116, 115, 104, 101, 101, 116, 115, 47, 79, 65, 117, 116, 104, 50, 95, 67, 104, 101, 97,
        116, 95, 83, 104, 101, 101, 116, 46, 104, 116, 109, 108], verifiedDate = [50, 48, 50, 52, 45,
        48, 49],
      participantCount = None, category = [115, 101, 99, 117, 114, 105, 116, 121], ev_active = True\<rparr>,
     \<lparr>ev_id = [97, 117, 116, 104, 48, 45, 109, 102, 97, 45, 115, 116, 97, 116, 115],
       ev_topic = [77, 70, 65, 32, 46020, 51077, 32, 54952, 44284],
      ev_keywords = [[109, 102, 97], [50, 102, 97], [51060, 51473, 32, 51064, 51613], [45796, 51473,
        32, 51064, 51613], [109, 117, 108, 116, 105, 32, 102, 97, 99, 116, 111, 114], [111, 116, 112]],
      fact = [77, 70, 65, 47484, 32, 46020, 51077, 54616, 47732, 32, 44228, 51221, 32, 53448, 52712,
        32, 44277, 44201, 51032, 32, 57, 57, 46, 57, 37, 47484, 32, 48169, 51648, 54624, 32, 49688, 32,
        51080, 49845, 45768, 45796, 46, 32, 83, 77, 83, 48372, 45796, 32, 50545, 32, 44592, 48152, 32,
        79, 84, 80, 45208, 32, 54616, 46300, 50920, 50612, 32, 53412, 47484, 32, 44428, 51109, 54633,
        45768, 45796],
      sourceName = [77, 105, 99, 114, 111, 115, 111, 102, 116, 32, 83, 101, 99, 117, 114, 105, 116,
        121, 32, 82, 101, 115, 101, 97, 114, 99, 104], sourceType = official_announcement,
      sourceUrl = [104, 116, 116, 112, 115, 58, 47, 47, 119, 119, 119, 46, 109, 105, 99, 114, 111, 115,
        111, 102, 116, 46, 99, 111, 109, 47, 115, 101, 99, 117, 114, 105, 116, 121, 47, 98, 108, 111,
        103, 47, 50, 48, 49, 57, 47, 48, 56, 47, 50, 48, 47, 111, 110, 101, 45, 115, 105, 109, 112,
        108, 101, 45, 97, 99, 116, 105, 111, 110, 45, 121, 111, 117, 45, 99, 97, 110, 45, 116, 97, 107,
        101, 45, 116, 111, 45, 112, 114, 101, 118, 101, 110, 116, 45, 57, 57, 45, 57, 45, 112, 101,
        114, 99, 101, 110, 116, 45, 111, 102, 45, 97, 99, 99, 111, 117, 110, 116, 45, 97, 116, 116, 97,
        99, 107, 115, 47], verifiedDate = [50, 48, 50, 51, 45, 48, 49],
      participantCount = None, category = [115, 101, 99, 117, 114, 105, 116, 121], ev_active = True\<rparr>]"

definition defaultEvidence3 :: "VerifiedEvidence list" where
  "defaultEvidence3 =
    [\<lparr>ev_id = [115, 111, 45, 115, 117, 114, 118, 101, 121, 45, 50, 48, 50, 52, 45, 110, 101,
      120, 116, 106, 115], ev_topic = [78, 101, 120, 116, 46, 106, 115, 32, 49324, 50857, 47456],
      ev_keywords = [[110, 101, 120, 116, 106, 115], [110, 101, 120, 116, 46, 106, 115], [110, 101,
        120, 116], [115, 115, 114], [115, 101, 114, 118, 101, 114, 32, 115, 105, 100, 101, 32, 114,
        101, 110, 100, 101, 114, 105, 110, 103], [114, 101, 97, 99, 116, 32, 102, 114, 97, 109, 101,
        119, 111, 114, 107]],
      fact = [78, 101, 120, 116, 46, 106, 115, 44032, 32, 82, 101, 97, 99, 116, 32, 47700, 53440, 32,
        54532, 47112, 51076, 50892, 53356, 32, 51473, 32, 44032, 51109, 32, 45458, 51008, 32, 52292,
        53469, 47456, 51012, 32, 48372, 51060, 47728, 44, 32, 83, 83, 82, 51060, 32, 54596, 50836,
        54620, 32, 54532, 47196, 51229, 53944, 50640, 49436, 32, 54364, 51456, 51004, 47196, 32, 51088,
        47532, 51105, 44256, 32, 51080, 49845, 45768, 45796],
      sourceName = [50, 48, 50, 52, 32, 83, 116, 97, 116, 101, 32, 111, 102, 32, 74, 83, 32, 83, 117,
        114, 118, 101, 121], sourceType = large_survey,
      sourceUrl = [104, 116, 116, 112, 115, 58, 47, 47, 115, 116, 97, 116, 101, 111, 102, 106, 115, 46,
        99, 111, 109, 47, 50, 48, 50, 52, 47], verifiedDate = [50, 48, 50, 52, 45, 48, 54],
      participantCount = Some 23000, category = [100, 101, 118, 101, 108, 111, 112, 109, 101, 110,
        116], ev_active = True\<rparr>,
     \<lparr>ev_id = [115, 111, 45, 115, 117, 114, 118, 101, 121, 45, 50, 48, 50, 52, 45, 116, 97, 105,
       108, 119, 105, 110, 100], ev_topic = [84, 97, 105, 108, 119, 105, 110, 100, 32, 67, 83, 83, 32,
       49324, 50857, 47456],
      ev_keywords = [[116, 97, 105, 108, 119, 105, 110, 100], [99, 115, 115], [49828, 53440, 51068,
        47553], [115, 116, 121, 108, 101, 100, 45, 99, 111, 109, 112, 111, 110, 101, 110, 116, 115],
        [99, 115, 115, 45, 105, 110, 45, 106, 115]],
      fact = [84, 97, 105, 108, 119, 105, 110, 100, 32, 67, 83, 83, 32, 49324, 50857, 47456, 51060, 32,
        44553, 51613, 54616, 50668, 32, 67, 83, 83, 32, 54532, 47112, 51076, 50892, 53356, 32, 51473,
        32, 47564, 51313, 46020, 32, 49, 50948, 47484, 32, 44592, 47197, 54664, 49845, 45768, 45796,
        46, 32, 50976, 54008, 47532, 54000, 32, 54140, 49828, 53944, 32, 51217, 44540, 32, 48169,
        49885, 51060, 32, 49373, 49328, 49457, 51012, 32, 45458, 51064, 45796, 45716, 32, 54217, 44032,
        51077, 45768, 45796],
      sourceName = [50, 48, 50, 52, 32, 83, 116, 97, 116, 101, 32, 111, 102, 32, 67, 83, 83, 32, 83,
        117, 114, 118, 101, 121], sourceType = large_survey,
      sourceUrl = [104, 116, 116, 112, 115, 58, 47, 47, 115, 116, 97, 116, 101, 111, 102, 99, 115, 115,
        46, 99, 111, 109, 47, 50, 48, 50, 52, 47], verifiedDate = [50, 48, 50, 52, 45, 48, 54],
      participantCount = Some 14000, category = [100, 101, 118, 101, 108, 111, 112, 109, 101, 110,
        116], ev_active = True\<rparr>,
     \<lparr>ev_id = [115, 111, 45, 115, 117, 114, 118, 101, 121, 45, 50, 48, 50, 52, 45, 110, 101,
       115, 116, 106, 115], ev_topic = [78, 101, 115, 116, 74, 83, 32, 49324, 50857, 47456],
      ev_keywords = [[110, 101, 115, 116, 106, 115], [110, 101, 115, 116], [110, 111, 100, 101, 32,
        54532, 47112, 51076, 50892, 53356], [101, 120, 112, 114, 101, 115, 115], [102, 97, 115, 116,
        105, 102, 121], [48177, 50644, 46300, 32, 54532, 47112, 51076, 50892, 53356]],
      fact = [78, 101, 115, 116, 74, 83, 44032, 32, 78, 111, 100, 101, 46, 106, 115, 32, 48177, 50644,
        46300, 32, 54532, 47112, 51076, 50892, 53356, 32, 51473, 32, 47564, 51313, 46020, 44032, 32,
        44032, 51109, 32, 45458, 51004, 47728, 44, 32, 50644, 53552, 54532, 46972, 51060, 51592, 32,
        54532, 47196, 51229, 53944, 50640, 49436, 32, 52292, 53469, 51060, 32, 51613, 44032, 54616,
        44256, 32, 51080, 49845, 45768, 45796],
      sourceName = [50, 48, 50, 52, 32, 83, 116, 97, 116, 101, 32, 111, 102, 32, 74, 83, 32, 83, 117,
        114, 118, 101, 121], sourceType = large_survey,
      sourceUrl = [104, 116, 116, 112, 115, 58, 47, 47, 115, 116, 97, 116, 101, 111, 102, 106, 115, 46,
        99, 111, 109, 47, 50, 48, 50, 52, 47], verifiedDate = [50, 48, 50, 52, 45, 48, 54],
      participantCount = Some 23000, category = [100, 101, 118, 101, 108, 111, 112, 109, 101, 110,
        116], ev_active = True\<rparr>,
     \<lparr>ev_id = [100, 97, 116, 97, 100, 111, 103, 45, 111, 98, 115, 101, 114, 118, 97, 98, 105,
       108, 105, 116, 121, 45, 50, 48, 50, 51], ev_topic = [47196, 44613, 32, 44396, 51312, 54868],
      ev_keywords = [[47196, 44613], [108, 111, 103, 103, 105, 110, 103], [47196, 44536], [115, 116,
        114, 117, 99, 116, 117, 114, 101, 100, 32, 108, 111, 103, 103, 105, 110, 103], [106, 115, 111,
        110, 32, 108, 111, 103], [47784, 45768, 53552, 47553]],
      fact = [44396, 51312, 54868, 46108, 32, 74, 83, 79, 78, 32, 47196, 44613, 51012, 32, 49324,
        50857, 54616, 47732, 32, 47196, 44536, 32, 48516, 49437, 32, 49884, 44036, 51060, 32, 54217,
        44512, 32, 52, 48, 37, 32, 45800, 52629, 46121, 45768, 45796, 46, 32, 52968, 53581, 49828,
        53944, 32, 51221, 48372, 40, 116, 114, 97, 99, 101, 95, 105, 100, 44, 32, 117, 115, 101, 114,
        95, 105, 100, 32, 46321, 41, 47484, 32, 54252, 54632, 54624, 32, 44163, 51012, 32, 44428,
        51109, 54633, 45768, 45796],
      sourceName = [68, 97, 116, 97, 100, 111, 103, 32, 83, 116, 97, 116, 101, 32, 111, 102, 32, 79,
        98, 115, 101, 114, 118, 97, 98, 105, 108, 105, 116, 121, 32, 50, 48, 50, 51],
        sourceType = large_survey,
      sourceUrl = [104, 116, 116, 112, 115, 58, 47, 47, 119, 119, 119, 46, 100, 97, 116, 97, 100, 111,
        103, 104, 113, 46, 99, 111, 109, 47, 115, 116, 97, 116, 101, 45, 111, 102, 45, 111, 98, 115,
        101, 114, 118, 97, 98, 105, 108, 105, 116, 121, 47], verifiedDate = [50, 48, 50, 51, 45, 49,
        49],
      participantCount = Some 12000, category = [105, 110, 102, 114, 97, 115, 116, 114, 117, 99, 116,
        117, 114, 101], ev_active = True\<rparr>,
     \<lparr>ev_id = [100, 111, 114, 97, 45, 50, 48, 50, 51, 45, 100, 101, 112, 108, 111, 121, 109,
       101, 110, 116], ev_topic = [48176, 54252, 32, 48712, 46020, 50752, 32, 49457, 44284],
      ev_keywords = [[48176, 54252], [100, 101, 112, 108, 111, 121, 109, 101, 110, 116], [99, 105, 47,
        99, 100], [99, 105, 99, 100], [100, 101, 118, 111, 112, 115], [54028, 51060, 54532, 46972,
        51064]],
      fact = [50648, 47532, 53944, 32, 49457, 44284, 32, 54016, 51008, 32, 54616, 47336, 50640, 32,
        50668, 47084, 32, 48264, 32, 48176, 54252, 54616, 47728, 44, 32, 48320, 44221, 32, 49892,
        54056, 50984, 51060, 32, 49, 53, 37, 32, 48120, 47564, 51077, 45768, 45796, 46, 32, 51088,
        46041, 54868, 46108, 32, 53580, 49828, 53944, 50752, 32, 48176, 54252, 32, 54028, 51060, 54532,
        46972, 51064, 51060, 32, 54645, 49900, 51077, 45768, 45796],
      sourceName = [68, 79, 82, 65, 32, 83, 116, 97, 116, 101, 32, 111, 102, 32, 68, 101, 118, 79, 112,
        115, 32, 82, 101, 112, 111, 114, 116, 32, 50, 48, 50, 51], sourceType = large_survey,
      sourceUrl = [104, 116, 116, 112, 115, 58, 47, 47, 100, 111, 114, 97, 46, 100, 101, 118, 47, 114,
        101, 115, 101, 97, 114, 99, 104, 47], verifiedDate = [50, 48, 50, 51, 45, 49, 48],
      participantCount = Some 36000, category = [105, 110, 102, 114, 97, 115, 116, 114, 117, 99, 116,
        117, 114, 101], ev_active = True\<rparr>,
     \<lparr>ev_id = [103, 105, 116, 104, 117, 98, 45, 97, 99, 116, 105, 111, 110, 115, 45, 50, 48, 50,
       52], ev_topic = [67, 73, 47, 67, 68, 32, 46020, 44396, 32, 49440, 53469],
      ev_keywords = [[103, 105, 116, 104, 117, 98, 32, 97, 99, 116, 105, 111, 110, 115], [106, 101,
        110, 107, 105, 110, 115], [103, 105, 116, 108, 97, 98, 32, 99, 105], [99, 105, 32, 46020,
        44396], [99, 105, 114, 99, 108, 101, 99, 105]],
      fact = [71, 105, 116, 72, 117, 98, 32, 65, 99, 116, 105, 111, 110, 115, 44032, 32, 67, 73, 47,
        67, 68, 32, 46020, 44396, 32, 51473, 32, 44032, 51109, 32, 48736, 47476, 44172, 32, 49457,
        51109, 54616, 44256, 32, 51080, 51004, 47728, 44, 32, 71, 105, 116, 72, 117, 98, 32, 49324,
        50857, 51088, 32, 51473, 32, 54, 51, 37, 44032, 32, 65, 99, 116, 105, 111, 110, 115, 47484, 32,
        49324, 50857, 54633, 45768, 45796],
      sourceName = [71, 105, 116, 72, 117, 98, 32, 79, 99, 116, 111, 118, 101, 114, 115, 101, 32, 50,
        48, 50, 51], sourceType = official_announcement,
      sourceUrl = [104, 116, 116, 112, 115, 58, 47, 47, 111, 99, 116, 111, 118, 101, 114, 115, 101, 46,
        103, 105, 116, 104, 117, 98, 46, 99, 111, 109, 47], verifiedDate = [50, 48, 50, 51, 45, 49, 49],
      participantCount = None, category = [105, 110, 102, 114, 97, 115, 116, 114, 117, 99, 116, 117,
        114, 101], ev_active = True\<rparr>,
     \<lparr>ev_id = [100, 111, 99, 107, 101, 114, 45, 50, 48, 50, 52, 45, 99, 111, 109, 112, 111, 115,
       101], ev_topic = [68, 111, 99, 107, 101, 114, 32, 67, 111, 109, 112, 111, 115, 101, 32, 49324,
       50857],
      ev_keywords = [[100, 111, 99, 107, 101, 114], [46020, 52964], [99, 111, 109, 112, 111, 115, 101],
        [52968, 53580, 51060, 45320], [99, 111, 110, 116, 97, 105, 110, 101, 114], [47196, 52972, 32,
        44060, 48156]],
      fact = [68, 111, 99, 107, 101, 114, 32, 67, 111, 109, 112, 111, 115, 101, 44032, 32, 47196,
        52972, 32, 44060, 48156, 32, 54872, 44221, 32, 44396, 49457, 50640, 32, 44032, 51109, 32,
        47566, 51060, 32, 49324, 50857, 46104, 47728, 44, 32, 44060, 48156, 51088, 51032, 32, 56, 55,
        37, 44032, 32, 52968, 53580, 51060, 45320, 47484, 32, 49324, 50857, 54633, 45768, 45796],
      sourceName = [68, 111, 99, 107, 101, 114, 32, 50, 48, 50, 52, 32, 83, 117, 114, 118, 101, 121],
        sourceType = large_survey,
      sourceUrl = [104, 116, 116, 112, 115, 58, 47, 47, 119, 119, 119, 46, 100, 111, 99, 107, 101, 114,
        46, 99, 111, 109, 47, 114, 101, 115, 111, 117, 114, 99, 101, 115, 47, 115, 116, 97, 116, 101,
        45, 111, 102, 45, 116, 104, 101, 45, 100, 101, 118, 101, 108, 111, 112, 101, 114, 45, 115, 117,
        114, 118, 101, 121, 47], verifiedDate = [50, 48, 50, 52, 45, 48, 50],
      participantCount = Some 15000, category = [105, 110, 102, 114, 97, 115, 116, 114, 117, 99, 116,
        117, 114, 101], ev_active = True\<rparr>,
     \<lparr>ev_id = [115, 111, 110, 97, 114, 113, 117, 98, 101, 45, 99, 111, 100, 101, 45, 99, 111,
       118, 101, 114, 97, 103, 101], ev_topic = [53076, 46300, 32, 52964, 48260, 47532, 51648, 32,
       47785, 54364],
      ev_keywords = [[52964, 48260, 47532, 51648], [99, 111, 118, 101, 114, 97, 103, 101], [53076,
        46300, 32, 54408, 51656], [99, 111, 100, 101, 32, 113, 117, 97, 108, 105, 116, 121], [53580,
        49828, 53944, 32, 52964, 48260, 47532, 51648]],
      fact = [56, 48, 37, 32, 51060, 49345, 51032, 32, 53076, 46300, 32, 52964, 48260, 47532, 51648,
        44032, 32, 51068, 48152, 51201, 51064, 32, 47785, 54364, 51060, 51648, 47564, 44, 32, 51473,
        50836, 54620, 32, 48708, 51592, 45768, 49828, 32, 47196, 51649, 51008, 32, 57, 48, 37, 32,
        51060, 49345, 51012, 32, 44428, 51109, 54633, 45768, 45796, 46, 32, 45800, 44, 32, 52964,
        48260, 47532, 51648, 32, 49688, 52824, 48372, 45796, 32, 53580, 49828, 53944, 32, 54408, 51656,
        51060, 32, 45908, 32, 51473, 50836, 54633, 45768, 45796],
      sourceName = [83, 111, 110, 97, 114, 81, 117, 98, 101, 32, 66, 101, 115, 116, 32, 80, 114, 97,
        99, 116, 105, 99, 101, 115], sourceType = official_announcement,
      sourceUrl = [104, 116, 116, 112, 115, 58, 47, 47, 100, 111, 99, 115, 46, 115, 111, 110, 97, 114,
        113, 117, 98, 101, 46, 111, 114, 103, 47, 108, 97, 116, 101, 115, 116, 47, 117, 115, 101, 114,
        45, 103, 117, 105, 100, 101, 47, 109, 101, 116, 114, 105, 99, 45, 100, 101, 102, 105, 110, 105,
        116, 105, 111, 110, 115, 47], verifiedDate = [50, 48, 50, 52, 45, 48, 49],
      participantCount = None, category = [116, 101, 115, 116, 105, 110, 103], ev_active = True\<rparr>]"

definition defaultEvidence4 :: "VerifiedEvidence list" where
  "defaultEvidence4 =
    [\<lparr>ev_id = [97, 119, 115, 45, 114, 101, 116, 114, 121, 45, 112, 97, 116, 116, 101, 114, 110],
      ev_topic = [51116, 49884, 46020, 32, 51204, 47029],
      ev_keywords = [[114, 101, 116, 114, 121], [51116, 49884, 46020], [101, 120, 112, 111, 110, 101,
        110, 116, 105, 97, 108, 32, 98, 97, 99, 107, 111, 102, 102], [48177, 50724, 54532], [114, 101,
        115, 105, 108, 105, 101, 110, 99, 101], [51109, 50528, 32, 52376, 47532]],
      fact = [65, 87, 83, 45716, 32, 69, 120, 112, 111, 110, 101, 110, 116, 105, 97, 108, 32, 66, 97,
        99, 107, 111, 102, 102, 32, 119, 105, 116, 104, 32, 74, 105, 116, 116, 101, 114, 47484, 32,
        44428, 51109, 54633, 45768, 45796, 46, 32, 52488, 44592, 32, 45824, 44592, 49884, 44036, 32,
        49, 48, 48, 109, 115, 44, 32, 52572, 45824, 32, 45824, 44592, 49884, 44036, 32, 49444, 51221,
        44, 32, 47004, 45924, 32, 51648, 53552, 32, 52628, 44032, 44032, 32, 54364, 51456, 32, 54056,
        53556, 51077, 45768, 45796],
      sourceName = [65, 87, 83, 32, 65, 114, 99, 104, 105, 116, 101, 99, 116, 117, 114, 101, 32, 66,
        101, 115, 116, 32, 80, 114, 97, 99, 116, 105, 99, 101, 115], sourceType = official_announcement,
      sourceUrl = [104, 116, 116, 112, 115, 58, 47, 47, 97, 119, 115, 46, 97, 109, 97, 122, 111, 110,
        46, 99, 111, 109, 47, 98, 117, 105, 108, 100, 101, 114, 115, 45, 108, 105, 98, 114, 97, 114,
        121, 47, 116, 105, 109, 101, 111, 117, 116, 115, 45, 114, 101, 116, 114, 105, 101, 115, 45, 97,
        110, 100, 45, 98, 97, 99, 107, 111, 102, 102, 45, 119, 105, 116, 104, 45, 106, 105, 116, 116,
        101, 114, 47], verifiedDate = [50, 48, 50, 51, 45, 48, 49],
      participantCount = None, category = [97, 114, 99, 104, 105, 116, 101, 99, 116, 117, 114, 101],
        ev_active = True\<rparr>,
     \<lparr>ev_id = [99, 111, 110, 102, 108, 117, 101, 110, 116, 45, 107, 97, 102, 107, 97, 45, 50,
       48, 50, 51], ev_topic = [75, 97, 102, 107, 97, 32, 49324, 50857, 32, 49324, 47168],
      ev_keywords = [[107, 97, 102, 107, 97], [52852, 54532, 52852], [47700, 49884, 51648, 32, 53328],
        [109, 101, 115, 115, 97, 103, 101, 32, 113, 117, 101, 117, 101], [101, 118, 101, 110, 116, 32,
        100, 114, 105, 118, 101, 110], [51060, 48292, 53944, 32, 46300, 47532, 48656]],
      fact = [75, 97, 102, 107, 97, 45716, 32, 52488, 45817, 32, 49688, 48177, 47564, 32, 47700, 49884,
        51648, 32, 52376, 47532, 44032, 32, 54596, 50836, 54620, 32, 44221, 50864, 50640, 32, 51201,
        54633, 54616, 47728, 44, 32, 56, 48, 37, 32, 51060, 49345, 51032, 32, 70, 111, 114, 116, 117,
        110, 101, 32, 49, 48, 48, 32, 44592, 50629, 51060, 32, 49324, 50857, 32, 51473, 51077, 45768,
        45796],
      sourceName = [67, 111, 110, 102, 108, 117, 101, 110, 116, 32, 50, 48, 50, 51, 32, 68, 97, 116,
        97, 32, 83, 116, 114, 101, 97, 109, 105, 110, 103, 32, 82, 101, 112, 111, 114, 116],
        sourceType = large_survey,
      sourceUrl = [104, 116, 116, 112, 115, 58, 47, 47, 119, 119, 119, 46, 99, 111, 110, 102, 108, 117,
        101, 110, 116, 46, 105, 111, 47, 114, 101, 115, 111, 117, 114, 99, 101, 115, 47, 114, 101, 112,
        111, 114, 116, 47], verifiedDate = [50, 48, 50, 51, 45, 48, 57],
      participantCount = Some 10000, category = [105, 110, 102, 114, 97, 115, 116, 114, 117, 99, 116,
        117, 114, 101], ev_active = True\<rparr>,
     \<lparr>ev_id = [111, 119, 97, 115, 112, 45, 105, 110, 112, 117, 116, 45, 118, 97, 108, 105, 100,
       97, 116, 105, 111, 110], ev_topic = [51077, 47141, 32, 50976, 54952, 49457, 32, 44160, 49324],
      ev_keywords = [[118, 97, 108, 105, 100, 97, 116, 105, 111, 110], [50976, 54952, 49457, 32, 44160,
        49324], [105, 110, 112, 117, 116], [51077, 47141, 32, 44160, 51613], [115, 97, 110, 105, 116,
        105, 122, 101], [120, 115, 115]],
      fact = [49436, 48260, 32, 49324, 51060, 46300, 32, 50976, 54952, 49457, 32, 44160, 49324, 45716,
        32, 54596, 49688, 51060, 47728, 44, 32, 54868, 51060, 53944, 47532, 49828, 53944, 32, 48169,
        49885, 51012, 32, 44428, 51109, 54633, 45768, 45796, 46, 32, 53364, 46972, 51060, 50616, 53944,
        32, 44160, 51613, 51008, 32, 85, 88, 50857, 51060, 51648, 32, 48372, 50504, 50857, 51060, 32,
        50500, 45785, 45768, 45796],
      sourceName = [79, 87, 65, 83, 80, 32, 73, 110, 112, 117, 116, 32, 86, 97, 108, 105, 100, 97, 116,
        105, 111, 110, 32, 67, 104, 101, 97, 116, 32, 83, 104, 101, 101, 116],
        sourceType = standard_organization,
      sourceUrl = [104, 116, 116, 112, 115, 58, 47, 47, 99, 104, 101, 97, 116, 115, 104, 101, 101, 116,
        115, 101, 114, 105, 101, 115, 46, 111, 119, 97, 115, 112, 46, 111, 114, 103, 47, 99, 104, 101,
        97, 116, 115, 104, 101, 101, 116, 115, 47, 73, 110, 112, 117, 116, 95, 86, 97, 108, 105, 100,
        97, 116, 105, 111, 110, 95, 67, 104, 101, 97, 116, 95, 83, 104, 101, 101, 116, 46, 104, 116,
        109, 108], verifiedDate = [50, 48, 50, 52, 45, 48, 49],
      participantCount = None, category = [115, 101, 99, 117, 114, 105, 116, 121], ev_active = True\<rparr>,
     \<lparr>ev_id = [111, 119, 97, 115, 112, 45, 99, 111, 114, 115], ev_topic = [67, 79, 82, 83, 32,
       49444, 51221],
      ev_keywords = [[99, 111, 114, 115], [53356, 47196, 49828, 32, 50724, 47532, 51652], [99, 114,
        111, 115, 115, 32, 111, 114, 105, 103, 105, 110], [97, 99, 99, 101, 115, 115, 45, 99, 111, 110,
        116, 114, 111, 108], [48372, 50504, 32, 54756, 45908]],
      fact = [54532, 47196, 45909, 49496, 50640, 49436, 32, 65, 99, 99, 101, 115, 115, 45, 67, 111,
        110, 116, 114, 111, 108, 45, 65, 108, 108, 111, 119, 45, 79, 114, 105, 103, 105, 110, 58, 32,
        42, 45716, 32, 54588, 54644, 50556, 32, 54616, 47728, 44, 32, 54728, 50857, 46108, 32, 46020,
        47700, 51064, 51012, 32, 47749, 49884, 51201, 51004, 47196, 32, 51648, 51221, 54644, 50556, 32,
        54633, 45768, 45796],
      sourceName = [79, 87, 65, 83, 80, 32, 67, 79, 82, 83, 32, 67, 104, 101, 97, 116, 32, 83, 104,
        101, 101, 116], sourceType = standard_organization,
      sourceUrl = [104, 116, 116, 112, 115, 58, 47, 47, 99, 104, 101, 97, 116, 115, 104, 101, 101, 116,
        115, 101, 114, 105, 101, 115, 46, 111, 119, 97, 115, 112, 46, 111, 114, 103, 47, 99, 104, 101,
        97, 116, 115, 104, 101, 101, 116, 115, 47, 67, 114, 111, 115, 115, 45, 83, 105, 116, 101, 95,
        82, 101, 113, 117, 101, 115, 116, 95, 70, 111, 114, 103, 101, 114, 121, 95, 80, 114, 101, 118,
        101, 110, 116, 105, 111, 110, 95, 67, 104, 101, 97, 116, 95, 83, 104, 101, 101, 116, 46, 104,
        116, 109, 108], verifiedDate = [50, 48, 50, 52, 45, 48, 49],
      participantCount = None, category = [115, 101, 99, 117, 114, 105, 116, 121], ev_active = True\<rparr>,
     \<lparr>ev_id = [103, 111, 111, 103, 108, 101, 45, 119, 101, 98, 45, 118, 105, 116, 97, 108, 115],
       ev_topic = [50937, 32, 49457, 45733, 32, 51648, 54364],
      ev_keywords = [[119, 101, 98, 32, 118, 105, 116, 97, 108, 115], [108, 99, 112], [102, 105, 100],
        [99, 108, 115], [49457, 45733], [112, 101, 114, 102, 111, 114, 109, 97, 110, 99, 101], [50937,
        32, 49457, 45733]],
      fact = [71, 111, 111, 103, 108, 101, 51008, 32, 76, 67, 80, 32, 50, 46, 53, 52488, 32, 51060,
        54616, 44, 32, 70, 73, 68, 32, 49, 48, 48, 109, 115, 32, 51060, 54616, 44, 32, 67, 76, 83, 32,
        48, 46, 49, 32, 51060, 54616, 47484, 32, 51339, 51008, 32, 49324, 50857, 51088, 32, 44221,
        54744, 51032, 32, 44592, 51456, 51004, 47196, 32, 51228, 49884, 54633, 45768, 45796],
      sourceName = [71, 111, 111, 103, 108, 101, 32, 87, 101, 98, 32, 86, 105, 116, 97, 108, 115],
        sourceType = official_announcement,
      sourceUrl = [104, 116, 116, 112, 115, 58, 47, 47, 119, 101, 98, 46, 100, 101, 118, 47, 118, 105,
        116, 97, 108, 115, 47], verifiedDate = [50, 48, 50, 52, 45, 48, 49],
      participantCount = None, category = [100, 101, 118, 101, 108, 111, 112, 109, 101, 110, 116],
        ev_active = True\<rparr>,
     \<lparr>ev_id = [112, 114, 105, 115, 109, 97, 45, 50, 48, 50, 52], ev_topic = [79, 82, 77, 32,
       49440, 53469],
      ev_keywords = [[111, 114, 109], [112, 114, 105, 115, 109, 97], [116, 121, 112, 101, 111, 114,
        109], [115, 101, 113, 117, 101, 108, 105, 122, 101], [45936, 51060, 53552, 48288, 51060, 49828,
        32, 51217, 44540]],
      fact = [78, 111, 100, 101, 46, 106, 115, 32, 54872, 44221, 50640, 49436, 32, 80, 114, 105, 115,
        109, 97, 51032, 32, 52292, 53469, 47456, 51060, 32, 48736, 47476, 44172, 32, 51613, 44032,
        54616, 44256, 32, 51080, 51004, 47728, 44, 32, 53440, 51077, 32, 50504, 51221, 49457, 44284,
        32, 44060, 48156, 32, 44221, 54744, 50640, 49436, 32, 45458, 51008, 32, 54217, 44032, 47484,
        32, 48155, 44256, 32, 51080, 49845, 45768, 45796],
      sourceName = [50, 48, 50, 52, 32, 83, 116, 97, 116, 101, 32, 111, 102, 32, 74, 83, 32, 83, 117,
        114, 118, 101, 121], sourceType = large_survey,
      sourceUrl = [104, 116, 116, 112, 115, 58, 47, 47, 115, 116, 97, 116, 101, 111, 102, 106, 115, 46,
        99, 111, 109, 47, 50, 48, 50, 52, 47], verifiedDate = [50, 48, 50, 52, 45, 48, 54],
      participantCount = Some 23000, category = [100, 101, 118, 101, 108, 111, 112, 109, 101, 110,
        116], ev_active = True\<rparr>,
     \<lparr>ev_id = [99, 111, 110, 118, 101, 110, 116, 105, 111, 110, 97, 108, 45, 99, 111, 109, 109,
       105, 116, 115], ev_topic = [52964, 48139, 32, 47700, 49884, 51648, 32, 52968, 48292, 49496],
      ev_keywords = [[99, 111, 109, 109, 105, 116], [52964, 48139], [52964, 48139, 32, 47700, 49884,
        51648], [99, 111, 110, 118, 101, 110, 116, 105, 111, 110, 97, 108, 32, 99, 111, 109, 109, 105,
        116, 115], [103, 105, 116]],
      fact = [67, 111, 110, 118, 101, 110, 116, 105, 111, 110, 97, 108, 32, 67, 111, 109, 109, 105,
        116, 115, 32, 54805, 49885, 40, 102, 101, 97, 116, 58, 44, 32, 102, 105, 120, 58, 44, 32, 100,
        111, 99, 115, 58, 32, 46321, 41, 51012, 32, 49324, 50857, 54616, 47732, 32, 51088, 46041, 32,
        48260, 51204, 32, 44288, 47532, 50752, 32, 67, 72, 65, 78, 71, 69, 76, 79, 71, 32, 49373,
        49457, 51060, 32, 44032, 45733, 54633, 45768, 45796],
      sourceName = [67, 111, 110, 118, 101, 110, 116, 105, 111, 110, 97, 108, 32, 67, 111, 109, 109,
        105, 116, 115, 32, 83, 112, 101, 99, 105, 102, 105, 99, 97, 116, 105, 111, 110],
        sourceType = standard_organization,
      sourceUrl = [104, 116, 116, 112, 115, 58, 47, 47, 119, 119, 119, 46, 99, 111, 110, 118, 101, 110,
        116, 105, 111, 110, 97, 108, 99, 111, 109, 109, 105, 116, 115, 46, 111, 114, 103, 47],
        verifiedDate = [50, 48, 50, 52, 45, 48, 49],
      participantCount = None, category = [100, 101, 118, 101, 108, 111, 112, 109, 101, 110, 116],
        ev_active = True\<rparr>]"

definition defaultEvidence :: "VerifiedEvidence list" where
  "defaultEvidence = defaultEvidence1 @ defaultEvidence2 @ defaultEvidence3 @ defaultEvidence4"

definition initializeDefaultEvidence :: repo where
  "initializeDefaultEvidence =
     \<lparr>evidenceMap = fold (\<lambda>e m. jset (ev_id e) e m) defaultEvidence [], config = DEFAULT_OPINION_CONFIG\<rparr>"

section \<open>Access\<close>

text \<open>A partial configuration overrides the fields it has.\<close>

record PartialConfig =
  pc_minConfidenceThreshold :: "int option"
  pc_maxEvidenceAgeMonths :: "int option"
  pc_minSurveyParticipants :: "int option"
  pc_enabled :: "bool option"

definition setConfig :: "PartialConfig \<Rightarrow> repo \<Rightarrow> repo" where
  "setConfig p r = (let c = config r in r\<lparr>config :=
     \<lparr>minConfidenceThreshold = (case pc_minConfidenceThreshold p of None \<Rightarrow> minConfidenceThreshold c | Some v \<Rightarrow> v),
      maxEvidenceAgeMonths = (case pc_maxEvidenceAgeMonths p of None \<Rightarrow> maxEvidenceAgeMonths c | Some v \<Rightarrow> v),
      minSurveyParticipants = (case pc_minSurveyParticipants p of None \<Rightarrow> minSurveyParticipants c | Some v \<Rightarrow> v),
      enabled = (case pc_enabled p of None \<Rightarrow> enabled c | Some v \<Rightarrow> v)\<rparr>\<rparr>)"

definition getConfig :: "repo \<Rightarrow> OpinionConfig" where
  "getConfig r = config r"

definition getAll :: "repo \<Rightarrow> VerifiedEvidence list" where
  "getAll r = filter ev_active (jvals (evidenceMap r))"

definition getById :: "jstr \<Rightarrow> repo \<Rightarrow> VerifiedEvidence option" where
  "getById i r = jget (evidenceMap r) i"

definition getByCategory :: "jstr \<Rightarrow> repo \<Rightarrow> VerifiedEvidence list" where
  "getByCategory c r = filter (\<lambda>e. category e = c) (getAll r)"

definition addEvidence :: "VerifiedEvidence \<Rightarrow> repo \<Rightarrow> repo" where
  "addEvidence e r = r\<lparr>evidenceMap := jset (ev_id e) e (evidenceMap r)\<rparr>"

definition deactivate :: "jstr \<Rightarrow> repo \<Rightarrow> bool \<times> repo" where
  "deactivate i r = (case jget (evidenceMap r) i of
      None \<Rightarrow> (False, r)
    | Some e \<Rightarrow> (True, r\<lparr>evidenceMap := jset i (e\<lparr>ev_active := False\<rparr>) (evidenceMap r)\<rparr>))"

section \<open>Matching\<close>

text \<open>
  The age check compares with \<open>NaN\<close> for an invalid date, which is false: such evidence counts as
  fresh.
\<close>

definition isEvidenceValid :: "int \<Rightarrow> OpinionConfig \<Rightarrow> VerifiedEvidence \<Rightarrow> bool" where
  "isEvidenceValid now c e =
     (if \<not> ev_active e then False
      else if (case dateMs (verifiedDate e) of None \<Rightarrow> False
               | Some t \<Rightarrow> now - t > maxEvidenceAgeMonths c * 30 * 24 * 60 * 60 * 1000) then False
      else if sourceType e = large_survey \<and>
              (\<not> truthy_num (participantCount e) \<or> the (participantCount e) < minSurveyParticipants c) then False
      else True)"

definition getKeywordWeight :: "jstr \<Rightarrow> int" where
  "getKeywordWeight k = (if length k \<ge> 6 then 3 else if length k \<ge> 4 then 2 else 1)"

fun getSourceTypeBonus :: "EvidenceSourceType \<Rightarrow> int" where
  "getSourceTypeBonus standard_organization = 20"
| "getSourceTypeBonus official_announcement = 18"
| "getSourceTypeBonus large_survey = 15"
| "getSourceTypeBonus academic_paper = 15"
| "getSourceTypeBonus statistics_agency = 12"

text \<open>\<open>None\<close> stands for \<open>NaN\<close>, the age of an invalid date.\<close>

definition getAgeInMonths :: "(int \<Rightarrow> int) \<Rightarrow> int \<Rightarrow> jstr \<Rightarrow> int option" where
  "getAgeInMonths localMonth now d = map_option (\<lambda>t. localMonth now - localMonth t) (dateMs d)"

definition calculateConfidence :: "(int \<Rightarrow> int) \<Rightarrow> int \<Rightarrow> int \<Rightarrow> nat \<Rightarrow> nat \<Rightarrow> VerifiedEvidence \<Rightarrow> int" where
  "calculateConfidence localMonth now keywordScore topicMatchCount totalTopicWords e =
     (let c1 = of_int (min (keywordScore * 10) 50) :: rat;
          ratio = of_nat topicMatchCount / of_nat (max totalTopicWords 1);
          c2 = c1 + ratio * 30;
          c3 = c2 + of_int (getSourceTypeBonus (sourceType e));
          c4 = (case getAgeInMonths localMonth now (verifiedDate e) of
                  None \<Rightarrow> c3
                | Some a \<Rightarrow> if a \<le> 6 then c3 + 5 else if a \<le> 12 then c3 + 3 else c3)
      in min (js_round c4) 100)"

fun splitOn :: "int \<Rightarrow> jstr \<Rightarrow> jstr list" where
  "splitOn sep [] = [[]]"
| "splitOn sep (c # cs) =
     (if c = sep then [] # splitOn sep cs
      else (case splitOn sep cs of [] \<Rightarrow> [[c]] | w # ws \<Rightarrow> (c # w) # ws))"

definition matchEvidence :: "(int \<Rightarrow> int) \<Rightarrow> int \<Rightarrow> jstr \<Rightarrow> VerifiedEvidence \<Rightarrow> EvidenceMatchResult" where
  "matchEvidence localMonth now text e =
     (let nt = to_lower text;
          mk = filter (\<lambda>k. str_includes (to_lower k) nt) (ev_keywords e);
          score = sum_list (map getKeywordWeight mk);
          words = splitOn 32 (to_lower (ev_topic e));
          tm = length (filter (\<lambda>w. length w > 1 \<and> str_includes w nt) words)
      in \<lparr>m_evidence = e,
          m_confidence = calculateConfidence localMonth now score tm (length words) e,
          matchedKeywords = mk\<rparr>)"

definition findRelevantEvidence :: "(int \<Rightarrow> int) \<Rightarrow> int \<Rightarrow> jstr \<Rightarrow> repo \<Rightarrow> EvidenceMatchResult list" where
  "findRelevantEvidence localMonth now text r =
     sort_key (\<lambda>m. - m_confidence m)
       (filter (\<lambda>m. m_confidence m \<ge> 50 \<and> matchedKeywords m \<noteq> [])
         (map (matchEvidence localMonth now text) (filter (isEvidenceValid now (config r)) (getAll r))))"

end
