(* ===== verification/Opinion.thy ===== *)
theory Opinion
  imports Evidence "HOL-Library.Multiset"
begin

text \<open>
  The opinion service, \<open>src/agent/evidence/opinion.service.ts\<close>: it speaks only on verified evidence
  above the confidence threshold, and not twice within five minutes on the same evidence in the
  same room. \<open>Math.random\<close> is an argument in \<open>[0, 1)\<close> for each call; \<open>fmt\<close> is \<open>toLocaleString\<close>.
\<close>

section \<open>Model\<close>

record RecentOpinion =
  ro_evidenceId :: jstr
  ro_timestamp :: int

record opinion_st =
  repository :: repo
  recentOpinions :: "(jstr, RecentOpinion) jmap"

definition OPINION_COOLDOWN_MS :: int where "OPINION_COOLDOWN_MS = 5 * 60 * 1000"

record OpinionResult =
  shouldSpeak :: bool
  response :: "jstr option"
  o_evidence :: "VerifiedEvidence option"
  o_confidence :: int
  silenceReason :: "jstr option"

definition silent :: "int \<Rightarrow> jstr \<Rightarrow> OpinionResult" where
  "silent conf why = \<lparr>shouldSpeak = False, response = None, o_evidence = None, o_confidence = conf,
     silenceReason = Some why\<rparr>"

definition opinionKey :: "jstr \<Rightarrow> jstr \<Rightarrow> jstr" where
  "opinionKey r i = r @ [58] @ i"

definition isOnCooldown :: "int \<Rightarrow> jstr \<Rightarrow> jstr \<Rightarrow> opinion_st \<Rightarrow> bool" where
  "isOnCooldown now r i st = (case jget (recentOpinions st) (opinionKey r i) of
      None \<Rightarrow> False
    | Some x \<Rightarrow> now - ro_timestamp x < OPINION_COOLDOWN_MS)"

definition cleanupOldRecords :: "int \<Rightarrow> (jstr, RecentOpinion) jmap \<Rightarrow> (jstr, RecentOpinion) jmap" where
  "cleanupOldRecords now m =
     (let expired = map fst (filter (\<lambda>kx. now - ro_timestamp (snd kx) > OPINION_COOLDOWN_MS * 2) m)
      in fold jdel expired m)"

definition registerOpinion :: "int \<Rightarrow> jstr \<Rightarrow> jstr \<Rightarrow> opinion_st \<Rightarrow> opinion_st" where
  "registerOpinion now r i st = st\<lparr>recentOpinions := cleanupOldRecords now
     (jset (opinionKey r i) \<lparr>ro_evidenceId = i, ro_timestamp = now\<rparr> (recentOpinions st))\<rparr>"

definition clearRoomHistory :: "jstr \<Rightarrow> opinion_st \<Rightarrow> opinion_st" where
  "clearRoomHistory r st = st\<lparr>recentOpinions :=
     fold jdel (filter (starts_with (r @ [58])) (jkeys (recentOpinions st))) (recentOpinions st)\<rparr>"

definition formatParticipantCount :: "(int \<Rightarrow> jstr) \<Rightarrow> int \<Rightarrow> jstr" where
  "formatParticipantCount fmt n =
     (if n \<ge> 100000 then jint (n div 10000) @ [47564, 32, 47749]
      else if n \<ge> 10000 then fmt (n div 1000) @ [52380, 32, 47749]
      else fmt n @ [47749])"

definition closingPhrases :: "jstr \<Rightarrow> jstr list" where
  "closingPhrases c =
     (if c = js ''security'' then [[48372, 50504, 32, 44288, 51216, 50640, 49436, 32, 44256, 47140,
       54644, 48372, 49884, 45716, 32, 44148, 32, 50612, 46504, 44620, 50836, 63], [51060, 32, 48169,
       49885, 46020, 32, 44160, 53664, 54644, 48372, 49884, 47732, 32, 51339, 51012, 32, 44163, 32,
       44057, 49845, 45768, 45796, 46]]
      else if c = js ''architecture'' then [[50500, 53412, 53581, 52376, 32, 49444, 44228, 32, 49884,
        32, 52280, 44256, 54616, 49884, 47732, 32, 51339, 51012, 32, 44163, 32, 44057, 50500, 50836,
        46], [51060, 47088, 32, 51217, 44540, 32, 48169, 49885, 46020, 32, 44256, 47140, 54644, 48372,
        49884, 45716, 32, 44148, 32, 50612, 46504, 44620, 50836, 63]]
      else if c = js ''development'' then [[44060, 48156, 54616, 49892, 32, 46412, 32, 52280, 44256,
        54616, 49884, 47732, 32, 46020, 50880, 51060, 32, 46112, 32, 44163, 32, 44057, 49845, 45768,
        45796, 46], [48708, 49847, 54620, 32, 49324, 47168, 50640, 49436, 32, 47566, 51060, 32, 49324,
        50857, 54616, 45716, 32, 48169, 49885, 51060, 50640, 50836, 46]]
      else if c = js ''database'' then [[68, 66, 32, 49440, 53469, 54616, 49892, 32, 46412, 32, 52280,
        44256, 54644, 48372, 49884, 47732, 32, 51339, 44192, 49845, 45768, 45796, 46], [52572, 44540,
        32, 53944, 47116, 46300, 47484, 32, 48372, 47732, 32, 51060, 47088, 32, 49440, 53469, 51060,
        32, 47566, 45908, 46972, 44256, 50836, 46]]
      else if c = js ''infrastructure'' then [[51064, 54532, 46972, 32, 44396, 49457, 32, 49884, 32,
        44256, 47140, 54644, 48372, 49884, 47732, 32, 51339, 51012, 32, 44163, 32, 44057, 50500, 50836,
        46], [50868, 50689, 32, 54872, 44221, 50640, 49436, 32, 44160, 51613, 46108, 32, 48169, 49885,
        51060, 46972, 32, 52280, 44256, 54616, 49884, 47732, 32, 51339, 44192, 49845, 45768, 45796, 46]]
      else if c = js ''testing'' then [[53580, 49828, 53944, 32, 51204, 47029, 32, 49688, 47549, 32,
        49884, 32, 52280, 44256, 54644, 48372, 49464, 50836, 46], [54408, 51656, 32, 44288, 47532, 32,
        52769, 47732, 50640, 49436, 32, 46020, 50880, 51060, 32, 46112, 32, 44163, 32, 44057, 49845,
        45768, 45796, 46]]
      else [[52280, 44256, 54616, 49884, 47732, 32, 46020, 50880, 51060, 32, 46112, 32, 44163, 32,
        44057, 49845, 45768, 45796, 46], [51060, 47088, 32, 48169, 49885, 46020, 32, 44256, 47140,
        54644, 48372, 49884, 45716, 32, 44148, 32, 50612, 46504, 44620, 50836, 63]])"

definition getClosingPhrase :: "rat \<Rightarrow> jstr \<Rightarrow> jstr" where
  "getClosingPhrase rnd c = pick rnd (closingPhrases c)"

definition sourcePhrase :: "(int \<Rightarrow> jstr) \<Rightarrow> VerifiedEvidence \<Rightarrow> jstr" where
  "sourcePhrase fmt e = (case sourceType e of
      large_survey \<Rightarrow>
        (if truthy_num (participantCount e)
         then formatParticipantCount fmt (the (participantCount e)) @ [32, 51060, 49345, 51060, 32,
           52280, 50668, 54620, 32] @ sourceName e @ [50640, 32, 46384, 47476, 47732, 32]
         else sourceName e @ [32, 53685, 44228, 47484, 32, 48372, 47732, 32])
    | official_announcement \<Rightarrow> sourceName e @ [50640, 49436, 32, 48156, 54364, 54620, 32,
      45236, 50857, 51012, 32, 48372, 47732, 32]
    | standard_organization \<Rightarrow> sourceName e @ [32, 44428, 51109, 49324, 54637, 51012, 32,
      52280, 44256, 54616, 49884, 47732, 32]
    | academic_paper \<Rightarrow> sourceName e @ [32, 50672, 44396, 32, 44208, 44284, 47484, 32,
      48372, 47732, 32]
    | statistics_agency \<Rightarrow> sourceName e @ [32, 53685, 44228, 50640, 32, 46384, 47476, 47732,
      44, 32])"

definition generateOpinionResponse :: "(int \<Rightarrow> jstr) \<Rightarrow> rat \<Rightarrow> rat \<Rightarrow> EvidenceMatchResult \<Rightarrow> jstr" where
  "generateOpinionResponse fmt rnd1 rnd2 m =
     (let e = m_evidence m;
          openers = [[54788, 51116, 32, 45436, 51032, 32, 51473, 51064, 32] @ ev_topic e @ [50640, 32,
            45824, 54644, 49436, 32, 47568, 50432, 46300, 47532, 51088, 47732, 44],
                     [51648, 44552, 32, 47568, 50432, 54616, 49888, 32, 45236, 50857, 44284, 32, 44288,
                       47144, 54644, 49436, 44], [52280, 44256, 47196, 32, 47568, 50432, 46300, 47532,
                       47732, 44]]
      in pick rnd1 openers @ [32] @ sourcePhrase fmt e @ fact e @ [46] @ [32] @ getClosingPhrase rnd2 (category e))"

definition analyzeAndRespond :: "(int \<Rightarrow> int) \<Rightarrow> (int \<Rightarrow> jstr) \<Rightarrow> rat \<Rightarrow> rat \<Rightarrow> int \<Rightarrow> jstr \<Rightarrow> jstr \<Rightarrow> opinion_st \<Rightarrow>
    OpinionResult \<times> opinion_st" where
  "analyzeAndRespond localMonth fmt rnd1 rnd2 now r text st =
     (let c = getConfig (repository st)
      in if \<not> enabled c then (silent 0 (js ''Opinion feature is disabled''), st)
         else if text = [] \<or> length (trim text) < 10 then (silent 0 (js ''Conversation text too short''), st)
         else (case findRelevantEvidence localMonth now text (repository st) of
             [] \<Rightarrow> (silent 0 (js ''No relevant evidence found''), st)
           | best # rest \<Rightarrow>
               if m_confidence best < minConfidenceThreshold c then
                 (silent (m_confidence best) (js ''Confidence '' @ jint (m_confidence best) @
                    js ''% below threshold '' @ jint (minConfidenceThreshold c) @ js ''%''), st)
               else if isOnCooldown now r (ev_id (m_evidence best)) st then
                 (silent (m_confidence best) (js ''Same evidence recently shared in this room''), st)
               else (\<lparr>shouldSpeak = True, response = Some (generateOpinionResponse fmt rnd1 rnd2 best),
                      o_evidence = Some (m_evidence best), o_confidence = m_confidence best,
                      silenceReason = None\<rparr>,
                     registerOpinion now r (ev_id (m_evidence best)) st)))"

record OpinionMessage =
  om_topic :: jstr
  om_fact :: jstr
  om_source :: jstr
  om_sourceUrl :: jstr
  om_verifiedDate :: jstr

definition formatForDataChannel :: "VerifiedEvidence \<Rightarrow> OpinionMessage" where
  "formatForDataChannel e = \<lparr>om_topic = ev_topic e, om_fact = fact e, om_source = sourceName e,
     om_sourceUrl = sourceUrl e, om_verifiedDate = verifiedDate e\<rparr>"

definition noConfig :: PartialConfig where
  "noConfig = \<lparr>pc_minConfidenceThreshold = None, pc_maxEvidenceAgeMonths = None,
     pc_minSurveyParticipants = None, pc_enabled = None\<rparr>"

definition setEnabled :: "bool \<Rightarrow> opinion_st \<Rightarrow> opinion_st" where
  "setEnabled b st = st\<lparr>repository := setConfig (noConfig\<lparr>pc_enabled := Some b\<rparr>) (repository st)\<rparr>"

definition isEnabled :: "opinion_st \<Rightarrow> bool" where
  "isEnabled st = enabled (getConfig (repository st))"

definition setConfidenceThreshold :: "int \<Rightarrow> opinion_st \<Rightarrow> jstr + opinion_st" where
  "setConfidenceThreshold n st =
     (if n < 0 \<or> n > 100 then Inl (js ''Confidence threshold must be between 0 and 100'')
      else Inr (st\<lparr>repository := setConfig (noConfig\<lparr>pc_minConfidenceThreshold := Some n\<rparr>) (repository st)\<rparr>))"

section \<open>Lemmas on matching\<close>

lemma fold_jdel: "jget (fold jdel ks m) k = (if k \<in> set ks then None else jget m k)"
  by (induction ks arbitrary: m) auto

lemma found_evidence:
  assumes "m \<in> set (findRelevantEvidence localMonth now text r)"
  shows "m_evidence m \<in> set (getAll r)" and "isEvidenceValid now (config r) (m_evidence m)"
    and "matchedKeywords m \<noteq> []" and "50 \<le> m_confidence m"
    and "m = matchEvidence localMonth now text (m_evidence m)"
  using assms by (auto simp: findRelevantEvidence_def matchEvidence_def Let_def)

lemma matched_keyword:
  "k \<in> set (matchedKeywords (matchEvidence localMonth now text e)) \<Longrightarrow>
     k \<in> set (ev_keywords e) \<and> str_includes (to_lower k) (to_lower text)"
  by (simp add: matchEvidence_def Let_def)

lemma found_best:
  assumes "findRelevantEvidence localMonth now text r = best # rest" and "m \<in> set (best # rest)"
  shows "m_confidence m \<le> m_confidence best"
proof -
  have "sorted (map (\<lambda>m. - m_confidence m) (findRelevantEvidence localMonth now text r))"
    unfolding findRelevantEvidence_def by (rule sorted_sort_key)
  with assms show ?thesis by auto
qed

lemma speaks_evidence:
  assumes "analyzeAndRespond localMonth fmt rnd1 rnd2 now r text st = (res, st')" and "shouldSpeak res"
  obtains best rest where "findRelevantEvidence localMonth now text (repository st) = best # rest"
    and "o_evidence res = Some (m_evidence best)" and "o_confidence res = m_confidence best"
    and "enabled (config (repository st))" and "10 \<le> length (trim text)"
    and "minConfidenceThreshold (config (repository st)) \<le> m_confidence best"
    and "\<not> isOnCooldown now r (ev_id (m_evidence best)) st"
  using assms by (auto simp: analyzeAndRespond_def silent_def getConfig_def Let_def split: if_splits list.splits)

lemma valid_evidence:
  assumes "isEvidenceValid now c e"
  shows "ev_active e" and "case dateMs (verifiedDate e) of None \<Rightarrow> True | Some t \<Rightarrow> now - t \<le> maxEvidenceAgeMonths c * 2592000000"
    and "if sourceType e = large_survey then \<exists>n. participantCount e = Some n \<and> minSurveyParticipants c \<le> n else True"
  using assms by (auto simp: isEvidenceValid_def truthy_num_def split: if_splits option.splits)

section \<open>Cooldown\<close>

lemma map_of_Some_mem: "jget m k = Some x \<Longrightarrow> (k, x) \<in> set m"
  by (rule map_of_SomeD)

lemma cleanup_keeps:
  assumes "jwf m" and "jget m k = Some x" and "now - ro_timestamp x \<le> OPINION_COOLDOWN_MS * 2"
  shows "jget (cleanupOldRecords now m) k = Some x"
proof -
  have "k \<notin> fst ` set (filter (\<lambda>kx. now - ro_timestamp (snd kx) > OPINION_COOLDOWN_MS * 2) m)"
  proof
    assume "k \<in> fst ` set (filter (\<lambda>kx. now - ro_timestamp (snd kx) > OPINION_COOLDOWN_MS * 2) m)"
    then obtain y where y: "(k, y) \<in> set m" "now - ro_timestamp y > OPINION_COOLDOWN_MS * 2" by auto
    then have "y = x"
      using assms(1) map_of_Some_mem [OF assms(2)] eq_key_imp_eq_value by (metis jwf_def)
    with y assms(3) show False by simp
  qed
  with assms(2) show ?thesis by (simp add: cleanupOldRecords_def fold_jdel)
qed

lemma jwf_fold_jdel: "jwf m \<Longrightarrow> jwf (fold jdel ks m)"
  by (induction ks arbitrary: m) simp_all

lemma analyze_state:
  assumes "analyzeAndRespond localMonth fmt rnd1 rnd2 now r text st = (res, st')"
  shows "if shouldSpeak res
         then (\<exists>e. o_evidence res = Some e \<and> st' = registerOpinion now r (ev_id e) st \<and>
                 \<not> isOnCooldown now r (ev_id e) st)
         else st' = st"
  using assms
  by (auto simp: analyzeAndRespond_def silent_def Let_def split: if_splits list.splits)

record analysis =
  a_now :: int
  a_room :: jstr
  a_text :: jstr
  a_rnd1 :: rat
  a_rnd2 :: rat

definition analyse :: "(int \<Rightarrow> int) \<Rightarrow> (int \<Rightarrow> jstr) \<Rightarrow> analysis \<Rightarrow> opinion_st \<Rightarrow> opinion_st" where
  "analyse localMonth fmt a st =
     snd (analyzeAndRespond localMonth fmt (a_rnd1 a) (a_rnd2 a) (a_now a) (a_room a) (a_text a) st)"

text \<open>A record made within the last five minutes survives every analysis, or is renewed by it.\<close>

definition remembered :: "int \<Rightarrow> jstr \<Rightarrow> opinion_st \<Rightarrow> bool" where
  "remembered t k st \<longleftrightarrow> jwf (recentOpinions st) \<and> (\<exists>x. jget (recentOpinions st) k = Some x \<and> t \<le> ro_timestamp x)"

lemma remembered_register:
  assumes "remembered t k st" and "t \<le> now" and "now \<le> t + OPINION_COOLDOWN_MS"
  shows "remembered t k (registerOpinion now r i st)"
proof -
  let ?m = "jset (opinionKey r i) \<lparr>ro_evidenceId = i, ro_timestamp = now\<rparr> (recentOpinions st)"
  obtain x where x: "jget ?m k = Some x" "t \<le> ro_timestamp x"
    using assms(1,2) by (cases "k = opinionKey r i") (auto simp: remembered_def)
  have w: "jwf ?m" using assms(1) by (simp add: remembered_def)
  have "now - ro_timestamp x \<le> OPINION_COOLDOWN_MS * 2"
    using x(2) assms(3) by (simp add: OPINION_COOLDOWN_MS_def)
  from cleanup_keeps [OF w x(1) this] x(2) w show ?thesis
    by (simp add: remembered_def registerOpinion_def cleanupOldRecords_def jwf_fold_jdel)
qed

lemma remembered_analyse:
  assumes "remembered t k st" and "t \<le> a_now a" and "a_now a \<le> t + OPINION_COOLDOWN_MS"
  shows "remembered t k (analyse localMonth fmt a st)"
proof -
  obtain res st' where a: "analyzeAndRespond localMonth fmt (a_rnd1 a) (a_rnd2 a) (a_now a) (a_room a) (a_text a) st = (res, st')"
    by fastforce
  show ?thesis
    using analyze_state [OF a] a assms remembered_register by (auto simp: analyse_def split: if_splits)
qed

lemma remembered_run:
  "remembered t k st \<Longrightarrow> \<forall>a \<in> set as. t \<le> a_now a \<and> a_now a \<le> t + OPINION_COOLDOWN_MS \<Longrightarrow>
   remembered t k (fold (analyse localMonth fmt) as st)"
  by (induction as arbitrary: st) (simp_all add: remembered_analyse)

lemma registered_remembered:
  "jwf (recentOpinions st) \<Longrightarrow> remembered now (opinionKey r i) (registerOpinion now r i st)"
  using cleanup_keeps [of "jset (opinionKey r i) \<lparr>ro_evidenceId = i, ro_timestamp = now\<rparr> (recentOpinions st)"
      "opinionKey r i" "\<lparr>ro_evidenceId = i, ro_timestamp = now\<rparr>" now]
  by (simp add: remembered_def registerOpinion_def cleanupOldRecords_def jwf_fold_jdel OPINION_COOLDOWN_MS_def)

section \<open>Expiry of the built-in evidence\<close>

lemma default_dates_checked:
  "list_all (\<lambda>e. case dateMs (verifiedDate e) of None \<Rightarrow> False | Some t \<Rightarrow> t \<le> 1717200000000) defaultEvidence"
  by code_simp

lemma default_dates:
  "e \<in> set defaultEvidence \<Longrightarrow> \<exists>t. dateMs (verifiedDate e) = Some t \<and> t \<le> 1717200000000"
  using default_dates_checked by (fastforce simp: list_all_iff split: option.splits)

lemma set_jvals_jset: "set (jvals (jset k v m)) \<subseteq> insert v (set (jvals m))"
  by (induction m) (auto simp: jvals_def)

lemma vals_fold_jset:
  "set (jvals (fold (\<lambda>e m. jset (f e) e m) es m)) \<subseteq> set es \<union> set (jvals m)"
proof (induction es arbitrary: m)
  case (Cons e es)
  with Cons [of "jset (f e) e m"] set_jvals_jset [of "f e" e m] show ?case by auto
qed simp

section \<open>Properties\<close>

text \<open>
  C35. Silence without verified evidence: whenever the service speaks, the feature is enabled, the
  text has at least ten characters, and the evidence it cites is in the repository, active, at most the configured number of
  months of thirty days old if its date has the form year-month (with any other date its age does not matter), a survey only with at
  least the configured number of participants, matched by at least one of its keywords in the text, at or above the confidence threshold
  and with no candidate above it, and not recorded for this room in the last five minutes.
\<close>

theorem speaks_only_on_verified_evidence:
  assumes "analyzeAndRespond localMonth fmt rnd1 rnd2 now r text st = (res, st')" and "shouldSpeak res"
  shows "\<exists>e k. o_evidence res = Some e \<and> enabled (config (repository st)) \<and> 10 \<le> length (trim text) \<and>
    e \<in> set (jvals (evidenceMap (repository st))) \<and> ev_active e \<and>
    (case dateMs (verifiedDate e) of None \<Rightarrow> True | Some t \<Rightarrow> now - t \<le> maxEvidenceAgeMonths (config (repository st)) * 2592000000) \<and>
    (if sourceType e = large_survey
     then \<exists>n. participantCount e = Some n \<and> minSurveyParticipants (config (repository st)) \<le> n else True) \<and>
    k \<in> set (ev_keywords e) \<and> str_includes (to_lower k) (to_lower text) \<and>
    minConfidenceThreshold (config (repository st)) \<le> o_confidence res \<and>
    (\<forall>m \<in> set (findRelevantEvidence localMonth now text (repository st)). m_confidence m \<le> o_confidence res) \<and>
    (case jget (recentOpinions st) (r @ [58] @ ev_id e) of None \<Rightarrow> True | Some x \<Rightarrow> 300000 \<le> now - ro_timestamp x)"
proof -
  from assms obtain best rest where f: "findRelevantEvidence localMonth now text (repository st) = best # rest"
    and r: "o_evidence res = Some (m_evidence best)" "o_confidence res = m_confidence best"
      "enabled (config (repository st))" "10 \<le> length (trim text)"
      "minConfidenceThreshold (config (repository st)) \<le> m_confidence best"
      "\<not> isOnCooldown now r (ev_id (m_evidence best)) st"
    by (rule speaks_evidence)
  have b: "best \<in> set (findRelevantEvidence localMonth now text (repository st))" using f by simp
  obtain k where "k \<in> set (matchedKeywords best)" using found_evidence(3) [OF b] by (cases "matchedKeywords best") auto
  then have k: "k \<in> set (ev_keywords (m_evidence best)) \<and> str_includes (to_lower k) (to_lower text)"
    using matched_keyword found_evidence(5) [OF b] by metis
  have m: "\<forall>m \<in> set (findRelevantEvidence localMonth now text (repository st)). m_confidence m \<le> m_confidence best"
    using found_best [OF f] f by simp
  have "case jget (recentOpinions st) (r @ [58] @ ev_id (m_evidence best)) of None \<Rightarrow> True | Some x \<Rightarrow> 300000 \<le> now - ro_timestamp x"
    using r(6) by (simp add: isOnCooldown_def opinionKey_def OPINION_COOLDOWN_MS_def split: option.splits)
  then show ?thesis
    using r(1-5) k m found_evidence(1) [OF b] valid_evidence [OF found_evidence(2) [OF b]]
    by (intro exI [of _ "m_evidence best"] exI [of _ k]) (simp add: getAll_def)
qed

definition demo_evidence :: VerifiedEvidence where
  "demo_evidence = \<lparr>ev_id = [1], ev_topic = [97, 98], ev_keywords = [[97, 98]], fact = [99], sourceName = [100],
     sourceType = standard_organization, sourceUrl = [], verifiedDate = [], participantCount = None,
     category = [], ev_active = True\<rparr>"

definition demo_evidence2 :: VerifiedEvidence where
  "demo_evidence2 = demo_evidence\<lparr>ev_id := [2], ev_topic := [99, 100], ev_keywords := [[99, 100]]\<rparr>"

definition demo_opinion :: opinion_st where
  "demo_opinion = \<lparr>repository = \<lparr>evidenceMap = [([1], demo_evidence), ([2], demo_evidence2)],
     config = DEFAULT_OPINION_CONFIG\<lparr>minConfidenceThreshold := 60\<rparr>\<rparr>, recentOpinions = []\<rparr>"

abbreviation demo_text :: jstr where
  "demo_text \<equiv> [97, 98, 97, 98, 97, 98, 97, 98, 97, 98]"

abbreviation demo_text2 :: jstr where
  "demo_text2 \<equiv> [99, 100, 99, 100, 99, 100, 99, 100, 99, 100]"

lemma floor_rat_half: "\<lfloor>41 / 2 :: rat\<rfloor> = 20"
  by (simp add: floor_eq_iff)

lemma demo_found:
  "findRelevantEvidence (\<lambda>_. 0) 0 demo_text (repository demo_opinion) =
     [\<lparr>m_evidence = demo_evidence, m_confidence = 60, matchedKeywords = [[97, 98]]\<rparr>]"
  "findRelevantEvidence (\<lambda>_. 0) 1000 demo_text2 (repository demo_opinion) =
     [\<lparr>m_evidence = demo_evidence2, m_confidence = 60, matchedKeywords = [[99, 100]]\<rparr>]"
  by (simp_all add: findRelevantEvidence_def demo_opinion_def getAll_def jvals_def demo_evidence_def
      demo_evidence2_def isEvidenceValid_def
      dateMs_def parseYearMonth_def matchEvidence_def to_lower_def getKeywordWeight_def calculateConfidence_def
      getAgeInMonths_def js_round_def Let_def floor_rat_half)

lemma demo_speaks:
  "\<exists>res st'. analyzeAndRespond (\<lambda>_. 0) jint 0 0 0 [7] demo_text demo_opinion = (res, st') \<and> shouldSpeak res \<and>
     o_evidence res = Some demo_evidence \<and> st' = registerOpinion 0 [7] [1] demo_opinion"
  using demo_found(1)
  by (simp add: analyzeAndRespond_def Let_def)
    (simp add: demo_opinion_def getConfig_def DEFAULT_OPINION_CONFIG_def trim_def is_space_def isOnCooldown_def
      demo_evidence_def)

lemma register_repository [simp]: "repository (registerOpinion now r i st) = repository st"
  by (simp add: registerOpinion_def cleanupOldRecords_def)

lemma demo_speaks_again:
  "\<exists>res st'. analyzeAndRespond (\<lambda>_. 0) jint 0 0 1000 [7] demo_text2 (registerOpinion 0 [7] [1] demo_opinion) = (res, st') \<and>
     shouldSpeak res \<and> o_evidence res = Some demo_evidence2"
  using demo_found(2)
  by (simp add: analyzeAndRespond_def Let_def)
    (simp add: demo_opinion_def getConfig_def DEFAULT_OPINION_CONFIG_def trim_def is_space_def isOnCooldown_def
      demo_evidence_def demo_evidence2_def registerOpinion_def cleanupOldRecords_def opinionKey_def)

definition demo_survey :: VerifiedEvidence where
  "demo_survey = demo_evidence\<lparr>sourceType := large_survey, verifiedDate := js ''1970-01'', participantCount := Some 50000\<rparr>"

definition demo_surveys :: opinion_st where
  "demo_surveys = \<lparr>repository = \<lparr>evidenceMap = [([1], demo_survey)],
     config = DEFAULT_OPINION_CONFIG\<lparr>minConfidenceThreshold := 60\<rparr>\<rparr>, recentOpinions = []\<rparr>"

lemma demo_survey_found:
  "findRelevantEvidence (\<lambda>_. 0) 1000 demo_text (repository demo_surveys) =
     [\<lparr>m_evidence = demo_survey, m_confidence = 60, matchedKeywords = [[97, 98]]\<rparr>]"
  by (simp add: findRelevantEvidence_def demo_surveys_def getAll_def jvals_def demo_evidence_def demo_survey_def isEvidenceValid_def
      truthy_num_def DEFAULT_OPINION_CONFIG_def js_def digit_def monthDays_def
      dateMs_def parseYearMonth_def matchEvidence_def to_lower_def getKeywordWeight_def calculateConfidence_def
      getAgeInMonths_def js_round_def Let_def floor_eq_iff)

lemma demo_survey_speaks:
  "\<exists>res st'. analyzeAndRespond (\<lambda>_. 0) jint 0 0 1000 [7] demo_text demo_surveys = (res, st') \<and> shouldSpeak res \<and>
     o_evidence res = Some demo_survey"
  using demo_survey_found
  by (simp add: analyzeAndRespond_def Let_def)
    (simp add: demo_surveys_def getConfig_def DEFAULT_OPINION_CONFIG_def trim_def is_space_def isOnCooldown_def demo_evidence_def)

theorem speaks_only_on_verified_evidence_witness:
  "case dateMs (verifiedDate demo_survey) of None \<Rightarrow> True | Some t \<Rightarrow> 1000 - t \<le> 24 * 2592000000"
proof -
  obtain res st' where "analyzeAndRespond (\<lambda>_. 0) jint 0 0 1000 [7] demo_text demo_surveys = (res, st')" "shouldSpeak res"
    "o_evidence res = Some demo_survey"
    using demo_survey_speaks by blast
  with speaks_only_on_verified_evidence [OF this(1,2)] show ?thesis
    by (auto simp: demo_surveys_def DEFAULT_OPINION_CONFIG_def split: option.splits)
qed

text \<open>
  The same evidence is not offered twice in a room within five minutes, whatever is analysed
  in between for any room: the record of an opinion survives the cleanup of old records as long as
  it matters.
\<close>

theorem no_repeat_within_five_minutes:
  assumes "jwf (recentOpinions st)"
    and "analyzeAndRespond localMonth fmt rnd1 rnd2 t1 r text1 st = (res1, st1)" and "shouldSpeak res1"
    and "o_evidence res1 = Some e1"
    and "\<forall>a \<in> set as. t1 \<le> a_now a \<and> a_now a \<le> t1 + 300000"
    and "analyzeAndRespond localMonth fmt rnd3 rnd4 t2 r text2 (fold (analyse localMonth fmt) as st1) = (res2, st2)"
    and "shouldSpeak res2" and "o_evidence res2 = Some e2" and "t1 \<le> t2" and "t2 < t1 + 300000"
  shows "ev_id e2 \<noteq> ev_id e1"
proof
  assume eq: "ev_id e2 = ev_id e1"
  have "st1 = registerOpinion t1 r (ev_id e1) st" using analyze_state [OF assms(2)] assms(3,4) by simp
  then have "remembered t1 (opinionKey r (ev_id e1)) st1" using assms(1) registered_remembered by simp
  then have "remembered t1 (opinionKey r (ev_id e1)) (fold (analyse localMonth fmt) as st1)"
    by (rule remembered_run) (use assms(5) in \<open>simp add: OPINION_COOLDOWN_MS_def\<close>)
  then have "isOnCooldown t2 r (ev_id e1) (fold (analyse localMonth fmt) as st1)"
    using assms(10) by (auto simp: remembered_def isOnCooldown_def OPINION_COOLDOWN_MS_def)
  moreover have "\<not> isOnCooldown t2 r (ev_id e2) (fold (analyse localMonth fmt) as st1)"
    using analyze_state [OF assms(6)] assms(7,8) by simp
  ultimately show False using eq by simp
qed

theorem no_repeat_within_five_minutes_witness:
  "\<exists>res1 st1 res2 st2 e1 e2. analyzeAndRespond (\<lambda>_. 0) jint 0 0 0 [7] demo_text demo_opinion = (res1, st1) \<and>
     analyzeAndRespond (\<lambda>_. 0) jint 0 0 1000 [7] demo_text2 st1 = (res2, st2) \<and>
     o_evidence res1 = Some e1 \<and> o_evidence res2 = Some e2 \<and> ev_id e2 \<noteq> ev_id e1"
proof -
  obtain res1 st1 where a: "analyzeAndRespond (\<lambda>_. 0) jint 0 0 0 [7] demo_text demo_opinion = (res1, st1)"
    "shouldSpeak res1" "o_evidence res1 = Some demo_evidence" "st1 = registerOpinion 0 [7] [1] demo_opinion"
    using demo_speaks by blast
  obtain res2 st2 where b: "analyzeAndRespond (\<lambda>_. 0) jint 0 0 1000 [7] demo_text2 st1 = (res2, st2)"
    "shouldSpeak res2" "o_evidence res2 = Some demo_evidence2"
    using demo_speaks_again a(4) by blast
  have "jwf (recentOpinions demo_opinion)" by (simp add: demo_opinion_def jwf_def)
  from no_repeat_within_five_minutes [OF this a(1,2,3), of "[]" 0 0 1000 demo_text2 res2 st2 demo_evidence2]
  have "ev_id demo_evidence2 \<noteq> ev_id demo_evidence" using b by simp
  with a(1,3) b(1,3) show ?thesis by blast
qed

text \<open>
  The built-in evidence expires: with the default configuration, from 22 May 2026 (UTC) on the
  service stays silent in every room and on every text, because every built-in item is then older
  than 24 months of 30 days.
\<close>

theorem default_evidence_expires:
  assumes "1779408000000 < now" and "repository st = initializeDefaultEvidence"
  shows "\<not> shouldSpeak (fst (analyzeAndRespond localMonth fmt rnd1 rnd2 now r text st))"
proof
  assume s: "shouldSpeak (fst (analyzeAndRespond localMonth fmt rnd1 rnd2 now r text st))"
  obtain res st' where a: "analyzeAndRespond localMonth fmt rnd1 rnd2 now r text st = (res, st')" by fastforce
  from a s obtain best rest where f: "findRelevantEvidence localMonth now text (repository st) = best # rest"
    by (metis fst_conv speaks_evidence)
  then have b: "best \<in> set (findRelevantEvidence localMonth now text (repository st))" by simp
  define e where "e = m_evidence best"
  have e: "e \<in> set (jvals (evidenceMap (repository st)))" "isEvidenceValid now (config (repository st)) e"
    using found_evidence(1,2) [OF b] by (auto simp: e_def getAll_def)
  have "e \<in> set defaultEvidence"
    using e(1) vals_fold_jset [of ev_id defaultEvidence "[]"]
    by (auto simp: assms(2) initializeDefaultEvidence_def jvals_def)
  then obtain t where "dateMs (verifiedDate e) = Some t" "t \<le> 1717200000000"
    using default_dates by blast
  with e(2) assms(1) show False
    by (auto simp: assms(2) initializeDefaultEvidence_def DEFAULT_OPINION_CONFIG_def isEvidenceValid_def
        split: if_splits)
qed

theorem default_evidence_expires_witness:
  "\<not> shouldSpeak (fst (analyzeAndRespond (\<lambda>_. 0) jint 0 0 1800000000000 [7] demo_text
      \<lparr>repository = initializeDefaultEvidence, recentOpinions = []\<rparr>))"
  by (rule default_evidence_expires) simp_all

end
