(* ===== verification/RoomState.thy ===== *)
theory RoomState
  imports Prelude
begin

text \<open>
  The state the voice bot keeps per room, \<open>RoomContext\<close> of \<open>src/livekit/voice-bot.service.ts\<close>, and
  the bookkeeping of the bot on it: the conversation memory, the screen captures, the diagram
  contexts, the briefing of the previous meeting, the armed timeout and the standby mode. Handles of
  the media library (the room, the audio source and track) are not part of the state; a timer handle
  is a flag that says whether the timer is set. Fields that the program never reads after the
  initialisation (the event-storm fields, the follow-up window, the timeline fields) are left out.
\<close>

section \<open>Types\<close>

datatype BotState = SLEEP | ARMED | SPEAKING

datatype role = UserRole | AssistantRole

record ConversationTurn =
  turn_role :: role
  turn_content :: jstr
  turn_timestamp :: int
  turn_speaker :: "jstr option"

record ParticipantSpeakingStats =
  ps_participantId :: jstr
  ps_participantName :: jstr
  speakingDurationMs :: int
  speakingCount :: int
  lastSpokenAt :: int

datatype DiagramType = flowchart | sequence | erd | architecture

record DiagramStatement =
  ds_speaker :: jstr
  ds_text :: jstr
  ds_keywords :: "jstr list"
  ds_timestamp :: int

record DiagramContext =
  dc_keywords :: "jstr list"
  statements :: "DiagramStatement list"
  dc_lastUpdated :: int

record VisionRequest =
  vr_requestId :: int
  vr_userQuestion :: jstr
  vr_userId :: jstr

record ScreenCapture =
  captureId :: int
  extractedText :: jstr
  captureIndex :: int
  sc_timestamp :: int

record PreviousMeeting =
  meetingTitle :: jstr
  pm_summary :: jstr
  keyDecisions :: "jstr list"
  actionItems :: "jstr list"
  pm_date :: jstr

record FlowchartNode =
  fn_id :: jstr
  fn_content :: jstr
  fn_nodeType :: jstr
  fn_depth :: int
  fn_branch :: int

record FlowchartEdge =
  fe_from :: jstr
  fe_to :: jstr
  fe_label :: "jstr option"

record FlowchartContext =
  fc_nodes :: "FlowchartNode list"
  fc_edges :: "FlowchartEdge list"
  fc_summary :: jstr

record ProactiveState =
  pa_enabled :: bool
  lastAnalysisTime :: int
  lastScreenTextHash :: jstr
  lastConversationHash :: jstr
  analysisTimer :: bool

record RoomContext =
  isPublishing :: bool
  shouldInterrupt :: bool
  currentRequestId :: int
  botState :: BotState
  lastInteractionTime :: int
  lastSttTimeByUser :: "(jstr, int) jmap"
  lastResponseTime :: int
  lastSpeechTime :: int
  speakingStartTime :: int
  activeUserId :: "jstr option"
  hasActiveScreenShare :: bool
  isVisionMode :: bool
  pendingVisionRequest :: "VisionRequest option"
  ideaModeActive :: bool
  lastIdeaModeChange :: int
  shutdownTimeout :: bool
  conversationHistory :: "ConversationTurn list"
  flowchartModeActive :: bool
  flowchartInitiator :: "jstr option"
  flowchartOpenTime :: int
  flowchartContext :: "FlowchartContext option"
  designModeActive :: bool
  designModeOpenTime :: int
  pendingDiagramExplanation :: "(jstr list \<times> (jstr, jstr) jmap) option"
  previousMeetingContext :: "PreviousMeeting option"
  greetingDone :: bool
  isContinuedMeeting :: bool
  aiMuted :: bool
  perplexityModeActive :: bool
  hostOnlyMode :: bool
  hostIdentities :: "jstr list"
  wakeWordEnabled :: bool
  speakingEnabled :: bool
  publishingStartTime :: int
  roomTopic :: "jstr option"
  participantSpeakingStats :: "(jstr, ParticipantSpeakingStats) jmap"
  statsUpdateInterval :: bool
  dominantAlertSent :: bool
  screenUnderstandingMode :: bool
  screenContextHistory :: "ScreenCapture list"
  screenContextStartTime :: int
  proactiveAnalysis :: ProactiveState
  standbyMode :: bool
  diagramContexts :: "DiagramType \<Rightarrow> DiagramContext"

type_synonym rooms = "(jstr, RoomContext) jmap"

definition STOP_WORDS :: "jstr list" where
  "STOP_WORDS = [[47688, 52656], [44536, 47564], [49828, 53681], [51473, 51648]]"

definition ARMED_TIMEOUT_MS :: int where "ARMED_TIMEOUT_MS = 30000"

definition MAX_CONVERSATION_TURNS :: nat where "MAX_CONVERSATION_TURNS = 30"

definition CONVERSATION_EXPIRE_MS :: int where "CONVERSATION_EXPIRE_MS = 300000"

definition createEmptyDiagramContexts :: "DiagramType \<Rightarrow> DiagramContext" where
  "createEmptyDiagramContexts = (\<lambda>_. \<lparr>dc_keywords = [], statements = [], dc_lastUpdated = 0\<rparr>)"

definition newRoomContext :: "int \<Rightarrow> jstr option \<Rightarrow> RoomContext" where
  "newRoomContext now topic =
     \<lparr>isPublishing = False, shouldInterrupt = False, currentRequestId = 0, botState = SLEEP,
      lastInteractionTime = now, lastSttTimeByUser = [], lastResponseTime = 0, lastSpeechTime = 0,
      speakingStartTime = 0, activeUserId = None, hasActiveScreenShare = False, isVisionMode = False,
      pendingVisionRequest = None, ideaModeActive = False, lastIdeaModeChange = 0,
      shutdownTimeout = False, conversationHistory = [], flowchartModeActive = False,
      flowchartInitiator = None, flowchartOpenTime = 0, flowchartContext = None,
      designModeActive = False, designModeOpenTime = 0, pendingDiagramExplanation = None,
      previousMeetingContext = None, greetingDone = False, isContinuedMeeting = False,
      aiMuted = False, perplexityModeActive = False, hostOnlyMode = True, hostIdentities = [],
      wakeWordEnabled = False, speakingEnabled = False, publishingStartTime = 0, roomTopic = topic,
      participantSpeakingStats = [], statsUpdateInterval = False, dominantAlertSent = False,
      screenUnderstandingMode = False, screenContextHistory = [], screenContextStartTime = 0,
      proactiveAnalysis = \<lparr>pa_enabled = False, lastAnalysisTime = 0, lastScreenTextHash = [],
        lastConversationHash = [], analysisTimer = False\<rparr>,
      standbyMode = False, diagramContexts = createEmptyDiagramContexts\<rparr>"

section \<open>Conversation memory\<close>

text \<open>
  The wake word at the start of a text, alone, with a vocative, or after one of the two calls with
  optional space, and the space after it.
\<close>

definition dropPrefix :: "jstr \<Rightarrow> jstr \<Rightarrow> jstr option" where
  "dropPrefix p s = (if starts_with p s then Some (drop (length p) s) else None)"

definition afterCall :: "jstr \<Rightarrow> jstr \<Rightarrow> jstr option" where
  "afterCall call s = (case dropPrefix call s of
      None \<Rightarrow> None
    | Some t \<Rightarrow> dropPrefix [50500, 50864, 46972] (dropWhile is_space t))"

definition stripWakeWord :: "jstr \<Rightarrow> jstr" where
  "stripWakeWord s =
     (case dropPrefix [50500, 50864, 46972, 50556] s of Some t \<Rightarrow> dropWhile is_space t
      | None \<Rightarrow> (case dropPrefix [50500, 50864,
        46972] s of Some t \<Rightarrow> dropWhile is_space t
      | None \<Rightarrow> (case afterCall [54756, 51060] s of Some t \<Rightarrow> dropWhile is_space t
      | None \<Rightarrow> (case afterCall [50724, 52992,
        51060] s of Some t \<Rightarrow> dropWhile is_space t
      | None \<Rightarrow> s))))"

text \<open>One character repeated, then only characters of a class, to the end.\<close>

definition repeatedThen :: "jstr \<Rightarrow> (int \<Rightarrow> bool) \<Rightarrow> jstr \<Rightarrow> bool" where
  "repeatedThen cs P s = (case s of
      [] \<Rightarrow> False
    | c # t \<Rightarrow> c \<in> set cs \<and> list_all P (dropWhile (\<lambda>x. x = c) t))"

definition isFiller :: "jstr \<Rightarrow> bool" where
  "isFiller s \<longleftrightarrow>
     repeatedThen [51020, 50612, 50500, 51004, 50640, 51025, 45348, 50696,
       50556] (\<lambda>c. c \<in> {46, 63, 33}) s \<or>
     repeatedThen [51020, 50612, 50500, 51004] (\<lambda>c. is_space c \<or> c \<in> {46, 44}) s \<or>
     repeatedThen [44536, 51200, 51060] (\<lambda>c. is_space c \<or> c \<in> {46, 44}) s \<or>
     s \<noteq> [] \<and> list_all (\<lambda>c. is_space c \<or> c \<in> {46, 63, 33, 44}) s"

definition cleanForHistory :: "jstr \<Rightarrow> jstr" where
  "cleanForHistory s =
     (if s = [] then []
      else let cleaned = trim (stripWakeWord s) in if isFiller cleaned then [] else cleaned)"

definition updateConversationHistory :: "int \<Rightarrow> jstr \<Rightarrow> jstr \<Rightarrow> jstr \<Rightarrow> RoomContext \<Rightarrow> RoomContext" where
  "updateConversationHistory now userMessage botResponse userId ctx =
     (let h0 = filter (\<lambda>t. now - turn_timestamp t < CONVERSATION_EXPIRE_MS) (conversationHistory ctx);
          u = cleanForHistory userMessage;
          b = cleanForHistory botResponse;
          h1 = (if length u \<ge> 3
                then h0 @ [\<lparr>turn_role = UserRole, turn_content = u, turn_timestamp = now, turn_speaker = Some userId\<rparr>]
                else h0);
          h2 = (if length b \<ge> 3
                then h1 @ [\<lparr>turn_role = AssistantRole, turn_content = b, turn_timestamp = now, turn_speaker = None\<rparr>]
                else h1);
          h3 = (if length h2 > MAX_CONVERSATION_TURNS * 2 then lastN (MAX_CONVERSATION_TURNS * 2) h2 else h2)
      in ctx\<lparr>conversationHistory := h3\<rparr>)"

definition buildConversationContext :: "ConversationTurn list \<Rightarrow> jstr \<Rightarrow> jstr" where
  "buildConversationContext history current =
     concat (map (\<lambda>t. (if turn_role t = UserRole then [52280, 50668, 51088] else [50500, 50864,
       46972]) @ [58, 32] @ turn_content t @ [10])
               (lastN 5 history)) @ [52280, 50668, 51088, 58, 32] @ current"

section \<open>Screen captures\<close>

definition MAX_SCREEN_CAPTURES :: nat where "MAX_SCREEN_CAPTURES = 24"

text \<open>
  \<open>startProactiveAnalysis\<close> sets the eight-second interval; the analysis run itself is in the theory
  of the proactive service.
\<close>

definition startProactiveAnalysis :: "RoomContext \<Rightarrow> RoomContext" where
  "startProactiveAnalysis ctx =
     (if pa_enabled (proactiveAnalysis ctx) then ctx
      else ctx\<lparr>proactiveAnalysis := \<lparr>pa_enabled = True, lastAnalysisTime = 0, lastScreenTextHash = [],
             lastConversationHash = [], analysisTimer = True\<rparr>\<rparr>)"

definition addScreenContext :: "int \<Rightarrow> jstr \<Rightarrow> ScreenCapture \<Rightarrow> rooms \<Rightarrow> (bool \<times> jstr) \<times> rooms" where
  "addScreenContext now r capture st = (case jget st r of
      None \<Rightarrow> ((False, [48169, 51012, 32, 52286, 51012, 32, 49688, 32, 50630, 49845, 45768,
        45796]), st)
    | Some ctx \<Rightarrow>
        (let h = screenContextHistory ctx;
             h1 = (if length h \<ge> MAX_SCREEN_CAPTURES then tl h else h) @ [capture];
             c1 = ctx\<lparr>screenContextHistory := h1, screenUnderstandingMode := True,
                      screenContextStartTime := (if screenContextStartTime ctx = 0 then now else screenContextStartTime ctx)\<rparr>;
             c2 = (if pa_enabled (proactiveAnalysis c1) then c1 else startProactiveAnalysis c1)
         in ((True, [54868, 47732, 32, 52968, 53581, 49828, 53944, 32, 52628, 44032, 46120]), jset r c2 st)))"

definition hasScreenContext :: "jstr \<Rightarrow> rooms \<Rightarrow> bool" where
  "hasScreenContext r st = (case jget st r of None \<Rightarrow> False | Some ctx \<Rightarrow> screenContextHistory ctx \<noteq> [])"

definition getScreenContextStatus :: "jstr \<Rightarrow> rooms \<Rightarrow> bool \<times> nat \<times> nat" where
  "getScreenContextStatus r st = (case jget st r of
      None \<Rightarrow> (False, 0, 0)
    | Some ctx \<Rightarrow> (screenUnderstandingMode ctx, length (screenContextHistory ctx),
        sum_list (map (\<lambda>c. length (extractedText c)) (screenContextHistory ctx))))"

text \<open>\<open>clock\<close> is the Korean time of day of a timestamp.\<close>

definition captureText :: "(int \<Rightarrow> jstr) \<Rightarrow> ScreenCapture \<Rightarrow> jstr" where
  "captureText clock c = [45, 45, 45, 32, 91, 52897, 52376, 32] @ jint (captureIndex c + 1) @ [93,
    32] @ clock (sc_timestamp c) @ [32, 45, 45, 45, 10] @
     (if trim (extractedText c) = [] then [40, 53581, 49828, 53944, 32, 50630, 51020,
       41] else trim (extractedText c)) @ [10, 10]"

definition buildScreenContextPrompt :: "(int \<Rightarrow> jstr) \<Rightarrow> int \<Rightarrow> jstr \<Rightarrow> rooms \<Rightarrow> jstr" where
  "buildScreenContextPrompt clock now r st = (case jget st r of
      None \<Rightarrow> []
    | Some ctx \<Rightarrow>
        if screenContextHistory ctx = [] then []
        else
          let duration = (if screenContextStartTime ctx = 0 then 0
                else js_round (of_int (now - screenContextStartTime ctx) / 1000))
          in [10] @ [91, 54868, 47732, 32, 52968, 53581, 49828, 53944, 32, 45,
            32] @ jint (int (length (screenContextHistory ctx))) @ [54924, 32, 52897, 52376, 44, 32] @
             jint duration @ [52488, 44036, 32, 49688, 51665, 93, 10] @
             [49324, 50857, 51088, 44032, 32, 44277, 50976, 54620, 32, 54868, 47732, 50640, 49436, 32,
               52628, 52636, 54620, 32, 53581, 49828, 53944, 51077, 45768, 45796, 46, 32, 51656, 47928,
               50640, 32, 45813, 54624, 32, 46412, 32, 51060, 32, 51221, 48372, 47484, 32, 52280,
               44256, 54616, 49464, 50836, 46, 10, 10] @
             concat (map (captureText clock) (screenContextHistory ctx)))"

section \<open>Diagram contexts\<close>

definition diagramTypes :: "DiagramType list" where
  "diagramTypes = [flowchart, sequence, erd, architecture]"

fun DIAGRAM_KEYWORDS :: "DiagramType \<Rightarrow> jstr list" where
  "DIAGRAM_KEYWORDS flowchart =
     [[47676, 51200], [44536, 32, 45796, 51020], [44536, 47532, 44256], [47560, 51648, 47561, 51004,
       47196], [52572, 51333, 51201, 51004, 47196], [52395, 32, 48264, 51704], [46160, 32, 48264,
       51704], [49464, 32, 48264, 51704], [47564, 50557], [126, 54616, 47732], [126, 54624, 32, 44221,
       50864], [50500, 45768, 47732], [44536, 47111, 51648, 32, 50506, 51004, 47732], [48152, 48373],
       [44228, 49549], [126, 54624, 32, 46412, 44620, 51648], [45800, 44228], [44284, 51221], [51208,
       52264], [49692, 49436], [55120, 47492], [50892, 53356, 54540, 47196, 50864], [49884, 51089],
       [51333, 47308], [52376, 47532], [44160, 51613], [54869, 51064], [51200, 51109], [51204, 49569]]"
| "DIAGRAM_KEYWORDS sequence =
     [[65, 80, 73], [54840, 52636], [50836, 52397], [51025, 45813], [114, 101, 113, 117, 101, 115,
       116], [114, 101, 115, 112, 111, 110, 115, 101], [54532, 47200, 53944, 50644, 46300], [48177,
       50644, 46300], [49436, 48260], [53364, 46972, 51060, 50616, 53944], [45936, 51060, 53552, 48288,
       51060, 49828], [51204, 49569], [49688, 49888], [48152, 54872], [47532, 53556], [53084, 48177],
       [99, 97, 108, 108, 98, 97, 99, 107], [45796, 51020], [44536, 32, 54980], [51060, 54980], [50756,
       47308, 46104, 47732], [49457, 44277, 54616, 47732], [49892, 54056, 54616, 47732], [71, 69, 84],
       [80, 79, 83, 84], [80, 85, 84], [68, 69, 76, 69, 84, 69], [80, 65, 84, 67, 72]]"
| "DIAGRAM_KEYWORDS erd =
     [[53580, 51060, 48660], [50644, 54000, 54000], [101, 110, 116, 105, 116, 121], [116, 97, 98, 108,
       101], [44288, 44228], [52280, 51312], [50808, 47000, 53412], [102, 111, 114, 101, 105, 103, 110,
       32, 107, 101, 121], [51068, 45824, 45796], [45796, 45824, 45796], [51068, 45824, 51068], [54596,
       46300], [52972, 47100], [99, 111, 108, 117, 109, 110], [49549, 49457], [97, 116, 116, 114, 105,
       98, 117, 116, 101], [45936, 51060, 53552], [47784, 45944], [109, 111, 100, 101, 108], [49828,
       53412, 47560], [115, 99, 104, 101, 109, 97], [51200, 51109], [51312, 54924], [49688, 51221],
       [49325, 51228], [49373, 49457]]"
| "DIAGRAM_KEYWORDS architecture =
     [[50500, 53412, 53581, 52376], [44396, 51312], [49444, 44228], [49884, 49828, 53596], [52980,
       54252, 45324, 53944], [47784, 46280], [49436, 48708, 49828], [47112, 51060, 50612], [108, 97,
       121, 101, 114], [47560, 51060, 53356, 47196, 49436, 48708, 49828], [47784, 45440, 47532, 49885],
       [77, 86, 67], [77, 86, 80], [77, 86, 86, 77], [49436, 48260], [53364, 46972, 50864, 46300], [65,
       87, 83], [71, 67, 80], [65, 122, 117, 114, 101], [52968, 53580, 51060, 45320], [46020, 52964],
       [50672, 46041], [53685, 54633], [51064, 53552, 54168, 51060, 49828], [44172, 51060, 53944,
       50920, 51060]]"

definition matchedKeywordsOf :: "jstr \<Rightarrow> DiagramType \<Rightarrow> jstr list" where
  "matchedKeywordsOf s ty = filter (\<lambda>k. str_includes (to_lower k) (to_lower s)) (DIAGRAM_KEYWORDS ty)"

definition detectDiagramKeywords :: "jstr \<Rightarrow> (DiagramType \<times> jstr list) list" where
  "detectDiagramKeywords s =
     filter (\<lambda>(ty, ks). ks \<noteq> []) (map (\<lambda>ty. (ty, matchedKeywordsOf s ty)) diagramTypes)"

text \<open>\<open>Array.from(new Set(xs))\<close>: the first occurrence of every element.\<close>

definition uniq :: "'a list \<Rightarrow> 'a list" where
  "uniq xs = rev (remdups (rev xs))"

definition addStatement :: "int \<Rightarrow> jstr \<Rightarrow> jstr \<Rightarrow> jstr list \<Rightarrow> DiagramContext \<Rightarrow> DiagramContext" where
  "addStatement now s speaker ks d =
     d\<lparr>statements := statements d @ [\<lparr>ds_speaker = speaker, ds_text = s, ds_keywords = ks, ds_timestamp = now\<rparr>],
       dc_keywords := uniq (dc_keywords d @ ks), dc_lastUpdated := now\<rparr>"

definition updateDiagramContexts :: "int \<Rightarrow> jstr \<Rightarrow> jstr \<Rightarrow> jstr \<Rightarrow> rooms \<Rightarrow> rooms" where
  "updateDiagramContexts now r s speaker st = (case jget st r of
      None \<Rightarrow> st
    | Some ctx \<Rightarrow> jset r (ctx\<lparr>diagramContexts :=
        fold (\<lambda>(ty, ks) d. d(ty := addStatement now s speaker ks (d ty))) (detectDiagramKeywords s)
          (diagramContexts ctx)\<rparr>) st)"

definition getDiagramContexts :: "jstr \<Rightarrow> rooms \<Rightarrow> (DiagramType \<Rightarrow> DiagramContext) option" where
  "getDiagramContexts r st = map_option diagramContexts (jget st r)"

record DiagramSummary =
  hasContent :: bool
  sum_keywords :: "jstr list"
  statementCount :: nat
  sum_lastUpdated :: int

definition getDiagramContextsSummary :: "jstr \<Rightarrow> rooms \<Rightarrow> (DiagramType \<times> DiagramSummary) list option" where
  "getDiagramContextsSummary r st = map_option (\<lambda>cs. map (\<lambda>ty.
       (ty, \<lparr>hasContent = (statements (cs ty) \<noteq> []), sum_keywords = take 10 (dc_keywords (cs ty)),
             statementCount = length (statements (cs ty)), sum_lastUpdated = dc_lastUpdated (cs ty)\<rparr>))
       diagramTypes) (getDiagramContexts r st)"

definition buildFocusedTranscript :: "jstr \<Rightarrow> DiagramType \<Rightarrow> rooms \<Rightarrow> jstr option" where
  "buildFocusedTranscript r ty st = (case getDiagramContexts r st of
      None \<Rightarrow> None
    | Some cs \<Rightarrow>
        if statements (cs ty) = [] then None
        else Some (join [10] (map (\<lambda>s. [91] @ ds_speaker s @ [93, 32] @ ds_text s @ [32, 40,
          53412, 50892, 46300, 58, 32] @
               join [44, 32] (ds_keywords s) @ [41]) (sort_key ds_timestamp (statements (cs ty))))))"

section \<open>Previous meeting\<close>

definition setPreviousMeetingContext :: "jstr \<Rightarrow> PreviousMeeting \<Rightarrow> rooms \<Rightarrow> bool \<times> rooms" where
  "setPreviousMeetingContext r pm st = (case jget st r of
      None \<Rightarrow> (False, st)
    | Some ctx \<Rightarrow> (True, jset r (ctx\<lparr>previousMeetingContext := Some pm\<rparr>) st))"

definition getPreviousMeetingContext :: "jstr \<Rightarrow> rooms \<Rightarrow> PreviousMeeting option" where
  "getPreviousMeetingContext r st = Option.bind (jget st r) previousMeetingContext"

fun numbered :: "int \<Rightarrow> jstr list \<Rightarrow> jstr" where
  "numbered i [] = []"
| "numbered i (x # xs) = jint i @ [46, 32] @ x @ [10] @ numbered (i + 1) xs"

definition formatPreviousMeetingBriefing :: "jstr \<Rightarrow> rooms \<Rightarrow> jstr" where
  "formatPreviousMeetingBriefing r st = (case getPreviousMeetingContext r st of
      None \<Rightarrow> [51060, 51204, 32, 54924, 51032, 32, 51221, 48372, 44032, 32, 50630, 49845,
        45768, 45796, 46]
    | Some c \<Rightarrow>
        [51648, 45212, 32] @ pm_date c @ [50640, 32, 51652, 54665, 54620, 32,
          34] @ meetingTitle c @ [34, 32, 54924, 51032, 32, 45236, 50857, 51012, 32, 48652, 47532,
          54609, 32, 46300, 47532, 44192, 49845, 45768, 45796, 46, 10, 10] @
        pm_summary c @ [10, 10] @
        (if keyDecisions c \<noteq> [] then [51452, 50836, 32, 44208, 51221, 49324, 54637, 58,
          10] @ numbered 1 (keyDecisions c) @ [10] else []) @
        (if actionItems c \<noteq> [] then [50529, 49496, 32, 50500, 51060, 53596, 58,
          10] @ numbered 1 (actionItems c) else []))"

section \<open>Speaking statistics\<close>

definition updateParticipantSpeakingStats :: "int \<Rightarrow> jstr \<Rightarrow> jstr \<Rightarrow> int \<Rightarrow> RoomContext \<Rightarrow> RoomContext" where
  "updateParticipantSpeakingStats now pid name dur ctx =
     ctx\<lparr>participantSpeakingStats :=
       (case jget (participantSpeakingStats ctx) pid of
          Some x \<Rightarrow> jset pid (x\<lparr>speakingDurationMs := speakingDurationMs x + dur,
              speakingCount := speakingCount x + 1, lastSpokenAt := now\<rparr>) (participantSpeakingStats ctx)
        | None \<Rightarrow> jset pid \<lparr>ps_participantId = pid, ps_participantName = name, speakingDurationMs = dur,
              speakingCount = 1, lastSpokenAt = now\<rparr> (participantSpeakingStats ctx))\<rparr>"

section \<open>Lifecycle\<close>

definition isActive :: "jstr \<Rightarrow> rooms \<Rightarrow> bool" where
  "isActive r st = jhas st r"

definition getActiveRoomIds :: "rooms \<Rightarrow> jstr list" where
  "getActiveRoomIds st = jkeys st"

text \<open>One run of the five-second checker of the armed timeout.\<close>

definition armedTimeoutCheck :: "int \<Rightarrow> RoomContext \<Rightarrow> RoomContext" where
  "armedTimeoutCheck now ctx =
     (if botState ctx = ARMED \<and> now - lastInteractionTime ctx > ARMED_TIMEOUT_MS
      then ctx\<lparr>botState := SLEEP, activeUserId := None\<rparr> else ctx)"

definition enterStandbyMode :: "jstr \<Rightarrow> rooms \<Rightarrow> rooms" where
  "enterStandbyMode r st = (case jget st r of
      None \<Rightarrow> st
    | Some ctx \<Rightarrow>
        if standbyMode ctx then st
        else jset r (ctx\<lparr>standbyMode := True, statsUpdateInterval := False,
               proactiveAnalysis := (proactiveAnalysis ctx)\<lparr>analysisTimer := False\<rparr>, botState := SLEEP\<rparr>) st)"

end
