(* ===== verification/Vad.thy ===== *)
theory Vad
  imports RoomState
begin

text \<open>
  Voice activity detection on one audio track, \<open>handleAudioTrack\<close> of
  \<open>src/livekit/voice-bot.service.ts\<close>: calibration to the background noise, the adaptive voice
  threshold, barge-in while the bot speaks, buffering of an utterance with its pre-buffer, and the
  hand-over of the utterance to speech recognition. One iteration of the frame loop runs without
  suspension, so it is one function of the time, the frame and the state; the variables of the loop
  are a record. Levels are JavaScript numbers: a real, an infinity or NaN, since the level of a
  frame of zeros is minus infinity. A frame is the list of its 16-bit samples, two bytes each.
\<close>

section \<open>JavaScript numbers\<close>

datatype num_js = NaN | NegInf | Fin real | PosInf

fun nadd :: "num_js \<Rightarrow> num_js \<Rightarrow> num_js" where
  "nadd (Fin x) (Fin y) = Fin (x + y)"
| "nadd (Fin x) b = b"
| "nadd a (Fin y) = a"
| "nadd NegInf NegInf = NegInf"
| "nadd PosInf PosInf = PosInf"
| "nadd a b = NaN"

text \<open>Multiplication with a positive constant.\<close>

fun nscale :: "real \<Rightarrow> num_js \<Rightarrow> num_js" where
  "nscale c (Fin x) = Fin (c * x)"
| "nscale c a = a"

fun nneg :: "num_js \<Rightarrow> num_js" where
  "nneg (Fin x) = Fin (- x)"
| "nneg NegInf = PosInf"
| "nneg PosInf = NegInf"
| "nneg NaN = NaN"

definition nsub :: "num_js \<Rightarrow> num_js \<Rightarrow> num_js" where
  "nsub a b = nadd a (nneg b)"

fun nabs :: "num_js \<Rightarrow> num_js" where
  "nabs (Fin x) = Fin \<bar>x\<bar>"
| "nabs NaN = NaN"
| "nabs a = PosInf"

text \<open>Comparisons with NaN are false.\<close>

fun nlt :: "num_js \<Rightarrow> num_js \<Rightarrow> bool" where
  "nlt (Fin x) (Fin y) = (x < y)"
| "nlt NegInf (Fin y) = True"
| "nlt NegInf PosInf = True"
| "nlt (Fin x) PosInf = True"
| "nlt a b = False"

definition nmin :: "num_js \<Rightarrow> num_js \<Rightarrow> num_js" where
  "nmin a b = (if a = NaN \<or> b = NaN then NaN else if nlt b a then b else a)"

definition nmax :: "num_js \<Rightarrow> num_js \<Rightarrow> num_js" where
  "nmax a b = (if a = NaN \<or> b = NaN then NaN else if nlt a b then b else a)"

text \<open>\<open>32768 * Math.pow(10, x / 20)\<close>, the amplitude of a level.\<close>

fun amplitudeOf :: "num_js \<Rightarrow> num_js" where
  "amplitudeOf (Fin x) = Fin (32768 * 10 powr (x / 20))"
| "amplitudeOf NegInf = Fin 0"
| "amplitudeOf a = a"

section \<open>Level of a frame\<close>

definition decibelOf :: "int list \<Rightarrow> num_js" where
  "decibelOf samples =
     (if samples = [] then NaN
      else let rms = sqrt (of_int (sum_list (map (\<lambda>s. s * s) samples)) / of_nat (length samples))
           in if rms = 0 then NegInf else Fin (20 * log 10 (rms / 32768)))"

definition avgAmplitudeOf :: "int list \<Rightarrow> num_js" where
  "avgAmplitudeOf samples =
     (if samples = [] then NaN
      else Fin (of_int (sum_list (map abs samples)) / of_nat (length samples)))"

section \<open>The variables of the loop\<close>

definition CALIBRATION_DURATION :: int where "CALIBRATION_DURATION = 3000"
definition PRE_BUFFER_FRAMES :: nat where "PRE_BUFFER_FRAMES = 15"
definition SILENCE_THRESHOLD :: int where "SILENCE_THRESHOLD = 50"
definition MIN_AUDIO_LENGTH :: nat where "MIN_AUDIO_LENGTH = 16000"
definition MAX_AUDIO_LENGTH :: nat where "MAX_AUDIO_LENGTH = 192000"
definition MIN_VOICE_FRAMES :: int where "MIN_VOICE_FRAMES = 8"
definition BARGE_IN_DECIBEL_THRESHOLD :: num_js where "BARGE_IN_DECIBEL_THRESHOLD = Fin (- 20)"
definition STRONG_VOICE_THRESHOLD :: num_js where "STRONG_VOICE_THRESHOLD = Fin (- 24)"
definition STT_COOLDOWN_MS :: int where "STT_COOLDOWN_MS = 1200"
definition PUBLISHING_TIMEOUT_MS :: int where "PUBLISHING_TIMEOUT_MS = 60000"
definition BARGE_IN_GRACE_PERIOD_MS :: int where "BARGE_IN_GRACE_PERIOD_MS = 500"

record vad =
  isCalibrating :: bool
  calibrationSamples :: "num_js list"
  calibrationStartTime :: int
  audioBuffer :: "int list list"
  silenceCount :: int
  voiceCount :: int
  preBuffer :: "int list list"
  isRecording :: bool
  speechStartTime :: "int option"
  minDecibel :: num_js
  voiceAmplitude :: num_js
  backgroundNoiseDB :: num_js
  speakerVoiceDB :: num_js
  speakerSampleCount :: int

definition init_vad :: "int \<Rightarrow> vad" where
  "init_vad now = \<lparr>isCalibrating = True, calibrationSamples = [], calibrationStartTime = now,
     audioBuffer = [], silenceCount = 0, voiceCount = 0, preBuffer = [], isRecording = False,
     speechStartTime = None, minDecibel = Fin (- 45), voiceAmplitude = Fin 500,
     backgroundNoiseDB = Fin (- 60), speakerVoiceDB = Fin (- 30), speakerSampleCount = 0\<rparr>"

section \<open>The body of the loop\<close>

text \<open>Calibration; the result says whether the loop goes on to the next frame.\<close>

definition calibrate :: "int \<Rightarrow> num_js \<Rightarrow> vad \<Rightarrow> bool \<times> vad" where
  "calibrate now db v =
     (if \<not> isCalibrating v then (False, v)
      else if now - calibrationStartTime v < CALIBRATION_DURATION then
        (True, if nlt (Fin (- 90)) db \<and> nlt db (Fin 0)
               then v\<lparr>calibrationSamples := calibrationSamples v @ [db]\<rparr> else v)
      else
        (False,
         (if calibrationSamples v \<noteq> [] then
            let bg = nscale (1 / of_nat (length (calibrationSamples v))) (foldl nadd (Fin 0) (calibrationSamples v))
            in v\<lparr>backgroundNoiseDB := bg, minDecibel := nadd bg (Fin 10),
                 voiceAmplitude := nmax (Fin 300) (nmin (Fin 800) (nscale 3 (amplitudeOf bg)))\<rparr>
          else v)\<lparr>isCalibrating := False\<rparr>))"

definition updateNoise :: "num_js \<Rightarrow> vad \<Rightarrow> vad" where
  "updateNoise db v =
     (if \<not> isCalibrating v \<and> nlt db (nsub (minDecibel v) (Fin 5))
      then v\<lparr>backgroundNoiseDB := nadd (nscale (1 - 5 / 100) (backgroundNoiseDB v)) (nscale (5 / 100) db)\<rparr>
      else v)"

definition isVoice :: "num_js \<Rightarrow> num_js \<Rightarrow> vad \<Rightarrow> bool" where
  "isVoice db amp v \<longleftrightarrow> nlt (voiceAmplitude v) amp \<and> nlt (minDecibel v) db"

definition learnSpeaker :: "num_js \<Rightarrow> vad \<Rightarrow> vad" where
  "learnSpeaker db v =
     (let v1 = v\<lparr>speakerVoiceDB := nadd (nscale (1 - 15 / 100) (speakerVoiceDB v)) (nscale (15 / 100) db),
                 speakerSampleCount := speakerSampleCount v + 1\<rparr>
      in if speakerSampleCount v1 \<ge> 3 then
           (let optimal = nadd (backgroundNoiseDB v1)
                  (nscale (3 / 10) (nsub (speakerVoiceDB v1) (backgroundNoiseDB v1)))
            in if nlt (Fin 2) (nabs (nsub optimal (minDecibel v1)))
               then v1\<lparr>minDecibel := optimal,
                      voiceAmplitude := nmax (Fin 300) (nmin (Fin 800) (nscale (15 / 10) (amplitudeOf optimal)))\<rparr>
               else v1)
         else v1)"

definition publishingTimeout :: "int \<Rightarrow> RoomContext \<Rightarrow> RoomContext" where
  "publishingTimeout now c =
     (if isPublishing c \<and> publishingStartTime c > 0 \<and> now - publishingStartTime c > PUBLISHING_TIMEOUT_MS
      then c\<lparr>isPublishing := False, publishingStartTime := 0\<rparr> else c)"

text \<open>
  While the bot publishes audio the loop goes on to the next frame; when it speaks, after a grace
  period, a loud voice of the active user interrupts it.
\<close>

definition bargeIn :: "int \<Rightarrow> jstr \<Rightarrow> bool \<Rightarrow> num_js \<Rightarrow> int \<Rightarrow> RoomContext \<Rightarrow> RoomContext" where
  "bargeIn now user voice db vc c =
     (if botState c = SPEAKING \<and> now - speakingStartTime c \<ge> BARGE_IN_GRACE_PERIOD_MS \<and>
         voice \<and> vc \<ge> MIN_VOICE_FRAMES \<and> \<not> shouldInterrupt c \<and> nlt BARGE_IN_DECIBEL_THRESHOLD db \<and>
         (activeUserId c = None \<or> activeUserId c = Some user)
      then c\<lparr>shouldInterrupt := True\<rparr> else c)"

definition pushPre :: "int list \<Rightarrow> vad \<Rightarrow> vad" where
  "pushPre frame v =
     (let pb = preBuffer v @ [frame]
      in v\<lparr>preBuffer := (if length pb > PRE_BUFFER_FRAMES then tl pb else pb)\<rparr>)"

definition voiceFrame :: "int \<Rightarrow> int list \<Rightarrow> num_js \<Rightarrow> vad \<Rightarrow> vad" where
  "voiceFrame now frame db v =
     (let v1 = v\<lparr>voiceCount := voiceCount v + 1\<rparr>;
          v2 = (if nlt STRONG_VOICE_THRESHOLD db then v1\<lparr>silenceCount := 0\<rparr> else v1);
          v3 = (if \<not> isRecording v2 \<and> voiceCount v2 \<ge> 2
                then v2\<lparr>isRecording := True, speechStartTime := Some now,
                        audioBuffer := audioBuffer v2 @ preBuffer v2, preBuffer := []\<rparr>
                else v2)
      in v3\<lparr>audioBuffer := audioBuffer v3 @ [frame]\<rparr>)"

definition weakFrame :: "int list \<Rightarrow> vad \<Rightarrow> vad" where
  "weakFrame frame v =
     (let v1 = (if isRecording v then v\<lparr>audioBuffer := audioBuffer v @ [frame]\<rparr> else pushPre frame v)
      in v1\<lparr>silenceCount := silenceCount v1 + 1\<rparr>)"

definition silentFrame :: "int list \<Rightarrow> vad \<Rightarrow> vad" where
  "silentFrame frame v =
     (let v1 = (if isRecording v then v else pushPre frame v)
      in v1\<lparr>silenceCount := silenceCount v1 + 1, voiceCount := 0\<rparr>)"

definition bufferFrame :: "int \<Rightarrow> int list \<Rightarrow> num_js \<Rightarrow> num_js \<Rightarrow> bool \<Rightarrow> vad \<Rightarrow> vad" where
  "bufferFrame now frame db amp voice v =
     (if voice then voiceFrame now frame db v
      else if nlt (Fin 150) amp \<and> nlt (Fin (- 55)) db then weakFrame frame v
      else silentFrame frame v)"

definition totalLength :: "vad \<Rightarrow> nat" where
  "totalLength v = sum_list (map (\<lambda>f. 2 * length f) (audioBuffer v))"

definition shouldProcess :: "vad \<Rightarrow> bool" where
  "shouldProcess v \<longleftrightarrow>
     (silenceCount v > SILENCE_THRESHOLD \<and> totalLength v > MIN_AUDIO_LENGTH \<or> totalLength v > MAX_AUDIO_LENGTH) \<and>
     totalLength v > MIN_AUDIO_LENGTH"

definition resetUtterance :: "vad \<Rightarrow> vad" where
  "resetUtterance v = v\<lparr>audioBuffer := [], silenceCount := 0, voiceCount := 0, isRecording := False,
     speechStartTime := None, preBuffer := []\<rparr>"

text \<open>
  The end of an utterance: the request to \<open>processAndRespond\<close> (the audio and the start time), when
  it is loud enough and the user's cooldown is over. \<open>lvl\<close> measures the level of the whole utterance.
\<close>

definition endOfSpeech :: "(int list \<Rightarrow> num_js) \<Rightarrow> int \<Rightarrow> jstr \<Rightarrow> vad \<Rightarrow> RoomContext option \<Rightarrow>
    (vad \<times> RoomContext option) \<times> (int list \<times> int option) option" where
  "endOfSpeech lvl now user v ctx =
     (if \<not> shouldProcess v then ((v, ctx), None)
      else
        let full = concat (audioBuffer v); v1 = resetUtterance v
        in if \<not> nlt (nsub (minDecibel v) (Fin 5)) (lvl full) then ((v1, ctx), None)
           else (case ctx of
               None \<Rightarrow> ((v1, None), None)
             | Some c \<Rightarrow>
                 if now - (case jget (lastSttTimeByUser c) user of None \<Rightarrow> 0 | Some t \<Rightarrow> t) < STT_COOLDOWN_MS
                 then ((v1, ctx), None)
                 else ((v1, Some (c\<lparr>lastSttTimeByUser := jset user now (lastSttTimeByUser c)\<rparr>)),
                       Some (full, speechStartTime v))))"

text \<open>A frame with its measured level and amplitude.\<close>

record frame =
  fr_samples :: "int list"
  fr_decibel :: num_js
  fr_amplitude :: num_js

definition measured :: "int list \<Rightarrow> frame" where
  "measured samples = \<lparr>fr_samples = samples, fr_decibel = decibelOf samples, fr_amplitude = avgAmplitudeOf samples\<rparr>"

definition vadStep :: "(int list \<Rightarrow> num_js) \<Rightarrow> int \<Rightarrow> jstr \<Rightarrow> frame \<Rightarrow> vad \<times> RoomContext option \<Rightarrow>
    (vad \<times> RoomContext option) \<times> (int list \<times> int option) option" where
  "vadStep lvl now user f s =
     (let db = fr_decibel f; amp = fr_amplitude f;
          (skip, v1) = calibrate now db (fst s)
      in if skip then ((v1, snd s), None)
         else
           let v2 = updateNoise db v1;
               voice = isVoice db amp v2;
               v3 = (if \<not> isCalibrating v2 \<and> voice then learnSpeaker db v2 else v2);
               ctx = map_option (publishingTimeout now) (snd s)
           in (case ctx of
               Some c \<Rightarrow>
                 if isPublishing c then ((v3, Some (bargeIn now user voice db (voiceCount v3) c)), None)
                 else
                   let v4 = bufferFrame now (fr_samples f) db amp voice v3;
                       c1 = (if voice \<and> voiceCount v4 \<ge> MIN_VOICE_FRAMES then c\<lparr>lastInteractionTime := now\<rparr> else c)
                   in endOfSpeech lvl now user v4 (Some c1)
             | None \<Rightarrow> endOfSpeech lvl now user (bufferFrame now (fr_samples f) db amp voice v3) None))"

text \<open>The loop of the code measures every frame and every utterance from its samples.\<close>

definition handleFrame :: "int \<Rightarrow> jstr \<Rightarrow> int list \<Rightarrow> vad \<times> RoomContext option \<Rightarrow>
    (vad \<times> RoomContext option) \<times> (int list \<times> int option) option" where
  "handleFrame now user samples s = vadStep decibelOf now user (measured samples) s"

section \<open>Runs of the loop\<close>

text \<open>
  Other handlers of the server change the room context between two frames, so an event of a run
  carries the context it meets: a property of all runs holds whatever they do.
\<close>

type_synonym vad_event = "int \<times> frame \<times> RoomContext option"

fun vadRun :: "(int list \<Rightarrow> num_js) \<Rightarrow> jstr \<Rightarrow> vad_event list \<Rightarrow> vad \<Rightarrow> vad" where
  "vadRun lvl user [] v = v"
| "vadRun lvl user ((now, f, c) # es) v = vadRun lvl user es (fst (fst (vadStep lvl now user f (v, c))))"

fun dispatched :: "(int list \<Rightarrow> num_js) \<Rightarrow> jstr \<Rightarrow> vad_event list \<Rightarrow> vad \<Rightarrow> (int list \<times> int option) list" where
  "dispatched lvl user [] v = []"
| "dispatched lvl user ((now, f, c) # es) v =
     (let ((v1, _), d) = vadStep lvl now user f (v, c)
      in (case d of None \<Rightarrow> [] | Some x \<Rightarrow> [x]) @ dispatched lvl user es v1)"

text \<open>Buffers.\<close>

definition buffers_ok :: "nat \<Rightarrow> vad \<Rightarrow> bool" where
  "buffers_ok n v \<longleftrightarrow> totalLength v \<le> MAX_AUDIO_LENGTH \<and> length (preBuffer v) \<le> PRE_BUFFER_FRAMES \<and>
     (\<forall>f \<in> set (preBuffer v). length f \<le> n)"

lemmas buffer_simps [simp] = totalLength_def buffers_ok_def

lemma calibrate_buffers [simp]:
  "audioBuffer (snd (calibrate now db v)) = audioBuffer v" "preBuffer (snd (calibrate now db v)) = preBuffer v"
  "voiceCount (snd (calibrate now db v)) = voiceCount v" "isRecording (snd (calibrate now db v)) = isRecording v"
  by (simp_all add: calibrate_def Let_def)

lemma noise_buffers [simp]:
  "audioBuffer (updateNoise db v) = audioBuffer v" "preBuffer (updateNoise db v) = preBuffer v"
  "voiceCount (updateNoise db v) = voiceCount v" "isRecording (updateNoise db v) = isRecording v"
  "isCalibrating (updateNoise db v) = isCalibrating v"
  by (simp_all add: updateNoise_def)

lemma learn_buffers [simp]:
  "audioBuffer (learnSpeaker db v) = audioBuffer v" "preBuffer (learnSpeaker db v) = preBuffer v"
  "voiceCount (learnSpeaker db v) = voiceCount v" "isRecording (learnSpeaker db v) = isRecording v"
  "isCalibrating (learnSpeaker db v) = isCalibrating v"
  by (simp_all add: learnSpeaker_def Let_def)

lemma sum_bounded: "\<forall>f \<in> set xs. length f \<le> n \<Longrightarrow> sum_list (map (\<lambda>f. 2 * length f) xs) \<le> 2 * n * length xs"
  by (induction xs) auto

lemma in_set_tl: "x \<in> set (tl xs) \<Longrightarrow> x \<in> set xs"
  by (cases xs) auto

lemma pushPre_ok:
  assumes "length (preBuffer v) \<le> PRE_BUFFER_FRAMES" and "\<forall>f \<in> set (preBuffer v). length f \<le> n" and "length f \<le> n"
  shows "length (preBuffer (pushPre f v)) \<le> PRE_BUFFER_FRAMES \<and> (\<forall>g \<in> set (preBuffer (pushPre f v)). length g \<le> n)"
  using assms by (auto simp: pushPre_def Let_def dest!: in_set_tl)

lemma pushPre_audio [simp]: "audioBuffer (pushPre f v) = audioBuffer v"
  by (simp add: pushPre_def Let_def)

text \<open>A frame makes the utterance longer by at most itself and the pre-buffer.\<close>

lemma bufferFrame_ok:
  assumes "buffers_ok n v" and "length f \<le> n"
  shows "totalLength (bufferFrame now f db amp voice v) \<le> MAX_AUDIO_LENGTH + 32 * n \<and>
    length (preBuffer (bufferFrame now f db amp voice v)) \<le> PRE_BUFFER_FRAMES \<and>
    (\<forall>g \<in> set (preBuffer (bufferFrame now f db amp voice v)). length g \<le> n)"
proof -
  have "sum_list (map (\<lambda>f. 2 * length f) (preBuffer v)) \<le> 2 * n * length (preBuffer v)"
    using assms(1) by (intro sum_bounded) simp
  also have "\<dots> \<le> 30 * n" using assms(1) by (simp add: PRE_BUFFER_FRAMES_def)
  finally have "sum_list (map (\<lambda>f. 2 * length f) (preBuffer v)) \<le> 30 * n" .
  then show ?thesis
    using assms pushPre_ok [of v n f]
    by (simp add: bufferFrame_def voiceFrame_def weakFrame_def silentFrame_def Let_def)
qed

text \<open>The levels after a frame: calibration, noise and speaker learning; the buffers stay.\<close>

definition levelStep :: "int \<Rightarrow> frame \<Rightarrow> vad \<Rightarrow> vad" where
  "levelStep now f v =
     (let db = fr_decibel f; p = calibrate now db v; v2 = updateNoise db (snd p)
      in if fst p then snd p
         else if \<not> isCalibrating v2 \<and> isVoice db (fr_amplitude f) v2 then learnSpeaker db v2 else v2)"

lemma levelStep_buffers [simp]:
  "audioBuffer (levelStep now f v) = audioBuffer v" "preBuffer (levelStep now f v) = preBuffer v"
  "voiceCount (levelStep now f v) = voiceCount v" "isRecording (levelStep now f v) = isRecording v"
  by (simp_all add: levelStep_def Let_def)

definition voiced :: "int \<Rightarrow> frame \<Rightarrow> vad \<Rightarrow> bool" where
  "voiced now f v = isVoice (fr_decibel f) (fr_amplitude f) (updateNoise (fr_decibel f) (snd (calibrate now (fr_decibel f) v)))"

definition bufferedFrame :: "int \<Rightarrow> frame \<Rightarrow> vad \<Rightarrow> vad" where
  "bufferedFrame now f v =
     bufferFrame now (fr_samples f) (fr_decibel f) (fr_amplitude f) (voiced now f v) (levelStep now f v)"

lemma vadStep_eq:
  "vadStep lvl now user f (v, c) =
    (if fst (calibrate now (fr_decibel f) v) then ((levelStep now f v, c), None)
     else (case map_option (publishingTimeout now) c of
         Some c1 \<Rightarrow> if isPublishing c1
           then ((levelStep now f v, Some (bargeIn now user (voiced now f v) (fr_decibel f) (voiceCount v) c1)), None)
           else endOfSpeech lvl now user (bufferedFrame now f v)
             (Some (if voiced now f v \<and> MIN_VOICE_FRAMES \<le> voiceCount (bufferedFrame now f v)
                    then c1\<lparr>lastInteractionTime := now\<rparr> else c1))
       | None \<Rightarrow> endOfSpeech lvl now user (bufferedFrame now f v) None))"
proof (cases "fst (calibrate now (fr_decibel f) v)")
  case True
  then show ?thesis by (simp add: vadStep_def levelStep_def Let_def split_beta)
next
  case False
  define v3 where "v3 = levelStep now f v"
  have v3: "(if \<not> isCalibrating (updateNoise (fr_decibel f) (snd (calibrate now (fr_decibel f) v))) \<and> voiced now f v
      then learnSpeaker (fr_decibel f) (updateNoise (fr_decibel f) (snd (calibrate now (fr_decibel f) v)))
      else updateNoise (fr_decibel f) (snd (calibrate now (fr_decibel f) v))) = v3"
    using False by (simp add: v3_def levelStep_def voiced_def Let_def)
  have vc: "voiceCount v3 = voiceCount v" by (simp add: v3_def)
  show ?thesis
    unfolding vadStep_def Let_def split_beta fst_conv snd_conv voiced_def [symmetric] v3 vc bufferedFrame_def
      v3_def [symmetric]
    using False by (simp only: if_False)
qed

text \<open>
  A frame is either skipped (calibration, or the bot publishes) or buffered and then tested for the
  end of the utterance.
\<close>

lemma vadStep_cases:
  obtains (skipped) c' where "vadStep lvl now user f (v, c) = ((levelStep now f v, c'), None)"
    | (buffered) c3 where "vadStep lvl now user f (v, c) = endOfSpeech lvl now user (bufferedFrame now f v) c3"
proof (cases "fst (calibrate now (fr_decibel f) v)")
  case True
  then show thesis using skipped by (simp add: vadStep_eq)
next
  case False
  show thesis
  proof (cases "map_option (publishingTimeout now) c")
    case None
    with False show thesis using buffered [of None] by (simp add: vadStep_eq)
  next
    case (Some c1)
    then have "vadStep lvl now user f (v, c) =
        (if isPublishing c1
         then ((levelStep now f v, Some (bargeIn now user (voiced now f v) (fr_decibel f) (voiceCount v) c1)), None)
         else endOfSpeech lvl now user (bufferedFrame now f v)
           (Some (if voiced now f v \<and> MIN_VOICE_FRAMES \<le> voiceCount (bufferedFrame now f v)
                  then c1\<lparr>lastInteractionTime := now\<rparr> else c1)))"
      unfolding vadStep_eq Some using False by simp
    then show thesis using skipped buffered by (cases "isPublishing c1") simp_all
  qed
qed

lemma length_concat_sum: "2 * length (concat xs) = sum_list (map (\<lambda>f. 2 * length f) xs)"
  by (induction xs) auto

lemma endOfSpeech_ok:
  assumes "endOfSpeech lvl now user v c = ((v', c'), d)"
  shows "totalLength v' \<le> MAX_AUDIO_LENGTH \<and> preBuffer v' \<in> {preBuffer v, []} \<and>
    (\<forall>audio t. d = Some (audio, t) \<longrightarrow> MIN_AUDIO_LENGTH < 2 * length audio \<and> 2 * length audio = totalLength v)"
  using assms
  by (auto simp: endOfSpeech_def shouldProcess_def resetUtterance_def Let_def length_concat_sum [symmetric]
      MIN_AUDIO_LENGTH_def MAX_AUDIO_LENGTH_def split: if_splits option.splits)

lemma vadStep_ok:
  assumes "buffers_ok n v" and "length (fr_samples f) \<le> n" and "vadStep lvl now user f (v, c) = ((v', c'), d)"
  shows "buffers_ok n v' \<and>
    (\<forall>audio t. d = Some (audio, t) \<longrightarrow> MIN_AUDIO_LENGTH < 2 * length audio \<and> 2 * length audio \<le> MAX_AUDIO_LENGTH + 32 * n)"
proof (cases rule: vadStep_cases [of lvl now user f v c])
  case (skipped c1)
  then show ?thesis using assms by auto
next
  case (buffered c3)
  have "buffers_ok n (levelStep now f v)" using assms(1) by simp
  from bufferFrame_ok [OF this assms(2), of now "fr_decibel f" "fr_amplitude f" "voiced now f v"]
    endOfSpeech_ok [of lvl now user "bufferedFrame now f v" c3 v' c' d] buffered(1) assms(3)
  show ?thesis by (auto simp: bufferedFrame_def simp del: totalLength_def)
qed

lemma dispatched_ok:
  assumes "buffers_ok n v" and "\<forall>(now, f, c) \<in> set es. length (fr_samples f) \<le> n"
    and "(audio, t) \<in> set (dispatched lvl user es v)"
  shows "MIN_AUDIO_LENGTH < 2 * length audio \<and> 2 * length audio \<le> MAX_AUDIO_LENGTH + 32 * n"
  using assms
proof (induction es arbitrary: v)
  case (Cons e es)
  obtain now f c where e: "e = (now, f, c)" by (cases e)
  obtain v1 c1 d where st: "vadStep lvl now user f (v, c) = ((v1, c1), d)" by (metis surj_pair)
  have ok: "buffers_ok n v1 \<and>
    (\<forall>audio t. d = Some (audio, t) \<longrightarrow> MIN_AUDIO_LENGTH < 2 * length audio \<and> 2 * length audio \<le> MAX_AUDIO_LENGTH + 32 * n)"
    using Cons.prems(1,2) e by (intro vadStep_ok [OF _ _ st]) auto
  from Cons.prems(3) e st consider "d = Some (audio, t)" | "(audio, t) \<in> set (dispatched lvl user es v1)"
    by (auto split: option.splits)
  then show ?case
  proof cases
    case 1
    then show ?thesis using ok by blast
  next
    case 2
    then show ?thesis using ok Cons.prems(2) by (intro Cons.IH [of v1]) auto
  qed
qed simp

section \<open>Levels\<close>

text \<open>
  The thresholds stay finite; the noise estimate is finite or, after a frame of zeros, minus
  infinity, and then the optimal threshold is not a number and the threshold stays.
\<close>

definition levels_ok :: "vad \<Rightarrow> bool" where
  "levels_ok v \<longleftrightarrow> (\<forall>x \<in> set (calibrationSamples v). \<exists>r. x = Fin r) \<and> (\<exists>m. minDecibel v = Fin m) \<and>
     (\<exists>r. speakerVoiceDB v = Fin r) \<and> (backgroundNoiseDB v = NegInf \<or> (\<exists>r. backgroundNoiseDB v = Fin r))"

lemma nadd_NaN [simp]: "nadd NaN x = NaN"
  by (cases x) auto

lemma nlt_FinD: "nlt (Fin m) x \<Longrightarrow> x \<noteq> PosInf \<Longrightarrow> \<exists>r. x = Fin r"
  by (cases x) auto

lemma foldl_nadd_Fin: "\<forall>x \<in> set xs. \<exists>r. x = Fin r \<Longrightarrow> \<exists>r. foldl nadd (Fin a) xs = Fin r"
proof (induction xs arbitrary: a)
  case (Cons x xs)
  then obtain r where "x = Fin r" by auto
  with Cons.prems Cons.IH [of "a + r"] show ?case by simp
qed simp

lemma levels_calibrate:
  assumes "levels_ok v" and "db \<noteq> PosInf"
  shows "levels_ok (snd (calibrate now db v))"
proof -
  obtain r where r: "foldl nadd (Fin 0) (calibrationSamples v) = Fin r"
    using assms(1) foldl_nadd_Fin [of "calibrationSamples v" 0] by (auto simp: levels_ok_def)
  have "nlt (Fin (- 90)) db \<Longrightarrow> \<exists>r. db = Fin r" using assms(2) nlt_FinD by blast
  with assms(1) r show ?thesis by (auto simp: levels_ok_def calibrate_def Let_def)
qed

lemma levels_noise: "levels_ok v \<Longrightarrow> db \<noteq> PosInf \<Longrightarrow> levels_ok (updateNoise db v)"
  by (cases db) (auto simp: levels_ok_def updateNoise_def nsub_def)

lemma levels_learn:
  assumes "levels_ok v" and "db \<noteq> PosInf" and "isVoice db amp v"
  shows "levels_ok (learnSpeaker db v)"
proof -
  obtain x where "db = Fin x" using assms nlt_FinD unfolding levels_ok_def isVoice_def by metis
  with assms(1) show ?thesis by (auto simp: levels_ok_def learnSpeaker_def nsub_def Let_def)
qed

lemma levelStep_ok: "levels_ok v \<Longrightarrow> fr_decibel f \<noteq> PosInf \<Longrightarrow> levels_ok (levelStep now f v)"
  by (auto simp: levelStep_def Let_def levels_calibrate levels_noise intro: levels_learn)

definition levelsOf :: "vad \<Rightarrow> bool \<times> num_js list \<times> num_js \<times> num_js \<times> num_js \<times> num_js" where
  "levelsOf v = (isCalibrating v, calibrationSamples v, minDecibel v, voiceAmplitude v, backgroundNoiseDB v, speakerVoiceDB v)"

lemma levels_buffer: "levelsOf (bufferFrame now f db amp voice v) = levelsOf v"
  by (simp add: levelsOf_def bufferFrame_def voiceFrame_def weakFrame_def silentFrame_def pushPre_def Let_def)

lemma levels_end: "levelsOf (fst (fst (endOfSpeech lvl now user v c))) = levelsOf v"
  by (simp add: levelsOf_def endOfSpeech_def resetUtterance_def Let_def split: option.splits)

lemma vadStep_levels: "levelsOf (fst (fst (vadStep lvl now user f (v, c)))) = levelsOf (levelStep now f v)"
  by (cases rule: vadStep_cases [of lvl now user f v c]) (simp_all add: levels_end bufferedFrame_def levels_buffer)

lemma levels_ok_cong: "levelsOf v = levelsOf w \<Longrightarrow> levels_ok v = levels_ok w"
  by (simp add: levelsOf_def levels_ok_def)

text \<open>Levels of frames and utterances are never plus infinity.\<close>

lemma decibelOf_bounded: "decibelOf xs \<noteq> PosInf"
  by (simp add: decibelOf_def Let_def)

abbreviation measured_events :: "vad_event list \<Rightarrow> bool" where
  "measured_events es \<equiv> \<forall>(now, f, c) \<in> set es. \<exists>xs. f = measured xs"

lemma vadRun_levels_ok:
  "levels_ok v \<Longrightarrow> measured_events es \<Longrightarrow> levels_ok (vadRun lvl user es v)"
proof (induction es arbitrary: v)
  case (Cons e es)
  obtain now f c where e: "e = (now, f, c)" by (cases e)
  have "fr_decibel f \<noteq> PosInf" using Cons.prems(2) e by (auto simp: measured_def decibelOf_bounded)
  then have "levels_ok (fst (fst (vadStep lvl now user f (v, c))))"
    using levels_ok_cong [OF vadStep_levels] levelStep_ok Cons.prems(1) by blast
  with Cons e show ?case by simp
qed simp

lemma levels_ok_init: "levels_ok (init_vad t0)"
  by (simp add: init_vad_def levels_ok_def)

definition frozen :: "num_js \<Rightarrow> num_js \<Rightarrow> vad \<Rightarrow> bool" where
  "frozen m a v \<longleftrightarrow> \<not> isCalibrating v \<and> backgroundNoiseDB v = NegInf \<and> levels_ok v \<and> minDecibel v = m \<and> voiceAmplitude v = a"

lemma frozen_noise: "frozen m a v \<Longrightarrow> db \<noteq> PosInf \<Longrightarrow> frozen m a (updateNoise db v)"
  using levels_noise [of v db] by (cases db) (auto simp: frozen_def updateNoise_def)

lemma frozen_learn:
  assumes "frozen m a v" and "db \<noteq> PosInf" and "isVoice db amp v"
  shows "frozen m a (learnSpeaker db v)"
proof -
  have l: "levels_ok (learnSpeaker db v)" using assms levels_learn by (simp add: frozen_def)
  obtain x y where "db = Fin x" "speakerVoiceDB v = Fin y"
    using assms nlt_FinD unfolding frozen_def levels_ok_def isVoice_def by metis
  with assms(1) l show ?thesis by (simp add: frozen_def learnSpeaker_def nsub_def Let_def)
qed

lemma frozen_step: "frozen m a v \<Longrightarrow> fr_decibel f \<noteq> PosInf \<Longrightarrow> frozen m a (levelStep now f v)"
  using frozen_learn frozen_noise
  by (auto simp: levelStep_def Let_def) (auto simp: calibrate_def frozen_def)

lemma frozen_cong: "levelsOf v = levelsOf w \<Longrightarrow> frozen m a v = frozen m a w"
  by (auto simp: levelsOf_def frozen_def levels_ok_def)

lemma frozen_run: "frozen m a v \<Longrightarrow> measured_events es \<Longrightarrow> frozen m a (vadRun lvl user es v)"
proof (induction es arbitrary: v)
  case (Cons e es)
  obtain now f c where e: "e = (now, f, c)" by (cases e)
  have "fr_decibel f \<noteq> PosInf" using Cons.prems(2) e by (auto simp: measured_def decibelOf_bounded)
  then have "frozen m a (fst (fst (vadStep lvl now user f (v, c))))"
    using frozen_cong [OF vadStep_levels] frozen_step Cons.prems(1) by blast
  with Cons e show ?case by simp
qed simp

lemma measured_zeros: "0 < n \<Longrightarrow> fr_decibel (measured (replicate n 0)) = NegInf"
  by (simp add: measured_def decibelOf_def Let_def sum_list_replicate)

lemma zeros_freeze:
  assumes "levels_ok v" and "\<not> isCalibrating v" and "0 < n"
  shows "frozen (minDecibel v) (voiceAmplitude v) (levelStep now (measured (replicate n 0)) v)"
proof -
  have "\<not> isVoice NegInf amp w" if "minDecibel w = Fin m" for amp w m by (simp add: isVoice_def that)
  with assms levels_noise [of v NegInf] show ?thesis
    by (auto simp: levelStep_def Let_def measured_zeros calibrate_def updateNoise_def frozen_def nsub_def levels_ok_def)
qed

section \<open>Barge-in\<close>

text \<open>The bot publishes audio at the given time, and the publishing timeout has not passed.\<close>

definition publishing_at :: "int \<Rightarrow> RoomContext \<Rightarrow> bool" where
  "publishing_at now c \<longleftrightarrow> isPublishing c \<and> (publishingStartTime c = 0 \<or> now - publishingStartTime c \<le> PUBLISHING_TIMEOUT_MS)"

lemma vadStep_publishing:
  assumes "publishing_at now c" and "voiceCount v < MIN_VOICE_FRAMES"
  shows "vadStep lvl now user f (v, Some c) = ((levelStep now f v, Some c), None)"
  using assms by (auto simp: vadStep_eq publishing_at_def publishingTimeout_def bargeIn_def)

lemma publishing_voiceCount:
  assumes "voiceCount v < MIN_VOICE_FRAMES" and "\<forall>(now, f, c) \<in> set es. \<exists>c0. c = Some c0 \<and> publishing_at now c0"
  shows "voiceCount (vadRun lvl user es v) = voiceCount v"
  using assms
proof (induction es arbitrary: v)
  case (Cons e es)
  obtain now f c where e: "e = (now, f, c)" by (cases e)
  with Cons.prems obtain c0 where "c = Some c0" "publishing_at now c0" by auto
  with e Cons show ?case by (simp add: vadStep_publishing)
qed simp

section \<open>Cooldown of speech recognition\<close>

text \<open>
  A frame of the user's track, after other handlers changed the context in whatever way, except
  that only this track writes the user's recognition times.
\<close>

definition recognise :: "(int list \<Rightarrow> num_js) \<Rightarrow> jstr \<Rightarrow> int \<Rightarrow> frame \<times> (RoomContext \<Rightarrow> RoomContext) \<Rightarrow>
    vad \<times> RoomContext option \<Rightarrow> (vad \<times> RoomContext option) \<times> bool" where
  "recognise lvl user now e s =
     (let ctx = map_option (\<lambda>c. (snd e c)\<lparr>lastSttTimeByUser := lastSttTimeByUser c\<rparr>) (snd s);
          (s1, d) = vadStep lvl now user (fst e) (fst s, ctx)
      in (s1, d \<noteq> None))"

definition lastRecognition :: "jstr \<Rightarrow> vad \<times> RoomContext option \<Rightarrow> int option" where
  "lastRecognition user s = Option.bind (snd s) (\<lambda>c. jget (lastSttTimeByUser c) user)"

lemma stt_endOfSpeech:
  assumes "endOfSpeech lvl now user v c = ((v', c'), d)"
  shows "if d = None then c' = c
    else \<exists>c0. c = Some c0 \<and> c' = Some (c0\<lparr>lastSttTimeByUser := jset user now (lastSttTimeByUser c0)\<rparr>) \<and>
      (\<forall>t. jget (lastSttTimeByUser c0) user = Some t \<longrightarrow> t + STT_COOLDOWN_MS \<le> now)"
  using assms by (auto simp: endOfSpeech_def Let_def split: if_splits option.splits)

lemma timeout_stt [simp]: "lastSttTimeByUser (publishingTimeout now c) = lastSttTimeByUser c"
  by (simp add: publishingTimeout_def)

lemma bargeIn_stt [simp]: "lastSttTimeByUser (bargeIn now user voice db vc c) = lastSttTimeByUser c"
  by (simp add: bargeIn_def)

lemma stt_vadStep:
  assumes "vadStep lvl now user f (v, c) = ((v', c'), d)"
  shows "if d = None then map_option lastSttTimeByUser c' = map_option lastSttTimeByUser c
    else \<exists>c0. c = Some c0 \<and> map_option lastSttTimeByUser c' = Some (jset user now (lastSttTimeByUser c0)) \<and>
      (\<forall>t. jget (lastSttTimeByUser c0) user = Some t \<longrightarrow> t + STT_COOLDOWN_MS \<le> now)"
proof (cases "fst (calibrate now (fr_decibel f) v)")
  case True
  then show ?thesis using assms by (auto simp: vadStep_eq)
next
  case False
  show ?thesis
  proof (cases c)
    case None
    then show ?thesis using False assms stt_endOfSpeech [of lvl now user "bufferedFrame now f v" None v' c' d]
      by (auto simp: vadStep_eq)
  next
    case (Some c0)
    define c1 where "c1 = publishingTimeout now c0"
    define c2 where "c2 = (if voiced now f v \<and> MIN_VOICE_FRAMES \<le> voiceCount (bufferedFrame now f v)
      then c1\<lparr>lastInteractionTime := now\<rparr> else c1)"
    have c2: "lastSttTimeByUser c2 = lastSttTimeByUser c0" "lastSttTimeByUser c1 = lastSttTimeByUser c0"
      by (simp_all add: c2_def c1_def)
    have "vadStep lvl now user f (v, c) =
        (if isPublishing c1
         then ((levelStep now f v, Some (bargeIn now user (voiced now f v) (fr_decibel f) (voiceCount v) c1)), None)
         else endOfSpeech lvl now user (bufferedFrame now f v) (Some c2))"
      unfolding vadStep_eq using False by (simp add: Some c1_def c2_def)
    then show ?thesis
      using assms Some c2 stt_endOfSpeech [of lvl now user "bufferedFrame now f v" "Some c2" v' c' d]
      by (cases "isPublishing c1"; cases d) auto
  qed
qed

interpretation stt: cooldown_gate "recognise lvl user" "lastRecognition user" STT_COOLDOWN_MS
  for lvl :: "int list \<Rightarrow> num_js" and user :: jstr
proof
  fix now t :: int and e :: "frame \<times> (RoomContext \<Rightarrow> RoomContext)" and s s' :: "vad \<times> RoomContext option"
  let ?ctx = "map_option (\<lambda>c. (snd e c)\<lparr>lastSttTimeByUser := lastSttTimeByUser c\<rparr>) (snd s)"
  obtain s1 d where "vadStep lvl now user (fst e) (fst s, ?ctx) = (s1, d)" by (rule prod.exhaust)
  moreover obtain v' c' where "s1 = (v', c')" by (rule prod.exhaust)
  ultimately have st: "vadStep lvl now user (fst e) (fst s, ?ctx) = ((v', c'), d)" by simp
  then have r: "recognise lvl user now e s = ((v', c'), d \<noteq> None)" by (simp add: recognise_def)
  have same: "map_option lastSttTimeByUser ?ctx = map_option lastSttTimeByUser (snd s)"
    by (cases "snd s") simp_all
  have last: "lastRecognition user s = Option.bind (map_option lastSttTimeByUser (snd s)) (\<lambda>m. jget m user)" for s
    by (cases "snd s") (simp_all add: lastRecognition_def)
  note step = stt_vadStep [OF st]
  show "recognise lvl user now e s = (s', True) \<Longrightarrow> lastRecognition user s' = Some now"
    using r step by (auto simp: last)
  show "recognise lvl user now e s = (s', True) \<Longrightarrow> lastRecognition user s = Some t \<Longrightarrow> t + STT_COOLDOWN_MS \<le> now"
    using r step by (cases "snd s") (auto simp: last)
  show "recognise lvl user now e s = (s', False) \<Longrightarrow> lastRecognition user s' = lastRecognition user s"
    using r step same by (cases d) (auto simp: last)
qed

section \<open>Properties\<close>

text \<open>
  C3. Bounds of an utterance: whatever the levels, the times and the other handlers of the room do,
  every piece of audio handed to speech recognition is longer than half a second (16000 bytes) and
  not longer than six seconds (192000 bytes) and sixteen frames, sixteen being the frame that ends it
  and a full pre-buffer.
\<close>

theorem utterance_bounds:
  assumes "\<forall>(now, f, c) \<in> set es. length (fr_samples f) \<le> n"
    and "(audio, start) \<in> set (dispatched lvl user es (init_vad t0))"
  shows "16000 < 2 * length audio \<and> 2 * length audio \<le> 192000 + 16 * (2 * n)"
proof -
  have "buffers_ok n (init_vad t0)" by (simp add: init_vad_def)
  from dispatched_ok [OF this assms] show ?thesis by (simp add: MIN_AUDIO_LENGTH_def MAX_AUDIO_LENGTH_def)
qed

definition demo_audio :: "int list" where
  "demo_audio = replicate 100000 1"

definition demo_events :: "vad_event list" where
  "demo_events = [(7000, \<lparr>fr_samples = demo_audio, fr_decibel = Fin 0, fr_amplitude = Fin 900\<rparr>, Some (newRoomContext 0 None))]"

lemma length_demo: "length demo_audio = 100000"
  by (simp only: demo_audio_def length_replicate)

lemma demo_dispatched: "dispatched (\<lambda>_. Fin 0) [7] demo_events (init_vad 0) = [(demo_audio, None)]"
  by (simp add: demo_events_def vadStep_eq calibrate_def updateNoise_def nsub_def isVoice_def voiced_def
      levelStep_def learnSpeaker_def init_vad_def CALIBRATION_DURATION_def publishingTimeout_def newRoomContext_def
      bufferedFrame_def bufferFrame_def voiceFrame_def endOfSpeech_def shouldProcess_def length_demo
      MAX_AUDIO_LENGTH_def MIN_AUDIO_LENGTH_def STT_COOLDOWN_MS_def Let_def)

theorem utterance_bounds_witness:
  "\<exists>audio start. (audio, start) \<in> set (dispatched (\<lambda>_. Fin 0) [7] demo_events (init_vad 0)) \<and>
     16000 < 2 * length audio \<and> 2 * length audio \<le> 192000 + 16 * (2 * 100000)"
proof -
  have "(demo_audio, None) \<in> set (dispatched (\<lambda>_. Fin 0) [7] demo_events (init_vad 0))"
    by (simp add: demo_dispatched)
  moreover from utterance_bounds [OF _ this, of 100000]
  have "16000 < 2 * length demo_audio \<and> 2 * length demo_audio \<le> 192000 + 16 * (2 * 100000)"
    by (simp add: demo_events_def length_demo)
  ultimately show ?thesis by blast
qed

text \<open>
  Recognitions of a user are at least 1.2 seconds apart, whatever frames arrive and whatever
  else happens to the room context in between.
\<close>

theorem recognitions_spaced: "spaced 1200 (stt.fire_times lvl user s evs)"
  using stt.firings_spaced [of lvl user s evs] by (simp add: STT_COOLDOWN_MS_def)

text \<open>
  A user who is silent when the bot begins to speak cannot interrupt it: as long as the bot
  publishes audio no frame counts as a voice frame, so a count below eight stays below eight, and no
  frame, however loud, sets the interrupt flag or changes the context at all.
\<close>

theorem barge_in_needs_earlier_voice:
  assumes "voiceCount v < 8" and "\<forall>(t, f, c) \<in> set es. \<exists>c0. c = Some c0 \<and> publishing_at t c0"
    and "publishing_at now c"
  shows "snd (fst (vadStep lvl now user f (vadRun lvl user es v, Some c))) = Some c"
proof -
  have v: "voiceCount v < MIN_VOICE_FRAMES" using assms(1) by (simp add: MIN_VOICE_FRAMES_def)
  then have "voiceCount (vadRun lvl user es v) < MIN_VOICE_FRAMES"
    using publishing_voiceCount [OF v assms(2)] by simp
  then show ?thesis using vadStep_publishing [OF assms(3)] by simp
qed

definition loud :: frame where
  "loud = \<lparr>fr_samples = [30000], fr_decibel = Fin (- 1), fr_amplitude = Fin 30000\<rparr>"

definition speaking_ctx :: RoomContext where
  "speaking_ctx = (newRoomContext 0 None)\<lparr>isPublishing := True, botState := SPEAKING\<rparr>"

theorem barge_in_needs_earlier_voice_witness:
  "snd (fst (vadStep decibelOf 9000 [7] loud
     (vadRun decibelOf [7] (replicate 20 (8000, loud, Some speaking_ctx)) (init_vad 0), Some speaking_ctx)))
   = Some speaking_ctx"
  by (rule barge_in_needs_earlier_voice) (simp_all add: init_vad_def speaking_ctx_def newRoomContext_def publishing_at_def)

text \<open>
  The pre-buffer comes after the first voice frame and not before it: the first frame of a
  voice goes into the empty utterance at once, and the frames that preceded it are added with the
  second one, so the audio handed to speech recognition has its first frame out of order.
\<close>

theorem pre_buffer_out_of_order:
  assumes "audioBuffer v = []" and "\<not> isRecording v" and "voiceCount v = 0"
  shows "audioBuffer (bufferFrame t2 f2 db2 amp2 True (bufferFrame t1 f1 db1 amp1 True v)) = [f1] @ preBuffer v @ [f2]"
  using assms by (simp add: bufferFrame_def voiceFrame_def Let_def)

theorem pre_buffer_out_of_order_witness:
  "audioBuffer (bufferFrame 5 [2] (Fin 0) (Fin 900) True (bufferFrame 4 [1] (Fin 0) (Fin 900) True
     (bufferFrame 3 [0] NegInf (Fin 0) False (init_vad 0)))) = [[1], [0], [2]]"
proof -
  have "audioBuffer (bufferFrame 3 [0] NegInf (Fin 0) False (init_vad 0)) = []"
    "\<not> isRecording (bufferFrame 3 [0] NegInf (Fin 0) False (init_vad 0))"
    "voiceCount (bufferFrame 3 [0] NegInf (Fin 0) False (init_vad 0)) = 0"
    "preBuffer (bufferFrame 3 [0] NegInf (Fin 0) False (init_vad 0)) = [[0]]"
    by (simp_all add: bufferFrame_def silentFrame_def pushPre_def init_vad_def Let_def PRE_BUFFER_FRAMES_def)
  with pre_buffer_out_of_order [of "bufferFrame 3 [0] NegInf (Fin 0) False (init_vad 0)"] show ?thesis by simp
qed

text \<open>
  Digital silence freezes the voice threshold: after calibration, one frame of zeros makes the
  noise estimate minus infinity, from then on the optimal threshold is not a number, and neither the
  voice threshold nor the amplitude threshold ever changes again, whatever the speakers do.
\<close>

theorem zeros_freeze_threshold:
  assumes "measured_events es" and "v = vadRun lvl user es (init_vad t0)" and "\<not> isCalibrating v" and "0 < n"
    and "w = fst (fst (handleFrame now user (replicate n 0) (v, c)))" and "measured_events es'"
  shows "minDecibel (vadRun lvl user es' w) = minDecibel v \<and> voiceAmplitude (vadRun lvl user es' w) = voiceAmplitude v"
proof -
  have "levels_ok v" using vadRun_levels_ok [OF levels_ok_init assms(1)] assms(2) by simp
  from zeros_freeze [OF this assms(3,4), of now] have "frozen (minDecibel v) (voiceAmplitude v) w"
    using frozen_cong [OF vadStep_levels] by (simp add: assms(5) handleFrame_def)
  from frozen_run [OF this assms(6)] show ?thesis by (simp add: frozen_def)
qed

theorem zeros_freeze_threshold_witness:
  "minDecibel (vadRun decibelOf [7] (replicate 9 (9000, measured [30000], None))
     (fst (fst (handleFrame 8000 [7] (replicate 480 0)
       (vadRun decibelOf [7] [(7000, measured [0], None)] (init_vad 0), None)))))
   = minDecibel (vadRun decibelOf [7] [(7000, measured [0], None)] (init_vad 0))"
proof -
  have "\<not> isCalibrating (vadRun decibelOf [7] [(7000, measured [0], None)] (init_vad 0))"
    using vadStep_levels [of decibelOf 7000 "[7]" "measured [0]" "init_vad 0" None]
    by (simp add: levelsOf_def levelStep_def calibrate_def init_vad_def CALIBRATION_DURATION_def Let_def)
  then show ?thesis
    by (intro zeros_freeze_threshold [THEN conjunct1, OF _ refl _ _ refl]) auto
qed

end
