(* ===== verification/Regex.thy ===== *)
theory Regex
  imports Prelude
begin

text \<open>
  Regular expressions as ECMAScript matches them, as far as the sources use them: classes, ordered
  alternatives, bounded and unbounded greedy or lazy repetition, groups, the anchors and word boundaries.
  \<open>ms\<close> computes the matches from a position in the order in which backtracking finds them; \<open>mt\<close> is the
  matching relation without an order, and the two agree. Patterns with the flag \<open>i\<close> are written with both
  cases of their ASCII letters. A group is never repeated more than once in the patterns, so captures
  need no reset. \<open>LineB\<close> and \<open>LineE\<close> are the anchors of a pattern with the flag \<open>m\<close>.
\<close>

section \<open>Expressions\<close>

datatype rx =
    Cls "(int \<times> int) list"
  | NCls "(int \<times> int) list"
  | Eps
  | Seq rx rx
  | Alt rx rx
  | Rep rx nat "nat option" bool
  | Cap nat rx
  | Bol
  | Eol
  | LineB
  | LineE
  | WordB

text \<open>
  A position in a text: what is before it, reversed, and what is after it; with it the captured groups.
\<close>

type_synonym rx_state = "jstr \<times> jstr \<times> (nat \<times> jstr) list"

definition in_ranges :: "int \<Rightarrow> (int \<times> int) list \<Rightarrow> bool" where
  "in_ranges c rs = list_ex (\<lambda>(a, b). a \<le> c \<and> c \<le> b) rs"

definition is_word :: "int \<Rightarrow> bool" where
  "is_word c \<longleftrightarrow> (48 \<le> c \<and> c \<le> 57) \<or> (65 \<le> c \<and> c \<le> 90) \<or> c = 95 \<or> (97 \<le> c \<and> c \<le> 122)"

definition word_end :: "jstr \<Rightarrow> bool" where
  "word_end s = (case s of [] \<Rightarrow> False | c # _ \<Rightarrow> is_word c)"

definition line_end :: "jstr \<Rightarrow> bool" where
  "line_end s = (case s of [] \<Rightarrow> True | c # _ \<Rightarrow> c \<in> {10, 13, 8232, 8233})"

fun behind :: "rx_state \<Rightarrow> jstr" where "behind (b, a, k) = b"

fun ahead :: "rx_state \<Rightarrow> jstr" where "ahead (b, a, k) = a"

text \<open>The text consumed between two positions, as a group captures it.\<close>

definition consumed :: "rx_state \<Rightarrow> rx_state \<Rightarrow> jstr" where
  "consumed x y = take (length (ahead x) - length (ahead y)) (ahead x)"

fun capture :: "nat \<Rightarrow> rx_state \<Rightarrow> rx_state \<Rightarrow> rx_state" where
  "capture n x (b, a, k) = (b, a, jset n (consumed x (b, a, k)) k)"

definition progress :: "rx_state \<Rightarrow> rx_state \<Rightarrow> bool" where
  "progress x y \<longleftrightarrow> length (ahead y) < length (ahead x)"

section \<open>Matching in order\<close>

text \<open>
  Repetition: \<open>m\<close> more iterations are required and \<open>mx\<close> are allowed; an iteration beyond the required ones must
  consume something. The fuel bounds the number of iterations.
\<close>

fun rep_matches :: "(rx_state \<Rightarrow> rx_state list) \<Rightarrow> nat \<Rightarrow> nat \<Rightarrow> nat option \<Rightarrow> bool \<Rightarrow> rx_state \<Rightarrow> rx_state list" where
  "rep_matches f 0 m mx g x = (if m = 0 then [x] else [])"
| "rep_matches f (Suc d) m mx g x =
     (let more = (if mx = Some 0 then []
                  else concat (map (rep_matches f d (m - 1) (map_option (\<lambda>n. n - 1) mx) g)
                         (filter (\<lambda>y. 0 < m \<or> progress x y) (f x))))
      in if 0 < m then more else if g then more @ [x] else x # more)"

fun ms :: "rx \<Rightarrow> rx_state \<Rightarrow> rx_state list" where
  "ms (Cls rs) (b, a, k) = (case a of [] \<Rightarrow> [] | c # a' \<Rightarrow> if in_ranges c rs then [(c # b, a', k)] else [])"
| "ms (NCls rs) (b, a, k) = (case a of [] \<Rightarrow> [] | c # a' \<Rightarrow> if in_ranges c rs then [] else [(c # b, a', k)])"
| "ms Eps x = [x]"
| "ms (Seq r1 r2) x = concat (map (ms r2) (ms r1 x))"
| "ms (Alt r1 r2) x = ms r1 x @ ms r2 x"
| "ms (Rep r m mx g) x = rep_matches (ms r) (m + length (ahead x)) m mx g x"
| "ms (Cap n r) x = map (capture n x) (ms r x)"
| "ms Bol (b, a, k) = (if b = [] then [(b, a, k)] else [])"
| "ms Eol (b, a, k) = (if a = [] then [(b, a, k)] else [])"
| "ms LineB (b, a, k) = (if line_end b then [(b, a, k)] else [])"
| "ms LineE (b, a, k) = (if line_end a then [(b, a, k)] else [])"
| "ms WordB (b, a, k) = (if word_end b \<noteq> word_end a then [(b, a, k)] else [])"

text \<open>\<open>r.exec(s)\<close>: the first match from the leftmost position that has one; \<open>r.test(s)\<close>.\<close>

fun exec_from :: "rx \<Rightarrow> jstr \<Rightarrow> jstr \<Rightarrow> rx_state option" where
  "exec_from r b [] = (case ms r (b, [], []) of [] \<Rightarrow> None | y # _ \<Rightarrow> Some y)"
| "exec_from r b (c # a) = (case ms r (b, c # a, []) of [] \<Rightarrow> exec_from r (c # b) a | y # _ \<Rightarrow> Some y)"

definition exec :: "rx \<Rightarrow> jstr \<Rightarrow> rx_state option" where
  "exec r s = exec_from r [] s"

definition test :: "rx \<Rightarrow> jstr \<Rightarrow> bool" where
  "test r s \<longleftrightarrow> exec r s \<noteq> None"

text \<open>\<open>s.replace(r, w)\<close> with the flag \<open>g\<close> and a replacement without dollar signs.\<close>

function replace_from :: "rx \<Rightarrow> jstr \<Rightarrow> jstr \<Rightarrow> jstr \<Rightarrow> jstr" where
  "replace_from r w b a = (case ms r (b, a, []) of
      [] \<Rightarrow> (case a of [] \<Rightarrow> [] | c # a' \<Rightarrow> c # replace_from r w (c # b) a')
    | y # _ \<Rightarrow>
        if length (ahead y) < length a then w @ replace_from r w (behind y) (ahead y)
        else w @ (case a of [] \<Rightarrow> [] | c # a' \<Rightarrow> c # replace_from r w (c # b) a'))"
  by pat_completeness auto
termination
  by (relation "measure (\<lambda>(r, w, b, a). length a)") auto

declare replace_from.simps [simp del]

definition replaceAll :: "rx \<Rightarrow> jstr \<Rightarrow> jstr \<Rightarrow> jstr" where
  "replaceAll r w s = replace_from r w [] s"

text \<open>Shorthands for the patterns.\<close>

definition seqs :: "rx list \<Rightarrow> rx" where
  "seqs rs = foldr Seq rs Eps"

definition alts :: "rx list \<Rightarrow> rx" where
  "alts rs = (case rs of [] \<Rightarrow> NCls [(0, 65535)] | r # rs' \<Rightarrow> foldl Alt r rs')"

definition lit :: "jstr \<Rightarrow> rx" where
  "lit s = seqs (map (\<lambda>c. Cls [(c, c)]) s)"

definition lits :: "jstr list \<Rightarrow> rx" where
  "lits ss = alts (map lit ss)"

definition opt :: "rx \<Rightarrow> rx" where "opt r = Rep r 0 (Some 1) True"

definition star :: "rx \<Rightarrow> rx" where "star r = Rep r 0 None True"

definition plus :: "rx \<Rightarrow> rx" where "plus r = Rep r 1 None True"

definition spaces :: "(int \<times> int) list" where
  "spaces = [(9, 13), (32, 32), (160, 160), (5760, 5760), (8192, 8202), (8232, 8233), (8239, 8239), (8287, 8287),
     (12288, 12288), (65279, 65279)]"

definition space :: rx where "space = Cls spaces"

definition digit :: rx where "digit = Cls [(48, 57)]"

definition dot :: rx where "dot = NCls [(10, 10), (13, 13), (8232, 8233)]"

definition upto :: "nat \<Rightarrow> rx" where "upto n = Rep dot 0 (Some n) True"

text \<open>\<open>s.split(/\s+/)\<close>.\<close>

function split_ws :: "jstr \<Rightarrow> jstr \<Rightarrow> jstr list" where
  "split_ws cur [] = [rev cur]"
| "split_ws cur (c # s) = (if is_space c then rev cur # split_ws [] (dropWhile is_space s) else split_ws (c # cur) s)"
  by pat_completeness auto
termination
  by (relation "measure (\<lambda>(cur, s). length s)") (auto simp: le_imp_less_Suc length_dropWhile_le)

section \<open>The matching relation\<close>

inductive mt :: "rx \<Rightarrow> rx_state \<Rightarrow> rx_state \<Rightarrow> bool" and rep_mt :: "rx \<Rightarrow> nat \<Rightarrow> nat option \<Rightarrow> rx_state \<Rightarrow> rx_state \<Rightarrow> bool" where
  mt_Cls: "in_ranges c rs \<Longrightarrow> mt (Cls rs) (b, c # a, k) (c # b, a, k)"
| mt_NCls: "\<not> in_ranges c rs \<Longrightarrow> mt (NCls rs) (b, c # a, k) (c # b, a, k)"
| mt_Eps: "mt Eps x x"
| mt_Seq: "mt r1 x y \<Longrightarrow> mt r2 y z \<Longrightarrow> mt (Seq r1 r2) x z"
| mt_AltL: "mt r1 x y \<Longrightarrow> mt (Alt r1 r2) x y"
| mt_AltR: "mt r2 x y \<Longrightarrow> mt (Alt r1 r2) x y"
| mt_Rep: "rep_mt r m mx x y \<Longrightarrow> mt (Rep r m mx g) x y"
| mt_Cap: "mt r x y \<Longrightarrow> mt (Cap n r) x (capture n x y)"
| mt_Bol: "mt Bol ([], a, k) ([], a, k)"
| mt_Eol: "mt Eol (b, [], k) (b, [], k)"
| mt_LineB: "line_end b \<Longrightarrow> mt LineB (b, a, k) (b, a, k)"
| mt_LineE: "line_end a \<Longrightarrow> mt LineE (b, a, k) (b, a, k)"
| mt_WordB: "word_end b \<noteq> word_end a \<Longrightarrow> mt WordB (b, a, k) (b, a, k)"
| rep_stop: "rep_mt r 0 mx x x"
| rep_must: "0 < m \<Longrightarrow> mx \<noteq> Some 0 \<Longrightarrow> mt r x y \<Longrightarrow> rep_mt r (m - 1) (map_option (\<lambda>n. n - 1) mx) y z \<Longrightarrow> rep_mt r m mx x z"
| rep_may: "mx \<noteq> Some 0 \<Longrightarrow> mt r x y \<Longrightarrow> progress x y \<Longrightarrow> rep_mt r 0 (map_option (\<lambda>n. n - 1) mx) y z \<Longrightarrow> rep_mt r 0 mx x z"

inductive_cases mt_ClsE: "mt (Cls rs) x y"
inductive_cases mt_NClsE: "mt (NCls rs) x y"
inductive_cases mt_EpsE: "mt Eps x y"
inductive_cases mt_SeqE: "mt (Seq r1 r2) x y"
inductive_cases mt_AltE: "mt (Alt r1 r2) x y"
inductive_cases mt_RepE: "mt (Rep r m mx g) x y"
inductive_cases mt_CapE: "mt (Cap n r) x y"
inductive_cases mt_BolE: "mt Bol x y"
inductive_cases mt_EolE: "mt Eol x y"
inductive_cases mt_LineBE: "mt LineB x y"
inductive_cases mt_LineEE: "mt LineE x y"
inductive_cases mt_WordBE: "mt WordB x y"

text \<open>Positions only move forward.\<close>

lemma after_capture [simp]: "ahead (capture n x y) = ahead y" "behind (capture n x y) = behind y"
  by (cases y; simp)+

lemma rep_forward:
  assumes "\<And>x y. y \<in> set (f x) \<Longrightarrow> length (ahead y) \<le> length (ahead x)"
  shows "z \<in> set (rep_matches f d m mx g x) \<Longrightarrow> length (ahead z) \<le> length (ahead x)"
proof (induction d arbitrary: m mx x)
  case 0
  then show ?case by (simp split: if_splits)
next
  case (Suc d)
  show ?case
  proof (cases "z = x")
    case False
    then obtain y where "y \<in> set (f x)" "z \<in> set (rep_matches f d (m - 1) (map_option (\<lambda>n. n - 1) mx) g y)"
      using Suc.prems by (auto simp: Let_def split: if_splits)
    with Suc.IH assms order_trans show ?thesis by blast
  qed simp
qed

lemma ms_forward: "y \<in> set (ms r x) \<Longrightarrow> length (ahead y) \<le> length (ahead x)"
proof (induction r arbitrary: x y)
  case (Seq r1 r2)
  then obtain z where "z \<in> set (ms r1 x)" "y \<in> set (ms r2 z)" by auto
  with Seq.IH order_trans show ?case by blast
next
  case (Rep r m mx g)
  then show ?case using rep_forward [of "ms r" y "m + length (ahead x)" m mx g x] by simp
next
  case (Cap n r)
  then obtain z where "z \<in> set (ms r x)" "y = capture n x z" by auto
  with Cap.IH show ?case by simp
next
  case (Alt r1 r2)
  then have "y \<in> set (ms r1 x) \<or> y \<in> set (ms r2 x)" by simp
  with Alt.IH show ?case by blast
qed (cases x; auto split: list.splits if_splits)+

lemma rep_sound:
  assumes "\<And>x y. y \<in> set (f x) \<Longrightarrow> mt r x y" and "z \<in> set (rep_matches f d m mx g x)"
  shows "rep_mt r m mx x z"
  using assms(2)
proof (induction d arbitrary: m mx x)
  case 0
  then show ?case by (auto split: if_splits intro: rep_stop)
next
  case (Suc d)
  show ?case
  proof (cases "z = x \<and> m = 0")
    case True
    then show ?thesis by (auto intro: rep_stop)
  next
    case False
    then obtain y where y: "mx \<noteq> Some 0" "y \<in> set (f x)" "0 < m \<or> progress x y"
        "z \<in> set (rep_matches f d (m - 1) (map_option (\<lambda>n. n - 1) mx) g y)"
      using Suc.prems by (auto simp: Let_def split: if_splits)
    have "mt r x y" by (rule assms(1) [OF y(2)])
    moreover have "rep_mt r (m - 1) (map_option (\<lambda>n. n - 1) mx) y z" by (rule Suc.IH [OF y(4)])
    ultimately show ?thesis
      using y(1,3) rep_must [of m mx r x y z] rep_may [of mx r x y z] by (cases m) simp_all
  qed
qed

lemma in_concat_map: "y \<in> set ys \<Longrightarrow> z \<in> set (h y) \<Longrightarrow> z \<in> set (concat (map h ys))"
  by auto

lemma rep_complete:
  assumes "\<And>x y. mt r x y \<Longrightarrow> y \<in> set (f x) \<and> length (ahead y) \<le> length (ahead x)"
  shows "rep_mt r m mx x z \<Longrightarrow> m + length (ahead x) \<le> d \<Longrightarrow> z \<in> set (rep_matches f d m mx g x)"
proof (induction d arbitrary: m mx x)
  case 0
  then show ?case by (auto elim: rep_mt.cases simp: progress_def)
next
  case (Suc d)
  from Suc.prems(1) show ?case
  proof (cases rule: rep_mt.cases)
    case rep_stop
    then show ?thesis by (simp add: Let_def)
  next
    case (rep_must y)
    note y = assms [OF rep_must(3)]
    have "m - 1 + length (ahead y) \<le> d" using y rep_must(1) Suc.prems(2) by linarith
    from Suc.IH [OF rep_must(4) this] y rep_must(1,2) show ?thesis
      by (simp add: Let_def) blast
  next
    case (rep_may y)
    note y = assms [OF rep_may(3)]
    have "0 + length (ahead y) \<le> d" using rep_may(1,4) Suc.prems(2) by (simp add: progress_def)
    note z = Suc.IH [OF rep_may(5) this]
    have "y \<in> set (filter (\<lambda>y. 0 < m \<or> progress x y) (f x))" using y rep_may(4) by simp
    then have "z \<in> set (concat (map (rep_matches f d (m - 1) (map_option (\<lambda>n. n - 1) mx) g) (filter (\<lambda>y. 0 < m \<or> progress x y) (f x))))"
      using z rep_may(1) by (intro in_concat_map) simp_all
    then show ?thesis using rep_may(1,2) by (cases g) (simp_all add: Let_def)
  qed
qed

text \<open>
  The matcher finds exactly the matches of the relation: nothing else, and each of them; in particular the
  fuel of a repetition, the required iterations and the length of the rest, is always enough.
\<close>

lemma ms_iff_mt: "y \<in> set (ms r x) \<longleftrightarrow> mt r x y"
proof (induction r arbitrary: x y)
  case (Cls rs)
  then show ?case by (cases x) (auto split: list.splits if_splits intro: mt_Cls elim: mt_ClsE)
next
  case (NCls rs)
  then show ?case by (cases x) (auto split: list.splits if_splits intro: mt_NCls elim!: mt_NClsE)
next
  case Eps
  then show ?case by (auto intro: mt_Eps elim: mt_EpsE)
next
  case (Seq r1 r2)
  then show ?case by simp (blast intro: mt_Seq elim: mt_SeqE)
next
  case (Alt r1 r2)
  then show ?case by (auto intro: mt_AltL mt_AltR elim!: mt_AltE)
next
  case (Rep r m mx g)
  have "z \<in> set (ms r x) \<and> length (ahead z) \<le> length (ahead x)" if "mt r x z" for x z
    using Rep.IH that ms_forward by blast
  then show ?case
    using rep_sound [of "ms r" r y "m + length (ahead x)" m mx g x] rep_complete [of r "ms r" m mx x y "m + length (ahead x)" g] Rep.IH
    by (auto intro: mt_Rep elim: mt_RepE)
next
  case (Cap n r)
  then show ?case by (simp add: image_iff) (blast intro: mt_Cap elim: mt_CapE)
next
  case Bol
  then show ?case by (cases x) (auto intro: mt_Bol elim: mt_BolE)
next
  case Eol
  then show ?case by (cases x) (auto intro: mt_Eol elim: mt_EolE)
next
  case LineB
  then show ?case by (cases x) (auto intro: mt_LineB elim: mt_LineBE split: if_splits)
next
  case LineE
  then show ?case by (cases x) (auto intro: mt_LineE elim: mt_LineEE split: if_splits)
next
  case WordB
  then show ?case by (cases x) (auto intro: mt_WordB elim: mt_WordBE split: if_splits)
qed


lemma ms_empty_iff: "ms r x = [] \<longleftrightarrow> (\<nexists>y. mt r x y)"
  by (metis ms_iff_mt list.set_intros(1) neq_Nil_conv empty_iff list.set(1))

lemma exec_from_iff:
  "exec_from r b s \<noteq> None \<longleftrightarrow> (\<exists>u v y. s = u @ v \<and> mt r (rev u @ b, v, []) y)"
proof (induction s arbitrary: b)
  case Nil
  have "exec_from r b [] \<noteq> None \<longleftrightarrow> ms r (b, [], []) \<noteq> []" by (simp split: list.splits)
  then show ?case unfolding ms_empty_iff by simp
next
  case (Cons c s)
  show ?case
  proof (cases "ms r (b, c # s, [])")
    case Nil
    then have "\<not> mt r (b, c # s, []) y" for y unfolding ms_empty_iff by blast
    then have "(\<exists>u v y. c # s = u @ v \<and> mt r (rev u @ b, v, []) y) \<longleftrightarrow>
        (\<exists>u v y. s = u @ v \<and> mt r (rev u @ c # b, v, []) y)"
      by (auto simp: Cons_eq_append_conv) (metis append_Cons append_Nil append_assoc rev.simps(2))+
    with Nil Cons.IH show ?thesis by simp
  next
    case (Cons y ys)
    then have "mt r (b, c # s, []) y" by (metis ms_iff_mt list.set_intros(1))
    then have "\<exists>u v y. c # s = u @ v \<and> mt r (rev u @ b, v, []) y" by (metis append_Nil rev.simps(1))
    with Cons show ?thesis by simp
  qed
qed

text \<open>\<open>r.test(s)\<close> holds exactly when some part of the text matches.\<close>

lemma test_iff: "test r s \<longleftrightarrow> (\<exists>u v y. s = u @ v \<and> mt r (rev u, v, []) y)"
  unfolding test_def exec_def exec_from_iff append_Nil2 ..

section \<open>Matches of the shorthands\<close>

lemma mt_seqs_Nil [simp]: "mt (seqs []) x y \<longleftrightarrow> x = y"
  by (auto simp: seqs_def intro: mt_Eps elim: mt_EpsE)

lemma mt_seqs_Cons: "mt (seqs (r # rs)) x z \<longleftrightarrow> (\<exists>y. mt r x y \<and> mt (seqs rs) y z)"
  unfolding seqs_def foldr.simps comp_def by (blast intro: mt_Seq elim: mt_SeqE)

lemma mt_seqs_intro: "mt r x y \<Longrightarrow> mt (seqs rs) y z \<Longrightarrow> mt (seqs (r # rs)) x z"
  unfolding mt_seqs_Cons by blast

lemma mt_foldl_Alt: "mt (foldl Alt r rs) x y \<longleftrightarrow> mt r x y \<or> (\<exists>r' \<in> set rs. mt r' x y)"
proof (induction rs arbitrary: r)
  case (Cons r' rs)
  then show ?case by (auto intro: mt_AltL mt_AltR elim: mt_AltE)
qed simp

lemma mt_alts: "rs \<noteq> [] \<Longrightarrow> mt (alts rs) x y \<longleftrightarrow> (\<exists>r \<in> set rs. mt r x y)"
  by (cases rs) (simp_all add: alts_def mt_foldl_Alt)

lemma mt_Cls_iff: "mt (Cls rs) (b, a, k) y \<longleftrightarrow> (\<exists>c a'. a = c # a' \<and> in_ranges c rs \<and> y = (c # b, a', k))"
  by (auto intro: mt_Cls elim: mt_ClsE)

lemma mt_lit: "mt (lit s) (b, a, k) y \<longleftrightarrow> (\<exists>a'. a = s @ a' \<and> y = (rev s @ b, a', k))"
proof (induction s arbitrary: b a)
  case (Cons c s)
  have "mt (lit (c # s)) (b, a, k) y \<longleftrightarrow> (\<exists>z. mt (Cls [(c, c)]) (b, a, k) z \<and> mt (lit s) z y)"
    by (simp add: lit_def mt_seqs_Cons)
  also have "\<dots> \<longleftrightarrow> (\<exists>a'. a = c # a' \<and> mt (lit s) (c # b, a', k) y)"
    by (auto simp: mt_Cls_iff in_ranges_def)
  also have "\<dots> \<longleftrightarrow> (\<exists>a'. a = (c # s) @ a' \<and> y = (rev (c # s) @ b, a', k))"
    by (auto simp: Cons.IH)
  finally show ?case .
qed (auto simp: lit_def)

lemma mt_lits: "ss \<noteq> [] \<Longrightarrow> mt (lits ss) x y \<longleftrightarrow> (\<exists>s \<in> set ss. mt (lit s) x y)"
  by (simp add: lits_def mt_alts)

lemma mt_opt: "mt (opt r) x y \<longleftrightarrow> y = x \<or> (mt r x y \<and> progress x y)"
proof -
  have z: "rep_mt r 0 (Some 0) x y \<longleftrightarrow> y = x" for x y by (auto intro: rep_stop elim: rep_mt.cases)
  have "rep_mt r 0 (Some 1) x y \<longleftrightarrow> y = x \<or> (\<exists>z. mt r x z \<and> progress x z \<and> rep_mt r 0 (Some 0) z y)"
    by (subst rep_mt.simps) auto
  moreover have "mt (opt r) x y \<longleftrightarrow> rep_mt r 0 (Some 1) x y"
    unfolding opt_def by (blast intro: mt_Rep elim: mt_RepE)
  ultimately show ?thesis unfolding z by blast
qed

text \<open>A run of characters of one class, as \<open>\s*\<close> and \<open>\d+\<close> match it.\<close>

lemma rep_cls:
  "rep_mt (Cls rs) 0 None (b, a, k) y \<longleftrightarrow> (\<exists>w a'. a = w @ a' \<and> list_all (\<lambda>c. in_ranges c rs) w \<and> y = (rev w @ b, a', k))"
proof (induction a arbitrary: b)
  case Nil
  show ?case by (subst rep_mt.simps) (auto simp: mt_Cls_iff)
next
  case (Cons c a)
  have "rep_mt (Cls rs) 0 None (b, c # a, k) y \<longleftrightarrow>
      y = (b, c # a, k) \<or> (in_ranges c rs \<and> rep_mt (Cls rs) 0 None (c # b, a, k) y)"
    by (subst rep_mt.simps) (auto simp: mt_Cls_iff progress_def)
  also have "\<dots> \<longleftrightarrow> (\<exists>w a'. c # a = w @ a' \<and> list_all (\<lambda>c. in_ranges c rs) w \<and> y = (rev w @ b, a', k))"
    by (auto simp: Cons.IH Cons_eq_append_conv)
  finally show ?case .
qed

lemma mt_star_Cls:
  "mt (star (Cls rs)) (b, a, k) y \<longleftrightarrow> (\<exists>w a'. a = w @ a' \<and> list_all (\<lambda>c. in_ranges c rs) w \<and> y = (rev w @ b, a', k))"
  by (metis star_def mt_Rep mt_RepE rep_cls)

lemma mt_plus_Cls:
  "mt (plus (Cls rs)) (b, a, k) y \<longleftrightarrow>
     (\<exists>w a'. a = w @ a' \<and> w \<noteq> [] \<and> list_all (\<lambda>c. in_ranges c rs) w \<and> y = (rev w @ b, a', k))"
proof -
  have "mt (plus (Cls rs)) (b, a, k) y \<longleftrightarrow> rep_mt (Cls rs) 1 None (b, a, k) y"
    by (metis plus_def mt_Rep mt_RepE)
  also have "\<dots> \<longleftrightarrow> (\<exists>c a'. a = c # a' \<and> in_ranges c rs \<and> rep_mt (Cls rs) 0 None (c # b, a', k) y)"
    by (subst rep_mt.simps) (auto simp: mt_Cls_iff)
  also have "\<dots> \<longleftrightarrow> (\<exists>w a'. a = w @ a' \<and> w \<noteq> [] \<and> list_all (\<lambda>c. in_ranges c rs) w \<and> y = (rev w @ b, a', k))"
    by (auto simp: rep_cls neq_Nil_conv)
  finally show ?thesis .
qed

lemma in_ranges_simps [simp]: "in_ranges c [] \<longleftrightarrow> False" "in_ranges c ((a, b) # rs) \<longleftrightarrow> a \<le> c \<and> c \<le> b \<or> in_ranges c rs"
  by (simp_all add: in_ranges_def)

lemma in_spaces: "is_space c \<Longrightarrow> in_ranges c spaces"
  unfolding spaces_def is_space_def by (elim disjE insertE emptyE conjE; simp)

section \<open>Replacing\<close>

lemma replace_from_none:
  assumes "\<And>u v. s = u @ v \<Longrightarrow> ms r (rev u @ b, v, []) = []"
  shows "replace_from r w b s = s"
  using assms
proof (induction s arbitrary: b)
  case Nil
  then show ?case by (subst replace_from.simps) simp
next
  case (Cons c s)
  have "replace_from r w (c # b) s = s"
  proof (rule Cons.IH)
    fix u v assume "s = u @ v"
    then show "ms r (rev u @ c # b, v, []) = []" using Cons.prems [of "c # u" v] by simp
  qed
  moreover have "ms r (b, c # s, []) = []" using Cons.prems [of "[]" "c # s"] by simp
  ultimately show ?case by (subst replace_from.simps) simp
qed

text \<open>Without a match nothing is replaced.\<close>

lemma replaceAll_no_match: "\<not> test r s \<Longrightarrow> replaceAll r w s = s"
  unfolding replaceAll_def
proof (rule replace_from_none)
  fix u v assume "\<not> test r s" and s: "s = u @ v"
  then show "ms r (rev u @ [], v, []) = []" by (auto simp: test_iff ms_empty_iff)
qed

lemma mt_suffix:
  "mt r x y \<Longrightarrow> \<exists>w. ahead x = w @ ahead y" "rep_mt r m mx x y \<Longrightarrow> \<exists>w. ahead x = w @ ahead y"
  by (induction rule: mt_rep_mt.inducts) auto

text \<open>A replacement brings no characters but those of the replacement text.\<close>

lemma set_replace_from: "set (replace_from r w b a) \<subseteq> set a \<union> set w"
proof (induction a arbitrary: b rule: length_induct)
  case (1 a)
  have rest: "set (case a of [] \<Rightarrow> [] | c # a' \<Rightarrow> c # replace_from r w (c # b) a') \<subseteq> set a \<union> set w"
  proof (cases a)
    case (Cons c a')
    then have "set (replace_from r w (c # b) a') \<subseteq> set a' \<union> set w" using 1 by simp
    with Cons show ?thesis by auto
  qed simp
  show ?case
  proof (cases "ms r (b, a, [])")
    case Nil
    then show ?thesis using rest by (subst replace_from.simps) simp
  next
    case (Cons y ys)
    then obtain u where u: "a = u @ ahead y" using ms_iff_mt [of y r "(b, a, [])"] mt_suffix(1) by fastforce
    have "set (replace_from r w (behind y) (ahead y)) \<subseteq> set (ahead y) \<union> set w" if "length (ahead y) < length a"
      using 1 that by blast
    moreover have "set (ahead y) \<subseteq> set a" using u by (metis set_append Un_upper2)
    ultimately show ?thesis using Cons rest by (subst replace_from.simps) auto
  qed
qed

lemma set_replaceAll: "set (replaceAll r w s) \<subseteq> set s \<union> set w"
  by (simp add: replaceAll_def set_replace_from)

section \<open>Words a replacement keeps out\<close>

text \<open>
  A word is safe from a replacement text if no occurrence of the word can touch it: then replacing creates no
  occurrence.
\<close>

definition safeFrom :: "jstr \<Rightarrow> jstr \<Rightarrow> bool" where
  "safeFrom w p \<longleftrightarrow> \<not> str_includes w p \<and> \<not> str_includes p w \<and>
     list_all (\<lambda>i. \<not> starts_with (drop i p) w) [0..<length p] \<and>
     list_all (\<lambda>i. \<not> starts_with (rev (take (Suc i) p)) (rev w)) [0..<length p]"

lemma safeFrom_suffix: "safeFrom w p \<Longrightarrow> p = a @ q \<Longrightarrow> w = q @ b \<Longrightarrow> q = []"
proof (rule ccontr)
  assume s: "safeFrom w p" and e: "p = a @ q" "w = q @ b" and "q \<noteq> []"
  then have "length a < length p" by simp
  then have "\<not> starts_with (drop (length a) p) w" using s unfolding safeFrom_def list_all_iff set_upt by auto
  then show False using e by (simp add: starts_with_iff)
qed

lemma safeFrom_prefix: "safeFrom w p \<Longrightarrow> p = q @ a \<Longrightarrow> w = b @ q \<Longrightarrow> q = []"
proof (rule ccontr)
  assume s: "safeFrom w p" and e: "p = q @ a" "w = b @ q" and "q \<noteq> []"
  then obtain i where i: "length q = Suc i" by (cases q) auto
  then have "i < length p" using e(1) by simp
  then have "\<not> starts_with (rev (take (Suc i) p)) (rev w)" using s unfolding safeFrom_def list_all_iff set_upt by auto
  then show False using e by (simp add: starts_with_iff flip: i)
qed

lemma safeFrom_infix: "safeFrom w p \<Longrightarrow> p \<noteq> a @ w @ b" "safeFrom w p \<Longrightarrow> w \<noteq> a @ p @ b"
  by (auto simp: safeFrom_def str_includes_iff)

text \<open>A text with parts replaced by \<open>w\<close>; every position that is kept satisfies \<open>Q\<close>.\<close>

inductive spliced :: "(jstr \<Rightarrow> bool) \<Rightarrow> jstr \<Rightarrow> jstr \<Rightarrow> jstr \<Rightarrow> bool" for Q w where
  spliced_Nil: "spliced Q w [] []"
| spliced_keep: "Q (c # a) \<Longrightarrow> spliced Q w a z \<Longrightarrow> spliced Q w (c # a) (c # z)"
| spliced_put: "spliced Q w a z \<Longrightarrow> spliced Q w (u @ a) (w @ z)"

lemma replace_spliced:
  assumes "\<And>x y. mt r x y \<Longrightarrow> progress x y"
  shows "(\<And>u v b. a = u @ v \<Longrightarrow> ms r (b, v, []) = [] \<Longrightarrow> v \<noteq> [] \<Longrightarrow> Q v) \<Longrightarrow> spliced Q w a (replace_from r w b a)"
proof (induction a arbitrary: b rule: length_induct)
  case (1 a)
  show ?case
  proof (cases "ms r (b, a, [])")
    case Nil
    show ?thesis
    proof (cases a)
      case (Cons c a')
      have "Q (c # a')" using "1.prems" [of "[]" a b] Nil Cons by simp
      moreover have "spliced Q w a' (replace_from r w (c # b) a')"
        using "1.IH" [rule_format, of a' "c # b"] "1.prems" [of "c # _"] Cons by simp
      ultimately show ?thesis using Nil Cons by (subst replace_from.simps) (simp add: spliced_keep)
    qed (use Nil in \<open>simp add: replace_from.simps spliced_Nil\<close>)
  next
    case (Cons y ys)
    then have m: "mt r (b, a, []) y" by (metis ms_iff_mt list.set_intros(1))
    then obtain u where u: "a = u @ ahead y" using mt_suffix(1) by fastforce
    have l: "length (ahead y) < length a" using assms [OF m] by (simp add: progress_def)
    have "spliced Q w (ahead y) (replace_from r w (behind y) (ahead y))"
    proof (rule "1.IH" [rule_format, OF l])
      fix u' v b' assume "ahead y = u' @ v" "ms r (b', v, []) = []" "v \<noteq> []"
      then show "Q v" using "1.prems" [of "u @ u'" v b'] u by simp
    qed
    then have "spliced Q w (u @ ahead y) (w @ replace_from r w (behind y) (ahead y))" by (rule spliced_put)
    then show ?thesis using Cons l u by (subst replace_from.simps) simp
  qed
qed

text \<open>A part of the word that ends it, at the start of the result, is at the start of the text.\<close>

lemma spliced_prefix:
  assumes "safeFrom w p"
  shows "spliced Q w a z \<Longrightarrow> p = u @ q \<Longrightarrow> z = q @ v \<Longrightarrow> \<exists>v'. a = q @ v'"
proof (induction arbitrary: u q v rule: spliced.induct)
  case (spliced_keep c a z)
  show ?case
  proof (cases q)
    case (Cons d q')
    with spliced_keep.prems have "p = (u @ [d]) @ q'" "z = q' @ v" "c = d" by simp_all
    with spliced_keep.IH Cons show ?thesis by fastforce
  qed simp
next
  case (spliced_put a z x)
  from spliced_put.prems(2) consider (short) t where "w = q @ t" | (long) t where "q = w @ t" by (auto simp: append_eq_append_conv2)
  then show ?case
  proof cases
    case short
    then show ?thesis using safeFrom_suffix [OF assms spliced_put.prems(1)] by simp
  next
    case long
    then show ?thesis using safeFrom_infix(1) [OF assms, of u t] spliced_put.prems(1) by simp
  qed
qed simp

lemma spliced_avoids:
  assumes "safeFrom w p" "p \<noteq> []"
  shows "spliced (\<lambda>a. \<not> starts_with p a) w a z \<Longrightarrow> \<not> str_includes p z"
proof (induction rule: spliced.induct)
  case spliced_Nil
  then show ?case using assms(2) by simp
next
  case (spliced_keep c a z)
  have "\<not> starts_with p (c # z)"
  proof
    assume "starts_with p (c # z)"
    then obtain v where "c # z = p @ v" by (auto simp: starts_with_iff)
    from spliced_prefix [OF assms(1) spliced.spliced_keep [of "\<lambda>a. \<not> starts_with p a", OF spliced_keep(1,2)] _ this, of "[]"]
    show False using spliced_keep(1) by (auto simp: starts_with_iff)
  qed
  with spliced_keep.IH show ?case by simp
next
  case (spliced_put a z u)
  show ?case
  proof
    assume "str_includes p (w @ z)"
    then obtain x y where e: "w @ z = x @ p @ y" by (auto simp: str_includes_iff)
    from e consider (later) x' where "x = w @ x'" "z = x' @ p @ y" | (across) t where "w = x @ t" "t @ z = p @ y"
      by (auto simp: append_eq_append_conv2)
    then show False
    proof cases
      case later
      then show ?thesis using spliced_put.IH by (auto simp: str_includes_iff)
    next
      case across
      from across(2) consider (inside) t' where "t = p @ t'" | (cut) p' where "p = t @ p'" "z = p' @ y"
        by (auto simp: append_eq_append_conv2)
      then show ?thesis
      proof cases
        case inside
        then show ?thesis using safeFrom_infix(2) [OF assms(1)] across(1) by metis
      next
        case cut
        then have "t = []" using safeFrom_prefix [OF assms(1)] across(1) by blast
        then show ?thesis using cut spliced_put.IH by (metis append_Nil str_includes_iff)
      qed
    qed
  qed
qed

text \<open>
  Replacing by a safe text keeps a word out, and replacing the word itself takes it out.
\<close>

lemma lit_progress: "p \<noteq> [] \<Longrightarrow> mt (lit p) x y \<Longrightarrow> progress x y"
  by (cases x) (auto simp: mt_lit progress_def)

lemma starts_with_includes: "starts_with p v \<Longrightarrow> str_includes p (u @ v)"
  by (metis starts_with_iff str_includes_iff)

lemma replace_keeps_out:
  assumes "\<And>x y. mt r x y \<Longrightarrow> progress x y" "safeFrom w p" "p \<noteq> []" "\<not> str_includes p t"
  shows "\<not> str_includes p (replaceAll r w t)"
proof -
  have "spliced (\<lambda>a. \<not> starts_with p a) w t (replace_from r w [] t)"
    using assms(4) starts_with_includes by (intro replace_spliced assms(1)) auto
  then show ?thesis unfolding replaceAll_def by (rule spliced_avoids [OF assms(2,3)])
qed

lemma replace_takes_out:
  assumes "safeFrom w p" "p \<noteq> []"
  shows "\<not> str_includes p (replaceAll (lit p) w t)"
proof -
  have "spliced (\<lambda>a. \<not> starts_with p a) w t (replace_from (lit p) w [] t)"
  proof (rule replace_spliced)
    show "progress x y" if "mt (lit p) x y" for x y using lit_progress [OF assms(2) that] .
    show "\<not> starts_with p v" if "ms (lit p) (b, v, []) = []" for b v
      using that unfolding ms_empty_iff by (auto simp: mt_lit starts_with_iff)
  qed
  then show ?thesis unfolding replaceAll_def by (rule spliced_avoids [OF assms])
qed

end
