(* ===== verification/IntentClassifier.thy ===== *)
theory IntentClassifier
  imports Regex
begin

text \<open>
  The intent classifier, \<open>src/intent/intent-classifier.service.ts\<close>: correction of recognised text, wake
  words by text, by pattern and by similarity of the letters, categories and keywords, and the patterns
  of questions, commands, boards, calendar and timer. Patterns are the terms of \<open>Regex\<close>; those with the
  flag \<open>i\<close> have both cases of the ASCII letters. Confidence and similarity are exact rationals.
  \<open>matchedPatterns\<close>, which is only written, is left out.
\<close>

section \<open>Data\<close>

record IntentAnalysis =
  isCallIntent :: bool
  isQuestionIntent :: bool
  isBotRelated :: bool
  isVisionIntent :: bool
  isIdeaBoardIntent :: bool
  isFlowchartIntent :: bool
  isCalendarIntent :: bool
  isTimerIntent :: bool
  timerAction :: "jstr option"
  timerMinutes :: "int option"
  in_confidence :: rat
  normalizedText :: jstr
  hasQuestionWord :: bool
  hasCommandWord :: bool
  hasQuestionPattern :: bool
  hasRequestPattern :: bool
  isWeatherIntent :: bool
  searchDomain :: "jstr option"
  in_searchType :: "jstr option"
  in_category :: "jstr option"
  extractedKeyword :: "jstr option"
  needsLlmCorrection :: bool

definition WAKE_WORDS_EXACT :: "jstr list" where
  "WAKE_WORDS_EXACT = [[50500, 50864, 46972], [50500, 50864, 46972, 50556], [54756, 51060, 32, 50500,
    50864, 46972], [54756, 51060, 50500, 50864, 46972], [54168, 51060, 50500, 50864, 46972], [54168,
    51060, 32, 50500, 50864, 46972]]"

definition WAKE_WORDS_VARIANTS :: "jstr list" where
  "WAKE_WORDS_VARIANTS = [[50500, 50724, 46972], [50500, 50724, 46972, 50556], [50724, 50864, 46972],
    [50724, 50864, 46972, 50556], [50612, 50864, 46972], [50612, 50864, 46972, 50556], [50500, 50612,
    46972],
     [50500, 50612, 46972, 50556], [50500, 50864, 45208], [50500, 50864, 45208, 50556], [50500, 50864,
       46972, 45208], [50500, 50872, 46972], [50500, 50872, 46972, 50556], [50500, 50868, 46972],
     [50500, 50868, 46972, 50556], [50500, 50864, 45796], [50500, 50864, 45796, 50556], [50500, 32,
       50864, 46972], [50500, 50864, 32, 46972], [50500, 50864, 46972, 32, 50556], [50500, 32, 50864,
       32, 46972],
     [50500, 50864, 32, 50556], [50500, 50864, 50556], [50500, 32, 50556], [54756, 51060, 32, 50500,
       50864, 46972, 50556], [54644, 51060, 50500, 50864, 46972], [54644, 51060, 32, 50500, 50864,
       46972],
     [54644, 32, 50500, 50864, 46972], [54756, 51060, 32, 50500, 50724, 46972], [54756, 51060, 32,
       50724, 50864, 46972], [54756, 51060, 32, 50500, 50872, 46972], [50640, 51060, 50500, 50864,
       46972], [50640, 51060, 32, 50500, 50864, 46972],
     [54812, 51060, 50500, 50864, 46972], [54812, 51060, 32, 50500, 50864, 46972], [50500, 50864,
       46972, 50836], [50500, 50864, 46972, 32, 50836], [50500, 50864, 46972, 50668], [50500, 50864,
       47084],
     [50500, 50864, 47084, 50556], [50500, 50864, 47532], [50500, 50864, 47532, 50556], [50500, 50948,
       46972], [50500, 50948, 46972, 50556], [50500, 50920, 46972], [50500, 50920, 46972, 50556]]"

definition WAKE_WORDS :: "jstr list" where
  "WAKE_WORDS = WAKE_WORDS_EXACT @ WAKE_WORDS_VARIANTS"

definition WAKE_WORD_MAX_TOKENS :: nat where "WAKE_WORD_MAX_TOKENS = 4"

definition STT_CORRECTIONS :: "(rx \<times> jstr) list" where
  "STT_CORRECTIONS = [
     (seqs [WordB, alts [seqs [Cls [(104, 104), (72, 72)], Cls [(101, 101), (69, 69)], Cls [(121, 121),
       (89, 89)]], seqs [Cls [(104, 104), (72, 72)], Cls [(97, 97), (65, 65)], Cls [(121, 121), (89,
       89)]], seqs [Cls [(104, 104), (72, 72)], Cls [(97, 97), (65, 65)], Cls [(101, 101), (69, 69)]]],
       star space, alts [seqs [Cls [(97, 97), (65, 65)], Cls [(117, 117), (85, 85)], Cls [(114, 114),
       (82, 82)], Cls [(97, 97), (65, 65)]], seqs [Cls [(111, 111), (79, 79)], Cls [(117, 117), (85,
       85)], Cls [(114, 114), (82, 82)], Cls [(97, 97), (65, 65)]], seqs [Cls [(97, 97), (65, 65)],
       Cls [(119, 119), (87, 87)], Cls [(114, 114), (82, 82)], Cls [(97, 97), (65, 65)]]], WordB],
       [54756, 51060, 32, 50500, 50864, 46972]),
     (alts [seqs [WordB, Cls [(97, 97), (65, 65)], Cls [(117, 117), (85, 85)], Cls [(114, 114), (82,
       82)], Cls [(97, 97), (65, 65)], WordB], seqs [WordB, Cls [(111, 111), (79, 79)], Cls [(117,
       117), (85, 85)], Cls [(114, 114), (82, 82)], Cls [(97, 97), (65, 65)], WordB], seqs [WordB,
       Cls [(97, 97), (65, 65)], Cls [(119, 119), (87, 87)], Cls [(114, 114), (82, 82)], Cls [(97, 97),
       (65, 65)], WordB]], [50500, 50864, 46972]),
     (seqs [Bol, lits [[54756, 51060], [54644, 51060], [54644], [54756], [50640, 51060], [54812,
       51060], [54812]], star space, lits [[50500, 50864, 46972], [50500, 50724, 46972], [50724, 50864,
       46972], [50500, 50872, 46972], [50612, 50864, 46972]]], [54756, 51060, 32, 50500, 50864, 46972]),
     (seqs [Bol, lits [[50500, 50724, 46972], [50724, 50864, 46972], [50612, 50864, 46972]],
       opt (lits [[50556], [50500]]), alts [space, Eol]], [50500, 50864, 46972, 50556, 32]),
     (seqs [Bol, lits [[50500, 50872, 46972], [50500, 50864, 45208], [50500, 50868, 46972]],
       opt (lits [[50556], [50500]]), alts [space, Eol]], [50500, 50864, 46972, 50556, 32]),
     (seqs [lit [50500], plus space, lit [50864], star space, lit [46972], star space,
       opt (lits [[50556], [50500]])], [50500, 50864, 46972, 50556]),
     (seqs [lit [50500, 50864], plus space, lit [46972], star space, opt (lits [[50556], [50500]])],
       [50500, 50864, 46972, 50556]),
     (seqs [Bol, lit [50500, 50864], star space, lit [50556]], [50500, 50864, 46972, 50556]),
     (seqs [Bol, lit [50500], star space, lit [50556]], [50500, 50864, 46972, 50556]),
     (seqs [lit [50500, 50864, 46972], lits [[50500], [50668]], alts [space, Eol]], [50500, 50864,
       46972, 50556, 32]),
     (seqs [lit [50500, 50864, 46972], star space, lit [50836]], [50500, 50864, 46972, 50556]),
     (lit [45804, 50472], [45216, 50472]),
     (lit [45320, 50472], [45216, 50472]),
     (lit [45216, 49884], [45216, 50472]),
     (lit [44536, 45768, 44620], [44536, 47084, 45768, 44620]),
     (lit [44557, 44620], [44536, 47084, 45768, 44620]),
     (lit [44540, 44620], [44536, 47084, 45768, 44620]),
     (lit [50612, 52992], [50612, 46523, 44172]),
     (lit [50612, 46888, 52992], [50612, 46523, 44172]),
     (lit [51060, 52992], [51060, 47111, 44172]),
     (lit [51200, 52992], [51200, 47111, 44172]),
     (lit [44536, 52992], [44536, 47111, 44172]),
     (lit [50612, 46496, 44172], [50612, 46523, 44172]),
     (lit [50612, 46496, 52992], [50612, 46523, 44172]),
     (lit [47672, 46972, 44256], [47952, 46972, 44256]),
     (lit [47672, 47000], [47952, 47000]),
     (lit [46124], [46096]),
     (lit [54663], [54664])]"

definition CATEGORY_KEYWORDS :: "(jstr \<times> jstr list \<times> jstr) list" where
  "CATEGORY_KEYWORDS = [
     ([52852, 54168], [[52852, 54168], [52964, 54588], [52964, 54588, 49677], [52852, 54168, 53580,
       47532, 50500], [49828, 53440, 48261, 49828], [53804, 50040], [51060, 46356, 50556], [54624,
       47532, 49828], [48660, 47336, 48372, 53952], [52852, 44277]], [108, 111, 99, 97, 108]),
     ([47579, 51665], [[47579, 51665], [49885, 45817], [47112, 49828, 53664, 46993], [48165, 51665],
       [51020, 49885, 51216], [47579, 51080, 45716], [47673, 51012, 47564, 54620], [51200, 45377],
       [51216, 49900], [50500, 52840], [48652, 47088, 52824]], [108, 111, 99, 97, 108]),
     ([49696, 51665], [[49696, 51665], [48148], [54252, 52264], [54840, 54532], [51060, 51088, 52852,
       50556], [50752, 51064, 48148], [52853, 53580, 51068], [49548, 51452], [47589, 51452], [54924,
       49885]], [108, 111, 99, 97, 108]),
     ([48516, 49885], [[48516, 49885], [46497, 48374, 51060], [44608, 48165], [46972, 47732], [53888,
       44608], [49692, 45824], [50612, 47925]], [108, 111, 99, 97, 108]),
     ([52824, 53416], [[52824, 53416], [66, 66, 81], [66, 72, 67], [44368, 52492], [44413, 45348],
       [45348, 45348], [54168, 47532, 52852, 45208]], [108, 111, 99, 97, 108]),
     ([54588, 51088], [[54588, 51088], [46020, 48120, 45432], [54588, 51088, 54747], [54028, 54028,
       51316, 49828], [48120, 49828, 53552, 54588, 51088]], [108, 111, 99, 97, 108]),
     ([48757, 51665], [[48757, 51665], [48288, 51060, 52964, 47532], [51228, 44284, 51216], [48757],
       [52992, 51060, 53356], [54028, 47532, 48148, 44172, 46888], [46748, 47112, 51564, 47476],
       [49457, 49900, 45817]], [108, 111, 99, 97, 108]),
     ([46356, 51200, 53944], [[46356, 51200, 53944], [52992, 51060, 53356], [47560, 52852, 47217],
       [50500, 51060, 49828, 53356, 47548], [51236, 46972, 46608], [50752, 54540], [53356, 47196,
       54540], [53440, 47476, 53944]], [108, 111, 99, 97, 108]),
     ([49660, 54609], [[49660, 54609], [48177, 54868, 51216], [47560, 53944], [50500, 50872, 47131],
       [47792], [47588, 51109], [44032, 44172], [49345, 51216]], [108, 111, 99, 97, 108]),
     ([54045, 50629], [[54045, 50629], [54045, 50629, 49828, 53664, 50612], [54045, 50629, 32, 49828,
       53664, 50612], [54620, 51221], [50724, 54536]], [108, 111, 99, 97, 108]),
     ([51204, 49884], [[51204, 49884], [51204, 49884, 54924], [44068, 47084, 47532], [48120, 49696,
       44288], [48149, 47932, 44288], [50500, 53944]], [108, 111, 99, 97, 108]),
     ([45216, 50472], [[45216, 50472], [44592, 50728], [50728, 46020], [48708], [45576], [48148,
       46988], [55120, 47548], [47569, 51020], [49845, 46020], [48120, 49464, 47676, 51648], [50864,
       49328], [45908, 50892], [52628, 50892], [45925], [52645], [44592, 49345], [51068, 44592, 50696,
       48372]], [110, 101, 119, 115]),
     ([45684, 49828], [[45684, 49828], [49548, 49885], [44592, 49324], [49549, 48372], [51060, 49800],
       [49324, 44148], [49324, 44256]], [110, 101, 119, 115]),
     ([51452, 49885], [[51452, 49885], [51452, 44032], [53076, 49828, 54588], [53076, 49828, 45797],
       [45208, 49828, 45797], [51613, 49884], [53804, 51088], [51333, 47785]], [110, 101, 119, 115]),
     ([49828, 54252, 52768], [[49828, 54252, 52768], [52629, 44396], [50556, 44396], [45453, 44396],
       [48176, 44396], [44221, 44592], [44208, 44284], [49828, 53076, 50612], [49849, 54056]], [110,
       101, 119, 115]),
     ([50689, 54868], [[50689, 54868], [44060, 48393], [49345, 50689], [48149, 49828, 50724, 54588,
       49828], [50689, 54868, 44288], [67, 71, 86], [47215, 45936, 49884, 45348, 47560], [47700, 44032,
       48149, 49828]], [110, 101, 119, 115])]"

definition QUESTION_WORDS :: "jstr list" where
  "QUESTION_WORDS = [[47952], [47924, 50631], [50612, 46356], [50616, 51228], [45572, 44396], [45572,
    44032], [50780], [50612, 46523, 44172], [50612, 46500],
     [47751], [50612, 45712], [50620, 47560], [47924, 49832], [50612, 52236]]"

definition COMMAND_WORDS :: "jstr list" where
  "COMMAND_WORDS = [[50508, 47140, 51480], [47568, 54644, 51480], [48372, 50668, 51480], [52286, 50500,
    51480], [44160, 49353, 54644, 51480], [47932, 50612, 48400], [50508, 47140], [47568, 54644],
     [48372, 50668], [52286, 50500], [44160, 49353, 54644], [49444, 47749, 54644, 51480], [49444,
       47749, 54644], [44032, 47476, 52432, 51480], [44032, 47476, 52432], [52628, 52380, 54644, 51480],
     [52628, 52380, 54644], [54644, 51480], [54644, 48400], [50508, 47140, 51460, 47000], [47568,
       54644, 51460, 47000], [48372, 50668, 51460, 47000], [52286, 50500, 51460, 47000],
     [52628, 52380, 54644, 51460, 47000], [54644, 51460, 47000], [54644, 51480, 50836], [54644, 51452,
       49464, 50836], [48512, 53441, 54644], [48512, 53441, 54644, 50836]]"

definition BOT_REFERENCES :: "jstr list" where
  "BOT_REFERENCES = [[45320], [45768, 44032], [45817, 49888], [45348, 44032], [45324], [50500, 50864,
    46972], [50500, 50864, 46972, 50556]]"

definition QUESTION_PATTERNS :: "rx list" where
  "QUESTION_PATTERNS = [
     seqs [lit [63], Eol],
     seqs [lit [47952, 50556], Eol],
     seqs [lit [47952, 51648], Eol],
     seqs [lit [47956, 45936], Eol],
     seqs [lit [50612, 46412], Eol],
     seqs [lit [50612, 46412, 50836], Eol],
     seqs [plus (Cls [(44032, 55203)]), lit [44620], Eol],
     seqs [plus (Cls [(44032, 55203)]), lit [45768], Eol],
     seqs [plus (Cls [(44032, 55203)]), lit [45208], Eol],
     seqs [plus (Cls [(44032, 55203)]), lit [45264], Eol]]"

definition REQUEST_PATTERNS :: "rx list" where
  "REQUEST_PATTERNS = [
     seqs [lit [54644], opt space, lit [51460, 47000], opt (lit [50836]), Eol],
     seqs [lit [54644], opt space, lit [51480], opt (lit [50836]), Eol],
     seqs [lit [54644], opt space, lit [51452, 49464, 50836], Eol],
     seqs [lit [51460, 47000], opt (lit [50836]), Eol],
     seqs [lit [46112, 44620], opt (lit [50836]), Eol],
     seqs [lit [46104, 45208], opt (lit [50836]), Eol]]"

definition VISION_PATTERNS :: "rx list" where
  "VISION_PATTERNS = [
     seqs [lit [54868, 47732], upto 10, lits [[48400], [48372, 44256], [48372, 47732], [49444, 47749], [54644, 47749], [48516, 49437], [54644, 49437], [51069], [50508, 47140], [47952]]],
     seqs [lit [54868, 47732], star space, opt (lit [51012]), star space, lits [[48400], [48372,
       44256], [48372, 47732, 49436], [49444, 47749], [54644, 47749], [48516, 49437]]],
     seqs [lit [51060, 44144], star space, upto 5, lits [[48400], [48372], [49444, 47749], [54644, 47749], [48516, 49437], [47952, 50556], [47952, 45264], [47960, 51648], [50612, 46412], [48400, 51480], [50508, 47140]]],
     seqs [lit [51060, 44172], star space, lits [[47952, 50556], [47960, 51648], [47952, 45264], [47956, 51648], [50612, 46412]]],
     seqs [lit [51200, 44144], star space, upto 5, lits [[47952], [50612, 46523], [49444, 47749], [48372], [48516, 49437]]],
     seqs [lit [51200, 44172], star space, lits [[47952, 50556], [47960, 51648], [47956, 51648]]],
     seqs [lit [50668, 44592], star space, upto 5, lits [[48372], [48400], [49444, 47749], [47952], [48516, 49437]]],
     seqs [lit [50668, 44592, 49436], Rep dot 0 None False, lits [[50612, 46523], [47952], [49444,
       47749], [48516, 49437]]],
     seqs [lit [51648, 44552], star space, lits [[48372, 51060], [48372, 45716], [48372, 50668]], upto 10, lits [[49444, 47749], [48516, 49437], [47952], [50508, 47140]]],
     seqs [lits [[48372, 51060], [48372, 50668]], star space, lit [51452], upto 5, alts [lit [45716], seqs [lit [44256], star space, lit [51080]]], upto 10, lits [[49444, 47749], [48516, 49437], [47952]]],
     seqs [lits [[49444, 47749], [48516, 49437], [54644, 49437], [54644, 47749]], upto 5, lit [54644],
       star space, lits [[51480], [51460, 47000], [51452, 49464, 50836], [48400]]],
     seqs [opt (lit [51060]), star space, lits [[53076, 46300], [54632, 49688], [48320, 49688], [53364,
       47000, 49828], [47700, 49436, 46300]], upto 5, opt (lits [[45716], [51060], [44032]]),
       star space, lits [[47952], [50612, 46523], [49444, 47749], [48516, 49437]]],
     seqs [opt (lit [51060]), star space, lits [[50640, 47084], [50724, 47448], [48260, 44536], [47928, 51228], [51060, 49800]], upto 10, lits [[48400], [48516, 49437], [49444, 47749], [54644, 44208], [47952]]],
     seqs [opt (lit [51060]), star space, lits [[44536, 47000, 54532], [52264, 53944], [54364], [45936,
       51060, 53552]], upto 5, opt (lits [[45716], [51012]]), star space, lits [[47952], [50612,
       46523], [54644, 49437], [48516, 49437], [49444, 47749]]],
     seqs [opt (lit [51060]), star space, lits [[47928, 49436], [47928, 45800], [48512, 48516], [45236, 50857]], upto 5, opt (lits [[45716], [51012]]), star space, lits [[47952], [50612, 46523], [50836, 50557], [49444, 47749]]],
     seqs [upto 5, lit [48372, 44256], upto 10, lits [[49444, 47749], [54644, 47749], [48516, 49437],
       [50508, 47140], [47568, 54644]], upto 3, opt (lits [[51480], [51460, 47000], [51452, 49464,
       50836]])],
     seqs [lits [[49828, 53356, 47536], [44277, 50976]], upto 10, lits [[48400], [48372, 44256],
       [49444, 47749], [48516, 49437]]]]"

definition IDEA_BOARD_PATTERNS :: "rx list" where
  "IDEA_BOARD_PATTERNS = [
     seqs [lit [50500, 51060, 46356, 50612], star space, opt (lits [[47784, 46300], [48372, 46300]]),
       star space, lits [[50676, 50612], [49884, 51089], [53020], [50724, 54536], [54644], [54644,
       51480], [54616, 51088]]],
     seqs [lit [50500, 51060, 46356, 50612], star space, opt (lits [[54924, 51032], [48652, 47112,
       51064, 49828, 53664, 48141]]), star space, lits [[49884, 51089], [54644], [54616, 51088],
       [54624, 44620]]],
     seqs [lit [48652, 47112, 51064], star space, lit [49828, 53664, 48141], star space, lits [[49884,
       51089], [50676, 50612], [54616, 51088], [54644]]],
     seqs [lit [50500, 51060, 46356, 50612], star space, lits [[51221, 47532], [47784, 51004], [49688,
       51665]], upto 5, lits [[49884, 51089], [54616, 51088], [54644]]],
     seqs [lits [[50500, 51060, 46356, 50612], [48652, 47112, 51064, 49828, 53664, 48141]], star space,
       opt (lit [51328]), star space, lits [[54644, 48380, 44620], [54624, 44620], [54616, 51088]]]]"

definition FLOWCHART_BOARD_PATTERNS :: "rx list" where
  "FLOWCHART_BOARD_PATTERNS = [
     seqs [lit [49444, 44228], star space, opt (lits [[48372, 46300], [47784, 46300]]), star space,
       lits [[50676, 50612], [49884, 51089], [53020], [50724, 54536], [54644], [54644, 51480], [54616,
       51088], [50676, 50612, 51480], [53020, 51480]]],
     seqs [lit [49444, 44228], star space, lits [[48372, 46300], [47784, 46300]]],
     seqs [alts [lit [45796, 51060, 50612, 44536, 47016], seqs [Cls [(100, 100), (68, 68)], Cls [(105,
       105), (73, 73)], Cls [(97, 97), (65, 65)], Cls [(103, 103), (71, 71)], Cls [(114, 114), (82,
       82)], Cls [(97, 97), (65, 65)], Cls [(109, 109), (77, 77)]]], star space, opt (lits [[48372,
       46300], [47784, 46300]]), star space, lits [[50676, 50612], [49884, 51089], [53020], [50724,
       54536], [54644], [54644, 51480], [54616, 51088], [50676, 50612, 51480], [53020, 51480], [44536,
       47140]]],
     seqs [lit [45796, 51060, 50612, 44536, 47016], star space, lits [[44536, 47140], [47564, 46308,
       50612], [48372, 50668]]],
     seqs [alts [seqs [Cls [(102, 102), (70, 70)], Cls [(108, 108), (76, 76)], Cls [(111, 111), (79,
       79)], Cls [(119, 119), (87, 87)], Cls [(99, 99), (67, 67)], Cls [(104, 104), (72, 72)],
       Cls [(97, 97), (65, 65)], Cls [(114, 114), (82, 82)], Cls [(116, 116), (84, 84)]], lit [54540,
       47196, 50864, 52264, 53944], lit [54540, 47196, 52264, 53944], lit [54540, 47196, 50864, 32,
       52264, 53944]], star space, opt (lits [[47784, 46300], [48372, 46300]]), star space,
       lits [[50676, 50612], [49884, 51089], [53020], [50724, 54536], [54644], [54644, 51480], [54616,
       51088]]],
     seqs [alts [seqs [Cls [(102, 102), (70, 70)], Cls [(108, 108), (76, 76)], Cls [(111, 111), (79,
       79)], Cls [(119, 119), (87, 87)]], lit [54540, 47196, 50864]], star space, opt (lits [[48372,
       46300], [52264, 53944]]), star space, lits [[50676, 50612], [49884, 51089], [53020], [50724,
       54536], [54644], [54644, 51480], [54616, 51088]]],
     seqs [lits [[54540, 47196, 52264, 53944], [54532, 47196, 52264, 53944], [54540, 47084, 52264,
       53944], [54540, 47196, 50864, 32, 52264, 53944]], star space, lits [[50676, 50612], [49884,
       51089], [53020], [50724, 54536], [54644], [54644, 51480], [54616, 51088], [53020, 51480],
       [53020, 51256]]],
     seqs [lit [49692, 49436, 46020], star space, lits [[50676, 50612], [49884, 51089], [53020],
       [50724, 54536], [54644], [54644, 51480], [54616, 51088], [44536, 47140]]],
     seqs [alts [seqs [Cls [(99, 99), (67, 67)], Cls [(100, 100), (68, 68)], Cls [(114, 114), (82,
       82)]], lit [49884, 46356, 50508], lit [50472, 46356, 50508]], star space, opt (lits [[48516,
       49437], [54028, 49905]]), star space, lits [[49884, 51089], [54616, 51088], [54644]]],
     seqs [lits [[44396, 51312, 46020], [55120, 47492, 46020], [49884, 53248, 49828]], star space,
       lits [[44536, 47140], [50676, 50612], [49884, 51089], [47564, 46308, 50612], [48372, 50668]]],
     seqs [lit [49884, 49828, 53596], star space, lits [[49444, 44228], [44396, 51312]], star space,
       lits [[48372, 50668], [44536, 47140], [50676, 50612], [49884, 51089]]]]"

record TimerPattern =
  tp_pattern :: rx
  tp_action :: jstr
  extractMinutes :: bool

definition TIMER_PATTERNS :: "TimerPattern list" where
  "TIMER_PATTERNS = [
     \<lparr>tp_pattern = seqs [lit [53440, 51060, 47672], star space, Cap 1 (plus digit), star space,
       lit [48516], star space, opt (Cap 2 (lits [[49884, 51089], [53020], [49444, 51221], [47582,
       52656], [54644], [54644, 51480]]))], tp_action = [115, 116, 97, 114, 116],
       extractMinutes = True\<rparr>,
     \<lparr>tp_pattern = seqs [Cap 1 (plus digit), star space, lit [48516], star space, lit [53440,
       51060, 47672], star space, opt (Cap 2 (lits [[49884, 51089], [53020], [49444, 51221], [47582,
       52656], [54644], [54644, 51480]]))], tp_action = [115, 116, 97, 114, 116],
       extractMinutes = True\<rparr>,
     \<lparr>tp_pattern = seqs [lit [54924, 51032], star space, lit [49884, 44036], star space,
       Cap 1 (plus digit), star space, lit [48516], star space, opt (Cap 2 (lit [51004, 47196])),
       star space, opt (Cap 3 (lits [[49444, 51221], [47582, 52656], [54644], [54644, 51480]]))],
       tp_action = [115, 116, 97, 114, 116], extractMinutes = True\<rparr>,
     \<lparr>tp_pattern = seqs [lit [53440, 51060, 47672], star space, Cap 1 (lits [[49884, 51089],
       [53020], [49444, 51221], [47582, 52656]])], tp_action = [115, 116, 97, 114, 116],
       extractMinutes = False\<rparr>,
     \<lparr>tp_pattern = seqs [lit [53440, 51060, 47672], star space, Cap 1 (alts [seqs [lit [51068,
       49884], star space, lit [51221, 51648]], lit [47688, 52656], lit [51473, 51648], lit [51221,
       51648], seqs [lit [51104, 44624], star space, lit [47688, 52656]], lit [49828, 53681], lit [112,
       97, 117, 115, 101]])], tp_action = [112, 97, 117, 115, 101], extractMinutes = False\<rparr>,
     \<lparr>tp_pattern = seqs [Cap 1 (alts [seqs [lit [51068, 49884], star space, lit [51221, 51648]],
       lit [47688, 52656], lit [51473, 51648], lit [51221, 51648]]), star space, lit [53440, 51060,
       47672]], tp_action = [112, 97, 117, 115, 101], extractMinutes = False\<rparr>,
     \<lparr>tp_pattern = seqs [lit [53440, 51060, 47672], star space, Cap 1 (alts [seqs [lit [45796,
       49884], star space, lit [49884, 51089]], lit [51116, 44060], lit [44228, 49549], lit [51060,
       50612, 49436], lit [114, 101, 115, 117, 109, 101]])], tp_action = [114, 101, 115, 117, 109,
       101], extractMinutes = False\<rparr>,
     \<lparr>tp_pattern = seqs [Cap 1 (alts [seqs [lit [45796, 49884], star space, lit [49884, 51089]],
       lit [51116, 44060], lit [44228, 49549]]), star space, lit [53440, 51060, 47672]],
       tp_action = [114, 101, 115, 117, 109, 101], extractMinutes = False\<rparr>,
     \<lparr>tp_pattern = seqs [Cap 1 (plus digit), star space, lit [48516], star space,
       Cap 2 (lits [[45908], [50672, 51109], [52628, 44032], [45720, 47140], [45720, 47140, 51480]])],
       tp_action = [101, 120, 116, 101, 110, 100], extractMinutes = True\<rparr>,
     \<lparr>tp_pattern = seqs [Cap 1 (lits [[49884, 44036], [53440, 51060, 47672]]), star space,
       Cap 2 (plus digit), star space, lit [48516], star space, Cap 3 (lits [[50672, 51109], [52628,
       44032], [45720, 47140]])], tp_action = [101, 120, 116, 101, 110, 100],
       extractMinutes = True\<rparr>,
     \<lparr>tp_pattern = seqs [Cap 1 (plus digit), star space, lit [48516], star space,
       opt (Cap 2 (lit [47564, 53372])), star space, Cap 3 (lits [[50672, 51109], [52628, 44032],
       [45720, 47140], [45908]])], tp_action = [101, 120, 116, 101, 110, 100],
       extractMinutes = True\<rparr>,
     \<lparr>tp_pattern = seqs [lit [49884, 44036], star space, opt (Cap 1 (lit [51328])), star space,
       Cap 2 (lits [[45908], [45720, 47140], [50672, 51109]]), star space, Cap 3 (plus digit),
       star space, opt (lit [48516])], tp_action = [101, 120, 116, 101, 110, 100],
       extractMinutes = True\<rparr>,
     \<lparr>tp_pattern = seqs [lit [53440, 51060, 47672], star space, Cap 1 (lits [[51333, 47308],
       [45149], [45124, 44592], [44732], [54644, 51228], [52712, 49548], [111, 102, 102]])],
       tp_action = [115, 116, 111, 112], extractMinutes = False\<rparr>,
     \<lparr>tp_pattern = seqs [Cap 1 (lits [[51333, 47308], [45149], [45124, 44592], [44732], [54644,
       51228], [52712, 49548]]), star space, lit [53440, 51060, 47672]], tp_action = [115, 116, 111,
       112], extractMinutes = False\<rparr>,
     \<lparr>tp_pattern = seqs [lit [53440, 51060, 47672], star space, Cap 1 (alts [lit [49345, 53468],
       lit [54869, 51064], seqs [lit [50620, 47560, 45208], star space, lit [45224, 50520]],
       seqs [lit [47751], star space, lit [48516], star space, lit [45224, 50520]]])],
       tp_action = [115, 116, 97, 116, 117, 115], extractMinutes = False\<rparr>,
     \<lparr>tp_pattern = Cap 1 (alts [seqs [lit [45224, 51008], star space, lit [49884, 44036]],
       seqs [lit [50620, 47560, 45208], star space, lit [45224, 50520]], seqs [lit [47751], star space,
       lit [48516], star space, lit [45224, 50520]]]), tp_action = [115, 116, 97, 116, 117, 115],
       extractMinutes = False\<rparr>]"

definition CALENDAR_PATTERNS :: "rx list" where
  "CALENDAR_PATTERNS = [
     seqs [lit [51068, 51221], star space, lits [[51105], [52628, 52380], [52286], [51312, 50984],
       [51312, 51221], [47582, 52656], [51221], [54869, 51064]], upto 5, opt (lits [[50500], [50612],
       [51480], [51460, 47000], [51452, 49464, 50836], [54644], [54624, 44620]])],
     seqs [lits [[54924, 51032], [48120, 54021], [50557, 49549], [47784, 51076]], star space, lits [[51068, 51221], [49884, 44036], [45216, 51676]], upto 5, lits [[51105], [52628, 52380], [52286], [51312, 50984], [51312, 51221], [47582, 52656], [51221], [54869, 51064]]],
     seqs [alts [lit [50616, 51228], seqs [lit [47751], star space, lit [49884]], seqs [lit [47751], star space, lit [51068]]], upto 10, lits [[44032, 45733], [46104], [48708, 50612], [44316, 52270], [49884, 44036]]],
     seqs [alts [seqs [lit [48712], star space, lit [49884, 44036]], seqs [lit [44032, 45733, 54620],
       star space, lit [49884, 44036]], seqs [lit [48708, 50612], star space, lit [51080, 45716],
       star space, lit [49884, 44036]], seqs [lit [44277, 53685], star space, lit [49884, 44036]]],
       upto 5, lits [[52286], [50508, 47140], [52628, 52380], [54869, 51064], [50616, 51228]]],
     seqs [alts [lit [52280, 50668, 51088], lit [52280, 49437, 51088], lit [47716, 48260], lit [47784,
       46160], seqs [lit [45796], star space, lit [44057, 51060]], lit [50864, 47532]], upto 10,
       lits [[51068, 51221], [49884, 44036], [49828, 52992, 51460]], upto 5, lits [[54869, 51064],
       [50508, 47140], [47582, 52656], [51312, 50984]]],
     seqs [lits [[45796, 46308], [47784, 46160], [52280, 49437, 51088]], upto 5, alts [lit [50616,
       51228], seqs [lit [47751], star space, lit [49884]]], upto 5, lits [[44032, 45733], [46104],
       [44316, 52270]]],
     seqs [lit [49828, 52992, 51460], star space, lits [[51312, 50984], [51312, 51221], [54869, 51064],
       [52628, 52380], [51105], [47582, 52656]]],
     seqs [lits [[52888, 47536, 45908], [45804, 47141], [51068, 51221, 54364]], upto 5, lits [[54869,
       51064], [48400], [48372, 50668], [50676, 50612], [48516, 49437]]],
     seqs [lits [[45216, 51676], [49884, 44036], [51068, 49884]], upto 5, lits [[52628, 52380], [51105], [51221], [50508, 47140], [52286]]],
     seqs [alts [seqs [lit [45796, 51020], star space, lit [51452]], seqs [lit [51060, 48264], star space, lit [51452]], lit [45236, 51068], lit [47784, 47112]], upto 10, lits [[44032, 45733], [46104], [48708, 50612], [49884, 44036]]]]"

section \<open>Similarity of letters\<close>

definition CHO :: jstr where "CHO = [12593, 12594, 12596, 12599, 12600, 12601, 12609, 12610, 12611,
  12613, 12614, 12615, 12616, 12617, 12618, 12619, 12620, 12621, 12622]"

definition JUNG :: jstr where "JUNG = [12623, 12624, 12625, 12626, 12627, 12628, 12629, 12630, 12631,
  12632, 12633, 12634, 12635, 12636, 12637, 12638, 12639, 12640, 12641, 12642, 12643]"

definition JONG :: jstr where "JONG = [32, 12593, 12594, 12595, 12596, 12597, 12598, 12599, 12601,
  12602, 12603, 12604, 12605, 12606, 12607, 12608, 12609, 12610, 12612, 12613, 12614, 12615, 12616,
  12618, 12619, 12620, 12621, 12622]"

text \<open>The characters a \<open>for of\<close> loop sees: a surrogate pair is one.\<close>

fun chars_of :: "jstr \<Rightarrow> jstr list" where
  "chars_of [] = []"
| "chars_of [c] = [[c]]"
| "chars_of (c # d # s) =
     (if 55296 \<le> c \<and> c \<le> 56319 \<and> 56320 \<le> d \<and> d \<le> 57343 then [c, d] # chars_of s else [c] # chars_of (d # s))"

definition decomposeChar :: "jstr \<Rightarrow> jstr list" where
  "decomposeChar ch =
     (let code = hd ch - 44032
      in if code < 0 \<or> code > 11171 then [ch]
         else [[CHO ! nat (code div 588)], [JUNG ! nat ((code mod 588) div 28)]] @
              (let jong = JONG ! nat (code mod 28) in if jong \<noteq> 32 then [[jong]] else []))"

definition decomposeHangul :: "jstr \<Rightarrow> jstr list" where
  "decomposeHangul s = concat (map decomposeChar (chars_of s))"

definition SIMILAR_JAMO :: "(jstr \<times> jstr list) list" where
  "SIMILAR_JAMO = [
     ([12601], [[12596], [12599]]),
     ([12596], [[12601], [12609]]),
     ([12609], [[12610], [12596]]),
     ([12610], [[12609], [12621], [12611]]),
     ([12593], [[12619], [12594]]),
     ([12613], [[12614], [12616], [12618]]),
     ([12616], [[12613], [12614], [12618], [12617]]),
     ([12636], [[12641], [12631]]),
     ([12641], [[12636], [12643], [12627]]),
     ([12631], [[12636], [12627]]),
     ([12623], [[12625], [12624], [12627]]),
     ([12627], [[12629], [12628], [12623], [12631]]),
     ([12643], [[12641], [12642]])]"

definition similarTo :: "jstr \<Rightarrow> jstr \<Rightarrow> bool" where
  "similarTo a b = (case map_of SIMILAR_JAMO a of None \<Rightarrow> False | Some l \<Rightarrow> b \<in> set l)"

definition isSimilarJamo :: "jstr \<Rightarrow> jstr \<Rightarrow> bool" where
  "isSimilarJamo a b \<longleftrightarrow> a = b \<or> similarTo a b \<or> similarTo b a"

definition jamoPoints :: "jstr \<Rightarrow> jstr \<Rightarrow> rat" where
  "jamoPoints a b = (if a = b then 1 else if isSimilarJamo a b then 3 / 5 else 0)"

definition jamoSimilarity :: "jstr \<Rightarrow> jstr \<Rightarrow> rat" where
  "jamoSimilarity a b =
     (let jamoA = decomposeHangul (to_lower a); jamoB = decomposeHangul (to_lower b);
          maxLen = max (length jamoA) (length jamoB)
      in if maxLen = 0 then 0
         else if \<bar>int (length jamoA) - int (length jamoB)\<bar> > 3 then 0
         else sum_list (map (\<lambda>(x, y). jamoPoints x y) (zip jamoA jamoB)) / of_nat maxLen)"

text \<open>The fuzzy match: the word and its similarity. \<open>tokens.indexOf(token)\<close> is the first occurrence of the token.\<close>

definition firstIndex :: "'a list \<Rightarrow> 'a \<Rightarrow> nat" where
  "firstIndex xs x = length (takeWhile (\<lambda>y. y \<noteq> x) xs)"

fun fuzzyTarget :: "jstr \<Rightarrow> jstr list \<Rightarrow> (jstr \<times> rat) option" where
  "fuzzyTarget token [] = None"
| "fuzzyTarget token (t # ts) =
     (if jamoSimilarity token t \<ge> 65 / 100 then Some (t, jamoSimilarity token t) else fuzzyTarget token ts)"

fun fuzzyTokens :: "jstr list \<Rightarrow> jstr list \<Rightarrow> (jstr \<times> rat) option" where
  "fuzzyTokens tokens [] = None"
| "fuzzyTokens tokens (token # rest) =
     (if length token < 2 then fuzzyTokens tokens rest
      else case fuzzyTarget token [[50500, 50864, 46972], [50500, 50864, 46972, 50556], [54756, 51060,
        50500, 50864, 46972]] of
          Some m \<Rightarrow> Some m
        | None \<Rightarrow>
            (let i = firstIndex tokens token + 1
             in if token \<in> set [[54756, 51060], [54644, 51060], [50640, 51060], [54812, 51060], [54644], [54756]] \<and> i < length tokens
                   \<and> jamoSimilarity (tokens ! i) [50500, 50864, 46972] \<ge> 1 / 2
                then Some ([54756, 51060, 32, 50500, 50864, 46972], jamoSimilarity (tokens ! i) [50500,
                  50864, 46972]) else fuzzyTokens tokens rest))"

definition fuzzyMatchWakeWord :: "jstr \<Rightarrow> (jstr \<times> rat) option" where
  "fuzzyMatchWakeWord t = (let tokens = take 4 (split_ws [] (to_lower t)) in fuzzyTokens tokens tokens)"

definition wakeHints :: "rx list" where
  "wakeHints = [
     seqs [lit [50500], Cls [(50864, 50864), (50724, 50724), (50612, 50612)], Cls [(46972, 46972), (45208, 45208), (45796, 45796)]],
     alts [lit [54756, 51060], lit [54644, 51060], lit [50640, 51060], lit [54812, 51060], seqs [lit [54644], space], seqs [lit [54756], space]],
     alts [seqs [Cls [(97, 97), (65, 65)], Cls [(117, 117), (85, 85)], Cls [(114, 114), (82, 82)], Cls [(97, 97), (65, 65)]], seqs [Cls [(111, 111), (79, 79)], Cls [(117, 117), (85, 85)], Cls [(114, 114), (82, 82)], Cls [(97, 97), (65, 65)]], seqs [Cls [(97, 97), (65, 65)], Cls [(119, 119), (87, 87)], Cls [(114, 114), (82, 82)], Cls [(97, 97), (65, 65)]]]]"

definition mightHaveWakeWord :: "jstr \<Rightarrow> bool" where
  "mightHaveWakeWord t = list_ex (\<lambda>p. test p (to_lower (take 40 t))) wakeHints"

definition WAKE_WORD_PATTERNS :: "rx list" where
  "WAKE_WORD_PATTERNS = [
     seqs [Bol, lit [50500], Cls [(50864, 50864), (50724, 50724), (50612, 50612)], Cls [(46972, 46972), (45208, 45208), (45796, 45796)], opt (Cls [(50556, 50556), (50500, 50500), (50836, 50836)])],
     seqs [Bol, lit [54756], opt (lit [51060]), star space, lit [50500], Cls [(50864, 50864), (50724, 50724)], Cls [(46972, 46972), (45208, 45208)]],
     seqs [Bol, Cls [(54644, 54644), (54756, 54756), (50640, 50640), (54812, 54812)], opt (Cls [(51060, 51060)]), star space, lit [50500], Cls [(50864, 50864), (50724, 50724)]]]"

definition regexMatchWakeWord :: "jstr \<Rightarrow> bool" where
  "regexMatchWakeWord t = list_ex (\<lambda>p. test p (trim (to_lower t))) WAKE_WORD_PATTERNS"

section \<open>Category and keyword\<close>

definition detectCategory :: "jstr \<Rightarrow> (jstr \<times> jstr) option" where
  "detectCategory t =
     (case filter (\<lambda>(c, ks, st). list_ex (\<lambda>k. str_includes (to_lower k) (to_lower t)) ks) CATEGORY_KEYWORDS of
        [] \<Rightarrow> None
      | (c, ks, st) # _ \<Rightarrow> Some (c, st))"

definition particles :: rx where
  "particles = seqs [WordB, lits [[51012], [47484], [51060], [44032], [51008], [45716], [50640, 49436], [50640], [51032], [51004, 47196], [47196], [44284], [50752], [46020], [47564], [48512, 53552], [44620, 51648], [52376, 47100], [44057, 51008], [51328], [54620, 48264], [54616, 45208], [44144], [44163], [45936], [51480], [51460, 47000], [54644, 51480]], WordB]"

definition removeWord :: "jstr \<Rightarrow> jstr \<Rightarrow> jstr" where
  "removeWord w s = trim (replaceAll (lit w) [] s)"

definition extractKeyword :: "jstr \<Rightarrow> jstr option" where
  "extractKeyword t =
     (let c1 = fold removeWord WAKE_WORDS t;
          c2 = fold removeWord COMMAND_WORDS c1;
          c3 = trim (replaceAll (plus space) [32] (replaceAll particles [32] c2))
      in if length c3 < 2 then None else Some c3)"

section \<open>Classification\<close>

definition normalizeText :: "jstr \<Rightarrow> jstr" where
  "normalizeText t =
     trim (fold (\<lambda>(p, w) s. if test p s then replaceAll p w s else s) STT_CORRECTIONS (trim t))"

fun indexOf :: "jstr \<Rightarrow> jstr \<Rightarrow> nat option" where
  "indexOf [] w = (if w = [] then Some 0 else None)"
| "indexOf (c # s) w = (if starts_with w (c # s) then Some 0 else map_option Suc (indexOf s w))"

definition isWakeWordInLeadingTokens :: "jstr \<Rightarrow> jstr \<Rightarrow> bool" where
  "isWakeWordInLeadingTokens t w = (case indexOf (to_lower t) (to_lower w) of
      None \<Rightarrow> False
    | Some i \<Rightarrow>
        (let lead = trim (take i (to_lower t))
         in lead = [] \<or> length (filter (\<lambda>x. x \<noteq> []) (split_ws [] lead)) < WAKE_WORD_MAX_TOKENS))"

definition hasExactWakeWord :: "jstr \<Rightarrow> bool" where
  "hasExactWakeWord l = list_ex (\<lambda>w. isWakeWordInLeadingTokens l (to_lower w)) WAKE_WORDS"

text \<open>The wake word and what it adds to the confidence.\<close>

definition wakeConfidence :: "jstr \<Rightarrow> rat option" where
  "wakeConfidence l =
     (if hasExactWakeWord l then Some (6 / 10)
      else if regexMatchWakeWord l then Some (5 / 10)
      else map_option (\<lambda>(w, sim). 3 / 10 + sim * (2 / 10)) (fuzzyMatchWakeWord l))"

definition botPattern :: "jstr \<Rightarrow> rx" where
  "botPattern w = seqs [alts [Bol, space], lit w, alts [Eol, space, NCls [(44032, 55203)]]]"

fun groups :: "rx \<Rightarrow> nat" where
  "groups (Seq r1 r2) = max (groups r1) (groups r2)"
| "groups (Alt r1 r2) = max (groups r1) (groups r2)"
| "groups (Rep r m mx g) = groups r"
| "groups (Cap n r) = max n (groups r)"
| "groups _ = 0"

fun captured :: "rx_state \<Rightarrow> nat \<Rightarrow> jstr option" where
  "captured (b, a, k) i = jget k i"

definition minutesOf :: "jstr option \<Rightarrow> int option" where
  "minutesOf g = (case g of None \<Rightarrow> None
    | Some s \<Rightarrow> (case parseInt10 s of None \<Rightarrow> None | Some n \<Rightarrow> if n > 0 \<and> n \<le> 180 then Some n else None))"

fun firstMinutes :: "jstr option list \<Rightarrow> int option" where
  "firstMinutes [] = None"
| "firstMinutes (g # gs) = (case minutesOf g of Some n \<Rightarrow> Some n | None \<Rightarrow> firstMinutes gs)"

text \<open>The loop over the timer patterns: the action and the minutes of the first pattern that matches.\<close>

fun timerMatch :: "TimerPattern list \<Rightarrow> jstr \<Rightarrow> (jstr \<times> int option) option" where
  "timerMatch [] l = None"
| "timerMatch (p # ps) l = (case exec (tp_pattern p) l of
      None \<Rightarrow> timerMatch ps l
    | Some y \<Rightarrow> Some (tp_action p,
        if extractMinutes p then firstMinutes (map (captured y) [1..<Suc (groups (tp_pattern p))]) else None))"

definition tests :: "rx list \<Rightarrow> jstr \<Rightarrow> bool" where
  "tests ps l = list_ex (\<lambda>p. test p l) ps"

definition confidenceOf :: "rat option \<Rightarrow> bool \<Rightarrow> bool \<Rightarrow> bool \<Rightarrow> bool \<Rightarrow> bool \<Rightarrow> rat" where
  "confidenceOf wake qw cw qp rp br =
     min ((case wake of None \<Rightarrow> 0 | Some c \<Rightarrow> c) + (if qw then 2 / 10 else 0) + (if cw then 25 / 100 else 0)
       + (if qp then 15 / 100 else 0) + (if rp then 3 / 10 else 0) + (if br then 15 / 100 else 0)) 1"

definition classify :: "jstr \<Rightarrow> IntentAnalysis" where
  "classify t =
     (let n = normalizeText t; l = to_lower n;
          wake = wakeConfidence l;
          cat = detectCategory l;
          qw = list_ex (\<lambda>w. str_includes w l) QUESTION_WORDS;
          cw = list_ex (\<lambda>w. str_includes (to_lower w) l) COMMAND_WORDS;
          qp = tests QUESTION_PATTERNS l;
          rp = tests REQUEST_PATTERNS l;
          br = tests (map botPattern BOT_REFERENCES) l;
          weather = (map_option fst cat = Some [45216, 50472]);
          timer = timerMatch TIMER_PATTERNS l;
          call = (wake \<noteq> None);
          question = (qw \<or> cw \<or> qp \<or> rp);
          conf = confidenceOf wake qw cw qp rp br
      in \<lparr>isCallIntent = call, isQuestionIntent = question, isBotRelated = br,
          isVisionIntent = tests VISION_PATTERNS l, isIdeaBoardIntent = tests IDEA_BOARD_PATTERNS l,
          isFlowchartIntent = tests FLOWCHART_BOARD_PATTERNS l, isCalendarIntent = tests CALENDAR_PATTERNS l,
          isTimerIntent = (timer \<noteq> None), timerAction = map_option fst timer,
          timerMinutes = (case timer of None \<Rightarrow> None | Some (_, m) \<Rightarrow> m),
          in_confidence = conf, normalizedText = n,
          hasQuestionWord = qw, hasCommandWord = cw, hasQuestionPattern = qp, hasRequestPattern = rp,
          isWeatherIntent = weather,
          searchDomain = (if question \<or> call then Some (if weather then [119, 101, 97, 116, 104,
            101, 114] else [110, 97, 118, 101, 114]) else None),
          in_searchType = map_option snd cat, in_category = map_option fst cat,
          extractedKeyword = extractKeyword n,
          needsLlmCorrection = (\<not> call \<and> mightHaveWakeWord t \<and> conf < 1 / 2)\<rparr>)"

definition shouldRespondFromAnalysis :: "IntentAnalysis \<Rightarrow> bool" where
  "shouldRespondFromAnalysis i \<longleftrightarrow> isCallIntent i \<or> (isQuestionIntent i \<and> isBotRelated i)
     \<or> (isQuestionIntent i \<and> hasCommandWord i \<and> in_confidence i \<ge> 4 / 10) \<or> (isQuestionIntent i \<and> hasRequestPattern i)"

definition shouldRespond :: "jstr \<Rightarrow> bool" where
  "shouldRespond t = shouldRespondFromAnalysis (classify t)"

definition shouldWakeFromSleepAnalysis :: "IntentAnalysis \<Rightarrow> bool" where
  "shouldWakeFromSleepAnalysis i \<longleftrightarrow> isCallIntent i \<or> hasCommandWord i \<or> hasRequestPattern i
     \<or> (hasQuestionWord i \<and> hasQuestionPattern i) \<or> (isQuestionIntent i \<and> in_confidence i \<ge> 6 / 10)"

definition shouldWakeFromSleep :: "jstr \<Rightarrow> bool" where
  "shouldWakeFromSleep t = shouldWakeFromSleepAnalysis (classify t)"

section \<open>Similarity is a measure\<close>

lemma isSimilarJamo_sym: "isSimilarJamo a b = isSimilarJamo b a"
  by (auto simp: isSimilarJamo_def)

lemma jamoPoints_sym: "jamoPoints a b = jamoPoints b a"
  by (auto simp: jamoPoints_def isSimilarJamo_sym)

lemma jamoPoints_range: "0 \<le> jamoPoints a b" "jamoPoints a b \<le> 1"
  by (simp_all add: jamoPoints_def)

lemma jamoPoints_one: "jamoPoints a b = 1 \<longleftrightarrow> a = b"
  by (simp add: jamoPoints_def)

text \<open>The points of two letter sequences.\<close>

definition points :: "jstr list \<Rightarrow> jstr list \<Rightarrow> rat" where
  "points as bs = sum_list (map (\<lambda>(x, y). jamoPoints x y) (zip as bs))"

lemma points_Cons [simp]: "points (a # as) (b # bs) = jamoPoints a b + points as bs"
  by (simp add: points_def)

lemma points_Nil [simp]: "points [] bs = 0" "points as [] = 0"
  by (simp_all add: points_def)

lemma points_sym: "points as bs = points bs as"
  by (induction as bs rule: list_induct2') (simp_all add: jamoPoints_sym)

lemma points_nonneg: "0 \<le> points as bs"
  by (induction as bs rule: list_induct2') (simp_all add: jamoPoints_range)

lemma points_le: "points as bs \<le> of_nat (min (length as) (length bs))"
proof (induction as bs rule: list_induct2')
  case (4 a as b bs)
  then show ?case using jamoPoints_range(2) [of a b] by (simp add: min_def split: if_splits)
qed simp_all

lemma points_full: "points as bs = of_nat (max (length as) (length bs)) \<longleftrightarrow> as = bs"
proof (induction as bs rule: list_induct2')
  case (4 a as b bs)
  have "of_nat (max (length (a # as)) (length (b # bs))) = 1 + (of_nat (max (length as) (length bs)) :: rat)" by simp
  moreover have "points as bs \<le> of_nat (max (length as) (length bs))"
    using points_le [of as bs] by (meson max.coboundedI1 min.cobounded1 of_nat_mono order_trans)
  ultimately have "points (a # as) (b # bs) = of_nat (max (length (a # as)) (length (b # bs))) \<longleftrightarrow>
      jamoPoints a b = 1 \<and> points as bs = of_nat (max (length as) (length bs))"
    using jamoPoints_range(2) [of a b] unfolding points_Cons by linarith
  then show ?case using 4 jamoPoints_one by simp
qed simp_all

lemma jamoSimilarity_points:
  fixes a b defines "x \<equiv> decomposeHangul (to_lower a)" and "y \<equiv> decomposeHangul (to_lower b)"
  shows "jamoSimilarity a b =
    (if max (length x) (length y) = 0 \<or> \<bar>int (length x) - int (length y)\<bar> > 3 then 0 else points x y / of_nat (max (length x) (length y)))"
  unfolding jamoSimilarity_def Let_def points_def x_def y_def by simp

lemma chars_of_eq_Nil [simp]: "chars_of s = [] \<longleftrightarrow> s = []"
  by (induction s rule: chars_of.induct) auto

lemma decomposeHangul_eq_Nil [simp]: "decomposeHangul s = [] \<longleftrightarrow> s = []"
proof (cases "chars_of s")
  case (Cons c cs)
  have "decomposeChar c \<noteq> []" by (simp add: decomposeChar_def Let_def)
  then show ?thesis using Cons by (auto simp: decomposeHangul_def)
qed (simp add: decomposeHangul_def)

lemma to_lower_eq_Nil [simp]: "to_lower s = [] \<longleftrightarrow> s = []"
  by (simp add: to_lower_def)

lemma jamoSimilarity_range: "0 \<le> jamoSimilarity a b" "jamoSimilarity a b \<le> 1"
proof -
  let ?x = "decomposeHangul (to_lower a)" and ?y = "decomposeHangul (to_lower b)"
  have "points ?x ?y \<le> of_nat (max (length ?x) (length ?y))"
    using points_le [of ?x ?y] by (meson max.coboundedI1 min.cobounded1 of_nat_mono order_trans)
  then show "jamoSimilarity a b \<le> 1"
    unfolding jamoSimilarity_points by (simp add: divide_le_eq del: of_nat_max)
  show "0 \<le> jamoSimilarity a b"
    unfolding jamoSimilarity_points by (simp add: points_nonneg)
qed

text \<open>
  The similarity of two words is symmetric, lies between 0 and 1, and is 1 exactly when both have the same
  letters, at least one.
\<close>

theorem similarity_measure:
  "jamoSimilarity a b = jamoSimilarity b a \<and> jamoSimilarity a b \<in> {0..1} \<and>
   (jamoSimilarity a b = 1) = (decomposeHangul (to_lower a) = decomposeHangul (to_lower b) \<and> a \<noteq> [])"
proof (intro conjI)
  show "jamoSimilarity a b = jamoSimilarity b a"
    unfolding jamoSimilarity_points by (simp add: points_sym max.commute abs_minus_commute)
  show "jamoSimilarity a b \<in> {0..1}" using jamoSimilarity_range by simp
  let ?x = "decomposeHangul (to_lower a)" and ?y = "decomposeHangul (to_lower b)"
  have "jamoSimilarity a b = 1 \<longleftrightarrow> max (length ?x) (length ?y) \<noteq> 0 \<and> \<bar>int (length ?x) - int (length ?y)\<bar> \<le> 3 \<and>
      points ?x ?y = of_nat (max (length ?x) (length ?y))"
    unfolding jamoSimilarity_points by (simp add: divide_eq_eq_1 del: of_nat_max) metis
  also have "\<dots> \<longleftrightarrow> ?x = ?y \<and> ?x \<noteq> []"
    unfolding points_full by (auto simp del: decomposeHangul_eq_Nil)
  also have "?x \<noteq> [] \<longleftrightarrow> a \<noteq> []" by simp
  finally show "(jamoSimilarity a b = 1) = (?x = ?y \<and> a \<noteq> [])" .
qed

section \<open>The result of a classification\<close>

lemma fuzzyTarget_range: "fuzzyTarget token ts = Some (w, sim) \<Longrightarrow> 0 \<le> sim \<and> sim \<le> 1"
  by (induction ts) (auto simp: jamoSimilarity_range split: if_splits)

lemma fuzzyTokens_range: "fuzzyTokens tokens rest = Some (w, sim) \<Longrightarrow> 0 \<le> sim \<and> sim \<le> 1"
  by (induction rest) (auto simp: Let_def jamoSimilarity_range dest: fuzzyTarget_range split: if_splits option.splits)

lemma wakeConfidence_range: "wakeConfidence l = Some c \<Longrightarrow> 0 \<le> c \<and> c \<le> 1"
  by (auto simp: wakeConfidence_def fuzzyMatchWakeWord_def Let_def dest: fuzzyTokens_range split: if_splits)

lemma confidenceOf_range: "0 \<le> confidenceOf (wakeConfidence l) qw cw qp rp br" "confidenceOf w qw cw qp rp br \<le> 1"
proof -
  have "0 \<le> (case wakeConfidence l of None \<Rightarrow> 0 | Some c \<Rightarrow> c)"
    by (auto dest: wakeConfidence_range split: option.splits)
  then show "0 \<le> confidenceOf (wakeConfidence l) qw cw qp rp br" by (simp add: confidenceOf_def)
qed (simp add: confidenceOf_def)

lemma minutesOf_range: "minutesOf g = Some n \<Longrightarrow> 1 \<le> n \<and> n \<le> 180"
  by (auto simp: minutesOf_def split: option.splits if_splits)

lemma firstMinutes_range: "firstMinutes gs = Some n \<Longrightarrow> 1 \<le> n \<and> n \<le> 180"
  by (induction gs) (auto dest: minutesOf_range split: option.splits)

text \<open>The actions the timer command of the voice bot knows.\<close>

definition timer_actions :: "jstr set" where
  "timer_actions = {[115, 116, 97, 114, 116], [112, 97, 117, 115, 101], [114, 101, 115, 117, 109, 101],
    [101, 120, 116, 101, 110, 100], [115, 116, 111, 112], [115, 116, 97, 116, 117, 115]}"

lemma timerMatch_result:
  "timerMatch ps l = Some (a, m) \<Longrightarrow> a \<in> tp_action ` set ps \<and> m \<in> insert None (Some ` {1..180})"
proof (induction ps)
  case (Cons p ps)
  show ?case
  proof (cases "exec (tp_pattern p) l")
    case None
    then show ?thesis using Cons by simp
  next
    case (Some y)
    have "m = None \<or> (\<exists>n. m = Some n \<and> 1 \<le> n \<and> n \<le> 180)"
      using Cons.prems Some firstMinutes_range by (cases m) (auto split: if_splits)
    then show ?thesis using Cons.prems Some by auto
  qed
qed simp

lemma TIMER_PATTERNS_actions: "tp_action ` set TIMER_PATTERNS \<subseteq> timer_actions"
  by (simp add: TIMER_PATTERNS_def timer_actions_def)

lemma classify_minutes: "timerMinutes (classify t) \<in> insert None (Some ` {1..180})"
  using timerMatch_result [of TIMER_PATTERNS "to_lower (normalizeText t)"]
  by (cases "timerMatch TIMER_PATTERNS (to_lower (normalizeText t))") (auto simp: classify_def Let_def)

text \<open>
  C13. What a classification returns: a confidence between 0 and 1; a timer action, one of the six that the voice bot
  handles, exactly for a timer intent, with between 1 and 180 minutes or none; a search type exactly with a
  category; a keyword of at least two characters or none; and no request for correction once the bot was called.
\<close>

theorem classify_well_typed:
  "in_confidence (classify t) \<in> {0..1} \<and>
   isTimerIntent (classify t) = (timerAction (classify t) \<noteq> None) \<and>
   timerAction (classify t) \<in> insert None (Some ` timer_actions) \<and>
   timerMinutes (classify t) \<in> insert None (Some ` {1..180}) \<and>
   (in_searchType (classify t) = None) = (in_category (classify t) = None) \<and>
   extractedKeyword (classify t) \<in> insert None (Some ` {k. 2 \<le> length k}) \<and>
   \<not> (isCallIntent (classify t) \<and> needsLlmCorrection (classify t))"
proof (intro conjI)
  let ?l = "to_lower (normalizeText t)"
  show "in_confidence (classify t) \<in> {0..1}"
    by (simp add: classify_def Let_def confidenceOf_range)
  show "timerAction (classify t) \<in> insert None (Some ` timer_actions)"
    using timerMatch_result [of TIMER_PATTERNS ?l] TIMER_PATTERNS_actions
    by (cases "timerMatch TIMER_PATTERNS ?l") (auto simp: classify_def Let_def image_subset_iff)
  show "timerMinutes (classify t) \<in> insert None (Some ` {1..180})" by (rule classify_minutes)
  show "extractedKeyword (classify t) \<in> insert None (Some ` {k. 2 \<le> length k})"
    by (simp add: classify_def Let_def extractKeyword_def)
  show "\<not> (isCallIntent (classify t) \<and> needsLlmCorrection (classify t))"
    by (cases "wakeConfidence ?l") (simp_all add: classify_def Let_def)
qed (simp_all add: classify_def Let_def)

section \<open>Categories\<close>

lemma detectCategory_among:
  assumes "i < length CATEGORY_KEYWORDS" and "k \<in> set (fst (snd (CATEGORY_KEYWORDS ! i)))"
    and "str_includes (to_lower k) (to_lower t)"
  shows "\<exists>c st. detectCategory t = Some (c, st) \<and> c \<in> fst ` set (take (Suc i) CATEGORY_KEYWORDS)"
proof -
  define P where "P = (\<lambda>(c :: jstr, ks, st :: jstr). list_ex (\<lambda>k. str_includes (to_lower k) (to_lower t)) ks)"
  have "P (CATEGORY_KEYWORDS ! i)" using assms(2,3) by (auto simp: P_def list_ex_iff split: prod.splits)
  moreover have "CATEGORY_KEYWORDS ! i \<in> set (take (Suc i) CATEGORY_KEYWORDS)"
    using assms(1) by (auto simp: in_set_conv_nth intro!: exI [of _ i])
  ultimately have "filter P (take (Suc i) CATEGORY_KEYWORDS) \<noteq> []" by (auto simp: filter_empty_conv)
  then obtain e es where e: "filter P (take (Suc i) CATEGORY_KEYWORDS) = e # es" by (meson neq_Nil_conv)
  have "filter P CATEGORY_KEYWORDS = (e # es) @ filter P (drop (Suc i) CATEGORY_KEYWORDS)"
    by (metis append_take_drop_id e filter_append)
  then have "detectCategory t = Some (fst e, snd (snd e))"
    by (simp add: detectCategory_def P_def split: prod.splits)
  moreover have "e \<in> set (take (Suc i) CATEGORY_KEYWORDS)"
    using e by (metis filter_is_subset list.set_intros(1) subsetD)
  ultimately show ?thesis by auto
qed

text \<open>
  A text that contains the word for wind is never about the weather: the word contains the keyword for a bar,
  and the category of bars comes before the weather, so the weather keyword for wind has no effect.
\<close>

theorem wind_is_not_weather:
  assumes "str_includes [48148, 46988] (to_lower (normalizeText t))"
  shows "\<not> isWeatherIntent (classify t)"
proof -
  let ?l = "to_lower (normalizeText t)"
  have low: "to_lower ?l = ?l" by (simp add: to_lower_def comp_def)
  obtain a b where "?l = a @ [48148, 46988] @ b" using assms by (auto simp: str_includes_iff)
  then have "str_includes [48148] ?l" unfolding str_includes_iff by (metis append_Cons append_Nil)
  then have "str_includes (to_lower [48148]) (to_lower ?l)" unfolding low by (simp add: to_lower_def)
  moreover have "[48148] \<in> set (fst (snd (CATEGORY_KEYWORDS ! 2)))" "2 < length CATEGORY_KEYWORDS"
    by (simp_all add: CATEGORY_KEYWORDS_def)
  ultimately obtain c st where "detectCategory ?l = Some (c, st)" "c \<in> fst ` set (take (Suc 2) CATEGORY_KEYWORDS)"
    using detectCategory_among [of 2 "[48148]" ?l] by blast
  moreover have "[45216, 50472] \<notin> fst ` set (take (Suc 2) CATEGORY_KEYWORDS)" by (simp add: CATEGORY_KEYWORDS_def)
  ultimately have "map_option fst (detectCategory ?l) \<noteq> Some [45216, 50472]" by (metis option.inject option.map(2) fst_conv)
  then show ?thesis by (simp add: classify_def Let_def)
qed

theorem wind_is_not_weather_witness:
  "str_includes [48148, 46988] (to_lower (normalizeText [50724, 45720, 32, 48148, 46988, 32, 50612,
    46412])) \<and> \<not> isWeatherIntent (classify [50724, 45720, 32, 48148, 46988, 32, 50612,
    46412])"
proof -
  have "str_includes [48148, 46988] (to_lower (normalizeText [50724, 45720, 32, 48148, 46988, 32,
    50612, 46412]))" by code_simp
  with wind_is_not_weather show ?thesis by blast
qed

section \<open>Keywords\<close>

lemma before_or_at_word:
  assumes "mt (seqs (WordB # rs)) (rev u, v, []) y"
  shows "\<exists>c \<in> set (u @ v). is_word c"
proof -
  obtain z where "mt WordB (rev u, v, []) z" using assms mt_seqs_Cons by blast
  then have "word_end (rev u) \<noteq> word_end v" by (auto elim: mt_WordBE)
  then show ?thesis by (auto simp: word_end_def split: list.splits)
qed

lemma particles_kept:
  assumes "\<forall>c \<in> set s. \<not> is_word c"
  shows "replaceAll particles w s = s"
proof (rule replaceAll_no_match)
  show "\<not> test particles s"
    using assms before_or_at_word unfolding test_iff particles_def by blast
qed

lemma set_trim: "set (trim s) \<subseteq> set s"
  unfolding trim_def by (metis set_dropWhileD set_rev subsetI)

lemma set_removeWord: "set (removeWord w s) \<subseteq> set s"
  using set_trim [of "replaceAll (lit w) [] s"] set_replaceAll [of "lit w" "[]" s] by (auto simp: removeWord_def)

lemma set_removeWords: "set (fold removeWord ws s) \<subseteq> set s"
proof (induction ws arbitrary: s)
  case (Cons w ws)
  then show ?case using set_removeWord [of w s] by (metis fold_simps(2) subset_trans)
qed simp

text \<open>
  From a text without ASCII letters and digits, such as a Korean sentence, no particle is ever removed: the
  pattern of the particles asks for word boundaries, which only ASCII characters have. The keyword is what is left
  after the wake words and the command words.
\<close>

theorem particles_stay_in_keyword:
  assumes "list_all (\<lambda>c. \<not> is_word c) t"
  shows "extractKeyword t =
    (let k = trim (replaceAll (plus space) [32] (fold removeWord COMMAND_WORDS (fold removeWord WAKE_WORDS t)))
     in if length k < 2 then None else Some k)"
proof -
  let ?c = "fold removeWord COMMAND_WORDS (fold removeWord WAKE_WORDS t)"
  have "set ?c \<subseteq> set t" using set_removeWords by (meson subset_trans)
  then have "replaceAll particles [32] ?c = ?c" using assms by (intro particles_kept) (auto simp: list_all_iff)
  then show ?thesis by (simp add: extractKeyword_def Let_def)
qed

theorem particles_stay_in_keyword_witness:
  "list_all (\<lambda>c. \<not> is_word c) [44053, 45224, 50669, 50640, 49436, 32, 54028, 49828, 53440,
    47484] \<and> extractKeyword [44053, 45224, 50669, 50640, 49436, 32, 54028, 49828, 53440,
    47484] = Some [44053, 45224, 50669, 50640, 49436, 32, 54028, 49828, 53440, 47484]"
proof -
  have w: "list_all (\<lambda>c. \<not> is_word c) [44053, 45224, 50669, 50640, 49436, 32, 54028,
    49828, 53440, 47484]" by code_simp

      have "(let k = trim (replaceAll (plus space) [32] (fold removeWord COMMAND_WORDS (fold removeWord WAKE_WORDS [44053,
    45224, 50669, 50640, 49436, 32, 54028, 49828, 53440, 47484])))
     in if length k < 2 then None else Some k) = Some [44053, 45224, 50669, 50640, 49436, 32, 54028,
       49828, 53440, 47484]" by code_simp
  with w show ?thesis unfolding particles_stay_in_keyword [OF w] by blast
qed

section \<open>Timer phrases\<close>

lemma mt_spaces: "list_all is_space w \<Longrightarrow> mt (star space) (b, w @ a, k) (rev w @ b, a, k)"
  unfolding space_def mt_star_Cls using in_spaces by (auto simp: list_all_iff)

definition is_digit :: "int \<Rightarrow> bool" where
  "is_digit c \<longleftrightarrow> 48 \<le> c \<and> c \<le> 57"

lemma mt_digits: "list_all is_digit w \<Longrightarrow> w \<noteq> [] \<Longrightarrow> mt (plus digit) (b, w @ a, k) (rev w @ b, a, k)"
  unfolding digit_def mt_plus_Cls by (auto simp: list_all_iff is_digit_def)

lemma mt_lit_intro: "mt (lit s) (b, s @ a, k) (rev s @ b, a, k)"
  by (auto simp: mt_lit)

text \<open>A timer phrase: the word for timer, a number and the word for minutes, with white space in between.\<close>

definition timer_phrase :: "jstr \<Rightarrow> jstr \<Rightarrow> jstr \<Rightarrow> jstr" where
  "timer_phrase s1 ds s2 = [53440, 51060, 47672] @ s1 @ ds @ s2 @ [48516]"

lemma mt_no_spaces: "mt (star space) x x"
  using mt_spaces [of "[]"] by (cases x) simp

lemma mt_opt_skip: "mt (opt r) x x"
  by (simp add: mt_opt)

lemma mt_cap_digits:
  assumes "list_all is_digit w" "w \<noteq> []"
  shows "mt (Cap n (plus digit)) (b, w @ a, k) (rev w @ b, a, jset n w k)"
proof -
  have "capture n (b, w @ a, k) (rev w @ b, a, k) = (rev w @ b, a, jset n w k)" by (simp add: consumed_def)
  with mt_Cap [OF mt_digits [OF assms, of b a k], of n] show ?thesis by simp
qed

lemma timer_phrase_matches:
  assumes "list_all is_space s1" "list_all is_space s2" "list_all is_digit ds" "ds \<noteq> []"
  shows "test (tp_pattern (hd TIMER_PATTERNS)) (u @ timer_phrase s1 ds s2 @ v)"
proof -
  note i = mt_seqs_intro
  have "\<exists>y. mt (seqs [lit [53440, 51060, 47672], star space, Cap 1 (plus digit), star space,
    lit [48516], star space, opt r])
      (rev u, [53440, 51060, 47672] @ s1 @ ds @ s2 @ [48516] @ v, []) y" for r
    by (rule exI, rule i [OF mt_lit_intro], rule i [OF mt_spaces [OF assms(1)]], rule i [OF mt_cap_digits [OF assms(3,4)]],
        rule i [OF mt_spaces [OF assms(2)]], rule i [OF mt_lit_intro], rule i [OF mt_no_spaces], rule i [OF mt_opt_skip]) simp
  then show ?thesis
    unfolding test_iff TIMER_PATTERNS_def list.sel TimerPattern.simps timer_phrase_def append_assoc by blast
qed

lemma timerMatch_hd:
  assumes "test (tp_pattern (hd ps)) l" "ps \<noteq> []"
  shows "map_option fst (timerMatch ps l) = Some (tp_action (hd ps))"
  using assms by (cases ps) (auto simp: test_def)

text \<open>
  A text with a timer phrase, the word for timer followed by a number of minutes, asks to start a timer, whatever
  comes after it: the pattern for starting comes first and its verb is optional, so the pattern for extending a
  timer by a number of minutes is never reached for such a text.
\<close>

lemma timer_phrase_always_starts:
  assumes "list_all is_space s1" "list_all is_space s2" "list_all is_digit ds" "ds \<noteq> []"
    and "to_lower (normalizeText t) = u @ timer_phrase s1 ds s2 @ v"
  shows "isTimerIntent (classify t) \<and> timerAction (classify t) = Some [115, 116, 97, 114, 116]"
proof -
  let ?l = "to_lower (normalizeText t)"
  have "map_option fst (timerMatch TIMER_PATTERNS ?l) = Some (tp_action (hd TIMER_PATTERNS))"
    using timer_phrase_matches [OF assms(1-4), of u v] assms(5) by (intro timerMatch_hd) (simp_all add: TIMER_PATTERNS_def)
  also have "tp_action (hd TIMER_PATTERNS) = [115, 116, 97, 114, 116]" by (simp add: TIMER_PATTERNS_def)
  finally show ?thesis by (auto simp: classify_def Let_def)
qed

section \<open>The wake-word patterns\<close>

text \<open>
  A scanner that does what the three patterns do: the first letter decides; after a greeting one more letter of it
  and white space may follow.
\<close>

definition afterGreeting :: "jstr \<Rightarrow> jstr" where
  "afterGreeting s = dropWhile is_space (case s of [] \<Rightarrow> [] | c # s' \<Rightarrow> if c = 51060 then s' else s)"

fun begins :: "jstr \<Rightarrow> int set list \<Rightarrow> bool" where
  "begins s [] = True"
| "begins [] (X # Xs) = False"
| "begins (c # s) (X # Xs) = (c \<in> X \<and> begins s Xs)"

definition wakeScanner :: "jstr \<Rightarrow> bool" where
  "wakeScanner s = (begins s [{50500}, {50864, 50724, 50612}, {46972, 45208, 45796}]
     \<or> (begins s [{54644, 54756, 50640, 54812}] \<and> begins (afterGreeting (tl s)) [{50500},
       {50864, 50724}]))"

lemma begins_Cons: "begins s (X # Xs) \<longleftrightarrow> (\<exists>c s'. s = c # s' \<and> c \<in> X \<and> begins s' Xs)"
  by (cases s) simp_all

lemma in_ranges_single: "in_ranges c ((a, a) # rs) \<longleftrightarrow> c = a \<or> in_ranges c rs"
  by auto

definition matchable :: "rx list \<Rightarrow> jstr \<Rightarrow> jstr \<Rightarrow> bool" where
  "matchable rs b a \<longleftrightarrow> (\<exists>y. mt (seqs rs) (b, a, []) y)"

lemma matchable_Nil: "matchable [] b a"
  by (simp add: matchable_def)

lemma matchable_Cls: "matchable (Cls rs # ps) b a \<longleftrightarrow> (\<exists>c a'. a = c # a' \<and> in_ranges c rs \<and> matchable ps (c # b) a')"
  unfolding matchable_def mt_seqs_Cons mt_Cls_iff by blast

lemma matchable_lit: "matchable (lit s # ps) b a \<longleftrightarrow> (\<exists>a'. a = s @ a' \<and> matchable ps (rev s @ b) a')"
  unfolding matchable_def mt_seqs_Cons mt_lit by blast

lemma matchable_opt_last: "matchable [opt r] b a"
  unfolding matchable_def mt_seqs_Cons mt_seqs_Nil using mt_opt_skip by blast

lemma mt_opt_one:
  "mt (opt (Cls rs)) (b, a, k) y \<longleftrightarrow> y = (b, a, k) \<or> (\<exists>c a'. a = c # a' \<and> in_ranges c rs \<and> y = (c # b, a', k))"
  "mt (opt (lit [c])) (b, a, k) y \<longleftrightarrow> y = (b, a, k) \<or> (\<exists>a'. a = c # a' \<and> y = (c # b, a', k))"
  by (auto simp: mt_opt mt_Cls_iff mt_lit progress_def)

lemma matchable_opt_Cls:
  "matchable (opt (Cls rs) # ps) b a \<longleftrightarrow> matchable ps b a \<or> (\<exists>c a'. a = c # a' \<and> in_ranges c rs \<and> matchable ps (c # b) a')"
  unfolding matchable_def mt_seqs_Cons mt_opt_one by blast

lemma matchable_opt_lit:
  "matchable (opt (lit [c]) # ps) b a \<longleftrightarrow> matchable ps b a \<or> (\<exists>a'. a = c # a' \<and> matchable ps (c # b) a')"
  unfolding matchable_def mt_seqs_Cons mt_opt_one by blast

lemma test_from_start: "test (seqs (Bol # ps)) s \<longleftrightarrow> matchable ps [] s"
proof -
  have "mt Bol (rev u, v, []) y \<longleftrightarrow> u = [] \<and> y = ([], v, [])" for u v y
    by (auto intro: mt_Bol elim: mt_BolE)
  then show ?thesis unfolding test_iff mt_seqs_Cons matchable_def by (metis append_Nil)
qed

lemma spaces_iff: "in_ranges c spaces \<longleftrightarrow> is_space c"
proof
  assume "in_ranges c spaces"
  then have "9 \<le> c \<and> c \<le> 13 \<or> c \<in> {32, 160, 5760, 8239, 8287, 12288,
    65279} \<or> 8192 \<le> c \<and> c \<le> 8202 \<or> 8232 \<le> c \<and> c \<le> 8233"
    unfolding spaces_def in_ranges_simps by (elim disjE) auto
  moreover have "9 \<le> c \<and> c \<le> 13 \<Longrightarrow> c \<in> {9, 10, 11, 12,
    13}" "8232 \<le> c \<and> c \<le> 8233 \<Longrightarrow> c \<in> {8232, 8233}" by auto
  ultimately show "is_space c" unfolding is_space_def by blast
qed (rule in_spaces)

lemma matchable_spaces:
  "matchable (star space # ps) b a \<longleftrightarrow> (\<exists>w a'. a = w @ a' \<and> list_all is_space w \<and> matchable ps (rev w @ b) a')"
  unfolding matchable_def mt_seqs_Cons space_def mt_star_Cls spaces_iff by blast

lemma drop_spaces:
  assumes "list_all is_space w" "\<not> is_space c"
  shows "dropWhile is_space (w @ c # a) = c # a"
  using assms by (simp add: list_all_iff dropWhile_append2)

text \<open>White space and a letter that is no white space: the white space is skipped.\<close>

lemma matchable_spaces_lit:
  assumes "\<not> is_space c" and same: "\<And>b a. matchable ps b a \<longleftrightarrow> begins a Xs"
  shows "matchable (star space # lit [c] # ps) b a \<longleftrightarrow> begins (dropWhile is_space a) ({c} # Xs)"
proof -
  have "matchable (star space # lit [c] # ps) b a \<longleftrightarrow> (\<exists>w a'. a = w @ c # a' \<and> list_all is_space w \<and> begins a' Xs)"
    unfolding matchable_spaces matchable_lit same by fastforce
  also have "\<dots> \<longleftrightarrow> (\<exists>a'. dropWhile is_space a = c # a' \<and> begins a' Xs)"
  proof
    assume "\<exists>a'. dropWhile is_space a = c # a' \<and> begins a' Xs"
    then show "\<exists>w a'. a = w @ c # a' \<and> list_all is_space w \<and> begins a' Xs"
      by (metis takeWhile_dropWhile_id set_takeWhileD list_all_iff)
  qed (use assms(1) drop_spaces in blast)
  finally show ?thesis unfolding begins_Cons by blast
qed

lemma matchable_greeting:
  assumes "\<And>b a. matchable ps b a \<longleftrightarrow> begins (dropWhile is_space a) (X # Xs)" and "51060 \<notin> X"
  shows "matchable (opt (Cls [(51060, 51060)]) # ps) b a \<longleftrightarrow> begins (afterGreeting a) (X # Xs)"
    and "matchable (opt (lit [51060]) # ps) b a \<longleftrightarrow> begins (afterGreeting a) (X # Xs)"
proof -
  have "\<not> is_space 51060" by (simp add: is_space_def)
  then show "matchable (opt (Cls [(51060, 51060)]) # ps) b a \<longleftrightarrow> begins (afterGreeting a) (X # Xs)"
    "matchable (opt (lit [51060]) # ps) b a \<longleftrightarrow> begins (afterGreeting a) (X # Xs)"
    unfolding matchable_opt_Cls matchable_opt_lit assms(1) afterGreeting_def
    using assms(2) by (auto simp: begins_Cons split: list.splits if_splits)
qed

lemma matchable_vowels:
  "matchable [Cls [(50864, 50864), (50724, 50724)]] b a \<longleftrightarrow> begins a [{50864, 50724}]"
  "matchable [Cls [(50864, 50864), (50724, 50724)], Cls [(46972, 46972), (45208, 45208)]] b a \<longleftrightarrow>
     begins a [{50864, 50724}, {46972, 45208}]"
  unfolding matchable_Cls in_ranges_single begins_Cons by (auto simp: matchable_Nil)

text \<open>
  C12. The three wake-word patterns accept exactly the texts that the scanner accepts: a call, or a greeting with an
  optional second letter and white space before the first two letters of the name. The second pattern accepts
  nothing that the third does not.
\<close>

theorem wake_patterns_scan: "regexMatchWakeWord t = wakeScanner (trim (to_lower t))"
proof -
  let ?s = "trim (to_lower t)"
  have a: "\<not> is_space 50500" by (simp add: is_space_def)
  note g = matchable_greeting [OF matchable_spaces_lit [OF a matchable_vowels(1)]]
    matchable_greeting [OF matchable_spaces_lit [OF a matchable_vowels(2)]]
  have 1: "test (WAKE_WORD_PATTERNS ! 0) ?s \<longleftrightarrow> begins ?s [{50500}, {50864, 50724,
    50612}, {46972, 45208, 45796}]"
    unfolding WAKE_WORD_PATTERNS_def nth_Cons_0 test_from_start matchable_lit matchable_Cls in_ranges_single begins_Cons
    by (auto simp: matchable_opt_last)
  have 2: "test (WAKE_WORD_PATTERNS ! 1) ?s \<longleftrightarrow>
      begins ?s [{54756}] \<and> begins (afterGreeting (tl ?s)) [{50500}, {50864, 50724}, {46972, 45208}]"
    unfolding WAKE_WORD_PATTERNS_def using g(4)
    by (auto simp: test_from_start matchable_lit begins_Cons)
  have 3: "test (WAKE_WORD_PATTERNS ! 2) ?s \<longleftrightarrow>
      begins ?s [{54644, 54756, 50640, 54812}] \<and> begins (afterGreeting (tl ?s)) [{50500}, {50864,
        50724}]"
    unfolding WAKE_WORD_PATTERNS_def using g(1)
    by (auto simp: test_from_start matchable_Cls in_ranges_single begins_Cons)
  have "regexMatchWakeWord t \<longleftrightarrow> test (WAKE_WORD_PATTERNS ! 0) ?s \<or> test (WAKE_WORD_PATTERNS ! 1) ?s \<or> test (WAKE_WORD_PATTERNS ! 2) ?s"
    by (simp add: regexMatchWakeWord_def WAKE_WORD_PATTERNS_def)
  also have "\<dots> \<longleftrightarrow> wakeScanner ?s"
    unfolding 1 2 3 wakeScanner_def begins_Cons by auto
  finally show ?thesis .
qed

end
