(* ===== verification/VoiceTurn.thy ===== *)
theory VoiceTurn
  imports RoomState MeetingTimer IntentClassifier
begin

text \<open>
  The turn of the voice bot, \<open>processAndRespond\<close> of \<open>src/livekit/voice-bot.service.ts\<close> with
  \<open>speakAndPublish\<close>, the vision requests, the diagram explanation, the timer commands and the timer
  alerts. Speech recognition, speech synthesis, the language model, the agent, the calendar and the
  intent classifier answer through the fields of \<open>voice_env\<close>; a field of option type is \<open>None\<close> when
  the call rejects, which is an exception of the caller. A turn runs from its gate to its \<open>finally\<close>
  block; \<open>runTurn\<close> is a turn that no other handler interrupts. How turns and the other handlers that set the publishing
  flag interleave is the subject of \<open>Publishing\<close>. What the bot publishes is a list of outputs.
\<close>

section \<open>Types\<close>

record VoiceIntent =
  vi_shouldRespond :: bool
  correctedText :: jstr
  vi_searchKeyword :: "jstr option"
  vi_category :: "jstr option"

record LlmResult =
  lr_text :: jstr
  lr_searchResults :: nat
  lr_ragSources :: nat

record AgentResult =
  ag_response :: jstr
  ag_searchResults :: nat

text \<open>The outcome of scheduling: the reply about the new event, or \<open>None\<close> without a common free slot.\<close>

record CalendarResult =
  cal_reply :: "jstr option"

datatype bot_msg =
    OPEN_IDEA_BOARD
  | OPEN_FLOWCHART_BOARD jstr
  | TIMER_UPDATE jstr "TimerData option"
  | TIMER_ALERT TimerEvent TimerData
  | VISION_CAPTURE_REQUEST int
  | VISION_RESULT int jstr
  | SEARCH_ANSWER jstr
  | AI_TEXT_RESPONSE jstr
  | AI_DOCUMENT_SHOW jstr nat
  | CALENDAR_EVENT_CREATED int
  | AI_OPINION jstr
  | NEW_IDEA jstr jstr
  | AI_STATE jstr "jstr option"

text \<open>Messages to all (\<open>None\<close>) or some participants, synthesised audio, and a delayed idle state.\<close>

datatype bot_out =
    Publish bot_msg "jstr list option"
  | Audio jstr
  | IdleAfter int

record voice_env =
  t_end :: int
  synthesizePcm :: "jstr \<Rightarrow> nat option"
  answerWithContext :: "jstr \<Rightarrow> jstr \<Rightarrow> jstr \<Rightarrow> jstr option"
  processVoiceIntent :: "jstr \<Rightarrow> IntentAnalysis \<Rightarrow> VoiceIntent option"
  buildSearchPlan :: "jstr \<Rightarrow> unit option"
  sendMessage :: "jstr \<Rightarrow> LlmResult option"
  runAgent :: "jstr \<Rightarrow> ConversationTurn list \<Rightarrow> AgentResult option"
  offerOpinion :: "jstr \<Rightarrow> (jstr \<times> jstr) option"
  calParticipants :: int
  scheduleMeeting :: "CalendarResult option"
  sendMessagePure :: "jstr \<Rightarrow> jstr option"
  analyzeScreen :: "jstr \<Rightarrow> jstr option"
  imageValid :: bool
  slowLlm :: bool
  thinkingPhrase :: jstr
  connector :: jstr

text \<open>The room context together with the timers of the server.\<close>

record voice_st =
  vc :: RoomContext
  vt :: timer_env

text \<open>A result: the state, the outputs and whether an exception is under way.\<close>

type_synonym outcome = "voice_st \<times> bot_out list \<times> bool"

definition andThen :: "outcome \<Rightarrow> (voice_st \<Rightarrow> outcome) \<Rightarrow> outcome" where
  "andThen x k = (case x of (s, os, thrown) \<Rightarrow>
     if thrown then x else (case k s of (s1, os1, b) \<Rightarrow> (s1, os @ os1, b)))"

definition onThrow :: "outcome \<Rightarrow> (voice_st \<Rightarrow> outcome) \<Rightarrow> outcome" where
  "onThrow x k = (case x of (s, os, thrown) \<Rightarrow>
     if thrown then (case k s of (s1, os1, b) \<Rightarrow> (s1, os @ os1, b)) else x)"

definition ok :: "voice_st \<Rightarrow> outcome" where "ok s = (s, [], False)"

definition onCtx :: "(RoomContext \<Rightarrow> RoomContext) \<Rightarrow> voice_st \<Rightarrow> voice_st" where
  "onCtx f s = s\<lparr>vc := f (vc s)\<rparr>"

definition emit :: "bot_out \<Rightarrow> voice_st \<Rightarrow> outcome" where "emit x s = (s, [x], False)"

definition setState :: "BotState \<Rightarrow> voice_st \<Rightarrow> voice_st" where
  "setState b = onCtx (\<lambda>c. c\<lparr>botState := b\<rparr>)"

section \<open>Speaking\<close>

definition broadcastAiState :: "jstr \<Rightarrow> jstr option \<Rightarrow> bot_out" where
  "broadcastAiState state resp = Publish (AI_STATE state resp) None"

definition sendTextCardToHost :: "RoomContext \<Rightarrow> jstr \<Rightarrow> bot_out list" where
  "sendTextCardToHost c m =
     (if hostIdentities c = [] then [] else [Publish (AI_TEXT_RESPONSE m) (Some (hostIdentities c))])"

definition readingTime :: "jstr \<Rightarrow> int" where
  "readingTime m = min (int (length m) * 50) 5000"

definition textCard :: "RoomContext \<Rightarrow> jstr \<Rightarrow> bot_out list" where
  "textCard c m = broadcastAiState (js ''speaking'') (Some m) # sendTextCardToHost c m @ [IdleAfter (readingTime m)]"

definition speakAndPublish :: "voice_env \<Rightarrow> int \<Rightarrow> jstr \<Rightarrow> bool \<Rightarrow> voice_st \<Rightarrow> outcome" where
  "speakAndPublish env rid m skipTextCard s =
     (let c = vc s
      in if aiMuted c then ok s
         else if \<not> speakingEnabled c then (s, textCard c m, False)
         else if hostOnlyMode c \<and> hostIdentities c \<noteq> [] \<and> \<not> speakingEnabled c then
           (if skipTextCard
            then (s, [broadcastAiState (js ''speaking'') (Some m), IdleAfter (readingTime m)], False)
            else (s, textCard c m, False))
         else (case synthesizePcm env m of
             None \<Rightarrow> (s, [], True)
           | Some n \<Rightarrow>
               let s1 = onCtx (\<lambda>c. c\<lparr>speakingStartTime := t_end env\<rparr>) s
               in if currentRequestId c \<noteq> rid \<and> currentRequestId c \<noteq> 0 then ok s1
                  else (onCtx (\<lambda>c. c\<lparr>shouldInterrupt := False\<rparr>) s1,
                        [broadcastAiState (js ''speaking'') (Some m), Audio m, broadcastAiState (js ''idle'') None], False)))"

text \<open>Say something between two bot states, and note the time of the response.\<close>

definition sayThen :: "voice_env \<Rightarrow> int \<Rightarrow> jstr \<Rightarrow> BotState \<Rightarrow> voice_st \<Rightarrow> outcome" where
  "sayThen env rid m after s =
     andThen (speakAndPublish env rid m False (setState SPEAKING s))
       (\<lambda>s. ok (onCtx (\<lambda>c. c\<lparr>botState := after, lastResponseTime := t_end env\<rparr>) s))"

section \<open>Gate and end of a turn\<close>

datatype skip = AlreadyResponding | VisionInProgress | ResponseCooldown

definition RESPONSE_COOLDOWN_MS :: int where "RESPONSE_COOLDOWN_MS = 3000"

text \<open>
  From the check of \<open>isPublishing\<close> to its setting there is no suspension; the id of the request is
  the time.
\<close>

definition turnGate :: "int \<Rightarrow> RoomContext \<Rightarrow> skip + RoomContext" where
  "turnGate now c =
     (if isPublishing c then Inl AlreadyResponding
      else if isVisionMode c then Inl VisionInProgress
      else if lastResponseTime c > 0 \<and> now - lastResponseTime c < RESPONSE_COOLDOWN_MS then Inl ResponseCooldown
      else Inr (c\<lparr>currentRequestId := (if isVisionMode c then currentRequestId c else now), isPublishing := True,
                  publishingStartTime := now\<rparr>))"

definition turnFinally :: "int \<Rightarrow> RoomContext \<Rightarrow> RoomContext" where
  "turnFinally rid c =
     (if currentRequestId c = rid then c\<lparr>isPublishing := False, publishingStartTime := 0\<rparr> else c)"

section \<open>Vision requests\<close>

definition resetVisionState :: "RoomContext \<Rightarrow> RoomContext" where
  "resetVisionState c = c\<lparr>botState := SLEEP, isVisionMode := False, pendingVisionRequest := None\<rparr>"

definition sendVisionCaptureRequest :: "int \<Rightarrow> jstr \<Rightarrow> jstr \<Rightarrow> voice_st \<Rightarrow> outcome" where
  "sendVisionCaptureRequest rid q user s =
     (onCtx (\<lambda>c. c\<lparr>pendingVisionRequest := Some \<lparr>vr_requestId = rid, vr_userQuestion = q, vr_userId = user\<rparr>,
               isVisionMode := True\<rparr>) s,
      [Publish (VISION_CAPTURE_REQUEST rid) None], False)"

definition visionBusy :: "int \<Rightarrow> RoomContext \<Rightarrow> bool" where
  "visionBusy now c = (case pendingVisionRequest c of
      None \<Rightarrow> False
    | Some v \<Rightarrow> isVisionMode c \<and> now - vr_requestId v < 10000)"

definition processVisionIntent :: "int \<Rightarrow> jstr \<Rightarrow> jstr \<Rightarrow> voice_st \<Rightarrow> bool \<times> outcome" where
  "processVisionIntent now q user s =
     (if \<not> hasActiveScreenShare (vc s) then (False, ok s)
      else if visionBusy now (vc s) then (False, ok s)
      else (True, sendVisionCaptureRequest now q user s))"

text \<open>What the answer to a capture request does to the room when it begins and when it ends.\<close>

definition visionBegin :: "int \<Rightarrow> int \<Rightarrow> RoomContext \<Rightarrow> RoomContext" where
  [simp]: "visionBegin now rid c = c\<lparr>isPublishing := True, publishingStartTime := now, currentRequestId := rid\<rparr>"

definition visionEnd :: "int \<Rightarrow> RoomContext \<Rightarrow> RoomContext" where
  [simp]: "visionEnd now c = (resetVisionState c)\<lparr>lastResponseTime := now, lastSpeechTime := now, isPublishing := False, publishingStartTime := 0\<rparr>"

text \<open>
  The answer to a capture request, with the lock of the room free; the apology after a failure may
  fail as well, and the clean-up always runs.
\<close>

definition handleVisionCaptureResponse :: "voice_env \<Rightarrow> int \<Rightarrow> int \<Rightarrow> jstr \<Rightarrow> voice_st \<Rightarrow> voice_st \<times> bot_out list" where
  "handleVisionCaptureResponse env now rid0 img s = (case pendingVisionRequest (vc s) of
      None \<Rightarrow> (s, [])
    | Some v \<Rightarrow>
        if rid0 \<noteq> vr_requestId v then (s, [])
        else
          let rid = vr_requestId v;
              s1 = onCtx (visionBegin now rid) s;
              body = (if \<not> imageValid env
                then speakAndPublish env rid [54868, 47732, 51012, 32, 52897, 52376, 54616, 45716,
                  45936, 32, 47928, 51228, 44032, 32, 51080, 50612, 50836, 46, 32, 45796, 49884, 32,
                  54620, 48264, 32, 47568, 50432, 54644, 51452, 49464, 50836, 46] False s1
                else
                  let s2 = onCtx (\<lambda>c. c\<lparr>botState := SPEAKING, speakingStartTime := now\<rparr>) s1;
                      think = (if hostOnlyMode (vc s2) then ok s2 else speakAndPublish env rid (thinkingPhrase env) False s2)
                  in andThen think (\<lambda>s. case analyzeScreen env img of
                        None \<Rightarrow> (s, [], True)
                      | Some result \<Rightarrow> andThen (emit (Publish (VISION_RESULT rid result) None) s)
                          (speakAndPublish env rid result False)));
              (s3, os, _) = onThrow body (speakAndPublish env rid [54868, 47732, 32, 48516, 49437, 32,
                51473, 50640, 32, 47928, 51228, 44032, 32, 49373, 44220, 50612, 50836, 46, 32, 45796,
                49884, 32, 54620, 48264, 32, 54644, 48380, 44172, 50836, 46] False)
          in (onCtx (visionEnd (t_end env)) s3, os))"

section \<open>Other speakers of the bot\<close>

definition typeLabels :: "(jstr, jstr) jmap" where
  "typeLabels = [(js ''flowchart'', [54540, 47196, 50864, 52264, 53944]), (js ''erd'', [69, 82, 68]),
    (js ''sequence'', [49884, 53248, 49828, 32, 45796, 51060, 50612, 44536, 47016]),
     (js ''architecture'', [50500, 53412, 53581, 52376, 32, 45796, 51060, 50612, 44536, 47016])]"

definition typeLabel :: "jstr \<Rightarrow> jstr" where
  "typeLabel t = (case jget typeLabels t of None \<Rightarrow> t | Some l \<Rightarrow> l)"

definition explainPrompt :: "jstr \<Rightarrow> jstr \<Rightarrow> jstr" where
  "explainPrompt ty code = [45796, 51020, 32] @ typeLabel ty @ [32, 45796, 51060, 50612, 44536, 47016,
    51012, 32, 50, 47928, 51109, 51004, 47196, 32, 50500, 51452, 32, 44036, 44208, 54616, 44172, 32,
    49444, 47749, 54644, 51452, 49464, 50836, 46, 32, 44592, 49696, 51201, 51064, 32, 45236, 50857, 32,
    50948, 51452, 47196, 32, 47568, 54644, 51452, 49464, 50836, 46, 10, 10, 45796, 51060, 50612, 44536,
    47016, 32, 53076, 46300, 58, 10] @ take 500 code @ [10, 10, 49444, 47749, 58]"

definition explainBegin :: "int \<Rightarrow> RoomContext \<Rightarrow> RoomContext" where
  [simp]: "explainBegin now c = c\<lparr>currentRequestId := now, isPublishing := True, publishingStartTime := now, botState := SPEAKING\<rparr>"

definition explainEnd :: "RoomContext \<Rightarrow> RoomContext" where
  [simp]: "explainEnd c = c\<lparr>isPublishing := False, publishingStartTime := 0\<rparr>"

definition explainGeneratedDiagrams :: "voice_env \<Rightarrow> int \<Rightarrow> jstr list \<Rightarrow> (jstr, jstr) jmap \<Rightarrow> voice_st \<Rightarrow> voice_st \<times> bot_out list" where
  "explainGeneratedDiagrams env now types codes s =
     (if \<not> designModeActive (vc s) \<or> isPublishing (vc s) then (s, [])
      else
        let s1 = onCtx (explainBegin now) s;
            code = (case types of [] \<Rightarrow> None | t # _ \<Rightarrow> jget codes t);
            explanation = (if truthy_str code then sendMessagePure env (explainPrompt (hd types) (the code)) else Some []);
            (s2, os, _) = (case explanation of
                None \<Rightarrow> (s1, [], True)
              | Some x \<Rightarrow> sayThen env now (
                  [54924, 51032, 32, 45236, 50857, 51012, 32, 48516, 49437, 54644, 49436,
                    32] @ join [44, 32] (map typeLabel types) @ [47484, 32, 49373, 49457, 54664, 50612,
                    50836, 46] @
                  (if trim x = [] then [] else [32] @ trim x) @
                  [32, 45796, 51060, 50612, 44536, 47016, 50640, 32, 45824, 54644, 32, 45908, 32,
                    44417, 44552, 54620, 32, 44172, 32, 51080, 51004, 49884, 47732, 32, 51656, 47928,
                    54644, 51452, 49464, 50836, 46]) ARMED s1)
        in (onCtx explainEnd s2, os))"

text \<open>The callback of the timers: an alert to everybody, then spoken unless the bot is muted.\<close>

definition alertText :: "TimerEvent \<Rightarrow> TimerData \<Rightarrow> jstr" where
  "alertText ev d = (case ev of
      EvWarning \<Rightarrow> [54924, 51032, 32, 51333, 47308, 32] @ jint (warningMinutes d) @ [48516,
        32, 51204, 51077, 45768, 45796, 46]
    | EvEnded \<Rightarrow> [54924, 51032, 32, 49884, 44036, 51060, 32, 51333, 47308, 46104, 50632,
      49845, 45768, 45796, 46])"

definition alertBegin :: "RoomContext \<Rightarrow> RoomContext" where
  [simp]: "alertBegin c = c\<lparr>currentRequestId := currentRequestId c + 1, botState := SPEAKING\<rparr>"

definition timerAlert :: "voice_env \<Rightarrow> TimerEvent \<Rightarrow> TimerData \<Rightarrow> voice_st \<Rightarrow> voice_st \<times> bot_out list" where
  "timerAlert env ev d s =
     (if aiMuted (vc s) then (s, [Publish (TIMER_ALERT ev d) None])
      else
        let rid = currentRequestId (vc s) + 1;
            s1 = onCtx alertBegin s;
            (s2, os, _) = andThen (speakAndPublish env rid (alertText ev d) False s1) (\<lambda>s. ok (setState ARMED s))
        in (s2, Publish (TIMER_ALERT ev d) None # os))"

section \<open>Timer commands\<close>

definition warnDefault :: "int \<Rightarrow> int" where
  "warnDefault target = max 1 (target * 15 div 100)"

text \<open>A command of the front end; an unknown action has no effect.\<close>

definition handleTimerCommand :: "int \<Rightarrow> jstr \<Rightarrow> jstr \<Rightarrow> int option \<Rightarrow> int option \<Rightarrow> timer_env \<Rightarrow> timer_env \<times> bot_out list" where
  "handleTimerCommand now r action minutes warn ts =
     (let reply = (\<lambda>(res, ts1). (ts1, [Publish (TIMER_UPDATE action res) None]))
      in if action = js ''start'' then
           (let target = num_or minutes 30;
                (t, ts1) = startTimer now r target (num_or warn (warnDefault target)) ts
            in reply (Some t, ts1))
         else if action = js ''pause'' then reply (pauseTimer r ts)
         else if action = js ''resume'' then reply (resumeTimer now r ts)
         else if action = js ''extend'' then reply (extendTimer now r (num_or minutes 10) ts)
         else if action = js ''stop'' then reply (stopTimer r ts)
         else if action = js ''status'' then reply (getTimerStatus r ts, ts)
         else (ts, []))"

text \<open>A spoken command: what the bot answers, the timer shown and the timers.\<close>

definition statusText :: "TimerData \<Rightarrow> jstr" where
  "statusText d = (let x = remainingSeconds d
     in [54788, 51116, 32] @ jint (x div 60) @ [48516,
       32] @ jint (if x < 0 then - ((- x) mod 60) else x mod 60) @ [52488, 32, 45224, 50520, 49845,
       45768, 45796, 46])"

definition timerIntent :: "int \<Rightarrow> jstr \<Rightarrow> IntentAnalysis \<Rightarrow> timer_env \<Rightarrow> jstr \<times> TimerData option \<times> timer_env" where
  "timerIntent now r i ts =
     (let action = str_or (timerAction i) (js ''status'');
          orElse = (\<lambda>(res, ts1) yes no. (if res = None then no else yes, res, ts1))
      in if action = js ''start'' then
           (let target = num_or (timerMinutes i) 30; w = warnDefault target; (t, ts1) = startTimer now r target w ts
            in (jint target @ [48516, 32, 53440, 51060, 47672, 47484, 32, 49884, 51089, 54633, 45768,
              45796, 46, 32] @ jint w @ [48516, 32, 51204, 50640, 32, 50508, 47548, 51012, 32, 46300,
              47540, 44172, 50836, 46], Some t, ts1))
         else if action = js ''pause'' then orElse (pauseTimer r ts) [53440, 51060, 47672, 47484, 32,
           51068, 49884, 51221, 51648, 54664, 49845, 45768, 45796, 46] [49892, 54665, 32, 51473, 51064,
           32, 53440, 51060, 47672, 44032, 32, 50630, 49845, 45768, 45796, 46]
         else if action = js ''resume'' then orElse (resumeTimer now r ts) [53440, 51060, 47672, 47484,
           32, 51116, 44060, 54633, 45768, 45796, 46] [51068, 49884, 51221, 51648, 46108, 32, 53440,
           51060, 47672, 44032, 32, 50630, 49845, 45768, 45796, 46]
         else if action = js ''extend'' then

                        orElse (extendTimer now r (num_or (timerMinutes i) 10) ts) (jint (num_or (timerMinutes i) 10) @ [48516,
             32, 50672, 51109, 54664, 49845, 45768, 45796, 46]) [53440, 51060, 47672, 44032, 32, 50630,
             49845, 45768, 45796, 46]
         else if action = js ''stop'' then orElse (stopTimer r ts) [53440, 51060, 47672, 47484, 32,
           51473, 51648, 54664, 49845, 45768, 45796, 46] [53440, 51060, 47672, 44032, 32, 50630, 49845,
           45768, 45796, 46]
         else if action = js ''status'' then
           (case getTimerStatus r ts of
              Some d \<Rightarrow> (statusText d, Some d, ts)
            | None \<Rightarrow> ([49444, 51221, 46108, 32, 53440, 51060, 47672, 44032, 32, 50630,
              49845, 45768, 45796, 46], None, ts))
         else ([], None, ts))"

section \<open>Ideas\<close>

definition dropSuffix :: "jstr \<Rightarrow> jstr \<Rightarrow> jstr option" where
  "dropSuffix x s = (if starts_with (rev x) (rev s) then Some (take (length s - length x) s) else None)"

definition firstSome :: "('a \<Rightarrow> 'b option) \<Rightarrow> 'a list \<Rightarrow> 'b option" where
  "firstSome f xs = (case List.map_filter f xs of [] \<Rightarrow> None | y # _ \<Rightarrow> Some y)"

definition rstrip :: "jstr \<Rightarrow> jstr" where
  "rstrip s = rev (dropWhile is_space (rev s))"

text \<open>
  The replacements of \<open>extractIdeaContent\<close>. No ending of a list is the end of another one, so the
  leftmost match of a pattern at the end of the text is the ending, the space before it and, in the
  first pattern, the topic particle before that.
\<close>

definition stripIdeaWake :: "jstr \<Rightarrow> jstr" where
  "stripIdeaWake s = (case firstSome (\<lambda>x. dropPrefix x s) [[50500, 50864, 46972, 50556],
    [50500, 50864, 46972], [50724, 46972, 50556], [50724, 46972]] of
      Some t \<Rightarrow> dropWhile is_space t | None \<Rightarrow> s)"

definition stripMarks :: "jstr \<Rightarrow> jstr" where
  "stripMarks s = rev (dropWhile (\<lambda>c. c \<in> {63, 33, 46}) (rev s))"

definition stripProposal :: "jstr \<Rightarrow> jstr" where
  "stripProposal s = (case firstSome (\<lambda>x. dropSuffix x (rstrip s))
        [[50612, 46412], [50612, 46504, 44620], [50612, 46504, 44620, 50836], [50612, 46412, 50836],
          [51339, 51012, 44620], [51339, 44192, 45796], [54616, 47732], [54644, 48380, 44620], [54644,
          48372, 51088], [54616, 51088]] of
      None \<Rightarrow> s
    | Some q \<Rightarrow> (let t = rstrip q in if t \<noteq> [] \<and> last t \<in> set [51008, 45716] then butlast t else t))"

definition stripIdeaNoun :: "jstr \<Rightarrow> jstr" where
  "stripIdeaNoun s = (case firstSome (\<lambda>x. dropSuffix x (rstrip s)) [[50500, 51060, 46356,
    50612], [49373, 44033], [51032, 44204]] of
      None \<Rightarrow> s | Some q \<Rightarrow> rstrip q)"

definition stripLead :: "jstr \<Rightarrow> jstr" where
  "stripLead s = (case firstSome (\<lambda>x. case dropPrefix x s of
          Some (c # t) \<Rightarrow> (if is_space c then Some t else None) | _ \<Rightarrow> None)
        [[44536], [51200], [51060], [44536, 47084, 47732], [50500], [50612], [51020], [44540, 45936],
          [44536, 47000, 49436], [44536, 47088, 45936]] of
      None \<Rightarrow> s | Some t \<Rightarrow> dropWhile is_space t)"

definition stripParticle :: "jstr \<Rightarrow> jstr" where
  "stripParticle s = (case firstSome (\<lambda>x. case dropSuffix x (rstrip s) of
          Some q \<Rightarrow> (if q \<noteq> [] \<and> is_space (last q) then Some q else None) | None \<Rightarrow> None)
        [[51012], [47484], [51060], [44032], [51008], [45716], [51032], [50640], [47196], [51004, 47196]] of
      None \<Rightarrow> s | Some q \<Rightarrow> rstrip q)"

definition extractIdeaContent :: "jstr \<Rightarrow> jstr" where
  "extractIdeaContent transcript =
     trim (stripParticle (stripLead (stripIdeaNoun (stripProposal (stripMarks (stripIdeaWake (trim transcript)))))))"

definition ideaNoise :: "jstr \<Rightarrow> bool" where
  "ideaNoise s =
     (let t = (if s \<noteq> [] \<and> last s \<in> {46, 63, 33} then butlast s else s);
          noise = (\<lambda>t. t \<in> set [[50504, 45397], [45348], [51025], [50612], [51020],
            [50500], [50696], [50724, 52992, 51060], [12615, 12615], [54616, 54616], [44536, 47000],
            [50508, 44192], [47952, 51648],
             [47952, 50556], [50500, 50500], [51004, 51004], [50640, 50640]] \<or> t \<noteq> [] \<and> list_all (\<lambda>c. c = hd [12619]) t)
      in noise s \<or> noise t)"

definition detectAndBroadcastIdea :: "jstr \<Rightarrow> jstr \<Rightarrow> bot_out list" where
  "detectAndBroadcastIdea transcript user =
     (if length transcript \<le> 3 then []
      else if ideaNoise (trim transcript) then []
      else let x = extractIdeaContent transcript
           in if length x < 2 then []
              else [Publish (NEW_IDEA (take 15 x) (if user = [] then [51061, 47749] else user)) None])"

section \<open>Which kind of question\<close>

definition isDiagramRelatedQuestion :: "jstr \<Rightarrow> bool" where
  "isDiagramRelatedQuestion s = list_ex (\<lambda>k. str_includes (to_lower k) (to_lower s))
     [[54540, 47196, 50864, 52264, 53944], [102, 108, 111, 119, 99, 104, 97, 114, 116], [55120, 47492,
       46020], [49692, 49436, 46020], [101, 114, 100], [51060, 50508, 46356], [50644, 54000, 54000],
       [53580, 51060, 48660], [45936, 51060, 53552, 48288, 51060, 49828], [100, 98], [49884, 53248,
       49828], [115, 101, 113, 117, 101, 110, 99, 101], [49345, 54840, 51089, 50857], [50500, 53412,
       53581, 52376], [97, 114, 99, 104, 105, 116, 101, 99, 116, 117, 114, 101], [44396, 51312],
       [45796, 51060, 50612, 44536, 47016], [52264, 53944], [44536, 47548], [46020, 54364], [46020,
       49885], [49444, 44228], [47784, 45944], [49828, 53412, 47560], [44288, 44228], [49444, 47749],
       [48516, 49437], [51032, 48120], [46907], [45236, 50857], [45432, 46300], [50659, 51648], [50672,
       44208], [54868, 49332, 54364], [48149, 49828], [54532, 47196, 49464, 49828], [45800, 44228],
       [55120, 47492], [48516, 44592], [49688, 51221], [48320, 44221], [52628, 44032], [49325, 51228],
       [54200, 51665], [51060, 44172, 32, 47952, 50556], [47960, 32, 51032, 48120], [50612, 46500, 32,
       51032, 48120], [50780, 32, 51060, 47111, 44172]]"

definition designContext :: "RoomContext \<Rightarrow> jstr" where
  "designContext c = [61, 61, 61, 32, 54788, 51116, 32, 49444, 44228, 32, 48372, 46300, 32, 49345,
    53468, 32, 61, 61, 61, 10] @ (case pendingDiagramExplanation c of
      None \<Rightarrow> []
    | Some (types, codes) \<Rightarrow> [49373, 49457, 46108, 32, 45796, 51060, 50612, 44536, 47016,
      58, 32] @ join [44, 32] types @ [10, 10] @
        concat (map (\<lambda>t. if truthy_str (jget codes t)
           then [91] @ t @ [93, 10] @ take 500 (the (jget codes t)) @ [10, 10] else []) types))"

definition ambiguousPatterns :: "jstr list" where
  "ambiguousPatterns = [[51204, 50640], [50500, 44620], [48169, 44552], [51060, 51204], [51648, 45212,
    48264], [51200, 48264], [44536, 44144], [44536, 44172], [51060, 44144], [51200, 44144], [54664,
    45912], [54664, 50632], [54664, 45716],
     [47568, 54664], [47568, 54620], [47952, 46972, 44256], [47952, 46972], [47956, 44032]]"

definition shouldUseAgentMode :: "jstr \<Rightarrow> IntentAnalysis \<Rightarrow> bool" where
  "shouldUseAgentMode s i =
     (if list_ex (\<lambda>k. str_includes k s) ambiguousPatterns then True
      else if in_category i \<in> Some ` set [[45216, 50472], [47579, 51665], [52852, 54168], [49696,
        51665], [45684, 49828], [51452, 49885], [49828, 54252, 52768]] then False
      else if hasCommandWord i then False
      else if extractedKeyword i \<noteq> None \<and> length (the (extractedKeyword i)) \<ge> 3 then False
      else \<not> truthy_str (in_category i) \<and> \<not> truthy_str (extractedKeyword i))"

definition flowchartPrompt :: "FlowchartContext \<Rightarrow> jstr" where
  "flowchartPrompt fc =
     (let ofType = (\<lambda>t. map fn_content (filter (\<lambda>n. fn_nodeType n = t) (fc_nodes fc)));
          line = (\<lambda>label xs. if xs = [] then [] else label @ join [44, 32] xs @ [10]);
          node = (\<lambda>i. find (\<lambda>n. fn_id n = i) (fc_nodes fc));
          flows = List.map_filter (\<lambda>e. case (node (fe_from e), node (fe_to e)) of
              (Some a, Some b) \<Rightarrow> Some ([32, 32, 34] @ fn_content a @ [34, 32, 8594, 32,
                34] @ fn_content b @ [34] @
                 (if truthy_str (fe_label e) then [32, 40] @ the (fe_label e) @ [41] else []))
            | _ \<Rightarrow> None) (fc_edges fc)
      in [61, 61, 61, 32, 54788, 51116, 32, 54540, 47196, 50864, 52264, 53944, 32, 54868, 47732, 32,
        61, 61, 61, 10] @ fc_summary fc @ [10, 10] @
         line [91, 49884, 51089, 51216, 93, 32] (ofType (js ''start'')) @ line [91, 52376, 47532, 32,
           45800, 44228, 93, 32] (ofType (js ''process'')) @
         line [91, 48516, 44592, 32, 51312, 44148, 93, 32] (ofType (js ''decision'')) @ line [91,
           51077, 52636, 47141, 93, 32] (ofType (js ''io'')) @
         line [91, 51333, 47308, 51216, 93, 32] (ofType (js ''end'')) @
         (if flows = [] then [] else [10] @ [91, 55120, 47492, 93, 10] @ join [10] flows @ [10]))"

section \<open>The turn\<close>

definition checkAndOfferOpinion :: "voice_env \<Rightarrow> int \<Rightarrow> jstr \<Rightarrow> voice_st \<Rightarrow> outcome" where
  "checkAndOfferOpinion env rid current s =
     (let ctx = buildConversationContext (conversationHistory (vc s)) current
      in if length ctx < 20 then ok s
         else (case offerOpinion env ctx of
             None \<Rightarrow> ok s
           | Some (resp, evidence) \<Rightarrow>
               onThrow (andThen (sayThen env rid resp SLEEP s) (emit (Publish (AI_OPINION evidence) None))) ok))"

definition calendarTurn :: "voice_env \<Rightarrow> int \<Rightarrow> voice_st \<Rightarrow> outcome" where
  "calendarTurn env rid s =
     onThrow
       (andThen (speakAndPublish env rid (jint (calParticipants env) @
            [47749, 51032, 32, 52280, 50668, 51088, 32, 51068, 51221, 51012, 32, 48516, 49437, 54616,
              44256, 32, 51068, 51221, 51012, 32, 49373, 49457, 54616, 44192, 49845, 45768, 45796,
              46]) False (setState SPEAKING s))
          (\<lambda>s. case scheduleMeeting env of
               None \<Rightarrow> (s, [], True)
             | Some r \<Rightarrow> (case cal_reply r of
                 None \<Rightarrow> andThen (speakAndPublish env rid (jint (calParticipants env) @
                     [47749, 51032, 32, 51068, 51221, 51012, 32, 54869, 51064, 54664, 51648, 47564, 44,
                       32, 44277, 53685, 51004, 47196, 32, 48708, 50612, 32, 51080, 45716, 32, 49884,
                       44036, 51012, 32, 52286, 51648, 32, 47803, 54664, 49845, 45768, 45796,
                       46]) False s)
                   (\<lambda>s. ok (onCtx (\<lambda>c. c\<lparr>botState := ARMED, lastResponseTime := t_end env\<rparr>) s))
               | Some reply \<Rightarrow> andThen (andThen (speakAndPublish env rid reply False s)
                   (\<lambda>s. ok (onCtx (\<lambda>c. c\<lparr>botState := ARMED, lastResponseTime := t_end env\<rparr>) s)))
                   (emit (Publish (CALENDAR_EVENT_CREATED (calParticipants env)) None)))))
       (\<lambda>s. andThen (speakAndPublish env rid
            [51396, 49569, 54633, 45768, 45796, 46, 32, 51068, 51221, 32, 49373, 49457, 32, 51473, 32,
              50724, 47448, 44032, 32, 48156, 49373, 54664, 49845, 45768, 45796, 46, 32, 71, 111, 111,
              103, 108, 101, 32, 52888, 47536, 45908, 32, 50672, 46041, 51060, 32, 54596, 50836, 54624,
              32, 49688, 32, 51080, 49845, 45768, 45796, 46] False s)
          (\<lambda>s. ok (setState ARMED s)))"

definition timerTurn :: "voice_env \<Rightarrow> int \<Rightarrow> int \<Rightarrow> jstr \<Rightarrow> IntentAnalysis \<Rightarrow> voice_st \<Rightarrow> outcome" where
  "timerTurn env now rid r i s =
     (case timerIntent now r i (vt s) of (message, shown, ts) \<Rightarrow>
        onThrow
          (andThen (emit (Publish (TIMER_UPDATE (str_or (timerAction i) (js ''status'')) shown) None) (s\<lparr>vt := ts\<rparr>))
            (sayThen env rid message ARMED))
          (\<lambda>s. andThen (speakAndPublish env rid [53440, 51060, 47672, 32, 52376, 47532, 32,
            51473, 32, 50724, 47448, 44032, 32, 48156, 49373, 54664, 49845, 45768, 45796, 46] False s)
             (\<lambda>s. ok (setState ARMED s))))"

definition goToSleep :: "voice_env \<Rightarrow> voice_st \<Rightarrow> outcome" where
  "goToSleep env s = ok (onCtx (\<lambda>c. c\<lparr>botState := SLEEP, activeUserId := None, lastResponseTime := t_end env\<rparr>) s)"

definition processWithAgent :: "voice_env \<Rightarrow> int \<Rightarrow> jstr \<Rightarrow> jstr \<Rightarrow> voice_st \<Rightarrow> outcome" where
  "processWithAgent env rid s_text user s =
     onThrow
       (case runAgent env s_text (conversationHistory (vc s)) of
          None \<Rightarrow> (s, [], True)
        | Some a \<Rightarrow>
            if currentRequestId (vc s) \<noteq> rid then ok s
            else
              andThen (andThen (andThen (ok (onCtx (updateConversationHistory (t_end env) s_text (ag_response a) user) s))
                (if ag_searchResults a > 0 then emit (Publish (SEARCH_ANSWER (ag_response a)) None) else ok))
                (\<lambda>s. speakAndPublish env rid (ag_response a) False
                   (onCtx (\<lambda>c. c\<lparr>shouldInterrupt := False, botState := SPEAKING\<rparr>) s)))
                (goToSleep env))
       (\<lambda>s. andThen (speakAndPublish env rid [51396, 49569, 54644, 50836, 44, 32, 51104, 49884,
         32, 47928, 51228, 44032, 32, 49373, 44220, 50612, 50836, 46] False (setState SPEAKING s))
          (\<lambda>s. ok (onCtx (\<lambda>c. c\<lparr>botState := SLEEP, activeUserId := None\<rparr>) s)))"

text \<open>The spoken waiting phrase, when the model is slow and not only the hosts are addressed.\<close>

definition thinks :: "voice_env \<Rightarrow> int \<Rightarrow> RoomContext \<Rightarrow> bool" where
  "thinks env rid c \<longleftrightarrow> slowLlm env \<and> \<not> hostOnlyMode c \<and> currentRequestId c = rid"

definition searchMessages :: "RoomContext \<Rightarrow> jstr \<Rightarrow> jstr \<Rightarrow> LlmResult \<Rightarrow> bot_out list" where
  "searchMessages c question reply r =
     (if lr_searchResults r > 0
      then [Publish (if hostOnlyMode c then AI_TEXT_RESPONSE reply else SEARCH_ANSWER reply)
              (if hostOnlyMode c \<and> hostIdentities c \<noteq> [] then Some (hostIdentities c) else None)]
      else []) @
     (if lr_ragSources r > 0 then [Publish (AI_DOCUMENT_SHOW (take 30 question) (lr_ragSources r)) None] else [])"

definition answerTurn :: "voice_env \<Rightarrow> int \<Rightarrow> jstr \<Rightarrow> jstr option \<Rightarrow> voice_st \<Rightarrow> outcome" where
  "answerTurn env rid question keyword s =
     (if (keyword = None \<or> length (the keyword) < 2) \<and> buildSearchPlan env question = None then (s, [], True)
      else
        let thinking = thinks env rid (vc s);
            waiting = (if thinking
              then andThen (speakAndPublish env rid (thinkingPhrase env) False (setState SPEAKING s)) (\<lambda>s. ok (setState ARMED s))
              else ok s)
        in andThen (andThen (emit (broadcastAiState (js ''processing'') None) s) (\<lambda>_. waiting))
          (\<lambda>s. case sendMessage env question of
               None \<Rightarrow> (s, [], True)
             | Some r \<Rightarrow>
                 if currentRequestId (vc s) \<noteq> rid then ok s
                 else
                   let reply = (if thinking then connector env @ trim (lr_text r) else lr_text r)
                   in andThen (andThen (s, searchMessages (vc s) question reply r, False)
                     (\<lambda>s. speakAndPublish env rid reply (lr_searchResults r > 0 \<and> hostOnlyMode (vc s))
                        (onCtx (\<lambda>c. c\<lparr>shouldInterrupt := False, botState := SPEAKING\<rparr>) s)))
                     (goToSleep env)))"

record request =
  rq_respond :: bool
  rq_text :: jstr
  rq_keyword :: "jstr option"

definition isAsked :: "IntentAnalysis \<Rightarrow> jstr option \<Rightarrow> bool" where
  "isAsked i kw \<longleftrightarrow> isQuestionIntent i \<or> hasCommandWord i \<or> hasRequestPattern i \<or> kw \<noteq> None \<and> length (the kw) \<ge> 2"

definition armedTurn :: "voice_env \<Rightarrow> int \<Rightarrow> int \<Rightarrow> jstr \<Rightarrow> IntentAnalysis \<Rightarrow> request \<Rightarrow> voice_st \<Rightarrow> outcome" where
  "armedTurn env now rid user i q s =
     (if truthy_str (activeUserId (vc s)) \<and> activeUserId (vc s) \<noteq> Some user then ok s
      else if \<not> rq_respond q \<and> \<not> isBotRelated i then ok s
      else if \<not> isAsked i (rq_keyword q) then ok s
      else andThen (emit (broadcastAiState (js ''listening'') None) (onCtx (\<lambda>c. c\<lparr>lastInteractionTime := now\<rparr>) s))
        (if shouldUseAgentMode (rq_text q) i then processWithAgent env rid (rq_text q) user
         else answerTurn env rid (rq_text q) (rq_keyword q)))"

definition wakeTurn :: "voice_env \<Rightarrow> int \<Rightarrow> int \<Rightarrow> jstr \<Rightarrow> IntentAnalysis \<Rightarrow> request \<Rightarrow> voice_st \<Rightarrow> outcome" where
  "wakeTurn env now rid user i q s = (case botState (vc s) of
      SLEEP \<Rightarrow>
        if \<not> rq_respond q then
          (if perplexityModeActive (vc s) then ok s else checkAndOfferOpinion env rid (rq_text q) s)
        else
          let s1 = onCtx (\<lambda>c. c\<lparr>botState := ARMED, activeUserId := Some user, lastInteractionTime := now\<rparr>) s
          in if \<not> isAsked i (rq_keyword q) then sayThen env rid [45348, 44, 32, 47924, 50631,
            51012, 32, 46020, 50752, 46300, 47540, 44620, 50836, 63] ARMED s1
             else armedTurn env now rid user i q s1
    | SPEAKING \<Rightarrow> ok s
    | ARMED \<Rightarrow> armedTurn env now rid user i q s)"

text \<open>The wake word counts only when the hosts enabled it; an uncertain text goes to the model.\<close>

definition requestOf :: "voice_env \<Rightarrow> RoomContext \<Rightarrow> jstr \<Rightarrow> IntentAnalysis \<Rightarrow> request option" where
  "requestOf env c transcript i =
     (let respond = isCallIntent i \<and> wakeWordEnabled c
      in if \<not> respond \<and> needsLlmCorrection i
         then map_option (\<lambda>v. \<lparr>rq_respond = vi_shouldRespond v, rq_text = correctedText v, rq_keyword = vi_searchKeyword v\<rparr>)
                (processVoiceIntent env transcript i)
         else Some \<lparr>rq_respond = respond, rq_text = normalizedText i, rq_keyword = extractedKeyword i\<rparr>)"

definition generalTurn :: "voice_env \<Rightarrow> int \<Rightarrow> int \<Rightarrow> jstr \<Rightarrow> jstr \<Rightarrow> IntentAnalysis \<Rightarrow> voice_st \<Rightarrow> outcome" where
  "generalTurn env now rid user transcript i s = (case requestOf env (vc s) transcript i of
      None \<Rightarrow> (s, [], True)
    | Some q \<Rightarrow> wakeTurn env now rid user i q s)"

definition contextAnswer :: "voice_env \<Rightarrow> int \<Rightarrow> jstr \<Rightarrow> jstr \<Rightarrow> jstr \<Rightarrow> voice_st \<Rightarrow> outcome" where
  "contextAnswer env rid transcript ctx topic s =
     (let s1 = setState SPEAKING s
      in (case answerWithContext env transcript ctx topic of
            None \<Rightarrow> (s1, [], True)
          | Some resp \<Rightarrow> sayThen env rid resp ARMED s1))"

definition hasStopWord :: "IntentAnalysis \<Rightarrow> bool" where
  "hasStopWord i = list_ex (\<lambda>w. str_includes (to_lower w) (to_lower (normalizedText i))) STOP_WORDS"

text \<open>The commands that need only the call, whatever the hosts enabled.\<close>

definition calledTurn :: "voice_env \<Rightarrow> int \<Rightarrow> int \<Rightarrow> jstr \<Rightarrow> jstr \<Rightarrow> IntentAnalysis \<Rightarrow> voice_st \<Rightarrow> outcome option" where
  "calledTurn env now rid r user i s =
     (if \<not> isCallIntent i then None
      else if isIdeaBoardIntent i then
        Some (andThen (emit (Publish OPEN_IDEA_BOARD None) s)
          (sayThen env rid [50500, 51060, 46356, 50612, 32, 48372, 46300, 47484, 32, 50676, 50632,
            49845, 45768, 45796, 46, 32, 50500, 51060, 46356, 50612, 47484, 32, 47568, 50432, 54644,
            51452, 49464, 50836, 33] ARMED))
      else if isFlowchartIntent i then
        Some (andThen (emit (Publish (OPEN_FLOWCHART_BOARD user) None)
            (onCtx (\<lambda>c. c\<lparr>flowchartInitiator := Some user, flowchartModeActive := True, flowchartOpenTime := now\<rparr>) s))
          (sayThen env rid [49444, 44228, 32, 48372, 46300, 47484, 32, 50676, 50632, 49845, 45768,
            45796, 46] ARMED))
      else if isCalendarIntent i then Some (calendarTurn env rid s)
      else if isTimerIntent i then Some (timerTurn env now rid r i s)
      else None)"

definition turnBody :: "voice_env \<Rightarrow> int \<Rightarrow> int \<Rightarrow> jstr \<Rightarrow> jstr \<Rightarrow> jstr \<Rightarrow> IntentAnalysis \<Rightarrow> voice_st \<Rightarrow> outcome" where
  "turnBody env now rid r user transcript i s =
     (let c = vc s
      in if ideaModeActive c then (s, detectAndBroadcastIdea transcript user, False)
         else if flowchartModeActive c \<and> flowchartContext c \<noteq> None \<and> isCallIntent i then
           contextAnswer env rid transcript (flowchartPrompt (the (flowchartContext c))) [54540, 47196,
             50864, 52264, 53944] s
         else if designModeActive c \<and> isCallIntent i then
           (if isDiagramRelatedQuestion transcript
            then contextAnswer env rid transcript (designContext c) [49444, 44228, 32, 45796, 51060,
              50612, 44536, 47016] s
            else sayThen env rid
              [51648, 44552, 51008, 32, 49444, 44228, 32, 48372, 46300, 44032, 32, 50676, 47140, 32,
                51080, 50612, 50836, 46, 32, 45796, 51060, 50612, 44536, 47016, 50640, 32, 44288,
                54620, 32, 51656, 47928, 51012, 32, 54644, 51452, 49884, 47732, 32, 46020, 50752,
                46300, 47540, 44172, 50836, 46] ARMED s)
         else if length (trim transcript) \<le> 2 \<and> \<not> isCallIntent i \<and> \<not> hasStopWord i then ok s
         else if botState c \<noteq> SLEEP \<and> hasStopWord i then
           andThen (sayThen env rid [50508, 44192, 49845, 45768, 45796, 46, 32, 45796, 49884, 32,
             48520, 47084, 51452, 49464, 50836, 46] SLEEP s)
             (\<lambda>s. ok (onCtx (\<lambda>c. c\<lparr>activeUserId := None\<rparr>) s))
         else
           (case (if isCallIntent i \<and> isVisionIntent i \<and> hasActiveScreenShare c
                  then processVisionIntent now (normalizedText i) user s else (False, ok s)) of
              (True, x) \<Rightarrow> andThen x (\<lambda>s. ok (onCtx (\<lambda>c. c\<lparr>lastSpeechTime := t_end env\<rparr>) s))
            | (False, _) \<Rightarrow>
                (case calledTurn env now rid r user i s of
                   Some x \<Rightarrow> x
                 | None \<Rightarrow> generalTurn env now rid user transcript i s)))"

text \<open>A turn that nothing interrupts.\<close>

definition runTurn :: "voice_env \<Rightarrow> int \<Rightarrow> jstr \<Rightarrow> jstr \<Rightarrow> jstr \<Rightarrow> IntentAnalysis \<Rightarrow> voice_st \<Rightarrow> voice_st \<times> bot_out list" where
  "runTurn env now r user transcript i s = (case turnGate now (vc s) of
      Inl _ \<Rightarrow> (s, [])
    | Inr c \<Rightarrow>
        (case onThrow (turnBody env now now r user transcript i (s\<lparr>vc := c\<rparr>))
                (\<lambda>s. ok (onCtx (\<lambda>c. c\<lparr>botState := SLEEP, activeUserId := None\<rparr>) s)) of
           (s1, os, _) \<Rightarrow> (onCtx (turnFinally now) s1, os)))"

section \<open>Facts about outcomes\<close>

definition st_of :: "outcome \<Rightarrow> voice_st" where "st_of x = fst x"

definition threw :: "outcome \<Rightarrow> bool" where "threw x = snd (snd x)"

lemma andThen_sel [simp]:
  "st_of (andThen x k) = (if threw x then st_of x else st_of (k (st_of x)))"
  "threw (andThen x k) = (threw x \<or> threw (k (st_of x)))"
  by (auto simp: andThen_def st_of_def threw_def split: prod.splits)

lemma onThrow_sel [simp]:
  "st_of (onThrow x k) = (if threw x then st_of (k (st_of x)) else st_of x)"
  "threw (onThrow x k) = (threw x \<and> threw (k (st_of x)))"
  by (auto simp: onThrow_def st_of_def threw_def split: prod.splits)

lemma ok_sel [simp]: "st_of (ok s) = s" "threw (ok s) = False" "st_of (emit x s) = s" "threw (emit x s) = False"
  by (simp_all add: ok_def emit_def st_of_def threw_def)

lemma tuple_sel [simp]: "st_of (s, os, b) = s" "threw (s, os, b) = b"
  by (simp_all add: st_of_def threw_def)

lemma onCtx_sel [simp]: "vc (onCtx f s) = f (vc s)" "vt (onCtx f s) = vt s"
  by (simp_all add: onCtx_def)

lemma setState_sel [simp]: "vc (setState b s) = (vc s)\<lparr>botState := b\<rparr>" "vt (setState b s) = vt s"
  by (simp_all add: setState_def)

text \<open>Speaking changes no request id and no bot state, and throws only when the synthesis fails.\<close>

lemma speak_keeps [simp]:
  "currentRequestId (vc (st_of (speakAndPublish env rid m b s))) = currentRequestId (vc s)"
  "botState (vc (st_of (speakAndPublish env rid m b s))) = botState (vc s)"
  "isPublishing (vc (st_of (speakAndPublish env rid m b s))) = isPublishing (vc s)"
  "vt (st_of (speakAndPublish env rid m b s)) = vt s"
  by (auto simp: speakAndPublish_def Let_def split: option.splits)



text \<open>The option to leave out the text card has no effect: the branch that reads it is not reachable.\<close>

lemma skipTextCard_ignored: "speakAndPublish env rid m True s = speakAndPublish env rid m False s"
  by (simp add: speakAndPublish_def Let_def)

text \<open>
  A part of a turn is good when it keeps the request id and, unless it throws, leaves the bot at
  rest.
\<close>

definition good :: "int \<Rightarrow> outcome \<Rightarrow> bool" where
  "good rid x \<longleftrightarrow> currentRequestId (vc (st_of x)) = rid \<and> (\<not> threw x \<longrightarrow> botState (vc (st_of x)) \<noteq> SPEAKING)"

abbreviation at_rest :: "int \<Rightarrow> voice_st \<Rightarrow> bool" where
  "at_rest rid s \<equiv> currentRequestId (vc s) = rid \<and> botState (vc s) \<noteq> SPEAKING"

lemma good_ok [simp]: "good rid (ok s) = at_rest rid s"
  by (simp add: good_def)

lemma good_throw [simp]: "good rid (s, os, True) \<longleftrightarrow> currentRequestId (vc s) = rid"
  by (simp add: good_def)


lemma good_emit [simp]: "good rid (andThen (emit x s) k) = good rid (k s)"
  by (simp add: good_def)



lemma history_keeps [simp]:
  "currentRequestId (updateConversationHistory now u b user c) = currentRequestId c"
  "botState (updateConversationHistory now u b user c) = botState c"
  by (simp_all add: updateConversationHistory_def Let_def)

lemma goToSleep_sel [simp]:
  "threw (goToSleep env s) = False" "botState (vc (st_of (goToSleep env s))) = SLEEP"
  "currentRequestId (vc (st_of (goToSleep env s))) = currentRequestId (vc s)"
  by (simp_all add: goToSleep_def)












lemma body_publishing: "isPublishing (turnFinally rid c) = (isPublishing c \<and> currentRequestId c \<noteq> rid)"
  by (simp add: turnFinally_def)

section \<open>Properties\<close>

text \<open>
  A timer alert during a turn blocks the room: the alert takes a request id of its own, so the
  end of the turn does not clear the publishing flag although no turn is left, and every later
  utterance is refused as if the bot were still responding, until the publishing timeout of the
  audio loop.
\<close>

theorem timer_alert_blocks_room:
  assumes "turnGate now c = Inr c1" and "vc s = c1" and "\<not> aiMuted c1"
    and "c2 = turnFinally now (vc (fst (timerAlert env ev d s)))"
  shows "isPublishing c2 \<and> turnGate later c2 = Inl AlreadyResponding"
proof -
  have c1: "isPublishing c1" "currentRequestId c1 = now" using assms(1) by (auto simp: turnGate_def split: if_splits)
  define s1 where "s1 = onCtx alertBegin s"
  define x where "x = andThen (speakAndPublish env (now + 1) (alertText ev d) False s1) (\<lambda>s. ok (setState ARMED s))"
  have "fst (timerAlert env ev d s) = st_of x"
    using assms(2,3) c1 by (simp add: timerAlert_def Let_def x_def s1_def st_of_def split: prod.splits)
  moreover have "currentRequestId (vc (st_of x)) = now + 1" "isPublishing (vc (st_of x))"
    using assms(2) c1 by (simp_all add: x_def s1_def)
  ultimately show ?thesis using assms(4) by (simp add: turnFinally_def turnGate_def)
qed

text \<open>An environment in which every call succeeds, and one in which the synthesis fails.\<close>

definition demo_env :: voice_env where
  "demo_env = \<lparr>t_end = 9000, synthesizePcm = (\<lambda>_. Some 960), answerWithContext = (\<lambda>_ _ _. Some [97]),
     processVoiceIntent = (\<lambda>_ _. None), buildSearchPlan = (\<lambda>_. Some ()),
     sendMessage = (\<lambda>_. Some \<lparr>lr_text = [97], lr_searchResults = 0, lr_ragSources = 0\<rparr>),
     runAgent = (\<lambda>_ _. Some \<lparr>ag_response = [97, 98, 99], ag_searchResults = 0\<rparr>), offerOpinion = (\<lambda>_. None),
     calParticipants = 2, scheduleMeeting = None, sendMessagePure = (\<lambda>_. Some [97]), analyzeScreen = (\<lambda>_. Some [97]),
     imageValid = True, slowLlm = False, thinkingPhrase = [97], connector = []\<rparr>"

definition demo_ctx :: RoomContext where
  "demo_ctx = newRoomContext 0 None"

definition demo_intent :: IntentAnalysis where
  "demo_intent = \<lparr>isCallIntent = True, isQuestionIntent = True, isBotRelated = True, isVisionIntent = False,
     isIdeaBoardIntent = False, isFlowchartIntent = False, isCalendarIntent = False, isTimerIntent = True,
     timerAction = Some (js ''start''), timerMinutes = Some 20, in_confidence = 1,
     normalizedText = [97, 98, 99], hasQuestionWord = False, hasCommandWord = True, hasQuestionPattern = False,
     hasRequestPattern = True, isWeatherIntent = False, searchDomain = None, in_searchType = None, in_category = None, extractedKeyword = None, needsLlmCorrection = False\<rparr>"

definition demo_timer :: TimerData where
  "demo_timer = \<lparr>td_roomId = [7], targetMinutes = 20, warningMinutes = 3, remainingSeconds = 180, timerState = Warning,
     startedAt = None, endTime = None\<rparr>"

lemma demo_gate: "turnGate 5000 demo_ctx = Inr (demo_ctx\<lparr>currentRequestId := 5000, isPublishing := True, publishingStartTime := 5000\<rparr>)"
  by (simp add: turnGate_def demo_ctx_def newRoomContext_def)

theorem timer_alert_blocks_room_witness:
  "\<exists>c1. turnGate 5000 demo_ctx = Inr c1 \<and>
     turnGate 30000 (turnFinally 5000 (vc (fst (timerAlert demo_env EvWarning demo_timer \<lparr>vc = c1, vt = init_env\<rparr>)))) = Inl AlreadyResponding"
  using timer_alert_blocks_room [OF demo_gate, of "\<lparr>vc = demo_ctx\<lparr>currentRequestId := 5000, isPublishing := True, publishingStartTime := 5000\<rparr>, vt = init_env\<rparr>"
      _ demo_env EvWarning demo_timer 30000] demo_gate
  by (simp add: demo_ctx_def newRoomContext_def)

definition utter :: "voice_env \<Rightarrow> jstr \<Rightarrow> int \<times> jstr \<times> jstr \<times> IntentAnalysis \<Rightarrow> voice_st \<times> bot_out list \<Rightarrow> voice_st \<times> bot_out list" where
  "utter env r u x = (case u of (now, user, transcript, i) \<Rightarrow>
     (case runTurn env now r user transcript i (fst x) of (s, os) \<Rightarrow> (s, snd x @ os)))"

text \<open>
  A capture request that the front end never answers silences the bot: while the vision mode is
  on no utterance passes the gate, at whatever time, so no utterance reaches the check that would
  drop a request older than ten seconds; the state stays as it is and nothing is said.
\<close>

theorem unanswered_vision_silences_bot:
  assumes "isVisionMode (vc s)"
  shows "fold (utter env r) us (s, []) = (s, [])"
proof -
  have "utter env r u (s, []) = (s, [])" for u
    using assms by (auto simp: utter_def runTurn_def turnGate_def split: prod.splits)
  then show ?thesis by (induction us) simp_all
qed

theorem unanswered_vision_silences_bot_witness:
  "fold (utter demo_env [7]) [(20000, [1], [97, 98, 99], demo_intent), (99000, [2], [97, 98, 99], demo_intent)]
     (\<lparr>vc = demo_ctx\<lparr>isVisionMode := True\<rparr>, vt = init_env\<rparr>, []) = (\<lparr>vc = demo_ctx\<lparr>isVisionMode := True\<rparr>, vt = init_env\<rparr>, [])"
  by (rule unanswered_vision_silences_bot) simp



text \<open>
  Disabling the wake word does not disable the commands: a called timer command starts the
  timer of the room although the hosts have not enabled the wake word and the bot is asleep.
\<close>

theorem disabled_wake_word_still_starts_timer:
  assumes "turnGate now (vc s) = Inr c" and "botState (vc s) = SLEEP" and "\<not> wakeWordEnabled (vc s)"
    and "\<not> ideaModeActive (vc s)" and "\<not> flowchartModeActive (vc s)" and "\<not> designModeActive (vc s)"
    and "isCallIntent i" and "isTimerIntent i" and "timerAction i = Some (js ''start'')"
    and "\<not> isVisionIntent i" and "\<not> isIdeaBoardIntent i" and "\<not> isFlowchartIntent i" and "\<not> isCalendarIntent i"
  shows "\<exists>t. jget (timerStore (vt (fst (runTurn env now r user transcript i s)))) r = Some t \<and>
    timerState t = Running \<and> targetMinutes t = num_or (timerMinutes i) 30"
proof -
  have c: "botState c = SLEEP" "\<not> ideaModeActive c" "\<not> flowchartModeActive c" "\<not> designModeActive c"
    using assms(1-6) by (auto simp: turnGate_def split: if_splits)
  define x where "x = timerTurn env now now r i (s\<lparr>vc := c\<rparr>)"
  have b: "turnBody env now now r user transcript i (s\<lparr>vc := c\<rparr>) = x"
    using c assms(7-13) by (simp add: turnBody_def calledTurn_def x_def Let_def)
  define y where "y = onThrow x (\<lambda>s. ok (onCtx (\<lambda>c. c\<lparr>botState := SLEEP, activeUserId := None\<rparr>) s))"
  have "fst (runTurn env now r user transcript i s) = onCtx (turnFinally now) (st_of y)"
    using assms(1) by (simp add: runTurn_def b y_def st_of_def split: prod.splits)
  moreover have "vt (st_of y) = snd (snd (timerIntent now r i (vt s)))"
    by (simp add: y_def x_def timerTurn_def sayThen_def split: prod.splits)
  moreover have "\<exists>t. jget (timerStore (snd (snd (timerIntent now r i (vt s))))) r = Some t \<and>
      timerState t = Running \<and> targetMinutes t = num_or (timerMinutes i) 30"
    using assms(9)
    by (simp add: timerIntent_def str_or_def truthy_str_def js_def startTimer_def setRoomInterval_def putTimer_def Let_def)
  ultimately show ?thesis by simp
qed

theorem disabled_wake_word_still_starts_timer_witness:
  "\<exists>t. jget (timerStore (vt (fst (runTurn demo_env 5000 [7] [1] [97, 98, 99] demo_intent \<lparr>vc = demo_ctx, vt = init_env\<rparr>)))) [7] = Some t \<and>
    timerState t = Running \<and> targetMinutes t = 20"
  using disabled_wake_word_still_starts_timer [of 5000 "\<lparr>vc = demo_ctx, vt = init_env\<rparr>" _ demo_intent demo_env "[7]" "[1]" "[97, 98, 99]"] demo_gate
  by (simp add: demo_intent_def num_or_def truthy_num_def) (simp add: demo_ctx_def newRoomContext_def)

text \<open>
  A failed explanation leaves the bot speaking for good: when the synthesis fails while the bot
  explains new diagrams, the publishing flag is cleared but the bot stays in its speaking state,
  which no timeout ends, and every later request that is not one of the called commands, not a stop
  word and not in a board mode is ignored.
\<close>

theorem failed_explanation_leaves_speaking:
  assumes "designModeActive (vc s)" and "\<not> isPublishing (vc s)" and "\<not> aiMuted (vc s)" and "speakingEnabled (vc s)"
    and "\<forall>m. synthesizePcm env m = None"
    and "s1 = fst (explainGeneratedDiagrams env now types codes s)"
  shows "botState (vc s1) = SPEAKING \<and> \<not> isPublishing (vc s1) \<and> armedTimeoutCheck t (vc s1) = vc s1 \<and>
    (\<forall>env' now' rid user i q. wakeTurn env' now' rid user i q s1 = ok s1)"
proof -
  have b: "botState (vc s1) = SPEAKING \<and> \<not> isPublishing (vc s1)"
    using assms
    by (simp add: explainGeneratedDiagrams_def sayThen_def speakAndPublish_def andThen_def Let_def split: option.splits)
  then show ?thesis by (simp add: armedTimeoutCheck_def wakeTurn_def)
qed

theorem failed_explanation_leaves_speaking_witness:
  "botState (vc (fst (explainGeneratedDiagrams (demo_env\<lparr>synthesizePcm := (\<lambda>_. None)\<rparr>) 5000 [js ''erd''] []
     \<lparr>vc = demo_ctx\<lparr>designModeActive := True, speakingEnabled := True\<rparr>, vt = init_env\<rparr>))) = SPEAKING"
  using failed_explanation_leaves_speaking [of "\<lparr>vc = demo_ctx\<lparr>designModeActive := True, speakingEnabled := True\<rparr>, vt = init_env\<rparr>"
      "demo_env\<lparr>synthesizePcm := (\<lambda>_. None)\<rparr>" _ 5000 "[js ''erd'']" "[]"]
  by (simp add: demo_ctx_def newRoomContext_def)

end
