(* ===== verification/DataChannel.thy ===== *)
theory DataChannel
  imports RoomState
begin

text \<open>
  The data-channel messages of the front end, the second \<open>DataReceived\<close> handler of \<open>startBot\<close> in
  \<open>src/livekit/voice-bot.service.ts\<close>: the greeting, muting, the hosts and what only they may toggle,
  the board and design modes with their debounce and grace periods, and the Perplexity mode, and the
  room events that come with them (participants who enter and leave, screen shares, the shutdown of an
  empty room). The handlers are synchronous; what they start elsewhere is a list of calls. Parsed
  messages are a datatype with the fields the handler reads; a message of another type is ignored.
\<close>

section \<open>Messages and calls\<close>

datatype data_msg =
    CLIENT_READY bool
  | AI_MUTE bool
  | HOST_MODE_ENABLE bool "jstr option"
  | HOST_ADD jstr "jstr option"
  | HOST_REMOVE jstr
  | WAKE_WORD_TOGGLE bool
  | SPEAKING_TOGGLE bool
  | HOST_AI_QUERY jstr
  | IDEA_MODE_START
  | IDEA_MODE_END
  | FLOWCHART_START
  | FLOWCHART_END
  | CDR_FLOWCHART_REQUEST jstr "bool option" "jstr option"
  | CDR_ANALYSIS_REQUEST jstr "bool option" "jstr option"
  | SKELETON_CODE_REQUEST "FlowchartNode list" "FlowchartEdge list" "jstr option" "jstr option"
  | FLOWCHART_CONTEXT "FlowchartNode list" "FlowchartEdge list" jstr
  | DESIGN_BOARD_START
  | DESIGN_BOARD_END
  | DESIGN_BOARD_DIAGRAMS_GENERATED "jstr list" "(jstr, jstr) jmap"
  | PDF_QUESTION jstr jstr
  | BOARD_TRANSFORM_REQUEST jstr
  | QUIZ_GENERATE_REQUEST "int option" "jstr option"
  | QUIZ_EVALUATE_REQUEST jstr jstr
  | PERPLEXITY_START
  | PERPLEXITY_END
  | PERPLEXITY_UPDATE jstr

datatype rag_role = HostRole | ParticipantRole

datatype dc_call =
    GreetOnJoin
  | ParticipantJoined jstr jstr rag_role
  | ParticipantLeft jstr
  | ProcessHostQuery jstr jstr
  | HandleCDRFlowchart jstr bool jstr
  | HandleCDRAnalysis jstr bool jstr
  | HandleSkeletonCode "FlowchartNode list" "FlowchartEdge list" jstr jstr
  | ExplainDiagrams "jstr list" "(jstr, jstr) jmap"
  | HandlePdfQuestion jstr jstr jstr
  | HandleBoardTransform jstr jstr
  | HandleQuizGenerate int jstr jstr
  | HandleQuizEvaluate jstr jstr jstr
  | PerplexityStartSession
  | PerplexityAddParticipant jstr jstr
  | PerplexityEndSession
  | HandlePerplexityMessage jstr "jstr option"
  | ScheduleShutdown
  | StopBotWithCleanup

text \<open>The remote participants, by identity, with their names.\<close>

type_synonym roster = "(jstr, jstr) jmap"

definition nameIn :: "roster \<Rightarrow> jstr \<Rightarrow> jstr option" where
  "nameIn ps p = jget ps p"

definition isBot :: "jstr \<Rightarrow> bool" where
  "isBot p = starts_with (js ''ai-bot'') p"

definition isAgent :: "jstr \<Rightarrow> bool" where
  "isAgent p \<longleftrightarrow> str_includes (js ''bot'') p \<or> str_includes (js ''agent'') p"

definition setAdd :: "'a \<Rightarrow> 'a list \<Rightarrow> 'a list" where
  "setAdd x xs = (if x \<in> set xs then xs else xs @ [x])"

definition senderOr :: "jstr option \<Rightarrow> jstr option \<Rightarrow> jstr" where
  "senderOr requester sender = str_or requester (str_or sender (js ''unknown''))"

definition MODE_CHANGE_DEBOUNCE_MS :: int where "MODE_CHANGE_DEBOUNCE_MS = 500"

definition OPEN_GRACE_PERIOD_MS :: int where "OPEN_GRACE_PERIOD_MS = 1000"

definition isHost :: "jstr option \<Rightarrow> RoomContext \<Rightarrow> bool" where
  "isHost sender c \<longleftrightarrow> truthy_str sender \<and> the sender \<in> set (hostIdentities c)"

section \<open>The handler\<close>

definition handleHostMode :: "roster \<Rightarrow> jstr option \<Rightarrow> bool \<Rightarrow> jstr option \<Rightarrow> RoomContext \<Rightarrow> RoomContext \<times> dc_call list" where
  "handleHostMode ps sender en host c =
     (let hostId = (if truthy_str host then host else if truthy_str sender then sender else None);
          c1 = c\<lparr>hostOnlyMode := en, hostIdentities := (case hostId of None \<Rightarrow> hostIdentities c | Some h \<Rightarrow> setAdd h (hostIdentities c))\<rparr>
      in (c1, case hostId of
           None \<Rightarrow> []
         | Some h \<Rightarrow>
             if \<not> en then []
             else ParticipantJoined h (str_or (nameIn ps h) h) HostRole #
               map (\<lambda>(p, n). ParticipantJoined p (str_or (Some n) p) ParticipantRole)
                 (filter (\<lambda>(p, n). p \<notin> set (hostIdentities c1) \<and> \<not> isBot p) ps)))"

definition handleIdeaMode :: "int \<Rightarrow> bool \<Rightarrow> RoomContext \<Rightarrow> RoomContext" where
  "handleIdeaMode now on c =
     (if ideaModeActive c = on then c
      else if now - lastIdeaModeChange c < MODE_CHANGE_DEBOUNCE_MS then c
      else c\<lparr>ideaModeActive := on, lastIdeaModeChange := now\<rparr>)"

definition handleFlowchartEnd :: "int \<Rightarrow> RoomContext \<Rightarrow> RoomContext" where
  "handleFlowchartEnd now c =
     (if \<not> flowchartModeActive c then c
      else if flowchartOpenTime c > 0 \<and> now - flowchartOpenTime c < OPEN_GRACE_PERIOD_MS then c
      else c\<lparr>flowchartModeActive := False, flowchartInitiator := None, flowchartOpenTime := 0\<rparr>)"

definition handleDesignEnd :: "int \<Rightarrow> RoomContext \<Rightarrow> RoomContext" where
  "handleDesignEnd now c =
     (if \<not> designModeActive c then c
      else if designModeOpenTime c > 0 \<and> now - designModeOpenTime c < OPEN_GRACE_PERIOD_MS then c
      else c\<lparr>designModeActive := False, designModeOpenTime := 0, pendingDiagramExplanation := None\<rparr>)"

definition perplexityStart :: "roster \<Rightarrow> (jstr \<times> jstr) option \<Rightarrow> dc_call list" where
  "perplexityStart ps sender =
     (let added = filter (\<lambda>(p, n). \<not> isAgent p) ps
      in PerplexityStartSession # map (\<lambda>(p, n). PerplexityAddParticipant p (str_or (Some n) p)) added @
         (case sender of
            None \<Rightarrow> []
          | Some (p, n) \<Rightarrow> if p \<in> set (map fst added) \<or> isAgent p then [] else [PerplexityAddParticipant p (str_or (Some n) p)]))"

fun handleData :: "int \<Rightarrow> roster \<Rightarrow> (jstr \<times> jstr) option \<Rightarrow> data_msg \<Rightarrow> RoomContext \<Rightarrow> RoomContext \<times> dc_call list" where
  "handleData now ps who (CLIENT_READY continued) c =
     (if greetingDone c then (c, [])
      else (c\<lparr>isContinuedMeeting := isContinuedMeeting c \<or> continued, greetingDone := True\<rparr>, [GreetOnJoin]))"
| "handleData now ps who (AI_MUTE muted) c =
     (c\<lparr>aiMuted := muted, shouldInterrupt := shouldInterrupt c \<or> muted\<rparr>, [])"
| "handleData now ps who (HOST_MODE_ENABLE en host) c = handleHostMode ps (map_option fst who) en host c"
| "handleData now ps who (HOST_ADD host name) c =
     (c\<lparr>hostIdentities := setAdd host (hostIdentities c)\<rparr>,
      [ParticipantJoined host (str_or (nameIn ps host) (str_or name host)) HostRole])"
| "handleData now ps who (HOST_REMOVE host) c =
     (if host = [] then (c, [])
      else (c\<lparr>hostIdentities := removeAll host (hostIdentities c)\<rparr>,
            [ParticipantJoined host (str_or (nameIn ps host) host) ParticipantRole]))"
| "handleData now ps who (WAKE_WORD_TOGGLE en) c =
     (if isHost (map_option fst who) c then c\<lparr>wakeWordEnabled := en\<rparr> else c, [])"
| "handleData now ps who (SPEAKING_TOGGLE en) c =
     (if isHost (map_option fst who) c then c\<lparr>speakingEnabled := en\<rparr> else c, [])"
| "handleData now ps who (HOST_AI_QUERY q) c =
     (c, if hostOnlyMode c \<and> isHost (map_option fst who) c then [ProcessHostQuery q (fst (the who))] else [])"
| "handleData now ps who IDEA_MODE_START c = (handleIdeaMode now True c, [])"
| "handleData now ps who IDEA_MODE_END c = (handleIdeaMode now False c, [])"
| "handleData now ps who FLOWCHART_START c =
     (if flowchartModeActive c then c
      else c\<lparr>flowchartModeActive := True, flowchartInitiator := Some (senderOr None (map_option fst who)),
             flowchartOpenTime := now\<rparr>, [])"
| "handleData now ps who FLOWCHART_END c = (handleFlowchartEnd now c, [])"
| "handleData now ps who (CDR_FLOWCHART_REQUEST content keep req) c =
     (c, [HandleCDRFlowchart content (case keep of None \<Rightarrow> True | Some b \<Rightarrow> b) (senderOr req (map_option fst who))])"
| "handleData now ps who (CDR_ANALYSIS_REQUEST content keep req) c =
     (c, [HandleCDRAnalysis content (case keep of None \<Rightarrow> True | Some b \<Rightarrow> b) (senderOr req (map_option fst who))])"
| "handleData now ps who (SKELETON_CODE_REQUEST nodes edges lang req) c =
     (c, [HandleSkeletonCode nodes edges (str_or lang (js ''python'')) (senderOr req (map_option fst who))])"
| "handleData now ps who (FLOWCHART_CONTEXT nodes edges summary) c =
     (c\<lparr>flowchartContext := Some \<lparr>fc_nodes = nodes, fc_edges = edges, fc_summary = summary\<rparr>,
        flowchartModeActive := flowchartModeActive c \<or> nodes \<noteq> []\<rparr>, [])"
| "handleData now ps who DESIGN_BOARD_START c =
     (if designModeActive c then c else c\<lparr>designModeActive := True, designModeOpenTime := now\<rparr>, [])"
| "handleData now ps who DESIGN_BOARD_END c = (handleDesignEnd now c, [])"
| "handleData now ps who (DESIGN_BOARD_DIAGRAMS_GENERATED types codes) c =
     (if designModeActive c \<and> types \<noteq> []
      then (c\<lparr>pendingDiagramExplanation := Some (types, codes)\<rparr>, [ExplainDiagrams types codes])
      else (c, []))"
| "handleData now ps who (PDF_QUESTION q ctx) c = (c, [HandlePdfQuestion q ctx (senderOr None (map_option fst who))])"
| "handleData now ps who (BOARD_TRANSFORM_REQUEST img) c = (c, [HandleBoardTransform img (senderOr None (map_option fst who))])"
| "handleData now ps who (QUIZ_GENERATE_REQUEST n ty) c =
     (c, [HandleQuizGenerate (num_or n 5) (str_or ty (js ''mixed'')) (senderOr None (map_option fst who))])"
| "handleData now ps who (QUIZ_EVALUATE_REQUEST q a) c = (c, [HandleQuizEvaluate q a (senderOr None (map_option fst who))])"
| "handleData now ps who PERPLEXITY_START c =
     (if perplexityModeActive c then (c, [])
      else (c\<lparr>perplexityModeActive := True\<rparr>, perplexityStart ps who))"
| "handleData now ps who PERPLEXITY_END c =
     (if perplexityModeActive c then (c\<lparr>perplexityModeActive := False\<rparr>, [PerplexityEndSession]) else (c, []))"
| "handleData now ps who (PERPLEXITY_UPDATE payload) c =
     (c, if perplexityModeActive c then [HandlePerplexityMessage payload (map_option fst who)] else [])"

section \<open>Room events\<close>

definition screenShareStarted :: "RoomContext \<Rightarrow> RoomContext" where
  "screenShareStarted c = c\<lparr>hasActiveScreenShare := True\<rparr>"

definition screenShareEnded :: "RoomContext \<Rightarrow> RoomContext" where
  "screenShareEnded c = c\<lparr>hasActiveScreenShare := False, isVisionMode := False\<rparr>"

text \<open>A participant enters; the timer state sent to a newcomer is part of the timer theory.\<close>

definition participantConnected :: "jstr \<Rightarrow> jstr \<Rightarrow> RoomContext \<Rightarrow> RoomContext \<times> dc_call list" where
  "participantConnected p name c =
     (if isBot p then (c, [])
      else (c\<lparr>shutdownTimeout := False\<rparr>,
            if hostOnlyMode c \<and> p \<notin> set (hostIdentities c)
            then [ParticipantJoined p (str_or (Some name) p) ParticipantRole] else []))"

definition humans :: "roster \<Rightarrow> jstr list" where
  "humans ps = filter (\<lambda>p. \<not> isBot p) (map fst ps)"

text \<open>A participant has left; \<open>ps\<close> are the participants that remain.\<close>

definition participantDisconnected :: "roster \<Rightarrow> jstr \<Rightarrow> RoomContext \<Rightarrow> RoomContext \<times> dc_call list" where
  "participantDisconnected ps p c =
     (let c1 = c\<lparr>participantSpeakingStats := jdel p (participantSpeakingStats c)\<rparr>;
          left = (if \<not> isBot p \<and> hostOnlyMode c then [ParticipantLeft p] else [])
      in if humans ps = [] \<and> \<not> shutdownTimeout c1
         then (c1\<lparr>shutdownTimeout := True\<rparr>, left @ [ScheduleShutdown])
         else (c1, left))"

text \<open>The shutdown timer runs out.\<close>

definition shutdownFires :: "roster \<Rightarrow> RoomContext \<Rightarrow> RoomContext \<times> dc_call list" where
  "shutdownFires ps c = (if humans ps = [] then (c, [StopBotWithCleanup]) else (c\<lparr>shutdownTimeout := False\<rparr>, []))"

section \<open>Debounce of the idea mode\<close>

definition ideaMessage :: "int \<Rightarrow> bool \<Rightarrow> RoomContext \<Rightarrow> RoomContext \<times> bool" where
  "ideaMessage now on c =
     (let c1 = fst (handleData now [] None (if on then IDEA_MODE_START else IDEA_MODE_END) c)
      in (c1, ideaModeActive c1 \<noteq> ideaModeActive c))"

definition lastIdeaChange :: "RoomContext \<Rightarrow> int option" where
  "lastIdeaChange c = Some (lastIdeaModeChange c)"

interpretation idea_mode: cooldown_gate ideaMessage lastIdeaChange MODE_CHANGE_DEBOUNCE_MS
  by unfold_locales
    (auto simp: ideaMessage_def lastIdeaChange_def handleIdeaMode_def Let_def split: if_splits)

section \<open>Hosts\<close>

definition receive :: "int \<times> roster \<times> (jstr \<times> jstr) option \<times> data_msg \<Rightarrow> RoomContext \<Rightarrow> RoomContext" where
  "receive e c = (case e of (now, ps, who, m) \<Rightarrow> fst (handleData now ps who m c))"

text \<open>Each of the two switches is changed by its own message only, and then set to the value the message has.\<close>

lemma wake_word_message:
  assumes "wakeWordEnabled (fst (handleData now ps who m c)) \<noteq> wakeWordEnabled c"
  shows "m = WAKE_WORD_TOGGLE (wakeWordEnabled (fst (handleData now ps who m c))) \<and> isHost (map_option fst who) c"
  using assms
  by (cases m) (auto simp: handleHostMode_def handleIdeaMode_def handleFlowchartEnd_def handleDesignEnd_def Let_def split: if_splits)

lemma speaking_message:
  assumes "speakingEnabled (fst (handleData now ps who m c)) \<noteq> speakingEnabled c"
  shows "m = SPEAKING_TOGGLE (speakingEnabled (fst (handleData now ps who m c))) \<and> isHost (map_option fst who) c"
  using assms
  by (cases m) (auto simp: handleHostMode_def handleIdeaMode_def handleFlowchartEnd_def handleDesignEnd_def Let_def split: if_splits)

lemma isHostD: "isHost (map_option fst who) c \<Longrightarrow> \<exists>p n. who = Some (p, n) \<and> p \<in> set (hostIdentities c)"
  by (auto simp: isHost_def truthy_str_def split: option.splits)

text \<open>A change over a run is due to one of its messages: the last one that changed the value.\<close>

lemma last_change:
  assumes "f (fold step es c) \<noteq> f c"
  shows "\<exists>pre e post. es = pre @ e # post \<and> f (step e (fold step pre c)) \<noteq> f (fold step pre c) \<and>
    f (step e (fold step pre c)) = f (fold step es c)"
  using assms
proof (induction es rule: rev_induct)
  case (snoc x xs)
  show ?case
  proof (cases "f (fold step (xs @ [x]) c) = f (fold step xs c)")
    case True
    then have "f (fold step xs c) \<noteq> f c" using snoc.prems by simp
    from snoc.IH [OF this] obtain pre e post where "xs = pre @ e # post"
        "f (step e (fold step pre c)) \<noteq> f (fold step pre c)" "f (step e (fold step pre c)) = f (fold step xs c)" by blast
    then show ?thesis using True by (intro exI [of _ pre] exI [of _ e] exI [of _ "post @ [x]"]) simp
  next
    case False
    then show ?thesis by (intro exI [of _ xs] exI [of _ x] exI [of _ "[]"]) simp
  qed
qed simp

section \<open>Properties\<close>

text \<open>
  C36. Only hosts toggle: after any sequence of messages, of every kind and from anybody, the switch of the wake word differs from
  what it was only if one of the messages is a toggle to the value it has now, sent by a participant who was in the host list when
  it arrived; and likewise the switch of the voice. The host list itself is open to everybody.
\<close>

theorem only_hosts_toggle:
  "(if wakeWordEnabled (fold receive es c) = wakeWordEnabled c then True
    else \<exists>pre now ps p n post. es = pre @ (now, ps, Some (p, n), WAKE_WORD_TOGGLE (wakeWordEnabled (fold receive es c))) # post \<and>
      p \<in> set (hostIdentities (fold receive pre c))) \<and>
   (if speakingEnabled (fold receive es c) = speakingEnabled c then True
    else \<exists>pre now ps p n post. es = pre @ (now, ps, Some (p, n), SPEAKING_TOGGLE (speakingEnabled (fold receive es c))) # post \<and>
      p \<in> set (hostIdentities (fold receive pre c)))"
proof -
  have "\<exists>pre now ps p n post. es = pre @ (now, ps, Some (p, n), WAKE_WORD_TOGGLE (wakeWordEnabled (fold receive es c))) # post \<and>
      p \<in> set (hostIdentities (fold receive pre c))" if ch: "wakeWordEnabled (fold receive es c) \<noteq> wakeWordEnabled c"
  proof -
    from last_change [where f = wakeWordEnabled, OF ch] obtain pre e post where es: "es = pre @ e # post"
      and l: "wakeWordEnabled (receive e (fold receive pre c)) \<noteq> wakeWordEnabled (fold receive pre c)"
        "wakeWordEnabled (receive e (fold receive pre c)) = wakeWordEnabled (fold receive es c)" by blast
    obtain now ps who m where e: "e = (now, ps, who, m)" by (metis surj_pair)
    have r: "receive e (fold receive pre c) = fst (handleData now ps who m (fold receive pre c))" by (simp add: receive_def e)
    have "m = WAKE_WORD_TOGGLE (wakeWordEnabled (fold receive es c))" "isHost (map_option fst who) (fold receive pre c)"
      using wake_word_message [OF l(1) [unfolded r]] l(2) unfolding r by auto
    with isHostD [OF this(2)] es e show ?thesis by blast
  qed
  moreover have "\<exists>pre now ps p n post. es = pre @ (now, ps, Some (p, n), SPEAKING_TOGGLE (speakingEnabled (fold receive es c))) # post \<and>
      p \<in> set (hostIdentities (fold receive pre c))" if ch: "speakingEnabled (fold receive es c) \<noteq> speakingEnabled c"
  proof -
    from last_change [where f = speakingEnabled, OF ch] obtain pre e post where es: "es = pre @ e # post"
      and l: "speakingEnabled (receive e (fold receive pre c)) \<noteq> speakingEnabled (fold receive pre c)"
        "speakingEnabled (receive e (fold receive pre c)) = speakingEnabled (fold receive es c)" by blast
    obtain now ps who m where e: "e = (now, ps, who, m)" by (metis surj_pair)
    have r: "receive e (fold receive pre c) = fst (handleData now ps who m (fold receive pre c))" by (simp add: receive_def e)
    have "m = SPEAKING_TOGGLE (speakingEnabled (fold receive es c))" "isHost (map_option fst who) (fold receive pre c)"
      using speaking_message [OF l(1) [unfolded r]] l(2) unfolding r by auto
    with isHostD [OF this(2)] es e show ?thesis by blast
  qed
  ultimately show ?thesis by simp
qed

text \<open>
  Anybody can become a host: the host list itself is not protected, so two messages of any
  participant, who need not be a host, are enough to set the wake word.
\<close>

theorem anybody_can_become_host:
  assumes "p \<noteq> []"
  shows "wakeWordEnabled (fold receive [(t1, ps, Some (p, n), HOST_ADD p None), (t2, ps, Some (p, n), WAKE_WORD_TOGGLE b)] c) = b"
  using assms by (simp add: receive_def isHost_def setAdd_def truthy_str_def)

theorem anybody_can_become_host_witness:
  "wakeWordEnabled (fold receive [(1, [], Some ([9], [9]), HOST_ADD [9] None), (2, [], Some ([9], [9]), WAKE_WORD_TOGGLE True)]
     (newRoomContext 0 None))"
  using anybody_can_become_host [of "[9]" 1 "[]" "[9]" 2 True "newRoomContext 0 None"] by simp

text \<open>
  Changes of the idea mode are at least half a second apart, however fast the front ends send
  their start and end messages.
\<close>

theorem idea_mode_debounced: "spaced 500 (idea_mode.fire_times c evs)"
  using idea_mode.firings_spaced [of c evs] by (simp add: MODE_CHANGE_DEBOUNCE_MS_def)

end
