(* ===== verification/Timeline.thy ===== *)
theory Timeline
  imports Prelude
begin

text \<open>
  The timeline service, \<open>src/livekit/timeline.service.ts\<close>: transcripts refined by a language model
  with the last minute of the room as context. The context of a room is an array object that
  \<open>cleanExpiredContext\<close> replaces, that \<open>addToContext\<close> pushes to and that \<open>sendTranscript\<close> still holds
  after the call of the model, so arrays have addresses in an explicit store. \<open>sendTranscript\<close> is
  split at its call of the model: other transcripts may be handled in between.
\<close>

section \<open>Model\<close>

record BufferedTranscript =
  bt_speaker :: jstr
  bt_text :: jstr
  bt_timestamp :: int

record ProcessedTranscript =
  refinedText :: jstr
  pt_keywords :: "jstr list"

record timeline_st =
  arrays :: "nat \<Rightarrow> BufferedTranscript list"
  nextArray :: nat
  contextBuffers :: "(jstr, nat) jmap"

definition init_timeline :: timeline_st where
  "init_timeline = \<lparr>arrays = (\<lambda>_. []), nextArray = 0, contextBuffers = []\<rparr>"

definition BUFFER_DURATION_MS :: int where "BUFFER_DURATION_MS = 60 * 1000"

text \<open>A new array object, and the array of a room or a new empty one.\<close>

definition newArray :: "BufferedTranscript list \<Rightarrow> timeline_st \<Rightarrow> nat \<times> timeline_st" where
  "newArray xs s = (nextArray s, s\<lparr>arrays := (arrays s)(nextArray s := xs), nextArray := Suc (nextArray s)\<rparr>)"

definition roomArray :: "jstr \<Rightarrow> timeline_st \<Rightarrow> nat \<times> timeline_st" where
  "roomArray r s = (case jget (contextBuffers s) r of Some a \<Rightarrow> (a, s) | None \<Rightarrow> newArray [] s)"

definition recent :: "int \<Rightarrow> BufferedTranscript \<Rightarrow> bool" where
  "recent now e \<longleftrightarrow> now - bt_timestamp e < BUFFER_DURATION_MS"

definition cleanExpiredContext :: "int \<Rightarrow> jstr \<Rightarrow> timeline_st \<Rightarrow> nat \<times> timeline_st" where
  "cleanExpiredContext now r s =
     (let (a, s1) = roomArray r s;
          (b, s2) = newArray (filter (recent now) (arrays s1 a)) s1
      in (b, s2\<lparr>contextBuffers := jset r b (contextBuffers s2)\<rparr>))"

definition addToContext :: "int \<Rightarrow> jstr \<Rightarrow> jstr \<Rightarrow> jstr \<Rightarrow> timeline_st \<Rightarrow> timeline_st" where
  "addToContext now r speaker t s =
     (let (a, s1) = roomArray r s
      in s1\<lparr>arrays := (arrays s1)(a := arrays s1 a @ [\<lparr>bt_speaker = speaker, bt_text = t, bt_timestamp = now\<rparr>]),
            contextBuffers := jset r a (contextBuffers s1)\<rparr>)"

definition formatContext :: "BufferedTranscript list \<Rightarrow> jstr" where
  "formatContext buffer =
     (if buffer = [] then [] else join [10] (map (\<lambda>e. bt_speaker e @ [58, 32] @ bt_text e) buffer))"

definition clearBuffer :: "jstr \<Rightarrow> timeline_st \<Rightarrow> timeline_st" where
  "clearBuffer r s = s\<lparr>contextBuffers := jdel r (contextBuffers s)\<rparr>"

definition contextSection :: "jstr \<Rightarrow> jstr" where
  "contextSection ctx = (if ctx \<noteq> [] then [35, 35, 32, 51060, 51204, 32, 45824, 54868, 32,
    52968, 53581, 49828, 53944, 32, 40, 52280, 44256, 50857, 44, 32, 49688, 51221, 54616, 51648, 32,
    47568, 32, 44163, 41, 10] @ ctx @ [10, 10] else [])"

definition transcriptPrompt :: "jstr \<Rightarrow> jstr \<Rightarrow> jstr" where
  "transcriptPrompt transcript ctx = [45796, 51020, 51008, 32, 54924, 51032, 32, 51473, 32, 51020,
    49457, 51064, 49885, 40, 83, 84, 84, 41, 32, 44208, 44284, 51077, 45768, 45796, 46, 10, 46160, 32,
    44032, 51648, 32, 51089, 50629, 51012, 32, 49688, 54665, 54616, 49464, 50836, 58, 10, 10, 49, 46,
    32, 83, 84, 84, 32, 50724, 51064, 49885, 51012, 32, 44368, 51221, 54616, 50668, 32, 51088, 50672,
    49828, 47084, 50868, 32, 47928, 51109, 51004, 47196, 32, 45796, 46316, 44592, 10, 50, 46, 32,
    47928, 51109, 50640, 49436, 32, 51473, 50836, 32, 53412, 50892, 46300, 32, 52572, 45824, 32, 53,
    44060, 32, 52628, 52636, 10, 10] @ contextSection ctx @ [35, 35, 32, 83, 84, 84, 32, 51221, 51228,
    32, 44508, 52825, 10, 45, 32, 83, 84, 84, 32, 50724, 51064, 49885, 32, 44368, 51221, 32, 40, 44592,
    49696, 32, 50857, 50612, 44, 32, 50808, 47000, 50612, 32, 46321, 41, 10, 45, 32, 48520, 54596,
    50836, 54620, 32, 52628, 51076, 49352, 32, 51228, 44144, 32, 40, 51020, 44, 32, 50612, 44, 32,
    44536, 46, 46, 46, 41, 10, 45, 32, 50896, 47000, 32, 51032, 48120, 47484, 32, 50976, 51648, 54616,
    47732, 49436, 32, 51088, 50672, 49828, 47101, 44172, 32, 49688, 51221, 10, 45, 32, 51060, 51204,
    32, 45824, 54868, 32, 52968, 53581, 49828, 53944, 47484, 32, 52280, 44256, 54616, 50668, 32, 51068,
    44288, 46108, 32, 50857, 50612, 32, 49324, 50857, 10, 45, 32, 47589, 46973, 49345, 32, 48520,
    50756, 51204, 54620, 32, 47928, 51109, 51060, 47732, 32, 51088, 50672, 49828, 47101, 44172, 32,
    48372, 50756, 10, 10, 35, 35, 32, 83, 84, 84, 32, 50724, 51064, 49885, 32, 44368, 51221, 32, 50696,
    49884, 10, 10, 35, 35, 35, 32, 44592, 49696, 32, 50857, 50612, 10, 45, 32, 50976, 50500, 51060, 47,
    50976, 50500, 51060, 50641, 49828, 47, 50976, 50500, 51060, 32, 50976, 50641, 49828, 47, 50976,
    50500, 51060, 50976, 50641, 49828, 47, 85, 73, 32, 85, 88, 47, 50976, 32, 50500, 51060, 32, 50976,
    32, 50641, 49828, 32, 8594, 32, 85, 73, 47, 85, 88, 10, 45, 32, 50976, 50500, 51060, 32, 44256,
    46020, 54868, 47, 50976, 50500, 51060, 50641, 49828, 32, 44256, 46020, 54868, 32, 8594, 32, 85, 73,
    47, 85, 88, 32, 44256, 46020, 54868, 10, 45, 32, 47532, 50529, 53944, 47, 47532, 50641, 53944, 32,
    8594, 32, 82, 101, 97, 99, 116, 10, 45, 32, 53440, 51077, 49828, 53356, 47549, 53944, 32, 8594, 32,
    84, 121, 112, 101, 83, 99, 114, 105, 112, 116, 10, 45, 32, 46020, 52964, 47, 46021, 52964, 47,
    46021, 44144, 32, 8594, 32, 68, 111, 99, 107, 101, 114, 10, 45, 32, 53216, 48260, 45348, 54000,
    49828, 47, 54980, 48372, 45348, 54000, 49828, 32, 8594, 32, 75, 117, 98, 101, 114, 110, 101, 116,
    101, 115, 10, 45, 32, 50937, 49548, 53011, 32, 8594, 32, 87, 101, 98, 83, 111, 99, 107, 101, 116,
    10, 45, 32, 50640, 51060, 54588, 50500, 51060, 32, 8594, 32, 65, 80, 73, 10, 45, 32, 50648, 50648,
    50656, 32, 8594, 32, 76, 76, 77, 10, 45, 32, 51648, 54588, 54000, 32, 8594, 32, 71, 80, 84, 10, 45,
    32, 50976, 51592, 47700, 47784, 47, 50976, 51200, 47700, 47784, 47, 50976, 49828, 47700, 47784, 32,
    8594, 32, 117, 115, 101, 77, 101, 109, 111, 10, 45, 32, 50976, 51592, 51060, 54169, 53944, 47,
    50976, 49828, 51060, 54169, 53944, 32, 8594, 32, 117, 115, 101, 69, 102, 102, 101, 99, 116, 10, 45,
    32, 54532, 47200, 53944, 50644, 46300, 32, 8594, 32, 70, 114, 111, 110, 116, 101, 110, 100, 10, 45,
    32, 46972, 51060, 48652, 53431, 32, 8594, 32, 76, 105, 118, 101, 75, 105, 116, 10, 45, 32, 53364,
    47196, 48148, 47, 44544, 47196, 48148, 47, 53364, 47196, 48260, 32, 8594, 32, 67, 108, 111, 118,
    97, 10, 45, 32, 44611, 54728, 48652, 47, 44611, 54745, 47, 44592, 53944, 54728, 48652, 32, 8594,
    32, 71, 105, 116, 72, 117, 98, 10, 45, 32, 49836, 47001, 47, 49836, 47113, 47, 49828, 47001, 32,
    8594, 32, 83, 108, 97, 99, 107, 10, 45, 32, 49828, 53356, 47100, 47, 49828, 53356, 47088, 47,
    49828, 53356, 47212, 32, 8594, 32, 49828, 53356, 47100, 10, 45, 32, 51060, 50508, 46356, 47, 69,
    82, 68, 32, 8594, 32, 69, 82, 68, 10, 45, 32, 54540, 47196, 50864, 52264, 53944, 47, 54540, 47196,
    52264, 53944, 47, 54540, 47196, 50864, 32, 52264, 53944, 32, 8594, 32, 54540, 47196, 50864, 52264,
    53944, 10, 45, 32, 49884, 53248, 49828, 47, 49884, 52968, 49828, 47, 50472, 53248, 49828, 32, 8594,
    32, 49884, 53248, 49828, 32, 45796, 51060, 50612, 44536, 47016, 10, 45, 32, 50500, 53412, 53581,
    52376, 47, 50500, 53412, 53469, 52376, 47, 50500, 53412, 53581, 52432, 32, 8594, 32, 50500, 53412,
    53581, 52376, 10, 10, 35, 35, 35, 32, 49436, 48708, 49828, 32, 50857, 50612, 10, 45, 32, 54756,
    51060, 47197, 47, 54756, 51060, 47197, 49373, 47, 54924, 51060, 47197, 32, 8594, 32, 54924, 51032,
    47197, 10, 45, 32, 52397, 50668, 51088, 47, 52280, 50556, 51088, 32, 8594, 32, 52280, 50668, 51088,
    10, 45, 32, 51652, 54665, 51088, 47, 51652, 54665, 52264, 32, 8594, 32, 51652, 54665, 51088, 10,
    45, 32, 50529, 49496, 50500, 51060, 53596, 47, 50529, 49496, 32, 50500, 51060, 53596, 47, 50529,
    49664, 50500, 51060, 53596, 32, 8594, 32, 50529, 49496, 32, 50500, 51060, 53596, 10, 45, 32, 53440,
    51076, 46972, 51064, 47, 53440, 51060, 46972, 51064, 47, 53440, 51076, 32, 46972, 51064, 32, 8594,
    32, 53440, 51076, 46972, 51064, 10, 45, 32, 48513, 47560, 53356, 47, 48513, 47561, 47, 48513,
    47568, 53356, 32, 8594, 32, 48513, 47560, 53356, 10, 45, 32, 52888, 47536, 45908, 47, 52888, 47088,
    45908, 47, 53000, 47536, 45908, 32, 8594, 32, 52888, 47536, 45908, 10, 45, 32, 54924, 51032, 49345,
    53468, 48148, 47, 54924, 51032, 32, 49345, 53468, 48148, 47, 49345, 53468, 48148, 32, 8594, 32,
    54924, 51032, 32, 49345, 53468, 48148, 10, 45, 32, 54868, 47732, 48516, 49437, 47, 54868, 47732,
    32, 48516, 49437, 47, 54868, 47732, 48516, 49437, 44592, 45733, 32, 8594, 32, 54868, 47732, 32,
    48516, 49437, 10, 45, 32, 54868, 47732, 44277, 50976, 47, 54868, 47732, 32, 44277, 50976, 32, 8594,
    32, 54868, 47732, 32, 44277, 50976, 10, 45, 32, 54252, 49828, 53552, 49464, 49496, 47, 54252,
    49828, 53552, 32, 49464, 49496, 32, 8594, 32, 54252, 49828, 53552, 32, 49464, 49496, 10, 10, 35,
    35, 35, 32, 51068, 48152, 32, 50857, 50612, 10, 45, 32, 44256, 46020, 50752, 47, 44256, 46020,
    50500, 32, 8594, 32, 44256, 46020, 54868, 10, 45, 32, 51064, 49885, 51012, 47, 51064, 49885, 50984,
    32, 8594, 32, 51064, 49885, 47456, 10, 45, 32, 49373, 49440, 32, 49549, 46020, 47, 49457, 44277,
    32, 49549, 46020, 32, 8594, 32, 49373, 49457, 32, 49549, 46020, 10, 45, 32, 48708, 46041, 51089,
    32, 8594, 32, 48708, 46041, 44592, 10, 45, 32, 53084, 48177, 47, 53252, 48177, 32, 8594, 32, 99,
    97, 108, 108, 98, 97, 99, 107, 10, 45, 32, 49884, 50672, 47, 49884, 50616, 32, 8594, 32, 49884,
    50672, 10, 45, 32, 44201, 52264, 47196, 47, 44201, 51088, 47196, 32, 8594, 32, 44201, 51088, 10,
    45, 32, 47582, 52644, 50752, 47, 47582, 52644, 50500, 32, 8594, 32, 47582, 52644, 54868, 10, 10,
    35, 35, 35, 32, 52280, 50668, 51088, 32, 51060, 47492, 10, 45, 32, 53468, 51008, 47, 53468, 50868,
    47, 53580, 51008, 32, 8594, 32, 53468, 51008, 10, 45, 32, 46041, 44508, 47, 46041, 44396, 47,
    46041, 44480, 32, 8594, 32, 46041, 44508, 10, 45, 32, 51648, 50885, 47, 51648, 51025, 47, 51648,
    50885, 51060, 32, 8594, 32, 51648, 50885, 10, 45, 32, 47749, 44592, 47, 47749, 44592, 45784, 47,
    47749, 45180, 32, 8594, 32, 47749, 44592, 10, 45, 32, 47704, 53664, 47, 47704, 53552, 47, 47592,
    53664, 32, 8594, 32, 47704, 53664, 10, 10, 35, 35, 32, 53412, 50892, 46300, 32, 52628, 52636, 32,
    44508, 52825, 10, 45, 32, 47928, 51109, 51032, 32, 54645, 49900, 32, 44060, 45392, 51012, 32,
    45208, 53440, 45236, 45716, 32, 47749, 49324, 47, 50857, 50612, 47564, 32, 52628, 52636, 10, 45,
    32, 52572, 45824, 32, 53, 44060, 44620, 51648, 47564, 32, 40, 51473, 50836, 46020, 32, 49692, 41,
    10, 45, 32, 51032, 48120, 32, 50630, 45716, 32, 51068, 48152, 32, 45800, 50612, 32, 51228, 50808,
    32, 40, 51080, 45796, 44, 32, 54616, 45796, 44, 32, 44163, 44, 32, 46321, 41, 10, 45, 32, 53412,
    50892, 46300, 44032, 32, 50630, 51004, 47732, 32, 48712, 32, 48176, 50676, 10, 10, 35, 35, 32,
    51221, 51228, 54624, 32, 83, 84, 84, 32, 50896, 48376, 32, 40, 51060, 44163, 47564, 32, 51221,
    51228, 41, 10] @ transcript @ [10, 10, 35, 35, 32, 52636, 47141, 32, 54805, 49885, 32, 40, 74, 83,
    79, 78, 47564, 32, 52636, 47141, 44, 32, 45796, 47480, 32, 49444, 47749, 32, 50630, 51060, 41, 10,
    123, 34, 116, 101, 120, 116, 34, 58, 32, 34, 51221, 51228, 46108, 32, 47928, 51109, 34, 44, 32, 34,
    107, 101, 121, 119, 111, 114, 100, 115, 34, 58, 32, 91, 34, 53412, 50892, 46300, 49, 34, 44, 32,
    34, 53412, 50892, 46300, 50, 34, 93, 125]"

text \<open>
  \<open>llm\<close> is \<open>sendMessagePure\<close>, \<open>None\<close> when it rejects; \<open>parse\<close> is \<open>JSON.parse\<close>, \<open>None\<close> when it throws,
  and otherwise the field \<open>text\<close> and the field \<open>keywords\<close> if it is an array.
\<close>

definition processTranscript :: "(jstr \<Rightarrow> jstr option) \<Rightarrow> (jstr \<Rightarrow> (jstr option \<times> jstr list option) option) \<Rightarrow>
    jstr \<Rightarrow> jstr \<Rightarrow> ProcessedTranscript" where
  "processTranscript llm parse transcript ctx =
     (case Option.bind (Option.bind (llm (transcriptPrompt transcript ctx)) jsonMatch) parse of
        Some (t, ks) \<Rightarrow> \<lparr>refinedText = str_or t transcript,
            pt_keywords = (case ks of Some l \<Rightarrow> take 5 l | None \<Rightarrow> [])\<rparr>
      | None \<Rightarrow> \<lparr>refinedText = transcript, pt_keywords = []\<rparr>)"

record TimelineMessage =
  tm_speaker :: jstr
  tm_text :: jstr
  tm_keywords :: "jstr list"
  originalText :: jstr
  tm_timestamp :: int
  tm_roomId :: jstr
  contextSize :: nat

text \<open>
  \<open>sendTranscript\<close> up to its call of the model: the array of valid entries and the context text; and
  from there on, with the array \<open>a\<close> it holds.
\<close>

definition sendRequest :: "int \<Rightarrow> jstr \<Rightarrow> jstr \<Rightarrow> timeline_st \<Rightarrow> (nat \<times> jstr) option \<times> timeline_st" where
  "sendRequest now r transcript s =
     (if length (trim transcript) \<le> 3 then (None, s)
      else let (a, s1) = cleanExpiredContext now r s in (Some (a, formatContext (arrays s1 a)), s1))"

definition sendReply :: "int \<Rightarrow> jstr \<Rightarrow> jstr \<Rightarrow> jstr \<Rightarrow> nat \<Rightarrow> ProcessedTranscript \<Rightarrow> timeline_st \<Rightarrow>
    TimelineMessage \<times> timeline_st" where
  "sendReply now r transcript speaker a p s =
     (let s1 = addToContext now r speaker (refinedText p) s
      in (\<lparr>tm_speaker = speaker, tm_text = refinedText p, tm_keywords = pt_keywords p,
           originalText = trim transcript, tm_timestamp = now, tm_roomId = r,
           contextSize = length (arrays s1 a)\<rparr>, s1))"

definition sendTranscript :: "(jstr \<Rightarrow> jstr option) \<Rightarrow> (jstr \<Rightarrow> (jstr option \<times> jstr list option) option) \<Rightarrow>
    int \<Rightarrow> int \<Rightarrow> jstr \<Rightarrow> jstr \<Rightarrow> jstr \<Rightarrow> timeline_st \<Rightarrow> TimelineMessage option \<times> timeline_st" where
  "sendTranscript llm parse now now' r transcript speaker s =
     (case sendRequest now r transcript s of
        (None, s1) \<Rightarrow> (None, s1)
      | (Some (a, ctx), s1) \<Rightarrow>
          let (m, s2) = sendReply now' r transcript speaker a (processTranscript llm parse (trim transcript) ctx) s1
          in (Some m, s2))"

section \<open>Interleaved transcripts and the log\<close>

text \<open>
  The event loop runs the two parts of transcripts of any rooms in any order. A reply carries
  whatever text the model gave.
\<close>

datatype timeline_op =
    Request int jstr jstr
  | Reply int jstr jstr jstr nat ProcessedTranscript
  | Clear jstr

fun timeline_step :: "timeline_op \<Rightarrow> timeline_st \<Rightarrow> timeline_st" where
  "timeline_step (Request now r t) s = snd (sendRequest now r t s)"
| "timeline_step (Reply now r t sp a p) s = snd (sendReply now r t sp a p s)"
| "timeline_step (Clear r) s = clearBuffer r s"

fun timeline_room :: "timeline_op \<Rightarrow> jstr" where
  "timeline_room (Request now r t) = r"
| "timeline_room (Reply now r t sp a p) = r"
| "timeline_room (Clear r) = r"

fun op_times :: "timeline_op list \<Rightarrow> int list" where
  "op_times [] = []"
| "op_times (Request now r t # ops) = now # op_times ops"
| "op_times (Reply now r t sp a p # ops) = now # op_times ops"
| "op_times (Clear r # ops) = op_times ops"

text \<open>The specification: everything that was said in a room since its buffer was last cleared.\<close>

fun log_step :: "timeline_op \<Rightarrow> (jstr \<Rightarrow> BufferedTranscript list) \<Rightarrow> jstr \<Rightarrow> BufferedTranscript list" where
  "log_step (Request now r t) l = l"
| "log_step (Reply now r t sp a p) l =
     l(r := l r @ [\<lparr>bt_speaker = sp, bt_text = refinedText p, bt_timestamp = now\<rparr>])"
| "log_step (Clear r) l = l(r := [])"

definition buffer :: "timeline_st \<Rightarrow> jstr \<Rightarrow> BufferedTranscript list" where
  "buffer s r = (case jget (contextBuffers s) r of None \<Rightarrow> [] | Some a \<Rightarrow> arrays s a)"

definition heap_ok :: "timeline_st \<Rightarrow> bool" where
  "heap_ok s \<longleftrightarrow> (\<forall>r a. jget (contextBuffers s) r = Some a \<longrightarrow> a < nextArray s) \<and>
     (\<forall>r r' a. jget (contextBuffers s) r = Some a \<longrightarrow> jget (contextBuffers s) r' = Some a \<longrightarrow> r = r')"

lemma heap_okD:
  assumes "heap_ok s" and "jget (contextBuffers s) r = Some a"
  shows "a < nextArray s" and "jget (contextBuffers s) r' = Some a \<Longrightarrow> r' = r"
  using assms unfolding heap_ok_def by blast+

lemma heap_init [simp]: "heap_ok init_timeline"
  by (simp add: heap_ok_def init_timeline_def)

text \<open>What each operation does to the heap and to the buffers the rooms see.\<close>

lemma clean_ok:
  assumes "heap_ok s"
  shows "heap_ok (snd (cleanExpiredContext now r s))"
  using assms
  by (auto simp: heap_ok_def cleanExpiredContext_def roomArray_def newArray_def less_Suc_eq
      split: option.splits if_splits; fastforce)

lemma clean_buffer:
  assumes "heap_ok s"
  shows "buffer (snd (cleanExpiredContext now r s)) = (buffer s)(r := filter (recent now) (buffer s r))"
  using heap_okD(1) [OF assms]
  by (fastforce simp: buffer_def cleanExpiredContext_def roomArray_def newArray_def split: option.splits)

lemma clean_array:
  "arrays (snd (cleanExpiredContext now r s)) (fst (cleanExpiredContext now r s)) =
     buffer (snd (cleanExpiredContext now r s)) r"
  by (simp add: buffer_def cleanExpiredContext_def split_beta Let_def)

lemma clean_addr: "jget (contextBuffers (snd (cleanExpiredContext now r s))) r = Some (fst (cleanExpiredContext now r s))"
  by (simp add: cleanExpiredContext_def split_beta Let_def)

lemma add_ok:
  assumes "heap_ok s"
  shows "heap_ok (addToContext now r sp t s)"
  using assms
  by (auto simp: heap_ok_def addToContext_def roomArray_def newArray_def less_Suc_eq
      split: option.splits if_splits; fastforce)

lemma add_buffer:
  assumes "heap_ok s"
  shows "buffer (addToContext now r sp t s) =
    (buffer s)(r := buffer s r @ [\<lparr>bt_speaker = sp, bt_text = t, bt_timestamp = now\<rparr>])"
proof (rule ext)
  fix r'
  show "buffer (addToContext now r sp t s) r' =
    ((buffer s)(r := buffer s r @ [\<lparr>bt_speaker = sp, bt_text = t, bt_timestamp = now\<rparr>])) r'"
  proof (cases "jget (contextBuffers s) r")
    case None
    then show ?thesis using heap_okD(1) [OF assms, of r']
      by (auto simp: buffer_def addToContext_def roomArray_def newArray_def split: option.splits)
  next
    case (Some a)
    then have "r' = r \<or> jget (contextBuffers s) r' \<noteq> Some a" using heap_okD(2) [OF assms Some] by blast
    with Some show ?thesis
      by (auto simp: buffer_def addToContext_def roomArray_def split: option.splits)
  qed
qed

lemma clear_ok: "heap_ok s \<Longrightarrow> heap_ok (clearBuffer r s)"
  by (auto simp: heap_ok_def clearBuffer_def split: if_splits)

lemma clear_buffer: "buffer (clearBuffer r s) = (buffer s)(r := [])"
  by (rule ext) (simp add: buffer_def clearBuffer_def split: option.splits)

lemma step_ok: "heap_ok s \<Longrightarrow> heap_ok (timeline_step op s)"
  by (cases op) (auto simp: sendRequest_def sendReply_def split_beta Let_def clean_ok add_ok clear_ok)

lemma request_buffer:
  "heap_ok s \<Longrightarrow> buffer (snd (sendRequest now r t s)) =
     (if length (trim t) \<le> 3 then buffer s else (buffer s)(r := filter (recent now) (buffer s r)))"
  by (simp add: sendRequest_def split_beta Let_def clean_buffer)

lemma reply_buffer:
  "heap_ok s \<Longrightarrow> buffer (snd (sendReply now r t sp a p s)) = log_step (Reply now r t sp a p) (buffer s)"
  by (simp add: sendReply_def Let_def add_buffer)

lemmas step_buffer = request_buffer reply_buffer clear_buffer

text \<open>Rooms do not see each other's transcripts.\<close>

interpretation timeline: room_isolated heap_ok timeline_step timeline_room buffer
proof (unfold_locales, goal_cases)
  case (1 s op) then show ?case by (rule step_ok)
next
  case (2 s r op) then show ?case by (cases op) (simp_all add: step_buffer)
next
  case (3 s s' op) then show ?case by (cases op) (simp_all add: step_buffer)
qed

lemma op_times_snoc: "op_times (ops @ [op]) = op_times ops @ op_times [op]"
  by (induction ops rule: op_times.induct) auto

lemma recent_mono: "now \<le> now' \<Longrightarrow> recent now' e \<Longrightarrow> recent now e"
  by (simp add: recent_def)

lemma filter_recent: "now \<le> now' \<Longrightarrow> filter (\<lambda>e. recent now e \<and> recent now' e) es = filter (recent now') es"
  by (auto intro: filter_cong recent_mono)

text \<open>
  At any time not before the operations the recent part of the buffer is the recent part of the log.
\<close>

lemma buffer_refines_log:
  assumes "\<forall>t \<in> set (op_times ops). t \<le> now"
  shows "filter (recent now) (buffer (fold timeline_step ops init_timeline) r) =
    filter (recent now) (fold log_step ops (\<lambda>_. []) r)"
  using assms
proof (induction ops arbitrary: r rule: rev_induct)
  case Nil
  then show ?case by (simp add: buffer_def init_timeline_def)
next
  case (snoc op ops)
  have ok: "heap_ok (fold timeline_step ops init_timeline)"
    by (rule timeline.inv_run [OF heap_init])
  have IH: "filter (recent now) (buffer (fold timeline_step ops init_timeline) r) =
      filter (recent now) (fold log_step ops (\<lambda>_. []) r)" for r
    using snoc by (simp add: op_times_snoc)
  show ?case
    using snoc.prems IH by (cases op) (simp_all add: step_buffer ok op_times_snoc filter_recent)
qed

section \<open>Properties\<close>

text \<open>
  C4. The context of a transcript is the last minute of its room: however requests, replies and
  clean-ups of all rooms interleave, a transcript handled at a time not before theirs is refined with
  exactly the texts said in the room since its last clean-up and less than a minute ago, in order;
  no concurrent clean-up of expired entries loses one.
\<close>

theorem context_is_last_minute:
  assumes "\<forall>t \<in> set (op_times ops). t \<le> now" and "3 < length (trim transcript)"
  shows "map_option snd (fst (sendRequest now r transcript (fold timeline_step ops init_timeline))) =
    Some (formatContext (filter (recent now) (fold log_step ops (\<lambda>_. []) r)))"
  using assms(2) clean_buffer [OF timeline.inv_run [OF heap_init]] buffer_refines_log [OF assms(1)]
  by (simp add: sendRequest_def split_beta Let_def clean_array)

definition demo_ops :: "timeline_op list" where
  "demo_ops = [Request 1000 [7] [97, 98, 99, 100], Request 1500 [7] [97, 98, 99, 101],
     Reply 2000 [7] [97, 98, 99, 101] [66] 1 \<lparr>refinedText = [120], pt_keywords = []\<rparr>,
     Reply 70000 [7] [97, 98, 99, 100] [65] 0 \<lparr>refinedText = [121], pt_keywords = []\<rparr>]"

theorem context_is_last_minute_witness:
  "map_option snd (fst (sendRequest 71000 [7] [97, 98, 99,
    102] (fold timeline_step demo_ops init_timeline))) =
    Some [65, 58, 32, 121]"
proof -
  have t: "trim [97, 98, 99, 102] = [97, 98, 99, 102]" by (simp add: trim_def is_space_def)
  have "fold log_step demo_ops (\<lambda>_. []) [7] =
      [\<lparr>bt_speaker = [66], bt_text = [120], bt_timestamp = 2000\<rparr>, \<lparr>bt_speaker = [65], bt_text = [121], bt_timestamp = 70000\<rparr>]"
    by (simp add: demo_ops_def)
  then show ?thesis
    using context_is_last_minute [of demo_ops 71000 "[97, 98, 99, 102]" "[7]"]
    by (simp add: demo_ops_def t recent_def BUFFER_DURATION_MS_def formatContext_def)
qed

text \<open>
  The reported size of the context is one too large when a transcript is handled without
  interruption: \<open>sendTranscript\<close> reads the length of the array of valid entries after it has pushed
  the new entry onto that same array. It also shows the total behaviour: a message is sent for every
  text of more than three characters, whatever the model does, with at most five keywords.
\<close>

theorem context_size_counts_new_entry:
  assumes "heap_ok s" and "3 < length (trim transcript)"
  shows "\<exists>m s'. sendTranscript llm parse now now' r transcript speaker s = (Some m, s') \<and>
    contextSize m = Suc (length (filter (recent now) (buffer s r))) \<and>
    buffer s' r = filter (recent now) (buffer s r) @ [\<lparr>bt_speaker = speaker, bt_text = tm_text m, bt_timestamp = now'\<rparr>] \<and>
    tm_text m \<noteq> [] \<and> length (tm_keywords m) \<le> 5 \<and>
    ((\<forall>p. llm p = None) \<longrightarrow> tm_text m = trim transcript \<and> tm_keywords m = [])"
proof -
  define a s1 where "a = fst (cleanExpiredContext now r s)" and "s1 = snd (cleanExpiredContext now r s)"
  define p where "p = processTranscript llm parse (trim transcript) (formatContext (arrays s1 a))"
  have ok: "heap_ok s1" using clean_ok [OF assms(1)] by (simp add: s1_def)
  have b1: "buffer s1 r = filter (recent now) (buffer s r)"
    using clean_buffer [OF assms(1)] by (simp add: s1_def)
  have addr: "jget (contextBuffers s1) r = Some a" using clean_addr by (simp add: a_def s1_def)
  define s2 where "s2 = addToContext now' r speaker (refinedText p) s1"
  have b2: "buffer s2 r = buffer s1 r @ [\<lparr>bt_speaker = speaker, bt_text = refinedText p, bt_timestamp = now'\<rparr>]"
    using add_buffer [OF ok] by (simp add: s2_def)
  have "arrays s2 a = buffer s2 r"
    using addr by (simp add: s2_def buffer_def addToContext_def roomArray_def)
  then have size: "length (arrays s2 a) = Suc (length (filter (recent now) (buffer s r)))"
    using b1 b2 by simp
  have t: "refinedText p \<noteq> []" "length (pt_keywords p) \<le> 5"
      "(\<forall>p. llm p = None) \<Longrightarrow> refinedText p = trim transcript \<and> pt_keywords p = []"
    using assms(2) by (auto simp: p_def processTranscript_def str_or_def split: option.splits prod.splits)
  show ?thesis
    using assms(2) size b1 b2 t
    by (simp add: sendTranscript_def sendRequest_def sendReply_def split_beta Let_def
        flip: a_def s1_def p_def s2_def)
qed

theorem context_size_counts_new_entry_witness:
  "\<exists>m s'. sendTranscript (\<lambda>_. None) (\<lambda>_. None) 5 6 [7] [97, 98, 99,
    100] [65] init_timeline = (Some m, s') \<and>
    contextSize m = 1 \<and> tm_text m = [97, 98, 99, 100]"
proof -
  have t: "trim [97, 98, 99, 100] = [97, 98, 99, 100]" by (simp add: trim_def is_space_def)
  show ?thesis
    using context_size_counts_new_entry [of init_timeline "[97, 98, 99,
      100]" "\<lambda>_. None" "\<lambda>_. None" 5 6 "[7]" "[65]"]
    by (fastforce simp: t buffer_def init_timeline_def heap_ok_def)
qed

end
