(* ===== verification/Proactive.thy ===== *)
theory Proactive
  imports RoomState "HOL-Library.Sublist"
begin

text \<open>
  Proactive insights: the analysis service \<open>src/agent/proactive/proactive-analysis.service.ts\<close> with
  its confidence threshold and its cooldown per type of insight, and the part of
  \<open>src/livekit/voice-bot.service.ts\<close> that runs it every eight seconds on the screen captures and the
  conversation of a room. The cooldowns are one map of the service, shared by all rooms. The
  analysis is split at the call of the model. Insights are what \<open>JSON.parse\<close> gave, so any field may
  be missing: the confidence is \<open>None\<close> when it is no number, and a comparison with it is false.
\<close>

section \<open>The analysis service\<close>

record ProactiveInsight =
  in_type :: "jstr option"
  in_title :: "jstr option"
  in_content :: "jstr option"
  in_confidence :: "rat option"
  in_source :: "jstr option"
  in_timestamp :: int

record AnalysisContext =
  screenTexts :: "jstr list"
  recentConversation :: "jstr list"
  ac_roomTopic :: "jstr option"

record ProactiveConfig =
  pc_enabled :: bool
  analysisIntervalMs :: int
  minConfidenceThreshold :: rat
  cooldownMs :: int
  maxInsightsPerAnalysis :: nat

definition DEFAULT_PROACTIVE_CONFIG :: ProactiveConfig where
  "DEFAULT_PROACTIVE_CONFIG = \<lparr>pc_enabled = True, analysisIntervalMs = 8000, minConfidenceThreshold = 70,
     cooldownMs = 60000, maxInsightsPerAnalysis = 2\<rparr>"

lemma config_simps [simp]:
  "minConfidenceThreshold DEFAULT_PROACTIVE_CONFIG = 70"
  "cooldownMs DEFAULT_PROACTIVE_CONFIG = 60000"
  "maxInsightsPerAnalysis DEFAULT_PROACTIVE_CONFIG = 2"
  by (simp_all add: DEFAULT_PROACTIVE_CONFIG_def)

type_synonym cooldowns = "(jstr option, int) jmap"

fun numberedScreens :: "int \<Rightarrow> jstr list \<Rightarrow> jstr list" where
  "numberedScreens i [] = []"
| "numberedScreens i (t # ts) = ([91, 54868, 47732, 32] @ jint (i + 1) @ [93,
  10] @ take 2000 t) # numberedScreens (i + 1) ts"

definition screenSection :: "AnalysisContext \<Rightarrow> jstr" where
  "screenSection c =
     (if screenTexts c \<noteq> [] then join [10, 10] (numberedScreens 0 (lastN 3 (screenTexts c)))
      else [40, 54868, 47732, 32, 53581, 49828, 53944, 32, 50630, 51020, 41])"

definition conversationSection :: "AnalysisContext \<Rightarrow> jstr" where
  "conversationSection c =
     (if recentConversation c \<noteq> [] then join [10] (lastN 5 (recentConversation c)) else [40,
       52572, 44540, 32, 48156, 54868, 32, 50630, 51020, 41])"

definition buildAnalysisPrompt :: "AnalysisContext \<Rightarrow> jstr" where
  "buildAnalysisPrompt c = [91, 50669, 54624, 93, 10, 45817, 49888, 51008, 32, 54868, 49345, 54924,
    51032, 50640, 32, 52280, 50668, 32, 51473, 51064, 32, 65, 73, 32, 48708, 49436, 51077, 45768,
    45796, 46, 10, 49324, 50857, 51088, 44032, 32, 44277, 50976, 54620, 32, 54868, 47732, 44284, 32,
    45824, 54868, 47484, 32, 49892, 49884, 44036, 51004, 47196, 32, 47784, 45768, 53552, 47553, 54616,
    44256, 44, 32, 49324, 50857, 51088, 50640, 44172, 32, 46020, 50880, 51060, 32, 46112, 32, 47564,
    54620, 32, 51221, 48372, 47484, 32, 51088, 48156, 51201, 51004, 47196, 32, 51228, 50504, 54633,
    45768, 45796, 46, 10, 10, 91, 54645, 49900, 32, 50896, 52825, 93, 10, 45817, 49888, 51032, 32,
    47785, 54364, 45716, 32, 49324, 50857, 51088, 44032, 32, 50836, 52397, 54616, 44592, 32, 51204,
    50640, 32, 47676, 51200, 32, 50976, 50857, 54620, 32, 51221, 48372, 47484, 32, 51228, 44277, 54616,
    45716, 32, 44163, 51077, 45768, 45796, 46, 10, 54868, 47732, 50640, 32, 48372, 51060, 45716, 32,
    45236, 50857, 44284, 32, 45824, 54868, 32, 47589, 46973, 51012, 32, 51333, 54633, 51201, 51004,
    47196, 32, 48516, 49437, 54616, 50668, 44, 32, 49324, 50857, 51088, 50640, 44172, 32, 44032, 52824,
    32, 51080, 45716, 32, 51064, 49324, 51060, 53944, 47484, 32, 48156, 44204, 54616, 49464, 50836, 46,
    10, 10] @ (if truthy_str (ac_roomTopic c) then [91, 54924, 51032, 32, 51452, 51228, 93, 58,
    32] @ the (ac_roomTopic c) @ [10] else []) @ [10, 10, 91, 44277, 50976, 46108, 32, 54868, 47732,
    32, 53581, 49828, 53944, 93, 10] @ screenSection c @ [10, 10, 91, 52572, 44540, 32, 45824, 54868,
    93, 10] @ conversationSection c @ [10, 10, 91, 51064, 49324, 51060, 53944, 32, 48156, 44204, 32,
    44032, 51060, 46300, 93, 10, 54868, 47732, 44284, 32, 45824, 54868, 47484, 32, 48516, 49437, 54616,
    50668, 32, 45796, 51020, 44284, 32, 44057, 51008, 32, 49345, 54889, 50640, 49436, 32, 51064, 49324,
    51060, 53944, 47484, 32, 51228, 44277, 54616, 49464, 50836, 58, 10, 10, 42, 42, 51221, 48372, 32,
    51228, 44277, 51060, 32, 50976, 50857, 54620, 32, 49345, 54889, 58, 42, 42, 10, 45, 32, 49324,
    50857, 51088, 44032, 32, 47924, 50616, 44032, 47484, 32, 52286, 44144, 45208, 32, 54032, 45800,
    54616, 47140, 45716, 32, 44163, 32, 44057, 51012, 32, 46412, 32, 40, 44288, 47144, 32, 51221,
    48372, 32, 51228, 44277, 41, 10, 45, 32, 54868, 47732, 50640, 32, 48516, 49437, 47, 50836, 50557,
    51060, 32, 46020, 50880, 46112, 32, 45936, 51060, 53552, 44032, 32, 51080, 51012, 32, 46412, 32,
    40, 54645, 49900, 32, 50836, 50557, 41, 10, 45, 32, 49324, 50857, 51088, 44032, 32, 51656, 47928,
    54616, 44144, 45208, 32, 44256, 48124, 54616, 45716, 32, 44163, 32, 44057, 51012, 32, 46412, 32,
    40, 45813, 48320, 51060, 45208, 32, 44288, 51216, 32, 51228, 44277, 41, 10, 45, 32, 54868, 47732,
    32, 45236, 50857, 50640, 32, 45824, 54644, 32, 52628, 44032, 32, 47589, 46973, 51060, 32, 46020,
    50880, 46112, 32, 46412, 32, 40, 48176, 44221, 32, 51648, 49885, 44, 32, 44288, 47144, 32, 51221,
    48372, 41, 10, 45, 32, 54788, 51116, 32, 45436, 51032, 32, 51452, 51228, 50640, 32, 45824, 54620,
    32, 48372, 52649, 32, 51221, 48372, 44032, 32, 51080, 51012, 32, 46412, 10, 45, 32, 49324, 50857,
    51088, 44032, 32, 45459, 52824, 44256, 32, 51080, 45716, 32, 51473, 50836, 54620, 32, 54252, 51064,
    53944, 44032, 32, 51080, 51012, 32, 46412, 10, 45, 32, 45936, 51060, 53552, 45208, 32, 53080,
    53584, 52768, 50640, 32, 45824, 54620, 32, 48516, 49437, 47, 54644, 49437, 51060, 32, 50976, 50857,
    54624, 32, 46412, 10, 10, 42, 42, 48152, 46300, 49884, 32, 51228, 50504, 54644, 50556, 32, 54616,
    45716, 32, 49345, 54889, 58, 42, 42, 10, 45, 32, 53076, 46300, 32, 50640, 47084, 44, 32, 48260,
    44536, 44, 32, 49457, 45733, 32, 51060, 49800, 44032, 32, 48372, 51068, 32, 46412, 10, 45, 32,
    48124, 44048, 32, 51221, 48372, 40, 65, 80, 73, 32, 53412, 44, 32, 48708, 48128, 48264, 54840, 44,
    32, 44060, 51064, 51221, 48372, 41, 44032, 32, 45432, 52636, 46104, 50612, 32, 51080, 51012, 32,
    46412, 10, 45, 32, 49324, 50857, 51088, 44032, 32, 47749, 48177, 55176, 32, 51096, 47803, 46108,
    32, 51221, 48372, 47484, 32, 48127, 44256, 32, 51080, 51012, 32, 46412, 10, 45, 32, 45908, 32,
    54952, 50984, 51201, 51064, 32, 48169, 48277, 51060, 45208, 32, 46020, 44396, 44032, 32, 51080,
    51012, 32, 46412, 10, 10, 42, 42, 53440, 51077, 32, 51648, 51221, 58, 42, 42, 10, 49345, 54889,
    50640, 32, 47582, 45716, 32, 116, 121, 112, 101, 51012, 32, 51088, 50976, 47213, 44172, 32, 51648,
    51221, 54616, 49464, 50836, 58, 10, 45, 32, 105, 110, 115, 105, 103, 104, 116, 58, 32, 51068,
    48152, 51201, 51064, 32, 51064, 49324, 51060, 53944, 44, 32, 48516, 49437, 44, 32, 50836, 50557,
    10, 45, 32, 115, 117, 103, 103, 101, 115, 116, 105, 111, 110, 58, 32, 51228, 50504, 44, 32, 52628,
    52380, 10, 45, 32, 97, 110, 115, 119, 101, 114, 58, 32, 51656, 47928, 50640, 32, 45824, 54620, 32,
    45813, 48320, 10, 45, 32, 119, 97, 114, 110, 105, 110, 103, 58, 32, 44221, 44256, 44, 32, 51452,
    51032, 49324, 54637, 10, 45, 32, 116, 105, 112, 58, 32, 54017, 44, 32, 45908, 32, 45208, 51008, 32,
    48169, 48277, 10, 45, 32, 105, 110, 102, 111, 58, 32, 52628, 44032, 32, 51221, 48372, 44, 32,
    48176, 44221, 32, 51648, 49885, 10, 45, 32, 44592, 53440, 32, 49345, 54889, 50640, 32, 47582,
    45716, 32, 116, 121, 112, 101, 32, 51088, 50976, 47213, 44172, 32, 49324, 50857, 10, 10, 91, 51025,
    45813, 32, 44508, 52825, 93, 10, 45, 32, 49888, 47280, 46020, 32, 55, 48, 37, 32, 51060, 49345,
    51064, 32, 44221, 50864, 47564, 32, 51228, 50504, 10, 45, 32, 51228, 47785, 32, 50, 48, 51088, 32,
    51060, 45236, 44, 32, 48376, 47928, 32, 51, 47928, 51109, 32, 51060, 45236, 10, 45, 32, 44396,
    52404, 51201, 51060, 44256, 32, 49892, 54665, 32, 44032, 45733, 54620, 32, 45236, 50857, 10, 45,
    32, 52572, 45824, 32, 50, 44060, 44620, 51648, 10, 10, 91, 51025, 45813, 32, 54805, 49885, 93, 10,
    48152, 46300, 49884, 32, 74, 83, 79, 78, 32, 48176, 50676, 47196, 47564, 32, 51025, 45813, 46, 32,
    49444, 47749, 32, 50630, 51060, 32, 74, 83, 79, 78, 47564, 46, 10, 54869, 49892, 54616, 51648, 32,
    50506, 51004, 47732, 32, 48712, 32, 48176, 50676, 32, 91, 93, 32, 48152, 54872, 46, 10, 10, 54805,
    49885, 58, 10, 91, 10, 32, 32, 123, 10, 32, 32, 32, 32, 34, 116, 121, 112, 101, 34, 58, 32, 34,
    49345, 54889, 50640, 32, 47582, 45716, 32, 53440, 51077, 34, 44, 10, 32, 32, 32, 32, 34, 116, 105,
    116, 108, 101, 34, 58, 32, 34, 44036, 44208, 54620, 32, 51228, 47785, 34, 44, 10, 32, 32, 32, 32,
    34, 99, 111, 110, 116, 101, 110, 116, 34, 58, 32, 34, 54868, 47732, 44284, 32, 45824, 54868, 32,
    47589, 46973, 51012, 32, 44592, 48152, 51004, 47196, 32, 54620, 32, 50976, 50857, 54620, 32, 51221,
    48372, 34, 44, 10, 32, 32, 32, 32, 34, 99, 111, 110, 102, 105, 100, 101, 110, 99, 101, 34, 58, 32,
    55, 48, 45, 49, 48, 48, 10, 32, 32, 125, 10, 93, 10, 10, 51064, 49324, 51060, 53944, 44032, 32,
    50630, 51004, 47732, 58, 32, 91, 93]"

text \<open>
  The text between the first code fence and the next one, else from the first opening to the last
  closing bracket, else the whole text.
\<close>

fun splitAtFence :: "jstr \<Rightarrow> (jstr \<times> jstr) option" where
  "splitAtFence [] = None"
| "splitAtFence (c # s) =
     (if starts_with [96, 96, 96] (c # s) then Some ([], drop 3 (c # s))
      else map_option (\<lambda>(a, b). (c # a, b)) (splitAtFence s))"

definition arrayMatch :: "jstr \<Rightarrow> jstr option" where
  "arrayMatch s =
     (let t = dropWhile (\<lambda>c. c \<noteq> 91) s; u = rev (dropWhile (\<lambda>c. c \<noteq> 93) (rev t))
      in if u = [] then None else Some u)"

definition fenced :: "jstr \<Rightarrow> jstr option" where
  "fenced s = (case splitAtFence s of
      None \<Rightarrow> None
    | Some (_, t) \<Rightarrow> map_option fst (splitAtFence (if starts_with [106, 115, 111,
      110] t then drop 4 t else t)))"

definition extractJSON :: "jstr \<Rightarrow> jstr" where
  "extractJSON s = (case fenced s of
      Some t \<Rightarrow> trim t
    | None \<Rightarrow> (case arrayMatch s of Some u \<Rightarrow> u | None \<Rightarrow> trim s))"

text \<open>
  \<open>answer\<close> is the text block of the model's response, if there is one; \<open>parse\<close> is \<open>JSON.parse\<close>: \<open>None\<close>
  when it throws, \<open>Some None\<close> when the value is not an array.
\<close>

definition callLLM :: "(jstr \<Rightarrow> ProactiveInsight list option option) \<Rightarrow> int \<Rightarrow> jstr option \<Rightarrow> ProactiveInsight list" where
  "callLLM parse now answer =
     (if \<not> truthy_str answer then []
      else case parse (extractJSON (the answer)) of
        Some (Some is) \<Rightarrow> map (\<lambda>i. i\<lparr>in_timestamp := now\<rparr>) is
      | _ \<Rightarrow> [])"

definition belowThreshold :: "ProactiveInsight \<Rightarrow> bool" where
  "belowThreshold i = (case in_confidence i of None \<Rightarrow> False | Some c \<Rightarrow> c < minConfidenceThreshold DEFAULT_PROACTIVE_CONFIG)"

definition coolingInsight :: "int \<Rightarrow> cooldowns \<Rightarrow> ProactiveInsight \<Rightarrow> bool" where
  "coolingInsight now cds i \<longleftrightarrow> now - num_or (jget cds (in_type i)) 0 < cooldownMs DEFAULT_PROACTIVE_CONFIG"

text \<open>The loop of \<open>filterInsights\<close>; \<open>n\<close> insights have passed already.\<close>

fun filterLoop :: "int \<Rightarrow> nat \<Rightarrow> ProactiveInsight list \<Rightarrow> cooldowns \<Rightarrow> ProactiveInsight list \<times> cooldowns" where
  "filterLoop now n [] cds = ([], cds)"
| "filterLoop now n (i # is) cds =
     (if belowThreshold i then filterLoop now n is cds
      else if coolingInsight now cds i then filterLoop now n is cds
      else let cds1 = jset (in_type i) now cds
           in if Suc n \<ge> maxInsightsPerAnalysis DEFAULT_PROACTIVE_CONFIG then ([i], cds1)
              else let (f, cds2) = filterLoop now (Suc n) is cds1 in (i # f, cds2))"

definition filterInsights :: "int \<Rightarrow> ProactiveInsight list \<Rightarrow> cooldowns \<Rightarrow> ProactiveInsight list \<times> cooldowns" where
  "filterInsights now is cds = filterLoop now 0 is cds"

text \<open>\<open>analyze\<close>: the prompt it asks, if any, and what it does with the answer (\<open>None\<close>: the call rejects).\<close>

definition analyzePrompt :: "AnalysisContext \<Rightarrow> jstr option" where
  "analyzePrompt c =
     (if screenTexts c = [] \<and> recentConversation c = [] then None else Some (buildAnalysisPrompt c))"

definition analyzeReply :: "(jstr \<Rightarrow> ProactiveInsight list option option) \<Rightarrow> int \<Rightarrow> jstr option option \<Rightarrow> cooldowns \<Rightarrow>
    ProactiveInsight list \<times> cooldowns" where
  "analyzeReply parse now answer cds = (case answer of
      None \<Rightarrow> ([], cds)
    | Some a \<Rightarrow> filterInsights now (callLLM parse now a) cds)"

definition hashTexts :: "(jstr \<Rightarrow> jstr) \<Rightarrow> jstr list \<Rightarrow> jstr" where
  "hashTexts md5 texts = take 16 (md5 (join [124, 124] texts))"

definition clearCooldowns :: "cooldowns \<Rightarrow> cooldowns" where
  "clearCooldowns cds = []"

section \<open>Running the analysis in a room\<close>

definition stopProactiveAnalysis :: "RoomContext \<Rightarrow> cooldowns \<Rightarrow> RoomContext \<times> cooldowns" where
  "stopProactiveAnalysis ctx cds =
     (if \<not> pa_enabled (proactiveAnalysis ctx) then (ctx, cds)
      else (ctx\<lparr>proactiveAnalysis := (proactiveAnalysis ctx)\<lparr>analysisTimer := False, pa_enabled := False\<rparr>\<rparr>,
            clearCooldowns cds))"

definition clearScreenContext :: "jstr \<Rightarrow> rooms \<Rightarrow> cooldowns \<Rightarrow> (bool \<times> jstr) \<times> rooms \<times> cooldowns" where
  "clearScreenContext r st cds = (case jget st r of
      None \<Rightarrow> ((False, [48169, 51012, 32, 52286, 51012, 32, 49688, 32, 50630, 49845, 45768,
        45796]), st, cds)
    | Some ctx \<Rightarrow>
        let (c1, cds1) = stopProactiveAnalysis ctx cds
        in ((True, [54868, 47732, 32, 52968, 53581, 49828, 53944, 32, 52488, 44592, 54868, 46120]),
            jset r (c1\<lparr>screenContextHistory := [], screenUnderstandingMode := False, screenContextStartTime := 0\<rparr>) st, cds1))"

definition recentScreenTexts :: "RoomContext \<Rightarrow> jstr list" where
  "recentScreenTexts ctx = map extractedText (lastN 3 (screenContextHistory ctx))"

definition recentTurns :: "RoomContext \<Rightarrow> jstr list" where
  "recentTurns ctx = map (\<lambda>t. (if turn_role t = UserRole then [49324, 50857,
    51088] else [50500, 50864, 46972]) @ [58, 32] @ turn_content t)
     (lastN 5 (conversationHistory ctx))"

text \<open>\<open>runProactiveAnalysis\<close> up to its call of the service, and the message it publishes afterwards.\<close>

definition runRequest :: "(jstr \<Rightarrow> jstr) \<Rightarrow> int \<Rightarrow> RoomContext \<Rightarrow> AnalysisContext option \<times> RoomContext" where
  "runRequest md5 now ctx =
     (if \<not> pa_enabled (proactiveAnalysis ctx) \<or> \<not> screenUnderstandingMode ctx then (None, ctx)
      else let sh = hashTexts md5 (recentScreenTexts ctx); ch = hashTexts md5 (recentTurns ctx)
           in if sh = lastScreenTextHash (proactiveAnalysis ctx) \<and> ch = lastConversationHash (proactiveAnalysis ctx)
              then (None, ctx)
              else (Some \<lparr>screenTexts = recentScreenTexts ctx, recentConversation = recentTurns ctx, ac_roomTopic = roomTopic ctx\<rparr>,
                    ctx\<lparr>proactiveAnalysis := (proactiveAnalysis ctx)\<lparr>lastScreenTextHash := sh,
                          lastConversationHash := ch, lastAnalysisTime := now\<rparr>\<rparr>))"

record ProactiveInsightMessage =
  pm_insights :: "ProactiveInsight list"
  pm_timestamp :: int

definition sendProactiveInsights :: "int \<Rightarrow> ProactiveInsight list \<Rightarrow> ProactiveInsightMessage" where
  "sendProactiveInsights now is = \<lparr>pm_insights = is, pm_timestamp = now\<rparr>"

definition runReply :: "(jstr \<Rightarrow> ProactiveInsight list option option) \<Rightarrow> int \<Rightarrow> jstr option option \<Rightarrow> cooldowns \<Rightarrow>
    ProactiveInsightMessage option \<times> cooldowns" where
  "runReply parse now answer cds =
     (let (is, cds1) = analyzeReply parse now answer cds
      in (if is \<noteq> [] then Some (sendProactiveInsights now is) else None, cds1))"

definition runProactiveAnalysis :: "(jstr \<Rightarrow> jstr) \<Rightarrow> (jstr \<Rightarrow> jstr option option) \<Rightarrow>
    (jstr \<Rightarrow> ProactiveInsight list option option) \<Rightarrow> int \<Rightarrow> int \<Rightarrow> RoomContext \<Rightarrow> cooldowns \<Rightarrow>
    ProactiveInsightMessage option \<times> RoomContext \<times> cooldowns" where
  "runProactiveAnalysis md5 llm parse now now' ctx cds = (case runRequest md5 now ctx of
      (None, c1) \<Rightarrow> (None, c1, cds)
    | (Some a, c1) \<Rightarrow> (case analyzePrompt a of
          None \<Rightarrow> (None, c1, cds)
        | Some p \<Rightarrow> let (m, cds1) = runReply parse now' (llm p) cds in (m, c1, cds1)))"

section \<open>Filtering\<close>

lemma filterLoop_sound:
  assumes "filterLoop now n is cds = (f, cds')" and "n < 2"
  shows "subseq f is" and "n + length f \<le> 2" and "distinct (map in_type f)"
    and "i \<in> set f \<Longrightarrow> \<not> belowThreshold i \<and> \<not> coolingInsight now cds i"
    and "jget cds' ty = (if ty \<in> in_type ` set f then Some now else jget cds ty)"
proof -
  have "subseq f is \<and> n + length f \<le> 2 \<and> distinct (map in_type f) \<and>
      (\<forall>i \<in> set f. \<not> belowThreshold i \<and> \<not> coolingInsight now cds i) \<and>
      (\<forall>ty. jget cds' ty = (if ty \<in> in_type ` set f then Some now else jget cds ty))"
    using assms
  proof (induction "is" arbitrary: n cds f)
    case Nil
    then show ?case by auto
  next
    case (Cons i "is")
    consider (skip) "belowThreshold i \<or> coolingInsight now cds i"
      | (last) "\<not> belowThreshold i" "\<not> coolingInsight now cds i" "Suc n \<ge> 2"
      | (more) "\<not> belowThreshold i" "\<not> coolingInsight now cds i" "Suc n < 2"
      by linarith
    then show ?case
    proof cases
      case skip
      then have "filterLoop now n is cds = (f, cds')" using Cons.prems by (auto split: if_splits)
      from Cons.IH [OF this Cons.prems(2)] show ?thesis by (auto intro: list_emb_Cons)
    next
      case last
      then have "f = [i]" "cds' = jset (in_type i) now cds" using Cons.prems by (auto simp: Let_def)
      with last Cons.prems(2) show ?thesis by auto
    next
      case more
      obtain g where g: "filterLoop now (Suc n) is (jset (in_type i) now cds) = (g, cds')" "f = i # g"
        using Cons.prems more by (auto simp: Let_def split: prod.splits)
      have cool: "coolingInsight now (jset (in_type i) now cds) j" if "in_type j = in_type i" for j
        using that by (simp add: coolingInsight_def num_or_def)
      have keep: "coolingInsight now (jset (in_type i) now cds) j = coolingInsight now cds j" if "in_type j \<noteq> in_type i" for j
        using that by (simp add: coolingInsight_def)
      note IH = Cons.IH [OF g(1) more(3)]
      then have new: "in_type j \<noteq> in_type i" if "j \<in> set g" for j using cool that by blast
      have "\<forall>j \<in> set g. \<not> belowThreshold j \<and> \<not> coolingInsight now cds j" using IH new keep by blast
      moreover have "in_type i \<notin> in_type ` set g" using new by (metis imageE)
      then have "distinct (map in_type f)" using IH g(2) by simp
      ultimately show ?thesis using IH g(2) more by auto
    qed
  qed
  then show "subseq f is" and "n + length f \<le> 2" and "distinct (map in_type f)"
    and "i \<in> set f \<Longrightarrow> \<not> belowThreshold i \<and> \<not> coolingInsight now cds i"
    and "jget cds' ty = (if ty \<in> in_type ` set f then Some now else jget cds ty)"
    by auto
qed

text \<open>An analysis that shows an insight of type \<open>ty\<close> fires for that type.\<close>

definition insightFires :: "jstr option \<Rightarrow> int \<Rightarrow> ProactiveInsight list \<Rightarrow> cooldowns \<Rightarrow> cooldowns \<times> bool" where
  "insightFires ty now is cds = (let (f, cds') = filterInsights now is cds in (cds', ty \<in> in_type ` set f))"

interpretation insights: cooldown_gate "insightFires ty" "\<lambda>cds. jget cds ty" 60000 for ty
proof (unfold_locales, goal_cases)
  case (1 now e s s')
  then show ?case
    using filterLoop_sound(5) [of now 0 e s] by (auto simp: insightFires_def filterInsights_def split: prod.splits)
next
  case (2 now e s s' t)
  obtain f where f: "filterLoop now 0 e s = (f, s')" "ty \<in> in_type ` set f"
    using 2(1) by (auto simp: insightFires_def filterInsights_def split: prod.splits)
  then obtain i where "in_type i = ty" "\<not> coolingInsight now s i"
    using filterLoop_sound(4) [OF f(1)] by auto
  with 2(2) show ?case by (auto simp: coolingInsight_def num_or_def split: if_splits)
next
  case (3 now e s s')
  then show ?case
    using filterLoop_sound(5) [of now 0 e s] by (auto simp: insightFires_def filterInsights_def split: prod.splits)
qed

section \<open>Properties\<close>

text \<open>
  An analysis shows a part of what the model found, in its order: at most two insights, of different
  types, none with a confidence below 70 and none of a type shown less than a minute ago. The types
  shown, and no others, start their cooldown.
\<close>

theorem insights_filtered:
  "let (f, cds') = filterInsights now is cds
   in subseq f is \<and> length f \<le> 2 \<and> distinct (map in_type f) \<and>
      list_all (\<lambda>i. (in_confidence i = None \<or> 70 \<le> the (in_confidence i)) \<and> 60000 \<le> now - num_or (jget cds (in_type i)) 0) f \<and>
      (\<forall>ty. jget cds' ty = (if ty \<in> in_type ` set f then Some now else jget cds ty))"
proof -
  obtain f cds' where f: "filterLoop now 0 is cds = (f, cds')" by (cases "filterLoop now 0 is cds")
  note s = filterLoop_sound [OF f]
  have "(in_confidence i = None \<or> 70 \<le> the (in_confidence i)) \<and> 60000 \<le> now - num_or (jget cds (in_type i)) 0"
    if "i \<in> set f" for i
    using s(4) [OF _ that] by (auto simp: belowThreshold_def coolingInsight_def split: option.splits)
  with s(1,2,3,5) show ?thesis by (simp add: filterInsights_def f list_all_iff)
qed

text \<open>
  The cooldown holds between rooms and fails between rooms. As long as no room stops its analysis,
  insights of one type are at least a minute apart, over all rooms together. When a room stops, the
  cooldowns of every room are gone: an insight just shown elsewhere is shown again at once.
\<close>

theorem insight_cooldown:
  "spaced 60000 (insights.fire_times ty cds evs) \<and>
   (\<forall>st r ctx. jget st r = Some ctx \<and> pa_enabled (proactiveAnalysis ctx) \<and> 60000 \<le> now \<and> \<not> belowThreshold i \<longrightarrow>
      fst (filterInsights now [i] (snd (snd (clearScreenContext r st cds)))) = [i])"
  using insights.firings_spaced
  by (auto simp: clearScreenContext_def stopProactiveAnalysis_def clearCooldowns_def filterInsights_def
      coolingInsight_def num_or_def Let_def)

definition shared_insight :: ProactiveInsight where
  "shared_insight = \<lparr>in_type = Some [119], in_title = None, in_content = None, in_confidence = Some 80, in_source = None, in_timestamp = 0\<rparr>"

theorem insight_cooldown_witness:
  "fst (filterInsights 70001 [shared_insight] (snd (filterInsights 70000 [shared_insight] []))) = [] \<and>
   fst (filterInsights 70001 [shared_insight]
     (snd (snd (clearScreenContext [9] [([9], startProactiveAnalysis (newRoomContext 0 None))]
        (snd (filterInsights 70000 [shared_insight] [])))))) = [shared_insight]"
proof
  show "fst (filterInsights 70001 [shared_insight] (snd (filterInsights 70000 [shared_insight] []))) = []"
    by (simp add: filterInsights_def shared_insight_def belowThreshold_def coolingInsight_def num_or_def Let_def)
  show "fst (filterInsights 70001 [shared_insight]
     (snd (snd (clearScreenContext [9] [([9], startProactiveAnalysis (newRoomContext 0 None))]
        (snd (filterInsights 70000 [shared_insight] [])))))) = [shared_insight]"
    using insight_cooldown [of _ "snd (filterInsights 70000 [shared_insight] [])" _ 70001 shared_insight]
    by (simp add: startProactiveAnalysis_def newRoomContext_def shared_insight_def belowThreshold_def)
qed

text \<open>
  The model is asked once per change: the first run after a start asks it, a run that finds the last
  three screens and five turns as at the run before does not and changes nothing, however often it is
  repeated, and a stopped room is never analysed. MD5 digests have 32 digits.
\<close>

theorem analysis_once_per_change:
  assumes "\<forall>x. length (md5 x) = 32" and "\<not> pa_enabled (proactiveAnalysis ctx)" and "screenUnderstandingMode ctx"
  shows "let c0 = startProactiveAnalysis ctx; (a, c1) = runRequest md5 now c0
    in a = Some \<lparr>screenTexts = recentScreenTexts ctx, recentConversation = recentTurns ctx, ac_roomTopic = roomTopic ctx\<rparr> \<and>
       fold (\<lambda>t c. snd (runRequest md5 t c)) ts c1 = c1 \<and> fst (runRequest md5 t c1) = None \<and>
       runRequest md5 t (fst (stopProactiveAnalysis c1 cds)) = (None, fst (stopProactiveAnalysis c1 cds))"
proof -
  define c0 where "c0 = startProactiveAnalysis ctx"
  define c1 where "c1 = snd (runRequest md5 now c0)"
  have sh: "recentScreenTexts c0 = recentScreenTexts ctx" "recentTurns c0 = recentTurns ctx" "roomTopic c0 = roomTopic ctx"
      "screenUnderstandingMode c0" "pa_enabled (proactiveAnalysis c0)"
      "lastScreenTextHash (proactiveAnalysis c0) = []"
    using assms(2,3) by (simp_all add: c0_def startProactiveAnalysis_def recentScreenTexts_def recentTurns_def)
  have ne: "hashTexts md5 xs \<noteq> []" for xs
  proof -
    have "length (hashTexts md5 xs) = 16" using assms(1) by (simp add: hashTexts_def)
    then show ?thesis by auto
  qed
  have c1: "c1 = c0\<lparr>proactiveAnalysis := (proactiveAnalysis c0)\<lparr>lastScreenTextHash := hashTexts md5 (recentScreenTexts ctx),
      lastConversationHash := hashTexts md5 (recentTurns ctx), lastAnalysisTime := now\<rparr>\<rparr>"
    and a: "fst (runRequest md5 now c0) =
      Some \<lparr>screenTexts = recentScreenTexts ctx, recentConversation = recentTurns ctx, ac_roomTopic = roomTopic ctx\<rparr>"
    using sh ne by (simp_all add: c1_def runRequest_def Let_def)
  have again: "runRequest md5 t c1 = (None, c1)" for t
  proof -
    have "recentScreenTexts c1 = recentScreenTexts ctx" "recentTurns c1 = recentTurns ctx"
      using sh by (simp_all add: c1 recentScreenTexts_def recentTurns_def)
    then show ?thesis using c1 by (simp add: runRequest_def Let_def)
  qed
  have "fold (\<lambda>t c. snd (runRequest md5 t c)) ts c1 = c1"
    by (induction ts) (simp_all add: again)
  moreover have "runRequest md5 t (fst (stopProactiveAnalysis c1 cds)) = (None, fst (stopProactiveAnalysis c1 cds))"
    by (simp add: runRequest_def stopProactiveAnalysis_def)
  ultimately show ?thesis
    using a again by (simp add: split_beta Let_def flip: c0_def c1_def)
qed

theorem analysis_once_per_change_witness:
  "let c0 = startProactiveAnalysis ((newRoomContext 0 None)\<lparr>screenUnderstandingMode := True\<rparr>)
   in fst (runRequest (\<lambda>_. replicate 32 48) 11000 (snd (runRequest (\<lambda>_. replicate 32 48) 3000 c0))) = None"
proof -
  have md5: "\<forall>x :: jstr. length ((\<lambda>_. replicate 32 48 :: jstr) x) = 32" by (simp only: length_replicate) simp
  show ?thesis
    using analysis_once_per_change [OF md5, of "(newRoomContext 0 None)\<lparr>screenUnderstandingMode := True\<rparr>" 3000 "[]" 11000]
    by (simp add: split_beta Let_def newRoomContext_def)
qed

end
