(* ===== verification/HostCoaching.thy ===== *)
theory HostCoaching
  imports VoiceTurn DataChannel
begin

text \<open>
  Coaching of the hosts, in \<open>src/livekit/voice-bot.service.ts\<close>: alerts about silent participants, the
  distribution of speaking time with alerts about a dominant speaker, the summary of the current
  topic, and questions a host types. The three checkers are interval callbacks; each keeps variables
  of its own between its runs, which are the state of the definitions here. A callback whose
  awaited calls are only messages to the hosts is one step.
\<close>

section \<open>Silent participants\<close>

definition SILENT_THRESHOLD_MS :: int where "SILENT_THRESHOLD_MS = 60 * 1000"

record silent_st =
  alreadyAlerted :: "jstr list"
  participantJoinTime :: "(jstr, int) jmap"

record SilentAlert =
  sa_participantId :: jstr
  sa_participantName :: jstr
  silentDurationMs :: int
  silentMinutes :: int
  sa_timestamp :: int
  sa_to :: "jstr list"

definition hostsListen :: "RoomContext \<Rightarrow> bool" where
  "hostsListen c \<longleftrightarrow> hostOnlyMode c \<and> hostIdentities c \<noteq> []"

definition sendSilentParticipantAlert :: "int \<Rightarrow> jstr \<Rightarrow> jstr \<Rightarrow> int \<Rightarrow> RoomContext option \<Rightarrow> SilentAlert list" where
  "sendSilentParticipantAlert now pid name dur c = (case c of
      None \<Rightarrow> []
    | Some ctx \<Rightarrow>
        if \<not> hostsListen ctx then []
        else [\<lparr>sa_participantId = pid, sa_participantName = name, silentDurationMs = dur,
               silentMinutes = dur div 60000, sa_timestamp = now, sa_to = hostIdentities ctx\<rparr>])"

definition lastStt :: "RoomContext \<Rightarrow> jstr \<Rightarrow> int" where
  "lastStt c pid = num_or (jget (lastSttTimeByUser c) pid) 0"

definition spokeRecently :: "int \<Rightarrow> RoomContext \<Rightarrow> jstr \<Rightarrow> bool" where
  "spokeRecently now c pid \<longleftrightarrow> lastStt c pid > 0 \<and> now - lastStt c pid < SILENT_THRESHOLD_MS"

text \<open>The body of the loop for one participant.\<close>

definition coached :: "RoomContext \<Rightarrow> jstr \<Rightarrow> bool" where
  "coached c pid \<longleftrightarrow> \<not> (starts_with [97, 105, 45, 98, 111,
    116] pid \<or> pid \<in> set (hostIdentities c))"

definition noteJoin :: "int \<Rightarrow> jstr \<Rightarrow> silent_st \<Rightarrow> silent_st" where
  "noteJoin now pid k = (if jhas (participantJoinTime k) pid then k
     else k\<lparr>participantJoinTime := jset pid now (participantJoinTime k)\<rparr>)"

definition silentDuration :: "int \<Rightarrow> RoomContext \<Rightarrow> silent_st \<Rightarrow> jstr \<Rightarrow> int" where
  "silentDuration now c k pid =
     now - (if lastStt c pid > 0 then lastStt c pid else num_or (jget (participantJoinTime k) pid) now)"

definition checkParticipant :: "int \<Rightarrow> RoomContext \<Rightarrow> jstr \<times> jstr \<Rightarrow> silent_st \<Rightarrow> silent_st \<times> SilentAlert list" where
  "checkParticipant now c p k =
     (let pid = fst p
      in if \<not> coached c pid then (k, [])
         else let k1 = noteJoin now pid k;
                  dur = silentDuration now c k1 pid;
                  alert = dur \<ge> SILENT_THRESHOLD_MS \<and> pid \<notin> set (alreadyAlerted k1);
                  k2 = (if alert then k1\<lparr>alreadyAlerted := setAdd pid (alreadyAlerted k1)\<rparr> else k1);
                  k3 = (if spokeRecently now c pid
                        then k2\<lparr>alreadyAlerted := filter (\<lambda>x. x \<noteq> pid) (alreadyAlerted k2)\<rparr> else k2)
              in (k3, if alert then sendSilentParticipantAlert now pid (str_or (Some (snd p)) pid) dur (Some c) else []))"

fun checkParticipants :: "int \<Rightarrow> RoomContext \<Rightarrow> roster \<Rightarrow> silent_st \<Rightarrow> silent_st \<times> SilentAlert list" where
  "checkParticipants now c [] k = (k, [])"
| "checkParticipants now c (p # ps) k =
     (let (k1, as) = checkParticipant now c p k; (k2, bs) = checkParticipants now c ps k1 in (k2, as @ bs))"

text \<open>One run of the checker; for a room that is gone it clears its interval.\<close>

definition silentCheck :: "int \<Rightarrow> RoomContext \<Rightarrow> roster \<Rightarrow> silent_st \<Rightarrow> silent_st \<times> SilentAlert list" where
  "silentCheck now c ps k = (if \<not> hostsListen c then (k, []) else checkParticipants now c ps k)"

section \<open>Speaking statistics\<close>

record StatsEntry =
  se_participantId :: jstr
  se_participantName :: jstr
  se_durationMs :: int
  se_count :: int
  speakingRatio :: rat

datatype stats_msg =
    PARTICIPANT_STATS "StatsEntry list" int int "jstr list"
  | DOMINANT_SPEAKER_ALERT jstr jstr rat int "jstr list"

definition DOMINANT_THRESHOLD :: rat where "DOMINANT_THRESHOLD = 6 / 10"

definition totalDuration :: "ParticipantSpeakingStats list \<Rightarrow> int" where
  "totalDuration xs = sum_list (map speakingDurationMs xs)"

definition statsEntry :: "int \<Rightarrow> ParticipantSpeakingStats \<Rightarrow> StatsEntry" where
  "statsEntry tot x =
     (let ratio = (if tot > 0 then of_int (speakingDurationMs x) / of_int tot else 0 :: rat)
      in \<lparr>se_participantId = ps_participantId x, se_participantName = ps_participantName x,
          se_durationMs = speakingDurationMs x, se_count = speakingCount x,
          speakingRatio = of_int (js_round (ratio * 100)) / 100\<rparr>)"

definition statsArray :: "ParticipantSpeakingStats list \<Rightarrow> StatsEntry list" where
  "statsArray xs = sort_key (\<lambda>e. - se_durationMs e) (map (statsEntry (totalDuration xs)) xs)"

definition statsTick :: "int \<Rightarrow> RoomContext \<Rightarrow> RoomContext \<times> stats_msg list" where
  "statsTick now c =
     (if \<not> hostsListen c then (c, [])
      else if participantSpeakingStats c = [] then (c, [])
      else let xs = jvals (participantSpeakingStats c);
               es = statsArray xs;
               top = hd es;
               msg = PARTICIPANT_STATS es (totalDuration xs) now (hostIdentities c);
               alert = length es \<ge> 2 \<and> \<not> dominantAlertSent c \<and> speakingRatio top \<ge> DOMINANT_THRESHOLD;
               c1 = (if alert then c\<lparr>dominantAlertSent := True\<rparr> else c);
               c2 = (if length es \<ge> 2 \<and> dominantAlertSent c1 \<and> speakingRatio top < DOMINANT_THRESHOLD - 1 / 10
                     then c1\<lparr>dominantAlertSent := False\<rparr> else c1)
           in (c2, msg # (if alert then [DOMINANT_SPEAKER_ALERT (se_participantId top) (se_participantName top)
                 (speakingRatio top) now (hostIdentities c)] else [])))"

section \<open>Topic summary\<close>

definition jsonMatchShort :: "jstr \<Rightarrow> jstr option" where
  "jsonMatchShort s =
     (let t = dropWhile (\<lambda>c. c \<noteq> 123) s; u = takeWhile (\<lambda>c. c \<noteq> 125) t
      in if 125 \<in> set t then Some (u @ [125]) else None)"

definition topicPrompt :: "jstr \<Rightarrow> jstr" where
  "topicPrompt report = [45796, 51020, 32, 54924, 51032, 32, 51473, 44036, 32, 48372, 44256, 49436,
    50640, 49436, 32, 54645, 49900, 32, 45436, 51216, 32, 49, 44060, 47484, 32, 52628, 52636, 54616,
    49464, 50836, 46, 10, 10, 48372, 44256, 49436, 58, 10] @ take 1000 report @ [10, 10, 51025, 45813,
    32, 54805, 49885, 32, 40, 74, 83, 79, 78, 47564, 44, 32, 45796, 47480, 32, 53581, 49828, 53944, 32,
    50630, 51060, 41, 58, 10, 123, 34, 116, 111, 112, 105, 99, 34, 58, 32, 34, 45436, 51216, 32, 51228,
    47785, 32, 40, 53, 45800, 50612, 32, 51060, 45236, 41, 34, 44, 32, 34, 115, 117, 109, 109, 97, 114,
    121, 34, 58, 32, 34, 54645, 49900, 32, 45236, 50857, 32, 50836, 50557, 32, 40, 49, 45, 50, 47928,
    51109, 41, 34, 125]"

datatype topic_msg = TOPIC_SUMMARY jstr jstr int "jstr list"

definition sendTopicSummary :: "int \<Rightarrow> jstr \<Rightarrow> jstr \<Rightarrow> RoomContext option \<Rightarrow> topic_msg list" where
  "sendTopicSummary now topic summary c = (case c of
      None \<Rightarrow> []
    | Some ctx \<Rightarrow> if \<not> hostsListen ctx then [] else [TOPIC_SUMMARY topic summary now (hostIdentities ctx)])"

text \<open>
  One run of the checker with its variable \<open>lastReportHash\<close>. The report is \<open>None\<close> when the request
  rejects, else whether it succeeded and its content; \<open>llm\<close> and \<open>parse\<close> may fail, and the parsed answer
  has a topic and a summary or not.
\<close>

definition topicTick :: "(jstr \<Rightarrow> jstr option) \<Rightarrow> (jstr \<Rightarrow> (jstr option \<times> jstr option) option) \<Rightarrow> int \<Rightarrow> RoomContext \<Rightarrow>
    (bool \<times> jstr option) option \<Rightarrow> jstr \<Rightarrow> jstr \<times> topic_msg list" where
  "topicTick llm parse now c report lastReportHash =
     (if \<not> hostsListen c then (lastReportHash, [])
      else case report of
        None \<Rightarrow> (lastReportHash, [])
      | Some (success, content) \<Rightarrow>
          if \<not> success \<or> \<not> truthy_str content then (lastReportHash, [])
          else let reportHash = take 100 (the content)
               in if reportHash = lastReportHash then (lastReportHash, [])
                  else (reportHash,
                    (case Option.bind (Option.bind (llm (topicPrompt (the content))) jsonMatchShort) parse of
                       Some (topic, summary) \<Rightarrow>
                         if truthy_str topic \<and> truthy_str summary
                         then sendTopicSummary now (the topic) (the summary) (Some c) else []
                     | None \<Rightarrow> [])))"

section \<open>Questions of a host\<close>

text \<open>\<open>rag\<close> and \<open>llm\<close> are \<open>None\<close> when the call rejects; an empty answer of \<open>rag\<close> counts as none.\<close>

definition hostQueryPrompt :: "jstr \<Rightarrow> jstr" where
  "hostQueryPrompt q = [51656, 47928, 58, 32] @ q @ [10, 10, 44036, 44208, 54616, 44256, 32, 47749,
    54869, 54616, 44172, 32, 54620, 44397, 50612, 47196, 32, 45813, 48320, 54644, 51452, 49464, 50836,
    46]"

definition hostAnswer :: "(jstr \<Rightarrow> jstr option) \<Rightarrow> (jstr \<Rightarrow> jstr option) \<Rightarrow> jstr \<Rightarrow> jstr option" where
  "hostAnswer rag llm q = (case rag q of
      None \<Rightarrow> None
    | Some a \<Rightarrow> if a \<noteq> [] then Some a else llm (hostQueryPrompt q))"

definition processHostQuery :: "(jstr \<Rightarrow> jstr option) \<Rightarrow> (jstr \<Rightarrow> jstr option) \<Rightarrow> int \<Rightarrow> jstr \<Rightarrow> jstr \<Rightarrow> RoomContext \<Rightarrow>
    RoomContext \<times> bot_out list" where
  "processHostQuery rag llm now q host c = (case hostAnswer rag llm q of
      Some a \<Rightarrow> (c\<lparr>conversationHistory := conversationHistory c @
          [\<lparr>turn_role = UserRole, turn_content = q, turn_timestamp = now, turn_speaker = Some host\<rparr>]\<rparr>,
        sendTextCardToHost c a)
    | None \<Rightarrow> (c, sendTextCardToHost c [51396, 49569, 54644, 50836, 44, 32, 51104, 49884,
      32, 47928, 51228, 44032, 32, 49373, 44220, 50612, 50836, 46]))"

section \<open>Silent participants: lemmas\<close>

lemma setAdd_set [simp]: "set (setAdd x xs) = insert x (set xs)"
  by (auto simp: setAdd_def)

text \<open>What a run does for one participant depends on the entries of that participant only.\<close>

definition silence :: "int \<Rightarrow> RoomContext \<Rightarrow> silent_st \<Rightarrow> jstr \<Rightarrow> int" where
  "silence now c k pid = silentDuration now c (noteJoin now pid k) pid"

definition newlySilent :: "int \<Rightarrow> RoomContext \<Rightarrow> silent_st \<Rightarrow> jstr \<Rightarrow> bool" where
  "newlySilent now c k pid \<longleftrightarrow> coached c pid \<and> SILENT_THRESHOLD_MS \<le> silence now c k pid \<and> pid \<notin> set (alreadyAlerted k)"

definition alertOf :: "int \<Rightarrow> RoomContext \<Rightarrow> silent_st \<Rightarrow> jstr \<times> jstr \<Rightarrow> SilentAlert" where
  "alertOf now c k p = \<lparr>sa_participantId = fst p, sa_participantName = str_or (Some (snd p)) (fst p),
     silentDurationMs = silence now c k (fst p), silentMinutes = silence now c k (fst p) div 60000,
     sa_timestamp = now, sa_to = hostIdentities c\<rparr>"

lemma noteJoin_simps [simp]:
  "alreadyAlerted (noteJoin now pid k) = alreadyAlerted k"
  "x \<noteq> pid \<Longrightarrow> jget (participantJoinTime (noteJoin now pid k)) x = jget (participantJoinTime k) x"
  by (simp_all add: noteJoin_def)

lemma check_alerts:
  "hostsListen c \<Longrightarrow> snd (checkParticipant now c p k) = (if newlySilent now c k (fst p) then [alertOf now c k p] else [])"
  by (simp add: checkParticipant_def newlySilent_def alertOf_def silence_def sendSilentParticipantAlert_def Let_def)

lemma check_alerted:
  "coached c (fst p) \<Longrightarrow> fst p \<in> set (alreadyAlerted (fst (checkParticipant now c p k))) \<longleftrightarrow>
     \<not> spokeRecently now c (fst p) \<and> (SILENT_THRESHOLD_MS \<le> silence now c k (fst p) \<or> fst p \<in> set (alreadyAlerted k))"
  by (auto simp: checkParticipant_def silence_def Let_def)

lemma check_others:
  assumes "x \<noteq> fst p"
  shows "x \<in> set (alreadyAlerted (fst (checkParticipant now c p k))) \<longleftrightarrow> x \<in> set (alreadyAlerted k)"
    and "jget (participantJoinTime (fst (checkParticipant now c p k))) x = jget (participantJoinTime k) x"
  using assms by (simp_all add: checkParticipant_def Let_def)

lemma silence_cong:
  "jget (participantJoinTime k) x = jget (participantJoinTime k') x \<Longrightarrow> silence now c k x = silence now c k' x"
  by (simp add: silence_def silentDuration_def noteJoin_def jhas_def)

lemma check_others_silent:
  assumes "x \<noteq> fst p"
  shows "newlySilent now c (fst (checkParticipant now c p k)) x = newlySilent now c k x"
    and "silence now c (fst (checkParticipant now c p k)) x = silence now c k x"
proof -
  show s: "silence now c (fst (checkParticipant now c p k)) x = silence now c k x"
    by (rule silence_cong [OF check_others(2) [OF assms]])
  show "newlySilent now c (fst (checkParticipant now c p k)) x = newlySilent now c k x"
    by (simp add: newlySilent_def s check_others(1) [OF assms])
qed

lemma checks_absent:
  assumes "x \<notin> fst ` set ps"
  shows "x \<in> set (alreadyAlerted (fst (checkParticipants now c ps k))) \<longleftrightarrow> x \<in> set (alreadyAlerted k)"
  using assms by (induction ps arbitrary: k) (auto simp: split_beta Let_def check_others)

lemma checks_alerts:
  assumes "hostsListen c" and "distinct (map fst ps)"
  shows "snd (checkParticipants now c ps k) =
    map (alertOf now c k) (filter (\<lambda>p. newlySilent now c k (fst p)) ps)"
  using assms(2)
proof (induction ps arbitrary: k)
  case Nil
  then show ?case by simp
next
  case (Cons p ps)
  let ?k = "fst (checkParticipant now c p k)"
  have ne: "fst q \<noteq> fst p" if "q \<in> set ps" for q using Cons.prems that by (auto simp: rev_image_eqI)
  have "filter (\<lambda>q. newlySilent now c ?k (fst q)) ps = filter (\<lambda>q. newlySilent now c k (fst q)) ps"
    using ne check_others_silent(1) by (intro filter_cong) auto
  moreover have "alertOf now c ?k q = alertOf now c k q" if "q \<in> set ps" for q
    using check_others_silent(2) [OF ne [OF that]] by (simp add: alertOf_def)
  ultimately have "map (alertOf now c ?k) (filter (\<lambda>q. newlySilent now c ?k (fst q)) ps) =
      map (alertOf now c k) (filter (\<lambda>q. newlySilent now c k (fst q)) ps)"
    by simp
  with Cons check_alerts [OF assms(1)] show ?case by (simp add: split_beta Let_def)
qed

lemma checks_alerted:
  assumes "distinct (map fst ps)" and "p \<in> set ps" and "coached c (fst p)"
  shows "fst p \<in> set (alreadyAlerted (fst (checkParticipants now c ps k))) \<longleftrightarrow>
    \<not> spokeRecently now c (fst p) \<and> (SILENT_THRESHOLD_MS \<le> silence now c k (fst p) \<or> fst p \<in> set (alreadyAlerted k))"
  using assms(1,2)
proof (induction ps arbitrary: k)
  case Nil
  then show ?case by simp
next
  case (Cons q ps)
  show ?case
  proof (cases "q = p")
    case True
    then have "fst p \<notin> fst ` set ps" using Cons.prems by simp
    with True show ?thesis
      using checks_absent check_alerted [OF assms(3)] by (simp add: split_beta Let_def)
  next
    case False
    then have "p \<in> set ps" "fst p \<noteq> fst q" using Cons.prems by (auto simp: rev_image_eqI)
    then show ?thesis
      using Cons check_others [of "fst p" q] check_others_silent [of "fst p" q] by (simp add: split_beta Let_def)
  qed
qed

text \<open>A sequence of runs: times, the state of the room and its participants at each.\<close>

type_synonym silent_run = "int \<times> RoomContext \<times> roster"

fun silentRuns :: "silent_run list \<Rightarrow> silent_st \<Rightarrow> SilentAlert list" where
  "silentRuns [] k = []"
| "silentRuns ((now, c, ps) # rs) k = 
     snd (silentCheck now c ps k) @ silentRuns rs (fst (silentCheck now c ps k))"

definition alertsFor :: "jstr \<Rightarrow> SilentAlert list \<Rightarrow> SilentAlert list" where
  "alertsFor pid as = filter (\<lambda>a. sa_participantId a = pid) as"

lemma alertsFor_append [simp]: "alertsFor pid (as @ bs) = alertsFor pid as @ alertsFor pid bs"
  by (simp add: alertsFor_def)

lemma alertsFor_Nil [simp]: "alertsFor pid [] = []"
  by (simp add: alertsFor_def)

lemma run_alertsFor:
  assumes "distinct (map fst ps)"
  shows "length (alertsFor pid (snd (silentCheck now c ps k))) \<le> 1"
    and "alertsFor pid (snd (silentCheck now c ps k)) \<noteq> [] \<Longrightarrow> newlySilent now c k pid \<and> pid \<in> fst ` set ps \<and> hostsListen c"
proof -
  have *: "alertsFor pid (map (alertOf now c k) (filter P ps)) = map (alertOf now c k) (filter (\<lambda>p. P p \<and> fst p = pid) ps)" for P
    by (simp add: alertsFor_def filter_map o_def alertOf_def conj_commute)
  have len: "length (filter (\<lambda>p. P p \<and> fst p = pid) ps) \<le> 1" for P
    using assms
  proof (induction ps)
    case Nil
    then show ?case by simp
  next
    case (Cons p ps)
    show ?case
    proof (cases "fst p = pid")
      case True
      then have "filter (\<lambda>p. P p \<and> fst p = pid) ps = []" using Cons.prems by (auto simp: filter_empty_conv image_iff)
      with True show ?thesis by simp
    qed (use Cons in simp)
  qed
  show "length (alertsFor pid (snd (silentCheck now c ps k))) \<le> 1"
    using len checks_alerts [OF _ assms] len [of "\<lambda>p. newlySilent now c k (fst p)"]
    by (simp add: silentCheck_def *)
  show "newlySilent now c k pid \<and> pid \<in> fst ` set ps \<and> hostsListen c"
    if "alertsFor pid (snd (silentCheck now c ps k)) \<noteq> []"
    using that checks_alerts [OF _ assms]
    by (auto simp: silentCheck_def * filter_empty_conv image_iff split: if_splits)
qed

lemma check_keeps:
  "x \<in> set (alreadyAlerted k) \<Longrightarrow> \<not> spokeRecently now c x \<Longrightarrow>
     x \<in> set (alreadyAlerted (fst (checkParticipant now c p k)))"
  by (auto simp: checkParticipant_def Let_def)

lemma checks_keep:
  "x \<in> set (alreadyAlerted k) \<Longrightarrow> \<not> spokeRecently now c x \<Longrightarrow>
     x \<in> set (alreadyAlerted (fst (checkParticipants now c ps k)))"
  by (induction ps arbitrary: k) (simp_all add: split_beta Let_def check_keeps)

lemma alerted_stays:
  "x \<in> set (alreadyAlerted k) \<Longrightarrow> \<not> spokeRecently now c x \<Longrightarrow>
     x \<in> set (alreadyAlerted (fst (silentCheck now c ps k)))"
  by (simp add: silentCheck_def checks_keep)

lemma alert_marks:
  assumes "distinct (map fst ps)" and "alertsFor pid (snd (silentCheck now c ps k)) \<noteq> []" and "\<not> spokeRecently now c pid"
  shows "pid \<in> set (alreadyAlerted (fst (silentCheck now c ps k)))"
  using run_alertsFor(2) [OF assms(1,2)] assms(3) checks_alerted [OF assms(1)]
  by (auto simp: silentCheck_def newlySilent_def)

lemma runs_alerted:
  assumes "\<forall>(now, c, ps) \<in> set rs. distinct (map fst ps) \<and> \<not> spokeRecently now c pid" and "pid \<in> set (alreadyAlerted k)"
  shows "alertsFor pid (silentRuns rs k) = []"
  using assms
proof (induction rs k rule: silentRuns.induct)
  case (2 now c ps rs k)
  have "pid \<in> set (alreadyAlerted (fst (silentCheck now c ps k)))"
    using 2(2,3) by (intro alerted_stays) auto
  moreover have "alertsFor pid (snd (silentCheck now c ps k)) = []"
    using run_alertsFor(2) [of ps pid now c k] 2(2,3) by (auto simp: newlySilent_def)
  ultimately show ?case
    using 2(1,2) by simp
qed (simp add: alertsFor_def)

lemma silent_not_recent: "newlySilent now c k pid \<Longrightarrow> \<not> spokeRecently now c pid"
  by (auto simp: newlySilent_def spokeRecently_def silence_def silentDuration_def)

section \<open>Speaking statistics: lemmas\<close>

lemma statsArray_top:
  assumes "xs \<noteq> []"
  obtains x where "x \<in> set xs" and "hd (statsArray xs) = statsEntry (totalDuration xs) x"
    and "\<And>y. y \<in> set xs \<Longrightarrow> speakingDurationMs y \<le> speakingDurationMs x"
proof -
  let ?es = "statsArray xs" and ?e = "statsEntry (totalDuration xs)"
  have set: "set ?es = ?e ` set xs" by (simp add: statsArray_def)
  with assms have ne: "?es \<noteq> []" by auto
  then have "hd ?es \<in> ?e ` set xs" using set hd_in_set by metis
  then obtain x where x: "x \<in> set xs" "hd ?es = ?e x" by auto
  have dur: "se_durationMs (?e y) = speakingDurationMs y" for y by (simp add: statsEntry_def Let_def)
  have "sorted (map (\<lambda>e. - se_durationMs e) ?es)" by (simp add: statsArray_def)
  then have "- se_durationMs (hd ?es) \<le> - se_durationMs e" if "e \<in> set ?es" for e
    using that ne by (cases ?es) auto
  then have "speakingDurationMs y \<le> speakingDurationMs x" if "y \<in> set xs" for y
    using that set x(2) dur by fastforce
  with x that show thesis by blast
qed

lemma rounded_share:
  assumes "6 / 10 \<le> speakingRatio (statsEntry tot x)"
  shows "0 < tot \<and> 595 * tot \<le> 1000 * speakingDurationMs x"
proof -
  have pos: "0 < tot"
  proof (rule ccontr)
    assume "\<not> 0 < tot"
    then have "speakingRatio (statsEntry tot x) = 0" by (simp add: statsEntry_def Let_def)
    with assms show False by simp
  qed
  define r :: rat where "r = of_int (speakingDurationMs x) / of_int tot"
  have "speakingRatio (statsEntry tot x) = of_int (js_round (r * 100)) / 100"
    using pos by (simp add: statsEntry_def r_def Let_def)
  with assms have "(60 :: rat) \<le> of_int (js_round (r * 100))" by simp
  then have "60 \<le> js_round (r * 100)" by linarith
  then have "60 \<le> r * 100 + 1 / 2" by (simp add: js_round_def le_floor_iff)
  then have "595 / 1000 \<le> r" by simp
  then have "of_int (595 * tot) \<le> (of_int (1000 * speakingDurationMs x) :: rat)"
    using pos by (simp add: r_def field_simps)
  with pos show ?thesis by (simp only: of_int_le_iff)
qed

fun is_dominant :: "stats_msg \<Rightarrow> bool" where
  "is_dominant (DOMINANT_SPEAKER_ALERT pid name ratio now to) = True"
| "is_dominant (PARTICIPANT_STATS es tot now to) = False"

text \<open>Runs of the checker on the statistics found at each of them.\<close>

fun statsRuns :: "(int \<times> (jstr, ParticipantSpeakingStats) jmap) list \<Rightarrow> RoomContext \<Rightarrow> stats_msg list" where
  "statsRuns [] c = []"
| "statsRuns ((now, m) # rs) c = (let c1 = c\<lparr>participantSpeakingStats := m\<rparr>
     in snd (statsTick now c1) @ statsRuns rs (fst (statsTick now c1)))"

definition topShareHalf :: "(jstr, ParticipantSpeakingStats) jmap \<Rightarrow> bool" where
  "topShareHalf m \<longleftrightarrow> 1 / 2 \<le> speakingRatio (hd (statsArray (jvals m)))"

lemma tick_dominant:
  assumes "m = [] \<or> topShareHalf m"
  shows "length (filter is_dominant (snd (statsTick now (c\<lparr>participantSpeakingStats := m\<rparr>)))) \<le>
      (if dominantAlertSent c then 0 else 1)"
    and "dominantAlertSent (fst (statsTick now (c\<lparr>participantSpeakingStats := m\<rparr>))) \<longleftrightarrow> dominantAlertSent c \<or>
      filter is_dominant (snd (statsTick now (c\<lparr>participantSpeakingStats := m\<rparr>))) \<noteq> []"
  using assms by (auto simp: statsTick_def Let_def topShareHalf_def DOMINANT_THRESHOLD_def)

section \<open>Properties\<close>

text \<open>
  Silent participants are found exactly: a run of the checker alerts the hosts to every participant who
  is neither a host nor a bot, has been silent for at least a minute (since the last utterance, or since
  the first run that saw a participant who never spoke) and has not been alerted, and to no one else. The comment
  in the program says three minutes.
\<close>

theorem silent_alerts_exact:
  assumes "hostsListen c" and "distinct (map fst ps)"
  shows "snd (silentCheck now c ps k) = map (alertOf now c k) (filter (\<lambda>p. newlySilent now c k (fst p)) ps)"
  using assms by (simp add: silentCheck_def checks_alerts)

definition demo_host_ctx :: RoomContext where
  "demo_host_ctx = (newRoomContext 0 None)\<lparr>hostIdentities := [[1]], lastSttTimeByUser := [([2], 5000)]\<rparr>"

theorem silent_alerts_exact_witness:
  "map sa_participantId (snd (silentCheck 65000 demo_host_ctx [([1], [65]), ([2], [66]), ([3], [67])]
     \<lparr>alreadyAlerted = [], participantJoinTime = [([3], 6000)]\<rparr>)) = [[2]]"
proof -
  have "hostsListen demo_host_ctx" by (simp add: hostsListen_def demo_host_ctx_def newRoomContext_def)
  from silent_alerts_exact [OF this, of "[([1], [65]), ([2], [66]), ([3], [67])]"] show ?thesis
    by (simp add: newlySilent_def coached_def demo_host_ctx_def silence_def silentDuration_def noteJoin_def jhas_def
        lastStt_def num_or_def SILENT_THRESHOLD_MS_def newRoomContext_def alertOf_def)
qed

text \<open>
  One alert per silence: however often the checker runs while a participant does not speak, whoever comes
  and goes and becomes host meanwhile, the hosts are alerted to that silence at most once.
\<close>

theorem one_alert_per_silence:
  assumes "sorted (map fst rs)" and "\<forall>(now, c, ps) \<in> set rs. distinct (map fst ps) \<and> lastStt c pid = v"
  shows "length (alertsFor pid (silentRuns rs k)) \<le> 1"
  using assms
proof (induction rs k rule: silentRuns.induct)
  case (1 k)
  then show ?case by (simp add: alertsFor_def)
next
  case (2 now c ps rs k)
  have d: "distinct (map fst ps)" using 2(3) by simp
  show ?case
  proof (cases "alertsFor pid (snd (silentCheck now c ps k)) = []")
    case True
    with 2 show ?thesis by simp
  next
    case False
    then have n: "\<not> spokeRecently now c pid"
      using run_alertsFor(2) [OF d] silent_not_recent by blast
    have "distinct (map fst ps') \<and> \<not> spokeRecently now' c' pid" if "(now', c', ps') \<in> set rs" for now' c' ps'
    proof -
      have "now \<le> now'" "lastStt c' pid = lastStt c pid" "distinct (map fst ps')"
        using 2(2,3) that by (auto simp: image_iff)
      with n show ?thesis by (auto simp: spokeRecently_def)
    qed
    then have "alertsFor pid (silentRuns rs (fst (silentCheck now c ps k))) = []"
      using alert_marks [OF d False n] by (intro runs_alerted) auto
    with run_alertsFor(1) [OF d] show ?thesis by simp
  qed
qed

theorem one_alert_per_silence_witness:
  "length (alertsFor [2] (silentRuns [(65000, demo_host_ctx, [([2], [66])]), (80000, demo_host_ctx, [([2], [66])])]
     \<lparr>alreadyAlerted = [], participantJoinTime = []\<rparr>)) \<le> 1"
  by (rule one_alert_per_silence [where v = 5000]) (simp_all add: demo_host_ctx_def lastStt_def num_or_def)

text \<open>
  A dominance alert is true: it goes to the hosts and names a participant whom nobody exceeds in speaking
  time, who among at least two speakers has at least 59.5 per cent of it (shares are rounded to whole per
  cents before they are compared with 60), and it blocks further alerts.
\<close>

theorem dominant_alert_sound:
  assumes "DOMINANT_SPEAKER_ALERT pid name ratio t to \<in> set (snd (statsTick now c))"
  shows "to = hostIdentities c \<and> to \<noteq> [] \<and> dominantAlertSent (fst (statsTick now c)) \<and>
    (let xs = jvals (participantSpeakingStats c)
     in 2 \<le> length xs \<and> (\<exists>x \<in> set xs. ps_participantId x = pid \<and> 595 * totalDuration xs \<le> 1000 * speakingDurationMs x \<and>
          list_all (\<lambda>y. speakingDurationMs y \<le> speakingDurationMs x) xs))"
proof -
  define xs where "xs = jvals (participantSpeakingStats c)"
  have h: "hostsListen c" and ne: "participantSpeakingStats c \<noteq> []"
    using assms by (auto simp: statsTick_def split: if_splits)
  have g: "2 \<le> length (statsArray xs)" "\<not> dominantAlertSent c" "6 / 10 \<le> speakingRatio (hd (statsArray xs))"
      "pid = se_participantId (hd (statsArray xs))" "to = hostIdentities c"
    using assms h ne by (auto simp: statsTick_def Let_def xs_def DOMINANT_THRESHOLD_def split: if_splits)
  have "xs \<noteq> []" using ne by (simp add: xs_def jvals_def)
  then obtain x where x: "x \<in> set xs" "hd (statsArray xs) = statsEntry (totalDuration xs) x"
      "\<And>y. y \<in> set xs \<Longrightarrow> speakingDurationMs y \<le> speakingDurationMs x"
    by (rule statsArray_top) blast
  have "ps_participantId x = pid" using g(4) x(2) by (simp add: statsEntry_def Let_def)
  moreover have "595 * totalDuration xs \<le> 1000 * speakingDurationMs x" using rounded_share g(3) x(2) by simp
  moreover have "length (statsArray xs) = length xs" by (simp add: statsArray_def)
  moreover have "dominantAlertSent (fst (statsTick now c))"
    using h ne g by (simp add: statsTick_def Let_def xs_def [symmetric] DOMINANT_THRESHOLD_def)
  ultimately show ?thesis
    using g(1,5) x h by (auto simp: xs_def [symmetric] hostsListen_def list_all_iff)
qed

theorem dominant_alert_sound_witness:
  "\<exists>msgs. snd (statsTick 9 (demo_host_ctx\<lparr>participantSpeakingStats :=
      [([2], \<lparr>ps_participantId = [2], ps_participantName = [66], speakingDurationMs = 700, speakingCount = 1, lastSpokenAt = 0\<rparr>),
       ([3], \<lparr>ps_participantId = [3], ps_participantName = [67], speakingDurationMs = 300, speakingCount = 1, lastSpokenAt = 0\<rparr>)]\<rparr>))
     = msgs \<and> DOMINANT_SPEAKER_ALERT [2] [66] (7 / 10) 9 [[1]] \<in> set msgs \<and> 595 * 1000 \<le> 1000 * (700 :: int)"
proof -
  let ?c = "demo_host_ctx\<lparr>participantSpeakingStats :=
      [([2], \<lparr>ps_participantId = [2], ps_participantName = [66], speakingDurationMs = 700, speakingCount = 1, lastSpokenAt = 0\<rparr>),
       ([3], \<lparr>ps_participantId = [3], ps_participantName = [67], speakingDurationMs = 300, speakingCount = 1, lastSpokenAt = 0\<rparr>)]\<rparr>"
  have m: "DOMINANT_SPEAKER_ALERT [2] [66] (7 / 10) 9 [[1]] \<in> set (snd (statsTick 9 ?c))"
    by (simp add: statsTick_def hostsListen_def demo_host_ctx_def newRoomContext_def statsArray_def statsEntry_def
        totalDuration_def jvals_def Let_def DOMINANT_THRESHOLD_def)
  from dominant_alert_sound [OF m] m show ?thesis by (simp add: totalDuration_def jvals_def Let_def)
qed

text \<open>
  Dominance alerts have hysteresis: as long as the largest share stays at half of the speaking time or
  more, the hosts get at most one alert, however it crosses the threshold.
\<close>

theorem dominant_alert_hysteresis:
  assumes "\<forall>(now, m) \<in> set rs. m = [] \<or> topShareHalf m"
  shows "length (filter is_dominant (statsRuns rs c)) \<le> (if dominantAlertSent c then 0 else 1)"
  using assms
proof (induction rs c rule: statsRuns.induct)
  case (1 c)
  then show ?case by simp
next
  case (2 now m rs c)
  let ?t = "statsTick now (c\<lparr>participantSpeakingStats := m\<rparr>)"
  have m: "m = [] \<or> topShareHalf m" using 2(2) by simp
  have "length (filter is_dominant (statsRuns rs (fst ?t))) \<le> (if dominantAlertSent (fst ?t) then 0 else 1)"
    using 2 by (simp add: Let_def)
  with tick_dominant [OF m, of now c] show ?case
    by (cases "filter is_dominant (snd ?t)") (auto simp: Let_def split: if_splits)
qed

theorem dominant_alert_hysteresis_witness:
  "length (filter is_dominant (statsRuns [(9, []), (19, [])] demo_host_ctx)) \<le> 1"
  using dominant_alert_hysteresis [of "[(9, []), (19, [])]" demo_host_ctx]
  by (simp add: demo_host_ctx_def newRoomContext_def)

text \<open>
  A topic summary is sent once per beginning of a report: after a run that got a report, no later run sends
  anything while the reports begin with the same hundred characters, whatever follows them and whether or
  not the first run could extract a topic.
\<close>

theorem topic_once_per_prefix:
  assumes "hostsListen c" and "content \<noteq> []" and "list_all (\<lambda>x. take 100 x = take 100 content) later"
  shows "let (h, ms) = topicTick llm parse now c (Some (True, Some content)) h0
    in h = take 100 content \<and>
       fold (\<lambda>x (h, ms). case topicTick llm' parse' now c (Some (True, Some x)) h of (h', ms') \<Rightarrow> (h', ms @ ms')) later (h, []) = (h, [])"
proof -
  have h: "fst (topicTick llm parse now c (Some (True, Some content)) h0) = take 100 content"
    using assms(1,2) by (simp add: topicTick_def truthy_str_def Let_def)
  have "fold (\<lambda>x (h, ms). case topicTick llm' parse' now c (Some (True, Some x)) h of (h', ms') \<Rightarrow> (h', ms @ ms'))
      later (take 100 content, []) = (take 100 content, [])"
    using assms(3)
    by (induction later) (auto simp: topicTick_def truthy_str_def Let_def)
  with h show ?thesis by (auto simp: split_beta)
qed

theorem topic_once_per_prefix_witness:
  "snd (topicTick (\<lambda>_. None) (\<lambda>_. None) 9 demo_host_ctx (Some (True, Some [65]))
     (fst (topicTick (\<lambda>_. None) (\<lambda>_. None) 9 demo_host_ctx (Some (True, Some [65])) []))) = []"
proof -
  have "hostsListen demo_host_ctx" by (simp add: hostsListen_def demo_host_ctx_def newRoomContext_def)
  from topic_once_per_prefix [OF this, of "[65]" "[[65]]" "\<lambda>_. None" "\<lambda>_. None" 9 "[]" "\<lambda>_. None" "\<lambda>_. None"]
  show ?thesis by (auto simp: split_beta Let_def)
qed

end
