(* ===== verification/RagClient.thy ===== *)
theory RagClient
  imports Prelude
begin

text \<open>
  The client of the RAG server, \<open>src/rag/rag-client.service.ts\<close>: one WebSocket per room with bounded
  reconnection, a buffer of statements that is sent again after a reconnection, questions matched to
  answers by their text, and reports requested over HTTP and delivered over the socket. The event loop
  is explicit. Sockets, timers and promises have numbers; a connection context is an object that timer
  callbacks keep a reference to, so it lives in a store at the number of its socket. A promise is
  settled once. Timers may fire in any order, which covers every timing; \<open>throws\<close> is the
  error of \<open>ws.send\<close>, if it throws. What happens is a sequence of events.
\<close>

section \<open>State\<close>

datatype ReadyState = CONNECTING | OPEN | CLOSING | CLOSED

datatype rag_value =
    Connected
  | Answer jstr
  | AnswerWithSources jstr "(jstr \<times> jstr option) list"
  | Report jstr "jstr option" "jstr option" "jstr option"

text \<open>
  A promise is \<open>Forgotten\<close> when it is pending and the client has dropped the functions that settle it:
  for whoever awaits it, a promise that stays pending.
\<close>

datatype promise = Pending | Fulfilled rag_value | Rejected jstr | Forgotten

record PendingRequest =
  pr_promise :: nat
  pr_timer :: nat
  pr_startTime :: int

record PendingStatement =
  st_text :: jstr
  st_speaker :: jstr
  st_timestamp :: int
  retryCount :: nat
  st_startTime :: "int option"
  st_endTime :: "int option"

record ConnectionContext =
  pendingRequests :: "(jstr, PendingRequest) jmap"
  pendingRequestsWithSources :: "(jstr, PendingRequest) jmap"

text \<open>The callbacks of timers: what each captured.\<close>

datatype timer_cb =
    TConnect nat nat
  | TRequest nat jstr nat
  | TSources nat jstr nat
  | TReport jstr nat
  | TReconnect jstr
  | TRetry int jstr jstr jstr "int option" "int option" nat
  | TFlush jstr "PendingStatement list"

record socket =
  sock_room :: jstr
  readyState :: ReadyState
  sock_timer :: nat
  sock_promise :: nat

datatype report_phase = AwaitHttp | AwaitResult | Replied bool jstr

record report_call =
  rc_room :: jstr
  rc_promise :: nat
  rc_phase :: report_phase
  rc_awaited :: bool

datatype ws_msg = WsStatement jstr jstr int "int option" | WsQuestion jstr

record rag_st =
  sockets :: "nat \<Rightarrow> socket"
  nextSocket :: nat
  contexts :: "nat \<Rightarrow> ConnectionContext"
  connections :: "(jstr, nat) jmap"
  statementBuffers :: "(jstr, PendingStatement list) jmap"
  pendingReportRequests :: "(jstr, PendingRequest) jmap"
  reconnectAttemptCounts :: "(jstr, int) jmap"
  reconnectTimers :: "(jstr, nat) jmap"
  timers :: "(nat, timer_cb) jmap"
  nextTimer :: nat
  promises :: "nat \<Rightarrow> promise"
  nextPromise :: nat
  reportCalls :: "report_call list"
  sent :: "(nat \<times> ws_msg) list"

definition noContext :: ConnectionContext where
  "noContext = \<lparr>pendingRequests = [], pendingRequestsWithSources = []\<rparr>"

definition init_rag :: rag_st where
  "init_rag = \<lparr>sockets = (\<lambda>_. \<lparr>sock_room = [], readyState = CLOSED, sock_timer = 0, sock_promise = 0\<rparr>), nextSocket = 0,
     contexts = (\<lambda>_. noContext), connections = [], statementBuffers = [], pendingReportRequests = [],
     reconnectAttemptCounts = [], reconnectTimers = [], timers = [], nextTimer = 0,
     promises = (\<lambda>_. Pending), nextPromise = 0, reportCalls = [], sent = []\<rparr>"

definition MAX_RECONNECT_ATTEMPTS :: int where "MAX_RECONNECT_ATTEMPTS = 3"

definition MAX_STATEMENT_RETRY :: nat where "MAX_STATEMENT_RETRY = 3"

definition STATEMENT_BUFFER_MAX_SIZE :: nat where "STATEMENT_BUFFER_MAX_SIZE = 100"

definition STATEMENT_BUFFER_MAX_AGE :: int where "STATEMENT_BUFFER_MAX_AGE = 60000"

section \<open>Timers and promises\<close>

definition setTimer :: "timer_cb \<Rightarrow> rag_st \<Rightarrow> nat \<times> rag_st" where
  "setTimer cb s = (nextTimer s, s\<lparr>timers := jset (nextTimer s) cb (timers s), nextTimer := Suc (nextTimer s)\<rparr>)"

definition clearTimer :: "nat \<Rightarrow> rag_st \<Rightarrow> rag_st" where
  "clearTimer t s = s\<lparr>timers := jdel t (timers s)\<rparr>"

definition newPromise :: "rag_st \<Rightarrow> nat \<times> rag_st" where
  "newPromise s = (nextPromise s, s\<lparr>nextPromise := Suc (nextPromise s)\<rparr>)"

definition settle :: "nat \<Rightarrow> promise \<Rightarrow> rag_st \<Rightarrow> rag_st" where
  "settle p v s = (if promises s p = Pending then s\<lparr>promises := (promises s)(p := v)\<rparr> else s)"

definition setReady :: "nat \<Rightarrow> ReadyState \<Rightarrow> rag_st \<Rightarrow> rag_st" where
  "setReady w x s = s\<lparr>sockets := (sockets s)(w := (sockets s w)\<lparr>readyState := x\<rparr>)\<rparr>"

text \<open>\<open>ws.close()\<close>: a socket that is open or connecting begins to close; the close event comes later.\<close>

definition closeSocket :: "nat \<Rightarrow> rag_st \<Rightarrow> rag_st" where
  "closeSocket w s = (if readyState (sockets s w) \<in> {OPEN, CONNECTING} then setReady w CLOSING s else s)"

definition isConnected :: "jstr \<Rightarrow> rag_st \<Rightarrow> bool" where
  "isConnected r s = (case jget (connections s) r of None \<Rightarrow> False | Some w \<Rightarrow> readyState (sockets s w) = OPEN)"

section \<open>Statements\<close>

definition addToStatementBuffer :: "int \<Rightarrow> jstr \<Rightarrow> jstr \<Rightarrow> jstr \<Rightarrow> int option \<Rightarrow> int option \<Rightarrow> rag_st \<Rightarrow> rag_st" where
  "addToStatementBuffer now r t speaker st en s =
     (let buffer = (case jget (statementBuffers s) r of None \<Rightarrow> [] | Some b \<Rightarrow> b);
          b1 = (if length buffer \<ge> STATEMENT_BUFFER_MAX_SIZE then tl buffer else buffer)
      in s\<lparr>statementBuffers := jset r (b1 @ [\<lparr>st_text = t, st_speaker = speaker, st_timestamp = now, retryCount = 0,
             st_startTime = st, st_endTime = en\<rparr>]) (statementBuffers s)\<rparr>)"

definition retryDelay :: "nat \<Rightarrow> int" where
  "retryDelay n = min (1000 * 2 ^ n) 5000"

definition sendStatement :: "jstr option \<Rightarrow> int \<Rightarrow> jstr \<Rightarrow> jstr \<Rightarrow> jstr \<Rightarrow> int option \<Rightarrow> int option \<Rightarrow> nat \<Rightarrow> rag_st \<Rightarrow> rag_st" where
  "sendStatement throws now r t speaker st en n s =
     (let s1 = (if n = 0 then addToStatementBuffer now r t speaker st en s else s)
      in if \<not> isConnected r s1 then s1
         else if throws = None then
           s1\<lparr>sent := sent s1 @ [(the (jget (connections s1) r),
                WsStatement t speaker (case st of Some x \<Rightarrow> x | None \<Rightarrow> now) en)]\<rparr>
         else if n < MAX_STATEMENT_RETRY then snd (setTimer (TRetry (retryDelay n) r t speaker st en (n + 1)) s1)
         else s1)"

text \<open>
  The loop of \<open>flushStatementBuffer\<close>: a statement is sent, then a timer of 100 ms separates it from the
  rest.
\<close>

definition flushNext :: "jstr option \<Rightarrow> int \<Rightarrow> jstr \<Rightarrow> PendingStatement list \<Rightarrow> rag_st \<Rightarrow> rag_st" where
  "flushNext throws now r xs s = (case xs of
      [] \<Rightarrow> s
    | x # ys \<Rightarrow> snd (setTimer (TFlush r ys)
        (sendStatement throws now r (st_text x) (st_speaker x) (st_startTime x) (st_endTime x) (retryCount x) s)))"

definition flushStatementBuffer :: "jstr option \<Rightarrow> int \<Rightarrow> jstr \<Rightarrow> rag_st \<Rightarrow> rag_st" where
  "flushStatementBuffer throws now r s = (case jget (statementBuffers s) r of
      None \<Rightarrow> s
    | Some buffer \<Rightarrow>
        if buffer = [] then s
        else let valid = filter (\<lambda>x. now - st_timestamp x \<le> STATEMENT_BUFFER_MAX_AGE) buffer
             in flushNext throws now r valid (s\<lparr>statementBuffers := jdel r (statementBuffers s)\<rparr>))"

section \<open>Connections\<close>

definition connect :: "jstr \<Rightarrow> rag_st \<Rightarrow> nat \<times> rag_st" where
  "connect r s =
     (if isConnected r s then (let (p, s1) = newPromise s in (p, settle p (Fulfilled Connected) s1))
      else let (p, s1) = newPromise s;
               w = nextSocket s1;
               (t, s2) = setTimer (TConnect w p) s1
           in (p, s2\<lparr>sockets := (sockets s2)(w := \<lparr>sock_room = r, readyState = CONNECTING, sock_timer = t, sock_promise = p\<rparr>),
                     nextSocket := Suc w\<rparr>))"

text \<open>The handlers of the socket events; each acts for the room the socket was opened for.\<close>

definition onOpen :: "jstr option \<Rightarrow> int \<Rightarrow> nat \<Rightarrow> rag_st \<Rightarrow> rag_st" where
  "onOpen throws now w s =
     (if readyState (sockets s w) \<noteq> CONNECTING then s
      else let r = sock_room (sockets s w);
               s1 = clearTimer (sock_timer (sockets s w)) (setReady w OPEN s);
               s2 = s1\<lparr>contexts := (contexts s1)(w := noContext), connections := jset r w (connections s1),
                       reconnectAttemptCounts := jdel r (reconnectAttemptCounts s1)\<rparr>;
               s3 = flushStatementBuffer throws now r s2
           in settle (sock_promise (sockets s w)) (Fulfilled Connected) s3)"

definition scheduleReconnect :: "jstr \<Rightarrow> rag_st \<Rightarrow> rag_st" where
  "scheduleReconnect r s =
     (if jhas (reconnectTimers s) r then s
      else let currentAttempts = num_or (jget (reconnectAttemptCounts s) r) 0
           in if currentAttempts \<ge> MAX_RECONNECT_ATTEMPTS
              then s\<lparr>connections := jdel r (connections s), reconnectAttemptCounts := jdel r (reconnectAttemptCounts s)\<rparr>
              else let (t, s1) = setTimer (TReconnect r)
                         (s\<lparr>reconnectAttemptCounts := jset r (currentAttempts + 1) (reconnectAttemptCounts s)\<rparr>)
                   in s1\<lparr>reconnectTimers := jset r t (reconnectTimers s1)\<rparr>)"

definition onClose :: "int \<Rightarrow> nat \<Rightarrow> rag_st \<Rightarrow> rag_st" where
  "onClose code w s =
     (if readyState (sockets s w) = CLOSED then s
      else let s1 = setReady w CLOSED s; r = sock_room (sockets s w)
           in if code \<noteq> 1000 then scheduleReconnect r s1
              else s1\<lparr>connections := jdel r (connections s1)\<rparr>)"

section \<open>Questions and answers\<close>

definition sendQuestion :: "jstr option \<Rightarrow> int \<Rightarrow> jstr \<Rightarrow> jstr \<Rightarrow> rag_st \<Rightarrow> nat \<times> rag_st" where
  "sendQuestion throws now r t s =
     (let (p, s1) = newPromise s
      in case jget (connections s1) r of
           None \<Rightarrow> (p, settle p (Rejected ([82, 65, 71, 32, 87, 101, 98, 83, 111, 99, 107,
             101, 116, 32, 110, 111, 116, 32, 99, 111, 110, 110, 101, 99, 116, 101, 100, 32, 102, 111,
             114, 58, 32] @ r)) s1)
         | Some w \<Rightarrow>
             if readyState (sockets s1 w) \<noteq> OPEN
             then (p, settle p (Rejected ([82, 65, 71, 32, 87, 101, 98, 83, 111, 99, 107, 101, 116, 32,
               110, 111, 116, 32, 99, 111, 110, 110, 101, 99, 116, 101, 100, 32, 102, 111, 114, 58,
               32] @ r)) s1)
             else let (tm, s2) = setTimer (TRequest w t p) s1;
                      s3 = s2\<lparr>contexts := (contexts s2)(w := (contexts s2 w)\<lparr>pendingRequests :=
                             jset t \<lparr>pr_promise = p, pr_timer = tm, pr_startTime = now\<rparr> (pendingRequests (contexts s2 w))\<rparr>)\<rparr>
                  in (p, case throws of Some e \<Rightarrow> settle p (Rejected e) s3
                     | None \<Rightarrow> s3\<lparr>sent := sent s3 @ [(w, WsQuestion t)]\<rparr>))"

definition sendQuestionWithSources :: "jstr option \<Rightarrow> int \<Rightarrow> jstr \<Rightarrow> jstr \<Rightarrow> rag_st \<Rightarrow> nat \<times> rag_st" where
  "sendQuestionWithSources throws now r t s =
     (let (p, s1) = newPromise s
      in case jget (connections s1) r of
           None \<Rightarrow> (p, settle p (Rejected ([82, 65, 71, 32, 87, 101, 98, 83, 111, 99, 107,
             101, 116, 32, 110, 111, 116, 32, 99, 111, 110, 110, 101, 99, 116, 101, 100, 32, 102, 111,
             114, 58, 32] @ r)) s1)
         | Some w \<Rightarrow>
             if readyState (sockets s1 w) \<noteq> OPEN
             then (p, settle p (Rejected ([82, 65, 71, 32, 87, 101, 98, 83, 111, 99, 107, 101, 116, 32,
               110, 111, 116, 32, 99, 111, 110, 110, 101, 99, 116, 101, 100, 32, 102, 111, 114, 58,
               32] @ r)) s1)
             else let (tm, s2) = setTimer (TSources w t p) s1;
                      s3 = s2\<lparr>contexts := (contexts s2)(w := (contexts s2 w)\<lparr>pendingRequestsWithSources :=
                             jset t \<lparr>pr_promise = p, pr_timer = tm, pr_startTime = now\<rparr> (pendingRequestsWithSources (contexts s2 w))\<rparr>)\<rparr>
                  in (p, case throws of Some e \<Rightarrow> settle p (Rejected e) s3
                     | None \<Rightarrow> s3\<lparr>sent := sent s3 @ [(w, WsQuestion t)]\<rparr>))"

text \<open>
  Parsed messages with the fields the handler reads; the messages that are only logged are \<open>OtherMessage\<close>.
  The sources of an answer are \<open>None\<close> when they are not an array of objects, so that \<open>sources.map\<close> throws.
\<close>

datatype rag_msg =
    AnswerMessage "jstr option" "jstr option" "(jstr option \<times> jstr option) list option"
  | MeetingReport "jstr option" "jstr option" "jstr option" "jstr option"
  | OtherMessage

definition deleteText :: "jstr option \<Rightarrow> (jstr, 'a) jmap \<Rightarrow> (jstr, 'a) jmap" where
  "deleteText t m = (case t of None \<Rightarrow> m | Some k \<Rightarrow> jdel k m)"

definition nonEmpty :: "jstr option \<Rightarrow> jstr option" where
  "nonEmpty x = (if truthy_str x then x else None)"

text \<open>
  \<open>handleMessage\<close> clears the timer of a question with sources and deletes the question before it reads the sources:
  when reading them throws, the error is logged and nothing settles the promise any more.
\<close>

definition handleMessage :: "jstr \<Rightarrow> rag_msg option \<Rightarrow> rag_st \<Rightarrow> rag_st" where
  "handleMessage r msg s = (case msg of
      None \<Rightarrow> s
    | Some m \<Rightarrow> (case jget (connections s) r of
        None \<Rightarrow> s
      | Some w \<Rightarrow> (case m of
          AnswerMessage t answer sources \<Rightarrow>
            (let c = contexts s w; a = str_or answer []
             in case Option.bind t (jget (pendingRequestsWithSources c)) of
                  Some e \<Rightarrow> settle (pr_promise e)
                      (case sources of
                         None \<Rightarrow> Forgotten
                       | Some xs \<Rightarrow> Fulfilled (AnswerWithSources a (map (\<lambda>(x, sp). (str_or x [], nonEmpty sp)) xs)))
                      ((clearTimer (pr_timer e) s)\<lparr>contexts := (contexts s)(w := c\<lparr>pendingRequestsWithSources :=
                         deleteText t (pendingRequestsWithSources c)\<rparr>)\<rparr>)
                | None \<Rightarrow> (case jget (pendingRequests c) (str_or t [117, 110, 107, 110, 111,
                  119, 110]) of
                      None \<Rightarrow> s
                    | Some e \<Rightarrow> settle (pr_promise e) (Fulfilled (Answer a))
                        ((clearTimer (pr_timer e) s)\<lparr>contexts := (contexts s)(w := c\<lparr>pendingRequests :=
                           deleteText t (pendingRequests c)\<rparr>)\<rparr>)))
        | MeetingReport status title ty content \<Rightarrow> (case jget (pendingReportRequests s) r of
              None \<Rightarrow> s
            | Some e \<Rightarrow> settle (pr_promise e) (Fulfilled (Report (str_or status []) title ty content))
                ((clearTimer (pr_timer e) s)\<lparr>pendingReportRequests := jdel r (pendingReportRequests s)\<rparr>))
        | OtherMessage \<Rightarrow> s)))"

section \<open>Reports\<close>

text \<open>
  \<open>requestReport\<close>: an immediate refusal or a call in progress, numbered by its place in \<open>reportCalls\<close>; what
  the HTTP request does to the call; and what the settled promise does to a call that awaits it.
\<close>

definition requestReport :: "int \<Rightarrow> jstr \<Rightarrow> rag_st \<Rightarrow> jstr option \<times> rag_st" where
  "requestReport now r s =
     (if \<not> isConnected r s then (Some [87, 101, 98, 83, 111, 99, 107, 101, 116, 32, 50672, 44208,
       51060, 32, 50630, 49845, 45768, 45796, 46], s)
      else if jhas (pendingReportRequests s) r then (Some [51060, 48120, 32, 48372, 44256, 49436, 32,
        49373, 49457, 32, 50836, 52397, 51060, 32, 51652, 54665, 32, 51473, 51077, 45768, 45796, 46], s)
      else let (p, s1) = newPromise s; (t, s2) = setTimer (TReport r p) s1
           in (None, s2\<lparr>pendingReportRequests := jset r \<lparr>pr_promise = p, pr_timer = t, pr_startTime = now\<rparr> (pendingReportRequests s2),
                reportCalls := reportCalls s2 @ [\<lparr>rc_room = r, rc_promise = p, rc_phase = AwaitHttp, rc_awaited = False\<rparr>]\<rparr>))"

definition setCall :: "nat \<Rightarrow> report_call \<Rightarrow> rag_st \<Rightarrow> rag_st" where
  "setCall i c s = s\<lparr>reportCalls := (reportCalls s)[i := c]\<rparr>"

definition reportHttp :: "nat \<Rightarrow> jstr option \<Rightarrow> rag_st \<Rightarrow> rag_st" where
  "reportHttp i err s =
     (if \<not> i < length (reportCalls s) then s
      else let c = reportCalls s ! i
           in if rc_phase c \<noteq> AwaitHttp then s
              else (case err of
                 None \<Rightarrow> setCall i (c\<lparr>rc_phase := AwaitResult, rc_awaited := True\<rparr>) s
               | Some e \<Rightarrow> setCall i (c\<lparr>rc_phase := Replied False e\<rparr>)
                   (s\<lparr>pendingReportRequests := jdel (rc_room c) (pendingReportRequests s)\<rparr>)))"

definition reportResult :: "nat \<Rightarrow> rag_st \<Rightarrow> rag_st" where
  "reportResult i s =
     (if \<not> i < length (reportCalls s) then s
      else let c = reportCalls s ! i
           in if rc_phase c \<noteq> AwaitResult then s
              else (case promises s (rc_promise c) of
                 Fulfilled (Report status title ty content) \<Rightarrow>
                   setCall i (c\<lparr>rc_phase := (if status = [115, 117, 99, 99, 101, 115,
                     115] then Replied True [48372, 44256, 49436, 32, 49373, 49457, 32, 50756, 47308]
                     else Replied False [48372, 44256, 49436, 32, 49373, 49457, 32, 49892, 54056])\<rparr>) s
               | Rejected e \<Rightarrow> setCall i (c\<lparr>rc_phase := Replied False e\<rparr>)
                   (s\<lparr>pendingReportRequests := jdel (rc_room c) (pendingReportRequests s)\<rparr>)
               | _ \<Rightarrow> s))"

section \<open>Closing\<close>

definition rejectRequest :: "PendingRequest \<Rightarrow> rag_st \<Rightarrow> rag_st" where
  "rejectRequest e s = settle (pr_promise e) (Rejected [82, 65, 71, 32, 99, 108, 105, 101, 110, 116,
    32, 100, 105, 115, 99, 111, 110, 110, 101, 99, 116, 101, 100]) (clearTimer (pr_timer e) s)"

definition cancelReconnect :: "jstr \<Rightarrow> rag_st \<Rightarrow> rag_st" where
  "cancelReconnect r s = (case jget (reconnectTimers s) r of
      None \<Rightarrow> s
    | Some t \<Rightarrow> (clearTimer t s)\<lparr>reconnectTimers := jdel r (reconnectTimers s)\<rparr>)"

definition rejectReport :: "jstr \<Rightarrow> rag_st \<Rightarrow> rag_st" where
  "rejectReport r s = (case jget (pendingReportRequests s) r of
      None \<Rightarrow> s
    | Some e \<Rightarrow> settle (pr_promise e) (Rejected [54924, 51032, 44032, 32, 51333, 47308,
      46104, 50632, 49845, 45768, 45796, 46])
        ((clearTimer (pr_timer e) s)\<lparr>pendingReportRequests := jdel r (pendingReportRequests s)\<rparr>))"

definition disconnect :: "jstr \<Rightarrow> rag_st \<Rightarrow> rag_st" where
  "disconnect r s =
     (let s0 = cancelReconnect r s;
          s1 = s0\<lparr>reconnectAttemptCounts := jdel r (reconnectAttemptCounts s0)\<rparr>
      in case jget (connections s1) r of
           None \<Rightarrow> s1
         | Some w \<Rightarrow>
             let s2 = fold rejectRequest (jvals (pendingRequests (contexts s1 w))) s1;
                 s3 = s2\<lparr>contexts := (contexts s2)(w := (contexts s2 w)\<lparr>pendingRequests := []\<rparr>)\<rparr>;
                 s4 = closeSocket w (rejectReport r s3);
                 s5 = s4\<lparr>connections := jdel r (connections s4)\<rparr>
             in (case jget (statementBuffers s5) r of
                   None \<Rightarrow> s5
                 | Some b \<Rightarrow> if b = [] then s5 else s5\<lparr>statementBuffers := jdel r (statementBuffers s5)\<rparr>))"

definition onModuleDestroy :: "rag_st \<Rightarrow> rag_st" where
  "onModuleDestroy s =
     (let s1 = fold clearTimer (jvals (reconnectTimers s)) s;
          s2 = s1\<lparr>reconnectTimers := [], reconnectAttemptCounts := [], statementBuffers := []\<rparr>
      in fold disconnect (jkeys (connections s2)) s2)"

section \<open>Timers firing\<close>

definition timeoutRequest :: "nat \<Rightarrow> jstr \<Rightarrow> rag_st \<Rightarrow> rag_st" where
  "timeoutRequest w t s = s\<lparr>contexts := (contexts s)(w := (contexts s w)\<lparr>pendingRequests := jdel t (pendingRequests (contexts s w))\<rparr>)\<rparr>"

definition timeoutSources :: "nat \<Rightarrow> jstr \<Rightarrow> rag_st \<Rightarrow> rag_st" where
  "timeoutSources w t s = s\<lparr>contexts := (contexts s)(w := (contexts s w)\<lparr>pendingRequestsWithSources := jdel t (pendingRequestsWithSources (contexts s w))\<rparr>)\<rparr>"

fun timerFires :: "jstr option \<Rightarrow> int \<Rightarrow> timer_cb \<Rightarrow> rag_st \<Rightarrow> rag_st" where
  "timerFires throws now (TConnect w p) s =
     (if readyState (sockets s w) \<noteq> OPEN then settle p (Rejected [82, 65, 71, 32, 99, 111, 110,
       110, 101, 99, 116, 105, 111, 110, 32, 116, 105, 109, 101, 111, 117,
       116]) (closeSocket w s) else s)"
| "timerFires throws now (TRequest w t p) s = settle p (Rejected [82, 65, 71, 32, 114, 101, 113, 117,
  101, 115, 116, 32, 116, 105, 109, 101, 111, 117, 116]) (timeoutRequest w t s)"
| "timerFires throws now (TSources w t p) s = settle p (Rejected [82, 65, 71, 32, 114, 101, 113, 117,
  101, 115, 116, 32, 116, 105, 109, 101, 111, 117, 116]) (timeoutSources w t s)"
| "timerFires throws now (TReport r p) s =
     settle p (Rejected [48372, 44256, 49436, 32, 49373, 49457, 32, 53440, 51076, 50500,
       50883]) (s\<lparr>pendingReportRequests := jdel r (pendingReportRequests s)\<rparr>)"
| "timerFires throws now (TReconnect r) s = snd (connect r (s\<lparr>reconnectTimers := jdel r (reconnectTimers s)\<rparr>))"
| "timerFires throws now (TRetry d r t sp st en n) s = sendStatement throws now r t sp st en n s"
| "timerFires throws now (TFlush r xs) s = flushNext throws now r xs s"

definition fireTimer :: "jstr option \<Rightarrow> int \<Rightarrow> nat \<Rightarrow> rag_st \<Rightarrow> rag_st" where
  "fireTimer throws now t s = (case jget (timers s) t of
      None \<Rightarrow> s
    | Some cb \<Rightarrow> timerFires throws now cb (clearTimer t s))"

section \<open>Queries and HTTP calls\<close>

definition getConnectionStatus :: "jstr \<Rightarrow> rag_st \<Rightarrow> bool \<times> jstr" where
  "getConnectionStatus r s = (isConnected r s, r)"

definition getAllConnectionsStatus :: "rag_st \<Rightarrow> nat \<times> jstr list \<times> nat" where
  "getAllConnectionsStatus s = (length (connections s), jkeys (connections s), sum_list (map length (jvals (statementBuffers s))))"

definition roomBuffer :: "rag_st \<Rightarrow> jstr \<Rightarrow> PendingStatement list" where
  "roomBuffer s r = (case jget (statementBuffers s) r of None \<Rightarrow> [] | Some b \<Rightarrow> b)"

definition getBufferStatus :: "int \<Rightarrow> jstr \<Rightarrow> rag_st \<Rightarrow> nat \<times> int option" where
  "getBufferStatus now r s = (case roomBuffer s r of
      [] \<Rightarrow> (0, None)
    | x # xs \<Rightarrow> (length (x # xs), if st_timestamp x \<noteq> 0 then Some (now - st_timestamp x) else None))"

definition injectMockStatements :: "int \<Rightarrow> jstr \<Rightarrow> (jstr \<times> jstr) list \<Rightarrow> rag_st \<Rightarrow> (bool \<times> nat) \<times> rag_st" where
  "injectMockStatements now r us s =
     ((True, length us), s\<lparr>statementBuffers := jset r (roomBuffer s r @
        map (\<lambda>(sp, t). \<lparr>st_text = t, st_speaker = sp, st_timestamp = now, retryCount = 0, st_startTime = None, st_endTime = None\<rparr>) us)
        (statementBuffers s)\<rparr>)"

definition getBufferContent :: "jstr \<Rightarrow> rag_st \<Rightarrow> (jstr \<times> jstr \<times> int) list" where
  "getBufferContent r s = map (\<lambda>x. (st_speaker x, st_text x, st_timestamp x)) (roomBuffer s r)"

definition getFormattedTranscript :: "jstr \<Rightarrow> rag_st \<Rightarrow> jstr" where
  "getFormattedTranscript r s = join [10] (map (\<lambda>x. st_speaker x @ [58, 32] @ st_text x) (roomBuffer s r))"

definition clearBuffer :: "jstr \<Rightarrow> rag_st \<Rightarrow> rag_st" where
  "clearBuffer r s = s\<lparr>statementBuffers := jdel r (statementBuffers s)\<rparr>"

definition ragBaseUrl :: "jstr option \<Rightarrow> jstr" where
  "ragBaseUrl url = str_or url [104, 116, 116, 112, 58, 47, 47, 97, 117, 114, 97, 45, 114, 97, 103, 45,
    97, 108, 98, 45, 49, 49, 54, 57, 49, 50, 51, 54, 55, 48, 46, 97, 112, 45, 110, 111, 114, 116, 104,
    101, 97, 115, 116, 45, 50, 46, 101, 108, 98, 46, 97, 109, 97, 122, 111, 110, 97, 119, 115, 46, 99,
    111, 109]"

datatype rag_http = Issues bool | EndMeeting | StartMeeting | RequestReport | ParticipantJoined | ParticipantLeft

fun ragPath :: "rag_http \<Rightarrow> jstr" where
  "ragPath (Issues refresh) = [47, 105, 115, 115, 117, 101, 115] @ (if refresh then [63, 114, 101, 102,
    114, 101, 115, 104, 61, 116, 114, 117, 101] else [])"
| "ragPath EndMeeting = [47, 101, 110, 100]"
| "ragPath StartMeeting = [47, 115, 116, 97, 114, 116]"
| "ragPath RequestReport = [47, 114, 101, 112, 111, 114, 116]"
| "ragPath ParticipantJoined = [47, 112, 97, 114, 116, 105, 99, 105, 112, 97, 110, 116, 115, 47, 106,
  111, 105, 110]"
| "ragPath ParticipantLeft = [47, 112, 97, 114, 116, 105, 99, 105, 112, 97, 110, 116, 115, 47, 108,
  101, 97, 118, 101]"

definition ragEndpoint :: "jstr option \<Rightarrow> jstr \<Rightarrow> rag_http \<Rightarrow> jstr" where
  "ragEndpoint url r call = ragBaseUrl url @ [47, 109, 101, 101, 116, 105, 110, 103, 115,
    47] @ r @ ragPath call"

definition wsUrl :: "jstr option \<Rightarrow> jstr \<Rightarrow> jstr" where
  "wsUrl url r = str_or url [119, 115, 58, 47, 47, 108, 111, 99, 97, 108, 104, 111, 115, 116, 58, 56,
    48, 48, 48] @ [47, 119, 115, 47, 97, 103, 101, 110, 116, 47] @ r"

text \<open>
  The HTTP calls. \<open>http\<close> is the client library on an endpoint and a body: the data of the response, or the message
  of the error it throws.
\<close>

record HttpReply =
  hr_success :: bool
  hr_data :: "jstr option"
  hr_message :: "jstr option"

type_synonym http_client = "jstr \<Rightarrow> jstr \<Rightarrow> jstr + jstr"

definition getIssues :: "http_client \<Rightarrow> jstr option \<Rightarrow> jstr \<Rightarrow> bool \<Rightarrow> HttpReply" where
  "getIssues http url r refresh = (case http (ragEndpoint url r (Issues refresh)) [] of
      Inl e \<Rightarrow> \<lparr>hr_success = False, hr_data = None, hr_message = Some e\<rparr>
    | Inr d \<Rightarrow> \<lparr>hr_success = True, hr_data = Some d, hr_message = None\<rparr>)"

definition posted :: "jstr + jstr \<Rightarrow> HttpReply" where
  "posted x = (case x of
      Inl e \<Rightarrow> \<lparr>hr_success = False, hr_data = None, hr_message = Some e\<rparr>
    | Inr d \<Rightarrow> \<lparr>hr_success = True, hr_data = None, hr_message = Some d\<rparr>)"

definition endMeeting :: "http_client \<Rightarrow> jstr option \<Rightarrow> jstr \<Rightarrow> HttpReply" where
  "endMeeting http url r = posted (http (ragEndpoint url r EndMeeting) [])"

definition startMeeting :: "http_client \<Rightarrow> jstr option \<Rightarrow> jstr \<Rightarrow> jstr \<Rightarrow> HttpReply" where
  "startMeeting http url r payload = posted (http (ragEndpoint url r StartMeeting) payload)"

definition participantJoined :: "http_client \<Rightarrow> jstr option \<Rightarrow> jstr \<Rightarrow> jstr \<Rightarrow> HttpReply" where
  "participantJoined http url r participant = posted (http (ragEndpoint url r ParticipantJoined) participant)"

definition participantLeft :: "http_client \<Rightarrow> jstr option \<Rightarrow> jstr \<Rightarrow> jstr \<Rightarrow> HttpReply" where
  "participantLeft http url r participantId = posted (http (ragEndpoint url r ParticipantLeft) participantId)"

section \<open>Events\<close>

datatype rag_event =
    EConnect jstr
  | EOpen "jstr option" int nat
  | EMessage nat "rag_msg option"
  | EClose int nat
  | ETimer "jstr option" int nat
  | EStatement "jstr option" int jstr jstr jstr "int option" "int option"
  | EQuestion "jstr option" int jstr jstr
  | EQuestionWithSources "jstr option" int jstr jstr
  | EReport int jstr
  | EReportHttp nat "jstr option"
  | EReportResult nat
  | EDisconnect jstr
  | EDestroy
  | EInject int jstr "(jstr \<times> jstr) list"
  | EClear jstr

fun rag_step :: "rag_event \<Rightarrow> rag_st \<Rightarrow> rag_st" where
  "rag_step (EConnect r) s = snd (connect r s)"
| "rag_step (EOpen throws now w) s = (if w < nextSocket s then onOpen throws now w s else s)"
| "rag_step (EMessage w m) s = (if readyState (sockets s w) \<in> {OPEN, CLOSING} then handleMessage (sock_room (sockets s w)) m s else s)"
| "rag_step (EClose code w) s = (if w < nextSocket s then onClose code w s else s)"
| "rag_step (ETimer throws now t) s = fireTimer throws now t s"
| "rag_step (EStatement throws now r t sp st en) s = sendStatement throws now r t sp st en 0 s"
| "rag_step (EQuestion throws now r t) s = snd (sendQuestion throws now r t s)"
| "rag_step (EQuestionWithSources throws now r t) s = snd (sendQuestionWithSources throws now r t s)"
| "rag_step (EReport now r) s = snd (requestReport now r s)"
| "rag_step (EReportHttp i err) s = reportHttp i err s"
| "rag_step (EReportResult i) s = reportResult i s"
| "rag_step (EDisconnect r) s = disconnect r s"
| "rag_step EDestroy s = onModuleDestroy s"
| "rag_step (EInject now r us) s = snd (injectMockStatements now r us s)"
| "rag_step (EClear r) s = clearBuffer r s"

section \<open>The invariant\<close>

text \<open>The promise that a timer rejects when it fires.\<close>

fun rejects :: "timer_cb \<Rightarrow> nat option" where
  "rejects (TConnect w p) = Some p"
| "rejects (TRequest w t p) = Some p"
| "rejects (TSources w t p) = Some p"
| "rejects (TReport r p) = Some p"
| "rejects cb = None"

definition settled :: "(nat \<Rightarrow> promise) \<Rightarrow> nat \<Rightarrow> promise \<Rightarrow> nat \<Rightarrow> promise" where
  "settled P p v = (if P p = Pending then P(p := v) else P)"

lemma settle_eq: "settle p v s = s\<lparr>promises := settled (promises s) p v\<rparr>"
  by (simp add: settle_def settled_def)

text \<open>
  The parts of the invariant, each over the fields it is about: every pending promise has a live timer that
  rejects it; a stored request names a timer that, if live, rejects the promise of the request; a live
  connection timer belongs to a socket that is not open; the reconnection timers are exactly those the
  map holds; the number of attempts is at most three.
\<close>

definition promises_ok :: "(nat, timer_cb) jmap \<Rightarrow> nat \<Rightarrow> (nat \<Rightarrow> promise) \<Rightarrow> nat \<Rightarrow> bool" where
  "promises_ok T n P m \<longleftrightarrow> (\<forall>t cb. jget T t = Some cb \<longrightarrow> t < n) \<and>
     (\<forall>p < m. P p = Pending \<longrightarrow> (\<exists>t cb. jget T t = Some cb \<and> rejects cb = Some p))"

definition request_ok :: "(nat, timer_cb) jmap \<Rightarrow> nat \<Rightarrow> PendingRequest \<Rightarrow> bool" where
  "request_ok T n e \<longleftrightarrow> pr_timer e < n \<and> (\<forall>cb. jget T (pr_timer e) = Some cb \<longrightarrow> rejects cb = Some (pr_promise e))"

definition requests_ok :: "(nat, timer_cb) jmap \<Rightarrow> nat \<Rightarrow> (nat \<Rightarrow> ConnectionContext) \<Rightarrow> (jstr, PendingRequest) jmap \<Rightarrow> bool" where
  "requests_ok T n C R \<longleftrightarrow> (\<forall>w. jwf (pendingRequests (C w))) \<and>
     (\<forall>w k e. jget (pendingRequests (C w)) k = Some e \<longrightarrow> request_ok T n e) \<and>
     (\<forall>w k e. jget (pendingRequestsWithSources (C w)) k = Some e \<longrightarrow> request_ok T n e) \<and>
     (\<forall>r e. jget R r = Some e \<longrightarrow> request_ok T n e)"

definition sockets_ok :: "(nat, timer_cb) jmap \<Rightarrow> nat \<Rightarrow> (nat \<Rightarrow> socket) \<Rightarrow> nat \<Rightarrow> bool" where
  "sockets_ok T n S k \<longleftrightarrow>
     (\<forall>t w p. jget T t = Some (TConnect w p) \<longrightarrow> w < k \<and> sock_timer (S w) = t \<and> readyState (S w) \<noteq> OPEN) \<and>
     (\<forall>w < k. sock_timer (S w) < n \<and>
        (\<forall>cb. jget T (sock_timer (S w)) = Some cb \<longrightarrow> cb = TConnect w (sock_promise (S w))))"

definition reconnect_ok :: "(nat, timer_cb) jmap \<Rightarrow> (jstr, nat) jmap \<Rightarrow> bool" where
  "reconnect_ok T R \<longleftrightarrow> jwf R \<and> (\<forall>r t. jget R r = Some t \<longleftrightarrow> jget T t = Some (TReconnect r))"

definition attempts_ok :: "(jstr, int) jmap \<Rightarrow> bool" where
  "attempts_ok A \<longleftrightarrow> (\<forall>r n. jget A r = Some n \<longrightarrow> 1 \<le> n \<and> n \<le> MAX_RECONNECT_ATTEMPTS)"

text \<open>\<open>P\<close> are the promises; a handler may be about to settle one of those in the state.\<close>

definition rag_inv_for :: "(nat \<Rightarrow> promise) \<Rightarrow> rag_st \<Rightarrow> bool" where
  "rag_inv_for P s \<longleftrightarrow> promises_ok (timers s) (nextTimer s) P (nextPromise s) \<and>
     requests_ok (timers s) (nextTimer s) (contexts s) (pendingReportRequests s) \<and>
     sockets_ok (timers s) (nextTimer s) (sockets s) (nextSocket s) \<and>
     reconnect_ok (timers s) (reconnectTimers s) \<and> attempts_ok (reconnectAttemptCounts s)"

definition rag_inv :: "rag_st \<Rightarrow> bool" where
  "rag_inv s \<longleftrightarrow> rag_inv_for (promises s) s"

lemma rag_inv_forI:
  assumes "promises_ok (timers s) (nextTimer s) P (nextPromise s)"
    and "requests_ok (timers s) (nextTimer s) (contexts s) (pendingReportRequests s)"
    and "sockets_ok (timers s) (nextTimer s) (sockets s) (nextSocket s)"
    and "reconnect_ok (timers s) (reconnectTimers s)" and "attempts_ok (reconnectAttemptCounts s)"
  shows "rag_inv_for P s"
  using assms by (simp add: rag_inv_for_def)

lemma rag_inv_forD:
  assumes "rag_inv_for P s"
  shows "promises_ok (timers s) (nextTimer s) P (nextPromise s)"
    and "requests_ok (timers s) (nextTimer s) (contexts s) (pendingReportRequests s)"
    and "sockets_ok (timers s) (nextTimer s) (sockets s) (nextSocket s)"
    and "reconnect_ok (timers s) (reconnectTimers s)" and "attempts_ok (reconnectAttemptCounts s)"
  using assms by (simp_all add: rag_inv_for_def)

lemmas rag_invI = rag_inv_forI [of s "promises s" for s, folded rag_inv_def]
lemmas rag_invD = rag_inv_forD [of "promises s" s for s, folded rag_inv_def]

lemma rag_inv_init: "rag_inv init_rag"
  by (simp add: rag_inv_def rag_inv_for_def init_rag_def promises_ok_def requests_ok_def sockets_ok_def reconnect_ok_def attempts_ok_def noContext_def)

subsection \<open>A timer is added\<close>

text \<open>\<open>n\<close> is fresh: no live timer and no stored timer number reaches it.\<close>

lemma fresh_timer: "promises_ok T n P m \<Longrightarrow> jget T n = None"
  by (cases "jget T n") (auto simp: promises_ok_def)

lemma promises_add: "promises_ok T n P m \<Longrightarrow> promises_ok (jset n cb T) (Suc n) P m"
  using fresh_timer [of T n P m] by (fastforce simp: promises_ok_def less_Suc_eq)

lemma promises_new:
  assumes "promises_ok T n P m" and "rejects cb = Some m"
  shows "promises_ok (jset n cb T) (Suc n) P (Suc m)"
  using assms fresh_timer [OF assms(1)] by (fastforce simp: promises_ok_def less_Suc_eq)

lemma request_add: "request_ok T n e \<Longrightarrow> request_ok (jset n cb T) (Suc n) e"
  by (auto simp: request_ok_def)

lemma requests_add: "requests_ok T n C R \<Longrightarrow> requests_ok (jset n cb T) (Suc n) C R"
  unfolding requests_ok_def using request_add by blast

lemma sockets_add:
  assumes "sockets_ok T n S k" and "\<forall>w p. cb \<noteq> TConnect w p"
  shows "sockets_ok (jset n cb T) (Suc n) S k"
  using assms by (auto simp: sockets_ok_def less_Suc_eq)

lemma reconnect_add:
  assumes "reconnect_ok T R" and "\<forall>r. cb \<noteq> TReconnect r" and "jget T n = None"
  shows "reconnect_ok (jset n cb T) R"
  using assms by (fastforce simp: reconnect_ok_def)

subsection \<open>A timer is cleared\<close>

lemma promises_clear:
  assumes "promises_ok T n P m" and "\<forall>cb. jget T t = Some cb \<longrightarrow> rejects cb = None"
  shows "promises_ok (jdel t T) n P m"
  using assms by (fastforce simp: promises_ok_def)

lemma promises_clear_settle:
  assumes "promises_ok T n P m" and "\<forall>cb. jget T t = Some cb \<longrightarrow> rejects cb = Some p \<or> rejects cb = None" and "v \<noteq> Pending"
  shows "promises_ok (jdel t T) n (settled P p v) m"
  using assms by (fastforce simp: promises_ok_def settled_def split: if_splits)

lemma promises_settle: "promises_ok T n P m \<Longrightarrow> v \<noteq> Pending \<Longrightarrow> promises_ok T n (settled P p v) m"
  by (auto simp: promises_ok_def settled_def)

lemma promises_new_settled: "promises_ok T n P m \<Longrightarrow> v \<noteq> Pending \<Longrightarrow> promises_ok T n (settled P m v) (Suc m)"
  by (auto simp: promises_ok_def settled_def less_Suc_eq)

lemma requests_clear: "requests_ok T n C R \<Longrightarrow> requests_ok (jdel t T) n C R"
  by (fastforce simp: requests_ok_def request_ok_def)

lemma sockets_clear: "sockets_ok T n S k \<Longrightarrow> sockets_ok (jdel t T) n S k"
  by (auto simp: sockets_ok_def)

lemma reconnect_clear: "reconnect_ok T R \<Longrightarrow> \<forall>r. jget T t \<noteq> Some (TReconnect r) \<Longrightarrow> reconnect_ok (jdel t T) R"
  by (fastforce simp: reconnect_ok_def)

lemma reconnect_fire: "reconnect_ok T R \<Longrightarrow> jget T t = Some (TReconnect r) \<Longrightarrow> reconnect_ok (jdel t T) (jdel r R)"
  by (simp add: reconnect_ok_def) (metis option.inject timer_cb.inject(5))

subsection \<open>Sockets change\<close>

lemma sockets_ready:
  assumes "sockets_ok T n S k" and "x \<noteq> OPEN"
  shows "sockets_ok T n (S(w := (S w)\<lparr>readyState := x\<rparr>)) k"
  using assms by (auto simp: sockets_ok_def)

lemma sockets_open:
  assumes "sockets_ok T n S k"
  shows "sockets_ok (jdel (sock_timer (S w)) T) n (S(w := (S w)\<lparr>readyState := OPEN\<rparr>)) k"
  using assms by (auto simp: sockets_ok_def)

lemma sockets_new:
  assumes "sockets_ok T n S k" and "jget T n = None"
  shows "sockets_ok (jset n (TConnect k p) T) (Suc n)
    (S(k := \<lparr>sock_room = r, readyState = CONNECTING, sock_timer = n, sock_promise = p\<rparr>)) (Suc k)"
  using assms by (fastforce simp: sockets_ok_def less_Suc_eq)

subsection \<open>Stored requests change\<close>

lemma requests_put:
  assumes "requests_ok T n C R" and "request_ok T n e"
  shows "requests_ok T n (C(w := (C w)\<lparr>pendingRequests := jset k e (pendingRequests (C w))\<rparr>)) R"
    and "requests_ok T n (C(w := (C w)\<lparr>pendingRequestsWithSources := jset k e (pendingRequestsWithSources (C w))\<rparr>)) R"
    and "requests_ok T n C (jset r e R)"
  using assms by (auto simp: requests_ok_def split: if_splits)

lemma requests_remove:
  assumes "requests_ok T n C R"
  shows "requests_ok T n (C(w := (C w)\<lparr>pendingRequests := jdel k (pendingRequests (C w))\<rparr>)) R"
    and "requests_ok T n (C(w := (C w)\<lparr>pendingRequests := []\<rparr>)) R"
    and "requests_ok T n (C(w := (C w)\<lparr>pendingRequestsWithSources := jdel k (pendingRequestsWithSources (C w))\<rparr>)) R"
    and "requests_ok T n (C(w := noContext)) R"
    and "requests_ok T n C (jdel r R)"
  using assms by (auto simp: requests_ok_def noContext_def split: if_splits)

subsection \<open>Every operation keeps it\<close>

lemma inv_plain_timer:
  assumes "rag_inv_for P s" and "rejects cb = None" and "\<forall>r. cb \<noteq> TReconnect r"
  shows "rag_inv_for P (snd (setTimer cb s))"
proof -
  note i = rag_inv_forD [OF assms(1)]
  have "\<forall>w p. cb \<noteq> TConnect w p" using assms(2) by auto
  then show ?thesis
    using i assms(3) fresh_timer [OF i(1)]
    by (intro rag_inv_forI) (simp_all add: setTimer_def promises_add requests_add sockets_add reconnect_add)
qed

lemma inv_buffers:
  "rag_inv_for P (s\<lparr>statementBuffers := b\<rparr>) = rag_inv_for P s" "rag_inv_for P (s\<lparr>connections := c\<rparr>) = rag_inv_for P s"
  "rag_inv_for P (s\<lparr>sent := o'\<rparr>) = rag_inv_for P s" "rag_inv_for P (s\<lparr>reportCalls := rc\<rparr>) = rag_inv_for P s"
  "rag_inv_for P (s\<lparr>promises := Q\<rparr>) = rag_inv_for P s"
  by (simp_all add: rag_inv_for_def)

lemma inv_frames:
  "rag_inv (s\<lparr>statementBuffers := b\<rparr>) = rag_inv s" "rag_inv (s\<lparr>connections := c\<rparr>) = rag_inv s"
  "rag_inv (s\<lparr>sent := o'\<rparr>) = rag_inv s" "rag_inv (s\<lparr>reportCalls := rc\<rparr>) = rag_inv s"
  by (simp_all add: rag_inv_def inv_buffers)

lemma inv_sendStatement_for: "rag_inv_for P s \<Longrightarrow> rag_inv_for P (sendStatement throws now r t sp st en n s)"
  unfolding sendStatement_def Let_def
  by (auto simp: inv_buffers intro!: inv_plain_timer) (simp_all add: addToStatementBuffer_def inv_buffers Let_def)

lemma inv_flushNext_for: "rag_inv_for P s \<Longrightarrow> rag_inv_for P (flushNext throws now r xs s)"
  by (auto simp: flushNext_def inv_sendStatement_for intro!: inv_plain_timer split: list.splits)

lemma inv_flush_for: "rag_inv_for P s \<Longrightarrow> rag_inv_for P (flushStatementBuffer throws now r s)"
  by (auto simp: flushStatementBuffer_def Let_def inv_buffers intro!: inv_flushNext_for split: option.splits)

text \<open>Sending statements does not change promises.\<close>

lemma addTo_promises [simp]: "promises (addToStatementBuffer now r t sp st en s) = promises s"
  by (simp add: addToStatementBuffer_def Let_def)

lemma setTimer_promises [simp]: "promises (snd (setTimer cb s)) = promises s"
  by (simp add: setTimer_def)

lemma sendStatement_promises [simp]: "promises (sendStatement throws now r t sp st en n s) = promises s"
  by (simp add: sendStatement_def Let_def)

lemma flushNext_promises [simp]: "promises (flushNext throws now r xs s) = promises s"
  by (simp add: flushNext_def split: list.splits)

lemma flush_promises [simp]: "promises (flushStatementBuffer throws now r s) = promises s"
  by (simp add: flushStatementBuffer_def Let_def split: option.splits)

lemma inv_sendStatement: "rag_inv s \<Longrightarrow> rag_inv (sendStatement throws now r t sp st en n s)"
  by (simp add: rag_inv_def inv_sendStatement_for)

lemma inv_flushNext: "rag_inv s \<Longrightarrow> rag_inv (flushNext throws now r xs s)"
  by (simp add: rag_inv_def inv_flushNext_for)

lemma inv_settle: "rag_inv s \<Longrightarrow> v \<noteq> Pending \<Longrightarrow> rag_inv (settle p v s)"
  by (simp add: settle_eq rag_inv_def rag_inv_for_def promises_settle)

text \<open>A stored request is answered or rejected: its timer is cleared and its promise settled.\<close>

lemma inv_clear_settle:
  assumes "rag_inv s" and "request_ok (timers s) (nextTimer s) e" and "v \<noteq> Pending"
  shows "rag_inv (settle (pr_promise e) v (clearTimer (pr_timer e) s))"
proof -
  note i = rag_invD [OF assms(1)]
  have "\<forall>r. jget (timers s) (pr_timer e) \<noteq> Some (TReconnect r)"
    using assms(2) by (fastforce simp: request_ok_def)
  then show ?thesis
    using i assms(2,3)
    by (intro rag_invI)
      (auto simp: settle_eq clearTimer_def request_ok_def requests_clear sockets_clear reconnect_clear
        intro!: promises_clear_settle)
qed

lemma inv_remove_request:
  assumes "rag_inv s"
  shows "rag_inv (s\<lparr>contexts := (contexts s)(w := (contexts s w)\<lparr>pendingRequests := jdel k (pendingRequests (contexts s w))\<rparr>)\<rparr>)"
    and "rag_inv (s\<lparr>contexts := (contexts s)(w := (contexts s w)\<lparr>pendingRequests := []\<rparr>)\<rparr>)"
    and "rag_inv (s\<lparr>contexts := (contexts s)(w := (contexts s w)\<lparr>pendingRequestsWithSources := jdel k (pendingRequestsWithSources (contexts s w))\<rparr>)\<rparr>)"
    and "rag_inv (s\<lparr>pendingReportRequests := jdel r (pendingReportRequests s)\<rparr>)"
  using rag_invD [OF assms] by (simp_all add: rag_inv_def rag_inv_for_def requests_remove)

lemma inv_connect:
  assumes "rag_inv s"
  shows "rag_inv (snd (connect r s))"
proof -
  note i = rag_invD [OF assms]
  have "rag_inv (settle (nextPromise s) (Fulfilled Connected) (s\<lparr>nextPromise := Suc (nextPromise s)\<rparr>))"
    using i by (simp add: rag_inv_def rag_inv_for_def settle_eq promises_new_settled)
  moreover have "rag_inv (snd (connect r s))" if "\<not> isConnected r s"
    using that i fresh_timer [OF i(1)]
    by (intro rag_invI) (simp_all add: connect_def newPromise_def setTimer_def Let_def promises_new requests_add
        sockets_new reconnect_add)
  ultimately show ?thesis
    by (cases "isConnected r s") (simp_all add: connect_def newPromise_def Let_def)
qed

lemma inv_setReady: "rag_inv s \<Longrightarrow> x \<noteq> OPEN \<Longrightarrow> rag_inv (setReady w x s)"
  by (simp add: rag_inv_def rag_inv_for_def setReady_def sockets_ready)

lemma inv_closeSocket: "rag_inv s \<Longrightarrow> rag_inv (closeSocket w s)"
  by (simp add: closeSocket_def inv_setReady)

lemma attempts_del: "attempts_ok A \<Longrightarrow> attempts_ok (jdel r A)"
  by (auto simp: attempts_ok_def split: if_splits)

lemma inv_onOpen:
  assumes "rag_inv s" and "w < nextSocket s"
  shows "rag_inv (onOpen throws now w s)"
proof (cases "readyState (sockets s w) = CONNECTING")
  case True
  note i = rag_invD [OF assms(1)]
  let ?t = "sock_timer (sockets s w)" and ?p = "sock_promise (sockets s w)"
  define s2 where "s2 = (let s1 = clearTimer ?t (setReady w OPEN s)
    in s1\<lparr>contexts := (contexts s1)(w := noContext), connections := jset (sock_room (sockets s w)) w (connections s1),
          reconnectAttemptCounts := jdel (sock_room (sockets s w)) (reconnectAttemptCounts s1)\<rparr>)"
  have cb: "jget (timers s) ?t = Some cb \<Longrightarrow> cb = TConnect w ?p" for cb
    using i(3) assms(2) by (simp add: sockets_ok_def)
  have "rag_inv_for (settled (promises s) ?p (Fulfilled Connected)) s2"
    using i cb
    by (intro rag_inv_forI) (auto simp: s2_def Let_def clearTimer_def setReady_def requests_clear requests_remove
        sockets_open attempts_del intro!: promises_clear_settle reconnect_clear dest: cb)
  moreover have "promises s2 = promises s" by (simp add: s2_def clearTimer_def setReady_def Let_def)
  moreover have "onOpen throws now w s = settle ?p (Fulfilled Connected) (flushStatementBuffer throws now (sock_room (sockets s w)) s2)"
    using True by (simp add: onOpen_def s2_def Let_def)
  ultimately show ?thesis by (simp add: settle_eq rag_inv_def inv_buffers inv_flush_for)
qed (simp add: onOpen_def assms)

lemma inv_scheduleReconnect:
  assumes "rag_inv s"
  shows "rag_inv (scheduleReconnect r s)"
proof -
  note i = rag_invD [OF assms]
  let ?a = "num_or (jget (reconnectAttemptCounts s) r) 0"
  have a: "0 \<le> ?a" using i(5) by (fastforce simp: num_or_def attempts_ok_def split: option.splits)
  have rec: "reconnect_ok (jset (nextTimer s) (TReconnect r) (timers s)) (jset r (nextTimer s) (reconnectTimers s))"
    if "jget (reconnectTimers s) r = None"
    using that i(4) fresh_timer [OF i(1)] by (simp add: reconnect_ok_def) (metis option.distinct(1))
  show ?thesis
    using i a rec
    by (auto simp: scheduleReconnect_def Let_def setTimer_def jhas_def rag_inv_def rag_inv_for_def promises_add requests_add sockets_add attempts_del)
      (auto simp: attempts_ok_def MAX_RECONNECT_ATTEMPTS_def split: if_splits)
qed

lemma inv_onClose: "rag_inv s \<Longrightarrow> rag_inv (onClose code w s)"
  by (simp add: onClose_def Let_def inv_setReady inv_scheduleReconnect inv_frames)

lemma inv_ask:
  assumes "rag_inv s" and "rejects cb = Some (nextPromise s)" and "\<forall>w p. cb \<noteq> TConnect w p"
  shows "rag_inv (snd (setTimer cb (snd (newPromise s))))"
    and "request_ok (jset (nextTimer s) cb (timers s)) (Suc (nextTimer s)) \<lparr>pr_promise = nextPromise s, pr_timer = nextTimer s, pr_startTime = now\<rparr>"
proof -
  note i = rag_invD [OF assms(1)]
  have "\<forall>r. cb \<noteq> TReconnect r" using assms(2) by auto
  then show "rag_inv (snd (setTimer cb (snd (newPromise s))))"
    using i assms(2,3) fresh_timer [OF i(1)]
    by (intro rag_invI) (simp_all add: setTimer_def newPromise_def promises_new requests_add sockets_add reconnect_add)
  show "request_ok (jset (nextTimer s) cb (timers s)) (Suc (nextTimer s)) \<lparr>pr_promise = nextPromise s, pr_timer = nextTimer s, pr_startTime = now\<rparr>"
    using assms(2) by (simp add: request_ok_def)
qed

lemma inv_put:
  assumes "rag_inv s" and "request_ok (timers s) (nextTimer s) e"
  shows "rag_inv (s\<lparr>contexts := (contexts s)(w := (contexts s w)\<lparr>pendingRequests := jset k e (pendingRequests (contexts s w))\<rparr>)\<rparr>)"
    and "rag_inv (s\<lparr>contexts := (contexts s)(w := (contexts s w)\<lparr>pendingRequestsWithSources := jset k e (pendingRequestsWithSources (contexts s w))\<rparr>)\<rparr>)"
    and "rag_inv (s\<lparr>pendingReportRequests := jset r e (pendingReportRequests s)\<rparr>)"
  using rag_invD [OF assms(1)] assms(2) by (simp_all add: rag_inv_def rag_inv_for_def requests_put)

lemma inv_new_settled: "rag_inv s \<Longrightarrow> v \<noteq> Pending \<Longrightarrow> rag_inv (settle (nextPromise s) v (snd (newPromise s)))"
  by (simp add: rag_inv_def rag_inv_for_def settle_eq newPromise_def promises_new_settled)

lemma inv_sendQuestion:
  assumes "rag_inv s"
  shows "rag_inv (snd (sendQuestion throws now r t s))"
proof -
  let ?n = "nextTimer s" and ?p = "nextPromise s"
  have "rag_inv ((snd (setTimer (TRequest w t ?p) (snd (newPromise s))))\<lparr>contexts := (contexts s)(w := (contexts s w)\<lparr>pendingRequests :=
      jset t \<lparr>pr_promise = ?p, pr_timer = ?n, pr_startTime = now\<rparr> (pendingRequests (contexts s w))\<rparr>)\<rparr>)" for w
    using inv_put(1) [OF inv_ask(1) [OF assms, of "TRequest w t ?p"],
        of "\<lparr>pr_promise = ?p, pr_timer = ?n, pr_startTime = now\<rparr>" w t]
      inv_ask(2) [OF assms, of "TRequest w t ?p"]
    by (simp add: setTimer_def newPromise_def)
  then show ?thesis
    using inv_new_settled [OF assms]
    by (simp add: sendQuestion_def newPromise_def setTimer_def Let_def inv_settle inv_frames split: option.splits)
qed

lemma inv_sendQuestionWithSources:
  assumes "rag_inv s"
  shows "rag_inv (snd (sendQuestionWithSources throws now r t s))"
proof -
  let ?n = "nextTimer s" and ?p = "nextPromise s"
  have "rag_inv ((snd (setTimer (TSources w t ?p) (snd (newPromise s))))\<lparr>contexts := (contexts s)(w := (contexts s w)\<lparr>pendingRequestsWithSources :=
      jset t \<lparr>pr_promise = ?p, pr_timer = ?n, pr_startTime = now\<rparr> (pendingRequestsWithSources (contexts s w))\<rparr>)\<rparr>)" for w
    using inv_put(2) [OF inv_ask(1) [OF assms, of "TSources w t ?p"],
        of "\<lparr>pr_promise = ?p, pr_timer = ?n, pr_startTime = now\<rparr>" w t]
      inv_ask(2) [OF assms, of "TSources w t ?p"]
    by (simp add: setTimer_def newPromise_def)
  then show ?thesis
    using inv_new_settled [OF assms]
    by (simp add: sendQuestionWithSources_def newPromise_def setTimer_def Let_def inv_settle inv_frames split: option.splits)
qed

lemma inv_requestReport:
  assumes "rag_inv s"
  shows "rag_inv (snd (requestReport now r s))"
proof -
  let ?n = "nextTimer s" and ?p = "nextPromise s"
  have "rag_inv ((snd (setTimer (TReport r ?p) (snd (newPromise s))))\<lparr>pendingReportRequests :=
      jset r \<lparr>pr_promise = ?p, pr_timer = ?n, pr_startTime = now\<rparr> (pendingReportRequests s)\<rparr>)"
    using inv_put(3) [OF inv_ask(1) [OF assms, of "TReport r ?p"],
        of "\<lparr>pr_promise = ?p, pr_timer = ?n, pr_startTime = now\<rparr>" r]
      inv_ask(2) [OF assms, of "TReport r ?p"]
    by (simp add: setTimer_def newPromise_def)
  then have "rag_inv (((snd (setTimer (TReport r ?p) (snd (newPromise s))))\<lparr>pendingReportRequests :=
      jset r \<lparr>pr_promise = ?p, pr_timer = ?n, pr_startTime = now\<rparr> (pendingReportRequests s)\<rparr>)\<lparr>reportCalls := c\<rparr>)" for c
    by (simp only: inv_frames)
  with assms show ?thesis
    by (simp add: requestReport_def newPromise_def setTimer_def Let_def)
qed

lemma inv_setCall: "rag_inv s \<Longrightarrow> rag_inv (setCall i c s)"
  by (simp add: setCall_def inv_frames)

lemma inv_reportHttp: "rag_inv s \<Longrightarrow> rag_inv (reportHttp i err s)"
  by (simp add: reportHttp_def Let_def inv_setCall inv_remove_request split: option.splits)

lemma inv_reportResult: "rag_inv s \<Longrightarrow> rag_inv (reportResult i s)"
  by (simp add: reportResult_def Let_def inv_setCall inv_remove_request split: promise.splits rag_value.splits)

lemma requests_okD:
  assumes "requests_ok T n C R"
  shows "jget (pendingRequests (C w)) k = Some e \<Longrightarrow> request_ok T n e"
    and "jget (pendingRequestsWithSources (C w)) k = Some e \<Longrightarrow> request_ok T n e"
    and "jget R r = Some e \<Longrightarrow> request_ok T n e"
  using assms unfolding requests_ok_def by blast+

text \<open>Settling and clearing commute with what the handlers do to the stored requests.\<close>

lemma clear_settle_frame:
  "settle p v ((clearTimer t s)\<lparr>contexts := C\<rparr>) = (settle p v (clearTimer t s))\<lparr>contexts := C\<rparr>"
  "settle p v ((clearTimer t s)\<lparr>pendingReportRequests := R\<rparr>) = (settle p v (clearTimer t s))\<lparr>pendingReportRequests := R\<rparr>"
  "contexts (settle p v (clearTimer t s)) = contexts s"
  "pendingReportRequests (settle p v (clearTimer t s)) = pendingReportRequests s"
  by (simp_all add: settle_eq clearTimer_def)

lemma inv_answered:
  assumes "rag_inv s" and "request_ok (timers s) (nextTimer s) e" and "v \<noteq> Pending"
  shows "rag_inv (settle (pr_promise e) v ((clearTimer (pr_timer e) s)\<lparr>contexts := (contexts s)(w := (contexts s w)\<lparr>pendingRequests :=
      deleteText t (pendingRequests (contexts s w))\<rparr>)\<rparr>))"
    and "rag_inv (settle (pr_promise e) v ((clearTimer (pr_timer e) s)\<lparr>contexts := (contexts s)(w := (contexts s w)\<lparr>pendingRequestsWithSources :=
      deleteText t (pendingRequestsWithSources (contexts s w))\<rparr>)\<rparr>))"
    and "rag_inv (settle (pr_promise e) v ((clearTimer (pr_timer e) s)\<lparr>pendingReportRequests := jdel r (pendingReportRequests s)\<rparr>))"
proof -
  let ?s = "settle (pr_promise e) v (clearTimer (pr_timer e) s)"
  have i: "rag_inv ?s" by (rule inv_clear_settle [OF assms])
  note rm = inv_remove_request [OF i, unfolded clear_settle_frame(3,4)]
  show "rag_inv (settle (pr_promise e) v ((clearTimer (pr_timer e) s)\<lparr>pendingReportRequests := jdel r (pendingReportRequests s)\<rparr>))"
    using rm(4) by (simp only: clear_settle_frame)
  have same: "(contexts s)(w := (contexts s w)\<lparr>pendingRequests := pendingRequests (contexts s w)\<rparr>) = contexts s"
      "(contexts s)(w := (contexts s w)\<lparr>pendingRequestsWithSources := pendingRequestsWithSources (contexts s w)\<rparr>) = contexts s"
      "?s\<lparr>contexts := contexts s\<rparr> = ?s"
    by (simp_all add: settle_eq clearTimer_def)
  show "rag_inv (settle (pr_promise e) v ((clearTimer (pr_timer e) s)\<lparr>contexts := (contexts s)(w := (contexts s w)\<lparr>pendingRequests :=
      deleteText t (pendingRequests (contexts s w))\<rparr>)\<rparr>))"
    using i rm(1) by (cases t) (simp_all only: clear_settle_frame deleteText_def option.case same)
  show "rag_inv (settle (pr_promise e) v ((clearTimer (pr_timer e) s)\<lparr>contexts := (contexts s)(w := (contexts s w)\<lparr>pendingRequestsWithSources :=
      deleteText t (pendingRequestsWithSources (contexts s w))\<rparr>)\<rparr>))"
    using i rm(3) by (cases t) (simp_all only: clear_settle_frame deleteText_def option.case same)
qed

lemma inv_handleMessage:
  assumes "rag_inv s"
  shows "rag_inv (handleMessage r msg s)"
proof -
  note e = requests_okD [OF rag_invD(2) [OF assms]]
  have "rag_inv (settle (pr_promise e) v ((clearTimer (pr_timer e) s)\<lparr>contexts := (contexts s)(w := (contexts s w)\<lparr>pendingRequestsWithSources :=
      deleteText t (pendingRequestsWithSources (contexts s w))\<rparr>)\<rparr>))"
    if "Option.bind t (jget (pendingRequestsWithSources (contexts s w))) = Some e" "v \<noteq> Pending" for t w e v
    using that e(2) by (intro inv_answered [OF assms]) (auto simp: bind_eq_Some_conv)
  with assms e show ?thesis
    by (auto simp: handleMessage_def Let_def intro!: inv_answered split: option.splits rag_msg.splits)
qed

lemma inv_attempts: "rag_inv s \<Longrightarrow> rag_inv (s\<lparr>reconnectAttemptCounts := jdel r (reconnectAttemptCounts s)\<rparr>)"
  by (simp add: rag_inv_def rag_inv_for_def attempts_del)

lemma inv_cancelReconnect:
  assumes "rag_inv s"
  shows "rag_inv (cancelReconnect r s)"
proof (cases "jget (reconnectTimers s) r")
  case (Some t)
  note i = rag_invD [OF assms]
  have t: "jget (timers s) t = Some (TReconnect r)" using i(4) Some by (simp add: reconnect_ok_def)
  with i Some show ?thesis
    by (intro rag_invI) (simp_all add: cancelReconnect_def clearTimer_def promises_clear requests_clear sockets_clear reconnect_fire)
qed (simp add: cancelReconnect_def assms)

lemma inv_rejectReport:
  assumes "rag_inv s"
  shows "rag_inv (rejectReport r s)"
  using assms requests_okD(3) [OF rag_invD(2) [OF assms]]
  by (auto simp: rejectReport_def intro!: inv_answered split: option.splits)

lemma inv_rejectRequests:
  assumes "rag_inv s" and "\<forall>e \<in> set es. request_ok (timers s) (nextTimer s) e"
  shows "rag_inv (fold rejectRequest es s)"
  using assms
proof (induction es arbitrary: s)
  case (Cons e es)
  have "rag_inv (rejectRequest e s)" using Cons.prems by (simp add: rejectRequest_def inv_clear_settle)
  moreover have "request_ok (timers (rejectRequest e s)) (nextTimer (rejectRequest e s)) e'"
    if "request_ok (timers s) (nextTimer s) e'" for e'
    using that by (simp add: rejectRequest_def settle_eq clearTimer_def request_ok_def)
  ultimately show ?case using Cons by simp
qed simp

lemma inv_disconnect:
  assumes "rag_inv s"
  shows "rag_inv (disconnect r s)"
proof -
  define s1 where "s1 = (let s0 = cancelReconnect r s in s0\<lparr>reconnectAttemptCounts := jdel r (reconnectAttemptCounts s0)\<rparr>)"
  have i1: "rag_inv s1" using inv_attempts [OF inv_cancelReconnect [OF assms]] by (simp add: s1_def Let_def)
  have "\<forall>e \<in> set (jvals (pendingRequests (contexts s1 w))). request_ok (timers s1) (nextTimer s1) e" for w
    using rag_invD(2) [OF i1] by (auto simp: requests_ok_def jm.vals_iff)
  then have "rag_inv (fold rejectRequest (jvals (pendingRequests (contexts s1 w))) s1)" for w
    by (intro inv_rejectRequests i1)
  then show ?thesis
    using i1 unfolding disconnect_def s1_def [symmetric, unfolded Let_def] Let_def
    by (auto simp: inv_frames intro!: inv_closeSocket inv_rejectReport inv_remove_request split: option.splits)
qed

lemma inv_clearReconnects:
  assumes "rag_inv_for P s" and "\<forall>t \<in> set ts. \<forall>cb. jget (timers s) t = Some cb \<longrightarrow> rejects cb = None"
  shows "promises_ok (timers (fold clearTimer ts s)) (nextTimer s) P (nextPromise s)"
    and "requests_ok (timers (fold clearTimer ts s)) (nextTimer s) (contexts s) (pendingReportRequests s)"
    and "sockets_ok (timers (fold clearTimer ts s)) (nextTimer s) (sockets s) (nextSocket s)"
proof -
  have *: "promises_ok (timers (fold clearTimer ts s)) (nextTimer s) P (nextPromise s) \<and>
      requests_ok (timers (fold clearTimer ts s)) (nextTimer s) (contexts s) (pendingReportRequests s) \<and>
      sockets_ok (timers (fold clearTimer ts s)) (nextTimer s) (sockets s) (nextSocket s)"
    if "promises_ok (timers s) (nextTimer s) P (nextPromise s)"
      "requests_ok (timers s) (nextTimer s) (contexts s) (pendingReportRequests s)"
      "sockets_ok (timers s) (nextTimer s) (sockets s) (nextSocket s)"
    using that assms(2)
  proof (induction ts arbitrary: s)
    case (Cons t ts)
    from Cons.IH [of "clearTimer t s"] Cons.prems show ?case
      by (simp add: clearTimer_def promises_clear requests_clear sockets_clear)
  qed simp
  then show "promises_ok (timers (fold clearTimer ts s)) (nextTimer s) P (nextPromise s)"
    and "requests_ok (timers (fold clearTimer ts s)) (nextTimer s) (contexts s) (pendingReportRequests s)"
    and "sockets_ok (timers (fold clearTimer ts s)) (nextTimer s) (sockets s) (nextSocket s)"
    using rag_inv_forD [OF assms(1)] by blast+
qed

lemma clears_eq: "fold clearTimer ts s = s\<lparr>timers := fold jdel ts (timers s)\<rparr>"
  by (induction ts arbitrary: s) (simp_all add: clearTimer_def)

lemma jget_fold_jdel: "jget (fold jdel ts T) t = (if t \<in> set ts then None else jget T t)"
  by (induction ts arbitrary: T) simp_all

lemma inv_onModuleDestroy:
  assumes "rag_inv s"
  shows "rag_inv (onModuleDestroy s)"
proof -
  let ?ts = "jvals (reconnectTimers s)"
  note i = rag_invD [OF assms]
  have ts: "t \<in> set ?ts \<longleftrightarrow> (\<exists>r. jget (timers s) t = Some (TReconnect r))" for t
    using i(4) by (auto simp: reconnect_ok_def jm.vals_iff)
  then have "\<forall>t \<in> set ?ts. \<forall>cb. jget (timers s) t = Some cb \<longrightarrow> rejects cb = None" by fastforce
  note c = inv_clearReconnects [OF assms [unfolded rag_inv_def] this]
  have "reconnect_ok (timers (fold clearTimer ?ts s)) []"
    using ts by (auto simp: reconnect_ok_def clears_eq jget_fold_jdel)
  then have "rag_inv ((fold clearTimer ?ts s)\<lparr>reconnectTimers := [], reconnectAttemptCounts := [], statementBuffers := []\<rparr>)"
    using c by (intro rag_invI) (simp_all add: attempts_ok_def clears_eq)
  then have "rag_inv (fold disconnect rs ((fold clearTimer ?ts s)\<lparr>reconnectTimers := [], reconnectAttemptCounts := [], statementBuffers := []\<rparr>))" for rs
    by (induction rs rule: rev_induct) (simp_all add: inv_disconnect)
  then show ?thesis by (simp add: onModuleDestroy_def Let_def)
qed

lemma inv_fire_reject:
  assumes "rag_inv s" and "jget (timers s) t = Some cb" and "rejects cb = Some p" and "v \<noteq> Pending"
  shows "rag_inv (settle p v (clearTimer t s))"
proof -
  have "\<forall>r. jget (timers s) t \<noteq> Some (TReconnect r)" using assms(2,3) by auto
  then show ?thesis
    using rag_invD [OF assms(1)] assms(2,3,4)
    by (intro rag_invI) (auto simp: settle_eq clearTimer_def requests_clear sockets_clear reconnect_clear intro!: promises_clear_settle)
qed

lemma inv_fire_plain:
  assumes "rag_inv s" and "jget (timers s) t = Some cb" and "rejects cb = None" and "\<forall>r. cb \<noteq> TReconnect r"
  shows "rag_inv (clearTimer t s)"
  using rag_invD [OF assms(1)] assms(2,3,4)
  by (intro rag_invI) (auto simp: clearTimer_def requests_clear sockets_clear reconnect_clear intro!: promises_clear)

lemma settle_frames:
  "settle p v (closeSocket w s) = closeSocket w (settle p v s)"
  "settle p v (timeoutRequest w t s) = timeoutRequest w t (settle p v s)"
  "settle p v (timeoutSources w t s) = timeoutSources w t (settle p v s)"
  "settle p v (s\<lparr>pendingReportRequests := R\<rparr>) = (settle p v s)\<lparr>pendingReportRequests := R\<rparr>"
  "pendingReportRequests (settle p v s) = pendingReportRequests s"
  by (simp_all add: settle_eq closeSocket_def setReady_def timeoutRequest_def timeoutSources_def)

lemma inv_timeouts: "rag_inv s \<Longrightarrow> rag_inv (timeoutRequest w t s)" "rag_inv s \<Longrightarrow> rag_inv (timeoutSources w t s)"
  by (simp_all add: timeoutRequest_def timeoutSources_def inv_remove_request)

lemma clearTimer_frames [simp]:
  "pendingReportRequests (clearTimer t s) = pendingReportRequests s" "reconnectTimers (clearTimer t s) = reconnectTimers s"
  "sockets (clearTimer t s) = sockets s"
  by (simp_all add: clearTimer_def)

lemma inv_fireTimer:
  assumes "rag_inv s"
  shows "rag_inv (fireTimer throws now t s)"
proof (cases "jget (timers s) t")
  case (Some cb)
  note i = rag_invD [OF assms]
  show ?thesis
  proof (cases cb)
    case (TConnect w p)
    have "readyState (sockets s w) \<noteq> OPEN" using i(3) Some TConnect by (auto simp: sockets_ok_def)
    with Some TConnect inv_fire_reject [OF assms Some] show ?thesis
      by (simp add: fireTimer_def settle_frames inv_closeSocket)
  next
    case (TReport r p)
    from inv_remove_request(4) [OF inv_fire_reject [OF assms Some, of p]] Some TReport show ?thesis
      by (simp add: fireTimer_def settle_frames)
  next
    case (TReconnect r)
    have "rag_inv ((clearTimer t s)\<lparr>reconnectTimers := jdel r (reconnectTimers s)\<rparr>)"
      using i Some TReconnect
      by (intro rag_invI) (simp_all add: clearTimer_def promises_clear requests_clear sockets_clear reconnect_fire)
    with Some TReconnect show ?thesis by (simp add: fireTimer_def inv_connect)
  next
    case (TRetry d r t sp st en n)
    with Some inv_fire_plain [OF assms Some] show ?thesis by (simp add: fireTimer_def inv_sendStatement)
  next
    case (TFlush r xs)
    with Some inv_fire_plain [OF assms Some] show ?thesis by (simp add: fireTimer_def inv_flushNext)
  qed (use Some inv_fire_reject [OF assms Some] in \<open>simp_all add: fireTimer_def settle_frames inv_timeouts\<close>)
qed (simp add: fireTimer_def assms)

interpretation rag: inv_system rag_inv rag_step
proof (unfold_locales, goal_cases)
  case (1 s op)
  then show ?case
    by (cases op) (simp_all add: inv_connect inv_onOpen inv_handleMessage inv_onClose inv_fireTimer inv_sendStatement
        inv_sendQuestion inv_sendQuestionWithSources inv_requestReport inv_reportHttp inv_reportResult inv_disconnect
        inv_onModuleDestroy injectMockStatements_def clearBuffer_def inv_frames)
qed

section \<open>Properties\<close>

lemma settle_settles: "v \<noteq> Pending \<Longrightarrow> promises (settle p v s) p \<noteq> Pending"
  by (simp add: settle_def)

lemma fire_settles:
  assumes "rag_inv s" and "jget (timers s) t = Some cb" and "rejects cb = Some p"
  shows "promises (fireTimer throws now t s) p \<noteq> Pending"
proof (cases cb)
  case (TConnect w q)
  have "readyState (sockets s w) \<noteq> OPEN"
    using rag_invD(3) [OF assms(1)] assms(2) TConnect by (auto simp: sockets_ok_def)
  with TConnect assms(2,3) show ?thesis by (simp add: fireTimer_def settle_settles)
qed (use assms(2,3) in \<open>simp_all add: fireTimer_def settle_settles\<close>)

lemma fire_rejects:
  assumes "rag_inv s" and "jget (timers s) t = Some cb" and "rejects cb = Some p" and "promises s p = Pending"
  shows "\<exists>e. promises (fireTimer throws now t s) p = Rejected e"
proof (cases cb)
  case (TConnect w q)
  have "readyState (sockets s w) \<noteq> OPEN"
    using rag_invD(3) [OF assms(1)] assms(2) TConnect by (auto simp: sockets_ok_def)
  with TConnect assms(2-4) show ?thesis
    by (simp add: fireTimer_def settle_def clearTimer_def closeSocket_def setReady_def)
qed (use assms(2-4) in \<open>simp_all add: fireTimer_def settle_def clearTimer_def timeoutRequest_def timeoutSources_def\<close>)

section \<open>The number of promises\<close>

named_theorems np

lemma np_basic [np]:
  "nextPromise (clearTimer t s) = nextPromise s" "nextPromise (snd (setTimer cb s)) = nextPromise s"
  "nextPromise (settle p v s) = nextPromise s" "nextPromise (setReady w x s) = nextPromise s"
  "nextPromise (closeSocket w s) = nextPromise s" "nextPromise (setCall i c s) = nextPromise s"
  "nextPromise (addToStatementBuffer now r q sp st en s) = nextPromise s"
  by (simp_all add: clearTimer_def setTimer_def settle_def setReady_def closeSocket_def setCall_def addToStatementBuffer_def Let_def)

lemma np_sendStatement [np]: "nextPromise (sendStatement throws now r t sp st en n s) = nextPromise s"
  by (simp add: sendStatement_def Let_def np)

lemma np_flush [np]:
  "nextPromise (flushNext throws now r xs s) = nextPromise s"
  "nextPromise (flushStatementBuffer throws now r s) = nextPromise s"
  by (simp_all add: flushNext_def flushStatementBuffer_def Let_def np split: list.splits option.splits)

lemma np_connect [np]: "nextPromise (snd (connect r s)) = Suc (nextPromise s)" "fst (connect r s) = nextPromise s"
  by (simp_all add: connect_def newPromise_def setTimer_def Let_def np split: prod.splits)

lemma np_events [np]:
  "nextPromise (onOpen throws now w s) = nextPromise s"
  "nextPromise (scheduleReconnect r s) = nextPromise s"
  "nextPromise (onClose code w s) = nextPromise s"
  "nextPromise (handleMessage r m s) = nextPromise s"
  "nextPromise (reportHttp i e s) = nextPromise s"
  "nextPromise (reportResult i s) = nextPromise s"
proof -
  have sch: "nextPromise (scheduleReconnect r s) = nextPromise s" for r s
    by (simp add: scheduleReconnect_def setTimer_def Let_def)
  then show "nextPromise (scheduleReconnect r s) = nextPromise s" .
  show "nextPromise (onOpen throws now w s) = nextPromise s" by (simp add: onOpen_def Let_def np)
  show "nextPromise (onClose code w s) = nextPromise s" by (simp add: onClose_def Let_def sch np)
  show "nextPromise (handleMessage r m s) = nextPromise s"
    by (simp add: handleMessage_def Let_def np split: option.splits rag_msg.splits)
  show "nextPromise (reportHttp i e s) = nextPromise s" by (simp add: reportHttp_def Let_def np split: option.splits)
  show "nextPromise (reportResult i s) = nextPromise s"
    by (simp add: reportResult_def Let_def np split: promise.splits rag_value.splits)
qed

lemma np_questions [np]:
  "nextPromise (snd (sendQuestion throws now r t s)) = Suc (nextPromise s)"
  "nextPromise (snd (sendQuestionWithSources throws now r t s)) = Suc (nextPromise s)"
  "fst (sendQuestionWithSources throws now r t s) = nextPromise s"
  by (simp_all add: sendQuestion_def sendQuestionWithSources_def newPromise_def setTimer_def Let_def np split: option.splits)

lemma np_closing [np]:
  "nextPromise (fold rejectRequest es s) = nextPromise s"
  "nextPromise (rejectReport r s) = nextPromise s"
  "nextPromise (cancelReconnect r s) = nextPromise s"
  "nextPromise (fold clearTimer ts s) = nextPromise s"
proof -
  show "nextPromise (fold rejectRequest es s) = nextPromise s"
    by (induction es arbitrary: s) (simp_all add: rejectRequest_def np)
  show "nextPromise (fold clearTimer ts s) = nextPromise s"
    by (induction ts arbitrary: s) (simp_all add: np)
qed (simp_all add: rejectReport_def cancelReconnect_def np split: option.splits)

lemma np_disconnect [np]: "nextPromise (disconnect r s) = nextPromise s"
  by (simp add: disconnect_def Let_def np split: option.splits)

lemma np_destroy [np]: "nextPromise (onModuleDestroy s) = nextPromise s"
proof -
  have "nextPromise (fold disconnect rs s) = nextPromise s" for rs s
    by (induction rs arbitrary: s) (simp_all add: np)
  then show ?thesis by (simp add: onModuleDestroy_def Let_def np)
qed

lemma np_fireTimer: "nextPromise s \<le> nextPromise (fireTimer throws now t s)"
proof (cases "jget (timers s) t")
  case (Some cb)
  then show ?thesis by (cases cb) (simp_all add: fireTimer_def timeoutRequest_def timeoutSources_def np)
qed (simp add: fireTimer_def)

text \<open>No event takes back a promise.\<close>

lemma nextPromise_mono: "nextPromise s \<le> nextPromise (rag_step ev s)"
  by (cases ev) (simp_all add: np np_fireTimer requestReport_def newPromise_def setTimer_def Let_def injectMockStatements_def clearBuffer_def)

lemma nextPromise_run: "nextPromise s \<le> nextPromise (fold rag_step evs s)"
proof (induction evs arbitrary: s)
  case (Cons ev evs)
  then show ?case using nextPromise_mono [of s ev] by (simp add: order_trans)
qed simp

section \<open>Forgotten promises\<close>

definition forgotten :: "rag_st \<Rightarrow> nat set" where
  "forgotten s = {p. promises s p = Forgotten}"

text \<open>An event other than an answer with unreadable sources.\<close>

fun readable :: "rag_event \<Rightarrow> bool" where
  "readable (EMessage w (Some (AnswerMessage t a sources))) = (sources \<noteq> None)"
| "readable ev = True"

named_theorems fg

lemma fg_cong: "promises s' = promises s \<Longrightarrow> forgotten s' = forgotten s"
  by (simp add: forgotten_def)

lemma fg_settle [fg]: "v \<noteq> Forgotten \<Longrightarrow> forgotten (settle p v s) = forgotten s"
  by (auto simp: forgotten_def settle_def)

lemma fg_updates [fg]:
  "forgotten (s\<lparr>contexts := c\<rparr>) = forgotten s" "forgotten (s\<lparr>pendingReportRequests := q\<rparr>) = forgotten s"
  "forgotten (s\<lparr>connections := k\<rparr>) = forgotten s" "forgotten (s\<lparr>reconnectAttemptCounts := k'\<rparr>) = forgotten s"
  "forgotten (s\<lparr>reconnectTimers := k''\<rparr>) = forgotten s" "forgotten (s\<lparr>statementBuffers := b\<rparr>) = forgotten s"
  "forgotten (s\<lparr>sent := ms\<rparr>) = forgotten s" "forgotten (s\<lparr>reportCalls := rs\<rparr>) = forgotten s"
  "forgotten (s\<lparr>sockets := f\<rparr>) = forgotten s" "forgotten (s\<lparr>nextSocket := n\<rparr>) = forgotten s"
  "forgotten (s\<lparr>timers := ts\<rparr>) = forgotten s" "forgotten (s\<lparr>nextTimer := n\<rparr>) = forgotten s"
  "forgotten (s\<lparr>nextPromise := n\<rparr>) = forgotten s"
  by (rule fg_cong, simp)+

lemma fg_basic [fg]:
  "forgotten (clearTimer t s) = forgotten s" "forgotten (snd (setTimer cb s)) = forgotten s"
  "forgotten (setReady w x s) = forgotten s" "forgotten (closeSocket w s) = forgotten s"
  "forgotten (setCall i c s) = forgotten s" "forgotten (addToStatementBuffer now r q sp st en s) = forgotten s"
  by (simp_all add: clearTimer_def setTimer_def setReady_def closeSocket_def setCall_def addToStatementBuffer_def Let_def fg)

lemma fg_sendStatement [fg]: "forgotten (sendStatement throws now r t sp st en n s) = forgotten s"
  by (simp add: sendStatement_def Let_def fg)

lemma fg_flush [fg]:
  "forgotten (flushNext throws now r xs s) = forgotten s" "forgotten (flushStatementBuffer throws now r s) = forgotten s"
  by (simp_all add: flushNext_def flushStatementBuffer_def Let_def fg split: list.splits option.splits)

lemma fg_connect [fg]: "forgotten (snd (connect r s)) = forgotten s"
  by (simp add: connect_def newPromise_def setTimer_def Let_def fg)

lemma fg_reconnect [fg]: "forgotten (scheduleReconnect r s) = forgotten s"
  by (simp add: scheduleReconnect_def setTimer_def Let_def fg)

lemma fg_socket_events [fg]:
  "forgotten (onOpen throws now w s) = forgotten s" "forgotten (onClose code w s) = forgotten s"
  by (simp_all add: onOpen_def onClose_def Let_def fg)

lemma fg_questions [fg]:
  "forgotten (snd (sendQuestion throws now r t s)) = forgotten s"
  "forgotten (snd (sendQuestionWithSources throws now r t s)) = forgotten s"
  by (simp_all add: sendQuestion_def sendQuestionWithSources_def newPromise_def setTimer_def Let_def fg split: option.splits)

lemma fg_reports [fg]:
  "forgotten (snd (requestReport now r s)) = forgotten s" "forgotten (reportHttp i e s) = forgotten s"
  "forgotten (reportResult i s) = forgotten s"
  by (simp_all add: requestReport_def reportHttp_def reportResult_def newPromise_def setTimer_def Let_def fg
      split: option.splits promise.splits rag_value.splits)

lemma fg_rejectRequests [fg]: "forgotten (fold rejectRequest es s) = forgotten s" "forgotten (fold clearTimer ts s) = forgotten s"
  by (induction es arbitrary: s) (simp_all add: rejectRequest_def fg, induction ts arbitrary: s, simp_all add: fg)

lemma fg_disconnect [fg]: "forgotten (disconnect r s) = forgotten s"
  by (simp add: disconnect_def rejectReport_def cancelReconnect_def Let_def fg split: option.splits)

lemma fg_destroy [fg]: "forgotten (onModuleDestroy s) = forgotten s"
proof -
  have "forgotten (fold disconnect rs s) = forgotten s" for rs s
    by (induction rs arbitrary: s) (simp_all add: fg)
  then show ?thesis by (simp add: onModuleDestroy_def Let_def fg)
qed

lemma fg_fireTimer [fg]: "forgotten (fireTimer throws now t s) = forgotten s"
proof (cases "jget (timers s) t")
  case (Some cb)
  then show ?thesis by (cases cb) (simp_all add: fireTimer_def timeoutRequest_def timeoutSources_def fg)
qed (simp add: fireTimer_def)

lemma fg_handleMessage:
  assumes "\<And>t a. m \<noteq> Some (AnswerMessage t a None)" shows "forgotten (handleMessage r m s) = forgotten s"
  using assms by (auto simp: handleMessage_def Let_def fg split: option.splits rag_msg.splits)

lemma fg_step: "readable ev \<Longrightarrow> forgotten (rag_step ev s) = forgotten s"
proof (cases ev)
  case (EMessage w m)
  assume "readable ev"
  then have "m \<noteq> Some (AnswerMessage t a None)" for t a using EMessage by auto
  then show ?thesis using EMessage fg_handleMessage by simp
qed (simp_all add: fg injectMockStatements_def clearBuffer_def)

lemma fg_run: "\<forall>ev \<in> set evs. readable ev \<Longrightarrow> forgotten (fold rag_step evs s) = forgotten s"
  by (induction evs arbitrary: s) (simp_all add: fg_step)

text \<open>In a state that satisfies the invariant, a pending promise can be settled by letting a timer fire.\<close>

lemma settled_by_timer:
  assumes "rag_inv s" "p < nextPromise s"
  shows "\<exists>evs. (\<forall>ev \<in> set evs. readable ev) \<and> promises (fold rag_step evs s) p \<noteq> Pending"
proof (cases "promises s p = Pending")
  case True
  then obtain t cb where "jget (timers s) t = Some cb" "rejects cb = Some p"
    using rag_invD(1) [OF assms(1)] assms(2) by (auto simp: promises_ok_def)
  then have "promises (fold rag_step [ETimer None 0 t] s) p \<noteq> Pending"
    using fire_settles [OF assms(1)] by simp
  then show ?thesis by (intro exI [of _ "[ETimer None 0 t]"]) simp
next
  case False
  then show ?thesis by (intro exI [of _ "[]"]) simp
qed

section \<open>Promises, connections and reports\<close>

text \<open>
  C7. No connection, question or report is left without an outcome on the socket: whatever happens to sockets, timers,
  questions, reports and connections, as long as no answer comes with unreadable sources, every promise the client has made is
  fulfilled or rejected, or a timer is set that rejects it when it fires.
\<close>

theorem every_promise_settles:
  assumes "\<forall>ev \<in> set evs. readable ev" and "p < nextPromise (fold rag_step evs init_rag)"
  shows "(\<exists>v. promises (fold rag_step evs init_rag) p = Fulfilled v) \<or> (\<exists>e. promises (fold rag_step evs init_rag) p = Rejected e) \<or>
    (\<exists>t. jhas (timers (fold rag_step evs init_rag)) t \<and>
       (\<forall>throws now. \<exists>e. promises (fireTimer throws now t (fold rag_step evs init_rag)) p = Rejected e))"
proof -
  let ?s = "fold rag_step evs init_rag"
  have i: "rag_inv ?s" by (rule rag.inv_run [OF rag_inv_init])
  have "forgotten ?s = forgotten init_rag" by (rule fg_run [OF assms(1)])
  then have "promises ?s p \<noteq> Forgotten" by (auto simp: forgotten_def init_rag_def)
  then consider "\<exists>v. promises ?s p = Fulfilled v" | "\<exists>e. promises ?s p = Rejected e" | "promises ?s p = Pending"
    by (cases "promises ?s p") auto
  then show ?thesis
  proof cases
    case 3
    then obtain t cb where "jget (timers ?s) t = Some cb" "rejects cb = Some p"
      using rag_invD(1) [OF i] assms(2) by (auto simp: promises_ok_def)
    with fire_rejects [OF i _ _ 3] show ?thesis by (auto simp: jhas_def)
  qed blast+
qed

theorem every_promise_settles_witness:
  "let s = fold rag_step [EConnect [7], EOpen None 0 0, EQuestionWithSources None 1 [7] [63],
       EMessage 0 (Some (AnswerMessage (Some [33]) None (Some [])))] init_rag
   in (\<exists>v. promises s 1 = Fulfilled v) \<or> (\<exists>e. promises s 1 = Rejected e) \<or>
      (\<exists>t. jhas (timers s) t \<and> (\<forall>throws now. \<exists>e. promises (fireTimer throws now t s) 1 = Rejected e))"
  unfolding Let_def
  by (rule every_promise_settles)
    (simp, simp add: np connect_def isConnected_def newPromise_def setTimer_def init_rag_def Let_def)

text \<open>
  Without the condition it fails: an answer whose sources are not an array clears the timer and deletes the question, and then
  no event settles the promise; whoever awaits the question waits for ever.
\<close>

lemma forgotten_stays: "forgotten s \<subseteq> forgotten (rag_step ev s)"
proof (cases "readable ev")
  case True
  then show ?thesis by (simp add: fg_step)
next
  case False
  then obtain w t a where ev: "ev = EMessage w (Some (AnswerMessage t a None))" by (cases ev rule: readable.cases) auto
  have "forgotten s \<subseteq> forgotten (settle q v s')" if "promises s' = promises s" for q v s'
    using that by (auto simp: forgotten_def settle_def)
  then show ?thesis by (auto simp: ev handleMessage_def Let_def clearTimer_def split: option.splits)
qed

lemma unreadable_sources_forget_question:
  assumes "jget (connections s) r = Some w" and "jget (pendingRequestsWithSources (contexts s w)) t = Some e"
    and "promises s (pr_promise e) = Pending"
  shows "let s' = handleMessage r (Some (AnswerMessage (Some t) a None)) s
    in promises s' (pr_promise e) = Forgotten \<and> \<not> jhas (timers s') (pr_timer e) \<and>
       \<not> jhas (pendingRequestsWithSources (contexts s' w)) t"
  using assms by (simp add: handleMessage_def settle_def clearTimer_def deleteText_def Let_def jhas_def)







definition demo_open :: rag_st where
  "demo_open = fold rag_step [EConnect [7], EOpen None 0 0] init_rag"

lemma demo_open_simps:
  "nextSocket demo_open = 1" "readyState (sockets demo_open 0) = OPEN" "sock_room (sockets demo_open 0) = [7]"
  "jget (connections demo_open) [7] = Some 0" "jget (reconnectTimers demo_open) r = None" "jget (reconnectAttemptCounts demo_open) r = None"
  "jget (statementBuffers demo_open) r = None" "sent demo_open = []" "nextPromise demo_open = 1" "timers demo_open = []" "nextTimer demo_open = 1"
  "contexts demo_open w = noContext" "0 < q \<Longrightarrow> promises demo_open q = Pending" "pendingReportRequests demo_open = []"
  "reportCalls demo_open = []"
  by (simp_all add: demo_open_def connect_def isConnected_def newPromise_def setTimer_def init_rag_def Let_def onOpen_def clearTimer_def
      setReady_def flushStatementBuffer_def settle_def jdel_def)

lemma demo_open_inv: "rag_inv demo_open"
  unfolding demo_open_def by (rule rag.inv_run [OF rag_inv_init])


text \<open>
  Two questions with the same text in a room collide, since answers are matched by the text. The answer
  settles the later one and the earlier can only time out; and when the earlier times out first, it
  takes the later one's entry with it, after which no answer reaches either.
\<close>

theorem same_text_questions_collide:
  assumes "jget (connections s) r = Some w" and "readyState (sockets s w) = OPEN" and "\<forall>q \<ge> nextPromise s. promises s q = Pending"
    and "jget (timers s) (nextTimer s) = None" and "t \<noteq> []" and "jget (pendingRequestsWithSources (contexts s w)) t = None"
  shows "let (p1, s1) = sendQuestion None n1 r t s; (p2, s2) = sendQuestion None n2 r t s1;
      answer = Some (AnswerMessage (Some t) (Some a) (Some [])); answered = handleMessage r answer s2;
      timedOut = fireTimer None n3 (nextTimer s) s2
    in promises answered p2 = Fulfilled (Answer a) \<and> promises answered p1 = Pending \<and>
       handleMessage r answer answered = answered \<and>
       promises timedOut p1 \<noteq> Pending \<and> promises timedOut p2 = Pending \<and> handleMessage r answer timedOut = timedOut"
  using assms
  by (simp add: sendQuestion_def newPromise_def setTimer_def handleMessage_def fireTimer_def settle_def clearTimer_def
      timeoutRequest_def deleteText_def str_or_def Let_def)

theorem same_text_questions_collide_witness:
  "let (p1, s1) = sendQuestion None 5 [7] [63] demo_open; (p2, s2) = sendQuestion None 6 [7] [63] s1
   in promises (handleMessage [7] (Some (AnswerMessage (Some [63]) (Some [33]) (Some []))) s2) p1 = Pending"
  using same_text_questions_collide [of demo_open "[7]" 0 "[63]" 5 6 "[33]" 8]
  by (simp add: demo_open_simps noContext_def split_beta Let_def)

lemma isConnected_cong: "connections s' = connections s \<Longrightarrow> sockets s' = sockets s \<Longrightarrow> isConnected r s' = isConnected r s"
  by (simp add: isConnected_def split: option.splits)

lemma requestReport_accepted:
  assumes "isConnected r s" and "\<not> jhas (pendingReportRequests s) r"
  shows "fst (requestReport now r s) = None"
    and "connections (snd (requestReport now r s)) = connections s" and "sockets (snd (requestReport now r s)) = sockets s"
    and "promises (snd (requestReport now r s)) = promises s"
    and "timers (snd (requestReport now r s)) = jset (nextTimer s) (TReport r (nextPromise s)) (timers s)"
    and "nextTimer (snd (requestReport now r s)) = Suc (nextTimer s)" and "nextPromise (snd (requestReport now r s)) = Suc (nextPromise s)"
    and "reportCalls (snd (requestReport now r s)) = reportCalls s @
      [\<lparr>rc_room = r, rc_promise = nextPromise s, rc_phase = AwaitHttp, rc_awaited = False\<rparr>]"
    and "jhas (pendingReportRequests (snd (requestReport now r s))) r"
  using assms by (simp_all add: requestReport_def newPromise_def setTimer_def Let_def)

lemma reportHttp_failed:
  assumes "i < length (reportCalls s)" and "rc_phase (reportCalls s ! i) = AwaitHttp"
  shows "connections (reportHttp i (Some e) s) = connections s" and "sockets (reportHttp i (Some e) s) = sockets s"
    and "promises (reportHttp i (Some e) s) = promises s" and "timers (reportHttp i (Some e) s) = timers s"
    and "nextTimer (reportHttp i (Some e) s) = nextTimer s" and "nextPromise (reportHttp i (Some e) s) = nextPromise s"
    and "reportCalls (reportHttp i (Some e) s) = (reportCalls s)[i := (reportCalls s ! i)\<lparr>rc_phase := Replied False e\<rparr>]"
    and "\<not> jhas (pendingReportRequests (reportHttp i (Some e) s)) (rc_room (reportCalls s ! i))"
  using assms by (simp_all add: reportHttp_def setCall_def Let_def)

text \<open>
  A failed report request leaves its timer behind. The HTTP request fails and the call replies; the room may
  then request another report, but the old timer takes the new request's entry when it fires, so that the
  report is ignored when it comes; and the promise it rejects is one that nobody awaits.
\<close>

theorem failed_report_timer_hits_next:
  assumes "isConnected r s" and "\<not> jhas (pendingReportRequests s) r" and "\<forall>q \<ge> nextPromise s. promises s q = Pending"
    and "jget (timers s) (nextTimer s) = None"
  shows "let i = length (reportCalls s); s1 = snd (requestReport n1 r s); s2 = reportHttp i (Some e) s1;
      (refused, s3) = requestReport n2 r s2; s4 = fireTimer None n3 (nextTimer s) s3
    in refused = None \<and> jhas (pendingReportRequests s3) r \<and> \<not> jhas (pendingReportRequests s4) r \<and>
       handleMessage r (Some (MeetingReport st ti ty co)) s4 = s4 \<and> promises s4 (nextPromise s + 1) = Pending \<and>
       promises s4 (nextPromise s) \<noteq> Pending \<and> \<not> rc_awaited (reportCalls s4 ! i)"
proof -
  define i where "i = length (reportCalls s)"
  define s1 where "s1 = snd (requestReport n1 r s)"
  define s2 where "s2 = reportHttp i (Some e) s1"
  define s3 where "s3 = snd (requestReport n2 r s2)"
  define s4 where "s4 = fireTimer None n3 (nextTimer s) s3"
  note f1 = requestReport_accepted [OF assms(1,2), of n1, folded s1_def]
  have i: "i < length (reportCalls s1)" "reportCalls s1 ! i = \<lparr>rc_room = r, rc_promise = nextPromise s, rc_phase = AwaitHttp, rc_awaited = False\<rparr>"
    by (simp_all add: f1(8) i_def)
  then have "rc_phase (reportCalls s1 ! i) = AwaitHttp" by simp
  note f2 = reportHttp_failed [OF i(1) this, of e, folded s2_def]
  have "isConnected r s2" using isConnected_cong [of s2 s r] f1(2,3) f2(1,2) assms(1) by simp
  moreover have "\<not> jhas (pendingReportRequests s2) r" using f2(8) i(2) by simp
  ultimately have f3: "isConnected r s2" "\<not> jhas (pendingReportRequests s2) r" by blast+
  note g = requestReport_accepted [OF this, of n2, folded s3_def]
  have "jget (timers s3) (nextTimer s) = Some (TReport r (nextPromise s))" using f1(5,6) f2(4,5) g(5) by simp
  then have s4: "s4 = settle (nextPromise s) (Rejected [48372, 44256, 49436, 32, 49373, 49457, 32,
    53440, 51076, 50500,
    50883]) ((clearTimer (nextTimer s) s3)\<lparr>pendingReportRequests := jdel r (pendingReportRequests s3)\<rparr>)"
    by (simp add: s4_def fireTimer_def)
  have p: "promises s3 = promises s" using f1(4) f2(3) g(4) by simp
  have "\<not> jhas (pendingReportRequests s4) r" by (simp add: s4 settle_frames)
  moreover from this have "handleMessage r (Some (MeetingReport st ti ty co)) s4 = s4"
    by (simp add: handleMessage_def jhas_def split: option.splits)
  moreover have "promises s4 (nextPromise s) \<noteq> Pending" by (simp add: s4 settle_settles)
  moreover have "promises s4 (nextPromise s + 1) = Pending" using p assms(3) by (simp add: s4 settle_def clearTimer_def)
  moreover have "\<not> rc_awaited (reportCalls s4 ! i)"
    using i f2(7) g(8) by (simp add: s4 settle_eq clearTimer_def nth_append)
  ultimately show ?thesis
    using g(1,9) by (simp add: split_beta Let_def flip: i_def s1_def s2_def s3_def s4_def)
qed

theorem failed_report_timer_hits_next_witness:
  "\<not> rc_awaited (reportCalls (fireTimer None 70000 1 (snd (requestReport 20000 [7]
      (reportHttp 0 (Some [101]) (snd (requestReport 10000 [7] demo_open)))))) ! 0)"
  using failed_report_timer_hits_next [of "[7]" demo_open 10000 "[101]" 20000 70000]
  by (simp add: demo_open_simps isConnected_def jhas_def split_beta Let_def)

text \<open>
  A statement that was sent is sent again: the buffer keeps it, and when the connection breaks and is
  restored within a minute, the flush sends it on the new socket and buffers it anew, with the new time.
\<close>

theorem statement_sent_again:
  assumes "rag_inv s" and "jget (connections s) r = Some w" and "readyState (sockets s w) = OPEN" and "w < nextSocket s"
    and "sock_room (sockets s w) = r" and "jget (statementBuffers s) r = None" and "jget (reconnectTimers s) r = None"
    and "jget (reconnectAttemptCounts s) r = None" and "now' \<le> now + 60000"
  shows "let s1 = sendStatement None now r t sp (Some st) en 0 s; s2 = onClose 1006 w s1;
      s3 = fireTimer None now' (the (jget (reconnectTimers s2) r)) s2; s4 = onOpen None now' (nextSocket s) s3
    in sent s4 = sent s @ [(w, WsStatement t sp st en), (nextSocket s, WsStatement t sp st en)] \<and>
       map st_timestamp (roomBuffer s4 r) = [now']"
proof -
  define s1 where "s1 = sendStatement None now r t sp (Some st) en 0 s"
  define s2 where "s2 = onClose 1006 w s1"
  define tm where "tm = the (jget (reconnectTimers s2) r)"
  define s3 where "s3 = fireTimer None now' tm s2"
  define e where "e = \<lparr>st_text = t, st_speaker = sp, st_timestamp = now, retryCount = 0, st_startTime = Some st, st_endTime = en\<rparr>"
  have s1: "s1 = s\<lparr>statementBuffers := jset r [e] (statementBuffers s), sent := sent s @ [(w, WsStatement t sp st en)]\<rparr>"
    using assms(2,3,6) by (simp add: s1_def sendStatement_def addToStatementBuffer_def isConnected_def e_def STATEMENT_BUFFER_MAX_SIZE_def Let_def)
  have i2: "rag_inv s2" unfolding s2_def s1_def by (intro inv_onClose inv_sendStatement assms(1))
  have s2: "s2 = scheduleReconnect r (setReady w CLOSED s1)" using assms(3,5) by (simp add: s2_def s1 onClose_def)
  have f2: "jget (reconnectTimers s2) r = Some tm" "\<not> isConnected r s2" "nextSocket s2 = nextSocket s" "sent s2 = sent s @ [(w, WsStatement t sp st en)]"
      "jget (statementBuffers s2) r = Some [e]"
    using assms(2,7,8)
    by (simp_all add: tm_def s2 s1 scheduleReconnect_def setReady_def setTimer_def jhas_def num_or_def MAX_RECONNECT_ATTEMPTS_def isConnected_def Let_def)
  then have cb: "jget (timers s2) tm = Some (TReconnect r)" using rag_invD(4) [OF i2] by (simp add: reconnect_ok_def)
  have nc: "\<not> isConnected r ((clearTimer tm s2)\<lparr>reconnectTimers := jdel r (reconnectTimers s2)\<rparr>)"
    using f2(2) isConnected_cong [of "(clearTimer tm s2)\<lparr>reconnectTimers := jdel r (reconnectTimers s2)\<rparr>" s2 r] by (simp add: clearTimer_def)
  have f3: "readyState (sockets s3 (nextSocket s)) = CONNECTING" "sock_room (sockets s3 (nextSocket s)) = r"
      "sent s3 = sent s2" "statementBuffers s3 = statementBuffers s2"
    using cb nc f2(3) by (simp_all add: s3_def fireTimer_def connect_def newPromise_def setTimer_def Let_def) (simp_all add: clearTimer_def)
  have "sent (onOpen None now' (nextSocket s) s3) = sent s @ [(w, WsStatement t sp st en), (nextSocket s, WsStatement t sp st en)] \<and>
      map st_timestamp (roomBuffer (onOpen None now' (nextSocket s) s3) r) = [now']"
    using f2(4,5) f3 assms(9)
    by (simp add: onOpen_def flushStatementBuffer_def flushNext_def sendStatement_def addToStatementBuffer_def isConnected_def clearTimer_def
        setReady_def setTimer_def settle_eq e_def STATEMENT_BUFFER_MAX_AGE_def STATEMENT_BUFFER_MAX_SIZE_def roomBuffer_def Let_def)
  then show ?thesis by (simp add: Let_def flip: s1_def s2_def tm_def s3_def)
qed

theorem statement_sent_again_witness:
  "let s1 = sendStatement None 1000 [7] [104] [65] (Some 900) None 0 demo_open; s2 = onClose 1006 0 s1;
      s3 = fireTimer None 12000 (the (jget (reconnectTimers s2) [7])) s2; s4 = onOpen None 12000 1 s3
   in sent s4 = [(0, WsStatement [104] [65] 900 None), (1, WsStatement [104] [65] 900 None)]"
  using statement_sent_again [OF demo_open_inv, of "[7]" 0 12000 1000 "[104]" "[65]" 900 None]
  by (simp add: demo_open_simps Let_def)

lemma clear_settle_sockets:
  "connections (settle p v s) = connections s" "sockets (settle p v s) = sockets s" "nextSocket (settle p v s) = nextSocket s"
  "connections (clearTimer t s) = connections s" "nextSocket (clearTimer t s) = nextSocket s"
  by (simp_all add: settle_eq clearTimer_def)

lemma cancelReconnect_sockets:
  "connections (cancelReconnect r s) = connections s" "sockets (cancelReconnect r s) = sockets s"
  "nextSocket (cancelReconnect r s) = nextSocket s"
  by (simp_all add: cancelReconnect_def clear_settle_sockets split: option.splits)

lemma rejectRequests_sockets:
  "connections (fold rejectRequest es s) = connections s" "sockets (fold rejectRequest es s) = sockets s"
  "nextSocket (fold rejectRequest es s) = nextSocket s"
  by (induction es arbitrary: s) (simp_all add: rejectRequest_def clear_settle_sockets)

lemma rejectReport_sockets:
  "connections (rejectReport r s) = connections s" "sockets (rejectReport r s) = sockets s"
  "nextSocket (rejectReport r s) = nextSocket s"
  by (simp_all add: rejectReport_def clear_settle_sockets split: option.splits)

lemmas teardown_sockets = cancelReconnect_sockets rejectRequests_sockets rejectReport_sockets

lemma disconnect_sockets:
  assumes "jget (connections s) r = Some w" and "readyState (sockets s w) = OPEN"
  shows "connections (disconnect r s) = jdel r (connections s)"
    and "sockets (disconnect r s) = (sockets s)(w := (sockets s w)\<lparr>readyState := CLOSING\<rparr>)"
    and "nextSocket (disconnect r s) = nextSocket s"
  using assms
  by (simp_all add: disconnect_def closeSocket_def setReady_def teardown_sockets Let_def split: option.splits)

lemma onOpen_sockets:
  assumes "readyState (sockets s w) = CONNECTING"
  shows "connections (onOpen throws now w s) = jset (sock_room (sockets s w)) w (connections s)"
    and "sockets (onOpen throws now w s) = (sockets s)(w := (sockets s w)\<lparr>readyState := OPEN\<rparr>)"
proof -
  have send: "connections (sendStatement throws now r t sp st en n s) = connections s"
      "sockets (sendStatement throws now r t sp st en n s) = sockets s" for r t sp st en n s
    by (simp_all add: sendStatement_def addToStatementBuffer_def setTimer_def Let_def)
  have nxt: "connections (flushNext throws now r xs s) = connections s" "sockets (flushNext throws now r xs s) = sockets s" for r xs s
    by (simp_all add: flushNext_def setTimer_def send split: list.splits)
  have "connections (flushStatementBuffer throws now r s) = connections s"
      "sockets (flushStatementBuffer throws now r s) = sockets s" for r s
    by (simp_all add: flushStatementBuffer_def nxt Let_def split: option.splits)
  then show "connections (onOpen throws now w s) = jset (sock_room (sockets s w)) w (connections s)"
    and "sockets (onOpen throws now w s) = (sockets s)(w := (sockets s w)\<lparr>readyState := OPEN\<rparr>)"
    using assms by (simp_all add: onOpen_def clear_settle_sockets Let_def) (simp_all add: setReady_def)
qed

text \<open>
  The close event of an old socket drops the connection that replaced it: when a room disconnects and connects
  again before the old socket's close event arrives, the event removes the new, open connection, and the
  room counts as not connected from then on.
\<close>

theorem stale_close_drops_connection:
  assumes "jget (connections s) r = Some w" and "readyState (sockets s w) = OPEN" and "w < nextSocket s"
    and "sock_room (sockets s w) = r"
  shows "let s1 = disconnect r s; s2 = snd (connect r s1); s3 = onOpen throws now (nextSocket s) s2
    in isConnected r s3 \<and> readyState (sockets (onClose 1000 w s3) (nextSocket s)) = OPEN \<and> \<not> isConnected r (onClose 1000 w s3)"
proof -
  define s1 where "s1 = disconnect r s"
  define s2 where "s2 = snd (connect r s1)"
  define s3 where "s3 = onOpen throws now (nextSocket s) s2"
  note f1 = disconnect_sockets [OF assms(1,2), folded s1_def]
  have "\<not> isConnected r s1" by (simp add: isConnected_def f1)
  then have f2: "connections s2 = connections s1" "readyState (sockets s2 (nextSocket s)) = CONNECTING"
      "sock_room (sockets s2 (nextSocket s)) = r" "sockets s2 w = sockets s1 w"
    using f1(3) assms(3) by (simp_all add: s2_def connect_def newPromise_def setTimer_def Let_def)
  note f3 = onOpen_sockets [OF f2(2), of throws now, folded s3_def]
  have w: "w \<noteq> nextSocket s" using assms(3) by simp
  have "sockets s3 w = (sockets s w)\<lparr>readyState := CLOSING\<rparr>" using w by (simp add: f3 f2(4) f1(2))
  then have close: "onClose 1000 w s3 = (setReady w CLOSED s3)\<lparr>connections := jdel r (connections s3)\<rparr>"
    using assms(4) by (simp add: onClose_def Let_def setReady_def)
  have "isConnected r s3" by (simp add: isConnected_def f3 f2(3))
  moreover have "readyState (sockets (onClose 1000 w s3) (nextSocket s)) = OPEN" using w by (simp add: close setReady_def f3)
  moreover have "\<not> isConnected r (onClose 1000 w s3)" by (simp add: close isConnected_def)
  ultimately show ?thesis by (simp add: Let_def flip: s1_def s2_def s3_def)
qed

theorem stale_close_drops_connection_witness:
  "let s3 = onOpen None 5 1 (snd (connect [7] (disconnect [7] demo_open)))
   in isConnected [7] s3 \<and> \<not> isConnected [7] (onClose 1000 0 s3)"
  using stale_close_drops_connection [of demo_open "[7]" 0 None 5] by (simp add: demo_open_simps Let_def)

end
