(* ===== verification/SearchService.thy ===== *)
theory SearchService
  imports Regex
begin

text \<open>
  The search service, \<open>src/llm/search.service.ts\<close>: the plan of a search (whether to search, where and for what), the
  search itself with its cache of five minutes, and the shaping of the results. The HTTP call is a field of
  \<open>search_env\<close>; \<open>None\<close> is a call that rejects or is beaten by the timeout of four seconds. \<open>search\<close> reads the clock
  at its start, for the cache, and again when the answer has come.
\<close>

section \<open>Data\<close>

record SearchResult =
  sr_title :: jstr
  sr_url :: jstr
  sr_content :: jstr
  sr_address :: "jstr option"
  sr_roadAddress :: "jstr option"
  sr_mapx :: "jstr option"
  sr_mapy :: "jstr option"
  sr_placeId :: "jstr option"
  sr_mapUrl :: "jstr option"
  sr_newsHighlight :: "jstr option"

text \<open>An item of the answer, with the fields the service reads, and what a request names.\<close>

record naver_item =
  ni_title :: "jstr option"
  ni_link :: "jstr option"
  ni_originallink :: "jstr option"
  ni_description :: "jstr option"
  ni_roadAddress :: "jstr option"
  ni_address :: "jstr option"
  ni_mapx :: "jstr option"
  ni_mapy :: "jstr option"
  ni_id :: "jstr option"

record naver_request =
  nr_endpoint :: jstr
  nr_query :: jstr
  nr_display :: nat
  nr_sort :: "jstr option"

record search_env =
  naverKeys :: bool
  fetchItems :: "naver_request \<Rightarrow> naver_item list option"
  encodeURIComponent :: "jstr \<Rightarrow> jstr"

type_synonym search_cache = "(jstr, int \<times> SearchResult list) jmap"

definition SEARCH_CACHE_TTL_MS :: int where "SEARCH_CACHE_TTL_MS = 5 * 60 * 1000"

definition MEANINGLESS_KEYWORDS :: "jstr list" where
  "MEANINGLESS_KEYWORDS = [[50612], [51020], [44536], [51200], [50500], [51025], [45348], [50696],
    [47952], [50556], [46], [46, 46], [46, 46, 46], [63], [33], [44]]"

definition GREETING_KEYWORDS :: "jstr list" where
  "GREETING_KEYWORDS = [[50504, 45397], [50504, 45397, 54616, 49464, 50836], [50504, 45397, 54616,
    49901, 45768, 44620], [48152, 44032, 50892], [48152, 44049, 49845, 45768, 45796], [54616, 51060],
    [54764, 47196], [44415, 47784, 45789], [44415, 45208, 51079], [51339, 51008, 32, 50500, 52840],
    [51339, 51008, 32, 51200, 45377], [51339, 51008, 32, 54616, 47336], [49688, 44256], [49688, 44256,
    54644], [49688, 44256, 54616, 49464, 50836], [44256, 47560, 50892], [44256, 47577, 49845, 45768,
    45796], [44048, 49324, 54633, 45768, 45796], [51096, 51088], [51096, 44032], [48148, 51060],
    [48148, 51060, 48148, 51060], [46608, 48400], [45796, 51020, 50640]]"

definition CATEGORY_KEYWORDS :: "(jstr \<times> jstr list \<times> jstr) list" where
  "CATEGORY_KEYWORDS = [
     ([52852, 54168], [[52852, 54168], [52964, 54588], [52964, 54588, 49677], [52852, 54168, 53580,
       47532, 50500], [49828, 53440, 48261, 49828], [53804, 50040], [51060, 46356, 50556], [54624,
       47532, 49828], [48660, 47336, 48372, 53952], [52852, 44277]], [108, 111, 99, 97, 108]),
     ([47579, 51665], [[47579, 51665], [49885, 45817], [47112, 49828, 53664, 46993], [48165, 51665],
       [51020, 49885, 51216], [47579, 51080, 45716], [47673, 51012, 47564, 54620], [51200, 45377],
       [51216, 49900], [50500, 52840], [48652, 47088, 52824]], [108, 111, 99, 97, 108]),
     ([49696, 51665], [[49696, 51665], [48148], [54252, 52264], [54840, 54532], [51060, 51088, 52852,
       50556], [50752, 51064, 48148], [52853, 53580, 51068], [49548, 51452], [47589, 51452], [54924,
       49885]], [108, 111, 99, 97, 108]),
     ([48516, 49885], [[48516, 49885], [46497, 48374, 51060], [44608, 48165], [46972, 47732], [53888,
       44608], [49692, 45824], [50612, 47925]], [108, 111, 99, 97, 108]),
     ([52824, 53416], [[52824, 53416], [66, 66, 81], [66, 72, 67], [44368, 52492], [44413, 45348],
       [45348, 45348], [54168, 47532, 52852, 45208]], [108, 111, 99, 97, 108]),
     ([54588, 51088], [[54588, 51088], [46020, 48120, 45432], [54588, 51088, 54747], [54028, 54028,
       51316, 49828], [48120, 49828, 53552, 54588, 51088]], [108, 111, 99, 97, 108]),
     ([48757, 51665], [[48757, 51665], [48288, 51060, 52964, 47532], [51228, 44284, 51216], [48757],
       [52992, 51060, 53356], [54028, 47532, 48148, 44172, 46888], [46748, 47112, 51564, 47476],
       [49457, 49900, 45817]], [108, 111, 99, 97, 108]),
     ([46356, 51200, 53944], [[46356, 51200, 53944], [52992, 51060, 53356], [47560, 52852, 47217],
       [50500, 51060, 49828, 53356, 47548], [51236, 46972, 46608], [50752, 54540], [53356, 47196,
       54540], [53440, 47476, 53944]], [108, 111, 99, 97, 108]),
     ([49660, 54609], [[49660, 54609], [48177, 54868, 51216], [47560, 53944], [50500, 50872, 47131],
       [47792], [47588, 51109], [44032, 44172], [49345, 51216]], [108, 111, 99, 97, 108]),
     ([54045, 50629], [[54045, 50629], [54045, 50629, 49828, 53664, 50612], [54045, 50629, 32, 49828,
       53664, 50612], [54620, 51221], [50724, 54536]], [108, 111, 99, 97, 108]),
     ([51204, 49884], [[51204, 49884], [51204, 49884, 54924], [44068, 47084, 47532], [48120, 49696,
       44288], [48149, 47932, 44288], [50500, 53944]], [108, 111, 99, 97, 108]),
     ([45216, 50472], [[45216, 50472], [44592, 50728], [50728, 46020], [48708], [45576], [48148,
       46988], [55120, 47548], [47569, 51020], [49845, 46020], [48120, 49464, 47676, 51648], [50864,
       49328], [45908, 50892], [52628, 50892], [45925], [52645], [44592, 49345], [51068, 44592, 50696,
       48372]], [110, 101, 119, 115]),
     ([45684, 49828], [[45684, 49828], [49548, 49885], [44592, 49324], [49549, 48372], [51060, 49800],
       [49324, 44148], [49324, 44256]], [110, 101, 119, 115]),
     ([51452, 49885], [[51452, 49885], [51452, 44032], [53076, 49828, 54588], [53076, 49828, 45797],
       [45208, 49828, 45797], [51613, 49884], [53804, 51088], [51333, 47785]], [110, 101, 119, 115]),
     ([49828, 54252, 52768], [[49828, 54252, 52768], [52629, 44396], [50556, 44396], [45453, 44396],
       [48176, 44396], [44221, 44592], [44208, 44284], [49828, 53076, 50612], [49849, 54056]], [110,
       101, 119, 115]),
     ([50689, 54868], [[50689, 54868], [44060, 48393], [49345, 50689], [48149, 49828, 50724, 54588,
       49828], [50689, 54868, 44288], [67, 71, 86], [47215, 45936, 49884, 45348, 47560], [47700, 44032,
       48149, 49828]], [110, 101, 119, 115]),
     ([48177, 44284], [[47924, 50631, 51064, 44032], [51221, 51032], [51032, 48120], [44060, 45392],
       [50669, 49324], [50896, 47532], [54952, 45733], [54952, 44284], [48512, 51089, 50857], [49457,
       48516], [50508, 47140, 51480], [49444, 47749, 54644]], [101, 110, 99, 121, 99])]"

definition HYBRID_CATEGORIES :: "jstr list" where
  "HYBRID_CATEGORIES = [[54045, 50629], [51204, 49884], [50689, 54868]]"

definition LLM_ANSWERABLE_PATTERNS :: "rx list" where
  "LLM_ANSWERABLE_PATTERNS = [
     seqs [lit [45432, 47000], star dot, lits [[52628, 52380], [50508, 47140], [47952], [51339, 50500]]],
     seqs [lit [51020, 50501], star dot, lits [[52628, 52380], [50508, 47140], [47952], [51339, 50500]]],
     seqs [lit [52293], star dot, lits [[52628, 52380], [50508, 47140], [47952]]],
     seqs [lit [46300, 46972, 47560], star dot, lits [[52628, 52380], [50508, 47140]]],
     seqs [lit [44172, 51076], star dot, lits [[52628, 52380], [50508, 47140]]],
     seqs [lit [50868, 46041], star dot, lits [[52628, 52380], [50508, 47140], [48169, 48277]]],
     seqs [lit [50612, 46523, 44172], star dot, lit [49373, 44033]],
     seqs [star dot, lit [50640, 32, 45824, 54644], star dot, lit [50612, 46523, 44172]],
     seqs [star dot, lit [46976], star space, lit [47952]],
     seqs [star dot, lit [44032], star space, lit [47952, 50556]],
     seqs [star dot, lit [51060], star space, lit [47952, 50556]],
     seqs [lit [47952], star dot, lit [54624, 44620]],
     lit [49900, 49900, 54620, 45936],
     seqs [lit [51116, 48140, 45716], star space, lits [[44144], [44163], [51060, 50556, 44592]]],
     lits [[45453, 45812], [50976, 47672], [50883, 44596]]]"

definition LOCATIONS :: "jstr list" where
  "LOCATIONS = [[49436, 50872], [48512, 49328], [45824, 44396], [51064, 52380], [44305, 51452], [45824,
    51204], [50872, 49328], [49464, 51333], [44221, 44592], [44053, 50896], [52649, 48513], [52649,
    45224], [51204, 48513], [51204, 45224], [44221, 48513], [44221, 45224], [51228, 51452], [44053,
    45224], [54861, 45824], [49888, 52492], [51104, 49892], [50668, 51032, 46020], [54032, 44368],
    [49457, 49688], [51060, 53468, 50896], [47749, 46041], [51333, 47196], [50517, 44396, 51221],
    [52397, 45812], [49340, 49457], [50669, 49340], [49440, 47497], [44148, 45824], [54633, 51221],
    [47581, 50896], [50672, 45224], [51012, 51648, 47196], [49457, 48513], [54812, 54868], [45824,
    54617, 47196], [48516, 45817], [51068, 49328], [49688, 50896], [50857, 51064], [54868, 49457],
    [54217, 53469], [50504, 50577], [48512, 52380]]"

section \<open>Helpers\<close>

definition isMeaninglessQuery :: "jstr \<Rightarrow> bool" where
  "isMeaninglessQuery q =
     (let t = trim q
      in t = [] \<or> \<not> list_ex (\<lambda>w. let c = filter (\<lambda>x. x \<notin> {46, 44, 63,
        33}) w in c \<noteq> [] \<and> c \<notin> set MEANINGLESS_KEYWORDS) (split_ws [] t))"

definition isGreeting :: "jstr \<Rightarrow> bool" where
  "isGreeting q =
     (let t = to_lower (trim q)
      in list_ex (\<lambda>g. t = g \<or> t = g @ [50836] \<or> t = g @ [50857]) GREETING_KEYWORDS
         \<or> (length t \<le> 5 \<and> list_ex (\<lambda>g. starts_with g t) GREETING_KEYWORDS))"

definition extractLocation :: "jstr \<Rightarrow> jstr option" where
  "extractLocation t = List.find (\<lambda>l. str_includes l t) LOCATIONS"

definition normalizeSearchQuery :: "jstr \<Rightarrow> jstr" where
  "normalizeSearchQuery raw =
     (let q1 = replaceAll (seqs [Bol, alts [seqs [lit [50500, 50864, 46972], opt (lit [50556])],
       seqs [lit [54756, 51060], star space, lit [50500, 50864, 46972]], seqs [lit [50500, 50872,
       46972], opt (lit [50556])], seqs [lit [50500, 50864, 45208], opt (lit [50556])],
       seqs [lit [50724, 50864, 46972], opt (lit [50556])]], star space]) [] (trim raw);
          q2 = replaceAll (seqs [Bol, lits [[50752], [44284], [44536, 47532, 44256], [46608], [51328],
            [50500], [50612], [50556]], plus space]) [] q1;
          q3 = replaceAll (seqs [WordB, lits [[52628, 52380, 54644, 51480], [52628, 52380, 54644, 32,
            51480], [50508, 47140, 51480], [50508, 47140, 32, 51480], [52286, 50500, 51480], [52286,
            50500, 32, 51480], [48372, 50668, 51480], [48372, 50668, 32, 51480]], WordB]) [] q2
      in trim (replaceAll (plus space) [32] q3))"

definition stripHtml :: "jstr \<Rightarrow> jstr" where
  "stripHtml t = replaceAll (lit [38, 97, 109, 112, 59]) [38] (replaceAll (lit [38, 113, 117, 111, 116,
    59]) [34] (replaceAll (seqs [lit [60], plus (NCls [(62, 62)]), lit [62]]) [] t))"

section \<open>The plan of a search\<close>

record SearchPlan =
  pl_query :: jstr
  pl_cacheKey :: jstr
  pl_searchType :: jstr
  pl_category :: "jstr option"

definition noSearch :: SearchPlan where
  "noSearch = \<lparr>pl_query = [], pl_cacheKey = [], pl_searchType = [110, 111, 110, 101],
    pl_category = None\<rparr>"

definition particleLetters :: rx where
  "particleLetters = Cls [(51012, 51012), (47484, 47484), (51060, 51060), (44032, 44032), (51008, 51008), (45716, 45716), (50640, 50640), (49436, 49436), (51032, 51032), (51004, 51004), (47196, 47196)]"

definition squeeze :: "jstr \<Rightarrow> jstr" where
  "squeeze s = trim (replaceAll (plus space) [32] s)"

text \<open>The first category with a keyword in the text, with that keyword and the type of search.\<close>

fun matchCategory :: "jstr \<Rightarrow> (jstr \<times> jstr list \<times> jstr) list \<Rightarrow> (jstr \<times> jstr \<times> jstr) option" where
  "matchCategory l [] = None"
| "matchCategory l ((c, ks, ty) # cs) = (case List.find (\<lambda>k. str_includes (to_lower k) l) ks of
      Some k \<Rightarrow> Some (c, k, ty)
    | None \<Rightarrow> matchCategory l cs)"

definition isKorean :: "int \<Rightarrow> bool" where
  "isKorean c \<longleftrightarrow> 44032 \<le> c \<and> c \<le> 55203"

definition webPlan :: "jstr \<Rightarrow> SearchPlan" where
  "webPlan base =
     (let q = squeeze (replaceAll (lits [[50508, 47140, 51480], [52628, 52380, 54644, 51480], [52286,
       50500, 51480], [44160, 49353, 54644, 51480], [50640, 32, 45824, 54644], [45824, 54644,
       49436]]) [] (replaceAll particleLetters [32] base))
      in if isMeaninglessQuery q \<or> isGreeting q \<or> length (filter isKorean q) < 2 then noSearch
         else \<lparr>pl_query = q, pl_cacheKey = [119, 101, 98, 124] @ q, pl_searchType = [119, 101,
           98], pl_category = Some [51068, 48152]\<rparr>)"

definition timeWord :: "jstr \<Rightarrow> jstr" where
  "timeWord base = (if str_includes [45236, 51068] base then [45236, 51068] else if str_includes [47784, 47112] base then [47784, 47112]
     else if str_includes [51060, 48264, 51452] base then [51060, 48264, 51452] else [50724, 45720])"

definition categoryPlan :: "jstr \<Rightarrow> jstr \<Rightarrow> jstr \<Rightarrow> jstr \<Rightarrow> SearchPlan" where
  "categoryPlan base category keyword ty =
     (let location = str_or (extractLocation base) [49436, 50872];
          searchType = (if category \<in> set HYBRID_CATEGORIES then [104, 121, 98, 114, 105, 100] else ty);
          query = (if category = [45216, 50472] then location @ [32] @ timeWord base @ [32, 45216, 50472]
                   else if searchType = [108, 111, 99, 97, 108] \<or> searchType = [104, 121, 98, 114,
                     105, 100] then location @ [32] @ category
                   else str_or (Some (squeeze (replaceAll (lits [[50508, 47140, 51480], [52628, 52380,
                     54644, 51480], [52286, 50500, 51480], [44160, 49353, 54644,
                     51480]]) [] (replaceAll particleLetters [32] base)))) keyword)
      in \<lparr>pl_query = query, pl_cacheKey = searchType @ [124] @ query, pl_searchType = searchType, pl_category = Some category\<rparr>)"

definition buildSearchPlan :: "jstr \<Rightarrow> SearchPlan" where
  "buildSearchPlan raw =
     (let base = str_or (Some (normalizeSearchQuery raw)) (trim raw);
          l = to_lower base
      in if \<not> list_ex (\<lambda>loc. str_includes (to_lower loc) l) LOCATIONS \<and> list_ex (\<lambda>p. test p l) LLM_ANSWERABLE_PATTERNS
         then noSearch
         else case matchCategory l CATEGORY_KEYWORDS of
             None \<Rightarrow> webPlan base
           | Some (category, keyword, ty) \<Rightarrow> categoryPlan base category keyword ty)"

section \<open>The search\<close>

definition naverEndpoint :: "jstr \<Rightarrow> jstr" where
  "naverEndpoint ty = (if ty = [108, 111, 99, 97, 108] then [104, 116, 116, 112, 115, 58, 47, 47, 111,
    112, 101, 110, 97, 112, 105, 46, 110, 97, 118, 101, 114, 46, 99, 111, 109, 47, 118, 49, 47, 115,
    101, 97, 114, 99, 104, 47, 108, 111, 99, 97, 108, 46, 106, 115, 111, 110]
     else if ty = [110, 101, 119, 115] then [104, 116, 116, 112, 115, 58, 47, 47, 111, 112, 101, 110,
       97, 112, 105, 46, 110, 97, 118, 101, 114, 46, 99, 111, 109, 47, 118, 49, 47, 115, 101, 97, 114,
       99, 104, 47, 110, 101, 119, 115, 46, 106, 115, 111, 110]
     else if ty = [119, 101, 98] then [104, 116, 116, 112, 115, 58, 47, 47, 111, 112, 101, 110, 97,
       112, 105, 46, 110, 97, 118, 101, 114, 46, 99, 111, 109, 47, 118, 49, 47, 115, 101, 97, 114, 99,
       104, 47, 119, 101, 98, 107, 114, 46, 106, 115, 111, 110]
     else [104, 116, 116, 112, 115, 58, 47, 47, 111, 112, 101, 110, 97, 112, 105, 46, 110, 97, 118,
       101, 114, 46, 99, 111, 109, 47, 118, 49, 47, 115, 101, 97, 114, 99, 104, 47, 101, 110, 99, 121,
       99, 46, 106, 115, 111, 110])"

definition given :: "jstr \<Rightarrow> jstr option" where
  "given s = (if s = [] then None else Some s)"

definition toResult :: "search_env \<Rightarrow> jstr \<Rightarrow> naver_item \<Rightarrow> SearchResult" where
  "toResult env ty i =
     (let title = stripHtml (str_or (ni_title i) []); description = stripHtml (str_or (ni_description i) []);
          road = str_or (ni_roadAddress i) []; address = str_or (ni_address i) []
      in \<lparr>sr_title = title, sr_url = str_or (ni_link i) (str_or (ni_originallink i) []),
          sr_content = (if ty = [108, 111, 99, 97,
            108] then str_or (given road) (str_or (given address) description) else description),
          sr_address = given address, sr_roadAddress = given road, sr_mapx = given (str_or (ni_mapx i) []),
          sr_mapy = given (str_or (ni_mapy i) []), sr_placeId = given (str_or (ni_id i) []),
          sr_mapUrl = (if ty = [108, 111, 99, 97, 108] \<and> title \<noteq> [] then Some ([104, 116,
            116, 112, 115, 58, 47, 47, 109, 97, 112, 46, 110, 97, 118, 101, 114, 46, 99, 111, 109, 47,
            118, 53, 47, 115, 101, 97, 114, 99, 104, 47] @ encodeURIComponent env title) else None),
          sr_newsHighlight = None\<rparr>)"

definition searchWithNaver :: "search_env \<Rightarrow> jstr \<Rightarrow> jstr \<Rightarrow> nat \<Rightarrow> jstr \<Rightarrow> SearchResult list option" where
  "searchWithNaver env q ty display srt =
     (if \<not> naverKeys env then Some []
      else map_option (map (toResult env ty))
        (fetchItems env \<lparr>nr_endpoint = naverEndpoint ty, nr_query = q, nr_display = display,
           nr_sort = (if ty = [108, 111, 99, 97, 108] \<or> ty = [110, 101, 119,
             115] then Some srt else None)\<rparr>))"

definition highlightPatterns :: "rx list" where
  "highlightPatterns = [
     Cap 1 (seqs [Rep digit 1 (Some 2) True, lit [50900], star space, Rep digit 1 (Some 2) True,
       lit [51068, 44620, 51648]]),
     Cap 1 (seqs [Rep digit 1 (Some 2) True, lit [50900], star space, Rep digit 1 (Some 2) True,
       lit [51068, 48512, 53552], star space, Rep digit 1 (Some 2) True, lit [50900], star space,
       Rep digit 1 (Some 2) True, lit [51068, 44620, 51648]]),
     Cap 1 (seqs [plus digit, lit [51068, 44620, 51648]]),
     Cap 1 (seqs [Rep digit 1 (Some 2) True, lit [50900], star space, Rep digit 1 (Some 2) True, lit [51068]]),
     Cap 1 (alts [seqs [lit [51060, 48264], star space, lit [51452]], seqs [lit [51060, 48264], star space, lit [45804]], lit [50732, 54644]])]"

fun firstGroup :: "rx_state \<Rightarrow> jstr" where
  "firstGroup (b, a, k) = (case jget k 1 of None \<Rightarrow> [] | Some g \<Rightarrow> g)"

fun firstHighlight :: "rx list \<Rightarrow> jstr \<Rightarrow> jstr option" where
  "firstHighlight [] s = None"
| "firstHighlight (p # ps) s = (case exec p s of Some y \<Rightarrow> Some (firstGroup y) | None \<Rightarrow> firstHighlight ps s)"

definition extractNewsHighlight :: "SearchResult \<Rightarrow> jstr option" where
  "extractNewsHighlight n = (case firstHighlight highlightPatterns (sr_content n) of
      Some g \<Rightarrow> Some g
    | None \<Rightarrow> given (trim (take 50 (sr_content n))))"

definition mergeHybridResults :: "SearchResult list \<Rightarrow> SearchResult list \<Rightarrow> SearchResult list" where
  "mergeHybridResults news locs =
     (let merged = (case locs of [] \<Rightarrow> []
            | p # _ \<Rightarrow> [p\<lparr>sr_newsHighlight := (case news of [] \<Rightarrow> None | n # _ \<Rightarrow> Option.bind (extractNewsHighlight n) given)\<rparr>])
      in take 3 (merged @ filter (\<lambda>n. \<not> list_ex (\<lambda>m. sr_title m = sr_title n) merged) (take 1 news)))"

definition executeSearch :: "search_env \<Rightarrow> jstr \<Rightarrow> jstr \<Rightarrow> SearchResult list option" where
  "executeSearch env q ty =
     (if ty = [104, 121, 98, 114, 105, 100] then
        (case (searchWithNaver env q [110, 101, 119, 115] 2 [100, 97, 116, 101],
          searchWithNaver env q [108, 111, 99, 97, 108] 2 [99, 111, 109, 109, 101, 110, 116]) of
           (Some news, Some locs) \<Rightarrow> Some (mergeHybridResults news locs)
         | _ \<Rightarrow> None)
      else map_option (take 3) (searchWithNaver env q ty 3 (if ty = [108, 111, 99, 97, 108] then [99,
        111, 109, 109, 101, 110, 116] else [100, 97, 116, 101])))"

definition getCachedSearch :: "int \<Rightarrow> jstr \<Rightarrow> search_cache \<Rightarrow> SearchResult list option \<times> search_cache" where
  "getCachedSearch now key c = (case jget c key of
      None \<Rightarrow> (None, jdel key c)
    | Some (expiresAt, results) \<Rightarrow> if now > expiresAt then (None, jdel key c) else (Some results, c))"

definition setCachedSearch :: "int \<Rightarrow> jstr \<Rightarrow> SearchResult list \<Rightarrow> search_cache \<Rightarrow> search_cache" where
  "setCachedSearch now key results c = jset key (now + SEARCH_CACHE_TTL_MS, results) c"

definition search :: "search_env \<Rightarrow> int \<Rightarrow> int \<Rightarrow> jstr \<Rightarrow> jstr \<Rightarrow> search_cache \<Rightarrow> SearchResult list \<times> search_cache" where
  "search env now now2 q ty c =
     (if ty = [110, 111, 110, 101] then ([], c)
      else case getCachedSearch now (ty @ [124] @ q) c of
          (Some results, c1) \<Rightarrow> (results, c1)
        | (None, c1) \<Rightarrow> (case executeSearch env q ty of
              Some results \<Rightarrow> (results, setCachedSearch now2 (ty @ [124] @ q) results c1)
            | None \<Rightarrow> ([], c1)))"

section \<open>Plans\<close>

lemma squeeze_set: "set (squeeze s) \<subseteq> set s \<union> {32}"
proof -
  have "set (trim t) \<subseteq> set t" for t unfolding trim_def by (metis set_dropWhileD set_rev subsetI)
  then show ?thesis using set_replaceAll [of "plus space" "[32]" s] by (auto simp: squeeze_def)
qed

lemma replace_from_Cls: "replace_from (Cls rs) [w] b s = map (\<lambda>c. if in_ranges c rs then w else c) s"
proof (induction s arbitrary: b)
  case Nil
  show ?case by (subst replace_from.simps) simp
next
  case (Cons c s)
  then show ?case by (subst replace_from.simps) simp
qed

lemma replaceAll_Cls: "replaceAll (Cls rs) [w] s = map (\<lambda>c. if in_ranges c rs then w else c) s"
  by (simp add: replaceAll_def replace_from_Cls)

definition particle_letters :: "int set" where
  "particle_letters = {51012, 47484, 51060, 44032, 51008, 45716, 50640, 49436, 51032, 51004, 47196}"

lemma particles_gone: "set (replaceAll particleLetters [32] s) \<inter> particle_letters = {}"
  unfolding particleLetters_def replaceAll_Cls by (auto simp: particle_letters_def split: if_splits)

lemma cleaned_letters: "set (squeeze (replaceAll r [] (replaceAll particleLetters [32] s))) \<inter> particle_letters = {}"
proof -
  have "set (squeeze (replaceAll r [] (replaceAll particleLetters [32] s))) \<subseteq> set (replaceAll particleLetters [32] s) \<union> {32}"
    using squeeze_set set_replaceAll [of r "[]"] by fastforce
  moreover have "32 \<notin> particle_letters" by (simp add: particle_letters_def)
  ultimately show ?thesis using particles_gone by blast
qed

lemma matchCategory_in:
  "matchCategory l cs = Some (c, k, ty) \<Longrightarrow> \<exists>ks. (c, ks, ty) \<in> set cs \<and> k \<in> set ks"
proof (induction l cs rule: matchCategory.induct)
  case (2 l c' ks ty' cs)
  then show ?case by (auto simp: find_Some_iff split: option.splits)
qed simp

lemma categories_known:
  "(c, ks,
    ty) \<in> set CATEGORY_KEYWORDS \<Longrightarrow> k \<in> set ks \<Longrightarrow> k \<noteq> [] \<and> ty \<in> {[108,
    111, 99, 97, 108], [110, 101, 119, 115], [101, 110, 99, 121, 99]}"
  by (auto simp: CATEGORY_KEYWORDS_def)

lemma webPlan_cases: "webPlan base = noSearch \<or> (pl_searchType (webPlan base) = [119, 101,
  98] \<and> pl_query (webPlan base) \<noteq> [] \<and>
    pl_cacheKey (webPlan base) = [119, 101, 98,
      124] @ pl_query (webPlan base) \<and> set (pl_query (webPlan base)) \<inter> particle_letters = {})"
  using cleaned_letters by (auto simp: webPlan_def Let_def)

lemma plan_cases:
  obtains "buildSearchPlan raw = noSearch" | base where "buildSearchPlan raw = webPlan base"
  | base c k ks ty where "buildSearchPlan raw = categoryPlan base c k ty" "(c, ks, ty) \<in> set CATEGORY_KEYWORDS" "k \<in> set ks"
proof -
  define base where "base = str_or (Some (normalizeSearchQuery raw)) (trim raw)"
  have "buildSearchPlan raw = noSearch \<or> buildSearchPlan raw = webPlan base \<or>
    (\<exists>c k ty. matchCategory (to_lower base) CATEGORY_KEYWORDS = Some (c, k, ty) \<and> buildSearchPlan raw = categoryPlan base c k ty)"
    by (auto simp: buildSearchPlan_def base_def Let_def split: option.splits)
  then show ?thesis using matchCategory_in that by blast
qed

text \<open>
  A plan is consistent: it searches for nothing exactly when its type is none, it carries the cache key under
  which the search will be stored, and a plan for the web or for an encyclopaedia never names a type that the search
  does not know.
\<close>

theorem plan_consistent:
  "(pl_query (buildSearchPlan raw) = []) = (pl_searchType (buildSearchPlan raw) = [110, 111, 110, 101]) \<and>
   pl_cacheKey (buildSearchPlan raw) = (if pl_query (buildSearchPlan raw) = [] then []
     else pl_searchType (buildSearchPlan raw) @ [124] @ pl_query (buildSearchPlan raw)) \<and>
   pl_searchType (buildSearchPlan raw) \<in> {[110, 111, 110, 101], [119, 101, 98], [108, 111, 99, 97,
     108], [110, 101, 119, 115], [101, 110, 99, 121, 99], [104, 121, 98, 114, 105, 100]}"
proof (cases raw rule: plan_cases)
  case (2 base)
  then show ?thesis using webPlan_cases [of base] by (auto simp: noSearch_def)
next
  case (3 base c k ks ty)
  have "str_or (Some x) k \<noteq> []" for x using categories_known [OF 3(2,3)] by (simp add: str_or_def)
  then show ?thesis using categories_known [OF 3(2,3)] unfolding 3(1) categoryPlan_def Let_def by auto
qed (simp add: noSearch_def)

text \<open>
  A web search never contains any of the eleven syllables that are taken for particles, inside words too: a
  search for a place whose name has one of them, such as the capital, is made without that syllable.
\<close>

theorem web_query_loses_letters:
  assumes "pl_searchType (buildSearchPlan raw) = [119, 101, 98]"
  shows "set (pl_query (buildSearchPlan raw)) \<inter> particle_letters = {}"
proof (cases raw rule: plan_cases)
  case (2 base)
  then show ?thesis using webPlan_cases [of base] by (auto simp: noSearch_def)
next
  case (3 base c k ks ty)
  then show ?thesis using assms categories_known [OF 3(2,3)] by (auto simp: categoryPlan_def Let_def split: if_splits)
qed (use assms in \<open>simp add: noSearch_def\<close>)

theorem web_query_loses_letters_witness:
  "pl_searchType (buildSearchPlan [49436, 50872, 32, 51648, 54616, 52384, 32, 45432, 49440]) = [119,
    101, 98] \<and> 49436 \<notin> set (pl_query (buildSearchPlan [49436, 50872, 32, 51648, 54616,
    52384, 32, 45432, 49440]))"
proof -
  have w: "pl_searchType (buildSearchPlan [49436, 50872, 32, 51648, 54616, 52384, 32, 45432,
    49440]) = [119, 101, 98]" by code_simp
  moreover have "49436 \<in> particle_letters" by (simp add: particle_letters_def)
  ultimately show ?thesis using web_query_loses_letters [OF w] by blast
qed

section \<open>The cache\<close>

text \<open>A search as it happened: the service it found, its two times, the query and the type.\<close>

record search_op =
  so_env :: search_env
  so_start :: int
  so_end :: int
  so_query :: jstr
  so_type :: jstr

definition searchOp :: "search_op \<Rightarrow> search_cache \<Rightarrow> SearchResult list \<times> search_cache" where
  "searchOp x c = search (so_env x) (so_start x) (so_end x) (so_query x) (so_type x) c"

fun searchRun :: "search_op list \<Rightarrow> search_cache \<Rightarrow> SearchResult list list \<times> search_cache" where
  "searchRun [] c = ([], c)"
| "searchRun (x # xs) c = (let (r, c1) = searchOp x c; (rs, c2) = searchRun xs c1 in (r # rs, c2))"

definition outcome :: "search_op \<Rightarrow> SearchResult list option" where
  "outcome x = executeSearch (so_env x) (so_query x) (so_type x)"

text \<open>Two searches for the same thing; the types are names without the separator of the key.\<close>

definition same_search :: "search_op \<Rightarrow> search_op \<Rightarrow> bool" where
  "same_search x y \<longleftrightarrow> so_query x = so_query y \<and> so_type x = so_type y"

definition keyOf :: "search_op \<Rightarrow> jstr" where
  "keyOf x = so_type x @ [124] @ so_query x"

definition known_type :: "search_op \<Rightarrow> bool" where
  "known_type x \<longleftrightarrow> so_type x \<in> {[110, 111, 110, 101], [119, 101, 98], [108, 111,
    99, 97, 108], [110, 101, 119, 115], [101, 110, 99, 121, 99], [104, 121, 98, 114, 105, 100]}"

lemma keyOf_inj: "known_type x \<Longrightarrow> known_type y \<Longrightarrow> keyOf x = keyOf y \<Longrightarrow> same_search x y"
  using split_at_first [of "so_type x" 124 "so_query x" "so_type y" "so_query y"]
  by (auto simp: known_type_def keyOf_def same_search_def)

text \<open>Every entry of the cache is the outcome of an earlier search, stored when that search ended.\<close>

definition cache_from :: "search_op list \<Rightarrow> search_cache \<Rightarrow> bool" where
  "cache_from past c \<longleftrightarrow> (\<forall>k e r. jget c k = Some (e, r) \<longrightarrow>
     (\<exists>y \<in> set past. keyOf y = k \<and> outcome y = Some r \<and> e = so_end y + SEARCH_CACHE_TTL_MS))"

lemma cache_from_op:
  assumes "cache_from past c"
  shows "cache_from (past @ [x]) (snd (searchOp x c))"
  using assms
  by (auto simp: cache_from_def searchOp_def search_def getCachedSearch_def setCachedSearch_def keyOf_def outcome_def
      split: option.splits prod.splits if_splits)

definition result_ok :: "search_op list \<Rightarrow> search_op \<Rightarrow> SearchResult list \<Rightarrow> bool" where
  "result_ok past x r \<longleftrightarrow> (so_type x = [110, 111, 110,
    101] \<and> r = []) \<or> outcome x = Some r \<or> (outcome x = None \<and> r = []) \<or>
     (\<exists>y \<in> set past. same_search y x \<and> outcome y = Some r \<and> so_start x \<le> so_end y + 300000)"

lemma result_ok_op:
  assumes "cache_from past c" "known_type x" "\<forall>y \<in> set past. known_type y"
  shows "result_ok past x (fst (searchOp x c))"
proof (cases "so_type x = [110, 111, 110, 101] \<or> fst (getCachedSearch (so_start x) (keyOf x) c) = None")
  case True
  then show ?thesis
    by (auto simp: result_ok_def searchOp_def search_def outcome_def keyOf_def split: option.splits prod.splits)
next
  case False
  then obtain e r where e: "jget c (keyOf x) = Some (e, r)" "so_start x \<le> e"
    by (auto simp: getCachedSearch_def split: option.splits if_splits)
  then have "fst (searchOp x c) = r"
    using False by (simp add: searchOp_def search_def getCachedSearch_def keyOf_def)
  moreover obtain y where y: "y \<in> set past" "keyOf y = keyOf x" "outcome y = Some r" "e = so_end y + SEARCH_CACHE_TTL_MS"
    using assms(1) e(1) unfolding cache_from_def by blast
  moreover have "same_search y x" using keyOf_inj assms(2,3) y(1,2) by blast
  ultimately show ?thesis using e(2) unfolding result_ok_def SEARCH_CACHE_TTL_MS_def by auto
qed

lemma searchRun_ok:
  assumes "cache_from past c" "\<forall>y \<in> set (past @ xs). known_type y"
  shows "i < length xs \<Longrightarrow> result_ok (past @ take i xs) (xs ! i) (fst (searchRun xs c) ! i)"
  using assms
proof (induction xs arbitrary: past c i)
  case (Cons x xs)
  have rec: "fst (searchRun (x # xs) c) = fst (searchOp x c) # fst (searchRun xs (snd (searchOp x c)))"
    by (simp add: Let_def split: prod.splits)
  show ?case
  proof (cases i)
    case 0
    then show ?thesis using result_ok_op [OF Cons.prems(2)] Cons.prems(3) unfolding rec by simp
  next
    case (Suc j)
    have "result_ok ((past @ [x]) @ take j xs) (xs ! j) (fst (searchRun xs (snd (searchOp x c))) ! j)"
      using Cons.prems Suc by (intro Cons.IH cache_from_op) auto
    then show ?thesis unfolding rec using Suc by simp
  qed
qed simp

text \<open>
  C38. What a search returns, in any sequence of searches from an empty cache: nothing for the type none, its own
  outcome, nothing when the service failed, or the outcome of an earlier search for the same query and type that
  ended at most five minutes before; never the answer to another query.
\<close>

theorem search_answers_fresh:
  assumes "i < length xs" and "list_all known_type xs"
  shows "result_ok (take i xs) (xs ! i) (fst (searchRun xs []) ! i)"
  using searchRun_ok [of "[]" "[]" xs i] assms by (simp add: cache_from_def list_all_iff)

definition demo_env :: "search_env" where
  "demo_env = \<lparr>naverKeys = False, fetchItems = (\<lambda>_. None), encodeURIComponent = (\<lambda>s. s)\<rparr>"

definition demo_search :: "int \<Rightarrow> search_op" where
  "demo_search t = \<lparr>so_env = demo_env, so_start = t, so_end = t + 50, so_query = [54032, 44368],
    so_type = [119, 101, 98]\<rparr>"

theorem search_answers_fresh_witness:
  "result_ok [demo_search 0] (demo_search 100) (fst (searchRun [demo_search 0, demo_search 100] []) ! 1)"
  using search_answers_fresh [of 1 "[demo_search 0, demo_search 100]"] by (simp add: demo_search_def known_type_def)

section \<open>News highlights\<close>

lemma mt_seqs_append: "mt (seqs (as @ bs)) x z \<longleftrightarrow> (\<exists>y. mt (seqs as) x y \<and> mt (seqs bs) y z)"
proof (induction as arbitrary: x)
  case (Cons a as)
  show ?case unfolding append_Cons mt_seqs_Cons Cons by blast
qed auto

lemma mt_whole:
  "mt r x y \<Longrightarrow> rev (behind x) @ ahead x = rev (behind y) @ ahead y"
  "rep_mt r m mx x y \<Longrightarrow> rev (behind x) @ ahead x = rev (behind y) @ ahead y"
  by (induction rule: mt_rep_mt.inducts) (auto split: prod.splits)

fun capless :: "rx \<Rightarrow> bool" where
  "capless (Seq r1 r2) = (capless r1 \<and> capless r2)"
| "capless (Alt r1 r2) = (capless r1 \<and> capless r2)"
| "capless (Rep r m mx g) = capless r"
| "capless (Cap n r) = False"
| "capless _ = True"

lemma capless_keeps:
  "mt r x y \<Longrightarrow> capless r \<Longrightarrow> snd (snd x) = snd (snd y)"
  "rep_mt r m mx x y \<Longrightarrow> capless r \<Longrightarrow> snd (snd x) = snd (snd y)"
  by (induction rule: mt_rep_mt.inducts) auto

text \<open>A pattern whose end is itself a pattern: wherever the first matches, the second does.\<close>

lemma test_suffix:
  assumes "test (Cap n (seqs (as @ bs))) s" and "capless (seqs as)"
  shows "test (Cap m (seqs bs)) s"
proof -
  obtain u v y where s: "s = u @ v" and "mt (Cap n (seqs (as @ bs))) (rev u, v, []) y" using assms(1) unfolding test_iff by blast
  then obtain z where "mt (seqs (as @ bs)) (rev u, v, []) z" by (auto elim: mt_CapE)
  then obtain w where w: "mt (seqs as) (rev u, v, []) w" "mt (seqs bs) w z" unfolding mt_seqs_append by blast
  have "snd (snd w) = []" using capless_keeps(1) [OF w(1) assms(2)] by simp
  then have "w = (rev (rev (behind w)), ahead w, [])" by (cases w) simp
  moreover have "s = rev (behind w) @ ahead w" using mt_whole(1) [OF w(1)] s by simp
  moreover have "mt (Cap m (seqs bs)) w (capture m w z)" by (rule mt_Cap [OF w(2)])
  ultimately show ?thesis unfolding test_iff by metis
qed

text \<open>
  The pattern for a range of dates is never used for the highlight: its last part is the pattern before it, so
  the end of the range is found first. Leaving the pattern out changes nothing.
\<close>

theorem range_highlight_unused:
  "extractNewsHighlight n = (case firstHighlight (highlightPatterns ! 0 # drop 2 highlightPatterns) (sr_content n) of
      Some g \<Rightarrow> Some g
    | None \<Rightarrow> given (trim (take 50 (sr_content n))))"
proof -
  let ?d = "Rep digit 1 (Some 2) True"
  let ?p = "[?d, lit [50900], star space, ?d, lit [51068, 48512, 53552], star space]" and ?q = "[?d,
    lit [50900], star space, ?d, lit [51068, 44620, 51648]]"
  have hp: "highlightPatterns = highlightPatterns ! 0 # highlightPatterns ! 1 # drop 2 highlightPatterns"
    and q: "highlightPatterns ! 0 = Cap 1 (seqs ?q)" and p: "highlightPatterns ! 1 = Cap 1 (seqs (?p @ ?q))"
    by (simp_all add: highlightPatterns_def)
  have c: "capless (seqs ?p)" by (simp add: seqs_def lit_def star_def space_def digit_def)
  have imp: "test (highlightPatterns ! 1) s \<Longrightarrow> test (highlightPatterns ! 0) s" for s
    unfolding p q using test_suffix [OF _ c] by blast
  have "firstHighlight (a # b # ps) s = firstHighlight (a # ps) s" if "test b s \<Longrightarrow> test a s" for a b ps s
    using that by (auto simp: test_def split: option.splits)
  then have "firstHighlight highlightPatterns s = firstHighlight (highlightPatterns ! 0 # drop 2 highlightPatterns) s" for s
    using imp hp by metis
  then show ?thesis unfolding extractNewsHighlight_def by simp
qed

end
