(* ===== verification/AgentRouter.thy ===== *)
theory AgentRouter
  imports RoomState SearchService RagClient
begin

text \<open>
  The agent, \<open>src/agent/agent-router.service.ts\<close>: it chooses a tool by patterns or by the model, runs it and
  words the answer with the model. The model, the search service and the random draw are the fields of
  \<open>agent_env\<close>; \<open>None\<close> is a call that rejects. The parameters of a tool are those the schema of the tools
  names, each possibly missing. A question about the meeting awaits the promises of \<open>RagClient\<close>, so it
  is a sequence of phases over the state of that client. What the model returns is taken to have the
  types of the schema; times and log output are left out.
\<close>

section \<open>Types\<close>

type_synonym sources = "(jstr \<times> jstr option) list"

record ToolSpec =
  ts_name :: jstr
  ts_description :: jstr
  ts_properties :: "(jstr \<times> jstr \<times> jstr) list"
  ts_required :: "jstr list"

definition AGENT_TOOLS :: "ToolSpec list" where
  "AGENT_TOOLS = [
     \<lparr>ts_name = [115, 101, 97, 114, 99, 104, 95, 119, 101, 98], ts_description = [49892, 49884,
       44036, 32, 51221, 48372, 44032, 32, 54596, 50836, 54624, 32, 46412, 32, 49324, 50857, 32, 40,
       45684, 49828, 44, 32, 45216, 50472, 44, 32, 51452, 49885, 44, 32, 49828, 54252, 52768, 44, 32,
       48177, 44284, 49324, 51204, 32, 46321, 41, 46, 32, 50937, 50640, 49436, 32, 52572, 49888, 32,
       51221, 48372, 47484, 32, 44160, 49353, 54633, 45768, 45796, 46],
       ts_properties = [([113, 117, 101, 114, 121], [115, 116, 114, 105, 110, 103], [44160, 49353,
         54624, 32, 53412, 50892, 46300, 45208, 32, 51656, 47928])], ts_required = [[113, 117, 101,
         114, 121]]\<rparr>,
     \<lparr>ts_name = [115, 101, 97, 114, 99, 104, 95, 108, 111, 99, 97, 108],
       ts_description = [51452, 48320, 32, 51109, 49548, 32, 44160, 49353, 50640, 32, 49324, 50857, 32,
       40, 47579, 51665, 44, 32, 52852, 54168, 44, 32, 49696, 51665, 44, 32, 54200, 51032, 49884,
       49444, 32, 46321, 41, 46, 32, 53945, 51221, 32, 51648, 50669, 51032, 32, 51109, 49548, 47484,
       32, 44160, 49353, 54633, 45768, 45796, 46],
       ts_properties = [([113, 117, 101, 114, 121], [115, 116, 114, 105, 110, 103], [44160, 49353,
         54624, 32, 51109, 49548, 32, 50976, 54805, 32, 40, 50696, 58, 32, 47579, 51665, 44, 32, 52852,
         54168, 44, 32, 52824, 53416, 51665, 41]), ([108, 111, 99, 97, 116, 105, 111, 110], [115, 116,
         114, 105, 110, 103], [51648, 50669, 47749, 32, 40, 50696, 58, 32, 54032, 44368, 44, 32, 44053,
         45224, 44, 32, 54861, 45824, 41, 46, 32, 50630, 51004, 47732, 32, 110, 117, 108, 108])],
         ts_required = [[113, 117, 101, 114, 121]]\<rparr>,
     \<lparr>ts_name = [113, 117, 101, 114, 121, 95, 109, 101, 101, 116, 105, 110, 103],
       ts_description = [54788, 51116, 32, 54924, 51032, 47, 45824, 54868, 32, 45236, 50857, 51012, 32,
       54869, 51064, 54624, 32, 46412, 32, 49324, 50857, 46, 32, 45796, 51020, 32, 49345, 54889, 50640,
       49436, 32, 48152, 46300, 49884, 32, 49324, 50857, 58, 10, 45, 32, 51060, 51204, 32, 45824,
       54868, 32, 52280, 51312, 58, 32, 34, 48169, 44552, 34, 44, 32, 34, 50500, 44620, 34, 44, 32, 34,
       51204, 50640, 34, 44, 32, 34, 51060, 51204, 50640, 34, 32, 50616, 44553, 46108, 32, 45236,
       50857, 10, 45, 32, 44284, 44144, 32, 48156, 50616, 32, 54869, 51064, 58, 32, 34, 47952, 46972,
       44256, 32, 54664, 51648, 63, 34, 44, 32, 34, 47932, 50612, 48376, 32, 44144, 34, 44, 32, 34,
       45824, 45813, 54620, 32, 44144, 34, 10, 45, 32, 54057, 53944, 32, 52404, 53356, 58, 32, 34,
       47582, 50500, 63, 34, 44, 32, 34, 44536, 47020, 50612, 63, 34, 44, 32, 34, 51652, 51676, 63, 34,
       10, 45, 32, 45824, 47749, 49324, 32, 52280, 51312, 58, 32, 34, 44536, 44144, 34, 44, 32, 34,
       44536, 44172, 32, 47952, 50556, 34, 32, 40, 45824, 54868, 32, 47589, 46973, 32, 52280, 51312,
       41, 10, 50696, 58, 32, 34, 48169, 44552, 32, 47932, 50612, 48376, 32, 44144, 34, 44, 32, 34,
       50500, 44620, 32, 44536, 44144, 34, 44, 32, 34, 51204, 50640, 32, 47952, 46972, 44256, 32,
       54664, 45908, 46972, 34],
       ts_properties = [([113, 117, 101, 115, 116, 105, 111, 110], [115, 116, 114, 105, 110, 103],
         [51060, 51204, 32, 45824, 54868, 47, 54924, 51032, 32, 45236, 50857, 50640, 32, 45824, 54620,
         32, 51656, 47928])], ts_required = [[113, 117, 101, 115, 116, 105, 111, 110]]\<rparr>,
     \<lparr>ts_name = [100, 105, 114, 101, 99, 116, 95, 114, 101, 115, 112, 111, 110, 115, 101],
       ts_description = [44160, 49353, 32, 50630, 51060, 32, 51649, 51217, 32, 45813, 48320, 54624, 32,
       49688, 32, 51080, 51012, 32, 46412, 32, 49324, 50857, 46, 32, 51068, 48152, 32, 45824, 54868,
       44, 32, 51064, 49324, 44, 32, 44036, 45800, 54620, 32, 51656, 47928, 44, 32, 51032, 44204, 32,
       51228, 49884, 32, 46321, 46],
       ts_properties = [([114, 101, 115, 112, 111, 110, 115, 101, 95, 116, 121, 112, 101], [115, 116,
         114, 105, 110, 103], [51025, 45813, 32, 50976, 54805])], ts_required = [[114, 101, 115, 112,
         111, 110, 115, 101, 95, 116, 121, 112, 101]]\<rparr>,
     \<lparr>ts_name = [97, 115, 107, 95, 99, 108, 97, 114, 105, 102, 105, 99, 97, 116, 105, 111, 110],
       ts_description = [49324, 50857, 51088, 32, 51032, 46020, 44032, 32, 48520, 47749, 54869, 54616,
       44144, 45208, 32, 50668, 47084, 32, 54644, 49437, 51060, 32, 44032, 45733, 54624, 32, 46412, 32,
       49324, 50857, 46, 32, 53952, 47536, 32, 45813, 48320, 51012, 32, 54616, 45716, 32, 44163, 48372,
       45796, 32, 46104, 47932, 50612, 48372, 45716, 32, 44163, 51060, 32, 45227, 45796, 46],
       ts_properties = [([97, 109, 98, 105, 103, 117, 105, 116, 121, 95, 114, 101, 97, 115, 111, 110],
         [115, 116, 114, 105, 110, 103], [51032, 46020, 44032, 32, 48520, 47749, 54869, 54620, 32,
         51060, 50976]), ([112, 111, 115, 115, 105, 98, 108, 101, 95, 105, 110, 116, 101, 114, 112,
         114, 101, 116, 97, 116, 105, 111, 110, 115], [97, 114, 114, 97, 121], [44032, 45733, 54620,
         32, 54644, 49437, 46308, 32, 40, 52572, 45824, 32, 51, 44060, 41])], ts_required = [[97, 109,
         98, 105, 103, 117, 105, 116, 121, 95, 114, 101, 97, 115, 111, 110]]\<rparr>]"

record AgentParams =
  pa_query :: "jstr option"
  pa_location :: "jstr option"
  pa_question :: "jstr option"
  pa_response_type :: "jstr option"
  possible_interpretations :: "jstr list option"

record AgentDecision =
  ad_tool :: jstr
  ad_params :: AgentParams

record ToolResult =
  tr_result :: jstr
  tr_searchResults :: "SearchResult list option"
  meetingSources :: "sources option"

record agent_env =
  converseTool :: "jstr \<Rightarrow> ToolSpec list \<Rightarrow> jstr \<Rightarrow> (jstr \<times> AgentParams) option option"
  converseText :: "jstr \<Rightarrow> jstr option option"
  searchFor :: "jstr option \<Rightarrow> jstr \<Rightarrow> SearchResult list option"
  draw :: rat

section \<open>Choosing a tool\<close>

definition queryMeetingPatterns :: "rx list" where
  "queryMeetingPatterns = [
     seqs [alts [lit [48169, 44552], lit [50500, 44620], lit [51204, 50640], lit [51060, 51204, 50640],
       lit [51200, 48264, 50640], seqs [lit [51328], star space, lit [51204, 50640]]], upto 10,
       lits [[47932, 50612], [51656, 47928], [47568, 54620], [47568, 50432], [45824, 45813], [45813,
       48320], [50584, 44592], [51060, 50556, 44592], [49444, 47749]]],
     seqs [lits [[48169, 44552], [50500, 44620], [51204, 50640], [51060, 51204, 50640], [51200, 48264,
       50640]], upto 10, lits [[54664, 45912], [54620]], star space, lits [[44144], [44163], [44172]]],
     seqs [lit [47952, 46972], opt (lit [44256]), star space, lits [[54664], [54620], [54616, 49512]]],
     seqs [lit [47952], lits [[50688], [45908, 46972], [50688, 45908, 46972], [50556], [50696, 50836],
       [50640, 50836]]],
     seqs [lits [[48169, 44552], [50500, 44620], [51204, 50640], [51060, 51204, 50640]], upto 5,
       lits [[44536, 44144], [44536, 44172], [44536, 44163]]],
     seqs [alts [lit [45796, 49884], seqs [lit [54620, 48264], star space, lit [45908]],
       seqs [lit [45796, 49884], star space, lit [54620, 48264]]], upto 5, lits [[47568, 54644],
       [50508, 47140], [49444, 47749, 54644]]],
     seqs [lits [[50500, 44620], [48169, 44552], [51204, 50640]], upto 5, seqs [lit [44536],
       star space], lits [[50584, 44592], [51060, 50556, 44592], [45236, 50857], [51656, 47928],
       [45824, 54868]]]]"

definition noParams :: AgentParams where
  "noParams = \<lparr>pa_query = None, pa_location = None, pa_question = None, pa_response_type = None, possible_interpretations = None\<rparr>"

definition matchPatternForTool :: "jstr \<Rightarrow> AgentDecision option" where
  "matchPatternForTool t = (if list_ex (\<lambda>p. test p t) queryMeetingPatterns
     then Some \<lparr>ad_tool = [113, 117, 101, 114, 121, 95, 109, 101, 101, 116, 105, 110, 103],
       ad_params = noParams\<lparr>pa_question := Some t\<rparr>\<rparr> else None)"

definition buildHistoryContext :: "ConversationTurn list \<Rightarrow> jstr" where
  "buildHistoryContext history = (if history = [] then [91, 45824, 54868, 32, 44592, 47197, 32, 50630,
    51020, 93]
     else [91, 45824, 54868, 32, 44592, 47197, 32, 40] @ jint (int (length history)) @ [53556, 41, 93, 10] @
       join [10] (map (\<lambda>t. (if turn_role t = UserRole then str_or (turn_speaker t) [49324,
         50857, 51088] else [50500, 50864, 46972]) @ [58, 32] @ turn_content t) history))"

definition meetingInfo :: "jstr option \<Rightarrow> jstr" where
  "meetingInfo title = (if truthy_str title then [10, 91, 54924, 51032, 32, 51221, 48372, 93, 32,
    51228, 47785, 58, 32] @ the title else [])"

definition screenInfoLong :: "jstr option \<Rightarrow> jstr" where
  "screenInfoLong screen = (if truthy_str screen then [10, 10, 91, 54868, 47732, 32, 52968, 53581,
    49828, 53944, 32, 45, 32, 49324, 50857, 51088, 44032, 32, 44277, 50976, 54620, 32, 54868, 47732,
    50640, 49436, 32, 52628, 52636, 46108, 32, 53581, 49828, 53944, 93, 10] @ the screen else [])"

definition systemPrompt :: "ConversationTurn list \<Rightarrow> jstr option \<Rightarrow> jstr option \<Rightarrow> jstr" where
  "systemPrompt history title screen = [91, 50669, 54624, 93, 10, 45320, 45716, 32, 54868, 49345,
    54924, 51032, 50640, 32, 52280, 50668, 32, 51473, 51064, 32, 65, 73, 32, 48708, 49436, 32, 34,
    50500, 50864, 46972, 34, 51077, 45768, 45796, 46, 10, 45, 32, 54924, 51032, 32, 52280, 50668,
    51088, 46308, 51032, 32, 45824, 54868, 47484, 32, 46307, 44256, 32, 51201, 51208, 55176, 32, 52280,
    50668, 54633, 45768, 45796, 10, 45, 32, 45824, 54868, 32, 44592, 47197, 51012, 32, 51096, 32,
    44592, 50613, 54616, 44256, 44, 32, 51060, 51204, 32, 47589, 46973, 51012, 32, 52280, 44256, 54644,
    49436, 32, 45813, 48320, 54633, 45768, 45796, 10, 45, 32, 48152, 46300, 49884, 32, 51316, 45843,
    47568, 40, 126, 51077, 45768, 45796, 44, 32, 126, 49845, 45768, 45796, 44, 32, 126, 49464, 50836,
    41, 47564, 32, 49324, 50857, 10, 45, 32, 51060, 47784, 54000, 53080, 47, 51060, 47784, 51648, 32,
    51208, 45824, 32, 49324, 50857, 32, 44552, 51648, 10,
    10] @ buildHistoryContext history @ meetingInfo title @ screenInfoLong screen @ [10, 10, 91, 46020,
    44396, 32, 49440, 53469, 32, 44592, 51456, 32, 45, 32, 50864, 49440, 49692, 50948, 45824, 47196,
    32, 51201, 50857, 93, 10, 49, 46, 32, 42, 42, 51060, 51204, 32, 45824, 54868, 47, 54924, 51032, 32,
    45236, 50857, 32, 52280, 51312, 42, 42, 32, 8594, 32, 113, 117, 101, 114, 121, 95, 109, 101, 101,
    116, 105, 110, 103, 32, 40, 52572, 50864, 49440, 41, 10, 32, 32, 32, 45, 32, 34, 48169, 44552, 34,
    44, 32, 34, 50500, 44620, 34, 44, 32, 34, 51204, 50640, 34, 44, 32, 34, 51060, 51204, 50640, 34,
    32, 43, 32, 51656, 47928, 47, 50836, 52397, 10, 32, 32, 32, 45, 32, 34, 47932, 50612, 48376, 32,
    44144, 34, 44, 32, 34, 45824, 45813, 54620, 32, 44144, 34, 44, 32, 34, 47568, 54620, 32, 44144, 34,
    44, 32, 34, 54664, 45912, 32, 44144, 34, 10, 32, 32, 32, 45, 32, 34, 47952, 46972, 44256, 32,
    54664, 51648, 63, 34, 44, 32, 34, 47952, 50688, 51648, 63, 34, 44, 32, 34, 47952, 45908, 46972, 63,
    34, 10, 32, 32, 32, 45, 32, 34, 44536, 44144, 34, 44, 32, 34, 44536, 44172, 34, 32, 40, 45824,
    54868, 32, 47589, 46973, 50640, 49436, 32, 51060, 51204, 32, 45236, 50857, 32, 52280, 51312, 41,
    10, 32, 32, 32, 50696, 49884, 58, 32, 34, 48169, 44552, 32, 47932, 50612, 48376, 32, 44144, 32,
    50508, 47140, 51480, 34, 44, 32, 34, 50500, 44620, 32, 44536, 44144, 32, 47952, 50688, 51648, 63,
    34, 44, 32, 34, 51204, 50640, 32, 47952, 46972, 44256, 32, 54664, 45908, 46972, 34, 10, 10, 50, 46,
    32, 49892, 49884, 44036, 32, 51221, 48372, 32, 54596, 50836, 32, 40, 45684, 49828, 44, 32, 45216,
    50472, 44, 32, 51452, 49885, 32, 46321, 41, 32, 8594, 32, 115, 101, 97, 114, 99, 104, 95, 119, 101,
    98, 10, 51, 46, 32, 51109, 49548, 32, 44160, 49353, 32, 40, 47579, 51665, 44, 32, 52852, 54168, 32,
    46321, 41, 32, 8594, 32, 115, 101, 97, 114, 99, 104, 95, 108, 111, 99, 97, 108, 10, 52, 46, 32,
    51068, 48152, 32, 45824, 54868, 44, 32, 51064, 49324, 44, 32, 44036, 45800, 54620, 32, 51656,
    47928, 32, 8594, 32, 100, 105, 114, 101, 99, 116, 95, 114, 101, 115, 112, 111, 110, 115, 101, 10,
    53, 46, 32, 51032, 46020, 44032, 32, 48520, 47749, 54869, 54616, 44144, 45208, 32, 50668, 47084,
    32, 54644, 49437, 51060, 32, 44032, 45733, 54620, 32, 44221, 50864, 32, 8594, 32, 97, 115, 107, 95,
    99, 108, 97, 114, 105, 102, 105, 99, 97, 116, 105, 111, 110, 10, 10, 91, 51473, 50836, 93, 10, 45,
    32, 45824, 54868, 32, 44592, 47197, 51012, 32, 48152, 46300, 49884, 32, 54869, 51064, 54616, 44256,
    32, 47589, 46973, 50640, 32, 47582, 44172, 32, 51025, 45813, 54644, 10, 45, 32, 34, 48169, 44552,
    34, 44, 32, 34, 50500, 44620, 34, 44, 32, 34, 51204, 50640, 34, 32, 44057, 51008, 32, 49884, 44036,
    32, 52280, 51312, 32, 43, 32, 51656, 47928, 51008, 32, 44144, 51032, 32, 54637, 49345, 32, 113,
    117, 101, 114, 121, 95, 109, 101, 101, 116, 105, 110, 103, 51060, 45796, 33, 10, 45, 32, 51060,
    47784, 54000, 53080, 47, 51060, 47784, 51648, 32, 51208, 45824, 32, 44552, 51648, 10, 45, 32,
    48152, 46300, 49884, 32, 54616, 45208, 51032, 32, 46020, 44396, 47564, 32, 49440, 53469, 54644, 46]"

definition directDecision :: AgentDecision where
  "directDecision = \<lparr>ad_tool = [100, 105, 114, 101, 99, 116, 95, 114, 101, 115, 112, 111, 110,
    115, 101], ad_params = noParams\<lparr>pa_response_type := Some [99, 104, 97, 116]\<rparr>\<rparr>"

definition decide :: "agent_env \<Rightarrow> jstr \<Rightarrow> ConversationTurn list \<Rightarrow> jstr option \<Rightarrow> jstr option \<Rightarrow> AgentDecision" where
  "decide env msg history title screen = (case matchPatternForTool msg of
      Some d \<Rightarrow> d
    | None \<Rightarrow> (case converseTool env (systemPrompt history title screen) AGENT_TOOLS msg of
          None \<Rightarrow> directDecision
        | Some None \<Rightarrow> directDecision
        | Some (Some (name, params)) \<Rightarrow> \<lparr>ad_tool = name, ad_params = params\<rparr>))"

section \<open>Running a tool\<close>

definition plain :: "jstr \<Rightarrow> ToolResult" where
  "plain t = \<lparr>tr_result = t, tr_searchResults = None, meetingSources = None\<rparr>"

fun numberedFrom :: "nat \<Rightarrow> jstr list \<Rightarrow> jstr list" where
  "numberedFrom n [] = []"
| "numberedFrom n (x # xs) = (jint (int n) @ [46, 32] @ x) # numberedFrom (Suc n) xs"

definition executeWebSearch :: "agent_env \<Rightarrow> jstr option \<Rightarrow> ToolResult" where
  "executeWebSearch env query = (case searchFor env query [119, 101, 98] of
      None \<Rightarrow> plain [44160, 49353, 32, 51473, 32, 50724, 47448, 44032, 32, 48156, 49373,
        54664, 49845, 45768, 45796, 46]
    | Some results \<Rightarrow>
        if results = [] then plain [44160, 49353, 32, 44208, 44284, 44032, 32, 50630, 49845, 45768, 45796, 46]
        else \<lparr>tr_result = join [10] (numberedFrom 1 (map (\<lambda>r. sr_title r @ [58, 32] @ take 100 (sr_content r)) (take 3 results))),
              tr_searchResults = Some results, meetingSources = None\<rparr>)"

definition executeLocalSearch :: "agent_env \<Rightarrow> jstr option \<Rightarrow> jstr option \<Rightarrow> ToolResult" where
  "executeLocalSearch env query location =

            (let q = (if truthy_str location then Some (the location @ [32] @ (case query of None \<Rightarrow> [117,
       110, 100, 101, 102, 105, 110, 101, 100] | Some x \<Rightarrow> x)) else query)
      in case searchFor env q [108, 111, 99, 97, 108] of
           None \<Rightarrow> plain [51109, 49548, 32, 44160, 49353, 32, 51473, 32, 50724, 47448,
             44032, 32, 48156, 49373, 54664, 49845, 45768, 45796, 46]
         | Some results \<Rightarrow>
             if results = [] then plain [51452, 48320, 32, 51109, 49548, 47484, 32, 52286, 51012, 32,
               49688, 32, 50630, 49845, 45768, 45796, 46]
             else \<lparr>tr_result = join [10] (numberedFrom 1 (map (\<lambda>r. sr_title r @
                       (if truthy_str (sr_address r) then [32, 40] @ the (sr_address r) @ [41] else [])) (take 3 results))),
                   tr_searchResults = Some results, meetingSources = None\<rparr>)"

definition clarificationPhrases :: "jstr list" where
  "clarificationPhrases = [[51020, 44, 32, 51312, 44552, 32, 45908, 32, 44396, 52404, 51201, 51004,
    47196, 32, 47568, 50432, 54644, 51452, 49884, 44192, 50612, 50836, 63], [50612, 46500, 32, 44152,
    32, 47568, 50432, 54616, 49884, 45716, 32, 44148, 51648, 32, 51096, 32, 47784, 47476, 44192, 50612,
    50836, 46], [54841, 49884, 32, 47924, 50631, 50640, 32, 45824, 54644, 32, 47932, 50612, 48372,
    49884, 45716, 32, 44148, 44032, 50836, 63], [51312, 44552, 32, 45908, 32, 51088, 49464, 55176, 32,
    49444, 47749, 54644, 51452, 49884, 47732, 32, 51339, 44192, 50612, 50836, 46]]"

definition generateClarificationResponse :: "agent_env \<Rightarrow> AgentParams \<Rightarrow> ToolResult" where
  "generateClarificationResponse env params =
     (let is = (case possible_interpretations params of None \<Rightarrow> [] | Some l \<Rightarrow> l)
      in plain (if length is < 2 then pick (draw env) clarificationPhrases
                else [54841, 49884, 32] @ (if length is = 2 then is ! 0 @ [50640, 32, 45824, 54644, 32,
                  47932, 50612, 48372, 49884, 45716, 32, 44148, 44032, 50836, 44, 32, 50500, 45768,
                  47732, 32] @ is ! 1 @ [51064, 44032, 50836, 63]
                  else join [44, 32] (butlast is) @ [32, 51473, 50640, 32, 50612, 46500, 32, 44148,
                    44032, 50836, 63, 32, 50500, 45768, 47732, 32] @ last is @ [51064, 44032, 50836,
                    63])))"

text \<open>
  \<open>executeMeetingQuery\<close> in phases. It connects when the room is not connected and awaits that promise, whatever
  becomes of it; then it asks, and awaits the answer. A missing question fails in the client once connected.
\<close>

datatype mq_phase = MqConnecting nat | MqAsking nat | MqDone ToolResult

definition mqFailed :: mq_phase where
  "mqFailed = MqDone (plain [54924, 51032, 32, 45236, 50857, 32, 51312, 54924, 32, 51473, 32, 50724,
    47448, 44032, 32, 48156, 49373, 54664, 49845, 45768, 45796, 46])"

definition mqAsk :: "jstr option \<Rightarrow> int \<Rightarrow> jstr \<Rightarrow> jstr option \<Rightarrow> rag_st \<Rightarrow> mq_phase \<times> rag_st" where
  "mqAsk throws now r question s =
     (if \<not> isConnected r s then (MqDone (plain [54924, 51032, 32, 44592, 47197, 50640, 32, 51217,
       44540, 54624, 32, 49688, 32, 50630, 49845, 45768, 45796, 46]), s)
      else case question of
          None \<Rightarrow> (mqFailed, s)
        | Some q \<Rightarrow> (let (p, s1) = sendQuestionWithSources throws now r q s in (MqAsking p, s1)))"

definition mqStart :: "jstr option \<Rightarrow> int \<Rightarrow> jstr \<Rightarrow> jstr option \<Rightarrow> rag_st \<Rightarrow> mq_phase \<times> rag_st" where
  "mqStart throws now r question s =
     (if isConnected r s then mqAsk throws now r question s
      else let (p, s1) = connect r s in (MqConnecting p, s1))"

fun mqResume :: "jstr option \<Rightarrow> int \<Rightarrow> jstr \<Rightarrow> jstr option \<Rightarrow> mq_phase \<Rightarrow> rag_st \<Rightarrow> mq_phase \<times> rag_st" where
  "mqResume throws now r question (MqConnecting p) s =
     (if promises s p \<in> {Pending, Forgotten} then (MqConnecting p, s) else mqAsk throws now r question s)"
| "mqResume throws now r question (MqAsking p) s = (case promises s p of
      Pending \<Rightarrow> (MqAsking p, s)
    | Forgotten \<Rightarrow> (MqAsking p, s)
    | Fulfilled (AnswerWithSources a srcs) \<Rightarrow>
        (MqDone \<lparr>tr_result = a, tr_searchResults = None, meetingSources = Some srcs\<rparr>, s)
    | _ \<Rightarrow> (mqFailed, s))"
| "mqResume throws now r question (MqDone x) s = (MqDone x, s)"

text \<open>\<open>executeTool\<close>, with the result of the meeting query when it has come.\<close>

definition executeTool :: "agent_env \<Rightarrow> AgentDecision \<Rightarrow> ToolResult \<Rightarrow> ToolResult" where
  "executeTool env d meeting =
     (if ad_tool d = [115, 101, 97, 114, 99, 104, 95, 119, 101,
       98] then executeWebSearch env (pa_query (ad_params d))
      else if ad_tool d = [115, 101, 97, 114, 99, 104, 95, 108, 111, 99, 97,
        108] then executeLocalSearch env (pa_query (ad_params d)) (pa_location (ad_params d))
      else if ad_tool d = [113, 117, 101, 114, 121, 95, 109, 101, 101, 116, 105, 110, 103] then meeting
      else if ad_tool d = [97, 115, 107, 95, 99, 108, 97, 114, 105, 102, 105, 99, 97, 116, 105, 111,
        110] then generateClarificationResponse env (ad_params d)
      else plain [])"

section \<open>Wording the answer\<close>

definition callLlmPure :: "agent_env \<Rightarrow> jstr \<Rightarrow> jstr" where
  "callLlmPure env prompt = (case converseText env prompt of
      None \<Rightarrow> [51396, 49569, 54633, 45768, 45796, 44, 32, 51025, 45813, 51012, 32, 49373,
        49457, 54616, 51648, 32, 47803, 54664, 50612, 50836, 46]
    | Some t \<Rightarrow> str_or t [51025, 45813, 51012, 32, 49373, 49457, 54624, 32, 49688, 32,
      50630, 49845, 45768, 45796, 46])"

definition screenInfo :: "jstr option \<Rightarrow> jstr" where
  "screenInfo screen = (if truthy_str screen then [10, 91, 54868, 47732, 32, 52968, 53581, 49828,
    53944, 93, 10] @ the screen @ [10] else [])"

definition screenInfoDirect :: "jstr option \<Rightarrow> jstr" where
  "screenInfoDirect screen = (if truthy_str screen then [10, 91, 54868, 47732, 32, 52968, 53581, 49828,
    53944, 32, 45, 32, 49324, 50857, 51088, 44032, 32, 44277, 50976, 54620, 32, 54868, 47732, 50640,
    49436, 32, 52628, 52636, 46108, 32, 53581, 49828, 53944, 93, 10] @ the screen @ [10] else [])"

definition generateDirectResponse :: "agent_env \<Rightarrow> jstr \<Rightarrow> ConversationTurn list \<Rightarrow> jstr option \<Rightarrow> jstr" where
  "generateDirectResponse env msg history screen = callLlmPure env ([91, 45824, 54868, 32, 47589,
    46973, 93, 10] @ buildHistoryContext history @ screenInfoDirect screen @ [10, 10, 91, 49324, 50857,
    51088, 93, 10] @ msg @ [10, 10, 54868, 49345, 54924, 51032, 32, 65, 73, 32, 48708, 49436, 32, 34,
    50500, 50864, 46972, 34, 47196, 49436, 32, 45813, 48320, 54616, 49464, 50836, 46, 10, 45, 32,
    45824, 54868, 32, 44592, 47197, 51012, 32, 52280, 44256, 54644, 49436, 32, 47589, 46973, 50640, 32,
    47582, 44172, 32, 51025, 45813, 10, 45, 32, 54868, 47732, 32, 52968, 53581, 49828, 53944, 44032,
    32, 51080, 51004, 47732, 32, 54868, 47732, 50640, 32, 48372, 51060, 45716, 32, 45236, 50857, 51012,
    32, 52280, 44256, 54644, 49436, 32, 45813, 48320, 10, 45, 32, 48152, 46300, 49884, 32, 51316,
    45843, 47568, 40, 126, 51077, 45768, 45796, 44, 32, 126, 49845, 45768, 45796, 44, 32, 126, 49464,
    50836, 41, 47564, 32, 49324, 50857, 10, 45, 32, 49, 45, 50, 47928, 51109, 51004, 47196, 32, 44036,
    44208, 54616, 44172, 10, 45, 32, 51060, 47784, 54000, 53080, 47, 51060, 47784, 51648, 32, 51208,
    45824, 32, 49324, 50857, 32, 44552, 51648])"

definition sourcesText :: "sources \<Rightarrow> jstr" where
  "sourcesText srcs = join [10] (numberedFrom 1 (map (\<lambda>(t, sp). str_or sp [52280, 50668,
    51088] @ [58, 32, 34] @ t @ [34])
     (take 3 (filter (\<lambda>(t, sp). t \<noteq> []) srcs))))"

definition generateFactCheckResponse :: "agent_env \<Rightarrow> jstr \<Rightarrow> jstr \<Rightarrow> sources \<Rightarrow> ConversationTurn list \<Rightarrow> jstr option \<Rightarrow> jstr" where
  "generateFactCheckResponse env msg res sources history screen = callLlmPure env ([91, 45824, 54868,
    32, 47589, 46973, 93, 10] @ buildHistoryContext history @ screenInfo screen @ [10, 10, 91, 49324,
    50857, 51088, 32, 51656, 47928, 93, 10] @ msg @ [10, 10, 91, 82, 65, 71, 32, 45813, 48320, 93,
    10] @ res @ [10, 10, 91, 44288, 47144, 32, 48156, 50616, 32, 44592, 47197, 93,
    10] @ sourcesText sources @ [10, 10, 50948, 32, 51221, 48372, 47484, 32, 48148, 53461, 51004,
    47196, 32, 54057, 53944, 52404, 53356, 32, 51025, 45813, 51012, 32, 49373, 49457, 54644, 51480, 46,
    10, 40, 54868, 47732, 32, 52968, 53581, 49828, 53944, 44032, 32, 51080, 51004, 47732, 32, 54868,
    47732, 50640, 32, 48372, 51060, 45716, 32, 45236, 50857, 46020, 32, 52280, 44256, 41, 10, 10,
    51025, 45813, 32, 54805, 49885, 58, 10, 45, 32, 34, 51204, 50640, 32, 54616, 49888, 32, 48156,
    50616, 51012, 32, 48372, 45768, 34, 32, 46608, 45716, 32, 34, 44284, 44144, 32, 54924, 51032, 32,
    44592, 47197, 51012, 32, 48372, 45768, 34, 32, 47196, 32, 49884, 51089, 10, 45, 32, 45572, 44032,
    32, 47924, 50631, 51012, 32, 47568, 54664, 45716, 51648, 32, 51064, 50857, 32, 40, 34, 126, 126,
    46972, 44256, 32, 48156, 50616, 54616, 49888, 32, 44592, 47197, 51060, 32, 51080, 49845, 45768,
    45796, 34, 41, 10, 45, 32, 48152, 46300, 49884, 32, 51316, 45843, 47568, 40, 126, 51077, 45768,
    45796, 44, 32, 126, 49845, 45768, 45796, 44, 32, 126, 49464, 50836, 41, 47564, 32, 49324, 50857,
    10, 45, 32, 50, 45, 51, 47928, 51109, 51004, 47196, 32, 54645, 49900, 47564, 10, 45, 32, 51060,
    47784, 54000, 53080, 47, 51060, 47784, 51648, 32, 51208, 45824, 32, 49324, 50857, 32, 44552, 51648,
    10, 10, 50696, 49884, 58, 10, 34, 51204, 50640, 32, 54616, 49888, 32, 48156, 50616, 51012, 32,
    48372, 45768, 44, 32, 44608, 54016, 51109, 45784, 44760, 49436, 32, 53664, 53360, 32, 50976, 54952,
    49884, 44036, 51008, 32, 52, 49884, 44036, 51004, 47196, 32, 54616, 51088, 44256, 32, 51228, 50504,
    54616, 49888, 32, 44592, 47197, 51060, 32, 51080, 49845, 45768, 45796, 46, 34])"

definition generalPrompt :: "jstr \<Rightarrow> jstr \<Rightarrow> ConversationTurn list \<Rightarrow> jstr option \<Rightarrow> jstr" where
  "generalPrompt msg res history screen = [91, 45824, 54868, 32, 47589, 46973, 93,
    10] @ buildHistoryContext history @ screenInfo screen @ [10, 10, 91, 49324, 50857, 51088, 32,
    51656, 47928, 93, 10] @ msg @ [10, 10, 91, 44160, 49353, 47, 51312, 54924, 32, 44208, 44284, 93,
    10] @ res @ [10, 10, 50948, 32, 51221, 48372, 47484, 32, 48148, 53461, 51004, 47196, 32, 44036,
    44208, 54616, 44172, 32, 45813, 48320, 54616, 49464, 50836, 46, 10, 45, 32, 54868, 47732, 32,
    52968, 53581, 49828, 53944, 44032, 32, 51080, 51004, 47732, 32, 54868, 47732, 50640, 32, 48372,
    51060, 45716, 32, 45236, 50857, 51012, 32, 52280, 44256, 54644, 49436, 32, 45813, 48320, 10, 45,
    32, 48152, 46300, 49884, 32, 51316, 45843, 47568, 40, 126, 51077, 45768, 45796, 44, 32, 126, 49845,
    45768, 45796, 44, 32, 126, 49464, 50836, 41, 47564, 32, 49324, 50857, 10, 45, 32, 50, 45, 51,
    47928, 51109, 51004, 47196, 32, 54645, 49900, 47564, 10, 45, 32, 51060, 47784, 54000, 53080, 47,
    51060, 47784, 51648, 32, 51208, 45824, 32, 49324, 50857, 32, 44552, 51648]"

definition generateResponse :: "agent_env \<Rightarrow> jstr \<Rightarrow> AgentDecision \<Rightarrow> ToolResult \<Rightarrow> ConversationTurn list \<Rightarrow> jstr option \<Rightarrow> jstr" where
  "generateResponse env msg d tr history screen =
     (if ad_tool d = [97, 115, 107, 95, 99, 108, 97, 114, 105, 102, 105, 99, 97, 116, 105, 111,
       110] then tr_result tr
      else if ad_tool d = [100, 105, 114, 101, 99, 116, 95, 114, 101, 115, 112, 111, 110, 115,
        101] \<or> tr_result tr = [] then generateDirectResponse env msg history screen
      else case meetingSources tr of
          Some (x # xs) \<Rightarrow>
            if ad_tool d = [113, 117, 101, 114, 121, 95, 109, 101, 101, 116, 105, 110,
              103] then generateFactCheckResponse env msg (tr_result tr) (x # xs) history screen
            else callLlmPure env (generalPrompt msg (tr_result tr) history screen)
        | _ \<Rightarrow> callLlmPure env (generalPrompt msg (tr_result tr) history screen))"

text \<open>The three calls of the voice bot: decide, run the tool, word the answer.\<close>

definition agentAnswer :: "agent_env \<Rightarrow> jstr \<Rightarrow> jstr option \<Rightarrow> ToolResult \<Rightarrow> jstr \<Rightarrow> ConversationTurn list \<Rightarrow> jstr \<times> SearchResult list" where
  "agentAnswer env room screen meeting msg history =
     (let d = decide env msg history (Some room) screen;
          tr = executeTool env d meeting
      in (generateResponse env msg d tr history screen, case tr_searchResults tr of None \<Rightarrow> [] | Some l \<Rightarrow> l))"

section \<open>Properties\<close>

lemma callLlmPure_nonempty: "callLlmPure env prompt \<noteq> []"
  by (auto simp: callLlmPure_def str_or_def split: option.splits)

lemma clarification_nonempty: "tr_result (generateClarificationResponse env params) \<noteq> []"
proof -
  have "pick rnd clarificationPhrases \<noteq> []" for rnd
  proof (cases "0 \<le> pickIndex rnd (length clarificationPhrases) \<and> pickIndex rnd (length clarificationPhrases) < int (length clarificationPhrases)")
    case True
    then have "pick rnd clarificationPhrases \<in> set clarificationPhrases" by (auto simp: pick_def Let_def nat_less_iff)
    moreover have "[] \<notin> set clarificationPhrases" by (simp add: clarificationPhrases_def)
    ultimately show ?thesis by metis
  qed (auto simp: pick_def Let_def js_def)
  then show ?thesis by (simp add: generateClarificationResponse_def plain_def Let_def)
qed

text \<open>
  A text that contains the two syllables of the question "what is it" is answered from the record of the meeting,
  whatever it asks about and without asking the model: the question about the meeting is the text itself.
\<close>

theorem what_is_it_asks_meeting:
  assumes "str_includes [47952, 50556] msg"
  shows "decide env msg history title screen = \<lparr>ad_tool = [113, 117, 101, 114, 121, 95, 109,
    101, 101, 116, 105, 110, 103], ad_params = noParams\<lparr>pa_question := Some msg\<rparr>\<rparr>"
proof -
  obtain u v where m: "msg = u @ [47952, 50556] @ v" using assms by (auto simp: str_includes_iff)
  have p: "queryMeetingPatterns ! 3 = seqs [lit [47952], lits [[50688], [45908, 46972], [50688, 45908,
    46972], [50556], [50696, 50836], [50640, 50836]]]"
    by (simp add: queryMeetingPatterns_def)
  have "mt (lit [47952]) (rev u, [47952] @ [50556] @ v, []) (rev [47952] @ rev u, [50556] @ v, [])" by (auto simp: mt_lit)
  moreover have "mt (lits [[50688], [45908, 46972], [50688, 45908, 46972], [50556], [50696, 50836],
    [50640, 50836]]) (rev [47952] @ rev u, [50556] @ v, []) (rev [50556] @ rev [47952] @ rev u, v, [])"
    by (simp add: mt_lits mt_lit)
  ultimately have "mt (queryMeetingPatterns ! 3) (rev u, [47952, 50556] @ v, []) (rev [50556] @ rev [47952] @ rev u, v, [])"
    unfolding p by (intro mt_seqs_intro) simp_all
  then have "test (queryMeetingPatterns ! 3) msg" unfolding test_iff m by blast
  moreover have "queryMeetingPatterns ! 3 \<in> set queryMeetingPatterns" by (simp add: queryMeetingPatterns_def)
  ultimately have "list_ex (\<lambda>p. test p msg) queryMeetingPatterns" by (auto simp: list_ex_iff)
  then show ?thesis by (simp add: decide_def matchPatternForTool_def)
qed

theorem what_is_it_asks_meeting_witness:
  "\<exists>env. converseTool env = (\<lambda>_ _ _. Some (Some ([115, 101, 97, 114, 99, 104, 95, 119,
    101, 98], noParams))) \<and>
     ad_tool (decide env [50724, 45720, 32, 45216, 50472, 32, 47952, 50556] [] None None) = [113, 117,
       101, 114, 121, 95, 109, 101, 101, 116, 105, 110, 103]"
proof -
  let ?env = "\<lparr>converseTool = (\<lambda>_ _ _. Some (Some ([115, 101, 97, 114, 99, 104, 95, 119,
    101, 98], noParams))), converseText = (\<lambda>_. None), searchFor = (\<lambda>_ _. None),
    draw = 0\<rparr>"
  have "str_includes [47952, 50556] [50724, 45720, 32, 45216, 50472, 32, 47952, 50556]" by simp
  from what_is_it_asks_meeting [OF this, of ?env "[]" None None] show ?thesis
    by (intro exI [of _ ?env]) simp
qed

section \<open>A question about the meeting comes to an end\<close>

datatype mq_act = Rag rag_event | Resume "jstr option" int

fun mq_step :: "jstr \<Rightarrow> jstr option \<Rightarrow> mq_act \<Rightarrow> mq_phase \<times> rag_st \<Rightarrow> mq_phase \<times> rag_st" where
  "mq_step r q (Rag ev) (ph, s) = (ph, rag_step ev s)"
| "mq_step r q (Resume throws now) (ph, s) = mqResume throws now r q ph s"

fun awaited :: "mq_phase \<Rightarrow> nat option" where
  "awaited (MqConnecting p) = Some p"
| "awaited (MqAsking p) = Some p"
| "awaited (MqDone x) = None"

definition mq_inv :: "mq_phase \<times> rag_st \<Rightarrow> bool" where
  "mq_inv x \<longleftrightarrow> rag_inv (snd x) \<and> (case awaited (fst x) of None \<Rightarrow> True | Some p \<Rightarrow> p < nextPromise (snd x))"

lemma mq_inv_ask: "rag_inv s \<Longrightarrow> mq_inv (mqAsk throws now r q s)"
  by (simp add: mq_inv_def mqAsk_def mqFailed_def inv_sendQuestionWithSources np split: option.splits prod.splits)
    (metis inv_sendQuestionWithSources np_questions(2,3) fst_conv snd_conv lessI)

lemma mq_inv_start: "rag_inv s \<Longrightarrow> mq_inv (mqStart throws now r q s)"
  using inv_connect [of s r] np_connect [of r s] mq_inv_ask [of s throws now r q]
  by (cases "connect r s"; cases "isConnected r s") (simp_all add: mqStart_def mq_inv_def Let_def)

interpretation mq: inv_system mq_inv "mq_step r q" for r q
proof (unfold_locales, goal_cases)
  case (1 x act)
  obtain ph s where x: "x = (ph, s)" by fastforce
  have i: "rag_inv s" using 1 x by (simp add: mq_inv_def)
  show ?case
  proof (cases act)
    case (Rag ev)
    have "rag_inv (rag_step ev s)" by (rule rag.inv_step [OF i])
    then show ?thesis using 1 x Rag nextPromise_mono [of s ev] by (auto simp: mq_inv_def split: option.splits)
  next
    case (Resume throws now)
    then show ?thesis
      using 1 x mq_inv_ask [OF i] by (cases ph) (auto simp: mq_inv_def mqFailed_def split: promise.splits rag_value.splits)
  qed
qed

lemma rag_acts: "fold (mq_step r q) (map Rag evs) (ph, s) = (ph, fold rag_step evs s)"
  by (induction evs arbitrary: s) simp_all

text \<open>Without answers whose sources are unreadable no promise is forgotten.\<close>

fun mq_readable :: "mq_act \<Rightarrow> bool" where
  "mq_readable (Rag ev) = readable ev"
| "mq_readable (Resume throws now) = True"

lemma fg_ask: "forgotten (snd (mqAsk throws now r q s)) = forgotten s"
  using fg_questions(2) [of throws now r _ s]
  by (auto simp: mqAsk_def mqFailed_def split: option.splits prod.splits) (metis snd_conv)+

lemma fg_start: "forgotten (snd (mqStart throws now r q s)) = forgotten s"
  using fg_connect [of r s] fg_ask [of throws now r q s] by (cases "connect r s") (simp add: mqStart_def Let_def)

lemma fg_resume: "forgotten (snd (mqResume throws now r q ph s)) = forgotten s"
  by (cases ph) (auto simp: mqFailed_def fg_ask split: promise.splits rag_value.splits)

lemma fg_acts: "\<forall>a \<in> set acts. mq_readable a \<Longrightarrow> forgotten (snd (fold (mq_step r q) acts x)) = forgotten (snd x)"
proof (induction acts arbitrary: x)
  case (Cons a acts)
  have "forgotten (snd (mq_step r q a x)) = forgotten (snd x)"
    using Cons.prems by (cases a; cases x) (simp_all add: fg_step fg_resume)
  then show ?case using Cons by simp
qed simp

text \<open>One more phase: let the awaited promise settle, then resume.\<close>

lemma next_phase:
  assumes "mq_inv (ph, s)" and "awaited ph = Some p" and "forgotten s = {}"
  shows "\<exists>acts s'. mq_inv (ph, s') \<and> promises s' p \<notin> {Pending, Forgotten} \<and> forgotten s' = {} \<and>
    fold (mq_step r q) acts (ph, s) = mqResume None 0 r q ph s'"
proof -
  have i: "rag_inv s" "p < nextPromise s" using assms by (simp_all add: mq_inv_def)
  then obtain evs where e: "\<forall>ev \<in> set evs. readable ev" "promises (fold rag_step evs s) p \<noteq> Pending"
    using settled_by_timer by blast
  have f: "forgotten (fold rag_step evs s) = {}" using fg_run [OF e(1)] assms(3) by simp
  then have "promises (fold rag_step evs s) p \<notin> {Pending, Forgotten}" using e(2) by (auto simp: forgotten_def)
  moreover have "mq_inv (ph, fold rag_step evs s)"
    using mq.inv_run [OF assms(1), where ops = "map Rag evs"] by (simp add: rag_acts)
  moreover have "fold (mq_step r q) (map Rag evs @ [Resume None 0]) (ph, s) = mqResume None 0 r q ph (fold rag_step evs s)"
    by (simp add: rag_acts)
  ultimately show ?thesis using f by blast
qed

lemma asking_ends:
  assumes "mq_inv (MqAsking p, s)" and "forgotten s = {}"
  shows "\<exists>acts res. fst (fold (mq_step r q) acts (MqAsking p, s)) = MqDone res"
proof -
  obtain acts s' where "promises s' p \<notin> {Pending, Forgotten}" "fold (mq_step r q) acts (MqAsking p, s) = mqResume None 0 r q (MqAsking p) s'"
    using next_phase [OF assms(1) _ assms(2), of p r q] by auto
  then have "\<exists>res. fst (fold (mq_step r q) acts (MqAsking p, s)) = MqDone res"
    by (auto simp: mqFailed_def split: promise.splits rag_value.splits)
  then show ?thesis by blast
qed

lemma phase_ends:
  assumes "mq_inv (ph, s)" and "forgotten s = {}"
  shows "\<exists>acts res. fst (fold (mq_step r q) acts (ph, s)) = MqDone res"
proof (cases ph)
  case (MqConnecting p)
  obtain acts s' where a: "mq_inv (ph, s')" "promises s' p \<notin> {Pending, Forgotten}" "forgotten s' = {}"
      "fold (mq_step r q) acts (ph, s) = mqResume None 0 r q ph s'"
    using next_phase [OF assms(1) _ assms(2), of p r q] MqConnecting by auto
  then have m: "fold (mq_step r q) acts (ph, s) = mqAsk None 0 r q s'" using MqConnecting by simp
  obtain ph2 s2 where x: "mqAsk None 0 r q s' = (ph2, s2)" by fastforce
  then have i2: "mq_inv (ph2, s2)" using mq_inv_ask a(1) by (metis mq_inv_def snd_conv)
  have f2: "forgotten s2 = {}" using fg_ask [of None 0 r q s'] a(3) x by simp
  have "awaited ph2 = None \<or> (\<exists>p2. ph2 = MqAsking p2)"
    using x by (auto simp: mqAsk_def mqFailed_def split: if_splits option.splits prod.splits)
  then obtain acts2 res where "fst (fold (mq_step r q) acts2 (ph2, s2)) = MqDone res"
  proof (cases ph2)
    case (MqDone res)
    then have "fst (fold (mq_step r q) [] (ph2, s2)) = MqDone res" by simp
    then show ?thesis using that by blast
  next
    case (MqAsking p2)
    then show ?thesis using i2 f2 asking_ends that by blast
  qed auto
  then have "fst (fold (mq_step r q) (acts @ acts2) (ph, s)) = MqDone res" using m x by simp
  then show ?thesis by blast
next
  case (MqAsking p)
  then show ?thesis using asking_ends assms by blast
next
  case (MqDone res)
  then have "fst (fold (mq_step r q) [] (ph, s)) = MqDone res" by simp
  then show ?thesis by blast
qed

text \<open>
  A question about the meeting need not hang: started in any state the RAG client can reach, and after any
  interleaving with further events of the client and its own resumptions, there is a continuation, timers that fire
  and resumptions, after which the question has its result; provided no answer with unreadable sources came.
\<close>

theorem meeting_query_can_finish:
  assumes "\<forall>ev \<in> set evs. readable ev" and "\<forall>a \<in> set acts. mq_readable a"
  shows "\<exists>more res. fst (fold (mq_step r q) (acts @ more) (mqStart throws now r q (fold rag_step evs init_rag))) = MqDone res"
proof -
  let ?x = "mqStart throws now r q (fold rag_step evs init_rag)"
  have "mq_inv ?x" by (rule mq_inv_start [OF rag.inv_run [OF rag_inv_init]])
  then have "mq_inv (fold (mq_step r q) acts ?x)" by (rule mq.inv_run)
  moreover have "forgotten (snd (fold (mq_step r q) acts ?x)) = {}"
    using fg_acts [OF assms(2)] fg_start fg_run [OF assms(1)] by (simp add: forgotten_def init_rag_def)
  ultimately obtain more res where "fst (fold (mq_step r q) more (fold (mq_step r q) acts ?x)) = MqDone res"
    using phase_ends by (metis surj_pair snd_conv)
  then show ?thesis by auto
qed

section \<open>The answer\<close>

text \<open>The result of a question about the meeting never carries search results.\<close>

definition mq_plain :: "mq_phase \<times> rag_st \<Rightarrow> bool" where
  "mq_plain x = (case fst x of MqDone res \<Rightarrow> tr_searchResults res = None | _ \<Rightarrow> True)"

lemma mq_plain_ask: "mq_plain (mqAsk throws now r q s)"
  by (simp add: mq_plain_def mqAsk_def mqFailed_def plain_def split: option.splits prod.splits)

lemma mq_plain_start: "mq_plain (mqStart throws now r q s)"
proof (cases "isConnected r s")
  case False
  then show ?thesis by (cases "connect r s") (simp add: mqStart_def mq_plain_def)
qed (simp add: mqStart_def mq_plain_ask)

interpretation mq_result: inv_system mq_plain "mq_step r q" for r q
proof (unfold_locales, goal_cases)
  case (1 x act)
  obtain ph s where x: "x = (ph, s)" by fastforce
  show ?case
  proof (cases act)
    case (Rag ev)
    then show ?thesis using 1 x by (simp add: mq_plain_def)
  next
    case (Resume throws now)
    then show ?thesis
      using 1 x mq_plain_ask by (cases ph) (auto simp: mq_plain_def mqFailed_def plain_def split: promise.splits rag_value.splits)
  qed
qed

lemma meeting_result_plain:
  assumes "fst (fold (mq_step r q) acts (mqStart throws now r q s)) = MqDone res"
  shows "tr_searchResults res = None"
proof -
  have "mq_plain (fold (mq_step r q) acts (mqStart throws now r q s))" by (rule mq_result.inv_run [OF mq_plain_start])
  then show ?thesis using assms by (simp add: mq_plain_def)
qed

lemma search_results:
  "tr_searchResults (executeWebSearch env q) = Some l \<Longrightarrow> \<exists>q' ty. searchFor env q' ty = Some l"
  "tr_searchResults (executeLocalSearch env q loc) = Some l \<Longrightarrow> \<exists>q' ty. searchFor env q' ty = Some l"
  by (auto simp: executeWebSearch_def executeLocalSearch_def plain_def Let_def split: option.splits if_splits)

lemma answer_nonempty: "fst (agentAnswer env room screen meeting msg history) \<noteq> []"
  using callLlmPure_nonempty clarification_nonempty
  by (auto simp: agentAnswer_def generateResponse_def generateDirectResponse_def generateFactCheckResponse_def Let_def
      executeTool_def split: option.splits list.splits)

lemma tool_results:
  assumes "tr_searchResults (executeTool env d meeting) = Some l"
  shows "if ad_tool d \<in> {[115, 101, 97, 114, 99, 104, 95, 119, 101, 98], [115, 101, 97, 114, 99, 104, 95, 108, 111, 99, 97, 108]}
    then \<exists>q ty. searchFor env q ty = Some l
    else ad_tool d = [113, 117, 101, 114, 121, 95, 109, 101, 101, 116, 105, 110, 103] \<and> tr_searchResults meeting = Some l"
  using assms
  by (auto simp: executeTool_def generateClarificationResponse_def plain_def Let_def split: if_splits dest: search_results)

text \<open>
  C37. The agent always has something to say. Once the question about the meeting has its result, in case that is the tool
  chosen, and whatever the model and the search service do, rejecting included, the answer is not empty; and the search results
  handed on with it are none, or the tool chosen is one of the two searches and they are a list that the search service returned.
\<close>

theorem agent_always_answers:
  assumes "ad_tool (decide env msg history (Some room) screen) = [113, 117, 101, 114, 121, 95, 109, 101, 101, 116, 105, 110, 103] \<Longrightarrow>
    fst (fold (mq_step room q) acts (mqStart throws now room q s)) = MqDone meeting"
  shows "fst (agentAnswer env room screen meeting msg history) \<noteq> [] \<and>
    (snd (agentAnswer env room screen meeting msg history) = [] \<or>
     ad_tool (decide env msg history (Some room) screen) \<in>
       {[115, 101, 97, 114, 99, 104, 95, 119, 101, 98], [115, 101, 97, 114, 99, 104, 95, 108, 111, 99, 97, 108]} \<and>
     (\<exists>query ty. searchFor env query ty = Some (snd (agentAnswer env room screen meeting msg history))))"
proof -
  let ?d = "decide env msg history (Some room) screen"
  have snd_eq: "snd (agentAnswer env room screen meeting msg history) =
      (case tr_searchResults (executeTool env ?d meeting) of None \<Rightarrow> [] | Some l \<Rightarrow> l)"
    by (simp add: agentAnswer_def Let_def)
  have m: "tr_searchResults meeting = None" if "ad_tool ?d = [113, 117, 101, 114, 121, 95, 109, 101, 101, 116, 105, 110, 103]"
    using meeting_result_plain [OF assms [OF that]] .
  show ?thesis
  proof (cases "tr_searchResults (executeTool env ?d meeting)")
    case None
    then show ?thesis using answer_nonempty snd_eq by simp
  next
    case (Some l)
    then have "ad_tool ?d \<in> {[115, 101, 97, 114, 99, 104, 95, 119, 101, 98], [115, 101, 97, 114, 99, 104, 95, 108, 111, 99, 97, 108]} \<and>
        (\<exists>query ty. searchFor env query ty = Some l)"
      using tool_results [OF Some] m by (metis option.discI)
    then show ?thesis using answer_nonempty Some snd_eq by simp
  qed
qed

definition silent_env :: agent_env where
  "silent_env = \<lparr>converseTool = (\<lambda>_ _ _. None), converseText = (\<lambda>_. None), searchFor = (\<lambda>_ _. None), draw = 0\<rparr>"

theorem agent_always_answers_witness:
  "fst (agentAnswer silent_env [82] None (plain [54924, 51032, 32, 44592, 47197, 50640, 32, 51217, 44540, 54624, 32, 49688, 32, 50630,
     49845, 45768, 45796, 46]) [47952, 50556] []) \<noteq> []"
proof -
  have "fst (fold (mq_step [82] (Some [47952, 50556])) [Rag (ETimer None 10000 0), Resume None 10000]
      (mqStart None 0 [82] (Some [47952, 50556]) init_rag)) =
    MqDone (plain [54924, 51032, 32, 44592, 47197, 50640, 32, 51217, 44540, 54624, 32, 49688, 32, 50630, 49845, 45768, 45796, 46])"
    by (simp add: mqStart_def mqAsk_def isConnected_def init_rag_def connect_def newPromise_def setTimer_def fireTimer_def
        settle_def clearTimer_def closeSocket_def setReady_def)
  then show ?thesis by (rule agent_always_answers [THEN conjunct1])
qed

end
