(* ===== verification/Access.thy ===== *)
theory Access
  imports Prelude
begin

text \<open>
  Authorisation: \<open>src/auth/guards/jwt-auth.guard.ts\<close>, \<open>src/auth/guards/room-access.guard.ts\<close> and
  \<open>src/auth/services/room-access.service.ts\<close>. The token library is the parameter \<open>verify\<close> and the REST back end the
  parameter \<open>fetch\<close>, \<open>None\<close> when the request fails. A guard yields the user it adds to the request or the exception
  it throws.
\<close>

section \<open>Guards\<close>

record JwtPayload =
  jp_sub :: jstr
  jp_nickName :: jstr

record auth_user =
  au_userId :: jstr
  au_nickName :: jstr

record http_request =
  rq_authorization :: "jstr option"
  rq_queryToken :: "jstr option"
  rq_bodyRoomId :: "jstr option"

datatype jwt_result = Verified JwtPayload | TokenExpired | TokenInvalid

datatype http_error = Unauthorized jstr | Forbidden jstr

record access_reply =
  ar_ok :: bool
  ar_hasAccess :: bool

definition extractToken :: "http_request \<Rightarrow> jstr option" where
  "extractToken rq =
     (if truthy_str (rq_authorization rq) \<and> starts_with [66, 101, 97, 114, 101, 114,
       32] (the (rq_authorization rq))
      then Some (drop 7 (the (rq_authorization rq)))
      else if truthy_str (rq_queryToken rq) then rq_queryToken rq else None)"

definition jwtSecret :: "jstr option \<Rightarrow> jstr" where
  "jwtSecret conf = str_or conf [100, 101, 102, 97, 117, 108, 116, 45, 115, 101, 99, 114, 101, 116, 45,
    99, 104, 97, 110, 103, 101, 45, 105, 110, 45, 112, 114, 111, 100, 117, 99, 116, 105, 111, 110]"

definition userOf :: "JwtPayload \<Rightarrow> auth_user" where
  "userOf p = \<lparr>au_userId = jp_sub p, au_nickName = jp_nickName p\<rparr>"

definition jwt_canActivate :: "(jstr \<Rightarrow> jstr \<Rightarrow> jwt_result) \<Rightarrow> jstr option \<Rightarrow> http_request \<Rightarrow> http_error + auth_user" where
  "jwt_canActivate verify conf rq =
     (let token = extractToken rq
      in if \<not> truthy_str token then Inl (Unauthorized [51064, 51613, 32, 53664, 53360, 51060, 32,
        54596, 50836, 54633, 45768, 45796])
         else case verify (the token) (jwtSecret conf) of
             TokenExpired \<Rightarrow> Inl (Unauthorized [53664, 53360, 51060, 32, 47564, 47308,
               46104, 50632, 49845, 45768, 45796])
           | TokenInvalid \<Rightarrow> Inl (Unauthorized [50976, 54952, 54616, 51648, 32, 50506,
             51008, 32, 53664, 53360, 51077, 45768, 45796])
           | Verified p \<Rightarrow> Inr (userOf p))"

definition restApiUrl :: "jstr option \<Rightarrow> jstr" where
  "restApiUrl conf = str_or conf [104, 116, 116, 112, 58, 47, 47, 108, 111, 99, 97, 108, 104, 111, 115,
    116, 58, 51, 48, 48, 50]"

definition checkRoomAccess :: "(jstr \<Rightarrow> jstr \<Rightarrow> access_reply option) \<Rightarrow> jstr option \<Rightarrow> jstr \<Rightarrow> jstr \<Rightarrow> bool" where
  "checkRoomAccess fetch api r token =
     (case fetch (restApiUrl api @ [47, 114, 101, 115, 116, 97, 112, 105, 47, 114, 111, 111, 109, 115,
       47] @ r @ [47, 97, 99, 99, 101, 115, 115]) ([66, 101, 97, 114, 101, 114, 32] @ token) of
        None \<Rightarrow> False
      | Some a \<Rightarrow> if \<not> ar_ok a then False else ar_hasAccess a)"

definition room_canActivate :: "(jstr \<Rightarrow> jstr \<Rightarrow> jwt_result) \<Rightarrow> (jstr \<Rightarrow> jstr \<Rightarrow> access_reply option) \<Rightarrow> jstr option \<Rightarrow> jstr option
    \<Rightarrow> http_request \<Rightarrow> http_error + auth_user" where
  "room_canActivate verify fetch conf api rq =
     (let token = extractToken rq
      in if \<not> truthy_str token then Inl (Unauthorized [51064, 51613, 32, 53664, 53360, 51060, 32,
        54596, 50836, 54633, 45768, 45796])
         else case verify (the token) (jwtSecret conf) of
             TokenExpired \<Rightarrow> Inl (Unauthorized [53664, 53360, 51060, 32, 47564, 47308,
               46104, 50632, 49845, 45768, 45796])
           | TokenInvalid \<Rightarrow> Inl (Unauthorized [50976, 54952, 54616, 51648, 32, 50506,
             51008, 32, 53664, 53360, 51077, 45768, 45796])
           | Verified p \<Rightarrow>
               if \<not> truthy_str (rq_bodyRoomId rq) then Inl (Unauthorized [114, 111, 111, 109, 73,
                 100, 44032, 32, 54596, 50836, 54633, 45768, 45796])
               else if \<not> checkRoomAccess fetch api (the (rq_bodyRoomId rq)) (the token)
               then Inl (Forbidden [51060, 32, 48169, 50640, 32, 45824, 54620, 32, 51217, 44540, 32,
                 44428, 54620, 51060, 32, 50630, 49845, 45768, 45796])
               else Inr (userOf p))"

section \<open>The contract of a guard\<close>

text \<open>
  What an endpoint relies on: a guard lets a request pass only with a user whose token the library verified.
\<close>

locale guard =
  fixes verify :: "jstr \<Rightarrow> jstr \<Rightarrow> jwt_result" and conf :: "jstr option"
    and activate :: "http_request \<Rightarrow> http_error + auth_user"
  assumes verified: "activate rq = Inr u \<Longrightarrow>
    \<exists>token p. extractToken rq = Some token \<and> token \<noteq> [] \<and> verify token (jwtSecret conf) = Verified p \<and> u = userOf p"
begin

lemma no_token_no_access: "extractToken rq = None \<Longrightarrow> \<exists>e. activate rq = Inl e"
  using verified [of rq] by (cases "activate rq") auto

lemma bad_token_no_access:
  "extractToken rq = Some token \<Longrightarrow> verify token (jwtSecret conf) \<in> {TokenExpired, TokenInvalid} \<Longrightarrow> \<exists>e. activate rq = Inl e"
  using verified [of rq] by (cases "activate rq") auto

end

interpretation jwt: guard verify conf "jwt_canActivate verify conf" for verify conf
  by unfold_locales (auto simp: jwt_canActivate_def truthy_str_def Let_def split: if_splits jwt_result.splits option.splits)

interpretation room: guard verify conf "room_canActivate verify fetch conf api" for verify fetch conf api
  by unfold_locales (auto simp: room_canActivate_def truthy_str_def Let_def split: if_splits jwt_result.splits option.splits)

section \<open>Properties\<close>

text \<open>
  C39. The guard of a room is the guard of the token followed by the check of the room: it accepts the same tokens, with
  the same errors, adds the same user, and asks for a room and for the confirmation of the back end besides; a failed
  request to the back end denies access.
\<close>

theorem room_guard_refines_jwt_guard:
  "room_canActivate verify fetch conf api rq = (case jwt_canActivate verify conf rq of
      Inl e \<Rightarrow> Inl e
    | Inr u \<Rightarrow>
        if \<not> truthy_str (rq_bodyRoomId rq) then Inl (Unauthorized [114, 111, 111, 109, 73, 100,
          44032, 32, 54596, 50836, 54633, 45768, 45796])
        else (case fetch (restApiUrl api @ [47, 114, 101, 115, 116, 97, 112, 105, 47, 114, 111, 111,
          109, 115, 47] @ the (rq_bodyRoomId rq) @ [47, 97, 99, 99, 101, 115, 115]) ([66, 101, 97, 114,
          101, 114, 32] @ the (extractToken rq)) of
            None \<Rightarrow> Inl (Forbidden [51060, 32, 48169, 50640, 32, 45824, 54620, 32, 51217,
            44540, 32, 44428, 54620, 51060, 32, 50630, 49845, 45768, 45796])
          | Some a \<Rightarrow> if ar_ok a \<and> ar_hasAccess a then Inr u else Inl (Forbidden [51060, 32, 48169, 50640, 32, 45824, 54620, 32, 51217,
            44540, 32, 44428, 54620, 51060, 32, 50630, 49845, 45768, 45796])))"
  by (auto simp: room_canActivate_def jwt_canActivate_def checkRoomAccess_def Let_def
      split: jwt_result.splits option.splits)

lemma access_confirmed:
  assumes "room_canActivate verify fetch conf api rq = Inr u"
  shows "\<exists>token p r. extractToken rq = Some token \<and> token \<noteq> [] \<and> verify token (jwtSecret conf) = Verified p \<and> u = userOf p \<and>
    rq_bodyRoomId rq = Some r \<and> r \<noteq> [] \<and>
    (\<exists>a. fetch (restApiUrl api @ [47, 114, 101, 115, 116, 97, 112, 105, 47, 114, 111, 111, 109,
      115, 47] @ r @ [47, 97, 99, 99, 101, 115, 115]) ([66, 101, 97, 114, 101, 114,
      32] @ token) = Some a \<and> ar_ok a \<and> ar_hasAccess a)"
proof -
  obtain token p where t: "extractToken rq = Some token" "token \<noteq> []" "verify token (jwtSecret conf) = Verified p" "u = userOf p"
    using room.verified [OF assms] by blast
  then show ?thesis
    using assms by (auto simp: room_canActivate_def checkRoomAccess_def truthy_str_def Let_def split: if_splits option.splits)
qed

text \<open>
  A request passes the guard of a room only with a token that the library verified under the configured secret, for
  a room for which the back end, asked with that very token, confirmed the access.
\<close>

theorem room_guard_sound:
  assumes "room_canActivate verify fetch conf api rq = Inr u"
  shows "\<exists>token p r. extractToken rq = Some token \<and> token \<noteq> [] \<and> verify token (jwtSecret conf) = Verified p \<and> u = userOf p \<and>
    rq_bodyRoomId rq = Some r \<and> r \<noteq> [] \<and>
    (\<exists>a. fetch (restApiUrl api @ [47, 114, 101, 115, 116, 97, 112, 105, 47, 114, 111, 111, 109,
      115, 47] @ r @ [47, 97, 99, 99, 101, 115, 115]) ([66, 101, 97, 114, 101, 114,
      32] @ token) = Some a \<and> ar_ok a \<and> ar_hasAccess a)"
  by (rule access_confirmed [OF assms])

definition demo_request :: http_request where
  "demo_request = \<lparr>rq_authorization = Some [66, 101, 97, 114, 101, 114, 32, 97, 98, 99],
    rq_queryToken = None, rq_bodyRoomId = Some [114, 49]\<rparr>"

theorem room_guard_sound_witness:
  "\<exists>token p r. extractToken demo_request = Some token \<and> p = \<lparr>jp_sub = [117, 49], jp_nickName = [110]\<rparr> \<and> rq_bodyRoomId demo_request = Some r \<and> r = [114, 49]"
proof -
  let ?v = "\<lambda>token secret. if token = [97, 98, 99] then Verified \<lparr>jp_sub = [117, 49],
    jp_nickName = [110]\<rparr> else TokenInvalid"
  let ?f = "\<lambda>url auth. if url = [104, 116, 116, 112, 58, 47, 47, 108, 111, 99, 97, 108, 104,
    111, 115, 116, 58, 51, 48, 48, 50, 47, 114, 101, 115, 116, 97, 112, 105, 47, 114, 111, 111, 109,
    115, 47, 114, 49, 47, 97, 99, 99, 101, 115, 115] then Some \<lparr>ar_ok = True,
    ar_hasAccess = True\<rparr> else None"
  have "room_canActivate ?v ?f None None demo_request = Inr (userOf \<lparr>jp_sub = [117, 49], jp_nickName = [110]\<rparr>)"
    by (simp add: room_canActivate_def extractToken_def demo_request_def truthy_str_def checkRoomAccess_def restApiUrl_def str_or_def)
  from room_guard_sound [OF this] show ?thesis by (auto simp: demo_request_def)
qed

end
