(* ===== verification/RoomApi.thy ===== *)
theory RoomApi
  imports Access RoomState Proactive RagClient
begin

text \<open>
  The rooms of the media server as the program uses them, \<open>src/livekit/livekit.service.ts\<close>, and the endpoints over them,
  \<open>src/livekit/livekit.controller.ts\<close>. The media server answers through the fields of \<open>lk_env\<close>, with the message of the
  error when a call rejects. What an operation does to the media server, to the bot and to the RAG server is a list of
  calls. A token is the record of its claims; signing it is left out. An endpoint yields its reply or the
  status and the message of the exception; an exception that no filter knows is a status 500. The test endpoints for
  audio and the static map are left out.
\<close>

section \<open>The service\<close>

record lk_room =
  rm_name :: jstr
  rm_metadata :: "jstr option"
  rm_maxParticipants :: int
  rm_creationTime :: int

record LkToken =
  tk_room :: jstr
  tk_identity :: jstr
  tk_ttl :: jstr
  tk_canPublish :: bool
  tk_canSubscribe :: bool
  tk_canPublishData :: bool
  tk_hidden :: "bool option"

datatype lk_call =
    LkCreateRoom jstr jstr int "jstr list"
  | LkCreateDispatch jstr jstr
  | LkDeleteRoom jstr
  | LkRemoveParticipant jstr jstr
  | BotStop jstr
  | BotStart jstr LkToken

record room_meta =
  mt_topic :: "jstr option"
  mt_title :: "jstr option"
  mt_createdBy :: "jstr option"

record lk_env =
  livekitUrl :: jstr
  agentName :: jstr
  lkRooms :: "jstr + lk_room list"
  lkCreate :: "jstr \<Rightarrow> jstr \<Rightarrow> int \<Rightarrow> jstr + lk_room"
  lkDelete :: "jstr \<Rightarrow> jstr option"
  lkDispatches :: "jstr \<Rightarrow> jstr list option"
  lkDispatchFails :: bool
  lkParticipants :: "jstr \<Rightarrow> jstr list option"
  stringifyMeta :: "jstr option \<Rightarrow> jstr \<Rightarrow> jstr"
  parseMeta :: "jstr \<Rightarrow> room_meta option"
  isoTime :: "int \<Rightarrow> jstr"

datatype api_error = Status nat jstr

definition roomAgents :: "lk_env \<Rightarrow> jstr list" where
  "roomAgents env = (if agentName env = [] then [] else [agentName env])"

definition ensureAgentDispatch :: "lk_env \<Rightarrow> jstr \<Rightarrow> lk_call list" where
  "ensureAgentDispatch env r =
     (if agentName env = [] then []
      else case lkDispatches env r of
          None \<Rightarrow> []
        | Some ds \<Rightarrow> if agentName env \<in> set ds \<or> lkDispatchFails env then [] else [LkCreateDispatch r (agentName env)])"

definition generateRoomId :: "int \<Rightarrow> jstr \<Rightarrow> jstr" where
  "generateRoomId now random = [114, 111, 111, 109, 45] @ jint now @ [45] @ random"

definition parseRoomMetadata :: "lk_env \<Rightarrow> jstr option \<Rightarrow> jstr \<times> jstr" where
  "parseRoomMetadata env m =
     (if \<not> truthy_str m then ([], [])
      else case parseMeta env (the m) of
          None \<Rightarrow> ([], [])
        | Some p \<Rightarrow> (str_or (mt_topic p) (str_or (mt_title p) []), str_or (mt_createdBy p) []))"

definition generateTokenForUser :: "jstr \<Rightarrow> jstr \<Rightarrow> bool \<Rightarrow> LkToken" where
  "generateTokenForUser r userName isBot = \<lparr>tk_room = r, tk_identity = userName, tk_ttl = [50,
    52, 104], tk_canPublish = True,
     tk_canSubscribe = True, tk_canPublishData = True, tk_hidden = (if isBot then Some False else None)\<rparr>"

text \<open>The first occurrence of each scheme is replaced.\<close>

fun replaceFirst :: "jstr \<Rightarrow> jstr \<Rightarrow> jstr \<Rightarrow> jstr" where
  "replaceFirst a b [] = (if a = [] then b else [])"
| "replaceFirst a b (c # s) = (if starts_with a (c # s) then b @ drop (length a) (c # s) else c # replaceFirst a b s)"

definition lkWsUrl :: "lk_env \<Rightarrow> jstr" where
  "lkWsUrl env = replaceFirst [104, 116, 116, 112, 115, 58, 47, 47] [119, 115, 115, 58, 47,
    47] (replaceFirst [104, 116, 116, 112, 58, 47, 47] [119, 115, 58, 47, 47] (livekitUrl env))"

record CreateReply =
  cr_roomId :: jstr
  cr_roomUrl :: jstr
  cr_roomTopic :: "jstr option"
  cr_maxParticipants :: int
  cr_userName :: jstr
  cr_token :: LkToken
  cr_livekitUrl :: jstr

definition createRoom :: "lk_env \<Rightarrow> int \<Rightarrow> jstr \<Rightarrow> jstr \<Rightarrow> jstr option \<Rightarrow> int option \<Rightarrow> (api_error + CreateReply) \<times> lk_call list" where
  "createRoom env now random userName topic maxP =
     (let r = generateRoomId now random; meta = stringifyMeta env topic userName;
          mx = (case maxP of None \<Rightarrow> 20 | Some n \<Rightarrow> n);
          call = LkCreateRoom r meta mx (roomAgents env)
      in case lkCreate env r meta mx of
           Inl e \<Rightarrow> (Inl (Status 500 ([70, 97, 105, 108, 101, 100, 32, 116, 111, 32, 99,
             114, 101, 97, 116, 101, 32, 114, 111, 111, 109, 58, 32] @ e)), [call])
         | Inr room \<Rightarrow> (Inr \<lparr>cr_roomId = rm_name room, cr_roomUrl = lkWsUrl env @ [47] @ rm_name room, cr_roomTopic = topic,
               cr_maxParticipants = rm_maxParticipants room, cr_userName = userName,
               cr_token = generateTokenForUser (rm_name room) userName False, cr_livekitUrl = lkWsUrl env\<rparr>,
             call # ensureAgentDispatch env (rm_name room)))"

definition joinFailed :: "jstr \<Rightarrow> api_error" where
  "joinFailed e = Status 500 ([70, 97, 105, 108, 101, 100, 32, 116, 111, 32, 106, 111, 105, 110, 32,
    114, 111, 111, 109, 58, 32] @ e)"

definition joinRoom :: "lk_env \<Rightarrow> jstr option \<Rightarrow> jstr \<Rightarrow> jstr option \<Rightarrow> bool \<Rightarrow> (api_error + LkToken \<times> jstr) \<times> lk_call list" where
  "joinRoom env roomId userName topic isBot =
     (if \<not> truthy_str roomId then (Inl (Status 400 [114, 111, 111, 109, 73, 100, 32, 105, 115, 32,
       114, 101, 113, 117, 105, 114, 101, 100]), [])
      else let r = the roomId;
               reply = Inr (generateTokenForUser r userName isBot, lkWsUrl env)
           in case lkRooms env of
                Inl e \<Rightarrow> (Inl (joinFailed e), [])
              | Inr rooms \<Rightarrow>
                  if list_ex (\<lambda>x. rm_name x = r) rooms then (reply, ensureAgentDispatch env r)
                  else let meta = stringifyMeta env (Some (str_or topic r)) userName;
                           call = LkCreateRoom r meta 20 (roomAgents env)
                       in case lkCreate env r meta 20 of
                            Inl e \<Rightarrow> (Inl (joinFailed e), [call])
                          | Inr _ \<Rightarrow> (reply, call # ensureAgentDispatch env r))"

record RoomInfo =
  ri_roomId :: jstr
  ri_roomTopic :: jstr
  ri_maxParticipants :: int
  ri_createdBy :: jstr
  ri_createdAt :: jstr

definition roomInfo :: "lk_env \<Rightarrow> lk_room \<Rightarrow> RoomInfo" where
  "roomInfo env x = (let (tp, by) = parseRoomMetadata env (rm_metadata x)
     in \<lparr>ri_roomId = rm_name x, ri_roomTopic = str_or (Some tp) (rm_name x), ri_maxParticipants = rm_maxParticipants x,
         ri_createdBy = by, ri_createdAt = isoTime env (rm_creationTime x * 1000)\<rparr>)"

definition listRooms :: "lk_env \<Rightarrow> api_error + RoomInfo list" where
  "listRooms env = (case lkRooms env of
      Inl e \<Rightarrow> Inl (Status 500 ([70, 97, 105, 108, 101, 100, 32, 116, 111, 32, 108, 105,
        115, 116, 32, 114, 111, 111, 109, 115, 58, 32] @ e))
    | Inr rooms \<Rightarrow> Inr (map (roomInfo env) rooms))"

definition getRoom :: "lk_env \<Rightarrow> jstr \<Rightarrow> api_error + RoomInfo" where
  "getRoom env r = (case lkRooms env of
      Inl e \<Rightarrow> Inl (Status 500 ([70, 97, 105, 108, 101, 100, 32, 116, 111, 32, 103, 101,
        116, 32, 114, 111, 111, 109, 58, 32] @ e))
    | Inr rooms \<Rightarrow> (case List.find (\<lambda>x. rm_name x = r) rooms of
        None \<Rightarrow> Inl (Status 500 [70, 97, 105, 108, 101, 100, 32, 116, 111, 32, 103, 101,
          116, 32, 114, 111, 111, 109, 58, 32, 82, 111, 111, 109, 32, 110, 111, 116, 32, 102, 111, 117,
          110, 100])
      | Some x \<Rightarrow> Inr (roomInfo env x)))"

definition deleteRoom :: "lk_env \<Rightarrow> jstr \<Rightarrow> (api_error + jstr) \<times> lk_call list" where
  "deleteRoom env r = (case lkRooms env of
      Inl e \<Rightarrow> (Inl (Status 500 ([70, 97, 105, 108, 101, 100, 32, 116, 111, 32, 100, 101,
        108, 101, 116, 101, 32, 114, 111, 111, 109, 58, 32] @ e)), [])
    | Inr rooms \<Rightarrow> (case List.find (\<lambda>x. rm_name x = r) rooms of
        None \<Rightarrow> (Inl (Status 500 [70, 97, 105, 108, 101, 100, 32, 116, 111, 32, 100, 101,
          108, 101, 116, 101, 32, 114, 111, 111, 109, 58, 32, 82, 111, 111, 109, 32, 110, 111, 116, 32,
          102, 111, 117, 110, 100]), [])
      | Some x \<Rightarrow> (case lkDelete env (rm_name x) of
          Some e \<Rightarrow> (Inl (Status 500 ([70, 97, 105, 108, 101, 100, 32, 116, 111, 32, 100,
            101, 108, 101, 116, 101, 32, 114, 111, 111, 109, 58, 32] @ e)), [LkDeleteRoom (rm_name x)])
        | None \<Rightarrow> (Inr (rm_name x), [LkDeleteRoom (rm_name x)]))))"

definition botPrefix :: jstr where "botPrefix = [97, 105, 45, 98, 111, 116]"

definition listBotIdentities :: "lk_env \<Rightarrow> jstr \<Rightarrow> jstr list" where
  "listBotIdentities env r = (case lkParticipants env r of None \<Rightarrow> [] | Some ps \<Rightarrow> filter (starts_with botPrefix) ps)"

definition hasBotParticipant :: "lk_env \<Rightarrow> jstr \<Rightarrow> bool" where
  "hasBotParticipant env r = (case lkParticipants env r of None \<Rightarrow> False | Some ps \<Rightarrow> list_ex (starts_with botPrefix) ps)"

definition removeBots :: "lk_env \<Rightarrow> jstr \<Rightarrow> lk_call list" where
  "removeBots env r = map (LkRemoveParticipant r) (listBotIdentities env r)"

text \<open>Starting the bot of a room: the old bot and every bot participant leave before the new one enters.\<close>

definition startBotForRoom :: "lk_env \<Rightarrow> int \<Rightarrow> jstr \<Rightarrow> rooms \<Rightarrow> lk_call list" where
  "startBotForRoom env rnd r st =
     (if isActive r st then [BotStop r] else []) @ removeBots env r @
     [BotStart r (generateTokenForUser r (botPrefix @ [45] @ jint rnd) True)]"

definition embedFiles :: "http_client \<Rightarrow> jstr option \<Rightarrow> jstr \<Rightarrow> jstr \<Rightarrow> HttpReply" where
  "embedFiles http url r payload = startMeeting http url r payload"

definition lk_endMeeting :: "http_client \<Rightarrow> jstr option \<Rightarrow> jstr \<Rightarrow> rooms \<Rightarrow> HttpReply \<times> rooms" where
  "lk_endMeeting http url r st = (endMeeting http url r, if isActive r st then enterStandbyMode r st else st)"

section \<open>Endpoints\<close>

text \<open>The bot. \<open>failure\<close> is the message of the error with which the bot fails to start.\<close>

definition http_startVoiceBot :: "lk_env \<Rightarrow> int \<Rightarrow> jstr option \<Rightarrow> jstr \<Rightarrow> rooms \<Rightarrow> (api_error + jstr) \<times> lk_call list" where
  "http_startVoiceBot env rnd failure roomId st =
     (let r = trim roomId
      in (case failure of
            Some e \<Rightarrow> Inl (Status 500 ([65, 73, 32, 48391, 32, 49884, 51089, 32, 49892,
              54056, 58, 32] @ e))
          | None \<Rightarrow> Inr ([65, 73, 32, 48391, 51060, 32, 48169, 32, 39] @ r @ [39, 50640, 32,
            51077, 51109, 54664, 49845, 45768, 45796, 46]),
          startBotForRoom env rnd r st))"

definition http_stopVoiceBot :: "jstr \<Rightarrow> jstr \<times> lk_call list" where
  "http_stopVoiceBot roomId = ([65, 73, 32, 48391, 51060, 32, 48169, 32, 39] @ trim roomId @ [39,
    50640, 49436, 32, 53748, 51109, 54664, 49845, 45768, 45796, 46], [BotStop (trim roomId)])"

definition http_voiceBotStatus :: "jstr \<Rightarrow> rooms \<Rightarrow> jstr \<times> bool" where
  "http_voiceBotStatus roomId st = (trim roomId, isActive (trim roomId) st)"

text \<open>
  The analysis of a screen: \<open>validation\<close> is the error of an invalid image and \<open>analysis\<close> the outcome of the model. The
  exception for an invalid image is thrown inside the \<open>try\<close> whose handler words every error anew.
\<close>

definition http_analyzeScreen :: "jstr option option \<Rightarrow> jstr + 'a \<Rightarrow> api_error + 'a" where
  "http_analyzeScreen validation analysis =
     (let result = (case validation of Some e \<Rightarrow> Inl (Status 400 (str_or e [51060, 48120,
       51648, 32, 44160, 51613, 32, 49892, 54056]))
                    | None \<Rightarrow> (case analysis of Inl e \<Rightarrow> Inl (Status 500 e) | Inr x \<Rightarrow> Inr x))
      in case result of
           Inr x \<Rightarrow> Inr x
         | Inl (Status n e) \<Rightarrow> Inl (Status 500 ([54868, 47732, 32, 48516, 49437, 32, 49892,
           54056, 58, 32] @ e)))"

definition http_addScreenContext :: "int \<Rightarrow> jstr \<Rightarrow> ScreenCapture \<Rightarrow> rooms \<Rightarrow> (api_error + jstr) \<times> rooms" where
  "http_addScreenContext now roomId capture st =
     (case addScreenContext now (trim roomId) capture st of
        ((ok, msg), st1) \<Rightarrow> (if \<not> ok then Inl (Status 404 msg) else Inr msg, st1))"

definition http_clearScreenContext :: "jstr \<Rightarrow> rooms \<Rightarrow> cooldowns \<Rightarrow> (api_error + jstr) \<times> rooms \<times> cooldowns" where
  "http_clearScreenContext roomId st cds =
     (case clearScreenContext (trim roomId) st cds of
        ((ok, msg), x) \<Rightarrow> (if \<not> ok then Inl (Status 404 msg) else Inr msg, x))"

definition http_screenContextStatus :: "jstr \<Rightarrow> rooms \<Rightarrow> jstr \<times> bool \<times> nat \<times> nat" where
  "http_screenContextStatus roomId st = (trim roomId, getScreenContextStatus (trim roomId) st)"

text \<open>Creating a room starts its bot, whatever becomes of it.\<close>

definition http_createRoom :: "lk_env \<Rightarrow> int \<Rightarrow> jstr \<Rightarrow> int \<Rightarrow> jstr \<Rightarrow> jstr option \<Rightarrow> int option \<Rightarrow> rooms \<Rightarrow> (api_error + CreateReply) \<times> lk_call list" where
  "http_createRoom env now random rnd userName topic maxP st =
     (case createRoom env now random userName topic maxP of
        (Inl e, calls) \<Rightarrow> (Inl e, calls)
      | (Inr x, calls) \<Rightarrow> (Inr x, calls @ startBotForRoom env rnd (cr_roomId x) st))"

record join_request = http_request +
  jr_userName :: jstr
  jr_topic :: "jstr option"

text \<open>\<open>join\<close> and \<open>token\<close>: the guard of the room, then the service.\<close>

definition http_joinRoom :: "lk_env \<Rightarrow> (http_request \<Rightarrow> http_error + auth_user) \<Rightarrow> join_request \<Rightarrow> (api_error + LkToken \<times> jstr) \<times> lk_call list" where
  "http_joinRoom env activate rq = (case activate (http_request.truncate rq) of
      Inl (Unauthorized e) \<Rightarrow> (Inl (Status 401 e), [])
    | Inl (Forbidden e) \<Rightarrow> (Inl (Status 403 e), [])
    | Inr u \<Rightarrow> joinRoom env (rq_bodyRoomId rq) (jr_userName rq) (jr_topic rq) False)"

definition http_embedFiles :: "http_client \<Rightarrow> jstr option \<Rightarrow> jstr \<Rightarrow> jstr \<Rightarrow> bool \<times> jstr \<times> jstr" where
  "http_embedFiles http url r payload = (let x = embedFiles http url r payload
     in (hr_success x, r, str_or (hr_message x) [51076, 48288, 46377, 32, 50836, 52397, 32, 50756, 47308]))"

definition http_injectMockConversation :: "int \<Rightarrow> jstr option \<Rightarrow> (jstr \<times> jstr) list \<Rightarrow> rag_st \<Rightarrow> (api_error + nat \<times> jstr) \<times> rag_st" where
  "http_injectMockConversation now roomId us s =
     (if \<not> truthy_str roomId \<or> us = [] then (Inl (Status 400 [114, 111, 111, 109, 73, 100,
       50752, 32, 117, 116, 116, 101, 114, 97, 110, 99, 101, 115, 32, 48176, 50676, 51060, 32, 54596,
       50836, 54633, 45768, 45796, 46]), s)
      else case injectMockStatements now (the roomId) us s of
          ((ok, n), s1) \<Rightarrow> (Inr (n, jint (int n) @ [44060, 51032, 32, 48156, 50616, 51060,
            32, 82, 65, 71, 32, 48260, 54140, 50640, 32, 51452, 51077, 46104, 50632, 49845, 45768,
            45796, 46]), s1))"

definition http_injectPreviousMeeting :: "jstr \<Rightarrow> jstr option \<Rightarrow> jstr option \<Rightarrow> jstr option \<Rightarrow> jstr list option \<Rightarrow> jstr list option
    \<Rightarrow> jstr option \<Rightarrow> rooms \<Rightarrow> (api_error + jstr) \<times> rooms" where
  "http_injectPreviousMeeting today roomId title summary decisions items date st =
     (if \<not> truthy_str roomId \<or> \<not> truthy_str title \<or> \<not> truthy_str summary
      then (Inl (Status 400 [114, 111, 111, 109, 73, 100, 44, 32, 109, 101, 101, 116, 105, 110, 103,
        84, 105, 116, 108, 101, 44, 32, 115, 117, 109, 109, 97, 114, 121, 44032, 32, 54596, 50836,
        54633, 45768, 45796, 46]), st)
      else case setPreviousMeetingContext (the roomId)
             \<lparr>meetingTitle = the title, pm_summary = the summary, keyDecisions = (case decisions of None \<Rightarrow> [] | Some l \<Rightarrow> l),
              actionItems = (case items of None \<Rightarrow> [] | Some l \<Rightarrow> l), pm_date = str_or date today\<rparr> st of
          (ok, st1) \<Rightarrow>
            if \<not> ok then (Inl (Status 404 ([48169, 51012, 32, 52286, 51012, 32, 49688, 32, 50630,
              49845, 45768, 45796, 58, 32] @ the roomId @ [46, 32, 47676, 51200, 32, 48169, 50640, 32,
              48391, 51060, 32, 51077, 51109, 54644, 50556, 32, 54633, 45768, 45796, 46])), st1)
            else (Inr ([51060, 51204, 32, 54924, 51032, 32, 34] @ the title @ [34, 32, 52968, 53581,
              49828, 53944, 44032, 32, 49444, 51221, 46104, 50632, 49845, 45768, 45796, 46]), st1))"

definition http_mockBuffer :: "jstr \<Rightarrow> rag_st \<Rightarrow> (jstr \<times> jstr \<times> int) list \<times> nat \<times> jstr" where
  "http_mockBuffer r s = (getBufferContent r s, length (getBufferContent r s), getFormattedTranscript r s)"

definition http_clearMockBuffer :: "jstr \<Rightarrow> rag_st \<Rightarrow> rag_st" where
  "http_clearMockBuffer r s = RagClient.clearBuffer r s"

definition http_previousMeeting :: "jstr \<Rightarrow> rooms \<Rightarrow> (PreviousMeeting \<times> jstr) option" where
  "http_previousMeeting r st = map_option (\<lambda>c. (c, formatPreviousMeetingBriefing r st)) (getPreviousMeetingContext r st)"

definition http_activeRooms :: "rooms \<Rightarrow> nat \<times> jstr list" where
  "http_activeRooms st = (length (getActiveRoomIds st), getActiveRoomIds st)"

definition http_getIssues :: "http_client \<Rightarrow> jstr option \<Rightarrow> jstr \<Rightarrow> jstr option \<Rightarrow> api_error + jstr option" where
  "http_getIssues http url roomId refresh =
     (let r = trim roomId
      in if r = [] then Inl (Status 400 [114, 111, 111, 109, 73, 100, 44032, 32, 54596, 50836, 54633,
        45768, 45796, 46])
         else let x = getIssues http url r (refresh = Some [116, 114, 117, 101])
              in if \<not> hr_success x then Inl (Status 502 (str_or (hr_message x) [45436, 51216, 32,
                51312, 54924, 32, 49892, 54056])) else Inr (hr_data x))"

definition http_endMeeting :: "http_client \<Rightarrow> jstr option \<Rightarrow> jstr option \<Rightarrow> rooms \<Rightarrow> (jstr \<times> jstr \<times> jstr option) \<times> rooms" where
  "http_endMeeting http url roomId st =
     (case map_option trim roomId of
        None \<Rightarrow> (([102, 97, 105, 108], [], None), st)
      | Some r \<Rightarrow>
          if r = [] then (([102, 97, 105, 108], [], None), st)
          else let (x, st1) = lk_endMeeting http url r st
               in ((if hr_success x then [115, 117, 99, 99, 101, 115, 115] else [102, 97, 105, 108], r,
                 hr_message x), st1))"

text \<open>The start of a report: refused at once, or in progress in the client.\<close>

definition http_requestReport :: "int \<Rightarrow> jstr \<Rightarrow> rag_st \<Rightarrow> (jstr \<times> jstr \<times> jstr) option \<times> rag_st" where
  "http_requestReport now roomId s =
     (let r = trim roomId
      in if r = [] then (Some ([102, 97, 105, 108], [], [114, 111, 111, 109, 73, 100, 44032, 32, 54596,
        50836, 54633, 45768, 45796, 46]), s)
         else case requestReport now r s of
             (Some e, s1) \<Rightarrow> (Some ([102, 97, 105, 108], r, e), s1)
           | (None, s1) \<Rightarrow> (None, s1))"

section \<open>Properties\<close>

text \<open>
  C40. The endpoints for joining a room and for a token, which do the same, give out a token only to a request whose own token was
  verified and for whose room the back end confirmed the access; the token is for that room and lets its holder publish and subscribe, under the name that the
  request chose. The endpoint that creates a room is another matter: it has no guard and returns a token for the new room.
\<close>

theorem join_token_needs_access:
  assumes "fst (http_joinRoom env (room_canActivate verify fetch conf api) rq) = Inr (token, url)"
  shows "\<exists>jwt p a. extractToken (http_request.truncate rq) = Some jwt \<and> verify jwt (jwtSecret conf) = Verified p \<and>
    fetch (restApiUrl api @ [47, 114, 101, 115, 116, 97, 112, 105, 47, 114, 111, 111, 109, 115,
      47] @ tk_room token @ [47, 97, 99, 99, 101, 115, 115]) ([66, 101, 97, 114, 101, 114,
      32] @ jwt) = Some a \<and> ar_ok a \<and> ar_hasAccess a \<and>
    Some (tk_room token) = rq_bodyRoomId rq \<and> tk_identity token = jr_userName rq"
proof -
  let ?g = "room_canActivate verify fetch conf api (http_request.truncate rq)"
  obtain u where u: "?g = Inr u"
    using assms by (cases ?g) (auto simp: http_joinRoom_def split: http_error.splits)
  then have "fst (joinRoom env (rq_bodyRoomId rq) (jr_userName rq) (jr_topic rq) False) = Inr (token, url)"
    using assms by (simp add: http_joinRoom_def)
  then have t: "tk_room token = the (rq_bodyRoomId rq)" "tk_identity token = jr_userName rq"
    by (auto simp: joinRoom_def generateTokenForUser_def Let_def split: if_splits sum.splits)
  have r: "rq_bodyRoomId (http_request.truncate rq) = rq_bodyRoomId rq" by (simp add: http_request.truncate_def)
  obtain jwt p r a where "extractToken (http_request.truncate rq) = Some jwt" "verify jwt (jwtSecret conf) = Verified p"
    "rq_bodyRoomId rq = Some r"
    "fetch (restApiUrl api @ [47, 114, 101, 115, 116, 97, 112, 105, 47, 114, 111, 111, 109, 115,
      47] @ r @ [47, 97, 99, 99, 101, 115, 115]) ([66, 101, 97, 114, 101, 114,
      32] @ jwt) = Some a" "ar_ok a" "ar_hasAccess a"
    using access_confirmed [OF u] r by auto
  then show ?thesis using t by (intro exI [of _ jwt] exI [of _ p] exI [of _ a]) simp
qed

definition demo_join :: join_request where
  "demo_join = \<lparr>rq_authorization = Some [66, 101, 97, 114, 101, 114, 32, 97, 98, 99],
    rq_queryToken = None, rq_bodyRoomId = Some [114, 49], jr_userName = [104, 111, 115, 116],
    jr_topic = None\<rparr>"

definition demo_lk :: lk_env where
  "demo_lk = \<lparr>livekitUrl = [104, 116, 116, 112, 115, 58, 47, 47, 108, 107], agentName = [97,
    117, 114, 97, 45, 98, 111, 116], lkRooms = Inr [\<lparr>rm_name = [114, 49], rm_metadata = None,
    rm_maxParticipants = 20, rm_creationTime = 0\<rparr>],
     lkCreate = (\<lambda>_ _ _. Inl []), lkDelete = (\<lambda>_. None), lkDispatches = (\<lambda>_. None), lkDispatchFails = False,
     lkParticipants = (\<lambda>_. None), stringifyMeta = (\<lambda>_ _. []), parseMeta = (\<lambda>_. None), isoTime = (\<lambda>_. [])\<rparr>"

definition demo_verify :: "jstr \<Rightarrow> jstr \<Rightarrow> jwt_result" where
  "demo_verify token secret = (if token = [97, 98, 99] then Verified \<lparr>jp_sub = [117, 49],
    jp_nickName = [110]\<rparr> else TokenInvalid)"

definition demo_fetch :: "jstr \<Rightarrow> jstr \<Rightarrow> access_reply option" where
  "demo_fetch url auth = (if url = [104, 116, 116, 112, 58, 47, 47, 108, 111, 99, 97, 108, 104, 111,
    115, 116, 58, 51, 48, 48, 50, 47, 114, 101, 115, 116, 97, 112, 105, 47, 114, 111, 111, 109, 115,
    47, 114, 49, 47, 97, 99, 99, 101, 115, 115] then Some \<lparr>ar_ok = True,
    ar_hasAccess = True\<rparr> else None)"

lemma demo_joined: "fst (http_joinRoom demo_lk (room_canActivate demo_verify demo_fetch None None) demo_join) =
    Inr (generateTokenForUser [114, 49] [104, 111, 115, 116] False, [119, 115, 115, 58, 47, 47, 108, 107])"
  by (simp add: http_joinRoom_def demo_join_def demo_lk_def http_request.truncate_def room_canActivate_def demo_verify_def demo_fetch_def
      extractToken_def truthy_str_def checkRoomAccess_def restApiUrl_def str_or_def joinRoom_def lkWsUrl_def Let_def)

theorem join_token_needs_access_witness:
  "\<exists>a. demo_fetch [104, 116, 116, 112, 58, 47, 47, 108, 111, 99, 97, 108, 104, 111, 115, 116,
    58, 51, 48, 48, 50, 47, 114, 101, 115, 116, 97, 112, 105, 47, 114, 111, 111, 109, 115, 47, 114, 49,
    47, 97, 99, 99, 101, 115, 115] [66, 101, 97, 114, 101, 114, 32, 97, 98,
    99] = Some a \<and> ar_hasAccess a"
  using join_token_needs_access [OF demo_joined]
  by (auto simp: demo_fetch_def generateTokenForUser_def restApiUrl_def str_or_def)

text \<open>
  The identity of the token is not tied to the user: whoever may join an existing room may join it under any name,
  that of a host or of the bot included.
\<close>

theorem join_under_any_name:
  assumes "fst (http_joinRoom env activate rq) = Inr (token, url)" and "lkRooms env = Inr rooms"
    and "tk_room token \<in> rm_name ` set rooms"
  shows "fst (http_joinRoom env activate (rq\<lparr>jr_userName := name\<rparr>)) = Inr (token\<lparr>tk_identity := name\<rparr>, url)"
proof -
  have "http_request.truncate (rq\<lparr>jr_userName := name\<rparr>) = http_request.truncate rq" by (simp add: http_request.truncate_def)
  then show ?thesis
    using assms by (auto simp: http_joinRoom_def joinRoom_def generateTokenForUser_def list_ex_iff Let_def
        split: sum.splits http_error.splits if_splits)
qed

theorem join_under_any_name_witness:

      "fst (http_joinRoom demo_lk (room_canActivate demo_verify demo_fetch None None) (demo_join\<lparr>jr_userName := [97,
    105, 45, 98, 111, 116, 45, 55]\<rparr>)) =
    Inr (generateTokenForUser [114, 49] [97, 105, 45, 98, 111, 116, 45, 55] False, [119, 115, 115, 58,
      47, 47, 108, 107])"
  using join_under_any_name [OF demo_joined, of "[\<lparr>rm_name = [114, 49], rm_metadata = None,
    rm_maxParticipants = 20, rm_creationTime = 0\<rparr>]" "[97, 105, 45, 98, 111, 116, 45, 55]"]
  by (simp add: demo_lk_def generateTokenForUser_def)

text \<open>
  An image that fails the validation is reported as an internal error of the server, never as a bad request: the
  handler of the errors words the exception for the bad request anew.
\<close>

theorem invalid_image_is_server_error:
  "http_analyzeScreen (Some e) analysis = Inl (Status 500 ([54868, 47732, 32, 48516, 49437, 32, 49892,
    54056, 58, 32] @ str_or e [51060, 48120, 51648, 32, 44160, 51613, 32, 49892, 54056]))"
  by (simp add: http_analyzeScreen_def Let_def)

text \<open>
  Ending a meeting over HTTP puts the bot of the room into standby, if there is one, and leaves the other rooms
  alone, whatever the RAG server answers; the answer only decides the status of the reply.
\<close>

theorem end_meeting_stands_by:
  assumes "trim roomId \<noteq> []"
  shows "(case jget (snd (http_endMeeting http url (Some roomId) st)) (trim roomId) of
      None \<Rightarrow> \<not> isActive (trim roomId) st
    | Some c \<Rightarrow> standbyMode c) \<and>
    (\<forall>r. r = trim roomId \<or> jget (snd (http_endMeeting http url (Some roomId) st)) r = jget st r)"
  using assms
  by (auto simp: http_endMeeting_def lk_endMeeting_def enterStandbyMode_def isActive_def jhas_def Let_def split: option.splits)

end
