(* ===== verification/JsDate.thy ===== *)
theory JsDate
  imports Prelude
begin

text \<open>
  The \<open>Date\<close> objects of ECMAScript as the calendar code uses them: an instant in milliseconds since 1970 (UTC), read
  and written through the local time of the server. \<open>tz\<close> is what local time is ahead of UTC, in milliseconds; it is
  constant, as in Korea, where the service runs, and in UTC, where containers run. The main lemma is that reading the
  year, the month and the day of an instant and building the day from them are inverse, so that
  \<open>d.setDate(d.getDate() + n)\<close> moves by \<open>n\<close> days, across months and years.
\<close>

section \<open>Days, years and months\<close>

definition msPerDay :: int where "msPerDay = 86400000"

definition dayFromYear :: "int \<Rightarrow> int" where
  "dayFromYear y = 365 * (y - 1970) + (y - 1969) div 4 - (y - 1901) div 100 + (y - 1601) div 400"

definition leapYear :: "int \<Rightarrow> bool" where
  "leapYear y \<longleftrightarrow> y mod 4 = 0 \<and> (y mod 100 \<noteq> 0 \<or> y mod 400 = 0)"

text \<open>The year of a day: an estimate, off by at most one.\<close>

definition yearOfDay :: "int \<Rightarrow> int" where
  "yearOfDay d = (let y = 1970 + 400 * d div 146097
     in if d < dayFromYear y then y - 1 else if dayFromYear (y + 1) \<le> d then y + 1 else y)"

text \<open>The days of a year before its months; the month and the day of the month of a day of the year.\<close>

definition monthStarts :: "bool \<Rightarrow> int list" where
  "monthStarts leap = (if leap then [0, 31, 60, 91, 121, 152, 182, 213, 244, 274, 305, 335]
     else [0, 31, 59, 90, 120, 151, 181, 212, 243, 273, 304, 334])"

definition monthOfDay :: "int \<Rightarrow> int" where
  "monthOfDay d = (let y = yearOfDay d
     in int (length (takeWhile (\<lambda>s. s \<le> d - dayFromYear y) (monthStarts (leapYear y)))) - 1)"

definition dateOfDay :: "int \<Rightarrow> int" where
  "dateOfDay d = (let y = yearOfDay d in d - dayFromYear y - monthStarts (leapYear y) ! nat (monthOfDay d) + 1)"

text \<open>\<open>MakeDay\<close>: months and days out of range carry over.\<close>

definition makeDay :: "int \<Rightarrow> int \<Rightarrow> int \<Rightarrow> int" where
  "makeDay y m dt = (let yr = y + m div 12 in dayFromYear yr + monthStarts (leapYear yr) ! nat (m mod 12) + dt - 1)"

definition weekDay :: "int \<Rightarrow> int" where
  "weekDay d = (d + 4) mod 7"

section \<open>Date objects\<close>

text \<open>A date object is its instant.\<close>

definition localDay :: "int \<Rightarrow> int \<Rightarrow> int" where
  "localDay tz t = (t + tz) div msPerDay"

definition getFullYear :: "int \<Rightarrow> int \<Rightarrow> int" where "getFullYear tz t = yearOfDay (localDay tz t)"

definition getMonth :: "int \<Rightarrow> int \<Rightarrow> int" where "getMonth tz t = monthOfDay (localDay tz t)"

definition getDate :: "int \<Rightarrow> int \<Rightarrow> int" where "getDate tz t = dateOfDay (localDay tz t)"

definition getDay :: "int \<Rightarrow> int \<Rightarrow> int" where "getDay tz t = weekDay (localDay tz t)"

definition getHours :: "int \<Rightarrow> int \<Rightarrow> int" where "getHours tz t = (t + tz) div 3600000 mod 24"

definition setDate :: "int \<Rightarrow> int \<Rightarrow> int \<Rightarrow> int" where
  "setDate tz dt t = makeDay (getFullYear tz t) (getMonth tz t) dt * msPerDay + (t + tz) mod msPerDay - tz"

definition setHours :: "int \<Rightarrow> int \<Rightarrow> int \<Rightarrow> int \<Rightarrow> int \<Rightarrow> int \<Rightarrow> int" where
  "setHours tz h mi s ms t = localDay tz t * msPerDay + h * 3600000 + mi * 60000 + s * 1000 + ms - tz"

text \<open>\<open>new Date(y, m, d)\<close>, a local midnight, for a year from 100 on.\<close>

definition newDate :: "int \<Rightarrow> int \<Rightarrow> int \<Rightarrow> int \<Rightarrow> int" where
  "newDate tz y m d = makeDay y m d * msPerDay - tz"

definition padStart :: "nat \<Rightarrow> int \<Rightarrow> jstr \<Rightarrow> jstr" where
  "padStart n c s = replicate (n - length s) c @ s"

definition pad2 :: "int \<Rightarrow> jstr" where "pad2 i = padStart 2 48 (jint i)"

definition isoYear :: "int \<Rightarrow> jstr" where
  "isoYear y = (if 0 \<le> y \<and> y \<le> 9999 then padStart 4 48 (jint y)
     else (if y < 0 then 45 else 43) # padStart 6 48 (jint (abs y)))"

definition toISOString :: "int \<Rightarrow> jstr" where
  "toISOString t = isoYear (getFullYear 0 t) @ [45] @ pad2 (getMonth 0 t + 1) @ [45] @ pad2 (getDate 0 t) @ [84] @
     pad2 (getHours 0 t) @ [58] @ pad2 (t div 60000 mod 60) @ [58] @ pad2 (t div 1000 mod 60) @ [46] @
     padStart 3 48 (jint (t mod 1000)) @ [90]"

text \<open>
  \<open>new Date(s)\<close> for a local time \<open>YYYY-MM-DDTHH:mm:ss\<close>, as V8 reads it: a day up to 31 carries over into the next
  month, hour 24 is the end of the day, and any other value out of range makes the date invalid.
\<close>

definition num_at :: "nat \<Rightarrow> nat \<Rightarrow> jstr \<Rightarrow> int option" where
  "num_at i n s = (let ds = take n (drop i s)
     in if length ds = n \<and> list_all (\<lambda>c. 48 \<le> c \<and> c \<le> 57) ds then Some (digits_value ds) else None)"

definition validTime :: "int \<Rightarrow> int \<Rightarrow> int \<Rightarrow> bool" where
  "validTime h mi s \<longleftrightarrow> (h \<le> 23 \<and> mi \<le> 59 \<and> s \<le> 59) \<or> (h = 24 \<and> mi = 0 \<and> s = 0)"

definition parseLocal :: "int \<Rightarrow> jstr \<Rightarrow> int option" where
  "parseLocal tz s =
     (if length s = 19 \<and> s ! 4 = 45 \<and> s ! 7 = 45 \<and> s ! 10 = 84 \<and> s ! 13 = 58 \<and> s ! 16 = 58
      then (case (num_at 0 4 s, num_at 5 2 s, num_at 8 2 s, num_at 11 2 s, num_at 14 2 s, num_at 17 2 s) of
             (Some y, Some mo, Some d, Some h, Some mi, Some sec) \<Rightarrow>
               if 1 \<le> mo \<and> mo \<le> 12 \<and> 1 \<le> d \<and> d \<le> 31 \<and> validTime h mi sec
               then Some (makeDay y (mo - 1) d * msPerDay + h * 3600000 + mi * 60000 + sec * 1000 - tz) else None
           | _ \<Rightarrow> None)
      else None)"

section \<open>Reading and building days\<close>

lemma div_bounds: "0 < n \<Longrightarrow> n * (x div n) \<le> x" "0 < n \<Longrightarrow> x < n * (x div n) + (n :: int)"
  using pos_mod_sign [of n x] pos_mod_bound [of n x] mult_div_mod_eq [of n x] by linarith+

lemma div_next:
  fixes x n :: int
  assumes "0 < n"
  shows "(x + 1) div n = x div n + (if n dvd x + 1 then 1 else 0)"
proof (cases "n dvd x + 1")
  case True
  then obtain k where k: "x + 1 = n * k" by (elim dvdE)
  have "x div n = k - 1"
    by (rule int_div_pos_eq [of _ _ _ "n - 1"]) (use k assms in \<open>simp_all add: algebra_simps\<close>)
  then show ?thesis using True k assms by simp
next
  case False
  have "x mod n + 1 \<noteq> n"
  proof
    assume "x mod n + 1 = n"
    then have "x + 1 = n * (x div n) + n" using mult_div_mod_eq [of n x] by linarith
    then show False using False by simp
  qed
  then have "x mod n + 1 < n" using assms pos_mod_bound [of n x] by linarith
  then have "(x + 1) div n = x div n"
    using assms pos_mod_sign [of n x] mult_div_mod_eq [of n x]
    by (intro int_div_pos_eq [of _ _ _ "x mod n + 1"]) auto
  then show ?thesis using False by simp
qed

lemma dvd_shift:
  fixes n k y :: int
  assumes "n dvd k"
  shows "n dvd y - k \<longleftrightarrow> n dvd y"
  using assms by (simp add: dvd_diff_right_iff dvd_diff_left_iff)

lemma dayFromYear_Suc: "dayFromYear (y + 1) = dayFromYear y + (if leapYear y then 366 else 365)"
proof -
  have d4: "(y + 1 - 1969) div 4 = (y - 1969) div 4 + (if 4 dvd y then 1 else 0)"
    using div_next [of 4 "y - 1969"] dvd_shift [of 4 1968 y] by (simp add: algebra_simps)
  have d100: "(y + 1 - 1901) div 100 = (y - 1901) div 100 + (if 100 dvd y then 1 else 0)"
    using div_next [of 100 "y - 1901"] dvd_shift [of 100 1900 y] by (simp add: algebra_simps)
  have d400: "(y + 1 - 1601) div 400 = (y - 1601) div 400 + (if 400 dvd y then 1 else 0)"
    using div_next [of 400 "y - 1601"] dvd_shift [of 400 1600 y] by (simp add: algebra_simps)
  have i: "400 dvd y \<Longrightarrow> 100 dvd y" "100 dvd y \<Longrightarrow> 4 dvd y"
    by (erule dvd_trans [rotated], simp)+
  have y: "365 * (y + 1 - 1970) = 365 * (y - 1970) + 365" by simp
  show ?thesis
    unfolding dayFromYear_def leapYear_def dvd_eq_mod_eq_0 [symmetric] d4 d100 d400 y
    using i by (cases "4 dvd y"; cases "100 dvd y"; cases "400 dvd y") simp_all
qed

lemma dayFromYear_mono: "y \<le> z \<Longrightarrow> dayFromYear y \<le> dayFromYear z"
proof (induction "nat (z - y)" arbitrary: z)
  case (Suc n)
  then have "dayFromYear y \<le> dayFromYear (z - 1)" by (intro Suc.hyps) auto
  then show ?case using dayFromYear_Suc [of "z - 1"] by (auto split: if_splits)
qed simp

lemma dayFromYear_bounds:
  shows "146097 * (y - 1970) - 506 \<le> 400 * dayFromYear y"
    and "400 * dayFromYear y \<le> 146097 * (y - 1970) + 589"
proof -
  define a b c where abc: "a = (y - 1969) div 4" "b = (y - 1901) div 100" "c = (y - 1601) div 400"
  have d: "dayFromYear y = 365 * (y - 1970) + a - b + c" by (simp only: dayFromYear_def abc)
  have m: "4 * a \<le> y - 1969" "y - 1969 < 4 * a + 4" "100 * b \<le> y - 1901" "y - 1901 < 100 * b + 100"
    "400 * c \<le> y - 1601" "y - 1601 < 400 * c + 400"
    unfolding abc by (rule div_bounds, simp)+
  show "146097 * (y - 1970) - 506 \<le> 400 * dayFromYear y" unfolding d using m by (simp add: algebra_simps)
  show "400 * dayFromYear y \<le> 146097 * (y - 1970) + 589" unfolding d using m by (simp add: algebra_simps)
qed

text \<open>The year of a day is the one that contains it.\<close>

lemma yearOfDay: "dayFromYear (yearOfDay d) \<le> d" "d < dayFromYear (yearOfDay d + 1)"
proof -
  define y where "y = 1970 + 400 * d div 146097"
  have q: "146097 * (y - 1970) \<le> 400 * d" "400 * d < 146097 * (y - 1970) + 146097"
    using div_bounds [of 146097 "400 * d"] by (simp_all add: y_def)
  have l: "dayFromYear (y - 1) \<le> d" using dayFromYear_bounds(2) [of "y - 1"] q by simp
  have u: "d < dayFromYear (y + 2)" using dayFromYear_bounds(1) [of "y + 2"] q by simp
  show "dayFromYear (yearOfDay d) \<le> d" "d < dayFromYear (yearOfDay d + 1)"
    using l u unfolding yearOfDay_def y_def [symmetric] Let_def by (auto simp: add.commute)
qed

lemma yearOfDay_unique:
  assumes "dayFromYear y \<le> d" and "d < dayFromYear (y + 1)"
  shows "yearOfDay d = y"
proof (rule antisym)
  show "yearOfDay d \<le> y"
    using yearOfDay(1) [of d] assms(2) dayFromYear_mono [of "y + 1" "yearOfDay d"] by linarith
  show "y \<le> yearOfDay d"
    using yearOfDay(2) [of d] assms(1) dayFromYear_mono [of "yearOfDay d + 1" y] by linarith
qed

lemma takeWhile_length_bound:
  assumes "k < length xs" and "\<forall>i \<le> k. P (xs ! i)"
  shows "k < length (takeWhile P xs)"
  using assms
proof (induction xs arbitrary: k)
  case (Cons x xs)
  have x: "P x" using Cons.prems(2) by (metis le0 nth_Cons_0)
  show ?case
  proof (cases k)
    case (Suc k')
    then have "k' < length (takeWhile P xs)" using Cons.prems by (intro Cons.IH) (auto dest: spec [of _ "Suc _"])
    then show ?thesis using Suc x by simp
  qed (simp add: x)
qed simp

lemma monthOfDay_range: "0 \<le> monthOfDay d" "monthOfDay d < 12"
proof -
  define y where "y = yearOfDay d"
  define P where "P = (\<lambda>s. s \<le> d - dayFromYear y)"
  have l: "length (monthStarts b) = 12" for b by (simp add: monthStarts_def)
  have "monthStarts b ! 0 = 0" for b by (simp add: monthStarts_def)
  then have "0 < length (takeWhile P (monthStarts b))" for b
    using yearOfDay(1) [of d] l by (intro takeWhile_length_bound) (auto simp: P_def y_def)
  moreover have "length (takeWhile P (monthStarts b)) \<le> 12" for b
    using length_takeWhile_le [of P "monthStarts b"] l by simp
  ultimately have "0 < length (takeWhile P (monthStarts (leapYear y)))" "length (takeWhile P (monthStarts (leapYear y))) \<le> 12"
    by blast+
  then show "0 \<le> monthOfDay d" "monthOfDay d < 12"
    unfolding monthOfDay_def y_def [symmetric] P_def Let_def by linarith+
qed

text \<open>Reading a day and building it again.\<close>

lemma makeDay_of_day: "makeDay (yearOfDay d) (monthOfDay d) n = d + (n - dateOfDay d)"
  using monthOfDay_range [of d] by (simp add: makeDay_def dateOfDay_def Let_def)

lemma localDay_setDate: "localDay tz (setDate tz n t) = localDay tz t + (n - getDate tz t)"
  unfolding setDate_def localDay_def [of tz "_ - tz"] getFullYear_def getMonth_def getDate_def makeDay_of_day
  by (simp add: msPerDay_def)

lemma setDate_moves: "setDate tz (getDate tz t + n) t = t + n * msPerDay"
  unfolding setDate_def getFullYear_def getMonth_def getDate_def makeDay_of_day
  using mult_div_mod_eq [of msPerDay "t + tz"] by (simp add: localDay_def algebra_simps)

lemma localDay_setHours:
  assumes "0 \<le> h * 3600000 + mi * 60000 + s * 1000 + ms" and "h * 3600000 + mi * 60000 + s * 1000 + ms < msPerDay"
  shows "localDay tz (setHours tz h mi s ms t) = localDay tz t"
proof -
  define D where "D = localDay tz t"
  have "setHours tz h mi s ms t + tz = D * msPerDay + (h * 3600000 + mi * 60000 + s * 1000 + ms)"
    by (simp add: setHours_def D_def)
  then have "localDay tz (setHours tz h mi s ms t) = D"
    using assms unfolding localDay_def [of tz "setHours tz h mi s ms t"]
    by (intro int_div_pos_eq [of _ _ _ "h * 3600000 + mi * 60000 + s * 1000 + ms"]) (auto simp: mult.commute)
  then show ?thesis by (simp add: D_def)
qed

lemma localDay_add_days: "localDay tz (t + n * msPerDay) = localDay tz t + n"
  unfolding localDay_def msPerDay_def by (simp add: algebra_simps)

section \<open>Digits\<close>

lemma nat_digits_range: "set (nat_digits n) \<subseteq> {48..57}"
proof (induction n rule: nat_digits.induct)
  case (1 n)
  show ?case
  proof (cases "n < 10")
    case True
    then show ?thesis by (simp add: nat_digits.simps [of n])
  next
    case False
    have "48 + int (n mod 10) \<in> {48..57}" by simp
    moreover have "nat_digits n = nat_digits (n div 10) @ [48 + int (n mod 10)]"
      using False by (simp add: nat_digits.simps [of n])
    ultimately show ?thesis using 1 False by simp
  qed
qed

lemma pad_digits: "set (padStart n 48 (jint i)) \<subseteq> {45} \<union> {48..57}"
  using nat_digits_range [of "nat i"] nat_digits_range [of "nat (- i)"]
  by (auto simp: padStart_def jint_def)

lemma isoYear_chars: "set (isoYear y) \<subseteq> {43, 45} \<union> {48..57}"
  using pad_digits [of 4 y] pad_digits [of 6 "abs y"] by (auto simp: isoYear_def)

section \<open>Writing an instant and reading it\<close>

lemma digits_value_snoc: "digits_value (ds @ [d]) = 10 * digits_value ds + (d - 48)"
  by (simp add: digits_value_def)

lemma digits_value_nat_digits: "digits_value (nat_digits n) = int n"
proof (induction n rule: nat_digits.induct)
  case (1 n)
  show ?case
  proof (cases "n < 10")
    case True
    then show ?thesis by (simp add: nat_digits.simps [of n] digits_value_def)
  next
    case False
    then have "nat_digits n = nat_digits (n div 10) @ [48 + int (n mod 10)]" by (simp add: nat_digits.simps [of n])
    moreover have "10 * int (n div 10) + int (n mod 10) = int n" by presburger
    ultimately show ?thesis using 1 False by (simp add: digits_value_snoc)
  qed
qed

lemma length_nat_digits: "n < 10 ^ Suc k \<Longrightarrow> length (nat_digits n) \<le> Suc k"
proof (induction k arbitrary: n)
  case (Suc k)
  show ?case
  proof (cases "n < 10")
    case False
    then have "nat_digits n = nat_digits (n div 10) @ [48 + int (n mod 10)]" by (simp add: nat_digits.simps [of n])
    moreover have "n div 10 < 10 ^ Suc k" using Suc.prems by (simp add: less_mult_imp_div_less)
    ultimately show ?thesis using Suc.IH by simp
  qed (simp add: nat_digits.simps [of n])
qed (simp add: nat_digits.simps)

lemma digits_value_zeros: "digits_value (replicate k 48 @ ds) = digits_value ds"
  by (induction k) (simp_all add: digits_value_def)

lemma pad_ok:
  assumes "0 \<le> i" and "i < 10 ^ Suc k"
  shows "length (padStart (Suc k) 48 (jint i)) = Suc k" "digits_value (padStart (Suc k) 48 (jint i)) = i"
    "list_all (\<lambda>c. 48 \<le> c \<and> c \<le> 57) (padStart (Suc k) 48 (jint i))"
proof -
  have "int (nat i) < int (10 ^ Suc k)" using assms by simp
  then have "nat i < 10 ^ Suc k" by (simp only: of_nat_less_iff)
  from length_nat_digits [OF this] have l: "length (jint i) \<le> Suc k" using assms(1) by (simp add: jint_def)
  then show "length (padStart (Suc k) 48 (jint i)) = Suc k" by (simp add: padStart_def)
  show "digits_value (padStart (Suc k) 48 (jint i)) = i"
    using assms(1) by (simp add: padStart_def digits_value_zeros digits_value_nat_digits jint_def)
  show "list_all (\<lambda>c. 48 \<le> c \<and> c \<le> 57) (padStart (Suc k) 48 (jint i))"
    using assms(1) nat_digits_range [of "nat i"] by (auto simp: padStart_def jint_def list_all_iff)
qed

lemma num_at_pad:
  assumes "0 \<le> i" and "i < 10 ^ Suc k" and "length a = j" and "n = Suc k"
  shows "num_at j n (a @ padStart n 48 (jint i) @ b) = Some i"
  using pad_ok [OF assms(1,2)] assms(3,4) by (simp add: num_at_def)

lemma num_at_pad2: "0 \<le> i \<Longrightarrow> i < 100 \<Longrightarrow> length a = j \<Longrightarrow> num_at j 2 (a @ pad2 i @ b) = Some i"
  unfolding pad2_def by (rule num_at_pad [of i 1]) simp_all

lemma dateOfDay_range: "1 \<le> dateOfDay d" "dateOfDay d \<le> 31"
proof -
  define y where "y = yearOfDay d"
  define x where "x = d - dayFromYear y"
  define ss where "ss = monthStarts (leapYear y)"
  have x: "0 \<le> x" "x < (if leapYear y then 366 else 365)"
    using yearOfDay [of d] dayFromYear_Suc [of y] unfolding x_def y_def by auto
  have m: "monthOfDay d = int (length (takeWhile (\<lambda>s. s \<le> x) ss)) - 1"
    by (simp add: monthOfDay_def x_def y_def ss_def Let_def)
  have "dateOfDay d = x - ss ! nat (monthOfDay d) + 1"
    by (simp add: dateOfDay_def x_def y_def ss_def Let_def)
  then show "1 \<le> dateOfDay d" "dateOfDay d \<le> 31"
    using x unfolding m ss_def monthStarts_def by (auto split: if_splits)
qed

lemma hms:
  fixes q a b c sc mn h :: int
  assumes "q = 60 * a + sc" and "a = 60 * b + mn" and "b = 24 * c + h"
  shows "c * 86400000 + h * 3600000 + mn * 60000 + sc * 1000 = q * 1000"
  unfolding assms by simp

lemma iso_roundtrip:
  assumes "0 \<le> getFullYear 0 u" and "getFullYear 0 u \<le> 9999"
  shows "parseLocal tz (take 19 (toISOString u)) = Some (u div 1000 * 1000 - tz)"
proof -
  let ?y = "getFullYear 0 u" and ?m = "getMonth 0 u + 1" and ?d = "getDate 0 u"
  let ?h = "getHours 0 u" and ?n = "u div 60000 mod 60" and ?s = "u div 1000 mod 60"
  let ?Y = "padStart 4 48 (jint ?y)"
  have r: "0 \<le> ?m" "?m < 10 ^ Suc 1" "0 \<le> ?d" "?d < 10 ^ Suc 1" "1 \<le> ?m" "?m \<le> 12" "1 \<le> ?d" "?d \<le> 31"
    using monthOfDay_range [of "localDay 0 u"] dateOfDay_range [of "localDay 0 u"] by (simp_all add: getMonth_def getDate_def)
  have t: "0 \<le> ?h" "?h < 10 ^ Suc 1" "0 \<le> ?n" "?n < 10 ^ Suc 1" "0 \<le> ?s" "?s < 10 ^ Suc 1" "?h \<le> 23" "?n \<le> 59" "?s \<le> 59"
    using pos_mod_bound [of 24 "u div 3600000"] pos_mod_bound [of 60 "u div 60000"] pos_mod_bound [of 60 "u div 1000"]
    by (simp_all add: getHours_def)
  have y: "0 \<le> ?y" "?y < 10 ^ Suc 3" using assms by simp_all
  define s where "s = ?Y @ [45] @ pad2 ?m @ [45] @ pad2 ?d @ [84] @ pad2 ?h @ [58] @ pad2 ?n @ [58] @ pad2 ?s"
  have l: "length ?Y = 4" "length (pad2 ?m) = 2" "length (pad2 ?d) = 2" "length (pad2 ?h) = 2" "length (pad2 ?n) = 2"
      "length (pad2 ?s) = 2"
    using pad_ok(1) [OF y] pad_ok(1) [OF r(1,2)] pad_ok(1) [OF r(3,4)] pad_ok(1) [OF t(1,2)] pad_ok(1) [OF t(3,4)]
      pad_ok(1) [OF t(5,6)] by (simp_all add: pad2_def numeral_2_eq_2 eval_nat_numeral)
  have s: "take 19 (toISOString u) = s"
    using assms l by (simp add: toISOString_def isoYear_def s_def)
  have n: "num_at 0 4 s = Some ?y" "num_at 5 2 s = Some ?m" "num_at 8 2 s = Some ?d"
      "num_at 11 2 s = Some ?h" "num_at 14 2 s = Some ?n" "num_at 17 2 s = Some ?s"
  proof -
    show "num_at 0 4 s = Some ?y" unfolding s_def using num_at_pad [OF y, of "[]" 0 4] by simp
    show "num_at 5 2 s = Some ?m" unfolding s_def
      using num_at_pad2 [OF r(1), of "?Y @ [45]" 5] l r by simp
    show "num_at 8 2 s = Some ?d" unfolding s_def
      using num_at_pad2 [OF r(3), of "?Y @ [45] @ pad2 ?m @ [45]" 8] l r by simp
    show "num_at 11 2 s = Some ?h" unfolding s_def
      using num_at_pad2 [OF t(1), of "?Y @ [45] @ pad2 ?m @ [45] @ pad2 ?d @ [84]" 11] l t by simp
    show "num_at 14 2 s = Some ?n" unfolding s_def
      using num_at_pad2 [OF t(3), of "?Y @ [45] @ pad2 ?m @ [45] @ pad2 ?d @ [84] @ pad2 ?h @ [58]" 14] l t by simp
    show "num_at 17 2 s = Some ?s" unfolding s_def
      using num_at_pad2 [OF t(5), of "?Y @ [45] @ pad2 ?m @ [45] @ pad2 ?d @ [84] @ pad2 ?h @ [58] @ pad2 ?n @ [58]" 17 "[]"] l t
      by simp
  qed
  have c: "length s = 19 \<and> s ! 4 = 45 \<and> s ! 7 = 45 \<and> s ! 10 = 84 \<and> s ! 13 = 58 \<and> s ! 16 = 58"
    using l by (simp add: s_def nth_append)
  have mk: "makeDay ?y (?m - 1) ?d = u div msPerDay"
    using makeDay_of_day [of "localDay 0 u" "?d"] by (simp add: getFullYear_def getMonth_def getDate_def localDay_def)
  have "u div msPerDay * msPerDay + ?h * 3600000 + ?n * 60000 + ?s * 1000 = u div 1000 * 1000"
  proof -
    define q where "q = u div 1000"
    have "u div 60000 = q div 60" "u div 3600000 = q div 60 div 60" "u div msPerDay = q div 60 div 60 div 24"
      by (simp_all add: q_def msPerDay_def zdiv_zmult2_eq [symmetric])
    moreover have "q div 60 div 60 div 24 * 86400000 + q div 60 div 60 mod 24 * 3600000 + q div 60 mod 60 * 60000 + q mod 60 * 1000 = q * 1000"
      by (rule hms) (simp_all only: mult_div_mod_eq)
    ultimately show ?thesis unfolding getHours_def by (simp add: q_def [symmetric] msPerDay_def)
  qed
  then show ?thesis
    unfolding s parseLocal_def using c n r t mk by (simp add: validTime_def)
qed

end
