(* ===== verification/Calendar.thy ===== *)
theory Calendar
  imports JsDate
begin

text \<open>
  The calendar: \<open>src/calendar/calendar.service.ts\<close> and the scheduling of a meeting by the voice bot
  (\<open>src/livekit/voice-bot.service.ts\<close>). The back end answers through the fields of \<open>cal_env\<close>; \<open>None\<close> is a request that
  rejects. Reading a date from a text and the Korean date and time formats of the locale are fields too. Ranges
  are instants until they are written with \<open>toISOString\<close>.
\<close>

section \<open>Data\<close>

record EventTime =
  et_dateTime :: "jstr option"
  et_date :: "jstr option"

record CalendarEvent =
  ev_id :: jstr
  ev_title :: jstr
  ev_start :: EventTime
  ev_end :: EventTime

record FreeSlot =
  fs_start :: jstr
  fs_end :: jstr

record FreeSlotsQuery =
  fq_userIds :: "jstr list"
  fq_timeMin :: jstr
  fq_timeMax :: jstr
  fq_durationMinutes :: int

record AddEventQuery =
  aq_userIds :: "jstr list"
  aq_title :: jstr
  aq_date :: jstr
  aq_time :: "jstr option"
  aq_description :: "jstr option"
  aq_durationMinutes :: int

text \<open>
  The answers of the back end: the free slots, if the field is there; the results per user and a message; a page of events;
  the state of the connection. A failed request to add an event carries a message.
\<close>

record cal_env =
  zone :: int
  postFindFreeSlots :: "FreeSlotsQuery \<Rightarrow> FreeSlot list option option"
  postAddEvent :: "AddEventQuery \<Rightarrow> jstr + (bool list option \<times> jstr option)"
  getEvents :: "(jstr \<times> jstr) list \<Rightarrow> jstr \<Rightarrow> CalendarEvent list option option"
  getOauthStatus :: "jstr \<Rightarrow> bool option option"
  parseDate :: "jstr \<Rightarrow> int option"
  localeDate :: "jstr \<Rightarrow> jstr"
  localeTime :: "jstr \<Rightarrow> jstr"

record AddEventResult =
  ae_success :: bool
  ae_message :: jstr
  ae_successCount :: nat
  ae_failCount :: nat

section \<open>Requests\<close>

definition list_or :: "'a list option \<Rightarrow> 'a list" where
  "list_or x = (case x of None \<Rightarrow> [] | Some xs \<Rightarrow> xs)"

definition findCommonFreeSlots :: "cal_env \<Rightarrow> jstr list \<Rightarrow> jstr \<Rightarrow> jstr \<Rightarrow> int option \<Rightarrow> FreeSlot list" where
  "findCommonFreeSlots env userIds timeMin timeMax dur =
     (case postFindFreeSlots env \<lparr>fq_userIds = userIds, fq_timeMin = timeMin, fq_timeMax = timeMax,
         fq_durationMinutes = (case dur of None \<Rightarrow> 60 | Some d \<Rightarrow> d)\<rparr> of
        None \<Rightarrow> []
      | Some r \<Rightarrow> list_or r)"

definition eventsQuery :: "int option \<Rightarrow> jstr option \<Rightarrow> jstr option \<Rightarrow> (jstr \<times> jstr) list" where
  "eventsQuery maxResults timeMin timeMax =
     (let m = (case maxResults of None \<Rightarrow> 10 | Some n \<Rightarrow> n)
      in (if m \<noteq> 0 then [([109, 97, 120, 82, 101, 115, 117, 108, 116, 115], jint m)] else []) @
         (case timeMin of None \<Rightarrow> [] | Some t \<Rightarrow> if t = [] then [] else [([116,
           105, 109, 101, 77, 105, 110], t)]) @
         (case timeMax of None \<Rightarrow> [] | Some t \<Rightarrow> if t = [] then [] else [([116,
           105, 109, 101, 77, 97, 120], t)]))"

definition getUserCalendarEvents :: "cal_env \<Rightarrow> int option \<Rightarrow> jstr option \<Rightarrow> jstr option \<Rightarrow> jstr \<Rightarrow> CalendarEvent list" where
  "getUserCalendarEvents env maxResults timeMin timeMax token =
     (case getEvents env (eventsQuery maxResults timeMin timeMax) token of None \<Rightarrow> [] | Some r \<Rightarrow> list_or r)"

definition checkGoogleConnection :: "cal_env \<Rightarrow> jstr \<Rightarrow> bool" where
  "checkGoogleConnection env token = (getOauthStatus env token = Some (Some True))"

definition addEventToUsers :: "cal_env \<Rightarrow> jstr list \<Rightarrow> jstr \<Rightarrow> jstr \<Rightarrow> jstr option \<Rightarrow> jstr option \<Rightarrow> int option \<Rightarrow> AddEventResult" where
  "addEventToUsers env userIds title date time description dur =
     (case postAddEvent env \<lparr>aq_userIds = userIds, aq_title = title, aq_date = date, aq_time = time,
         aq_description = description, aq_durationMinutes = (case dur of None \<Rightarrow> 60 | Some d \<Rightarrow> d)\<rparr> of
        Inl err \<Rightarrow> \<lparr>ae_success = False, ae_message = [51068, 51221, 32, 49373, 49457,
          50640, 32, 49892, 54056, 54664, 49845, 45768, 45796, 58, 32] @ err,
          ae_successCount = 0, ae_failCount = length userIds\<rparr>
      | Inr (results, msg) \<Rightarrow>
          (let rs = list_or results; n = length (filter id rs)
           in \<lparr>ae_success = n > 0, ae_message = str_or msg (jint (int n) @ [47749, 51032, 32,
             52888, 47536, 45908, 50640, 32, 51068, 51221, 51060, 32, 52628, 44032, 46104, 50632,
             49845, 45768, 45796, 46]),
                ae_successCount = n, ae_failCount = length (filter Not rs)\<rparr>))"

section \<open>Wording\<close>

definition slotLine :: "cal_env \<Rightarrow> nat \<times> FreeSlot \<Rightarrow> jstr" where
  "slotLine env p = jint (int (fst p) + 1) @ [46, 32] @ localeDate env (fs_start (snd p)) @ [32] @
     localeTime env (fs_start (snd p)) @ [32, 126, 32] @ localeTime env (fs_end (snd p))"

definition formatFreeSlotsResponse :: "cal_env \<Rightarrow> FreeSlot list \<Rightarrow> int \<Rightarrow> jstr" where
  "formatFreeSlotsResponse env slots n =
     (if slots = [] then jint n @ [47749, 51032, 32, 52280, 50668, 51088, 32, 51068, 51221, 51012, 32,
       54869, 51064, 54664, 51648, 47564, 44, 32, 44277, 53685, 51004, 47196, 32, 48708, 50612, 32,
       51080, 45716, 32, 49884, 44036, 51012, 32, 52286, 51648, 32, 47803, 54664, 49845, 45768, 45796,
       46, 32, 44060, 48324, 51201, 51004, 47196, 32, 51068, 51221, 51012, 32, 51312, 50984, 54644, 32,
       48372, 49884, 45716, 32, 44163, 51060, 32, 51339, 44192, 49845, 45768, 45796, 46]
      else jint n @ [47749, 51032, 32, 52280, 50668, 51088, 32, 51068, 51221, 51012, 32, 48516, 49437,
        54620, 32, 44208, 44284, 44, 32, 45796, 51020, 32, 49884, 44036, 45824, 44032, 32, 47784,
        46160, 32, 48708, 50612, 32, 51080, 49845, 45768, 45796, 46, 10, 10] @
           join [10] (map (slotLine env) (enumerate 0 (take 5 slots))) @
           (if length slots > 5 then [10, 10, 51060, 32, 50808, 50640, 46020,
             32] @ jint (int (length slots - 5)) @ [44060, 51032, 32, 44032, 45733, 54620, 32, 49884,
             44036, 45824, 44032, 32, 45908, 32, 51080, 49845, 45768, 45796, 46] else []) @
           [10, 10, 50896, 54616, 49884, 45716, 32, 49884, 44036, 45824, 44032, 32, 51080, 51004,
             49884, 47732, 32, 47568, 50432, 54644, 32, 51452, 49464, 50836, 46])"

section \<open>Ranges\<close>

definition or7 :: "int \<Rightarrow> int" where
  "or7 n = (if n = 0 then 7 else n)"

definition nextMonday :: "int \<Rightarrow> int \<Rightarrow> int" where
  "nextMonday tz now = setHours tz 9 0 0 0 (setDate tz (getDate tz now + or7 ((1 + 7 - getDay tz now) mod 7)) now)"

definition nextFriday :: "int \<Rightarrow> int \<Rightarrow> int" where
  "nextFriday tz mon = setHours tz 18 0 0 0 (setDate tz (getDate tz mon + 4) mon)"

definition getNextWeekRange :: "int \<Rightarrow> int \<Rightarrow> jstr \<times> jstr" where
  "getNextWeekRange tz now =
     (toISOString (nextMonday tz now), toISOString (nextFriday tz (nextMonday tz now)))"

definition nextHour :: "int \<Rightarrow> int \<Rightarrow> int" where
  "nextHour tz now = setHours tz (getHours tz now + 1) 0 0 0 now"

definition comingFriday :: "int \<Rightarrow> int \<Rightarrow> int" where
  "comingFriday tz now = setHours tz 18 0 0 0 (setDate tz (getDate tz now + or7 ((5 - getDay tz now + 7) mod 7)) now)"

definition getThisWeekRemaining :: "int \<Rightarrow> int \<Rightarrow> jstr \<times> jstr" where
  "getThisWeekRemaining tz now = (toISOString (nextHour tz now), toISOString (comingFriday tz now))"

section \<open>Scheduling a meeting\<close>

text \<open>
  The calendar branch of a turn: the identities in the room, the first free slot of the next week, the event on
  the calendars of all, and the reply. \<open>None\<close> is an exception (an invalid date), \<open>Some None\<close> no common free slot.
\<close>

definition isBot :: "jstr \<Rightarrow> bool" where
  "isBot p = starts_with [97, 105, 45, 98, 111, 116] p"

definition roomUsers :: "jstr list \<Rightarrow> jstr \<Rightarrow> jstr list" where
  "roomUsers remote self = filter (\<lambda>p. p \<noteq> [] \<and> \<not> isBot p) (filter (\<lambda>p. \<not> isBot p) remote @ [self])"

definition userIdOf :: "jstr \<Rightarrow> jstr" where
  "userIdOf p = takeWhile (\<lambda>c. c \<noteq> 95) p"

definition slotDateStr :: "int \<Rightarrow> jstr" where
  "slotDateStr t = takeWhile (\<lambda>c. c \<noteq> 84) (toISOString t)"

definition slotTimeStr :: "int \<Rightarrow> int \<Rightarrow> jstr" where
  "slotTimeStr tz t = pad2 (getHours tz t) @ [58] @ pad2 ((t + tz) div 60000 mod 60)"

record Scheduled =
  sc_title :: jstr
  sc_date :: jstr
  sc_time :: jstr
  sc_participants :: nat
  sc_result :: AddEventResult
  sc_reply :: jstr

definition scheduleReply :: "cal_env \<Rightarrow> jstr \<Rightarrow> jstr \<Rightarrow> AddEventResult \<Rightarrow> jstr" where
  "scheduleReply env start topic r =
     (if ae_success r then localeDate env start @ [32] @ localeTime env start @ [50640, 32, 34] @ topic @
        [34, 32, 51068, 51221, 51012, 32, 49373, 49457, 54664, 49845, 45768, 45796, 46,
          32] @ jint (int (ae_successCount r)) @ [47749, 51032, 32, 52888, 47536, 45908, 50640, 32,
          52628, 44032, 46104, 50632, 49845, 45768, 45796, 46]
      else [51068, 51221, 32, 49373, 49457, 50640, 32, 49892, 54056, 54664, 49845, 45768, 45796, 46,
        32, 71, 111, 111, 103, 108, 101, 32, 52888, 47536, 45908, 32, 50672, 46041, 51012, 32, 54869,
        51064, 54644, 51452, 49464, 50836, 46])"

definition schedule :: "cal_env \<Rightarrow> int \<Rightarrow> jstr list \<Rightarrow> jstr \<Rightarrow> jstr option \<Rightarrow> Scheduled option option" where
  "schedule env now remote self topic =
     (let users = roomUsers remote self; ids = map userIdOf users; (timeMin, timeMax) = getNextWeekRange (zone env) now
      in case findCommonFreeSlots env ids timeMin timeMax (Some 60) of
           [] \<Rightarrow> Some None
         | slot # _ \<Rightarrow> (case parseDate env (fs_start slot) of
             None \<Rightarrow> None
           | Some t \<Rightarrow>
               let title = str_or topic [54016, 32, 48120, 54021];
                   r = addEventToUsers env ids title (slotDateStr t) (Some (slotTimeStr (zone env) t))
                     (Some ([65, 85, 82, 65, 32, 54924, 51032, 49892, 50640, 49436, 32, 51088, 46041,
                       32, 49373, 49457, 46108, 32, 51068, 51221, 51077, 45768, 45796, 46, 10, 54924,
                       51032, 32, 51452, 51228, 58, 32] @ title)) (Some 60)
               in Some (Some \<lparr>sc_title = title, sc_date = slotDateStr t, sc_time = slotTimeStr (zone env) t,
                    sc_participants = length users, sc_result = r, sc_reply = scheduleReply env (fs_start slot) title r\<rparr>)))"

section \<open>Ranges are weeks\<close>

lemma localDay_at [simp]:
  "localDay tz (setHours tz 9 0 0 0 t) = localDay tz t" "localDay tz (setHours tz 18 0 0 0 t) = localDay tz t"
  by (rule localDay_setHours; simp add: msPerDay_def)+

lemma at_hour:
  "setHours tz 9 0 0 0 t = localDay tz (setHours tz 9 0 0 0 t) * msPerDay + 9 * 3600000 - tz"
  "setHours tz 18 0 0 0 t = localDay tz (setHours tz 18 0 0 0 t) * msPerDay + 18 * 3600000 - tz"
  unfolding localDay_at by (simp_all add: setHours_def)

lemma or7_mod: "1 \<le> or7 (n mod 7)" "or7 (n mod 7) \<le> 7" "or7 (n mod 7) mod 7 = n mod 7"
  using pos_mod_sign [of 7 n] pos_mod_bound [of 7 n] by (auto simp: or7_def)

lemma weekDay_plus: "weekDay (d + n) = (weekDay d + n) mod 7"
  by (simp add: weekDay_def mod_simps algebra_simps)

lemma weekDay_reach: "weekDay (d + or7 ((k - weekDay d) mod 7)) = k mod 7"
proof -
  have "weekDay (d + or7 ((k - weekDay d) mod 7)) = (weekDay d + or7 ((k - weekDay d) mod 7) mod 7) mod 7"
    by (simp add: weekDay_plus mod_simps)
  then show ?thesis by (simp only: or7_mod mod_add_right_eq) simp
qed

lemma nextMonday_day: "localDay tz (nextMonday tz now) = localDay tz now + or7 ((8 - weekDay (localDay tz now)) mod 7)"
  by (simp add: nextMonday_def localDay_setDate getDay_def)

lemma nextFriday_day: "localDay tz (nextFriday tz mon) = localDay tz mon + 4"
  by (simp add: nextFriday_def localDay_setDate)

lemma comingFriday_day:
  "localDay tz (comingFriday tz now) = localDay tz now + or7 ((12 - weekDay (localDay tz now)) mod 7)"
  by (simp add: comingFriday_def localDay_setDate getDay_def)

text \<open>
  The range of the next week: from Monday at nine to Friday at eighteen, local time, of the first week that begins
  after today; whatever the day, and across the ends of months and years.
\<close>

theorem next_week_is_monday_to_friday:
  "weekDay (localDay tz (nextMonday tz now)) = 1 \<and>
   localDay tz now < localDay tz (nextMonday tz now) \<and> localDay tz (nextMonday tz now) \<le> localDay tz now + 7 \<and>
   nextMonday tz now = localDay tz (nextMonday tz now) * msPerDay + 9 * 3600000 - tz \<and>
   nextFriday tz (nextMonday tz now) = nextMonday tz now + 4 * msPerDay + 9 * 3600000"
proof -
  let ?m = "nextMonday tz now"
  have "weekDay (localDay tz ?m) = 1" using weekDay_reach [of "localDay tz now" 8] by (simp add: nextMonday_day)
  moreover have "localDay tz now < localDay tz ?m" "localDay tz ?m \<le> localDay tz now + 7"
    using or7_mod [of "8 - weekDay (localDay tz now)"] by (simp_all add: nextMonday_day)
  moreover have m: "?m = localDay tz ?m * msPerDay + 9 * 3600000 - tz"
    unfolding nextMonday_def by (rule at_hour)
  moreover have "nextFriday tz ?m = localDay tz (nextFriday tz ?m) * msPerDay + 18 * 3600000 - tz"
    unfolding nextFriday_def by (rule at_hour)
  ultimately show ?thesis unfolding nextFriday_day by (simp add: algebra_simps)
qed

text \<open>
  The rest of this week: from the next full hour to a Friday at eighteen, never empty; but the Friday is always after
  today, so on a Friday, and on a Saturday, it is the Friday of the next week.
\<close>

theorem rest_of_week_never_ends_today:
  "weekDay (localDay tz (comingFriday tz now)) = 5 \<and> localDay tz now < localDay tz (comingFriday tz now) \<and>
   now < nextHour tz now \<and> nextHour tz now < comingFriday tz now \<and>
   comingFriday tz now - now > (if weekDay (localDay tz now) = 5 then 6 else 0) * msPerDay"
proof -
  let ?f = "comingFriday tz now" and ?d = "localDay tz now"
  have r: "localDay tz ?f = ?d + or7 ((12 - weekDay ?d) mod 7)" by (rule comingFriday_day)
  have "weekDay (localDay tz ?f) = 5" using weekDay_reach [of ?d 12] by (simp add: r)
  moreover have l: "?d < localDay tz ?f" using or7_mod [of "12 - weekDay ?d"] by (simp add: r)
  moreover have f: "?f = localDay tz ?f * msPerDay + 18 * 3600000 - tz"
    unfolding comingFriday_def by (rule at_hour)
  moreover have t: "?d * msPerDay \<le> now + tz" "now + tz < ?d * msPerDay + msPerDay"
    using div_bounds [of msPerDay "now + tz"] by (simp_all add: localDay_def msPerDay_def mult.commute)
  moreover have "weekDay ?d = 5 \<Longrightarrow> localDay tz ?f = ?d + 7" by (simp add: r or7_def)
  moreover have h: "nextHour tz now = ((now + tz) div 3600000 + 1) * 3600000 - tz"
  proof -
    have "now + tz = 24 * 3600000 * ?d + (now + tz) mod msPerDay"
      using mult_div_mod_eq [of msPerDay "now + tz"] by (simp add: localDay_def msPerDay_def)
    then have "(now + tz) div 3600000 = 24 * ?d + (now + tz) div 3600000 mod 24"
      using mult_div_mod_eq [of 24 "(now + tz) div 3600000"] by (simp add: localDay_def msPerDay_def zdiv_zmult2_eq [symmetric])
    then show ?thesis by (simp add: nextHour_def setHours_def getHours_def msPerDay_def algebra_simps)
  qed
  moreover have "now < nextHour tz now" "nextHour tz now \<le> now + 3600000"
    using div_bounds [of 3600000 "now + tz"] unfolding h by (simp_all add: algebra_simps)
  ultimately show ?thesis unfolding msPerDay_def by auto
qed

section \<open>The date of the event\<close>

definition localDateStr :: "int \<Rightarrow> int \<Rightarrow> jstr" where
  "localDateStr tz t = isoYear (getFullYear tz t) @ [45] @ pad2 (getMonth tz t + 1) @ [45] @ pad2 (getDate tz t)"

lemma takeWhile_upto: "x \<notin> set a \<Longrightarrow> takeWhile (\<lambda>c. c \<noteq> x) (a @ x # b) = a"
  by (subst takeWhile_append2) auto

lemma slotDateStr_utc: "slotDateStr t = localDateStr 0 t"
proof -
  have "84 \<notin> set (localDateStr 0 t)"
    using isoYear_chars [of "getFullYear 0 t"] pad_digits [of 2 "getMonth 0 t + 1"] pad_digits [of 2 "getDate 0 t"]
    by (auto simp: localDateStr_def pad2_def)
  from takeWhile_upto [OF this] show ?thesis
    unfolding slotDateStr_def toISOString_def localDateStr_def by simp
qed

text \<open>
  The event is entered with the date of the slot in UTC and its time in local time. In the working hours of
  the range, from nine to eighteen, the two name the same day in every zone from six hours behind UTC to nine hours ahead
  (Korea is the last of them).
\<close>

theorem event_on_local_date:
  assumes "schedule env now remote self topic = Some (Some e)"
    and "findCommonFreeSlots env (map userIdOf (roomUsers remote self)) (fst (getNextWeekRange (zone env) now))
      (snd (getNextWeekRange (zone env) now)) (Some 60) = slot # rest"
    and "parseDate env (fs_start slot) = Some t"
    and "9 * 3600000 \<le> (t + zone env) mod msPerDay" and "(t + zone env) mod msPerDay < 18 * 3600000"
    and "- 6 * 3600000 \<le> zone env" and "zone env \<le> 9 * 3600000"
  shows "sc_date e = localDateStr (zone env) t \<and> sc_time e = slotTimeStr (zone env) t"
proof -
  have t: "t + 0 = msPerDay * ((t + zone env) div msPerDay) + ((t + zone env) mod msPerDay - zone env)"
    using mult_div_mod_eq [of msPerDay "t + zone env"] by linarith
  have "localDay 0 t = localDay (zone env) t"
    unfolding localDay_def by (rule int_div_pos_eq [OF t]) (use assms(4-7) in \<open>simp_all add: msPerDay_def\<close>)
  then have "localDateStr 0 t = localDateStr (zone env) t"
    by (simp add: localDateStr_def getFullYear_def getMonth_def getDate_def)
  then show ?thesis
    using assms(1-3) by (auto simp: schedule_def Let_def slotDateStr_utc split: prod.splits)
qed

definition demo_cal :: cal_env where
  "demo_cal = \<lparr>zone = 9 * 3600000,
     postFindFreeSlots = (\<lambda>q. Some (Some [\<lparr>fs_start = fq_timeMin q, fs_end = fq_timeMax q\<rparr>])),
     postAddEvent = (\<lambda>q. Inr (Some (map (\<lambda>_. True) (aq_userIds q)), None)),
     getEvents = (\<lambda>_ _. None), getOauthStatus = (\<lambda>_. Some (Some True)),
     parseDate = (\<lambda>s. map_option (\<lambda>t. t + 9 * 3600000) (parseLocal (9 * 3600000) (take 19 s))),
     localeDate = id, localeTime = id\<rparr>"

text \<open>A request on Friday, 2 January 2026 at noon in Korea: the event is on Monday the fifth at nine.\<close>

lemma demo_schedule:
  "schedule demo_cal 1767322800000 [[107, 105, 109, 95, 49], [97, 105, 45, 98, 111, 116, 45, 55]] [97,
    105, 45, 98, 111, 116] None = Some (Some
     \<lparr>sc_title = [54016, 32, 48120, 54021], sc_date = [50, 48, 50, 54, 45, 48, 49, 45, 48, 53],
       sc_time = [48, 57, 58, 48, 48], sc_participants = 1,
      sc_result = \<lparr>ae_success = True, ae_message = [49, 47749, 51032, 32, 52888, 47536, 45908,
        50640, 32, 51068, 51221, 51060, 32, 52628, 44032, 46104, 50632, 49845, 45768, 45796, 46],
        ae_successCount = 1, ae_failCount = 0\<rparr>,
      sc_reply = [50, 48, 50, 54, 45, 48, 49, 45, 48, 53, 84, 48, 48, 58, 48, 48, 58, 48, 48, 46, 48,
        48, 48, 90, 32, 50, 48, 50, 54, 45, 48, 49, 45, 48, 53, 84, 48, 48, 58, 48, 48, 58, 48, 48, 46,
        48, 48, 48, 90, 50640, 32, 34, 54016, 32, 48120, 54021, 34, 32, 51068, 51221, 51012, 32, 49373,
        49457, 54664, 49845, 45768, 45796, 46, 32, 49, 47749, 51032, 32, 52888, 47536, 45908, 50640,
        32, 52628, 44032, 46104, 50632, 49845, 45768, 45796, 46]\<rparr>)"
  by code_simp

theorem event_on_local_date_witness:
  "\<exists>e. schedule demo_cal 1767322800000 [[107, 105, 109, 95, 49], [97, 105, 45, 98, 111, 116,
    45, 55]] [97, 105, 45, 98, 111, 116] None = Some (Some e) \<and>
     sc_date e = localDateStr (9 * 3600000) 1767571200000"
proof -
  have z: "zone demo_cal = 9 * 3600000" by (simp add: demo_cal_def)
  have s: "findCommonFreeSlots demo_cal (map userIdOf (roomUsers [[107, 105, 109, 95, 49], [97, 105,
    45, 98, 111, 116, 45, 55]] [97, 105, 45, 98, 111, 116]))
      (fst (getNextWeekRange (zone demo_cal) 1767322800000)) (snd (getNextWeekRange (zone demo_cal) 1767322800000)) (Some 60) =
      [\<lparr>fs_start = [50, 48, 50, 54, 45, 48, 49, 45, 48, 53, 84, 48, 48, 58, 48, 48, 58, 48, 48,
        46, 48, 48, 48, 90], fs_end = [50, 48, 50, 54, 45, 48, 49, 45, 48, 57, 84, 48, 57, 58, 48, 48,
        58, 48, 48, 46, 48, 48, 48, 90]\<rparr>]"
    by code_simp
  have t: "parseDate demo_cal (fs_start \<lparr>fs_start = [50, 48, 50, 54, 45, 48, 49, 45, 48, 53, 84,
    48, 48, 58, 48, 48, 58, 48, 48, 46, 48, 48, 48, 90], fs_end = [50, 48, 50, 54, 45, 48, 49, 45, 48,
    57, 84, 48, 57, 58, 48, 48, 58, 48, 48, 46, 48, 48, 48, 90]\<rparr>) = Some 1767571200000"
    by code_simp
  from event_on_local_date [OF demo_schedule s t] demo_schedule show ?thesis by (simp add: z msPerDay_def)
qed

end
