(* ===== verification/LlmCalendar.thy ===== *)
theory LlmCalendar
  imports JsDate Regex
begin

text \<open>
  Events by voice, the calendar part of \<open>src/llm/llm.service.ts\<close>: recognising the request, reading date, time and
  title from the text, and entering the event in the calendar of the service account. The calendar service of
  Google is a parameter, which answers with an error message or accepts. \<open>tz\<close> is what the local time of the server is
  ahead of UTC.
\<close>

section \<open>Patterns\<close>

definition CALENDAR_PATTERNS :: "rx list" where
  "CALENDAR_PATTERNS = [
     seqs [lit [51068, 51221], star dot, lits [[51105, 50500], [52628, 44032], [46321, 47197], [45347, 50612]]],
     seqs [lits [[51105, 50500], [52628, 44032], [46321, 47197], [45347, 50612]], star dot, lit [51068, 51221]],
     seqs [lit [52888, 47536, 45908], star dot, lits [[52628, 44032], [46321, 47197], [45347, 50612]]],
     seqs [lit [50557, 49549], star dot, lits [[51105, 50500], [52628, 44032]]],
     seqs [plus digit, lit [50900], star space, plus digit, lit [51068], star dot, lits [[51105, 50500], [52628, 44032], [46321, 47197], [54924, 51032], [48120, 54021]]],
     seqs [lits [[45236, 51068], [47784, 47112], [45796, 51020, 51452]], star dot, lits [[51105,
       50500], [52628, 44032], [46321, 47197], [54924, 51032], [48120, 54021]]]]"

definition RELATIVE_DATES :: "(jstr \<times> int) list" where
  "RELATIVE_DATES = [([50724, 45720], 0), ([45236, 51068], 1), ([47784, 47112], 2), ([44544, 54588], 3)]"

definition isCalendarIntent :: "jstr \<Rightarrow> bool" where
  "isCalendarIntent t = list_ex (\<lambda>p. test p t) CALENDAR_PATTERNS"

section \<open>Dates\<close>

definition formatDate :: "int \<Rightarrow> int \<Rightarrow> jstr" where
  "formatDate tz t = jint (getFullYear tz t) @ [45] @ pad2 (getMonth tz t + 1) @ [45] @ pad2 (getDate tz t)"

definition fullDatePattern :: rx where
  "fullDatePattern = seqs [Cap 1 (Rep digit 4 (Some 4) True), lit [45380], star space, Cap 2 (Rep digit 1 (Some 2) True), lit [50900], star space, Cap 3 (Rep digit 1 (Some 2) True), lit [51068]]"

definition monthDayPattern :: rx where
  "monthDayPattern = seqs [Cap 1 (Rep digit 1 (Some 2) True), lit [50900], star space, Cap 2 (Rep digit 1 (Some 2) True), lit [51068]]"

text \<open>The captured group of a match; \<open>undefined\<close> is \<open>None\<close>. \<open>parseInt\<close> of a group of digits.\<close>

definition group :: "rx_state \<Rightarrow> nat \<Rightarrow> jstr option" where
  "group m n = jget (snd (snd m)) n"

definition grp :: "rx_state \<Rightarrow> nat \<Rightarrow> jstr" where
  "grp m n = (case group m n of None \<Rightarrow> [] | Some s \<Rightarrow> s)"

definition grpInt :: "rx_state \<Rightarrow> nat \<Rightarrow> int" where
  "grpInt m n = digits_value (grp m n)"

definition nextWeekOffset :: "int \<Rightarrow> int" where
  "nextWeekOffset day = (7 - day) mod 7 + 7"

definition extractDate :: "int \<Rightarrow> int \<Rightarrow> jstr \<Rightarrow> jstr option" where
  "extractDate tz today t =
     (case List.find (\<lambda>e. str_includes (fst e) t) RELATIVE_DATES of
        Some (_, days) \<Rightarrow> Some (formatDate tz (setDate tz (getDate tz today + days) today))
      | None \<Rightarrow>
          if str_includes [45796, 51020, 51452] t \<or> str_includes [45796, 51020, 32, 51452] t
          then Some (formatDate tz (setDate tz (getDate tz today + nextWeekOffset (getDay tz today)) today))
          else case exec fullDatePattern t of
            Some m \<Rightarrow> Some (grp m 1 @ [45] @ padStart 2 48 (grp m 2) @ [45] @ padStart 2 48 (grp m 3))
          | None \<Rightarrow> (case exec monthDayPattern t of
              Some m \<Rightarrow>
                (let month = grpInt m 1; day = grpInt m 2; year = getFullYear tz today;
                     target = newDate tz year (month - 1) day
                 in Some (jint (if target < today then year + 1 else year) @ [45] @ pad2 month @ [45] @ pad2 day))
            | None \<Rightarrow> None))"

section \<open>Times\<close>

definition pmPattern :: rx where
  "pmPattern = seqs [lit [50724, 54980], star space, Cap 1 (Rep digit 1 (Some 2) True), lit [49884], star space, opt (Cap 2 (Rep digit 1 (Some 2) True)), opt (lit [48516])]"

definition amPattern :: rx where
  "amPattern = seqs [lit [50724, 51204], star space, Cap 1 (Rep digit 1 (Some 2) True), lit [49884], star space, opt (Cap 2 (Rep digit 1 (Some 2) True)), opt (lit [48516])]"

definition hourPattern :: rx where
  "hourPattern = seqs [Cap 1 (Rep digit 1 (Some 2) True), lit [49884], star space, opt (Cap 2 (Rep digit 1 (Some 2) True)), opt (lit [48516])]"

definition clockPattern :: rx where
  "clockPattern = seqs [Cap 1 (Rep digit 1 (Some 2) True), lit [58], Cap 2 (Rep digit 2 (Some 2) True)]"

definition minuteOf :: "rx_state \<Rightarrow> int" where
  "minuteOf m = (case group m 2 of None \<Rightarrow> 0 | Some s \<Rightarrow> if s = [] then 0 else digits_value s)"

definition clockStr :: "int \<Rightarrow> int \<Rightarrow> jstr" where
  "clockStr h mi = pad2 h @ [58] @ pad2 mi"

definition extractTime :: "jstr \<Rightarrow> jstr option" where
  "extractTime t =
     (case exec pmPattern t of
        Some m \<Rightarrow> Some (clockStr (if grpInt m 1 < 12 then grpInt m 1 + 12 else grpInt m 1) (minuteOf m))
      | None \<Rightarrow> (case exec amPattern t of
          Some m \<Rightarrow> Some (clockStr (grpInt m 1) (minuteOf m))
        | None \<Rightarrow> (case exec hourPattern t of
            Some m \<Rightarrow> Some (clockStr (grpInt m 1) (minuteOf m))
          | None \<Rightarrow> (case exec clockPattern t of
              Some m \<Rightarrow> Some (padStart 2 48 (grp m 1) @ [58] @ grp m 2)
            | None \<Rightarrow> None))))"

section \<open>Titles\<close>

definition titleNoise :: "rx list" where
  "titleNoise = [
     seqs [Rep digit 4 (Some 4) True, lit [45380], star space],
     seqs [Rep digit 1 (Some 2) True, lit [50900], star space, Rep digit 1 (Some 2) True, lit [51068]],
     lits [[50724, 45720], [45236, 51068], [47784, 47112], [45796, 51020, 51452], [45796, 51020, 32, 51452]],
     seqs [lit [50724, 51204], star space, Rep digit 1 (Some 2) True, lit [49884], star space, star digit, opt (lit [48516])],
     seqs [lit [50724, 54980], star space, Rep digit 1 (Some 2) True, lit [49884], star space, star digit, opt (lit [48516])],
     seqs [Rep digit 1 (Some 2) True, lit [49884], star space, star digit, opt (lit [48516])],
     seqs [Rep digit 1 (Some 2) True, lit [58], Rep digit 2 (Some 2) True],
     seqs [lit [51068, 51221], star space, lits [[51105, 50500], [52628, 44032], [46321, 47197],
       [45347, 50612]], opt (lits [[51480], [51460, 47000], [51460, 32, 49688, 32, 51080, 50612]])],
     seqs [lit [52888, 47536, 45908], opt (lit [50640]), star space, lits [[52628, 44032], [46321,
       47197], [45347, 50612]], opt (lit [51480])],
     seqs [lits [[51105, 50500], [52628, 44032], [46321, 47197], [45347, 50612]], opt (lit [51480])],
     seqs [lit [50640], star space, Eol],
     alts [seqs [lit [50500, 50864, 46972], opt (lit [50556])], seqs [lit [54756, 51060], star space,
       lit [50500, 50864, 46972]]]]"

definition extractTitle :: "jstr \<Rightarrow> jstr" where
  "extractTitle t =
     (let cleaned = trim (foldl (\<lambda>s p. replaceAll p [] s) t titleNoise) in if cleaned = [] then [54924, 51032] else cleaned)"

section \<open>The request\<close>

datatype event_time = AllDay jstr | DateTime jstr

record CalendarInsert =
  ci_summary :: jstr
  ci_start :: event_time
  ci_end :: event_time

text \<open>
  The event, or the message of the \<open>RangeError\<close> that \<open>toISOString\<close> throws on an invalid date. Both times carry the zone
  of Seoul.
\<close>

definition oneHour :: int where "oneHour = 3600000"

definition calendarInsert :: "int \<Rightarrow> jstr \<Rightarrow> jstr \<Rightarrow> jstr option \<Rightarrow> jstr + CalendarInsert" where
  "calendarInsert tz title date time = (case time of
      None \<Rightarrow> Inr \<lparr>ci_summary = title, ci_start = AllDay date, ci_end = AllDay date\<rparr>
    | Some t \<Rightarrow>
        let start = date @ [84] @ t @ [58, 48, 48]
        in case parseLocal tz start of
             None \<Rightarrow> Inl [73, 110, 118, 97, 108, 105, 100, 32, 116, 105, 109, 101, 32, 118,
               97, 108, 117, 101]
           | Some u \<Rightarrow> Inr \<lparr>ci_summary = title, ci_start = DateTime start,
               ci_end = DateTime (take 19 (toISOString (u + oneHour)))\<rparr>)"

definition spokenDate :: "jstr \<Rightarrow> jstr" where
  "spokenDate date = (case (num_at 5 2 date, num_at 8 2 date) of
      (Some m, Some d) \<Rightarrow> jint m @ [50900, 32] @ jint d @ [51068]
    | _ \<Rightarrow> date)"

definition handleCalendarRequest :: "bool \<Rightarrow> (CalendarInsert \<Rightarrow> jstr option) \<Rightarrow> int \<Rightarrow> int \<Rightarrow> jstr \<Rightarrow> jstr \<times> CalendarInsert option" where
  "handleCalendarRequest ready insertEvent tz today t =
     (if \<not> ready then ([52888, 47536, 45908, 32, 49436, 48708, 49828, 44032, 32, 52488, 44592,
       54868, 46104, 51648, 32, 50506, 50520, 49845, 45768, 45796, 46], None)
      else case extractDate tz today t of
        None \<Rightarrow> ([45216, 51676, 47484, 32, 51064, 49885, 54616, 51648, 32, 47803, 54664,
          49845, 45768, 45796, 46, 32, 34, 49, 50900, 32, 49, 53, 51068, 34, 32, 46608, 45716, 32, 34,
          45236, 51068, 34, 32, 44057, 51008, 32, 54805, 49885, 51004, 47196, 32, 47568, 50432, 54644,
          51452, 49464, 50836, 46], None)
      | Some date \<Rightarrow>
          let time = extractTime t; title = extractTitle t
          in case calendarInsert tz title date time of
               Inl e \<Rightarrow> ([51068, 51221, 32, 52628, 44032, 50640, 32, 49892, 54056, 54664,
                 49845, 45768, 45796, 58, 32] @ e, None)
             | Inr ev \<Rightarrow> (case insertEvent ev of
                 Some e \<Rightarrow> ([51068, 51221, 32, 52628, 44032, 50640, 32, 49892, 54056, 54664,
                   49845, 45768, 45796, 58, 32] @ e, None)
               | None \<Rightarrow> ([45348, 44, 32, 34] @ title @ [34, 32, 51068, 51221, 51012,
                 32] @ spokenDate date @
                   (case time of None \<Rightarrow> [] | Some c \<Rightarrow> [32] @ c) @ [50640, 32,
                     52628, 44032, 54664, 49845, 45768, 45796, 46], Some ev)))"

section \<open>What the words mean\<close>

lemma weekDay_next_week: "weekDay (d + nextWeekOffset (weekDay d)) = 0"
proof -
  have "weekDay d \<in> {0..6}" by (simp add: weekDay_def)
  then have "weekDay d \<in> {0, 1, 2, 3, 4, 5, 6}" by auto
  moreover have "weekDay (d + n) = (weekDay d + n) mod 7" for n by (simp add: weekDay_def mod_simps algebra_simps)
  ultimately show ?thesis by (auto simp: nextWeekOffset_def)
qed

text \<open>
  A text that says "next week" and no relative day gives the Sunday that ends the next week, not its Monday, whatever
  day of the week it names.
\<close>

theorem next_week_means_sunday:

      assumes "\<not> list_ex (\<lambda>e. str_includes (fst e) t) RELATIVE_DATES" and "str_includes [45796,
    51020, 51452] t"
  shows "\<exists>u. extractDate tz today t = Some (formatDate tz u) \<and> weekDay (localDay tz u) = 0 \<and>
    localDay tz today + 7 \<le> localDay tz u \<and> localDay tz u \<le> localDay tz today + 13"
proof -
  have f: "List.find (\<lambda>e. str_includes (fst e) t) RELATIVE_DATES = None"
    using assms(1) by (auto simp: find_None_iff list_ex_iff)
  let ?u = "setDate tz (getDate tz today + nextWeekOffset (getDay tz today)) today"
  have d: "localDay tz ?u = localDay tz today + nextWeekOffset (weekDay (localDay tz today))"
    by (simp add: localDay_setDate getDay_def)
  have "0 \<le> (7 - weekDay (localDay tz today)) mod 7" "(7 - weekDay (localDay tz today)) mod 7 \<le> 6"
    using pos_mod_bound [of 7 "7 - weekDay (localDay tz today)"] by simp_all
  then have "localDay tz today + 7 \<le> localDay tz ?u" "localDay tz ?u \<le> localDay tz today + 13"
    unfolding d by (simp_all add: nextWeekOffset_def)
  moreover have "weekDay (localDay tz ?u) = 0" unfolding d by (rule weekDay_next_week)
  moreover have "extractDate tz today t = Some (formatDate tz ?u)"
    using assms(2) by (simp add: extractDate_def f)
  ultimately show ?thesis by blast
qed

text \<open>The witness: a request on Thursday, 1 January 2026 for Tuesday of the next week.\<close>

theorem next_week_means_sunday_witness:
  "\<exists>u. extractDate 0 1767225600000 [45796, 51020, 51452, 32, 54868, 50836, 51068, 32, 54924,
    51032, 32, 51105, 50500, 51480] = Some (formatDate 0 u) \<and> weekDay (localDay 0 u) = 0"
proof -
  have "\<not> list_ex (\<lambda>e. str_includes (fst e) [45796, 51020, 51452, 32, 54868, 50836, 51068,
    32, 54924, 51032, 32, 51105, 50500, 51480]) RELATIVE_DATES"
    "str_includes [45796, 51020, 51452] [45796, 51020, 51452, 32, 54868, 50836, 51068, 32, 54924,
      51032, 32, 51105, 50500, 51480]" by code_simp+
  from next_week_means_sunday [OF this, of 0 1767225600000] show ?thesis by blast
qed

text \<open>
  A text that names the month and the day of today, after midnight, gives the date one year from now: the midnight of
  today has already passed.
\<close>

theorem today_by_date_means_next_year:

      assumes "\<not> list_ex (\<lambda>e. str_includes (fst e) t) RELATIVE_DATES" and "\<not> str_includes [45796,
    51020, 51452] t" and "\<not> str_includes [45796, 51020, 32, 51452] t"
    and "exec fullDatePattern t = None" and "exec monthDayPattern t = Some m"
    and "grpInt m 1 = getMonth tz today + 1" and "grpInt m 2 = getDate tz today"
    and "0 < (today + tz) mod msPerDay"
  shows "extractDate tz today t =
    Some (jint (getFullYear tz today + 1) @ [45] @ pad2 (getMonth tz today + 1) @ [45] @ pad2 (getDate tz today))"
proof -
  have f: "List.find (\<lambda>e. str_includes (fst e) t) RELATIVE_DATES = None"
    using assms(1) by (auto simp: find_None_iff list_ex_iff)
  have "newDate tz (getFullYear tz today) (getMonth tz today) (getDate tz today) = localDay tz today * msPerDay - tz"
    using makeDay_of_day [of "localDay tz today" "getDate tz today"]
    by (simp add: newDate_def getFullYear_def getMonth_def getDate_def)
  also have "\<dots> < today"
    using assms(8) div_mult_mod_eq [of "today + tz" msPerDay] unfolding localDay_def by linarith
  finally show ?thesis
    using assms(2-7) by (simp add: extractDate_def f Let_def)
qed

theorem today_by_date_means_next_year_witness:
  "extractDate 0 1767261600000 [49, 50900, 32, 49, 51068, 32, 54924, 51032, 32, 51105, 50500,
    51480] = Some [50, 48, 50, 55, 45, 48, 49, 45, 48, 49]"
proof -
  define t :: jstr where "t = [49, 50900, 32, 49, 51068, 32, 54924, 51032, 32, 51105, 50500, 51480]"
  have m: "exec monthDayPattern t = Some (rev [49, 50900, 32, 49, 51068], [32, 54924, 51032, 32, 51105,
    50500, 51480], [(1, [49]), (2, [49])])"
    unfolding t_def by code_simp

      have "\<not> list_ex (\<lambda>e. str_includes (fst e) t) RELATIVE_DATES" "\<not> str_includes [45796,
    51020, 51452] t" "\<not> str_includes [45796, 51020, 32, 51452] t"
    "exec fullDatePattern t = None" unfolding t_def by code_simp+
  note n = today_by_date_means_next_year [OF this m]
  have "grpInt (rev [49, 50900, 32, 49, 51068], [32, 54924, 51032, 32, 51105, 50500, 51480], [(1,
    [49]), (2, [49])]) 1 = getMonth 0 1767261600000 + 1"
    "grpInt (rev [49, 50900, 32, 49, 51068], [32, 54924, 51032, 32, 51105, 50500, 51480], [(1, [49]),
      (2, [49])]) 2 = getDate 0 1767261600000"
    "0 < (1767261600000 + 0) mod msPerDay" by code_simp+
  from n [OF this] have "extractDate 0 1767261600000 t = Some (jint (getFullYear 0 1767261600000 + 1) @ [45] @
    pad2 (getMonth 0 1767261600000 + 1) @ [45] @ pad2 (getDate 0 1767261600000))" .
  moreover have "jint (getFullYear 0 1767261600000 + 1) @ [45] @ pad2 (getMonth 0 1767261600000 + 1) @ [45] @
    pad2 (getDate 0 1767261600000) = [50, 48, 50, 55, 45, 48, 49, 45, 48, 49]" by code_simp
  ultimately show ?thesis unfolding t_def by simp
qed

section \<open>The length of the event\<close>

text \<open>A local time read in two zones, and its full seconds.\<close>

lemma parseLocal_zone: "parseLocal tz s = Some u \<Longrightarrow> parseLocal tz' s = Some (u + tz - tz')"
  by (auto simp: parseLocal_def split: if_splits option.splits)

lemma parseLocal_seconds:
  assumes "parseLocal tz s = Some u"
  shows "(u + tz) mod 1000 = 0"
proof -
  obtain y mo d h mi sec where "u = makeDay y (mo - 1) d * msPerDay + h * 3600000 + mi * 60000 + sec * 1000 - tz"
    using assms by (auto simp: parseLocal_def split: if_splits option.splits)
  then have "u + tz = 1000 * (makeDay y (mo - 1) d * 86400 + h * 3600 + mi * 60 + sec)" by (simp add: msPerDay_def)
  then show ?thesis by simp
qed

text \<open>
  The event as the calendar reads it, both times in Seoul: it lasts one hour less what the server is ahead of UTC. On
  a server in UTC that is one hour; on a server in Seoul the event ends eight hours before it begins.
\<close>

theorem event_length_depends_on_zone:
  assumes "calendarInsert tz title date (Some time) = Inr ev" and "tz mod 1000 = 0"
    and "\<And>u. parseLocal tz (date @ [84] @ time @ [58, 48,
      48]) = Some u \<Longrightarrow> 0 \<le> getFullYear 0 (u + oneHour) \<and> getFullYear 0 (u + oneHour) \<le> 9999"
  shows "\<exists>s e a b. ci_start ev = DateTime s \<and> ci_end ev = DateTime e \<and> parseLocal seoul s = Some a \<and> parseLocal seoul e = Some b \<and>
    b - a = oneHour - tz"
proof -
  let ?s = "date @ [84] @ time @ [58, 48, 48]"
  obtain u where u: "parseLocal tz ?s = Some u"
      and ev: "ev = \<lparr>ci_summary = title, ci_start = DateTime ?s, ci_end = DateTime (take 19 (toISOString (u + oneHour)))\<rparr>"
    using assms(1) by (auto simp: calendarInsert_def Let_def split: option.splits)
  have "(u + oneHour) mod 1000 = 0"
  proof -
    have "1000 dvd u + tz" "1000 dvd tz" using parseLocal_seconds [OF u] assms(2) by (simp_all add: mod_eq_0_iff_dvd)
    then have "1000 dvd u" by (simp add: dvd_add_left_iff)
    then have "1000 dvd u + oneHour" by (simp add: oneHour_def)
    then show ?thesis by (simp add: mod_eq_0_iff_dvd)
  qed
  then have "(u + oneHour) div 1000 * 1000 = u + oneHour" using mult_div_mod_eq [of 1000 "u + oneHour"] by simp
  then have "parseLocal seoul (take 19 (toISOString (u + oneHour))) = Some (u + oneHour - seoul)"
    using iso_roundtrip [of "u + oneHour" seoul] assms(3) [OF u] by simp
  moreover have "parseLocal seoul ?s = Some (u + tz - seoul)" by (rule parseLocal_zone [OF u])
  ultimately show ?thesis by (simp add: ev)
qed

theorem event_length_depends_on_zone_witness:
  "\<exists>ev s e a b. calendarInsert 32400000 [54924, 51032] [50, 48, 50, 54, 45, 48, 49, 45, 48,
    53] (Some [49, 53, 58, 48,
    48]) = Inr ev \<and> ci_start ev = DateTime s \<and> ci_end ev = DateTime e \<and>
     parseLocal 32400000 s = Some a \<and> parseLocal 32400000 e = Some b \<and> b = a - 8 * oneHour"
proof -
  have u: "parseLocal 32400000 ([50, 48, 50, 54, 45, 48, 49, 45, 48, 53] @ [84] @ [49, 53, 58, 48,
    48] @ [58, 48, 48]) = Some 1767592800000" by code_simp
  have y: "0 \<le> getFullYear 0 (1767592800000 + oneHour) \<and> getFullYear 0 (1767592800000 + oneHour) \<le> 9999" by code_simp
  obtain ev where ev: "calendarInsert 32400000 [54924, 51032] [50, 48, 50, 54, 45, 48, 49, 45, 48,
    53] (Some [49, 53, 58, 48, 48]) = Inr ev"
    using u by (simp add: calendarInsert_def Let_def)
  have "\<exists>s e a b. ci_start ev = DateTime s \<and> ci_end ev = DateTime e \<and> parseLocal 32400000 s = Some a \<and>
      parseLocal 32400000 e = Some b \<and> b - a = oneHour - 32400000"
    by (rule event_length_depends_on_zone [OF ev]) (use u y in simp_all)
  then obtain s e a b where x: "ci_start ev = DateTime s" "ci_end ev = DateTime e" "parseLocal 32400000 s = Some a"
      "parseLocal 32400000 e = Some b" "b - a = oneHour - 32400000" by blast
  from x(5) have "b = a - 8 * oneHour" by (simp add: oneHour_def)
  with ev x(1-4) show ?thesis by blast
qed

end
