(* ===== verification/LlmService.thy ===== *)
theory LlmService
  imports LlmCalendar SearchService RagClient IntentClassifier
begin

text \<open>
  The language-model service, \<open>src/llm/llm.service.ts\<close>: the routes of a message (calendar, search, record of the meeting,
  model), the flag that is to keep requests apart, retries with growing pauses, the prompts, the shaping of the answers and
  the reading of a voice request. The model is the field \<open>bedrock\<close> of \<open>llm_env\<close>, which answers each attempt of a request;
  \<open>JSON.stringify\<close>, \<open>JSON.parse\<close>, the calendar and the HTTP client of the search are fields too. A message that is being
  answered is a \<open>sm_call\<close>, whose phase says what it awaits; \<open>sm_step\<close> interleaves the calls with the events of the RAG client.
\<close>

section \<open>Data\<close>

datatype model_reply = Answered "jstr option" | Throttled jstr | Broken jstr

record llm_request =
  lq_maxTokens :: int
  lq_system :: "jstr option"
  lq_messages :: "(jstr \<times> jstr) list"

text \<open>What the model read from a transcript; a field may be missing.\<close>

record Correction =
  cx_hasWakeWord :: "bool option"
  cx_correctedText :: "jstr option"
  cx_searchKeyword :: "jstr option"
  cx_searchType :: "jstr option"
  cx_category :: "jstr option"

record llm_env =
  naver :: search_env
  bedrock :: "llm_request \<Rightarrow> nat \<Rightarrow> model_reply"
  stringifyOne :: "SearchResult \<Rightarrow> jstr"
  stringify :: "SearchResult list \<Rightarrow> jstr"
  stringifyIndent :: "SearchResult list \<Rightarrow> jstr"
  parseCorrection :: "jstr \<Rightarrow> Correction option"
  calendarReady :: bool
  insertEvent :: "CalendarInsert \<Rightarrow> jstr option"
  serverZone :: int
  restApiUrl :: jstr

record LlmReply =
  llm_text :: jstr
  llm_searchResults :: "SearchResult list option"
  llm_ragSources :: "(jstr \<times> jstr option) list option"

record VoiceRequest =
  vq_shouldRespond :: bool
  vq_correctedText :: jstr
  vq_searchKeyword :: "jstr option"
  vq_searchType :: "jstr option"
  vq_category :: "jstr option"

definition MIN_REQUEST_INTERVAL :: int where "MIN_REQUEST_INTERVAL = 1500"

definition MAX_RETRIES :: nat where "MAX_RETRIES = 3"

definition PURE_MIN_INTERVAL :: int where "PURE_MIN_INTERVAL = 300"

definition PURE_MAX_RETRIES :: nat where "PURE_MAX_RETRIES = 2"

section \<open>Calling the model\<close>

text \<open>
  Attempt \<open>k\<close> of a request with \<open>left\<close> retries left: the text or the message of the error, and the milliseconds slept
  between attempts, \<open>unit\<close> times a power of two each.
\<close>

fun tryModel :: "int \<Rightarrow> llm_env \<Rightarrow> llm_request \<Rightarrow> nat \<Rightarrow> nat \<Rightarrow> (jstr + jstr option) \<times> int" where
  "tryModel unit env rq k left = (case bedrock env rq k of
      Answered t \<Rightarrow> (Inr t, 0)
    | Broken e \<Rightarrow> (Inl e, 0)
    | Throttled e \<Rightarrow> (case left of
        0 \<Rightarrow> (Inl e, 0)
      | Suc l \<Rightarrow> let (r, slept) = tryModel unit env rq (Suc k) l in (r, 2 ^ (k + 1) * unit + slept)))"

declare tryModel.simps [simp del]

definition pureStart :: "int \<Rightarrow> int \<Rightarrow> int" where
  "pureStart now lastPure = (if now - lastPure < PURE_MIN_INTERVAL then now + (PURE_MIN_INTERVAL - (now - lastPure)) else now)"

definition userMessages :: "jstr \<Rightarrow> (jstr \<times> jstr) list" where
  "userMessages t = [([117, 115, 101, 114], t)]"

text \<open>The answer or the error, and the time of the request, the new \<open>lastPureRequestTime\<close>.\<close>

definition sendMessagePure :: "llm_env \<Rightarrow> int \<Rightarrow> int \<Rightarrow> jstr \<Rightarrow> int \<Rightarrow> (jstr + jstr) \<times> int" where
  "sendMessagePure env now lastPure prompt maxTokens =
     (case fst (tryModel 1000 env \<lparr>lq_maxTokens = maxTokens, lq_system = None, lq_messages = userMessages prompt\<rparr> 0 PURE_MAX_RETRIES) of
        Inl e \<Rightarrow> Inl e
      | Inr t \<Rightarrow> Inr (trim (str_or t [])), pureStart now lastPure)"

definition contextPrompt :: "jstr \<Rightarrow> jstr \<Rightarrow> jstr \<Rightarrow> jstr" where
  "contextPrompt question contextStr mode = [45817, 49888, 51008, 32, 54924, 51032, 32, 51648, 50896,
    32, 65, 73, 32, 50500, 50864, 46972, 51077, 45768, 45796, 46, 32, 54788, 51116, 32] @ mode @ [32,
    54868, 47732, 50640, 32, 45824, 54644, 32, 49324, 50857, 51088, 51032, 32, 51656, 47928, 50640, 32,
    45813, 48320, 54644, 51452, 49464, 50836, 46, 10, 10] @ contextStr @ [10, 10, 49324, 50857, 51088,
    32, 51656, 47928, 58, 32, 34] @ question @ [34, 10, 10, 51025, 45813, 32, 44032, 51060, 46300, 58,
    10, 45, 32, 54788, 51116, 32, 54868, 47732, 50640, 32, 48372, 51060, 45716, 32, 45236, 50857,
    51012, 32, 44592, 48152, 51004, 47196, 32, 45813, 48320, 54616, 49464, 50836, 10, 45, 32, 54868,
    47732, 50640, 32, 50630, 45716, 32, 51221, 48372, 45716, 32, 52628, 52769, 54616, 51648, 32, 47560,
    49464, 50836, 10, 45, 32, 50, 45, 51, 47928, 51109, 51004, 47196, 32, 44036, 44208, 54616, 44172,
    32, 45813, 48320, 54616, 49464, 50836, 10, 45, 32, 51020, 49457, 51004, 47196, 32, 51069, 44592,
    32, 51339, 44172, 32, 51088, 50672, 49828, 47101, 44172, 32, 51089, 49457, 54616, 49464, 50836]"

definition answerWithContext :: "llm_env \<Rightarrow> int \<Rightarrow> int \<Rightarrow> jstr \<Rightarrow> jstr \<Rightarrow> jstr \<Rightarrow> jstr" where
  "answerWithContext env now lastPure question contextStr mode =
     (case fst (sendMessagePure env now lastPure (contextPrompt question contextStr mode) 300) of
        Inl _ \<Rightarrow> [51396, 49569, 54633, 45768, 45796, 46, 32] @ mode @ [32, 48516, 49437, 32,
          51473, 32, 50724, 47448, 44032, 32, 48156, 49373, 54664, 49845, 45768, 45796, 46]
      | Inr r \<Rightarrow> if r = [] then mode @ [50640, 32, 45824, 54644, 32, 47568, 50432, 54644,
        51452, 49464, 50836, 46] else r)"

section \<open>Prompts\<close>

definition isPlace :: "SearchResult \<Rightarrow> bool" where
  "isPlace r \<longleftrightarrow> truthy_str (sr_address r) \<or> truthy_str (sr_roadAddress r)"

definition hasLocation :: "SearchResult list \<Rightarrow> bool" where
  "hasLocation rs = list_ex isPlace rs"

definition contentOrTitle :: "SearchResult \<Rightarrow> jstr" where
  "contentOrTitle r = (if sr_content r = [] then sr_title r else sr_content r)"

definition promptCategories :: "(jstr \<times> jstr list) list" where
  "promptCategories = [
     ([45216, 50472], [[45216, 50472], [44592, 50728], [50728, 46020], [48708], [45576], [48148, 46988]]),
     ([52852, 54168], [[52852, 54168], [52964, 54588]]),
     ([47579, 51665], [[47579, 51665], [49885, 45817], [47112, 49828, 53664, 46993], [48165, 51665],
       [51200, 45377], [51216, 49900]]),
     ([49696, 51665], [[49696, 51665], [48148], [54252, 52264], [54840, 54532]]),
     ([54045, 50629], [[54045, 50629], [54045, 50629, 49828, 53664, 50612]]),
     ([51204, 49884], [[51204, 49884], [51204, 49884, 54924], [44068, 47084, 47532]]),
     ([50689, 54868], [[50689, 54868], [44060, 48393], [50689, 54868, 44288]]),
     ([45684, 49828], [[45684, 49828], [49548, 49885], [44592, 49324]]),
     ([51452, 49885], [[51452, 49885], [51452, 44032], [53076, 49828, 54588]]),
     ([49828, 54252, 52768], [[49828, 54252, 52768], [52629, 44396], [50556, 44396]]),
     ([48177, 44284], [[51221, 51032], [51032, 48120], [44060, 45392], [54952, 45733]])]"

definition promptCategory :: "jstr \<Rightarrow> jstr option" where
  "promptCategory msg =
     map_option fst (List.find (\<lambda>(c, ks). list_ex (\<lambda>k. str_includes k (to_lower msg)) ks) promptCategories)"

definition weatherTime :: "jstr \<Rightarrow> jstr" where
  "weatherTime msg = (if str_includes [45236, 51068] msg then [45236, 51068] else if str_includes [47784, 47112] msg then [47784, 47112]
     else if str_includes [51060, 48264, 51452] msg then [51060, 48264, 51452] else [50724, 45720])"

definition weatherPrompt :: "jstr \<Rightarrow> jstr \<Rightarrow> SearchResult list \<Rightarrow> jstr" where
  "weatherPrompt location when results = [45817, 49888, 51008, 32, 54924, 51032, 32, 65, 73, 32, 48708,
    49436, 32, 39, 50500, 50864, 46972, 39, 51077, 45768, 45796, 46, 32, 51088, 50672, 49828, 47101,
    44172, 32, 47568, 54644, 50836, 46, 10, 10, 34] @ location @ [34, 32, 34] @ when @ [34, 32, 45216,
    50472, 32, 47932, 50612, 48420, 50612, 50836, 46, 10, 10, 35, 35, 32, 51473, 50836, 33, 32, 51221,
    48372, 45716, 32, 48152, 46300, 49884, 32, 54252, 54632, 10, 45, 32, 44592, 50728, 40, 49707,
    51088, 41, 44, 32, 45216, 50472, 32, 49345, 53468, 44, 32, 44053, 49688, 32, 54869, 47456, 32,
    46321, 32, 42, 42, 44396, 52404, 51201, 51064, 32, 49688, 52824, 45716, 32, 44845, 32, 47568,
    54616, 44592, 42, 42, 10, 45, 32, 44592, 54840, 32, 44552, 51648, 58, 32, 176, 32, 8594, 32, 34,
    46020, 34, 44, 32, 37, 32, 8594, 32, 34, 54140, 49468, 53944, 34, 10, 10, 35, 35, 32, 47568, 53804,
    10, 45, 32, 51316, 45843, 47568, 47196, 32, 44036, 44208, 54616, 44172, 32, 40, 49, 126, 50, 47928,
    51109, 41, 10, 45, 32, 48152, 46300, 49884, 32, 51316, 45843, 47568, 40, 126, 51077, 45768, 45796,
    44, 32, 126, 49845, 45768, 45796, 41, 32, 49324, 50857, 10, 10, 35, 35, 32, 51339, 51008, 32,
    50696, 49884, 10, 45, 32, 34] @ location @ [32] @ when @ [32, 47569, 44256, 32, 49, 53, 46020,
    50696, 50836, 44, 32, 51328, 32, 49920, 49920, 54616, 45768, 44620, 32, 44169, 50743, 32, 52313,
    44592, 49464, 50836, 126, 34, 10, 45, 32, 34] @ when @ [32] @ location @ [51008, 32, 55120, 47532,
    44256, 32, 56, 46020, 47000, 50836, 44, 32, 48708, 32, 50732, 32, 54869, 47456, 32, 54, 48, 54140,
    49468, 53944, 50696, 50836, 34, 10, 10, 35, 35, 32, 45208, 49244, 32, 50696, 49884, 32, 40, 51221,
    48372, 32, 45572, 46973, 32, 10060, 41, 10, 45, 32, 34, 51328, 32, 52628, 50892, 50836, 34, 32,
    8592, 32, 47751, 32, 46020, 51064, 51648, 32, 50630, 51020, 33, 10, 45, 32, 34, 48708, 32, 50732,
    32, 44163, 32, 44057, 50500, 50836, 34, 32, 8592, 32, 54869, 47456, 32, 50630, 51020, 33, 10, 10,
    35, 35, 32, 44160, 49353, 32, 44208, 44284, 10] @ take 500 (join [10] (map contentOrTitle results))"

definition placePrompt :: "llm_env \<Rightarrow> jstr \<Rightarrow> jstr \<Rightarrow> SearchResult list \<Rightarrow> jstr" where
  "placePrompt env location category results = [45817, 49888, 51008, 32, 54924, 51032, 32, 65, 73, 32,
    48708, 49436, 32, 39, 50500, 50864, 46972, 39, 51077, 45768, 45796, 46, 32, 51316, 45843, 47568,
    47196, 32, 45813, 48320, 54616, 49464, 50836, 46, 10, 10, 34] @ location @ [34, 32, 44540, 52376,
    32] @ category @ [32, 52628, 52380, 54644, 45804, 47000, 50836, 46, 10, 10, 35, 35, 32, 51473,
    50836, 33, 32, 51221, 48372, 45716, 32, 48152, 46300, 49884, 32, 54252, 54632, 10, 45, 32, 42, 42,
    44032, 44172, 32, 51060, 47492, 42, 42, 32, 51221, 54869, 55176, 10, 45, 32, 42, 42, 51452, 49548,
    42, 42, 32, 40, 46020, 47196, 47749, 32, 46608, 45716, 32, 51648, 48264, 41, 10, 45, 32, 47560,
    51648, 47561, 50640, 32, 34, 44221, 47196, 32, 48372, 45236, 46300, 47532, 44192, 49845, 45768,
    45796, 34, 32, 52628, 44032, 10, 10, 35, 35, 32, 47568, 53804, 10, 45, 32, 51316, 45843, 47568,
    47196, 32, 44036, 44208, 54616, 44172, 32, 40, 49, 126, 50, 47928, 51109, 41, 10, 45, 32, 48152,
    46300, 49884, 32, 51316, 45843, 47568, 40, 126, 51077, 45768, 45796, 44, 32, 126, 49845, 45768,
    45796, 41, 32, 49324, 50857, 10, 10, 35, 35, 32, 51339, 51008, 32, 50696, 49884, 10, 45, 32, 34,
    44144, 44592, 47732, 32, 49828, 53440, 48261, 49828, 32, 44053, 45224, 51216, 32, 52628, 52380,
    46300, 47549, 45768, 45796, 46, 32, 53580, 54756, 46976, 47196, 32, 49, 53, 50, 50640, 32, 51080,
    50612, 50836, 46, 32, 44221, 47196, 32, 48372, 45236, 46300, 47532, 44192, 49845, 45768, 45796, 34,
    10, 45, 32, 34, 48660, 47336, 48372, 53952, 32, 49457, 49688, 51216, 32, 52628, 52380, 54644,
    50836, 44, 32, 49436, 50872, 49714, 47196, 32, 49, 52, 44600, 51060, 50640, 50836, 46, 32, 44221,
    47196, 32, 48372, 45236, 46300, 47532, 44192, 49845, 45768, 45796, 34, 10, 10, 35, 35, 32, 45208,
    49244, 32, 50696, 49884, 32, 40, 51221, 48372, 32, 45572, 46973, 32, 10060, 41, 10, 45, 32, 34,
    44144, 44592, 32, 44316, 52270, 50500, 50836, 34, 32, 8592, 32, 51060, 47492, 32, 50630, 51020, 33,
    10, 45, 32, 34, 49828, 53440, 48261, 49828, 32, 52628, 52380, 54644, 50836, 34, 32, 8592, 32,
    50612, 45712, 32, 51648, 51216, 63, 32, 51452, 49548, 45716, 63, 10, 10, 35, 35, 32, 44160, 49353,
    32, 44208, 44284, 32, 40, 52395, 32, 48264, 51704, 47564, 32, 49324, 50857, 41,
    10] @ stringifyOne env (hd results)"

definition eventPrompt :: "llm_env \<Rightarrow> jstr \<Rightarrow> jstr \<Rightarrow> SearchResult list \<Rightarrow> jstr" where
  "eventPrompt env location category results = [45817, 49888, 51008, 32, 54924, 51032, 32, 65, 73, 32,
    48708, 49436, 32, 39, 50500, 50864, 46972, 39, 51077, 45768, 45796, 46, 32, 51316, 45843, 47568,
    47196, 32, 45813, 48320, 54616, 49464, 50836, 46, 10, 10, 34] @ location @ [34, 32, 44540, 52376,
    32] @ category @ [32, 51221, 48372, 32, 47932, 50612, 48420, 50612, 50836, 46, 10, 10, 35, 35, 32,
    47568, 53804, 10, 45, 32, 51316, 45843, 47568, 47196, 32, 44036, 44208, 54616, 44172, 32, 40, 50,
    126, 51, 47928, 51109, 41, 10, 45, 32, 48152, 46300, 49884, 32, 51316, 45843, 47568, 40, 126,
    51077, 45768, 45796, 44, 32, 126, 49845, 45768, 45796, 41, 32, 49324, 50857,
    10] @ (if hasLocation results then [45, 32, 47560, 51648, 47561, 50640, 32, 34, 44221, 47196, 32,
    48372, 45236, 46300, 47532, 44192, 49845, 45768, 45796, 34, 32, 52628, 44032] else []) @ [10, 10,
    35, 35, 32, 50696, 49884, 10, 45, 32, 34, 91, 51060, 47492, 93, 32] @ category @ [32, 54616, 44256,
    32, 51080, 50612, 50836, 33, 32, 91, 51109, 49548, 93, 50640, 49436, 50836, 46, 32, 44221, 47196,
    32, 48372, 45236, 46300, 47532, 44192, 49845, 45768, 45796, 34, 10, 45, 32, 34, 91, 51060, 47492,
    93, 32] @ category @ [32, 44316, 52270, 45824, 50836, 44, 32, 91, 44592, 44036, 93, 44620, 51648,
    47000, 50836, 34, 10, 10, 35, 35, 32, 44160, 49353, 32, 44208, 44284,
    10] @ stringifyIndent env (take 2 results)"

definition moviePrompt :: "llm_env \<Rightarrow> SearchResult list \<Rightarrow> jstr" where
  "moviePrompt env results = [45817, 49888, 51008, 32, 54924, 51032, 32, 65, 73, 32, 48708, 49436, 32,
    39, 50500, 50864, 46972, 39, 51077, 45768, 45796, 46, 32, 51316, 45843, 47568, 47196, 32, 45813,
    48320, 54616, 49464, 50836, 46, 10, 10, 50689, 54868, 32, 44288, 47144, 32, 51221, 48372, 32,
    47932, 50612, 48420, 50612, 50836, 46, 10, 10, 35, 35, 32, 47568, 53804, 10, 45, 32, 51316, 45843,
    47568, 47196, 32, 44036, 44208, 54616, 44172, 32, 40, 50, 126, 51, 47928, 51109, 41, 10, 45, 32,
    50689, 54868, 32, 51228, 47785, 47564, 32, 50616, 44553, 32, 40, 51460, 44144, 47532, 32, 10060,
    41, 10] @ (if filter isPlace results \<noteq> [] then [45, 32, 50689, 54868, 44288, 32, 51080,
    51004, 47732, 32, 34, 44540, 52376, 32, 50689, 54868, 44288, 46020, 32, 50508, 47140, 51460, 44172,
    50836, 126, 34, 32, 52628, 44032] else []) @ [10, 10, 35, 35, 32, 50696, 49884, 10, 45, 32, 34,
    50836, 51608, 32, 91, 50689, 54868, 93, 32, 51116, 48140, 45824, 50836, 33, 32, 44540, 52376, 32,
    50689, 54868, 44288, 46020, 32, 50508, 47140, 51460, 44172, 50836, 126, 34, 10, 45, 32, 34, 91,
    50689, 54868, 93, 32, 44060, 48393, 54664, 50612, 50836, 44, 32, 91, 50689, 54868, 44288, 93,
    50640, 49436, 32, 54616, 44256, 32, 51080, 50612, 50836, 34, 10, 10, 35, 35, 32, 44160, 49353, 32,
    44208, 44284, 32, 45, 32, 50689, 54868, 32, 45684, 49828,
    10] @ stringifyIndent env (take 2 (filter (\<lambda>r. \<not> isPlace r) results)) @ [10, 10, 35,
    35, 32, 44160, 49353, 32, 44208, 44284, 32, 45, 32, 44540, 52376, 32, 50689, 54868, 44288,
    10] @ stringifyIndent env (take 1 (filter isPlace results))"

definition newsPrompt :: "llm_env \<Rightarrow> jstr \<Rightarrow> SearchResult list \<Rightarrow> jstr" where
  "newsPrompt env category results = [45817, 49888, 51008, 32, 54924, 51032, 32, 65, 73, 32, 48708,
    49436, 32, 39, 50500, 50864, 46972, 39, 51077, 45768, 45796, 46, 32, 51316, 45843, 47568, 47196,
    32, 45813, 48320, 54616, 49464, 50836, 46, 10, 10] @ category @ [32, 51221, 48372, 32, 47932,
    50612, 48420, 50612, 50836, 46, 10, 10, 35, 35, 32, 51473, 50836, 33, 32, 51221, 48372, 45716, 32,
    48152, 46300, 49884, 32, 54252, 54632, 10, 45, 32, 42, 42, 44396, 52404, 51201, 51064, 32, 49688,
    52824, 47, 51060, 47492, 47, 45216, 51676, 42, 42, 32, 46321, 32, 54645, 49900, 32, 51221, 48372,
    32, 44845, 32, 54252, 54632, 10, 45, 32, 52628, 49345, 51201, 51004, 47196, 32, 50836, 50557,
    54616, 51648, 32, 47568, 44256, 32, 49892, 51228, 32, 45936, 51060, 53552, 32, 51204, 45804, 10,
    10, 35, 35, 32, 47568, 53804, 10, 45, 32, 51316, 45843, 47568, 47196, 32, 44036, 44208, 54616,
    44172, 32, 40, 50, 126, 51, 47928, 51109, 41, 10, 45, 32, 48152, 46300, 49884, 32, 51316, 45843,
    47568, 40, 126, 51077, 45768, 45796, 44, 32, 126, 49845, 45768, 45796, 41, 32, 49324, 50857, 10,
    10, 35, 35, 32, 51339, 51008, 32, 50696, 49884, 10, 45, 32, 34, 49340, 49457, 51204, 51088, 32,
    50724, 45720, 32, 50, 46, 51, 54140, 49468, 53944, 32, 50732, 46972, 49436, 32, 55, 47564, 32, 50,
    52380, 50896, 51060, 47000, 50836, 34, 10, 45, 32, 34, 53664, 53944, 45336, 51060, 32, 47592,
    49884, 54000, 32, 50, 45824, 49, 47196, 32, 51060, 44220, 45824, 50836, 44, 32, 49552, 55141,
    48124, 51060, 32, 49, 44264, 32, 45347, 50632, 50612, 50836, 34, 10, 10, 35, 35, 32, 45208, 49244,
    32, 50696, 49884, 32, 40, 51221, 48372, 32, 45572, 46973, 32, 10060, 41, 10, 45, 32, 34, 51452,
    44032, 44032, 32, 50732, 46992, 45824, 50836, 34, 32, 8592, 32, 50620, 47560, 45208, 63, 10, 45,
    32, 34, 44221, 44592, 32, 51060, 44220, 45824, 50836, 34, 32, 8592, 32, 49828, 53076, 50612, 45716,
    63, 10, 10, 35, 35, 32, 44160, 49353, 32, 44208, 44284, 10] @ stringifyIndent env (take 2 results)"

definition encycPrompt :: "llm_env \<Rightarrow> SearchResult list \<Rightarrow> jstr" where
  "encycPrompt env results = [45817, 49888, 51008, 32, 54924, 51032, 32, 65, 73, 32, 48708, 49436, 32,
    39, 50500, 50864, 46972, 39, 51077, 45768, 45796, 46, 32, 51316, 45843, 47568, 47196, 32, 45813,
    48320, 54616, 49464, 50836, 46, 10, 10, 47956, 44032, 50640, 32, 45824, 54644, 32, 47932, 50612,
    48420, 50612, 50836, 46, 10, 10, 35, 35, 32, 51473, 50836, 33, 32, 51221, 48372, 45716, 32, 48152,
    46300, 49884, 32, 54252, 54632, 10, 45, 32, 42, 42, 54645, 49900, 32, 51221, 51032, 47, 49444,
    47749, 42, 42, 32, 51221, 54869, 55176, 32, 51204, 45804, 10, 45, 32, 50612, 47140, 50868, 32,
    50857, 50612, 45716, 32, 49789, 44172, 32, 54400, 50612, 49436, 44, 32, 54616, 51648, 47564, 32,
    45236, 50857, 51008, 32, 49373, 47029, 54616, 51648, 32, 50506, 44592, 10, 10, 35, 35, 32, 47568,
    53804, 10, 45, 32, 51316, 45843, 47568, 47196, 32, 44036, 44208, 54616, 44172, 32, 40, 50, 126, 51,
    47928, 51109, 41, 10, 45, 32, 48152, 46300, 49884, 32, 51316, 45843, 47568, 40, 126, 51077, 45768,
    45796, 44, 32, 126, 49845, 45768, 45796, 41, 32, 49324, 50857, 10, 10, 35, 35, 32, 51339, 51008,
    32, 50696, 49884, 10, 45, 32, 34, 53440, 51060, 47112, 45440, 51008, 32, 50500, 49464, 53944,
    50500, 48120, 45432, 54172, 32, 49457, 48516, 32, 51652, 53685, 51228, 50696, 50836, 44, 32, 46160,
    53685, 51060, 45208, 32, 50676, 32, 45216, 32, 46412, 32, 47673, 50612, 50836, 34, 10, 45, 32, 34,
    71, 68, 80, 45716, 32, 44397, 45236, 52509, 49373, 49328, 51060, 50640, 50836, 44, 32, 45208,
    46972, 50640, 49436, 32, 49, 45380, 44036, 32, 47564, 46304, 32, 47932, 44148, 51060, 46993, 32,
    49436, 48708, 49828, 32, 52509, 54633, 51060, 50836, 34, 10, 10, 35, 35, 32, 45208, 49244, 32,
    50696, 49884, 32, 40, 51221, 48372, 32, 45572, 46973, 32, 10060, 41, 10, 45, 32, 34, 51652, 53685,
    51228, 50696, 50836, 34, 32, 8592, 32, 49457, 48516, 51008, 63, 32, 50857, 46020, 45716, 63, 10,
    45, 32, 34, 44221, 51228, 32, 50857, 50612, 50696, 50836, 34, 32, 8592, 32, 47956, 51648, 32,
    49444, 47749, 32, 50504, 32, 54632, 10, 10, 35, 35, 32, 44160, 49353, 32, 44208, 44284,
    10] @ stringifyIndent env (take 2 results)"

definition idlePrompt :: jstr where
  "idlePrompt = [45817, 49888, 51008, 32, 54924, 51032, 32, 65, 73, 32, 48708, 49436, 32, 39, 50500,
    50864, 46972, 39, 51077, 45768, 45796, 46, 32, 47568, 54644, 50836, 46, 10, 10, 35, 35, 32, 47568,
    53804, 10, 45, 32, 51316, 45843, 47568, 47196, 32, 44036, 44208, 54616, 44172, 32, 40, 49, 126, 50,
    47928, 51109, 41, 10, 45, 32, 51316, 45843, 47568, 47196, 32, 44036, 44208, 54616, 44172, 32,
    45813, 48320, 10, 10, 35, 35, 32, 50696, 49884, 10, 45, 32, 34, 45348, 63, 32, 47952, 32, 52286,
    50500, 48380, 44620, 50836, 63, 34, 10, 45, 32, 34, 50612, 32, 47952, 32, 44417, 44552, 54620, 32,
    44144, 32, 51080, 50612, 50836, 63, 34]"

definition defaultPlacePrompt :: "llm_env \<Rightarrow> SearchResult list \<Rightarrow> jstr" where
  "defaultPlacePrompt env results = [45817, 49888, 51008, 32, 54924, 51032, 32, 65, 73, 32, 48708,
    49436, 32, 39, 50500, 50864, 46972, 39, 51077, 45768, 45796, 46, 32, 51316, 45843, 47568, 47196,
    32, 45813, 48320, 54616, 49464, 50836, 46, 10, 10, 35, 35, 32, 47568, 53804, 32, 32, 10, 45, 32,
    51316, 45843, 47568, 47196, 32, 44036, 44208, 54616, 44172, 32, 40, 49, 126, 50, 47928, 51109, 41,
    10, 45, 32, 47560, 51648, 47561, 50640, 32, 34, 44221, 47196, 32, 48372, 45236, 46300, 47532,
    44192, 49845, 45768, 45796, 34, 32, 52628, 44032, 10, 10, 35, 35, 32, 44160, 49353, 32, 44208,
    44284, 10] @ stringifyOne env (hd results)"

definition defaultPrompt :: "llm_env \<Rightarrow> SearchResult list \<Rightarrow> jstr" where
  "defaultPrompt env results = [45817, 49888, 51008, 32, 54924, 51032, 32, 65, 73, 32, 48708, 49436,
    32, 39, 50500, 50864, 46972, 39, 51077, 45768, 45796, 46, 32, 51316, 45843, 47568, 47196, 32,
    45813, 48320, 54616, 49464, 50836, 46, 10, 10, 35, 35, 32, 47568, 53804, 10, 45, 32, 51316, 45843,
    47568, 47196, 32, 44036, 44208, 54616, 44172, 32, 40, 49, 126, 50, 47928, 51109, 41, 10, 10, 35,
    35, 32, 44160, 49353, 32, 44208, 44284, 10] @ stringify env (take 2 results)"

definition buildNoResultPrompt :: "jstr \<Rightarrow> jstr \<Rightarrow> jstr" where
  "buildNoResultPrompt category location = [45817, 49888, 51008, 32, 54924, 51032, 32, 65, 73, 32,
    48708, 49436, 32, 39, 50500, 50864, 46972, 39, 51077, 45768, 45796, 46, 32, 47568, 54644, 50836,
    46, 10, 10, 34] @ location @ [34, 32, 44540, 52376, 32] @ category @ [32, 52286, 50500, 48420,
    45716, 45936, 32, 44208, 44284, 44032, 32, 50630, 50612, 50836, 46, 10, 10, 35, 35, 32, 47568,
    53804, 10, 45, 32, 51316, 45843, 47568, 47196, 32, 44036, 44208, 54616, 44172, 32, 40, 49, 126, 50,
    47928, 51109, 41, 10, 10, 35, 35, 32, 50696, 49884, 10, 45, 32, 34, 51020, 32, 44144, 44592, 45716,
    32] @ category @ [32, 44160, 49353, 51060, 32, 51096, 32, 50504, 32, 46104, 45348, 50836, 44, 32,
    45796, 47480, 32, 45936, 32, 52286, 50500, 48380, 44620, 50836, 63, 34, 10, 45, 32, 34, 50500,
    32] @ location @ [32] @ category @ [51008, 32, 50504, 32, 45208, 50724, 45348, 50836, 46, 46, 46,
    32, 45796, 47480, 32, 51648, 50669, 51008, 50836, 63, 34]"

definition buildSystemPrompt :: "llm_env \<Rightarrow> jstr \<Rightarrow> SearchResult list \<Rightarrow> jstr" where
  "buildSystemPrompt env msg results =
     (let location = str_or (extractLocation msg) [49436, 50872]
      in case promptCategory msg of
           None \<Rightarrow> (if results = [] then idlePrompt
             else if hasLocation results then defaultPlacePrompt env results else defaultPrompt env results)
         | Some c \<Rightarrow>
             if c = [45216, 50472] then weatherPrompt location (weatherTime msg) results
             else if c \<in> {[52852, 54168], [47579, 51665], [49696, 51665]} then
               (if \<not> hasLocation results then buildNoResultPrompt c location else placePrompt env location c results)
             else if c \<in> {[54045, 50629], [51204, 49884]} then eventPrompt env location c results
             else if c = [50689, 54868] then moviePrompt env results
             else if c \<in> {[45684, 49828], [51452, 49885], [49828, 54252,
               52768]} then newsPrompt env c results
             else encycPrompt env results)"

section \<open>Answers\<close>

definition squashed :: "jstr \<Rightarrow> jstr" where
  "squashed s = trim (replaceAll (plus space) [32] s)"

definition buildPlaceRecommendation :: "SearchResult \<Rightarrow> jstr" where
  "buildPlaceRecommendation r =
     squashed (str_or (Some (sr_title r)) [44536, 32, 51109, 49548] @ [32, 52628, 52380, 46300, 47549,
       45768, 45796, 46] @

                (case sr_newsHighlight r of None \<Rightarrow> [] | Some h \<Rightarrow> if h = [] then [] else [32] @ h @ [44620,
         51648, 47000, 50836, 46]) @ [32, 44221, 47196, 32, 48372, 45236, 46300, 47540, 44172, 50836,
         46])"

definition placePatterns :: "rx list" where
  "placePatterns = [
     seqs [opt (lit [51012]), star space, lit [52628, 52380, 54644, 50836], opt (lit [46])],
     seqs [lit [54644, 45817], star space, lit [51648, 51216, 44620, 51648], star space, lit [44221,
       47196, 47484], star space, lit [52292, 54021, 52285, 51004, 47196], star space, lit [44277,
       50976, 46300, 47540, 44172, 50836], opt (lit [46])],
     seqs [lit [44221, 47196, 47484], star space, lit [44277, 50976, 46300, 47540, 44172, 50836],
       opt (lit [46])],
     seqs [lit [50948, 52824, 44620, 51648], star space, lit [44221, 47196, 47484],
       Rep dot 0 None False, lit [44277, 50976], Rep dot 0 None False, opt (lit [46])]]"

definition validateAndBuildNewsResponse :: "jstr \<Rightarrow> SearchResult list \<Rightarrow> jstr" where
  "validateAndBuildNewsResponse answer results =
     (let cleaned = squashed (foldl (\<lambda>s p. replaceAll p [] s) answer placePatterns)
      in if length cleaned < 10 then
           (case results of
              r # _ \<Rightarrow> sr_title r @ [50640, 32, 45824, 54620, 32, 49548, 49885, 51060,
                50640, 50836, 46, 32] @ take 80 (sr_content r)
            | [] \<Rightarrow> [44288, 47144, 32, 51221, 48372, 47484, 32, 52286, 50520, 50612, 50836,
              46, 32, 44160, 49353, 32, 44208, 44284, 47484, 32, 54869, 51064, 54644, 51452, 49464,
              50836, 46])
         else cleaned)"

definition finalMessage :: "SearchResult list option \<Rightarrow> jstr option \<Rightarrow> jstr" where
  "finalMessage results t =
     (let msg = str_or t [51396, 49569, 54633, 45768, 45796, 44, 32, 51025, 45813, 51012, 32, 49373,
       49457, 54624, 32, 49688, 32, 50630, 49845, 45768, 45796, 46]
      in case results of
           None \<Rightarrow> msg
         | Some rs \<Rightarrow> if rs = [] then msg
             else (case List.find isPlace rs of
                 Some r \<Rightarrow> buildPlaceRecommendation r
               | None \<Rightarrow> validateAndBuildNewsResponse msg rs))"

section \<open>Search and model\<close>

definition searchFor :: "llm_env \<Rightarrow> int \<Rightarrow> int \<Rightarrow> jstr \<Rightarrow> search_cache \<Rightarrow> SearchResult list option \<times> search_cache" where
  "searchFor env now now2 msg c =
     (let q = trim msg
      in if length q > 5 then
           (let plan = buildSearchPlan q
            in if pl_searchType plan = [110, 111, 110, 101] then (Some [], c)
               else let (rs, c1) = search (naver env) now now2 (pl_query plan) (pl_searchType plan) c in (Some rs, c1))
         else (None, c))"

definition resultLine :: "SearchResult \<Rightarrow> jstr" where
  "resultLine r = [45, 32] @ sr_title r @ [58, 32] @ sr_content r"

definition toolRequest :: "llm_env \<Rightarrow> jstr \<Rightarrow> SearchResult list option \<Rightarrow> llm_request" where
  "toolRequest env msg results =
     (let rs = (case results of None \<Rightarrow> [] | Some r \<Rightarrow> r)
      in \<lparr>lq_maxTokens = 400, lq_system = Some (buildSystemPrompt env msg rs),
          lq_messages = userMessages msg @
            (if rs = [] then [] else [([117, 115, 101, 114], [91, 44160, 49353, 32, 44208, 44284, 93,
              10] @ join [10] (map resultLine rs))])\<rparr>)"

text \<open>
  \<open>processWithTools\<close>, called with a search; a retry keeps the results. The answer or the error, the time slept, the cache.
\<close>

definition processWithTools :: "llm_env \<Rightarrow> int \<Rightarrow> int \<Rightarrow> jstr \<Rightarrow> search_cache \<Rightarrow> (jstr + LlmReply) \<times> int \<times> search_cache" where
  "processWithTools env now now2 msg c =
     (let (results, c1) = searchFor env now now2 msg c;
          (r, slept) = tryModel 2000 env (toolRequest env msg results) 0 MAX_RETRIES
      in (case r of
            Inl e \<Rightarrow> Inl e
          | Inr t \<Rightarrow> Inr \<lparr>llm_text = finalMessage results t, llm_searchResults = results, llm_ragSources = None\<rparr>,
          slept, c1))"

section \<open>Routes of a message\<close>

definition realTimeSearchPatterns :: "rx list" where
  "realTimeSearchPatterns = [
     lits [[52852, 54168], [52964, 54588], [52964, 54588, 49677], [49828, 53440, 48261, 49828], [53804,
       50040], [51060, 46356, 50556], [52852, 44277]],
     lits [[47579, 51665], [49885, 45817], [47112, 49828, 53664, 46993], [48165, 51665], [51020, 49885,
       51216], [51200, 45377], [51216, 49900], [48652, 47088, 52824]],
     lits [[49696, 51665], [48148], [54252, 52264], [54840, 54532], [51060, 51088, 52852, 50556],
       [50752, 51064, 48148], [54924, 49885]],
     lits [[48516, 49885], [46497, 48374, 51060], [44608, 48165], [49692, 45824]],
     lits [[52824, 53416], [66, 66, 81], [66, 72, 67], [44368, 52492]],
     lits [[54588, 51088], [46020, 48120, 45432], [54588, 51088, 54747]],
     lits [[48757, 51665], [48288, 51060, 52964, 47532], [51228, 44284, 51216], [54028, 47532, 48148,
       44172, 46888]],
     lits [[46356, 51200, 53944], [47560, 52852, 47217], [50500, 51060, 49828, 53356, 47548], [51236,
       46972, 46608], [50752, 54540]],
     lits [[49660, 54609], [48177, 54868, 51216], [47560, 53944], [50500, 50872, 47131]],
     lits [[54045, 50629], [54045, 50629, 49828, 53664, 50612]],
     lits [[51204, 49884], [51204, 49884, 54924], [44068, 47084, 47532], [48120, 49696, 44288], [48149,
       47932, 44288]],
     lits [[45216, 50472], [44592, 50728], [50728, 46020], [48708], [45576], [48120, 49464, 47676,
       51648], [50864, 49328], [45908, 50892], [52628, 50892]],
     lits [[45684, 49828], [49548, 49885], [44592, 49324], [49549, 48372], [51060, 49800]],
     lits [[51452, 49885], [51452, 44032], [53076, 49828, 54588], [53076, 49828, 45797], [45208, 49828,
       45797], [51613, 49884]],
     lits [[49828, 54252, 52768], [52629, 44396], [50556, 44396], [45453, 44396], [48176, 44396],
       [44221, 44592], [49828, 53076, 50612]],
     lits [[50689, 54868], [44060, 48393], [49345, 50689], [48149, 49828, 50724, 54588, 49828], [67,
       71, 86], [47215, 45936, 49884, 45348, 47560]]]"

definition pastReferencePatterns :: "rx list" where
  "pastReferencePatterns = [
     lit [51648, 45212],
     lit [51060, 51204],
     lit [48169, 44552],
     lit [50500, 44620],
     lit [51204, 50640],
     lit [51200, 48264],
     seqs [lit [51328], star space, lit [51204]],
     seqs [lit [47952, 46972, 44256], star space, lits [[54664], [54620], [54616, 49512]]],
     seqs [lit [47952], lits [[50688], [45908, 46972], [50688, 45908, 46972]]],
     seqs [lit [45796, 49884], star space, lits [[47568, 54644], [50508, 47140], [49444, 47749]]],
     seqs [lit [54620, 48264], star space, lit [45908]],
     seqs [lits [[54924, 51032], [48120, 54021]], upto 10, lits [[45236, 50857], [51221, 47532], [50836, 50557]]],
     seqs [lit [45572, 44032], upto 10, lits [[47568], [48156, 50616], [50584, 44592]]],
     seqs [lits [[44208, 51221], [45436, 51032], [50504, 44148]], upto 5, lits [[46108], [54620], [54664]]]]"

definition isRealTimeSearch :: "jstr \<Rightarrow> bool" where
  "isRealTimeSearch t = list_ex (\<lambda>p. test p t) realTimeSearchPatterns"

definition isPastReference :: "jstr \<Rightarrow> bool" where
  "isPastReference t = list_ex (\<lambda>p. test p t) pastReferencePatterns"

text \<open>
  A call of \<open>sendMessage\<close>: it awaits the room id of a topic, the connection or the answer of the RAG client, sleeps while
  another call holds the flag, sleeps off the minimal interval until a time, or runs \<open>processWithTools\<close>.
\<close>

datatype sm_phase =
    SmTopic jstr
  | SmConnecting jstr nat
  | SmAsking nat
  | SmSleeping
  | SmCooling int
  | SmRunning
  | SmDone "jstr + LlmReply"

record sm_call =
  sm_text :: jstr
  sm_phase :: sm_phase

record llm_st =
  isProcessing :: bool
  lastRequestTime :: int
  topicCache :: "(jstr, jstr) jmap"
  searchCache :: search_cache
  ragSt :: rag_st
  calls :: "sm_call list"

definition init_llm :: llm_st where
  "init_llm = \<lparr>isProcessing = False, lastRequestTime = 0, topicCache = [], searchCache = [], ragSt = init_rag, calls = []\<rparr>"

definition enter :: "int \<Rightarrow> llm_st \<Rightarrow> sm_phase \<times> llm_st" where
  "enter now s = (SmRunning, s\<lparr>isProcessing := True, lastRequestTime := now\<rparr>)"

definition poll :: "int \<Rightarrow> llm_st \<Rightarrow> sm_phase \<times> llm_st" where
  "poll now s =
     (if isProcessing s then (SmSleeping, s)
      else if now - lastRequestTime s < MIN_REQUEST_INTERVAL
      then (SmCooling (now + (MIN_REQUEST_INTERVAL - (now - lastRequestTime s))), s)
      else enter now s)"

text \<open>The room id of a topic when it is known without a request, and the answer of the back end.\<close>

definition topicKnown :: "llm_env \<Rightarrow> jstr \<Rightarrow> llm_st \<Rightarrow> jstr option" where
  "topicKnown env t s =
     (if t = [] \<or> (length t \<ge> 30 \<and> str_includes [45] t) then Some t
      else case jget (topicCache s) t of
          Some c \<Rightarrow> if c \<noteq> [] then Some c else if restApiUrl env = [] then Some t else None
        | None \<Rightarrow> if restApiUrl env = [] then Some t else None)"

definition topicReply :: "jstr \<Rightarrow> jstr option \<Rightarrow> llm_st \<Rightarrow> jstr \<times> llm_st" where
  "topicReply t reply s = (case reply of
      Some r \<Rightarrow> if r \<noteq> [] then (r, s\<lparr>topicCache := jset t r (topicCache s)\<rparr>) else (t, s)
    | None \<Rightarrow> (t, s))"

definition askMeeting :: "jstr option \<Rightarrow> int \<Rightarrow> jstr \<Rightarrow> jstr \<Rightarrow> llm_st \<Rightarrow> sm_phase \<times> llm_st" where
  "askMeeting throws now room t s =
     (if isConnected room (ragSt s)
      then (let (p, g) = sendQuestionWithSources throws now room t (ragSt s) in (SmAsking p, s\<lparr>ragSt := g\<rparr>))
      else poll now s)"

definition meetingRoute :: "jstr option \<Rightarrow> int \<Rightarrow> jstr \<Rightarrow> jstr \<Rightarrow> llm_st \<Rightarrow> sm_phase \<times> llm_st" where
  "meetingRoute throws now room t s =
     (if isConnected room (ragSt s) then askMeeting throws now room t s
      else let (p, g) = connect room (ragSt s) in (SmConnecting room p, s\<lparr>ragSt := g\<rparr>))"

definition calendarReply :: "jstr \<Rightarrow> LlmReply" where
  "calendarReply t = \<lparr>llm_text = t, llm_searchResults = None, llm_ragSources = None\<rparr>"

definition smStart :: "llm_env \<Rightarrow> jstr option \<Rightarrow> int \<Rightarrow> jstr \<Rightarrow> jstr option \<Rightarrow> llm_st \<Rightarrow> sm_phase \<times> llm_st" where
  "smStart env throws now t room s =
     (if LlmCalendar.isCalendarIntent t
      then (SmDone (Inr (calendarReply (fst (handleCalendarRequest (calendarReady env) (insertEvent env) (serverZone env) now t)))), s)
      else if isRealTimeSearch t then enter now s
      else if truthy_str room \<and> isPastReference t
      then (case topicKnown env (the room) s of
              Some r \<Rightarrow> meetingRoute throws now r t s
            | None \<Rightarrow> (SmTopic (the room), s))
      else poll now s)"

text \<open>A call goes on when what it awaits has come. \<open>reply\<close> is the room id the back end found, \<open>now2\<close> the end of the search.\<close>

fun smResume :: "llm_env \<Rightarrow> jstr option \<Rightarrow> jstr option \<Rightarrow> int \<Rightarrow> int \<Rightarrow> jstr \<Rightarrow> sm_phase \<Rightarrow> llm_st \<Rightarrow> sm_phase \<times> llm_st" where
  "smResume env reply throws now now2 t (SmTopic topic) s =
     (let (r, s1) = topicReply topic reply s in meetingRoute throws now r t s1)"
| "smResume env reply throws now now2 t (SmConnecting room p) s =
     (if promises (ragSt s) p \<in> {Pending, Forgotten} then (SmConnecting room p, s) else askMeeting throws now room t s)"
| "smResume env reply throws now now2 t (SmAsking p) s = (case promises (ragSt s) p of
      Pending \<Rightarrow> (SmAsking p, s)
    | Forgotten \<Rightarrow> (SmAsking p, s)
    | Fulfilled (AnswerWithSources a srcs) \<Rightarrow>
        (SmDone (Inr \<lparr>llm_text = a, llm_searchResults = None, llm_ragSources = Some srcs\<rparr>), s)
    | _ \<Rightarrow> poll now s)"
| "smResume env reply throws now now2 t SmSleeping s = poll now s"
| "smResume env reply throws now now2 t (SmCooling u) s = (if now < u then (SmCooling u, s) else enter now s)"
| "smResume env reply throws now now2 t SmRunning s =
     (let (r, _, c) = processWithTools env now now2 t (searchCache s)
      in (SmDone r, s\<lparr>isProcessing := False, searchCache := c\<rparr>))"
| "smResume env reply throws now now2 t (SmDone r) s = (SmDone r, s)"

datatype sm_event =
    SmNew jstr "jstr option" "jstr option" int
  | SmGo nat "jstr option" "jstr option" int int
  | SmRag rag_event

fun sm_step :: "llm_env \<Rightarrow> sm_event \<Rightarrow> llm_st \<Rightarrow> llm_st" where
  "sm_step env (SmNew t room throws now) s =
     (let (ph, s1) = smStart env throws now t room s in s1\<lparr>calls := calls s @ [\<lparr>sm_text = t, sm_phase = ph\<rparr>]\<rparr>)"
| "sm_step env (SmGo i reply throws now now2) s =
     (if i < length (calls s)
      then (let c = calls s ! i; (ph, s1) = smResume env reply throws now now2 (sm_text c) (sm_phase c) s
            in s1\<lparr>calls := (calls s)[i := c\<lparr>sm_phase := ph\<rparr>]\<rparr>)
      else s)"
| "sm_step env (SmRag ev) s = s\<lparr>ragSt := rag_step ev (ragSt s)\<rparr>"

section \<open>Voice requests\<close>

definition correctionPrompt :: "jstr \<Rightarrow> jstr" where
  "correctionPrompt raw = [54868, 49345, 54924, 51032, 32, 51020, 49457, 51064, 49885, 32, 44208,
    44284, 47484, 32, 48516, 49437, 54616, 49464, 50836, 46, 10, 10, 35, 35, 32, 50920, 51060, 53356,
    50892, 46300, 10, 54364, 51456, 58, 32, 50500, 50864, 46972, 50556, 44, 32, 54756, 51060, 50500,
    50864, 46972, 44, 32, 54756, 51060, 32, 50500, 50864, 46972, 10, 48320, 54805, 58, 32, 50500,
    50872, 46972, 50556, 44, 32, 50500, 50864, 45208, 50556, 44, 32, 50724, 50864, 46972, 50556, 44,
    32, 50500, 50724, 46972, 50556, 32, 46321, 10, 10, 35, 35, 32, 52852, 53580, 44256, 47532, 10,
    52852, 54168, 44, 32, 47579, 51665, 44, 32, 49696, 51665, 44, 32, 48516, 49885, 44, 32, 52824,
    53416, 44, 32, 54588, 51088, 44, 32, 48757, 51665, 44, 32, 46356, 51200, 53944, 44, 32, 49660,
    54609, 44, 32, 54045, 50629, 44, 32, 51204, 49884, 44, 32, 45216, 50472, 44, 32, 45684, 49828, 44,
    32, 51452, 49885, 44, 32, 49828, 54252, 52768, 44, 32, 50689, 54868, 10, 10, 35, 35, 32, 44160,
    49353, 53440, 51077, 10, 45, 32, 108, 111, 99, 97, 108, 58, 32, 51109, 49548, 47, 47579, 51665, 47,
    52852, 54168, 47, 44032, 44172, 10, 45, 32, 110, 101, 119, 115, 58, 32, 45684, 49828, 47, 45216,
    50472, 47, 51221, 48372, 47, 51452, 49885, 10, 10, 35, 35, 32, 51077, 47141, 10, 34] @ raw @ [34,
    10, 10, 35, 35, 32, 52636, 47141, 32, 40, 74, 83, 79, 78, 47564, 41, 10, 123, 34, 104, 97, 115, 87,
    97, 107, 101, 87, 111, 114, 100, 34, 58, 116, 114, 117, 101, 47, 102, 97, 108, 115, 101, 44, 34,
    99, 111, 114, 114, 101, 99, 116, 101, 100, 84, 101, 120, 116, 34, 58, 34, 44368, 51221, 47928,
    51109, 34, 44, 34, 115, 101, 97, 114, 99, 104, 75, 101, 121, 119, 111, 114, 100, 34, 58, 34, 53412,
    50892, 46300, 34, 44, 34, 115, 101, 97, 114, 99, 104, 84, 121, 112, 101, 34, 58, 34, 108, 111, 99,
    97, 108, 47, 110, 101, 119, 115, 34, 44, 34, 99, 97, 116, 101, 103, 111, 114, 121, 34, 58, 34,
    52852, 53580, 44256, 47532, 34, 44, 34, 99, 111, 110, 102, 105, 100, 101, 110, 99, 101, 34, 58, 48,
    46, 48, 45, 49, 46, 48, 125]"

definition noRequest :: "jstr \<Rightarrow> VoiceRequest" where
  "noRequest t = \<lparr>vq_shouldRespond = False, vq_correctedText = t, vq_searchKeyword = None, vq_searchType = None, vq_category = None\<rparr>"

definition searchTypes :: "jstr list" where
  "searchTypes = [[108, 111, 99, 97, 108], [110, 101, 119, 115], [119, 101, 98], [101, 110, 99, 121,
    99], [104, 121, 98, 114, 105, 100], [110, 111, 110, 101]]"

definition knownType :: "jstr option \<Rightarrow> jstr option" where
  "knownType t = (case t of None \<Rightarrow> None | Some x \<Rightarrow> if x \<in> set searchTypes then Some x else None)"

definition correctAndExtract :: "llm_env \<Rightarrow> jstr \<Rightarrow> VoiceRequest" where
  "correctAndExtract env raw =
     (case bedrock env \<lparr>lq_maxTokens = 200, lq_system = None, lq_messages = userMessages (correctionPrompt raw)\<rparr> 0 of
        Answered t \<Rightarrow> (case Option.bind (jsonMatch (str_or t [123, 125])) (parseCorrection env) of
            Some c \<Rightarrow> \<lparr>vq_shouldRespond = (cx_hasWakeWord c = Some True),
              vq_correctedText = (case cx_correctedText c of None \<Rightarrow> raw | Some x \<Rightarrow> x),
              vq_searchKeyword = cx_searchKeyword c, vq_searchType = knownType (cx_searchType c), vq_category = cx_category c\<rparr>
          | None \<Rightarrow> noRequest raw)
      | _ \<Rightarrow> noRequest raw)"

definition nonempty :: "jstr option \<Rightarrow> jstr option" where
  "nonempty x = (if truthy_str x then x else None)"

definition processVoiceIntent :: "llm_env \<Rightarrow> jstr \<Rightarrow> IntentAnalysis \<Rightarrow> VoiceRequest" where
  "processVoiceIntent env raw i =
     (if isCallIntent i \<and> in_confidence i \<ge> 6 / 10 then
        (if \<not> truthy_str (extractedKeyword i) then
           (let plan = buildSearchPlan (normalizedText i)
            in if pl_searchType plan = [110, 111, 110, 101]
               then (noRequest (normalizedText i))\<lparr>vq_shouldRespond := True\<rparr>
               else \<lparr>vq_shouldRespond = True, vq_correctedText = normalizedText i, vq_searchKeyword = Some (pl_query plan),
                  vq_searchType = Some (pl_searchType plan), vq_category = nonempty (pl_category plan)\<rparr>)
         else \<lparr>vq_shouldRespond = True, vq_correctedText = normalizedText i, vq_searchKeyword = extractedKeyword i,
                vq_searchType = Some (str_or (in_searchType i) [119, 101, 98]),
                  vq_category = nonempty (in_category i)\<rparr>)
      else if needsLlmCorrection i then correctAndExtract env raw
      else noRequest (normalizedText i))"

section \<open>Retries\<close>

fun throttled :: "model_reply \<Rightarrow> bool" where
  "throttled (Throttled e) = True"
| "throttled _ = False"

fun outcomeOf :: "model_reply \<Rightarrow> jstr + jstr option" where
  "outcomeOf (Answered t) = Inr t"
| "outcomeOf (Throttled e) = Inl e"
| "outcomeOf (Broken e) = Inl e"

lemma tryModel_spec:
  "\<exists>n \<le> left. list_all (\<lambda>i. throttled (bedrock env rq (k + i))) [0..<n] \<and>
     (n = left \<or> \<not> throttled (bedrock env rq (k + n))) \<and>
     tryModel unit env rq k left = (outcomeOf (bedrock env rq (k + n)), unit * 2 ^ (k + 1) * (2 ^ n - 1))"
proof (induction left arbitrary: k)
  case 0
  then show ?case by (cases "bedrock env rq k") (simp_all add: tryModel.simps [of _ _ _ k])
next
  case (Suc l)
  show ?case
  proof (cases "throttled (bedrock env rq k)")
    case False
    then show ?thesis
      by (intro exI [of _ 0]) (cases "bedrock env rq k"; simp add: tryModel.simps [of _ _ _ k])
  next
    case True
    then obtain e where e: "bedrock env rq k = Throttled e" by (cases "bedrock env rq k") auto
    obtain n where n: "n \<le> l" "list_all (\<lambda>i. throttled (bedrock env rq (Suc k + i))) [0..<n]"
        "n = l \<or> \<not> throttled (bedrock env rq (Suc k + n))"
        "tryModel unit env rq (Suc k) l = (outcomeOf (bedrock env rq (Suc k + n)), unit * 2 ^ (Suc k + 1) * (2 ^ n - 1))"
      using Suc.IH [of "Suc k"] by blast
    have "list_all (\<lambda>i. throttled (bedrock env rq (k + i))) [0..<Suc n]"
    proof -
      have "throttled (bedrock env rq (k + i))" if "i < Suc n" for i
        using n(2) True that by (cases i) (auto simp: list_all_iff)
      then show ?thesis by (auto simp: list_all_iff)
    qed
    moreover have "tryModel unit env rq k (Suc l) =
        (outcomeOf (bedrock env rq (k + Suc n)), unit * 2 ^ (k + 1) * (2 ^ Suc n - 1))"
      by (simp add: tryModel.simps [of _ _ _ k] e n(4) algebra_simps)
    ultimately show ?thesis using n(1,3) by (intro exI [of _ "Suc n"]) auto
  qed
qed

text \<open>
  C18. A request to the model is tried at most four times, and again only after a throttled attempt: with n the number of
  throttled attempts among the first three before one that is not, the outcome is that of the attempt after them, and the
  pauses add up to 4 (2^n - 1) seconds, at most 28.
\<close>

theorem model_retries_bounded:
  "let rq = toolRequest env msg (fst (searchFor env now now2 msg c));
       n = length (takeWhile throttled (map (bedrock env rq) [0..<3]));
       (r, slept, c') = processWithTools env now now2 msg c
   in map_sum id llm_text r =
        map_sum id (finalMessage (fst (searchFor env now now2 msg c))) (outcomeOf (bedrock env rq n)) \<and>
      slept = 4000 * (2 ^ n - 1) \<and> slept \<le> 28000"
proof -
  obtain rs c1 where s: "searchFor env now now2 msg c = (rs, c1)" by fastforce
  let ?b = "bedrock env (toolRequest env msg rs)"
  obtain n where n: "n \<le> 3" "list_all (\<lambda>i. throttled (?b i)) [0..<n]" "n = 3 \<or> \<not> throttled (?b n)"
      "tryModel 2000 env (toolRequest env msg rs) 0 3 = (outcomeOf (?b n), 4000 * (2 ^ n - 1))"
    using tryModel_spec [of 3 env "toolRequest env msg rs" 0 2000] by auto
  have "takeWhile throttled (map ?b [0..<3]) = take n (map ?b [0..<3])"
    using n(1-3) by (intro takeWhile_eq_take_P_nth) (auto simp: list_all_iff)
  then have l: "length (takeWhile throttled (map ?b [0..<3])) = n" using n(1) by simp
  have "(2 :: int) ^ n \<le> 2 ^ 3" using n(1) by (rule power_increasing) simp
  then show ?thesis
    by (cases "?b n") (simp_all add: processWithTools_def s MAX_RETRIES_def Let_def l n(4) del: upt_Suc upt_rec_numeral)
qed

section \<open>The flag\<close>

text \<open>Whoever sees the flag up can rely on a call that will take it down.\<close>

definition llm_inv :: "llm_st \<Rightarrow> bool" where
  "llm_inv s \<longleftrightarrow> (isProcessing s \<longrightarrow> list_ex (\<lambda>c. sm_phase c = SmRunning) (calls s))"

text \<open>What a phase change may do to the flag: raise it and run, keep it, or end a run and lower it.\<close>

definition flag_ok :: "sm_phase \<Rightarrow> llm_st \<Rightarrow> sm_phase \<times> llm_st \<Rightarrow> bool" where
  "flag_ok old s x \<longleftrightarrow> calls (snd x) = calls s \<and>
     (fst x = SmRunning \<or> \<not> isProcessing (snd x) \<or> (isProcessing (snd x) = isProcessing s \<and> old \<noteq> SmRunning))"

lemma flag_enter: "flag_ok old s (enter now s)"
  by (simp add: flag_ok_def enter_def)

lemma flag_poll: "old \<noteq> SmRunning \<Longrightarrow> flag_ok old s (poll now s)"
  by (simp add: poll_def flag_enter flag_ok_def [of _ _ "(_, s)"])

lemma flag_ask: "old \<noteq> SmRunning \<Longrightarrow> flag_ok old s (askMeeting throws now room t s)"
  by (cases "sendQuestionWithSources throws now room t (ragSt s)")
    (simp add: askMeeting_def flag_poll, simp add: flag_ok_def)

lemma flag_meeting: "old \<noteq> SmRunning \<Longrightarrow> flag_ok old s (meetingRoute throws now room t s)"
  by (cases "connect room (ragSt s)") (simp add: meetingRoute_def flag_ask, simp add: flag_ok_def)

lemma flag_start: "old \<noteq> SmRunning \<Longrightarrow> flag_ok old s (smStart env throws now t room s)"
  by (simp add: smStart_def flag_enter flag_poll flag_meeting flag_ok_def [of _ _ "(_, s)"] split: option.splits)

lemma topicReply_flag: "topicReply t reply s = (r, s1) \<Longrightarrow> calls s1 = calls s \<and> isProcessing s1 = isProcessing s"
  by (auto simp: topicReply_def split: option.splits if_splits)

lemma flag_resume: "flag_ok ph s (smResume env reply throws now now2 t ph s)"
proof (cases ph)
  case (SmTopic topic)
  obtain r s1 where r: "topicReply topic reply s = (r, s1)" by fastforce
  from flag_meeting [of ph s1 throws now r t] topicReply_flag [OF r] show ?thesis
    using SmTopic by (simp add: r flag_ok_def)
next
  case (SmAsking p)
  then show ?thesis
    by (simp add: flag_poll split: promise.splits rag_value.splits) (simp add: flag_ok_def)
next
  case SmRunning
  then show ?thesis by (simp add: flag_ok_def split: prod.splits)
qed (simp_all add: flag_poll flag_ask flag_enter, simp_all add: flag_ok_def)

interpretation llm: inv_system llm_inv "sm_step env" for env
proof
  fix ev s
  assume i: "llm_inv s"
  show "llm_inv (sm_step env ev s)"
  proof (cases ev)
    case (SmNew t room throws now)
    obtain ph s1 where x: "smStart env throws now t room s = (ph, s1)" by fastforce
    show ?thesis using i flag_start [of "SmDone undefined" s env throws now t room]
      by (auto simp: SmNew x flag_ok_def llm_inv_def)
  next
    case (SmGo k reply throws now now2)
    show ?thesis
    proof (cases "k < length (calls s)")
      case True
      let ?c = "calls s ! k"
      obtain ph s1 where x: "smResume env reply throws now now2 (sm_text ?c) (sm_phase ?c) s = (ph, s1)" by fastforce
      have f: "flag_ok (sm_phase ?c) s (ph, s1)" using flag_resume [of "sm_phase ?c" s] x by metis
      have st: "sm_step env ev s = s1\<lparr>calls := (calls s)[k := ?c\<lparr>sm_phase := ph\<rparr>]\<rparr>"
        using True by (simp add: SmGo x Let_def)
      have "\<exists>j < length (calls s). sm_phase ((calls s)[k := ?c\<lparr>sm_phase := ph\<rparr>] ! j) = SmRunning" if "isProcessing s1"
      proof (cases "ph = SmRunning")
        case False
        then have "isProcessing s" "sm_phase ?c \<noteq> SmRunning" using f that by (auto simp: flag_ok_def)
        then obtain j where "j < length (calls s)" "sm_phase (calls s ! j) = SmRunning" "j \<noteq> k"
          using i by (auto simp: llm_inv_def list_ex_length)
        then show ?thesis by (intro exI [of _ j]) simp
      qed (use True in \<open>intro exI [of _ k], simp\<close>)
      then show ?thesis unfolding st by (simp add: llm_inv_def list_ex_length)
    qed (use i in \<open>simp add: SmGo\<close>)
  qed (use i in \<open>simp add: llm_inv_def\<close>)
qed

text \<open>
  C17. The flag that makes other calls wait is never left up: in every reachable state in which it is up, some call is running,
  and that call takes it down when it ends, whatever the model answers.
\<close>

theorem flag_never_orphaned:
  assumes "isProcessing (fold (sm_step env) evs init_llm)"
  shows "\<exists>i < length (calls (fold (sm_step env) evs init_llm)).
    sm_phase (calls (fold (sm_step env) evs init_llm) ! i) = SmRunning \<and>
    (\<forall>reply throws now now2. \<not> isProcessing (sm_step env (SmGo i reply throws now now2) (fold (sm_step env) evs init_llm)))"
proof -
  let ?s = "fold (sm_step env) evs init_llm"
  have "llm_inv ?s" by (rule llm.inv_run) (simp add: llm_inv_def init_llm_def)
  then obtain i where "i < length (calls ?s)" "sm_phase (calls ?s ! i) = SmRunning"
    using assms by (auto simp: llm_inv_def list_ex_length)
  then show ?thesis by (intro exI [of _ i]) (auto simp: Let_def split: prod.splits)
qed

text \<open>Events other than its own resumption leave a call as it is.\<close>

fun resumes :: "nat \<Rightarrow> sm_event \<Rightarrow> bool" where
  "resumes i (SmGo j reply throws now now2) = (j = i)"
| "resumes i ev = False"

lemma call_kept_step:
  assumes "i < length (calls s)" and "\<not> resumes i ev"
  shows "calls (sm_step env ev s) ! i = calls s ! i" and "i < length (calls (sm_step env ev s))"
  using assms by (cases ev; simp add: Let_def nth_append split: prod.splits)+

lemma call_kept:
  assumes "i < length (calls s)" and "\<forall>ev \<in> set evs. \<not> resumes i ev"
  shows "calls (fold (sm_step env) evs s) ! i = calls s ! i \<and> i < length (calls (fold (sm_step env) evs s))"
  using assms by (induction evs arbitrary: s) (simp_all add: call_kept_step)

text \<open>
  C19. But the flag does not keep calls apart, although the comment above the loop says that concurrent requests are
  prevented: a waiting call that finds the flag down less than 1.5 seconds after the last request sleeps for the rest of that time,
  and when it is resumed after that it runs, whatever happened meanwhile, also when another call has raised the flag and is still
  running; the other calls stay in their phases.
\<close>

theorem sleeping_call_ignores_flag:
  assumes "i < length (calls s)" and "sm_phase (calls s ! i) = SmSleeping"
    and "\<not> isProcessing s" and "now - lastRequestTime s < 1500"
    and "\<forall>ev \<in> set evs. \<not> resumes i ev" and "lastRequestTime s + 1500 \<le> later"
  shows "let s1 = fold (sm_step env) (SmGo i None None now now # evs) s; s2 = sm_step env (SmGo i None None later later) s1
     in sm_phase (calls s2 ! i) = SmRunning \<and> (\<forall>j. j \<noteq> i \<longrightarrow> calls s2 ! j = calls s1 ! j)"
proof -
  define u where "u = now + (MIN_REQUEST_INTERVAL - (now - lastRequestTime s))"
  define s0 where "s0 = s\<lparr>calls := (calls s)[i := (calls s ! i)\<lparr>sm_phase := SmCooling u\<rparr>]\<rparr>"
  define s1 where "s1 = fold (sm_step env) evs s0"
  have 0: "sm_step env (SmGo i None None now now) s = s0"
    using assms(1-4) by (simp add: s0_def u_def poll_def MIN_REQUEST_INTERVAL_def Let_def)
  have 1: "sm_phase (calls s1 ! i) = SmCooling u" "i < length (calls s1)"
    using call_kept [of i s0 evs env] assms(1,5) by (simp_all add: s1_def s0_def)
  have "\<not> later < u" using assms(6) by (simp add: u_def MIN_REQUEST_INTERVAL_def)
  then have "calls (sm_step env (SmGo i None None later later) s1) = (calls s1)[i := (calls s1 ! i)\<lparr>sm_phase := SmRunning\<rparr>]"
    using 1 by (simp add: enter_def Let_def)
  then show ?thesis using 1 0 by (simp add: s1_def Let_def del: sm_step.simps)
qed

section \<open>Rain\<close>

lemma test_lits: "w \<in> set ws \<Longrightarrow> str_includes w t \<Longrightarrow> test (lits ws) t"
  unfolding test_iff str_includes_iff by (metis mt_lit mt_lits empty_iff empty_set)

text \<open>
  The syllable that means rain sends a message to the web search, also inside other words (preparation, cost, comparison):
  such a message, unless it is a request for the calendar, is never asked of the record of the meeting, whatever it refers to,
  and it does not wait for the flag.
\<close>

theorem rain_syllable_skips_meeting:
  assumes "str_includes [48708] t" and "\<not> LlmCalendar.isCalendarIntent t"
  shows "sm_step env (SmNew t room throws now) s =
    s\<lparr>isProcessing := True, lastRequestTime := now, calls := calls s @ [\<lparr>sm_text = t, sm_phase = SmRunning\<rparr>]\<rparr>"
proof -
  have "isRealTimeSearch t"
    unfolding isRealTimeSearch_def realTimeSearchPatterns_def using test_lits [OF _ assms(1)] by simp
  then show ?thesis using assms(2) by (simp add: smStart_def enter_def)
qed

definition demo_llm :: llm_env where
  "demo_llm = \<lparr>naver = \<lparr>naverKeys = False, fetchItems = (\<lambda>_. None), encodeURIComponent = id\<rparr>,
     bedrock = (\<lambda>_ k. if k = 0 then Throttled [] else Answered None),
     stringifyOne = (\<lambda>_. []), stringify = (\<lambda>_. []), stringifyIndent = (\<lambda>_. []), parseCorrection = (\<lambda>_. None),
     calendarReady = False, insertEvent = (\<lambda>_. None), serverZone = 0, restApiUrl = []\<rparr>"

theorem rain_syllable_skips_meeting_witness:
  "isPastReference [51648, 45212, 32, 54924, 51032, 50640, 49436, 32, 51456, 48708, 54620, 32, 45236,
    50857, 32, 50508, 47140, 51480] \<and>
   sm_step demo_llm (SmNew [51648, 45212, 32, 54924, 51032, 50640, 49436, 32, 51456, 48708, 54620, 32,
     45236, 50857, 32, 50508, 47140, 51480] (Some [114, 111, 111, 109]) None 0) init_llm =
     init_llm\<lparr>isProcessing := True, lastRequestTime := 0, calls := calls init_llm @
       [\<lparr>sm_text = [51648, 45212, 32, 54924, 51032, 50640, 49436, 32, 51456, 48708, 54620, 32,
         45236, 50857, 32, 50508, 47140, 51480], sm_phase = SmRunning\<rparr>]\<rparr>"
proof -
  have "str_includes [48708] [51648, 45212, 32, 54924, 51032, 50640, 49436, 32, 51456, 48708, 54620,
    32, 45236, 50857, 32, 50508, 47140, 51480]" "\<not> LlmCalendar.isCalendarIntent [51648, 45212, 32,
    54924, 51032, 50640, 49436, 32, 51456, 48708, 54620, 32, 45236, 50857, 32, 50508, 47140, 51480]"
    "isPastReference [51648, 45212, 32, 54924, 51032, 50640, 49436, 32, 51456, 48708, 54620, 32, 45236,
      50857, 32, 50508, 47140, 51480]" by code_simp+
  from rain_syllable_skips_meeting [OF this(1,2)] this(3) show ?thesis by blast
qed

text \<open>Three calls: the first runs, the others wait; the first ends.\<close>

lemma hello_polls: "smStart env throws now [50504, 45397] None s = poll now s"
proof -
  have "\<not> LlmCalendar.isCalendarIntent [50504, 45397]" "\<not> isRealTimeSearch [50504, 45397]" by code_simp+
  then show ?thesis by (simp add: smStart_def truthy_str_def)
qed

definition demo_start :: "sm_event list" where
  "demo_start = [SmNew [50504, 45397] None None 10000, SmNew [50504, 45397] None None 10010, SmNew [50504, 45397] None None 10020]"

lemma demo_waiting:
  "fold (sm_step demo_llm) demo_start init_llm = init_llm\<lparr>isProcessing := True, lastRequestTime := 10000,
     calls := [\<lparr>sm_text = [50504, 45397], sm_phase = SmRunning\<rparr>, \<lparr>sm_text = [50504, 45397], sm_phase = SmSleeping\<rparr>,
       \<lparr>sm_text = [50504, 45397], sm_phase = SmSleeping\<rparr>]\<rparr>"
  by (simp add: demo_start_def hello_polls poll_def enter_def init_llm_def MIN_REQUEST_INTERVAL_def)

theorem flag_never_orphaned_witness:
  "\<exists>i < length (calls (fold (sm_step demo_llm) demo_start init_llm)).
     sm_phase (calls (fold (sm_step demo_llm) demo_start init_llm) ! i) = SmRunning"
proof -
  have "isProcessing (fold (sm_step demo_llm) demo_start init_llm)" by (simp add: demo_waiting)
  from flag_never_orphaned [OF this] show ?thesis by blast
qed

definition demo_released :: llm_st where
  "demo_released = sm_step demo_llm (SmGo 0 None None 10100 10100) (fold (sm_step demo_llm) demo_start init_llm)"

lemma demo_released_eq:
  "\<exists>r c. demo_released = init_llm\<lparr>lastRequestTime := 10000, searchCache := c,
     calls := [\<lparr>sm_text = [50504, 45397], sm_phase = SmDone r\<rparr>, \<lparr>sm_text = [50504, 45397], sm_phase = SmSleeping\<rparr>,
       \<lparr>sm_text = [50504, 45397], sm_phase = SmSleeping\<rparr>]\<rparr>"
proof -
  obtain r d c where "processWithTools demo_llm 10100 10100 [50504, 45397] (searchCache init_llm) = (r, d, c)" by (metis surj_pair)
  then show ?thesis
    by (intro exI [of _ r] exI [of _ c]) (simp add: demo_released_def demo_waiting, simp add: init_llm_def)
qed

theorem sleeping_call_ignores_flag_witness:
  "let s1 = fold (sm_step demo_llm) [SmGo 1 None None 10200 10200, SmGo 2 None None 10300 10300, SmGo 2 None None 11500 11500] demo_released;
       s2 = sm_step demo_llm (SmGo 1 None None 11500 11500) s1
   in sm_phase (calls s1 ! 2) = SmRunning \<and> isProcessing s1 \<and> sm_phase (calls s2 ! 1) = SmRunning \<and> sm_phase (calls s2 ! 2) = SmRunning"
proof -
  define s1 where "s1 = fold (sm_step demo_llm) [SmGo 1 None None 10200 10200, SmGo 2 None None 10300 10300, SmGo 2 None None 11500 11500] demo_released"
  obtain r c where d: "demo_released = init_llm\<lparr>lastRequestTime := 10000, searchCache := c,
     calls := [\<lparr>sm_text = [50504, 45397], sm_phase = SmDone r\<rparr>, \<lparr>sm_text = [50504, 45397], sm_phase = SmSleeping\<rparr>,
       \<lparr>sm_text = [50504, 45397], sm_phase = SmSleeping\<rparr>]\<rparr>"
    using demo_released_eq by blast
  have r: "sm_phase (calls s1 ! 2) = SmRunning" "isProcessing s1"
    by (simp_all add: s1_def d poll_def enter_def MIN_REQUEST_INTERVAL_def init_llm_def)
  have "let s2 = sm_step demo_llm (SmGo 1 None None 11500 11500) s1
    in sm_phase (calls s2 ! 1) = SmRunning \<and> (\<forall>j. j \<noteq> 1 \<longrightarrow> calls s2 ! j = calls s1 ! j)"
    unfolding s1_def Let_def
    by (rule sleeping_call_ignores_flag [unfolded Let_def]) (simp_all add: d init_llm_def)
  then have "sm_phase (calls (sm_step demo_llm (SmGo 1 None None 11500 11500) s1) ! 1) = SmRunning"
      "calls (sm_step demo_llm (SmGo 1 None None 11500 11500) s1) ! 2 = calls s1 ! 2"
    unfolding Let_def by (blast, metis numeral_eq_one_iff num.distinct(1))
  then show ?thesis using r unfolding Let_def s1_def [symmetric] by simp
qed

end
