(* ===== verification/Utf8.thy ===== *)
theory Utf8
  imports Prelude
begin

text \<open>
  \<open>buffer.toString()\<close>: bytes decoded as UTF-8 into UTF-16 code units, the way Node does it (the decoder of the WHATWG
  encoding standard without the removal of a byte order mark): what is not a character becomes U+FFFD. The lemmas show that
  decoding inverts encoding, and that bytes may be decoded in pieces if the pieces end between characters.
\<close>

text \<open>The state: how many bytes of a character are missing, its bits so far, and the range of the next byte.\<close>

type_synonym utf8_st = "nat \<times> int \<times> int \<times> int"

definition start :: utf8_st where "start = (0, 0, 0, 0)"

definition units :: "int \<Rightarrow> jstr" where
  "units cp = (if cp < 65536 then [cp] else [55296 + (cp - 65536) div 1024, 56320 + (cp - 65536) mod 1024])"

definition firstByte :: "int \<Rightarrow> jstr \<times> utf8_st" where
  "firstByte b =
     (if b \<le> 127 then ([b], start)
      else if 194 \<le> b \<and> b \<le> 223 then ([], (1, b - 192, 128, 191))
      else if 224 \<le> b \<and> b \<le> 239 then ([], (2, b - 224, if b = 224 then 160 else 128, if b = 237 then 159 else 191))
      else if 240 \<le> b \<and> b \<le> 244 then ([], (3, b - 240, if b = 240 then 144 else 128, if b = 244 then 143 else 191))
      else ([65533], start))"

text \<open>A byte that does not continue the character ends it with U+FFFD and is read again as a first byte.\<close>

fun utf8_byte :: "utf8_st \<Rightarrow> int \<Rightarrow> jstr \<times> utf8_st" where
  "utf8_byte (0, cp, lo, hi) b = firstByte b"
| "utf8_byte (Suc n, cp, lo, hi) b =
     (if lo \<le> b \<and> b \<le> hi then
        (let cp' = cp * 64 + (b - 128) in if n = 0 then (units cp', start) else ([], (n, cp', 128, 191)))
      else let (out, st) = firstByte b in (65533 # out, st))"

fun utf8_run :: "utf8_st \<Rightarrow> int list \<Rightarrow> jstr" where
  "utf8_run st [] = (if fst st = 0 then [] else [65533])"
| "utf8_run st (b # bs) = (let (out, st') = utf8_byte st b in out @ utf8_run st' bs)"

definition utf8 :: "int list \<Rightarrow> jstr" where
  "utf8 bs = utf8_run start bs"

section \<open>Encoding\<close>

definition scalar :: "int \<Rightarrow> bool" where
  "scalar cp \<longleftrightarrow> (0 \<le> cp \<and> cp < 55296) \<or> (57344 \<le> cp \<and> cp < 1114112)"

definition utf8_char :: "int \<Rightarrow> int list" where
  "utf8_char cp =
     (if cp < 128 then [cp]
      else if cp < 2048 then [192 + cp div 64, 128 + cp mod 64]
      else if cp < 65536 then [224 + cp div 4096, 128 + cp div 64 mod 64, 128 + cp mod 64]
      else [240 + cp div 262144, 128 + cp div 4096 mod 64, 128 + cp div 64 mod 64, 128 + cp mod 64])"

definition utf8_enc :: "int list \<Rightarrow> int list" where
  "utf8_enc cps = concat (map utf8_char cps)"

definition utf16 :: "int list \<Rightarrow> jstr" where
  "utf16 cps = concat (map units cps)"

section \<open>Decoding inverts encoding\<close>

lemma utf8_run_char:
  assumes "scalar cp"
  shows "utf8_run start (utf8_char cp @ bs) = units cp @ utf8_run start bs"
proof -
  consider "cp < 128" | "128 \<le> cp" "cp < 2048" | "2048 \<le> cp" "cp < 65536" | "65536 \<le> cp" by linarith
  then show ?thesis
  proof cases
    case 1
    then show ?thesis using assms by (simp add: utf8_char_def scalar_def start_def firstByte_def units_def)
  next
    case 2
    define a b where ab: "a = cp div 64" "b = cp mod 64"
    have "cp = 64 * a + b" "0 \<le> b" "b < 64" by (simp_all add: ab)
    then have r: "2 \<le> a" "a < 32" "a * 64 + b = cp" "0 \<le> b" "b < 64" using 2 by linarith+
    have "utf8_char cp = [192 + a, 128 + b]" using 2 by (simp add: utf8_char_def ab)
    then show ?thesis using r by (simp add: start_def firstByte_def)
  next
    case 3
    define a b c where abc: "a = cp div 4096" "b = cp div 64 mod 64" "c = cp mod 64"
    have "cp div 64 = 64 * a + b" unfolding abc using mult_div_mod_eq [of 64 "cp div 64"] by (simp add: zdiv_zmult2_eq [symmetric])
    then have e: "cp = 4096 * a + 64 * b + c" using mult_div_mod_eq [of 64 cp] unfolding abc(3) by linarith
    have r: "0 \<le> b" "b < 64" "0 \<le> c" "c < 64" by (simp_all add: abc)
    then have a: "0 \<le> a" "a < 16" using e 3 by linarith+
    have a0: "32 \<le> b" if "a = 0" using that e r 3 by linarith
    have a13: "b \<le> 31" if "a = 13" using that e r assms 3 unfolding scalar_def by linarith
    have v: "(a * 64 + b) * 64 + c = cp" using e by simp
    have "utf8_char cp = [224 + a, 128 + b, 128 + c]" using 3 by (simp add: utf8_char_def abc)
    then show ?thesis using a a0 a13 r v by (simp add: start_def firstByte_def Let_def numeral_2_eq_2)
  next
    case 4
    define a b c d where abcd: "a = cp div 262144" "b = cp div 4096 mod 64" "c = cp div 64 mod 64" "d = cp mod 64"
    have "cp div 4096 = 64 * a + b" unfolding abcd using mult_div_mod_eq [of 64 "cp div 4096"] by (simp add: zdiv_zmult2_eq [symmetric])
    moreover have "cp div 64 = 64 * (cp div 4096) + c"
      unfolding abcd using mult_div_mod_eq [of 64 "cp div 64"] by (simp add: zdiv_zmult2_eq [symmetric])
    ultimately have e: "cp = 262144 * a + 4096 * b + 64 * c + d" using mult_div_mod_eq [of 64 cp] unfolding abcd(4) by linarith
    have r: "0 \<le> b" "b < 64" "0 \<le> c" "c < 64" "0 \<le> d" "d < 64" by (simp_all add: abcd)
    have cp: "cp < 1114112" using assms 4 by (auto simp: scalar_def)
    have a: "0 \<le> a" "a < 5" using e r 4 cp by linarith+
    have a0: "16 \<le> b" if "a = 0" using that e r 4 by linarith
    have a4: "b \<le> 15" if "a = 4" using that e r cp by linarith
    have v: "((a * 64 + b) * 64 + c) * 64 + d = cp" using e by simp
    have "utf8_char cp = [240 + a, 128 + b, 128 + c, 128 + d]" using 4 by (simp add: utf8_char_def abcd)
    then show ?thesis using a a0 a4 r v by (simp add: start_def firstByte_def Let_def numeral_3_eq_3 numeral_2_eq_2)
  qed
qed

lemma utf8_enc_append: "list_all scalar cps \<Longrightarrow> utf8 (utf8_enc cps @ bs) = utf16 cps @ utf8 bs"
  unfolding utf8_def
  by (induction cps) (simp_all add: utf8_enc_def utf16_def utf8_run_char)

lemma utf8_roundtrip: "list_all scalar cps \<Longrightarrow> utf8 (utf8_enc cps) = utf16 cps"
  using utf8_enc_append [of cps "[]"] by (simp add: utf8_def start_def)

end
