(* ===== verification/McpClient.thy ===== *)
theory McpClient
  imports Utf8
begin

text \<open>
  The client of external tool servers: \<open>src/mcp/client/mcp-client.service.ts\<close> with the types of \<open>mcp.types.ts\<close> and the
  configuration of \<open>mcp-config.service.ts\<close>. A server is a child process that speaks JSON-RPC, one message per line, over its
  standard streams. Connection objects, promises and timers live in an explicit store, since handlers and continuations hold on
  to the objects they captured while others look a connection up by its name. \<open>mcp_step\<close> is the event loop: calls, output of a
  process, its end, failed writes, timers, and calls of \<open>connect\<close> that go on. \<open>JSON.parse\<close> is a parameter, \<open>None\<close> for a
  line that is no JSON object.
\<close>

section \<open>Types\<close>

record McpServerConfig =
  sv_name :: jstr
  sv_command :: jstr
  sv_args :: "jstr list option"
  sv_env :: "(jstr \<times> jstr) list option"
  sv_description :: "jstr option"

record McpToolDefinition =
  mt_name :: jstr
  mt_description :: "jstr option"

record ToolContent =
  tc_type :: jstr
  tc_text :: "jstr option"

text \<open>The result of a response: what the methods of the client read from it.\<close>

record mcp_value =
  va_tools :: "McpToolDefinition list option"
  va_content :: "ToolContent list option"
  va_isError :: bool

datatype json_id = NumId int | OtherId

record JsonRpcResponse =
  rs_id :: json_id
  rs_result :: "mcp_value option"
  rs_error :: "jstr option"

datatype McpConnectionState = McpDisconnected | McpConnecting | McpConnected | McpError

text \<open>Arguments of a tool are JSON the client only passes on.\<close>

datatype rpc_params = NoParams | InitializeParams | ToolCallParams jstr "jstr option"

datatype rpc_message = JsonRpcRequest int jstr rpc_params | Notification jstr

datatype mcp_promise = MPending | MResolved "mcp_value option" | MRejected jstr

record McpConnection =
  co_config :: McpServerConfig
  co_state :: McpConnectionState
  co_tools :: "McpToolDefinition list option"
  pendingRequests :: "(int, nat) jmap"
  requestId :: int
  co_buffer :: jstr
  co_written :: "rpc_message list"
  co_killed :: bool

text \<open>The timeout of a request, with what its callback captured.\<close>

record req_timer =
  rt_due :: int
  rt_conn :: nat
  rt_id :: int
  rt_promise :: nat
  rt_method :: jstr

datatype connect_phase = CnInit nat | CnNotify | CnTools nat | CnOk | CnFailed jstr

record connect_task =
  ct_conn :: nat
  ct_name :: jstr
  ct_phase :: connect_phase

record mcp_st =
  links :: "(jstr, nat) jmap"
  conns :: "nat \<Rightarrow> McpConnection"
  nextConn :: nat
  mproms :: "nat \<Rightarrow> mcp_promise"
  nextProm :: nat
  reqTimers :: "req_timer list"
  tasks :: "connect_task list"

definition newConnection :: "McpServerConfig \<Rightarrow> McpConnection" where
  "newConnection cfg = \<lparr>co_config = cfg, co_state = McpConnecting, co_tools = Some [], pendingRequests = [], requestId = 0,
     co_buffer = [], co_written = [], co_killed = False\<rparr>"

definition noConfig :: McpServerConfig where
  "noConfig = \<lparr>sv_name = [], sv_command = [], sv_args = None, sv_env = None, sv_description = None\<rparr>"

definition init_mcp :: mcp_st where
  "init_mcp = \<lparr>links = [], conns = (\<lambda>_. newConnection noConfig), nextConn = 0, mproms = (\<lambda>_. MPending), nextProm = 0,
     reqTimers = [], tasks = []\<rparr>"

section \<open>Promises and requests\<close>

definition settleM :: "nat \<Rightarrow> mcp_promise \<Rightarrow> mcp_st \<Rightarrow> mcp_st" where
  "settleM p v s = (if mproms s p = MPending then s\<lparr>mproms := (mproms s)(p := v)\<rparr> else s)"

definition onConn :: "nat \<Rightarrow> (McpConnection \<Rightarrow> McpConnection) \<Rightarrow> mcp_st \<Rightarrow> mcp_st" where
  "onConn c f s = s\<lparr>conns := (conns s)(c := f (conns s c))\<rparr>"

definition newProm :: "mcp_promise \<Rightarrow> mcp_st \<Rightarrow> nat \<times> mcp_st" where
  "newProm v s = (nextProm s, s\<lparr>mproms := (mproms s)(nextProm s := v), nextProm := Suc (nextProm s)\<rparr>)"

definition notConnected :: "jstr \<Rightarrow> jstr" where
  "notConnected name = [77, 67, 80, 32, 115, 101, 114, 118, 101, 114, 32, 110, 111, 116, 32, 99, 111,
    110, 110, 101, 99, 116, 101, 100, 58, 32] @ name"

definition addRequest :: "int \<Rightarrow> nat \<Rightarrow> jstr \<Rightarrow> rpc_params \<Rightarrow> McpConnection \<Rightarrow> McpConnection" where
  "addRequest i p meth params k = k\<lparr>requestId := i, pendingRequests := jset i p (pendingRequests k),
     co_written := co_written k @ [JsonRpcRequest i meth params]\<rparr>"

definition sendRequest :: "int \<Rightarrow> jstr \<Rightarrow> jstr \<Rightarrow> rpc_params \<Rightarrow> mcp_st \<Rightarrow> nat \<times> mcp_st" where
  "sendRequest now name meth params s = (case jget (links s) name of
      None \<Rightarrow> newProm (MRejected (notConnected name)) s
    | Some c \<Rightarrow>
        (let i = requestId (conns s c) + 1; p = nextProm s;
             s1 = onConn c (addRequest i p meth params) (snd (newProm MPending s))
         in (p, s1\<lparr>reqTimers := reqTimers s1 @
              [\<lparr>rt_due = now + 30000, rt_conn = c, rt_id = i, rt_promise = p, rt_method = meth\<rparr>]\<rparr>)))"

text \<open>An entry goes and its promise is settled: by a response, a timeout or a failed write.\<close>

definition dropEntry :: "int \<Rightarrow> McpConnection \<Rightarrow> McpConnection" where
  "dropEntry i k = k\<lparr>pendingRequests := jdel i (pendingRequests k)\<rparr>"

definition endRequest :: "nat \<Rightarrow> int \<Rightarrow> nat \<Rightarrow> mcp_promise \<Rightarrow> mcp_st \<Rightarrow> mcp_st" where
  "endRequest c i p v s = settleM p v (onConn c (dropEntry i) s)"

definition requestTimeout :: "req_timer \<Rightarrow> mcp_st \<Rightarrow> mcp_st" where
  "requestTimeout t s =
     (let s1 = s\<lparr>reqTimers := remove1 t (reqTimers s)\<rparr>
      in if jhas (pendingRequests (conns s1 (rt_conn t))) (rt_id t)
         then endRequest (rt_conn t) (rt_id t) (rt_promise t) (MRejected ([82, 101, 113, 117, 101, 115,
           116, 32, 116, 105, 109, 101, 111, 117, 116, 58, 32] @ rt_method t)) s1
         else s1)"

definition writeFailed :: "req_timer \<Rightarrow> jstr \<Rightarrow> mcp_st \<Rightarrow> mcp_st" where
  "writeFailed t e s = endRequest (rt_conn t) (rt_id t) (rt_promise t) (MRejected e) s"

section \<open>Output of a server\<close>

definition responseValue :: "JsonRpcResponse \<Rightarrow> mcp_promise" where
  "responseValue r = (case rs_error r of Some e \<Rightarrow> MRejected e | None \<Rightarrow> MResolved (rs_result r))"

definition handleResponse :: "jstr \<Rightarrow> JsonRpcResponse \<Rightarrow> mcp_st \<Rightarrow> mcp_st" where
  "handleResponse name r s = (case jget (links s) name of
      None \<Rightarrow> s
    | Some c \<Rightarrow> (case rs_id r of
        OtherId \<Rightarrow> s
      | NumId i \<Rightarrow> (case jget (pendingRequests (conns s c)) i of
          None \<Rightarrow> s
        | Some p \<Rightarrow> endRequest c i p (responseValue r) s)))"

text \<open>\<open>split('\n')\<close>: the complete lines, and the rest, which stays in the buffer.\<close>

fun lines_of :: "jstr \<Rightarrow> jstr list \<times> jstr" where
  "lines_of [] = ([], [])"
| "lines_of (c # s) = (case lines_of s of (ls, r) \<Rightarrow>
     if c = 10 then ([] # ls, r) else (case ls of [] \<Rightarrow> ([], c # r) | l # ls' \<Rightarrow> ((c # l) # ls', r)))"

definition handleLine :: "(jstr \<Rightarrow> JsonRpcResponse option) \<Rightarrow> jstr \<Rightarrow> jstr \<Rightarrow> mcp_st \<Rightarrow> mcp_st" where
  "handleLine parse name line s =
     (if trim line = [] then s else case parse line of None \<Rightarrow> s | Some r \<Rightarrow> handleResponse name r s)"

definition setBuffer :: "jstr \<Rightarrow> McpConnection \<Rightarrow> McpConnection" where
  "setBuffer t k = k\<lparr>co_buffer := t\<rparr>"

definition handleText :: "(jstr \<Rightarrow> JsonRpcResponse option) \<Rightarrow> jstr \<Rightarrow> jstr \<Rightarrow> mcp_st \<Rightarrow> mcp_st" where
  "handleText parse name t s = (case jget (links s) name of
      None \<Rightarrow> s
    | Some c \<Rightarrow>
        (let (ls, rest) = lines_of (co_buffer (conns s c) @ t)
         in fold (handleLine parse name) ls (onConn c (setBuffer rest) s)))"

definition handleStdout :: "(jstr \<Rightarrow> JsonRpcResponse option) \<Rightarrow> jstr \<Rightarrow> int list \<Rightarrow> mcp_st \<Rightarrow> mcp_st" where
  "handleStdout parse name data s = handleText parse name (utf8 data) s"

section \<open>Connecting\<close>

definition setConnState :: "nat \<Rightarrow> McpConnectionState \<Rightarrow> mcp_st \<Rightarrow> mcp_st" where
  "setConnState c st s = onConn c (\<lambda>k. k\<lparr>co_state := st\<rparr>) s"

text \<open>\<open>connect\<close> up to the first await: nothing for a known name, else a process and the request \<open>initialize\<close>.\<close>

definition spawnMcp :: "McpServerConfig \<Rightarrow> mcp_st \<Rightarrow> mcp_st" where
  "spawnMcp cfg s = s\<lparr>conns := (conns s)(nextConn s := newConnection cfg), nextConn := Suc (nextConn s),
     links := jset (sv_name cfg) (nextConn s) (links s)\<rparr>"

definition addTask :: "connect_task \<Rightarrow> mcp_st \<Rightarrow> mcp_st" where
  "addTask k s = s\<lparr>tasks := tasks s @ [k]\<rparr>"

definition connectMcp :: "int \<Rightarrow> McpServerConfig \<Rightarrow> mcp_st \<Rightarrow> mcp_st" where
  "connectMcp now cfg s =
     (if jhas (links s) (sv_name cfg) then s
      else let (p, s1) = sendRequest now (sv_name cfg) [105, 110, 105, 116, 105, 97, 108, 105, 122,
        101] InitializeParams (spawnMcp cfg s)
           in addTask \<lparr>ct_conn = nextConn s, ct_name = sv_name cfg, ct_phase = CnInit p\<rparr> s1)"

definition failConnect :: "connect_task \<Rightarrow> jstr \<Rightarrow> mcp_st \<Rightarrow> connect_phase \<times> mcp_st" where
  "failConnect k e s = (CnFailed e, setConnState (ct_conn k) McpError s)"

definition sendInitialized :: "connect_task \<Rightarrow> mcp_st \<Rightarrow> connect_phase \<times> mcp_st" where
  "sendInitialized k s = (case jget (links s) (ct_name k) of
      None \<Rightarrow> failConnect k (notConnected (ct_name k)) s
    | Some c \<Rightarrow> (CnNotify,
      onConn c (\<lambda>x. x\<lparr>co_written := co_written x @ [Notification [110, 111, 116, 105,
      102, 105, 99, 97, 116, 105, 111, 110, 115, 47, 105, 110, 105, 116, 105, 97, 108, 105, 122, 101,
      100]]\<rparr>) s))"

definition gotTools :: "connect_task \<Rightarrow> mcp_value option \<Rightarrow> mcp_st \<Rightarrow> connect_phase \<times> mcp_st" where
  "gotTools k v s = (case v of
      None \<Rightarrow> failConnect k [84, 121, 112, 101, 69, 114, 114, 111, 114] s
    | Some r \<Rightarrow>
        (let s1 = onConn (ct_conn k) (\<lambda>x. x\<lparr>co_tools := va_tools r\<rparr>) s
         in case va_tools r of None \<Rightarrow> failConnect k [84, 121, 112, 101, 69, 114, 114, 111,
           114] s1 | Some ts \<Rightarrow> (CnOk, s1)))"

definition requestTools :: "int \<Rightarrow> connect_task \<Rightarrow> mcp_st \<Rightarrow> connect_phase \<times> mcp_st" where
  "requestTools now k s =
     (let (p, s1) = sendRequest now (ct_name k) [116, 111, 111, 108, 115, 47, 108, 105, 115,
       116] NoParams (setConnState (ct_conn k) McpConnected s) in (CnTools p, s1))"

text \<open>A call of \<open>connect\<close> goes on; \<open>err\<close> is the outcome of writing the notification.\<close>

definition connectResume :: "int \<Rightarrow> jstr option \<Rightarrow> connect_task \<Rightarrow> mcp_st \<Rightarrow> connect_phase \<times> mcp_st" where
  "connectResume now err k s = (case ct_phase k of
      CnInit p \<Rightarrow> (case mproms s p of
          MPending \<Rightarrow> (CnInit p, s)
        | MResolved _ \<Rightarrow> sendInitialized k s
        | MRejected e \<Rightarrow> failConnect k e s)
    | CnNotify \<Rightarrow> (case err of Some e \<Rightarrow> failConnect k e s | None \<Rightarrow> requestTools now k s)
    | CnTools p \<Rightarrow> (case mproms s p of
          MPending \<Rightarrow> (CnTools p, s)
        | MResolved v \<Rightarrow> gotTools k v s
        | MRejected e \<Rightarrow> failConnect k e s)
    | ph \<Rightarrow> (ph, s))"

section \<open>The other operations\<close>

definition killed :: "McpConnection \<Rightarrow> McpConnection" where
  "killed k = k\<lparr>co_killed := True\<rparr>"

definition disconnectMcp :: "jstr \<Rightarrow> mcp_st \<Rightarrow> mcp_st" where
  "disconnectMcp name s = (case jget (links s) name of
      None \<Rightarrow> s
    | Some c \<Rightarrow> (onConn c killed s)\<lparr>links := jdel name (links s)\<rparr>)"

definition callTool :: "int \<Rightarrow> jstr \<Rightarrow> jstr \<Rightarrow> jstr option \<Rightarrow> mcp_st \<Rightarrow> nat \<times> mcp_st" where
  "callTool now server tool args s = sendRequest now server [116, 111, 111, 108, 115, 47, 99, 97, 108,
    108] (ToolCallParams tool args) s"

definition getAllTools :: "mcp_st \<Rightarrow> (jstr, McpToolDefinition list option) jmap" where
  "getAllTools s = map (\<lambda>(name, c). (name, co_tools (conns s c))) (filter (\<lambda>(_, c). co_state (conns s c) = McpConnected) (links s))"

definition getConnectionState :: "jstr \<Rightarrow> mcp_st \<Rightarrow> McpConnectionState" where
  "getConnectionState name s = (case jget (links s) name of None \<Rightarrow> McpDisconnected | Some c \<Rightarrow> co_state (conns s c))"

definition onModuleDestroy :: "mcp_st \<Rightarrow> mcp_st" where
  "onModuleDestroy s = (fold (\<lambda>c. onConn c killed) (map snd (links s)) s)\<lparr>links := []\<rparr>"

section \<open>Configuration\<close>

definition DEFAULT_SERVERS :: "jstr option \<Rightarrow> McpServerConfig list" where
  "DEFAULT_SERVERS path = [\<lparr>sv_name = [102, 105, 108, 101, 115, 121, 115, 116, 101, 109],
    sv_command = [110, 112, 120],
     sv_args = Some [[45, 121], [64, 109, 111, 100, 101, 108, 99, 111, 110, 116, 101, 120, 116, 112,
       114, 111, 116, 111, 99, 111, 108, 47, 115, 101, 114, 118, 101, 114, 45, 102, 105, 108, 101, 115,
       121, 115, 116, 101, 109], str_or path [47, 116, 109, 112, 47, 97, 117, 114, 97]], sv_env = None,
     sv_description = Some [54028, 51068, 32, 49884, 49828, 53596, 32, 51217, 44540, 32, 40, 45796,
       51060, 50612, 44536, 47016, 32, 51200, 51109, 41]\<rparr>]"

text \<open>\<open>servers\<close> is the array in the variable \<open>MCP_SERVERS\<close>, if it is set and parses to an array.\<close>

definition loadServersFromEnv :: "McpServerConfig list option \<Rightarrow> McpServerConfig list \<Rightarrow> McpServerConfig list" where
  "loadServersFromEnv servers ss = (case servers of None \<Rightarrow> ss | Some new \<Rightarrow> ss @ new)"

definition configInit :: "McpServerConfig list option \<Rightarrow> jstr option \<Rightarrow> McpServerConfig list" where
  "configInit servers path = loadServersFromEnv servers [] @ DEFAULT_SERVERS path"

definition getServer :: "jstr \<Rightarrow> McpServerConfig list \<Rightarrow> McpServerConfig option" where
  "getServer name ss = List.find (\<lambda>c. sv_name c = name) ss"

definition addServer :: "McpServerConfig \<Rightarrow> McpServerConfig list \<Rightarrow> McpServerConfig list" where
  "addServer cfg ss = (case getServer (sv_name cfg) ss of Some _ \<Rightarrow> ss | None \<Rightarrow> ss @ [cfg])"

definition removeServer :: "jstr \<Rightarrow> McpServerConfig list \<Rightarrow> mcp_st \<Rightarrow> McpServerConfig list \<times> mcp_st" where
  "removeServer name ss s = (filter (\<lambda>c. sv_name c \<noteq> name) ss, disconnectMcp name s)"

definition connectServer :: "int \<Rightarrow> jstr \<Rightarrow> McpServerConfig list \<Rightarrow> mcp_st \<Rightarrow> jstr + mcp_st" where
  "connectServer now name ss s = (case getServer name ss of
      None \<Rightarrow> Inl ([77, 67, 80, 32, 115, 101, 114, 118, 101, 114, 32, 110, 111, 116, 32, 99,
        111, 110, 102, 105, 103, 117, 114, 101, 100, 58, 32] @ name)
    | Some cfg \<Rightarrow> Inr (connectMcp now cfg s))"

text \<open>
  \<open>connectAll\<close>: the servers still to come and the call of \<open>connect\<close> it awaits; a failed call is only logged.
\<close>

fun finished :: "connect_phase \<Rightarrow> bool" where
  "finished CnOk = True"
| "finished (CnFailed e) = True"
| "finished _ = False"

fun connectAllNext :: "int \<Rightarrow> McpServerConfig list \<times> nat option \<Rightarrow> mcp_st \<Rightarrow> (McpServerConfig list \<times> nat option) \<times> mcp_st" where
  "connectAllNext now (cfg # rest, None) s =
     (let s1 = connectMcp now cfg s
      in ((rest, if length (tasks s1) > length (tasks s) then Some (length (tasks s)) else None), s1))"
| "connectAllNext now (rest, Some i) s =
     (if i < length (tasks s) \<and> finished (ct_phase (tasks s ! i)) then ((rest, None), s) else ((rest, Some i), s))"
| "connectAllNext now ([], None) s = (([], None), s)"

section \<open>The event loop\<close>

datatype mcp_event =
    McConnect int McpServerConfig
  | McCall int jstr jstr "jstr option"
  | McDisconnect jstr
  | McResume nat int "jstr option"
  | McStdout nat "int list"
  | McClose nat
  | McProcError nat
  | McTimer nat
  | McWriteFailed nat jstr
  | McDestroy

definition setPhase :: "nat \<Rightarrow> connect_phase \<Rightarrow> mcp_st \<Rightarrow> mcp_st" where
  "setPhase i ph s = s\<lparr>tasks := (tasks s)[i := (tasks s ! i)\<lparr>ct_phase := ph\<rparr>]\<rparr>"

fun mcp_step :: "(jstr \<Rightarrow> JsonRpcResponse option) \<Rightarrow> mcp_event \<Rightarrow> mcp_st \<Rightarrow> mcp_st" where
  "mcp_step parse (McConnect now cfg) s = connectMcp now cfg s"
| "mcp_step parse (McCall now server tool args) s = snd (callTool now server tool args s)"
| "mcp_step parse (McDisconnect name) s = disconnectMcp name s"
| "mcp_step parse (McResume i now err) s =
     (if i < length (tasks s)
      then (let (ph, s1) = connectResume now err (tasks s ! i) s in setPhase i ph s1)
      else s)"
| "mcp_step parse (McStdout c data) s =
     (if c < nextConn s then handleStdout parse (sv_name (co_config (conns s c))) data s else s)"
| "mcp_step parse (McClose c) s = (if c < nextConn s then setConnState c McpDisconnected s else s)"
| "mcp_step parse (McProcError c) s = (if c < nextConn s then setConnState c McpError s else s)"
| "mcp_step parse (McTimer i) s = (if i < length (reqTimers s) then requestTimeout (reqTimers s ! i) s else s)"
| "mcp_step parse (McWriteFailed i e) s = (if i < length (reqTimers s) then writeFailed (reqTimers s ! i) e s else s)"
| "mcp_step parse McDestroy s = onModuleDestroy s"

section \<open>Requests, timers and promises\<close>

definition pend :: "mcp_st \<Rightarrow> nat \<Rightarrow> int \<Rightarrow> nat option" where
  "pend s c i = jget (pendingRequests (conns s c)) i"

text \<open>
  Every pending entry has an armed timer, and a promise of a timer is pending exactly as long as its entry is there;
  every pending promise belongs to a timer; connections, ids and promises of different requests differ.
\<close>

definition mcp_inv :: "mcp_st \<Rightarrow> bool" where
  "mcp_inv s \<longleftrightarrow>
     (\<forall>c i p. pend s c i = Some p \<longrightarrow> (\<exists>t \<in> set (reqTimers s). rt_conn t = c \<and> rt_id t = i \<and> rt_promise t = p)) \<and>
     (\<forall>t \<in> set (reqTimers s). rt_promise t < nextProm s \<and> rt_conn t < nextConn s \<and> rt_id t \<le> requestId (conns s (rt_conn t)) \<and>
        (mproms s (rt_promise t) = MPending \<longleftrightarrow> pend s (rt_conn t) (rt_id t) = Some (rt_promise t))) \<and>
     (\<forall>p < nextProm s. mproms s p = MPending \<longrightarrow> (\<exists>t \<in> set (reqTimers s). rt_promise t = p)) \<and>
     (\<forall>t \<in> set (reqTimers s). \<forall>t' \<in> set (reqTimers s).
        rt_promise t = rt_promise t' \<longleftrightarrow> rt_conn t = rt_conn t' \<and> rt_id t = rt_id t') \<and>
     (\<forall>n c. jget (links s) n = Some c \<longrightarrow> c < nextConn s)"

lemma mcp_invI:
  assumes "\<And>c i p. pend s c i = Some p \<Longrightarrow> \<exists>t \<in> set (reqTimers s). rt_conn t = c \<and> rt_id t = i \<and> rt_promise t = p"
    and "\<And>t. t \<in> set (reqTimers s) \<Longrightarrow> rt_promise t < nextProm s"
    and "\<And>t. t \<in> set (reqTimers s) \<Longrightarrow> rt_conn t < nextConn s"
    and "\<And>t. t \<in> set (reqTimers s) \<Longrightarrow> rt_id t \<le> requestId (conns s (rt_conn t))"
    and "\<And>t. t \<in> set (reqTimers s) \<Longrightarrow> mproms s (rt_promise t) = MPending \<longleftrightarrow> pend s (rt_conn t) (rt_id t) = Some (rt_promise t)"
    and "\<And>p. p < nextProm s \<Longrightarrow> mproms s p = MPending \<Longrightarrow> \<exists>t \<in> set (reqTimers s). rt_promise t = p"
    and "\<And>t t'. t \<in> set (reqTimers s) \<Longrightarrow> t' \<in> set (reqTimers s) \<Longrightarrow>
      rt_promise t = rt_promise t' \<longleftrightarrow> rt_conn t = rt_conn t' \<and> rt_id t = rt_id t'"
    and "\<And>n c. jget (links s) n = Some c \<Longrightarrow> c < nextConn s"
  shows "mcp_inv s"
  unfolding mcp_inv_def using assms by blast

lemma mcp_invD:
  assumes "mcp_inv s"
  shows "\<And>c i p. pend s c i = Some p \<Longrightarrow> \<exists>t \<in> set (reqTimers s). rt_conn t = c \<and> rt_id t = i \<and> rt_promise t = p"
    and "\<And>t. t \<in> set (reqTimers s) \<Longrightarrow> rt_promise t < nextProm s"
    and "\<And>t. t \<in> set (reqTimers s) \<Longrightarrow> rt_conn t < nextConn s"
    and "\<And>t. t \<in> set (reqTimers s) \<Longrightarrow> rt_id t \<le> requestId (conns s (rt_conn t))"
    and "\<And>t. t \<in> set (reqTimers s) \<Longrightarrow> mproms s (rt_promise t) = MPending \<longleftrightarrow> pend s (rt_conn t) (rt_id t) = Some (rt_promise t)"
    and "\<And>p. p < nextProm s \<Longrightarrow> mproms s p = MPending \<Longrightarrow> \<exists>t \<in> set (reqTimers s). rt_promise t = p"
    and "\<And>t t'. t \<in> set (reqTimers s) \<Longrightarrow> t' \<in> set (reqTimers s) \<Longrightarrow>
      rt_promise t = rt_promise t' \<longleftrightarrow> rt_conn t = rt_conn t' \<and> rt_id t = rt_id t'"
    and "\<And>n c. jget (links s) n = Some c \<Longrightarrow> c < nextConn s"
  using assms unfolding mcp_inv_def by blast+

text \<open>What does not touch requests, promises and timers keeps the invariant.\<close>

lemma inv_neutral:
  assumes "mcp_inv s"
    and "\<And>c. pendingRequests (conns s' c) = pendingRequests (conns s c)" "\<And>c. requestId (conns s' c) = requestId (conns s c)"
    and "nextConn s' = nextConn s" "mproms s' = mproms s" "nextProm s' = nextProm s" "reqTimers s' = reqTimers s"
    and "\<And>n c. jget (links s') n = Some c \<Longrightarrow> jget (links s) n = Some c"
  shows "mcp_inv s'"
proof -
  have p: "pend s' = pend s" by (intro ext) (simp add: pend_def assms(2))
  show ?thesis
    by (rule mcp_invI; simp only: p assms(3-7)) (use mcp_invD [OF assms(1)] assms(8) in blast)+
qed

lemma onConn_simps [simp]:
  "links (onConn c f s) = links s" "nextConn (onConn c f s) = nextConn s" "mproms (onConn c f s) = mproms s"
  "nextProm (onConn c f s) = nextProm s" "reqTimers (onConn c f s) = reqTimers s" "tasks (onConn c f s) = tasks s"
  "conns (onConn c f s) d = (if d = c then f (conns s c) else conns s d)"
  by (simp_all add: onConn_def)

lemma settleM_simps [simp]:
  "links (settleM p v s) = links s" "nextConn (settleM p v s) = nextConn s" "nextProm (settleM p v s) = nextProm s"
  "reqTimers (settleM p v s) = reqTimers s" "tasks (settleM p v s) = tasks s" "conns (settleM p v s) = conns s"
  "mproms (settleM p v s) q = (if q = p \<and> mproms s p = MPending then v else mproms s q)"
  by (simp_all add: settleM_def)

lemma inv_onConn:
  assumes "mcp_inv s" and "\<And>k. pendingRequests (f k) = pendingRequests k" and "\<And>k. requestId (f k) = requestId k"
  shows "mcp_inv (onConn c f s)"
  by (rule inv_neutral [OF assms(1)]) (simp_all add: assms(2,3))

lemma pend_endRequest: "pend (endRequest c i p v s) d j = (if d = c \<and> j = i then None else pend s d j)"
  by (simp add: endRequest_def pend_def dropEntry_def)

lemma endRequest_simps [simp]:
  "links (endRequest c i p v s) = links s" "nextConn (endRequest c i p v s) = nextConn s"
  "nextProm (endRequest c i p v s) = nextProm s" "reqTimers (endRequest c i p v s) = reqTimers s"
  "tasks (endRequest c i p v s) = tasks s" "requestId (conns (endRequest c i p v s) d) = requestId (conns s d)"
  "co_state (conns (endRequest c i p v s) d) = co_state (conns s d)"
  "co_buffer (conns (endRequest c i p v s) d) = co_buffer (conns s d)"
  "mproms (endRequest c i p v s) q = (if q = p \<and> mproms s p = MPending then v else mproms s q)"
  by (simp_all add: endRequest_def dropEntry_def)

lemma inv_endRequest:
  assumes "mcp_inv s" and "t \<in> set (reqTimers s)" and "v \<noteq> MPending"
  shows "mcp_inv (endRequest (rt_conn t) (rt_id t) (rt_promise t) v s)"
proof (rule mcp_invI, unfold endRequest_simps pend_endRequest)
  note d = mcp_invD [OF assms(1)]
  show "\<exists>u \<in> set (reqTimers s). rt_conn u = c \<and> rt_id u = i \<and> rt_promise u = p"
    if "(if c = rt_conn t \<and> i = rt_id t then None else pend s c i) = Some p" for c i p
    using that d(1) by (simp split: if_splits)
  show "(if rt_promise u = rt_promise t \<and> mproms s (rt_promise t) = MPending then v else mproms s (rt_promise u)) = MPending \<longleftrightarrow>
      (if rt_conn u = rt_conn t \<and> rt_id u = rt_id t then None else pend s (rt_conn u) (rt_id u)) = Some (rt_promise u)"
    if "u \<in> set (reqTimers s)" for u
    using d(5) [OF that] d(7) [OF that assms(2)] assms(3) by (auto split: if_splits)
  show "\<exists>u \<in> set (reqTimers s). rt_promise u = p"
    if "p < nextProm s" "(if p = rt_promise t \<and> mproms s (rt_promise t) = MPending then v else mproms s p) = MPending" for p
    using that d(6) assms(3) by (auto split: if_splits)
qed (use mcp_invD [OF assms(1)] in blast)+

lemma inv_dropTimer:
  assumes "mcp_inv s" and "t \<in> set (reqTimers s)" and "pend s (rt_conn t) (rt_id t) = None"
  shows "mcp_inv (s\<lparr>reqTimers := remove1 t (reqTimers s)\<rparr>)"
proof -
  note d = mcp_invD [OF assms(1)]
  have sub: "set (remove1 t (reqTimers s)) \<subseteq> set (reqTimers s)" by (rule set_remove1_subset)
  have keep: "u \<in> set (remove1 t (reqTimers s))" if "u \<in> set (reqTimers s)" "u \<noteq> t" for u
    using that by (simp add: in_set_remove1)
  define s' where "s' = s\<lparr>reqTimers := remove1 t (reqTimers s)\<rparr>"
  have f: "links s' = links s" "nextConn s' = nextConn s" "nextProm s' = nextProm s" "mproms s' = mproms s"
      "reqTimers s' = remove1 t (reqTimers s)" "conns s' = conns s" by (simp_all add: s'_def)
  have p: "pend s' = pend s" by (intro ext) (simp add: pend_def f)
  have "mcp_inv s'"
  proof (rule mcp_invI, unfold p f)
    show "\<exists>u \<in> set (remove1 t (reqTimers s)). rt_conn u = c \<and> rt_id u = i \<and> rt_promise u = q" if "pend s c i = Some q" for c i q
      using d(1) [OF that] keep assms(3) that by (metis option.distinct(1))
    show "\<exists>u \<in> set (remove1 t (reqTimers s)). rt_promise u = q" if "q < nextProm s" "mproms s q = MPending" for q
      using d(6) [OF that] keep d(5) [OF assms(2)] assms(3) that(2) by (metis option.distinct(1))
  qed (erule d(8) | (drule subsetD [OF sub])+, (rule d; assumption))+
  then show ?thesis by (simp add: s'_def)
qed

lemma inv_sendRequest:
  assumes "mcp_inv s"
  shows "mcp_inv (snd (sendRequest now name meth params s))"
proof (cases "jget (links s) name")
  case None
  note d = mcp_invD [OF assms]
  define s' where "s' = snd (sendRequest now name meth params s)"
  define e where "e = notConnected name"
  have f: "links s' = links s" "nextConn s' = nextConn s" "nextProm s' = Suc (nextProm s)" "reqTimers s' = reqTimers s"
      "conns s' = conns s" "mproms s' = (mproms s)(nextProm s := MRejected e)"
    by (simp_all add: s'_def e_def sendRequest_def None newProm_def)
  have p: "pend s' = pend s" by (intro ext) (simp add: pend_def f)
  have "mcp_inv s'"
  proof (rule mcp_invI, unfold p f)
    show "rt_promise t < Suc (nextProm s)" if "t \<in> set (reqTimers s)" for t using d(2) [OF that] by simp
    show "((mproms s)(nextProm s := MRejected e)) (rt_promise t) = MPending \<longleftrightarrow> pend s (rt_conn t) (rt_id t) = Some (rt_promise t)"
      if "t \<in> set (reqTimers s)" for t using d(2) [OF that] d(5) [OF that] by simp
    show "\<exists>t \<in> set (reqTimers s). rt_promise t = q"
      if "q < Suc (nextProm s)" "((mproms s)(nextProm s := MRejected e)) q = MPending" for q
      using that d(6) [of q] by (auto split: if_splits)
  qed (rule d; assumption)+
  then show ?thesis by (simp add: s'_def)
next
  case (Some c)
  note d = mcp_invD [OF assms]
  define i q where iq: "i = requestId (conns s c) + 1" "q = nextProm s"
  define u where "u = \<lparr>rt_due = now + 30000, rt_conn = c, rt_id = i, rt_promise = q, rt_method = meth\<rparr>"
  define s' where "s' = snd (sendRequest now name meth params s)"
  have f: "links s' = links s" "nextConn s' = nextConn s" "nextProm s' = Suc q" "reqTimers s' = reqTimers s @ [u]"
      "mproms s' = (mproms s)(q := MPending)" "requestId (conns s' e) = (if e = c then i else requestId (conns s e))" for e
    by (simp_all add: s'_def sendRequest_def Some newProm_def Let_def u_def iq addRequest_def)
  have pd: "pend s' e j = (if e = c \<and> j = i then Some q else pend s e j)" for e j
    by (simp add: s'_def sendRequest_def Some newProm_def Let_def pend_def iq addRequest_def)
  have fresh: "\<not> (rt_conn t = c \<and> rt_id t = i)" "rt_promise t \<noteq> q" "rt_promise t < q" if "t \<in> set (reqTimers s)" for t
    using d(2,4) [OF that] by (auto simp: iq)
  have u: "rt_conn u = c" "rt_id u = i" "rt_promise u = q" by (simp_all add: u_def)
  have "mcp_inv s'"
  proof (rule mcp_invI, unfold f pd)
    show "\<exists>t \<in> set (reqTimers s @ [u]). rt_conn t = e \<and> rt_id t = j \<and> rt_promise t = p"
      if "(if e = c \<and> j = i then Some q else pend s e j) = Some p" for e j p
      using that d(1) u by (auto split: if_splits)
    show "((mproms s)(q := MPending)) (rt_promise t) = MPending \<longleftrightarrow>
        (if rt_conn t = c \<and> rt_id t = i then Some q else pend s (rt_conn t) (rt_id t)) = Some (rt_promise t)"
      if "t \<in> set (reqTimers s @ [u])" for t
      using that d(5) fresh u by auto
    show "\<exists>t \<in> set (reqTimers s @ [u]). rt_promise t = p" if "p < Suc q" "((mproms s)(q := MPending)) p = MPending" for p
      using that d(6) [of p] u by (cases "p = q") (auto simp: iq less_Suc_eq)
    show "rt_promise t = rt_promise t' \<longleftrightarrow> rt_conn t = rt_conn t' \<and> rt_id t = rt_id t'"
      if "t \<in> set (reqTimers s @ [u])" "t' \<in> set (reqTimers s @ [u])" for t t'
      using that d(7) [of t t'] fresh(1,2) [of t] fresh(1,2) [of t'] u
      by (cases "t \<in> set (reqTimers s)"; cases "t' \<in> set (reqTimers s)") auto
    show "rt_promise t < Suc q" if "t \<in> set (reqTimers s @ [u])" for t
      using that fresh(3) u by (auto intro: less_SucI)
    show "rt_conn t < nextConn s" if "t \<in> set (reqTimers s @ [u])" for t
      using that d(3) d(8) [OF Some] u by auto
    show "rt_id t \<le> (if rt_conn t = c then i else requestId (conns s (rt_conn t)))" if "t \<in> set (reqTimers s @ [u])" for t
      using that d(4) [of t] u by (cases "t \<in> set (reqTimers s)") (auto simp: iq)
  qed (rule d(8))
  then show ?thesis by (simp add: s'_def)
qed

text \<open>The operations, one by one.\<close>

lemma inv_requestTimeout:
  assumes "mcp_inv s" and "t \<in> set (reqTimers s)"
  shows "mcp_inv (requestTimeout t s)"
proof (cases "pend s (rt_conn t) (rt_id t)")
  case None
  then have "requestTimeout t s = s\<lparr>reqTimers := remove1 t (reqTimers s)\<rparr>"
    by (simp add: requestTimeout_def pend_def jhas_def Let_def)
  then show ?thesis using inv_dropTimer [OF assms None] by simp
next
  case (Some p)
  let ?s = "endRequest (rt_conn t) (rt_id t) (rt_promise t) (MRejected ([82, 101, 113, 117, 101, 115,
    116, 32, 116, 105, 109, 101, 111, 117, 116, 58, 32] @ rt_method t)) s"
  have "requestTimeout t s = ?s\<lparr>reqTimers := remove1 t (reqTimers ?s)\<rparr>"
    using Some by (simp add: requestTimeout_def pend_def jhas_def Let_def endRequest_def settleM_def onConn_def)
  moreover have "mcp_inv ?s" by (rule inv_endRequest [OF assms]) simp
  ultimately show ?thesis using inv_dropTimer [of ?s t] assms(2) by (simp add: pend_endRequest)
qed

lemma inv_handleResponse:
  assumes "mcp_inv s"
  shows "mcp_inv (handleResponse name r s)"
proof (cases "\<exists>c i p. jget (links s) name = Some c \<and> rs_id r = NumId i \<and> pend s c i = Some p")
  case True
  then obtain c i p where x: "jget (links s) name = Some c" "rs_id r = NumId i" "pend s c i = Some p" by blast
  obtain t where t: "t \<in> set (reqTimers s)" "rt_conn t = c" "rt_id t = i" "rt_promise t = p"
    using mcp_invD(1) [OF assms x(3)] by blast
  have "handleResponse name r s = endRequest c i p (responseValue r) s"
    using x by (simp add: handleResponse_def pend_def)
  then show ?thesis
    using inv_endRequest [OF assms t(1), of "responseValue r"] t(2-4) by (simp add: responseValue_def split: option.splits)
next
  case False
  then have "handleResponse name r s = s"
    by (auto simp: handleResponse_def pend_def split: option.splits json_id.splits)
  then show ?thesis using assms by simp
qed

lemma inv_handleLine: "mcp_inv s \<Longrightarrow> mcp_inv (handleLine parse name l s)"
  by (simp add: handleLine_def inv_handleResponse split: option.splits)

lemma inv_handleLines: "mcp_inv s \<Longrightarrow> mcp_inv (fold (handleLine parse name) ls s)"
  by (induction ls arbitrary: s) (simp_all add: inv_handleLine)

lemma inv_handleText: "mcp_inv s \<Longrightarrow> mcp_inv (handleText parse name t s)"
  by (simp add: handleText_def inv_handleLines inv_onConn setBuffer_def Let_def split: option.splits prod.splits)

lemma inv_setConnState: "mcp_inv s \<Longrightarrow> mcp_inv (setConnState c st s)"
  unfolding setConnState_def by (rule inv_onConn) simp_all

lemma inv_spawn:
  assumes "mcp_inv s"
  shows "mcp_inv (spawnMcp cfg s)"
proof -
  note d = mcp_invD [OF assms]
  define s' where "s' = spawnMcp cfg s"
  have f: "nextConn s' = Suc (nextConn s)" "nextProm s' = nextProm s" "mproms s' = mproms s" "reqTimers s' = reqTimers s"
    by (simp_all add: s'_def spawnMcp_def)
  have n: "pend s (nextConn s) i = None" for i
    using d(1) [of "nextConn s" i] d(3) by (cases "pend s (nextConn s) i") (auto dest: less_imp_neq)
  have p: "pend s' = pend s"
    by (intro ext) (use n in \<open>simp add: pend_def s'_def spawnMcp_def newConnection_def\<close>)
  have r: "requestId (conns s' (rt_conn t)) = requestId (conns s (rt_conn t))" if "t \<in> set (reqTimers s)" for t
    using d(3) [OF that] by (simp add: s'_def spawnMcp_def)
  have "mcp_inv s'"
  proof (rule mcp_invI, unfold p f)
    show "rt_conn t < Suc (nextConn s)" if "t \<in> set (reqTimers s)" for t using d(3) [OF that] by simp
    show "rt_id t \<le> requestId (conns s' (rt_conn t))" if "t \<in> set (reqTimers s)" for t using d(4) [OF that] r [OF that] by simp
    show "c < Suc (nextConn s)" if "jget (links s') m = Some c" for m c
      using that d(8) [of m c] by (auto simp: s'_def spawnMcp_def map_of_jset split: if_splits)
  qed (rule d; assumption)+
  then show ?thesis by (simp add: s'_def)
qed

lemma inv_tasks: "mcp_inv s \<Longrightarrow> mcp_inv (s\<lparr>tasks := ts\<rparr>)"
  by (erule inv_neutral) simp_all

lemma inv_sent: "mcp_inv s \<Longrightarrow> sendRequest now name meth params s = (p, s') \<Longrightarrow> mcp_inv s'"
  using inv_sendRequest [of s now name meth params] by simp

lemma inv_connectMcp: "mcp_inv s \<Longrightarrow> mcp_inv (connectMcp now cfg s)"
  by (auto simp: connectMcp_def addTask_def split: prod.splits intro!: inv_tasks dest: inv_sent [OF inv_spawn])

lemma inv_failConnect: "mcp_inv s \<Longrightarrow> mcp_inv (snd (failConnect k e s))"
  by (simp add: failConnect_def inv_setConnState)

lemma inv_connectResume:
  assumes "mcp_inv s"
  shows "mcp_inv (snd (connectResume now err k s))"
proof -
  have "mcp_inv (snd (requestTools now k s))"
    using assms by (auto simp: requestTools_def split: prod.splits dest: inv_sent [OF inv_setConnState])
  moreover have "mcp_inv (snd (sendInitialized k s))"
    using assms by (simp add: sendInitialized_def inv_failConnect inv_onConn split: option.splits)
  moreover have "mcp_inv (snd (gotTools k v s))" for v
    using assms by (simp add: gotTools_def inv_failConnect inv_onConn Let_def split: option.splits)
  ultimately show ?thesis
    using assms by (simp add: connectResume_def inv_failConnect split: connect_phase.splits option.splits mcp_promise.splits)
qed

lemma kill_all: "mcp_inv s \<Longrightarrow> mcp_inv (fold (\<lambda>c. onConn c killed) cs s)"
  by (induction cs arbitrary: s) (simp_all add: inv_onConn killed_def)

lemma inv_init_mcp: "mcp_inv init_mcp"
  by (simp add: mcp_inv_def init_mcp_def pend_def newConnection_def)

interpretation mcp: inv_system mcp_inv "mcp_step parse" for parse
proof
  fix ev s
  assume i: "mcp_inv s"
  show "mcp_inv (mcp_step parse ev s)"
  proof (cases ev)
    case (McDisconnect name)
    have "mcp_inv ((onConn c killed s)\<lparr>links := jdel name (links s)\<rparr>)" for c
      by (rule inv_neutral [OF i]) (auto simp: killed_def map_of_jdel split: if_splits)
    then show ?thesis using i by (simp add: McDisconnect disconnectMcp_def split: option.splits)
  next
    case (McResume n now err)
    then show ?thesis
      using i inv_connectResume [OF i, of now err "tasks s ! n"]
      by (cases "connectResume now err (tasks s ! n) s") (simp add: setPhase_def inv_tasks)
  next
    case McDestroy
    have "mcp_inv ((fold (\<lambda>c. onConn c killed) (map snd (links s)) s)\<lparr>links := []\<rparr>)"
      by (rule inv_neutral [OF kill_all [OF i]]) simp_all
    then show ?thesis by (simp add: McDestroy onModuleDestroy_def)
  qed (use i in \<open>simp_all add: inv_connectMcp callTool_def inv_sendRequest handleStdout_def inv_handleText inv_setConnState
    inv_requestTimeout writeFailed_def inv_endRequest\<close>)
qed

text \<open>
  C2. No call of a tool server waits forever: in every reachable state of the client a pending request has its own timer, armed
  when it was sent, and that timer settles it, also after the server was disconnected, replaced or closed.
\<close>

theorem every_request_settles:
  assumes "s = fold (mcp_step parse) evs init_mcp" and "p < nextProm s" and "mproms s p = MPending"
  shows "\<exists>i < length (reqTimers s). rt_promise (reqTimers s ! i) = p \<and> mproms (mcp_step parse (McTimer i) s) p \<noteq> MPending"
proof -
  have inv: "mcp_inv s" unfolding assms(1) by (rule mcp.inv_run [OF inv_init_mcp])
  obtain t where t: "t \<in> set (reqTimers s)" "rt_promise t = p" using mcp_invD(6) [OF inv assms(2,3)] by blast
  obtain i where i: "i < length (reqTimers s)" "reqTimers s ! i = t" using t(1) by (auto simp: in_set_conv_nth)
  have "pend s (rt_conn t) (rt_id t) = Some p" using mcp_invD(5) [OF inv t(1)] t(2) assms(3) by simp
  then have "mproms (requestTimeout t s) p \<noteq> MPending"
    using t(2) assms(3) by (simp add: requestTimeout_def pend_def jhas_def Let_def)
  then show ?thesis using i t(2) by auto
qed

section \<open>Messages do not depend on chunks\<close>

lemma lines_of_append:
  "lines_of (a @ b) = (fst (lines_of a) @ fst (lines_of (snd (lines_of a) @ b)), snd (lines_of (snd (lines_of a) @ b)))"
proof (induction a)
  case (Cons x a)
  obtain ls r where a: "lines_of a = (ls, r)" by fastforce
  obtain ks q where b: "lines_of (r @ b) = (ks, q)" by fastforce
  have "lines_of (a @ b) = (ls @ ks, q)" using Cons a b by simp
  then show ?case using a b by (cases ls) (simp_all split: list.splits)
qed simp

text \<open>A line ends requests, and touches neither the map of the connections nor the buffers.\<close>

lemma handleLine_keeps [simp]: "links (handleLine parse name l s) = links s"
  "co_buffer (conns (handleLine parse name l s) c) = co_buffer (conns s c)"
  "co_state (conns (handleLine parse name l s) c) = co_state (conns s c)"
  "nextConn (handleLine parse name l s) = nextConn s" "tasks (handleLine parse name l s) = tasks s"
  by (simp_all add: handleLine_def handleResponse_def split: option.splits json_id.splits)

lemma handleLines_keep [simp]: "links (fold (handleLine parse name) ls s) = links s"
  "co_buffer (conns (fold (handleLine parse name) ls s) c) = co_buffer (conns s c)"
  "co_state (conns (fold (handleLine parse name) ls s) c) = co_state (conns s c)"
  "nextConn (fold (handleLine parse name) ls s) = nextConn s" "tasks (fold (handleLine parse name) ls s) = tasks s"
  by (induction ls arbitrary: s) simp_all

lemma endRequest_setBuffer: "onConn c (setBuffer t) (endRequest d i p v s) = endRequest d i p v (onConn c (setBuffer t) s)"
  by (cases s) (auto simp: endRequest_def settleM_def onConn_def setBuffer_def dropEntry_def fun_eq_iff)

lemma handleLine_setBuffer:
  "onConn c (setBuffer t) (handleLine parse name l s) = handleLine parse name l (onConn c (setBuffer t) s)"
proof -
  have "pendingRequests (setBuffer t k) = pendingRequests k" for k by (simp add: setBuffer_def)
  then show ?thesis
    by (auto simp: handleLine_def handleResponse_def endRequest_setBuffer split: option.splits json_id.splits)
qed

lemma handleLines_setBuffer:
  "onConn c (setBuffer t) (fold (handleLine parse name) ls s) = fold (handleLine parse name) ls (onConn c (setBuffer t) s)"
  by (induction ls arbitrary: s) (simp_all add: handleLine_setBuffer)

lemma setBuffer_twice: "onConn c (setBuffer t) (onConn c (setBuffer u) s) = onConn c (setBuffer t) s"
  by (simp add: onConn_def setBuffer_def)

lemma handleText_append: "handleText parse name b (handleText parse name a s) = handleText parse name (a @ b) s"
proof (cases "jget (links s) name")
  case (Some c)
  obtain ls r where a: "lines_of (co_buffer (conns s c) @ a) = (ls, r)" by fastforce
  obtain ks q where b: "lines_of (r @ b) = (ks, q)" by fastforce
  have ab: "lines_of (co_buffer (conns s c) @ a @ b) = (ls @ ks, q)"
    using lines_of_append [of "co_buffer (conns s c) @ a" b] a b by simp
  let ?s = "fold (handleLine parse name) ls (onConn c (setBuffer r) s)"
  have "co_buffer (conns ?s c) = r" by (simp add: setBuffer_def)
  then have "handleText parse name b ?s = fold (handleLine parse name) ks (onConn c (setBuffer q) ?s)"
    using Some b by (simp add: handleText_def)
  also have "\<dots> = fold (handleLine parse name) (ls @ ks) (onConn c (setBuffer q) s)"
    by (simp add: handleLines_setBuffer setBuffer_twice)
  finally show ?thesis using Some a ab by (simp add: handleText_def)
qed (simp add: handleText_def)

text \<open>
  C11. How the output of a server is cut into chunks does not matter as long as no chunk ends inside a character: chunk after
  chunk has the effect of the whole at once, on requests, promises and buffer, also when a chunk holds half a line or many.
\<close>

theorem chunks_do_not_matter:
  assumes "list_all (list_all scalar) (t # ts)"
  shows "fold (handleStdout parse name) (map utf8_enc (t # ts)) s = handleStdout parse name (utf8_enc (concat (t # ts))) s"
  using assms
proof (induction ts arbitrary: t)
  case (Cons u ts)
  have e: "utf8 (utf8_enc x) = utf16 x" if "list_all scalar x" for x using utf8_roundtrip that by blast
  have tu: "handleStdout parse name (utf8_enc u) (handleStdout parse name (utf8_enc t) s) = handleStdout parse name (utf8_enc (t @ u)) s"
    using Cons.prems e [of t] e [of u] e [of "t @ u"] by (simp add: handleStdout_def handleText_append utf16_def)
  show ?case using Cons.IH [of "t @ u"] Cons.prems tu by simp
qed simp

text \<open>A response in two chunks, cut in the middle of the line.\<close>

definition demo_parse :: "jstr \<Rightarrow> JsonRpcResponse option" where
  "demo_parse l = (if l = [123, 34, 105, 100, 34, 58, 49, 125] then Some \<lparr>rs_id = NumId 1,
    rs_result = None, rs_error = None\<rparr> else None)"

definition demo_server :: McpServerConfig where
  "demo_server = \<lparr>sv_name = [102, 115], sv_command = [110, 112, 120], sv_args = None,
    sv_env = None, sv_description = None\<rparr>"

definition demo_mcp :: mcp_st where
  "demo_mcp = fold (mcp_step demo_parse) [McConnect 0 demo_server] init_mcp"

theorem chunks_do_not_matter_witness:
  "mproms (fold (handleStdout demo_parse [102, 115]) (map utf8_enc [[123, 34, 105], [100, 34, 58, 49,
    125, 10]]) demo_mcp) 0 = MResolved None"
proof -
  have "list_all (list_all scalar) [[123, 34, 105], [100, 34, 58, 49, 125, 10]]" by code_simp
  from chunks_do_not_matter [OF this, of demo_parse "[102, 115]" demo_mcp]
  have "fold (handleStdout demo_parse [102, 115]) (map utf8_enc [[123, 34, 105], [100, 34, 58, 49, 125,
    10]]) demo_mcp =
    handleStdout demo_parse [102, 115] (utf8_enc [123, 34, 105, 100, 34, 58, 49, 125, 10]) demo_mcp" by simp
  moreover have "mproms (handleStdout demo_parse [102, 115] (utf8_enc [123, 34, 105, 100, 34, 58, 49,
    125, 10]) demo_mcp) 0 = MResolved None" by code_simp
  ultimately show ?thesis by (simp only:)
qed

theorem every_request_settles_witness:
  "\<exists>i < length (reqTimers demo_mcp). rt_promise (reqTimers demo_mcp ! i) = 0 \<and>
     mproms (mcp_step demo_parse (McTimer i) demo_mcp) 0 \<noteq> MPending"
proof -
  have "0 < nextProm demo_mcp" "mproms demo_mcp 0 = MPending" by code_simp+
  from every_request_settles [OF demo_mcp_def this] show ?thesis .
qed

text \<open>A character cut by the end of a chunk is lost, since every chunk is decoded on its own.\<close>

lemma cut_character_is_lost: "utf8 [236] @ utf8 [149, 132] = [65533, 65533, 65533] \<and> utf8 [236,
  149, 132] = [50500]"
  by code_simp

section \<open>Servers that failed\<close>

text \<open>The connection of a name, not connected, and no call of \<open>connect\<close> for it under way.\<close>

definition dead :: "jstr \<Rightarrow> nat \<Rightarrow> mcp_st \<Rightarrow> bool" where
  "dead name c s \<longleftrightarrow> jget (links s) name = Some c \<and> co_state (conns s c) \<in> {McpError, McpDisconnected} \<and>
     (\<forall>k \<in> set (tasks s). ct_conn k = c \<longrightarrow> finished (ct_phase k))"

lemma sendRequest_keeps:
  assumes "sendRequest now name meth params s = (p, s')"
  shows "links s' = links s" "nextConn s' = nextConn s" "tasks s' = tasks s" "co_state (conns s' c) = co_state (conns s c)"
  using assms by (auto simp: sendRequest_def newProm_def Let_def addRequest_def split: option.splits)

lemma requestTimeout_keeps: "links (requestTimeout t s) = links s" "tasks (requestTimeout t s) = tasks s"
  "co_state (conns (requestTimeout t s) c) = co_state (conns s c)"
  by (simp_all add: requestTimeout_def Let_def)

lemma dead_cong:
  "dead name c s \<Longrightarrow> links s' = links s \<Longrightarrow> co_state (conns s' c) = co_state (conns s c) \<Longrightarrow> tasks s' = tasks s \<Longrightarrow> dead name c s'"
  by (simp add: dead_def)

lemma dead_setConnState: "dead name c s \<Longrightarrow> st \<in> {McpError, McpDisconnected} \<or> d \<noteq> c \<Longrightarrow> dead name c (setConnState d st s)"
  by (auto simp: dead_def setConnState_def)

lemma dead_connect:
  assumes "dead name c s" and "mcp_inv s"
  shows "dead name c (connectMcp now cfg s)"
proof (cases "jhas (links s) (sv_name cfg)")
  case False
  obtain p s1 where x: "sendRequest now (sv_name cfg) [105, 110, 105, 116, 105, 97, 108, 105, 122,
    101] InitializeParams (spawnMcp cfg s) = (p, s1)" by fastforce
  have c: "c < nextConn s" using assms mcp_invD(8) by (auto simp: dead_def)
  have n: "name \<noteq> sv_name cfg" using assms(1) False by (auto simp: dead_def jhas_def)
  from sendRequest_keeps(1-3) [OF x] sendRequest_keeps(4) [OF x, of c] have "links s1 = jset (sv_name cfg) (nextConn s) (links s)" "tasks s1 = tasks s"
      "co_state (conns s1 c) = co_state (conns s c)"
    using c by (simp_all add: spawnMcp_def)
  then show ?thesis
    using assms(1) c n False x by (auto simp: connectMcp_def addTask_def dead_def map_of_jset)
qed (use assms in \<open>simp add: connectMcp_def\<close>)

lemma dead_resume:
  assumes "dead name c s" and "i < length (tasks s)" and "connectResume now err (tasks s ! i) s = (ph, s1)"
  shows "dead name c (setPhase i ph s1)"
proof -
  let ?k = "tasks s ! i"
  have k: "?k \<in> set (tasks s)" using assms(2) by simp
  show ?thesis
  proof (cases "finished (ct_phase ?k)")
    case True
    then have "ph = ct_phase ?k" "s1 = s"
      using assms(3) by (auto simp: connectResume_def elim: finished.elims)
    then have "setPhase i ph s1 = s" by (simp add: setPhase_def list_update_id)
    then show ?thesis using assms(1) by simp
  next
    case False
    then have c: "ct_conn ?k \<noteq> c" using assms(1) k by (auto simp: dead_def)
    have "links s1 = links s \<and> tasks s1 = tasks s \<and> co_state (conns s1 c) = co_state (conns s c)"
      using assms(3) c sendRequest_keeps
      by (auto simp: connectResume_def sendInitialized_def gotTools_def requestTools_def failConnect_def setConnState_def Let_def
          split: connect_phase.splits option.splits mcp_promise.splits prod.splits if_splits)
    then have d: "links s1 = links s" "tasks s1 = tasks s" "co_state (conns s1 c) = co_state (conns s c)" by simp_all
    have "ct_conn k = c \<longrightarrow> finished (ct_phase k)" if "k \<in> set ((tasks s)[i := ?k\<lparr>ct_phase := ph\<rparr>])" for k
      using set_update_subset_insert [of "tasks s" i "?k\<lparr>ct_phase := ph\<rparr>"] that c assms(1) by (auto simp: dead_def)
    then show ?thesis using assms(1) d by (auto simp: dead_def setPhase_def)
  qed
qed

lemma dead_step:
  assumes "mcp_inv s" and "dead name c s" and "ev \<noteq> McDestroy" and "ev \<noteq> McDisconnect name"
  shows "dead name c (mcp_step parse ev s)"
proof (cases ev)
  case (McCall now server tool args)
  obtain p s' where x: "callTool now server tool args s = (p, s')" by fastforce
  from sendRequest_keeps [OF this [unfolded callTool_def]] show ?thesis
    using assms(2) by (simp add: McCall x dead_def)
next
  case (McDisconnect n)
  then show ?thesis using assms by (auto simp: disconnectMcp_def dead_def map_of_jdel killed_def split: option.splits)
next
  case (McResume i now err)
  show ?thesis
    using assms(2) dead_resume [OF assms(2), of i now err] by (auto simp: McResume split: prod.splits)
next
  case (McStdout d data)
  show ?thesis
    using assms(2) by (auto simp: McStdout handleStdout_def handleText_def dead_def setBuffer_def Let_def split: option.splits prod.splits)
next
  case (McTimer i)
  then show ?thesis using assms(2) by (auto intro: dead_cong simp: requestTimeout_keeps)
next
  case (McWriteFailed i e)
  then show ?thesis using assms(2) by (auto intro: dead_cong simp: writeFailed_def)
qed (use assms in \<open>simp_all add: dead_connect dead_setConnState\<close>)

lemma dead_run:
  assumes "mcp_inv s" and "dead name c s" and "list_all (\<lambda>ev. ev \<noteq> McDestroy \<and> ev \<noteq> McDisconnect name) evs"
  shows "dead name c (fold (mcp_step parse) evs s)"
  using assms by (induction evs arbitrary: s) (auto simp: dead_step mcp.inv_step)

text \<open>
  A server that could not be connected, or whose process ended, stays out of reach: while no call of \<open>connect\<close> is under way
  and nobody disconnects it, no later call, \<open>connect\<close> included, makes it connected again or offers its tools.
\<close>

theorem failed_server_stays_failed:
  assumes "s = fold (mcp_step parse) past init_mcp" and "jhas (links s) name"
    and "getConnectionState name s \<in> {McpError, McpDisconnected}" and "list_all (\<lambda>k. finished (ct_phase k)) (tasks s)"
    and "list_all (\<lambda>ev. ev \<noteq> McDestroy \<and> ev \<noteq> McDisconnect name) evs"
  shows "getConnectionState name (fold (mcp_step parse) evs s) \<in> {McpError, McpDisconnected}"
proof -
  obtain c where c: "jget (links s) name = Some c" using assms(2) by (auto simp: jhas_def)
  have "dead name c s" using assms(3,4) c by (auto simp: dead_def getConnectionState_def list_all_iff)
  then have "dead name c (fold (mcp_step parse) evs s)"
    by (rule dead_run [rotated]) (use assms(1,5) in \<open>simp_all add: mcp.inv_run [OF inv_init_mcp]\<close>)
  then show ?thesis by (auto simp: dead_def getConnectionState_def)
qed

text \<open>The request \<open>initialize\<close> times out; connecting again does nothing.\<close>

theorem failed_server_stays_failed_witness:
  "getConnectionState [102, 115] (fold (mcp_step demo_parse) [McConnect 60000 demo_server]
     (fold (mcp_step demo_parse) [McConnect 0 demo_server, McTimer 0, McResume 0 30000 None] init_mcp)) \<in> {McpError, McpDisconnected}"
proof -
  let ?s = "fold (mcp_step demo_parse) [McConnect 0 demo_server, McTimer 0, McResume 0 30000 None] init_mcp"
  have "jhas (links ?s) [102, 115]" "getConnectionState [102, 115] ?s \<in> {McpError, McpDisconnected}"
    "list_all (\<lambda>k. finished (ct_phase k)) (tasks ?s)" by code_simp+
  moreover have "list_all (\<lambda>ev. ev \<noteq> McDestroy \<and> ev \<noteq> McDisconnect [102, 115]) [McConnect 60000 demo_server]" by simp
  ultimately show ?thesis by (rule failed_server_stays_failed [OF refl])
qed

end
