(* ===== verification/Diagrams.thy ===== *)
theory Diagrams
  imports Regex MeetingTimer "HOL-Library.Multiset"
begin

text \<open>
  The tools that draw diagrams, \<open>src/mcp/tools\<close> with the types of \<open>src/mcp/types/tool.types.ts\<close>: prompt, call of the model,
  extraction and check of the JSON data, and Mermaid or Markdown text; with them the registry of the tools, the timer
  included. The model and \<open>JSON.parse\<close> are fields of \<open>tool_env\<close>; an error is its message. An array of the data may be
  missing, its elements have the fields of their interfaces. The time of generation is left out of the output.
\<close>

section \<open>Types\<close>

record FlowchartNode =
  fno_id :: jstr
  fno_type :: jstr
  fno_label :: jstr

record FlowchartEdge =
  fed_id :: jstr
  fed_source :: jstr
  fed_target :: jstr
  fed_label :: "jstr option"

record FlowchartData =
  fl_nodes :: "FlowchartNode list option"
  fl_edges :: "FlowchartEdge list option"

record SequenceActor =
  sa_id :: jstr
  sa_name :: jstr
  sa_type :: jstr

record SequenceMessage =
  sg_id :: jstr
  sg_from :: jstr
  sg_to :: jstr
  sg_label :: jstr
  sg_type :: jstr

record SequenceData =
  sq_actors :: "SequenceActor list option"
  sq_messages :: "SequenceMessage list option"

record ERDColumn =
  ec_name :: jstr
  ec_type :: jstr
  ec_pk :: "bool option"
  ec_fk :: "jstr option"
  ec_nullable :: "bool option"

record ERDTable =
  et_name :: jstr
  et_columns :: "ERDColumn list"

record ERDRelation =
  er_from :: jstr
  er_to :: jstr
  er_type :: jstr
  er_label :: "jstr option"

record ERDData =
  ed_tables :: "ERDTable list option"
  ed_relations :: "ERDRelation list option"

record ArchNode =
  an_id :: jstr
  an_name :: jstr
  an_type :: jstr
  an_group :: "jstr option"

record ArchConnection =
  ac_from :: jstr
  ac_to :: jstr
  ac_label :: "jstr option"
  ac_protocol :: "jstr option"

record ArchitectureData =
  ad_nodes :: "ArchNode list option"
  ad_connections :: "ArchConnection list option"

record KanbanTask =
  kt_id :: jstr
  kt_title :: jstr
  kt_assignee :: "jstr option"
  kt_dueDate :: "jstr option"
  kt_status :: jstr
  kt_tags :: "jstr list option"

record KanbanData =
  kd_title :: jstr
  kd_tasks :: "KanbanTask list option"

datatype tool_data =
    Flowchart FlowchartData
  | Sequence SequenceData
  | Erd ERDData
  | Architecture ArchitectureData
  | Kanban KanbanData
  | TimerResult "TimerData option"

record ToolOutput =
  to_type :: jstr
  to_data :: tool_data
  to_markdown :: jstr

record ToolInput =
  ti_transcript :: jstr
  ti_roomId :: "jstr option"
  ti_keywords :: "jstr list option"
  ti_useFocused :: "bool option"
  ti_options :: timer_options

record tool_env =
  llmCall :: "jstr \<Rightarrow> int \<Rightarrow> jstr + jstr"
  parseFlowchart :: "jstr \<Rightarrow> jstr + FlowchartData"
  parseSequence :: "jstr \<Rightarrow> jstr + SequenceData"
  parseErd :: "jstr \<Rightarrow> jstr + ERDData"
  parseArchitecture :: "jstr \<Rightarrow> jstr + ArchitectureData"
  parseKanban :: "jstr \<Rightarrow> jstr + KanbanData"

section \<open>Prompts\<close>

definition FLOWCHART_PROMPT :: jstr where
  "FLOWCHART_PROMPT = [45817, 49888, 51008, 32, 54924, 51032, 32, 45236, 50857, 51012, 32, 48516,
    49437, 54616, 50668, 32, 54540, 47196, 50864, 52264, 53944, 32, 45936, 51060, 53552, 47484, 32,
    49373, 49457, 54616, 45716, 32, 51204, 47928, 44032, 51077, 45768, 45796, 46, 10, 10, 51452, 50612,
    51652, 32, 54924, 51032, 32, 45236, 50857, 50640, 49436, 32, 54532, 47196, 49464, 49828, 44, 32,
    50892, 53356, 54540, 47196, 50864, 44, 32, 46608, 45716, 32, 51032, 49324, 44208, 51221, 32, 55120,
    47492, 51012, 32, 52628, 52636, 54616, 50668, 32, 74, 83, 79, 78, 32, 54805, 49885, 51032, 32,
    54540, 47196, 50864, 52264, 53944, 32, 45936, 51060, 53552, 47196, 32, 48320, 54872, 54616, 49464,
    50836, 46, 10, 10, 35, 35, 32, 44508, 52825, 10, 49, 46, 32, 45432, 46300, 32, 53440, 51077, 58,
    10, 32, 32, 32, 45, 32, 115, 116, 97, 114, 116, 58, 32, 49884, 51089, 51216, 32, 40, 54616, 45208,
    47564, 41, 10, 32, 32, 32, 45, 32, 101, 110, 100, 58, 32, 51333, 47308, 51216, 32, 40, 54616,
    45208, 32, 51060, 49345, 41, 10, 32, 32, 32, 45, 32, 112, 114, 111, 99, 101, 115, 115, 58, 32,
    51068, 48152, 32, 52376, 47532, 32, 45800, 44228, 10, 32, 32, 32, 45, 32, 100, 101, 99, 105, 115,
    105, 111, 110, 58, 32, 51312, 44148, 32, 48516, 44592, 32, 40, 50696, 47, 50500, 45768, 50724, 41,
    10, 32, 32, 32, 45, 32, 105, 111, 58, 32, 51077, 52636, 47141, 32, 40, 49324, 50857, 51088, 32,
    51077, 47141, 44, 32, 65, 80, 73, 32, 54840, 52636, 32, 46321, 41, 10, 10, 50, 46, 32, 50672,
    44208, 40, 69, 100, 103, 101, 41, 32, 44508, 52825, 58, 10, 32, 32, 32, 45, 32, 100, 101, 99, 105,
    115, 105, 111, 110, 32, 45432, 46300, 50640, 49436, 32, 45208, 44032, 45716, 32, 101, 100, 103,
    101, 45716, 32, 108, 97, 98, 101, 108, 32, 54596, 49688, 32, 40, 50696, 58, 32, 34, 89, 101, 115,
    34, 44, 32, 34, 78, 111, 34, 44, 32, 34, 49457, 44277, 34, 44, 32, 34, 49892, 54056, 34, 41, 10,
    32, 32, 32, 45, 32, 47784, 46304, 32, 45432, 46300, 45716, 32, 50672, 44208, 46104, 50612, 50556,
    32, 54632, 10, 32, 32, 32, 45, 32, 49692, 54872, 40, 99, 121, 99, 108, 101, 41, 51008, 32, 54728,
    50857, 46104, 51648, 47564, 32, 47924, 54620, 47336, 54532, 45716, 32, 54588, 54624, 32, 44163, 10,
    10, 51, 46, 32, 52636, 47141, 32, 54805, 49885, 32, 40, 48152, 46300, 49884, 32, 74, 83, 79, 78,
    47564, 32, 52636, 47141, 41, 58, 10, 123, 10, 32, 32, 34, 110, 111, 100, 101, 115, 34, 58, 32, 91,
    10, 32, 32, 32, 32, 123, 32, 34, 105, 100, 34, 58, 32, 34, 110, 111, 100, 101, 49, 34, 44, 32, 34,
    116, 121, 112, 101, 34, 58, 32, 34, 115, 116, 97, 114, 116, 34, 44, 32, 34, 108, 97, 98, 101, 108,
    34, 58, 32, 34, 49884, 51089, 34, 32, 125, 44, 10, 32, 32, 32, 32, 123, 32, 34, 105, 100, 34, 58,
    32, 34, 110, 111, 100, 101, 50, 34, 44, 32, 34, 116, 121, 112, 101, 34, 58, 32, 34, 112, 114, 111,
    99, 101, 115, 115, 34, 44, 32, 34, 108, 97, 98, 101, 108, 34, 58, 32, 34, 52376, 47532, 32, 45800,
    44228, 34, 32, 125, 44, 10, 32, 32, 32, 32, 123, 32, 34, 105, 100, 34, 58, 32, 34, 110, 111, 100,
    101, 51, 34, 44, 32, 34, 116, 121, 112, 101, 34, 58, 32, 34, 100, 101, 99, 105, 115, 105, 111, 110,
    34, 44, 32, 34, 108, 97, 98, 101, 108, 34, 58, 32, 34, 51312, 44148, 32, 54869, 51064, 63, 34, 32,
    125, 44, 10, 32, 32, 32, 32, 123, 32, 34, 105, 100, 34, 58, 32, 34, 110, 111, 100, 101, 52, 34, 44,
    32, 34, 116, 121, 112, 101, 34, 58, 32, 34, 101, 110, 100, 34, 44, 32, 34, 108, 97, 98, 101, 108,
    34, 58, 32, 34, 51333, 47308, 34, 32, 125, 10, 32, 32, 93, 44, 10, 32, 32, 34, 101, 100, 103, 101,
    115, 34, 58, 32, 91, 10, 32, 32, 32, 32, 123, 32, 34, 105, 100, 34, 58, 32, 34, 101, 49, 34, 44,
    32, 34, 115, 111, 117, 114, 99, 101, 34, 58, 32, 34, 110, 111, 100, 101, 49, 34, 44, 32, 34, 116,
    97, 114, 103, 101, 116, 34, 58, 32, 34, 110, 111, 100, 101, 50, 34, 32, 125, 44, 10, 32, 32, 32,
    32, 123, 32, 34, 105, 100, 34, 58, 32, 34, 101, 50, 34, 44, 32, 34, 115, 111, 117, 114, 99, 101,
    34, 58, 32, 34, 110, 111, 100, 101, 50, 34, 44, 32, 34, 116, 97, 114, 103, 101, 116, 34, 58, 32,
    34, 110, 111, 100, 101, 51, 34, 32, 125, 44, 10, 32, 32, 32, 32, 123, 32, 34, 105, 100, 34, 58, 32,
    34, 101, 51, 34, 44, 32, 34, 115, 111, 117, 114, 99, 101, 34, 58, 32, 34, 110, 111, 100, 101, 51,
    34, 44, 32, 34, 116, 97, 114, 103, 101, 116, 34, 58, 32, 34, 110, 111, 100, 101, 52, 34, 44, 32,
    34, 108, 97, 98, 101, 108, 34, 58, 32, 34, 89, 101, 115, 34, 32, 125, 10, 32, 32, 93, 10, 125, 10,
    10, 54924, 51032, 32, 45236, 50857, 58, 10]"

definition flowchartFocused :: "jstr list \<Rightarrow> jstr" where
  "flowchartFocused keywords = [45817, 49888, 51008, 32, 54924, 51032, 32, 45236, 50857, 51012, 32,
    48516, 49437, 54616, 50668, 32, 54540, 47196, 50864, 52264, 53944, 32, 45936, 51060, 53552, 47484,
    32, 49373, 49457, 54616, 45716, 32, 51204, 47928, 44032, 51077, 45768, 45796, 46, 10, 10, 45796,
    51020, 51008, 32, 54924, 51032, 50640, 49436, 32, 54532, 47196, 49464, 49828, 47, 50892, 53356,
    54540, 47196, 50864, 50752, 32, 44288, 47144, 46108, 32, 48156, 54868, 46308, 51077, 45768, 45796,
    46, 10, 44048, 51648, 46108, 32, 53412, 50892, 46300, 47484, 32, 51473, 49900, 51004, 47196, 32,
    54540, 47196, 50864, 52264, 53944, 47484, 32, 49373, 49457, 54644, 51452, 49464, 50836, 46, 10, 10,
    35, 35, 32, 44048, 51648, 46108, 32, 53412, 50892, 46300, 10] @ join [44, 32] keywords @ [10, 10,
    35, 35, 32, 50836, 44396, 49324, 54637, 10, 49, 46, 32, 53412, 50892, 46300, 47484, 32, 51473,
    49900, 51004, 47196, 32, 45432, 46300, 32, 49373, 49457, 10, 50, 46, 32, 48156, 54868, 32, 49692,
    49436, 47484, 32, 44256, 47140, 54616, 50668, 32, 55120, 47492, 32, 50672, 44208, 10, 51, 46, 32,
    51312, 44148, 47928, 40, 34, 47564, 50557, 34, 44, 32, 34, 126, 54616, 47732, 34, 41, 51008, 32,
    100, 101, 99, 105, 115, 105, 111, 110, 32, 45432, 46300, 47196, 32, 52376, 47532, 10, 52, 46, 32,
    48152, 48373, 40, 34, 48152, 48373, 34, 44, 32, 34, 126, 54624, 32, 46412, 44620, 51648, 34, 41,
    51008, 32, 47336, 54532, 47196, 32, 54364, 54788, 10, 10, 35, 35, 32, 44508, 52825, 10, 49, 46, 32,
    45432, 46300, 32, 53440, 51077, 58, 10, 32, 32, 32, 45, 32, 115, 116, 97, 114, 116, 58, 32, 49884,
    51089, 51216, 32, 40, 54616, 45208, 47564, 41, 10, 32, 32, 32, 45, 32, 101, 110, 100, 58, 32,
    51333, 47308, 51216, 32, 40, 54616, 45208, 32, 51060, 49345, 41, 10, 32, 32, 32, 45, 32, 112, 114,
    111, 99, 101, 115, 115, 58, 32, 51068, 48152, 32, 52376, 47532, 32, 45800, 44228, 10, 32, 32, 32,
    45, 32, 100, 101, 99, 105, 115, 105, 111, 110, 58, 32, 51312, 44148, 32, 48516, 44592, 32, 40,
    50696, 47, 50500, 45768, 50724, 41, 10, 32, 32, 32, 45, 32, 105, 111, 58, 32, 51077, 52636, 47141,
    32, 40, 49324, 50857, 51088, 32, 51077, 47141, 44, 32, 65, 80, 73, 32, 54840, 52636, 32, 46321, 41,
    10, 10, 50, 46, 32, 50672, 44208, 40, 69, 100, 103, 101, 41, 32, 44508, 52825, 58, 10, 32, 32, 32,
    45, 32, 100, 101, 99, 105, 115, 105, 111, 110, 32, 45432, 46300, 50640, 49436, 32, 45208, 44032,
    45716, 32, 101, 100, 103, 101, 45716, 32, 108, 97, 98, 101, 108, 32, 54596, 49688, 32, 40, 50696,
    58, 32, 34, 89, 101, 115, 34, 44, 32, 34, 78, 111, 34, 44, 32, 34, 49457, 44277, 34, 44, 32, 34,
    49892, 54056, 34, 41, 10, 32, 32, 32, 45, 32, 47784, 46304, 32, 45432, 46300, 45716, 32, 50672,
    44208, 46104, 50612, 50556, 32, 54632, 10, 32, 32, 32, 45, 32, 49692, 54872, 40, 99, 121, 99, 108,
    101, 41, 51008, 32, 54728, 50857, 46104, 51648, 47564, 32, 47924, 54620, 47336, 54532, 45716, 32,
    54588, 54624, 32, 44163, 10, 10, 51, 46, 32, 52636, 47141, 32, 54805, 49885, 32, 40, 48152, 46300,
    49884, 32, 74, 83, 79, 78, 47564, 32, 52636, 47141, 41, 58, 10, 123, 10, 32, 32, 34, 110, 111, 100,
    101, 115, 34, 58, 32, 91, 10, 32, 32, 32, 32, 123, 32, 34, 105, 100, 34, 58, 32, 34, 110, 111, 100,
    101, 49, 34, 44, 32, 34, 116, 121, 112, 101, 34, 58, 32, 34, 115, 116, 97, 114, 116, 34, 44, 32,
    34, 108, 97, 98, 101, 108, 34, 58, 32, 34, 49884, 51089, 34, 32, 125, 44, 10, 32, 32, 32, 32, 123,
    32, 34, 105, 100, 34, 58, 32, 34, 110, 111, 100, 101, 50, 34, 44, 32, 34, 116, 121, 112, 101, 34,
    58, 32, 34, 112, 114, 111, 99, 101, 115, 115, 34, 44, 32, 34, 108, 97, 98, 101, 108, 34, 58, 32,
    34, 52376, 47532, 32, 45800, 44228, 34, 32, 125, 44, 10, 32, 32, 32, 32, 123, 32, 34, 105, 100, 34,
    58, 32, 34, 110, 111, 100, 101, 51, 34, 44, 32, 34, 116, 121, 112, 101, 34, 58, 32, 34, 100, 101,
    99, 105, 115, 105, 111, 110, 34, 44, 32, 34, 108, 97, 98, 101, 108, 34, 58, 32, 34, 51312, 44148,
    32, 54869, 51064, 63, 34, 32, 125, 44, 10, 32, 32, 32, 32, 123, 32, 34, 105, 100, 34, 58, 32, 34,
    110, 111, 100, 101, 52, 34, 44, 32, 34, 116, 121, 112, 101, 34, 58, 32, 34, 101, 110, 100, 34, 44,
    32, 34, 108, 97, 98, 101, 108, 34, 58, 32, 34, 51333, 47308, 34, 32, 125, 10, 32, 32, 93, 44, 10,
    32, 32, 34, 101, 100, 103, 101, 115, 34, 58, 32, 91, 10, 32, 32, 32, 32, 123, 32, 34, 105, 100, 34,
    58, 32, 34, 101, 49, 34, 44, 32, 34, 115, 111, 117, 114, 99, 101, 34, 58, 32, 34, 110, 111, 100,
    101, 49, 34, 44, 32, 34, 116, 97, 114, 103, 101, 116, 34, 58, 32, 34, 110, 111, 100, 101, 50, 34,
    32, 125, 44, 10, 32, 32, 32, 32, 123, 32, 34, 105, 100, 34, 58, 32, 34, 101, 50, 34, 44, 32, 34,
    115, 111, 117, 114, 99, 101, 34, 58, 32, 34, 110, 111, 100, 101, 50, 34, 44, 32, 34, 116, 97, 114,
    103, 101, 116, 34, 58, 32, 34, 110, 111, 100, 101, 51, 34, 32, 125, 44, 10, 32, 32, 32, 32, 123,
    32, 34, 105, 100, 34, 58, 32, 34, 101, 51, 34, 44, 32, 34, 115, 111, 117, 114, 99, 101, 34, 58, 32,
    34, 110, 111, 100, 101, 51, 34, 44, 32, 34, 116, 97, 114, 103, 101, 116, 34, 58, 32, 34, 110, 111,
    100, 101, 52, 34, 44, 32, 34, 108, 97, 98, 101, 108, 34, 58, 32, 34, 89, 101, 115, 34, 32, 125, 10,
    32, 32, 93, 10, 125, 10, 10, 44288, 47144, 32, 48156, 54868, 58, 10]"

definition SEQUENCE_PROMPT :: jstr where
  "SEQUENCE_PROMPT = [45817, 49888, 51008, 32, 54924, 51032, 32, 45236, 50857, 51012, 32, 48516, 49437,
    54616, 50668, 32, 49884, 53248, 49828, 32, 45796, 51060, 50612, 44536, 47016, 32, 45936, 51060,
    53552, 47484, 32, 49373, 49457, 54616, 45716, 32, 51204, 47928, 44032, 51077, 45768, 45796, 46, 10,
    10, 51452, 50612, 51652, 32, 54924, 51032, 32, 45236, 50857, 50640, 49436, 32, 49884, 49828, 53596,
    47, 52980, 54252, 45324, 53944, 32, 44036, 51032, 32, 49345, 54840, 51089, 50857, 51012, 32, 52628,
    52636, 54616, 50668, 32, 74, 83, 79, 78, 32, 54805, 49885, 51032, 32, 49884, 53248, 49828, 32,
    45796, 51060, 50612, 44536, 47016, 32, 45936, 51060, 53552, 47196, 32, 48320, 54872, 54616, 49464,
    50836, 46, 10, 10, 35, 35, 32, 44508, 52825, 10, 49, 46, 32, 65, 99, 116, 111, 114, 32, 53440,
    51077, 58, 10, 32, 32, 32, 45, 32, 117, 115, 101, 114, 58, 32, 49324, 50857, 51088, 47, 53364,
    46972, 51060, 50616, 53944, 10, 32, 32, 32, 45, 32, 102, 114, 111, 110, 116, 101, 110, 100, 58, 32,
    54532, 47200, 53944, 50644, 46300, 32, 40, 50937, 44, 32, 50545, 41, 10, 32, 32, 32, 45, 32, 98,
    97, 99, 107, 101, 110, 100, 58, 32, 48177, 50644, 46300, 32, 49436, 48260, 47, 65, 80, 73, 10, 32,
    32, 32, 45, 32, 100, 97, 116, 97, 98, 97, 115, 101, 58, 32, 45936, 51060, 53552, 48288, 51060,
    49828, 10, 32, 32, 32, 45, 32, 101, 120, 116, 101, 114, 110, 97, 108, 58, 32, 50808, 48512, 32,
    49436, 48708, 49828, 32, 40, 44208, 51228, 44, 32, 50508, 47548, 32, 46321, 41, 10, 10, 50, 46, 32,
    77, 101, 115, 115, 97, 103, 101, 32, 53440, 51077, 58, 10, 32, 32, 32, 45, 32, 115, 121, 110, 99,
    58, 32, 46041, 44592, 32, 54840, 52636, 32, 40, 49892, 49440, 32, 54868, 49332, 54364, 32, 8594,
    41, 10, 32, 32, 32, 45, 32, 97, 115, 121, 110, 99, 58, 32, 48708, 46041, 44592, 32, 54840, 52636,
    32, 40, 51216, 49440, 32, 54868, 49332, 54364, 32, 45, 8594, 41, 10, 32, 32, 32, 45, 32, 114, 101,
    115, 112, 111, 110, 115, 101, 58, 32, 51025, 45813, 32, 40, 51216, 49440, 32, 54868, 49332, 54364,
    32, 8592, 45, 45, 41, 10, 10, 51, 46, 32, 47700, 49884, 51648, 32, 49692, 49436, 58, 10, 32, 32,
    32, 45, 32, 49884, 44036, 49692, 51004, 47196, 32, 48176, 50676, 10, 32, 32, 32, 45, 32, 50836,
    52397, 45, 51025, 45813, 32, 49933, 51012, 32, 47749, 54869, 55176, 10, 10, 52, 46, 32, 52636,
    47141, 32, 54805, 49885, 32, 40, 48152, 46300, 49884, 32, 74, 83, 79, 78, 47564, 32, 52636, 47141,
    41, 58, 10, 123, 10, 32, 32, 34, 97, 99, 116, 111, 114, 115, 34, 58, 32, 91, 10, 32, 32, 32, 32,
    123, 32, 34, 105, 100, 34, 58, 32, 34, 117, 115, 101, 114, 34, 44, 32, 34, 110, 97, 109, 101, 34,
    58, 32, 34, 49324, 50857, 51088, 34, 44, 32, 34, 116, 121, 112, 101, 34, 58, 32, 34, 117, 115, 101,
    114, 34, 32, 125, 44, 10, 32, 32, 32, 32, 123, 32, 34, 105, 100, 34, 58, 32, 34, 102, 101, 34, 44,
    32, 34, 110, 97, 109, 101, 34, 58, 32, 34, 70, 114, 111, 110, 116, 101, 110, 100, 34, 44, 32, 34,
    116, 121, 112, 101, 34, 58, 32, 34, 102, 114, 111, 110, 116, 101, 110, 100, 34, 32, 125, 44, 10,
    32, 32, 32, 32, 123, 32, 34, 105, 100, 34, 58, 32, 34, 97, 112, 105, 34, 44, 32, 34, 110, 97, 109,
    101, 34, 58, 32, 34, 65, 80, 73, 32, 83, 101, 114, 118, 101, 114, 34, 44, 32, 34, 116, 121, 112,
    101, 34, 58, 32, 34, 98, 97, 99, 107, 101, 110, 100, 34, 32, 125, 44, 10, 32, 32, 32, 32, 123, 32,
    34, 105, 100, 34, 58, 32, 34, 100, 98, 34, 44, 32, 34, 110, 97, 109, 101, 34, 58, 32, 34, 68, 97,
    116, 97, 98, 97, 115, 101, 34, 44, 32, 34, 116, 121, 112, 101, 34, 58, 32, 34, 100, 97, 116, 97,
    98, 97, 115, 101, 34, 32, 125, 10, 32, 32, 93, 44, 10, 32, 32, 34, 109, 101, 115, 115, 97, 103,
    101, 115, 34, 58, 32, 91, 10, 32, 32, 32, 32, 123, 32, 34, 105, 100, 34, 58, 32, 34, 109, 49, 34,
    44, 32, 34, 102, 114, 111, 109, 34, 58, 32, 34, 117, 115, 101, 114, 34, 44, 32, 34, 116, 111, 34,
    58, 32, 34, 102, 101, 34, 44, 32, 34, 108, 97, 98, 101, 108, 34, 58, 32, 34, 47196, 44536, 51064,
    32, 48260, 53948, 32, 53364, 47533, 34, 44, 32, 34, 116, 121, 112, 101, 34, 58, 32, 34, 115, 121,
    110, 99, 34, 32, 125, 44, 10, 32, 32, 32, 32, 123, 32, 34, 105, 100, 34, 58, 32, 34, 109, 50, 34,
    44, 32, 34, 102, 114, 111, 109, 34, 58, 32, 34, 102, 101, 34, 44, 32, 34, 116, 111, 34, 58, 32, 34,
    97, 112, 105, 34, 44, 32, 34, 108, 97, 98, 101, 108, 34, 58, 32, 34, 80, 79, 83, 84, 32, 47, 97,
    117, 116, 104, 47, 108, 111, 103, 105, 110, 34, 44, 32, 34, 116, 121, 112, 101, 34, 58, 32, 34,
    115, 121, 110, 99, 34, 32, 125, 44, 10, 32, 32, 32, 32, 123, 32, 34, 105, 100, 34, 58, 32, 34, 109,
    51, 34, 44, 32, 34, 102, 114, 111, 109, 34, 58, 32, 34, 97, 112, 105, 34, 44, 32, 34, 116, 111, 34,
    58, 32, 34, 100, 98, 34, 44, 32, 34, 108, 97, 98, 101, 108, 34, 58, 32, 34, 83, 69, 76, 69, 67, 84,
    32, 117, 115, 101, 114, 34, 44, 32, 34, 116, 121, 112, 101, 34, 58, 32, 34, 115, 121, 110, 99, 34,
    32, 125, 44, 10, 32, 32, 32, 32, 123, 32, 34, 105, 100, 34, 58, 32, 34, 109, 52, 34, 44, 32, 34,
    102, 114, 111, 109, 34, 58, 32, 34, 100, 98, 34, 44, 32, 34, 116, 111, 34, 58, 32, 34, 97, 112,
    105, 34, 44, 32, 34, 108, 97, 98, 101, 108, 34, 58, 32, 34, 117, 115, 101, 114, 32, 100, 97, 116,
    97, 34, 44, 32, 34, 116, 121, 112, 101, 34, 58, 32, 34, 114, 101, 115, 112, 111, 110, 115, 101, 34,
    32, 125, 44, 10, 32, 32, 32, 32, 123, 32, 34, 105, 100, 34, 58, 32, 34, 109, 53, 34, 44, 32, 34,
    102, 114, 111, 109, 34, 58, 32, 34, 97, 112, 105, 34, 44, 32, 34, 116, 111, 34, 58, 32, 34, 102,
    101, 34, 44, 32, 34, 108, 97, 98, 101, 108, 34, 58, 32, 34, 74, 87, 84, 32, 116, 111, 107, 101,
    110, 34, 44, 32, 34, 116, 121, 112, 101, 34, 58, 32, 34, 114, 101, 115, 112, 111, 110, 115, 101,
    34, 32, 125, 10, 32, 32, 93, 10, 125, 10, 10, 54924, 51032, 32, 45236, 50857, 58, 10]"

definition sequenceFocused :: "jstr list \<Rightarrow> jstr" where
  "sequenceFocused keywords = [45817, 49888, 51008, 32, 54924, 51032, 32, 45236, 50857, 51012, 32,
    48516, 49437, 54616, 50668, 32, 49884, 53248, 49828, 32, 45796, 51060, 50612, 44536, 47016, 32,
    45936, 51060, 53552, 47484, 32, 49373, 49457, 54616, 45716, 32, 51204, 47928, 44032, 51077, 45768,
    45796, 46, 10, 10, 45796, 51020, 51008, 32, 54924, 51032, 50640, 49436, 32, 49884, 49828, 53596,
    32, 44036, 32, 49345, 54840, 51089, 50857, 44284, 32, 44288, 47144, 46108, 32, 48156, 54868, 46308,
    51077, 45768, 45796, 46, 10, 44048, 51648, 46108, 32, 53412, 50892, 46300, 47484, 32, 51473, 49900,
    51004, 47196, 32, 49884, 53248, 49828, 32, 45796, 51060, 50612, 44536, 47016, 51012, 32, 49373,
    49457, 54644, 51452, 49464, 50836, 46, 10, 10, 35, 35, 32, 44048, 51648, 46108, 32, 53412, 50892,
    46300, 10] @ join [44, 32] keywords @ [10, 10, 35, 35, 32, 50836, 44396, 49324, 54637, 10, 49, 46,
    32, 52280, 50668, 32, 49884, 49828, 53596, 47, 52980, 54252, 45324, 53944, 32, 49885, 48324, 32,
    40, 54532, 47200, 53944, 50644, 46300, 44, 32, 48177, 50644, 46300, 44, 32, 68, 66, 32, 46321, 41,
    10, 50, 46, 32, 65, 80, 73, 32, 54840, 52636, 32, 49692, 49436, 45824, 47196, 32, 47700, 49884,
    51648, 32, 51221, 51032, 10, 51, 46, 32, 50836, 52397, 45, 51025, 45813, 32, 54056, 53556, 32,
    54364, 54788, 10, 52, 46, 32, 51312, 44148, 48512, 32, 48516, 44592, 44032, 32, 51080, 51004,
    47732, 32, 97, 108, 116, 47, 111, 112, 116, 32, 48660, 47197, 32, 44256, 47140, 10, 10, 35, 35, 32,
    44508, 52825, 10, 49, 46, 32, 65, 99, 116, 111, 114, 32, 53440, 51077, 58, 10, 32, 32, 32, 45, 32,
    117, 115, 101, 114, 58, 32, 49324, 50857, 51088, 47, 53364, 46972, 51060, 50616, 53944, 10, 32, 32,
    32, 45, 32, 102, 114, 111, 110, 116, 101, 110, 100, 58, 32, 54532, 47200, 53944, 50644, 46300, 32,
    40, 50937, 44, 32, 50545, 41, 10, 32, 32, 32, 45, 32, 98, 97, 99, 107, 101, 110, 100, 58, 32,
    48177, 50644, 46300, 32, 49436, 48260, 47, 65, 80, 73, 10, 32, 32, 32, 45, 32, 100, 97, 116, 97,
    98, 97, 115, 101, 58, 32, 45936, 51060, 53552, 48288, 51060, 49828, 10, 32, 32, 32, 45, 32, 101,
    120, 116, 101, 114, 110, 97, 108, 58, 32, 50808, 48512, 32, 49436, 48708, 49828, 32, 40, 44208,
    51228, 44, 32, 50508, 47548, 32, 46321, 41, 10, 10, 50, 46, 32, 77, 101, 115, 115, 97, 103, 101,
    32, 53440, 51077, 58, 10, 32, 32, 32, 45, 32, 115, 121, 110, 99, 58, 32, 46041, 44592, 32, 54840,
    52636, 32, 40, 49892, 49440, 32, 54868, 49332, 54364, 32, 8594, 41, 10, 32, 32, 32, 45, 32, 97,
    115, 121, 110, 99, 58, 32, 48708, 46041, 44592, 32, 54840, 52636, 32, 40, 51216, 49440, 32, 54868,
    49332, 54364, 32, 45, 8594, 41, 10, 32, 32, 32, 45, 32, 114, 101, 115, 112, 111, 110, 115, 101, 58,
    32, 51025, 45813, 32, 40, 51216, 49440, 32, 54868, 49332, 54364, 32, 8592, 45, 45, 41, 10, 10, 51,
    46, 32, 47700, 49884, 51648, 32, 49692, 49436, 58, 10, 32, 32, 32, 45, 32, 49884, 44036, 49692,
    51004, 47196, 32, 48176, 50676, 10, 32, 32, 32, 45, 32, 50836, 52397, 45, 51025, 45813, 32, 49933,
    51012, 32, 47749, 54869, 55176, 10, 10, 52, 46, 32, 52636, 47141, 32, 54805, 49885, 32, 40, 48152,
    46300, 49884, 32, 74, 83, 79, 78, 47564, 32, 52636, 47141, 41, 58, 10, 123, 10, 32, 32, 34, 97, 99,
    116, 111, 114, 115, 34, 58, 32, 91, 10, 32, 32, 32, 32, 123, 32, 34, 105, 100, 34, 58, 32, 34, 117,
    115, 101, 114, 34, 44, 32, 34, 110, 97, 109, 101, 34, 58, 32, 34, 49324, 50857, 51088, 34, 44, 32,
    34, 116, 121, 112, 101, 34, 58, 32, 34, 117, 115, 101, 114, 34, 32, 125, 44, 10, 32, 32, 32, 32,
    123, 32, 34, 105, 100, 34, 58, 32, 34, 102, 101, 34, 44, 32, 34, 110, 97, 109, 101, 34, 58, 32, 34,
    70, 114, 111, 110, 116, 101, 110, 100, 34, 44, 32, 34, 116, 121, 112, 101, 34, 58, 32, 34, 102,
    114, 111, 110, 116, 101, 110, 100, 34, 32, 125, 44, 10, 32, 32, 32, 32, 123, 32, 34, 105, 100, 34,
    58, 32, 34, 97, 112, 105, 34, 44, 32, 34, 110, 97, 109, 101, 34, 58, 32, 34, 65, 80, 73, 32, 83,
    101, 114, 118, 101, 114, 34, 44, 32, 34, 116, 121, 112, 101, 34, 58, 32, 34, 98, 97, 99, 107, 101,
    110, 100, 34, 32, 125, 44, 10, 32, 32, 32, 32, 123, 32, 34, 105, 100, 34, 58, 32, 34, 100, 98, 34,
    44, 32, 34, 110, 97, 109, 101, 34, 58, 32, 34, 68, 97, 116, 97, 98, 97, 115, 101, 34, 44, 32, 34,
    116, 121, 112, 101, 34, 58, 32, 34, 100, 97, 116, 97, 98, 97, 115, 101, 34, 32, 125, 10, 32, 32,
    93, 44, 10, 32, 32, 34, 109, 101, 115, 115, 97, 103, 101, 115, 34, 58, 32, 91, 10, 32, 32, 32, 32,
    123, 32, 34, 105, 100, 34, 58, 32, 34, 109, 49, 34, 44, 32, 34, 102, 114, 111, 109, 34, 58, 32, 34,
    117, 115, 101, 114, 34, 44, 32, 34, 116, 111, 34, 58, 32, 34, 102, 101, 34, 44, 32, 34, 108, 97,
    98, 101, 108, 34, 58, 32, 34, 47196, 44536, 51064, 32, 48260, 53948, 32, 53364, 47533, 34, 44, 32,
    34, 116, 121, 112, 101, 34, 58, 32, 34, 115, 121, 110, 99, 34, 32, 125, 44, 10, 32, 32, 32, 32,
    123, 32, 34, 105, 100, 34, 58, 32, 34, 109, 50, 34, 44, 32, 34, 102, 114, 111, 109, 34, 58, 32, 34,
    102, 101, 34, 44, 32, 34, 116, 111, 34, 58, 32, 34, 97, 112, 105, 34, 44, 32, 34, 108, 97, 98, 101,
    108, 34, 58, 32, 34, 80, 79, 83, 84, 32, 47, 97, 117, 116, 104, 47, 108, 111, 103, 105, 110, 34,
    44, 32, 34, 116, 121, 112, 101, 34, 58, 32, 34, 115, 121, 110, 99, 34, 32, 125, 44, 10, 32, 32, 32,
    32, 123, 32, 34, 105, 100, 34, 58, 32, 34, 109, 51, 34, 44, 32, 34, 102, 114, 111, 109, 34, 58, 32,
    34, 97, 112, 105, 34, 44, 32, 34, 116, 111, 34, 58, 32, 34, 100, 98, 34, 44, 32, 34, 108, 97, 98,
    101, 108, 34, 58, 32, 34, 83, 69, 76, 69, 67, 84, 32, 117, 115, 101, 114, 34, 44, 32, 34, 116, 121,
    112, 101, 34, 58, 32, 34, 115, 121, 110, 99, 34, 32, 125, 44, 10, 32, 32, 32, 32, 123, 32, 34, 105,
    100, 34, 58, 32, 34, 109, 52, 34, 44, 32, 34, 102, 114, 111, 109, 34, 58, 32, 34, 100, 98, 34, 44,
    32, 34, 116, 111, 34, 58, 32, 34, 97, 112, 105, 34, 44, 32, 34, 108, 97, 98, 101, 108, 34, 58, 32,
    34, 117, 115, 101, 114, 32, 100, 97, 116, 97, 34, 44, 32, 34, 116, 121, 112, 101, 34, 58, 32, 34,
    114, 101, 115, 112, 111, 110, 115, 101, 34, 32, 125, 44, 10, 32, 32, 32, 32, 123, 32, 34, 105, 100,
    34, 58, 32, 34, 109, 53, 34, 44, 32, 34, 102, 114, 111, 109, 34, 58, 32, 34, 97, 112, 105, 34, 44,
    32, 34, 116, 111, 34, 58, 32, 34, 102, 101, 34, 44, 32, 34, 108, 97, 98, 101, 108, 34, 58, 32, 34,
    74, 87, 84, 32, 116, 111, 107, 101, 110, 34, 44, 32, 34, 116, 121, 112, 101, 34, 58, 32, 34, 114,
    101, 115, 112, 111, 110, 115, 101, 34, 32, 125, 10, 32, 32, 93, 10, 125, 10, 10, 44288, 47144, 32,
    48156, 54868, 58, 10]"

definition ERD_PROMPT :: jstr where
  "ERD_PROMPT = [45817, 49888, 51008, 32, 54924, 51032, 32, 45236, 50857, 51012, 32, 48516, 49437,
    54616, 50668, 32, 69, 82, 68, 40, 69, 110, 116, 105, 116, 121, 32, 82, 101, 108, 97, 116, 105, 111,
    110, 115, 104, 105, 112, 32, 68, 105, 97, 103, 114, 97, 109, 41, 32, 45936, 51060, 53552, 47484,
    32, 49373, 49457, 54616, 45716, 32, 51204, 47928, 44032, 51077, 45768, 45796, 46, 10, 10, 51452,
    50612, 51652, 32, 54924, 51032, 32, 45236, 50857, 50640, 49436, 32, 45936, 51060, 53552, 32, 47784,
    45944, 44, 32, 50644, 54000, 54000, 44, 32, 44288, 44228, 47484, 32, 52628, 52636, 54616, 50668,
    32, 74, 83, 79, 78, 32, 54805, 49885, 51032, 32, 69, 82, 68, 32, 45936, 51060, 53552, 47196, 32,
    48320, 54872, 54616, 49464, 50836, 46, 10, 10, 35, 35, 32, 44508, 52825, 10, 49, 46, 32, 53580,
    51060, 48660, 32, 47749, 47749, 58, 10, 32, 32, 32, 45, 32, 80, 97, 115, 99, 97, 108, 67, 97, 115,
    101, 32, 49324, 50857, 32, 40, 50696, 58, 32, 85, 115, 101, 114, 44, 32, 79, 114, 100, 101, 114,
    73, 116, 101, 109, 41, 10, 32, 32, 32, 45, 32, 48373, 49688, 54805, 32, 54588, 54616, 44592, 32,
    40, 85, 115, 101, 114, 115, 32, 88, 32, 8594, 32, 85, 115, 101, 114, 32, 79, 41, 10, 10, 50, 46,
    32, 52972, 47100, 32, 49549, 49457, 58, 10, 32, 32, 32, 45, 32, 112, 107, 58, 32, 80, 114, 105,
    109, 97, 114, 121, 32, 75, 101, 121, 32, 50668, 48512, 10, 32, 32, 32, 45, 32, 102, 107, 58, 32,
    70, 111, 114, 101, 105, 103, 110, 32, 75, 101, 121, 32, 52280, 51312, 32, 53580, 51060, 48660, 32,
    40, 50696, 58, 32, 34, 85, 115, 101, 114, 34, 41, 10, 32, 32, 32, 45, 32, 110, 117, 108, 108, 97,
    98, 108, 101, 58, 32, 78, 85, 76, 76, 32, 54728, 50857, 32, 50668, 48512, 10, 10, 51, 46, 32,
    44288, 44228, 32, 53440, 51077, 58, 10, 32, 32, 32, 45, 32, 49, 58, 49, 32, 40, 51068, 45824,
    51068, 41, 10, 32, 32, 32, 45, 32, 49, 58, 78, 32, 40, 51068, 45824, 45796, 41, 10, 32, 32, 32, 45,
    32, 78, 58, 77, 32, 40, 45796, 45824, 45796, 41, 10, 10, 52, 46, 32, 54596, 49688, 32, 52972,
    47100, 58, 10, 32, 32, 32, 45, 32, 105, 100, 32, 40, 80, 75, 41, 10, 32, 32, 32, 45, 32, 99, 114,
    101, 97, 116, 101, 100, 65, 116, 44, 32, 117, 112, 100, 97, 116, 101, 100, 65, 116, 32, 40, 53440,
    51076, 49828, 53484, 54532, 41, 10, 10, 53, 46, 32, 52636, 47141, 32, 54805, 49885, 32, 40, 48152,
    46300, 49884, 32, 74, 83, 79, 78, 47564, 32, 52636, 47141, 41, 58, 10, 123, 10, 32, 32, 34, 116,
    97, 98, 108, 101, 115, 34, 58, 32, 91, 10, 32, 32, 32, 32, 123, 10, 32, 32, 32, 32, 32, 32, 34,
    110, 97, 109, 101, 34, 58, 32, 34, 85, 115, 101, 114, 34, 44, 10, 32, 32, 32, 32, 32, 32, 34, 99,
    111, 108, 117, 109, 110, 115, 34, 58, 32, 91, 10, 32, 32, 32, 32, 32, 32, 32, 32, 123, 32, 34, 110,
    97, 109, 101, 34, 58, 32, 34, 105, 100, 34, 44, 32, 34, 116, 121, 112, 101, 34, 58, 32, 34, 117,
    117, 105, 100, 34, 44, 32, 34, 112, 107, 34, 58, 32, 116, 114, 117, 101, 32, 125, 44, 10, 32, 32,
    32, 32, 32, 32, 32, 32, 123, 32, 34, 110, 97, 109, 101, 34, 58, 32, 34, 101, 109, 97, 105, 108, 34,
    44, 32, 34, 116, 121, 112, 101, 34, 58, 32, 34, 118, 97, 114, 99, 104, 97, 114, 40, 50, 53, 53, 41,
    34, 44, 32, 34, 110, 117, 108, 108, 97, 98, 108, 101, 34, 58, 32, 102, 97, 108, 115, 101, 32, 125,
    44, 10, 32, 32, 32, 32, 32, 32, 32, 32, 123, 32, 34, 110, 97, 109, 101, 34, 58, 32, 34, 110, 97,
    109, 101, 34, 44, 32, 34, 116, 121, 112, 101, 34, 58, 32, 34, 118, 97, 114, 99, 104, 97, 114, 40,
    49, 48, 48, 41, 34, 44, 32, 34, 110, 117, 108, 108, 97, 98, 108, 101, 34, 58, 32, 102, 97, 108,
    115, 101, 32, 125, 44, 10, 32, 32, 32, 32, 32, 32, 32, 32, 123, 32, 34, 110, 97, 109, 101, 34, 58,
    32, 34, 99, 114, 101, 97, 116, 101, 100, 65, 116, 34, 44, 32, 34, 116, 121, 112, 101, 34, 58, 32,
    34, 116, 105, 109, 101, 115, 116, 97, 109, 112, 34, 44, 32, 34, 110, 117, 108, 108, 97, 98, 108,
    101, 34, 58, 32, 102, 97, 108, 115, 101, 32, 125, 44, 10, 32, 32, 32, 32, 32, 32, 32, 32, 123, 32,
    34, 110, 97, 109, 101, 34, 58, 32, 34, 117, 112, 100, 97, 116, 101, 100, 65, 116, 34, 44, 32, 34,
    116, 121, 112, 101, 34, 58, 32, 34, 116, 105, 109, 101, 115, 116, 97, 109, 112, 34, 44, 32, 34,
    110, 117, 108, 108, 97, 98, 108, 101, 34, 58, 32, 102, 97, 108, 115, 101, 32, 125, 10, 32, 32, 32,
    32, 32, 32, 93, 10, 32, 32, 32, 32, 125, 44, 10, 32, 32, 32, 32, 123, 10, 32, 32, 32, 32, 32, 32,
    34, 110, 97, 109, 101, 34, 58, 32, 34, 79, 114, 100, 101, 114, 34, 44, 10, 32, 32, 32, 32, 32, 32,
    34, 99, 111, 108, 117, 109, 110, 115, 34, 58, 32, 91, 10, 32, 32, 32, 32, 32, 32, 32, 32, 123, 32,
    34, 110, 97, 109, 101, 34, 58, 32, 34, 105, 100, 34, 44, 32, 34, 116, 121, 112, 101, 34, 58, 32,
    34, 117, 117, 105, 100, 34, 44, 32, 34, 112, 107, 34, 58, 32, 116, 114, 117, 101, 32, 125, 44, 10,
    32, 32, 32, 32, 32, 32, 32, 32, 123, 32, 34, 110, 97, 109, 101, 34, 58, 32, 34, 117, 115, 101, 114,
    73, 100, 34, 44, 32, 34, 116, 121, 112, 101, 34, 58, 32, 34, 117, 117, 105, 100, 34, 44, 32, 34,
    102, 107, 34, 58, 32, 34, 85, 115, 101, 114, 34, 44, 32, 34, 110, 117, 108, 108, 97, 98, 108, 101,
    34, 58, 32, 102, 97, 108, 115, 101, 32, 125, 44, 10, 32, 32, 32, 32, 32, 32, 32, 32, 123, 32, 34,
    110, 97, 109, 101, 34, 58, 32, 34, 115, 116, 97, 116, 117, 115, 34, 44, 32, 34, 116, 121, 112, 101,
    34, 58, 32, 34, 118, 97, 114, 99, 104, 97, 114, 40, 50, 48, 41, 34, 44, 32, 34, 110, 117, 108, 108,
    97, 98, 108, 101, 34, 58, 32, 102, 97, 108, 115, 101, 32, 125, 44, 10, 32, 32, 32, 32, 32, 32, 32,
    32, 123, 32, 34, 110, 97, 109, 101, 34, 58, 32, 34, 116, 111, 116, 97, 108, 65, 109, 111, 117, 110,
    116, 34, 44, 32, 34, 116, 121, 112, 101, 34, 58, 32, 34, 100, 101, 99, 105, 109, 97, 108, 40, 49,
    48, 44, 50, 41, 34, 44, 32, 34, 110, 117, 108, 108, 97, 98, 108, 101, 34, 58, 32, 102, 97, 108,
    115, 101, 32, 125, 10, 32, 32, 32, 32, 32, 32, 93, 10, 32, 32, 32, 32, 125, 10, 32, 32, 93, 44, 10,
    32, 32, 34, 114, 101, 108, 97, 116, 105, 111, 110, 115, 34, 58, 32, 91, 10, 32, 32, 32, 32, 123,
    32, 34, 102, 114, 111, 109, 34, 58, 32, 34, 85, 115, 101, 114, 34, 44, 32, 34, 116, 111, 34, 58,
    32, 34, 79, 114, 100, 101, 114, 34, 44, 32, 34, 116, 121, 112, 101, 34, 58, 32, 34, 49, 58, 78, 34,
    44, 32, 34, 108, 97, 98, 101, 108, 34, 58, 32, 34, 104, 97, 115, 34, 32, 125, 10, 32, 32, 93, 10,
    125, 10, 10, 54924, 51032, 32, 45236, 50857, 58, 10]"

definition erdFocused :: "jstr list \<Rightarrow> jstr" where
  "erdFocused keywords = [45817, 49888, 51008, 32, 54924, 51032, 32, 45236, 50857, 51012, 32, 48516,
    49437, 54616, 50668, 32, 69, 82, 68, 40, 69, 110, 116, 105, 116, 121, 32, 82, 101, 108, 97, 116,
    105, 111, 110, 115, 104, 105, 112, 32, 68, 105, 97, 103, 114, 97, 109, 41, 32, 45936, 51060, 53552,
    47484, 32, 49373, 49457, 54616, 45716, 32, 51204, 47928, 44032, 51077, 45768, 45796, 46, 10, 10,
    45796, 51020, 51008, 32, 54924, 51032, 50640, 49436, 32, 45936, 51060, 53552, 32, 47784, 45944,
    44284, 32, 44288, 47144, 46108, 32, 48156, 54868, 46308, 51077, 45768, 45796, 46, 10, 44048, 51648,
    46108, 32, 53412, 50892, 46300, 47484, 32, 51473, 49900, 51004, 47196, 32, 69, 82, 68, 47484, 32,
    49373, 49457, 54644, 51452, 49464, 50836, 46, 10, 10, 35, 35, 32, 44048, 51648, 46108, 32, 53412,
    50892, 46300, 10] @ join [44, 32] keywords @ [10, 10, 35, 35, 32, 50836, 44396, 49324, 54637, 10,
    49, 46, 32, 50644, 54000, 54000, 40, 53580, 51060, 48660, 41, 32, 49885, 48324, 10, 50, 46, 32,
    44033, 32, 50644, 54000, 54000, 51032, 32, 51452, 50836, 32, 49549, 49457, 32, 51221, 51032, 10,
    51, 46, 32, 50644, 54000, 54000, 32, 44036, 32, 44288, 44228, 32, 40, 49, 58, 49, 44, 32, 49, 58,
    78, 44, 32, 78, 58, 77, 41, 32, 54364, 54788, 10, 52, 46, 32, 80, 75, 47, 70, 75, 32, 44288, 44228,
    32, 47749, 49884, 10, 10, 35, 35, 32, 44508, 52825, 10, 49, 46, 32, 53580, 51060, 48660, 32, 47749,
    47749, 58, 10, 32, 32, 32, 45, 32, 80, 97, 115, 99, 97, 108, 67, 97, 115, 101, 32, 49324, 50857,
    32, 40, 50696, 58, 32, 85, 115, 101, 114, 44, 32, 79, 114, 100, 101, 114, 73, 116, 101, 109, 41,
    10, 32, 32, 32, 45, 32, 48373, 49688, 54805, 32, 54588, 54616, 44592, 32, 40, 85, 115, 101, 114,
    115, 32, 88, 32, 8594, 32, 85, 115, 101, 114, 32, 79, 41, 10, 10, 50, 46, 32, 52972, 47100, 32,
    49549, 49457, 58, 10, 32, 32, 32, 45, 32, 112, 107, 58, 32, 80, 114, 105, 109, 97, 114, 121, 32,
    75, 101, 121, 32, 50668, 48512, 10, 32, 32, 32, 45, 32, 102, 107, 58, 32, 70, 111, 114, 101, 105,
    103, 110, 32, 75, 101, 121, 32, 52280, 51312, 32, 53580, 51060, 48660, 32, 40, 50696, 58, 32, 34,
    85, 115, 101, 114, 34, 41, 10, 32, 32, 32, 45, 32, 110, 117, 108, 108, 97, 98, 108, 101, 58, 32,
    78, 85, 76, 76, 32, 54728, 50857, 32, 50668, 48512, 10, 10, 51, 46, 32, 44288, 44228, 32, 53440,
    51077, 58, 10, 32, 32, 32, 45, 32, 49, 58, 49, 32, 40, 51068, 45824, 51068, 41, 10, 32, 32, 32, 45,
    32, 49, 58, 78, 32, 40, 51068, 45824, 45796, 41, 10, 32, 32, 32, 45, 32, 78, 58, 77, 32, 40, 45796,
    45824, 45796, 41, 10, 10, 52, 46, 32, 54596, 49688, 32, 52972, 47100, 58, 10, 32, 32, 32, 45, 32,
    105, 100, 32, 40, 80, 75, 41, 10, 32, 32, 32, 45, 32, 99, 114, 101, 97, 116, 101, 100, 65, 116, 44,
    32, 117, 112, 100, 97, 116, 101, 100, 65, 116, 32, 40, 53440, 51076, 49828, 53484, 54532, 41, 10,
    10, 53, 46, 32, 52636, 47141, 32, 54805, 49885, 32, 40, 48152, 46300, 49884, 32, 74, 83, 79, 78,
    47564, 32, 52636, 47141, 41, 58, 10, 123, 10, 32, 32, 34, 116, 97, 98, 108, 101, 115, 34, 58, 32,
    91, 10, 32, 32, 32, 32, 123, 10, 32, 32, 32, 32, 32, 32, 34, 110, 97, 109, 101, 34, 58, 32, 34, 85,
    115, 101, 114, 34, 44, 10, 32, 32, 32, 32, 32, 32, 34, 99, 111, 108, 117, 109, 110, 115, 34, 58,
    32, 91, 10, 32, 32, 32, 32, 32, 32, 32, 32, 123, 32, 34, 110, 97, 109, 101, 34, 58, 32, 34, 105,
    100, 34, 44, 32, 34, 116, 121, 112, 101, 34, 58, 32, 34, 117, 117, 105, 100, 34, 44, 32, 34, 112,
    107, 34, 58, 32, 116, 114, 117, 101, 32, 125, 44, 10, 32, 32, 32, 32, 32, 32, 32, 32, 123, 32, 34,
    110, 97, 109, 101, 34, 58, 32, 34, 101, 109, 97, 105, 108, 34, 44, 32, 34, 116, 121, 112, 101, 34,
    58, 32, 34, 118, 97, 114, 99, 104, 97, 114, 40, 50, 53, 53, 41, 34, 44, 32, 34, 110, 117, 108, 108,
    97, 98, 108, 101, 34, 58, 32, 102, 97, 108, 115, 101, 32, 125, 44, 10, 32, 32, 32, 32, 32, 32, 32,
    32, 123, 32, 34, 110, 97, 109, 101, 34, 58, 32, 34, 110, 97, 109, 101, 34, 44, 32, 34, 116, 121,
    112, 101, 34, 58, 32, 34, 118, 97, 114, 99, 104, 97, 114, 40, 49, 48, 48, 41, 34, 44, 32, 34, 110,
    117, 108, 108, 97, 98, 108, 101, 34, 58, 32, 102, 97, 108, 115, 101, 32, 125, 44, 10, 32, 32, 32,
    32, 32, 32, 32, 32, 123, 32, 34, 110, 97, 109, 101, 34, 58, 32, 34, 99, 114, 101, 97, 116, 101,
    100, 65, 116, 34, 44, 32, 34, 116, 121, 112, 101, 34, 58, 32, 34, 116, 105, 109, 101, 115, 116, 97,
    109, 112, 34, 44, 32, 34, 110, 117, 108, 108, 97, 98, 108, 101, 34, 58, 32, 102, 97, 108, 115, 101,
    32, 125, 44, 10, 32, 32, 32, 32, 32, 32, 32, 32, 123, 32, 34, 110, 97, 109, 101, 34, 58, 32, 34,
    117, 112, 100, 97, 116, 101, 100, 65, 116, 34, 44, 32, 34, 116, 121, 112, 101, 34, 58, 32, 34, 116,
    105, 109, 101, 115, 116, 97, 109, 112, 34, 44, 32, 34, 110, 117, 108, 108, 97, 98, 108, 101, 34,
    58, 32, 102, 97, 108, 115, 101, 32, 125, 10, 32, 32, 32, 32, 32, 32, 93, 10, 32, 32, 32, 32, 125,
    44, 10, 32, 32, 32, 32, 123, 10, 32, 32, 32, 32, 32, 32, 34, 110, 97, 109, 101, 34, 58, 32, 34, 79,
    114, 100, 101, 114, 34, 44, 10, 32, 32, 32, 32, 32, 32, 34, 99, 111, 108, 117, 109, 110, 115, 34,
    58, 32, 91, 10, 32, 32, 32, 32, 32, 32, 32, 32, 123, 32, 34, 110, 97, 109, 101, 34, 58, 32, 34,
    105, 100, 34, 44, 32, 34, 116, 121, 112, 101, 34, 58, 32, 34, 117, 117, 105, 100, 34, 44, 32, 34,
    112, 107, 34, 58, 32, 116, 114, 117, 101, 32, 125, 44, 10, 32, 32, 32, 32, 32, 32, 32, 32, 123, 32,
    34, 110, 97, 109, 101, 34, 58, 32, 34, 117, 115, 101, 114, 73, 100, 34, 44, 32, 34, 116, 121, 112,
    101, 34, 58, 32, 34, 117, 117, 105, 100, 34, 44, 32, 34, 102, 107, 34, 58, 32, 34, 85, 115, 101,
    114, 34, 44, 32, 34, 110, 117, 108, 108, 97, 98, 108, 101, 34, 58, 32, 102, 97, 108, 115, 101, 32,
    125, 44, 10, 32, 32, 32, 32, 32, 32, 32, 32, 123, 32, 34, 110, 97, 109, 101, 34, 58, 32, 34, 115,
    116, 97, 116, 117, 115, 34, 44, 32, 34, 116, 121, 112, 101, 34, 58, 32, 34, 118, 97, 114, 99, 104,
    97, 114, 40, 50, 48, 41, 34, 44, 32, 34, 110, 117, 108, 108, 97, 98, 108, 101, 34, 58, 32, 102, 97,
    108, 115, 101, 32, 125, 44, 10, 32, 32, 32, 32, 32, 32, 32, 32, 123, 32, 34, 110, 97, 109, 101, 34,
    58, 32, 34, 116, 111, 116, 97, 108, 65, 109, 111, 117, 110, 116, 34, 44, 32, 34, 116, 121, 112,
    101, 34, 58, 32, 34, 100, 101, 99, 105, 109, 97, 108, 40, 49, 48, 44, 50, 41, 34, 44, 32, 34, 110,
    117, 108, 108, 97, 98, 108, 101, 34, 58, 32, 102, 97, 108, 115, 101, 32, 125, 10, 32, 32, 32, 32,
    32, 32, 93, 10, 32, 32, 32, 32, 125, 10, 32, 32, 93, 44, 10, 32, 32, 34, 114, 101, 108, 97, 116,
    105, 111, 110, 115, 34, 58, 32, 91, 10, 32, 32, 32, 32, 123, 32, 34, 102, 114, 111, 109, 34, 58,
    32, 34, 85, 115, 101, 114, 34, 44, 32, 34, 116, 111, 34, 58, 32, 34, 79, 114, 100, 101, 114, 34,
    44, 32, 34, 116, 121, 112, 101, 34, 58, 32, 34, 49, 58, 78, 34, 44, 32, 34, 108, 97, 98, 101, 108,
    34, 58, 32, 34, 104, 97, 115, 34, 32, 125, 10, 32, 32, 93, 10, 125, 10, 10, 44288, 47144, 32,
    48156, 54868, 58, 10]"

definition ARCHITECTURE_PROMPT :: jstr where
  "ARCHITECTURE_PROMPT = [45817, 49888, 51008, 32, 54924, 51032, 32, 45236, 50857, 51012, 32, 48516,
    49437, 54616, 50668, 32, 49884, 49828, 53596, 32, 50500, 53412, 53581, 52376, 32, 45796, 51060,
    50612, 44536, 47016, 32, 45936, 51060, 53552, 47484, 32, 49373, 49457, 54616, 45716, 32, 51204,
    47928, 44032, 51077, 45768, 45796, 46, 10, 10, 51452, 50612, 51652, 32, 54924, 51032, 32, 45236,
    50857, 50640, 49436, 32, 49884, 49828, 53596, 32, 44396, 49457, 50836, 49548, 50752, 32, 50672,
    44208, 44288, 44228, 47484, 32, 52628, 52636, 54616, 50668, 32, 74, 83, 79, 78, 32, 54805, 49885,
    51032, 32, 50500, 53412, 53581, 52376, 32, 45936, 51060, 53552, 47196, 32, 48320, 54872, 54616,
    49464, 50836, 46, 10, 10, 35, 35, 32, 44508, 52825, 10, 49, 46, 32, 45432, 46300, 32, 53440, 51077,
    58, 10, 32, 32, 32, 45, 32, 99, 108, 105, 101, 110, 116, 58, 32, 53364, 46972, 51060, 50616, 53944,
    32, 40, 50937, 44, 32, 47784, 48148, 51068, 44, 32, 45936, 49828, 53356, 53681, 41, 10, 32, 32, 32,
    45, 32, 115, 101, 114, 118, 101, 114, 58, 32, 49436, 48260, 47, 65, 80, 73, 10, 32, 32, 32, 45, 32,
    100, 97, 116, 97, 98, 97, 115, 101, 58, 32, 45936, 51060, 53552, 48288, 51060, 49828, 10, 32, 32,
    32, 45, 32, 99, 97, 99, 104, 101, 58, 32, 52880, 49884, 32, 40, 82, 101, 100, 105, 115, 44, 32, 77,
    101, 109, 99, 97, 99, 104, 101, 100, 41, 10, 32, 32, 32, 45, 32, 113, 117, 101, 117, 101, 58, 32,
    47700, 49884, 51648, 32, 53328, 32, 40, 75, 97, 102, 107, 97, 44, 32, 82, 97, 98, 98, 105, 116, 77,
    81, 41, 10, 32, 32, 32, 45, 32, 101, 120, 116, 101, 114, 110, 97, 108, 58, 32, 50808, 48512, 32,
    49436, 48708, 49828, 32, 40, 65, 87, 83, 44, 32, 71, 67, 80, 44, 32, 51, 114, 100, 32, 112, 97,
    114, 116, 121, 41, 10, 32, 32, 32, 45, 32, 108, 111, 97, 100, 98, 97, 108, 97, 110, 99, 101, 114,
    58, 32, 47196, 46300, 48184, 47088, 49436, 47, 44172, 51060, 53944, 50920, 51060, 10, 10, 50, 46,
    32, 44536, 47353, 40, 103, 114, 111, 117, 112, 41, 58, 10, 32, 32, 32, 45, 32, 45436, 47532, 51201,
    32, 44536, 47353, 54609, 32, 40, 50696, 58, 32, 34, 70, 114, 111, 110, 116, 101, 110, 100, 34, 44,
    32, 34, 66, 97, 99, 107, 101, 110, 100, 34, 44, 32, 34, 68, 97, 116, 97, 32, 76, 97, 121, 101, 114,
    34, 41, 10, 32, 32, 32, 45, 32, 49440, 53469, 51201, 32, 49549, 49457, 10, 10, 51, 46, 32, 50672,
    44208, 40, 67, 111, 110, 110, 101, 99, 116, 105, 111, 110, 41, 58, 10, 32, 32, 32, 45, 32, 112,
    114, 111, 116, 111, 99, 111, 108, 58, 32, 53685, 49888, 32, 54532, 47196, 53664, 53084, 32, 40, 72,
    84, 84, 80, 44, 32, 103, 82, 80, 67, 44, 32, 87, 101, 98, 83, 111, 99, 107, 101, 116, 44, 32, 84,
    67, 80, 32, 46321, 41, 10, 32, 32, 32, 45, 32, 108, 97, 98, 101, 108, 58, 32, 50672, 44208, 32,
    49444, 47749, 10, 10, 52, 46, 32, 52636, 47141, 32, 54805, 49885, 32, 40, 48152, 46300, 49884, 32,
    74, 83, 79, 78, 47564, 32, 52636, 47141, 41, 58, 10, 123, 10, 32, 32, 34, 110, 111, 100, 101, 115,
    34, 58, 32, 91, 10, 32, 32, 32, 32, 123, 32, 34, 105, 100, 34, 58, 32, 34, 119, 101, 98, 34, 44,
    32, 34, 110, 97, 109, 101, 34, 58, 32, 34, 87, 101, 98, 32, 65, 112, 112, 34, 44, 32, 34, 116, 121,
    112, 101, 34, 58, 32, 34, 99, 108, 105, 101, 110, 116, 34, 44, 32, 34, 103, 114, 111, 117, 112, 34,
    58, 32, 34, 70, 114, 111, 110, 116, 101, 110, 100, 34, 32, 125, 44, 10, 32, 32, 32, 32, 123, 32,
    34, 105, 100, 34, 58, 32, 34, 109, 111, 98, 105, 108, 101, 34, 44, 32, 34, 110, 97, 109, 101, 34,
    58, 32, 34, 77, 111, 98, 105, 108, 101, 32, 65, 112, 112, 34, 44, 32, 34, 116, 121, 112, 101, 34,
    58, 32, 34, 99, 108, 105, 101, 110, 116, 34, 44, 32, 34, 103, 114, 111, 117, 112, 34, 58, 32, 34,
    70, 114, 111, 110, 116, 101, 110, 100, 34, 32, 125, 44, 10, 32, 32, 32, 32, 123, 32, 34, 105, 100,
    34, 58, 32, 34, 108, 98, 34, 44, 32, 34, 110, 97, 109, 101, 34, 58, 32, 34, 76, 111, 97, 100, 32,
    66, 97, 108, 97, 110, 99, 101, 114, 34, 44, 32, 34, 116, 121, 112, 101, 34, 58, 32, 34, 108, 111,
    97, 100, 98, 97, 108, 97, 110, 99, 101, 114, 34, 32, 125, 44, 10, 32, 32, 32, 32, 123, 32, 34, 105,
    100, 34, 58, 32, 34, 97, 112, 105, 49, 34, 44, 32, 34, 110, 97, 109, 101, 34, 58, 32, 34, 65, 80,
    73, 32, 83, 101, 114, 118, 101, 114, 32, 49, 34, 44, 32, 34, 116, 121, 112, 101, 34, 58, 32, 34,
    115, 101, 114, 118, 101, 114, 34, 44, 32, 34, 103, 114, 111, 117, 112, 34, 58, 32, 34, 66, 97, 99,
    107, 101, 110, 100, 34, 32, 125, 44, 10, 32, 32, 32, 32, 123, 32, 34, 105, 100, 34, 58, 32, 34, 97,
    112, 105, 50, 34, 44, 32, 34, 110, 97, 109, 101, 34, 58, 32, 34, 65, 80, 73, 32, 83, 101, 114, 118,
    101, 114, 32, 50, 34, 44, 32, 34, 116, 121, 112, 101, 34, 58, 32, 34, 115, 101, 114, 118, 101, 114,
    34, 44, 32, 34, 103, 114, 111, 117, 112, 34, 58, 32, 34, 66, 97, 99, 107, 101, 110, 100, 34, 32,
    125, 44, 10, 32, 32, 32, 32, 123, 32, 34, 105, 100, 34, 58, 32, 34, 114, 101, 100, 105, 115, 34,
    44, 32, 34, 110, 97, 109, 101, 34, 58, 32, 34, 82, 101, 100, 105, 115, 34, 44, 32, 34, 116, 121,
    112, 101, 34, 58, 32, 34, 99, 97, 99, 104, 101, 34, 44, 32, 34, 103, 114, 111, 117, 112, 34, 58,
    32, 34, 68, 97, 116, 97, 34, 32, 125, 44, 10, 32, 32, 32, 32, 123, 32, 34, 105, 100, 34, 58, 32,
    34, 112, 111, 115, 116, 103, 114, 101, 115, 34, 44, 32, 34, 110, 97, 109, 101, 34, 58, 32, 34, 80,
    111, 115, 116, 103, 114, 101, 83, 81, 76, 34, 44, 32, 34, 116, 121, 112, 101, 34, 58, 32, 34, 100,
    97, 116, 97, 98, 97, 115, 101, 34, 44, 32, 34, 103, 114, 111, 117, 112, 34, 58, 32, 34, 68, 97,
    116, 97, 34, 32, 125, 44, 10, 32, 32, 32, 32, 123, 32, 34, 105, 100, 34, 58, 32, 34, 115, 51, 34,
    44, 32, 34, 110, 97, 109, 101, 34, 58, 32, 34, 65, 87, 83, 32, 83, 51, 34, 44, 32, 34, 116, 121,
    112, 101, 34, 58, 32, 34, 101, 120, 116, 101, 114, 110, 97, 108, 34, 32, 125, 10, 32, 32, 93, 44,
    10, 32, 32, 34, 99, 111, 110, 110, 101, 99, 116, 105, 111, 110, 115, 34, 58, 32, 91, 10, 32, 32,
    32, 32, 123, 32, 34, 102, 114, 111, 109, 34, 58, 32, 34, 119, 101, 98, 34, 44, 32, 34, 116, 111,
    34, 58, 32, 34, 108, 98, 34, 44, 32, 34, 112, 114, 111, 116, 111, 99, 111, 108, 34, 58, 32, 34, 72,
    84, 84, 80, 83, 34, 32, 125, 44, 10, 32, 32, 32, 32, 123, 32, 34, 102, 114, 111, 109, 34, 58, 32,
    34, 109, 111, 98, 105, 108, 101, 34, 44, 32, 34, 116, 111, 34, 58, 32, 34, 108, 98, 34, 44, 32, 34,
    112, 114, 111, 116, 111, 99, 111, 108, 34, 58, 32, 34, 72, 84, 84, 80, 83, 34, 32, 125, 44, 10, 32,
    32, 32, 32, 123, 32, 34, 102, 114, 111, 109, 34, 58, 32, 34, 108, 98, 34, 44, 32, 34, 116, 111, 34,
    58, 32, 34, 97, 112, 105, 49, 34, 44, 32, 34, 112, 114, 111, 116, 111, 99, 111, 108, 34, 58, 32,
    34, 72, 84, 84, 80, 34, 32, 125, 44, 10, 32, 32, 32, 32, 123, 32, 34, 102, 114, 111, 109, 34, 58,
    32, 34, 108, 98, 34, 44, 32, 34, 116, 111, 34, 58, 32, 34, 97, 112, 105, 50, 34, 44, 32, 34, 112,
    114, 111, 116, 111, 99, 111, 108, 34, 58, 32, 34, 72, 84, 84, 80, 34, 32, 125, 44, 10, 32, 32, 32,
    32, 123, 32, 34, 102, 114, 111, 109, 34, 58, 32, 34, 97, 112, 105, 49, 34, 44, 32, 34, 116, 111,
    34, 58, 32, 34, 114, 101, 100, 105, 115, 34, 44, 32, 34, 112, 114, 111, 116, 111, 99, 111, 108, 34,
    58, 32, 34, 84, 67, 80, 34, 44, 32, 34, 108, 97, 98, 101, 108, 34, 58, 32, 34, 83, 101, 115, 115,
    105, 111, 110, 34, 32, 125, 44, 10, 32, 32, 32, 32, 123, 32, 34, 102, 114, 111, 109, 34, 58, 32,
    34, 97, 112, 105, 49, 34, 44, 32, 34, 116, 111, 34, 58, 32, 34, 112, 111, 115, 116, 103, 114, 101,
    115, 34, 44, 32, 34, 112, 114, 111, 116, 111, 99, 111, 108, 34, 58, 32, 34, 84, 67, 80, 34, 32,
    125, 44, 10, 32, 32, 32, 32, 123, 32, 34, 102, 114, 111, 109, 34, 58, 32, 34, 97, 112, 105, 49, 34,
    44, 32, 34, 116, 111, 34, 58, 32, 34, 115, 51, 34, 44, 32, 34, 112, 114, 111, 116, 111, 99, 111,
    108, 34, 58, 32, 34, 72, 84, 84, 80, 83, 34, 44, 32, 34, 108, 97, 98, 101, 108, 34, 58, 32, 34, 70,
    105, 108, 101, 32, 85, 112, 108, 111, 97, 100, 34, 32, 125, 10, 32, 32, 93, 10, 125, 10, 10, 54924,
    51032, 32, 45236, 50857, 58, 10]"

definition architectureFocused :: "jstr list \<Rightarrow> jstr" where
  "architectureFocused keywords = [45817, 49888, 51008, 32, 54924, 51032, 32, 45236, 50857, 51012, 32,
    48516, 49437, 54616, 50668, 32, 49884, 49828, 53596, 32, 50500, 53412, 53581, 52376, 32, 45796,
    51060, 50612, 44536, 47016, 32, 45936, 51060, 53552, 47484, 32, 49373, 49457, 54616, 45716, 32,
    51204, 47928, 44032, 51077, 45768, 45796, 46, 10, 10, 45796, 51020, 51008, 32, 54924, 51032, 50640,
    49436, 32, 49884, 49828, 53596, 32, 50500, 53412, 53581, 52376, 50752, 32, 44288, 47144, 46108, 32,
    48156, 54868, 46308, 51077, 45768, 45796, 46, 10, 44048, 51648, 46108, 32, 53412, 50892, 46300,
    47484, 32, 51473, 49900, 51004, 47196, 32, 50500, 53412, 53581, 52376, 32, 45796, 51060, 50612,
    44536, 47016, 51012, 32, 49373, 49457, 54644, 51452, 49464, 50836, 46, 10, 10, 35, 35, 32, 44048,
    51648, 46108, 32, 53412, 50892, 46300, 10] @ join [44, 32] keywords @ [10, 10, 35, 35, 32, 50836,
    44396, 49324, 54637, 10, 49, 46, 32, 51452, 50836, 32, 52980, 54252, 45324, 53944, 47, 49436,
    48708, 49828, 32, 49885, 48324, 10, 50, 46, 32, 47112, 51060, 50612, 32, 44396, 48516, 32, 40,
    54532, 47112, 51232, 53580, 51060, 49496, 44, 32, 48708, 51592, 45768, 49828, 44, 32, 45936, 51060,
    53552, 41, 10, 51, 46, 32, 52980, 54252, 45324, 53944, 32, 44036, 32, 50672, 44208, 47, 51032,
    51316, 49457, 32, 54364, 54788, 10, 52, 46, 32, 50808, 48512, 32, 49884, 49828, 53596, 32, 50672,
    46041, 32, 54252, 54632, 10, 10, 35, 35, 32, 44508, 52825, 10, 49, 46, 32, 45432, 46300, 32, 53440,
    51077, 58, 10, 32, 32, 32, 45, 32, 99, 108, 105, 101, 110, 116, 58, 32, 53364, 46972, 51060, 50616,
    53944, 32, 40, 50937, 44, 32, 47784, 48148, 51068, 44, 32, 45936, 49828, 53356, 53681, 41, 10, 32,
    32, 32, 45, 32, 115, 101, 114, 118, 101, 114, 58, 32, 49436, 48260, 47, 65, 80, 73, 10, 32, 32, 32,
    45, 32, 100, 97, 116, 97, 98, 97, 115, 101, 58, 32, 45936, 51060, 53552, 48288, 51060, 49828, 10,
    32, 32, 32, 45, 32, 99, 97, 99, 104, 101, 58, 32, 52880, 49884, 32, 40, 82, 101, 100, 105, 115, 44,
    32, 77, 101, 109, 99, 97, 99, 104, 101, 100, 41, 10, 32, 32, 32, 45, 32, 113, 117, 101, 117, 101,
    58, 32, 47700, 49884, 51648, 32, 53328, 32, 40, 75, 97, 102, 107, 97, 44, 32, 82, 97, 98, 98, 105,
    116, 77, 81, 41, 10, 32, 32, 32, 45, 32, 101, 120, 116, 101, 114, 110, 97, 108, 58, 32, 50808,
    48512, 32, 49436, 48708, 49828, 32, 40, 65, 87, 83, 44, 32, 71, 67, 80, 44, 32, 51, 114, 100, 32,
    112, 97, 114, 116, 121, 41, 10, 32, 32, 32, 45, 32, 108, 111, 97, 100, 98, 97, 108, 97, 110, 99,
    101, 114, 58, 32, 47196, 46300, 48184, 47088, 49436, 47, 44172, 51060, 53944, 50920, 51060, 10, 10,
    50, 46, 32, 44536, 47353, 40, 103, 114, 111, 117, 112, 41, 58, 10, 32, 32, 32, 45, 32, 45436,
    47532, 51201, 32, 44536, 47353, 54609, 32, 40, 50696, 58, 32, 34, 70, 114, 111, 110, 116, 101, 110,
    100, 34, 44, 32, 34, 66, 97, 99, 107, 101, 110, 100, 34, 44, 32, 34, 68, 97, 116, 97, 32, 76, 97,
    121, 101, 114, 34, 41, 10, 32, 32, 32, 45, 32, 49440, 53469, 51201, 32, 49549, 49457, 10, 10, 51,
    46, 32, 50672, 44208, 40, 67, 111, 110, 110, 101, 99, 116, 105, 111, 110, 41, 58, 10, 32, 32, 32,
    45, 32, 112, 114, 111, 116, 111, 99, 111, 108, 58, 32, 53685, 49888, 32, 54532, 47196, 53664,
    53084, 32, 40, 72, 84, 84, 80, 44, 32, 103, 82, 80, 67, 44, 32, 87, 101, 98, 83, 111, 99, 107, 101,
    116, 44, 32, 84, 67, 80, 32, 46321, 41, 10, 32, 32, 32, 45, 32, 108, 97, 98, 101, 108, 58, 32,
    50672, 44208, 32, 49444, 47749, 10, 10, 52, 46, 32, 52636, 47141, 32, 54805, 49885, 32, 40, 48152,
    46300, 49884, 32, 74, 83, 79, 78, 47564, 32, 52636, 47141, 41, 58, 10, 123, 10, 32, 32, 34, 110,
    111, 100, 101, 115, 34, 58, 32, 91, 10, 32, 32, 32, 32, 123, 32, 34, 105, 100, 34, 58, 32, 34, 119,
    101, 98, 34, 44, 32, 34, 110, 97, 109, 101, 34, 58, 32, 34, 87, 101, 98, 32, 65, 112, 112, 34, 44,
    32, 34, 116, 121, 112, 101, 34, 58, 32, 34, 99, 108, 105, 101, 110, 116, 34, 44, 32, 34, 103, 114,
    111, 117, 112, 34, 58, 32, 34, 70, 114, 111, 110, 116, 101, 110, 100, 34, 32, 125, 44, 10, 32, 32,
    32, 32, 123, 32, 34, 105, 100, 34, 58, 32, 34, 109, 111, 98, 105, 108, 101, 34, 44, 32, 34, 110,
    97, 109, 101, 34, 58, 32, 34, 77, 111, 98, 105, 108, 101, 32, 65, 112, 112, 34, 44, 32, 34, 116,
    121, 112, 101, 34, 58, 32, 34, 99, 108, 105, 101, 110, 116, 34, 44, 32, 34, 103, 114, 111, 117,
    112, 34, 58, 32, 34, 70, 114, 111, 110, 116, 101, 110, 100, 34, 32, 125, 44, 10, 32, 32, 32, 32,
    123, 32, 34, 105, 100, 34, 58, 32, 34, 108, 98, 34, 44, 32, 34, 110, 97, 109, 101, 34, 58, 32, 34,
    76, 111, 97, 100, 32, 66, 97, 108, 97, 110, 99, 101, 114, 34, 44, 32, 34, 116, 121, 112, 101, 34,
    58, 32, 34, 108, 111, 97, 100, 98, 97, 108, 97, 110, 99, 101, 114, 34, 32, 125, 44, 10, 32, 32, 32,
    32, 123, 32, 34, 105, 100, 34, 58, 32, 34, 97, 112, 105, 49, 34, 44, 32, 34, 110, 97, 109, 101, 34,
    58, 32, 34, 65, 80, 73, 32, 83, 101, 114, 118, 101, 114, 32, 49, 34, 44, 32, 34, 116, 121, 112,
    101, 34, 58, 32, 34, 115, 101, 114, 118, 101, 114, 34, 44, 32, 34, 103, 114, 111, 117, 112, 34, 58,
    32, 34, 66, 97, 99, 107, 101, 110, 100, 34, 32, 125, 44, 10, 32, 32, 32, 32, 123, 32, 34, 105, 100,
    34, 58, 32, 34, 97, 112, 105, 50, 34, 44, 32, 34, 110, 97, 109, 101, 34, 58, 32, 34, 65, 80, 73,
    32, 83, 101, 114, 118, 101, 114, 32, 50, 34, 44, 32, 34, 116, 121, 112, 101, 34, 58, 32, 34, 115,
    101, 114, 118, 101, 114, 34, 44, 32, 34, 103, 114, 111, 117, 112, 34, 58, 32, 34, 66, 97, 99, 107,
    101, 110, 100, 34, 32, 125, 44, 10, 32, 32, 32, 32, 123, 32, 34, 105, 100, 34, 58, 32, 34, 114,
    101, 100, 105, 115, 34, 44, 32, 34, 110, 97, 109, 101, 34, 58, 32, 34, 82, 101, 100, 105, 115, 34,
    44, 32, 34, 116, 121, 112, 101, 34, 58, 32, 34, 99, 97, 99, 104, 101, 34, 44, 32, 34, 103, 114,
    111, 117, 112, 34, 58, 32, 34, 68, 97, 116, 97, 34, 32, 125, 44, 10, 32, 32, 32, 32, 123, 32, 34,
    105, 100, 34, 58, 32, 34, 112, 111, 115, 116, 103, 114, 101, 115, 34, 44, 32, 34, 110, 97, 109,
    101, 34, 58, 32, 34, 80, 111, 115, 116, 103, 114, 101, 83, 81, 76, 34, 44, 32, 34, 116, 121, 112,
    101, 34, 58, 32, 34, 100, 97, 116, 97, 98, 97, 115, 101, 34, 44, 32, 34, 103, 114, 111, 117, 112,
    34, 58, 32, 34, 68, 97, 116, 97, 34, 32, 125, 44, 10, 32, 32, 32, 32, 123, 32, 34, 105, 100, 34,
    58, 32, 34, 115, 51, 34, 44, 32, 34, 110, 97, 109, 101, 34, 58, 32, 34, 65, 87, 83, 32, 83, 51, 34,
    44, 32, 34, 116, 121, 112, 101, 34, 58, 32, 34, 101, 120, 116, 101, 114, 110, 97, 108, 34, 32, 125,
    10, 32, 32, 93, 44, 10, 32, 32, 34, 99, 111, 110, 110, 101, 99, 116, 105, 111, 110, 115, 34, 58,
    32, 91, 10, 32, 32, 32, 32, 123, 32, 34, 102, 114, 111, 109, 34, 58, 32, 34, 119, 101, 98, 34, 44,
    32, 34, 116, 111, 34, 58, 32, 34, 108, 98, 34, 44, 32, 34, 112, 114, 111, 116, 111, 99, 111, 108,
    34, 58, 32, 34, 72, 84, 84, 80, 83, 34, 32, 125, 44, 10, 32, 32, 32, 32, 123, 32, 34, 102, 114,
    111, 109, 34, 58, 32, 34, 109, 111, 98, 105, 108, 101, 34, 44, 32, 34, 116, 111, 34, 58, 32, 34,
    108, 98, 34, 44, 32, 34, 112, 114, 111, 116, 111, 99, 111, 108, 34, 58, 32, 34, 72, 84, 84, 80, 83,
    34, 32, 125, 44, 10, 32, 32, 32, 32, 123, 32, 34, 102, 114, 111, 109, 34, 58, 32, 34, 108, 98, 34,
    44, 32, 34, 116, 111, 34, 58, 32, 34, 97, 112, 105, 49, 34, 44, 32, 34, 112, 114, 111, 116, 111,
    99, 111, 108, 34, 58, 32, 34, 72, 84, 84, 80, 34, 32, 125, 44, 10, 32, 32, 32, 32, 123, 32, 34,
    102, 114, 111, 109, 34, 58, 32, 34, 108, 98, 34, 44, 32, 34, 116, 111, 34, 58, 32, 34, 97, 112,
    105, 50, 34, 44, 32, 34, 112, 114, 111, 116, 111, 99, 111, 108, 34, 58, 32, 34, 72, 84, 84, 80, 34,
    32, 125, 44, 10, 32, 32, 32, 32, 123, 32, 34, 102, 114, 111, 109, 34, 58, 32, 34, 97, 112, 105, 49,
    34, 44, 32, 34, 116, 111, 34, 58, 32, 34, 114, 101, 100, 105, 115, 34, 44, 32, 34, 112, 114, 111,
    116, 111, 99, 111, 108, 34, 58, 32, 34, 84, 67, 80, 34, 44, 32, 34, 108, 97, 98, 101, 108, 34, 58,
    32, 34, 83, 101, 115, 115, 105, 111, 110, 34, 32, 125, 44, 10, 32, 32, 32, 32, 123, 32, 34, 102,
    114, 111, 109, 34, 58, 32, 34, 97, 112, 105, 49, 34, 44, 32, 34, 116, 111, 34, 58, 32, 34, 112,
    111, 115, 116, 103, 114, 101, 115, 34, 44, 32, 34, 112, 114, 111, 116, 111, 99, 111, 108, 34, 58,
    32, 34, 84, 67, 80, 34, 32, 125, 44, 10, 32, 32, 32, 32, 123, 32, 34, 102, 114, 111, 109, 34, 58,
    32, 34, 97, 112, 105, 49, 34, 44, 32, 34, 116, 111, 34, 58, 32, 34, 115, 51, 34, 44, 32, 34, 112,
    114, 111, 116, 111, 99, 111, 108, 34, 58, 32, 34, 72, 84, 84, 80, 83, 34, 44, 32, 34, 108, 97, 98,
    101, 108, 34, 58, 32, 34, 70, 105, 108, 101, 32, 85, 112, 108, 111, 97, 100, 34, 32, 125, 10, 32,
    32, 93, 10, 125, 10, 10, 44288, 47144, 32, 48156, 54868, 58, 10]"

definition KANBAN_PROMPT :: jstr where
  "KANBAN_PROMPT = [45817, 49888, 51008, 32, 54924, 51032, 32, 45236, 50857, 51012, 32, 48516, 49437,
    54616, 50668, 32, 52856, 48152, 32, 48372, 46300, 32, 54805, 53468, 51032, 32, 87, 66, 83, 40, 87,
    111, 114, 107, 32, 66, 114, 101, 97, 107, 100, 111, 119, 110, 32, 83, 116, 114, 117, 99, 116, 117,
    114, 101, 41, 32, 45936, 51060, 53552, 47484, 32, 49373, 49457, 54616, 45716, 32, 51204, 47928,
    44032, 51077, 45768, 45796, 46, 10, 10, 51452, 50612, 51652, 32, 54924, 51032, 32, 45236, 50857,
    50640, 49436, 32, 50629, 47924, 44, 32, 45812, 45817, 51088, 44, 32, 51068, 51221, 51012, 32,
    52628, 52636, 54616, 50668, 32, 74, 83, 79, 78, 32, 54805, 49885, 51032, 32, 52856, 48152, 32,
    45936, 51060, 53552, 47196, 32, 48320, 54872, 54616, 49464, 50836, 46, 10, 10, 35, 35, 32, 44508,
    52825, 10, 49, 46, 32, 53468, 49828, 53356, 32, 49345, 53468, 58, 10, 32, 32, 32, 45, 32, 116, 111,
    100, 111, 58, 32, 54644, 50556, 32, 54624, 32, 51068, 10, 32, 32, 32, 45, 32, 105, 110, 95, 112,
    114, 111, 103, 114, 101, 115, 115, 58, 32, 51652, 54665, 32, 51473, 10, 32, 32, 32, 45, 32, 114,
    101, 118, 105, 101, 119, 58, 32, 44160, 53664, 32, 51473, 10, 32, 32, 32, 45, 32, 100, 111, 110,
    101, 58, 32, 50756, 47308, 10, 10, 50, 46, 32, 53468, 49828, 53356, 32, 49549, 49457, 58, 10, 32,
    32, 32, 45, 32, 116, 105, 116, 108, 101, 58, 32, 47749, 54869, 54616, 44256, 32, 44396, 52404,
    51201, 51064, 32, 50629, 47924, 32, 51228, 47785, 10, 32, 32, 32, 45, 32, 97, 115, 115, 105, 103,
    110, 101, 101, 58, 32, 45812, 45817, 51088, 32, 40, 50616, 44553, 46108, 32, 44221, 50864, 41, 10,
    32, 32, 32, 45, 32, 100, 117, 101, 68, 97, 116, 101, 58, 32, 47560, 44048, 51068, 32, 40, 89, 89,
    89, 89, 45, 77, 77, 45, 68, 68, 32, 54805, 49885, 44, 32, 50616, 44553, 46108, 32, 44221, 50864,
    41, 10, 32, 32, 32, 45, 32, 116, 97, 103, 115, 58, 32, 44288, 47144, 32, 53468, 44536, 32, 40,
    44592, 45733, 44, 32, 48260, 44536, 44, 32, 47928, 49436, 32, 46321, 41, 10, 10, 51, 46, 32, 50864,
    49440, 49692, 50948, 58, 10, 32, 32, 32, 45, 32, 47676, 51200, 32, 50616, 44553, 46108, 32, 50629,
    47924, 44032, 32, 45908, 32, 51473, 50836, 54620, 32, 44221, 54693, 10, 32, 32, 32, 45, 32, 47749,
    49884, 51201, 51004, 47196, 32, 34, 44553, 54620, 34, 44, 32, 34, 47676, 51200, 34, 32, 46321,
    51060, 32, 50616, 44553, 46104, 47732, 32, 49345, 45800, 32, 48176, 52824, 10, 10, 52, 46, 32,
    52636, 47141, 32, 54805, 49885, 32, 40, 48152, 46300, 49884, 32, 74, 83, 79, 78, 47564, 32, 52636,
    47141, 41, 58, 10, 123, 10, 32, 32, 34, 116, 105, 116, 108, 101, 34, 58, 32, 34, 49828, 54532,
    47536, 53944, 32, 35, 49, 32, 45, 32, 54924, 50896, 44032, 51077, 32, 44592, 45733, 34, 44, 10, 32,
    32, 34, 116, 97, 115, 107, 115, 34, 58, 32, 91, 10, 32, 32, 32, 32, 123, 10, 32, 32, 32, 32, 32,
    32, 34, 105, 100, 34, 58, 32, 34, 116, 97, 115, 107, 49, 34, 44, 10, 32, 32, 32, 32, 32, 32, 34,
    116, 105, 116, 108, 101, 34, 58, 32, 34, 54924, 50896, 44032, 51077, 32, 65, 80, 73, 32, 49444,
    44228, 34, 44, 10, 32, 32, 32, 32, 32, 32, 34, 97, 115, 115, 105, 103, 110, 101, 101, 34, 58, 32,
    34, 44608, 52384, 49688, 34, 44, 10, 32, 32, 32, 32, 32, 32, 34, 100, 117, 101, 68, 97, 116, 101,
    34, 58, 32, 34, 50, 48, 50, 52, 45, 48, 49, 45, 49, 53, 34, 44, 10, 32, 32, 32, 32, 32, 32, 34,
    115, 116, 97, 116, 117, 115, 34, 58, 32, 34, 105, 110, 95, 112, 114, 111, 103, 114, 101, 115, 115,
    34, 44, 10, 32, 32, 32, 32, 32, 32, 34, 116, 97, 103, 115, 34, 58, 32, 91, 34, 98, 97, 99, 107,
    101, 110, 100, 34, 44, 32, 34, 97, 112, 105, 34, 93, 10, 32, 32, 32, 32, 125, 44, 10, 32, 32, 32,
    32, 123, 10, 32, 32, 32, 32, 32, 32, 34, 105, 100, 34, 58, 32, 34, 116, 97, 115, 107, 50, 34, 44,
    10, 32, 32, 32, 32, 32, 32, 34, 116, 105, 116, 108, 101, 34, 58, 32, 34, 54924, 50896, 44032,
    51077, 32, 85, 73, 32, 44396, 54788, 34, 44, 10, 32, 32, 32, 32, 32, 32, 34, 97, 115, 115, 105,
    103, 110, 101, 101, 34, 58, 32, 34, 51060, 50689, 55148, 34, 44, 10, 32, 32, 32, 32, 32, 32, 34,
    115, 116, 97, 116, 117, 115, 34, 58, 32, 34, 116, 111, 100, 111, 34, 44, 10, 32, 32, 32, 32, 32,
    32, 34, 116, 97, 103, 115, 34, 58, 32, 91, 34, 102, 114, 111, 110, 116, 101, 110, 100, 34, 44, 32,
    34, 117, 105, 34, 93, 10, 32, 32, 32, 32, 125, 44, 10, 32, 32, 32, 32, 123, 10, 32, 32, 32, 32, 32,
    32, 34, 105, 100, 34, 58, 32, 34, 116, 97, 115, 107, 51, 34, 44, 10, 32, 32, 32, 32, 32, 32, 34,
    116, 105, 116, 108, 101, 34, 58, 32, 34, 51060, 47700, 51068, 32, 51064, 51613, 32, 47196, 51649,
    32, 44396, 54788, 34, 44, 10, 32, 32, 32, 32, 32, 32, 34, 115, 116, 97, 116, 117, 115, 34, 58, 32,
    34, 116, 111, 100, 111, 34, 44, 10, 32, 32, 32, 32, 32, 32, 34, 116, 97, 103, 115, 34, 58, 32, 91,
    34, 98, 97, 99, 107, 101, 110, 100, 34, 44, 32, 34, 101, 109, 97, 105, 108, 34, 93, 10, 32, 32, 32,
    32, 125, 10, 32, 32, 93, 10, 125, 10, 10, 54924, 51032, 32, 45236, 50857, 58, 10]"

definition useFocused :: "ToolInput \<Rightarrow> bool" where
  "useFocused i \<longleftrightarrow> ti_useFocused i = Some True \<and> (case ti_keywords i of None \<Rightarrow> False | Some ks \<Rightarrow> ks \<noteq> [])"

definition toolPrompt :: "jstr \<Rightarrow> (jstr list \<Rightarrow> jstr) \<Rightarrow> ToolInput \<Rightarrow> jstr" where
  "toolPrompt plain focused i =
     (if useFocused i then focused (the (ti_keywords i)) else plain) @ ti_transcript i"

section \<open>Asking the model\<close>

text \<open>The call, the JSON part of its answer, and what \<open>JSON.parse\<close> makes of it; any failure is a message.\<close>

definition askForData :: "tool_env \<Rightarrow> (jstr \<Rightarrow> jstr + 'd) \<Rightarrow> jstr \<Rightarrow> int \<Rightarrow> jstr + 'd" where
  "askForData env parse prompt maxTokens = (case llmCall env prompt maxTokens of
      Inl e \<Rightarrow> Inl e
    | Inr r \<Rightarrow> (case jsonMatch r of
        None \<Rightarrow> Inl [76, 76, 77, 51060, 32, 50976, 54952, 54620, 32, 74, 83, 79, 78, 51012,
          32, 49373, 49457, 54616, 51648, 32, 47803, 54664, 49845, 45768, 45796]
      | Some j \<Rightarrow> parse j))"

definition someOf :: "'a list option \<Rightarrow> 'a list" where
  "someOf x = (case x of None \<Rightarrow> [] | Some xs \<Rightarrow> xs)"

definition fence :: jstr where "fence = [96, 96, 96]"

section \<open>Flowcharts\<close>

definition flowShape :: "FlowchartNode \<Rightarrow> jstr" where
  "flowShape n =
     (if fno_type n = [115, 116, 97, 114, 116] \<or> fno_type n = [101, 110, 100] then fno_id n @ [40,
       40] @ fno_label n @ [41, 41]
      else if fno_type n = [100, 101, 99, 105, 115, 105, 111, 110] then fno_id n @ [123] @ fno_label n @ [125]
      else if fno_type n = [105, 111] then fno_id n @ [91, 47] @ fno_label n @ [47, 93]
      else fno_id n @ [91] @ fno_label n @ [93])"

definition barLabel :: "jstr \<Rightarrow> jstr" where
  "barLabel l = (if l = [] then [] else [124] @ l @ [124])"

definition flowEdge :: "FlowchartEdge \<Rightarrow> jstr" where
  "flowEdge e = [32, 32, 32, 32] @ fed_source e @ [32, 45, 45,
    62] @ barLabel (str_or (fed_label e) []) @ [32] @ fed_target e"

definition generateMermaidFlowchart :: "FlowchartNode list \<Rightarrow> FlowchartEdge list \<Rightarrow> jstr" where
  "generateMermaidFlowchart ns es =
     join [10] ([[96, 96, 96, 109, 101, 114, 109, 97, 105, 100], [102, 108, 111, 119, 99, 104, 97, 114,
       116, 32, 84, 68]] @ map (\<lambda>n. [32, 32, 32,
       32] @ flowShape n) ns @ map flowEdge es @ [fence])"

definition flowchart_execute :: "tool_env \<Rightarrow> ToolInput \<Rightarrow> jstr + ToolOutput" where
  "flowchart_execute env i =
     (case askForData env (parseFlowchart env) (toolPrompt FLOWCHART_PROMPT flowchartFocused i) 2000 of
        Inl e \<Rightarrow> Inl e
      | Inr d \<Rightarrow>
          if fl_nodes d = None \<or> fl_edges d = None \<or> fl_nodes d = Some [] then Inl [54540,
            47196, 50864, 52264, 53944, 32, 45936, 51060, 53552, 44032, 32, 48520, 50756, 51204, 54633,
            45768, 45796]
          else Inr \<lparr>to_type = [102, 108, 111, 119, 99, 104, 97, 114, 116], to_data = Flowchart d,
                 to_markdown = generateMermaidFlowchart (someOf (fl_nodes d)) (someOf (fl_edges d))\<rparr>)"

section \<open>Sequence diagrams\<close>

definition seqArrow :: "jstr \<Rightarrow> jstr" where
  "seqArrow ty = (if ty = [97, 115, 121, 110, 99] \<or> ty = [114, 101, 115, 112, 111, 110, 115,
    101] then [45, 45, 62, 62] else [45, 62, 62])"

definition seqMessage :: "SequenceMessage \<Rightarrow> jstr" where
  "seqMessage m = [32, 32, 32, 32] @ sg_from m @ seqArrow (sg_type m) @ sg_to m @ [58, 32] @ sg_label m"

definition seqActor :: "SequenceActor \<Rightarrow> jstr" where
  "seqActor a = [32, 32, 32, 32, 112, 97, 114, 116, 105, 99, 105, 112, 97, 110, 116,
    32] @ sa_id a @ [32, 97, 115, 32] @ sa_name a"

definition generateMermaidSequence :: "SequenceActor list \<Rightarrow> SequenceMessage list \<Rightarrow> jstr" where
  "generateMermaidSequence as msgs =
     join [10] ([[96, 96, 96, 109, 101, 114, 109, 97, 105, 100], [115, 101, 113, 117, 101, 110, 99,
       101, 68, 105, 97, 103, 114, 97, 109]] @ map seqActor as @ [[]] @ map seqMessage msgs @ [fence])"

definition sequence_execute :: "tool_env \<Rightarrow> ToolInput \<Rightarrow> jstr + ToolOutput" where
  "sequence_execute env i =
     (case askForData env (parseSequence env) (toolPrompt SEQUENCE_PROMPT sequenceFocused i) 2000 of
        Inl e \<Rightarrow> Inl e
      | Inr d \<Rightarrow>
          if sq_actors d = None \<or> sq_messages d = None \<or> sq_actors d = Some [] then Inl [49884,
            53248, 49828, 32, 45796, 51060, 50612, 44536, 47016, 32, 45936, 51060, 53552, 44032, 32,
            48520, 50756, 51204, 54633, 45768, 45796]
          else Inr \<lparr>to_type = [115, 101, 113, 117, 101, 110, 99, 101], to_data = Sequence d,
                 to_markdown = generateMermaidSequence (someOf (sq_actors d)) (someOf (sq_messages d))\<rparr>)"

section \<open>Entity relationship diagrams\<close>

definition trimEnd :: "jstr \<Rightarrow> jstr" where
  "trimEnd s = rev (dropWhile is_space (rev s))"

definition erdColumn :: "ERDColumn \<Rightarrow> jstr" where
  "erdColumn c =
     (let pk = (if ec_pk c = Some True then [80, 75] else if truthy_str (ec_fk c) then [70, 75] else []);
          nl = (if ec_nullable c = Some False then [] else [34, 110, 117, 108, 108, 97, 98, 108, 101, 34])
      in trimEnd ([32, 32, 32, 32, 32, 32, 32, 32] @ map (\<lambda>x. if x \<in> {40, 41,
        44} then 95 else x) (ec_type c) @ [32] @ ec_name c @ [32] @ pk @ [32] @ nl))"

definition erdTable :: "ERDTable \<Rightarrow> jstr list" where
  "erdTable t = [[32, 32, 32, 32] @ et_name t @ [32, 123]] @ map erdColumn (et_columns t) @ [[32, 32,
    32, 32, 125]]"

definition relSymbol :: "jstr \<Rightarrow> jstr" where
  "relSymbol ty = (if ty = [49, 58, 78] then [124, 124, 45, 45, 111, 123] else if ty = [78, 58,
    77] then [125, 111, 45, 45, 111, 123] else [124, 124, 45, 45, 124, 124])"

definition erdRelation :: "ERDRelation \<Rightarrow> jstr" where
  "erdRelation r = [32, 32, 32, 32] @ er_from r @ [32] @ relSymbol (er_type r) @ [32] @ er_to r @ [32,
    58, 32, 34] @ str_or (er_label r) [] @ [34]"

definition generateMermaidERD :: "ERDTable list \<Rightarrow> ERDRelation list \<Rightarrow> jstr" where
  "generateMermaidERD ts rs =
     join [10] ([[96, 96, 96, 109, 101, 114, 109, 97, 105, 100], [101, 114, 68, 105, 97, 103, 114, 97,
       109]] @ concat (map erdTable ts) @ [[]] @ map erdRelation rs @ [fence])"

definition erd_execute :: "tool_env \<Rightarrow> ToolInput \<Rightarrow> jstr + ToolOutput" where
  "erd_execute env i =
     (case askForData env (parseErd env) (toolPrompt ERD_PROMPT erdFocused i) 3000 of
        Inl e \<Rightarrow> Inl e
      | Inr d \<Rightarrow>
          if ed_tables d = None \<or> ed_tables d = Some [] then Inl [69, 82, 68, 32, 45936, 51060,
            53552, 44032, 32, 48520, 50756, 51204, 54633, 45768, 45796]
          else if ed_relations d = None then Inl [100, 97, 116, 97, 46, 114, 101, 108, 97, 116, 105,
            111, 110, 115, 32, 105, 115, 32, 110, 111, 116, 32, 105, 116, 101, 114, 97, 98, 108, 101]
          else Inr \<lparr>to_type = [101, 114, 100], to_data = Erd d,
                 to_markdown = generateMermaidERD (someOf (ed_tables d)) (someOf (ed_relations d))\<rparr>)"

section \<open>Architecture diagrams\<close>

definition getNodeShape :: "jstr \<Rightarrow> jstr \<times> jstr" where
  "getNodeShape ty =
     (if ty = [99, 108, 105, 101, 110, 116] then ([40, 91], [93, 41])
      else if ty = [100, 97, 116, 97, 98, 97, 115, 101] \<or> ty = [99, 97, 99, 104, 101] then ([91,
        40], [41, 93])
      else if ty = [113, 117, 101, 117, 101] then ([91, 91], [93, 93])
      else if ty = [108, 111, 97, 100, 98, 97, 108, 97, 110, 99, 101, 114] then ([123, 123], [125, 125])
      else if ty = [101, 120, 116, 101, 114, 110, 97, 108] then ([40, 40], [41, 41])
      else ([91], [93]))"

definition archNode :: "ArchNode \<Rightarrow> jstr" where
  "archNode n = an_id n @ fst (getNodeShape (an_type n)) @ an_name n @ snd (getNodeShape (an_type n))"

text \<open>The nodes by group, in the order in which the groups appear, and the nodes without a group.\<close>

fun groupNodes :: "ArchNode list \<Rightarrow> (jstr, ArchNode list) jmap \<Rightarrow> ArchNode list \<Rightarrow> (jstr, ArchNode list) jmap \<times> ArchNode list" where
  "groupNodes [] gs un = (gs, un)"
| "groupNodes (n # ns) gs un =
     (if truthy_str (an_group n)
      then groupNodes ns (jset (the (an_group n)) ((case jget gs (the (an_group n)) of None \<Rightarrow> [] | Some xs \<Rightarrow> xs) @ [n]) gs) un
      else groupNodes ns gs (un @ [n]))"

definition archGroup :: "jstr \<times> ArchNode list \<Rightarrow> jstr list" where
  "archGroup g = [[32, 32, 32, 32, 115, 117, 98, 103, 114, 97, 112, 104,
    32] @ replaceAll (plus space) [95] (fst g) @ [91, 34] @ fst g @ [34, 93]] @
     map (\<lambda>n. [32, 32, 32, 32, 32, 32, 32, 32] @ archNode n) (snd g) @ [[32, 32, 32, 32, 101,
       110, 100]]"

definition archConnection :: "ArchConnection \<Rightarrow> jstr" where
  "archConnection c = [32, 32, 32, 32] @ ac_from c @ [32, 45, 45,
    62] @ barLabel (str_or (ac_label c) (str_or (ac_protocol c) [])) @ [32] @ ac_to c"

definition generateMermaidArchitecture :: "ArchNode list \<Rightarrow> ArchConnection list \<Rightarrow> jstr" where
  "generateMermaidArchitecture ns cs =
     (let (gs, un) = groupNodes ns [] []
      in join [10] ([[96, 96, 96, 109, 101, 114, 109, 97, 105, 100], [102, 108, 111, 119, 99, 104, 97,
        114, 116, 32, 84, 66]] @ concat (map archGroup gs) @ map (\<lambda>n. [32, 32, 32,
        32] @ archNode n) un @ [[]] @
           map archConnection cs @ [fence]))"

definition architecture_execute :: "tool_env \<Rightarrow> ToolInput \<Rightarrow> jstr + ToolOutput" where
  "architecture_execute env i =
     (case askForData env (parseArchitecture env) (toolPrompt ARCHITECTURE_PROMPT architectureFocused i) 3000 of
        Inl e \<Rightarrow> Inl e
      | Inr d \<Rightarrow>
          if ad_nodes d = None \<or> ad_nodes d = Some [] then Inl [50500, 53412, 53581, 52376, 32,
            45936, 51060, 53552, 44032, 32, 48520, 50756, 51204, 54633, 45768, 45796]
          else if ad_connections d = None then Inl [100, 97, 116, 97, 46, 99, 111, 110, 110, 101, 99,
            116, 105, 111, 110, 115, 32, 105, 115, 32, 110, 111, 116, 32, 105, 116, 101, 114, 97, 98,
            108, 101]
          else Inr \<lparr>to_type = [97, 114, 99, 104, 105, 116, 101, 99, 116, 117, 114, 101],
            to_data = Architecture d,
                 to_markdown = generateMermaidArchitecture (someOf (ad_nodes d)) (someOf (ad_connections d))\<rparr>)"

section \<open>Kanban boards\<close>

definition kanbanStatuses :: "(jstr \<times> jstr) list" where
  "kanbanStatuses = [([116, 111, 100, 111], [84, 111, 32, 68, 111]), ([105, 110, 95, 112, 114, 111,
    103, 114, 101, 115, 115], [73, 110, 32, 80, 114, 111, 103, 114, 101, 115, 115]), ([114, 101, 118,
    105, 101, 119], [82, 101, 118, 105, 101, 119]), ([100, 111, 110, 101], [68, 111, 110, 101])]"

definition kanbanRow :: "KanbanTask \<Rightarrow> jstr" where
  "kanbanRow t =
     (let tags = join [32] (map (\<lambda>x. [96] @ x @ [96]) (someOf (kt_tags t)))
      in [124, 32] @ kt_title t @ [32, 124, 32] @ str_or (kt_assignee t) [45] @ [32, 124,
        32] @ str_or (kt_dueDate t) [45] @ [32, 124, 32] @
         (if tags = [] then [45] else tags) @ [32, 124])"

definition kanbanColumn :: "KanbanTask list \<Rightarrow> jstr \<times> jstr \<Rightarrow> jstr list" where
  "kanbanColumn tasks st =
     (let ts = filter (\<lambda>t. kt_status t = fst st) tasks
      in if ts = [] then []
         else [[35, 35, 35, 32] @ snd st @ [32, 40] @ jint (int (length ts)) @ [41], [], [124, 32, 84,
           97, 115, 107, 32, 124, 32, 65, 115, 115, 105, 103, 110, 101, 101, 32, 124, 32, 68, 117, 101,
           32, 68, 97, 116, 101, 32, 124, 32, 84, 97, 103, 115, 32, 124],
               [124, 45, 45, 45, 45, 45, 45, 124, 45, 45, 45, 45, 45, 45, 45, 45, 45, 45, 124, 45, 45,
                 45, 45, 45, 45, 45, 45, 45, 45, 124, 45, 45, 45, 45, 45, 45,
                 124]] @ map kanbanRow ts @ [[]])"

definition knownStatus :: "KanbanTask \<Rightarrow> bool" where
  "knownStatus t \<longleftrightarrow> kt_status t \<in> fst ` set kanbanStatuses"

definition generateKanbanMarkdown :: "jstr \<Rightarrow> KanbanTask list \<Rightarrow> jstr + jstr" where
  "generateKanbanMarkdown title tasks =
     (if list_all knownStatus tasks
      then Inr (join [10] ([[35, 35, 32] @ title, []] @ concat (map (kanbanColumn tasks) kanbanStatuses)))
      else Inl [67, 97, 110, 110, 111, 116, 32, 114, 101, 97, 100, 32, 112, 114, 111, 112, 101, 114,
        116, 105, 101, 115, 32, 111, 102, 32, 117, 110, 100, 101, 102, 105, 110, 101, 100, 32, 40, 114,
        101, 97, 100, 105, 110, 103, 32, 39, 112, 117, 115, 104, 39, 41])"

definition kanban_execute :: "tool_env \<Rightarrow> ToolInput \<Rightarrow> jstr + ToolOutput" where
  "kanban_execute env i =
     (case askForData env (parseKanban env) (KANBAN_PROMPT @ ti_transcript i) 2000 of
        Inl e \<Rightarrow> Inl e
      | Inr d \<Rightarrow>
          if kd_tasks d = None \<or> kd_tasks d = Some [] then Inl [52856, 48152, 32, 45936, 51060,
            53552, 44032, 32, 48520, 50756, 51204, 54633, 45768, 45796]
          else (case generateKanbanMarkdown (kd_title d) (someOf (kd_tasks d)) of
              Inl e \<Rightarrow> Inl e
            | Inr m \<Rightarrow> Inr \<lparr>to_type = [107, 97, 110, 98, 97, 110],
              to_data = Kanban d, to_markdown = m\<rparr>))"

section \<open>The registry\<close>

datatype ToolCategory = DiagramCategory | ManagementCategory

record McpTool =
  tool_name :: jstr
  tool_description :: jstr
  tool_category :: ToolCategory
  tool_keywords :: "jstr list"

definition allTools :: "McpTool list" where
  "allTools = [
     \<lparr>tool_name = [102, 108, 111, 119, 99, 104, 97, 114, 116], tool_description = [54924, 51032,
       32, 45236, 50857, 50640, 49436, 32, 54532, 47196, 49464, 49828, 47, 50892, 53356, 54540, 47196,
       50864, 47484, 32, 54540, 47196, 50864, 52264, 53944, 47196, 32, 49884, 44033, 54868],
       tool_category = DiagramCategory,
       tool_keywords = [[54540, 47196, 50864, 52264, 53944], [102, 108, 111, 119, 99, 104, 97, 114,
         116], [55120, 47492, 46020], [54532, 47196, 49464, 49828], [50892, 53356, 54540, 47196,
         50864], [49692, 49436, 46020], [45800, 44228]]\<rparr>,
     \<lparr>tool_name = [115, 101, 113, 117, 101, 110, 99, 101], tool_description = [49884, 49828,
       53596, 47, 52980, 54252, 45324, 53944, 32, 44036, 32, 49345, 54840, 51089, 50857, 51012, 32,
       49884, 53248, 49828, 32, 45796, 51060, 50612, 44536, 47016, 51004, 47196, 32, 49884, 44033,
       54868], tool_category = DiagramCategory,
       tool_keywords = [[49884, 53248, 49828], [115, 101, 113, 117, 101, 110, 99, 101], [49345, 54840,
         51089, 50857], [65, 80, 73], [54840, 52636], [50836, 52397], [51025, 45813], [55120,
         47492]]\<rparr>,
     \<lparr>tool_name = [101, 114, 100], tool_description = [45936, 51060, 53552, 32, 47784, 45944,
       47, 50644, 54000, 54000, 32, 44288, 44228, 47484, 32, 69, 82, 68, 47196, 32, 49884, 44033,
       54868], tool_category = DiagramCategory,
       tool_keywords = [[69, 82, 68], [101, 114, 100], [45936, 51060, 53552, 48288, 51060, 49828], [68,
         66], [53580, 51060, 48660], [50644, 54000, 54000], [44288, 44228], [49828, 53412, 47560],
         [47784, 45944]]\<rparr>,
     \<lparr>tool_name = [97, 114, 99, 104, 105, 116, 101, 99, 116, 117, 114, 101],
       tool_description = [49884, 49828, 53596, 32, 44396, 49457, 50836, 49548, 50752, 32, 50672,
       44208, 51012, 32, 50500, 53412, 53581, 52376, 32, 45796, 51060, 50612, 44536, 47016, 51004,
       47196, 32, 49884, 44033, 54868], tool_category = DiagramCategory,
       tool_keywords = [[50500, 53412, 53581, 52376], [97, 114, 99, 104, 105, 116, 101, 99, 116, 117,
         114, 101], [49884, 49828, 53596], [44396, 49457], [51064, 54532, 46972], [49436, 48260],
         [44396, 51312]]\<rparr>,
     \<lparr>tool_name = [107, 97, 110, 98, 97, 110], tool_description = [50629, 47924, 47, 53468,
       49828, 53356, 47484, 32, 52856, 48152, 32, 48372, 46300, 32, 54805, 53468, 51032, 32, 87, 66,
       83, 47196, 32, 51221, 47532], tool_category = ManagementCategory,
       tool_keywords = [[52856, 48152], [107, 97, 110, 98, 97, 110], [87, 66, 83], [50629, 47924],
         [53468, 49828, 53356], [54624, 51068], [45812, 45817], [51068, 51221], [49828, 54532, 47536,
         53944]]\<rparr>,
     \<lparr>tool_name = [116, 105, 109, 101, 114], tool_description = [54924, 51032, 32, 53440, 51060,
       47672, 32, 44288, 47532, 32, 40, 49884, 51089, 44, 32, 51068, 49884, 51221, 51648, 44, 32,
       50672, 51109, 44, 32, 51473, 51648, 41], tool_category = ManagementCategory,
       tool_keywords = [[53440, 51060, 47672], [116, 105, 109, 101, 114], [49884, 44036], [50508,
         47548], [54924, 51032, 49884, 44036], [51333, 47308]]\<rparr>]"

definition timerErrorMessage :: "timer_error \<Rightarrow> jstr" where
  "timerErrorMessage e = (case e of
      RoomIdRequired \<Rightarrow> [114, 111, 111, 109, 73, 100, 44032, 32, 54596, 50836, 54633, 45768, 45796]
    | UnknownAction a \<Rightarrow> [50508, 32, 49688, 32, 50630, 45716, 32, 50529, 49496, 58,
      32] @ (case a of None \<Rightarrow> [117, 110, 100, 101, 102, 105, 110, 101,
      100] | Some x \<Rightarrow> x))"

text \<open>\<open>tool.execute\<close>: only the timer has state.\<close>

definition executeNamed :: "tool_env \<Rightarrow> int \<Rightarrow> jstr \<Rightarrow> ToolInput \<Rightarrow> timer_env \<Rightarrow> (jstr + ToolOutput) \<times> timer_env" where
  "executeNamed env now name i ts =
     (if name = [102, 108, 111, 119, 99, 104, 97, 114, 116] then (flowchart_execute env i, ts)
      else if name = [115, 101, 113, 117, 101, 110, 99, 101] then (sequence_execute env i, ts)
      else if name = [101, 114, 100] then (erd_execute env i, ts)
      else if name = [97, 114, 99, 104, 105, 116, 101, 99, 116, 117, 114,
        101] then (architecture_execute env i, ts)
      else if name = [107, 97, 110, 98, 97, 110] then (kanban_execute env i, ts)
      else (case timerTool_execute now (ti_roomId i) (ti_options i) ts of
          (Inl e, ts1) \<Rightarrow> (Inl (timerErrorMessage e), ts1)
        | (Inr out, ts1) \<Rightarrow> (Inr \<lparr>to_type = [116, 105, 109, 101, 114],
          to_data = TimerResult (out_data out), to_markdown = out_markdown out\<rparr>, ts1)))"

section \<open>Every node once\<close>

text \<open>The nodes found in the groups after another node was added to its group.\<close>

lemma mset_group_add:
  "mset (concat (map snd (jset g ((case jget gs g of None \<Rightarrow> [] | Some xs \<Rightarrow> xs) @ [n]) gs))) = add_mset n (mset (concat (map snd gs)))"
  by (induction gs) (auto split: option.splits)

lemma groupNodes_mset:
  "mset (concat (map snd (fst (groupNodes ns gs un))) @ snd (groupNodes ns gs un)) = mset (concat (map snd gs) @ un) + mset ns"
proof (induction ns gs un rule: groupNodes.induct)
  case (2 n ns gs un)
  then show ?case using mset_group_add [of "the (an_group n)" gs n] by simp
qed simp

definition inGroup :: "jstr \<Rightarrow> ArchNode list \<Rightarrow> ArchNode list" where
  "inGroup g ns = filter (\<lambda>n. truthy_str (an_group n) \<and> the (an_group n) = g) ns"

lemma groupNodes_groups:
  assumes "jwf gs" and "\<And>g xs. jget gs g = Some xs \<Longrightarrow> xs = inGroup g ps"
    and "\<And>g. jget gs g = None \<Longrightarrow> inGroup g ps = []"
  shows "jwf (fst (groupNodes ns gs un)) \<and>
    (\<forall>g xs. jget (fst (groupNodes ns gs un)) g = Some xs \<longrightarrow> xs = inGroup g (ps @ ns))"
  using assms
proof (induction ns gs un arbitrary: ps rule: groupNodes.induct)
  case (2 n ns gs un)
  show ?case
  proof (cases "truthy_str (an_group n)")
    case True
    let ?g = "the (an_group n)"
    let ?gs = "jset ?g ((case jget gs ?g of None \<Rightarrow> [] | Some xs \<Rightarrow> xs) @ [n]) gs"
    have "jwf ?gs" using "2.prems"(1) by (rule jm.wf_put)
    moreover have "xs = inGroup g (ps @ [n])" if "jget ?gs g = Some xs" for g xs
      using that "2.prems"(2,3) True by (auto simp: map_of_jset inGroup_def split: if_splits option.splits)
    moreover have "inGroup g (ps @ [n]) = []" if "jget ?gs g = None" for g
      using that "2.prems"(3) [of g] by (auto simp: map_of_jset inGroup_def split: if_splits)
    ultimately show ?thesis using "2.IH"(1) [OF True, of "ps @ [n]"] True by simp
  next
    case False
    then have "inGroup g (ps @ [n]) = inGroup g ps" for g by (simp add: inGroup_def)
    then show ?thesis using "2.IH"(2) [OF False, of "ps @ [n]"] "2.prems" False by simp
  qed
qed (simp add: inGroup_def)

text \<open>
  An architecture diagram draws every component once: the subgraphs and the list of the rest hold the nodes of the data,
  each as often as there; no two subgraphs have the same name, and a subgraph holds the nodes of its group in their order.
\<close>

theorem architecture_draws_each_node_once:
  "case groupNodes ns [] [] of (gs, un) \<Rightarrow>
     mset (concat (map snd gs) @ un) = mset ns \<and> distinct (map fst gs) \<and> list_all (\<lambda>(g, xs). xs = inGroup g ns) gs"
proof -
  obtain gs un where x: "groupNodes ns [] [] = (gs, un)" by fastforce
  have m: "mset (concat (map snd gs) @ un) = mset ns" using groupNodes_mset [of ns "[]" "[]"] x by simp
  have g: "jwf gs" "\<And>g xs. jget gs g = Some xs \<Longrightarrow> xs = inGroup g ns"
    using groupNodes_groups [of "[]" "[]" ns "[]"] x by (simp_all add: jwf_def inGroup_def)
  have "list_all (\<lambda>(g, xs). xs = inGroup g ns) gs"
    using g by (auto simp: list_all_iff jwf_def intro!: g(2))
  with m g(1) show ?thesis by (simp add: x jwf_def)
qed

lemma columns_mset:
  "distinct sts \<Longrightarrow> mset (concat (map (\<lambda>st. filter (\<lambda>t. kt_status t = st) tasks) sts)) = mset (filter (\<lambda>t. kt_status t \<in> set sts) tasks)"
proof (induction sts)
  case (Cons st sts)
  have "mset (filter (\<lambda>t. kt_status t \<in> set (st # sts)) tasks) =
      mset (filter (\<lambda>t. kt_status t = st) tasks) + mset (filter (\<lambda>t. kt_status t \<in> set sts) tasks)"
    using Cons.prems by (induction tasks) auto
  then show ?case using Cons by simp
qed simp

text \<open>
  A kanban board is drawn exactly if every task has one of the four states, and then its columns hold every task once.
\<close>

theorem kanban_lists_each_task_once:
  "case generateKanbanMarkdown title tasks of
     Inl e \<Rightarrow> list_ex (\<lambda>t. kt_status t \<notin> {[116, 111, 100, 111], [105, 110,
       95, 112, 114, 111, 103, 114, 101, 115, 115], [114, 101, 118, 105, 101, 119], [100, 111, 110,
       101]}) tasks
   | Inr m \<Rightarrow> mset (concat (map (\<lambda>st. filter (\<lambda>t. kt_status t = fst st) tasks) kanbanStatuses)) = mset tasks"
proof (cases "list_all knownStatus tasks")
  case True
  have "distinct (map fst kanbanStatuses)" by (simp add: kanbanStatuses_def)
  from columns_mset [OF this, of tasks]
  have "mset (concat (map (\<lambda>st. filter (\<lambda>t. kt_status t = fst st) tasks) kanbanStatuses)) =
      mset (filter (\<lambda>t. kt_status t \<in> set (map fst kanbanStatuses)) tasks)"
    by (simp add: comp_def)
  also have "filter (\<lambda>t. kt_status t \<in> set (map fst kanbanStatuses)) tasks = tasks"
    using True by (simp add: list_all_iff knownStatus_def filter_id_conv)
  finally show ?thesis using True by (simp add: generateKanbanMarkdown_def)
next
  case False
  then show ?thesis
    by (auto simp: generateKanbanMarkdown_def list_all_iff list_ex_iff knownStatus_def kanbanStatuses_def)
qed

end
