(* ===== verification/McpService.thy ===== *)
theory McpService
  imports Diagrams McpClient RoomState RagClient JsDate
begin

text \<open>
  The tool service and its endpoints, \<open>src/mcp/mcp.service.ts\<close> and \<open>src/mcp/mcp.controller.ts\<close>: diagrams with a cache of five
  minutes, external tools, saving and sharing, tools by keyword, and diagrams from the record of the meeting and the
  contexts the voice bot collected. \<open>generateDiagram\<close> reads the clock when it looks into the cache and again when the tool
  is done. The call of an external tool is a request of \<open>McpClient\<close>; its result is read from the settled promise.
\<close>

section \<open>Data\<close>

record InternalToolResult =
  ir_success :: bool
  ir_output :: "ToolOutput option"
  ir_error :: "jstr option"

record ExternalToolResult =
  xr_success :: bool
  xr_content :: "jstr option"
  xr_error :: "jstr option"

record DiagramCacheEntry =
  ce_result :: InternalToolResult
  ce_timestamp :: int
  ce_transcriptHash :: jstr

record mcp_service =
  diagramCache :: "(jstr, DiagramCacheEntry) jmap"
  timers :: timer_env

definition CACHE_TTL :: int where "CACHE_TTL = 5 * 60 * 1000"

definition toolFailed :: "jstr \<Rightarrow> InternalToolResult" where
  "toolFailed e = \<lparr>ir_success = False, ir_output = None, ir_error = Some e\<rparr>"

definition toolDone :: "ToolOutput \<Rightarrow> InternalToolResult" where
  "toolDone out = \<lparr>ir_success = True, ir_output = Some out, ir_error = None\<rparr>"

section \<open>Diagrams\<close>

definition cleanupCache :: "int \<Rightarrow> mcp_service \<Rightarrow> mcp_service" where
  "cleanupCache now s = s\<lparr>diagramCache := filter (\<lambda>e. \<not> now - ce_timestamp (snd e) > CACHE_TTL) (diagramCache s)\<rparr>"

definition hashTranscript :: "jstr \<Rightarrow> jstr" where
  "hashTranscript t = take 100 t @ [95] @ jint (int (length t))"

definition cacheKey :: "jstr \<Rightarrow> jstr \<Rightarrow> jstr" where
  "cacheKey name t = name @ [95] @ hashTranscript t"

definition findTool :: "jstr \<Rightarrow> McpTool option" where
  "findTool name = List.find (\<lambda>t. tool_name t = name) allTools"

definition cachedResult :: "int \<Rightarrow> jstr \<Rightarrow> mcp_service \<Rightarrow> InternalToolResult option" where
  "cachedResult now key s = (case jget (diagramCache s) key of
      None \<Rightarrow> None
    | Some e \<Rightarrow> if now - ce_timestamp e < CACHE_TTL then Some (ce_result e) else None)"

definition runTool :: "tool_env \<Rightarrow> int \<Rightarrow> int \<Rightarrow> jstr \<Rightarrow> ToolInput \<Rightarrow> mcp_service \<Rightarrow> InternalToolResult \<times> mcp_service" where
  "runTool env now now2 name i s = (case executeNamed env now name i (timers s) of
      (Inl e, ts) \<Rightarrow> (toolFailed e, s\<lparr>timers := ts\<rparr>)
    | (Inr out, ts) \<Rightarrow> (toolDone out, s\<lparr>timers := ts, diagramCache := jset (cacheKey name (ti_transcript i))
          \<lparr>ce_result = toolDone out, ce_timestamp = now2, ce_transcriptHash = hashTranscript (ti_transcript i)\<rparr> (diagramCache s)\<rparr>))"

definition generateDiagram :: "tool_env \<Rightarrow> int \<Rightarrow> int \<Rightarrow> jstr \<Rightarrow> ToolInput \<Rightarrow> mcp_service \<Rightarrow> InternalToolResult \<times> mcp_service" where
  "generateDiagram env now now2 name i s =
     (if findTool name = None then (toolFailed ([45796, 51060, 50612, 44536, 47016, 32, 46020, 44396,
       47484, 32, 52286, 51012, 32, 49688, 32, 50630, 49845, 45768, 45796, 58, 32] @ name), s)
      else case cachedResult now (cacheKey name (ti_transcript i)) s of
          Some r \<Rightarrow> (r, s)
        | None \<Rightarrow> runTool env now now2 name i s)"

definition getInternalTools :: "(jstr \<times> jstr \<times> ToolCategory) list" where
  "getInternalTools = map (\<lambda>t. (tool_name t, tool_description t, tool_category t)) allTools"

section \<open>External tools\<close>

text \<open>\<open>callExternalTool\<close> after its await: \<open>None\<close> while the promise is pending.\<close>

definition contentText :: "ToolContent list option \<Rightarrow> jstr option" where

      "contentText c = map_option (\<lambda>xs. join [10] (map (\<lambda>x. case tc_text x of None \<Rightarrow> [] | Some t \<Rightarrow> t) (filter (\<lambda>x. tc_type x = [116,
    101, 120, 116]) xs))) c"

definition firstText :: "ToolContent list option \<Rightarrow> jstr option" where
  "firstText c = (case c of Some (x # _) \<Rightarrow> tc_text x | _ \<Rightarrow> None)"

definition externalFailed :: "jstr \<Rightarrow> ExternalToolResult" where
  "externalFailed e = \<lparr>xr_success = False, xr_content = None, xr_error = Some e\<rparr>"

fun externalResult :: "mcp_promise \<Rightarrow> ExternalToolResult option" where
  "externalResult MPending = None"
| "externalResult (MRejected e) = Some (externalFailed e)"
| "externalResult (MResolved None) = Some (externalFailed [67, 97, 110, 110, 111, 116, 32, 114, 101,
  97, 100, 32, 112, 114, 111, 112, 101, 114, 116, 105, 101, 115, 32, 111, 102, 32, 117, 110, 100, 101,
  102, 105, 110, 101, 100, 32, 40, 114, 101, 97, 100, 105, 110, 103, 32, 39, 105, 115, 69, 114, 114,
  111, 114, 39, 41])"
| "externalResult (MResolved (Some v)) =
     Some (if va_isError v then externalFailed (str_or (firstText (va_content v)) [85, 110, 107, 110,
       111, 119, 110, 32, 101, 114, 114, 111, 114])
       else \<lparr>xr_success = True, xr_content = contentText (va_content v), xr_error = None\<rparr>)"

definition callExternalTool :: "int \<Rightarrow> jstr \<Rightarrow> jstr \<Rightarrow> jstr option \<Rightarrow> mcp_st \<Rightarrow> nat \<times> mcp_st" where
  "callExternalTool now server tool args s = callTool now server tool args s"

section \<open>Saving and sharing\<close>

text \<open>
  The diagram, and the promise of the external call if one was made. \<open>stringify\<close> is \<open>JSON.stringify\<close> of the arguments.
\<close>

definition plainInput :: "jstr \<Rightarrow> ToolInput" where
  "plainInput t = \<lparr>ti_transcript = t, ti_roomId = None, ti_keywords = None, ti_useFocused = None,
     ti_options = \<lparr>opt_action = None, opt_targetMinutes = None, opt_warningMinutes = None, opt_minutes = None\<rparr>\<rparr>"

definition fileName :: "int \<Rightarrow> jstr option \<Rightarrow> jstr \<Rightarrow> jstr" where
  "fileName now roomId ty = str_or roomId [109, 101, 101, 116, 105, 110, 103] @ [95] @ ty @ [95] @
     map (\<lambda>c. if c = 58 \<or> c = 46 then 45 else c) (toISOString now) @ [46, 109, 100]"

definition withConnected :: "jstr \<Rightarrow> jstr \<Rightarrow> (ToolOutput \<Rightarrow> jstr) \<Rightarrow> int \<Rightarrow> InternalToolResult \<Rightarrow> mcp_st \<Rightarrow> nat option \<times> mcp_st" where
  "withConnected server tool args now d mc = (case ir_output d of
      None \<Rightarrow> (None, mc)
    | Some out \<Rightarrow>
        if \<not> ir_success d \<or> getConnectionState server mc \<noteq> McpConnected then (None, mc)
        else let (p, mc1) = callExternalTool now server tool (Some (args out)) mc in (Some p, mc1))"

definition generateAndSaveToFile :: "tool_env \<Rightarrow> (jstr \<Rightarrow> jstr \<Rightarrow> jstr) \<Rightarrow> int \<Rightarrow> int \<Rightarrow> jstr \<Rightarrow> jstr \<Rightarrow> jstr option \<Rightarrow> mcp_service \<Rightarrow> mcp_st \<Rightarrow>
    (InternalToolResult \<times> nat option) \<times> mcp_service \<times> mcp_st" where
  "generateAndSaveToFile env stringify now now2 ty t roomId s mc =
     (let (d, s1) = generateDiagram env now now2 ty (plainInput t) s;
          (p, mc1) = withConnected [102, 105, 108, 101, 115, 121, 115, 116, 101, 109] [119, 114, 105,
            116, 101, 95, 102, 105, 108,
            101] (\<lambda>out. stringify (fileName now2 roomId ty) (to_markdown out)) now2 d mc
      in ((d, p), s1, mc1))"

definition generateAndShareToSlack :: "tool_env \<Rightarrow> (jstr \<Rightarrow> jstr \<Rightarrow> jstr) \<Rightarrow> int \<Rightarrow> int \<Rightarrow> jstr \<Rightarrow> jstr \<Rightarrow> jstr \<Rightarrow> mcp_service \<Rightarrow> mcp_st \<Rightarrow>
    (InternalToolResult \<times> nat option) \<times> mcp_service \<times> mcp_st" where
  "generateAndShareToSlack env stringify now now2 ty t channel s mc =
     (let (d, s1) = generateDiagram env now now2 ty (plainInput t) s;
          (p, mc1) = withConnected [115, 108, 97, 99, 107] [115, 108, 97, 99, 107, 95, 112, 111, 115,
            116, 95, 109, 101, 115, 115, 97, 103, 101]
            (\<lambda>out. stringify channel ([49352, 32] @ ty @ [32, 45796, 51060, 50612, 44536,
              47016, 51060, 32, 49373, 49457, 46104, 50632, 49845, 45768, 45796, 58, 10,
              10] @ to_markdown out)) now2 d mc
      in ((d, p), s1, mc1))"

section \<open>Tools by keyword\<close>

definition toolMatches :: "jstr \<Rightarrow> McpTool \<Rightarrow> bool" where
  "toolMatches k t \<longleftrightarrow> to_lower (tool_name t) = k \<or> list_ex (\<lambda>w. to_lower w = k \<or> str_includes k (to_lower w)) (tool_keywords t)"

definition findDiagramToolByKeyword :: "jstr \<Rightarrow> McpTool option" where
  "findDiagramToolByKeyword keyword = List.find (toolMatches (trim (to_lower keyword))) allTools"

section \<open>Endpoints\<close>

definition roomInput :: "jstr \<Rightarrow> jstr option \<Rightarrow> ToolInput" where
  "roomInput t roomId = (plainInput t)\<lparr>ti_roomId := roomId\<rparr>"

definition http_generateDiagram :: "tool_env \<Rightarrow> int \<Rightarrow> int \<Rightarrow> jstr \<Rightarrow> jstr \<Rightarrow> jstr option \<Rightarrow> mcp_service \<Rightarrow> InternalToolResult \<times> mcp_service" where
  "http_generateDiagram env now now2 ty t roomId s = generateDiagram env now now2 ty (roomInput t roomId) s"

definition http_saveDiagram :: "tool_env \<Rightarrow> (jstr \<Rightarrow> jstr \<Rightarrow> jstr) \<Rightarrow> int \<Rightarrow> int \<Rightarrow> jstr \<Rightarrow> jstr \<Rightarrow> jstr option \<Rightarrow> mcp_service \<Rightarrow> mcp_st \<Rightarrow>
    (InternalToolResult \<times> nat option) \<times> mcp_service \<times> mcp_st" where
  "http_saveDiagram env stringify now now2 ty mermaidCode roomId s mc =
     generateAndSaveToFile env stringify now now2 ty mermaidCode roomId s mc"

definition http_getTools :: "mcp_st \<Rightarrow> (jstr \<times> jstr \<times> ToolCategory) list \<times> (jstr, McpToolDefinition list option) jmap" where
  "http_getTools mc = (getInternalTools, getAllTools mc)"

definition http_generateByKeyword :: "tool_env \<Rightarrow> int \<Rightarrow> int \<Rightarrow> jstr \<Rightarrow> jstr \<Rightarrow> jstr option \<Rightarrow> mcp_service \<Rightarrow>
    (InternalToolResult \<times> jstr option) \<times> mcp_service" where
  "http_generateByKeyword env now now2 keyword t roomId s = (case findDiagramToolByKeyword keyword of
      None \<Rightarrow> ((toolFailed ([53412, 50892, 46300, 50752, 32, 47588, 52845, 46104, 45716, 32,
        46020, 44396, 47484, 32, 52286, 51012, 32, 49688, 32, 50630, 49845, 45768, 45796, 58,
        32] @ keyword), None), s)
    | Some tool \<Rightarrow> (let (r, s1) = generateDiagram env now now2 (tool_name tool) (roomInput t roomId) s in ((r, Some (tool_name tool)), s1)))"

record AutoSpeak =
  as_enabled :: bool
  as_triggers :: "jstr list"

definition http_setAutoSpeak :: "jstr \<Rightarrow> bool \<Rightarrow> jstr list option \<Rightarrow> (jstr, AutoSpeak) jmap \<Rightarrow> (jstr, AutoSpeak) jmap" where
  "http_setAutoSpeak roomId en triggers m = jset roomId
     \<lparr>as_enabled = en, as_triggers = (case triggers of None \<Rightarrow> [[98, 111, 97, 114,
       100, 95, 111, 112, 101, 110], [116, 97, 98, 95, 99, 104, 97, 110, 103, 101], [100, 105, 97, 103,
       114, 97, 109, 95, 117, 112, 100, 97, 116, 101]] | Some ts \<Rightarrow> ts)\<rparr> m"

definition http_notifyBoardState :: "bool \<times> bool \<times> jstr" where
  "http_notifyBoardState = (True, False, [97, 99, 107, 110, 111, 119, 108, 101, 100, 103, 101])"

definition http_getMeetingContext :: "jstr \<Rightarrow> rag_st \<Rightarrow> jstr \<times> jstr list" where
  "http_getMeetingContext roomId g =
     (if getBufferContent roomId g = [] then ([], [])
      else (getFormattedTranscript roomId g, uniq (map fst (getBufferContent roomId g))))"

definition http_getTranscript :: "jstr \<Rightarrow> rag_st \<Rightarrow> jstr" where
  "http_getTranscript roomId g = getFormattedTranscript roomId g"

definition http_getDiagramContexts :: "jstr \<Rightarrow> rooms \<Rightarrow> jstr + (DiagramType \<times> DiagramSummary) list" where
  "http_getDiagramContexts roomId st = (case getDiagramContextsSummary roomId st of
      None \<Rightarrow> Inl [48169, 51012, 32, 52286, 51012, 32, 49688, 32, 50630, 49845, 45768, 45796, 46]
    | Some s \<Rightarrow> Inr s)"

definition typeName :: "DiagramType \<Rightarrow> jstr" where
  "typeName ty = (case ty of flowchart \<Rightarrow> [102, 108, 111, 119, 99, 104, 97, 114,
    116] | sequence \<Rightarrow> [115, 101, 113, 117, 101, 110, 99, 101] | erd \<Rightarrow> [101,
    114, 100] | architecture \<Rightarrow> [97, 114, 99, 104, 105, 116, 101, 99, 116, 117, 114, 101])"

definition analyzePrompt :: "jstr \<Rightarrow> jstr" where
  "analyzePrompt transcript = [45796, 51020, 32, 54924, 51032, 32, 45236, 50857, 51012, 32, 48516,
    49437, 54616, 50668, 32, 50612, 46500, 32, 45796, 51060, 50612, 44536, 47016, 51060, 32, 51201,
    54633, 54620, 51648, 32, 54032, 45800, 54644, 51452, 49464, 50836, 46, 10, 10, 44032, 45733, 54620,
    32, 45796, 51060, 50612, 44536, 47016, 32, 53440, 51077, 58, 10, 45, 32, 102, 108, 111, 119, 99,
    104, 97, 114, 116, 58, 32, 54532, 47196, 49464, 49828, 44, 32, 50892, 53356, 54540, 47196, 50864,
    44, 32, 49692, 49436, 44, 32, 45800, 44228, 44032, 32, 51080, 45716, 32, 44221, 50864, 10, 45, 32,
    101, 114, 100, 58, 32, 50644, 54000, 54000, 44, 32, 53580, 51060, 48660, 44, 32, 45936, 51060,
    53552, 32, 47784, 45944, 44, 32, 44288, 44228, 44032, 32, 51080, 45716, 32, 44221, 50864, 10, 45,
    32, 115, 101, 113, 117, 101, 110, 99, 101, 58, 32, 65, 80, 73, 32, 54840, 52636, 44, 32, 49884,
    49828, 53596, 32, 44036, 32, 53685, 49888, 44, 32, 50836, 52397, 45, 51025, 45813, 32, 54056,
    53556, 51060, 32, 51080, 45716, 32, 44221, 50864, 10, 45, 32, 97, 114, 99, 104, 105, 116, 101, 99,
    116, 117, 114, 101, 58, 32, 49884, 49828, 53596, 32, 44396, 51312, 44, 32, 52980, 54252, 45324,
    53944, 44, 32, 49436, 48708, 49828, 32, 44396, 49457, 51060, 32, 51080, 45716, 32, 44221, 50864,
    10, 10, 54924, 51032, 32, 45236, 50857, 58, 10] @ transcript @ [10, 10, 51025, 45813, 32, 54805,
    49885, 32, 40, 74, 83, 79, 78, 32, 48176, 50676, 47564, 32, 52636, 47141, 41, 58, 10, 91, 34, 102,
    108, 111, 119, 99, 104, 97, 114, 116, 34, 44, 32, 34, 101, 114, 100, 34, 93, 10, 10, 51452, 51032,
    58, 10, 45, 32, 45236, 50857, 51060, 32, 54644, 45817, 32, 45796, 51060, 50612, 44536, 47016,
    50640, 32, 51201, 54633, 54620, 32, 44221, 50864, 50640, 47564, 32, 54252, 54632, 10, 45, 32,
    48712, 32, 48176, 50676, 32, 44032, 45733, 32, 40, 51201, 54633, 54620, 32, 45796, 51060, 50612,
    44536, 47016, 32, 50630, 51020, 41, 10, 45, 32, 48152, 46300, 49884, 32, 74, 83, 79, 78, 32, 48176,
    50676, 47564, 32, 52636, 47141]"

text \<open>\<open>match(/\[.*\]/s)\<close>: from the first opening to the last closing bracket.\<close>

definition bracketMatch :: "jstr \<Rightarrow> jstr option" where
  "bracketMatch s = (let t = dropWhile (\<lambda>c. c \<noteq> 91) s; u = rev (dropWhile (\<lambda>c. c \<noteq> 93) (rev t)) in if u = [] then None else Some u)"

definition analyzeDiagramTypes :: "tool_env \<Rightarrow> (jstr \<Rightarrow> jstr list option) \<Rightarrow> jstr \<Rightarrow> jstr list" where
  "analyzeDiagramTypes env parse transcript = (case llmCall env (analyzePrompt transcript) 200 of
      Inl _ \<Rightarrow> []
    | Inr r \<Rightarrow> (case Option.bind (bracketMatch r) parse of
        None \<Rightarrow> []
      | Some ts \<Rightarrow> filter (\<lambda>t. t \<in> {[102, 108, 111, 119, 99, 104, 97, 114, 116],
        [101, 114, 100], [115, 101, 113, 117, 101, 110, 99, 101], [97, 114, 99, 104, 105, 116, 101, 99,
        116, 117, 114, 101]}) ts))"

record FromContext =
  fc_diagrams :: "(jstr, jstr) jmap"
  fc_suggestedTypes :: "jstr list"
  fc_transcript :: jstr

definition typesWithContext :: "jstr \<Rightarrow> rooms \<Rightarrow> DiagramType list" where
  "typesWithContext roomId st = (case getDiagramContextsSummary roomId st of
      None \<Rightarrow> []
    | Some sm \<Rightarrow> filter (\<lambda>ty. case jget sm ty of None \<Rightarrow> False | Some d \<Rightarrow> hasContent d) [flowchart, sequence, erd, architecture])"

definition contextInput :: "jstr \<Rightarrow> rooms \<Rightarrow> jstr \<Rightarrow> jstr \<Rightarrow> ToolInput" where
  "contextInput roomId st transcript name =
     (let known = List.find (\<lambda>ty. typeName ty = name) [flowchart, sequence, erd, architecture];
          focused = (case known of None \<Rightarrow> False | Some ty \<Rightarrow> ty \<in> set (typesWithContext roomId st));
          target = (if focused then str_or (Option.bind known (\<lambda>ty. buildFocusedTranscript roomId ty st)) transcript else transcript);
          ks = (case Option.bind (getDiagramContextsSummary roomId st) (\<lambda>sm. Option.bind known (jget sm)) of
              None \<Rightarrow> [] | Some d \<Rightarrow> sum_keywords d)
      in (roomInput target (Some roomId))\<lparr>ti_keywords := Some ks, ti_useFocused := Some focused\<rparr>)"

text \<open>The diagrams one after the other; \<open>clock\<close> gives the two times of each.\<close>

fun generateAll :: "tool_env \<Rightarrow> (nat \<Rightarrow> int \<times> int) \<Rightarrow> nat \<Rightarrow> (jstr \<Rightarrow> ToolInput) \<Rightarrow> jstr list \<Rightarrow> (jstr, jstr) jmap \<Rightarrow> mcp_service \<Rightarrow>
    (jstr, jstr) jmap \<times> mcp_service" where
  "generateAll env clock k inp [] ds s = (ds, s)"
| "generateAll env clock k inp (name # names) ds s =
     (let (r, s1) = generateDiagram env (fst (clock k)) (snd (clock k)) name (inp name) s;
          ds1 = (case ir_output r of
              Some out \<Rightarrow> if ir_success r \<and> to_markdown out \<noteq> [] then jset name (to_markdown out) ds else ds
            | None \<Rightarrow> ds)
      in generateAll env clock (Suc k) inp names ds1 s1)"

definition generateFromContext :: "tool_env \<Rightarrow> (jstr \<Rightarrow> jstr list option) \<Rightarrow> (nat \<Rightarrow> int \<times> int) \<Rightarrow> jstr \<Rightarrow> rag_st \<Rightarrow> rooms \<Rightarrow> mcp_service \<Rightarrow>
    (jstr + FromContext) \<times> mcp_service" where
  "generateFromContext env parse clock roomId g st s =
     (let transcript = getFormattedTranscript roomId g
      in if trim transcript = [] then (Inl [54924, 51032, 32, 45236, 50857, 51060, 32, 50630, 49845,
        45768, 45796, 46, 32, 45824, 54868, 44032, 32, 51652, 54665, 46108, 32, 54980, 32, 45796,
        49884, 32, 49884, 46020, 54644, 51452, 49464, 50836, 46], s)
         else let present = map typeName (typesWithContext roomId st);
                  types = (if present \<noteq> [] then present else analyzeDiagramTypes env parse transcript);
                  (ds, s1) = generateAll env clock 0 (contextInput roomId st transcript) types [] s
              in (Inr \<lparr>fc_diagrams = ds, fc_suggestedTypes = types, fc_transcript = transcript\<rparr>, s1))"

definition explainPrompt :: "jstr \<Rightarrow> jstr \<Rightarrow> jstr" where
  "explainPrompt ty code = [45796, 51020, 32] @ ty @ [32, 45796, 51060, 50612, 44536, 47016, 51012, 32,
    44036, 45800, 54616, 44172, 32, 49444, 47749, 54644, 51452, 49464, 50836, 46, 32, 50, 45, 51,
    47928, 51109, 51004, 47196, 32, 54645, 49900, 47564, 32, 49444, 47749, 54616, 49464, 50836, 46, 10,
    10, 45796, 51060, 50612, 44536, 47016, 32, 53076, 46300, 58, 10] @ code @ [10, 10, 49444, 47749,
    58]"

definition http_explainDiagram :: "tool_env \<Rightarrow> jstr \<Rightarrow> jstr \<Rightarrow> jstr + jstr" where
  "http_explainDiagram env ty code = (case llmCall env (explainPrompt ty code) 300 of Inl e \<Rightarrow> Inl e | Inr r \<Rightarrow> Inr (trim r))"

section \<open>The cache\<close>

text \<open>
  A sequence of diagram requests. Each has its tool, its input, the answers of the language model, the time it looks into
  the cache and the time its tool ends. The trace keeps the state each request finds and its result.
\<close>

record diagram_op =
  do_env :: tool_env
  do_start :: int
  do_end :: int
  do_name :: jstr
  do_input :: ToolInput

definition diagramStep :: "diagram_op \<Rightarrow> mcp_service \<Rightarrow> InternalToolResult \<times> mcp_service" where
  "diagramStep x s = generateDiagram (do_env x) (do_start x) (do_end x) (do_name x) (do_input x) s"

definition ownResult :: "diagram_op \<Rightarrow> mcp_service \<Rightarrow> InternalToolResult" where
  "ownResult x s = fst (runTool (do_env x) (do_start x) (do_end x) (do_name x) (do_input x) s)"

fun diagramTrace :: "diagram_op list \<Rightarrow> mcp_service \<Rightarrow> (diagram_op \<times> mcp_service \<times> InternalToolResult) list" where
  "diagramTrace [] s = []"
| "diagramTrace (x # xs) s = (x, s, fst (diagramStep x s)) # diagramTrace xs (snd (diagramStep x s))"

text \<open>The same tool, and transcripts that agree in their first hundred characters and their length.\<close>

definition sameSketch :: "diagram_op \<Rightarrow> diagram_op \<Rightarrow> bool" where
  "sameSketch x y \<longleftrightarrow> do_name x = do_name y
     \<and> take 100 (ti_transcript (do_input x)) = take 100 (ti_transcript (do_input y))
     \<and> length (ti_transcript (do_input x)) = length (ti_transcript (do_input y))"

definition knownTool :: "diagram_op \<Rightarrow> bool" where
  "knownTool x \<longleftrightarrow> findTool (do_name x) \<noteq> None"

definition requestKey :: "diagram_op \<Rightarrow> jstr" where
  "requestKey x = cacheKey (do_name x) (ti_transcript (do_input x))"

lemma split_at_last:
  assumes "a @ x # b = a' @ x # b'" "x \<notin> set b" "x \<notin> set b'"
  shows "a = a' \<and> b = b'"
proof -
  have "rev b @ x # rev a = rev b' @ x # rev a'" using arg_cong [OF assms(1), of rev] by simp
  from split_at_first [OF this] assms(2,3) show ?thesis by simp
qed

lemma no_underscore_in_length: "95 \<notin> set (jint (int n))"
  using nat_digits_range [of n] by (auto simp: jint_def)

lemma jint_length_inj: "jint (int m) = jint (int n) \<Longrightarrow> m = n"
  by (metis digits_value_nat_digits jint_def nat_int of_nat_eq_iff of_nat_less_0_iff)

lemma hashTranscript_eq_iff:
  "hashTranscript t = hashTranscript u \<longleftrightarrow> take 100 t = take 100 u \<and> length t = length u"
  unfolding hashTranscript_def
  using split_at_last [of "take 100 t" 95 "jint (int (length t))" "take 100 u" "jint (int (length u))"]
  by (auto simp: no_underscore_in_length dest: jint_length_inj)

lemma tool_names_no_underscore: "list_all (\<lambda>t. 95 \<notin> set (tool_name t)) allTools"
  by code_simp

lemma findTool_no_underscore: "findTool name \<noteq> None \<Longrightarrow> 95 \<notin> set name"
  using tool_names_no_underscore unfolding findTool_def list_all_iff by (auto simp: find_None_iff)

lemma requestKey_eq: "knownTool x \<Longrightarrow> knownTool y \<Longrightarrow> requestKey x = requestKey y \<longleftrightarrow> sameSketch x y"
  using split_at_first [of "do_name x" 95 "hashTranscript (ti_transcript (do_input x))" "do_name y"
      "hashTranscript (ti_transcript (do_input y))"] findTool_no_underscore [of "do_name x"] findTool_no_underscore [of "do_name y"]
  by (auto simp: knownTool_def requestKey_def cacheKey_def sameSketch_def hashTranscript_eq_iff)

text \<open>Every entry of the cache is the successful result of an earlier request of the trace, stored when its tool ended.\<close>

definition cache_of :: "(diagram_op \<times> mcp_service) list \<Rightarrow> (jstr, DiagramCacheEntry) jmap \<Rightarrow> bool" where
  "cache_of past c \<longleftrightarrow> (\<forall>k e. jget c k = Some e \<longrightarrow>
     (\<exists>(y, sy) \<in> set past. knownTool y \<and> requestKey y = k \<and> ce_result e = ownResult y sy \<and>
        ir_success (ce_result e) \<and> ce_timestamp e = do_end y))"

lemma cache_ofD:
  assumes "cache_of past c" "jget c k = Some e"
  obtains y sy where "(y, sy) \<in> set past" "knownTool y" "requestKey y = k" "ce_result e = ownResult y sy"
    "ir_success (ce_result e)" "ce_timestamp e = do_end y"
  using assms unfolding cache_of_def by blast

lemma cache_of_weaken: "cache_of past c \<Longrightarrow> cache_of (past @ [p]) c"
  unfolding cache_of_def by fastforce

lemma cache_of_step:
  assumes "cache_of past (diagramCache s)"
  shows "cache_of (past @ [(x, s)]) (diagramCache (snd (diagramStep x s)))"
proof (cases "knownTool x \<and> cachedResult (do_start x) (requestKey x) s = None")
  case False
  then have "snd (diagramStep x s) = s"
    by (auto simp: diagramStep_def generateDiagram_def knownTool_def requestKey_def)
  then show ?thesis using cache_of_weaken [OF assms] by simp
next
  case True
  then have r: "diagramStep x s = runTool (do_env x) (do_start x) (do_end x) (do_name x) (do_input x) s"
    by (auto simp: diagramStep_def generateDiagram_def knownTool_def requestKey_def)
  show ?thesis
  proof (cases "executeNamed (do_env x) (do_start x) (do_name x) (do_input x) (timers s)")
    case (Pair v ts)
    show ?thesis
    proof (cases v)
      case (Inl e)
      then show ?thesis using Pair cache_of_weaken [OF assms] by (simp add: r runTool_def)
    next
      case (Inr out)
      let ?e = "\<lparr>ce_result = toolDone out, ce_timestamp = do_end x, ce_transcriptHash = hashTranscript (ti_transcript (do_input x))\<rparr>"
      have c: "diagramCache (snd (diagramStep x s)) = jset (requestKey x) ?e (diagramCache s)"
        and o: "ownResult x s = toolDone out"
        using Pair Inr by (simp_all add: r runTool_def requestKey_def ownResult_def)
      show ?thesis unfolding cache_of_def c
      proof (intro allI impI)
        fix k e assume g: "jget (jset (requestKey x) ?e (diagramCache s)) k = Some e"
        show "\<exists>(y, sy)\<in>set (past @ [(x, s)]). knownTool y \<and> requestKey y = k \<and> ce_result e = ownResult y sy \<and>
            ir_success (ce_result e) \<and> ce_timestamp e = do_end y"
        proof (cases "k = requestKey x")
          case True
          with g \<open>knownTool x \<and> _\<close> show ?thesis by (auto simp: o toolDone_def)
        next
          case False
          then have "jget (diagramCache s) k = Some e" using g by simp
          then show ?thesis using assms by (fastforce elim: cache_ofD)
        qed
      qed
    qed
  qed
qed

definition diagram_ok :: "(diagram_op \<times> mcp_service) list \<Rightarrow> diagram_op \<Rightarrow> mcp_service \<Rightarrow> InternalToolResult \<Rightarrow> bool" where
  "diagram_ok past x s r \<longleftrightarrow>
     (if \<not> knownTool x then \<not> ir_success r
      else r = ownResult x s \<or>
        (\<exists>(y, sy) \<in> set past. sameSketch y x \<and> r = ownResult y sy \<and> ir_success r \<and> do_start x - do_end y < CACHE_TTL))"

lemma diagram_ok_step:
  assumes "cache_of past (diagramCache s)"
  shows "diagram_ok past x s (fst (diagramStep x s))"
proof (cases "knownTool x")
  case False
  then show ?thesis by (simp add: diagram_ok_def diagramStep_def generateDiagram_def knownTool_def toolFailed_def)
next
  case known: True
  show ?thesis
  proof (cases "cachedResult (do_start x) (requestKey x) s")
    case None
    with known show ?thesis
      by (auto simp: diagram_ok_def diagramStep_def generateDiagram_def knownTool_def requestKey_def ownResult_def)
  next
    case (Some r)
    then obtain e where e: "jget (diagramCache s) (requestKey x) = Some e" "do_start x - ce_timestamp e < CACHE_TTL" "r = ce_result e"
      by (auto simp: cachedResult_def split: option.splits if_splits)
    from cache_ofD [OF assms e(1)] obtain y sy where y: "(y, sy) \<in> set past" "knownTool y" "requestKey y = requestKey x"
      "ce_result e = ownResult y sy" "ir_success (ce_result e)" "ce_timestamp e = do_end y" .
    have "fst (diagramStep x s) = r"
      using known Some by (auto simp: diagramStep_def generateDiagram_def knownTool_def requestKey_def)
    moreover have "sameSketch y x" using requestKey_eq [OF y(2) known] y(3) by simp
    ultimately show ?thesis using known y e unfolding diagram_ok_def by force
  qed
qed

lemma diagramTrace_ok:
  assumes "cache_of past (diagramCache s)" "i < length xs"
  shows "diagram_ok (past @ map (\<lambda>(y, sy, _). (y, sy)) (take i (diagramTrace xs s)))
    (xs ! i) (fst (snd (diagramTrace xs s ! i))) (snd (snd (diagramTrace xs s ! i)))"
  using assms
proof (induction xs arbitrary: past s i)
  case (Cons x xs)
  show ?case
  proof (cases i)
    case 0
    then show ?thesis using diagram_ok_step [OF Cons.prems(1)] by simp
  next
    case (Suc j)
    then show ?thesis using Cons.IH [OF cache_of_step [OF Cons.prems(1), of x], of j] Cons.prems(2) by simp
  qed
qed simp

text \<open>
  C20. What a diagram request returns, in any sequence of requests from an empty cache: a failure for an unknown tool, the
  result of its own run, or the successful result of an earlier run of the same tool, for a transcript with the same
  length and the same first hundred characters, that ended less than five minutes before. A failed run is never served
  again.
\<close>

theorem diagrams_fresh:
  assumes "i < length xs" and "diagramCache s = []"
  shows "diagram_ok (map (\<lambda>(y, sy, _). (y, sy)) (take i (diagramTrace xs s)))
    (xs ! i) (fst (snd (diagramTrace xs s ! i))) (snd (snd (diagramTrace xs s ! i)))"
  using diagramTrace_ok [of "[]" s i xs] assms by (simp add: cache_of_def)

definition demo_tools :: tool_env where
  "demo_tools = \<lparr>llmCall = (\<lambda>_ _. Inr [123, 125]), parseFlowchart = (\<lambda>_. Inl []), parseSequence = (\<lambda>_. Inl []), parseErd = (\<lambda>_. Inl []),
     parseArchitecture = (\<lambda>_. Inl []),
       parseKanban = (\<lambda>_. Inr \<lparr>kd_title = [51068],
       kd_tasks = Some [\<lparr>kt_id = [49], kt_title = [51068], kt_assignee = None,
       kt_dueDate = None, kt_status = [116, 111, 100, 111], kt_tags = None\<rparr>]\<rparr>)\<rparr>"

definition demo_request :: "int \<Rightarrow> diagram_op" where
  "demo_request t = \<lparr>do_env = demo_tools, do_start = t, do_end = t + 50, do_name = [107, 97,
    110, 98, 97, 110], do_input = plainInput [54624, 32, 51068]\<rparr>"

definition fresh_service :: mcp_service where
  "fresh_service = \<lparr>diagramCache = [], timers = init_env\<rparr>"

theorem diagrams_fresh_witness:
  "diagram_ok (map (\<lambda>(y, sy, _). (y, sy)) (take 1 (diagramTrace [demo_request 0, demo_request 100] fresh_service)))
     (demo_request 100) (fst (snd (diagramTrace [demo_request 0, demo_request 100] fresh_service ! 1)))
     (snd (snd (diagramTrace [demo_request 0, demo_request 100] fresh_service ! 1)))"
  using diagrams_fresh [of 1 "[demo_request 0, demo_request 100]" fresh_service] by (simp add: fresh_service_def)

text \<open>
  The key of the cache forgets the room, the keywords and everything after the first hundred characters: once a
  request succeeded, another request for the same tool within five minutes, from any room and with any transcript of the
  same length and beginning, gets the first one's diagram without asking the model.
\<close>

theorem sketch_shares_diagram:
  assumes "knownTool x" "sameSketch x y" "cachedResult (do_start x) (requestKey x) s = None"
    and "ir_success (fst (diagramStep x s))" "do_start y - do_end x < CACHE_TTL"
  shows "diagramStep y (snd (diagramStep x s)) = (fst (diagramStep x s), snd (diagramStep x s))"
proof -
  obtain v ts where v: "executeNamed (do_env x) (do_start x) (do_name x) (do_input x) (timers s) = (v, ts)" by fastforce
  have r: "diagramStep x s = runTool (do_env x) (do_start x) (do_end x) (do_name x) (do_input x) s"
    using assms(1,3) by (auto simp: diagramStep_def generateDiagram_def knownTool_def requestKey_def)
  obtain out where out: "v = Inr out" using assms(4) v by (cases v) (auto simp: r runTool_def toolFailed_def)
  have k: "knownTool y" using assms(1,2) by (simp add: knownTool_def sameSketch_def)
  have "requestKey y = requestKey x" using requestKey_eq [OF assms(1) k] assms(2) by simp
  then have "cachedResult (do_start y) (requestKey y) (snd (diagramStep x s)) = Some (fst (diagramStep x s))"
    using v out assms(5) by (simp add: r runTool_def cachedResult_def requestKey_def)
  then show ?thesis using k
    by (auto simp: diagramStep_def generateDiagram_def knownTool_def requestKey_def)
qed

definition long_request :: "int \<Rightarrow> jstr option \<Rightarrow> jstr \<Rightarrow> diagram_op" where
  "long_request t r ending = \<lparr>do_env = demo_tools, do_start = t, do_end = t + 50,
    do_name = [107, 97, 110, 98, 97, 110],
     do_input = roomInput (replicate 100 97 @ ending) r\<rparr>"

theorem sketch_shares_diagram_witness:
  "diagramStep (long_request 100 (Some [98]) [50556]) (snd (diagramStep (long_request 0 (Some [97]) [44032]) fresh_service)) =
     (fst (diagramStep (long_request 0 (Some [97]) [44032]) fresh_service),
      snd (diagramStep (long_request 0 (Some [97]) [44032]) fresh_service))"
  by (rule sketch_shares_diagram; code_simp)

section \<open>Keywords\<close>

text \<open>The empty keyword is part of every keyword: the first tool of the registry is used.\<close>

theorem empty_keyword_is_flowchart:
  "findDiagramToolByKeyword [] = Some (hd allTools) \<and> tool_name (hd allTools) = [102, 108, 111, 119, 99, 104, 97, 114, 116]"
  by code_simp

text \<open>Every tool is found by its own name.\<close>

theorem tool_found_by_own_name: "list_all (\<lambda>t. map_option tool_name (findDiagramToolByKeyword (tool_name t)) = Some (tool_name t)) allTools"
  by code_simp

section \<open>The timer through the endpoints\<close>

lemma executeNamed_timer:
  "executeNamed env now [116, 105, 109, 101,
    114] i ts = (case timerTool_execute now (ti_roomId i) (ti_options i) ts of
      (Inl e, ts1) \<Rightarrow> (Inl (timerErrorMessage e), ts1)
    | (Inr out, ts1) \<Rightarrow> (Inr \<lparr>to_type = [116, 105, 109, 101, 114],
      to_data = TimerResult (out_data out), to_markdown = out_markdown out\<rparr>, ts1))"
  by (simp add: executeNamed_def)

text \<open>
  No endpoint passes options, so the timer tool fails on every request through them, for every room, and no timer
  changes.
\<close>

theorem timer_unreachable:
  assumes "jget (diagramCache s) (cacheKey [116, 105, 109, 101, 114] t) = None"
  shows "\<not> ir_success (fst (http_generateDiagram env now now2 [116, 105, 109, 101,
    114] t roomId s)) \<and>
    snd (http_generateDiagram env now now2 [116, 105, 109, 101, 114] t roomId s) = s"
proof -
  have n: "findTool [116, 105, 109, 101, 114] \<noteq> None" by code_simp
  let ?i = "roomInput t roomId"
  have "isl (fst (timerTool_execute now (ti_roomId ?i) (ti_options ?i) (timers s)))
      \<and> snd (timerTool_execute now (ti_roomId ?i) (ti_options ?i) (timers s)) = timers s"
    by (auto simp: timerTool_execute_def Let_def roomInput_def plainInput_def)
  then obtain e where "timerTool_execute now (ti_roomId ?i) (ti_options ?i) (timers s) = (Inl e, timers s)"
    by (metis isl_def prod.collapse)
  then have "generateDiagram env now now2 [116, 105, 109, 101,
    114] ?i s = (toolFailed (timerErrorMessage e), s)"
    using n assms by (auto simp: generateDiagram_def runTool_def executeNamed_timer cachedResult_def roomInput_def plainInput_def)
  then show ?thesis by (simp add: http_generateDiagram_def toolFailed_def)
qed

theorem timer_unreachable_witness:
  "\<not> ir_success (fst (http_generateDiagram demo_tools 0 0 [116, 105, 109, 101,
    114] [] (Some [97]) fresh_service))"
  using timer_unreachable [of fresh_service "[]" demo_tools 0 0 "Some [97]"] by (simp add: fresh_service_def)

section \<open>Saving a diagram\<close>

text \<open>Saving draws again: the endpoint hands the Mermaid code on as a transcript.\<close>

lemma save_generates_again:
  "fst (fst (http_saveDiagram env stringify now now2 ty code roomId s mc)) = fst (generateDiagram env now now2 ty (plainInput code) s)"
  by (simp add: http_saveDiagram_def generateAndSaveToFile_def split_beta)

section \<open>Diagrams from the meeting\<close>

lemma fst_set_jset: "fst ` set (jset k v m) = insert k (fst ` set m)"
  by (induction m) auto

lemma generateAll_keys:
  "x \<in> fst ` set (fst (generateAll env clock k inp names ds s)) \<Longrightarrow> x \<in> set names \<or> x \<in> fst ` set ds"
proof (induction names arbitrary: k ds s)
  case (Cons n names)
  obtain r s1 where g: "generateDiagram env (fst (clock k)) (snd (clock k)) n (inp n) s = (r, s1)" by fastforce
  obtain ds1 where d: "fst (generateAll env clock k inp (n # names) ds s) = fst (generateAll env clock (Suc k) inp names ds1 s1)"
    "fst ` set ds1 \<subseteq> insert n (fst ` set ds)"
  proof
    show "fst (generateAll env clock k inp (n # names) ds s) = fst (generateAll env clock (Suc k) inp names
        (case ir_output r of Some out \<Rightarrow> if ir_success r \<and> to_markdown out \<noteq> [] then jset n (to_markdown out) ds else ds
         | None \<Rightarrow> ds) s1)" by (simp add: g)
  qed (auto simp: fst_set_jset split: option.splits)
  show ?case using Cons.IH [OF Cons.prems [unfolded d(1)]] d(2) by auto
qed simp

lemma analyze_known: "set (analyzeDiagramTypes env parse t) \<subseteq> typeName ` UNIV"
proof -
  have "typeName ` UNIV = {[102, 108, 111, 119, 99, 104, 97, 114, 116], [101, 114, 100], [115, 101,
    113, 117, 101, 110, 99, 101], [97, 114, 99, 104, 105, 116, 101, 99, 116, 117, 114, 101]}"
    by (auto simp: typeName_def image_iff split: DiagramType.splits intro: exI [of _ erd] exI [of _ flowchart] exI [of _ sequence] exI [of _ architecture])
  then show ?thesis by (auto simp: analyzeDiagramTypes_def split: sum.splits option.splits)
qed

text \<open>
  Diagrams from the meeting: the types are those the voice bot collected statements for, and only when there are none
  those the model names; every type is one of the four and every diagram in the answer is of one of the types.
\<close>

lemma from_context_types:
  assumes "fst (generateFromContext env parse clock roomId g st s) = Inr fc"
  shows "set (map fst (fc_diagrams fc)) \<subseteq> set (fc_suggestedTypes fc)"
    and "set (fc_suggestedTypes fc) \<subseteq> typeName ` UNIV"
    and "typesWithContext roomId st \<noteq> [] \<Longrightarrow> fc_suggestedTypes fc = map typeName (typesWithContext roomId st)"
proof -
  obtain ds s1 where g: "generateAll env clock 0 (contextInput roomId st (getFormattedTranscript roomId g)) (fc_suggestedTypes fc) [] s = (ds, s1)"
    "fc_diagrams fc = ds"
    and ty: "fc_suggestedTypes fc = (if typesWithContext roomId st \<noteq> [] then map typeName (typesWithContext roomId st)
      else analyzeDiagramTypes env parse (getFormattedTranscript roomId g))"
    using assms by (auto simp: generateFromContext_def Let_def split: if_splits prod.splits)
  show "set (map fst (fc_diagrams fc)) \<subseteq> set (fc_suggestedTypes fc)"
    using generateAll_keys [of _ env clock 0 "contextInput roomId st (getFormattedTranscript roomId g)" "fc_suggestedTypes fc" "[]" s] g by auto
  show "set (fc_suggestedTypes fc) \<subseteq> typeName ` UNIV" using ty analyze_known by (auto split: if_splits)
  show "typesWithContext roomId st \<noteq> [] \<Longrightarrow> fc_suggestedTypes fc = map typeName (typesWithContext roomId st)" using ty by simp
qed

end
