(* ===== verification/SttAdapters.thy ===== *)
theory SttAdapters
  imports Prelude "HOL-Library.Multiset"
begin

text \<open>
  The adapters of two speech recognition services, \<open>src/stt/clova-stt.adapter.ts\<close> and \<open>src/stt/daglo-stt.adapter.ts\<close>. A
  recognition is a gRPC call: a state that the events of the call change. What is written to the call is recorded. Audio
  is a list of bytes; \<open>JSON.parse\<close> of an answer of Clova is a parameter, which gives nothing where it throws.

  The locale \<open>session\<close> is the contract of a recognition: its promise settles at the first deciding event and never
  changes after that. It is interpreted on every session of the adapters and of the service.
\<close>

section \<open>Sessions\<close>

datatype 'a settled = Open | Done 'a | Failed jstr

definition settle :: "'a settled \<Rightarrow> 'a settled \<Rightarrow> 'a settled" where
  "settle new old = (if old = Open then new else old)"

lemma settle_simps [simp]:
  "settle new Open = new" "settle new (Done x) = Done x" "settle new (Failed e) = Failed e" "settle Open old = old"
  by (simp_all add: settle_def)

locale session =
  fixes promise :: "'s \<Rightarrow> 'a settled" and step :: "'e \<Rightarrow> 's \<Rightarrow> 's" and decides :: "'e \<Rightarrow> bool"
  assumes settled_stays: "promise s \<noteq> Open \<Longrightarrow> promise (step e s) = promise s"
    and undecided: "\<not> decides e \<Longrightarrow> promise (step e s) = promise s"
    and decided: "decides e \<Longrightarrow> promise (step e s) \<noteq> Open"
begin

lemma run_stays: "promise s \<noteq> Open \<Longrightarrow> promise (fold step es s) = promise s"
  by (induction es arbitrary: s) (simp_all add: settled_stays)

lemma run_open_iff: "promise s = Open \<Longrightarrow> promise (fold step es s) = Open \<longleftrightarrow> \<not> list_ex decides es"
proof (induction es arbitrary: s)
  case (Cons e es)
  show ?case
  proof (cases "decides e")
    case True
    then have "promise (step e s) \<noteq> Open" by (rule decided)
    with True run_stays [OF this, of es] show ?thesis by simp
  next
    case False
    with Cons undecided [OF False, of s] show ?thesis by simp
  qed
qed simp

lemma run_decided_by_first:
  assumes "promise s = Open" "\<not> list_ex decides es" "decides e"
  shows "promise (fold step (es @ e # rest) s) = promise (step e (fold step es s))"
  using run_stays [of "step e (fold step es s)" rest] decided [OF assms(3), of "fold step es s"] by simp

end

section \<open>Clova\<close>

record ClovaTranscript =
  clv_text :: jstr
  clv_isFinal :: bool

record ClovaSttConfig =
  clv_language :: "jstr option"
  clv_boosting :: "jstr list option"

text \<open>A parsed answer: the types it names, the status of the configuration, and the transcription with its position.\<close>

record ClovaText =
  ct_text :: "jstr option"
  ct_position :: "int option"
  ct_epFlag :: bool

record ClovaResponse =
  cr_types :: "jstr list"
  cr_transcription :: "ClovaText option"

datatype clova_out = ClovaConfig jstr "jstr option" | ClovaAudio "int list" "nat option" bool | ClovaHalfClose

record clova_st =
  transcriptMap :: "(int, jstr) jmap"
  configReceived :: bool
  clv_out :: "clova_out list"
  clv_timer :: bool
  clv_promise :: "jstr settled"

datatype clova_event = ClovaData "jstr option" | ClovaError jstr | ClovaEnd | ClovaTimeout

definition CHUNK_SIZE :: nat where "CHUNK_SIZE = 32000"

text \<open>\<open>buildConfigMessage\<close>: the language and the words, joined by commas, that are preferred.\<close>

definition buildConfigMessage :: "ClovaSttConfig \<Rightarrow> clova_out" where
  "buildConfigMessage c = ClovaConfig (str_or (clv_language c) [107, 111])
     (case clv_boosting c of None \<Rightarrow> None | Some ws \<Rightarrow> if ws = [] then None else Some (join [44] ws))"

text \<open>\<open>sendAudioData\<close>: the loop over the offsets, with the number of the chunk and the mark of the last one.\<close>

function sendFrom :: "int list \<Rightarrow> nat \<Rightarrow> nat \<Rightarrow> clova_out list" where
  "sendFrom audio offset chunkCount =
     (if offset < length audio
      then ClovaAudio (take CHUNK_SIZE (drop offset audio)) (Some (chunkCount + 1)) (offset + CHUNK_SIZE \<ge> length audio)
             # sendFrom audio (offset + CHUNK_SIZE) (chunkCount + 1)
      else [])"
  by pat_completeness auto
termination
  by (relation "measure (\<lambda>(audio, offset, k). length audio - offset)") (auto simp: CHUNK_SIZE_def)

declare sendFrom.simps [simp del]

definition sendAudioData :: "int list \<Rightarrow> clova_out list" where
  "sendAudioData audio = sendFrom audio 0 0"

definition clova_start :: "ClovaSttConfig \<Rightarrow> clova_st" where
  "clova_start c = \<lparr>transcriptMap = [], configReceived = False, clv_out = [buildConfigMessage c], clv_timer = True, clv_promise = Open\<rparr>"

definition clovaTranscription :: "ClovaText \<Rightarrow> clova_st \<Rightarrow> clova_st" where
  "clovaTranscription t s =
     (let s1 = (if truthy_str (ct_text t)
                then s\<lparr>transcriptMap := jset (case ct_position t of None \<Rightarrow> 0 | Some p \<Rightarrow> p) (the (ct_text t)) (transcriptMap s)\<rparr>
                else s)
      in if ct_epFlag t then s1\<lparr>clv_out := clv_out s1 @ [ClovaHalfClose]\<rparr> else s1)"

definition clovaText :: "(int, jstr) jmap \<Rightarrow> jstr" where
  "clovaText m = trim (concat (map (\<lambda>p. case jget m p of None \<Rightarrow> [] | Some t \<Rightarrow> t) (sort (jkeys m))))"

fun clova_step :: "(jstr \<Rightarrow> ClovaResponse option) \<Rightarrow> int list \<Rightarrow> clova_event \<Rightarrow> clova_st \<Rightarrow> clova_st" where
  "clova_step parse audio (ClovaData contents) s =
     (if \<not> truthy_str contents then s
      else case parse (the contents) of
          None \<Rightarrow> s
        | Some r \<Rightarrow>
            if [99, 111, 110, 102, 105,
              103] \<in> set (cr_types r) then s\<lparr>configReceived := True,
              clv_out := clv_out s @ sendAudioData audio\<rparr>
            else if [116, 114, 97, 110, 115, 99, 114, 105, 112, 116, 105, 111,
              110] \<in> set (cr_types r) then
              (case cr_transcription r of None \<Rightarrow> s | Some t \<Rightarrow> clovaTranscription t s)
            else s)"
| "clova_step parse audio (ClovaError e) s = s\<lparr>clv_promise := settle (Failed e) (clv_promise s)\<rparr>"
| "clova_step parse audio ClovaTimeout s =
     (if clv_timer s then s\<lparr>clv_timer := False, clv_out := clv_out s @ [ClovaHalfClose]\<rparr> else s)"
| "clova_step parse audio ClovaEnd s =
     s\<lparr>clv_timer := False, clv_promise := settle (Done (clovaText (transcriptMap s))) (clv_promise s)\<rparr>"

definition clova_run :: "(jstr \<Rightarrow> ClovaResponse option) \<Rightarrow> int list \<Rightarrow> ClovaSttConfig \<Rightarrow> clova_event list \<Rightarrow> clova_st" where
  "clova_run parse audio c es = fold (clova_step parse audio) es (clova_start c)"

text \<open>\<open>parseResponse\<close> of the streaming call.\<close>

definition parseResponse :: "(jstr \<Rightarrow> ClovaResponse option) \<Rightarrow> jstr option \<Rightarrow> ClovaTranscript list" where
  "parseResponse parse contents =
     (if \<not> truthy_str contents then []
      else case parse (the contents) of
          None \<Rightarrow> []
        | Some r \<Rightarrow>
            if [99, 111, 110, 102, 105, 103] \<in> set (cr_types r) then []
            else if [116, 114, 97, 110, 115, 99, 114, 105, 112, 116, 105, 111,
              110] \<in> set (cr_types r) then
              (case cr_transcription r of
                 None \<Rightarrow> []
               | Some t \<Rightarrow> [\<lparr>clv_text = str_or (ct_text t) [], clv_isFinal = True\<rparr>])
            else [])"

section \<open>Daglo\<close>

record DagloSttConfig =
  dgl_language :: "jstr option"
  dgl_sampleRate :: "int option"
  dgl_interim :: "bool option"

record DagloTranscript =
  dgt_text :: jstr
  dgt_isFinal :: bool

record DagloResult =
  dr_transcript :: "jstr option"
  dr_isFinal :: "bool option"

datatype daglo_out = DagloConfig int jstr bool | DagloAudio "int list" | DagloHalfClose

record daglo_st =
  dgl_transcripts :: "jstr list"
  dgl_out :: "daglo_out list"
  dgl_promise :: "jstr settled"

datatype daglo_event = DagloData "DagloResult list option" | DagloError jstr | DagloEnd

definition dagloConfig :: "DagloSttConfig \<Rightarrow> daglo_out" where
  "dagloConfig c = DagloConfig (num_or (dgl_sampleRate c) 16000) (str_or (dgl_language c) [107, 111,
    45, 75, 82]) (dgl_interim c \<noteq> Some False)"

function dagloChunks :: "int list \<Rightarrow> nat \<Rightarrow> daglo_out list" where
  "dagloChunks audio offset =
     (if offset < length audio then DagloAudio (take CHUNK_SIZE (drop offset audio)) # dagloChunks audio (offset + CHUNK_SIZE) else [])"
  by pat_completeness auto
termination
  by (relation "measure (\<lambda>(audio, offset). length audio - offset)") (auto simp: CHUNK_SIZE_def)

declare dagloChunks.simps [simp del]

definition daglo_start :: "int list \<Rightarrow> DagloSttConfig \<Rightarrow> daglo_st" where
  "daglo_start audio c = \<lparr>dgl_transcripts = [], dgl_out = [dagloConfig c] @ dagloChunks audio 0 @ [DagloHalfClose], dgl_promise = Open\<rparr>"

definition finalTexts :: "DagloResult list option \<Rightarrow> jstr list" where
  "finalTexts rs = (case rs of None \<Rightarrow> [] | Some xs \<Rightarrow>
     map (\<lambda>r. the (dr_transcript r)) (filter (\<lambda>r. dr_isFinal r = Some True \<and> truthy_str (dr_transcript r)) xs))"

fun daglo_step :: "daglo_event \<Rightarrow> daglo_st \<Rightarrow> daglo_st" where
  "daglo_step (DagloData rs) s = s\<lparr>dgl_transcripts := dgl_transcripts s @ finalTexts rs\<rparr>"
| "daglo_step DagloEnd s = s\<lparr>dgl_promise := settle (Done (trim (join [32] (dgl_transcripts s)))) (dgl_promise s)\<rparr>"
| "daglo_step (DagloError e) s = s\<lparr>dgl_promise := settle (Failed e) (dgl_promise s)\<rparr>"

definition daglo_run :: "int list \<Rightarrow> DagloSttConfig \<Rightarrow> daglo_event list \<Rightarrow> daglo_st" where
  "daglo_run audio c es = fold daglo_step es (daglo_start audio c)"

definition dagloItems :: "DagloResult list option \<Rightarrow> DagloTranscript list" where
  "dagloItems rs = (case rs of None \<Rightarrow> [] | Some xs \<Rightarrow>
     map (\<lambda>r. \<lparr>dgt_text = str_or (dr_transcript r) [], dgt_isFinal = (dr_isFinal r = Some True)\<rparr>) xs)"

section \<open>Streaming\<close>

text \<open>
  \<open>transcribeStream\<close> of both adapters: a generator that polls a queue which the handlers of the call fill, and a task that
  sends the audio. \<open>StreamPoll\<close> is one turn of the loop of the generator: when the consumer asks for the next result, or
  ten milliseconds after a turn that found the queue empty.
\<close>

datatype sender = Sending | Sent

datatype generator = GenRunning | GenFinished | GenThrown jstr

datatype stream_out = StreamChunk "int list" | StreamHalfClose

record 'i stream_st =
  responseQueue :: "'i list"
  isEnded :: bool
  st_error :: "jstr option"
  st_sender :: sender
  st_out :: "stream_out list"
  yielded :: "'i list"
  st_generator :: generator

datatype 'i stream_event =
    StreamItems "'i list"
  | StreamEnd
  | StreamError jstr
  | AudioChunk "int list"
  | AudioDone
  | AudioFailed
  | StreamPoll

definition stream_start :: "'i stream_st" where
  "stream_start = \<lparr>responseQueue = [], isEnded = False, st_error = None, st_sender = Sending, st_out = [], yielded = [],
     st_generator = GenRunning\<rparr>"

definition endCall :: "'i stream_st \<Rightarrow> 'i stream_st" where
  "endCall s = s\<lparr>st_sender := Sent, st_out := st_out s @ [StreamHalfClose]\<rparr>"

definition poll :: "'i stream_st \<Rightarrow> 'i stream_st" where
  "poll s =
     (if st_generator s \<noteq> GenRunning then s
      else if \<not> (\<not> isEnded s \<or> responseQueue s \<noteq> []) then s\<lparr>st_generator := GenFinished\<rparr>
      else case st_error s of
          Some e \<Rightarrow> s\<lparr>st_generator := GenThrown e\<rparr>
        | None \<Rightarrow> (case responseQueue s of
              x # q \<Rightarrow> s\<lparr>responseQueue := q, yielded := yielded s @ [x]\<rparr>
            | [] \<Rightarrow> s))"

fun stream_step :: "'i stream_event \<Rightarrow> 'i stream_st \<Rightarrow> 'i stream_st" where
  "stream_step (StreamItems xs) s = s\<lparr>responseQueue := responseQueue s @ xs\<rparr>"
| "stream_step StreamEnd s = s\<lparr>isEnded := True\<rparr>"
| "stream_step (StreamError e) s = s\<lparr>isEnded := True, st_error := Some e\<rparr>"
| "stream_step (AudioChunk c) s =
     (if st_sender s = Sent then s
      else if isEnded s then endCall s
      else s\<lparr>st_out := st_out s @ [StreamChunk c]\<rparr>)"
| "stream_step AudioDone s = (if st_sender s = Sent then s else endCall s)"
| "stream_step AudioFailed s = (if st_sender s = Sent then s else endCall s)"
| "stream_step StreamPoll s = poll s"

definition stream_run :: "'i stream_event list \<Rightarrow> 'i stream_st" where
  "stream_run es = fold stream_step es stream_start"

text \<open>The events of a Clova stream and of a Daglo stream.\<close>

definition clovaItems :: "(jstr \<Rightarrow> ClovaResponse option) \<Rightarrow> jstr option \<Rightarrow> ClovaTranscript stream_event" where
  "clovaItems parse contents = StreamItems (parseResponse parse contents)"

definition dagloData :: "DagloResult list option \<Rightarrow> DagloTranscript stream_event" where
  "dagloData rs = StreamItems (dagloItems rs)"

section \<open>Promises settle at the first deciding event\<close>

definition clova_decides :: "clova_event \<Rightarrow> bool" where
  "clova_decides e = (case e of ClovaEnd \<Rightarrow> True | ClovaError _ \<Rightarrow> True | _ \<Rightarrow> False)"

definition daglo_decides :: "daglo_event \<Rightarrow> bool" where
  "daglo_decides e = (case e of DagloData _ \<Rightarrow> False | _ \<Rightarrow> True)"

lemma settle_not_open: "new \<noteq> Open \<Longrightarrow> settle new old \<noteq> Open"
  by (cases old) simp_all

lemma settle_keeps: "old \<noteq> Open \<Longrightarrow> settle new old = old"
  by (simp add: settle_def)

lemma clova_data_promise: "clv_promise (clova_step parse audio (ClovaData c) s) = clv_promise s"
  by (auto simp: clovaTranscription_def Let_def split: option.splits)

interpretation clova: session clv_promise "clova_step parse audio" clova_decides for parse audio
proof
  fix s e
  show "clv_promise s \<noteq> Open \<Longrightarrow> clv_promise (clova_step parse audio e s) = clv_promise s"
    by (cases e) (simp_all add: clova_data_promise settle_keeps del: clova_step.simps(1))
  show "\<not> clova_decides e \<Longrightarrow> clv_promise (clova_step parse audio e s) = clv_promise s"
    by (cases e) (simp_all add: clova_decides_def clova_data_promise del: clova_step.simps(1))
  show "clova_decides e \<Longrightarrow> clv_promise (clova_step parse audio e s) \<noteq> Open"
    by (cases e) (simp_all add: clova_decides_def settle_not_open)
qed

interpretation daglo: session dgl_promise daglo_step daglo_decides
proof
  fix s e
  show "dgl_promise s \<noteq> Open \<Longrightarrow> dgl_promise (daglo_step e s) = dgl_promise s" by (cases e) (simp_all add: settle_keeps)
  show "\<not> daglo_decides e \<Longrightarrow> dgl_promise (daglo_step e s) = dgl_promise s" by (cases e) (simp_all add: daglo_decides_def)
  show "daglo_decides e \<Longrightarrow> dgl_promise (daglo_step e s) \<noteq> Open" by (cases e) (simp_all add: daglo_decides_def settle_not_open)
qed

text \<open>
  C21. The five seconds of the Clova adapter do not end a recognition: they only close the sending side. The promise stays
  open until the service ends the call or reports an error, whatever else happens and for however long.
\<close>

theorem clova_timeout_settles_nothing:
  "clv_promise (clova_run parse audio c es) = Open \<longleftrightarrow> \<not> list_ex clova_decides es"
  unfolding clova_run_def by (rule clova.run_open_iff) (simp add: clova_start_def)

section \<open>Audio is sent once and in order\<close>

fun audioOf :: "clova_out \<Rightarrow> int list" where
  "audioOf (ClovaAudio c k e) = c"
| "audioOf _ = []"

fun seqIdOf :: "clova_out \<Rightarrow> nat option" where
  "seqIdOf (ClovaAudio c k e) = k"
| "seqIdOf _ = None"

fun epFlagOf :: "clova_out \<Rightarrow> bool" where
  "epFlagOf (ClovaAudio c k e) = e"
| "epFlagOf _ = False"

lemma sendFrom_audio: "concat (map audioOf (sendFrom audio i k)) = drop i audio"
proof (induction audio i k rule: sendFrom.induct)
  case (1 audio i k)
  then show ?case
    by (subst sendFrom.simps) (simp add: add.commute flip: drop_drop)
qed

lemma sendFrom_ids: "map seqIdOf (sendFrom audio i k) = map Some [k + 1..<k + 1 + length (sendFrom audio i k)]"
proof (induction audio i k rule: sendFrom.induct)
  case (1 audio i k)
  show ?case
  proof (cases "i < length audio")
    case True
    then show ?thesis using 1 [OF True] by (subst (1 2) sendFrom.simps) (simp add: upt_rec)
  next
    case False
    then show ?thesis by (subst (1 2) sendFrom.simps) simp
  qed
qed

lemma sendFrom_last: "i < length audio \<Longrightarrow> \<exists>n. map epFlagOf (sendFrom audio i k) = replicate n False @ [True]"
proof (induction audio i k rule: sendFrom.induct)
  case (1 audio i k)
  show ?case
  proof (cases "i + CHUNK_SIZE < length audio")
    case True
    then obtain n where "map epFlagOf (sendFrom audio (i + CHUNK_SIZE) (k + 1)) = replicate n False @ [True]"
      using 1 by blast
    then have "map epFlagOf (sendFrom audio i k) = replicate (Suc n) False @ [True]"
      using True "1.prems" by (subst sendFrom.simps) simp
    then show ?thesis by blast
  next
    case False
    then have "map epFlagOf (sendFrom audio i k) = replicate 0 False @ [True]"
      using "1.prems" by (subst sendFrom.simps, subst sendFrom.simps) simp
    then show ?thesis by blast
  qed
qed

lemma sendFrom_sizes: "list_all (\<lambda>m. 0 < length (audioOf m) \<and> length (audioOf m) \<le> CHUNK_SIZE) (sendFrom audio i k)"
proof (induction audio i k rule: sendFrom.induct)
  case (1 audio i k)
  then show ?case by (subst sendFrom.simps) (auto simp: CHUNK_SIZE_def)
qed

text \<open>
  C22. The audio reaches Clova whole: the chunks together are the buffer, none is empty or longer than 32000 bytes, they are
  numbered from 1, and exactly the last one carries the end mark; an empty buffer sends nothing, and no end mark.
\<close>

theorem clova_audio_complete:
  "concat (map audioOf (sendAudioData audio)) = audio \<and>
   list_all (\<lambda>m. 0 < length (audioOf m) \<and> length (audioOf m) \<le> CHUNK_SIZE) (sendAudioData audio) \<and>
   map seqIdOf (sendAudioData audio) = map Some [1..<1 + length (sendAudioData audio)] \<and>
   (if audio = [] then sendAudioData audio = []
    else \<exists>n. map epFlagOf (sendAudioData audio) = replicate n False @ [True])"
  using sendFrom_audio [of audio 0 0] sendFrom_sizes [of audio 0 0] sendFrom_ids [of audio 0 0] sendFrom_last [of 0 audio 0]
  by (simp add: sendAudioData_def sendFrom.simps [of "[]"])

fun dagloAudioOf :: "daglo_out \<Rightarrow> int list" where
  "dagloAudioOf (DagloAudio c) = c"
| "dagloAudioOf _ = []"

lemma daglo_audio_complete: "concat (map dagloAudioOf (dagloChunks audio i)) = drop i audio"
proof (induction audio i rule: dagloChunks.induct)
  case (1 audio i)
  then show ?case by (subst dagloChunks.simps) (simp add: add.commute flip: drop_drop)
qed

section \<open>What Clova heard\<close>

text \<open>The texts of the events with their positions, in the order in which they arrive.\<close>

definition deliveries :: "(jstr \<Rightarrow> ClovaResponse option) \<Rightarrow> clova_event \<Rightarrow> (int \<times> jstr) list" where
  "deliveries parse e = (case e of
      ClovaData contents \<Rightarrow>
        if \<not> truthy_str contents then []
        else (case parse (the contents) of
            None \<Rightarrow> []
          | Some r \<Rightarrow>
              if [99, 111, 110, 102, 105, 103] \<in> set (cr_types r) \<or> [116, 114, 97, 110, 115,
                99, 114, 105, 112, 116, 105, 111, 110] \<notin> set (cr_types r) then []
              else (case cr_transcription r of
                  None \<Rightarrow> []
                | Some t \<Rightarrow> if truthy_str (ct_text t) then [(case ct_position t of None \<Rightarrow> 0 | Some p \<Rightarrow> p, the (ct_text t))] else []))
    | _ \<Rightarrow> [])"

definition heard :: "(jstr \<Rightarrow> ClovaResponse option) \<Rightarrow> clova_event list \<Rightarrow> (int \<times> jstr) list" where
  "heard parse es = concat (map (deliveries parse) es)"

lemma step_map: "transcriptMap (clova_step parse audio e s) = fold (\<lambda>(p, t). jset p t) (deliveries parse e) (transcriptMap s)"
  by (cases e) (auto simp: deliveries_def clovaTranscription_def Let_def split: option.splits)

lemma run_map: "transcriptMap (fold (clova_step parse audio) es s) = fold (\<lambda>(p, t). jset p t) (heard parse es) (transcriptMap s)"
  by (induction es arbitrary: s) (simp_all add: heard_def step_map del: clova_step.simps)

lemma jwf_fold_jset: "jwf m \<Longrightarrow> jwf (fold (\<lambda>(p, t). jset p t) ds m)"
  by (induction ds arbitrary: m) (auto simp: jm.wf_put)

lemma keys_fold_jset: "fst ` set (fold (\<lambda>(p, t). jset p t) ds m) = fst ` set m \<union> fst ` set ds"
proof (induction ds arbitrary: m)
  case (Cons d ds)
  have "fst ` set (jset k v m) = insert k (fst ` set m)" for k v and m :: "('a, 'b) jmap" by (induction m) auto
  with Cons show ?case by (auto simp: split_beta)
qed simp

definition lastText :: "(int \<times> jstr) list \<Rightarrow> int \<Rightarrow> jstr" where
  "lastText ds p = last (map snd (filter (\<lambda>d. fst d = p) ds))"

lemma get_fold_jset:
  "jget (fold (\<lambda>(p, t). jset p t) ds m) p = (if p \<in> fst ` set ds then Some (lastText ds p) else jget m p)"
proof (induction ds arbitrary: m)
  case (Cons d ds)
  have "filter (\<lambda>d. fst d = p) ds = [] \<longleftrightarrow> p \<notin> fst ` set ds" by (auto simp: filter_empty_conv)
  with Cons show ?case by (cases d) (auto simp: lastText_def)
qed simp

text \<open>
  C23. What Clova heard: when the service ends the call, the result is the text of every position, in the order of the
  positions and not of their arrival; a later text for a position replaces an earlier one.
\<close>

theorem clova_text_by_position:
  assumes "\<not> list_ex clova_decides es"
  shows "clv_promise (clova_run parse audio c (es @ [ClovaEnd])) =
    Done (trim (concat (map (lastText (heard parse es)) (sorted_list_of_set (fst ` set (heard parse es))))))"
proof -
  let ?m = "fold (\<lambda>(p, t). jset p t) (heard parse es) []"
  have o: "clv_promise (clova_run parse audio c es) = Open" using assms
    by (simp add: clova_run_def clova.run_open_iff clova_start_def)
  have m: "transcriptMap (clova_run parse audio c es) = ?m" by (simp add: clova_run_def run_map clova_start_def)
  have k: "fst ` set ?m = fst ` set (heard parse es)" by (simp add: keys_fold_jset)
  have "distinct (map fst ?m)" using jwf_fold_jset [of "[]"] by (simp add: jwf_def)
  then have "sort (jkeys ?m) = sorted_list_of_set (set (map fst ?m))"
    by (simp only: jkeys_def sorted_list_of_set_sort_remdups distinct_remdups_id)
  then have "sort (jkeys ?m) = sorted_list_of_set (fst ` set (heard parse es))" by (simp only: set_map k)
  then have "map (\<lambda>p. case jget ?m p of None \<Rightarrow> [] | Some t \<Rightarrow> t) (sort (jkeys ?m)) =
      map (lastText (heard parse es)) (sorted_list_of_set (fst ` set (heard parse es)))"
    by (simp add: get_fold_jset)
  with o m show ?thesis by (simp add: clova_run_def clovaText_def)
qed

section \<open>The streaming generator\<close>

definition itemsOf :: "'i stream_event \<Rightarrow> 'i list" where
  "itemsOf e = (case e of StreamItems xs \<Rightarrow> xs | _ \<Rightarrow> [])"

lemma poll_fifo: "yielded (poll s) @ responseQueue (poll s) = yielded s @ responseQueue s"
  by (auto simp: poll_def split: option.splits list.splits)

lemma step_fifo: "yielded (stream_step e s) @ responseQueue (stream_step e s) = yielded s @ responseQueue s @ itemsOf e"
  using poll_fifo [of s] by (cases e) (auto simp: itemsOf_def endCall_def)

lemma run_fifo: "yielded (fold stream_step es s) @ responseQueue (fold stream_step es s) =
    yielded s @ responseQueue s @ concat (map itemsOf es)"
proof (induction es arbitrary: s)
  case (Cons e es)
  show ?case unfolding fold_simps Cons [of "stream_step e s"] using step_fifo [of e s] by simp
qed simp

text \<open>
  C24. The generator hands out the recognised items in the order of their arrival, none twice and none left out; and when
  it ends normally it has handed out everything received so far.
\<close>

theorem stream_in_order:
  "yielded (stream_run es) @ responseQueue (stream_run es) = concat (map itemsOf es) \<and>
   (if st_generator (stream_run es) = GenRunning \<and> st_generator (stream_run (es @ [StreamPoll])) = GenFinished
    then yielded (stream_run (es @ [StreamPoll])) = concat (map itemsOf es) else True)"
proof -
  have "yielded (stream_run es) @ responseQueue (stream_run es) = concat (map itemsOf es)"
    using run_fifo [of es stream_start] by (simp add: stream_run_def stream_start_def)
  moreover have "yielded (poll s) = yielded s @ responseQueue s" if "st_generator s = GenRunning" "st_generator (poll s) = GenFinished" for s :: "'a stream_st"
    using that by (auto simp: poll_def split: if_splits option.splits list.splits)
  ultimately show ?thesis by (simp add: stream_run_def)
qed

text \<open>
  C25. An error of the call is reported the wrong way round: if everything received was handed out the generator ends as if
  nothing had happened, and if results are waiting it throws and they are lost.
\<close>

theorem stream_error_swallowed:
  assumes "st_generator s = GenRunning"
  shows "st_generator (stream_step StreamPoll (stream_step (StreamError e) s)) =
      (if responseQueue s = [] then GenFinished else GenThrown e) \<and>
    yielded (stream_step StreamPoll (stream_step (StreamError e) s)) = yielded s"
  using assms by (simp_all add: poll_def)

theorem stream_error_swallowed_witness:
  "st_generator (stream_step StreamPoll (stream_step (StreamError []) (stream_start :: ClovaTranscript stream_st))) = GenFinished"
  using stream_error_swallowed [of "stream_start :: ClovaTranscript stream_st" "[]"] by (simp add: stream_start_def)

text \<open>
  After the call has ended without an error the generator ends: as many polls as there are results waiting, and one
  more.
\<close>

theorem stream_drains:
  assumes "st_generator s = GenRunning" "isEnded s" "st_error s = None"
  shows "st_generator ((poll ^^ Suc (length (responseQueue s))) s) = GenFinished \<and>
    yielded ((poll ^^ Suc (length (responseQueue s))) s) = yielded s @ responseQueue s"
  using assms
proof (induction "responseQueue s" arbitrary: s)
  case Nil
  then show ?case by (auto simp: poll_def)
next
  case (Cons x q)
  from Cons.hyps(2) [symmetric] Cons.prems have p: "poll s = s\<lparr>responseQueue := q, yielded := yielded s @ [x]\<rparr>"
    by (simp add: poll_def)
  have "st_generator ((poll ^^ Suc (length q)) (poll s)) = GenFinished \<and> yielded ((poll ^^ Suc (length q)) (poll s)) = yielded (poll s) @ q"
    using Cons.hyps(1) [of "poll s"] Cons.prems unfolding p by simp
  then show ?case unfolding Cons.hyps(2) [symmetric] by (simp add: p funpow_swap1)
qed

theorem stream_drains_witness:
  "st_generator ((poll ^^ 2) (stream_run [StreamItems [7 :: nat], StreamEnd])) = GenFinished"
  using stream_drains [of "stream_run [StreamItems [7 :: nat], StreamEnd]"]
  by (simp add: stream_run_def stream_start_def numeral_2_eq_2)

definition demo_parse :: "jstr \<Rightarrow> ClovaResponse option" where
  "demo_parse c = Some \<lparr>cr_types = [[116, 114, 97, 110, 115, 99, 114, 105, 112, 116, 105, 111, 110]],
     cr_transcription = Some \<lparr>ct_text = Some c, ct_position = Some (- int (length c)), ct_epFlag = False\<rparr>\<rparr>"

definition demo_events :: "clova_event list" where
  "demo_events = [ClovaData (Some [98]), ClovaData (Some [97, 97]), ClovaData (Some [99])]"

lemma demo_heard: "heard demo_parse demo_events = [(- 1, [98]), (- 2, [97, 97]), (- 1, [99])]"
  by code_simp

theorem clova_text_by_position_witness:
  "clv_promise (clova_run demo_parse [] \<lparr>clv_language = None,
    clv_boosting = None\<rparr> (demo_events @ [ClovaEnd])) = Done [97, 97, 99]"
proof -
  have "\<not> list_ex clova_decides demo_events" by code_simp
  note h = clova_text_by_position [OF this, of demo_parse "[]" "\<lparr>clv_language = None, clv_boosting = None\<rparr>"]
  have "fst ` set (heard demo_parse demo_events) = set [- 2, - 1]" by (auto simp: demo_heard)
  then have "sorted_list_of_set (fst ` set (heard demo_parse demo_events)) = [- 2, - 1]"
    by (simp only: sorted_list_of_set_sort_remdups) simp
  then show ?thesis unfolding h by (simp add: demo_heard lastText_def trim_def is_space_def)
qed

end
