(* ===== verification/SttService.thy ===== *)
theory SttService
  imports SttAdapters Regex
begin

text \<open>
  Speech recognition, \<open>src/stt/stt.service.ts\<close>: the choice of the provider, the recognition through it, and the
  correction of what was recognised, by a table of words and by the language model. The services of Deepgram and Azure are
  events of their sessions; what a session settles with is an argument of the operations above it. The model gives a text,
  nothing, or an error message.
\<close>

section \<open>Hints\<close>

definition WAKE_WORD_HINTS :: "jstr list" where
  "WAKE_WORD_HINTS = [[50500, 50864, 46972], [50500, 50864, 46972, 50556], [54756, 51060, 32, 50500,
    50864, 46972], [54756, 51060, 50500, 50864, 46972], [50500, 50864, 46972, 32, 50556], [50500,
    50864, 46972, 50836], [50500, 32, 50864, 46972], [50724, 46972], [50724, 46972, 50556], [50612,
    46972], [50612, 46972, 50556], [50500, 47084], [50500, 47084, 50556], [50500, 51004, 46972],
    [50500, 50500, 46972], [50500, 50872, 46972], [50500, 50872, 46972, 50556], [50500, 50864, 45208],
    [50724, 50864, 46972], [50612, 50864, 46972]]"

definition LOCATION_HINTS :: "jstr list" where
  "LOCATION_HINTS = [[49436, 50872], [48512, 49328], [45824, 44396], [51064, 52380], [44305, 51452],
    [45824, 51204], [50872, 49328], [49464, 51333], [44053, 45224], [54861, 45824], [49888, 52492],
    [51104, 49892], [50668, 51032, 46020], [54032, 44368], [49457, 49688], [51060, 53468, 50896],
    [47749, 46041], [51333, 47196], [50517, 44396, 51221], [52397, 45812], [49340, 49457], [50669,
    49340], [49440, 47497], [44148, 45824], [54633, 51221], [47581, 50896], [50672, 45224], [51012,
    51648, 47196], [49457, 48513], [54812, 54868], [45824, 54617, 47196], [48516, 45817], [51068,
    49328], [49688, 50896], [50857, 51064], [54868, 49457], [54217, 53469], [50504, 50577], [48512,
    52380], [44053, 49436], [47560, 54252], [49436, 52488], [49569, 54028], [50689, 46321, 54252],
    [50857, 49328], [46041, 45824, 47928], [51473, 44396], [54620, 45224], [54620, 45224, 46041],
    [51060, 52492], [49436, 47000, 47560, 51012], [48169, 48176], [49324, 45817], [44368, 45824],
    [45432, 47049, 51652], [49888, 47548], [48393, 52380], [45209, 49457, 45824], [49436, 50872, 45824,
    51077, 44396], [49888, 45824, 48169], [44032, 47196, 49688, 44600], [44221, 47532, 45800, 44600],
    [47581, 47532, 45800, 44600], [49569, 47532, 45800, 44600], [50672, 53944, 47092, 54028, 53356],
    [48513, 52492], [49436, 52492], [51061, 49440, 46041], [44305, 51109, 49884, 51109], [45224, 45824,
    47928], [46041, 47896], [46749, 49452], [49436, 50872, 49714], [50773, 49901, 47532], [45813,
    49901, 47532], [51109, 50504, 46041], [52397, 47049, 47532], [54924, 44592], [44221, 55148, 45824],
    [50808, 45824], [44256, 47140, 45824], [50504, 50516], [51228, 44592, 46041], [47785, 46041],
    [45817, 49328], [47928, 47000], [49888, 46020, 47548], [44396, 47196], [44032, 49328], [44552,
    52380]]"

definition CATEGORY_HINTS :: "jstr list" where
  "CATEGORY_HINTS = [[52852, 54168], [52964, 54588], [52964, 54588, 49677], [49828, 53440, 48261,
    49828], [53804, 50040], [51060, 46356, 50556], [48660, 47336, 48372, 53952], [52852, 44277],
    [47579, 51665], [49885, 45817], [47112, 49828, 53664, 46993], [48165, 51665], [51020, 49885,
    51216], [51200, 45377], [51216, 49900], [48652, 47088, 52824], [49696, 51665], [48148], [54252,
    52264], [54840, 54532], [51060, 51088, 52852, 50556], [50752, 51064, 48148], [54924, 49885],
    [48516, 49885], [46497, 48374, 51060], [44608, 48165], [46972, 47732], [52824, 53416], [54588,
    51088], [48757, 51665], [48288, 51060, 52964, 47532], [46356, 51200, 53944], [52992, 51060, 53356],
    [47560, 52852, 47217], [50500, 51060, 49828, 53356, 47548], [54045, 50629], [54045, 50629, 49828,
    53664, 50612], [51204, 49884], [51204, 49884, 54924], [44068, 47084, 47532], [45216, 50472],
    [44592, 50728], [50728, 46020], [48120, 49464, 47676, 51648], [50864, 49328], [52628, 52380],
    [50508, 47140, 51480], [52286, 50500, 51480], [44160, 49353], [50528, 44204, 52852, 54168], [44256,
    50577, 51060, 52852, 54168], [48372, 46300, 44172, 51076, 52852, 54168], [48169, 53448, 52636,
    52852, 54168], [49828, 53552, 46356, 52852, 54168], [48513, 52852, 54168], [47336, 54532, 53457],
    [53580, 46972, 49828], [50724, 49496, 48624], [54620, 44053, 48624], [54620, 49885], [51473,
    49885], [51068, 49885], [50577, 49885], [51060, 53448, 47532, 50504], [54532, 47116, 52824],
    [47701, 49884, 52856], [53468, 44397, 51020, 49885], [48288, 53944, 45224, 51020, 49885], [51064,
    46020, 51020, 49885], [54504, 51204], [50724, 47560, 52852, 49464], [44256, 44592], [49340, 44217,
    49332], [49548, 44256, 44592], [44273, 52285], [47561, 52285], [54924], [52488, 48165], [54943,
    51665], [44397, 48165], [49444, 47105, 53461], [44048, 51088, 53461], [49692, 45824, 44397],
    [54644, 51109, 44397], [52860, 44397, 49688], [45257, 47732], [45936, 51060, 53944], [49548, 44060,
    54021], [44592, 45392, 51068], [49373, 51068], [47784, 51076], [45800, 52404], [54844, 48165],
    [54844, 49696], [48708, 51592, 45768, 49828], [48120, 54021], [51312, 50857, 54620], [48516, 50948,
    44592, 51339, 51008], [51064, 49828, 53440], [49324, 51652]]"

definition ALL_HINTS :: "jstr list" where
  "ALL_HINTS = WAKE_WORD_HINTS @ LOCATION_HINTS @ CATEGORY_HINTS"

definition PHONETIC_CORRECTIONS :: "(jstr \<times> jstr) list" where
  "PHONETIC_CORRECTIONS = [([49457, 49689], [49457, 49688]), ([49457, 49688, 44592], [49457, 49688]),
    ([49457, 49689, 54616, 44172], [49457, 49688, 32, 52852, 54168]), ([49457, 49689, 54644], [49457,
    49688]), ([44053, 45224, 50669], [44053, 45224]), ([54861, 45824, 51077, 44396], [54861, 45824]),
    ([49888, 52492, 50669], [49888, 52492]), ([54633, 51221, 50669], [54633, 51221]), ([44148, 45824,
    51077, 44396], [44148, 45824]), ([49440, 47497, 50669], [49440, 47497]), ([50669, 49340, 50669],
    [50669, 49340]), ([49340, 49457, 50669], [49340, 49457]), ([51104, 49892, 50669], [51104, 49892]),
    ([50668, 51032, 46020, 50669], [50668, 51032, 46020]), ([54032, 44368, 50669], [54032, 44368]),
    ([52852, 54056], [52852, 54168]), ([52964, 54588, 49677], [52852, 54168]), ([52908, 54168], [52852,
    54168]), ([47579, 51080, 51665], [47579, 51665]), ([47560, 51665], [47579, 51665]), ([49696, 32,
    51665], [49696, 51665]), ([48516, 32, 49885], [48516, 49885]), ([46497, 48373, 51060], [46497,
    48374, 51060]), ([54045, 32, 50629], [54045, 50629]), ([51204, 32, 49884], [51204, 49884]),
    ([45216, 32, 50472], [45216, 50472]), ([50500, 32, 50864, 46972], [50500, 50864, 46972]), ([50500,
    50864, 32, 46972], [50500, 50864, 46972]), ([50500, 50864, 46972, 32, 50556], [50500, 50864, 46972,
    50556]), ([50500, 50872, 46972], [50500, 50864, 46972]), ([50500, 50872, 46972, 50556], [50500,
    50864, 46972, 50556]), ([50500, 50864, 45208], [50500, 50864, 46972]), ([50500, 50864, 45208,
    50556], [50500, 50864, 46972, 50556]), ([50500, 50864, 47084], [50500, 50864, 46972]), ([50500,
    50864, 47084, 50556], [50500, 50864, 46972, 50556]), ([50500, 50724, 46972], [50500, 50864,
    46972]), ([50500, 50724, 46972, 50556], [50500, 50864, 46972, 50556]), ([50724, 50864, 46972],
    [50500, 50864, 46972]), ([50724, 50864, 46972, 50556], [50500, 50864, 46972, 50556]), ([50612,
    50864, 46972], [50500, 50864, 46972]), ([50612, 50864, 46972, 50556], [50500, 50864, 46972,
    50556]), ([54756, 51060, 32, 50500, 50872, 46972], [54756, 51060, 32, 50500, 50864, 46972]),
    ([54756, 51060, 32, 50500, 50864, 45208], [54756, 51060, 32, 50500, 50864, 46972]), ([54756, 51060,
    32, 50724, 50864, 46972], [54756, 51060, 32, 50500, 50864, 46972]), ([54644, 51060, 50500, 50864,
    46972], [54756, 51060, 32, 50500, 50864, 46972]), ([50640, 51060, 50500, 50864, 46972], [54756,
    51060, 32, 50500, 50864, 46972]), ([50724, 46972], [50500, 50864, 46972]), ([50724, 46972, 50556],
    [50500, 50864, 46972, 50556]), ([50612, 46972], [50500, 50864, 46972]), ([50612, 46972, 50556],
    [50500, 50864, 46972, 50556]), ([50500, 47084], [50500, 50864, 46972]), ([50500, 47084, 50556],
    [50500, 50864, 46972, 50556]), ([50500, 32, 46972], [50500, 50864, 46972]), ([50500, 32, 46972,
    50556], [50500, 50864, 46972, 50556]), ([50724, 32, 46972], [50500, 50864, 46972]), ([50724, 32,
    46972, 50556], [50500, 50864, 46972, 50556]), ([50500, 51004, 46972], [50500, 50864, 46972]),
    ([50500, 51004, 46972, 50556], [50500, 50864, 46972, 50556]), ([50500, 50500, 46972], [50500,
    50864, 46972]), ([50500, 50500, 46972, 50556], [50500, 50864, 46972, 50556]), ([50500, 32, 50612,
    32, 46972], [50500, 50864, 46972]), ([54756, 51060, 32, 50724, 46972], [54756, 51060, 32, 50500,
    50864, 46972]), ([54756, 51060, 32, 50612, 46972], [54756, 51060, 32, 50500, 50864, 46972]),
    ([54644, 32, 50500, 50864, 46972], [54756, 51060, 32, 50500, 50864, 46972]), ([54644, 32, 50724,
    46972], [54756, 51060, 32, 50500, 50864, 46972]), ([51060, 53468, 50896], [51060, 53468, 50896]),
    ([51079, 53468, 50896], [51060, 53468, 50896]), ([51060, 53580, 50896], [51060, 53468, 50896]),
    ([54620, 45224, 46041], [54620, 45224, 46041]), ([54620, 45224], [54620, 45224]), ([50517, 44396,
    51221], [50517, 44396, 51221]), ([50517, 44984, 51221], [50517, 44396, 51221]), ([52397, 45812,
    46041], [52397, 45812]), ([44032, 47196, 49688, 44600], [44032, 47196, 49688, 44600]), ([44032,
    47196, 49688, 32, 44600], [44032, 47196, 49688, 44600]), ([44221, 47532, 45800, 44600], [44221,
    47532, 45800, 44600]), ([44221, 47532, 45800, 32, 44600], [44221, 47532, 45800, 44600]), ([47581,
    47532, 45800, 44600], [47581, 47532, 45800, 44600]), ([47581, 47532, 45800, 32, 44600], [47581,
    47532, 45800, 44600]), ([49569, 47532, 45800, 44600], [49569, 47532, 45800, 44600]), ([49569,
    47532, 45800, 32, 44600], [49569, 47532, 45800, 44600]), ([48652, 47088, 52824], [48652, 47088,
    52824]), ([48652, 47088, 32, 52824], [48652, 47088, 52824]), ([48512, 47088, 52824], [48652, 47088,
    52824]), ([50528, 44204, 52852, 54168], [50528, 44204, 52852, 54168]), ([50528, 44204, 32, 52852,
    54168], [50528, 44204, 52852, 54168]), ([44256, 50577, 51060, 52852, 54168], [44256, 50577, 51060,
    52852, 54168]), ([44256, 50577, 51060, 32, 52852, 54168], [44256, 50577, 51060, 52852, 54168]),
    ([49828, 53552, 46356, 52852, 54168], [49828, 53552, 46356, 52852, 54168]), ([49828, 53552, 46356,
    32, 52852, 54168], [49828, 53552, 46356, 52852, 54168]), ([48513, 52852, 54168], [48513, 52852,
    54168]), ([48513, 32, 52852, 54168], [48513, 52852, 54168]), ([47336, 54532, 53457], [47336, 54532,
    53457]), ([47336, 54532, 32, 53457], [47336, 54532, 53457]), ([47353, 53457], [47336, 54532,
    53457])]"

section \<open>Corrections\<close>

text \<open>
  The words of the table are Hangul and blanks, so as patterns they match themselves only. Each rule is applied to the
  result of the rules before it.
\<close>

definition applyRules :: "(jstr \<times> jstr) list \<Rightarrow> jstr \<Rightarrow> jstr" where
  "applyRules rules t = fold (\<lambda>(wrong, correct) s. replaceAll (lit wrong) correct s) rules t"

definition applyPhoneticCorrections :: "jstr \<Rightarrow> jstr" where
  "applyPhoneticCorrections t = trim (replaceAll (plus space) [32] (applyRules PHONETIC_CORRECTIONS t))"

definition properNounPatterns :: "rx list" where
  "properNounPatterns = [lit [45824, 54617, 44368], lit [45824, 54617], lit [44256, 46321, 54617,
    44368], lit [51473, 54617, 44368], lit [52488, 46321, 54617, 44368], lit [54924, 49324],
    lit [44592, 50629], lit [44536, 47353], lit [51452, 49885, 54924, 49324]]"

definition wakePatterns :: "rx list" where
  "wakePatterns = [lit [50500, 50872, 46972], lit [50500, 50864, 45208], lit [50500, 50864, 47084],
    lit [50500, 50724, 46972], lit [50724, 50864, 46972], lit [50612, 50864, 46972], seqs [Bol,
    lit [50724, 46972]], seqs [Bol, lit [50612, 46972]], seqs [Bol, lit [50500, 47084]], lit [50500,
    51004, 46972], lit [50500, 50500, 46972]]"

definition weirdWords :: rx where
  "weirdWords = lits [[49457, 49689], [52908, 54168], [47560, 51665], [46497, 48373]]"

definition shouldUseLlmCorrection :: "jstr \<Rightarrow> bool" where
  "shouldUseLlmCorrection t \<longleftrightarrow>
     \<not> list_ex (\<lambda>p. test p t) properNounPatterns \<and>
     (list_ex (\<lambda>p. test p (to_lower t)) wakePatterns \<or> test weirdWords (to_lower t))"

definition correctionPrompt :: "jstr \<Rightarrow> jstr" where
  "correctionPrompt rawText = [51020, 49457, 51064, 49885, 40, 83, 84, 84, 41, 32, 44208, 44284, 47484,
    32, 44368, 51221, 54644, 51452, 49464, 50836, 46, 10, 10, 35, 35, 32, 48176, 44221, 10, 45, 32,
    54868, 49345, 54924, 51032, 50640, 49436, 32, 65, 73, 32, 48708, 49436, 32, 34, 50500, 50864,
    46972, 34, 47484, 32, 54840, 52636, 54616, 45716, 32, 51020, 49457, 51077, 45768, 45796, 10, 45,
    32, 50920, 51060, 53356, 50892, 46300, 58, 32, 34, 50500, 50864, 46972, 50556, 34, 44, 32, 34,
    54756, 51060, 32, 50500, 50864, 46972, 34, 32, 46321, 10, 45, 32, 51452, 47196, 32, 51109, 49548,
    32, 44160, 49353, 40, 52852, 54168, 44, 32, 47579, 51665, 32, 46321, 41, 51060, 45208, 32, 45216,
    50472, 47484, 32, 47932, 50612, 48389, 45768, 45796, 10, 10, 35, 35, 32, 44368, 51221, 32, 44508,
    52825, 32, 40, 51473, 50836, 33, 41, 10, 49, 46, 32, 50920, 51060, 53356, 50892, 46300, 32, 50724,
    51064, 49885, 47564, 32, 44368, 51221, 32, 40, 50500, 50872, 46972, 50556, 8594, 50500, 50864,
    46972, 50556, 41, 10, 50, 46, 32, 44256, 50976, 47749, 49324, 40, 54617, 44368, 47749, 44, 32,
    54924, 49324, 47749, 44, 32, 49324, 46988, 51060, 47492, 41, 45716, 32, 51208, 45824, 32, 48320,
    44221, 32, 44552, 51648, 33, 10, 51, 46, 32, 34, 49457, 49689, 34, 8594, 34, 49457, 49688, 34,
    52376, 47100, 32, 47749, 48177, 54620, 32, 50724, 53440, 47564, 32, 44368, 51221, 10, 52, 46, 32,
    54869, 49892, 54616, 51648, 32, 50506, 51004, 47732, 32, 50896, 48376, 32, 50976, 51648, 10, 10,
    35, 35, 32, 51208, 45824, 32, 48320, 44221, 54616, 51648, 32, 47568, 32, 44163, 10, 45, 32, 45824,
    54617, 44368, 32, 51060, 47492, 32, 40, 49345, 47749, 45824, 44, 32, 49457, 44512, 44288, 45824,
    44, 32, 54620, 50577, 45824, 32, 46321, 41, 10, 45, 32, 54924, 49324, 32, 51060, 47492, 32, 40,
    53356, 47000, 54532, 53668, 44, 32, 49340, 49457, 44, 32, 45348, 51060, 48260, 32, 46321, 41, 10,
    45, 32, 49324, 46988, 32, 51060, 47492, 10, 10, 35, 35, 32, 51088, 51452, 32, 50724, 51064, 49885,
    46104, 45716, 32, 54056, 53556, 10, 45, 32, 34, 50500, 50872, 46972, 50556, 47, 50500, 50864,
    45208, 50556, 47, 50724, 50864, 46972, 50556, 34, 32, 8594, 32, 34, 50500, 50864, 46972, 50556, 34,
    32, 40, 54620, 44397, 50612, 32, 48156, 51020, 41, 10, 45, 32, 34, 50724, 46972, 50556, 47, 50612,
    46972, 50556, 47, 50500, 47084, 50556, 34, 32, 8594, 32, 34, 50500, 50864, 46972, 50556, 34, 32,
    40, 50689, 50612, 32, 65, 85, 82, 65, 32, 48156, 51020, 41, 10, 45, 32, 34, 49457, 49689, 34, 32,
    8594, 32, 34, 49457, 49688, 34, 32, 40, 51648, 50669, 47749, 51064, 32, 44221, 50864, 47564, 41,
    10, 45, 32, 34, 52908, 54168, 47, 52852, 54056, 34, 32, 8594, 32, 34, 52852, 54168, 34, 10, 10, 35,
    35, 32, 51077, 47141, 32, 40, 83, 84, 84, 32, 50896, 48376, 41, 10, 34] @ rawText @ [34, 10, 10,
    35, 35, 32, 52636, 47141, 32, 44508, 52825, 10, 49, 46, 32, 50724, 51064, 49885, 46108, 32, 45800,
    50612, 47564, 32, 44368, 51221, 10, 50, 46, 32, 47928, 47589, 49345, 32, 51088, 50672, 49828,
    47084, 50868, 32, 47928, 51109, 51004, 47196, 10, 51, 46, 32, 44368, 51221, 46108, 32, 47928,
    51109, 47564, 32, 52636, 47141, 32, 40, 49444, 47749, 32, 50630, 51060, 41, 10, 52, 46, 32, 44368,
    51221, 54624, 32, 45236, 50857, 51060, 32, 50630, 51004, 47732, 32, 50896, 48376, 32, 44536, 45824,
    47196, 32, 52636, 47141, 10, 10, 35, 35, 32, 52636, 47141, 32, 40, 44368, 51221, 46108, 32, 47928,
    51109, 47564, 41]"

definition quotes :: rx where
  "quotes = alts [seqs [Bol, Cls [(34, 34), (39, 39)]], seqs [Cls [(34, 34), (39, 39)], Eol]]"

definition correctWithLlm :: "(jstr \<Rightarrow> jstr + jstr option) \<Rightarrow> jstr \<Rightarrow> jstr + jstr" where
  "correctWithLlm model rawText = (case model (correctionPrompt rawText) of
      Inl e \<Rightarrow> Inl e
    | Inr answer \<Rightarrow> Inr (trim (replaceAll quotes [] (str_or (map_option trim answer) rawText))))"

definition postProcess :: "(jstr \<Rightarrow> jstr + jstr option) \<Rightarrow> jstr \<Rightarrow> jstr" where
  "postProcess model raw =
     (if trim raw = [] then raw
      else let corrected = applyPhoneticCorrections raw
           in if shouldUseLlmCorrection corrected
              then (case correctWithLlm model corrected of
                  Inl e \<Rightarrow> corrected
                | Inr c \<Rightarrow> if c \<noteq> [] then c else corrected)
              else corrected)"

section \<open>Deepgram\<close>

text \<open>The live connection. Every opening attaches another pair of listeners to the audio.\<close>

record dg_st =
  dg_listeners :: nat
  dg_sent :: "int list list"
  dg_finished :: nat
  dg_transcripts :: "jstr list"
  dg_promise :: "jstr settled"

datatype dg_event = DgOpen | DgAudio "int list" | DgAudioEnd | DgTranscript "jstr option" | DgClose | DgError jstr

definition dg_start :: dg_st where
  "dg_start = \<lparr>dg_listeners = 0, dg_sent = [], dg_finished = 0, dg_transcripts = [], dg_promise = Open\<rparr>"

fun dg_step :: "dg_event \<Rightarrow> dg_st \<Rightarrow> dg_st" where
  "dg_step DgOpen s = s\<lparr>dg_listeners := dg_listeners s + 1\<rparr>"
| "dg_step (DgAudio c) s = s\<lparr>dg_sent := dg_sent s @ replicate (dg_listeners s) c\<rparr>"
| "dg_step DgAudioEnd s = s\<lparr>dg_finished := dg_finished s + dg_listeners s\<rparr>"
| "dg_step (DgTranscript t) s =
     (case t of None \<Rightarrow> s | Some x \<Rightarrow> if trim x \<noteq> [] then s\<lparr>dg_transcripts := dg_transcripts s @ [x]\<rparr> else s)"
| "dg_step DgClose s = s\<lparr>dg_promise := settle (Done (join [32] (dg_transcripts s))) (dg_promise s)\<rparr>"
| "dg_step (DgError e) s = s\<lparr>dg_promise := settle (Failed e) (dg_promise s)\<rparr>"

section \<open>Azure\<close>

datatype azure_result = RecognizedSpeech "jstr option" | NoMatch | Canceled bool "jstr option" | OtherReason

record azure_st =
  az_resolved :: bool
  az_timer :: bool
  az_closed :: nat
  az_phrases :: "jstr list"
  az_promise :: "jstr settled"

datatype azure_event = AzTimeout | AzResult azure_result | AzError jstr

definition STT_TIMEOUT_MS :: int where "STT_TIMEOUT_MS = 10000"

definition az_start :: azure_st where
  "az_start = \<lparr>az_resolved = False, az_timer = True, az_closed = 0, az_phrases = ALL_HINTS, az_promise = Open\<rparr>"

fun azureText :: "azure_result \<Rightarrow> jstr settled" where
  "azureText (RecognizedSpeech t) = Done (str_or t [])"
| "azureText NoMatch = Done []"

  | "azureText (Canceled endOfStream details) = (if endOfStream then Done [] else Failed (str_or details [65,
  122, 117, 114, 101, 32, 83, 84, 84, 32, 99, 97, 110, 99, 101, 108, 101, 100]))"
| "azureText OtherReason = Done []"

definition azureClose :: "azure_st \<Rightarrow> azure_st" where
  "azureClose s = s\<lparr>az_resolved := True, az_timer := False, az_closed := az_closed s + 1\<rparr>"

fun az_step :: "azure_event \<Rightarrow> azure_st \<Rightarrow> azure_st" where
  "az_step AzTimeout s =
     (if \<not> az_timer s then s
      else if az_resolved s then s\<lparr>az_timer := False\<rparr>
      else (azureClose s)\<lparr>az_promise := settle (Done []) (az_promise s)\<rparr>)"
| "az_step (AzResult r) s =
     (if az_resolved s then s else (azureClose s)\<lparr>az_promise := settle (azureText r) (az_promise s)\<rparr>)"
| "az_step (AzError e) s =
     (if az_resolved s then s else (azureClose s)\<lparr>az_promise := settle (Failed e) (az_promise s)\<rparr>)"

text \<open>\<open>recognizeOnceAzure\<close>: without a configuration the call is rejected at once.\<close>

definition recognizeOnceAzure :: "bool \<Rightarrow> azure_st" where
  "recognizeOnceAzure configured = (if configured then az_start
     else az_start\<lparr>az_resolved := True, az_timer := False, az_phrases := [],
       az_promise := Failed [65, 90, 85, 82, 69, 95, 83, 80, 69, 69, 67, 72, 95, 75, 69, 89, 32, 105,
       115, 32, 110, 111, 116, 32, 115, 101, 116]\<rparr>)"

text \<open>\<open>transcribeStreamAzure\<close>: the audio is collected and recognised when it ends.\<close>

record azure_stream =
  azs_chunks :: "int list list"
  azs_inner :: "azure_st option"
  azs_promise :: "jstr settled"

datatype azure_stream_event = AzsData "int list" | AzsEnd | AzsError jstr | AzsInner azure_event

definition azs_start :: azure_stream where
  "azs_start = \<lparr>azs_chunks = [], azs_inner = None, azs_promise = Open\<rparr>"

definition azsAdopt :: "azure_st \<Rightarrow> azure_stream \<Rightarrow> azure_stream" where
  "azsAdopt a s = s\<lparr>azs_inner := Some a, azs_promise := settle (az_promise a) (azs_promise s)\<rparr>"

fun azs_step :: "bool \<Rightarrow> azure_stream_event \<Rightarrow> azure_stream \<Rightarrow> azure_stream" where
  "azs_step configured (AzsData c) s = s\<lparr>azs_chunks := azs_chunks s @ [c]\<rparr>"
| "azs_step configured AzsEnd s =
     (if concat (azs_chunks s) = [] then s\<lparr>azs_promise := settle (Done []) (azs_promise s)\<rparr>
      else azsAdopt (recognizeOnceAzure configured) s)"
| "azs_step configured (AzsError e) s = s\<lparr>azs_promise := settle (Failed e) (azs_promise s)\<rparr>"
| "azs_step configured (AzsInner e) s = (case azs_inner s of None \<Rightarrow> s | Some a \<Rightarrow> azsAdopt (az_step e a) s)"

section \<open>Providers\<close>

datatype SttProvider = Deepgram | Azure | Clova | Daglo

record stt_config =
  cf_provider :: "jstr option"
  cf_dagloKey :: "jstr option"
  cf_clovaSecret :: "jstr option"
  cf_azureKey :: "jstr option"

record stt_service =
  stt_provider :: SttProvider
  clovaAdapter :: bool
  dagloAdapter :: bool
  azureSpeechConfig :: bool

definition chooseProvider :: "jstr option \<Rightarrow> SttProvider" where
  "chooseProvider p = (let r = to_lower (str_or p [100, 101, 101, 112, 103, 114, 97, 109])
     in if r = [97, 122, 117, 114, 101] then Azure else if r = [99, 108, 111, 118,
       97] then Clova else if r = [100, 97, 103, 108, 111] then Daglo else Deepgram)"

definition stt_init :: "stt_config \<Rightarrow> stt_service" where
  "stt_init c = (let p = chooseProvider (cf_provider c)
     in \<lparr>stt_provider = p, clovaAdapter = (p = Clova \<and> truthy_str (cf_clovaSecret c)),
         dagloAdapter = (p = Daglo \<and> truthy_str (cf_dagloKey c)), azureSpeechConfig = (p = Azure \<and> truthy_str (cf_azureKey c))\<rparr>)"

text \<open>
  The outcomes of the sessions of the providers: an error message or the text, for a buffer and for a stream of chunks.
\<close>

record stt_env =
  dgFile :: "int list \<Rightarrow> jstr list \<Rightarrow> jstr + jstr option"
  dgLive :: "int list list \<Rightarrow> jstr + jstr"
  azureOnce :: "int list \<Rightarrow> jstr + jstr"
  azureStream :: "int list list \<Rightarrow> jstr + jstr"
  clovaTranscribe :: "int list \<Rightarrow> ClovaSttConfig \<Rightarrow> jstr + jstr"
  clovaStream :: "int list list \<Rightarrow> ClovaSttConfig \<Rightarrow> jstr + ClovaTranscript list"
  dagloTranscribe :: "int list \<Rightarrow> DagloSttConfig \<Rightarrow> jstr + jstr"
  dagloStream :: "int list list \<Rightarrow> DagloSttConfig \<Rightarrow> jstr + DagloTranscript list"
  bedrock :: "jstr \<Rightarrow> jstr + jstr option"

record SttResult =
  sr_raw :: jstr
  sr_corrected :: jstr

definition clovaConfig :: ClovaSttConfig where
  "clovaConfig = \<lparr>clv_language = Some [107, 111], clv_boosting = Some (take 50 ALL_HINTS)\<rparr>"

definition dagloSettings :: DagloSttConfig where
  "dagloSettings = \<lparr>dgl_language = Some [107, 111, 45, 75, 82], dgl_sampleRate = Some 16000,
    dgl_interim = Some True\<rparr>"

definition transcribeFromBufferClova :: "stt_env \<Rightarrow> stt_service \<Rightarrow> int list \<Rightarrow> jstr + jstr" where
  "transcribeFromBufferClova env v audio =
     (if \<not> clovaAdapter v then Inl [67, 108, 111, 118, 97, 32, 83, 84, 84, 32, 97, 100, 97, 112,
       116, 101, 114, 32, 105, 115, 32, 110, 111, 116, 32, 105, 110, 105, 116, 105, 97, 108, 105, 122,
       101, 100] else clovaTranscribe env audio clovaConfig)"

definition transcribeStreamClova :: "stt_env \<Rightarrow> stt_service \<Rightarrow> int list list \<Rightarrow> jstr + jstr" where
  "transcribeStreamClova env v chunks =
     (if \<not> clovaAdapter v then Inl [67, 108, 111, 118, 97, 32, 83, 84, 84, 32, 97, 100, 97, 112,
       116, 101, 114, 32, 105, 115, 32, 110, 111, 116, 32, 105, 110, 105, 116, 105, 97, 108, 105, 122,
       101, 100]
      else case clovaStream env chunks clovaConfig of
          Inl e \<Rightarrow> Inl e
        | Inr rs \<Rightarrow> Inr (trim (join [32] (map clv_text (filter (\<lambda>r. clv_isFinal r \<and> clv_text r \<noteq> []) rs)))))"

definition transcribeFromBufferDaglo :: "stt_env \<Rightarrow> stt_service \<Rightarrow> int list \<Rightarrow> jstr + jstr" where
  "transcribeFromBufferDaglo env v audio =
     (if \<not> dagloAdapter v then Inl [68, 97, 103, 108, 111, 32, 83, 84, 84, 32, 97, 100, 97, 112,
       116, 101, 114, 32, 105, 115, 32, 110, 111, 116, 32, 105, 110, 105, 116, 105, 97, 108, 105, 122,
       101, 100] else dagloTranscribe env audio dagloSettings)"

definition transcribeStreamDaglo :: "stt_env \<Rightarrow> stt_service \<Rightarrow> int list list \<Rightarrow> jstr + jstr" where
  "transcribeStreamDaglo env v chunks =
     (if \<not> dagloAdapter v then Inl [68, 97, 103, 108, 111, 32, 83, 84, 84, 32, 97, 100, 97, 112,
       116, 101, 114, 32, 105, 115, 32, 110, 111, 116, 32, 105, 110, 105, 116, 105, 97, 108, 105, 122,
       101, 100]
      else case dagloStream env chunks dagloSettings of
          Inl e \<Rightarrow> Inl e
        | Inr rs \<Rightarrow> Inr (trim (join [32] (map dgt_text (filter (\<lambda>r. dgt_isFinal r \<and> dgt_text r \<noteq> []) rs)))))"

definition rawTranscribeFromBuffer :: "stt_env \<Rightarrow> stt_service \<Rightarrow> int list \<Rightarrow> jstr + jstr" where
  "rawTranscribeFromBuffer env v audio = (case stt_provider v of
      Daglo \<Rightarrow> transcribeFromBufferDaglo env v audio
    | Clova \<Rightarrow> transcribeFromBufferClova env v audio
    | Azure \<Rightarrow> azureOnce env audio
    | Deepgram \<Rightarrow> (case dgFile env audio (take 100 ALL_HINTS) of
          Inl e \<Rightarrow> Inl e
        | Inr t \<Rightarrow> Inr (str_or t [])))"

definition rawTranscribeStream :: "stt_env \<Rightarrow> stt_service \<Rightarrow> int list list \<Rightarrow> jstr + jstr" where
  "rawTranscribeStream env v chunks = (case stt_provider v of
      Daglo \<Rightarrow> transcribeStreamDaglo env v chunks
    | Clova \<Rightarrow> transcribeStreamClova env v chunks
    | Azure \<Rightarrow> azureStream env chunks
    | Deepgram \<Rightarrow> dgLive env chunks)"

definition rawTranscribeFromBufferStream :: "stt_env \<Rightarrow> stt_service \<Rightarrow> int list \<Rightarrow> jstr + jstr" where
  "rawTranscribeFromBufferStream env v audio = (case stt_provider v of
      Daglo \<Rightarrow> transcribeFromBufferDaglo env v audio
    | Clova \<Rightarrow> transcribeFromBufferClova env v audio
    | Azure \<Rightarrow> azureStream env [audio]
    | Deepgram \<Rightarrow> rawTranscribeStream env v [audio])"

definition corrected :: "stt_env \<Rightarrow> jstr + jstr \<Rightarrow> jstr + jstr" where
  "corrected env r = (case r of Inl e \<Rightarrow> Inl e | Inr t \<Rightarrow> Inr (postProcess (bedrock env) t))"

definition withRaw :: "stt_env \<Rightarrow> jstr + jstr \<Rightarrow> jstr + SttResult" where
  "withRaw env r = (case r of Inl e \<Rightarrow> Inl e | Inr t \<Rightarrow> Inr \<lparr>sr_raw = t, sr_corrected = postProcess (bedrock env) t\<rparr>)"

definition transcribeFromBuffer :: "stt_env \<Rightarrow> stt_service \<Rightarrow> int list \<Rightarrow> jstr + jstr" where
  "transcribeFromBuffer env v audio = corrected env (rawTranscribeFromBuffer env v audio)"

definition transcribeFromBufferWithRaw :: "stt_env \<Rightarrow> stt_service \<Rightarrow> int list \<Rightarrow> jstr + SttResult" where
  "transcribeFromBufferWithRaw env v audio = withRaw env (rawTranscribeFromBuffer env v audio)"

definition transcribeStream :: "stt_env \<Rightarrow> stt_service \<Rightarrow> int list list \<Rightarrow> jstr + jstr" where
  "transcribeStream env v chunks = corrected env (rawTranscribeStream env v chunks)"

definition transcribeStreamWithRaw :: "stt_env \<Rightarrow> stt_service \<Rightarrow> int list list \<Rightarrow> jstr + SttResult" where
  "transcribeStreamWithRaw env v chunks = withRaw env (rawTranscribeStream env v chunks)"

definition transcribeFromBufferStream :: "stt_env \<Rightarrow> stt_service \<Rightarrow> int list \<Rightarrow> jstr + jstr" where
  "transcribeFromBufferStream env v audio = corrected env (rawTranscribeFromBufferStream env v audio)"

definition transcribeFromBufferStreamWithRaw :: "stt_env \<Rightarrow> stt_service \<Rightarrow> int list \<Rightarrow> jstr + SttResult" where
  "transcribeFromBufferStreamWithRaw env v audio = withRaw env (rawTranscribeFromBufferStream env v audio)"

definition stt_onModuleDestroy :: "stt_service \<Rightarrow> stt_service" where
  "stt_onModuleDestroy v = v\<lparr>clovaAdapter := False, dagloAdapter := False\<rparr>"

section \<open>The correction by the model is never asked for\<close>

definition wakeErrors :: "jstr list" where
  "wakeErrors = [[50500, 50872, 46972], [50500, 50864, 45208], [50500, 50864, 47084], [50500, 50724,
    46972], [50724, 50864, 46972], [50612, 50864, 46972], [50724, 46972], [50612, 46972], [50500,
    47084], [50500, 51004, 46972], [50500, 50500, 46972], [52908, 54168], [47560, 51665]]"

lemma rules_keep_out:
  assumes "p \<noteq> []" "list_all (\<lambda>(w, c). w \<noteq> [] \<and> safeFrom c p) rules" "\<not> str_includes p t"
  shows "\<not> str_includes p (applyRules rules t)"
  using assms(2,3)
proof (induction rules arbitrary: t)
  case (Cons wc rules)
  obtain w c where wc: "wc = (w, c)" by fastforce
  have "\<not> str_includes p (replaceAll (lit w) c t)"
    using Cons.prems assms(1) lit_progress [of w] by (intro replace_keeps_out) (auto simp: wc)
  then show ?case using Cons wc by (simp add: applyRules_def)
qed (simp add: applyRules_def)

lemma rules_take_out:
  assumes "p \<noteq> []" "list_all (\<lambda>(w, c). w \<noteq> [] \<and> safeFrom c p) rules" "p \<in> fst ` set rules"
  shows "\<not> str_includes p (applyRules rules t)"
proof -
  obtain c where "(p, c) \<in> set rules" using assms(3) by auto
  then obtain as bs where r: "rules = as @ (p, c) # bs" by (metis split_list)
  have "safeFrom c p" using assms(2) r by simp
  then have "\<not> str_includes p (replaceAll (lit p) c (applyRules as t))" using assms(1) by (rule replace_takes_out)
  from rules_keep_out [OF assms(1) _ this, of bs] show ?thesis using assms(2) r by (simp add: applyRules_def)
qed

lemma trim_infix: "\<exists>a b. s = a @ trim s @ b"
proof -
  obtain u where "s = u @ dropWhile is_space s" by (metis takeWhile_dropWhile_id)
  moreover obtain v where "rev (dropWhile is_space s) = v @ dropWhile is_space (rev (dropWhile is_space s))"
    by (metis takeWhile_dropWhile_id)
  ultimately show ?thesis unfolding trim_def by (metis append_assoc rev_append rev_rev_ident)
qed

lemma trim_keeps_out: "\<not> str_includes p s \<Longrightarrow> \<not> str_includes p (trim s)"
  using trim_infix [of s] unfolding str_includes_iff by (metis append_assoc)

lemma plus_space_progress: "mt (plus space) x y \<Longrightarrow> progress x y"
  by (cases x) (auto simp: space_def mt_plus_Cls progress_def)

lemma wakeErrors_out:
  "list_all (\<lambda>p. p \<noteq> [] \<and> safeFrom [32] p \<and> list_all (\<lambda>(w, c). w \<noteq> [] \<and> safeFrom c p) PHONETIC_CORRECTIONS \<and>
     list_ex (\<lambda>(w, c). w = p) PHONETIC_CORRECTIONS \<and> list_all (\<lambda>c. 1000 < c) p) wakeErrors"
  by code_simp

lemma corrected_free:
  assumes "p \<in> set wakeErrors"
  shows "\<not> str_includes p (applyPhoneticCorrections t)"
proof -
  have p: "p \<noteq> []" "safeFrom [32] p" "list_all (\<lambda>(w, c). w \<noteq> [] \<and> safeFrom c p) PHONETIC_CORRECTIONS"
    "list_ex (\<lambda>(w, c). w = p) PHONETIC_CORRECTIONS"
    using wakeErrors_out assms by (auto simp: list_all_iff)
  have "p \<in> fst ` set PHONETIC_CORRECTIONS" using p(4) by (force simp: list_ex_iff)
  then show ?thesis unfolding applyPhoneticCorrections_def
    by (intro trim_keeps_out replace_keeps_out plus_space_progress rules_take_out p)
qed

text \<open>Lower case touches ASCII letters only.\<close>

lemma to_lower_starts: "list_all (\<lambda>c. 1000 < c) p \<Longrightarrow> starts_with p (to_lower s) \<longleftrightarrow> starts_with p s"
proof (induction p s rule: starts_with.induct)
  case (3 p ps c s)
  then show ?case by (cases "65 \<le> c \<and> c \<le> 90") (auto simp: to_lower_def)
qed (simp_all add: to_lower_def)

lemma to_lower_includes: "list_all (\<lambda>c. 1000 < c) p \<Longrightarrow> str_includes p (to_lower t) \<longleftrightarrow> str_includes p t"
proof (induction t)
  case (Cons c t)
  have "to_lower (c # t) = (if 65 \<le> c \<and> c \<le> 90 then c + 32 else c) # to_lower t" by (simp add: to_lower_def)
  with Cons to_lower_starts [OF Cons.prems, of "c # t"] show ?case by (metis str_includes.simps(2))
qed (simp add: to_lower_def)

lemma test_lit: "test (lit p) t \<longleftrightarrow> str_includes p t"
  by (auto simp: test_iff mt_lit str_includes_iff)

lemma test_Bol: "test (seqs [Bol, lit p]) t \<Longrightarrow> str_includes p t"
  by (auto simp: test_iff mt_seqs_Cons mt_lit str_includes_iff elim!: mt_BolE)

lemma test_lits_iff: "ss \<noteq> [] \<Longrightarrow> test (lits ss) t \<longleftrightarrow> list_ex (\<lambda>p. str_includes p t) ss"
  unfolding test_lit [symmetric] test_iff list_ex_iff by (simp add: mt_lits) blast

text \<open>
  C26. The correction by the language model, meant for misheard wake words, is never asked for them: after the table of
  corrections no such word is left in any text. All that can still ask for it is one of two other misspellings.
\<close>

theorem wake_word_correction_unreachable:
  "\<not> list_ex (\<lambda>p. test p (to_lower (applyPhoneticCorrections t))) wakePatterns \<and>
   shouldUseLlmCorrection (applyPhoneticCorrections t) =
     (\<not> list_ex (\<lambda>p. test p (applyPhoneticCorrections t)) properNounPatterns \<and>
      (str_includes [49457, 49689] (applyPhoneticCorrections t) \<or> str_includes [46497, 48373] (applyPhoneticCorrections t)))"
proof -
  let ?c = "applyPhoneticCorrections t"
  have low: "str_includes p (to_lower ?c) \<longleftrightarrow> False" if "p \<in> set wakeErrors" for p
    using that corrected_free [OF that] wakeErrors_out by (simp add: to_lower_includes list_all_iff)
  have "list_all (\<lambda>p. list_ex (\<lambda>q. p = lit q \<or> p = seqs [Bol, lit q]) wakeErrors) wakePatterns"
    by (simp add: wakePatterns_def wakeErrors_def)
  then have w: "\<not> test p (to_lower ?c)" if "p \<in> set wakePatterns" for p
    using that low test_Bol [of _ "to_lower ?c"] unfolding list_all_iff list_ex_iff test_lit by (metis test_lit)
  moreover have "test weirdWords (to_lower ?c) \<longleftrightarrow> str_includes [49457, 49689] ?c \<or> str_includes [46497, 48373] ?c"
    using corrected_free [of "[52908, 54168]" t] corrected_free [of "[47560, 51665]" t]
    by (simp add: weirdWords_def test_lits_iff to_lower_includes wakeErrors_def)
  ultimately show ?thesis unfolding shouldUseLlmCorrection_def list_ex_iff by blast
qed

section \<open>Words the table damages\<close>

text \<open>Oracle becomes a word with the wake word in it, and a blank between two words is lost.\<close>

lemma oracle_becomes_wake_word: "applyPhoneticCorrections [50724, 46972, 53364, 32, 45936, 51060,
  53552, 48288, 51060, 49828] = [50500, 50864, 46972, 53364, 32, 45936, 51060, 53552, 48288, 51060,
  49828]"
  by code_simp

lemma blank_is_lost: "applyPhoneticCorrections [54924, 51032, 32, 51204, 32, 49884, 44036] = [54924,
  51032, 32, 51204, 49884, 44036]"
  by code_simp

text \<open>The rule that turns a misheard phrase into a cafe in Seongsu never applies: an earlier rule replaces its first part.\<close>

lemma seongsu_cafe_rule_dead: "applyPhoneticCorrections [49457, 49689, 54616, 44172, 32, 52628, 52380,
  54644, 51480] = [49457, 49688, 54616, 44172, 32, 52628, 52380, 54644, 51480]"
  by code_simp

section \<open>Sessions of Deepgram and Azure\<close>

definition dg_decides :: "dg_event \<Rightarrow> bool" where
  "dg_decides e = (case e of DgClose \<Rightarrow> True | DgError _ \<Rightarrow> True | _ \<Rightarrow> False)"

interpretation deepgram: session dg_promise dg_step dg_decides
proof
  fix s e
  show "dg_promise s \<noteq> Open \<Longrightarrow> dg_promise (dg_step e s) = dg_promise s"
    by (cases e) (auto simp: settle_keeps split: option.splits)
  show "\<not> dg_decides e \<Longrightarrow> dg_promise (dg_step e s) = dg_promise s"
    by (cases e) (auto simp: dg_decides_def split: option.splits)
  show "dg_decides e \<Longrightarrow> dg_promise (dg_step e s) \<noteq> Open" by (cases e) (auto simp: dg_decides_def settle_not_open)
qed

text \<open>
  In Azure's session the flag, the timer, the recogniser and the promise move together: the recogniser is closed at most
  once, and exactly when the promise is settled.
\<close>

definition az_inv :: "azure_st \<Rightarrow> bool" where
  "az_inv s \<longleftrightarrow> (if az_resolved s then az_promise s \<noteq> Open \<and> az_closed s = 1 \<and> \<not> az_timer s
     else az_promise s = Open \<and> az_closed s = 0 \<and> az_timer s)"

lemma azureText_settled: "azureText r \<noteq> Open"
  by (cases r) auto

lemma az_inv_step: "az_inv s \<Longrightarrow> az_inv (az_step e s)"
  by (cases e) (auto simp: az_inv_def azureClose_def azureText_settled split: if_splits)

lemma az_step_settles: "az_inv s \<Longrightarrow> az_resolved (az_step e s)"
  by (cases e) (auto simp: az_inv_def azureClose_def)

interpretation azure: inv_system az_inv az_step
  by unfold_locales (rule az_inv_step)

text \<open>
  C27. A recognition by Azure settles with its first event, be it the result, the error or the ten seconds, and no later
  event changes that; the recogniser is closed exactly once, and the timer is then cleared.
\<close>

theorem azure_first_event_decides:
  "az_promise (fold az_step (e # es) az_start) =
     (case e of AzTimeout \<Rightarrow> Done [] | AzResult r \<Rightarrow> azureText r | AzError m \<Rightarrow> Failed m) \<and>
   az_closed (fold az_step (e # es) az_start) = 1 \<and> \<not> az_timer (fold az_step (e # es) az_start)"
proof -
  have stay: "az_promise (fold az_step es s) = az_promise s \<and> az_resolved (fold az_step es s)" if "az_resolved s" "az_inv s" for s
    using that
  proof (induction es arbitrary: s)
    case (Cons e es)
    have "az_step e s = s" using Cons.prems by (cases e) (auto simp: az_inv_def)
    then show ?case using Cons by simp
  qed simp
  have i: "az_inv az_start" by (simp add: az_inv_def az_start_def)
  have "az_inv (az_step e az_start)" "az_resolved (az_step e az_start)"
    using az_inv_step [OF i] az_step_settles [OF i] by auto
  from stay [OF this(2,1)] have s: "az_promise (fold az_step (e # es) az_start) = az_promise (az_step e az_start)"
    "az_resolved (fold az_step (e # es) az_start)" by simp_all
  have "az_inv (fold az_step (e # es) az_start)" by (rule azure.inv_run [OF i])
  then have "az_closed (fold az_step (e # es) az_start) = 1 \<and> \<not> az_timer (fold az_step (e # es) az_start)"
    using s(2) unfolding az_inv_def by simp
  moreover have "az_promise (az_step e az_start) = (case e of AzTimeout \<Rightarrow> Done [] | AzResult r \<Rightarrow> azureText r | AzError m \<Rightarrow> Failed m)"
    by (cases e) (simp_all add: az_start_def)
  ultimately show ?thesis using s(1) by simp
qed

text \<open>
  The live connection to Deepgram: the promise settles when the connection closes or fails, with the texts received
  before joined by blanks.
\<close>

theorem deepgram_collects:
  assumes "\<not> list_ex dg_decides es"
  shows "dg_promise (fold dg_step (es @ DgClose # rest) dg_start) =
    Done (join [32] (concat (map (\<lambda>e. case e of DgTranscript (Some x) \<Rightarrow> if trim x \<noteq> [] then [x] else [] | _ \<Rightarrow> []) es)))"
proof -
  let ?got = "\<lambda>e. case e of DgTranscript (Some x) \<Rightarrow> if trim x \<noteq> [] then [x] else [] | _ \<Rightarrow> []"
  have got: "dg_transcripts (fold dg_step es s) = dg_transcripts s @ concat (map ?got es)" for s
  proof (induction es arbitrary: s)
    case (Cons e es)
    have "dg_transcripts (dg_step e s) = dg_transcripts s @ ?got e" by (cases e) (auto split: option.splits)
    with Cons show ?case by simp
  qed simp
  have o: "dg_promise dg_start = Open" by (simp add: dg_start_def)
  then have p: "dg_promise (fold dg_step es dg_start) = Open" using assms by (simp add: deepgram.run_open_iff)
  have "dg_promise (fold dg_step (es @ DgClose # rest) dg_start) = dg_promise (dg_step DgClose (fold dg_step es dg_start))"
    by (rule deepgram.run_decided_by_first [OF o assms]) (simp add: dg_decides_def)
  then show ?thesis using got [of dg_start] p by (simp add: dg_start_def)
qed

theorem deepgram_collects_witness:
  "dg_promise (fold dg_step [DgOpen, DgTranscript (Some [45348]), DgTranscript (Some [32]),
    DgTranscript (Some [51339, 50500]), DgClose] dg_start) = Done [45348, 32, 51339, 50500]"
  using deepgram_collects [of "[DgOpen, DgTranscript (Some [45348]), DgTranscript (Some [32]), DgTranscript (Some [51339, 50500])]" "[]"]
  by (simp add: dg_decides_def trim_def is_space_def)

end
