(* ===== verification/Vision.thy ===== *)
theory Vision
  imports LlmService
begin

text \<open>
  Analysis of shared screens, \<open>src/vision/vision.service.ts\<close>: the waiting of concurrent requests, retries, the prompts, and
  the reading of the answers. The model is a parameter that gives an answer, an error or a throttling error for every
  attempt; \<open>JSON.parse\<close> of an analysis gives nothing where it throws. Coordinates are rational numbers, whose way of
  printing is a parameter.
\<close>

section \<open>Data\<close>

record ISOQualityMetric =
  iq_name :: jstr
  iq_score :: rat
  iq_description :: jstr

record AICodeSuggestion =
  cs_category :: jstr
  cs_severity :: jstr
  cs_suggestion :: jstr

datatype analysis_type = CodeType | DocumentType | ChartType | ImageType | GeneralType

record VisionAnalysisResult =
  vr_text :: jstr
  vr_confidence :: rat
  vr_type :: analysis_type
  vr_metrics :: "ISOQualityMetric list option"
  vr_suggestions :: "AICodeSuggestion list option"
  vr_sources :: "jstr list option"

record VisionContext =
  vc_cursor :: "(rat \<times> rat) option"
  vc_highlighted :: "jstr option"
  vc_width :: rat
  vc_height :: rat

record vision_request =
  vq_maxTokens :: int
  vq_temperature :: "rat option"
  vq_system :: jstr
  vq_image :: jstr
  vq_question :: jstr

text \<open>The parsed analysis of code.\<close>

record quality_data =
  qd_summary :: "jstr option"
  qd_metrics :: "ISOQualityMetric list option"
  qd_suggestions :: "AICodeSuggestion list option"
  qd_sources :: "jstr list option"

record vision_env =
  visionModel :: "vision_request \<Rightarrow> nat \<Rightarrow> model_reply"
  parseQuality :: "jstr \<Rightarrow> quality_data option"
  showNumber :: "rat \<Rightarrow> jstr"

definition VISION_INTERVAL :: int where "VISION_INTERVAL = 2000"

definition VISION_RETRIES :: nat where "VISION_RETRIES = 3"

section \<open>Images\<close>

definition dataUrlPrefix :: rx where
  "dataUrlPrefix = seqs [Bol, lit [100, 97, 116, 97, 58, 105, 109, 97, 103, 101, 47], plus (Cls [(48,
    57), (65, 90), (95, 95), (97, 122)]), lit [59, 98, 97, 115, 101, 54, 52, 44]]"

definition stripPrefix :: "jstr \<Rightarrow> jstr" where
  "stripPrefix s = replaceAll dataUrlPrefix [] s"

text \<open>\<open>toFixed(2)\<close> of a number that is not negative.\<close>

definition toFixed2 :: "rat \<Rightarrow> jstr" where
  "toFixed2 x = (let n = \<lfloor>x * 100 + 1 / 2\<rfloor> in jint (n div 100) @ [46] @ jint (n mod 100 div 10) @ jint (n mod 10))"

definition sizeInMB :: "jstr \<Rightarrow> rat" where
  "sizeInMB base64 = of_nat (length base64) * 3 / 4 / (1024 * 1024)"

definition validateAndCompressImage :: "jstr \<Rightarrow> jstr + jstr" where
  "validateAndCompressImage imageBase64 =
     (let base64 = stripPrefix imageBase64
      in if sizeInMB base64 > 5
         then Inl ([51060, 48120, 51648, 44032, 32, 45320, 47924, 32, 53373, 45768, 45796, 32,
           40] @ toFixed2 (sizeInMB base64) @ [77, 66, 41, 46, 32, 52572, 45824, 32, 53, 77, 66, 44620,
           51648, 32, 51648, 50896, 46121, 45768, 45796, 46])
         else Inr base64)"

section \<open>Prompts\<close>

definition FOCUS_KEYWORDS :: "jstr list" where
  "FOCUS_KEYWORDS = [[51060, 44144], [51060, 44172], [51060, 32, 48512, 48516], [50668, 44592], [51200,
    44144], [51200, 44592], [51060, 51901], [51200, 51901]]"

text \<open>
  \<open>x / width < limit\<close> as the code computes it: a division by zero gives an infinity of the sign of the dividend, or no
  number, which is less than nothing.
\<close>

definition relLess :: "rat \<Rightarrow> rat \<Rightarrow> rat \<Rightarrow> bool" where
  "relLess x width limit \<longleftrightarrow> (if width = 0 then x < 0 else x / width < limit)"

definition getCursorRegionDescription :: "rat \<Rightarrow> rat \<Rightarrow> rat \<Rightarrow> rat \<Rightarrow> jstr" where
  "getCursorRegionDescription x y width height =
     (let vertical = (if relLess y height (33 / 100) then [49345, 45800] else if relLess y height (66 / 100) then [51473, 50521] else [54616, 45800]);
          horizontal = (if relLess x width (33 / 100) then [50812,
            51901] else if relLess x width (66 / 100) then [51473, 50521] else [50724, 47480, 51901])
      in if vertical = [51473, 50521] \<and> horizontal = [51473, 50521] then [54868, 47732, 32, 51221,
        51473, 50521]
         else [54868, 47732, 32] @ vertical @ [32] @ horizontal)"

definition hasFocusKeyword :: "jstr \<Rightarrow> bool" where
  "hasFocusKeyword q = list_ex (\<lambda>k. str_includes k q) FOCUS_KEYWORDS"

definition focusPrompt :: "jstr \<Rightarrow> jstr \<Rightarrow> jstr" where
  "focusPrompt region info = [45817, 49888, 51008, 32, 54868, 47732, 51012, 32, 48372, 44256, 32,
    51080, 45716, 32, 46041, 47308, 32, 39, 50500, 50864, 46972, 39, 50696, 50836, 46, 10, 10, 35, 35,
    32, 55356, 57263, 32, 51473, 50836, 58, 32, 34] @ region @ [34, 32, 50689, 50669, 47564, 32, 48516,
    49437, 54616, 49464, 50836, 33, 10, 49324, 50857, 51088, 44032, 32, 52964, 49436, 47196, 32, 53945,
    51221, 32, 48512, 48516, 51012, 32, 44032, 47532, 53412, 44256, 32, 51080, 50612, 50836, 46,
    10] @ info @ [10, 10, 35, 35, 32, 51208, 45824, 32, 44508, 52825, 10, 49, 46, 32, 42,
    42] @ region @ [50640, 32, 51080, 45716, 32, 50836, 49548, 47564, 42, 42, 32, 49444, 47749, 54616,
    49464, 50836, 10, 50, 46, 32, 54868, 47732, 32, 45796, 47480, 32, 50689, 50669, 40, 53945, 55176,
    32, 51473, 50521, 32, 50689, 49345, 32, 45236, 50857, 41, 51008, 32, 47924, 49884, 54616, 49464,
    50836, 10, 51, 46, 32, 52964, 49436, 32, 44540, 52376, 51032, 32, 53581, 49828, 53944, 44, 32,
    48260, 53948, 44, 32, 85, 73, 32, 50836, 49548, 47484, 32, 50864, 49440, 32, 54869, 51064, 54616,
    49464, 50836, 10, 10, 35, 35, 32, 51025, 45813, 32, 44508, 52825, 10, 45, 32, 52964, 49436, 44032,
    32, 44032, 47532, 53412, 45716, 32, 50836, 49548, 47564, 32, 42, 42, 49, 45, 50, 47928, 51109, 42,
    42, 51004, 47196, 32, 49444, 47749, 10, 45, 32, 34, 126, 50836, 34, 44, 32, 34, 126, 50696, 50836,
    34, 32, 47568, 53804, 10, 45, 32, 45796, 47480, 32, 48512, 48516, 51008, 32, 51208, 45824, 32,
    50616, 44553, 54616, 51648, 32, 47560, 49464, 50836]"

definition generalPrompt :: "jstr \<Rightarrow> jstr \<Rightarrow> jstr" where
  "generalPrompt info highlight = [45817, 49888, 51008, 32, 54868, 47732, 51012, 32, 48372, 44256, 32,
    51080, 45716, 32, 46041, 47308, 32, 39, 50500, 50864, 46972, 39, 50696, 50836, 46, 10,
    10] @ info @ [32] @ highlight @ [10, 10, 35, 35, 32, 48516, 49437, 32, 49692, 49436, 32, 40, 45236,
    48512, 51201, 51004, 47196, 32, 49688, 54665, 44, 32, 52636, 47141, 51008, 32, 52572, 51333, 32,
    45813, 48320, 47564, 41, 10, 49, 46, 32, 54868, 47732, 51032, 32, 53581, 49828, 53944, 32, 47676,
    51200, 32, 51069, 44592, 32, 40, 51228, 47785, 44, 32, 51088, 47561, 44, 32, 85, 73, 32, 46972,
    48296, 44, 32, 48260, 53948, 32, 46321, 41, 10, 50, 46, 32, 53581, 49828, 53944, 47196, 32, 47589,
    46973, 32, 54028, 50501, 32, 40, 47924, 49832, 32, 50545, 47, 49324, 51060, 53944, 47, 50689,
    49345, 51064, 51648, 41, 10, 51, 46, 32, 49884, 44033, 51201, 32, 50836, 49548, 32, 54028, 50501,
    32, 40, 51060, 48120, 51648, 44, 32, 44536, 47000, 54532, 44, 32, 53076, 46300, 32, 46321, 41, 10,
    52, 46, 32, 51333, 54633, 54644, 49436, 32, 49324, 50857, 51088, 32, 51656, 47928, 50640, 32,
    45813, 48320, 10, 10, 35, 35, 32, 51025, 45813, 32, 44508, 52825, 10, 45, 32, 42, 42, 50, 45, 51,
    47928, 51109, 42, 42, 51004, 47196, 32, 54645, 49900, 47564, 32, 40, 45236, 48512, 32, 48516,
    49437, 32, 44284, 51221, 51008, 32, 52636, 47141, 32, 88, 41, 10, 45, 32, 34, 126, 50836, 34, 44,
    32, 34, 126, 50696, 50836, 34, 32, 47568, 53804, 47196, 32, 52828, 44540, 54616, 44172, 10, 45, 32,
    54868, 47732, 50640, 32, 48372, 51060, 45716, 32, 53581, 49828, 53944, 47484, 32, 54876, 50857,
    54644, 49436, 32, 51221, 54869, 54616, 44172, 32, 49444, 47749, 10, 10, 35, 35, 32, 51025, 45813,
    32, 50696, 49884, 10, 45, 32, 34, 50976, 53916, 48652, 32, 50689, 49345, 51060, 45348, 50836, 46,
    32, 39, 54616, 50560, 32, 50500, 46896, 47532, 50640, 39, 32, 52292, 45328, 50640, 49436, 32,
    48149, 47932, 44288, 32, 44415, 51592, 32, 47564, 46300, 45716, 32, 50689, 49345, 51060, 50640,
    50836, 46, 32, 48393, 54889, 32, 47928, 50577, 32, 54028, 50864, 52824, 47484, 32, 48372, 50668,
    51452, 44256, 32, 51080, 45348, 50836, 46, 34, 10, 45, 32, 34, 86, 83, 32, 67, 111, 100, 101,
    50640, 49436, 32, 84, 121, 112, 101, 83, 99, 114, 105, 112, 116, 32, 53076, 46300, 50696, 50836,
    46, 32, 50937, 49548, 53011, 32, 50672, 44208, 54616, 45716, 32, 48512, 48516, 51060, 44256, 44,
    32, 51, 50, 48264, 32, 51460, 50640, 49436, 32, 50640, 47084, 32, 52376, 47532, 54616, 44256, 32,
    51080, 50612, 50836, 46, 34]"

definition cursorAt :: "vision_env \<Rightarrow> rat \<times> rat \<Rightarrow> jstr" where
  "cursorAt env p = [40] @ showNumber env (fst p) @ [44, 32] @ showNumber env (snd p) @ [41]"

definition highlightNote :: "VisionContext option \<Rightarrow> jstr option" where
  "highlightNote ctx = (case ctx of None \<Rightarrow> None | Some c \<Rightarrow>
     if truthy_str (vc_highlighted c) then Some ([91, 49440, 53469, 46108, 32, 53581, 49828, 53944, 58,
       32, 34] @ the (vc_highlighted c) @ [34, 93]) else None)"

definition buildVisionSystemPrompt :: "vision_env \<Rightarrow> VisionContext option \<Rightarrow> jstr \<Rightarrow> jstr" where
  "buildVisionSystemPrompt env ctx question =
     (let cursor = Option.bind ctx vc_cursor;
          region = (case (ctx, cursor) of
              (Some c, Some (x, y)) \<Rightarrow> getCursorRegionDescription x y (vc_width c) (vc_height c)
            | _ \<Rightarrow> []);
          info = (case cursor of None \<Rightarrow> [] | Some p \<Rightarrow> [91, 52964, 49436, 32,
            50948, 52824, 58, 32] @ region @ [32] @ cursorAt env p @ [93]);
          highlight = (case highlightNote ctx of None \<Rightarrow> [] | Some h \<Rightarrow> h)
      in if question \<noteq> [] \<and> hasFocusKeyword question \<and> cursor \<noteq> None then focusPrompt region info
         else generalPrompt info highlight)"

definition buildVisionUserContent :: "vision_env \<Rightarrow> jstr \<Rightarrow> jstr \<Rightarrow> VisionContext option \<Rightarrow> jstr \<times> jstr" where
  "buildVisionUserContent env imageBase64 question ctx =
     (let q1 = (case highlightNote ctx of None \<Rightarrow> question | Some h \<Rightarrow> h @ [10, 10] @ question);
          q2 = (case Option.bind ctx vc_cursor of None \<Rightarrow> q1 | Some p \<Rightarrow> [91,
            52964, 49436, 32, 50948, 52824, 58, 32] @ cursorAt env p @ [93, 10, 10] @ q1)
      in (stripPrefix imageBase64, q2))"

definition qualityPrompt :: jstr where
  "qualityPrompt = [89, 111, 117, 32, 97, 114, 101, 32, 97, 32, 99, 111, 100, 101, 32, 113, 117, 97,
    108, 105, 116, 121, 32, 101, 120, 112, 101, 114, 116, 46, 32, 82, 101, 115, 112, 111, 110, 100, 32,
    79, 78, 76, 89, 32, 119, 105, 116, 104, 32, 74, 83, 79, 78, 46, 10, 10, 70, 79, 82, 77, 65, 84, 32,
    40, 114, 101, 115, 112, 111, 110, 100, 32, 119, 105, 116, 104, 32, 79, 78, 76, 89, 32, 116, 104,
    105, 115, 44, 32, 110, 111, 116, 104, 105, 110, 103, 32, 101, 108, 115, 101, 41, 58, 10, 96, 96,
    96, 106, 115, 111, 110, 10, 123, 10, 32, 32, 34, 115, 117, 109, 109, 97, 114, 121, 34, 58, 32, 34,
    75, 111, 114, 101, 97, 110, 32, 97, 100, 118, 105, 99, 101, 32, 126, 50836, 47, 126, 50696, 50836,
    32, 40, 109, 97, 120, 32, 53, 48, 32, 99, 104, 97, 114, 115, 41, 34, 44, 10, 32, 32, 34, 105, 115,
    111, 77, 101, 116, 114, 105, 99, 115, 34, 58, 32, 91, 10, 32, 32, 32, 32, 123, 34, 110, 97, 109,
    101, 34, 58, 32, 34, 77, 97, 105, 110, 116, 97, 105, 110, 97, 98, 105, 108, 105, 116, 121, 34, 44,
    32, 34, 115, 99, 111, 114, 101, 34, 58, 32, 56, 53, 44, 32, 34, 100, 101, 115, 99, 114, 105, 112,
    116, 105, 111, 110, 34, 58, 32, 34, 75, 111, 114, 101, 97, 110, 32, 109, 97, 120, 32, 51, 48, 32,
    99, 104, 97, 114, 115, 34, 125, 44, 10, 32, 32, 32, 32, 123, 34, 110, 97, 109, 101, 34, 58, 32, 34,
    83, 101, 99, 117, 114, 105, 116, 121, 34, 44, 32, 34, 115, 99, 111, 114, 101, 34, 58, 32, 54, 48,
    44, 32, 34, 100, 101, 115, 99, 114, 105, 112, 116, 105, 111, 110, 34, 58, 32, 34, 75, 111, 114,
    101, 97, 110, 32, 109, 97, 120, 32, 51, 48, 32, 99, 104, 97, 114, 115, 34, 125, 10, 32, 32, 93, 44,
    10, 32, 32, 34, 115, 117, 103, 103, 101, 115, 116, 105, 111, 110, 115, 34, 58, 32, 91, 10, 32, 32,
    32, 32, 123, 34, 99, 97, 116, 101, 103, 111, 114, 121, 34, 58, 32, 34, 115, 101, 99, 117, 114, 105,
    116, 121, 34, 44, 32, 34, 115, 101, 118, 101, 114, 105, 116, 121, 34, 58, 32, 34, 104, 105, 103,
    104, 34, 44, 32, 34, 115, 117, 103, 103, 101, 115, 116, 105, 111, 110, 34, 58, 32, 34, 75, 111,
    114, 101, 97, 110, 32, 109, 97, 120, 32, 54, 48, 32, 99, 104, 97, 114, 115, 34, 125, 10, 32, 32,
    93, 44, 10, 32, 32, 34, 115, 111, 117, 114, 99, 101, 115, 34, 58, 32, 91, 34, 73, 83, 79, 47, 73,
    69, 67, 32, 50, 53, 48, 49, 48, 58, 50, 48, 49, 49, 34, 93, 10, 125, 10, 96, 96, 96, 10, 10, 65,
    66, 83, 79, 76, 85, 84, 69, 32, 82, 85, 76, 69, 83, 58, 10, 49, 46, 32, 83, 116, 97, 114, 116, 32,
    119, 105, 116, 104, 32, 96, 96, 96, 106, 115, 111, 110, 10, 50, 46, 32, 69, 110, 100, 32, 119, 105,
    116, 104, 32, 96, 96, 96, 10, 51, 46, 32, 78, 79, 32, 101, 120, 112, 108, 97, 110, 97, 116, 111,
    114, 121, 32, 116, 101, 120, 116, 32, 98, 101, 102, 111, 114, 101, 32, 111, 114, 32, 97, 102, 116,
    101, 114, 10, 52, 46, 32, 77, 97, 120, 32, 50, 45, 51, 32, 109, 101, 116, 114, 105, 99, 115, 44,
    32, 50, 45, 51, 32, 115, 117, 103, 103, 101, 115, 116, 105, 111, 110, 115, 10, 53, 46, 32, 75, 111,
    114, 101, 97, 110, 32, 108, 97, 110, 103, 117, 97, 103, 101, 32, 111, 110, 108, 121, 32, 102, 111,
    114, 32, 116, 101, 120, 116, 32, 102, 105, 101, 108, 100, 115]"

definition includesAny :: "jstr list \<Rightarrow> jstr \<Rightarrow> bool" where
  "includesAny ws s = list_ex (\<lambda>w. str_includes w s) ws"

definition inferAnalysisType :: "jstr \<Rightarrow> jstr \<Rightarrow> analysis_type" where
  "inferAnalysisType question response =
     (let q = to_lower question; r = to_lower response
      in if includesAny [[53076, 46300], [54632, 49688], [48320, 49688]] q \<or> includesAny [[54632,
        49688], [53076, 46300], [105, 109, 112, 111, 114, 116], [99, 108, 97, 115, 115], [102, 117,
        110, 99, 116, 105, 111, 110]] r then CodeType
         else if includesAny [[44536, 47000, 54532], [52264, 53944], [53685,
           44228]] q \<or> includesAny [[44536, 47000, 54532], [52264, 53944], [51613, 44032], [44048,
           49548], [52628, 51060]] r then ChartType
         else if includesAny [[47928, 49436], [44228, 50557], [48372, 44256,
           49436]] q \<or> includesAny [[47928, 45800], [51312, 54637], [45236,
           50857]] r then DocumentType
         else if includesAny [[51060, 48120, 51648], [49324, 51652], [44536, 47548], [46356, 51088,
           51064]] q then ImageType
         else GeneralType)"

section \<open>Requests\<close>

text \<open>The attempts from number \<open>k\<close> on, of which \<open>left\<close> may still be repeated, and the time slept between them.\<close>

fun visionTry :: "(nat \<Rightarrow> model_reply) \<Rightarrow> nat \<Rightarrow> nat \<Rightarrow> (jstr + jstr option) \<times> int" where
  "visionTry reply k left = (case reply k of
      Answered t \<Rightarrow> (Inr t, 0)
    | Broken e \<Rightarrow> (Inl e, 0)
    | Throttled e \<Rightarrow> (case left of
        0 \<Rightarrow> (Inl e, 0)
      | Suc l \<Rightarrow> let (r, slept) = visionTry reply (Suc k) l in (r, 2 ^ (k + 1) * 2000 + slept)))"

declare visionTry.simps [simp del]

definition screenRequest :: "vision_env \<Rightarrow> jstr \<Rightarrow> jstr \<Rightarrow> VisionContext option \<Rightarrow> vision_request" where
  "screenRequest env imageBase64 question ctx =
     \<lparr>vq_maxTokens = 500, vq_temperature = None, vq_system = buildVisionSystemPrompt env ctx question,
      vq_image = fst (buildVisionUserContent env imageBase64 question ctx),
      vq_question = snd (buildVisionUserContent env imageBase64 question ctx)\<rparr>"

definition callVisionAPI :: "vision_env \<Rightarrow> jstr \<Rightarrow> jstr \<Rightarrow> VisionContext option \<Rightarrow> jstr + VisionAnalysisResult" where
  "callVisionAPI env imageBase64 question ctx =
     (case fst (visionTry (visionModel env (screenRequest env imageBase64 question ctx)) 0 VISION_RETRIES) of
        Inl e \<Rightarrow> Inl e
      | Inr t \<Rightarrow> (let response = str_or t [54868, 47732, 51012, 32, 48516, 49437, 54624, 32,
        49688, 32, 50630, 49845, 45768, 45796, 46]
          in Inr \<lparr>vr_text = response, vr_confidence = 9 / 10, vr_type = inferAnalysisType question response,
                  vr_metrics = None, vr_suggestions = None, vr_sources = None\<rparr>))"

definition qualityQuestion :: jstr where
  "qualityQuestion = [65, 110, 97, 108, 121, 122, 101, 32, 116, 104, 101, 32, 99, 111, 100, 101, 32,
    97, 110, 100, 32, 114, 101, 115, 112, 111, 110, 100, 32, 119, 105, 116, 104, 32, 79, 78, 76, 89,
    32, 116, 104, 101, 32, 74, 83, 79, 78, 32, 102, 111, 114, 109, 97, 116, 32, 115, 112, 101, 99, 105,
    102, 105, 101, 100, 32, 105, 110, 32, 116, 104, 101, 32, 115, 121, 115, 116, 101, 109, 32, 112,
    114, 111, 109, 112, 116, 46, 32, 68, 111, 32, 110, 111, 116, 32, 97, 100, 100, 32, 97, 110, 121,
    32, 101, 120, 112, 108, 97, 110, 97, 116, 105, 111, 110, 115, 46]"

definition qualityRequest :: "vision_env \<Rightarrow> jstr \<Rightarrow> VisionContext option \<Rightarrow> vision_request" where
  "qualityRequest env imageBase64 ctx =
     \<lparr>vq_maxTokens = 1000, vq_temperature = Some (3 / 10), vq_system = qualityPrompt,
      vq_image = fst (buildVisionUserContent env imageBase64 qualityQuestion ctx),
      vq_question = snd (buildVisionUserContent env imageBase64 qualityQuestion ctx)\<rparr>"

definition codeBlock :: rx where
  "codeBlock = seqs [lit [96, 96, 96], opt (lit [106, 115, 111, 110]), star space, Cap 1 (Rep (Cls [(0,
    65535)]) 0 None False), star space, lit [96, 96, 96]]"

definition blockText :: "jstr \<Rightarrow> jstr" where
  "blockText s = (case exec codeBlock s of
      None \<Rightarrow> s
    | Some (b, a, k) \<Rightarrow> (case jget k 1 of None \<Rightarrow> [] | Some t \<Rightarrow> t))"

text \<open>
  \<open>indexOf('{')\<close>, \<open>lastIndexOf('}')\<close> and \<open>substring\<close>, which exchanges its arguments when the first is greater.
\<close>

definition indexChar :: "int \<Rightarrow> jstr \<Rightarrow> nat option" where
  "indexChar c s = (if c \<in> set s then Some (length (takeWhile (\<lambda>x. x \<noteq> c) s)) else None)"

definition lastIndexChar :: "int \<Rightarrow> jstr \<Rightarrow> nat option" where
  "lastIndexChar c s = (if c \<in> set s then Some (length s - 1 - length (takeWhile (\<lambda>x. x \<noteq> c) (rev s))) else None)"

definition substringJs :: "nat \<Rightarrow> nat \<Rightarrow> jstr \<Rightarrow> jstr" where
  "substringJs a b s = take (max a b - min a b) (drop (min a b) s)"

definition objectText :: "jstr \<Rightarrow> jstr option" where
  "objectText s = (case (indexChar 123 s, lastIndexChar 125 s) of
      (Some a, Some b) \<Rightarrow> Some (trim (substringJs a (b + 1) s))
    | _ \<Rightarrow> None)"

definition defaultSources :: "jstr list" where
  "defaultSources = [[73, 83, 79, 47, 73, 69, 67, 32, 50, 53, 48, 49, 48, 58, 50, 48, 49, 49]]"

definition unparsedQuality :: VisionAnalysisResult where
  "unparsedQuality = \<lparr>vr_text = [53076, 46300, 32, 48516, 49437, 51012, 32, 50756, 47308, 54664,
    50612, 50836, 46, 32, 49345, 49464, 48372, 44592, 47484, 32, 45580, 47084, 51452, 49464, 50836,
    33], vr_confidence = 75 / 100, vr_type = CodeType,
     vr_metrics = Some [], vr_suggestions = Some [], vr_sources = Some defaultSources\<rparr>"

definition readQuality :: "vision_env \<Rightarrow> jstr \<Rightarrow> VisionAnalysisResult" where
  "readQuality env response =
     (case Option.bind (objectText (blockText response)) (parseQuality env) of
        None \<Rightarrow> unparsedQuality
      | Some d \<Rightarrow>
          if \<not> truthy_str (qd_summary d) then unparsedQuality
          else \<lparr>vr_text = the (qd_summary d), vr_confidence = 9 / 10, vr_type = CodeType,
                 vr_metrics = Some (case qd_metrics d of None \<Rightarrow> [] | Some qs \<Rightarrow> qs),
                 vr_suggestions = Some (case qd_suggestions d of None \<Rightarrow> [] | Some xs \<Rightarrow> xs),
                 vr_sources = Some (case qd_sources d of None \<Rightarrow> defaultSources | Some xs \<Rightarrow> xs)\<rparr>)"

definition callVisionAPIForQuality :: "vision_env \<Rightarrow> jstr \<Rightarrow> VisionContext option \<Rightarrow> jstr + VisionAnalysisResult" where
  "callVisionAPIForQuality env imageBase64 ctx =
     (case fst (visionTry (visionModel env (qualityRequest env imageBase64 ctx)) 0 VISION_RETRIES) of
        Inl e \<Rightarrow> Inl e
      | Inr t \<Rightarrow> Inr (readQuality env (str_or t [123, 125])))"

section \<open>Waiting\<close>

text \<open>
  \<open>analyzeScreenShare\<close> and \<open>analyzeScreenForQuality\<close> wait in the same way: they poll the flag, sleep off the interval, raise
  the flag, call the model and take the flag down. A call is at a phase; \<open>VisionWake\<close> is the end of a sleep.
\<close>

datatype vision_phase = VPolling | VCooling int | VRunning | VEnded

record vision_st =
  visionProcessing :: bool
  lastVision :: int
  visionCalls :: "vision_phase list"

datatype vision_event = VisionCall | VisionWake nat | VisionDone nat

definition visionStart :: "int \<Rightarrow> nat \<Rightarrow> vision_st \<Rightarrow> vision_st" where
  "visionStart now i s = s\<lparr>visionProcessing := True, lastVision := now, visionCalls := (visionCalls s)[i := VRunning]\<rparr>"

definition visionEnter :: "int \<Rightarrow> nat \<Rightarrow> vision_st \<Rightarrow> vision_st" where
  "visionEnter now i s =
     (if visionProcessing s then s\<lparr>visionCalls := (visionCalls s)[i := VPolling]\<rparr>
      else if now - lastVision s < VISION_INTERVAL
      then s\<lparr>visionCalls := (visionCalls s)[i := VCooling (now + (VISION_INTERVAL - (now - lastVision s)))]\<rparr>
      else visionStart now i s)"

fun vision_step :: "int \<times> vision_event \<Rightarrow> vision_st \<Rightarrow> vision_st" where
  "vision_step (now, VisionCall) s =
     (let s1 = s\<lparr>visionCalls := visionCalls s @ [VPolling]\<rparr> in visionEnter now (length (visionCalls s)) s1)"
| "vision_step (now, VisionWake i) s =
     (if i < length (visionCalls s)
      then (case visionCalls s ! i of
          VPolling \<Rightarrow> visionEnter now i s
        | VCooling t \<Rightarrow> if t \<le> now then visionStart now i s else s
        | _ \<Rightarrow> s)
      else s)"
| "vision_step (now, VisionDone i) s =
     (if i < length (visionCalls s) \<and> visionCalls s ! i = VRunning
      then s\<lparr>visionProcessing := False, visionCalls := (visionCalls s)[i := VEnded]\<rparr>
      else s)"

definition vision_init :: vision_st where
  "vision_init = \<lparr>visionProcessing = False, lastVision = 0, visionCalls = []\<rparr>"

section \<open>The flag\<close>

definition vision_inv :: "vision_st \<Rightarrow> bool" where
  "vision_inv s \<longleftrightarrow> (if visionProcessing s then VRunning \<in> set (visionCalls s) else True)"

lemma visionStart_inv: "i < length (visionCalls s) \<Longrightarrow> vision_inv (visionStart now i s)"
  by (simp add: vision_inv_def visionStart_def set_update_memI)

lemma polling_stays: "xs ! i = VPolling \<Longrightarrow> xs[i := VPolling] = xs"
  by (metis list_update_id)

lemma visionEnter_inv: "i < length (visionCalls s) \<Longrightarrow> visionCalls s ! i = VPolling \<Longrightarrow> vision_inv s \<Longrightarrow> vision_inv (visionEnter now i s)"
  using visionStart_inv [of i s now] by (simp add: visionEnter_def polling_stays) (simp add: vision_inv_def)

lemma vision_step_inv:
  assumes "vision_inv s"
  shows "vision_inv (vision_step (now, e) s)"
proof (cases e)
  case VisionCall
  have "vision_inv (s\<lparr>visionCalls := visionCalls s @ [VPolling]\<rparr>)" using assms by (simp add: vision_inv_def)
  then show ?thesis using VisionCall by (simp add: visionEnter_inv)
next
  case (VisionWake k)
  then show ?thesis using assms visionStart_inv visionEnter_inv by (auto split: vision_phase.splits)
next
  case (VisionDone k)
  then show ?thesis using assms by (simp add: vision_inv_def)
qed

interpretation vision: inv_system vision_inv vision_step
  by unfold_locales (metis vision_step_inv prod.collapse)

text \<open>
  Polling ends: whenever the flag that makes requests wait is up, some request is running, and its end takes the flag
  down.
\<close>

theorem vision_flag_has_owner:
  "let s = fold vision_step evs vision_init
   in if visionProcessing s
      then \<exists>i. i < length (visionCalls s) \<and> visionCalls s ! i = VRunning \<and> \<not> visionProcessing (vision_step (now, VisionDone i) s)
      else True"
proof -
  have "vision_inv (fold vision_step evs vision_init)" by (rule vision.inv_run) (simp add: vision_inv_def vision_init_def)
  then show ?thesis by (auto simp: vision_inv_def Let_def in_set_conv_nth)
qed

text \<open>
  Neither the flag nor the interval keeps requests apart: of two requests that arrive within two seconds of the last
  one, while none runs, both wait for the same moment and then run at the same time.
\<close>

theorem waiting_requests_run_together:
  assumes "\<not> visionProcessing s" "0 \<le> now - lastVision s" "now - lastVision s < VISION_INTERVAL" "i = length (visionCalls s)"
  shows "visionCalls (fold vision_step [(now, VisionCall), (now, VisionCall),
       (lastVision s + VISION_INTERVAL, VisionWake i), (lastVision s + VISION_INTERVAL, VisionWake (Suc i))] s) =
     visionCalls s @ [VRunning, VRunning]"
  using assms by (simp add: visionEnter_def visionStart_def nth_append list_update_append)

theorem waiting_requests_run_together_witness:
  "visionCalls (fold vision_step [(500, VisionCall), (500, VisionCall), (2000, VisionWake 0), (2000, VisionWake 1)] vision_init) = [VRunning, VRunning]"
  using waiting_requests_run_together [of vision_init 500 0] by (simp add: vision_init_def VISION_INTERVAL_def)

section \<open>Limits\<close>

text \<open>
  An image is accepted exactly up to 6990506 characters of Base64 text without the prefix, five megabytes, where the comment in the program says one; what is
  passed on is the text without the prefix.
\<close>

theorem image_limit:
  "validateAndCompressImage s = Inr b \<longleftrightarrow> b = stripPrefix s \<and> length (stripPrefix s) \<le> 6990506"
proof -
  have "sizeInMB b > 5 \<longleftrightarrow> length b > 6990506" for b
  proof -
    have "sizeInMB b > 5 \<longleftrightarrow> of_nat (length b) * 3 > (20971520 :: rat)" by (simp add: sizeInMB_def field_simps)
    also have "\<dots> \<longleftrightarrow> length b * 3 > 20971520" by (metis of_nat_less_iff of_nat_mult of_nat_numeral)
    finally show ?thesis by linarith
  qed
  then show ?thesis by (auto simp: validateAndCompressImage_def Let_def)
qed

text \<open>The attempts are those of the language model service with the same unit.\<close>

lemma visionTry_is_tryModel:
  "visionTry reply k left = tryModel 2000 (env\<lparr>bedrock := \<lambda>_. reply\<rparr>) rq k left"
  by (induction left arbitrary: k) (simp_all add: visionTry.simps tryModel.simps split: model_reply.splits)

text \<open>
  A request for an analysis is attempted at most four times, only throttled attempts are repeated, and the pauses add
  up to at most 28 seconds.
\<close>

lemma vision_retries_bounded:
  "\<exists>n \<le> 3. list_all (\<lambda>i. throttled (reply i)) [0..<n] \<and> (n = 3 \<or> \<not> throttled (reply n)) \<and>
     visionTry reply 0 VISION_RETRIES = (outcomeOf (reply n), 4000 * (2 ^ n - 1))"
  using tryModel_spec [of 3 "undefined\<lparr>bedrock := \<lambda>_. reply\<rparr>" "undefined" 0 2000]
  by (simp add: visionTry_is_tryModel [of reply 0 3 undefined undefined] VISION_RETRIES_def)

end
