(* ===== verification/Boards.thy ===== *)
theory Boards
  imports RoomState Vision
begin

text \<open>
  The boards and quizzes of the voice bot in \<open>src/livekit/voice-bot.service.ts\<close>: flowcharts and domain models of a
  requirements document, skeleton code, questions on a PDF, sketches, and quizzes. The language model gives a text or an
  error message; \<open>JSON.parse\<close> gives the data it reads or an error message. A handler gives the messages it tries to
  publish, in order, and the error with which its promise is rejected, if any; \<open>pub\<close> tells for each attempt whether the room
  accepts it.
\<close>

section \<open>Data\<close>

type_synonym llm = "jstr \<Rightarrow> int \<Rightarrow> jstr + jstr"

type_synonym publisher = "nat \<Rightarrow> jstr option"

text \<open>A node and an edge as the model gives them; any field may be missing.\<close>

record cdr_node =
  cn_id :: "jstr option"
  cn_content :: "jstr option"
  cn_nodeType :: "jstr option"

record cdr_edge =
  cd_from :: "jstr option"
  cd_to :: "jstr option"
  cd_label :: "jstr option"

record cdr_data =
  cdr_nodes :: "cdr_node option list option"
  cdr_edges :: "cdr_edge option list option"
  cdr_summary :: "jstr option"

record BoardNode =
  bn_id :: jstr
  bn_content :: jstr
  bn_nodeType :: jstr
  bn_order :: nat
  bn_depth :: nat
  bn_branch :: int

record FlowchartResult =
  fr_nodes :: "BoardNode list"
  fr_edges :: "FlowchartEdge list"
  fr_summary :: "jstr option"

record DomainEntity =
  de_name :: jstr
  de_attributes :: "jstr list"
  de_description :: "jstr option"

record DomainAction =
  da_name :: jstr
  da_actor :: jstr
  da_target :: jstr
  da_description :: "jstr option"

record DomainCondition =
  dn_name :: jstr
  dn_trueAction :: jstr
  dn_falseAction :: jstr

record DomainRelation =
  dr_from :: jstr
  dr_to :: jstr
  dr_type :: jstr
  dr_label :: "jstr option"

record DomainModel =
  dm_entities :: "DomainEntity list"
  dm_actions :: "DomainAction list"
  dm_conditions :: "DomainCondition list"
  dm_relations :: "DomainRelation list"

record raw_entity =
  re_name :: "jstr option"
  re_attributes :: "jstr list option"
  re_description :: "jstr option"

record raw_action =
  ra_name :: "jstr option"
  ra_actor :: "jstr option"
  ra_target :: "jstr option"
  ra_description :: "jstr option"

record raw_condition =
  rc_name :: "jstr option"
  rc_trueAction :: "jstr option"
  rc_falseAction :: "jstr option"

record raw_relation =
  rr_from :: "jstr option"
  rr_to :: "jstr option"
  rr_type :: "jstr option"
  rr_label :: "jstr option"

record domain_data =
  dd_entities :: "raw_entity list option"
  dd_actions :: "raw_action list option"
  dd_conditions :: "raw_condition list option"
  dd_relations :: "raw_relation list option"

record QuizQuestion =
  qz_id :: "int option"
  qz_question :: "jstr option"
  qz_type :: "jstr option"
  qz_answer :: "jstr option"
  qz_explanation :: "jstr option"
  qz_related :: "jstr option"

record QaItem =
  qa_question :: jstr
  qa_answer :: jstr
  qa_context :: "jstr option"

record Evaluation =
  el_questionId :: int
  el_userAnswer :: jstr
  el_isCorrect :: bool
  el_feedback :: jstr
  el_studyGuide :: jstr

record verdict =
  vd_isCorrect :: "bool option"
  vd_feedback :: "jstr option"
  vd_studyGuide :: "jstr option"

datatype board_msg =
    CdrFlowchart "jstr + FlowchartResult" bool
  | CdrAnalysis "DomainModel option" "FlowchartResult option" "jstr option" bool "jstr option" "jstr option" "jstr option"
  | SkeletonCode "jstr + jstr" jstr
  | SearchAnswerTo jstr jstr
  | TransformResult jstr jstr
  | QuizQuestions "QuizQuestion list" jstr
  | QuizFailed jstr
  | QuizEvaluated Evaluation

record board_env =
  boardModel :: llm
  parseCdr :: "jstr \<Rightarrow> jstr + cdr_data"
  parseDomain :: "jstr \<Rightarrow> jstr + domain_data"
  parseSketch :: "jstr \<Rightarrow> (jstr option \<times> jstr option) option"
  parseQuiz :: "jstr \<Rightarrow> jstr + QuizQuestion list"
  parseVerdict :: "jstr \<Rightarrow> verdict option"

section \<open>Depths by breadth-first search\<close>

definition FLOWCHART_NODE_TYPES :: "jstr list" where
  "FLOWCHART_NODE_TYPES = [[115, 116, 97, 114, 116], [101, 110, 100], [112, 114, 111, 99, 101, 115,
    115], [100, 101, 99, 105, 115, 105, 111, 110], [105, 111]]"

definition rawNodes :: "cdr_data \<Rightarrow> (jstr \<times> jstr \<times> jstr) list" where
  "rawNodes d = concat (map (\<lambda>n. case n of
      None \<Rightarrow> []
    | Some n \<Rightarrow> if truthy_str (cn_id n) \<and> truthy_str (cn_content n) \<and> (case cn_nodeType n of None \<Rightarrow> False | Some ty \<Rightarrow> ty \<in> set FLOWCHART_NODE_TYPES)
                then [(the (cn_id n), the (cn_content n), the (cn_nodeType n))] else [])
    (case cdr_nodes d of None \<Rightarrow> [] | Some ns \<Rightarrow> ns))"

definition cdrEdges :: "cdr_data \<Rightarrow> FlowchartEdge list" where
  "cdrEdges d = concat (map (\<lambda>e. case e of
      None \<Rightarrow> []
    | Some e \<Rightarrow> if truthy_str (cd_from e) \<and> truthy_str (cd_to e)
                then [\<lparr>fe_from = the (cd_from e), fe_to = the (cd_to e), fe_label = cd_label e\<rparr>] else [])
    (case cdr_edges d of None \<Rightarrow> [] | Some es \<Rightarrow> es))"

definition inDegree :: "FlowchartEdge list \<Rightarrow> jstr \<Rightarrow> nat" where
  "inDegree es v = length (filter (\<lambda>e. fe_to e = v) es)"

definition startNodeId :: "(jstr \<times> jstr \<times> jstr) list \<Rightarrow> FlowchartEdge list \<Rightarrow> jstr option" where
  "startNodeId ns es = (case List.find (\<lambda>(i, c, ty). ty = [115, 116, 97, 114, 116]) ns of
      Some n \<Rightarrow> Some (fst n)
    | None \<Rightarrow> map_option fst (List.find (\<lambda>(i, c, ty). inDegree es i = 0) ns))"

definition branchOffset :: "nat \<Rightarrow> int" where
  "branchOffset idx = (if idx = 0 then -1 else if idx = 1 then 1 else int idx - 1)"

definition outEntries :: "FlowchartEdge list \<Rightarrow> jstr \<Rightarrow> nat \<Rightarrow> int \<Rightarrow> (jstr \<times> nat \<times> int) list" where
  "outEntries es v depth branch =
     (let out = filter (\<lambda>e. fe_from e = v) es
      in if length out = 1 then [(fe_to (out ! 0), depth + 1, branch)]
         else map (\<lambda>(idx, e). (fe_to e, depth + 1, branchOffset idx)) (List.enumerate 0 out))"

lemma outEntries_Nil: "outEntries es v d b = [] \<longleftrightarrow> filter (\<lambda>e. fe_from e = v) es = []"
  by (auto simp: outEntries_def Let_def enumerate_eq_zip)

lemma sources_decrease:
  assumes "\<not> jhas m v"
  shows "length (filter (\<lambda>e. \<not> jhas (jset v x m) (fe_from e)) es) \<le> length (filter (\<lambda>e. \<not> jhas m (fe_from e)) es)"
    and "filter (\<lambda>e. fe_from e = v) es \<noteq> [] \<Longrightarrow>
      length (filter (\<lambda>e. \<not> jhas (jset v x m) (fe_from e)) es) < length (filter (\<lambda>e. \<not> jhas m (fe_from e)) es)"
  using assms by (induction es) (auto split: if_splits)

text \<open>
  The loop over the queue. The visited nodes are those with a depth. It ends: a visit takes edges from the unvisited
  sources or only an entry from the queue.
\<close>

function bfs :: "FlowchartEdge list \<Rightarrow> (jstr \<times> nat \<times> int) list \<Rightarrow> (jstr, nat \<times> int) jmap \<Rightarrow> (jstr, nat \<times> int) jmap" where
  "bfs es [] m = m"
| "bfs es ((v, depth, branch) # q) m =
     (if jhas m v then bfs es q m
      else bfs es (q @ outEntries es v depth branch) (jset v (depth, branch) m))"
  by pat_completeness auto

termination
proof (relation "inv_image (less_than <*lex*> less_than)
    (\<lambda>(es, q, m). (length (filter (\<lambda>e. \<not> jhas m (fe_from e)) es), length q))", goal_cases)
  case (3 es v depth branch q m)
  then show ?case
    using sources_decrease [where m = m and v = v and x = "(depth, branch)" and es = es] outEntries_Nil [of es v depth branch]
    by (cases "filter (\<lambda>e. fe_from e = v) es = []") (auto simp: le_less)
qed auto

definition flowNodes :: "(jstr \<times> jstr \<times> jstr) list \<Rightarrow> FlowchartEdge list \<Rightarrow> BoardNode list" where
  "flowNodes ns es =
     (let m = (case startNodeId ns es of None \<Rightarrow> [] | Some s \<Rightarrow> bfs es [(s, 0, 0)] [])
      in map (\<lambda>(idx, i, c, ty). \<lparr>bn_id = i, bn_content = take 30 c, bn_nodeType = ty, bn_order = idx,
             bn_depth = (case jget m i of None \<Rightarrow> idx | Some (d, b) \<Rightarrow> d), bn_branch = (case jget m i of None \<Rightarrow> 0 | Some (d, b) \<Rightarrow> b)\<rparr>)
           (List.enumerate 0 ns))"

definition shorten :: "jstr \<Rightarrow> jstr" where
  "shorten content = (if length content > 5000 then take 5000 content @ [10, 46, 46, 46, 32, 40, 51060,
    54616, 32, 49373, 47029, 41] else content)"

definition cdrPrompt :: "jstr \<Rightarrow> jstr" where
  "cdrPrompt content = [67, 68, 82, 40, 50836, 44396, 49324, 54637, 32, 47928, 49436, 41, 47484, 32,
    70, 108, 111, 119, 99, 104, 97, 114, 116, 47196, 32, 48320, 54872, 54644, 51452, 49464, 50836, 46,
    10, 10, 51077, 47141, 32, 67, 68, 82, 58, 10, 34, 34, 34, 10] @ content @ [10, 34, 34, 34, 10, 10,
    45432, 46300, 32, 53440, 51077, 32, 40, 77, 101, 114, 109, 97, 105, 100, 32, 49828, 53440, 51068,
    41, 58, 10, 45, 32, 115, 116, 97, 114, 116, 58, 32, 49884, 51089, 51216, 32, 40, 53440, 50896,
    54805, 41, 10, 45, 32, 101, 110, 100, 58, 32, 51333, 47308, 51216, 32, 40, 53440, 50896, 54805, 41,
    10, 45, 32, 112, 114, 111, 99, 101, 115, 115, 58, 32, 51068, 48152, 32, 52376, 47532, 47, 46041,
    51089, 32, 40, 49324, 44033, 54805, 41, 10, 45, 32, 100, 101, 99, 105, 115, 105, 111, 110, 58, 32,
    51312, 44148, 32, 48516, 44592, 32, 40, 47560, 47492, 47784, 41, 32, 45, 32, 89, 101, 115, 47, 78,
    111, 32, 48516, 44592, 10, 45, 32, 105, 111, 58, 32, 51077, 52636, 47141, 32, 40, 54217, 54665,
    49324, 48320, 54805, 41, 10, 10, 44508, 52825, 58, 10, 49, 46, 32, 45432, 46300, 32, 99, 111, 110,
    116, 101, 110, 116, 45716, 32, 49, 53, 51088, 32, 51060, 45236, 47196, 32, 54645, 49900, 47564, 32,
    52628, 52636, 10, 50, 46, 32, 48152, 46300, 49884, 32, 115, 116, 97, 114, 116, 47196, 32, 49884,
    51089, 54616, 44256, 32, 101, 110, 100, 47196, 32, 45149, 45208, 50556, 32, 54632, 10, 51, 46, 32,
    100, 101, 99, 105, 115, 105, 111, 110, 32, 45432, 46300, 50640, 49436, 32, 45208, 44032, 45716, 32,
    101, 100, 103, 101, 45716, 32, 108, 97, 98, 101, 108, 50640, 32, 34, 89, 101, 115, 34, 32, 46608,
    45716, 32, 34, 78, 111, 34, 32, 54364, 49884, 10, 52, 46, 32, 50672, 44208, 40, 101, 100, 103, 101,
    115, 41, 51032, 32, 102, 114, 111, 109, 47, 116, 111, 45716, 32, 45432, 46300, 32, 105, 100, 47196,
    32, 52280, 51312, 10, 10, 52636, 47141, 32, 54805, 49885, 32, 40, 74, 83, 79, 78, 47564, 41, 58,
    10, 123, 34, 110, 111, 100, 101, 115, 34, 58, 91, 123, 34, 105, 100, 34, 58, 34, 110, 49, 34, 44,
    34, 99, 111, 110, 116, 101, 110, 116, 34, 58, 34, 49884, 51089, 34, 44, 34, 110, 111, 100, 101, 84,
    121, 112, 101, 34, 58, 34, 115, 116, 97, 114, 116, 34, 125, 44, 123, 34, 105, 100, 34, 58, 34, 110,
    50, 34, 44, 34, 99, 111, 110, 116, 101, 110, 116, 34, 58, 34, 51077, 47141, 34, 44, 34, 110, 111,
    100, 101, 84, 121, 112, 101, 34, 58, 34, 105, 111, 34, 125, 44, 123, 34, 105, 100, 34, 58, 34, 110,
    51, 34, 44, 34, 99, 111, 110, 116, 101, 110, 116, 34, 58, 34, 51312, 44148, 63, 34, 44, 34, 110,
    111, 100, 101, 84, 121, 112, 101, 34, 58, 34, 100, 101, 99, 105, 115, 105, 111, 110, 34, 125, 44,
    123, 34, 105, 100, 34, 58, 34, 110, 52, 34, 44, 34, 99, 111, 110, 116, 101, 110, 116, 34, 58, 34,
    52376, 47532, 65, 34, 44, 34, 110, 111, 100, 101, 84, 121, 112, 101, 34, 58, 34, 112, 114, 111, 99,
    101, 115, 115, 34, 125, 44, 123, 34, 105, 100, 34, 58, 34, 110, 53, 34, 44, 34, 99, 111, 110, 116,
    101, 110, 116, 34, 58, 34, 52376, 47532, 66, 34, 44, 34, 110, 111, 100, 101, 84, 121, 112, 101, 34,
    58, 34, 112, 114, 111, 99, 101, 115, 115, 34, 125, 44, 123, 34, 105, 100, 34, 58, 34, 110, 54, 34,
    44, 34, 99, 111, 110, 116, 101, 110, 116, 34, 58, 34, 51333, 47308, 34, 44, 34, 110, 111, 100, 101,
    84, 121, 112, 101, 34, 58, 34, 101, 110, 100, 34, 125, 93, 44, 34, 101, 100, 103, 101, 115, 34, 58,
    91, 123, 34, 102, 114, 111, 109, 34, 58, 34, 110, 49, 34, 44, 34, 116, 111, 34, 58, 34, 110, 50,
    34, 125, 44, 123, 34, 102, 114, 111, 109, 34, 58, 34, 110, 50, 34, 44, 34, 116, 111, 34, 58, 34,
    110, 51, 34, 125, 44, 123, 34, 102, 114, 111, 109, 34, 58, 34, 110, 51, 34, 44, 34, 116, 111, 34,
    58, 34, 110, 52, 34, 44, 34, 108, 97, 98, 101, 108, 34, 58, 34, 89, 101, 115, 34, 125, 44, 123, 34,
    102, 114, 111, 109, 34, 58, 34, 110, 51, 34, 44, 34, 116, 111, 34, 58, 34, 110, 53, 34, 44, 34,
    108, 97, 98, 101, 108, 34, 58, 34, 78, 111, 34, 125, 44, 123, 34, 102, 114, 111, 109, 34, 58, 34,
    110, 52, 34, 44, 34, 116, 111, 34, 58, 34, 110, 54, 34, 125, 44, 123, 34, 102, 114, 111, 109, 34,
    58, 34, 110, 53, 34, 44, 34, 116, 111, 34, 58, 34, 110, 54, 34, 125, 93, 44, 34, 115, 117, 109,
    109, 97, 114, 121, 34, 58, 34, 51312, 44148, 32, 48516, 44592, 32, 55120, 47492, 34, 125]"

definition noJson :: jstr where "noJson = [74, 83, 79, 78, 32, 54056, 53556, 51012, 32, 52286, 51012,
  32, 49688, 32, 50630, 49845, 45768, 45796]"

definition parseCDRToFlowchart :: "board_env \<Rightarrow> jstr \<Rightarrow> jstr + FlowchartResult" where
  "parseCDRToFlowchart env cdrContent = (case boardModel env (cdrPrompt (shorten cdrContent)) 2000 of
      Inl e \<Rightarrow> Inl e
    | Inr answer \<Rightarrow> (case jsonMatch answer of
        None \<Rightarrow> Inl noJson
      | Some j \<Rightarrow> (case parseCdr env j of
          Inl e \<Rightarrow> Inl e
        | Inr d \<Rightarrow> Inr \<lparr>fr_nodes = flowNodes (rawNodes d) (cdrEdges d), fr_edges = cdrEdges d, fr_summary = cdr_summary d\<rparr>)))"

definition handleCDRFlowchartRequest :: "board_env \<Rightarrow> publisher \<Rightarrow> jstr \<Rightarrow> bool \<Rightarrow> board_msg list \<times> jstr option" where
  "handleCDRFlowchartRequest env pub content preserveExisting = ([CdrFlowchart (parseCDRToFlowchart env content) preserveExisting], pub 0)"

section \<open>Domain models\<close>

definition domainPrompt :: "jstr \<Rightarrow> jstr" where
  "domainPrompt content = [67, 68, 82, 40, 50836, 44396, 49324, 54637, 32, 47928, 49436, 41, 50640,
    49436, 32, 46020, 47700, 51064, 32, 47784, 45944, 51012, 32, 52628, 52636, 54644, 51452, 49464,
    50836, 46, 10, 10, 51077, 47141, 32, 67, 68, 82, 58, 10, 34, 34, 34, 10] @ content @ [10, 34, 34,
    34, 10, 10, 45796, 51020, 32, 50836, 49548, 46308, 51012, 32, 52628, 52636, 54644, 51452, 49464,
    50836, 58, 10, 10, 49, 46, 32, 101, 110, 116, 105, 116, 105, 101, 115, 58, 32, 49884, 49828, 53596,
    51032, 32, 54645, 49900, 32, 50644, 54000, 54000, 32, 40, 47749, 49324, 41, 10, 32, 32, 32, 45, 32,
    110, 97, 109, 101, 58, 32, 50644, 54000, 54000, 32, 51060, 47492, 32, 40, 50696, 58, 32, 85, 115,
    101, 114, 44, 32, 79, 114, 100, 101, 114, 44, 32, 80, 114, 111, 100, 117, 99, 116, 41, 10, 32, 32,
    32, 45, 32, 97, 116, 116, 114, 105, 98, 117, 116, 101, 115, 58, 32, 51452, 50836, 32, 49549, 49457,
    46308, 32, 40, 50696, 58, 32, 91, 34, 105, 100, 34, 44, 32, 34, 101, 109, 97, 105, 108, 34, 44, 32,
    34, 110, 97, 109, 101, 34, 93, 41, 10, 32, 32, 32, 45, 32, 100, 101, 115, 99, 114, 105, 112, 116,
    105, 111, 110, 58, 32, 44036, 45800, 54620, 32, 49444, 47749, 10, 10, 50, 46, 32, 97, 99, 116, 105,
    111, 110, 115, 58, 32, 51452, 50836, 32, 54665, 50948, 47, 46041, 51089, 32, 40, 46041, 49324, 41,
    10, 32, 32, 32, 45, 32, 110, 97, 109, 101, 58, 32, 50529, 49496, 32, 51060, 47492, 32, 40, 50696,
    58, 32, 34, 51452, 47928, 49373, 49457, 34, 44, 32, 34, 44208, 51228, 52376, 47532, 34, 41, 10, 32,
    32, 32, 45, 32, 97, 99, 116, 111, 114, 58, 32, 49688, 54665, 32, 51452, 52404, 32, 40, 50696, 58,
    32, 34, 85, 115, 101, 114, 34, 41, 10, 32, 32, 32, 45, 32, 116, 97, 114, 103, 101, 116, 58, 32,
    45824, 49345, 32, 50644, 54000, 54000, 32, 40, 50696, 58, 32, 34, 79, 114, 100, 101, 114, 34, 41,
    10, 32, 32, 32, 45, 32, 100, 101, 115, 99, 114, 105, 112, 116, 105, 111, 110, 58, 32, 44036, 45800,
    54620, 32, 49444, 47749, 10, 10, 51, 46, 32, 99, 111, 110, 100, 105, 116, 105, 111, 110, 115, 58,
    32, 48708, 51592, 45768, 49828, 32, 51312, 44148, 47, 44508, 52825, 10, 32, 32, 32, 45, 32, 110,
    97, 109, 101, 58, 32, 51312, 44148, 32, 51060, 47492, 32, 40, 50696, 58, 32, 34, 51116, 44256,
    54869, 51064, 34, 41, 10, 32, 32, 32, 45, 32, 116, 114, 117, 101, 65, 99, 116, 105, 111, 110, 58,
    32, 52280, 51068, 32, 46412, 32, 49688, 54665, 54624, 32, 50529, 49496, 10, 32, 32, 32, 45, 32,
    102, 97, 108, 115, 101, 65, 99, 116, 105, 111, 110, 58, 32, 44144, 51667, 51068, 32, 46412, 32,
    49688, 54665, 54624, 32, 50529, 49496, 10, 10, 52, 46, 32, 114, 101, 108, 97, 116, 105, 111, 110,
    115, 58, 32, 50644, 54000, 54000, 32, 44036, 32, 44288, 44228, 10, 32, 32, 32, 45, 32, 102, 114,
    111, 109, 58, 32, 49884, 51089, 32, 50644, 54000, 54000, 10, 32, 32, 32, 45, 32, 116, 111, 58, 32,
    45149, 32, 50644, 54000, 54000, 10, 32, 32, 32, 45, 32, 116, 121, 112, 101, 58, 32, 34, 49, 58, 49,
    34, 32, 124, 32, 34, 49, 58, 78, 34, 32, 124, 32, 34, 78, 58, 77, 34, 10, 32, 32, 32, 45, 32, 108,
    97, 98, 101, 108, 58, 32, 44288, 44228, 32, 49444, 47749, 32, 40, 50696, 58, 32, 34, 51452, 47928,
    54616, 45796, 34, 44, 32, 34, 54252, 54632, 54616, 45796, 34, 41, 10, 10, 74, 83, 79, 78, 47564,
    32, 52636, 47141, 58, 10, 123, 34, 101, 110, 116, 105, 116, 105, 101, 115, 34, 58, 91, 46, 46, 46,
    93, 44, 34, 97, 99, 116, 105, 111, 110, 115, 34, 58, 91, 46, 46, 46, 93, 44, 34, 99, 111, 110, 100,
    105, 116, 105, 111, 110, 115, 34, 58, 91, 46, 46, 46, 93, 44, 34, 114, 101, 108, 97, 116, 105, 111,
    110, 115, 34, 58, 91, 46, 46, 46, 93, 125]"

definition listOr :: "'a list option \<Rightarrow> 'a list" where
  "listOr x = (case x of None \<Rightarrow> [] | Some xs \<Rightarrow> xs)"

definition domainModel :: "domain_data \<Rightarrow> DomainModel" where
  "domainModel d = \<lparr>
     dm_entities = map (\<lambda>e. \<lparr>de_name = str_or (re_name e) [], de_attributes = listOr (re_attributes e), de_description = re_description e\<rparr>)
       (listOr (dd_entities d)),
     dm_actions = map (\<lambda>a. \<lparr>da_name = str_or (ra_name a) [], da_actor = str_or (ra_actor a) [], da_target = str_or (ra_target a) [],
       da_description = ra_description a\<rparr>) (listOr (dd_actions d)),
     dm_conditions = map (\<lambda>c. \<lparr>dn_name = str_or (rc_name c) [], dn_trueAction = str_or (rc_trueAction c) [],
       dn_falseAction = str_or (rc_falseAction c) []\<rparr>) (listOr (dd_conditions d)),
     dm_relations = map (\<lambda>r. \<lparr>dr_from = str_or (rr_from r) [], dr_to = str_or (rr_to r) [],
       dr_type = (case rr_type r of None \<Rightarrow> [49, 58,
         78] | Some ty \<Rightarrow> if ty \<in> {[49, 58, 49], [49, 58, 78], [78, 58,
         77]} then ty else [49, 58, 78]),
       dr_label = rr_label r\<rparr>) (listOr (dd_relations d))\<rparr>"

definition extractDomainModel :: "board_env \<Rightarrow> jstr \<Rightarrow> jstr + DomainModel" where
  "extractDomainModel env cdrContent = (case boardModel env (domainPrompt (shorten cdrContent)) 2000 of
      Inl e \<Rightarrow> Inl e
    | Inr answer \<Rightarrow> (case jsonMatch answer of
        None \<Rightarrow> Inl noJson
      | Some j \<Rightarrow> (case parseDomain env j of Inl e \<Rightarrow> Inl e | Inr d \<Rightarrow> Inr (domainModel d))))"

definition cleanAttr :: "jstr \<Rightarrow> jstr" where
  "cleanAttr a = map (\<lambda>c. if is_word c \<or> (44032 \<le> c \<and> c \<le> 55203) then c else 95) a"

definition entityLines :: "DomainEntity \<Rightarrow> jstr" where
  "entityLines e = [32, 32, 32, 32] @ de_name e @ [32, 123, 10] @
     concat (map (\<lambda>a. [32, 32, 32, 32, 32, 32, 32, 32, 115, 116, 114, 105, 110, 103,
       32] @ cleanAttr a @ [10]) (take 8 (de_attributes e))) @ [32, 32, 32, 32, 125, 10]"

definition relationLine :: "DomainRelation \<Rightarrow> jstr" where
  "relationLine r =
     (let symbol = (if dr_type r = [49, 58, 49] then [124, 124, 45, 45, 124,
       124] else if dr_type r = [78, 58, 77] then [125, 111, 45, 45, 111, 123] else [124, 124, 45, 45,
       111, 123])
      in [32, 32, 32, 32] @ dr_from r @ [32] @ symbol @ [32] @ dr_to r @ [32, 58, 32,
        34] @ str_or (dr_label r) [] @ [34, 10])"

definition generateERDiagram :: "DomainModel \<Rightarrow> jstr + jstr" where
  "generateERDiagram m =
     (if dm_entities m = [] then Inl [50644, 54000, 54000, 44032, 32, 50630, 49845, 45768, 45796]
      else Inr ([101, 114, 68, 105, 97, 103, 114, 97, 109, 10] @ concat (map entityLines (dm_entities m)) @
             concat (map relationLine (filter (\<lambda>r. dr_from r \<in> de_name ` set (dm_entities m) \<and> dr_to r \<in> de_name ` set (dm_entities m))
               (dm_relations m)))))"

definition errorOf :: "jstr + 'a \<Rightarrow> jstr option" where
  "errorOf r = (case r of Inl e \<Rightarrow> Some e | Inr _ \<Rightarrow> None)"

definition valueOf :: "jstr + 'a \<Rightarrow> 'a option" where
  "valueOf r = (case r of Inl _ \<Rightarrow> None | Inr x \<Rightarrow> Some x)"

definition handleCDRAnalysisRequest :: "board_env \<Rightarrow> publisher \<Rightarrow> jstr \<Rightarrow> bool \<Rightarrow> board_msg list \<times> jstr option" where
  "handleCDRAnalysisRequest env pub content preserveExisting =
     (let dm = extractDomainModel env content; fc = parseCDRToFlowchart env content;
          er = (case dm of Inl _ \<Rightarrow> Inl [68, 111, 109, 97, 105, 110, 32, 77, 111, 100, 101,
            108, 32, 52628, 52636, 32, 49892, 54056] | Inr m \<Rightarrow> generateERDiagram m)
      in ([CdrAnalysis (valueOf dm) (valueOf fc) (valueOf er) preserveExisting (errorOf dm) (errorOf fc) (errorOf er)], pub 0))"

section \<open>Skeleton code\<close>

definition skeletonPrompt :: "jstr \<Rightarrow> jstr \<Rightarrow> jstr \<Rightarrow> jstr" where
  "skeletonPrompt language nodesDesc edgesDesc = [70, 108, 111, 119, 99, 104, 97, 114, 116, 47484, 32,
    44592, 48152, 51004, 47196, 32] @ language @ [32, 115, 107, 101, 108, 101, 116, 111, 110, 32,
    53076, 46300, 47484, 32, 49373, 49457, 54644, 51452, 49464, 50836, 46, 10, 10, 70, 108, 111, 119,
    99, 104, 97, 114, 116, 32, 45432, 46300, 58, 10] @ nodesDesc @ [10, 10, 50672, 44208, 58,
    10] @ edgesDesc @ [10, 10, 44508, 52825, 58, 10, 49, 46, 32, 54632, 49688, 47, 53364, 47000, 49828,
    32, 44396, 51312, 47564, 32, 49373, 49457, 32, 40, 44396, 54788, 51008, 32, 84, 79, 68, 79, 32,
    51452, 49437, 41, 10, 50, 46, 32, 112, 114, 111, 99, 101, 115, 115, 32, 45432, 46300, 32, 8594, 32,
    54632, 49688, 47196, 32, 48320, 54872, 10, 51, 46, 32, 100, 101, 99, 105, 115, 105, 111, 110, 32,
    45432, 46300, 32, 8594, 32, 105, 102, 47, 101, 108, 115, 101, 32, 44396, 51312, 10, 52, 46, 32,
    105, 111, 32, 45432, 46300, 32, 8594, 32, 51077, 52636, 47141, 32, 54632, 49688, 10, 53, 46, 32,
    44033, 32, 54632, 49688, 50640, 32, 100, 111, 99, 115, 116, 114, 105, 110, 103, 47, 51452, 49437,
    32, 52628, 44032, 10, 54, 46, 32, 109, 97, 105, 110, 32, 54632, 49688, 50640, 49436, 32, 51204,
    52404, 32, 55120, 47492, 32, 54840, 52636, 10, 10, 53076, 46300, 47564, 32, 52636, 47141, 32, 40,
    49444, 47749, 32, 50630, 51060, 41, 58]"

definition nodesText :: "FlowchartNode list \<Rightarrow> jstr" where
  "nodesText ns = join [10] (map (\<lambda>n. [45, 32] @ fn_id n @ [58, 32] @ fn_content n @ [32, 40] @ fn_nodeType n @ [41]) ns)"

definition edgesText :: "FlowchartEdge list \<Rightarrow> jstr" where
  "edgesText es = join [10] (map (\<lambda>e. [45, 32] @ fe_from e @ [32, 8594, 32] @ fe_to e @
     (if truthy_str (fe_label e) then [32, 91] @ the (fe_label e) @ [93] else [])) es)"

definition codeFence :: rx where
  "codeFence = seqs [lit [96, 96, 96], star (Cls [(48, 57), (65, 90), (95, 95), (97, 122)]), lit [10],
    Cap 1 (Rep (Cls [(0, 65535)]) 0 None False), lit [96, 96, 96]]"

definition cleanCode :: "jstr \<Rightarrow> jstr" where
  "cleanCode code = (case exec codeFence code of
      None \<Rightarrow> trim code
    | Some (b, a, k) \<Rightarrow> (case jget k 1 of None \<Rightarrow> trim code | Some t \<Rightarrow> if trim t = [] then trim code else trim t))"

definition generateSkeletonCode :: "board_env \<Rightarrow> FlowchartNode list \<Rightarrow> FlowchartEdge list \<Rightarrow> jstr \<Rightarrow> jstr + jstr" where
  "generateSkeletonCode env ns es language =
     (case boardModel env (skeletonPrompt language (nodesText ns) (edgesText es)) 2000 of
        Inl e \<Rightarrow> Inl e
      | Inr code \<Rightarrow> Inr (cleanCode code))"

definition handleSkeletonCodeRequest :: "board_env \<Rightarrow> publisher \<Rightarrow> FlowchartNode list \<Rightarrow> FlowchartEdge list \<Rightarrow> jstr \<Rightarrow> board_msg list \<times> jstr option" where
  "handleSkeletonCodeRequest env pub ns es language = ([SkeletonCode (generateSkeletonCode env ns es language) language], pub 0)"

section \<open>Questions on a PDF and sketches\<close>

definition pdfPrompt :: "jstr \<Rightarrow> jstr \<Rightarrow> jstr" where
  "pdfPrompt question pdfContext = [45796, 51020, 32, 53581, 49828, 53944, 50640, 32, 45824, 54644, 32,
    44036, 45800, 55176, 32, 49444, 47749, 54644, 51452, 49464, 50836, 46, 32, 50, 45, 51, 47928,
    51109, 51004, 47196, 32, 54645, 49900, 47564, 32, 45813, 48320, 54616, 49464, 50836, 46, 10, 10,
    53581, 49828, 53944, 58, 32, 34] @ question @ [34, 10, 52636, 52376, 58, 32] @ pdfContext"

definition handlePdfQuestion :: "board_env \<Rightarrow> publisher \<Rightarrow> jstr \<Rightarrow> jstr \<Rightarrow> jstr \<Rightarrow> board_msg list \<times> jstr option" where
  "handlePdfQuestion env pub question pdfContext requesterId =
     (let failed = SearchAnswerTo requesterId [80, 68, 70, 32, 51656, 47928, 51012, 32, 52376, 47532,
       54616, 45716, 32, 51473, 32, 50724, 47448, 44032, 32, 48156, 49373, 54664, 49845, 45768, 45796,
       46, 32, 45796, 49884, 32, 49884, 46020, 54644, 51452, 49464, 50836, 46]
      in case boardModel env (pdfPrompt question pdfContext) 200 of
          Inl e \<Rightarrow> ([failed], None)
        | Inr r \<Rightarrow> (if pub 0 = None then [SearchAnswerTo requesterId r] else [SearchAnswerTo requesterId r, failed], None))"

definition sketchPrompt :: jstr where
  "sketchPrompt = [51060, 32, 49552, 44536, 47548, 47, 49828, 52992, 52824, 47484, 32, 48516, 49437,
    54616, 44256, 32, 77, 101, 114, 109, 97, 105, 100, 32, 45796, 51060, 50612, 44536, 47016, 32,
    53076, 46300, 47196, 32, 48320, 54872, 54644, 51452, 49464, 50836, 46, 10, 10, 35, 35, 32, 48516,
    49437, 32, 44032, 51060, 46300, 58, 10, 49, 46, 32, 44536, 47548, 50640, 49436, 32, 48149, 49828,
    44, 32, 50896, 44, 32, 54868, 49332, 54364, 44, 32, 53581, 49828, 53944, 32, 46321, 51032, 32,
    50836, 49548, 47484, 32, 49885, 48324, 54616, 49464, 50836, 10, 50, 46, 32, 50836, 49548, 46308,
    32, 44036, 51032, 32, 44288, 44228, 40, 50672, 44208, 44, 32, 55120, 47492, 41, 47484, 32, 54028,
    50501, 54616, 49464, 50836, 10, 51, 46, 32, 51201, 51208, 54620, 32, 45796, 51060, 50612, 44536,
    47016, 32, 53440, 51077, 51012, 32, 49440, 53469, 54616, 49464, 50836, 58, 10, 32, 32, 32, 45, 32,
    55120, 47492, 46020, 40, 102, 108, 111, 119, 99, 104, 97, 114, 116, 41, 58, 32, 54532, 47196,
    49464, 49828, 44, 32, 51032, 49324, 44208, 51221, 44, 32, 49692, 49436, 44032, 32, 51080, 45716,
    32, 44221, 50864, 10, 32, 32, 32, 45, 32, 49884, 53248, 49828, 40, 115, 101, 113, 117, 101, 110,
    99, 101, 41, 58, 32, 49884, 44036, 49692, 32, 49345, 54840, 51089, 50857, 44, 32, 47700, 49884,
    51648, 32, 44368, 54872, 10, 32, 32, 32, 45, 32, 47560, 51064, 46300, 47605, 40, 109, 105, 110,
    100, 109, 97, 112, 41, 58, 32, 50500, 51060, 46356, 50612, 32, 51221, 47532, 44, 32, 44228, 52789,
    32, 44396, 51312, 10, 10, 35, 35, 32, 51025, 45813, 32, 54805, 49885, 32, 40, 74, 83, 79, 78,
    47564, 32, 52636, 47141, 41, 58, 10, 123, 10, 32, 32, 34, 100, 101, 115, 99, 114, 105, 112, 116,
    105, 111, 110, 34, 58, 32, 34, 44536, 47548, 50640, 32, 45824, 54620, 32, 44036, 45800, 54620, 32,
    49444, 47749, 32, 40, 54620, 44397, 50612, 41, 34, 44, 10, 32, 32, 34, 100, 105, 97, 103, 114, 97,
    109, 84, 121, 112, 101, 34, 58, 32, 34, 102, 108, 111, 119, 99, 104, 97, 114, 116, 32, 124, 32,
    115, 101, 113, 117, 101, 110, 99, 101, 32, 124, 32, 109, 105, 110, 100, 109, 97, 112, 34, 44, 10,
    32, 32, 34, 109, 101, 114, 109, 97, 105, 100, 67, 111, 100, 101, 34, 58, 32, 34, 49892, 51228, 32,
    77, 101, 114, 109, 97, 105, 100, 32, 53076, 46300, 34, 10, 125, 10, 10, 49552, 44544, 50472, 44032,
    32, 50508, 50500, 48372, 44592, 32, 50612, 47140, 50864, 47732, 32, 52572, 45824, 54620, 32, 52628,
    52769, 54644, 49436, 32, 48320, 54872, 54616, 49464, 50836, 46, 32, 44536, 47548, 51060, 32, 47749,
    54869, 54616, 51648, 32, 50506, 51004, 47732, 32, 44592, 48376, 32, 55120, 47492, 46020, 47196, 32,
    47564, 46308, 50612, 51452, 49464, 50836, 46]"

definition sketchContext :: VisionContext where
  "sketchContext = \<lparr>vc_cursor = None, vc_highlighted = None, vc_width = 1920, vc_height = 1080\<rparr>"

definition readSketch :: "board_env \<Rightarrow> jstr \<Rightarrow> jstr \<times> jstr" where
  "readSketch env t = (case jsonMatch t of
      None \<Rightarrow> ([44536, 47548, 51012, 32, 48516, 49437, 54664, 49845, 45768, 45796, 46], [])
    | Some j \<Rightarrow> (case parseSketch env j of
        None \<Rightarrow> (take 200 t, [])
      | Some (d, c) \<Rightarrow> (str_or d [44536, 47548, 51012, 32, 48516, 49437, 54664, 49845,
        45768, 45796, 46], str_or c [])))"

definition handleBoardTransform :: "board_env \<Rightarrow> vision_env \<Rightarrow> publisher \<Rightarrow> jstr \<Rightarrow> board_msg list \<times> jstr option" where
  "handleBoardTransform env venv pub imageBase64 =
     (let failed = TransformResult [49828, 52992, 52824, 32, 48516, 49437, 32, 51473, 32, 50724, 47448,
       44032, 32, 48156, 49373, 54664, 49845, 45768, 45796, 46, 32, 45796, 49884, 32, 49884, 46020,
       54644, 51452, 49464, 50836, 46] []
      in case callVisionAPI venv imageBase64 sketchPrompt (Some sketchContext) of
          Inl e \<Rightarrow> ([failed], pub 0)
        | Inr v \<Rightarrow>
            let r = readSketch env (vr_text v); msg = TransformResult (fst r) (snd r)
            in if pub 0 = None then ([msg], None) else ([msg, failed], pub 1))"

section \<open>Quizzes\<close>

definition typeInstructions :: "jstr \<Rightarrow> jstr" where
  "typeInstructions ty =
     (if ty = [109, 117, 108, 116, 105, 112, 108, 101, 95, 99, 104, 111, 105, 99, 101] then [44061,
       44288, 49885, 32, 47928, 51228, 32, 40, 52, 44060, 32, 49440, 53469, 51648, 41]
      else if ty = [115, 104, 111, 114, 116, 95, 97, 110, 115, 119, 101, 114] then [51452, 44288,
        49885, 32, 45800, 45813, 54805, 32, 47928, 51228]
      else if ty = [111, 120] then [79, 47, 88, 32, 51652, 50948, 54805, 32, 47928, 51228]
      else if ty = [109, 105, 120, 101, 100] then [44061, 44288, 49885, 44, 32, 51452, 44288, 49885,
        44, 32, 79, 47, 88, 47484, 32, 44264, 44256, 47336, 32, 49438, 50612, 49436]
      else [117, 110, 100, 101, 102, 105, 110, 101, 100])"

definition quizPrompt :: "int \<Rightarrow> jstr \<Rightarrow> jstr \<Rightarrow> jstr" where
  "quizPrompt count quizType content = [45817, 49888, 51008, 32, 54617, 49845, 32, 53300, 51592, 32,
    52636, 51228, 32, 51204, 47928, 44032, 51077, 45768, 45796, 46, 32, 45796, 51020, 32, 45236, 50857,
    51012, 32, 48148, 53461, 51004, 47196, 32] @ jint count @ [44060, 51032, 32, 53300, 51592, 32,
    47928, 51228, 47484, 32, 49373, 49457, 54644, 51452, 49464, 50836, 46, 10, 10, 35, 35, 32, 52280,
    44256, 32, 45236, 50857, 10] @ content @ [10, 10, 35, 35, 32, 53300, 51592, 32, 50976, 54805,
    10] @ typeInstructions quizType @ [10, 10, 35, 35, 32, 52636, 47141, 32, 54805, 49885, 32, 40, 74,
    83, 79, 78, 32, 48176, 50676, 47564, 32, 52636, 47141, 41, 10, 91, 10, 32, 32, 123, 10, 32, 32, 32,
    32, 34, 105, 100, 34, 58, 32, 49, 44, 10, 32, 32, 32, 32, 34, 113, 117, 101, 115, 116, 105, 111,
    110, 34, 58, 32, 34, 47928, 51228, 32, 45236, 50857, 34, 44, 10, 32, 32, 32, 32, 34, 116, 121, 112,
    101, 34, 58, 32, 34, 109, 117, 108, 116, 105, 112, 108, 101, 95, 99, 104, 111, 105, 99, 101, 34,
    32, 124, 32, 34, 115, 104, 111, 114, 116, 95, 97, 110, 115, 119, 101, 114, 34, 32, 124, 32, 34,
    111, 120, 34, 44, 10, 32, 32, 32, 32, 34, 111, 112, 116, 105, 111, 110, 115, 34, 58, 32, 91, 34,
    49440, 53469, 51648, 49, 34, 44, 32, 34, 49440, 53469, 51648, 50, 34, 44, 32, 34, 49440, 53469,
    51648, 51, 34, 44, 32, 34, 49440, 53469, 51648, 52, 34, 93, 44, 10, 32, 32, 32, 32, 34, 99, 111,
    114, 114, 101, 99, 116, 65, 110, 115, 119, 101, 114, 34, 58, 32, 34, 51221, 45813, 34, 44, 10, 32,
    32, 32, 32, 34, 101, 120, 112, 108, 97, 110, 97, 116, 105, 111, 110, 34, 58, 32, 34, 51221, 45813,
    32, 54644, 49444, 32, 40, 50780, 32, 51060, 44163, 51060, 32, 51221, 45813, 51064, 51648, 41, 34,
    44, 10, 32, 32, 32, 32, 34, 114, 101, 108, 97, 116, 101, 100, 67, 111, 110, 116, 101, 110, 116, 34,
    58, 32, 34, 44288, 47144, 32, 45236, 50857, 32, 52636, 52376, 34, 10, 32, 32, 125, 10, 93, 10, 10,
    35, 35, 32, 51452, 51032, 49324, 54637, 10, 45, 32, 47928, 51228, 45716, 32, 54617, 49845, 51088,
    51032, 32, 51060, 54644, 46020, 47484, 32, 51216, 44160, 54624, 32, 49688, 32, 51080, 46020, 47197,
    32, 52636, 51228, 10, 45, 32, 45320, 47924, 32, 49789, 44144, 45208, 32, 45320, 47924, 32, 50612,
    47157, 51648, 32, 50506, 44172, 32, 51473, 44036, 32, 45212, 51060, 46020, 47196, 10, 45, 32,
    54644, 49444, 51008, 32, 54617, 49845, 50640, 32, 46020, 50880, 51060, 32, 46104, 46020, 47197, 32,
    49345, 49464, 54616, 44172, 10, 45, 32, 74, 83, 79, 78, 47564, 32, 52636, 47141, 54616, 49464,
    50836, 32, 40, 45796, 47480, 32, 53581, 49828, 53944, 32, 50630, 51060, 41]"

text \<open>\<open>match(/\[[\s\S]*\]/)\<close>: from the first opening to the last closing bracket.\<close>

definition arrayMatch :: "jstr \<Rightarrow> jstr option" where
  "arrayMatch s = (let t = dropWhile (\<lambda>c. c \<noteq> 91) s; u = rev (dropWhile (\<lambda>c. c \<noteq> 93) (rev t)) in if u = [] then None else Some u)"

definition generateQuizFromContent :: "board_env \<Rightarrow> int \<Rightarrow> jstr \<Rightarrow> jstr \<Rightarrow> jstr + QuizQuestion list" where
  "generateQuizFromContent env count quizType content = (case boardModel env (quizPrompt count quizType content) 2000 of
      Inl e \<Rightarrow> Inl e
    | Inr r \<Rightarrow> (case arrayMatch r of
        None \<Rightarrow> Inl [74, 83, 79, 78, 32, 54028, 49905, 32, 49892, 54056]
      | Some j \<Rightarrow> parseQuiz env j))"

definition qaText :: "QaItem list \<Rightarrow> jstr" where
  "qaText qs = join [10, 10] (map (\<lambda>(idx, qa). [35, 35, 35, 32, 51656, 47928,
    32] @ jint (int idx + 1) @ [10, 81, 58, 32] @ qa_question qa @ [10, 65, 58, 32] @ qa_answer qa @
     (if truthy_str (qa_context qa) then [10, 52280, 44256, 58,
       32] @ take 500 (the (qa_context qa)) else [])) (List.enumerate 0 qs))"

definition qaQuiz :: "board_env \<Rightarrow> int \<Rightarrow> jstr \<Rightarrow> QaItem list \<Rightarrow> jstr + QuizQuestion list option" where
  "qaQuiz env count quizType qaHistory =
     (if qaHistory = [] then Inr None
      else map_sum id Some (generateQuizFromContent env count quizType ([35, 35, 35, 32, 47928, 49436,
        32, 81, 38, 65, 32, 55176, 49828, 53664, 47532, 10] @ take 4000 (qaText qaHistory))))"

text \<open>
  The question to the record of the meeting: not asked when it is not connected, otherwise the answer with its sources, or
  an error, and whether the quiz from it was ready within ten seconds.
\<close>

record rag_reply =
  rg_connected :: bool
  rg_answer :: "jstr + (jstr option \<times> jstr) list option"
  rg_inTime :: bool

definition sourcesText :: "(jstr option \<times> jstr) list \<Rightarrow> jstr" where
  "sourcesText ss = join [10, 10] (map (\<lambda>(sp, t). [91] @ str_or sp [48156, 50616, 51088] @ [93,
    32] @ t) ss)"

definition ragQuiz :: "board_env \<Rightarrow> int \<Rightarrow> jstr \<Rightarrow> rag_reply \<Rightarrow> QuizQuestion list option" where
  "ragQuiz env count quizType rag =
     (if \<not> rg_connected rag \<or> \<not> rg_inTime rag then None
      else case rg_answer rag of
          Inl e \<Rightarrow> None
        | Inr None \<Rightarrow> None
        | Inr (Some ss) \<Rightarrow>
            if ss = [] then None
            else valueOf (generateQuizFromContent env count quizType ([35, 35, 35, 32, 54924, 51032,
              32, 48143, 32, 80, 68, 70, 32, 45236, 50857, 10] @ take 4000 (sourcesText ss))))"

definition chooseQuiz :: "jstr + QuizQuestion list option \<Rightarrow> QuizQuestion list option \<Rightarrow> jstr + QuizQuestion list \<times> jstr" where
  "chooseQuiz qa rag = (case qa of
      Inl e \<Rightarrow> Inl e
    | Inr qs \<Rightarrow>
        if listOr rag \<noteq> [] then Inr (listOr rag, [82, 65, 71, 32, 40, 54924, 51032, 32, 45236,
          50857, 32, 43, 32, 80, 68, 70, 41])
        else if listOr qs \<noteq> [] then Inr (listOr qs, [81, 38, 65, 32, 55176, 49828, 53664, 47532])
        else Inl [53300, 51592, 32, 49373, 49457, 54624, 32, 52968, 53584, 52768, 44032, 32, 50630,
          49845, 45768, 45796, 46, 32, 47928, 49436, 47484, 32, 44160, 49353, 54616, 44144, 45208, 32,
          54924, 51032, 47484, 32, 51652, 54665, 54644, 51452, 49464, 50836, 46])"

definition quizError :: "jstr \<Rightarrow> board_msg" where
  "quizError e = QuizFailed (if e = [] then [53300, 51592, 32, 49373, 49457, 32, 51473, 32, 50724,
    47448, 44032, 32, 48156, 49373, 54664, 49845, 45768, 45796, 46, 32, 45796, 49884, 32, 49884, 46020,
    54644, 51452, 49464, 50836, 46] else e)"

definition handleQuizGenerate :: "board_env \<Rightarrow> publisher \<Rightarrow> int \<Rightarrow> jstr \<Rightarrow> QaItem list \<Rightarrow> rag_reply \<Rightarrow> board_msg list \<times> jstr option" where
  "handleQuizGenerate env pub count quizType qaHistory rag =
     (case chooseQuiz (qaQuiz env count quizType qaHistory) (ragQuiz env count quizType rag) of
        Inl e \<Rightarrow> ([quizError e], pub 0)
      | Inr (qs, source) \<Rightarrow> (case pub 0 of
            None \<Rightarrow> ([QuizQuestions qs source], None)
          | Some e \<Rightarrow> ([QuizQuestions qs source, quizError e], pub 1)))"

text \<open>A missing field of the question is printed as \<open>undefined\<close>.\<close>

definition shown :: "jstr option \<Rightarrow> jstr" where
  "shown x = (case x of None \<Rightarrow> [117, 110, 100, 101, 102, 105, 110, 101,
    100] | Some s \<Rightarrow> s)"

definition typeLabel :: "jstr option \<Rightarrow> jstr" where
  "typeLabel ty = (if ty = Some [109, 117, 108, 116, 105, 112, 108, 101, 95, 99, 104, 111, 105, 99,
    101] then [44061, 44288, 49885] else if ty = Some [111, 120] then [79, 47, 88] else [51452, 44288,
    49885])"

definition evaluatePrompt :: "QuizQuestion \<Rightarrow> jstr \<Rightarrow> jstr" where
  "evaluatePrompt q userAnswer = [45817, 49888, 51008, 32, 54617, 49845, 32, 54588, 46300, 48177, 32,
    51204, 47928, 44032, 51077, 45768, 45796, 46, 32, 45796, 51020, 32, 53300, 51592, 32, 45813, 48320,
    51012, 32, 54217, 44032, 54616, 44256, 32, 54588, 46300, 48177, 51012, 32, 51228, 44277, 54644,
    51452, 49464, 50836, 46, 10, 10, 35, 35, 32, 47928, 51228, 10] @ shown (qz_question q) @ [10, 10,
    35, 35, 32, 47928, 51228, 32, 50976, 54805, 10] @ typeLabel (qz_type q) @ [10, 10, 35, 35, 32,
    51221, 45813, 10] @ shown (qz_answer q) @ [10, 10, 35, 35, 32, 54617, 49845, 51088, 32, 45813,
    48320, 10] @ userAnswer @ [10, 10, 35, 35, 32, 54644, 49444, 10] @ shown (qz_explanation q) @ [10,
    10, 35, 35, 32, 44288, 47144, 32, 45236, 50857, 10] @ str_or (qz_related q) [50630, 51020] @ [10,
    10, 35, 35, 32, 52636, 47141, 32, 54805, 49885, 32, 40, 74, 83, 79, 78, 47564, 32, 52636, 47141,
    41, 10, 123, 10, 32, 32, 34, 105, 115, 67, 111, 114, 114, 101, 99, 116, 34, 58, 32, 116, 114, 117,
    101, 47, 102, 97, 108, 115, 101, 44, 10, 32, 32, 34, 102, 101, 101, 100, 98, 97, 99, 107, 34, 58,
    32, 34, 54617, 49845, 51088, 51032, 32, 45813, 48320, 50640, 32, 45824, 54620, 32, 44396, 52404,
    51201, 51064, 32, 54588, 46300, 48177, 32, 40, 47582, 50520, 45796, 47732, 32, 52845, 52268, 44284,
    32, 52628, 44032, 32, 49444, 47749, 44, 32, 53952, 47160, 45796, 47732, 32, 50780, 32, 53952,
    47160, 45716, 51648, 32, 48516, 49437, 41, 34, 44, 10, 32, 32, 34, 115, 116, 117, 100, 121, 71,
    117, 105, 100, 101, 34, 58, 32, 34, 53952, 47536, 32, 44221, 50864, 32, 50612, 46500, 32, 48512,
    48516, 51012, 32, 45796, 49884, 32, 44277, 48512, 54644, 50556, 32, 54616, 45716, 51648, 32, 44396,
    52404, 51201, 51064, 32, 44032, 51060, 46300, 32, 40, 47582, 51008, 32, 44221, 50864, 45716, 32,
    49900, 54868, 32, 54617, 49845, 32, 51228, 50504, 41, 34, 10, 125, 10, 10, 35, 35, 32, 54217,
    44032, 32, 44592, 51456, 10, 45, 32, 44061, 44288, 49885, 47, 79, 47, 88, 58, 32, 51221, 54869,
    55176, 32, 51068, 52824, 54644, 50556, 32, 51221, 45813, 10, 45, 32, 51452, 44288, 49885, 58, 32,
    54645, 49900, 32, 44060, 45392, 51060, 32, 54252, 54632, 46104, 50612, 32, 51080, 51004, 47732, 32,
    51221, 45813, 51004, 47196, 32, 51064, 51221, 32, 40, 50976, 50672, 54616, 44172, 32, 54217, 44032,
    41, 10, 45, 32, 49884, 44036, 32, 52488, 44284, 45208, 32, 45813, 48320, 32, 50630, 51020, 51008,
    32, 50724, 45813, 32, 52376, 47532]"

definition sameAnswer :: "QuizQuestion \<Rightarrow> jstr \<Rightarrow> bool" where
  "sameAnswer q userAnswer = (case qz_answer q of None \<Rightarrow> False | Some a \<Rightarrow> to_lower (trim userAnswer) = to_lower (trim a))"

definition compareAnswer :: "QuizQuestion \<Rightarrow> jstr \<Rightarrow> jstr \<Rightarrow> Evaluation" where
  "compareAnswer q userAnswer guide =
     (let ok = sameAnswer q userAnswer
      in \<lparr>el_questionId = num_or (qz_id q) 0, el_userAnswer = userAnswer, el_isCorrect = ok,
          el_feedback = (if ok then [51221, 45813, 51077, 45768, 45796, 33] else [53952, 47160, 49845,
            45768, 45796, 46, 32, 51221, 45813, 51008, 32, 34] @ shown (qz_answer q) @ [34, 51077,
            45768, 45796, 46]),
          el_studyGuide = (if ok then [] else str_or (qz_explanation q) guide)\<rparr>)"

definition judgeAnswer :: "board_env \<Rightarrow> QuizQuestion \<Rightarrow> jstr \<Rightarrow> jstr \<Rightarrow> Evaluation" where
  "judgeAnswer env q userAnswer response = (case jsonMatch response of
      None \<Rightarrow> \<lparr>el_questionId = num_or (qz_id q) 0, el_userAnswer = userAnswer, el_isCorrect = False,
               el_feedback = [54217, 44032, 47484, 32, 50756, 47308, 54664, 49845, 45768, 45796, 46],
                 el_studyGuide = []\<rparr>
    | Some j \<Rightarrow> (case parseVerdict env j of
        None \<Rightarrow> compareAnswer q userAnswer []
      | Some v \<Rightarrow> \<lparr>el_questionId = num_or (qz_id q) 0, el_userAnswer = userAnswer, el_isCorrect = (vd_isCorrect v = Some True),
               el_feedback = str_or (vd_feedback v) [54217, 44032, 47484, 32, 50756, 47308, 54664,
                 49845, 45768, 45796, 46], el_studyGuide = str_or (vd_studyGuide v) []\<rparr>))"

definition handleQuizEvaluate :: "board_env \<Rightarrow> publisher \<Rightarrow> QuizQuestion \<Rightarrow> jstr \<Rightarrow> board_msg list \<times> jstr option" where
  "handleQuizEvaluate env pub q userAnswer =
     (let fallback = QuizEvaluated (compareAnswer q userAnswer [54644, 45817, 32, 45236, 50857, 51012,
       32, 45796, 49884, 32, 48373, 49845, 54644, 48372, 49464, 50836, 46])
      in case boardModel env (evaluatePrompt q userAnswer) 500 of
          Inl e \<Rightarrow> ([fallback], pub 0)
        | Inr r \<Rightarrow>
            let msg = QuizEvaluated (judgeAnswer env q userAnswer r)
            in if pub 0 = None then ([msg], None) else ([msg, fallback], pub 1))"

section \<open>Depths are distances\<close>

text \<open>A walk of a given length from the start along the edges, and the length of the shortest one.\<close>

fun walk :: "FlowchartEdge list \<Rightarrow> jstr \<Rightarrow> nat \<Rightarrow> jstr \<Rightarrow> bool" where
  "walk es s 0 v \<longleftrightarrow> v = s"
| "walk es s (Suc n) v \<longleftrightarrow> list_ex (\<lambda>e. fe_to e = v \<and> walk es s n (fe_from e)) es"

definition shortest :: "FlowchartEdge list \<Rightarrow> jstr \<Rightarrow> nat \<Rightarrow> jstr \<Rightarrow> bool" where
  "shortest es s n v \<longleftrightarrow> walk es s n v \<and> (\<forall>k < n. \<not> walk es s k v)"

text \<open>The invariant of the loop: the classic one of breadth-first search.\<close>

definition bfs_inv :: "FlowchartEdge list \<Rightarrow> jstr \<Rightarrow> (jstr \<times> nat \<times> int) list \<Rightarrow> (jstr, nat \<times> int) jmap \<Rightarrow> bool" where
  "bfs_inv es s q m \<longleftrightarrow>
     (\<forall>(v, d, b) \<in> set q. walk es s d v) \<and>
     sorted (map (\<lambda>x. fst (snd x)) q) \<and>
     (\<forall>x \<in> set q. fst (snd x) \<le> Suc (fst (snd (hd q)))) \<and>
     (\<forall>v d b. jget m v = Some (d, b) \<longrightarrow> shortest es s d v) \<and>
     (\<forall>e \<in> set es. \<forall>d b. jget m (fe_from e) = Some (d, b) \<longrightarrow>
        jhas m (fe_to e) \<or> (\<exists>b'. (fe_to e, Suc d, b') \<in> set q)) \<and>
     (jhas m s \<or> (\<exists>b. (s, 0, b) \<in> set q))"

lemma jhas_get: "jhas m v \<longleftrightarrow> (\<exists>x. jget m v = Some x)"
  by (auto simp: jhas_def)

text \<open>Whoever is reached by a walk and not yet visited has someone in the queue on the way.\<close>

lemma bfs_front:
  assumes "bfs_inv es s q m"
  shows "walk es s n v \<Longrightarrow> \<not> jhas m v \<Longrightarrow> \<exists>x \<in> set q. fst (snd x) \<le> n"
proof (induction n arbitrary: v)
  case 0
  then show ?case using assms unfolding bfs_inv_def by force
next
  case (Suc n)
  then obtain e where e: "e \<in> set es" "fe_to e = v" "walk es s n (fe_from e)" by (auto simp: list_ex_iff)
  show ?case
  proof (cases "jhas m (fe_from e)")
    case True
    then obtain d b where d: "jget m (fe_from e) = Some (d, b)" by (auto simp: jhas_get)
    then have "shortest es s d (fe_from e)" using assms unfolding bfs_inv_def by blast
    then have "d \<le> n" using e(3) unfolding shortest_def by (meson not_le)
    moreover obtain b' where "(v, Suc d, b') \<in> set q" using assms e(1,2) d Suc.prems(2) unfolding bfs_inv_def by blast
    ultimately show ?thesis by force
  next
    case False
    from Suc.IH [OF e(3) this] show ?thesis by (meson le_Suc_eq)
  qed
qed

lemma outEntries_sound:
  assumes "(x, d', b') \<in> set (outEntries es v d b)"
  shows "d' = Suc d \<and> (\<exists>e \<in> set es. fe_from e = v \<and> fe_to e = x)"
proof -
  let ?out = "filter (\<lambda>e. fe_from e = v) es"
  have n: "?out ! i \<in> set es \<and> fe_from (?out ! i) = v" if "i < length ?out" for i
    using nth_mem [OF that] by simp
  show ?thesis
  proof (cases "length ?out = 1")
    case True
    then have "x = fe_to (?out ! 0)" "d' = Suc d" using assms by (simp_all add: outEntries_def)
    then show ?thesis using n [of 0] True by auto
  next
    case False
    then obtain i where "i < length ?out" "x = fe_to (?out ! i)" "d' = Suc d"
      using assms by (auto simp: outEntries_def Let_def in_set_enumerate_eq)
    then show ?thesis using n by auto
  qed
qed

lemma outEntries_complete:
  assumes "e \<in> set es" "fe_from e = v"
  shows "\<exists>b'. (fe_to e, Suc d, b') \<in> set (outEntries es v d b)"
proof -
  let ?out = "filter (\<lambda>e. fe_from e = v) es"
  have "e \<in> set ?out" using assms by simp
  then obtain i where i: "i < length ?out" "?out ! i = e" unfolding in_set_conv_nth by blast
  show ?thesis
  proof (cases "length ?out = 1")
    case True
    then show ?thesis using i by (auto simp: outEntries_def)
  next
    case False
    have "(i, e) \<in> set (List.enumerate 0 ?out)" using i by (simp add: in_set_enumerate_eq)
    then show ?thesis using False by (force simp: outEntries_def Let_def)
  qed
qed

lemma bfs_inv_skip:
  assumes "bfs_inv es s ((v, d, b) # q) m" "jhas m v"
  shows "bfs_inv es s q m"
proof -
  have "\<forall>x \<in> set q. fst (snd x) \<le> Suc (fst (snd (hd q)))"
  proof
    fix x assume x: "x \<in> set q"
    then have "hd q \<in> set q" by (cases q) auto
    then have "d \<le> fst (snd (hd q))" using assms(1) by (auto simp: bfs_inv_def)
    moreover have "fst (snd x) \<le> Suc d" using assms(1) x by (auto simp: bfs_inv_def)
    ultimately show "fst (snd x) \<le> Suc (fst (snd (hd q)))" by simp
  qed
  then show ?thesis using assms unfolding bfs_inv_def by auto
qed

lemma bfs_inv_visit:
  assumes i: "bfs_inv es s ((v, d, b) # q) m" and n: "\<not> jhas m v"
  shows "bfs_inv es s (q @ outEntries es v d b) (jset v (d, b) m)"
proof -
  let ?new = "outEntries es v d b" and ?m = "jset v (d, b) m"
  have w: "walk es s d v" "\<forall>(v, d, b) \<in> set q. walk es s d v" using i by (auto simp: bfs_inv_def)
  have lo: "d \<le> fst (snd x)" and hi: "fst (snd x) \<le> Suc d" if "x \<in> set q" for x
    using i that by (auto simp: bfs_inv_def)
  have new: "fst (snd x) = Suc d" if "x \<in> set ?new" for x
    using outEntries_sound [of "fst x" "fst (snd x)" "snd (snd x)"] that by simp
  have sh: "shortest es s d v" unfolding shortest_def
  proof (intro conjI allI impI notI w(1))
    fix k assume "k < d" "walk es s k v"
    from bfs_front [OF i this(2) n] \<open>k < d\<close> lo show False by force
  qed
  have "\<forall>(x, d', b') \<in> set ?new. walk es s d' x"
  proof clarify
    fix x d' b' assume "(x, d', b') \<in> set ?new"
    from outEntries_sound [OF this] w(1) show "walk es s d' x" by (auto simp: list_ex_iff)
  qed
  moreover have "sorted (map (\<lambda>x. fst (snd x)) (q @ ?new))"
  proof -
    have "map (\<lambda>x. fst (snd x)) ?new = replicate (length ?new) (Suc d)"
      unfolding map_replicate_const [symmetric] using new by (intro map_cong) auto
    moreover have "sorted (map (\<lambda>x. fst (snd x)) q)" using i by (simp add: bfs_inv_def)
    ultimately show ?thesis using hi by (simp only: map_append sorted_append sorted_replicate) auto
  qed
  moreover have "\<forall>x \<in> set (q @ ?new). fst (snd x) \<le> Suc (fst (snd (hd (q @ ?new))))"
  proof
    fix x assume x: "x \<in> set (q @ ?new)"
    then have "hd (q @ ?new) \<in> set (q @ ?new)" by (cases "q @ ?new") auto
    then have "d \<le> fst (snd (hd (q @ ?new)))" using lo new by fastforce
    moreover have "fst (snd x) \<le> Suc d" using x hi [of x] new [of x] unfolding set_append Un_iff by linarith
    ultimately show "fst (snd x) \<le> Suc (fst (snd (hd (q @ ?new))))" by simp
  qed
  moreover have "\<forall>u d' b'. jget ?m u = Some (d', b') \<longrightarrow> shortest es s d' u"
    using i sh by (auto simp: bfs_inv_def map_of_jset)
  moreover have "\<forall>e \<in> set es. \<forall>d' b'. jget ?m (fe_from e) = Some (d', b') \<longrightarrow>
      jhas ?m (fe_to e) \<or> (\<exists>b''. (fe_to e, Suc d', b'') \<in> set (q @ ?new))"
  proof (intro ballI allI impI)
    fix e d' b' assume e: "e \<in> set es" "jget ?m (fe_from e) = Some (d', b')"
    show "jhas ?m (fe_to e) \<or> (\<exists>b''. (fe_to e, Suc d', b'') \<in> set (q @ ?new))"
    proof (cases "fe_from e = v")
      case True
      then show ?thesis using outEntries_complete [OF e(1) True, of d b] e(2) by auto
    next
      case False
      then have "jget m (fe_from e) = Some (d', b')" using e(2) by simp
      then have "jhas m (fe_to e) \<or> (\<exists>b''. (fe_to e, Suc d', b'') \<in> set ((v, d, b) # q))"
        using i e(1) unfolding bfs_inv_def by blast
      then show ?thesis by auto
    qed
  qed
  moreover have "jhas ?m s \<or> (\<exists>b'. (s, 0, b') \<in> set (q @ ?new))" using i by (auto simp: bfs_inv_def)
  ultimately show ?thesis using w(2) unfolding bfs_inv_def by auto
qed

lemma bfs_shortest:
  assumes "bfs_inv es s q m"
  shows "(\<exists>b. jget (bfs es q m) v = Some (d, b)) \<longleftrightarrow> shortest es s d v"
  using assms
proof (induction es q m rule: bfs.induct)
  case (1 es m)
  have f: "jget m v = Some (d, b) \<Longrightarrow> shortest es s d v" for v d b using "1.prems" unfolding bfs_inv_def by blast
  have "\<exists>d' b. jget m v = Some (d', b)" if "walk es s d v"
    using bfs_front [OF "1.prems" that] by (auto simp: jhas_get)
  then show ?case using f unfolding shortest_def by (metis bfs.simps(1) linorder_neqE_nat)
next
  case (2 es v' depth branch q m)
  show ?case
  proof (cases "jhas m v'")
    case True
    then show ?thesis using "2.IH"(1) [OF True bfs_inv_skip [OF "2.prems" True]] by simp
  next
    case False
    then show ?thesis using "2.IH"(2) [OF False bfs_inv_visit [OF "2.prems" False]] by simp
  qed
qed

text \<open>
  C10. The depth of a node in the flowchart of a requirements document is its distance from the start node, the length of
  the shortest walk along the edges; a node that cannot be reached gets its position in the list.
\<close>

theorem depth_is_distance:
  assumes "i < length ns" and "startNodeId ns es = Some s"
  shows "if \<exists>n. walk es s n (fst (ns ! i)) then shortest es s (bn_depth (flowNodes ns es ! i)) (fst (ns ! i))
     else bn_depth (flowNodes ns es ! i) = i"
proof -
  let ?m = "bfs es [(s, 0, 0)] []" and ?v = "fst (ns ! i)"
  have inv: "bfs_inv es s [(s, 0, 0)] []" by (simp add: bfs_inv_def jhas_def)
  have d: "bn_depth (flowNodes ns es ! i) = (case jget ?m ?v of None \<Rightarrow> i | Some (d, b) \<Rightarrow> d)"
    using assms by (simp add: flowNodes_def Let_def nth_enumerate_eq split_beta del: bfs.simps split: option.split)
  show ?thesis
  proof (cases "\<exists>n. walk es s n ?v")
    case True
    then have "shortest es s (LEAST n. walk es s n ?v) ?v" unfolding shortest_def by (meson LeastI_ex not_less_Least)
    then obtain b where "jget ?m ?v = Some (LEAST n. walk es s n ?v, b)" using bfs_shortest [OF inv] by blast
    then show ?thesis using True d \<open>shortest es s (LEAST n. walk es s n ?v) ?v\<close> by simp
  next
    case False
    then have "jget ?m ?v = None" using bfs_shortest [OF inv, of ?v] unfolding shortest_def by (metis not_Some_eq prod.collapse)
    then show ?thesis using False d by simp
  qed
qed

definition demo_nodes :: "(jstr \<times> jstr \<times> jstr) list" where
  "demo_nodes = [([99], [45149], [101, 110, 100]), ([97], [49884, 51089], [115, 116, 97, 114, 116]),
    ([98], [52376, 47532], [112, 114, 111, 99, 101, 115, 115]), ([100], [46384, 47196], [105, 111])]"

definition demo_edge :: "jstr \<Rightarrow> jstr \<Rightarrow> FlowchartEdge" where
  "demo_edge a b = \<lparr>fe_from = a, fe_to = b, fe_label = None\<rparr>"

definition demo_edges :: "FlowchartEdge list" where
  "demo_edges = [demo_edge [97] [98], demo_edge [98] [99], demo_edge [98] [98], demo_edge [97] [99]]"

theorem depth_is_distance_witness:
  "shortest demo_edges [97] (bn_depth (flowNodes demo_nodes demo_edges ! 0)) [99] \<and> bn_depth (flowNodes demo_nodes demo_edges ! 0) = 1"
proof -
  have l: "0 < length demo_nodes" "startNodeId demo_nodes demo_edges = Some [97]" by code_simp+
  have w: "walk demo_edges [97] 1 [99]" by code_simp
  have f: "fst (demo_nodes ! 0) = [99]" by (simp add: demo_nodes_def)
  have "bn_depth (flowNodes demo_nodes demo_edges ! 0) = 1" by code_simp
  moreover have "shortest demo_edges [97] (bn_depth (flowNodes demo_nodes demo_edges ! 0)) [99]"
    using depth_is_distance [OF l] w unfolding f by (metis (mono_tags))
  ultimately show ?thesis by blast
qed

text \<open>The third way out of a decision is drawn on the branch of the second.\<close>

lemma third_branch_overlaps: "branchOffset 2 = branchOffset 1"
  by (simp add: branchOffset_def)

section \<open>Quizzes\<close>

text \<open>
  The quiz from the questions asked so far is meant as a fallback, but its failure is the failure of the request: then
  nobody gets a quiz, also if the one from the record of the meeting was ready.
\<close>

theorem fallback_quiz_failure_wins:
  assumes "qaQuiz env count quizType qaHistory = Inl e"
  shows "fst (handleQuizGenerate env pub count quizType qaHistory rag) = [quizError e]"
  using assms by (simp add: handleQuizGenerate_def chooseQuiz_def)

definition demo_board :: board_env where
  "demo_board = \<lparr>boardModel = (\<lambda>_ _. Inr [45348]), parseCdr = (\<lambda>_. Inl []), parseDomain = (\<lambda>_. Inl []), parseSketch = (\<lambda>_. None),
     parseQuiz = (\<lambda>_. Inl []), parseVerdict = (\<lambda>_. None)\<rparr>"

definition demo_qa :: QaItem where
  "demo_qa = \<lparr>qa_question = [113], qa_answer = [97], qa_context = None\<rparr>"

theorem fallback_quiz_failure_wins_witness:
  "fst (handleQuizGenerate demo_board (\<lambda>_. None) 5 [111, 120] [demo_qa] \<lparr>rg_connected = True, rg_answer = Inr None, rg_inTime = True\<rparr>) =
     [quizError [74, 83, 79, 78, 32, 54028, 49905, 32, 49892, 54056]]"
  by (rule fallback_quiz_failure_wins) (simp add: qaQuiz_def generateQuizFromContent_def demo_board_def arrayMatch_def)

text \<open>
  An answer is compared with the solution only when the model fails or its JSON text cannot be read. If the model
  answers without any JSON text, every answer is graded as wrong, also the solution itself.
\<close>

theorem plain_reply_grades_wrong:
  assumes "boardModel env (evaluatePrompt q userAnswer) 500 = Inr r"
  shows "hd (fst (handleQuizEvaluate env pub q userAnswer)) = QuizEvaluated (judgeAnswer env q userAnswer r) \<and>
    (if jsonMatch r = None then \<not> el_isCorrect (judgeAnswer env q userAnswer r)
     else if parseVerdict env (the (jsonMatch r)) = None then el_isCorrect (judgeAnswer env q userAnswer r) = sameAnswer q userAnswer
     else el_isCorrect (judgeAnswer env q userAnswer r) = (vd_isCorrect (the (parseVerdict env (the (jsonMatch r)))) = Some True))"
  using assms by (auto simp: handleQuizEvaluate_def judgeAnswer_def compareAnswer_def Let_def split: option.splits)

definition demo_question :: QuizQuestion where
  "demo_question = \<lparr>qz_id = Some 1, qz_question = Some [54616, 45720, 51008, 32, 54028, 46976,
    44032], qz_type = Some [111, 120], qz_answer = Some [79], qz_explanation = None,
    qz_related = None\<rparr>"

theorem plain_reply_grades_wrong_witness:
  "\<not> el_isCorrect (judgeAnswer demo_board demo_question [79] [45348]) \<and> sameAnswer demo_question [79]"
proof -
  have "boardModel demo_board (evaluatePrompt demo_question [79]) 500 = Inr [45348]" by (simp add: demo_board_def)
  from plain_reply_grades_wrong [OF this, of "\<lambda>_. None"] show ?thesis by (simp add: jsonMatch_def sameAnswer_def demo_question_def)
qed

end
