(* ===== verification/Upload.thy ===== *)
theory Upload
  imports Utf8 Regex
begin

text \<open>
  Chat attachments, \<open>src/upload/upload.service.ts\<close> and \<open>upload.controller.ts\<close>, and translation,
  \<open>src/translate/translate.service.ts\<close> and \<open>translate.controller.ts\<close>. The object store, its signed URLs and the translation
  service are parameters; so are the standard functions on URIs, which throw on malformed input. An endpoint gives a result or a status with a message.
\<close>

section \<open>File names\<close>

definition isHangul :: "int \<Rightarrow> bool" where
  "isHangul c \<longleftrightarrow> 44032 \<le> c \<and> c \<le> 55203"

text \<open>\<open>Buffer.from(name, 'latin1')\<close> keeps the low byte of every code unit.\<close>

definition latin1Bytes :: "jstr \<Rightarrow> int list" where
  "latin1Bytes s = map (\<lambda>c. c mod 256) s"

definition decodeFileName :: "jstr \<Rightarrow> jstr" where
  "decodeFileName name =
     (if name = [] then name
      else let decoded = utf8 (latin1Bytes name) in if list_ex isHangul decoded then decoded else name)"

definition safeChar :: "int \<Rightarrow> bool" where
  "safeChar c \<longleftrightarrow> (97 \<le> c \<and> c \<le> 122) \<or> (65 \<le> c \<and> c \<le> 90) \<or> (48 \<le> c \<and> c \<le> 57) \<or>
     c \<in> {46, 95, 45}"

definition safeFileName :: "jstr \<Rightarrow> jstr" where
  "safeFileName s = map (\<lambda>c. if safeChar c then c else 95) s"

section \<open>Upload\<close>

record upload_file =
  uf_originalname :: jstr
  uf_size :: int
  uf_mimetype :: "jstr option"
  uf_buffer :: "int list"

record put_object =
  po_key :: jstr
  po_body :: "int list"
  po_contentType :: jstr
  po_originalName :: jstr
  po_uploaderName :: jstr
  po_roomId :: jstr

text \<open>The store: whether it is configured, its bucket and region, the outcome of a request, and signed URLs for an hour.\<close>

record upload_env =
  s3Configured :: bool
  s3Bucket :: jstr
  s3Region :: jstr
  putObject :: "put_object \<Rightarrow> jstr option"
  signUrl :: "jstr \<Rightarrow> jstr option \<Rightarrow> jstr + jstr"
  encodeComponent :: "jstr \<Rightarrow> jstr option"
  urlPathname :: "jstr \<Rightarrow> jstr option"
  decodeComponent :: "jstr \<Rightarrow> jstr option"

record UploadResult =
  ur_fileUrl :: jstr
  ur_downloadUrl :: jstr
  ur_fileName :: jstr
  ur_fileSize :: int
  ur_contentType :: jstr

definition s3Prefix :: jstr where "s3Prefix = [114, 111, 111, 109, 115, 47]"

definition notConfigured :: jstr where "notConfigured = [83, 51, 32, 110, 111, 116, 32, 99, 111, 110,
  102, 105, 103, 117, 114, 101, 100]"

definition attachmentKey :: "jstr \<Rightarrow> jstr \<Rightarrow> jstr" where
  "attachmentKey roomId name = s3Prefix @ roomId @ [47, 97, 116, 116, 97, 99, 104, 109, 101, 110, 116,
    115, 47] @ name"

definition uploadKey :: "int \<Rightarrow> jstr \<Rightarrow> jstr \<Rightarrow> jstr" where
  "uploadKey now roomId decoded = attachmentKey roomId (jint now @ [45] @ safeFileName decoded)"

definition malformed :: jstr where "malformed = [85, 82, 73, 32, 109, 97, 108, 102, 111, 114, 109, 101, 100]"

definition disposition :: "upload_env \<Rightarrow> jstr \<Rightarrow> jstr + jstr" where
  "disposition env name = (case encodeComponent env name of
      None \<Rightarrow> Inl malformed
    | Some e \<Rightarrow> Inr ([97, 116, 116, 97, 99, 104, 109, 101, 110, 116, 59, 32, 102, 105, 108,
      101, 110, 97, 109, 101, 61, 34] @ e @ [34]))"

definition contentType :: "upload_file \<Rightarrow> jstr" where
  "contentType f = str_or (uf_mimetype f) [97, 112, 112, 108, 105, 99, 97, 116, 105, 111, 110, 47, 111,
    99, 116, 101, 116, 45, 115, 116, 114, 101, 97, 109]"

definition uploadRequest :: "upload_env \<Rightarrow> int \<Rightarrow> jstr \<Rightarrow> upload_file \<Rightarrow> jstr option \<Rightarrow> jstr + put_object" where
  "uploadRequest env now roomId f uploaderName =
     (let decoded = decodeFileName (uf_originalname f)
      in case (encodeComponent env decoded,
        if truthy_str uploaderName then encodeComponent env (the uploaderName) else Some [117, 110,
        107, 110, 111, 119, 110]) of
          (Some original, Some uploader) \<Rightarrow>
            Inr \<lparr>po_key = uploadKey now roomId decoded, po_body = uf_buffer f, po_contentType = contentType f,
              po_originalName = original, po_uploaderName = uploader, po_roomId = roomId\<rparr>
        | _ \<Rightarrow> Inl malformed)"

text \<open>What is thrown inside the \<open>try\<close>: by the request, by the store, or by the signature.\<close>

definition tryUpload :: "upload_env \<Rightarrow> int \<Rightarrow> jstr \<Rightarrow> upload_file \<Rightarrow> jstr option \<Rightarrow> jstr + UploadResult" where
  "tryUpload env now roomId f uploaderName = (case uploadRequest env now roomId f uploaderName of
      Inl e \<Rightarrow> Inl e
    | Inr rq \<Rightarrow> (case putObject env rq of
        Some e \<Rightarrow> Inl e
      | None \<Rightarrow> (let decoded = decodeFileName (uf_originalname f) in case disposition env decoded of
          Inl e \<Rightarrow> Inl e
        | Inr d \<Rightarrow> (case signUrl env (po_key rq) (Some d) of
            Inl e \<Rightarrow> Inl e
          | Inr url \<Rightarrow> Inr \<lparr>ur_fileUrl =
              [104, 116, 116, 112, 115, 58, 47, 47] @ s3Bucket env @ [46, 115, 51,
                46] @ s3Region env @ [46, 97, 109, 97, 122, 111, 110, 97, 119, 115, 46, 99, 111, 109,
                47] @ po_key rq,
              ur_downloadUrl = url, ur_fileName = decoded, ur_fileSize = uf_size f, ur_contentType = contentType f\<rparr>))))"

definition uploadChatFile :: "upload_env \<Rightarrow> int \<Rightarrow> jstr \<Rightarrow> upload_file \<Rightarrow> jstr option \<Rightarrow> jstr + UploadResult" where
  "uploadChatFile env now roomId f uploaderName =
     (if \<not> s3Configured env then Inl notConfigured
      else case tryUpload env now roomId f uploaderName of Inl e \<Rightarrow> Inl ([85, 112, 108, 111,
        97, 100, 32, 102, 97, 105, 108, 101, 100, 58, 32] @ e) | Inr x \<Rightarrow> Inr x)"

definition getDownloadUrl :: "upload_env \<Rightarrow> jstr \<Rightarrow> jstr \<Rightarrow> jstr option \<Rightarrow> jstr + jstr" where
  "getDownloadUrl env roomId fileName originalName =
     (if \<not> s3Configured env then Inl notConfigured
      else if \<not> truthy_str originalName then signUrl env (attachmentKey roomId fileName) None
      else case disposition env (the originalName) of
          Inl e \<Rightarrow> Inl e
        | Inr d \<Rightarrow> signUrl env (attachmentKey roomId fileName) (Some d))"

text \<open>A string that is no URL, or a path that cannot be decoded, throws.\<close>

definition getViewerUrl :: "upload_env \<Rightarrow> jstr \<Rightarrow> jstr + jstr" where
  "getViewerUrl env fileUrl =
     (if \<not> s3Configured env then Inl notConfigured
      else case urlPathname env fileUrl of
          None \<Rightarrow> Inl [73, 110, 118, 97, 108, 105, 100, 32, 85, 82, 76]
        | Some path \<Rightarrow> (case decodeComponent env (drop 1 path) of
            None \<Rightarrow> Inl malformed
          | Some key \<Rightarrow> signUrl env key None))"

section \<open>Endpoints\<close>

definition orServerError :: "jstr \<Rightarrow> jstr + 'a \<Rightarrow> (int \<times> jstr) + 'a" where
  "orServerError fallback r = (case r of Inl e \<Rightarrow> Inl (500, if e = [] then fallback else e) | Inr x \<Rightarrow> Inr x)"

definition http_uploadChatFile :: "upload_env \<Rightarrow> int \<Rightarrow> jstr \<Rightarrow> upload_file option \<Rightarrow> jstr option \<Rightarrow> (int \<times> jstr) + UploadResult" where
  "http_uploadChatFile env now roomId f uploaderName = (case f of
      None \<Rightarrow> Inl (400, [78, 111, 32, 102, 105, 108, 101, 32, 112, 114, 111, 118, 105, 100,
        101, 100])
    | Some f \<Rightarrow> orServerError [85, 112, 108, 111, 97, 100, 32, 102, 97, 105, 108, 101,
      100] (uploadChatFile env now roomId f uploaderName))"

definition http_getDownloadUrl :: "upload_env \<Rightarrow> jstr \<Rightarrow> jstr \<Rightarrow> jstr option \<Rightarrow> (int \<times> jstr) + jstr" where
  "http_getDownloadUrl env roomId fileName originalName =
     orServerError [70, 97, 105, 108, 101, 100, 32, 116, 111, 32, 103, 101, 110, 101, 114, 97, 116,
       101, 32, 100, 111, 119, 110, 108, 111, 97, 100, 32, 85, 82,
       76] (getDownloadUrl env roomId fileName originalName)"

definition http_getViewerUrl :: "upload_env \<Rightarrow> jstr option \<Rightarrow> (int \<times> jstr) + jstr" where
  "http_getViewerUrl env fileUrl =
     (if \<not> truthy_str fileUrl then Inl (400, [102, 105, 108, 101, 85, 114, 108, 32, 105, 115, 32,
       114, 101, 113, 117, 105, 114, 101, 100])
      else orServerError [70, 97, 105, 108, 101, 100, 32, 116, 111, 32, 103, 101, 110, 101, 114, 97,
        116, 101, 32, 118, 105, 101, 119, 101, 114, 32, 85, 82, 76] (getViewerUrl env (the fileUrl)))"

section \<open>Translation\<close>

record TranslateResponse =
  tr_text :: jstr
  tr_source :: jstr
  tr_target :: jstr

text \<open>The service gets the text and the two languages, of which the first is nothing for an unknown code.\<close>

type_synonym translator = "jstr \<Rightarrow> jstr option \<Rightarrow> jstr option \<Rightarrow> jstr + jstr option \<times> jstr option"

definition langCodeMap :: "jstr \<Rightarrow> jstr option" where
  "langCodeMap l = (if l \<in> {[107, 111], [122, 104], [106, 97], [101, 110]} then Some l else None)"

definition translate :: "translator \<Rightarrow> jstr \<Rightarrow> jstr option \<Rightarrow> jstr \<Rightarrow> jstr + TranslateResponse" where
  "translate aws t sourceLang targetLang =
     (let source = (case sourceLang of None \<Rightarrow> [97, 117, 116, 111] | Some l \<Rightarrow> l)
      in if trim t = [] then Inr \<lparr>tr_text = [], tr_source = (if source = [97, 117, 116,
        111] then [117, 110, 107, 110, 111, 119, 110] else source), tr_target = targetLang\<rparr>
         else case aws t (if source = [97, 117, 116,
           111] then Some source else langCodeMap source) (langCodeMap targetLang) of
             Inl e \<Rightarrow> Inl e
           | Inr (out, detected) \<Rightarrow> Inr \<lparr>tr_text = str_or out t,
             tr_source = str_or detected [117, 110, 107, 110, 111, 119, 110],
             tr_target = targetLang\<rparr>)"

text \<open>\<open>Promise.all\<close>: the results in the order of the texts, or the first error.\<close>

fun allOf :: "(jstr + 'a) list \<Rightarrow> jstr + 'a list" where
  "allOf [] = Inr []"
| "allOf (r # rs) = (case r of Inl e \<Rightarrow> Inl e | Inr x \<Rightarrow> (case allOf rs of Inl e \<Rightarrow> Inl e | Inr xs \<Rightarrow> Inr (x # xs)))"

definition translateBatch :: "translator \<Rightarrow> jstr list \<Rightarrow> jstr option \<Rightarrow> jstr \<Rightarrow> jstr + TranslateResponse list" where
  "translateBatch aws texts sourceLang targetLang = allOf (map (\<lambda>t. translate aws t sourceLang targetLang) texts)"

definition targetError :: "jstr option \<Rightarrow> (int \<times> jstr) option" where
  "targetError targetLang =
     (if \<not> truthy_str targetLang then Some (400, [116, 97, 114, 103, 101, 116, 76, 97, 110, 103,
       32, 105, 115, 32, 114, 101, 113, 117, 105, 114, 101, 100])
      else if the targetLang \<notin> {[107, 111], [122, 104], [106, 97], [101, 110]} then Some (400,
        [116, 97, 114, 103, 101, 116, 76, 97, 110, 103, 32, 109, 117, 115, 116, 32, 98, 101, 32, 111,
        110, 101, 32, 111, 102, 58, 32, 107, 111, 44, 32, 122, 104, 44, 32, 106, 97, 44, 32, 101, 110])
      else None)"

text \<open>An error of the service passes the controller unchanged and becomes a server error.\<close>

definition serverError :: "jstr + 'a \<Rightarrow> (int \<times> jstr) + 'a" where
  "serverError r = (case r of Inl e \<Rightarrow> Inl (500, e) | Inr x \<Rightarrow> Inr x)"

definition http_translate :: "translator \<Rightarrow> jstr option \<Rightarrow> jstr option \<Rightarrow> jstr option \<Rightarrow> (int \<times> jstr) + TranslateResponse" where
  "http_translate aws t sourceLang targetLang =
     (if \<not> truthy_str t then Inl (400, [116, 101, 120, 116, 32, 105, 115, 32, 114, 101, 113, 117,
       105, 114, 101, 100])
      else case targetError targetLang of
          Some e \<Rightarrow> Inl e
        | None \<Rightarrow> serverError (translate aws (the t) sourceLang (the targetLang)))"

definition http_translateBatch :: "translator \<Rightarrow> jstr list option \<Rightarrow> jstr option \<Rightarrow> jstr option \<Rightarrow> (int \<times> jstr) + TranslateResponse list" where
  "http_translateBatch aws texts sourceLang targetLang = (case texts of
      None \<Rightarrow> Inl (400, [116, 101, 120, 116, 115, 32, 97, 114, 114, 97, 121, 32, 105, 115,
        32, 114, 101, 113, 117, 105, 114, 101, 100])
    | Some ts \<Rightarrow>
        if ts = [] then Inl (400, [116, 101, 120, 116, 115, 32, 97, 114, 114, 97, 121, 32, 105, 115,
          32, 114, 101, 113, 117, 105, 114, 101, 100])
        else case targetError targetLang of
            Some e \<Rightarrow> Inl e
          | None \<Rightarrow>
              if length ts > 50 then Inl (400, [77, 97, 120, 105, 109, 117, 109, 32, 53, 48, 32, 116,
                101, 120, 116, 115, 32, 97, 108, 108, 111, 119, 101, 100, 32, 112, 101, 114, 32, 114,
                101, 113, 117, 101, 115, 116])
              else serverError (translateBatch aws ts sourceLang (the targetLang)))"

section \<open>Names survive the upload\<close>

lemma utf8_char_bytes: "scalar cp \<Longrightarrow> list_all (\<lambda>b. 0 \<le> b \<and> b < 256) (utf8_char cp)"
  by (auto simp: utf8_char_def scalar_def list_all_iff)

lemma utf8_enc_bytes: "list_all scalar cps \<Longrightarrow> list_all (\<lambda>b. 0 \<le> b \<and> b < 256) (utf8_enc cps)"
  using utf8_char_bytes by (induction cps) (simp_all add: utf8_enc_def)

lemma latin1_of_bytes: "list_all (\<lambda>b. 0 \<le> b \<and> b < 256) bs \<Longrightarrow> latin1Bytes bs = bs"
  by (induction bs) (simp_all add: latin1Bytes_def)

text \<open>
  C28. A file name with a Hangul syllable survives the upload: sent as UTF-8 and taken byte by byte for Latin-1 by the
  upload library, it is restored.
\<close>

theorem korean_name_restored:
  assumes "list_all scalar cps" "list_ex isHangul cps"
  shows "decodeFileName (utf8_enc cps) = utf16 cps"
proof -
  have u: "utf8 (latin1Bytes (utf8_enc cps)) = utf16 cps"
    using latin1_of_bytes [OF utf8_enc_bytes [OF assms(1)]] utf8_roundtrip [OF assms(1)] by simp
  obtain c where c: "c \<in> set cps" "isHangul c" using assms(2) by (auto simp: list_ex_iff)
  then have "units c = [c]" by (simp add: units_def isHangul_def)
  then have "list_ex isHangul (utf16 cps)" using c by (force simp: utf16_def list_ex_iff)
  moreover have "utf8_char c \<noteq> []" by (simp add: utf8_char_def)
  then have "utf8_enc cps \<noteq> []" using c(1) by (auto simp: utf8_enc_def)
  ultimately show ?thesis by (simp add: decodeFileName_def Let_def u)
qed

theorem korean_name_restored_witness: "decodeFileName (utf8_enc [54924, 51032, 47197, 46, 112, 100,
  102]) = [54924, 51032, 47197, 46, 112, 100, 102]"
  using korean_name_restored [of "[54924, 51032, 47197, 46, 112, 100,
    102]"] by (simp add: scalar_def isHangul_def utf16_def units_def)

text \<open>A name without Hangul stays garbled.\<close>

lemma accent_stays_garbled: "decodeFileName (utf8_enc [114, 233, 115, 117, 109, 233, 46, 112, 100,
  102]) \<noteq> [114, 233, 115, 117, 109, 233, 46, 112, 100, 102]"
  by code_simp

section \<open>Keys\<close>

lemma safeChar_digit: "k < 10 \<Longrightarrow> safeChar (48 + int k)"
  by (simp add: safeChar_def)

lemma safeChar_digits: "list_all safeChar (nat_digits n)"
proof (induction n rule: nat_digits.induct)
  case (1 n)
  have "safeChar (48 + int (n mod 10))" by (rule safeChar_digit) simp
  then show ?case using 1 by (subst nat_digits.simps) (auto simp: safeChar_digit)
qed

lemma safeChar_jint: "list_all safeChar (jint i)"
  using safeChar_digits by (simp add: jint_def safeChar_def [of 45])

lemma safeFileName_safe: "list_all safeChar (safeFileName s)"
proof (induction s)
  case (Cons c s)
  have "safeChar (if safeChar c then c else 95)" by (simp add: safeChar_def [of 95])
  then show ?case using Cons by (simp add: safeFileName_def)
qed (simp add: safeFileName_def)

text \<open>
  C29. An upload cannot leave the folder of the room id it is made for: the key it is stored under is that folder followed by a
  nonempty name without a slash, which consists of the letters a to z and A to Z, digits, dots, underscores and hyphens, whatever
  the name of the file is. The room id is taken as it is.
\<close>

theorem upload_key_confined:
  "case uploadRequest env now roomId f uploaderName of
     Inl e \<Rightarrow> True
   | Inr rq \<Rightarrow> \<exists>name. po_key rq = js ''rooms/'' @ roomId @ js ''/attachments/'' @ name \<and> name \<noteq> [] \<and> 47 \<notin> set name \<and>
       list_all (\<lambda>c. c \<in> {97..122} \<or> c \<in> {65..90} \<or> c \<in> {48..57} \<or> c = 46 \<or> c = 95 \<or> c = 45) name"
proof -
  let ?name = "jint now @ [45] @ safeFileName (decodeFileName (uf_originalname f))"
  have s: "list_all safeChar ?name" by (simp add: safeChar_jint safeFileName_safe safeChar_def [of 45])
  have "47 \<notin> set ?name"
  proof
    assume "47 \<in> set ?name"
    then have "safeChar 47" using s unfolding list_all_iff by blast
    then show False by (simp add: safeChar_def)
  qed
  moreover have "list_all (\<lambda>c. c \<in> {97..122} \<or> c \<in> {65..90} \<or> c \<in> {48..57} \<or> c = 46 \<or> c = 95 \<or> c = 45) ?name"
    by (rule list.pred_mono_strong [OF s]) (auto simp: safeChar_def)
  moreover have "attachmentKey roomId ?name = js ''rooms/'' @ roomId @ js ''/attachments/'' @ ?name"
    by (simp add: attachmentKey_def s3Prefix_def js_def)
  ultimately show ?thesis
    by (simp add: uploadRequest_def uploadKey_def Let_def split: option.split prod.split)
qed

text \<open>
  Two names of the same length without a safe character get the same key in the same millisecond, and the later file
  replaces the earlier one.
\<close>

lemma korean_names_collide:
  assumes "length a = length b" "list_all isHangul a" "list_all isHangul b"
  shows "uploadKey now roomId a = uploadKey now roomId b"
proof -
  have "safeFileName s = replicate (length s) 95" if "list_all isHangul s" for s
    using that by (induction s) (simp_all add: safeFileName_def safeChar_def isHangul_def)
  then show ?thesis using assms by (simp add: uploadKey_def)
qed

text \<open>
  The viewer endpoint signs any key of the bucket: whatever path the given URL has, of whichever host and room, is
  signed without a check of access.
\<close>

lemma viewer_signs_any_key:
  assumes "s3Configured env" "url \<noteq> []" "urlPathname env url = Some (47 # path)" "decodeComponent env path = Some key"
  shows "http_getViewerUrl env (Some url) = orServerError [70, 97, 105, 108, 101, 100, 32, 116, 111,
    32, 103, 101, 110, 101, 114, 97, 116, 101, 32, 118, 105, 101, 119, 101, 114, 32, 85, 82,
    76] (signUrl env key None)"
  using assms by (simp add: http_getViewerUrl_def getViewerUrl_def truthy_str_def)

definition demo_store :: upload_env where
  "demo_store = \<lparr>s3Configured = True, s3Bucket = [98], s3Region = [114], putObject = (\<lambda>_. None), signUrl = (\<lambda>k d. Inr k),
     encodeComponent = Some, urlPathname = (\<lambda>u. Some (47 # u)), decodeComponent = Some\<rparr>"

lemma viewer_signs_any_key_witness: "http_getViewerUrl demo_store (Some [114, 111, 111, 109, 115, 47,
  120, 47, 115, 101, 99, 114, 101, 116]) = Inr [114, 111, 111, 109, 115, 47, 120, 47, 115, 101, 99,
  114, 101, 116]"
  using viewer_signs_any_key [of demo_store "[114, 111, 111, 109, 115, 47, 120, 47, 115, 101, 99, 114,
    101, 116]" "[114, 111, 111, 109, 115, 47, 120, 47, 115, 101, 99, 114, 101, 116]" "[114, 111, 111,
    109, 115, 47, 120, 47, 115, 101, 99, 114, 101, 116]"]
  by (simp add: demo_store_def orServerError_def)

section \<open>Batches\<close>

lemma allOf_Inr_map: "allOf (map Inr xs) = Inr xs"
  by (induction xs) simp_all

lemma allOf_InrD: "allOf rs = Inr xs \<Longrightarrow> rs = map Inr xs"
  by (induction rs arbitrary: xs) (auto split: sum.splits)

lemma allOf_Inr: "allOf rs = Inr xs \<longleftrightarrow> rs = map Inr xs"
  using allOf_Inr_map allOf_InrD by metis

text \<open>
  A batch is translated completely or not at all: the answers are those of the texts one by one, in order.
\<close>

lemma batch_in_order:
  "translateBatch aws texts sourceLang targetLang = Inr rs \<longleftrightarrow> map (\<lambda>t. translate aws t sourceLang targetLang) texts = map Inr rs"
  by (simp add: translateBatch_def allOf_Inr)

end
