(* ===== verification/Speech.thy ===== *)
theory Speech
  imports Utf8 Regex DataChannel
begin

text \<open>
  Speaking: \<open>src/tts/tts.service.ts\<close>, which removes Markdown and pictographs from a text, escapes it and has it synthesised,
  and of \<open>src/livekit/voice-bot.service.ts\<close> \<open>publishAudio\<close>, which cuts the audio into frames and sends one every thirty
  milliseconds until it is interrupted, the greeting, and the header of the debug recordings. The synthesis service is a
  parameter; of a reply the code uses the status, the text and the bytes. Playing is a state with the time its timer is due.
\<close>

section \<open>Patterns with groups\<close>

text \<open>\<open>s.replace(r, '$1')\<close> with the flag \<open>g\<close>; the patterns never match nothing.\<close>

definition group1 :: "rx_state \<Rightarrow> jstr" where
  "group1 y = (case y of (_, _, k) \<Rightarrow> case jget k 1 of None \<Rightarrow> [] | Some g \<Rightarrow> g)"

function keepGroup_from :: "rx \<Rightarrow> jstr \<Rightarrow> jstr \<Rightarrow> jstr" where
  "keepGroup_from r b a = (case ms r (b, a, []) of
      [] \<Rightarrow> (case a of [] \<Rightarrow> [] | c # a' \<Rightarrow> c # keepGroup_from r (c # b) a')
    | y # _ \<Rightarrow>
        if length (ahead y) < length a then group1 y @ keepGroup_from r (behind y) (ahead y)
        else group1 y @ (case a of [] \<Rightarrow> [] | c # a' \<Rightarrow> c # keepGroup_from r (c # b) a'))"
  by pat_completeness auto
termination
  by (relation "measure (\<lambda>(r, b, a). length a)") auto

declare keepGroup_from.simps [simp del]

definition keepGroup :: "rx \<Rightarrow> jstr \<Rightarrow> jstr" where
  "keepGroup r s = keepGroup_from r [] s"

section \<open>Markdown\<close>

definition some :: "rx \<Rightarrow> nat \<Rightarrow> nat option \<Rightarrow> rx" where "some r m n = Rep r m n True"

definition ch :: "int \<Rightarrow> rx" where "ch c = Cls [(c, c)]"

definition inner :: "int \<Rightarrow> rx" where "inner c = Cap 1 (some (NCls [(c, c)]) 1 None)"

text \<open>A pattern with the flag \<open>u\<close> takes a pair of surrogates for one character.\<close>

definition pair :: "int \<Rightarrow> int \<Rightarrow> int \<Rightarrow> rx" where "pair hi a b = seqs [ch hi, Cls [(a, b)]]"

text \<open>The rules in the order of the source; the flag says whether the text of the group stays.\<close>

definition markdownRules :: "(rx \<times> bool) list" where
  "markdownRules =
     [(seqs [some (ch 42) 1 (Some 3), inner 42, some (ch 42) 1 (Some 3)], True),
      (seqs [ch 126, ch 126, inner 126, ch 126, ch 126], True),
      (seqs [ch 96, inner 96, ch 96], True),
      (seqs [LineB, some (ch 35) 1 (Some 6), some space 1 None], False),
      (seqs [LineB, Cls [(45, 45), (42, 42)], some space 1 None], False),
      (seqs [LineB, some digit 1 None, ch 46, some space 1 None], False),
      (seqs [ch 91, inner 93, ch 93, ch 40, some (NCls [(41, 41)]) 1 None, ch 41], True),
      (seqs [ch 33, ch 91, some (NCls [(93, 93)]) 0 None, ch 93, ch 40, some (NCls [(41, 41)]) 1 None, ch 41], False),
      (seqs [LineB, ch 62, some space 1 None], False),
      (seqs [LineB, some (Cls [(45, 45), (42, 42)]) 3 None, LineE], False),
      (alts [pair 55356 57088 57343, pair 55357 56320 57343, pair 55358 56320 56831], False),
      (Cls [(9728, 9983)], False),
      (Cls [(9984, 10175)], False),
      (Cls [(65024, 65039)], False),
      (pair 55356 56320 56367, False),
      (pair 55356 56480 56575, False),
      (Cls [(10060, 10060), (9989, 9989), (10003, 10003), (10007, 10007), (11093, 11093), (65039, 65039), (9888, 9888),
            (65039, 65039), (10071, 10071), (65039, 65039), (10067, 10067)], False)]"

definition stripRule :: "rx \<times> bool \<Rightarrow> jstr \<Rightarrow> jstr" where
  "stripRule r s = (case r of (p, keep) \<Rightarrow> if keep then keepGroup p s else replaceAll p [] s)"

definition stripMarkdown :: "jstr \<Rightarrow> jstr" where
  "stripMarkdown t = trim (replaceAll (some space 2 None) [32] (fold stripRule markdownRules t))"

section \<open>Synthesis\<close>

definition escapeSsml :: "jstr \<Rightarrow> jstr" where
  "escapeSsml t = replaceAll (ch 62) [38, 103, 116, 59] (replaceAll (ch 60) [38, 108, 116,
    59] (replaceAll (ch 38) [38, 97, 109, 112, 59] t))"

definition voiceName :: jstr where "voiceName = [107, 111, 45, 75, 82, 45, 83, 117, 110, 72, 105, 78,
  101, 117, 114, 97, 108]"

definition ssmlHead :: jstr where
  "ssmlHead = [60, 115, 112, 101, 97, 107, 32, 118, 101, 114, 115, 105, 111, 110, 61, 34, 49, 46, 48,
    34, 32, 120, 109, 108, 58, 108, 97, 110, 103, 61, 34, 107, 111, 45, 75, 82, 34, 62, 60, 118, 111,
    105, 99, 101, 32, 110, 97, 109, 101, 61, 34] @ voiceName @ [34, 62]"

definition ssmlTail :: jstr where "ssmlTail = [60, 47, 118, 111, 105, 99, 101, 62, 60, 47, 115, 112,
  101, 97, 107, 62]"

definition buildSsml :: "jstr \<Rightarrow> jstr" where
  "buildSsml t = ssmlHead @ escapeSsml (stripMarkdown t) @ ssmlTail"

record tts_request =
  tq_url :: jstr
  tq_key :: jstr
  tq_format :: jstr
  tq_body :: jstr

record tts_reply =
  tp_status :: int
  tp_text :: jstr
  tp_bytes :: "int list"

record tts_env =
  azureKey :: jstr
  azureRegion :: jstr
  azureFetch :: "tts_request \<Rightarrow> jstr + tts_reply"

definition ttsRequest :: "tts_env \<Rightarrow> jstr \<Rightarrow> jstr \<Rightarrow> tts_request" where
  "ttsRequest env t fmt =
     \<lparr>tq_url = [104, 116, 116, 112, 115, 58, 47, 47] @ azureRegion env @ [46, 116, 116, 115, 46,
       115, 112, 101, 101, 99, 104, 46, 109, 105, 99, 114, 111, 115, 111, 102, 116, 46, 99, 111, 109,
       47, 99, 111, 103, 110, 105, 116, 105, 118, 101, 115, 101, 114, 118, 105, 99, 101, 115, 47, 118,
       49], tq_key = azureKey env,
      tq_format = fmt, tq_body = buildSsml t\<rparr>"

definition synthesizeWithAzure :: "tts_env \<Rightarrow> jstr \<Rightarrow> jstr \<Rightarrow> jstr + int list" where
  "synthesizeWithAzure env t fmt =
     (if azureKey env = [] then Inl [65, 90, 85, 82, 69, 95, 83, 80, 69, 69, 67, 72, 95, 75, 69, 89,
       32, 105, 115, 32, 110, 111, 116, 32, 115, 101, 116]
      else case azureFetch env (ttsRequest env t fmt) of
          Inl e \<Rightarrow> Inl e
        | Inr rp \<Rightarrow>
            if 200 \<le> tp_status rp \<and> tp_status rp \<le> 299 then Inr (tp_bytes rp)
            else Inl ([65, 122, 117, 114, 101, 32, 84, 84, 83, 32, 102, 97, 105, 108, 101, 100, 58,
              32] @ jint (tp_status rp) @ [32] @ tp_text rp))"

definition synthesizePcm :: "tts_env \<Rightarrow> jstr \<Rightarrow> jstr + int list" where
  "synthesizePcm env t = synthesizeWithAzure env t [114, 97, 119, 45, 49, 54, 107, 104, 122, 45, 49,
    54, 98, 105, 116, 45, 109, 111, 110, 111, 45, 112, 99, 109]"

definition synthesize :: "tts_env \<Rightarrow> jstr \<Rightarrow> jstr + int list" where
  "synthesize env t = synthesizeWithAzure env t [97, 117, 100, 105, 111, 45, 50, 52, 107, 104, 122, 45,
    52, 56, 107, 98, 105, 116, 114, 97, 116, 101, 45, 109, 111, 110, 111, 45, 109, 112, 51]"

text \<open>The endpoint that tries the synthesis.\<close>

definition http_testTts :: "tts_env \<Rightarrow> jstr option \<Rightarrow> (int \<times> jstr) + int list" where
  "http_testTts env t = (case synthesize env (str_or t [50504, 45397, 54616, 49464, 50836, 44, 32, 84,
    84, 83, 32, 53580, 49828, 53944, 51077, 45768, 45796, 46]) of
      Inl e \<Rightarrow> Inl (500, [84, 84, 83, 32, 49892, 54056, 58, 32] @ e)
    | Inr audio \<Rightarrow> Inr audio)"

section \<open>Frames\<close>

definition FRAME_SIZE :: nat where "FRAME_SIZE = 480"

definition FRAME_BYTES :: nat where "FRAME_BYTES = FRAME_SIZE * 2"

definition FRAME_DURATION_MS :: int where "FRAME_DURATION_MS = 30"

definition readInt16LE :: "int list \<Rightarrow> nat \<Rightarrow> int" where
  "readInt16LE pcm i = (let v = pcm ! i + 256 * pcm ! (i + 1) in if v \<ge> 32768 then v - 65536 else v)"

definition frameSamples :: "int list \<Rightarrow> nat \<Rightarrow> int list" where
  "frameSamples pcm offset =
     (let chunkEnd = min (offset + FRAME_BYTES) (length pcm); numSamples = (chunkEnd - offset) div 2
      in map (\<lambda>j. if j < numSamples then readInt16LE pcm (offset + j * 2) else 0) [0..<FRAME_SIZE])"

function framesFrom :: "int list \<Rightarrow> nat \<Rightarrow> int list list" where
  "framesFrom pcm offset =
     (if offset < length pcm then frameSamples pcm offset # framesFrom pcm (offset + FRAME_BYTES) else [])"
  by pat_completeness auto
termination
  by (relation "measure (\<lambda>(pcm, offset). length pcm - offset)") (auto simp: FRAME_BYTES_def FRAME_SIZE_def)

declare framesFrom.simps [simp del]

section \<open>Playing\<close>

record play =
  pl_frames :: "int list list"
  pl_index :: nat
  pl_start :: int
  pl_sent :: "(int \<times> int list) list"
  pl_due :: "int option"
  pl_done :: bool

definition nextDelay :: "int \<Rightarrow> play \<Rightarrow> int" where
  "nextDelay now p =
     (let expectedTime = int (pl_index p) * FRAME_DURATION_MS; actualTime = now - pl_start p
      in max 1 (FRAME_DURATION_MS - (actualTime - expectedTime + FRAME_DURATION_MS)))"

definition resolvePlay :: "play \<Rightarrow> play" where
  "resolvePlay p = p\<lparr>pl_due := None, pl_done := True\<rparr>"

definition interrupted :: "jstr \<Rightarrow> rooms \<Rightarrow> bool" where
  "interrupted r rs = (case jget rs r of None \<Rightarrow> False | Some c \<Rightarrow> shouldInterrupt c)"

definition clearInterrupt :: "jstr \<Rightarrow> rooms \<Rightarrow> rooms" where
  "clearInterrupt r rs = (case jget rs r of None \<Rightarrow> rs | Some c \<Rightarrow> jset r (c\<lparr>shouldInterrupt := False\<rparr>) rs)"

definition sendFrame :: "int \<Rightarrow> jstr \<Rightarrow> play \<Rightarrow> rooms \<Rightarrow> play \<times> rooms" where
  "sendFrame now r p rs =
     (if interrupted r rs then (resolvePlay p, clearInterrupt r rs)
      else if pl_index p \<ge> length (pl_frames p) then (resolvePlay p, rs)
      else let p1 = p\<lparr>pl_sent := pl_sent p @ [(now, pl_frames p ! pl_index p)], pl_index := pl_index p + 1\<rparr>
           in (if pl_index p1 < length (pl_frames p1) then p1\<lparr>pl_due := Some (now + nextDelay now p1)\<rparr> else resolvePlay p1, rs))"

definition publishAudio :: "int \<Rightarrow> jstr \<Rightarrow> int list \<Rightarrow> rooms \<Rightarrow> play \<times> rooms" where
  "publishAudio now r pcm rs =
     sendFrame now r \<lparr>pl_frames = framesFrom pcm 0, pl_index = 0, pl_start = now, pl_sent = [], pl_due = None, pl_done = False\<rparr> rs"

section \<open>Greeting\<close>

text \<open>Up to the synthesis, which gives nothing when there is nothing to say; the playing; the end.\<close>

definition greetingText :: "RoomContext \<Rightarrow> jstr" where
  "greetingText c = (if isContinuedMeeting c then [50504, 45397, 54616, 49464, 50836, 33, 32, 50500,
    50864, 46972, 50696, 50836, 46, 32, 51060, 51204, 32, 54924, 51032, 32, 50529, 49496, 32, 50500,
    51060, 53596, 51012, 32, 54869, 51064, 54644, 51452, 49464, 50836, 46]
     else [50504, 45397, 54616, 49464, 50836, 46, 32, 50500, 50864, 46972, 50640, 50836, 46, 32, 54924,
       51032, 32, 49884, 51089, 54624, 44172, 50836, 46])"

definition greetOnJoin :: "jstr \<Rightarrow> rooms \<Rightarrow> jstr option \<times> rooms" where
  "greetOnJoin r rs = (case jget rs r of
      None \<Rightarrow> (None, rs)
    | Some c \<Rightarrow> if aiMuted c then (None, rs) else (Some (greetingText c), jset r (c\<lparr>botState := SPEAKING\<rparr>) rs))"

definition greetPlay :: "int \<Rightarrow> jstr \<Rightarrow> int list \<Rightarrow> rooms \<Rightarrow> play option \<times> rooms" where
  "greetPlay now r pcm rs = (if pcm = [] then (None, rs) else case publishAudio now r pcm rs of (p, rs1) \<Rightarrow> (Some p, rs1))"

definition greetEnd :: "int option \<Rightarrow> jstr \<Rightarrow> rooms \<Rightarrow> rooms" where
  "greetEnd ended r rs = (case jget rs r of
      None \<Rightarrow> rs
    | Some c \<Rightarrow> jset r (case ended of Some now \<Rightarrow> c\<lparr>botState := SLEEP, lastResponseTime := now\<rparr> | None \<Rightarrow> c\<lparr>botState := SLEEP\<rparr>) rs)"

section \<open>Debug recordings\<close>

definition le16 :: "int \<Rightarrow> int list" where "le16 v = [v mod 256, v div 256 mod 256]"

definition le32 :: "int \<Rightarrow> int list" where
  "le32 v = [v mod 256, v div 256 mod 256, v div 65536 mod 256, v div 16777216 mod 256]"

text \<open>Writing a number out of its range throws; a division that leaves a fraction does not happen with the 16 bits in use.\<close>

definition createWavHeader :: "int \<Rightarrow> int \<Rightarrow> int \<Rightarrow> int \<Rightarrow> int list option" where
  "createWavHeader dataLength sampleRate channels bitsPerSample =
     (let byteRate = sampleRate * channels * (bitsPerSample div 8); blockAlign = channels * (bitsPerSample div 8)
      in if {36 + dataLength, sampleRate, byteRate, dataLength} \<subseteq> {0..4294967295} \<and> {channels, blockAlign, bitsPerSample} \<subseteq> {0..65535}
         then Some ([82, 73, 70, 70] @ le32 (36 + dataLength) @ [87, 65, 86, 69] @ [102, 109, 116,
           32] @ le32 16 @ le16 1 @ le16 channels @ le32 sampleRate @
           le32 byteRate @ le16 blockAlign @ le16 bitsPerSample @ [100, 97, 116, 97] @ le32 dataLength)
         else None)"

section \<open>What is synthesised\<close>

lemma ms_ch: "ms (ch c) (b, a, k) = (case a of [] \<Rightarrow> [] | x # a' \<Rightarrow> if x = c then [(x # b, a', k)] else [])"
  by (auto simp: ch_def split: list.split)

lemma replace_ch: "replaceAll (ch c) w s = concat (map (\<lambda>x. if x = c then w else [x]) s)"
proof -
  have "replace_from (ch c) w b s = concat (map (\<lambda>x. if x = c then w else [x]) s)" for b
    by (induction s arbitrary: b) (subst replace_from.simps; simp add: ms_ch)+
  then show ?thesis by (simp add: replaceAll_def)
qed

text \<open>The escape of one character, and what an XML reader makes of the three entities.\<close>

definition escapeChar :: "int \<Rightarrow> jstr" where
  "escapeChar c = (if c = 38 then [38, 97, 109, 112, 59] else if c = 60 then [38, 108, 116,
    59] else if c = 62 then [38, 103, 116, 59] else [c])"

function xmlText :: "jstr \<Rightarrow> jstr" where
  "xmlText s = (case s of [] \<Rightarrow> [] | c # s' \<Rightarrow>
     if starts_with [38, 97, 109, 112, 59] s then 38 # xmlText (drop 5 s)
     else if starts_with [38, 108, 116, 59] s then 60 # xmlText (drop 4 s)
     else if starts_with [38, 103, 116, 59] s then 62 # xmlText (drop 4 s)
     else c # xmlText s')"
  by pat_completeness auto
termination
  by (relation "measure length") auto

declare xmlText.simps [simp del]

lemma escapeSsml_chars: "escapeSsml t = concat (map escapeChar t)"
  by (induction t) (simp_all add: escapeSsml_def replace_ch escapeChar_def)

lemma xmlText_escape: "xmlText (escapeChar c @ s) = c # xmlText s"
  by (subst xmlText.simps) (simp add: escapeChar_def)

lemma xmlText_escapes: "xmlText (concat (map escapeChar t)) = t"
  by (induction t) (simp_all add: xmlText_escape, simp add: xmlText.simps)

lemma escape_no_markup: "x \<in> set (concat (map escapeChar t)) \<Longrightarrow> x \<noteq> 60 \<and> x \<noteq> 62"
  by (auto simp: escapeChar_def split: if_splits)

text \<open>
  C32. Whatever is to be said is data in the request: between the fixed head and tail there is no markup, and an XML reader
  gets back exactly the text without Markdown.
\<close>

theorem ssml_cannot_be_injected:
  "\<exists>body. tq_body (ttsRequest env t fmt) = ssmlHead @ body @ ssmlTail \<and> 60 \<notin> set body \<and> 62 \<notin> set body \<and>
     xmlText body = stripMarkdown t"
  using escape_no_markup [of _ "stripMarkdown t"] xmlText_escapes [of "stripMarkdown t"]
  by (intro exI [of _ "escapeSsml (stripMarkdown t)"]) (auto simp: ttsRequest_def buildSsml_def escapeSsml_chars)

text \<open>The rule for links comes first, so of an image the mark and the alternative text are read.\<close>

lemma image_is_read: "stripMarkdown [33, 91, 108, 111, 103, 111, 93, 40, 97, 46, 112, 110, 103,
  41] = [33, 108, 111, 103, 111]"
  by code_simp

text \<open>The signs of a product are taken for emphasis.\<close>

lemma product_is_emphasis: "stripMarkdown [51, 42, 52, 42, 53] = [51, 52, 53]"
  by code_simp

section \<open>The frames are the audio\<close>

text \<open>The samples of the audio, followed by silence.\<close>

definition sampleAt :: "int list \<Rightarrow> nat \<Rightarrow> int" where
  "sampleAt pcm j = (if 2 * j + 1 < length pcm then readInt16LE pcm (2 * j) else 0)"

lemma frame_at: "even offset \<Longrightarrow> offset < length pcm \<Longrightarrow>
  frameSamples pcm offset = map (\<lambda>j. sampleAt pcm (offset div 2 + j)) [0..<FRAME_SIZE]"
  by (auto simp: frameSamples_def sampleAt_def Let_def FRAME_BYTES_def FRAME_SIZE_def ac_simps)

lemma map_shift: "map f [a..<a + n] = map (\<lambda>j. f (a + j)) [0..<n]"
  by (rule nth_equalityI) simp_all

lemma frames_samples:
  "even offset \<Longrightarrow> concat (framesFrom pcm offset) =
     map (sampleAt pcm) [offset div 2..<offset div 2 + FRAME_SIZE * length (framesFrom pcm offset)]"
proof (induction pcm offset rule: framesFrom.induct)
  case (1 pcm offset)
  show ?case
  proof (cases "offset < length pcm")
    case True
    let ?o = "offset div 2" and ?n = "length (framesFrom pcm (offset + FRAME_BYTES))"
    have half: "(offset + FRAME_BYTES) div 2 = ?o + FRAME_SIZE" by (simp add: FRAME_BYTES_def)
    have "concat (framesFrom pcm offset) = map (sampleAt pcm) ([?o..<?o + FRAME_SIZE] @ [?o + FRAME_SIZE..<?o + FRAME_SIZE + FRAME_SIZE * ?n])"
      using 1 True by (simp add: framesFrom.simps [of pcm offset] frame_at map_shift [symmetric] half) (simp add: FRAME_BYTES_def half)
    also have "[?o..<?o + FRAME_SIZE] @ [?o + FRAME_SIZE..<?o + FRAME_SIZE + FRAME_SIZE * ?n] = [?o..<?o + FRAME_SIZE * Suc ?n]"
      using upt_add_eq_append [of ?o "?o + FRAME_SIZE" "FRAME_SIZE * ?n"] by (simp add: add.assoc)
    finally show ?thesis using True by (simp add: framesFrom.simps [of pcm offset])
  qed (simp add: framesFrom.simps [of pcm offset])
qed

lemma frames_enough: "length pcm \<le> offset + FRAME_BYTES * length (framesFrom pcm offset)"
proof (induction pcm offset rule: framesFrom.induct)
  case (1 pcm offset)
  then show ?case by (cases "offset < length pcm") (simp_all add: framesFrom.simps [of pcm offset])
qed

section \<open>Pacing\<close>

text \<open>
  Playing with timers that fire up to \<open>late\<close> milliseconds late; whatever else happens may change the rooms in between.
\<close>

inductive playing :: "int \<Rightarrow> jstr \<Rightarrow> int \<Rightarrow> int list \<Rightarrow> play \<times> rooms \<Rightarrow> bool" for late r t0 pcm where
  begins: "playing late r t0 pcm (publishAudio t0 r pcm rs)"
| wakes: "playing late r t0 pcm (p, rs) \<Longrightarrow> pl_due p = Some d \<Longrightarrow> d \<le> t \<Longrightarrow> t \<le> d + late \<Longrightarrow> playing late r t0 pcm (sendFrame t r p rs)"
| elsewhere: "playing late r t0 pcm (p, rs) \<Longrightarrow> playing late r t0 pcm (p, rs')"

definition on_time :: "int \<Rightarrow> int \<Rightarrow> (int \<times> int list) list \<Rightarrow> bool" where
  "on_time late t0 sent = list_all (\<lambda>(i, t, _). t0 + 30 * int i \<le> t \<and> t \<le> t0 + 30 * int i + late) (List.enumerate 0 sent)"

definition play_ok :: "int \<Rightarrow> int \<Rightarrow> int list \<Rightarrow> play \<Rightarrow> bool" where
  "play_ok late t0 pcm p \<longleftrightarrow> pl_frames p = framesFrom pcm 0 \<and> pl_start p = t0 \<and> pl_index p = length (pl_sent p) \<and>
     map snd (pl_sent p) = take (pl_index p) (pl_frames p) \<and> on_time late t0 (pl_sent p) \<and>
     (case pl_due p of None \<Rightarrow> pl_done p | Some d \<Rightarrow> d = t0 + 30 * int (pl_index p) \<and> pl_index p < length (pl_frames p) \<and> \<not> pl_done p)"

lemma on_time_snoc:
  "on_time late t0 (sent @ [(t, f)]) \<longleftrightarrow> on_time late t0 sent \<and> t0 + 30 * int (length sent) \<le> t \<and> t \<le> t0 + 30 * int (length sent) + late"
  by (simp add: on_time_def enumerate_append_eq)

lemma sendFrame_ok:
  assumes "pl_frames p = framesFrom pcm 0" "pl_start p = t0" "pl_index p = length (pl_sent p)"
    "map snd (pl_sent p) = take (pl_index p) (pl_frames p)" "on_time late t0 (pl_sent p)" "\<not> pl_done p"
    and t: "t0 + 30 * int (pl_index p) \<le> t" "t \<le> t0 + 30 * int (pl_index p) + late" "late \<le> 29"
  shows "play_ok late t0 pcm (fst (sendFrame t r p rs))"
proof -
  have "take (Suc (pl_index p)) (pl_frames p) = map snd (pl_sent p) @ [pl_frames p ! pl_index p]" if "pl_index p < length (pl_frames p)"
    using assms(4) that by (simp add: take_Suc_conv_app_nth)
  moreover have "t + max 1 (30 - (t - t0 - (1 + int (pl_index p)) * 30 + 30)) = t0 + 30 * (1 + int (pl_index p))"
    using t by simp
  ultimately show ?thesis
    using assms by (auto simp: play_ok_def sendFrame_def resolvePlay_def nextDelay_def FRAME_DURATION_MS_def Let_def on_time_snoc algebra_simps)
qed

lemma playing_ok:
  assumes "0 \<le> late" "late \<le> 29"
  shows "playing late r t0 pcm s \<Longrightarrow> play_ok late t0 pcm (fst s)"
proof (induction rule: playing.induct)
  case (begins rs)
  then show ?case unfolding publishAudio_def by (rule sendFrame_ok) (use assms in \<open>simp_all add: on_time_def\<close>)
next
  case (wakes p rs d t)
  then show ?case by (intro sendFrame_ok) (use assms in \<open>auto simp: play_ok_def\<close>)
qed simp

text \<open>
  C30. The audio does not drift: if timers fire less than thirty milliseconds late, the frames are sent in order, each not
  before its time and not later than one such delay after it, however many were sent before.
\<close>

theorem audio_does_not_drift:
  assumes "playing late r t0 pcm (p, rs)" "0 \<le> late" "late \<le> 29"
  shows "map snd (pl_sent p) = take (length (pl_sent p)) (framesFrom pcm 0) \<and>
    on_time late t0 (pl_sent p)"
  using playing_ok [OF assms(2,3,1)] by (simp add: play_ok_def)

theorem audio_does_not_drift_witness:
  "on_time 5 1000 (pl_sent (fst (sendFrame 1034 [] (fst (publishAudio 1000 [] (replicate 1000 1) [])) [])))"
proof -
  let ?s = "publishAudio 1000 [] (replicate 1000 1) []"
  have s: "?s = (fst ?s, [])" by (simp add: publishAudio_def sendFrame_def interrupted_def Let_def)
  have "1 < length (framesFrom (replicate 1000 1) 0)"
    by (simp add: framesFrom.simps [of _ 0] framesFrom.simps [of _ FRAME_BYTES]) (simp add: FRAME_BYTES_def FRAME_SIZE_def)
  then have d: "pl_due (fst ?s) = Some 1030"
    by (auto simp add: publishAudio_def sendFrame_def interrupted_def nextDelay_def FRAME_DURATION_MS_def Let_def)
  have "playing 5 [] 1000 (replicate 1000 1) (fst ?s, [])" using begins [of 5 "[]" 1000 "replicate 1000 1" "[]"] s by simp
  then have "playing 5 [] 1000 (replicate 1000 1) (sendFrame 1034 [] (fst ?s) [])" by (rule wakes [OF _ d]) simp_all
  from audio_does_not_drift [of 5 "[]" 1000 "replicate 1000 1" "fst (sendFrame 1034 [] (fst ?s) [])" "snd (sendFrame 1034 [] (fst ?s) [])"]
  show ?thesis using \<open>playing 5 [] 1000 (replicate 1000 1) (sendFrame 1034 [] (fst ?s) [])\<close> by simp
qed

section \<open>The end of playing\<close>

text \<open>The wake-ups of a playing, each with its time and the rooms it finds.\<close>

definition wakeUp :: "jstr \<Rightarrow> int \<times> rooms \<Rightarrow> play \<Rightarrow> play" where
  "wakeUp r x p = (case pl_due p of None \<Rightarrow> p | Some _ \<Rightarrow> (case x of (t, rs) \<Rightarrow> fst (sendFrame t r p rs)))"

definition framesLeft :: "play \<Rightarrow> nat" where
  "framesLeft p = (if pl_done p then 0 else length (pl_frames p) - pl_index p)"

definition play_run :: "play \<Rightarrow> bool" where
  "play_run p \<longleftrightarrow> (case pl_due p of None \<Rightarrow> pl_done p | Some _ \<Rightarrow> \<not> pl_done p \<and> pl_index p < length (pl_frames p)) \<and>
     map snd (pl_sent p) = take (pl_index p) (pl_frames p)"

lemma take_snoc: "i < length xs \<Longrightarrow> take i xs @ [xs ! i] = take (Suc i) xs"
  by (simp add: take_Suc_conv_app_nth)

lemma wakeUp_run: "play_run p \<Longrightarrow> play_run (wakeUp r x p)"
  by (auto simp: play_run_def wakeUp_def sendFrame_def resolvePlay_def Let_def take_snoc split: option.splits prod.splits)

lemma wakeUp_less: "play_run p \<Longrightarrow> framesLeft (wakeUp r x p) \<le> framesLeft p - 1"
  by (auto simp: play_run_def framesLeft_def wakeUp_def sendFrame_def resolvePlay_def Let_def split: option.splits prod.splits)

lemma wakeUps_end: "play_run p \<Longrightarrow> framesLeft p \<le> length xs \<Longrightarrow> pl_done (fold (wakeUp r) xs p)"
proof (induction xs arbitrary: p)
  case Nil
  then show ?case by (auto simp: play_run_def framesLeft_def split: option.splits if_splits)
next
  case (Cons x xs)
  have "framesLeft (wakeUp r x p) \<le> length xs" using wakeUp_less [OF Cons.prems(1), of r x] Cons.prems(2) by simp
  then show ?case using Cons.IH [OF wakeUp_run [OF Cons.prems(1)]] by simp
qed

lemma wakeUp_uninterrupted:
  "play_run p \<Longrightarrow> \<not> interrupted r (snd x) \<Longrightarrow> pl_done p \<longrightarrow> pl_index p = length (pl_frames p) \<Longrightarrow>
     pl_frames (wakeUp r x p) = pl_frames p \<and> (pl_done (wakeUp r x p) \<longrightarrow> pl_index (wakeUp r x p) = length (pl_frames p))"
  by (auto simp: play_run_def wakeUp_def sendFrame_def resolvePlay_def Let_def split: option.splits prod.splits)

lemma wakeUps_complete:
  "play_run p \<Longrightarrow> pl_done p \<longrightarrow> pl_index p = length (pl_frames p) \<Longrightarrow> list_all (\<lambda>x. \<not> interrupted r (snd x)) xs \<Longrightarrow>
     framesLeft p \<le> length xs \<Longrightarrow> map snd (pl_sent (fold (wakeUp r) xs p)) = pl_frames p"
proof (induction xs arbitrary: p)
  case Nil
  then show ?case by (auto simp: play_run_def framesLeft_def split: option.splits if_splits)
next
  case (Cons x xs)
  have u: "pl_frames (wakeUp r x p) = pl_frames p" "pl_done (wakeUp r x p) \<longrightarrow> pl_index (wakeUp r x p) = length (pl_frames p)"
    using wakeUp_uninterrupted [OF Cons.prems(1)] Cons.prems by auto
  have "framesLeft (wakeUp r x p) \<le> length xs" using wakeUp_less [OF Cons.prems(1), of r x] Cons.prems(4) by simp
  then show ?case using Cons.IH [OF wakeUp_run [OF Cons.prems(1)]] Cons.prems(3) u by simp
qed

lemma publish_run: "play_run (fst (publishAudio t r pcm rs))"
  by (cases "framesFrom pcm 0") (simp_all add: play_run_def publishAudio_def sendFrame_def resolvePlay_def Let_def)

lemma publish_frames: "pl_frames (fst (publishAudio t r pcm rs)) = framesFrom pcm 0"
  by (simp add: publishAudio_def sendFrame_def resolvePlay_def Let_def)

lemma publish_uninterrupted:
  "\<not> interrupted r rs \<Longrightarrow> pl_done (fst (publishAudio t r pcm rs)) \<longrightarrow> pl_index (fst (publishAudio t r pcm rs)) = length (framesFrom pcm 0)"
  by (cases "framesFrom pcm 0") (simp_all add: publishAudio_def sendFrame_def resolvePlay_def Let_def)

lemma framesLeft_le: "framesLeft p \<le> length (pl_frames p)"
  by (simp add: framesLeft_def)

text \<open>
  C31. Playing ends, after at most one wake-up per frame whatever happens; and if nobody interrupts it, what was sent is the
  audio, sample by sample, with silence after it.
\<close>

theorem audio_played_completely:
  "pl_done (fold (wakeUp r) (map f [0..<length (framesFrom pcm 0)]) (fst (publishAudio t r pcm rs))) \<and>
   (if interrupted r rs \<or> list_ex (\<lambda>i. interrupted r (snd (f i))) [0..<length (framesFrom pcm 0)] then True
    else concat (map snd (pl_sent (fold (wakeUp r) (map f [0..<length (framesFrom pcm 0)]) (fst (publishAudio t r pcm rs))))) =
      map (sampleAt pcm) [0..<FRAME_SIZE * length (framesFrom pcm 0)])"
proof -
  let ?p = "fst (publishAudio t r pcm rs)" and ?xs = "map f [0..<length (framesFrom pcm 0)]"
  have left: "framesLeft ?p \<le> length ?xs" using framesLeft_le [of ?p] by (simp add: publish_frames)
  have "map snd (pl_sent (fold (wakeUp r) ?xs ?p)) = framesFrom pcm 0"
    if "\<not> interrupted r rs" "\<not> list_ex (\<lambda>i. interrupted r (snd (f i))) [0..<length (framesFrom pcm 0)]"
    using wakeUps_complete [OF publish_run _ _ left] publish_uninterrupted [OF that(1)] that(2)
    by (auto simp: publish_frames list_all_iff list_ex_iff)
  then show ?thesis using wakeUps_end [OF publish_run left] frames_samples [of 0 pcm] by simp
qed

text \<open>The frames hold every sample of the audio.\<close>

lemma no_sample_lost: "2 * j + 1 < length pcm \<Longrightarrow> j < FRAME_SIZE * length (framesFrom pcm 0)"
  using frames_enough [of pcm 0] by (simp add: FRAME_BYTES_def)

text \<open>
  Muting raises the flag that stops playing even when nothing is played. A greeting after muting and unmuting stops before
  its first frame.
\<close>

lemma greeting_lost_after_mute:
  assumes "jget rs r = Some c"
    and "c1 = fst (handleData t ps who (AI_MUTE True) c)" and "c2 = fst (handleData t ps who (AI_MUTE False) c1)"
    and "greetOnJoin r (jset r c2 rs) = (Some m, rs2)" and "greetPlay now r pcm rs2 = (Some p, rs3)"
  shows "pl_sent p = [] \<and> pl_done p"
  using assms by (auto simp: greetOnJoin_def greetPlay_def publishAudio_def sendFrame_def interrupted_def resolvePlay_def split: if_splits)

section \<open>Headers\<close>

definition from_le :: "int list \<Rightarrow> int" where "from_le bs = foldr (\<lambda>b v. b + 256 * v) bs 0"

lemma from_le16: "0 \<le> v \<Longrightarrow> v \<le> 65535 \<Longrightarrow> from_le (le16 v) = v"
  by (simp add: from_le_def le16_def)

lemma from_le32:
  assumes "0 \<le> v" "v \<le> 4294967295"
  shows "from_le (le32 v) = v"
proof -
  have "v div 65536 = v div 256 div 256" "v div 16777216 = v div 256 div 256 div 256" by (simp_all add: zdiv_zmult2_eq [symmetric])
  moreover have "w = 256 * (w div 256) + w mod 256" for w :: int by simp
  moreover have "v div 16777216 mod 256 = v div 16777216" using assms by (simp add: mod_pos_pos_trivial div_less_iff_less_mult)
  ultimately show ?thesis unfolding from_le_def le32_def by simp
qed

lemma length_le [simp]: "length (le16 v) = 2" "length (le32 v) = 4"
  by (simp_all add: le16_def le32_def)

text \<open>The header of a recording: 44 bytes from which a reader gets the length, the rate, the channels and the width back.\<close>

lemma wav_header_roundtrip:
  assumes "createWavHeader n sr chs bits = Some h"
  shows "length h = 44 \<and> from_le (take 4 (drop 40 h)) = n \<and> from_le (take 4 (drop 24 h)) = sr \<and>
    from_le (take 2 (drop 22 h)) = chs \<and> from_le (take 2 (drop 34 h)) = bits \<and> from_le (take 4 (drop 4 h)) = 36 + n"
proof -
  have h: "h = [82, 73, 70, 70] @ le32 (36 + n) @ [87, 65, 86, 69] @ [102, 109, 116,
    32] @ le32 16 @ le16 1 @ le16 chs @ le32 sr @
      le32 (sr * chs * (bits div 8)) @ le16 (chs * (bits div 8)) @ le16 bits @ [100, 97, 116, 97] @ le32 n"
    and "from_le (le32 n) = n" "from_le (le32 sr) = sr" "from_le (le16 chs) = chs" "from_le (le16 bits) = bits"
      "from_le (le32 (36 + n)) = 36 + n"
    using assms by (simp_all add: createWavHeader_def Let_def from_le16 from_le32 split: if_splits)
  then show ?thesis by (simp only: h) simp
qed

end
