(* ===== verification/Utterance.thy ===== *)
theory Utterance
  imports VoiceTurn Perplexity Timeline RagClient Speech
begin

text \<open>
  What an utterance does before the bot decides whether to answer: the beginning of \<open>processAndRespond\<close> in
  \<open>src/livekit/voice-bot.service.ts\<close>, \<open>sendToRagForEmbedding\<close> and \<open>handlePerplexityMessage\<close>. It joins the record of the
  meeting, the timeline, the statistics, the diagram contexts and the Perplexity session with the turn of the voice bot. A
  handler is cut at its awaits; the context of a room is found by the name of the room. Buffers hold whole frames, so
  lengths in milliseconds are whole.
\<close>

section \<open>The record of the meeting\<close>

definition fillerWords :: "jstr list" where
  "fillerWords = [[51020], [50612], [50500], [45348], [51025], [50696], [50724, 52992, 51060], [44536,
    47000], [54616, 54616], [47952], [50640], [51004], [50500, 50500], [50612, 50612], [51020, 51020],
     [51004, 51004], [50640, 50640], [45348, 45348], [51025, 51025], [50696, 50696], [12619, 12619],
       [12619, 12619, 12619], [55136], [54728], [54736]]"

definition isBreak :: "int \<Rightarrow> bool" where
  "isBreak c \<longleftrightarrow> is_space c \<or> c \<in> set [44, 46, 63, 33, 8230]"

fun fieldsOf :: "jstr \<Rightarrow> jstr \<Rightarrow> jstr list" where
  "fieldsOf cur [] = [rev cur]"
| "fieldsOf cur (c # s) = (if isBreak c then rev cur # fieldsOf [] s else fieldsOf (c # cur) s)"

text \<open>Runs of breaks only add empty fields, which are dropped.\<close>

definition wordsOf :: "jstr \<Rightarrow> jstr list" where
  "wordsOf t = filter (\<lambda>w. length w > 0) (fieldsOf [] (trim t))"

definition meaningfulWords :: "jstr \<Rightarrow> jstr list" where
  "meaningfulWords t = filter (\<lambda>w. to_lower w \<notin> set fillerWords) (wordsOf t)"

definition worthRecording :: "jstr \<Rightarrow> bool" where
  "worthRecording t \<longleftrightarrow> length (trim t) > 3 \<and> meaningfulWords t \<noteq> [] \<and> length (concat (meaningfulWords t)) > 2"

definition sendToRagForEmbedding :: "jstr option \<Rightarrow> int \<Rightarrow> jstr \<Rightarrow> jstr \<Rightarrow> jstr \<Rightarrow> int option \<Rightarrow> int option \<Rightarrow> rag_st \<times> rooms \<Rightarrow> rag_st \<times> rooms" where
  "sendToRagForEmbedding throws now r t speaker st en s = (case s of (rag, rs) \<Rightarrow>
     if worthRecording t then (sendStatement throws now r t speaker st en 0 rag, updateDiagramContexts now r t speaker rs)
     else (rag, rs))"

section \<open>The timeline\<close>

definition wakeNoise :: "rx list" where
  "wakeNoise = [seqs [lit [50500, 50864, 46972], opt (lits [[50556], [45208], [50836]])],
    seqs [lit [50724, 50864, 46972], opt (lit [50556])],
     seqs [lit [50612, 50864, 46972], opt (lit [50556])], seqs [lit [54756, 51060], star space,
       lit [50500, 50864, 46972]]]"

definition timelineTranscript :: "jstr \<Rightarrow> jstr" where
  "timelineTranscript raw = trim (replaceAll (plus space) [32] (fold (\<lambda>p t. replaceAll p [] t) wakeNoise raw))"

section \<open>An utterance\<close>

record bot_sys =
  bs_rooms :: rooms
  bs_rag :: rag_st
  bs_timeline :: timeline_st
  bs_perplexity :: perplexity_st

record utterance =
  ut_user :: jstr
  ut_name :: "jstr option"
  ut_bytes :: nat
  ut_start :: "int option"
  ut_raw :: jstr
  ut_corrected :: jstr

definition isHeard :: "jstr \<Rightarrow> rooms \<Rightarrow> bool" where
  "isHeard r rs = (case jget rs r of None \<Rightarrow> False | Some c \<Rightarrow> \<not> standbyMode c)"

definition audioDurationMs :: "utterance \<Rightarrow> int" where
  "audioDurationMs u = int (ut_bytes u) div 32"

definition endTime :: "utterance \<Rightarrow> int option" where
  "endTime u = (if truthy_num (ut_start u) then Some (the (ut_start u) + audioDurationMs u) else None)"

definition changeRoom :: "jstr \<Rightarrow> (RoomContext \<Rightarrow> RoomContext) \<Rightarrow> rooms \<Rightarrow> rooms" where
  "changeRoom r f rs = (case jget rs r of None \<Rightarrow> rs | Some c \<Rightarrow> jset r (f c) rs)"

definition perplexityOn :: "jstr \<Rightarrow> rooms \<Rightarrow> bool" where
  "perplexityOn r rs = (case jget rs r of None \<Rightarrow> False | Some c \<Rightarrow> perplexityModeActive c)"

text \<open>
  From the recognised text to the answer of the Perplexity session: the answer, if any, and whether the turn goes on.
\<close>

type_synonym px_reply = "(PerplexityAction \<times> jstr option) option"

definition hearUtterance :: "jstr option \<Rightarrow> (jstr \<Rightarrow> jstr option) \<Rightarrow> int \<Rightarrow> jstr \<Rightarrow> utterance \<Rightarrow> bot_sys \<Rightarrow> (bool \<times> px_reply) \<times> bot_sys" where
  "hearUtterance throws llm now r u s =
     (if trim (ut_corrected u) = [] then ((False, None), s)
      else
        let (rag, rs) = sendToRagForEmbedding throws now r (ut_corrected u) (ut_user u) (ut_start u) (endTime u) (bs_rag s, bs_rooms s);
            tl = timelineTranscript (ut_raw u);
            time = (if length tl > 0 then snd (Timeline.sendRequest now r tl (bs_timeline s)) else bs_timeline s);
            rs1 = changeRoom r (updateParticipantSpeakingStats now (ut_user u) (str_or (ut_name u) (ut_user u)) (audioDurationMs u)) rs;
            s1 = s\<lparr>bs_rag := rag, bs_rooms := rs1, bs_timeline := time\<rparr>
        in if \<not> perplexityOn r rs1 then ((True, None), s1)
           else let (res, px) = Perplexity.handleMessage llm now r (TRANSCRIPT (ut_user u) (trim (ut_corrected u))) (bs_perplexity s1)
                in ((True, res), s1\<lparr>bs_perplexity := px\<rparr>))"

definition busy :: "RoomContext \<Rightarrow> bool" where
  "busy c \<longleftrightarrow> botState c = SPEAKING \<or> isPublishing c"

definition responseOf :: "px_reply \<Rightarrow> jstr option" where
  "responseOf res = (case res of None \<Rightarrow> None | Some (a, m) \<Rightarrow> if truthy_str m then m else None)"

text \<open>The answer is spoken in place of the turn if the bot is free after the wait.\<close>

definition intervene :: "int \<Rightarrow> px_reply \<Rightarrow> RoomContext \<Rightarrow> (jstr \<times> RoomContext) option" where
  "intervene now res c = (case responseOf res of
      None \<Rightarrow> None
    | Some m \<Rightarrow>
        if busy c then None
        else Some (m, c\<lparr>currentRequestId := now, isPublishing := True, publishingStartTime := now, botState := SPEAKING\<rparr>))"

definition interveneEnd :: "int \<Rightarrow> RoomContext \<Rightarrow> RoomContext" where
  "interveneEnd now c = c\<lparr>botState := ARMED, isPublishing := False, publishingStartTime := 0, lastResponseTime := now\<rparr>"

section \<open>Messages of the Perplexity mode\<close>

definition isTranscript :: "PerplexityMessage \<Rightarrow> bool" where
  "isTranscript m = (case m of TRANSCRIPT _ _ \<Rightarrow> True | _ \<Rightarrow> False)"

definition pxAsk :: "(jstr \<Rightarrow> jstr option) \<Rightarrow> int \<Rightarrow> jstr \<Rightarrow> PerplexityMessage \<Rightarrow> RoomContext \<Rightarrow> perplexity_st \<Rightarrow> px_reply \<times> perplexity_st" where
  "pxAsk llm now r m c px =
     (if \<not> perplexityModeActive c \<or> (busy c \<and> \<not> isTranscript m) then (None, px)
      else case Perplexity.handleMessage llm now r m px of (res, px1) \<Rightarrow> (if busy c then None else res, px1))"

text \<open>After the action was sent: speaking, its end, and the end by an error.\<close>

definition pxSpeak :: "int \<Rightarrow> RoomContext \<Rightarrow> RoomContext" where
  "pxSpeak now c = c\<lparr>currentRequestId := currentRequestId c + 1, isPublishing := True, publishingStartTime := now, botState := SPEAKING\<rparr>"

definition pxEnd :: "RoomContext \<Rightarrow> RoomContext" where
  "pxEnd c = c\<lparr>isPublishing := False, publishingStartTime := 0, botState := SLEEP\<rparr>"

definition pxFail :: "RoomContext \<Rightarrow> RoomContext" where
  "pxFail c = c\<lparr>isPublishing := False, publishingStartTime := 0\<rparr>"

section \<open>Components under utterances\<close>

text \<open>
  An utterance keeps the invariants of the components it touches: of the client of the record, of the Perplexity
  sessions and of the buffers of the timeline.
\<close>

theorem utterance_keeps_invariants:
  assumes "rag_inv (bs_rag s)" "perplexity_inv (bs_perplexity s)" "heap_ok (bs_timeline s)"
  shows "case hearUtterance throws llm now r u s of (_, s') \<Rightarrow>
    rag_inv (bs_rag s') \<and> perplexity_inv (bs_perplexity s') \<and> heap_ok (bs_timeline s')"
proof -
  have "heap_ok (snd (Timeline.sendRequest now r tl (bs_timeline s)))" for tl
    using step_ok [OF assms(3), of "Request now r tl"] by simp
  then show ?thesis
    using assms inv_sendStatement inv_message [OF assms(2)]
    by (auto simp: hearUtterance_def sendToRagForEmbedding_def Let_def split: prod.splits) (metis snd_conv)+
qed

definition demo_utterance :: utterance where
  "demo_utterance = \<lparr>ut_user = [107, 105, 109], ut_name = None, ut_bytes = 64000,
    ut_start = Some 1000, ut_raw = [54924, 51032, 47484, 32, 49884, 51089, 54633, 49884, 45796],
     ut_corrected = [54924, 51032, 47484, 32, 49884, 51089, 54633, 49884, 45796]\<rparr>"

definition demo_sys :: bot_sys where
  "demo_sys = \<lparr>bs_rooms = [([114], newRoomContext 0 None)], bs_rag = init_rag, bs_timeline = init_timeline, bs_perplexity = init_perplexity\<rparr>"

theorem utterance_keeps_invariants_witness:
  "case hearUtterance None (\<lambda>_. None) 5000 [114] demo_utterance demo_sys of (_, s') \<Rightarrow>
     rag_inv (bs_rag s') \<and> perplexity_inv (bs_perplexity s') \<and> heap_ok (bs_timeline s')"
  by (rule utterance_keeps_invariants)
    (simp_all add: demo_sys_def rag_inv_init perplexity_inv_def init_perplexity_def jvals_def heap_ok_def init_timeline_def)

text \<open>Fillers alone are never recorded; the second check of the words contains the first.\<close>

lemma worthRecording_iff: "worthRecording t \<longleftrightarrow> length (trim t) > 3 \<and> length (concat (meaningfulWords t)) > 2"
  by (auto simp: worthRecording_def)

text \<open>The rule for the call comes after the rule for the wake word alone, so the call stays.\<close>

lemma call_stays_in_timeline: "timelineTranscript [54756, 51060, 32, 50500, 50864, 46972, 32, 50504,
  45397] = [54756, 51060, 32, 50504, 45397]"
  by code_simp

end
