(* ===== verification/Publishing.thy ===== *)
theory Publishing
  imports Utterance Vad
begin

text \<open>
  The publishing flag of a room, with all the code of \<open>src/livekit/voice-bot.service.ts\<close> that writes the flag, the time it was
  set or the id of the current request: turns (\<open>turnGate\<close>, \<open>turnFinally\<close>), answers to capture requests, explanations of diagrams,
  interventions on a transcript, interventions on a message of the Perplexity mode, the alerts of the timer and the timeout in the
  loop over audio frames. A handler is in progress between its first and its last write; everything else a handler does, and
  every other handler, is a step that leaves the three fields alone. Times are positive, as those of the clock are.
\<close>

section \<open>Handlers in progress\<close>

text \<open>\<open>Asking\<close> is a Perplexity message whose answer is awaited, and whether the bot was free when it came.\<close>

datatype activity = Turn int | Vision | Explanation | Intervention | Asking bool | Speaking

record pub_sys =
  ps_ctx :: RoomContext
  ps_acts :: "activity list"

text \<open>The last write of a handler. A Perplexity message may also end without a write.\<close>

fun finish :: "activity \<Rightarrow> int \<Rightarrow> RoomContext \<Rightarrow> RoomContext" where
  "finish (Turn rid) now c = turnFinally rid c"
| "finish Vision now c = visionEnd now c"
| "finish Explanation now c = explainEnd c"
| "finish Intervention now c = interveneEnd now c"
| "finish (Asking free) now c = pxFail c"
| "finish Speaking now c = pxEnd c"

text \<open>
  A step; the timer alerts are left out when \<open>alerts\<close> is false. The answer to a capture request waits for the lock of the room
  between its checks and its first write, so the id it writes may be any.
\<close>

inductive pub_step :: "bool \<Rightarrow> pub_sys \<Rightarrow> pub_sys \<Rightarrow> bool" for alerts where
  turn_begins: "0 < now \<Longrightarrow> turnGate now (ps_ctx s) = Inr c \<Longrightarrow>
    pub_step alerts s (s\<lparr>ps_ctx := c, ps_acts := Turn now # ps_acts s\<rparr>)"
| vision_begins: "0 < now \<Longrightarrow>
    pub_step alerts s (s\<lparr>ps_ctx := visionBegin now rid (ps_ctx s), ps_acts := Vision # ps_acts s\<rparr>)"
| explanation_begins: "0 < now \<Longrightarrow> designModeActive (ps_ctx s) \<Longrightarrow> \<not> isPublishing (ps_ctx s) \<Longrightarrow>
    pub_step alerts s (s\<lparr>ps_ctx := explainBegin now (ps_ctx s), ps_acts := Explanation # ps_acts s\<rparr>)"
| intervention_begins: "0 < now \<Longrightarrow> intervene now res (ps_ctx s) = Some (m, c) \<Longrightarrow>
    pub_step alerts s (s\<lparr>ps_ctx := c, ps_acts := Intervention # ps_acts s\<rparr>)"
| message_comes: "perplexityModeActive (ps_ctx s) \<Longrightarrow> busy (ps_ctx s) \<longrightarrow> isTranscript m \<Longrightarrow>
    pub_step alerts s (s\<lparr>ps_acts := Asking (\<not> busy (ps_ctx s)) # ps_acts s\<rparr>)"
| message_silent: "ps_acts s = xs @ Asking free # ys \<Longrightarrow> pub_step alerts s (s\<lparr>ps_acts := xs @ ys\<rparr>)"
| message_speaks: "0 < now \<Longrightarrow> ps_acts s = xs @ Asking True # ys \<Longrightarrow>
    pub_step alerts s (s\<lparr>ps_ctx := pxSpeak now (ps_ctx s), ps_acts := xs @ Speaking # ys\<rparr>)"
| ends: "ps_acts s = xs @ a # ys \<Longrightarrow> pub_step alerts s (s\<lparr>ps_ctx := finish a now (ps_ctx s), ps_acts := xs @ ys\<rparr>)"
| alert: "alerts \<Longrightarrow> \<not> aiMuted (ps_ctx s) \<Longrightarrow> pub_step alerts s (s\<lparr>ps_ctx := alertBegin (ps_ctx s)\<rparr>)"
| audio_frame: "pub_step alerts s (s\<lparr>ps_ctx := publishingTimeout now (ps_ctx s)\<rparr>)"
| other: "isPublishing c = isPublishing (ps_ctx s) \<Longrightarrow> publishingStartTime c = publishingStartTime (ps_ctx s) \<Longrightarrow>
    currentRequestId c = currentRequestId (ps_ctx s) \<Longrightarrow> pub_step alerts s (s\<lparr>ps_ctx := c\<rparr>)"

inductive pub_reachable :: "bool \<Rightarrow> pub_sys \<Rightarrow> bool" for alerts where
  pub_start: "pub_reachable alerts \<lparr>ps_ctx = newRoomContext now tp, ps_acts = []\<rparr>"
| pub_next: "pub_reachable alerts s \<Longrightarrow> pub_step alerts s s' \<Longrightarrow> pub_reachable alerts s'"

section \<open>The flag and its time\<close>







section \<open>The owner of the flag\<close>

fun clears :: "int \<Rightarrow> activity \<Rightarrow> bool" where
  "clears cur (Turn rid) = (rid = cur)"
| "clears cur (Asking free) = False"
| "clears cur a = True"

definition owned :: "pub_sys \<Rightarrow> bool" where
  "owned s \<longleftrightarrow> (isPublishing (ps_ctx s) \<longrightarrow> (\<exists>a \<in> set (ps_acts s). clears (currentRequestId (ps_ctx s)) a))"

lemma clears_finish: "clears (currentRequestId c) a \<Longrightarrow> \<not> isPublishing (finish a now c)"
  by (cases a) (auto simp: turnFinally_def resetVisionState_def interveneEnd_def pxEnd_def)

lemma finish_cases: "\<not> isPublishing (finish a now c) \<or> isPublishing (finish a now c) = isPublishing c \<and> \<not> clears (currentRequestId c) a"
  by (cases a) (auto simp: turnFinally_def resetVisionState_def interveneEnd_def pxFail_def pxEnd_def)

lemma finish_id: "currentRequestId (finish a now c) = currentRequestId c"
  by (cases a) (auto simp: turnFinally_def resetVisionState_def interveneEnd_def pxFail_def pxEnd_def)

lemma owned_step: "pub_step False s s' \<Longrightarrow> owned s \<Longrightarrow> owned s'"
proof (induction rule: pub_step.induct)
  case (turn_begins now s c)
  then show ?case by (auto simp: owned_def turnGate_def split: if_splits)
next
  case (message_silent s xs free ys)
  then show ?case by (auto simp: owned_def)
next
  case (ends s xs a ys now)
  then show ?case using finish_cases [of a now "ps_ctx s"] by (auto simp: owned_def finish_id)
next
  case (audio_frame s now)
  then show ?case by (auto simp: owned_def publishingTimeout_def)
qed (auto simp: owned_def)

lemma owned_reachable: "pub_reachable False s \<Longrightarrow> owned s"
  by (induction rule: pub_reachable.induct) (simp add: owned_def newRoomContext_def, rule owned_step)

section \<open>Properties\<close>


text \<open>
  C6. Without timer alerts the flag always has an owner: in every interleaving of the handlers, whenever the flag is up, some handler
  is in progress whose end takes the flag down, at whatever time it ends.
\<close>

theorem flag_has_owner:
  assumes "pub_reachable False s" and "isPublishing (ps_ctx s)"
  shows "\<exists>a \<in> set (ps_acts s). \<forall>now. \<not> isPublishing (finish a now (ps_ctx s))"
  using owned_reachable [OF assms(1)] assms(2) clears_finish unfolding owned_def by blast

text \<open>A turn, in the middle of which nothing else happens.\<close>

definition demo_turn :: pub_sys where
  "demo_turn = \<lparr>ps_ctx = (newRoomContext 0 None)\<lparr>currentRequestId := 5000, isPublishing := True, publishingStartTime := 5000\<rparr>,
     ps_acts = [Turn 5000]\<rparr>"

lemma demo_turn_reachable: "pub_reachable alerts demo_turn"
proof -
  let ?s = "\<lparr>ps_ctx = newRoomContext 0 None, ps_acts = []\<rparr>"
  have "pub_step alerts ?s demo_turn"
    using turn_begins [of 5000 ?s "ps_ctx demo_turn" alerts] by (simp add: demo_turn_def turnGate_def newRoomContext_def)
  then show ?thesis by (rule pub_next [OF pub_start])
qed


theorem flag_has_owner_witness: "\<exists>a \<in> set (ps_acts demo_turn). \<forall>now. \<not> isPublishing (finish a now (ps_ctx demo_turn))"
  by (rule flag_has_owner [OF demo_turn_reachable]) (simp add: demo_turn_def)

text \<open>
  With alerts it need not have one: after an alert during the only turn, the end of the turn leaves the flag up with no
  handler in progress, and only the timeout takes it down.
\<close>

lemma alert_orphans_flag: "\<exists>s. pub_reachable True s \<and> isPublishing (ps_ctx s) \<and> ps_acts s = []"
proof -
  let ?s1 = "demo_turn\<lparr>ps_ctx := alertBegin (ps_ctx demo_turn)\<rparr>"
  let ?s2 = "?s1\<lparr>ps_ctx := finish (Turn 5000) 0 (ps_ctx ?s1), ps_acts := [] @ []\<rparr>"
  have "pub_reachable True ?s1"
    by (rule pub_next [OF demo_turn_reachable]) (rule alert, simp_all add: demo_turn_def newRoomContext_def)
  moreover have "pub_step True ?s1 ?s2" by (rule ends [of _ "[]" _ "[]"]) (simp add: demo_turn_def)
  ultimately have "pub_reachable True ?s2" by (rule pub_next)
  then show ?thesis by (intro exI [of _ ?s2]) (simp add: demo_turn_def turnFinally_def newRoomContext_def)
qed

text \<open>
  The owner is not alone: with the Perplexity mode on, a message that came before a turn is answered during it and takes the flag down
  when it ends, so that any number of turns can be in progress at once.
\<close>

lemma interventions_let_turns_overlap:
  "\<exists>s. pub_reachable False s \<and> n \<le> length (filter (\<lambda>a. a = Turn 1) (ps_acts s))"
proof -
  define c where "c = (newRoomContext 0 None)\<lparr>perplexityModeActive := True\<rparr>"
  have gate: "\<exists>d. turnGate 1 c' = Inr d \<and> perplexityModeActive d \<and> botState d = SLEEP \<and> \<not> isVisionMode d \<and> lastResponseTime d = 0"
    if "\<not> isPublishing c'" "perplexityModeActive c'" "botState c' = SLEEP" "\<not> isVisionMode c'" "lastResponseTime c' = 0" for c'
    using that by (simp add: turnGate_def)
  have "\<exists>s. pub_reachable False s \<and> n \<le> length (filter (\<lambda>a. a = Turn 1) (ps_acts s)) \<and> \<not> isPublishing (ps_ctx s) \<and>
      perplexityModeActive (ps_ctx s) \<and> botState (ps_ctx s) = SLEEP \<and> \<not> isVisionMode (ps_ctx s) \<and> lastResponseTime (ps_ctx s) = 0"
  proof (induction n)
    case 0
    let ?s = "\<lparr>ps_ctx = newRoomContext 0 None, ps_acts = []\<rparr>"
    have "pub_step False ?s (?s\<lparr>ps_ctx := c\<rparr>)" by (rule other) (simp_all add: c_def)
    then have "pub_reachable False (?s\<lparr>ps_ctx := c\<rparr>)" by (rule pub_next [OF pub_start])
    then show ?case by (intro exI [of _ "?s\<lparr>ps_ctx := c\<rparr>"]) (simp add: c_def newRoomContext_def)
  next
    case (Suc n)
    then obtain s where s: "pub_reachable False s" "n \<le> length (filter (\<lambda>a. a = Turn 1) (ps_acts s))" "\<not> isPublishing (ps_ctx s)"
      "perplexityModeActive (ps_ctx s)" "botState (ps_ctx s) = SLEEP" "\<not> isVisionMode (ps_ctx s)" "lastResponseTime (ps_ctx s) = 0" by blast
    let ?s1 = "s\<lparr>ps_acts := Asking (\<not> busy (ps_ctx s)) # ps_acts s\<rparr>"
    have b: "\<not> busy (ps_ctx s)" using s by (simp add: busy_def)
    obtain d where d: "turnGate 1 (ps_ctx ?s1) = Inr d" "perplexityModeActive d" "botState d = SLEEP" "\<not> isVisionMode d" "lastResponseTime d = 0"
      using gate [of "ps_ctx s"] s by auto
    let ?s2 = "?s1\<lparr>ps_ctx := d, ps_acts := Turn 1 # ps_acts ?s1\<rparr>"
    let ?s3 = "?s2\<lparr>ps_ctx := pxSpeak 1 (ps_ctx ?s2), ps_acts := [Turn 1] @ Speaking # ps_acts s\<rparr>"
    let ?s4 = "?s3\<lparr>ps_ctx := finish Speaking 1 (ps_ctx ?s3), ps_acts := [Turn 1] @ ps_acts s\<rparr>"
    have "pub_step False s ?s1" by (rule message_comes) (use s b in simp_all)
    moreover have "pub_step False ?s1 ?s2" by (rule turn_begins) (simp, rule d(1))
    moreover have "pub_step False ?s2 ?s3" by (rule message_speaks) (simp_all add: b)
    moreover have "pub_step False ?s3 ?s4" by (rule ends) simp
    ultimately have "pub_reachable False ?s4" using s(1) pub_next by blast
    then show ?case using s(2) d by (intro exI [of _ ?s4]) (simp add: pxSpeak_def pxEnd_def)
  qed
  then show ?thesis by blast
qed

end
