(* ===== verification/Lifecycle.thy ===== *)
theory Lifecycle
  imports RoomApi Timeline DataChannel
begin

text \<open>
  Starting and stopping the bot, \<open>src/livekit/voice-bot.service.ts\<close>: \<open>startBot\<close>, \<open>stopBot\<close>, \<open>stopBotWithCleanup\<close>,
  \<open>cleanupRoom\<close> and the event of a lost connection. A start waits for the connection and for the publication of the audio track,
  a stop for the end of the connection; other calls run in between. Connections of the media library are numbered; its
  documented behaviour is that publishing over a closed connection fails, and disconnecting is taken to succeed. The handlers of the room events are those of
  \<open>DataChannel\<close>; the interval checkers are those of \<open>RoomState\<close> and \<open>HostCoaching\<close>.
\<close>

section \<open>State\<close>

datatype start_phase = Joining | Publishing

record bots =
  bo_rooms :: rooms
  bo_conn :: "(jstr, nat) jmap"
  bo_open :: "(nat \<times> jstr) list"
  bo_starts :: "(nat, jstr \<times> start_phase) jmap"
  bo_stops :: "(nat \<times> jstr) list"
  bo_next :: nat
  bo_rag :: rag_st
  bo_timeline :: timeline_st

definition init_bots :: bots where
  "init_bots = \<lparr>bo_rooms = [], bo_conn = [], bo_open = [], bo_starts = [], bo_stops = [], bo_next = 0, bo_rag = init_rag,
     bo_timeline = init_timeline\<rparr>"

section \<open>Starting\<close>

definition startBot :: "jstr \<Rightarrow> bots \<Rightarrow> bots" where
  "startBot r s =
     (if jhas (bo_rooms s) r then s
      else s\<lparr>bo_starts := jset (bo_next s) (r, Joining) (bo_starts s), bo_next := bo_next s + 1\<rparr>)"

text \<open>The connection stands, or it failed and the call throws.\<close>

definition startConnected :: "nat \<Rightarrow> bool \<Rightarrow> bots \<Rightarrow> bots" where
  "startConnected k success s = (case jget (bo_starts s) k of
      Some (r, Joining) \<Rightarrow>
        if success then s\<lparr>bo_starts := jset k (r, Publishing) (bo_starts s), bo_open := (k, r) # bo_open s, bo_rag := snd (connect r (bo_rag s))\<rparr>
        else s\<lparr>bo_starts := jdel k (bo_starts s)\<rparr>
    | _ \<Rightarrow> s)"

text \<open>The track is published and the room becomes active, or the call throws and the connection stays.\<close>

definition startPublished :: "nat \<Rightarrow> int \<Rightarrow> jstr option \<Rightarrow> bool \<Rightarrow> bots \<Rightarrow> bots" where
  "startPublished k now tp success s = (case jget (bo_starts s) k of
      Some (r, Publishing) \<Rightarrow>
        if success \<and> (k, r) \<in> set (bo_open s)
        then s\<lparr>bo_starts := jdel k (bo_starts s), bo_rooms := jset r (newRoomContext now tp) (bo_rooms s), bo_conn := jset r k (bo_conn s)\<rparr>
        else s\<lparr>bo_starts := jdel k (bo_starts s)\<rparr>
    | _ \<Rightarrow> s)"

section \<open>Stopping\<close>

text \<open>The context of a room holds its connection, so both go together.\<close>

definition forgetRoom :: "jstr \<Rightarrow> bots \<Rightarrow> bots" where
  "forgetRoom r s = s\<lparr>bo_rooms := jdel r (bo_rooms s), bo_conn := jdel r (bo_conn s), bo_timeline := Timeline.clearBuffer r (bo_timeline s)\<rparr>"

definition cleanupRoom :: "jstr \<Rightarrow> bots \<Rightarrow> bots" where
  "cleanupRoom r s = forgetRoom r s"

definition closeConn :: "nat \<Rightarrow> bots \<Rightarrow> bots" where
  "closeConn k s = s\<lparr>bo_open := filter (\<lambda>x. fst x \<noteq> k) (bo_open s)\<rparr>"

text \<open>The event of a lost connection, which knows its room by name.\<close>

definition disconnected :: "nat \<Rightarrow> jstr \<Rightarrow> bots \<Rightarrow> bots" where
  "disconnected k r s = (if (k, r) \<in> set (bo_open s) then cleanupRoom r (closeConn k s) else s)"

definition stopBot :: "jstr \<Rightarrow> bots \<Rightarrow> bots" where
  "stopBot r s = (case jget (bo_conn s) r of
      None \<Rightarrow> s
    | Some k \<Rightarrow> s\<lparr>bo_rag := disconnect r (bo_rag s), bo_stops := (k, r) # bo_stops s\<rparr>)"

definition stopDone :: "nat \<Rightarrow> jstr \<Rightarrow> bots \<Rightarrow> bots" where
  "stopDone k r s = (if (k, r) \<in> set (bo_stops s)
     then forgetRoom r (closeConn k (s\<lparr>bo_stops := remove1 (k, r) (bo_stops s)\<rparr>)) else s)"

text \<open>What \<open>stopBotWithCleanup\<close> does after the stop: the room of the media server and the rows of the room; errors are only logged.\<close>

datatype cleanup_call = LkCalls "lk_call list" | PostCleanup jstr jstr

definition cleanupUrl :: "jstr option \<Rightarrow> jstr" where
  "cleanupUrl backend = str_or backend [104, 116, 116, 112, 58, 47, 47, 98, 97, 99, 107, 101, 110, 100,
    58, 51, 48, 48, 50] @ [47, 114, 101, 115, 116, 97, 112, 105, 47, 105, 110, 116, 101, 114, 110, 97,
    108, 47, 114, 111, 111, 109, 45, 99, 108, 101, 97, 110, 117, 112]"

definition afterStop :: "lk_env \<Rightarrow> jstr option \<Rightarrow> jstr \<Rightarrow> cleanup_call list" where
  "afterStop env backend r = [LkCalls (snd (deleteRoom env r)), PostCleanup (cleanupUrl backend) r]"

section \<open>Runs\<close>

datatype bots_event =
    Start jstr
  | Connected nat bool
  | Published nat int "jstr option" bool
  | Lost nat jstr
  | Stop jstr
  | Stopped nat jstr

fun bots_step :: "bots_event \<Rightarrow> bots \<Rightarrow> bots" where
  "bots_step (Start r) s = startBot r s"
| "bots_step (Connected k b) s = startConnected k b s"
| "bots_step (Published k now tp b) s = startPublished k now tp b s"
| "bots_step (Lost k r) s = disconnected k r s"
| "bots_step (Stop r) s = stopBot r s"
| "bots_step (Stopped k r) s = stopDone k r s"

text \<open>Every active room has a connection of its own that stands.\<close>

definition bots_inv :: "bots \<Rightarrow> bool" where
  "bots_inv s \<longleftrightarrow> (\<forall>r. jhas (bo_rooms s) r \<longleftrightarrow> jget (bo_conn s) r \<noteq> None) \<and>
     (\<forall>r k. jget (bo_conn s) r = Some k \<longrightarrow> (k, r) \<in> set (bo_open s)) \<and>
     (\<forall>k r r'. (k, r) \<in> set (bo_open s) \<longrightarrow> (k, r') \<in> set (bo_open s) \<longrightarrow> r = r') \<and>
     (\<forall>k r. (k, r) \<in> set (bo_open s) \<longrightarrow> k < bo_next s) \<and>
     (\<forall>k r ph. jget (bo_starts s) k = Some (r, ph) \<longrightarrow> k < bo_next s \<and> (\<forall>r'. (k, r') \<in> set (bo_open s) \<longrightarrow> r' = r \<and> ph = Publishing)) \<and>
     (\<forall>k r. (k, r) \<in> set (bo_stops s) \<longrightarrow> k < bo_next s \<and> jget (bo_starts s) k = None \<and> (\<forall>r'. (k, r') \<in> set (bo_open s) \<longrightarrow> r' = r)) \<and>
     (\<forall>r k. jget (bo_conn s) r = Some k \<longrightarrow> jget (bo_starts s) k = None)"

lemmas bots_defs = startBot_def startConnected_def startPublished_def disconnected_def cleanupRoom_def forgetRoom_def closeConn_def
  stopBot_def stopDone_def

lemma inv_startBot: "bots_inv s \<Longrightarrow> bots_inv (startBot r s)"
  unfolding bots_inv_def startBot_def by (auto split: if_splits intro: less_SucI) (meson less_irrefl)

lemma inv_startConnected: "bots_inv s \<Longrightarrow> bots_inv (startConnected k b s)"
  unfolding bots_inv_def startConnected_def by (auto split: if_splits option.split start_phase.split; blast)

lemma inv_startPublished: "bots_inv s \<Longrightarrow> bots_inv (startPublished k now tp b s)"
  unfolding bots_inv_def startPublished_def by (auto split: if_splits option.split start_phase.split)

lemma inv_closing:
  "bots_inv s \<Longrightarrow> (\<forall>r'. (k, r') \<in> set (bo_open s) \<longrightarrow> r' = r) \<Longrightarrow> bots_inv (forgetRoom r (closeConn k s))"
  unfolding bots_inv_def forgetRoom_def closeConn_def by (auto split: if_splits; blast)

lemma inv_fewer_stops: "bots_inv s \<Longrightarrow> set xs \<subseteq> set (bo_stops s) \<Longrightarrow> bots_inv (s\<lparr>bo_stops := xs\<rparr>)"
  unfolding bots_inv_def by (auto dest: subsetD)

lemma bots_invD:
  assumes "bots_inv s"
  shows "(k, r) \<in> set (bo_open s) \<Longrightarrow> (k, r') \<in> set (bo_open s) \<Longrightarrow> r' = r"
    and "(k, r) \<in> set (bo_stops s) \<Longrightarrow> (k, r') \<in> set (bo_open s) \<Longrightarrow> r' = r"
  using assms unfolding bots_inv_def by blast+

lemma inv_disconnected: "bots_inv s \<Longrightarrow> bots_inv (disconnected k r s)"
  by (simp add: disconnected_def cleanupRoom_def inv_closing bots_invD(1))

lemma inv_stopBot: "bots_inv s \<Longrightarrow> bots_inv (stopBot r s)"
  unfolding bots_inv_def stopBot_def by (auto split: option.split; blast)

lemma inv_stopDone:
  assumes "bots_inv s"
  shows "bots_inv (stopDone k r s)"
proof (cases "(k, r) \<in> set (bo_stops s)")
  case True
  have "bots_inv (s\<lparr>bo_stops := remove1 (k, r) (bo_stops s)\<rparr>)" by (rule inv_fewer_stops [OF assms set_remove1_subset])
  then show ?thesis using True bots_invD(2) [OF assms True] by (simp add: stopDone_def inv_closing)
qed (simp add: stopDone_def assms)

lemma bots_inv_init: "bots_inv init_bots"
  by (simp add: bots_inv_def init_bots_def jhas_def)

interpretation bots: inv_system bots_inv bots_step
proof
  show "bots_inv s \<Longrightarrow> bots_inv (bots_step e s)" for e s
    by (cases e) (simp_all add: inv_startBot inv_startConnected inv_startPublished inv_disconnected inv_stopBot inv_stopDone)
qed

text \<open>
  Whatever starts, stops and lost connections interleave, every active room has a connection of its own that stands: its
  messages and its audio go somewhere.
\<close>

theorem active_room_is_connected:
  "let s = fold bots_step evs init_bots
   in if jhas (bo_rooms s) r then \<exists>k. jget (bo_conn s) r = Some k \<and> (k, r) \<in> set (bo_open s) else jget (bo_conn s) r = None"
  using bots.inv_run [OF bots_inv_init, of evs] unfolding bots_inv_def Let_def by (cases "jget (bo_conn (fold bots_step evs init_bots)) r") auto

section \<open>Overlapping starts\<close>

text \<open>
  The check for an active room is no protection against a second start before the first has finished: when two starts of a
  room are both connected, both finish; the room then has the connection of the later one, a stop closes that, and the other
  connection stands, belongs to no room, and no stop reaches it.
\<close>

lemma overlapping_starts_leave_ghost:
  assumes "jget (bo_starts s) j = Some (r, Publishing)" "jget (bo_starts s) k = Some (r, Publishing)" "j \<noteq> k"
    and "(j, r) \<in> set (bo_open s)" "(k, r) \<in> set (bo_open s)"
  shows "let s' = fold bots_step [Published j t tp True, Published k t' tp' True, Stop r, Stopped k r] s
    in (j, r) \<in> set (bo_open s') \<and> \<not> jhas (bo_rooms s') r \<and> bots_step (Stop r) s' = s'"
  using assms by (simp add: bots_defs Let_def)

lemma two_starts_overlap:
  "let s = fold bots_step [Start r, Start r, Connected 0 True, Connected 1 True] init_bots
   in jget (bo_starts s) 0 = Some (r, Publishing) \<and> jget (bo_starts s) 1 = Some (r, Publishing) \<and>
      (0, r) \<in> set (bo_open s) \<and> (1, r) \<in> set (bo_open s)"
  by (simp add: bots_defs init_bots_def jhas_def Let_def)

text \<open>
  The end of such a connection takes the active context of the room with it, whose own connection stands.
\<close>

lemma ghost_takes_successor:
  assumes "(j, r) \<in> set (bo_open s)" "jget (bo_conn s) r = Some k" "j \<noteq> k" "(k, r) \<in> set (bo_open s)"
  shows "\<not> jhas (bo_rooms (disconnected j r s)) r \<and> (k, r) \<in> set (bo_open (disconnected j r s))"
  using assms by (auto simp: bots_defs)

text \<open>A failing publication leaves its connection behind.\<close>

lemma failed_start_stays_connected:
  "let s = fold bots_step [Start r, Connected 0 True, Published 0 t tp False] init_bots
   in (0, r) \<in> set (bo_open s) \<and> \<not> jhas (bo_rooms s) r"
  by (simp add: bots_defs init_bots_def jhas_def jdel_def Let_def)

section \<open>Starts that do not overlap\<close>

text \<open>A start is calm if no start and no stop of its room is under way, and publications succeed while the connection stands.\<close>

definition calm :: "bots_event \<Rightarrow> bots \<Rightarrow> bool" where
  "calm e s = (case e of
      Start r \<Rightarrow> list_all (\<lambda>(k, r', ph). r' \<noteq> r) (bo_starts s) \<and> list_all (\<lambda>(k, r'). r' \<noteq> r) (bo_stops s)
    | Published k now tp b \<Rightarrow> b
    | _ \<Rightarrow> True)"

inductive calm_run :: "bots \<Rightarrow> bool" where
  calm_init: "calm_run init_bots"
| calm_next: "calm_run s \<Longrightarrow> calm e s \<Longrightarrow> calm_run (bots_step e s)"

definition calm_inv :: "bots \<Rightarrow> bool" where
  "calm_inv s \<longleftrightarrow> (\<forall>k r. (k, r) \<in> set (bo_open s) \<longrightarrow> jget (bo_conn s) r = Some k \<or> jget (bo_starts s) k = Some (r, Publishing)) \<and>
     (\<forall>k r ph. jget (bo_starts s) k = Some (r, ph) \<longrightarrow> jget (bo_conn s) r = None) \<and>
     (\<forall>k k' r ph ph'. jget (bo_starts s) k = Some (r, ph) \<longrightarrow> jget (bo_starts s) k' = Some (r, ph') \<longrightarrow> k = k') \<and>
     (\<forall>k r. (k, r) \<in> set (bo_stops s) \<longrightarrow> jget (bo_conn s) r \<in> {None, Some k} \<and> (\<forall>k' ph. jget (bo_starts s) k' \<noteq> Some (r, ph)))"

lemma calm_invD:
  assumes "calm_inv s"
  shows "(k, r) \<in> set (bo_open s) \<Longrightarrow> jget (bo_conn s) r = Some k \<or> jget (bo_starts s) k = Some (r, Publishing)"
    and "jget (bo_starts s) k = Some (r, ph) \<Longrightarrow> jget (bo_conn s) r = None"
    and "jget (bo_starts s) k = Some (r, ph) \<Longrightarrow> jget (bo_starts s) k' = Some (r, ph') \<Longrightarrow> k = k'"
    and "(k, r) \<in> set (bo_stops s) \<Longrightarrow> jget (bo_conn s) r = None \<or> jget (bo_conn s) r = Some k"
    and "(k, r) \<in> set (bo_stops s) \<Longrightarrow> jget (bo_starts s) k' \<noteq> Some (r, ph)"
  using assms unfolding calm_inv_def by blast+

lemma calm_invI:
  assumes "\<And>k r. (k, r) \<in> set (bo_open s) \<Longrightarrow> jget (bo_conn s) r = Some k \<or> jget (bo_starts s) k = Some (r, Publishing)"
    and "\<And>k r ph. jget (bo_starts s) k = Some (r, ph) \<Longrightarrow> jget (bo_conn s) r = None"
    and "\<And>k r ph k' ph'. jget (bo_starts s) k = Some (r, ph) \<Longrightarrow> jget (bo_starts s) k' = Some (r, ph') \<Longrightarrow> k = k'"
    and "\<And>k r. (k, r) \<in> set (bo_stops s) \<Longrightarrow> jget (bo_conn s) r = None \<or> jget (bo_conn s) r = Some k"
    and "\<And>k r k' ph. (k, r) \<in> set (bo_stops s) \<Longrightarrow> jget (bo_starts s) k' \<noteq> Some (r, ph)"
  shows "calm_inv s"
  unfolding calm_inv_def using assms by blast

lemma jget_list_all: "list_all P m \<Longrightarrow> jget m k = Some v \<Longrightarrow> P (k, v)"
  by (auto simp: list_all_iff dest: map_of_SomeD)

lemma calm_startBot:
  assumes "bots_inv s" "calm_inv s" "calm (Start r) s"
  shows "calm_inv (startBot r s)"
proof -
  have none: "jget (bo_starts s) k \<noteq> Some (r, ph)" "(k, r) \<notin> set (bo_stops s)" for k ph
    using assms(3) jget_list_all [of "\<lambda>(k, r', ph). r' \<noteq> r" "bo_starts s" k "(r, ph)"] by (auto simp: calm_def list_all_iff)
  have fresh: "(bo_next s, r') \<notin> set (bo_open s)" for r' using assms(1) unfolding bots_inv_def by fastforce
  have idle: "\<not> jhas (bo_rooms s) r \<Longrightarrow> jget (bo_conn s) r = None" using assms(1) unfolding bots_inv_def by blast
  note D = calm_invD [OF assms(2)]
  show ?thesis
    unfolding startBot_def
    by (cases "jhas (bo_rooms s) r"; simp add: assms(2); rule calm_invI)
      (use none fresh idle in \<open>auto split: if_splits dest: D\<close>)
qed

lemma calm_startConnected:
  assumes "bots_inv s" "calm_inv s"
  shows "calm_inv (startConnected k b s)"
proof (cases "jget (bo_starts s) k")
  case (Some x)
  obtain r ph where x: "x = (r, ph)" by (cases x)
  note D = calm_invD [OF assms(2)]
  show ?thesis
  proof (cases ph)
    case Joining
    have none: "(k, r') \<notin> set (bo_open s)" for r' using assms(1) Some x Joining unfolding bots_inv_def by blast
    have "calm_inv (s\<lparr>bo_starts := jset k (r, Publishing) (bo_starts s), bo_open := (k, r) # bo_open s, bo_rag := R\<rparr>)" for R
      by (rule calm_invI) (use none Some x Joining in \<open>auto split: if_splits dest: D\<close>)
    moreover have "calm_inv (s\<lparr>bo_starts := jdel k (bo_starts s)\<rparr>)"
      by (rule calm_invI) (use none in \<open>auto split: if_splits dest: D\<close>)
    ultimately show ?thesis using Some x Joining by (simp add: startConnected_def)
  qed (use assms(2) Some x in \<open>simp add: startConnected_def\<close>)
qed (use assms(2) in \<open>simp add: startConnected_def\<close>)

lemma calm_startPublished:
  assumes "bots_inv s" "calm_inv s"
  shows "calm_inv (startPublished k now tp True s)"
proof (cases "jget (bo_starts s) k")
  case (Some x)
  obtain r ph where x: "x = (r, ph)" by (cases x)
  note D = calm_invD [OF assms(2)]
  have u: "(k, r') \<in> set (bo_open s) \<Longrightarrow> r' = r" for r' using assms(1) Some x unfolding bots_inv_def by blast
  have stops: "(k', r) \<notin> set (bo_stops s)" for k' using D(5) [of k' r k ph] Some x by blast
  have idle: "jget (bo_conn s) r = None" using D(2) Some x by blast
  show ?thesis
  proof (cases ph)
    case Publishing
    have "calm_inv (s\<lparr>bo_starts := jdel k (bo_starts s), bo_rooms := R, bo_conn := jset r k (bo_conn s)\<rparr>)"
      if "(k, r) \<in> set (bo_open s)" for R
      by (rule calm_invI) (use idle stops Some x in \<open>auto split: if_splits dest: D u\<close>)
    moreover have "calm_inv (s\<lparr>bo_starts := jdel k (bo_starts s)\<rparr>)" if "(k, r) \<notin> set (bo_open s)"
      by (rule calm_invI) (use that in \<open>auto split: if_splits dest: D u\<close>)
    ultimately show ?thesis using Some x Publishing by (simp add: startPublished_def)
  qed (use assms(2) Some x in \<open>simp add: startPublished_def\<close>)
qed (use assms(2) in \<open>simp add: startPublished_def\<close>)

lemma calm_closing:
  assumes "calm_inv s" and k: "jget (bo_conn s) r = None \<or> jget (bo_conn s) r = Some k" and open_k: "\<And>r'. (k, r') \<in> set (bo_open s) \<Longrightarrow> r' = r"
  shows "calm_inv (forgetRoom r (closeConn k s))"
proof -
  note D = calm_invD [OF assms(1)]
  have "jget (bo_starts s) j = Some (r, Publishing)" if "(j, r) \<in> set (bo_open s)" "j \<noteq> k" for j
    using D(1) [OF that(1)] k that(2) by auto
  then show ?thesis
    by (intro calm_invI) (auto simp: forgetRoom_def closeConn_def split: if_splits dest: D)
qed

lemma calm_disconnected:
  assumes "bots_inv s" "calm_inv s"
  shows "calm_inv (disconnected k r s)"
proof (cases "(k, r) \<in> set (bo_open s)")
  case True
  have "jget (bo_conn s) r = None \<or> jget (bo_conn s) r = Some k" using calm_invD(1,2) [OF assms(2)] True by blast
  then have "calm_inv (forgetRoom r (closeConn k s))"
    by (rule calm_closing [OF assms(2)]) (rule bots_invD(1) [OF assms(1) True])
  then show ?thesis using True by (simp add: disconnected_def cleanupRoom_def)
qed (simp add: disconnected_def assms)

lemma calm_stopBot:
  assumes "calm_inv s"
  shows "calm_inv (stopBot r s)"
proof (cases "jget (bo_conn s) r")
  case (Some k)
  note D = calm_invD [OF assms]
  have "jget (bo_starts s) k' \<noteq> Some (r, ph)" for k' ph using D(2) Some by fastforce
  then have "calm_inv (s\<lparr>bo_rag := R, bo_stops := (k, r) # bo_stops s\<rparr>)" for R
    by (intro calm_invI) (use Some in \<open>auto split: if_splits dest: D\<close>)
  then show ?thesis using Some by (simp add: stopBot_def)
qed (simp add: stopBot_def assms)

lemma calm_fewer_stops: "calm_inv s \<Longrightarrow> set xs \<subseteq> set (bo_stops s) \<Longrightarrow> calm_inv (s\<lparr>bo_stops := xs\<rparr>)"
  unfolding calm_inv_def by simp (meson subsetD)

lemma calm_stopDone:
  assumes "bots_inv s" "calm_inv s"
  shows "calm_inv (stopDone k r s)"
proof (cases "(k, r) \<in> set (bo_stops s)")
  case True
  let ?s = "s\<lparr>bo_stops := remove1 (k, r) (bo_stops s)\<rparr>"
  have "calm_inv ?s" by (rule calm_fewer_stops [OF assms(2) set_remove1_subset])
  then have "calm_inv (forgetRoom r (closeConn k ?s))"
    by (rule calm_closing) (use calm_invD(4) [OF assms(2) True] bots_invD(2) [OF assms(1) True] in simp_all)
  then show ?thesis using True by (simp add: stopDone_def)
qed (simp add: stopDone_def assms)

lemma calm_run_inv: "calm_run s \<Longrightarrow> bots_inv s \<and> calm_inv s"
proof (induction rule: calm_run.induct)
  case calm_init
  then show ?case using bots_inv_init by (simp add: calm_inv_def init_bots_def)
next
  case (calm_next s e)
  then have inv: "bots_inv s" "calm_inv s" by simp_all
  have "calm_inv (bots_step e s)"
  proof (cases e)
    case (Published k now tp b)
    then show ?thesis using calm_next calm_startPublished [OF inv] by (simp add: calm_def)
  qed (use inv calm_next calm_startBot calm_startConnected calm_disconnected calm_stopBot calm_stopDone in auto)
  then show ?case using bots.inv_step [OF inv(1)] by simp
qed

text \<open>
  If a start waits until no start and no stop of its room is under way, and publications succeed, there are no ghosts: every
  connection that stands belongs to an active room or to a start that is about to finish.
\<close>

theorem calm_starts_leave_no_ghost:
  assumes "calm_run s" "(k, r) \<in> set (bo_open s)"
  shows "jget (bo_conn s) r = Some k \<or> jget (bo_starts s) k = Some (r, Publishing)"
  using calm_run_inv [OF assms(1)] assms(2) unfolding calm_inv_def by blast

theorem calm_starts_leave_no_ghost_witness:
  "jget (bo_conn (fold bots_step [Start [114], Connected 0 True, Published 0 5 None True] init_bots)) [114] = Some 0"
proof -
  let ?s = "\<lambda>n. fold bots_step (take n [Start [114], Connected 0 True, Published 0 5 None True]) init_bots"
  note simps = bots_defs init_bots_def jhas_def jdel_def calm_def
  have "calm_run (?s 1)" using calm_next [OF calm_init, of "Start [114]"] by (simp add: simps)
  then have "calm_run (?s 2)" using calm_next [of "?s 1" "Connected 0 True"] by (simp add: simps numeral_2_eq_2)
  then have c: "calm_run (?s 3)" using calm_next [of "?s 2" "Published 0 5 None True"] by (simp add: simps numeral_2_eq_2 numeral_3_eq_3)
  have "(0, [114]) \<in> set (bo_open (?s 3))" "jget (bo_starts (?s 3)) 0 = None" by (simp_all add: simps numeral_3_eq_3)
  with calm_starts_leave_no_ghost [OF c] show ?thesis by fastforce
qed

end
