(* ===== verification/Spec2Isabelle.thy ===== *)
theory Spec2Isabelle
  imports MeetingTimer Perplexity Recording StudyMode Opinion Vad VoiceTurn DataChannel
    Timeline Proactive HostCoaching RagClient IntentClassifier
    SearchService AgentRouter Access RoomApi Calendar LlmService McpClient McpService SttService Boards Upload Speech Utterance Publishing Lifecycle
begin

text \<open>
  A verification development of the AURA live server, the NestJS back end that runs the voice bot
  and the agents of video meetings.

  \<^bold>\<open>The program.\<close> For every meeting room the server keeps a voice bot
  (\<open>src/livekit/voice-bot.service.ts\<close>) that joins the room through the LiveKit media library. It
  listens to the audio tracks frame by frame, hands utterances to speech recognition, decides
  whether it was called, and answers by speech; the front end talks to it through data-channel
  messages, and services beside it hold the state of special modes: a meeting timer
  (\<open>src/mcp/tools/timer.tool.ts\<close>), the Perplexity mode, which watches how well the participants
  follow (\<open>src/perplexity\<close>), a study mode with quizzes (\<open>src/study\<close>), opinions on verified evidence
  (\<open>src/agent/evidence\<close>) and room recordings (\<open>src/recording\<close>). All of it is one event-loop process
  with in-memory maps keyed by room id, so the hard parts are interval handles, cooldowns, flags
  that must be cleared on every path, and handlers that suspend at a call and find the state
  changed when they go on.

  \<^bold>\<open>The theories.\<close>
  \<^item> \<open>Prelude\<close>: strings as lists of UTF-16 code units, \<open>Map\<close> objects as insertion-ordered association
    lists, falsy values, and the contracts the components share as locales: \<open>js_map\<close> (what a client
    of a map relies on), \<open>inv_system\<close> (a service whose operations keep an invariant),
    \<open>room_isolated\<close> (an operation on one room leaves the others alone) and \<open>cooldown_gate\<close> (an action
    that refuses to fire again within a period). Each is interpreted on the definitions of the
    components: the timers and the study contexts are room-isolated, the propagation of the
    Perplexity service, the firing of a constraint, quiz generation, recognition of a user's speech
    and the change of the idea mode are cooldown gates.
  \<^item> \<open>MeetingTimer\<close>: the timer store, the interval handles of the event loop, the callback of the
    interval, the six operations and the tool dispatch. The lemmas show that live handles and
    registered handles coincide, one per counting timer, that the countdown shows and announces the
    right things, that rooms are independent, and which calls of the tool fail.
  \<^item> \<open>WfcEngine\<close> and \<open>Perplexity\<close>: cells, collapse, entropy, constraints with priorities and cooldowns;
    sessions, participants, reports and transcripts, rate-limited propagation, messages. The lemmas
    show the range of entropies, the bounds of the windows, the choice of the constraint, the
    protection of states inferred from speech and the spacing of propagations; a cooldown shared by
    all rooms and a contradiction of the collapse are stated as they are.
  \<^item> \<open>Recording\<close>: start and stop, each split at the call of the egress service, listings, metadata and
    chapters in S3, the endpoints of the controller. \<open>rec_step\<close> interleaves requests with what the egress service
    does in between. The lemmas show that an egress is lost only with an error when the requests of a room are serialised and
    that one is lost when two starts overlap, the start-stop cycle, and that chapters are read back and tile the recording.
  \<^item> \<open>StudyMode\<close>: contexts, quizzes, answers, follow-ups, report. The lemmas show the scores and their
    closed form for a streak, the spacing and the cap of quizzes and how overlapping generations
    exceed the cap, and the ranking.
  \<^item> \<open>Evidence\<close> and \<open>Opinion\<close>: the built-in evidence, validity, matching and confidence; when the
    service speaks, its cooldown per room and item, and the date from which it has nothing to say.
  \<^item> \<open>RoomState\<close>: the record \<open>RoomContext\<close> of the bot and the bookkeeping on it (conversation memory,
    screen captures, diagram contexts, briefing, standby).
  \<^item> \<open>Vad\<close>: one iteration of the frame loop of \<open>handleAudioTrack\<close> (calibration, thresholds, publishing
    timeout, barge-in, buffers, dispatch). The lemmas bound the length of an utterance and the
    spacing of recognitions, and state three surprises: a voice that was not counted before the bot
    began to publish cannot interrupt it, the pre-buffer lands after the first voice frame, and a
    frame of zeros freezes the thresholds.
  \<^item> \<open>VoiceTurn\<close>: a turn from its gate to its \<open>finally\<close> block, with the vision, diagram, calendar, timer,
    agent and opinion branches, speech, timer alerts and vision answers.
    The lemmas show that a turn that nothing interrupts comes to rest, and the cases in which the bot falls silent.
  \<^item> \<open>Utterance\<close>: what an utterance does before the gate of its turn (the record of the meeting, the timeline, statistics, diagram
    contexts, the Perplexity session) and the interventions of the Perplexity mode. The lemmas show that it keeps the invariants of
    the components it touches.
  \<^item> \<open>Publishing\<close>: the publishing flag under all handlers that write it (\<open>pub_step\<close>). The lemmas show that the timeout of the frame loop
    always ends a flag that is stuck, that without timer alerts the flag always has a handler in progress that will clear it, and how
    alerts orphan it and Perplexity messages let turns overlap.
  \<^item> \<open>Speech\<close>: text without Markdown, SSML, requests to the synthesis, audio frames and their pacing, the greeting, WAV headers. The
    lemmas show that text cannot become markup, that audio is played completely and in time.
  \<^item> \<open>Lifecycle\<close>: starting and stopping the bot, cut at the awaits (\<open>bots_step\<close>, an instance of \<open>inv_system\<close>). The lemmas show that an
    active room has a connection of its own, that starts which do not overlap leave no other connection behind, and that starts
    which overlap do.
  \<^item> \<open>DataChannel\<close>: the message handler and the room events. The lemmas show what only hosts may do,
    that the host list itself is open, and the debounce of the modes.
  \<^item> \<open>Timeline\<close>: the transcripts of a room that a language model refines with the context of the last minute. The
    arrays are objects of a store, since a handler that waits for the model adds to the array it finds
    afterwards. The lemmas show that the context is the last minute of the room and that rooms are independent.
  \<^item> \<open>Proactive\<close>: prompts, extraction of the answer, and the filter of insights (threshold, one minute per kind,
    limit per analysis), an instance of \<open>cooldown_gate\<close>.
  \<^item> \<open>HostCoaching\<close>: the periodic checkers of silent participants and of dominant speakers, the check of
    the topic, and the questions of a host. The lemmas show exactly when a silence is reported, once per silence.
  \<^item> \<open>RagClient\<close>: sockets, timers, promises and reports of the client of the RAG server in an explicit store;
    \<open>rag_step\<close> is the event loop (calls, socket events, timers, HTTP replies), \<open>rag_inv\<close> its invariant, an instance of
    \<open>inv_system\<close>. The lemmas show that every promise is settled or has a timer that settles it unless an
    answer comes with unreadable sources, that reconnecting gives up, and how questions with the same text and reports after a failure meet each other's timers.
  \<^item> \<open>Regex\<close>: the matcher of ECMAScript regular expressions as far as the program uses them (\<open>ms\<close>, in the order of
    backtracking, with captures) against the relation \<open>mt\<close> of matches, search, replacement and splitting.
  \<^item> \<open>IntentClassifier\<close>: correction of recognised text, wake words, categories, keywords and timer phrases, with all
    patterns of the program. The lemmas show the consistency of the result and the equality of the pattern scan
    with its specification, and phrases that are misread.
  \<^item> \<open>SearchService\<close> and \<open>AgentRouter\<close>: the plan of a search, its cache and its results; the choice of a tool, the
    question about the meeting in phases over the RAG client (\<open>mq_step\<close>, an instance of \<open>inv_system\<close>) and the
    answer. The lemmas show that cached answers are fresh, that plans are consistent, that the agent always
    answers and that a question about the meeting can be finished.
  \<^item> \<open>Access\<close> and \<open>RoomApi\<close>: the two guards, instances of the contract \<open>guard\<close>, and the rooms, tokens and endpoints of
    the LiveKit service and controller over them. The lemmas show that the guard of a room refines the guard of
    the token, who gets a token, and under which name.
  \<^item> \<open>JsDate\<close>, \<open>Calendar\<close>: \<open>Date\<close> objects (days, months, years, local time as a constant offset, ISO texts) with the lemma
    that reading a day and building it are inverse, and that writing an instant and reading it gives it back; the calendar
    service and the scheduling of a meeting. The lemmas show the weeks the ranges cover and the date an event gets.
  \<^item> \<open>LlmCalendar\<close>, \<open>LlmService\<close>: events by voice; routes of a message, the flag and the interval between requests as a machine of
    phases over the RAG client (\<open>sm_step\<close>, an instance of \<open>inv_system\<close>), retries, prompts, answers, voice requests. The lemmas
    bound the retries, show that the flag is never left up, and state how a message that slept ignores it and which dates, times
    and routes are misread.
  \<^item> \<open>Utf8\<close>, \<open>McpClient\<close>: decoding of bytes; the client of external tool servers with connections, requests, timers and the
    handshake in an explicit store (\<open>mcp_step\<close>, an instance of \<open>inv_system\<close>). The lemmas show that every request settles, that the
    cutting of the output into chunks does not matter, and that a failed server is not connected again.
  \<^item> \<open>Diagrams\<close>, \<open>McpService\<close>: the reading of the model's answers and the generators of the diagrams (flowchart, sequence, entities,
    architecture, kanban and others); the service with its cache and its external tools. The lemmas show that each task and each
    node is drawn once and that a served diagram is of the same request and at most five minutes old; overlapping requests are not
    interleaved.
  \<^item> \<open>SttAdapters\<close>, \<open>SttService\<close>: the streaming adapters as machines of events, the sessions of the recognisers, phonetic correction. The
    lemmas show that audio is sent completely and texts are joined by position, which events settle a promise, and that a
    correction is never reached. A configuration reply after the adapter has ended its call is recorded as any other.
  \<^item> \<open>Vision\<close>: requests to the image model, their limits and intervals, the reading of the answers.
  \<^item> \<open>Boards\<close>: flowcharts from requirements with their layout, entity diagrams, skeleton code, questions on a PDF, sketches, quizzes and
    their grading. The lemmas show that the depth of a node is its distance from the start, for every graph.
  \<^item> \<open>Upload\<close>: file names, keys, signed URLs; translation. The lemmas show the round trip of misread names and the form of keys.
  \<^item> This theory: what crosses components, from the recognised text to the timer of the room.

  \<^bold>\<open>Modelling choices.\<close> Each handler is a function of the time \<open>now\<close>, its arguments and its state;
  a handler that runs without suspension reads the clock once. A handler that awaits is split at the
  awaits whenever a property depends on what happens in between, and composed otherwise. Times,
  minutes, seconds and scores are integers; entropies, confidences and intensities are exact
  rationals and sound levels exact reals with NaN and the infinities explicit, where the program has
  doubles. Language models, \<open>JSON.parse\<close>, the egress service, S3, the time zone, random numbers,
  recognition and synthesis are arguments; a call that may reject has an option type, and the
  rejection is a branch. Publishing on the data channel is taken to succeed. Lower-casing maps the
  ASCII letters only; the texts the program compares are Korean or ASCII. Loops are folds, structural
  recursions over the data, or functions with a termination proof (replacement and splitting by patterns), so
  every definition is total. The one fuel is that of the repetitions of \<open>Regex\<close>: the required iterations plus the
  length of the rest of the text, enough since every further iteration consumes a character (lemma \<open>ms_iff_mt\<close>).
  Runs of the event loop are lists of events or step relations.

  \<^bold>\<open>Not modelled.\<close> The media library itself, the clients of the map API, the database, the generated gRPC code and the wiring of
  the framework (calls without state of their own), debug recordings and log output, and of the LiveKit controller the
  endpoints for tests, the static map and the passing on of a capture.
\<close>

section \<open>Speech to timer\<close>

text \<open>
  From the recognised text to the timer of the room, for a turn that reaches the timer commands: a text with the word for timer
  followed by a number of minutes starts a new timer, whatever timer is running and also when the text asks to extend it. The
  new timer has the minutes the classifier read, or 30 if it read none between 1 and 180.
\<close>

lemma timer_phrase_replaces_timer:
  assumes "list_all is_space s1" "list_all is_space s2" "list_all is_digit ds" "ds \<noteq> []"
    and "to_lower (normalizeText t) = u @ timer_phrase s1 ds s2 @ v"
  shows "\<exists>reply d ts1. timerIntent now r (classify t) ts = (reply, Some d, ts1) \<and> getTimerStatus r ts1 = Some d \<and>
    timerState d = Running \<and> remainingSeconds d = 60 * (case timerMinutes (classify t) of None \<Rightarrow> 30 | Some m \<Rightarrow> m)"
proof -
  have "timerAction (classify t) = Some (js ''start'')"
    using timer_phrase_always_starts [OF assms] by (simp add: js_def)
  moreover have "num_or (timerMinutes (classify t)) 30 = (case timerMinutes (classify t) of None \<Rightarrow> 30 | Some m \<Rightarrow> m)"
    using classify_minutes [of t] by (auto simp: num_or_def split: option.splits)
  ultimately show ?thesis
    by (simp add: timerIntent_def str_or_def js_def Let_def startTimer_def getTimerStatus_def split: prod.splits)
qed

lemma timer_phrase_replaces_timer_example:
  "\<exists>reply d ts1. timerIntent 0 [7] (classify [50500, 50864, 46972, 50556, 32, 53440, 51060,
    47672, 32, 49, 48, 48516, 32, 50672, 51109, 54644,
    51480]) (snd (startTimer 0 [7] 50 5 init_env)) = (reply, Some d, ts1) \<and>
     remainingSeconds d = 600"
proof -
  have n: "to_lower (normalizeText [50500, 50864, 46972, 50556, 32, 53440, 51060, 47672, 32, 49, 48,
    48516, 32, 50672, 51109, 54644, 51480]) = [50500, 50864, 46972, 50556, 32] @ timer_phrase [32] [49,
    48] [] @ [32, 50672, 51109, 54644, 51480]"
    by code_simp
  have m: "timerMinutes (classify [50500, 50864, 46972, 50556, 32, 53440, 51060, 47672, 32, 49, 48,
    48516, 32, 50672, 51109, 54644, 51480]) = Some 10" by code_simp
  have "list_all is_space [32]" "list_all is_space []" "list_all is_digit [49, 48]" by (simp_all add: is_space_def is_digit_def)
  from timer_phrase_replaces_timer [OF this _ n, of 0 "[7]" "snd (startTimer 0 [7] 50 5 init_env)"] show ?thesis
    unfolding m by auto
qed

end
